(* ===== verification/Prelude.thy ===== *)
theory Prelude
  imports Complex_Main "HOL-Library.Word" "HOL-Library.State_Monad" "HOL-Library.Sublist"
begin

text \<open>
  Vocabulary and automation shared by every theory of the development: the types the Go code
  uses everywhere (identifiers, instants, 64-bit integers, byte strings), the string functions
  of the Go standard library it calls, relational algebra on tables (the meaning of
  the SQL statements embedded in the repositories) and a small calculus for programs
  written in the state monad.
\<close>

named_theorems table_simps "facts about selecting, updating and deleting rows of a table"
named_theorems keeps_intro "introduction rules for invariants kept by a monadic program"
named_theorems monad_defs "unfolding rules for the statements of the database monad"

section \<open>Identifiers, instants, numbers\<close>

text \<open>\<open>uuid.UUID\<close> is an array of sixteen bytes, \<open>uuid.Nil\<close> the array of zeros.\<close>

type_synonym uuid = "128 word"

abbreviation uuid_nil :: uuid where "uuid_nil \<equiv> 0"

text \<open>
  Instants (\<open>time.Time\<close>, SQL \<open>TIMESTAMP\<close>) and durations (\<open>time.Duration\<close>) count
  microseconds; the zone of a \<open>time.Time\<close> is presentation only. A \<open>float64\<close> is
  read as the real number it denotes: the code stores and compares such values and never computes
  with them, so no rounding takes place.
\<close>

type_synonym time = int
type_synonym duration = int
type_synonym float64 = real

abbreviation second :: duration where "second \<equiv> 1000000"
abbreviation minute :: duration where "minute \<equiv> 60 * second"
abbreviation hour :: duration where "hour \<equiv> 60 * minute"

text \<open>Go's \<open>int\<close> is 64 bits wide here: arithmetic on it wraps around.\<close>

definition wrap64 :: "int \<Rightarrow> int" where
  "wrap64 x = (x + 2 ^ 63) mod 2 ^ 64 - 2 ^ 63"

definition in_int64 :: "int \<Rightarrow> bool" where
  "in_int64 x \<longleftrightarrow> - (2 ^ 63) \<le> x \<and> x < 2 ^ 63"

lemma wrap64_id [simp]: "in_int64 x \<Longrightarrow> wrap64 x = x"
  by (simp add: wrap64_def in_int64_def)

lemma wrap64_in_int64 [simp, intro]: "in_int64 (wrap64 x)"
proof -
  have "0 \<le> (x + 2 ^ 63) mod 2 ^ 64" and "(x + 2 ^ 63) mod 2 ^ 64 < (2 :: int) ^ 64"
    by simp_all
  moreover have "(2 :: int) ^ 64 = 2 * 2 ^ 63" by simp
  ultimately show ?thesis unfolding wrap64_def in_int64_def by linarith
qed

section \<open>Strings\<close>

text \<open>
  A Go string is a sequence of bytes. \<open>strings.TrimSpace\<close> removes the white space of
  Unicode at both ends, so it looks at the UTF-8 encodings of those code points: one byte for
  the ASCII ones, two for U+0085 and U+00A0, three for the rest.
\<close>

definition ascii_space :: "char \<Rightarrow> bool" where
  "ascii_space c \<longleftrightarrow> c \<in> {CHR 0x09, CHR 0x0A, CHR 0x0B, CHR 0x0C, CHR 0x0D, CHR 0x20}"

definition wide_space :: "char \<Rightarrow> char \<Rightarrow> char \<Rightarrow> bool" where
  "wide_space a b c \<longleftrightarrow>
     (a = CHR 0xE1 \<and> b = CHR 0x9A \<and> c = CHR 0x80)
   \<or> (a = CHR 0xE2 \<and> b = CHR 0x80 \<and>
        (c \<in> {CHR 0x80, CHR 0x81, CHR 0x82, CHR 0x83, CHR 0x84, CHR 0x85, CHR 0x86, CHR 0x87,
              CHR 0x88, CHR 0x89, CHR 0x8A, CHR 0xA8, CHR 0xA9, CHR 0xAF}))
   \<or> (a = CHR 0xE2 \<and> b = CHR 0x81 \<and> c = CHR 0x9F)
   \<or> (a = CHR 0xE3 \<and> b = CHR 0x80 \<and> c = CHR 0x80)"

definition pair_space :: "char \<Rightarrow> char \<Rightarrow> bool" where
  "pair_space a b \<longleftrightarrow> a = CHR 0xC2 \<and> (b = CHR 0x85 \<or> b = CHR 0xA0)"

fun trim_left :: "string \<Rightarrow> string" where
  "trim_left [] = []"
| "trim_left [a] = (if ascii_space a then [] else [a])"
| "trim_left [a, b] =
     (if ascii_space a then trim_left [b] else if pair_space a b then [] else [a, b])"
| "trim_left (a # b # c # s) =
     (if ascii_space a then trim_left (b # c # s)
      else if pair_space a b then trim_left (c # s)
      else if wide_space a b c then trim_left s
      else a # b # c # s)"

text \<open>The same from the other end, on the reversed string.\<close>

fun trim_left_rev :: "string \<Rightarrow> string" where
  "trim_left_rev [] = []"
| "trim_left_rev [a] = (if ascii_space a then [] else [a])"
| "trim_left_rev [b, a] =
     (if ascii_space b then trim_left_rev [a] else if pair_space a b then [] else [b, a])"
| "trim_left_rev (c # b # a # s) =
     (if ascii_space c then trim_left_rev (b # a # s)
      else if pair_space b c then trim_left_rev (a # s)
      else if wide_space a b c then trim_left_rev s
      else c # b # a # s)"

definition TrimSpace :: "string \<Rightarrow> string" where
  "TrimSpace s = rev (trim_left_rev (rev (trim_left s)))"

lemma TrimSpace_Nil [simp]: "TrimSpace [] = []"
  by (simp add: TrimSpace_def)

text \<open>
  \<open>strings.ToUpper\<close> and \<open>strings.ToLower\<close> have a fast path for ASCII strings, written
  out here; on other strings they go through the Unicode tables, which are a parameter of the
  model (\<open>unicode_upper\<close>, \<open>unicode_lower\<close> of the record \<open>ext\<close> below).
\<close>

definition is_ascii :: "string \<Rightarrow> bool" where
  "is_ascii s \<longleftrightarrow> (\<forall>c \<in> set s. (of_char c :: nat) < 128)"

definition upper_table :: "(char \<times> char) list" where
  "upper_table = zip ''abcdefghijklmnopqrstuvwxyz'' ''ABCDEFGHIJKLMNOPQRSTUVWXYZ''"

definition lower_table :: "(char \<times> char) list" where
  "lower_table = zip ''ABCDEFGHIJKLMNOPQRSTUVWXYZ'' ''abcdefghijklmnopqrstuvwxyz''"

definition ascii_upper :: "char \<Rightarrow> char" where
  "ascii_upper c = (case map_of upper_table c of Some u \<Rightarrow> u | None \<Rightarrow> c)"

definition ascii_lower :: "char \<Rightarrow> char" where
  "ascii_lower c = (case map_of lower_table c of Some u \<Rightarrow> u | None \<Rightarrow> c)"

text \<open>\<open>strings.ReplaceAll(s, c, "")\<close> for a one-byte separator.\<close>

definition remove_char :: "char \<Rightarrow> string \<Rightarrow> string" where
  "remove_char c s = filter (\<lambda>x. x \<noteq> c) s"

text \<open>\<open>strings.TrimPrefix\<close>.\<close>

definition TrimPrefix :: "string \<Rightarrow> string \<Rightarrow> string" where
  "TrimPrefix s p = (if take (length p) s = p then drop (length p) s else s)"

text \<open>\<open>strings.Split(s, sep)\<close> for a one-byte separator.\<close>

fun split_on :: "char \<Rightarrow> string \<Rightarrow> string list" where
  "split_on c [] = [[]]"
| "split_on c (x # xs) =
     (if x = c then [] # split_on c xs
      else (case split_on c xs of [] \<Rightarrow> [[x]] | y # ys \<Rightarrow> (x # y) # ys))"

lemma split_on_not_Nil [simp]: "split_on c s \<noteq> []"
  by (cases s) (auto split: list.splits)

lemma set_remove_char [simp]: "c \<notin> set (remove_char c s)"
  by (simp add: remove_char_def)

section \<open>Tables\<close>

text \<open>
  A table is the list of its rows in insertion order. The four SQL verbs are the list functions
  below; \<open>RowsAffected()\<close> of an \<open>UPDATE\<close> or \<open>DELETE\<close> is the number of rows its
  \<open>WHERE\<close> clause selects.
\<close>

definition select_where :: "('r \<Rightarrow> bool) \<Rightarrow> 'r list \<Rightarrow> 'r list" where
  "select_where P t = filter P t"

definition first_where :: "('r \<Rightarrow> bool) \<Rightarrow> 'r list \<Rightarrow> 'r option" where
  "first_where P t = List.find P t"

definition count_where :: "('r \<Rightarrow> bool) \<Rightarrow> 'r list \<Rightarrow> nat" where
  "count_where P t = length (filter P t)"

definition update_where :: "('r \<Rightarrow> bool) \<Rightarrow> ('r \<Rightarrow> 'r) \<Rightarrow> 'r list \<Rightarrow> 'r list" where
  "update_where P f t = map (\<lambda>r. if P r then f r else r) t"

definition delete_where :: "('r \<Rightarrow> bool) \<Rightarrow> 'r list \<Rightarrow> 'r list" where
  "delete_where P t = filter (\<lambda>r. \<not> P r) t"

definition exists_where :: "('r \<Rightarrow> bool) \<Rightarrow> 'r list \<Rightarrow> bool" where
  "exists_where P t \<longleftrightarrow> list_ex P t"

text \<open>\<open>ORDER BY\<close>: stable, so that rows with equal keys stay in insertion order.\<close>

definition order_asc :: "('r \<Rightarrow> 'k::linorder) \<Rightarrow> 'r list \<Rightarrow> 'r list" where
  "order_asc k t = sort_key k t"

definition order_desc :: "('r \<Rightarrow> 'k::linorder) \<Rightarrow> 'r list \<Rightarrow> 'r list" where
  "order_desc k t = rev (sort_key k (rev t))"

text \<open>\<open>LIMIT n OFFSET m\<close>.\<close>

definition page_of :: "int \<Rightarrow> int \<Rightarrow> 'r list \<Rightarrow> 'r list" where
  "page_of limit offset t = take (nat limit) (drop (nat offset) t)"

lemma set_select_where [table_simps]: "set (select_where P t) = {r \<in> set t. P r}"
  by (simp add: select_where_def)

lemma first_where_Some:
  "first_where P t = Some r \<Longrightarrow> r \<in> set t \<and> P r"
  by (auto simp: first_where_def find_Some_iff)

lemma first_where_SomeD1: "first_where P t = Some r \<Longrightarrow> r \<in> set t"
  and first_where_SomeD2: "first_where P t = Some r \<Longrightarrow> P r"
  by (blast dest: first_where_Some)+

lemma first_where_None [table_simps]: "first_where P t = None \<longleftrightarrow> (\<forall>r \<in> set t. \<not> P r)"
  by (auto simp: first_where_def find_None_iff)

lemma first_where_append:
  "first_where P (xs @ ys) =
     (case first_where P xs of None \<Rightarrow> first_where P ys | Some r \<Rightarrow> Some r)"
  by (induction xs) (simp_all add: first_where_def)

lemma first_where_Cons:
  "first_where P (x # xs) = (if P x then Some x else first_where P xs)"
  "first_where P [] = None"
  by (simp_all add: first_where_def)

lemma count_where_0 [table_simps]: "count_where P t = 0 \<longleftrightarrow> (\<forall>r \<in> set t. \<not> P r)"
  by (auto simp: count_where_def filter_empty_conv)

lemma set_update_where [table_simps]:
  "set (update_where P f t) = (\<lambda>r. if P r then f r else r) ` set t"
  by (simp add: update_where_def)

lemma ball_update_where:
  "(\<forall>r \<in> set (update_where P f t). Q r) \<longleftrightarrow> (\<forall>r \<in> set t. if P r then Q (f r) else Q r)"
  by (auto simp: update_where_def)

lemma ball_delete_where:
  "(\<forall>r \<in> set (delete_where P t). Q r) \<longleftrightarrow> (\<forall>r \<in> set t. \<not> P r \<longrightarrow> Q r)"
  by (auto simp: delete_where_def)

lemma image_update_where:
  assumes "\<And>r. k (f r) = k r"
  shows "k ` set (update_where P f t) = k ` set t"
proof -
  have "map k (update_where P f t) = map k t" using assms by (auto simp: update_where_def)
  then show ?thesis by (metis set_map)
qed

lemma update_where_none [table_simps]:
  "(\<forall>r \<in> set t. \<not> P r) \<Longrightarrow> update_where P f t = t"
  by (simp add: update_where_def map_idI)

lemma length_update_where [simp]: "length (update_where P f t) = length t"
  by (simp add: update_where_def)

text \<open>An update that leaves a column alone leaves the list of its values alone.\<close>

lemma map_update_where [table_simps]:
  "(\<And>r. P r \<Longrightarrow> k (f r) = k r) \<Longrightarrow> map k (update_where P f t) = map k t"
  by (auto simp: update_where_def)

lemma set_delete_where [table_simps]: "set (delete_where P t) = {r \<in> set t. \<not> P r}"
  by (auto simp: delete_where_def)

lemma exists_where_iff [table_simps]: "exists_where P t \<longleftrightarrow> (\<exists>r \<in> set t. P r)"
  by (simp add: exists_where_def list_ex_iff)

lemma set_order [table_simps]:
  "set (order_asc k t) = set t" "set (order_desc k t) = set t"
  by (simp_all add: order_asc_def order_desc_def)

lemma length_order [table_simps]:
  "length (order_asc k t) = length t" "length (order_desc k t) = length t"
  by (simp_all add: order_asc_def order_desc_def)

lemma sorted_order_asc: "sorted (map k (order_asc k t))"
  by (simp add: order_asc_def)

lemma sorted_order_desc: "sorted (rev (map k (order_desc k t)))"
  by (simp add: order_desc_def rev_map)

lemma set_page_of: "set (page_of limit offset t) \<subseteq> set t"
  by (auto simp: page_of_def dest: in_set_takeD in_set_dropD)

lemma length_page_of: "length (page_of limit offset t) \<le> nat limit"
  by (simp add: page_of_def)

text \<open>Rows appended under a key that was not in use.\<close>

lemma select_fresh:
  "x \<notin> k ` set t \<Longrightarrow> (\<And>r. r \<in> set new \<Longrightarrow> k r = x) \<Longrightarrow> select_where (\<lambda>r. k r = x) (t @ new) = new"
  by (force simp: select_where_def filter_empty_conv filter_id_conv)

lemma first_where_fresh:
  "x \<notin> k ` set t \<Longrightarrow> first_where (\<lambda>r. k r = x) (t @ new) = first_where (\<lambda>r. k r = x) new"
  by (induction t) (auto simp: first_where_def)

lemma map_sort_key: "map f (sort_key (\<lambda>x. k (f x)) xs) = sort_key k (map f xs)"
proof (induction xs)
  case (Cons x xs)
  have "map f (insort_key (\<lambda>x. k (f x)) x ys) = insort_key k (f x) (map f ys)" for ys
    by (induction ys) simp_all
  with Cons show ?case by simp
qed simp

text \<open>A lookup by a key that identifies rows.\<close>

lemma first_where_unique:
  assumes "distinct (map k t)" and "r \<in> set t"
  shows "first_where (\<lambda>r'. k r' = k r) t = Some r"
proof (cases "first_where (\<lambda>r'. k r' = k r) t")
  case None
  then show ?thesis using assms(2) by (auto simp: first_where_None)
next
  case (Some r')
  then have "r' \<in> set t" and "k r' = k r" by (auto dest: first_where_Some)
  with assms have "r' = r" by (meson distinct_map inj_onD)
  with Some show ?thesis by simp
qed

section \<open>Programs in the state monad\<close>

text \<open>
  A handler or a repository method is a value of type \<open>('s, 'a) state\<close>. \<open>valid P m Q\<close> is
  the usual triple: started in a state with \<open>P\<close>, \<open>m\<close> ends with a result and a state
  related by \<open>Q\<close>. An invariant is \<open>kept\<close> when every run keeps it. The introduction rules
  follow the syntax of the programs, one per construct.
\<close>

abbreviation run :: "('s, 'a) state \<Rightarrow> 's \<Rightarrow> 'a \<times> 's" where "run \<equiv> run_state"
abbreviation ret :: "'a \<Rightarrow> ('s, 'a) state" where "ret \<equiv> State_Monad.return"

definition valid :: "('s \<Rightarrow> bool) \<Rightarrow> ('s, 'a) state \<Rightarrow> ('a \<Rightarrow> 's \<Rightarrow> bool) \<Rightarrow> bool" where
  "valid P m Q \<longleftrightarrow> (\<forall>s. P s \<longrightarrow> (case run m s of (a, s') \<Rightarrow> Q a s'))"

definition keeps :: "('s \<Rightarrow> bool) \<Rightarrow> ('s, 'a) state \<Rightarrow> bool" where
  "keeps I m \<longleftrightarrow> (\<forall>s. I s \<longrightarrow> I (snd (run m s)))"

lemma keepsI: "(\<And>s. I s \<Longrightarrow> I (snd (run m s))) \<Longrightarrow> keeps I m"
  by (simp add: keeps_def)

lemma keepsD: "keeps I m \<Longrightarrow> I s \<Longrightarrow> I (snd (run m s))"
  by (simp add: keeps_def)

lemma keeps_valid: "keeps I m \<longleftrightarrow> valid I m (\<lambda>_. I)"
  by (simp add: keeps_def valid_def case_prod_unfold)

lemma validD: "valid P m Q \<Longrightarrow> P s \<Longrightarrow> run m s = (a, s') \<Longrightarrow> Q a s'"
  by (auto simp: valid_def split: prod.splits)

lemma validI: "(\<And>s a s'. P s \<Longrightarrow> run m s = (a, s') \<Longrightarrow> Q a s') \<Longrightarrow> valid P m Q"
  by (simp add: valid_def split: prod.splits)

lemma valid_bind:
  assumes "valid P m Q" and "\<And>a. valid (Q a) (f a) R"
  shows "valid P (State_Monad.bind m f) R"
  using assms by (fastforce simp: valid_def split: prod.splits)

lemma valid_return: "(\<And>s. P s \<Longrightarrow> Q a s) \<Longrightarrow> valid P (ret a) Q"
  by (simp add: valid_def)

lemma valid_weaken:
  assumes "valid P' m Q'" and "\<And>s. P s \<Longrightarrow> P' s" and "\<And>a s. Q' a s \<Longrightarrow> Q a s"
  shows "valid P m Q"
  using assms by (fastforce simp: valid_def)

lemma keeps_return [keeps_intro]: "keeps I (ret a)"
  by (simp add: keeps_def)

lemma keeps_bind [keeps_intro]:
  "keeps I m \<Longrightarrow> (\<And>a. keeps I (f a)) \<Longrightarrow> keeps I (State_Monad.bind m f)"
  by (simp add: keeps_def split: prod.splits) (metis snd_conv)

lemma keeps_if [keeps_intro]:
  "(b \<Longrightarrow> keeps I m) \<Longrightarrow> (\<not> b \<Longrightarrow> keeps I n) \<Longrightarrow> keeps I (if b then m else n)"
  by simp

lemma keeps_case_sum [keeps_intro]:
  "(\<And>e. x = Inl e \<Longrightarrow> keeps I (f e)) \<Longrightarrow> (\<And>a. x = Inr a \<Longrightarrow> keeps I (g a)) \<Longrightarrow>
   keeps I (case x of Inl e \<Rightarrow> f e | Inr a \<Rightarrow> g a)"
  by (simp split: sum.splits)

lemma keeps_case_option [keeps_intro]:
  "(x = None \<Longrightarrow> keeps I m) \<Longrightarrow> (\<And>a. x = Some a \<Longrightarrow> keeps I (g a)) \<Longrightarrow>
   keeps I (case x of None \<Rightarrow> m | Some a \<Rightarrow> g a)"
  by (simp split: option.splits)

lemma keeps_case_prod [keeps_intro]:
  "(\<And>a b. x = (a, b) \<Longrightarrow> keeps I (f a b)) \<Longrightarrow> keeps I (case x of (a, b) \<Rightarrow> f a b)"
  by (simp split: prod.splits)

lemma keeps_let [keeps_intro]: "(\<And>y. y = x \<Longrightarrow> keeps I (f y)) \<Longrightarrow> keeps I (let y = x in f y)"
  by simp

lemma keeps_conj: "keeps I m \<Longrightarrow> keeps J m \<Longrightarrow> keeps (\<lambda>s. I s \<and> J s) m"
  by (simp add: keeps_def)

end
