(* ===== verification/Env.thy ===== *)
theory Env
  imports Prelude
begin

text \<open>
  What the program takes from elsewhere, and what it answers. The record \<open>ext\<close> collects the
  functions of packages and services that are not part of the repository (the UUID package, the
  Unicode tables, the readings of text that PostgreSQL makes, SHA-256): every definition that uses one of
  them takes the record as an argument. \<open>json\<close> and \<open>response\<close> are the answers of the handlers
  (package \<open>internal/server/resp\<close>); a response carries the message key of its description,
  which the code translates by \<open>X-Language\<close> on the way out.
\<close>

section \<open>Functions of other packages\<close>

record ext =
  uuid_parse :: "string \<Rightarrow> uuid option"  \<comment> \<open>\<open>uuid.Parse\<close>\<close>
  uuid_partial :: "string \<Rightarrow> uuid"       \<comment> \<open>what \<open>uuid.Parse\<close> returns beside an error\<close>
  uuid_string :: "uuid \<Rightarrow> string"        \<comment> \<open>\<open>UUID.String\<close>\<close>
  unicode_upper :: "string \<Rightarrow> string"    \<comment> \<open>\<open>strings.ToUpper\<close> off the ASCII path\<close>
  unicode_lower :: "string \<Rightarrow> string"    \<comment> \<open>\<open>strings.ToLower\<close> off the ASCII path\<close>
  parse_float :: "string \<Rightarrow> float64 option" \<comment> \<open>\<open>strconv.ParseFloat\<close>, finite results\<close>
  pg_timestamp :: "string \<Rightarrow> time option" \<comment> \<open>text read as \<open>TIMESTAMP\<close>\<close>
  pg_date :: "string \<Rightarrow> int option"       \<comment> \<open>text read as \<open>DATE\<close>\<close>
  date_of :: "time \<Rightarrow> int"                \<comment> \<open>\<open>::date\<close>\<close>
  sha256_hex :: "string \<Rightarrow> string"        \<comment> \<open>\<open>hex(sha256(_))\<close>\<close>
  unicode_digit :: "nat \<Rightarrow> bool"          \<comment> \<open>\<open>unicode.IsDigit\<close> beyond Latin-1\<close>
  unicode_letter :: "nat \<Rightarrow> bool"         \<comment> \<open>\<open>unicode.IsLetter\<close> beyond Latin-1\<close>
  phone_parse :: "string \<Rightarrow> string option" \<comment> \<open>\<open>phonenumbers.Parse(_, "ZZ")\<close>\<close>
  phone_valid :: "string \<Rightarrow> bool"         \<comment> \<open>\<open>phonenumbers.IsValidNumber\<close>\<close>
  phone_format :: "string \<Rightarrow> string"      \<comment> \<open>\<open>phonenumbers.Format(_, E164)\<close>\<close>
  bcrypt_hash :: "uuid \<Rightarrow> string \<Rightarrow> string option" \<comment> \<open>\<open>bcrypt.GenerateFromPassword\<close> with its salt\<close>
  bcrypt_check :: "string \<Rightarrow> string \<Rightarrow> bool" \<comment> \<open>\<open>bcrypt.CompareHashAndPassword\<close> returns nil\<close>
  random_token :: "uuid \<Rightarrow> string option" \<comment> \<open>32 bytes of \<open>rand.Read\<close> in hexadecimal\<close>
  valid_email :: "string \<Rightarrow> bool"         \<comment> \<open>the tag \<open>email\<close> of the validator\<close>
  timestamp_text :: "time \<Rightarrow> string"      \<comment> \<open>\<open>::text\<close> of a \<open>TIMESTAMP\<close>\<close>
  scan_timestamp :: "time \<Rightarrow> string option" \<comment> \<open>pgx scanning a \<open>TIMESTAMP\<close> into a \<open>string\<close>\<close>
  rfc3339 :: "time \<Rightarrow> string"             \<comment> \<open>\<open>time.Format(time.RFC3339)\<close>\<close>
  pg_lower :: "string \<Rightarrow> string"         \<comment> \<open>SQL's \<open>lower\<close> off the ASCII path\<close>

definition ToUpper :: "ext \<Rightarrow> string \<Rightarrow> string" where
  "ToUpper E s = (if is_ascii s then map ascii_upper s else unicode_upper E s)"

definition ToLower :: "ext \<Rightarrow> string \<Rightarrow> string" where
  "ToLower E s = (if is_ascii s then map ascii_lower s else unicode_lower E s)"

definition sql_lower :: "ext \<Rightarrow> string \<Rightarrow> string" where
  "sql_lower E s = (if is_ascii s then map ascii_lower s else pg_lower E s)"

text \<open>\<open>u, _ := uuid.Parse(s)\<close>.\<close>

definition parsed_uuid :: "ext \<Rightarrow> string \<Rightarrow> uuid" where
  "parsed_uuid E s = (case uuid_parse E s of None \<Rightarrow> uuid_partial E s | Some u \<Rightarrow> u)"

lemma parsed_uuid_Some [simp]: "uuid_parse E s = Some u \<Longrightarrow> parsed_uuid E s = u"
  by (simp add: parsed_uuid_def)

text \<open>
  Documented behaviour of the UUID package: printing is injective, and parsing
  reads back what printing wrote.
\<close>

definition uuid_laws :: "ext \<Rightarrow> bool" where
  "uuid_laws E \<longleftrightarrow> (\<forall>u. uuid_parse E (uuid_string E u) = Some u)"

lemma uuid_string_inj: "uuid_laws E \<Longrightarrow> uuid_string E u = uuid_string E v \<longleftrightarrow> u = v"
  unfolding uuid_laws_def by (metis option.inject)

section \<open>Answers\<close>

datatype json =
    JNull
  | JBool bool
  | JInt int
  | JNum float64
  | JStr string
  | JTime time
  | JList "json list"
  | JObj "(string \<times> json) list"

text \<open>Pointers and slices inside \<open>gin.H\<close>: a nil pointer prints as \<open>null\<close>.\<close>

definition json_opt :: "('a \<Rightarrow> json) \<Rightarrow> 'a option \<Rightarrow> json" where
  "json_opt f x = (case x of None \<Rightarrow> JNull | Some a \<Rightarrow> f a)"

datatype response =
  Response (resp_success: bool) (resp_code: int) (resp_key: string) (resp_data: json)

definition SuccessLang :: "int \<Rightarrow> string \<Rightarrow> json \<Rightarrow> response" where
  "SuccessLang httpCode messageKey data = Response True httpCode messageKey data"

definition OKLang :: "string \<Rightarrow> json \<Rightarrow> response" where
  "OKLang messageKey data = Response True 200 messageKey data"

definition ErrorLang :: "int \<Rightarrow> string \<Rightarrow> response" where
  "ErrorLang httpCode messageKey = Response False httpCode messageKey JNull"

definition ErrorWithData :: "int \<Rightarrow> string \<Rightarrow> json \<Rightarrow> response" where
  "ErrorWithData httpCode description data = Response False httpCode description data"

lemmas resp_defs = SuccessLang_def OKLang_def ErrorLang_def ErrorWithData_def

text \<open>
  \<open>strconv.Atoi\<close>: an optional sign and decimal digits, within the range of \<open>int\<close>. Code that drops
  its error uses the value returned beside it: 0 for a text that is no number, the nearest
  \<open>int\<close> for a number out of range.
\<close>

definition digit_val :: "char \<Rightarrow> int option" where
  "digit_val c = map_of (zip ''0123456789'' [0, 1, 2, 3, 4, 5, 6, 7, 8, 9]) c"

fun digits_val :: "int \<Rightarrow> string \<Rightarrow> int option" where
  "digits_val acc [] = Some acc"
| "digits_val acc (c # cs) =
     (case digit_val c of None \<Rightarrow> None | Some d \<Rightarrow> digits_val (10 * acc + d) cs)"

definition parse_decimal :: "string \<Rightarrow> int option" where
  "parse_decimal s =
     (let neg = (take 1 s = ''-''); body = (if neg \<or> take 1 s = ''+'' then drop 1 s else s)
      in if body = [] then None
         else (case digits_val 0 body of None \<Rightarrow> None | Some n \<Rightarrow> Some (if neg then - n else n)))"

definition Atoi :: "string \<Rightarrow> int option" where
  "Atoi s = (case parse_decimal s of None \<Rightarrow> None | Some v \<Rightarrow> if in_int64 v then Some v else None)"

definition Atoi_value :: "string \<Rightarrow> int" where
  "Atoi_value s = (case parse_decimal s of None \<Rightarrow> 0
     | Some v \<Rightarrow> max (- (2 ^ 63)) (min v (2 ^ 63 - 1)))"

lemma Atoi_range: "Atoi s = Some n \<Longrightarrow> in_int64 n"
  by (auto simp: Atoi_def split: if_splits option.splits)

lemma Atoi_value_Some: "Atoi s = Some n \<Longrightarrow> Atoi_value s = n"
  by (auto simp: Atoi_def Atoi_value_def in_int64_def split: if_splits option.splits)

lemma uuid_laws_string_parse [simp]: "uuid_laws E \<Longrightarrow> uuid_parse E (uuid_string E u) = Some u"
  by (simp add: uuid_laws_def)

lemma ToUpper_ascii: "is_ascii s \<Longrightarrow> ToUpper E s = map ascii_upper s"
  by (simp add: ToUpper_def)

end
