(* ===== verification/Schema.thy ===== *)
theory Schema
  imports Env
begin

text \<open>
  The tables of the PostgreSQL database, as the migrations and \<open>internal/infra\<close> create them and the
  repositories read and write them. One record per row type; a nullable column is an option. The
  Go structs that mirror a row column by column (\<open>Trip\<close>, \<open>Offer\<close>, \<open>Payment\<close>,
  \<open>Recommendation\<close>) share the row's record. The record \<open>db\<close> is the committed content of the
  database.
\<close>

section \<open>Cargo\<close>

text \<open>
  The columns of \<open>cargo\<close>; the type of \<open>documents\<close> is a parameter, because the Go struct
  \<open>Cargo\<close> holds the decoded value where the table holds \<open>JSONB\<close> and agrees with the row
  everywhere else.
\<close>

record 'doc cargo_fields =
  c_id :: uuid
  c_weight :: float64
  c_volume :: float64
  c_ready_enabled :: bool
  c_ready_at :: "time option"
  c_load_comment :: "string option"
  c_truck_type :: string
  c_temp_min :: "float64 option"
  c_temp_max :: "float64 option"
  c_adr_enabled :: bool
  c_adr_class :: "string option"
  c_loading_types :: "string list option"
  c_requirements :: "string list option"
  c_shipment_type :: "string option"
  c_belts_count :: "int option"
  c_documents :: 'doc
  c_contact_name :: "string option"
  c_contact_phone :: "string option"
  c_status :: string
  c_created_at :: time
  c_updated_at :: time
  c_deleted_at :: "time option"
  c_moderation_rejection_reason :: "string option"
  c_created_by_type :: "string option"
  c_created_by_id :: "uuid option"
  c_company_id :: "uuid option"

type_synonym cargo_row = "json option cargo_fields"

record route_point_row =
  r_id :: uuid
  r_cargo_id :: uuid
  r_type :: string
  r_city_code :: "string option"
  r_region_code :: "string option"
  r_address :: string
  r_orientir :: "string option"
  r_lat :: float64
  r_lng :: float64
  r_comment :: "string option"
  r_point_order :: int
  r_is_main_load :: bool
  r_is_main_unload :: bool

record Payment =
  p_id :: uuid
  p_cargo_id :: uuid
  p_is_negotiable :: bool
  p_price_request :: bool
  p_total_amount :: "float64 option"
  p_total_currency :: "string option"
  p_with_prepayment :: bool
  p_without_prepayment :: bool
  p_prepayment_amount :: "float64 option"
  p_prepayment_currency :: "string option"
  p_prepayment_type :: "string option"
  p_remaining_amount :: "float64 option"
  p_remaining_currency :: "string option"
  p_remaining_type :: "string option"

record Offer =
  o_id :: uuid
  o_cargo_id :: uuid
  o_carrier_id :: uuid
  o_price :: float64
  o_currency :: string
  o_comment :: "string option"
  o_status :: string
  o_rejection_reason :: "string option"
  o_created_at :: time

section \<open>Trips and recommendations\<close>

record Trip =
  t_id :: uuid
  t_cargo_id :: uuid
  t_offer_id :: uuid
  t_driver_id :: "uuid option"
  t_status :: string
  t_created_at :: time
  t_updated_at :: time

record Recommendation =
  rec_id :: uuid
  rec_cargo_id :: uuid
  rec_driver_id :: uuid
  rec_invited_by_dispatcher_id :: uuid
  rec_status :: string
  rec_created_at :: time

section \<open>People and companies\<close>

record driver_row =
  d_id :: uuid
  d_phone :: string
  d_created_at :: time
  d_updated_at :: time
  d_last_online_at :: "time option"
  d_latitude :: "float64 option"
  d_longitude :: "float64 option"
  d_push_token :: "string option"
  d_registration_step :: "string option"
  d_registration_status :: "string option"
  d_name :: "string option"
  d_driver_type :: "string option"
  d_rating :: "float64 option"
  d_work_status :: "string option"
  d_freelancer_id :: "uuid option"
  d_company_id :: "uuid option"
  d_account_status :: "string option"
  d_driver_passport_series :: "string option"
  d_driver_passport_number :: "string option"
  d_driver_pinfl :: "string option"
  d_driver_scan_status :: "bool option"
  d_driver_owner :: "bool option"
  d_kyc_status :: "string option"
  d_photo_data :: "string option"
  d_photo_content_type :: "string option"

record power_row =
  pw_driver_id :: uuid
  pw_plate_type :: "string option"
  pw_plate_number :: "string option"
  pw_tech_series :: "string option"
  pw_tech_number :: "string option"
  pw_owner_id :: "string option"
  pw_owner_name :: "string option"
  pw_scan_status :: "bool option"

record trailer_row =
  tr_driver_id :: uuid
  tr_plate_type :: "string option"
  tr_plate_number :: "string option"
  tr_tech_series :: "string option"
  tr_tech_number :: "string option"
  tr_owner_id :: "string option"
  tr_owner_name :: "string option"
  tr_scan_status :: "bool option"

record dispatcher_row =
  fd_id :: uuid
  fd_name :: string
  fd_phone :: string
  fd_password :: string
  fd_passport_series :: "string option"
  fd_passport_number :: "string option"
  fd_pinfl :: "string option"
  fd_cargo_id :: "uuid option"
  fd_driver_id :: "uuid option"
  fd_rating :: "float64 option"
  fd_work_status :: "string option"
  fd_account_status :: "string option"
  fd_photo_path :: "string option"
  fd_created_at :: time
  fd_updated_at :: time
  fd_deleted_at :: "time option"
  fd_last_online_at :: "time option"
  fd_photo_data :: "string option"
  fd_photo_content_type :: "string option"

record company_row =
  co_id :: uuid
  co_name :: string
  co_inn :: "string option"
  co_address :: "string option"
  co_phone :: "string option"
  co_email :: "string option"
  co_website :: "string option"
  co_license_number :: "string option"
  co_status :: string
  co_max_vehicles :: int
  co_max_drivers :: int
  co_max_cargo :: int
  co_max_dispatchers :: int
  co_max_managers :: int
  co_max_top_dispatchers :: int
  co_max_top_managers :: int
  co_created_by :: "uuid option"
  co_created_at :: time
  co_updated_at :: time
  co_deleted_at :: "time option"
  co_owner_id :: "uuid option"
  co_company_type :: "string option"
  co_auto_approve_limit :: "float64 option"
  co_owner_dispatcher_id :: "uuid option"

record company_user_row =
  cu_id :: uuid
  cu_phone :: "string option"
  cu_password_hash :: string
  cu_first_name :: "string option"
  cu_last_name :: "string option"
  cu_company_id :: "uuid option"
  cu_role :: "string option"
  cu_created_at :: time
  cu_updated_at :: time

record role_row =
  ro_id :: uuid
  ro_name :: string
  ro_description :: "string option"

record ucr_row =
  ucr_user_id :: uuid
  ucr_company_id :: uuid
  ucr_role_id :: uuid
  ucr_assigned_by :: "uuid option"
  ucr_assigned_at :: time

record audit_row =
  au_id :: uuid
  au_user_id :: "uuid option"
  au_company_id :: "uuid option"
  au_action :: string
  au_entity_type :: string
  au_entity_id :: uuid
  au_old_data :: "json option"
  au_new_data :: "json option"
  au_created_at :: time

record dcr_row =
  dcr_dispatcher_id :: uuid
  dcr_company_id :: uuid
  dcr_role :: string
  dcr_accepted_at :: "time option"
  dcr_created_at :: time

record admin_row =
  ad_id :: uuid
  ad_login :: string
  ad_password :: string
  ad_name :: string
  ad_status :: string
  ad_type :: string

section \<open>Chat\<close>

record Conversation =
  cv_id :: uuid
  cv_user_a_id :: uuid
  cv_user_b_id :: uuid
  cv_created_at :: time

record Message =
  ms_id :: uuid
  ms_conversation_id :: uuid
  ms_sender_id :: uuid
  ms_body :: string
  ms_created_at :: time
  ms_updated_at :: time
  ms_deleted_at :: "time option"

section \<open>Invitations\<close>

record company_invitation =
  ci_id :: uuid
  ci_token :: string
  ci_company_id :: uuid
  ci_role_id :: uuid
  ci_email :: string
  ci_invited_by :: uuid
  ci_expires_at :: time
  ci_created_at :: time

record driver_invitation =
  di_id :: uuid
  di_token :: string
  di_company_id :: "uuid option"
  di_phone :: string
  di_invited_by :: uuid
  di_invited_by_dispatcher_id :: "uuid option"
  di_expires_at :: time
  di_created_at :: time

record d2d_invitation =
  dd_id :: uuid
  dd_token :: string
  dd_driver_id :: uuid
  dd_dispatcher_phone :: string
  dd_expires_at :: time
  dd_created_at :: time

record dispatcher_invitation =
  xi_id :: uuid
  xi_token :: string
  xi_company_id :: uuid
  xi_role :: string
  xi_phone :: string
  xi_invited_by :: uuid
  xi_expires_at :: time
  xi_created_at :: time

section \<open>The database\<close>

text \<open>
  \<open>from_migrations\<close> tells how the tables \<open>cargo\<close> and \<open>route_points\<close> came into being: by
  migration 000015 (which puts a \<open>CHECK\<close> on the weight and on the type of a route point), or,
  on a database that had them before, by \<open>EnsureCargoTables\<close> (which puts none). Later migrations
  replace the checks on the status columns and leave these two alone. \<open>archive_fits\<close> tells whether \<open>deleted_drivers\<close> has
  room for every column of \<open>drivers\<close>; \<open>Bootstrap_Guarantees\<close> shows what the start of the server makes of it.
\<close>

record db =
  from_migrations :: bool
  archive_fits :: bool
  cargo_t :: "cargo_row list"
  route_points_t :: "route_point_row list"
  payments_t :: "Payment list"
  offers_t :: "Offer list"
  trips_t :: "Trip list"
  recommendations_t :: "Recommendation list"
  drivers_t :: "driver_row list"
  deleted_drivers_t :: "driver_row list"
  powers_t :: "power_row list"
  trailers_t :: "trailer_row list"
  dispatchers_t :: "dispatcher_row list"
  deleted_dispatchers_t :: "dispatcher_row list"
  admins_t :: "admin_row list"
  companies_t :: "company_row list"
  company_users_t :: "company_user_row list"
  roles_t :: "role_row list"
  ucr_t :: "ucr_row list"
  audit_t :: "audit_row list"
  dcr_t :: "dcr_row list"
  company_invitations_t :: "company_invitation list"
  driver_invitations_t :: "driver_invitation list"
  d2d_invitations_t :: "d2d_invitation list"
  dispatcher_invitations_t :: "dispatcher_invitation list"
  conversations_t :: "Conversation list"
  messages_t :: "Message list"

definition empty_db :: "bool \<Rightarrow> db" where
  "empty_db mig = \<lparr>from_migrations = mig, archive_fits = True, cargo_t = [], route_points_t = [], payments_t = [],
     offers_t = [], trips_t = [], recommendations_t = [], drivers_t = [], deleted_drivers_t = [], powers_t = [],
     trailers_t = [], dispatchers_t = [], deleted_dispatchers_t = [], admins_t = [], companies_t = [], company_users_t = [], roles_t = [],
     ucr_t = [], audit_t = [], dcr_t = [], company_invitations_t = [], driver_invitations_t = [],
     d2d_invitations_t = [], dispatcher_invitations_t = [], conversations_t = [], messages_t = []\<rparr>"

text \<open>The \<open>CHECK\<close> constraints in force after migration 000041.\<close>

definition cargo_status_check :: "string \<Rightarrow> bool" where
  "cargo_status_check s \<longleftrightarrow> s \<in> {''CREATED'', ''PENDING_MODERATION'', ''REJECTED'', ''SEARCHING_ALL'',
     ''SEARCHING_COMPANY'', ''ASSIGNED'', ''IN_TRANSIT'', ''DELIVERED'', ''IN_PROGRESS'',
     ''COMPLETED'', ''CANCELLED''}"

definition created_by_type_check :: "string option \<Rightarrow> bool" where
  "created_by_type_check t \<longleftrightarrow> t \<in> {None, Some ''ADMIN'', Some ''DISPATCHER'', Some ''COMPANY''}"

definition offers_status_check :: "string \<Rightarrow> bool" where
  "offers_status_check s \<longleftrightarrow> s \<in> {''PENDING'', ''ACCEPTED'', ''REJECTED''}"

definition trips_status_check :: "string \<Rightarrow> bool" where
  "trips_status_check s \<longleftrightarrow> s \<in> {''PENDING_DRIVER'', ''ASSIGNED'', ''LOADING'', ''EN_ROUTE'',
     ''UNLOADING'', ''COMPLETED'', ''CANCELLED''}"

definition weight_check :: "db \<Rightarrow> float64 \<Rightarrow> bool" where
  "weight_check d w \<longleftrightarrow> (from_migrations d \<longrightarrow> w > 0)"

definition route_point_type_check :: "db \<Rightarrow> string \<Rightarrow> bool" where
  "route_point_type_check d t \<longleftrightarrow>
     (from_migrations d \<longrightarrow> t \<in> {''load'', ''unload'', ''customs'', ''transit''})"

text \<open>Bounds of the column types \<open>INTEGER\<close> and \<open>VARCHAR(n)\<close> (\<open>n\<close> counts code points).\<close>

definition in_int4 :: "int \<Rightarrow> bool" where
  "in_int4 x \<longleftrightarrow> - (2 ^ 31) \<le> x \<and> x < 2 ^ 31"

definition continuation_byte :: "char \<Rightarrow> bool" where
  "continuation_byte c \<longleftrightarrow> 128 \<le> (of_char c :: nat) \<and> (of_char c :: nat) < 192"

definition varchar_ok :: "nat \<Rightarrow> string option \<Rightarrow> bool" where
  "varchar_ok n s \<longleftrightarrow>
     (case s of None \<Rightarrow> True | Some t \<Rightarrow> length (filter (\<lambda>c. \<not> continuation_byte c) t) \<le> n)"

section \<open>Integrity\<close>

text \<open>
  What the keys, foreign keys and checks of the cargo side of the schema guarantee at every moment.
\<close>

definition keys_ok :: "db \<Rightarrow> bool" where
  "keys_ok d \<longleftrightarrow>
     distinct (map d_id (drivers_t d)) \<and> distinct (map d_phone (drivers_t d))
   \<and> distinct (map pw_driver_id (powers_t d)) \<and> distinct (map tr_driver_id (trailers_t d))
   \<and> distinct (map c_id (cargo_t d)) \<and> distinct (map r_id (route_points_t d))
   \<and> distinct (map p_id (payments_t d)) \<and> distinct (map p_cargo_id (payments_t d))
   \<and> distinct (map o_id (offers_t d))
   \<and> distinct (map t_id (trips_t d))
   \<and> distinct (map rec_id (recommendations_t d))
   \<and> distinct (map (\<lambda>r. (rec_cargo_id r, rec_driver_id r)) (recommendations_t d))"

definition references_ok :: "db \<Rightarrow> bool" where
  "references_ok d \<longleftrightarrow>
     (\<forall>c \<in> set (cargo_t d). \<forall>u. c_company_id c = Some u \<longrightarrow> u \<in> co_id ` set (companies_t d))
   \<and> (\<forall>r \<in> set (route_points_t d). r_cargo_id r \<in> c_id ` set (cargo_t d))
   \<and> (\<forall>p \<in> set (payments_t d). p_cargo_id p \<in> c_id ` set (cargo_t d))
   \<and> (\<forall>q \<in> set (offers_t d). o_cargo_id q \<in> c_id ` set (cargo_t d))
   \<and> (\<forall>t \<in> set (trips_t d). t_cargo_id t \<in> c_id ` set (cargo_t d)
        \<and> t_offer_id t \<in> o_id ` set (offers_t d)
        \<and> (\<forall>u. t_driver_id t = Some u \<longrightarrow> u \<in> d_id ` set (drivers_t d)))
   \<and> (\<forall>r \<in> set (recommendations_t d). rec_cargo_id r \<in> c_id ` set (cargo_t d)
        \<and> rec_driver_id r \<in> d_id ` set (drivers_t d)
        \<and> rec_invited_by_dispatcher_id r \<in> fd_id ` set (dispatchers_t d))
   \<and> (\<forall>r \<in> set (powers_t d). pw_driver_id r \<in> d_id ` set (drivers_t d))
   \<and> (\<forall>r \<in> set (trailers_t d). tr_driver_id r \<in> d_id ` set (drivers_t d))"

definition checks_ok :: "db \<Rightarrow> bool" where
  "checks_ok d \<longleftrightarrow>
     (\<forall>c \<in> set (cargo_t d). cargo_status_check (c_status c)
        \<and> created_by_type_check (c_created_by_type c) \<and> weight_check d (c_weight c))
   \<and> (\<forall>r \<in> set (route_points_t d). route_point_type_check d (r_type r))
   \<and> (\<forall>q \<in> set (offers_t d). offers_status_check (o_status q))
   \<and> (\<forall>t \<in> set (trips_t d). trips_status_check (t_status t))"

definition schema_ok :: "db \<Rightarrow> bool" where
  "schema_ok d \<longleftrightarrow> keys_ok d \<and> references_ok d \<and> checks_ok d"

lemmas schema_defs = schema_ok_def keys_ok_def references_ok_def checks_ok_def

lemma schema_ok_empty: "schema_ok (empty_db m)"
  by (simp add: schema_defs empty_db_def)

end
