(* ===== verification/Database.thy ===== *)
theory Database
  imports Schema
begin

text \<open>
  The PostgreSQL server as the repositories see it through \<open>pgxpool\<close>: single statements, each atomic,
  and transactions with \<open>BEGIN\<close>, statements, \<open>COMMIT\<close> and the deferred \<open>Rollback\<close>. A
  statement is a function of the transaction time, a fresh identifier (\<open>gen_random_uuid()\<close>)
  and the content of the database; it is rejected with an error or yields a result and the new
  content. The \<open>world\<close> of a request carries the database, the clock, the source of identifiers and
  a list that says which of the coming round trips to the server break down: each one may
  fail before the server acts or after it (the reply is lost).
\<close>

section \<open>Errors, faults and the world\<close>

text \<open>
  \<open>error\<close> is what a call returns in its \<open>err\<close>: an error of the driver, or one made by
  \<open>errors.New\<close> in the repositories, with its text.
\<close>

datatype err =
    ConnError            \<comment> \<open>the connection broke, or the context was cancelled\<close>
  | NoRows               \<comment> \<open>\<open>pgx.ErrNoRows\<close>\<close>
  | UniqueViolation
  | FKViolation
  | CheckViolation
  | InvalidInput         \<comment> \<open>a text PostgreSQL cannot read as the column's type, a negative \<open>LIMIT\<close>\<close>
  | TxAborted            \<comment> \<open>a statement or a commit in a failed transaction\<close>
  | ArgMismatch          \<comment> \<open>number of arguments and of placeholders differ\<close>
  | Err string           \<comment> \<open>\<open>errors.New(_)\<close>\<close>

datatype fault = Passes | Fails_before | Fails_after

record world =
  w_db :: db
  w_faults :: "fault list"
  w_now :: time
  w_gen :: "nat \<Rightarrow> uuid"
  w_drawn :: nat

type_synonym ('z, 'a) prog = "('z world_scheme, 'a) state"
type_synonym 'a stmt = "time \<Rightarrow> uuid \<Rightarrow> db \<Rightarrow> err + 'a \<times> db"

text \<open>An empty list of faults means that every round trip passes.\<close>

definition reliable :: "'z world_scheme \<Rightarrow> bool" where
  "reliable w \<longleftrightarrow> w_faults w = []"

definition next_fault :: "'z world_scheme \<Rightarrow> fault" where
  "next_fault w = (case w_faults w of [] \<Rightarrow> Passes | f # _ \<Rightarrow> f)"

text \<open>A round trip uses up one entry of the fault list and one fresh identifier.\<close>

definition tick :: "'z world_scheme \<Rightarrow> 'z world_scheme" where
  "tick w = w\<lparr>w_faults := tl (w_faults w), w_drawn := Suc (w_drawn w)\<rparr>"

definition fresh_id :: "'z world_scheme \<Rightarrow> uuid" where
  "fresh_id w = w_gen w (w_drawn w)"

lemma tick_simps [simp]:
  "w_db (tick w) = w_db w" "w_now (tick w) = w_now w" "w_gen (tick w) = w_gen w"
  "w_drawn (tick w) = Suc (w_drawn w)" "w_faults (tick w) = tl (w_faults w)"
  by (simp_all add: tick_def)

lemma reliable_tick [simp]: "reliable w \<Longrightarrow> reliable (tick w)"
  by (simp add: reliable_def)

lemma reliable_update [simp]:
  "reliable (w\<lparr>w_db := d\<rparr>) = reliable w" "next_fault (w\<lparr>w_db := d\<rparr>) = next_fault w"
  "fresh_id (w\<lparr>w_db := d\<rparr>) = fresh_id w"
  by (simp_all add: reliable_def next_fault_def fresh_id_def)

lemma next_fault_reliable [simp]: "reliable w \<Longrightarrow> next_fault w = Passes"
  by (simp add: reliable_def next_fault_def)

section \<open>Single statements\<close>

text \<open>\<open>pool.Exec\<close>, \<open>pool.Query\<close>, \<open>pool.QueryRow\<close>: the statement is its own transaction.\<close>

definition pg_call :: "'a stmt \<Rightarrow> ('z, err + 'a) prog" where
  "pg_call q = State (\<lambda>w.
     case next_fault w of
       Fails_before \<Rightarrow> (Inl ConnError, tick w)
     | f \<Rightarrow> (case q (w_now w) (fresh_id w) (w_db w) of
               Inl e \<Rightarrow> (Inl e, tick w)
             | Inr (a, d) \<Rightarrow> (if f = Fails_after then Inl ConnError else Inr a,
                             (tick w)\<lparr>w_db := d\<rparr>)))"

text \<open>A negative \<open>LIMIT\<close> or \<open>OFFSET\<close> is an error.\<close>

definition pg_page :: "int \<Rightarrow> int \<Rightarrow> 'r list \<Rightarrow> err + 'r list" where
  "pg_page limit offset t =
     (if limit < 0 \<or> offset < 0 then Inl InvalidInput else Inr (page_of limit offset t))"

text \<open>A statement that computes its result from the database or fails, and changes nothing.\<close>

definition q_select :: "(db \<Rightarrow> err + 'a) \<Rightarrow> 'a stmt" where
  "q_select f = (\<lambda>now u d. case f d of Inl e \<Rightarrow> Inl e | Inr a \<Rightarrow> Inr (a, d))"

text \<open>\<open>Scan\<close> on the row of a \<open>QueryRow\<close>: no row is the error \<open>pgx.ErrNoRows\<close>.\<close>

definition scan_row :: "err + 'a option \<Rightarrow> err + 'a" where
  "scan_row r = (case r of Inl e \<Rightarrow> Inl e | Inr None \<Rightarrow> Inl NoRows | Inr (Some a) \<Rightarrow> Inr a)"

definition pg_query_row :: "'a option stmt \<Rightarrow> ('z, err + 'a) prog" where
  "pg_query_row q = do { r \<leftarrow> pg_call q; ret (scan_row r) }"

text \<open>Statements that only read, and statements that always succeed.\<close>

definition q_read :: "(db \<Rightarrow> 'a) \<Rightarrow> 'a stmt" where
  "q_read f = (\<lambda>now u d. Inr (f d, d))"

definition q_write :: "(time \<Rightarrow> db \<Rightarrow> 'a \<times> db) \<Rightarrow> 'a stmt" where
  "q_write f = (\<lambda>now u d. Inr (f now d))"

lemma q_read_apply [simp]: "q_read f now u d = Inr (f d, d)"
  by (simp add: q_read_def)

lemma q_write_apply [simp]: "q_write f now u d = Inr (f now d)"
  by (simp add: q_write_def)

lemma q_select_apply:
  "q_select f now u d = (case f d of Inl e \<Rightarrow> Inl e | Inr a \<Rightarrow> Inr (a, d))"
  by (simp add: q_select_def)

lemma scan_row_simps [simp]:
  "scan_row (Inl e) = Inl e" "scan_row (Inr None) = Inl NoRows" "scan_row (Inr (Some a)) = Inr a"
  by (simp_all add: scan_row_def)

lemma run_pg_call:
  "run (pg_call q) w =
     (case next_fault w of
       Fails_before \<Rightarrow> (Inl ConnError, tick w)
     | f \<Rightarrow> (case q (w_now w) (fresh_id w) (w_db w) of
               Inl e \<Rightarrow> (Inl e, tick w)
             | Inr (a, d) \<Rightarrow> (if f = Fails_after then Inl ConnError else Inr a,
                             (tick w)\<lparr>w_db := d\<rparr>)))"
  by (simp add: pg_call_def)

text \<open>On a reliable server a statement does what it says.\<close>

lemma run_pg_call_reliable [simp]:
  "reliable w \<Longrightarrow> run (pg_call q) w =
     (case q (w_now w) (fresh_id w) (w_db w) of
        Inl e \<Rightarrow> (Inl e, tick w)
      | Inr (a, d) \<Rightarrow> (Inr a, (tick w)\<lparr>w_db := d\<rparr>))"
  by (simp add: run_pg_call split: sum.splits prod.splits)

lemma run_pg_query_row_reliable [simp]:
  "reliable w \<Longrightarrow> run (pg_query_row q) w =
     (case q (w_now w) (fresh_id w) (w_db w) of
        Inl e \<Rightarrow> (Inl e, tick w)
      | Inr (a, d) \<Rightarrow> (scan_row (Inr a), (tick w)\<lparr>w_db := d\<rparr>))"
  by (simp add: pg_query_row_def split: sum.splits prod.splits)

lemma tick_db_id [simp]: "w_db w = d \<Longrightarrow> (tick w)\<lparr>w_db := d\<rparr> = tick w"
  by (auto simp: tick_def)

text \<open>A read leaves the database alone, whatever happens on the wire.\<close>

lemma run_pg_read:
  "run (pg_call (q_read f)) w =
     ((if next_fault w = Passes then Inr (f (w_db w)) else Inl ConnError), tick w)"
  by (cases "next_fault w") (simp_all add: run_pg_call)

lemma run_pg_row_read:
  "run (pg_query_row (q_read f)) w =
     ((if next_fault w = Passes then scan_row (Inr (f (w_db w))) else Inl ConnError), tick w)"
  by (simp add: pg_query_row_def run_pg_read)

section \<open>Transactions\<close>

text \<open>
  The handle of an open transaction: the content of the database as the transaction sees it, and
  whether a statement of it has failed. PostgreSQL refuses every further statement of a failed
  transaction and turns its \<open>COMMIT\<close> into a rollback, which pgx reports as an error.
  The deferred \<open>Rollback\<close> of a transaction that was not committed is to drop the handle.
\<close>

record tx =
  tx_db :: db
  tx_failed :: bool

definition tx_begin :: "('z, err + tx) prog" where
  "tx_begin = State (\<lambda>w.
     (if next_fault w = Passes then Inr \<lparr>tx_db = w_db w, tx_failed = False\<rparr> else Inl ConnError,
      tick w))"

definition tx_exec :: "tx \<Rightarrow> 'a stmt \<Rightarrow> ('z, (err + 'a) \<times> tx) prog" where
  "tx_exec t q = State (\<lambda>w.
     if tx_failed t then ((Inl TxAborted, t), tick w)
     else if next_fault w \<noteq> Passes then ((Inl ConnError, t\<lparr>tx_failed := True\<rparr>), tick w)
     else (case q (w_now w) (fresh_id w) (tx_db t) of
             Inl e \<Rightarrow> ((Inl e, t\<lparr>tx_failed := True\<rparr>), tick w)
           | Inr (a, d) \<Rightarrow> ((Inr a, t\<lparr>tx_db := d\<rparr>), tick w)))"

definition tx_commit :: "tx \<Rightarrow> ('z, err + unit) prog" where
  "tx_commit t = State (\<lambda>w.
     if tx_failed t then (Inl TxAborted, tick w)
     else (case next_fault w of
             Passes \<Rightarrow> (Inr (), (tick w)\<lparr>w_db := tx_db t\<rparr>)
           | Fails_before \<Rightarrow> (Inl ConnError, tick w)
           | Fails_after \<Rightarrow> (Inl ConnError, (tick w)\<lparr>w_db := tx_db t\<rparr>)))"

lemma run_tx_begin:
  "run tx_begin w =
     (if next_fault w = Passes then Inr \<lparr>tx_db = w_db w, tx_failed = False\<rparr> else Inl ConnError,
      tick w)"
  by (simp add: tx_begin_def)

lemma run_tx_exec:
  "run (tx_exec t q) w =
    (if tx_failed t then ((Inl TxAborted, t), tick w)
     else if next_fault w \<noteq> Passes then ((Inl ConnError, t\<lparr>tx_failed := True\<rparr>), tick w)
     else (case q (w_now w) (fresh_id w) (tx_db t) of
             Inl e \<Rightarrow> ((Inl e, t\<lparr>tx_failed := True\<rparr>), tick w)
           | Inr (a, d) \<Rightarrow> ((Inr a, t\<lparr>tx_db := d\<rparr>), tick w)))"
  by (simp add: tx_exec_def)

lemma run_tx_commit:
  "run (tx_commit t) w =
    (if tx_failed t then (Inl TxAborted, tick w)
     else (case next_fault w of
             Passes \<Rightarrow> (Inr (), (tick w)\<lparr>w_db := tx_db t\<rparr>)
           | Fails_before \<Rightarrow> (Inl ConnError, tick w)
           | Fails_after \<Rightarrow> (Inl ConnError, (tick w)\<lparr>w_db := tx_db t\<rparr>)))"
  by (simp add: tx_commit_def)

lemma run_tx_reliable [simp]:
  "reliable w \<Longrightarrow> run tx_begin w = (Inr \<lparr>tx_db = w_db w, tx_failed = False\<rparr>, tick w)"
  "reliable w \<Longrightarrow> \<not> tx_failed t \<Longrightarrow> run (tx_exec t q) w =
     (case q (w_now w) (fresh_id w) (tx_db t) of
        Inl e \<Rightarrow> ((Inl e, t\<lparr>tx_failed := True\<rparr>), tick w)
      | Inr (a, d) \<Rightarrow> ((Inr a, t\<lparr>tx_db := d\<rparr>), tick w))"
  "reliable w \<Longrightarrow> \<not> tx_failed t \<Longrightarrow> run (tx_commit t) w = (Inr (), (tick w)\<lparr>w_db := tx_db t\<rparr>)"
  "tx_failed t \<Longrightarrow> run (tx_exec t q) w = ((Inl TxAborted, t), tick w)"
  "tx_failed t \<Longrightarrow> run (tx_commit t) w = (Inl TxAborted, tick w)"
  by (simp_all add: run_tx_begin run_tx_exec run_tx_commit)

text \<open>
  The shape every transaction has: \<open>BEGIN\<close>, then blocks of statements, each followed by
  \<open>if err != nil { return err }\<close>. A run of it ends early or goes on with the next block.
\<close>

lemma run_transaction:
  "run (do { b \<leftarrow> tx_begin; (case b of Inl e \<Rightarrow> ret (Inl e) | Inr t \<Rightarrow> m t) }) w =
     (if next_fault w = Passes then run (m \<lparr>tx_db = w_db w, tx_failed = False\<rparr>) (tick w)
      else (Inl ConnError, tick w))"
  by (simp add: run_tx_begin)

lemma run_block_elim:
  assumes "run (do { (r, t) \<leftarrow> m t; (case r of Inl e \<Rightarrow> ret (Inl e) | Inr a \<Rightarrow> k a t) }) w = (x, w')"
  obtains (stop) e t1 where "run (m t) w = ((Inl e, t1), w')" and "x = Inl e"
    | (step) a t1 w1 where "run (m t) w = ((Inr a, t1), w1)" and "run (k a t1) w1 = (x, w')"
  using assms by (cases "run (m t) w") (auto split: sum.splits prod.splits)

lemma tx_exec_Inr:
  "run (tx_exec t q) w = ((Inr a, t'), w') \<longleftrightarrow>
     \<not> tx_failed t \<and> next_fault w = Passes \<and> w' = tick w
   \<and> (\<exists>d. q (w_now w) (fresh_id w) (tx_db t) = Inr (a, d) \<and> t' = t\<lparr>tx_db := d\<rparr>)"
  by (auto simp: run_tx_exec split: sum.splits prod.splits)

lemma tx_exec_Inl: "run (tx_exec t q) w = ((Inl e, t'), w') \<Longrightarrow> tx_failed t'"
  by (auto simp: run_tx_exec split: sum.splits prod.splits if_splits)

lemma tx_exec_world: "run (tx_exec t q) w = (x, w') \<Longrightarrow> w' = tick w"
  by (auto simp: run_tx_exec split: sum.splits prod.splits if_splits)

section \<open>Invariants of the database\<close>

text \<open>
  A statement keeps a property of the database when every successful execution does. The rules
  lift that through single statements and through transactions, whose handle then carries
  the property between \<open>BEGIN\<close> and \<open>COMMIT\<close>.
\<close>

definition stmt_keeps :: "(db \<Rightarrow> bool) \<Rightarrow> 'a stmt \<Rightarrow> bool" where
  "stmt_keeps J q \<longleftrightarrow> (\<forall>now u d a d'. J d \<longrightarrow> q now u d = Inr (a, d') \<longrightarrow> J d')"

definition keeps_db :: "(db \<Rightarrow> bool) \<Rightarrow> ('z, 'a) prog \<Rightarrow> bool" where
  "keeps_db J m \<longleftrightarrow> keeps (\<lambda>w. J (w_db w)) m"

lemma stmt_keepsI:
  "(\<And>now u d a d'. J d \<Longrightarrow> q now u d = Inr (a, d') \<Longrightarrow> J d') \<Longrightarrow> stmt_keeps J q"
  by (auto simp: stmt_keeps_def)

lemma stmt_keepsD: "stmt_keeps J q \<Longrightarrow> J d \<Longrightarrow> q now u d = Inr (a, d') \<Longrightarrow> J d'"
  by (auto simp: stmt_keeps_def)

lemma stmt_keeps_read [simp, keeps_intro]: "stmt_keeps J (q_read f)"
  by (auto simp: stmt_keeps_def)

lemma stmt_keeps_select [simp, keeps_intro]: "stmt_keeps J (q_select f)"
  by (auto simp: stmt_keeps_def q_select_def split: sum.splits)

lemma keeps_db_return [keeps_intro]: "keeps_db J (ret a)"
  by (simp add: keeps_db_def keeps_return)

lemma keeps_db_bind [keeps_intro]:
  "keeps_db J m \<Longrightarrow> (\<And>a. keeps_db J (f a)) \<Longrightarrow> keeps_db J (State_Monad.bind m f)"
  unfolding keeps_db_def by (rule keeps_bind)

lemma keeps_db_if [keeps_intro]:
  "(b \<Longrightarrow> keeps_db J m) \<Longrightarrow> (\<not> b \<Longrightarrow> keeps_db J n) \<Longrightarrow> keeps_db J (if b then m else n)"
  by simp

lemma keeps_db_case_sum [keeps_intro]:
  "(\<And>e. x = Inl e \<Longrightarrow> keeps_db J (f e)) \<Longrightarrow> (\<And>a. x = Inr a \<Longrightarrow> keeps_db J (g a)) \<Longrightarrow>
   keeps_db J (case x of Inl e \<Rightarrow> f e | Inr a \<Rightarrow> g a)"
  by (simp split: sum.splits)

lemma keeps_db_case_option [keeps_intro]:
  "(x = None \<Longrightarrow> keeps_db J m) \<Longrightarrow> (\<And>a. x = Some a \<Longrightarrow> keeps_db J (g a)) \<Longrightarrow>
   keeps_db J (case x of None \<Rightarrow> m | Some a \<Rightarrow> g a)"
  by (simp split: option.splits)

lemma keeps_db_case_prod [keeps_intro]:
  "(\<And>a b. x = (a, b) \<Longrightarrow> keeps_db J (f a b)) \<Longrightarrow> keeps_db J (case x of (a, b) \<Rightarrow> f a b)"
  by (simp split: prod.splits)

lemma keeps_db_let [keeps_intro]: "(\<And>y. y = x \<Longrightarrow> keeps_db J (f y)) \<Longrightarrow> keeps_db J (let y = x in f y)"
  by simp

lemma keeps_db_pg_call [keeps_intro]: "stmt_keeps J q \<Longrightarrow> keeps_db J (pg_call q)"
  unfolding keeps_db_def
  by (rule keepsI)
     (auto simp: run_pg_call dest: stmt_keepsD split: fault.splits sum.splits prod.splits)

lemma keeps_db_pg_query_row [keeps_intro]: "stmt_keeps J q \<Longrightarrow> keeps_db J (pg_query_row q)"
  unfolding pg_query_row_def by (intro keeps_intro)

lemma keeps_db_tx_begin:
  assumes "\<And>e. keeps_db J (f (Inl e))" and "\<And>t. J (tx_db t) \<Longrightarrow> keeps_db J (f (Inr t))"
  shows "keeps_db J (State_Monad.bind tx_begin f)"
  using assms(1) [of ConnError] assms(2) [of "\<lparr>tx_db = _, tx_failed = False\<rparr>"]
  by (simp add: keeps_db_def keeps_def run_tx_begin)

lemma run_tx_exec_db:
  assumes "J (tx_db t)" and "stmt_keeps J q"
  shows "J (tx_db (snd (fst (run (tx_exec t q) w))))"
    and "snd (run (tx_exec t q) w) = tick w"
  using assms stmt_keepsD [OF assms(2,1), of "w_now w" "fresh_id w"]
  by (auto simp: run_tx_exec split: sum.splits prod.splits)

lemma keeps_db_tx_exec:
  assumes t: "J (tx_db t)" and q: "stmt_keeps J q"
    and f: "\<And>r t'. J (tx_db t') \<Longrightarrow> keeps_db J (f (r, t'))"
  shows "keeps_db J (State_Monad.bind (tx_exec t q) f)"
  unfolding keeps_db_def
proof (rule keepsI, goal_cases)
  case (1 w)
  obtain r t' w' where run: "run (tx_exec t q) w = ((r, t'), w')"
    by (metis prod.exhaust)
  with run_tx_exec_db [OF t q, of w] have "J (tx_db t')" and "w' = tick w" by simp_all
  with run 1 show ?case
    using keepsD [OF f [of t' r, unfolded keeps_db_def], of "tick w"] by simp
qed

lemma keeps_db_tx_commit: "J (tx_db t) \<Longrightarrow> keeps_db J (tx_commit t)"
  unfolding keeps_db_def by (rule keepsI) (auto simp: run_tx_commit split: fault.splits)

lemmas keeps_db_tx = keeps_db_tx_begin keeps_db_tx_exec keeps_db_tx_commit

lemma keeps_dbD: "keeps_db J m \<Longrightarrow> J (w_db w) \<Longrightarrow> J (w_db (snd (run m w)))"
  unfolding keeps_db_def by (rule keepsD)

text \<open>A block of statements inside a transaction: the handle it hands back has the property.\<close>

definition tx_keeps :: "(db \<Rightarrow> bool) \<Rightarrow> (tx \<Rightarrow> ('z, 'a \<times> tx) prog) \<Rightarrow> bool" where
  "tx_keeps J m \<longleftrightarrow> (\<forall>t w. J (tx_db t) \<longrightarrow>
     J (tx_db (snd (fst (run (m t) w)))) \<and> w_db (snd (run (m t) w)) = w_db w)"

lemma tx_keepsD:
  assumes "tx_keeps J m" and "J (tx_db t)" and "run (m t) w = ((r, t'), w')"
  shows "J (tx_db t') \<and> w_db w' = w_db w"
  using assms unfolding tx_keeps_def by (metis fst_conv snd_conv)

lemma tx_keeps_return: "tx_keeps J (\<lambda>t. ret (r, t))"
  by (simp add: tx_keeps_def)

lemma tx_keeps_exec: "stmt_keeps J q \<Longrightarrow> tx_keeps J (\<lambda>t. tx_exec t q)"
  by (simp add: tx_keeps_def run_tx_exec_db)

lemma tx_keeps_bind:
  assumes "tx_keeps J m" and "\<And>r. tx_keeps J (f r)"
  shows "tx_keeps J (\<lambda>t. State_Monad.bind (m t) (\<lambda>(r, t). f r t))"
  using assms by (simp add: tx_keeps_def case_prod_unfold)

lemma tx_keeps_if:
  "tx_keeps J m \<Longrightarrow> tx_keeps J n \<Longrightarrow> tx_keeps J (\<lambda>t. if b then m t else n t)"
  by (simp add: tx_keeps_def)

lemma tx_keeps_case_sum:
  "(\<And>e. tx_keeps J (f e)) \<Longrightarrow> (\<And>a. tx_keeps J (g a)) \<Longrightarrow>
   tx_keeps J (\<lambda>t. case x of Inl e \<Rightarrow> f e t | Inr a \<Rightarrow> g a t)"
  by (cases x) simp_all

lemma tx_keeps_case_option:
  "tx_keeps J m \<Longrightarrow> (\<And>a. tx_keeps J (g a)) \<Longrightarrow>
   tx_keeps J (\<lambda>t. case x of None \<Rightarrow> m t | Some a \<Rightarrow> g a t)"
  by (cases x) simp_all

lemma tx_keeps_let: "(\<And>y. tx_keeps J (f y)) \<Longrightarrow> tx_keeps J (\<lambda>t. let y = x in f y t)"
  by simp

lemmas tx_keeps_intros = tx_keeps_return tx_keeps_bind tx_keeps_if tx_keeps_case_sum
  tx_keeps_case_option tx_keeps_let

lemma keeps_db_transaction:
  assumes "\<And>t. J (tx_db t) \<Longrightarrow> keeps_db J (m t)"
  shows "keeps_db J (do { b \<leftarrow> tx_begin; (case b of Inl e \<Rightarrow> ret (Inl e) | Inr t \<Rightarrow> m t) })"
  using assms by (intro keeps_db_tx_begin) (simp_all add: keeps_db_return)

lemma keeps_db_block:
  assumes "J (tx_db t)" and m: "tx_keeps J m" and "\<And>r t'. J (tx_db t') \<Longrightarrow> keeps_db J (f r t')"
  shows "keeps_db J (State_Monad.bind (m t) (\<lambda>(r, t). f r t))"
  unfolding keeps_db_def
proof (rule keepsI, goal_cases)
  case (1 w)
  obtain r t' w' where run: "run (m t) w = ((r, t'), w')" by (metis prod.exhaust)
  with tx_keepsD [OF m assms(1) run] have "J (tx_db t')" and "w_db w' = w_db w" by simp_all
  with run 1 show ?case
    using keepsD [OF assms(3) [of t' r, unfolded keeps_db_def], of w'] by simp
qed

text \<open>A program that reads only: the database is the same afterwards.\<close>

definition reads_only :: "('z, 'a) prog \<Rightarrow> bool" where
  "reads_only m \<longleftrightarrow> (\<forall>w. w_db (snd (run m w)) = w_db w)"

lemma reads_onlyD: "reads_only m \<Longrightarrow> w_db (snd (run m w)) = w_db w"
  by (simp add: reads_only_def)

lemma reads_only_keeps: "reads_only m \<Longrightarrow> keeps_db J m"
  unfolding reads_only_def keeps_db_def keeps_def by metis

lemma reads_only_return: "reads_only (ret a)"
  by (simp add: reads_only_def)

lemma reads_only_bind:
  "reads_only m \<Longrightarrow> (\<And>a. reads_only (f a)) \<Longrightarrow> reads_only (State_Monad.bind m f)"
  by (auto simp: reads_only_def case_prod_unfold)

lemma reads_only_read: "reads_only (pg_call (q_read f))"
  by (simp add: reads_only_def run_pg_read)

lemma reads_only_row_read: "reads_only (pg_query_row (q_read f))"
  by (simp add: reads_only_def run_pg_row_read)

lemma reads_only_select: "reads_only (pg_call (q_select f))"
  by (auto simp: reads_only_def run_pg_call q_select_def tick_def
        split: fault.splits sum.splits)

lemma reads_only_case_sum:
  "(\<And>e. reads_only (f e)) \<Longrightarrow> (\<And>a. reads_only (g a)) \<Longrightarrow>
   reads_only (case x of Inl e \<Rightarrow> f e | Inr a \<Rightarrow> g a)"
  by (cases x) simp_all

lemma reads_only_case_option:
  "reads_only m \<Longrightarrow> (\<And>a. reads_only (g a)) \<Longrightarrow>
   reads_only (case x of None \<Rightarrow> m | Some a \<Rightarrow> g a)"
  by (cases x) simp_all

lemma reads_only_case_prod: "(\<And>a b. reads_only (f a b)) \<Longrightarrow> reads_only (case x of (a, b) \<Rightarrow> f a b)"
  by (cases x) simp

lemma reads_only_if: "reads_only m \<Longrightarrow> reads_only n \<Longrightarrow> reads_only (if b then m else n)"
  by simp

lemma reads_only_let: "(\<And>y. reads_only (f y)) \<Longrightarrow> reads_only (let y = x in f y)"
  by simp

lemmas reads_only_intros = reads_only_select
  reads_only_return reads_only_bind reads_only_read reads_only_row_read
  reads_only_case_sum reads_only_case_option reads_only_case_prod reads_only_if reads_only_let

section \<open>Hoare triples on the database\<close>

text \<open>
  \<open>db_valid P m Q\<close>: a run of \<open>m\<close> from a database with \<open>P\<close> ends with a result and a database
  related by \<open>Q\<close>, whatever breaks down on the way.
\<close>

definition db_valid :: "(db \<Rightarrow> bool) \<Rightarrow> ('z, 'a) prog \<Rightarrow> ('a \<Rightarrow> db \<Rightarrow> bool) \<Rightarrow> bool" where
  "db_valid P m Q \<longleftrightarrow> valid (\<lambda>w. P (w_db w)) m (\<lambda>a w. Q a (w_db w))"

lemma db_validI:
  "(\<And>w a w'. P (w_db w) \<Longrightarrow> run m w = (a, w') \<Longrightarrow> Q a (w_db w')) \<Longrightarrow> db_valid P m Q"
  unfolding db_valid_def by (rule validI)

lemma db_validD: "db_valid P m Q \<Longrightarrow> P (w_db w) \<Longrightarrow> run m w = (a, w') \<Longrightarrow> Q a (w_db w')"
  unfolding db_valid_def by (drule validD) simp_all

lemma keeps_db_valid: "keeps_db J m \<longleftrightarrow> db_valid J m (\<lambda>_. J)"
  by (simp add: keeps_db_def db_valid_def keeps_valid)

lemma db_valid_weaken:
  "db_valid P' m Q' \<Longrightarrow> (\<And>d. P d \<Longrightarrow> P' d) \<Longrightarrow> (\<And>a d. Q' a d \<Longrightarrow> Q a d) \<Longrightarrow> db_valid P m Q"
  unfolding db_valid_def by (erule valid_weaken) simp_all

lemma db_valid_return: "(\<And>d. P d \<Longrightarrow> Q a d) \<Longrightarrow> db_valid P (ret a) Q"
  unfolding db_valid_def by (rule valid_return)

lemma db_valid_bind:
  "db_valid P m Q \<Longrightarrow> (\<And>a. db_valid (Q a) (f a) R) \<Longrightarrow> db_valid P (State_Monad.bind m f) R"
  unfolding db_valid_def by (rule valid_bind)

text \<open>A read tells something about the database and leaves it alone.\<close>

lemma db_valid_read:
  "reads_only m \<Longrightarrow> (\<And>w. F (fst (run m w)) (w_db w)) \<Longrightarrow> db_valid P m (\<lambda>a d. P d \<and> F a d)"
  by (rule db_validI) (metis fst_conv reads_only_def snd_conv)

lemma db_valid_read_bind:
  assumes "reads_only m" and "\<And>w. F (fst (run m w)) (w_db w)"
    and "\<And>a. db_valid (\<lambda>d. P d \<and> F a d) (f a) Q"
  shows "db_valid P (State_Monad.bind m f) Q"
  by (rule db_valid_bind [where Q = "\<lambda>a d. P d \<and> F a d"])
     (rule db_valid_read [where F = F, OF assms(1,2)], rule assms(3))

lemma db_valid_reads_bind:
  "reads_only m \<Longrightarrow> (\<And>a. db_valid P (f a) Q) \<Longrightarrow> db_valid P (State_Monad.bind m f) Q"
  by (rule db_valid_bind) (rule reads_only_keeps [unfolded keeps_db_valid])

lemma db_valid_if:
  "(b \<Longrightarrow> db_valid P m Q) \<Longrightarrow> (\<not> b \<Longrightarrow> db_valid P n Q) \<Longrightarrow> db_valid P (if b then m else n) Q"
  by simp

lemma db_valid_pg_call:
  assumes "\<And>now u d a d'. P d \<Longrightarrow> q now u d = Inr (a, d') \<Longrightarrow> Q (Inr a) d' \<and> Q (Inl ConnError) d'"
    and "\<And>e d. P d \<Longrightarrow> Q (Inl e) d"
  shows "db_valid P (pg_call q) Q"
  by (rule db_validI)
     (auto simp: run_pg_call assms split: fault.splits sum.splits prod.splits if_splits)

section \<open>Progress\<close>

text \<open>
  A preorder on databases along which every statement of a program moves, given an invariant: then the
  program, whatever it consists of and whatever breaks down, moves along it.
\<close>

locale progress =
  fixes J :: "db \<Rightarrow> bool" and R :: "db \<Rightarrow> db \<Rightarrow> bool"
  assumes R_refl: "R d d"
    and R_trans: "R d e \<Longrightarrow> R e f \<Longrightarrow> R d f"
begin

text \<open>\<open>onward d0\<close>: the invariant holds and the database lies at or after \<open>d0\<close>.\<close>

definition onward :: "db \<Rightarrow> db \<Rightarrow> bool" where
  "onward d0 d \<longleftrightarrow> J d \<and> R d0 d"

definition advances :: "'a stmt \<Rightarrow> bool" where
  "advances q \<longleftrightarrow> (\<forall>now u d a d'. J d \<longrightarrow> q now u d = Inr (a, d') \<longrightarrow> R d d')"

lemma advancesI: "(\<And>now u d a d'. J d \<Longrightarrow> q now u d = Inr (a, d') \<Longrightarrow> R d d') \<Longrightarrow> advances q"
  by (simp add: advances_def)

lemma onward_stmt: "stmt_keeps J q \<Longrightarrow> advances q \<Longrightarrow> stmt_keeps (onward d0) q"
  unfolding advances_def stmt_keeps_def onward_def by (blast intro: R_trans)

lemma onward_trans: "onward d0 d \<Longrightarrow> J d' \<Longrightarrow> R d d' \<Longrightarrow> onward d0 d'"
  unfolding onward_def by (blast intro: R_trans)

lemma moves_forward:
  assumes "\<And>d0. keeps_db (onward d0) m" and "J (w_db w)"
  shows "R (w_db w) (w_db (snd (run m w)))"
  using keeps_dbD [OF assms(1), of "w_db w" w] assms(2) R_refl by (simp add: onward_def)

end

end
