(* ===== verification/Cargo_Model.thy ===== *)
theory Cargo_Model
  imports Database
begin

text \<open>
  The data of the cargo package (\<open>internal/cargo/model.go\<close>): the statuses, the
  structs that are not rows of a table, and the JSON form of \<open>Documents\<close> in the column
  \<open>cargo.documents\<close>.
\<close>

section \<open>Statuses\<close>

definition StatusCreated :: string where [simp]: "StatusCreated = ''CREATED''"
definition StatusPendingModeration :: string where [simp]: "StatusPendingModeration = ''PENDING_MODERATION''"
definition StatusSearchingAll :: string where [simp]: "StatusSearchingAll = ''SEARCHING_ALL''"
definition StatusSearchingCompany :: string where [simp]: "StatusSearchingCompany = ''SEARCHING_COMPANY''"
definition StatusRejected :: string where [simp]: "StatusRejected = ''REJECTED''"
definition StatusAssigned :: string where [simp]: "StatusAssigned = ''ASSIGNED''"
definition StatusInProgress :: string where [simp]: "StatusInProgress = ''IN_PROGRESS''"
definition StatusInTransit :: string where [simp]: "StatusInTransit = ''IN_TRANSIT''"
definition StatusDelivered :: string where [simp]: "StatusDelivered = ''DELIVERED''"
definition StatusCompleted :: string where [simp]: "StatusCompleted = ''COMPLETED''"
definition StatusCancelled :: string where [simp]: "StatusCancelled = ''CANCELLED''"

definition IsSearching :: "string \<Rightarrow> bool" where
  "IsSearching status \<longleftrightarrow> status = StatusSearchingAll \<or> status = StatusSearchingCompany"

section \<open>Structs\<close>

record Documents =
  TIR :: "bool option"
  T1 :: "bool option"
  CMR :: "bool option"
  Medbook :: "bool option"
  GLONASS :: "bool option"
  Seal :: "bool option"
  Permit :: "bool option"

type_synonym Cargo = "Documents option cargo_fields"

record RoutePoint =
  rp_ID :: uuid
  rp_CargoID :: uuid
  rp_Type :: string
  rp_CityCode :: string
  rp_RegionCode :: string
  rp_Address :: string
  rp_Orientir :: string
  rp_Lat :: float64
  rp_Lng :: float64
  rp_Comment :: "string option"
  rp_PointOrder :: int
  rp_IsMainLoad :: bool
  rp_IsMainUnload :: bool

section \<open>Documents as JSON\<close>

text \<open>
  \<open>json.Marshal\<close> of a struct whose fields all carry \<open>omitempty\<close>: a nil pointer is
  left out. \<open>JSONB\<close> keeps the object as a mapping, so that only the keys and values matter.
\<close>

definition doc_field :: "string \<Rightarrow> bool option \<Rightarrow> (string \<times> json) list" where
  "doc_field k v = (case v of None \<Rightarrow> [] | Some b \<Rightarrow> [(k, JBool b)])"

definition DocumentsToJSON :: "Documents option \<Rightarrow> json option" where
  "DocumentsToJSON d = (case d of None \<Rightarrow> None | Some d \<Rightarrow> Some (JObj (
     doc_field ''TIR'' (TIR d) @ doc_field ''T1'' (T1 d) @ doc_field ''CMR'' (CMR d) @
     doc_field ''Medbook'' (Medbook d) @ doc_field ''GLONASS'' (GLONASS d) @
     doc_field ''Seal'' (Seal d) @ doc_field ''Permit'' (Permit d))))"

text \<open>
  \<open>json.Unmarshal\<close> looks a key up exactly and then up to case folding, in which the long s
  (U+017F) counts as s and the Kelvin sign (U+212A) as k. A \<open>null\<close> sets the pointer to nil; any
  other value that is not a boolean makes the call fail. The later of two equal keys wins.
\<close>

fun fold_key :: "string \<Rightarrow> string" where
  "fold_key [] = []"
| "fold_key (a # s) =
     (if a = CHR 0xC5 \<and> take 1 s = [CHR 0xBF] then CHR ''s'' # fold_key (drop 1 s)
      else if a = CHR 0xE2 \<and> take 2 s = [CHR 0x84, CHR 0xAA] then CHR ''k'' # fold_key (drop 2 s)
      else ascii_lower a # fold_key s)"

definition json_bool_ptr :: "json \<Rightarrow> bool option option" where
  "json_bool_ptr j = (case j of JNull \<Rightarrow> Some None | JBool b \<Rightarrow> Some (Some b) | _ \<Rightarrow> None)"

definition set_doc_field :: "string \<Rightarrow> bool option \<Rightarrow> Documents \<Rightarrow> Documents" where
  "set_doc_field k v d =
     (if k = ''tir'' then d\<lparr>TIR := v\<rparr> else if k = ''t1'' then d\<lparr>T1 := v\<rparr>
      else if k = ''cmr'' then d\<lparr>CMR := v\<rparr> else if k = ''medbook'' then d\<lparr>Medbook := v\<rparr>
      else if k = ''glonass'' then d\<lparr>GLONASS := v\<rparr> else if k = ''seal'' then d\<lparr>Seal := v\<rparr>
      else if k = ''permit'' then d\<lparr>Permit := v\<rparr> else d)"

definition doc_key :: "string \<Rightarrow> bool" where
  "doc_key k \<longleftrightarrow> k \<in> {''tir'', ''t1'', ''cmr'', ''medbook'', ''glonass'', ''seal'', ''permit''}"

fun unmarshal_documents :: "(string \<times> json) list \<Rightarrow> Documents \<Rightarrow> Documents option" where
  "unmarshal_documents [] d = Some d"
| "unmarshal_documents ((k, j) # kvs) d =
     (let k' = fold_key k
      in if doc_key k'
         then (case json_bool_ptr j of
                 None \<Rightarrow> None
               | Some v \<Rightarrow> unmarshal_documents kvs (set_doc_field k' v d))
         else unmarshal_documents kvs d)"

definition no_documents :: Documents where
  "no_documents = \<lparr>TIR = None, T1 = None, CMR = None, Medbook = None, GLONASS = None,
     Seal = None, Permit = None\<rparr>"

text \<open>The result: an error (\<open>None\<close>), or a pointer that may be nil.\<close>

definition DocumentsFromJSON :: "json option \<Rightarrow> Documents option option" where
  "DocumentsFromJSON b = (case b of
     None \<Rightarrow> Some None
   | Some JNull \<Rightarrow> Some (Some no_documents)
   | Some (JObj kvs) \<Rightarrow> (case unmarshal_documents kvs no_documents of
                         None \<Rightarrow> None | Some d \<Rightarrow> Some (Some d))
   | Some _ \<Rightarrow> None)"

lemma fold_key_names:
  "fold_key ''TIR'' = ''tir''" "fold_key ''T1'' = ''t1''" "fold_key ''CMR'' = ''cmr''"
  "fold_key ''Medbook'' = ''medbook''" "fold_key ''GLONASS'' = ''glonass''"
  "fold_key ''Seal'' = ''seal''" "fold_key ''Permit'' = ''permit''"
  by (simp_all add: ascii_lower_def lower_table_def)

lemma unmarshal_step:
  assumes "doc_key (fold_key k)" and "set_doc_field (fold_key k) None d = d"
  shows "unmarshal_documents (doc_field k v @ kvs) d
       = unmarshal_documents kvs (set_doc_field (fold_key k) v d)"
  using assms by (cases v) (simp_all add: doc_field_def json_bool_ptr_def Let_def)

lemma set_doc_field_simps:
  "set_doc_field ''tir'' v d = d\<lparr>TIR := v\<rparr>" "set_doc_field ''t1'' v d = d\<lparr>T1 := v\<rparr>"
  "set_doc_field ''cmr'' v d = d\<lparr>CMR := v\<rparr>" "set_doc_field ''medbook'' v d = d\<lparr>Medbook := v\<rparr>"
  "set_doc_field ''glonass'' v d = d\<lparr>GLONASS := v\<rparr>" "set_doc_field ''seal'' v d = d\<lparr>Seal := v\<rparr>"
  "set_doc_field ''permit'' v d = d\<lparr>Permit := v\<rparr>"
  by (simp_all add: set_doc_field_def)

lemmas unmarshal_names = fold_key_names doc_key_def set_doc_field_simps

lemma DocumentsFromJSON_ToJSON: "DocumentsFromJSON (DocumentsToJSON d) = Some d"
proof (cases d)
  case None
  then show ?thesis by (simp add: DocumentsFromJSON_def DocumentsToJSON_def)
next
  case (Some r)
  have "unmarshal_documents (doc_field ''TIR'' (TIR r) @ doc_field ''T1'' (T1 r)
          @ doc_field ''CMR'' (CMR r) @ doc_field ''Medbook'' (Medbook r)
          @ doc_field ''GLONASS'' (GLONASS r) @ doc_field ''Seal'' (Seal r)
          @ doc_field ''Permit'' (Permit r) @ []) no_documents = Some r"
    by (simp only: unmarshal_step unmarshal_names no_documents_def
          Documents.update_convs unmarshal_documents.simps simp_thms insert_iff)
       simp
  with Some show ?thesis by (simp add: DocumentsFromJSON_def DocumentsToJSON_def)
qed

text \<open>
  What \<open>DocumentsToJSON\<close> stores, \<open>DocumentsFromJSON\<close> reads back: the same pointers,
  nil where they were nil, for every combination of the seven documents and for no documents at all.
\<close>

theorem documents_roundtrip: "DocumentsFromJSON (DocumentsToJSON d) = Some d"
  by (rule DocumentsFromJSON_ToJSON)

end
