(* ===== verification/Cargo_Repo.thy ===== *)
theory Cargo_Repo
  imports Cargo_Model "HOL-Library.List_Lexorder" "HOL-Library.Char_ord"
begin

text \<open>
  The cargo repository (\<open>internal/cargo/repo.go\<close>): one definition per method, and one per SQL
  statement it sends. A method returns \<open>Inl\<close> with its error or \<open>Inr\<close> with its other results; a
  pointer result is an option.
\<close>

section \<open>Parameters and results\<close>

record ListFilter =
  lf_Status :: "string list"
  lf_ForDriverCompanyID :: "uuid option"
  lf_WeightMin :: "float64 option"
  lf_WeightMax :: "float64 option"
  lf_TruckType :: string
  lf_CreatedFrom :: string
  lf_CreatedTo :: string
  lf_WithOffers :: "bool option"
  lf_Page :: int
  lf_Limit :: int
  lf_Sort :: string

record ListResult =
  lr_Items :: "Cargo list"
  lr_Total :: int

record RoutePointInput =
  ri_Type :: string
  ri_CityCode :: string
  ri_RegionCode :: string
  ri_Address :: string
  ri_Orientir :: string
  ri_Lat :: float64
  ri_Lng :: float64
  ri_Comment :: "string option"
  ri_PointOrder :: int
  ri_IsMainLoad :: bool
  ri_IsMainUnload :: bool

record PaymentInput =
  pi_IsNegotiable :: bool
  pi_PriceRequest :: bool
  pi_TotalAmount :: "float64 option"
  pi_TotalCurrency :: "string option"
  pi_WithPrepayment :: bool
  pi_WithoutPrepayment :: bool
  pi_PrepaymentAmount :: "float64 option"
  pi_PrepaymentCurrency :: "string option"
  pi_PrepaymentType :: "string option"
  pi_RemainingAmount :: "float64 option"
  pi_RemainingCurrency :: "string option"
  pi_RemainingType :: "string option"

record CreateParams =
  cp_Weight :: float64
  cp_Volume :: float64
  cp_ReadyEnabled :: bool
  cp_ReadyAt :: "string option"
  cp_LoadComment :: "string option"
  cp_TruckType :: string
  cp_TempMin :: "float64 option"
  cp_TempMax :: "float64 option"
  cp_ADREnabled :: bool
  cp_ADRClass :: "string option"
  cp_LoadingTypes :: "string list option"
  cp_Requirements :: "string list option"
  cp_ShipmentType :: "string option"
  cp_BeltsCount :: "int option"
  cp_Documents :: "Documents option"
  cp_ContactName :: "string option"
  cp_ContactPhone :: "string option"
  cp_Status :: string
  cp_RoutePoints :: "RoutePointInput list"
  cp_Payment :: "PaymentInput option"
  cp_CreatedByType :: "string option"
  cp_CreatedByID :: "uuid option"
  cp_CompanyID :: "uuid option"

record UpdateParams =
  up_Weight :: "float64 option"
  up_Volume :: "float64 option"
  up_ReadyEnabled :: "bool option"
  up_ReadyAt :: "string option"
  up_LoadComment :: "string option"
  up_TruckType :: "string option"
  up_TempMin :: "float64 option"
  up_TempMax :: "float64 option"
  up_ADREnabled :: "bool option"
  up_ADRClass :: "string option"
  up_LoadingTypes :: "string list option"
  up_Requirements :: "string list option"
  up_ShipmentType :: "string option"
  up_BeltsCount :: "int option"
  up_Documents :: "Documents option"
  up_ContactName :: "string option"
  up_ContactPhone :: "string option"
  up_RoutePoints :: "RoutePointInput list"
  up_Payment :: "PaymentInput option"

definition ErrCannotEditAfterAssigned :: err where
  "ErrCannotEditAfterAssigned = Err ''cargo: cannot edit route or payment after assigned''"

definition ErrOfferNotPending :: err where
  "ErrOfferNotPending = Err ''cargo: offer not found or not pending''"

definition ErrNotPendingModeration :: err where
  "ErrNotPendingModeration = Err ''cargo: not found or not pending_moderation''"

definition emptyToNil :: "string \<Rightarrow> string option" where
  "emptyToNil s = (if s = [] then None else Some s)"

definition nullStr :: "string \<Rightarrow> string option" where
  "nullStr s = (if s = [] then None else Some s)"

text \<open>SQL's \<open>TRIM\<close> removes spaces only; \<open>NULLIF(_, '')\<close>; \<open>COALESCE(_, '')\<close>.\<close>

definition sql_trim :: "string \<Rightarrow> string" where
  "sql_trim s = rev (dropWhile (\<lambda>c. c = CHR '' '') (rev (dropWhile (\<lambda>c. c = CHR '' '') s)))"

definition nullif_empty :: "string \<Rightarrow> string option" where
  "nullif_empty s = (if s = [] then None else Some s)"

definition coalesce_empty :: "string option \<Rightarrow> string" where
  "coalesce_empty s = (case s of None \<Rightarrow> [] | Some t \<Rightarrow> t)"

lemma coalesce_emptyToNil [simp]: "coalesce_empty (emptyToNil s) = s"
  by (simp add: coalesce_empty_def emptyToNil_def)

section \<open>Statements on the table \<open>cargo\<close>\<close>

text \<open>A text argument for a \<open>TIMESTAMP\<close> column; nil is \<open>NULL\<close>.\<close>

definition timestamp_arg :: "ext \<Rightarrow> string option \<Rightarrow> err + time option" where
  "timestamp_arg E s = (case s of None \<Rightarrow> Inr None
     | Some t \<Rightarrow> (case pg_timestamp E t of None \<Rightarrow> Inl InvalidInput | Some n \<Rightarrow> Inr (Some n)))"

definition int4_arg :: "int option \<Rightarrow> bool" where
  "int4_arg n = (case n of None \<Rightarrow> True | Some x \<Rightarrow> in_int4 x)"

definition cargo_checks :: "db \<Rightarrow> cargo_row \<Rightarrow> bool" where
  "cargo_checks d c \<longleftrightarrow> cargo_status_check (c_status c)
     \<and> created_by_type_check (c_created_by_type c) \<and> weight_check d (c_weight c)"

definition company_exists :: "db \<Rightarrow> uuid option \<Rightarrow> bool" where
  "company_exists d u = (case u of None \<Rightarrow> True
     | Some i \<Rightarrow> exists_where (\<lambda>co. co_id co = i) (companies_t d))"

definition new_cargo :: "CreateParams \<Rightarrow> time option \<Rightarrow> time \<Rightarrow> uuid \<Rightarrow> cargo_row" where
  "new_cargo p ready now u =
     \<lparr>c_id = u, c_weight = cp_Weight p, c_volume = cp_Volume p,
      c_ready_enabled = cp_ReadyEnabled p, c_ready_at = ready,
      c_load_comment = cp_LoadComment p, c_truck_type = cp_TruckType p,
      c_temp_min = cp_TempMin p, c_temp_max = cp_TempMax p,
      c_adr_enabled = cp_ADREnabled p, c_adr_class = cp_ADRClass p,
      c_loading_types = cp_LoadingTypes p, c_requirements = cp_Requirements p,
      c_shipment_type = cp_ShipmentType p, c_belts_count = cp_BeltsCount p,
      c_documents = DocumentsToJSON (cp_Documents p),
      c_contact_name = cp_ContactName p, c_contact_phone = cp_ContactPhone p,
      c_status = (case nullif_empty (sql_trim (cp_Status p)) of
                    None \<Rightarrow> ''PENDING_MODERATION'' | Some s \<Rightarrow> s),
      c_created_at = now, c_updated_at = now, c_deleted_at = None,
      c_moderation_rejection_reason = None,
      c_created_by_type = cp_CreatedByType p, c_created_by_id = cp_CreatedByID p,
      c_company_id = cp_CompanyID p\<rparr>"

definition insert_cargo :: "ext \<Rightarrow> CreateParams \<Rightarrow> uuid stmt" where
  "insert_cargo E p = (\<lambda>now u d.
     case timestamp_arg E (cp_ReadyAt p) of
       Inl e \<Rightarrow> Inl e
     | Inr ready \<Rightarrow>
         (let c = new_cargo p ready now u
          in if \<not> int4_arg (cp_BeltsCount p) then Inl InvalidInput
             else if \<not> cargo_checks d c then Inl CheckViolation
             else if exists_where (\<lambda>r. c_id r = u) (cargo_t d) then Inl UniqueViolation
             else if \<not> company_exists d (cp_CompanyID p) then Inl FKViolation
             else Inr (u, d\<lparr>cargo_t := cargo_t d @ [c]\<rparr>)))"

text \<open>An \<open>UPDATE\<close> evaluates the checks on the rows it writes.\<close>

definition update_cargo :: "(cargo_row \<Rightarrow> bool) \<Rightarrow> (time \<Rightarrow> cargo_row \<Rightarrow> cargo_row) \<Rightarrow> nat stmt" where
  "update_cargo P f = (\<lambda>now u d.
     if list_all (\<lambda>c. cargo_checks d (f now c)) (select_where P (cargo_t d))
     then Inr (count_where P (cargo_t d), d\<lparr>cargo_t := update_where P (f now) (cargo_t d)\<rparr>)
     else Inl CheckViolation)"

definition live_cargo :: "uuid \<Rightarrow> 'd cargo_fields \<Rightarrow> bool" where
  "live_cargo u c \<longleftrightarrow> c_id c = u \<and> c_deleted_at c = None"

definition set_cargo_status :: "string \<Rightarrow> time \<Rightarrow> cargo_row \<Rightarrow> cargo_row" where
  "set_cargo_status s now c = c\<lparr>c_status := s, c_updated_at := now\<rparr>"

section \<open>Statements on route points, payments and offers\<close>

definition cargo_exists :: "db \<Rightarrow> uuid \<Rightarrow> bool" where
  "cargo_exists d u = exists_where (\<lambda>c. c_id c = u) (cargo_t d)"

definition new_route_point :: "uuid \<Rightarrow> RoutePointInput \<Rightarrow> uuid \<Rightarrow> route_point_row" where
  "new_route_point cid rp u =
     \<lparr>r_id = u, r_cargo_id = cid, r_type = ri_Type rp,
      r_city_code = emptyToNil (ri_CityCode rp), r_region_code = emptyToNil (ri_RegionCode rp),
      r_address = ri_Address rp, r_orientir = emptyToNil (ri_Orientir rp),
      r_lat = ri_Lat rp, r_lng = ri_Lng rp, r_comment = ri_Comment rp,
      r_point_order = ri_PointOrder rp,
      r_is_main_load = ri_IsMainLoad rp, r_is_main_unload = ri_IsMainUnload rp\<rparr>"

definition route_point_fits :: "route_point_row \<Rightarrow> bool" where
  "route_point_fits r \<longleftrightarrow> varchar_ok 20 (r_city_code r) \<and> varchar_ok 20 (r_region_code r)
     \<and> varchar_ok 500 (r_orientir r) \<and> in_int4 (r_point_order r)"

definition insert_route_point :: "uuid \<Rightarrow> RoutePointInput \<Rightarrow> unit stmt" where
  "insert_route_point cid rp = (\<lambda>now u d.
     let r = new_route_point cid rp u
     in if \<not> route_point_fits r then Inl InvalidInput
        else if \<not> route_point_type_check d (r_type r) then Inl CheckViolation
        else if exists_where (\<lambda>r'. r_id r' = u) (route_points_t d) then Inl UniqueViolation
        else if \<not> cargo_exists d cid then Inl FKViolation
        else Inr ((), d\<lparr>route_points_t := route_points_t d @ [r]\<rparr>))"

definition delete_route_points :: "uuid \<Rightarrow> nat stmt" where
  "delete_route_points cid = q_write (\<lambda>now d.
     (count_where (\<lambda>r. r_cargo_id r = cid) (route_points_t d),
      d\<lparr>route_points_t := delete_where (\<lambda>r. r_cargo_id r = cid) (route_points_t d)\<rparr>))"

definition set_payment :: "PaymentInput \<Rightarrow> Payment \<Rightarrow> Payment" where
  "set_payment p r = r
     \<lparr>p_is_negotiable := pi_IsNegotiable p, p_price_request := pi_PriceRequest p,
      p_total_amount := pi_TotalAmount p, p_total_currency := pi_TotalCurrency p,
      p_with_prepayment := pi_WithPrepayment p, p_without_prepayment := pi_WithoutPrepayment p,
      p_prepayment_amount := pi_PrepaymentAmount p,
      p_prepayment_currency := pi_PrepaymentCurrency p,
      p_prepayment_type := pi_PrepaymentType p, p_remaining_amount := pi_RemainingAmount p,
      p_remaining_currency := pi_RemainingCurrency p, p_remaining_type := pi_RemainingType p\<rparr>"

definition new_payment :: "uuid \<Rightarrow> PaymentInput \<Rightarrow> uuid \<Rightarrow> Payment" where
  "new_payment cid p u =
     \<lparr>p_id = u, p_cargo_id = cid,
      p_is_negotiable = pi_IsNegotiable p, p_price_request = pi_PriceRequest p,
      p_total_amount = pi_TotalAmount p, p_total_currency = pi_TotalCurrency p,
      p_with_prepayment = pi_WithPrepayment p, p_without_prepayment = pi_WithoutPrepayment p,
      p_prepayment_amount = pi_PrepaymentAmount p,
      p_prepayment_currency = pi_PrepaymentCurrency p,
      p_prepayment_type = pi_PrepaymentType p, p_remaining_amount = pi_RemainingAmount p,
      p_remaining_currency = pi_RemainingCurrency p, p_remaining_type = pi_RemainingType p\<rparr>"

definition insert_payment :: "uuid \<Rightarrow> PaymentInput \<Rightarrow> unit stmt" where
  "insert_payment cid p = (\<lambda>now u d.
     if exists_where (\<lambda>r. p_id r = u \<or> p_cargo_id r = cid) (payments_t d) then Inl UniqueViolation
     else if \<not> cargo_exists d cid then Inl FKViolation
     else Inr ((), d\<lparr>payments_t := payments_t d @ [new_payment cid p u]\<rparr>))"

definition update_payment :: "uuid \<Rightarrow> PaymentInput \<Rightarrow> nat stmt" where
  "update_payment cid p = q_write (\<lambda>now d.
     (count_where (\<lambda>r. p_cargo_id r = cid) (payments_t d),
      d\<lparr>payments_t := update_where (\<lambda>r. p_cargo_id r = cid) (set_payment p) (payments_t d)\<rparr>))"

definition new_offer :: "uuid \<Rightarrow> uuid \<Rightarrow> float64 \<Rightarrow> string \<Rightarrow> string \<Rightarrow> time \<Rightarrow> uuid \<Rightarrow> Offer" where
  "new_offer cid carrier price currency comment now u =
     \<lparr>o_id = u, o_cargo_id = cid, o_carrier_id = carrier, o_price = price,
      o_currency = currency, o_comment = nullStr comment, o_status = ''PENDING'',
      o_rejection_reason = None, o_created_at = now\<rparr>"

definition insert_offer :: "uuid \<Rightarrow> uuid \<Rightarrow> float64 \<Rightarrow> string \<Rightarrow> string \<Rightarrow> uuid stmt" where
  "insert_offer cid carrier price currency comment = (\<lambda>now u d.
     if exists_where (\<lambda>q. o_id q = u) (offers_t d) then Inl UniqueViolation
     else if \<not> cargo_exists d cid then Inl FKViolation
     else Inr (u, d\<lparr>offers_t := offers_t d @ [new_offer cid carrier price currency comment now u]\<rparr>))"

definition update_offers :: "(Offer \<Rightarrow> bool) \<Rightarrow> (Offer \<Rightarrow> Offer) \<Rightarrow> nat stmt" where
  "update_offers P f = (\<lambda>now u d.
     if list_all (\<lambda>q. offers_status_check (o_status (f q))) (select_where P (offers_t d))
     then Inr (count_where P (offers_t d), d\<lparr>offers_t := update_where P f (offers_t d)\<rparr>)
     else Inl CheckViolation)"

section \<open>Create\<close>

fun insert_route_points :: "uuid \<Rightarrow> RoutePointInput list \<Rightarrow> tx \<Rightarrow> ('z, (err + unit) \<times> tx) prog" where
  "insert_route_points cid [] t = ret (Inr (), t)"
| "insert_route_points cid (rp # rps) t = do {
     (r, t) \<leftarrow> tx_exec t (insert_route_point cid rp);
     (case r of Inl e \<Rightarrow> ret (Inl e, t) | Inr _ \<Rightarrow> insert_route_points cid rps t)
   }"

definition insert_payment_opt :: "uuid \<Rightarrow> PaymentInput option \<Rightarrow> tx \<Rightarrow> ('z, (err + unit) \<times> tx) prog" where
  "insert_payment_opt cid p t =
     (case p of None \<Rightarrow> ret (Inr (), t) | Some pay \<Rightarrow> tx_exec t (insert_payment cid pay))"

definition cargo_Create :: "ext \<Rightarrow> CreateParams \<Rightarrow> ('z, err + uuid) prog" where
  "cargo_Create E p = do {
     b \<leftarrow> tx_begin;
     (case b of
        Inl e \<Rightarrow> ret (Inl e)
      | Inr t \<Rightarrow> do {
          (r, t) \<leftarrow> tx_exec t (insert_cargo E p);
          (case r of
             Inl e \<Rightarrow> ret (Inl e)
           | Inr cid \<Rightarrow> do {
               (r, t) \<leftarrow> insert_route_points cid (cp_RoutePoints p) t;
               (case r of
                  Inl e \<Rightarrow> ret (Inl e)
                | Inr _ \<Rightarrow> do {
                    (r, t) \<leftarrow> insert_payment_opt cid (cp_Payment p) t;
                    (case r of
                       Inl e \<Rightarrow> ret (Inl e)
                     | Inr _ \<Rightarrow> do {
                         r \<leftarrow> tx_commit t;
                         ret (case r of Inl e \<Rightarrow> Inl e | Inr _ \<Rightarrow> Inr cid)
                       })
                  })
             })
        })
   }"

section \<open>Reads\<close>

definition scanCargo :: "cargo_row \<Rightarrow> Cargo" where
  "scanCargo c =
     \<lparr>c_id = c_id c, c_weight = c_weight c, c_volume = c_volume c,
      c_ready_enabled = c_ready_enabled c, c_ready_at = c_ready_at c,
      c_load_comment = c_load_comment c, c_truck_type = c_truck_type c,
      c_temp_min = c_temp_min c, c_temp_max = c_temp_max c,
      c_adr_enabled = c_adr_enabled c, c_adr_class = c_adr_class c,
      c_loading_types = c_loading_types c, c_requirements = c_requirements c,
      c_shipment_type = c_shipment_type c, c_belts_count = c_belts_count c,
      c_documents = (case DocumentsFromJSON (c_documents c) of None \<Rightarrow> None | Some ds \<Rightarrow> ds),
      c_contact_name = c_contact_name c, c_contact_phone = c_contact_phone c,
      c_status = c_status c, c_created_at = c_created_at c, c_updated_at = c_updated_at c,
      c_deleted_at = c_deleted_at c,
      c_moderation_rejection_reason = c_moderation_rejection_reason c,
      c_created_by_type = c_created_by_type c, c_created_by_id = c_created_by_id c,
      c_company_id = c_company_id c\<rparr>"

definition find_cargo :: "uuid \<Rightarrow> bool \<Rightarrow> db \<Rightarrow> cargo_row option" where
  "find_cargo u includeDeleted d =
     first_where (\<lambda>c. c_id c = u \<and> (includeDeleted \<or> c_deleted_at c = None)) (cargo_t d)"

text \<open>The pointer \<open>GetByID\<close> returns without an error is never nil: no row is an error.\<close>

definition cargo_GetByID :: "uuid \<Rightarrow> bool \<Rightarrow> ('z, err + Cargo option) prog" where
  "cargo_GetByID u includeDeleted = do {
     r \<leftarrow> pg_query_row (q_read (find_cargo u includeDeleted));
     ret (case r of Inl e \<Rightarrow> Inl e | Inr c \<Rightarrow> Inr (Some (scanCargo c)))
   }"

definition scan_route_point :: "route_point_row \<Rightarrow> RoutePoint" where
  "scan_route_point r =
     \<lparr>rp_ID = r_id r, rp_CargoID = r_cargo_id r, rp_Type = r_type r,
      rp_CityCode = coalesce_empty (r_city_code r),
      rp_RegionCode = coalesce_empty (r_region_code r),
      rp_Address = r_address r, rp_Orientir = coalesce_empty (r_orientir r),
      rp_Lat = r_lat r, rp_Lng = r_lng r, rp_Comment = r_comment r,
      rp_PointOrder = r_point_order r,
      rp_IsMainLoad = r_is_main_load r, rp_IsMainUnload = r_is_main_unload r\<rparr>"

definition cargo_GetRoutePoints :: "uuid \<Rightarrow> ('z, err + RoutePoint list) prog" where
  "cargo_GetRoutePoints cid = pg_call (q_read (\<lambda>d. map scan_route_point
     (order_asc r_point_order (select_where (\<lambda>r. r_cargo_id r = cid) (route_points_t d)))))"

text \<open>\<open>pgx.ErrNoRows\<close> becomes a nil pointer.\<close>

definition no_rows_nil :: "err + 'a \<Rightarrow> err + 'a option" where
  "no_rows_nil r = (case r of
     Inl e \<Rightarrow> (if e = NoRows then Inr None else Inl e) | Inr a \<Rightarrow> Inr (Some a))"

definition cargo_GetPayment :: "uuid \<Rightarrow> ('z, err + Payment option) prog" where
  "cargo_GetPayment cid = do {
     r \<leftarrow> pg_query_row (q_read (\<lambda>d. first_where (\<lambda>p. p_cargo_id p = cid) (payments_t d)));
     ret (no_rows_nil r)
   }"

section \<open>List\<close>

definition statusListContainsSearching :: "string list \<Rightarrow> bool" where
  "statusListContainsSearching statuses =
     list_ex (\<lambda>s. s = StatusSearchingAll \<or> s = StatusSearchingCompany \<or> s = ''SEARCHING'') statuses"

text \<open>
  The conditions, in the order the code appends them. A date that PostgreSQL cannot read makes
  the whole statement fail.
\<close>

definition date_cond :: "ext \<Rightarrow> string \<Rightarrow> (int \<Rightarrow> int \<Rightarrow> bool) \<Rightarrow> (err + (cargo_row \<Rightarrow> bool)) list" where
  "date_cond E s cmp = (if s = [] then []
     else [case pg_date E s of None \<Rightarrow> Inl InvalidInput
           | Some n \<Rightarrow> Inr (\<lambda>c. cmp (date_of E (c_created_at c)) n)])"

definition list_conds :: "ext \<Rightarrow> ListFilter \<Rightarrow> db \<Rightarrow> (err + (cargo_row \<Rightarrow> bool)) list" where
  "list_conds E f d =
     [Inr (\<lambda>c. c_deleted_at c = None)]
   @ (case lf_ForDriverCompanyID f of
        Some cid \<Rightarrow>
          (if lf_Status f \<noteq> [] \<and> statusListContainsSearching (lf_Status f)
           then [Inr (\<lambda>c. c_status c = ''SEARCHING_ALL''
                      \<or> (c_status c = ''SEARCHING_COMPANY'' \<and> c_company_id c = Some cid))]
           else if lf_Status f \<noteq> [] then [Inr (\<lambda>c. c_status c \<in> set (lf_Status f))] else [])
      | None \<Rightarrow> (if lf_Status f \<noteq> [] then [Inr (\<lambda>c. c_status c \<in> set (lf_Status f))] else []))
   @ (case lf_WeightMin f of None \<Rightarrow> [] | Some x \<Rightarrow> [Inr (\<lambda>c. c_weight c \<ge> x)])
   @ (case lf_WeightMax f of None \<Rightarrow> [] | Some x \<Rightarrow> [Inr (\<lambda>c. c_weight c \<le> x)])
   @ (if lf_TruckType f \<noteq> [] then [Inr (\<lambda>c. c_truck_type c = lf_TruckType f)] else [])
   @ date_cond E (lf_CreatedFrom f) (\<lambda>a b. a \<ge> b)
   @ date_cond E (lf_CreatedTo f) (\<lambda>a b. a \<le> b)
   @ (if lf_WithOffers f = Some True
      then [Inr (\<lambda>c. exists_where (\<lambda>q. o_cargo_id q = c_id c) (offers_t d))] else [])"

text \<open>\<open>strings.Join(conds, " AND ")\<close> as the predicate it denotes.\<close>

fun join_and :: "(err + ('r \<Rightarrow> bool)) list \<Rightarrow> err + ('r \<Rightarrow> bool)" where
  "join_and [] = Inr (\<lambda>_. True)"
| "join_and (Inl e # cs) = Inl e"
| "join_and (Inr P # cs) = (case join_and cs of Inl e \<Rightarrow> Inl e | Inr Q \<Rightarrow> Inr (\<lambda>r. P r \<and> Q r))"

definition list_where :: "ext \<Rightarrow> ListFilter \<Rightarrow> db \<Rightarrow> err + (cargo_row \<Rightarrow> bool)" where
  "list_where E f d = join_and (list_conds E f d)"

text \<open>\<open>strings.SplitN(s, ":", 2)\<close> with two parts.\<close>

definition split_colon :: "string \<Rightarrow> (string \<times> string) option" where
  "split_colon s = (case dropWhile (\<lambda>c. c \<noteq> CHR '':'') s of
     [] \<Rightarrow> None | _ # r \<Rightarrow> Some (takeWhile (\<lambda>c. c \<noteq> CHR '':'') s, r))"

definition order_by :: "string \<Rightarrow> string \<Rightarrow> cargo_row list \<Rightarrow> cargo_row list" where
  "order_by col dir t =
     (if col = ''created_at''
      then (if dir = ''ASC'' then order_asc c_created_at t else order_desc c_created_at t)
      else if col = ''weight''
      then (if dir = ''ASC'' then order_asc c_weight t else order_desc c_weight t)
      else (if dir = ''ASC'' then order_asc c_status t else order_desc c_status t))"

definition list_order :: "ext \<Rightarrow> string \<Rightarrow> string \<times> string" where
  "list_order E srt =
     (if srt \<noteq> [] then
        (case split_colon srt of
           Some (a, b) \<Rightarrow>
             (let col = TrimSpace a; dir = ToUpper E (TrimSpace b)
              in if (col = ''created_at'' \<or> col = ''weight'' \<or> col = ''status'')
                    \<and> (dir = ''ASC'' \<or> dir = ''DESC'')
                 then (col, dir) else (''created_at'', ''DESC''))
         | None \<Rightarrow> (''created_at'', ''DESC''))
      else (''created_at'', ''DESC''))"

definition list_limit :: "ListFilter \<Rightarrow> int" where
  "list_limit f = (let limit = (if lf_Limit f \<le> 0 then 20 else lf_Limit f)
                   in if limit > 100 then 100 else limit)"

definition list_offset :: "ListFilter \<Rightarrow> int" where
  "list_offset f = (let offset = wrap64 (wrap64 (lf_Page f - 1) * list_limit f)
                    in if offset < 0 then 0 else offset)"

definition cargo_List :: "ext \<Rightarrow> ListFilter \<Rightarrow> ('z, err + ListResult) prog" where
  "cargo_List E f = do {
     r \<leftarrow> pg_call (q_select (\<lambda>d. case list_where E f d of
            Inl e \<Rightarrow> Inl e | Inr P \<Rightarrow> Inr (int (count_where P (cargo_t d)))));
     (case r of
        Inl e \<Rightarrow> ret (Inl e)
      | Inr n \<Rightarrow> do {
          r \<leftarrow> pg_call (q_select (\<lambda>d. case list_where E f d of
                 Inl e \<Rightarrow> Inl e
               | Inr P \<Rightarrow> pg_page (list_limit f) (list_offset f)
                   (case list_order E (lf_Sort f) of (col, dir) \<Rightarrow>
                      order_by col dir (select_where P (cargo_t d)))));
          ret (case r of
                 Inl e \<Rightarrow> Inl e
               | Inr rows \<Rightarrow> Inr \<lparr>lr_Items = map scanCargo rows, lr_Total = n\<rparr>)
        })
   }"

section \<open>Update\<close>

text \<open>
  The \<open>SET\<close> clause: one assignment per field that is not nil, in the order of the code. An
  assignment whose argument does not fit its column makes the statement fail.
\<close>

type_synonym assignment = "err + (cargo_row \<Rightarrow> cargo_row)"

definition add_col :: "'a option \<Rightarrow> ('a \<Rightarrow> assignment) \<Rightarrow> assignment list" where
  "add_col v a = (case v of None \<Rightarrow> [] | Some x \<Rightarrow> [a x])"

definition update_cols :: "ext \<Rightarrow> UpdateParams \<Rightarrow> assignment list" where
  "update_cols E p =
     add_col (up_Weight p) (\<lambda>x. Inr (\<lambda>c. c\<lparr>c_weight := x\<rparr>))
   @ add_col (up_Volume p) (\<lambda>x. Inr (\<lambda>c. c\<lparr>c_volume := x\<rparr>))
   @ add_col (up_ReadyEnabled p) (\<lambda>x. Inr (\<lambda>c. c\<lparr>c_ready_enabled := x\<rparr>))
   @ add_col (up_ReadyAt p) (\<lambda>x. case timestamp_arg E (Some x) of
        Inl e \<Rightarrow> Inl e | Inr t \<Rightarrow> Inr (\<lambda>c. c\<lparr>c_ready_at := t\<rparr>))
   @ add_col (up_LoadComment p) (\<lambda>x. Inr (\<lambda>c. c\<lparr>c_load_comment := Some x\<rparr>))
   @ add_col (up_TruckType p) (\<lambda>x. Inr (\<lambda>c. c\<lparr>c_truck_type := x\<rparr>))
   @ add_col (up_TempMin p) (\<lambda>x. Inr (\<lambda>c. c\<lparr>c_temp_min := Some x\<rparr>))
   @ add_col (up_TempMax p) (\<lambda>x. Inr (\<lambda>c. c\<lparr>c_temp_max := Some x\<rparr>))
   @ add_col (up_ADREnabled p) (\<lambda>x. Inr (\<lambda>c. c\<lparr>c_adr_enabled := x\<rparr>))
   @ add_col (up_ADRClass p) (\<lambda>x. Inr (\<lambda>c. c\<lparr>c_adr_class := Some x\<rparr>))
   @ add_col (up_LoadingTypes p) (\<lambda>x. Inr (\<lambda>c. c\<lparr>c_loading_types := Some x\<rparr>))
   @ add_col (up_Requirements p) (\<lambda>x. Inr (\<lambda>c. c\<lparr>c_requirements := Some x\<rparr>))
   @ add_col (up_ShipmentType p) (\<lambda>x. Inr (\<lambda>c. c\<lparr>c_shipment_type := Some x\<rparr>))
   @ add_col (up_BeltsCount p) (\<lambda>x. if in_int4 x then Inr (\<lambda>c. c\<lparr>c_belts_count := Some x\<rparr>)
        else Inl InvalidInput)
   @ add_col (up_Documents p) (\<lambda>x. Inr (\<lambda>c. c\<lparr>c_documents := DocumentsToJSON (Some x)\<rparr>))
   @ add_col (up_ContactName p) (\<lambda>x. Inr (\<lambda>c. c\<lparr>c_contact_name := Some x\<rparr>))
   @ add_col (up_ContactPhone p) (\<lambda>x. Inr (\<lambda>c. c\<lparr>c_contact_phone := Some x\<rparr>))"

fun join_cols :: "assignment list \<Rightarrow> assignment" where
  "join_cols [] = Inr (\<lambda>c. c)"
| "join_cols (Inl e # as) = Inl e"
| "join_cols (Inr f # as) = (case join_cols as of Inl e \<Rightarrow> Inl e | Inr g \<Rightarrow> Inr (\<lambda>c. g (f c)))"

definition update_cargo_cols :: "ext \<Rightarrow> uuid \<Rightarrow> UpdateParams \<Rightarrow> nat stmt" where
  "update_cargo_cols E u p = (\<lambda>now v d.
     case join_cols (update_cols E p) of
       Inl e \<Rightarrow> Inl e
     | Inr f \<Rightarrow> update_cargo (live_cargo u) (\<lambda>now c. f (c\<lparr>c_updated_at := now\<rparr>)) now v d)"

definition edit_locked :: "string \<Rightarrow> bool" where
  "edit_locked s \<longleftrightarrow> s = StatusAssigned \<or> s = StatusInTransit \<or> s = StatusDelivered"

definition payment_exists :: "uuid \<Rightarrow> nat option stmt" where
  "payment_exists cid =
     q_read (\<lambda>d. if exists_where (\<lambda>p. p_cargo_id p = cid) (payments_t d) then Some 1 else None)"

definition update_columns :: "ext \<Rightarrow> uuid \<Rightarrow> UpdateParams \<Rightarrow> tx \<Rightarrow> ('z, (err + unit) \<times> tx) prog" where
  "update_columns E u p t =
     (if update_cols E p \<noteq> []
      then do {
        (r, t) \<leftarrow> tx_exec t (update_cargo_cols E u p);
        ret (case r of Inl e \<Rightarrow> Inl e | Inr _ \<Rightarrow> Inr (), t)
      }
      else ret (Inr (), t))"

definition replace_route_points :: "uuid \<Rightarrow> string \<Rightarrow> RoutePointInput list \<Rightarrow> tx \<Rightarrow> ('z, (err + unit) \<times> tx) prog" where
  "replace_route_points u status rps t =
     (if rps \<noteq> [] \<and> \<not> edit_locked status
      then do {
        (_, t) \<leftarrow> tx_exec t (delete_route_points u);
        insert_route_points u rps t
      }
      else ret (Inr (), t))"

definition replace_payment :: "uuid \<Rightarrow> string \<Rightarrow> PaymentInput option \<Rightarrow> tx \<Rightarrow> ('z, (err + unit) \<times> tx) prog" where
  "replace_payment u status pay t =
     (case pay of
        None \<Rightarrow> ret (Inr (), t)
      | Some p \<Rightarrow>
          (if edit_locked status then ret (Inr (), t)
           else do {
             (r, t) \<leftarrow> tx_exec t (update_payment u p);
             (case r of
                Inl e \<Rightarrow> ret (Inl e, t)
              | Inr _ \<Rightarrow> do {
                  (r, t) \<leftarrow> tx_exec t (payment_exists u);
                  let n = (case r of Inr (Some k) \<Rightarrow> k | _ \<Rightarrow> 0);
                  (if n = 0 then tx_exec t (insert_payment u p) else ret (Inr (), t))
                })
           }))"

definition cargo_Update :: "ext \<Rightarrow> uuid \<Rightarrow> UpdateParams \<Rightarrow> ('z, err + unit) prog" where
  "cargo_Update E u p = do {
     b \<leftarrow> tx_begin;
     (case b of
        Inl e \<Rightarrow> ret (Inl e)
      | Inr t \<Rightarrow> do {
          x \<leftarrow> cargo_GetByID u False;
          (case x of
             Inl e \<Rightarrow> ret (Inl e)
           | Inr None \<Rightarrow> ret (Inr ())
           | Inr (Some existing) \<Rightarrow>
               (if edit_locked (c_status existing) \<and> (up_RoutePoints p \<noteq> [] \<or> up_Payment p \<noteq> None)
                then ret (Inl ErrCannotEditAfterAssigned)
                else do {
                  (r, t) \<leftarrow> update_columns E u p t;
                  (case r of
                     Inl e \<Rightarrow> ret (Inl e)
                   | Inr _ \<Rightarrow> do {
                       (r, t) \<leftarrow> replace_route_points u (c_status existing) (up_RoutePoints p) t;
                       (case r of
                          Inl e \<Rightarrow> ret (Inl e)
                        | Inr _ \<Rightarrow> do {
                            (r, t) \<leftarrow> replace_payment u (c_status existing) (up_Payment p) t;
                            (case r of
                               Inl e \<Rightarrow> ret (Inl e)
                             | Inr _ \<Rightarrow> tx_commit t)
                          })
                     })
                }))
        })
   }"

section \<open>Counting, deletion, status\<close>

definition cargo_CountByDispatcher :: "uuid \<Rightarrow> ('z, err + int) prog" where
  "cargo_CountByDispatcher dispatcherID = pg_call (q_read (\<lambda>d. int (count_where (\<lambda>c.
     c_created_by_type c = Some ''DISPATCHER'' \<and> c_created_by_id c = Some dispatcherID
     \<and> c_deleted_at c = None) (cargo_t d))))"

text \<open>The outcome of an \<open>Exec\<close> whose row count is ignored.\<close>

definition ignore_count :: "err + nat \<Rightarrow> err + unit" where
  "ignore_count r = (case r of Inl e \<Rightarrow> Inl e | Inr _ \<Rightarrow> Inr ())"

text \<open>\<open>if res.RowsAffected() == 0 { return e }\<close>.\<close>

definition require_row :: "err \<Rightarrow> err + nat \<Rightarrow> err + unit" where
  "require_row e r = (case r of Inl e' \<Rightarrow> Inl e' | Inr n \<Rightarrow> if n = 0 then Inl e else Inr ())"

definition cargo_Delete :: "uuid \<Rightarrow> ('z, err + unit) prog" where
  "cargo_Delete u = do {
     r \<leftarrow> pg_call (update_cargo (live_cargo u)
            (\<lambda>now c. c\<lparr>c_deleted_at := Some now, c_updated_at := now\<rparr>));
     ret (ignore_count r)
   }"

definition cargo_allowed :: "string \<Rightarrow> string list option" where
  "cargo_allowed = map_of
     [(StatusCreated, [StatusSearchingAll, StatusSearchingCompany, StatusCancelled]),
      (StatusPendingModeration, [StatusSearchingAll, StatusSearchingCompany, StatusRejected]),
      (StatusSearchingAll, [StatusAssigned, StatusCancelled]),
      (StatusSearchingCompany, [StatusAssigned, StatusCancelled]),
      (StatusRejected, []),
      (StatusAssigned, [StatusInProgress, StatusCancelled]),
      (StatusInProgress, [StatusCompleted]),
      (StatusInTransit, [StatusDelivered]),
      (StatusDelivered, []),
      (StatusCompleted, []),
      (StatusCancelled, [])]"

definition cargo_SetStatus :: "uuid \<Rightarrow> string \<Rightarrow> ('z, err + unit) prog" where
  "cargo_SetStatus u newStatus = do {
     x \<leftarrow> cargo_GetByID u False;
     (case x of
        Inl e \<Rightarrow> ret (Inl e)
      | Inr None \<Rightarrow> ret (Inr ())
      | Inr (Some cur) \<Rightarrow>
          (case cargo_allowed (c_status cur) of
             None \<Rightarrow> ret (Inl (Err ''cargo: invalid current status''))
           | Some nxt \<Rightarrow>
               (if list_ex (\<lambda>s. s = newStatus) nxt
                then do {
                  r \<leftarrow> pg_call (update_cargo (live_cargo u) (set_cargo_status newStatus));
                  ret (ignore_count r)
                }
                else ret (Inl (Err ''cargo: status transition not allowed'')))))
   }"

section \<open>Offers\<close>

text \<open>An empty reason is read as no reason.\<close>

definition scan_offer :: "Offer \<Rightarrow> Offer" where
  "scan_offer q = q\<lparr>o_rejection_reason := emptyToNil (coalesce_empty (o_rejection_reason q))\<rparr>"

definition cargo_GetOfferByID :: "uuid \<Rightarrow> ('z, err + Offer option) prog" where
  "cargo_GetOfferByID u = do {
     r \<leftarrow> pg_query_row (q_read (\<lambda>d.
            map_option scan_offer (first_where (\<lambda>q. o_id q = u) (offers_t d))));
     ret (no_rows_nil r)
   }"

definition cargo_GetOffers :: "uuid \<Rightarrow> ('z, err + Offer list) prog" where
  "cargo_GetOffers cid = pg_call (q_read (\<lambda>d. map scan_offer
     (order_desc o_created_at (select_where (\<lambda>q. o_cargo_id q = cid) (offers_t d)))))"

definition cargo_CreateOffer :: "uuid \<Rightarrow> uuid \<Rightarrow> float64 \<Rightarrow> string \<Rightarrow> string \<Rightarrow> ('z, err + uuid) prog" where
  "cargo_CreateOffer cid carrier price currency comment =
     pg_call (insert_offer cid carrier price currency comment)"

definition set_offer_status :: "string \<Rightarrow> Offer \<Rightarrow> Offer" where
  "set_offer_status s q = q\<lparr>o_status := s\<rparr>"

definition pending_offer :: "uuid \<Rightarrow> db \<Rightarrow> (uuid \<times> uuid) option" where
  "pending_offer u d = map_option (\<lambda>q. (o_cargo_id q, o_carrier_id q))
     (first_where (\<lambda>q. o_id q = u \<and> o_status q = ''PENDING'') (offers_t d))"

definition cargo_AcceptOffer :: "uuid \<Rightarrow> ('z, err + uuid \<times> uuid) prog" where
  "cargo_AcceptOffer offerID = do {
     b \<leftarrow> tx_begin;
     (case b of
        Inl e \<Rightarrow> ret (Inl e)
      | Inr t \<Rightarrow> do {
          (r, t) \<leftarrow> tx_exec t (q_read (pending_offer offerID));
          (case scan_row r of
             Inl e \<Rightarrow> ret (Inl (if e = NoRows then ErrOfferNotPending else e))
           | Inr (cargoID, carrierID) \<Rightarrow> do {
               (r, t) \<leftarrow> tx_exec t (update_offers (\<lambda>q. o_id q = offerID) (set_offer_status ''ACCEPTED''));
               (case r of
                  Inl e \<Rightarrow> ret (Inl e)
                | Inr _ \<Rightarrow> do {
                    (r, t) \<leftarrow> tx_exec t (update_cargo (live_cargo cargoID) (set_cargo_status StatusAssigned));
                    (case r of
                       Inl e \<Rightarrow> ret (Inl e)
                     | Inr _ \<Rightarrow> do {
                         (_, t) \<leftarrow> tx_exec t (update_offers
                            (\<lambda>q. o_cargo_id q = cargoID \<and> o_id q \<noteq> offerID \<and> o_status q = ''PENDING'')
                            (set_offer_status ''REJECTED''));
                         r \<leftarrow> tx_commit t;
                         ret (case r of Inl e \<Rightarrow> Inl e | Inr _ \<Rightarrow> Inr (cargoID, carrierID))
                       })
                  })
             })
        })
   }"

definition cargo_RejectOffer :: "uuid \<Rightarrow> string \<Rightarrow> ('z, err + unit) prog" where
  "cargo_RejectOffer offerID reason = do {
     r \<leftarrow> pg_call (update_offers (\<lambda>q. o_id q = offerID \<and> o_status q = ''PENDING'')
            (\<lambda>q. q\<lparr>o_status := ''REJECTED'', o_rejection_reason := nullif_empty (sql_trim reason)\<rparr>));
     ret (require_row ErrOfferNotPending r)
   }"

section \<open>Moderation and trips\<close>

definition SearchVisibilityAll :: string where [simp]: "SearchVisibilityAll = ''all''"
definition SearchVisibilityCompany :: string where [simp]: "SearchVisibilityCompany = ''company''"

definition in_status :: "uuid \<Rightarrow> string \<Rightarrow> 'd cargo_fields \<Rightarrow> bool" where
  "in_status u s c \<longleftrightarrow> c_id c = u \<and> c_deleted_at c = None \<and> c_status c = s"

definition cargo_ModerationAccept :: "uuid \<Rightarrow> string \<Rightarrow> ('z, err + unit) prog" where
  "cargo_ModerationAccept u visibility = do {
     let status = (if visibility = SearchVisibilityCompany then StatusSearchingCompany else StatusSearchingAll);
     r \<leftarrow> pg_call (update_cargo (in_status u StatusPendingModeration) (\<lambda>now c.
            c\<lparr>c_status := status, c_updated_at := now, c_moderation_rejection_reason := None\<rparr>));
     ret (require_row ErrNotPendingModeration r)
   }"

definition cargo_ModerationReject :: "uuid \<Rightarrow> string \<Rightarrow> ('z, err + unit) prog" where
  "cargo_ModerationReject u reason =
     (if TrimSpace reason = [] then ret (Inl (Err ''cargo: moderation rejection reason is required''))
      else do {
        r \<leftarrow> pg_call (update_cargo (in_status u StatusPendingModeration) (\<lambda>now c.
               c\<lparr>c_status := StatusRejected, c_moderation_rejection_reason := Some (TrimSpace reason),
                 c_updated_at := now\<rparr>));
        ret (require_row ErrNotPendingModeration r)
      })"

definition pending_moderation :: "cargo_row \<Rightarrow> bool" where
  "pending_moderation c \<longleftrightarrow> c_deleted_at c = None \<and> c_status c = StatusPendingModeration"

definition cargo_ListPendingModeration :: "int \<Rightarrow> int \<Rightarrow> ('z, err + Cargo list \<times> int) prog" where
  "cargo_ListPendingModeration limit offset = do {
     r \<leftarrow> pg_call (q_read (\<lambda>d. int (count_where pending_moderation (cargo_t d))));
     let n = (case r of Inl _ \<Rightarrow> 0 | Inr n \<Rightarrow> n);
     r \<leftarrow> pg_call (q_select (\<lambda>d. pg_page limit offset
            (order_asc c_created_at (select_where pending_moderation (cargo_t d)))));
     ret (case r of Inl e \<Rightarrow> Inl e | Inr rows \<Rightarrow> Inr (map scanCargo rows, n))
   }"

definition cargo_SetCargoStatusInProgress :: "uuid \<Rightarrow> ('z, err + unit) prog" where
  "cargo_SetCargoStatusInProgress u = do {
     r \<leftarrow> pg_call (update_cargo (in_status u StatusAssigned) (set_cargo_status StatusInProgress));
     ret (ignore_count r)
   }"

definition cargo_SetCargoStatusCompleted :: "uuid \<Rightarrow> ('z, err + unit) prog" where
  "cargo_SetCargoStatusCompleted u = do {
     r \<leftarrow> pg_call (update_cargo
            (\<lambda>c. in_status u StatusInProgress c \<or> in_status u StatusInTransit c)
            (set_cargo_status StatusCompleted));
     ret (ignore_count r)
   }"

end
