(* ===== verification/Cargo_Integrity.thy ===== *)
theory Cargo_Integrity
  imports Cargo_Repo
begin

text \<open>
  Every statement of the cargo repository keeps the keys, references and checks of the schema,
  and so does every method, whatever happens on the wire.
\<close>

text \<open>The columns of a row that the struct has unchanged.\<close>

lemma scanCargo_columns [simp]:
  "c_id (scanCargo c) = c_id c" "c_status (scanCargo c) = c_status c"
  "c_deleted_at (scanCargo c) = c_deleted_at c" "c_company_id (scanCargo c) = c_company_id c"
  "c_created_by_type (scanCargo c) = c_created_by_type c"
  "c_created_by_id (scanCargo c) = c_created_by_id c"
  by (simp_all add: scanCargo_def)

section \<open>Statements\<close>

lemma update_cargo_Inr:
  "update_cargo P f now u d = Inr (n, d') \<longleftrightarrow>
     (\<forall>c \<in> set (cargo_t d). P c \<longrightarrow> cargo_checks d (f now c))
   \<and> n = count_where P (cargo_t d) \<and> d' = d\<lparr>cargo_t := update_where P (f now) (cargo_t d)\<rparr>"
  by (auto simp: update_cargo_def list_all_iff table_simps)

lemma update_offers_Inr:
  "update_offers P f now u d = Inr (n, d') \<longleftrightarrow>
     (\<forall>q \<in> set (offers_t d). P q \<longrightarrow> offers_status_check (o_status (f q)))
   \<and> n = count_where P (offers_t d) \<and> d' = d\<lparr>offers_t := update_where P f (offers_t d)\<rparr>"
  by (auto simp: update_offers_def list_all_iff table_simps)

lemma insert_cargo_Inr:
  "insert_cargo E p now u d = Inr (cid, d') \<longleftrightarrow> cid = u \<and>
     (\<exists>ready. timestamp_arg E (cp_ReadyAt p) = Inr ready \<and> int4_arg (cp_BeltsCount p)
        \<and> cargo_checks d (new_cargo p ready now u) \<and> u \<notin> c_id ` set (cargo_t d)
        \<and> company_exists d (cp_CompanyID p)
        \<and> d' = d\<lparr>cargo_t := cargo_t d @ [new_cargo p ready now u]\<rparr>)"
  by (auto simp: insert_cargo_def Let_def table_simps split: sum.splits)

lemma checks_update:
  "weight_check (d\<lparr>cargo_t := t\<rparr>) = weight_check d"
  "weight_check (d\<lparr>offers_t := q\<rparr>) = weight_check d"
  "weight_check (d\<lparr>route_points_t := r\<rparr>) = weight_check d"
  "weight_check (d\<lparr>payments_t := p\<rparr>) = weight_check d"
  "route_point_type_check (d\<lparr>cargo_t := t\<rparr>) = route_point_type_check d"
  "route_point_type_check (d\<lparr>offers_t := q\<rparr>) = route_point_type_check d"
  "route_point_type_check (d\<lparr>route_points_t := r\<rparr>) = route_point_type_check d"
  "route_point_type_check (d\<lparr>payments_t := p\<rparr>) = route_point_type_check d"
  by (simp_all add: fun_eq_iff weight_check_def route_point_type_check_def)

lemma schema_update_cargo:
  assumes ids: "\<And>now c. c_id (f now c) = c_id c" and co: "\<And>now c. c_company_id (f now c) = c_company_id c"
  shows "stmt_keeps schema_ok (update_cargo P f)"
proof (rule stmt_keepsI)
  fix now u d n d'
  assume ok: "schema_ok d" and q: "update_cargo P f now u d = Inr (n, d')"
  let ?t = "update_where P (f now) (cargo_t d)"
  from q have d': "d' = d\<lparr>cargo_t := ?t\<rparr>"
    and new: "\<And>c. c \<in> set (cargo_t d) \<Longrightarrow> P c \<Longrightarrow> cargo_checks d (f now c)"
    by (auto simp: update_cargo_Inr)
  have img: "c_id ` set ?t = c_id ` set (cargo_t d)" by (rule image_update_where) (rule ids)
  have map: "map c_id ?t = map c_id (cargo_t d)" by (rule map_update_where) (rule ids)
  have "keys_ok d'" using ok by (simp add: d' map schema_ok_def keys_ok_def)
  moreover have "references_ok d'"
    using ok co by (auto simp: d' img schema_ok_def references_ok_def ball_update_where)
  moreover have "checks_ok d'"
    using ok new by (auto simp: d' checks_update schema_ok_def checks_ok_def table_simps cargo_checks_def)
  ultimately show "schema_ok d'" by (simp add: schema_ok_def)
qed

lemma schema_insert_cargo: "stmt_keeps schema_ok (insert_cargo E p)"
proof (rule stmt_keepsI)
  fix now u d v d'
  assume ok: "schema_ok d" and q: "insert_cargo E p now u d = Inr (v, d')"
  then obtain ready where d': "d' = d\<lparr>cargo_t := cargo_t d @ [new_cargo p ready now u]\<rparr>"
    and chk: "cargo_checks d (new_cargo p ready now u)"
    and fresh: "u \<notin> c_id ` set (cargo_t d)" and co: "company_exists d (cp_CompanyID p)"
    by (auto simp: insert_cargo_def Let_def table_simps split: sum.splits if_splits)
  have id: "c_id (new_cargo p ready now u) = u"
    and cid: "c_company_id (new_cargo p ready now u) = cp_CompanyID p"
    by (simp_all add: new_cargo_def)
  have "keys_ok d'" using ok fresh by (auto simp: d' id schema_ok_def keys_ok_def)
  moreover have "references_ok d'"
    using ok co unfolding d' schema_ok_def references_ok_def
    by (auto simp: cid id company_exists_def table_simps)
  moreover have "checks_ok d'"
    using ok chk by (auto simp: d' checks_update schema_ok_def checks_ok_def cargo_checks_def)
  ultimately show "schema_ok d'" by (simp add: schema_ok_def)
qed

lemma schema_insert_route_point: "stmt_keeps schema_ok (insert_route_point cid rp)"
proof (rule stmt_keepsI)
  fix now u d v d'
  assume ok: "schema_ok d" and q: "insert_route_point cid rp now u d = Inr (v, d')"
  let ?r = "new_route_point cid rp u"
  from q have d': "d' = d\<lparr>route_points_t := route_points_t d @ [?r]\<rparr>"
    and chk: "route_point_type_check d (r_type ?r)"
    and fresh: "u \<notin> r_id ` set (route_points_t d)" and fk: "cargo_exists d cid"
    by (auto simp: insert_route_point_def Let_def table_simps split: if_splits)
  have id: "r_id ?r = u" "r_cargo_id ?r = cid" by (simp_all add: new_route_point_def)
  have "keys_ok d'" using ok fresh by (auto simp: d' id schema_ok_def keys_ok_def)
  moreover have "references_ok d'"
    using ok fk by (auto simp: d' id schema_ok_def references_ok_def cargo_exists_def table_simps)
  moreover have "checks_ok d'"
    using ok chk by (auto simp: d' checks_update schema_ok_def checks_ok_def)
  ultimately show "schema_ok d'" by (simp add: schema_ok_def)
qed

lemma schema_delete_route_points: "stmt_keeps schema_ok (delete_route_points cid)"
proof (rule stmt_keepsI)
  fix now u d v d'
  assume ok: "schema_ok d" and q: "delete_route_points cid now u d = Inr (v, d')"
  from q have d': "d' = d\<lparr>route_points_t := delete_where (\<lambda>r. r_cargo_id r = cid) (route_points_t d)\<rparr>"
    by (simp add: delete_route_points_def)
  have "keys_ok d'"
    using ok by (auto simp: d' schema_ok_def keys_ok_def delete_where_def distinct_map_filter)
  moreover have "references_ok d'" and "checks_ok d'"
    using ok by (auto simp: d' checks_update schema_ok_def references_ok_def checks_ok_def table_simps)
  ultimately show "schema_ok d'" by (simp add: schema_ok_def)
qed

lemma schema_insert_payment: "stmt_keeps schema_ok (insert_payment cid p)"
proof (rule stmt_keepsI)
  fix now u d v d'
  assume ok: "schema_ok d" and q: "insert_payment cid p now u d = Inr (v, d')"
  from q have d': "d' = d\<lparr>payments_t := payments_t d @ [new_payment cid p u]\<rparr>"
    and fresh: "u \<notin> p_id ` set (payments_t d)" "cid \<notin> p_cargo_id ` set (payments_t d)"
    and fk: "cargo_exists d cid"
    by (auto simp: insert_payment_def table_simps split: if_splits)
  have id: "p_id (new_payment cid p u) = u" "p_cargo_id (new_payment cid p u) = cid"
    by (simp_all add: new_payment_def)
  have "keys_ok d'" using ok fresh by (auto simp: d' id schema_ok_def keys_ok_def)
  moreover have "references_ok d'"
    using ok fk by (auto simp: d' id schema_ok_def references_ok_def cargo_exists_def table_simps)
  moreover have "checks_ok d'"
    using ok by (auto simp: d' checks_update schema_ok_def checks_ok_def)
  ultimately show "schema_ok d'" by (simp add: schema_ok_def)
qed

lemma schema_update_payment: "stmt_keeps schema_ok (update_payment cid p)"
proof (rule stmt_keepsI)
  fix now u d v d'
  assume ok: "schema_ok d" and q: "update_payment cid p now u d = Inr (v, d')"
  let ?t = "update_where (\<lambda>r. p_cargo_id r = cid) (set_payment p) (payments_t d)"
  from q have d': "d' = d\<lparr>payments_t := ?t\<rparr>" by (simp add: update_payment_def)
  have map: "map p_id ?t = map p_id (payments_t d)" "map p_cargo_id ?t = map p_cargo_id (payments_t d)"
    by (rule map_update_where, simp add: set_payment_def)+
  have "keys_ok d'" using ok by (simp add: d' map schema_ok_def keys_ok_def)
  moreover have "references_ok d'"
    using ok by (auto simp: d' schema_ok_def references_ok_def table_simps set_payment_def)
  moreover have "checks_ok d'"
    using ok by (auto simp: d' checks_update schema_ok_def checks_ok_def)
  ultimately show "schema_ok d'" by (simp add: schema_ok_def)
qed

lemma schema_insert_offer: "stmt_keeps schema_ok (insert_offer cid carrier price currency comment)"
proof (rule stmt_keepsI)
  fix now u d v d'
  assume ok: "schema_ok d" and q: "insert_offer cid carrier price currency comment now u d = Inr (v, d')"
  let ?q = "new_offer cid carrier price currency comment now u"
  from q have d': "d' = d\<lparr>offers_t := offers_t d @ [?q]\<rparr>"
    and fresh: "u \<notin> o_id ` set (offers_t d)" and fk: "cargo_exists d cid"
    by (auto simp: insert_offer_def table_simps split: if_splits)
  have id: "o_id ?q = u" "o_cargo_id ?q = cid" "o_status ?q = ''PENDING''"
    by (simp_all add: new_offer_def)
  have "keys_ok d'" using ok fresh by (auto simp: d' id schema_ok_def keys_ok_def)
  moreover have "references_ok d'"
    using ok fk by (auto simp: d' id schema_ok_def references_ok_def cargo_exists_def table_simps)
  moreover have "checks_ok d'"
    using ok by (auto simp: d' id checks_update schema_ok_def checks_ok_def offers_status_check_def)
  ultimately show "schema_ok d'" by (simp add: schema_ok_def)
qed

lemma schema_update_offers:
  assumes ids: "\<And>q. o_id (f q) = o_id q" "\<And>q. o_cargo_id (f q) = o_cargo_id q"
  shows "stmt_keeps schema_ok (update_offers P f)"
proof (rule stmt_keepsI)
  fix now u d n d'
  assume ok: "schema_ok d" and q: "update_offers P f now u d = Inr (n, d')"
  let ?t = "update_where P f (offers_t d)"
  from q have d': "d' = d\<lparr>offers_t := ?t\<rparr>"
    and new: "\<And>q. q \<in> set (offers_t d) \<Longrightarrow> P q \<Longrightarrow> offers_status_check (o_status (f q))"
    by (auto simp: update_offers_Inr)
  have map: "map o_id ?t = map o_id (offers_t d)" by (rule map_update_where) (rule ids)
  have img: "o_id ` set ?t = o_id ` set (offers_t d)" by (rule image_update_where) (rule ids)
  have "keys_ok d'" using ok by (simp add: d' map schema_ok_def keys_ok_def)
  moreover have "references_ok d'"
    using ok ids by (auto simp: d' img schema_ok_def references_ok_def ball_update_where)
  moreover have "checks_ok d'"
    using ok new by (auto simp: d' checks_update schema_ok_def checks_ok_def table_simps)
  ultimately show "schema_ok d'" by (simp add: schema_ok_def)
qed

section \<open>Methods\<close>

lemma insert_route_points_Cons:
  "insert_route_points cid (rp # rps) = (\<lambda>t. do {
     (r, t) \<leftarrow> tx_exec t (insert_route_point cid rp);
     (case r of Inl e \<Rightarrow> ret (Inl e, t) | Inr _ \<Rightarrow> insert_route_points cid rps t)
   })"
  by (rule ext) simp

lemma tx_schema_route_points: "tx_keeps schema_ok (insert_route_points cid rps)"
proof (induction rps)
  case Nil
  then show ?case by (simp add: tx_keeps_def)
next
  case (Cons rp rps)
  then show ?case unfolding insert_route_points_Cons
    by (intro tx_keeps_intros tx_keeps_exec schema_insert_route_point)
qed

lemma tx_schema_insert_payment: "tx_keeps schema_ok (insert_payment_opt cid p)"
  unfolding insert_payment_opt_def [abs_def]
  by (intro tx_keeps_intros tx_keeps_exec schema_insert_payment)

text \<open>
  The columns no \<open>SET\<close> clause of \<open>Update\<close> mentions: identity, owner, status, moderation and the
  instants of creation and deletion.
\<close>

definition system_columns :: "cargo_row \<Rightarrow>
    uuid \<times> string \<times> time \<times> time option \<times> string option \<times> string option \<times> uuid option \<times> uuid option" where
  "system_columns c = (c_id c, c_status c, c_created_at c, c_deleted_at c,
     c_moderation_rejection_reason c, c_created_by_type c, c_created_by_id c, c_company_id c)"

definition preserves :: "(cargo_row \<Rightarrow> 'k) \<Rightarrow> assignment \<Rightarrow> bool" where
  "preserves k a \<longleftrightarrow> (case a of Inl e \<Rightarrow> True | Inr f \<Rightarrow> \<forall>c. k (f c) = k c)"

lemma preserves_join: "list_all (preserves k) as \<Longrightarrow> preserves k (join_cols as)"
  by (induction as rule: join_cols.induct) (auto simp: preserves_def split: sum.splits)

lemma preserves_add_col: "(\<And>x. preserves k (a x)) \<Longrightarrow> list_all (preserves k) (add_col v a)"
  by (auto simp: add_col_def split: option.splits)

lemma preserves_update_cols: "list_all (preserves system_columns) (update_cols E p)"
  unfolding update_cols_def list_all_append
  by (intro conjI preserves_add_col) (auto simp: preserves_def system_columns_def split: sum.splits)

lemma join_cols_system:
  "join_cols (update_cols E p) = Inr f \<Longrightarrow> system_columns (f c) = system_columns c"
  using preserves_join [OF preserves_update_cols, of E p] by (simp add: preserves_def)

lemma schema_update_cargo_cols: "stmt_keeps schema_ok (update_cargo_cols E u p)"
proof (rule stmt_keepsI)
  fix now v d n d'
  assume ok: "schema_ok d" and q: "update_cargo_cols E u p now v d = Inr (n, d')"
  then obtain f where f: "join_cols (update_cols E p) = Inr f"
    and q': "update_cargo (live_cargo u) (\<lambda>now c. f (c\<lparr>c_updated_at := now\<rparr>)) now v d = Inr (n, d')"
    by (auto simp: update_cargo_cols_def split: sum.splits)
  have "c_id (f (c\<lparr>c_updated_at := t\<rparr>)) = c_id c \<and> c_company_id (f (c\<lparr>c_updated_at := t\<rparr>)) = c_company_id c" for c t
    using join_cols_system [OF f, of "c\<lparr>c_updated_at := t\<rparr>"] by (simp add: system_columns_def)
  then have "stmt_keeps schema_ok (update_cargo (live_cargo u) (\<lambda>now c. f (c\<lparr>c_updated_at := now\<rparr>)))"
    by (intro schema_update_cargo) simp_all
  from stmt_keepsD [OF this ok q'] show "schema_ok d'" .
qed

lemma tx_schema_update_columns: "tx_keeps schema_ok (update_columns E u p)"
  unfolding update_columns_def [abs_def]
  by (intro tx_keeps_intros tx_keeps_exec schema_update_cargo_cols)

lemma tx_schema_replace_route_points: "tx_keeps schema_ok (replace_route_points u status rps)"
  unfolding replace_route_points_def [abs_def]
  by (intro tx_keeps_intros tx_keeps_exec schema_delete_route_points tx_schema_route_points)

lemma tx_schema_replace_payment: "tx_keeps schema_ok (replace_payment u status pay)"
  unfolding replace_payment_def [abs_def] payment_exists_def
  by (intro tx_keeps_intros tx_keeps_exec schema_update_payment schema_insert_payment stmt_keeps_read)

lemmas tx_schema_blocks = tx_schema_route_points tx_schema_insert_payment tx_schema_update_columns
  tx_schema_replace_route_points tx_schema_replace_payment
  tx_keeps_exec [OF schema_insert_cargo] tx_keeps_exec [OF stmt_keeps_read]

lemma keeps_db_GetByID: "keeps_db J (cargo_GetByID u b)"
  unfolding cargo_GetByID_def by (intro keeps_intro)

lemma schema_Create: "keeps_db schema_ok (cargo_Create E p)"
  unfolding cargo_Create_def
  by (rule keeps_db_transaction
      | rule keeps_db_block, assumption, rule tx_schema_blocks
      | erule keeps_db_tx_commit | rule keeps_intro)+

lemma schema_Update: "keeps_db schema_ok (cargo_Update E u p)"
  unfolding cargo_Update_def
  by (rule keeps_db_transaction keeps_db_GetByID
      | rule keeps_db_block, assumption, rule tx_schema_blocks
      | erule keeps_db_tx_commit | rule keeps_intro)+

lemma schema_status_writers:
  "keeps_db schema_ok (cargo_Delete u)" "keeps_db schema_ok (cargo_SetStatus u s)"
  "keeps_db schema_ok (cargo_ModerationAccept u v)" "keeps_db schema_ok (cargo_ModerationReject u r)"
  "keeps_db schema_ok (cargo_SetCargoStatusInProgress u)"
  "keeps_db schema_ok (cargo_SetCargoStatusCompleted u)"
  unfolding cargo_Delete_def cargo_SetStatus_def cargo_ModerationAccept_def
    cargo_ModerationReject_def cargo_SetCargoStatusInProgress_def cargo_SetCargoStatusCompleted_def
  by (intro keeps_intro keeps_db_GetByID schema_update_cargo; simp add: set_cargo_status_def)+

lemma schema_offer_writers:
  "keeps_db schema_ok (cargo_CreateOffer cid carrier price currency comment)"
  "keeps_db schema_ok (cargo_RejectOffer u reason)"
  unfolding cargo_CreateOffer_def cargo_RejectOffer_def
  by (intro keeps_intro schema_update_offers schema_insert_offer; simp)+

lemma schema_AcceptOffer: "keeps_db schema_ok (cargo_AcceptOffer u)"
proof -
  have 1: "stmt_keeps schema_ok (update_offers P (set_offer_status s))" for P s
    by (rule schema_update_offers) (simp_all add: set_offer_status_def)
  have 2: "stmt_keeps schema_ok (update_cargo P (set_cargo_status s))" for P s
    by (rule schema_update_cargo) (simp_all add: set_cargo_status_def)
  show ?thesis unfolding cargo_AcceptOffer_def
    by (rule keeps_db_transaction
        | rule keeps_db_block, assumption, rule tx_keeps_exec, rule 1 2 stmt_keeps_read
        | erule keeps_db_tx_commit | rule keeps_intro)+
qed

end
