(* ===== verification/Samples.thy ===== *)
theory Samples
  imports Cargo_Repo
begin

text \<open>
  Concrete inputs for the witnesses: an instance of the external functions, small databases and
  requests. The identifiers print as tallies, so that printing and parsing compute.
\<close>

definition sample_ext :: ext where
  "sample_ext =
     \<lparr>uuid_parse = (\<lambda>s. if s \<noteq> [] \<and> list_all (\<lambda>c. c = CHR ''1'') s
        then Some (of_nat (length s - 1)) else None),
      uuid_partial = (\<lambda>s. 0),
      uuid_string = (\<lambda>u. replicate (Suc (unat u)) (CHR ''1'')),
      unicode_upper = (\<lambda>s. s), unicode_lower = (\<lambda>s. s), parse_float = (\<lambda>s. None),
      pg_timestamp = (\<lambda>s. if s = ''2024-01-01'' then Some 1000 else None),
      pg_date = (\<lambda>s. None), date_of = (\<lambda>t. t div (24 * hour)), sha256_hex = (\<lambda>s. s),
      unicode_digit = (\<lambda>_. False), unicode_letter = (\<lambda>_. False), phone_parse = (\<lambda>s. Some s),
      phone_valid = (\<lambda>_. True), phone_format = (\<lambda>s. s), bcrypt_hash = (\<lambda>u p. Some p), bcrypt_check = (=),
      random_token = (\<lambda>u. Some (replicate (Suc (unat u)) (CHR ''1''))), valid_email = (\<lambda>_. True),
      timestamp_text = (\<lambda>_. ''t''), scan_timestamp = (\<lambda>_. None), rfc3339 = (\<lambda>_. ''t''),
      pg_lower = (\<lambda>s. s)\<rparr>"

lemma sample_ext_laws: "uuid_laws sample_ext"
  by (simp add: uuid_laws_def sample_ext_def list_all_iff)

definition world_of :: "db \<Rightarrow> world" where
  "world_of d = \<lparr>w_db = d, w_faults = [], w_now = 100, w_gen = (\<lambda>n. of_nat n), w_drawn = 0\<rparr>"

definition world0 :: "bool \<Rightarrow> world" where
  "world0 mig = world_of (empty_db mig)"

definition sample_point :: "string \<Rightarrow> int \<Rightarrow> RoutePointInput" where
  "sample_point typ n =
     \<lparr>ri_Type = typ, ri_CityCode = ''TAS'', ri_RegionCode = [], ri_Address = ''A'', ri_Orientir = [],
      ri_Lat = 41, ri_Lng = 69, ri_Comment = None, ri_PointOrder = n,
      ri_IsMainLoad = False, ri_IsMainUnload = False\<rparr>"

definition sample_payment :: PaymentInput where
  "sample_payment =
     \<lparr>pi_IsNegotiable = False, pi_PriceRequest = False, pi_TotalAmount = Some 500,
      pi_TotalCurrency = Some ''USD'', pi_WithPrepayment = False, pi_WithoutPrepayment = True,
      pi_PrepaymentAmount = None, pi_PrepaymentCurrency = None, pi_PrepaymentType = None,
      pi_RemainingAmount = None, pi_RemainingCurrency = None, pi_RemainingType = None\<rparr>"

definition sample_documents :: Documents where
  "sample_documents = \<lparr>TIR = Some True, T1 = None, CMR = Some False, Medbook = None,
     GLONASS = None, Seal = None, Permit = None\<rparr>"

definition sample_params :: CreateParams where
  "sample_params =
     \<lparr>cp_Weight = 20, cp_Volume = 80, cp_ReadyEnabled = True, cp_ReadyAt = Some ''2024-01-01'',
      cp_LoadComment = None, cp_TruckType = ''TENT'', cp_TempMin = None, cp_TempMax = None,
      cp_ADREnabled = False, cp_ADRClass = None, cp_LoadingTypes = Some [''REAR''],
      cp_Requirements = None, cp_ShipmentType = Some ''FTL'', cp_BeltsCount = Some 4,
      cp_Documents = Some sample_documents, cp_ContactName = None, cp_ContactPhone = None,
      cp_Status = StatusPendingModeration,
      cp_RoutePoints = [sample_point ''UNLOAD'' 2, sample_point ''LOAD'' 1],
      cp_Payment = Some sample_payment, cp_CreatedByType = Some ''DISPATCHER'',
      cp_CreatedByID = Some 7, cp_CompanyID = None\<rparr>"

lemmas sample_defs = sample_ext_def world_of_def world0_def sample_point_def sample_payment_def
  sample_documents_def sample_params_def empty_db_def

text \<open>The rules that evaluate a program on a reliable world.\<close>

lemma reliable_world_of [simp]: "reliable (world_of d)"
  by (simp add: reliable_def world_of_def)

lemma world_of_simps [simp]:
  "w_db (world_of d) = d" "w_now (world_of d) = 100" "w_drawn (world_of d) = 0"
  "w_gen (world_of d) n = of_nat n"
  by (simp_all add: world_of_def)

lemma fresh_id_world [simp]: "w_gen w = of_nat \<Longrightarrow> fresh_id w = of_nat (w_drawn w)"
  by (simp add: fresh_id_def)

end
