(* ===== verification/Cargo_Create.thy ===== *)
theory Cargo_Create
  imports Cargo_Integrity Samples
begin

text \<open>
  Creating a cargo: the transaction is all or nothing, and what it stores is what the reads of the
  repository return.
\<close>

section \<open>The transaction\<close>

text \<open>What a block inside a transaction leaves alone: the committed database and the clock.\<close>

lemma insert_route_points_world:
  "run (insert_route_points cid rps t) w = (x, w') \<Longrightarrow> w_db w' = w_db w \<and> w_now w' = w_now w"
proof (induction rps arbitrary: t w)
  case (Cons rp rps)
  obtain r t1 w1 where 1: "run (tx_exec t (insert_route_point cid rp)) w = ((r, t1), w1)"
    by (metis prod.exhaust)
  with tx_exec_world have "w1 = tick w" by blast
  with Cons 1 show ?case by (cases r) auto
qed simp

lemma insert_route_points_Inr:
  "run (insert_route_points cid rps t) w = ((Inr v, t'), w') \<Longrightarrow> \<not> tx_failed t \<Longrightarrow>
   \<not> tx_failed t' \<and> (\<exists>us. length us = length rps \<and> tx_db t' = (tx_db t)
     \<lparr>route_points_t := route_points_t (tx_db t) @ map2 (new_route_point cid) rps us\<rparr>)"
proof (induction rps arbitrary: t w)
  case (Cons rp rps)
  obtain r t1 w1 where 1: "run (tx_exec t (insert_route_point cid rp)) w = ((r, t1), w1)"
    by (metis prod.exhaust)
  with Cons.prems obtain v' where r: "r = Inr v'" by (cases r) auto
  with 1 obtain d where q: "insert_route_point cid rp (w_now w) (fresh_id w) (tx_db t) = Inr (v', d)"
    and t1: "t1 = t\<lparr>tx_db := d\<rparr>" by (auto simp: tx_exec_Inr)
  from q have d: "d = (tx_db t)\<lparr>route_points_t :=
      route_points_t (tx_db t) @ [new_route_point cid rp (fresh_id w)]\<rparr>"
    by (auto simp: insert_route_point_def Let_def split: if_splits)
  have "run (insert_route_points cid rps t1) w1 = ((Inr (), t'), w')"
    using Cons.prems 1 r by simp
  with Cons.IH [of t1 w1] Cons.prems obtain us where "\<not> tx_failed t'" "length us = length rps"
    "tx_db t' = (tx_db t1)\<lparr>route_points_t := route_points_t (tx_db t1) @ map2 (new_route_point cid) rps us\<rparr>"
    by (auto simp: t1)
  then show ?case
    by (intro conjI exI [of _ "fresh_id w # us"]) (simp_all add: t1 d)
qed auto

lemma insert_payment_opt_world:
  "run (insert_payment_opt cid p t) w = (x, w') \<Longrightarrow> w_db w' = w_db w \<and> w_now w' = w_now w"
  by (cases p) (auto simp: insert_payment_opt_def dest: tx_exec_world)

lemma insert_payment_opt_Inr:
  assumes "run (insert_payment_opt cid p t) w = ((Inr v, t'), w')" and "\<not> tx_failed t"
  shows "\<not> tx_failed t' \<and> (\<exists>u. tx_db t' = (tx_db t)\<lparr>payments_t := payments_t (tx_db t) @
           (case p of None \<Rightarrow> [] | Some pay \<Rightarrow> [new_payment cid pay u])\<rparr>)"
  using assms
  by (cases p) (auto simp: insert_payment_opt_def tx_exec_Inr insert_payment_def split: if_splits)

text \<open>The route points and the payment of a cargo, added to a database.\<close>

definition add_details :: "CreateParams \<Rightarrow> uuid \<Rightarrow> uuid list \<Rightarrow> uuid \<Rightarrow> db \<Rightarrow> db" where
  "add_details p cid us u d = d
     \<lparr>route_points_t := route_points_t d @ map2 (new_route_point cid) (cp_RoutePoints p) us,
      payments_t := payments_t d @
        (case cp_Payment p of None \<Rightarrow> [] | Some pay \<Rightarrow> [new_payment cid pay u])\<rparr>"

text \<open>The transaction after the cargo itself has been inserted.\<close>

definition create_rest :: "CreateParams \<Rightarrow> uuid \<Rightarrow> tx \<Rightarrow> ('z, err + uuid) prog" where
  "create_rest p cid t = do {
     (r, t) \<leftarrow> insert_route_points cid (cp_RoutePoints p) t;
     (case r of
        Inl e \<Rightarrow> ret (Inl e)
      | Inr _ \<Rightarrow> do {
          (r, t) \<leftarrow> insert_payment_opt cid (cp_Payment p) t;
          (case r of
             Inl e \<Rightarrow> ret (Inl e)
           | Inr _ \<Rightarrow> do {
               r \<leftarrow> tx_commit t;
               ret (case r of Inl e \<Rightarrow> Inl e | Inr _ \<Rightarrow> Inr cid)
             })
        })
   }"

lemma cargo_Create_eq:
  "cargo_Create E p = do {
     b \<leftarrow> tx_begin;
     (case b of
        Inl e \<Rightarrow> ret (Inl e)
      | Inr t \<Rightarrow> do {
          (r, t) \<leftarrow> tx_exec t (insert_cargo E p);
          (case r of Inl e \<Rightarrow> ret (Inl e) | Inr cid \<Rightarrow> create_rest p cid t)
        })
   }"
  by (simp only: cargo_Create_def create_rest_def)

lemma create_rest_outcome:
  assumes "run (create_rest p cid t) w = (r, w')" and "\<not> tx_failed t"
  shows "(\<exists>e. w_db w' = w_db w \<and> r = Inl e)
       \<or> (\<exists>us u. length us = length (cp_RoutePoints p) \<and> (r = Inr cid \<or> r = Inl ConnError)
            \<and> w_db w' = add_details p cid us u (tx_db t))"
  using assms(1) unfolding create_rest_def
proof (cases rule: run_block_elim)
  case (stop e t1)
  then show ?thesis by (auto dest: insert_route_points_world)
next
  case 1: (step _ t1 w1)
  then obtain us where t1: "\<not> tx_failed t1" and us: "length us = length (cp_RoutePoints p)"
    and d1: "tx_db t1 = (tx_db t)\<lparr>route_points_t :=
      route_points_t (tx_db t) @ map2 (new_route_point cid) (cp_RoutePoints p) us\<rparr>"
    and w1: "w_db w1 = w_db w"
    using assms(2) by (auto dest: insert_route_points_world insert_route_points_Inr)
  from 1(2) show ?thesis
  proof (cases rule: run_block_elim)
    case (stop e t2)
    then show ?thesis using w1 by (auto dest: insert_payment_opt_world)
  next
    case 2: (step _ t2 w2)
    from insert_payment_opt_Inr [OF 2(1) t1] insert_payment_opt_world [OF 2(1)] w1
    obtain u where t2: "\<not> tx_failed t2" and w2: "w_db w2 = w_db w"
      and d2: "tx_db t2 = (tx_db t1)\<lparr>payments_t := payments_t (tx_db t1) @
        (case cp_Payment p of None \<Rightarrow> [] | Some pay \<Rightarrow> [new_payment cid pay u])\<rparr>"
      by auto
    have "tx_db t2 = add_details p cid us u (tx_db t)" by (simp add: add_details_def d1 d2)
    moreover have "w_db w' = w_db w \<and> (\<exists>e. r = Inl e)
        \<or> w_db w' = tx_db t2 \<and> (r = Inr cid \<or> r = Inl ConnError)"
      using 2(2) t2 w2 by (auto simp: run_tx_commit split: fault.splits prod.splits)
    ultimately show ?thesis using us by metis
  qed
qed

text \<open>
  \<open>stored E p cid now d d'\<close>: \<open>d'\<close> is \<open>d\<close> with the cargo, all its route points in order and
  its payment added.
\<close>

definition stored :: "ext \<Rightarrow> CreateParams \<Rightarrow> uuid \<Rightarrow> time \<Rightarrow> db \<Rightarrow> db \<Rightarrow> bool" where
  "stored E p cid now d d' \<longleftrightarrow>
     (\<exists>ready us u. timestamp_arg E (cp_ReadyAt p) = Inr ready
      \<and> cid \<notin> c_id ` set (cargo_t d) \<and> length us = length (cp_RoutePoints p)
      \<and> d' = d\<lparr>cargo_t := cargo_t d @ [new_cargo p ready now cid],
              route_points_t := route_points_t d @ map2 (new_route_point cid) (cp_RoutePoints p) us,
              payments_t := payments_t d @
                (case cp_Payment p of None \<Rightarrow> [] | Some pay \<Rightarrow> [new_payment cid pay u])\<rparr>)"

lemma create_outcome:
  assumes "run (cargo_Create E p) w = (r, w')"
  shows "(w_db w' = w_db w \<and> (\<exists>e. r = Inl e))
       \<or> (\<exists>cid. stored E p cid (w_now w) (w_db w) (w_db w') \<and> (r = Inr cid \<or> r = Inl ConnError))"
proof (cases "next_fault w = Passes")
  case False
  with assms show ?thesis by (auto simp: cargo_Create_def run_tx_begin)
next
  case True
  with assms have "run (do {
      (r, t) \<leftarrow> tx_exec \<lparr>tx_db = w_db w, tx_failed = False\<rparr> (insert_cargo E p);
      (case r of Inl e \<Rightarrow> ret (Inl e) | Inr cid \<Rightarrow> create_rest p cid t) }) (tick w) = (r, w')"
    by (simp only: cargo_Create_eq run_transaction simp_thms if_True)
  then show ?thesis
  proof (cases rule: run_block_elim [of "\<lambda>t. tx_exec t (insert_cargo E p)"])
    case (stop e t1)
    then show ?thesis by (auto dest: tx_exec_world)
  next
    case (step cid t1 w1)
    then obtain ready where ready: "timestamp_arg E (cp_ReadyAt p) = Inr ready"
      and cid: "cid \<notin> c_id ` set (cargo_t (w_db w))" and w1: "w1 = tick (tick w)"
      and t1: "tx_db t1 = (w_db w)\<lparr>cargo_t := cargo_t (w_db w) @ [new_cargo p ready (w_now w) cid]\<rparr>"
        "\<not> tx_failed t1"
      by (auto simp: tx_exec_Inr insert_cargo_Inr)
    from create_rest_outcome [OF step(2) t1(2)] show ?thesis
    proof
      assume "\<exists>e. w_db w' = w_db w1 \<and> r = Inl e"
      then show ?thesis by (auto simp: w1)
    next
      assume "\<exists>us u. length us = length (cp_RoutePoints p) \<and> (r = Inr cid \<or> r = Inl ConnError)
        \<and> w_db w' = add_details p cid us u (tx_db t1)"
      then obtain us u where rest: "length us = length (cp_RoutePoints p)" "r = Inr cid \<or> r = Inl ConnError"
        "w_db w' = add_details p cid us u (tx_db t1)" by blast
      have "stored E p cid (w_now w) (w_db w) (w_db w')"
        unfolding stored_def
        by (rule exI [of _ ready], rule exI [of _ us], rule exI [of _ u])
           (simp add: ready cid rest t1 add_details_def)
      with rest show ?thesis by blast
    qed
  qed
qed

text \<open>
  C4: \<open>cargo.Repo.Create\<close> is all or nothing. Whatever fails (the connection, before or after the
  server acted; a check; a duplicate key; an unknown company; a date PostgreSQL cannot read), the
  database afterwards either is unchanged, and the caller has an error, or holds the cargo, every route
  point and the payment; the identifier is returned only in the second case, and the only
  error that leaves the data behind is a lost reply to the commit.
\<close>

theorem create_all_or_nothing:
  "case run (cargo_Create E p) w of (r, w') \<Rightarrow>
     (w_db w' = w_db w \<and> (\<exists>e. r = Inl e))
   \<or> (\<exists>cid. stored E p cid (w_now w) (w_db w) (w_db w') \<and> (r = Inr cid \<or> r = Inl ConnError))"
  using create_outcome [of E p w] by (auto split: prod.splits)

section \<open>Reading it back\<close>

text \<open>The parameters a stored route point and a stored payment came from.\<close>

definition route_point_input :: "RoutePoint \<Rightarrow> RoutePointInput" where
  "route_point_input r =
     \<lparr>ri_Type = rp_Type r, ri_CityCode = rp_CityCode r, ri_RegionCode = rp_RegionCode r,
      ri_Address = rp_Address r, ri_Orientir = rp_Orientir r, ri_Lat = rp_Lat r, ri_Lng = rp_Lng r,
      ri_Comment = rp_Comment r, ri_PointOrder = rp_PointOrder r,
      ri_IsMainLoad = rp_IsMainLoad r, ri_IsMainUnload = rp_IsMainUnload r\<rparr>"

definition payment_input :: "Payment \<Rightarrow> PaymentInput" where
  "payment_input r =
     \<lparr>pi_IsNegotiable = p_is_negotiable r, pi_PriceRequest = p_price_request r,
      pi_TotalAmount = p_total_amount r, pi_TotalCurrency = p_total_currency r,
      pi_WithPrepayment = p_with_prepayment r, pi_WithoutPrepayment = p_without_prepayment r,
      pi_PrepaymentAmount = p_prepayment_amount r,
      pi_PrepaymentCurrency = p_prepayment_currency r,
      pi_PrepaymentType = p_prepayment_type r, pi_RemainingAmount = p_remaining_amount r,
      pi_RemainingCurrency = p_remaining_currency r, pi_RemainingType = p_remaining_type r\<rparr>"

lemma route_point_input_new [simp]:
  "route_point_input (scan_route_point (new_route_point cid rp u)) = rp"
  by (simp add: route_point_input_def scan_route_point_def new_route_point_def)

lemma payment_input_new [simp]: "payment_input (new_payment cid p u) = p"
  by (simp add: payment_input_def new_payment_def)

lemma scanCargo_documents [simp]:
  "c_documents (scanCargo (new_cargo p ready now u)) = cp_Documents p"
  by (simp add: scanCargo_def new_cargo_def DocumentsFromJSON_ToJSON)

text \<open>Nothing in a consistent database refers to an identifier that is not in use.\<close>

lemma unused_cargo_id:
  assumes "schema_ok d" and "cid \<notin> c_id ` set (cargo_t d)"
  shows "cid \<notin> r_cargo_id ` set (route_points_t d)" and "cid \<notin> p_cargo_id ` set (payments_t d)"
  using assms unfolding schema_ok_def references_ok_def by blast+

lemma map2_new_points:
  "length us = length rps \<Longrightarrow> map (\<lambda>r. route_point_input (scan_route_point r)) (map2 (new_route_point cid) rps us) = rps"
  by (induction rps us rule: list_induct2') simp_all

lemma map2_new_points_cargo: "r \<in> set (map2 (new_route_point cid) rps us) \<Longrightarrow> r_cargo_id r = cid"
  by (auto simp: new_route_point_def dest: set_zip_leftD)

lemma stored_reads:
  assumes ok: "schema_ok d" and st: "stored E p cid now d d'"
  obtains ready where "timestamp_arg E (cp_ReadyAt p) = Inr ready"
    and "find_cargo cid False d' = Some (new_cargo p ready now cid)"
    and "map route_point_input (map scan_route_point (order_asc r_point_order
           (select_where (\<lambda>r. r_cargo_id r = cid) (route_points_t d'))))
         = order_asc ri_PointOrder (cp_RoutePoints p)"
    and "map_option payment_input (first_where (\<lambda>r. p_cargo_id r = cid) (payments_t d')) = cp_Payment p"
proof -
  from st obtain ready us u where ready: "timestamp_arg E (cp_ReadyAt p) = Inr ready"
    and cid: "cid \<notin> c_id ` set (cargo_t d)" and us: "length us = length (cp_RoutePoints p)"
    and d': "d' = d\<lparr>cargo_t := cargo_t d @ [new_cargo p ready now cid],
       route_points_t := route_points_t d @ map2 (new_route_point cid) (cp_RoutePoints p) us,
       payments_t := payments_t d @
         (case cp_Payment p of None \<Rightarrow> [] | Some pay \<Rightarrow> [new_payment cid pay u])\<rparr>"
    by (auto simp: stored_def)
  note unused = unused_cargo_id [OF ok cid]
  have "first_where (\<lambda>c. c_id c = cid \<and> c_deleted_at c = None) (cargo_t d @ [new_cargo p ready now cid])
      = Some (new_cargo p ready now cid)"
    using cid by (auto simp: first_where_append first_where_Cons new_cargo_def split: option.splits
        dest: first_where_Some)
  then have 1: "find_cargo cid False d' = Some (new_cargo p ready now cid)"
    by (simp add: find_cargo_def d')
  have "select_where (\<lambda>r. r_cargo_id r = cid) (route_points_t d')
      = map2 (new_route_point cid) (cp_RoutePoints p) us"
    unfolding d' by (simp, rule select_fresh [OF unused(1) map2_new_points_cargo])
  moreover have "map (route_point_input \<circ> scan_route_point) (sort_key r_point_order rs)
      = sort_key ri_PointOrder (map (route_point_input \<circ> scan_route_point) rs)" for rs
    using map_sort_key [of "route_point_input \<circ> scan_route_point" ri_PointOrder rs]
    by (simp add: route_point_input_def scan_route_point_def)
  ultimately have 2: "map route_point_input (map scan_route_point (order_asc r_point_order
       (select_where (\<lambda>r. r_cargo_id r = cid) (route_points_t d'))))
     = order_asc ri_PointOrder (cp_RoutePoints p)"
    using map2_new_points [OF us] by (simp add: order_asc_def comp_def)
  have 3: "map_option payment_input (first_where (\<lambda>r. p_cargo_id r = cid) (payments_t d')) = cp_Payment p"
    by (simp add: d' first_where_fresh [OF unused(2)])
       (auto simp: first_where_def new_payment_def payment_input_def split: option.splits)
  from that [OF ready 1 2 3] show ?thesis .
qed

lemma run_GetByID_reliable:
  "reliable w \<Longrightarrow> fst (run (cargo_GetByID u b) w) =
     (case find_cargo u b (w_db w) of None \<Rightarrow> Inl NoRows | Some c \<Rightarrow> Inr (Some (scanCargo c)))"
  by (simp add: cargo_GetByID_def split: option.splits)

lemma run_GetRoutePoints_reliable:
  "reliable w \<Longrightarrow> fst (run (cargo_GetRoutePoints cid) w) = Inr (map scan_route_point
     (order_asc r_point_order (select_where (\<lambda>r. r_cargo_id r = cid) (route_points_t (w_db w)))))"
  by (simp add: cargo_GetRoutePoints_def)

lemma run_GetPayment_reliable:
  "reliable w \<Longrightarrow> fst (run (cargo_GetPayment cid) w) =
     Inr (first_where (\<lambda>p. p_cargo_id p = cid) (payments_t (w_db w)))"
  by (cases "first_where (\<lambda>p. p_cargo_id p = cid) (payments_t (w_db w))")
     (simp_all add: cargo_GetPayment_def no_rows_nil_def)

text \<open>
  C11: a cargo that was created is read back as it was given: \<open>GetByID\<close> returns the columns of the
  insertion with the documents decoded to the same pointers, \<open>GetRoutePoints\<close> the route points in the
  order of their numbers, \<open>GetPayment\<close> the payment or nil when there was none.
\<close>

theorem create_read_back:
  assumes "schema_ok (w_db w)" and "run (cargo_Create E p) w = (Inr cid, w')" and "reliable w'"
  shows "\<exists>ready c pts pay. timestamp_arg E (cp_ReadyAt p) = Inr ready
       \<and> fst (run (cargo_GetByID cid False) w') = Inr (Some c)
       \<and> c = scanCargo (new_cargo p ready (w_now w) cid) \<and> c_documents c = cp_Documents p
       \<and> fst (run (cargo_GetRoutePoints cid) w') = Inr pts
       \<and> map route_point_input pts = order_asc ri_PointOrder (cp_RoutePoints p)
       \<and> fst (run (cargo_GetPayment cid) w') = Inr pay
       \<and> map_option payment_input pay = cp_Payment p"
proof -
  from create_outcome [OF assms(2)] have "stored E p cid (w_now w) (w_db w) (w_db w')" by auto
  from stored_reads [OF assms(1) this] show ?thesis
    by (metis (no_types, lifting) assms(3) option.simps(5) run_GetByID_reliable
        run_GetPayment_reliable run_GetRoutePoints_reliable scanCargo_documents)
qed

lemma sample_create:
  "\<exists>w'. run (cargo_Create sample_ext sample_params) (world0 False) = (Inr 1, w') \<and> reliable w'"
  by (simp add: cargo_Create_def sample_params_def sample_point_def world0_def empty_db_def
      insert_payment_opt_def insert_cargo_def insert_route_point_def insert_payment_def
      timestamp_arg_def sample_ext_def int4_arg_def in_int4_def cargo_checks_def new_cargo_def
      cargo_status_check_def created_by_type_check_def weight_check_def exists_where_def
      company_exists_def cargo_exists_def route_point_fits_def new_route_point_def varchar_ok_def
      emptyToNil_def continuation_byte_def route_point_type_check_def sql_trim_def nullif_empty_def
      fresh_id_def Let_def)

theorem create_read_back_witness:
  "\<exists>w' c. run (cargo_Create sample_ext sample_params) (world0 False) = (Inr 1, w')
     \<and> fst (run (cargo_GetByID 1 False) w') = Inr (Some c) \<and> c_documents c = Some sample_documents"
proof -
  obtain w' where run: "run (cargo_Create sample_ext sample_params) (world0 False) = (Inr 1, w')"
    and "reliable w'"
    using sample_create by blast
  from create_read_back [OF _ run this(2)] run show ?thesis
    by (fastforce simp: world0_def schema_ok_empty sample_params_def)
qed

end
