(* ===== verification/Trips_Repo.thy ===== *)
theory Trips_Repo
  imports Cargo_Integrity
begin

text \<open>
  The trips repository (\<open>internal/trips\<close>) and the recommendations repository
  (\<open>internal/cargorecommendations\<close>), with the integrity lemmas for their statements.
\<close>

section \<open>Trips\<close>

definition TripPendingDriver :: string where [simp]: "TripPendingDriver = ''PENDING_DRIVER''"
definition TripAssigned :: string where [simp]: "TripAssigned = ''ASSIGNED''"
definition TripLoading :: string where [simp]: "TripLoading = ''LOADING''"
definition TripEnRoute :: string where [simp]: "TripEnRoute = ''EN_ROUTE''"
definition TripUnloading :: string where [simp]: "TripUnloading = ''UNLOADING''"
definition TripCompleted :: string where [simp]: "TripCompleted = ''COMPLETED''"
definition TripCancelled :: string where [simp]: "TripCancelled = ''CANCELLED''"

definition ErrNotFound :: err where "ErrNotFound = Err ''trip not found''"
definition ErrInvalidTransition :: err where
  "ErrInvalidTransition = Err ''invalid status transition''"

text \<open>A key that is absent from the Go map yields a nil slice, like the keys mapped to nil.\<close>

definition allowedTransitions :: "string \<Rightarrow> string list" where
  "allowedTransitions s = (case map_of
     [(TripPendingDriver, [TripAssigned, TripCancelled]),
      (TripAssigned, [TripLoading, TripCancelled]),
      (TripLoading, [TripEnRoute, TripCancelled]),
      (TripEnRoute, [TripUnloading]),
      (TripUnloading, [TripCompleted]),
      (TripCompleted, []),
      (TripCancelled, [])] s of None \<Rightarrow> [] | Some l \<Rightarrow> l)"

definition offer_exists :: "db \<Rightarrow> uuid \<Rightarrow> bool" where
  "offer_exists d u = exists_where (\<lambda>q. o_id q = u) (offers_t d)"

definition driver_exists :: "db \<Rightarrow> uuid \<Rightarrow> bool" where
  "driver_exists d u = exists_where (\<lambda>r. d_id r = u) (drivers_t d)"

definition new_trip :: "uuid \<Rightarrow> uuid \<Rightarrow> time \<Rightarrow> uuid \<Rightarrow> Trip" where
  "new_trip cargoID offerID now u =
     \<lparr>t_id = u, t_cargo_id = cargoID, t_offer_id = offerID, t_driver_id = None,
      t_status = TripPendingDriver, t_created_at = now, t_updated_at = now\<rparr>"

definition insert_trip :: "uuid \<Rightarrow> uuid \<Rightarrow> uuid stmt" where
  "insert_trip cargoID offerID = (\<lambda>now u d.
     if exists_where (\<lambda>t. t_id t = u) (trips_t d) then Inl UniqueViolation
     else if \<not> cargo_exists d cargoID \<or> \<not> offer_exists d offerID then Inl FKViolation
     else Inr (u, d\<lparr>trips_t := trips_t d @ [new_trip cargoID offerID now u]\<rparr>))"

text \<open>An \<open>UPDATE\<close> of trips checks the status and the reference to the driver.\<close>

definition trip_row_ok :: "db \<Rightarrow> Trip \<Rightarrow> err option" where
  "trip_row_ok d t =
     (if \<not> trips_status_check (t_status t) then Some CheckViolation
      else (case t_driver_id t of None \<Rightarrow> None
            | Some u \<Rightarrow> if driver_exists d u then None else Some FKViolation))"

definition update_trips :: "(Trip \<Rightarrow> bool) \<Rightarrow> (time \<Rightarrow> Trip \<Rightarrow> Trip) \<Rightarrow> nat stmt" where
  "update_trips P f = (\<lambda>now u d.
     case first_where (\<lambda>e. e \<noteq> None)
            (map (\<lambda>t. trip_row_ok d (f now t)) (select_where P (trips_t d))) of
       Some (Some e) \<Rightarrow> Inl e
     | _ \<Rightarrow> Inr (count_where P (trips_t d),
                 d\<lparr>trips_t := update_where P (f now) (trips_t d)\<rparr>))"

definition trips_Create :: "uuid \<Rightarrow> uuid \<Rightarrow> ('z, err + uuid) prog" where
  "trips_Create cargoID offerID = pg_call (insert_trip cargoID offerID)"

definition trips_GetByID :: "uuid \<Rightarrow> ('z, err + Trip option) prog" where
  "trips_GetByID u = do {
     r \<leftarrow> pg_query_row (q_read (\<lambda>d. first_where (\<lambda>t. t_id t = u) (trips_t d)));
     ret (no_rows_nil r)
   }"

definition trips_GetByOfferID :: "uuid \<Rightarrow> ('z, err + Trip option) prog" where
  "trips_GetByOfferID offerID = do {
     r \<leftarrow> pg_query_row (q_read (\<lambda>d. first_where (\<lambda>t. t_offer_id t = offerID) (trips_t d)));
     ret (no_rows_nil r)
   }"

definition trips_GetByCargoID :: "uuid \<Rightarrow> ('z, err + Trip option) prog" where
  "trips_GetByCargoID cargoID = do {
     r \<leftarrow> pg_query_row (q_read (\<lambda>d. first_where (\<lambda>_. True)
            (page_of 1 0 (order_desc t_created_at
               (select_where (\<lambda>t. t_cargo_id t = cargoID) (trips_t d))))));
     ret (no_rows_nil r)
   }"

definition trip_in_status :: "uuid \<Rightarrow> string \<Rightarrow> Trip \<Rightarrow> bool" where
  "trip_in_status u s t \<longleftrightarrow> t_id t = u \<and> t_status t = s"

definition trips_AssignDriver :: "uuid \<Rightarrow> uuid \<Rightarrow> ('z, err + unit) prog" where
  "trips_AssignDriver tripID driverID = do {
     r \<leftarrow> pg_call (update_trips (trip_in_status tripID TripPendingDriver)
            (\<lambda>now t. t\<lparr>t_driver_id := Some driverID, t_updated_at := now\<rparr>));
     ret (require_row ErrNotFound r)
   }"

definition trips_DriverConfirm :: "uuid \<Rightarrow> uuid \<Rightarrow> ('z, err + unit) prog" where
  "trips_DriverConfirm tripID driverID = do {
     r \<leftarrow> pg_call (update_trips
            (\<lambda>t. trip_in_status tripID TripPendingDriver t \<and> t_driver_id t = Some driverID)
            (\<lambda>now t. t\<lparr>t_status := TripAssigned, t_updated_at := now\<rparr>));
     ret (require_row ErrNotFound r)
   }"

definition trips_DriverReject :: "uuid \<Rightarrow> uuid \<Rightarrow> ('z, err + unit) prog" where
  "trips_DriverReject tripID driverID = do {
     r \<leftarrow> pg_call (update_trips
            (\<lambda>t. trip_in_status tripID TripPendingDriver t \<and> t_driver_id t = Some driverID)
            (\<lambda>now t. t\<lparr>t_driver_id := None, t_updated_at := now\<rparr>));
     ret (require_row ErrNotFound r)
   }"

definition trips_SetStatus :: "uuid \<Rightarrow> string \<Rightarrow> ('z, err + unit) prog" where
  "trips_SetStatus tripID newStatus = do {
     x \<leftarrow> trips_GetByID tripID;
     (case x of
        Inl e \<Rightarrow> ret (Inl ErrNotFound)
      | Inr None \<Rightarrow> ret (Inl ErrNotFound)
      | Inr (Some t) \<Rightarrow>
          (if list_ex (\<lambda>s. s = newStatus) (allowedTransitions (t_status t))
           then do {
             r \<leftarrow> pg_call (update_trips (\<lambda>t. t_id t = tripID)
                    (\<lambda>now t. t\<lparr>t_status := newStatus, t_updated_at := now\<rparr>));
             ret (ignore_count r)
           }
           else ret (Inl ErrInvalidTransition)))
   }"

definition trips_ListByDriver :: "uuid \<Rightarrow> int \<Rightarrow> ('z, err + Trip list) prog" where
  "trips_ListByDriver driverID limit =
     (let limit = (if limit \<le> 0 then 50 else limit)
      in pg_call (q_read (\<lambda>d. page_of limit 0 (order_desc t_created_at
           (select_where (\<lambda>t. t_driver_id t = Some driverID) (trips_t d))))))"

definition trips_ListByCargoIDs :: "uuid list \<Rightarrow> ('z, err + Trip list) prog" where
  "trips_ListByCargoIDs cargoIDs =
     (if cargoIDs = [] then ret (Inr [])
      else pg_call (q_read (\<lambda>d. order_desc t_created_at
             (select_where (\<lambda>t. t_cargo_id t \<in> set cargoIDs) (trips_t d)))))"

section \<open>Recommendations\<close>

definition statusPending :: string where [simp]: "statusPending = ''PENDING''"
definition statusAccepted :: string where [simp]: "statusAccepted = ''ACCEPTED''"
definition statusDeclined :: string where [simp]: "statusDeclined = ''DECLINED''"

definition dispatcher_exists :: "db \<Rightarrow> uuid \<Rightarrow> bool" where
  "dispatcher_exists d u = exists_where (\<lambda>r. fd_id r = u) (dispatchers_t d)"

definition recommendation_of :: "uuid \<Rightarrow> uuid \<Rightarrow> Recommendation \<Rightarrow> bool" where
  "recommendation_of cargoID driverID r \<longleftrightarrow> rec_cargo_id r = cargoID \<and> rec_driver_id r = driverID"

text \<open>\<open>INSERT .. ON CONFLICT (cargo_id, driver_id) DO UPDATE SET ..\<close>.\<close>

definition upsert_recommendation :: "uuid \<Rightarrow> uuid \<Rightarrow> uuid \<Rightarrow> unit stmt" where
  "upsert_recommendation cargoID driverID dispatcherID = (\<lambda>now u d.
     if exists_where (recommendation_of cargoID driverID) (recommendations_t d)
     then (if dispatcher_exists d dispatcherID
           then Inr ((), d\<lparr>recommendations_t := update_where (recommendation_of cargoID driverID)
                  (\<lambda>r. r\<lparr>rec_invited_by_dispatcher_id := dispatcherID, rec_status := statusPending\<rparr>)
                  (recommendations_t d)\<rparr>)
           else Inl FKViolation)
     else if exists_where (\<lambda>r. rec_id r = u) (recommendations_t d) then Inl UniqueViolation
     else if \<not> cargo_exists d cargoID \<or> \<not> driver_exists d driverID \<or> \<not> dispatcher_exists d dispatcherID
     then Inl FKViolation
     else Inr ((), d\<lparr>recommendations_t := recommendations_t d @
            [\<lparr>rec_id = u, rec_cargo_id = cargoID, rec_driver_id = driverID,
              rec_invited_by_dispatcher_id = dispatcherID, rec_status = statusPending,
              rec_created_at = now\<rparr>]\<rparr>))"

definition recs_Create :: "uuid \<Rightarrow> uuid \<Rightarrow> uuid \<Rightarrow> ('z, err + unit) prog" where
  "recs_Create cargoID driverID dispatcherID =
     pg_call (upsert_recommendation cargoID driverID dispatcherID)"

definition recs_GetByCargoAndDriver :: "uuid \<Rightarrow> uuid \<Rightarrow> ('z, err + Recommendation option) prog" where
  "recs_GetByCargoAndDriver cargoID driverID = do {
     r \<leftarrow> pg_query_row (q_read (\<lambda>d.
            first_where (recommendation_of cargoID driverID) (recommendations_t d)));
     ret (no_rows_nil r)
   }"

definition recs_ListByDriver :: "uuid \<Rightarrow> int \<Rightarrow> ('z, err + Recommendation list) prog" where
  "recs_ListByDriver driverID limit =
     (let limit = (if limit \<le> 0 then 50 else limit)
      in pg_call (q_read (\<lambda>d. page_of limit 0 (order_desc rec_created_at
           (select_where (\<lambda>r. rec_driver_id r = driverID \<and> rec_status r = statusPending)
              (recommendations_t d))))))"

definition set_recommendation :: "uuid \<Rightarrow> uuid \<Rightarrow> string \<Rightarrow> nat stmt" where
  "set_recommendation cargoID driverID status = q_write (\<lambda>now d.
     let P = (\<lambda>r. recommendation_of cargoID driverID r \<and> rec_status r = statusPending)
     in (count_where P (recommendations_t d),
         d\<lparr>recommendations_t := update_where P (\<lambda>r. r\<lparr>rec_status := status\<rparr>) (recommendations_t d)\<rparr>))"

definition affected :: "err + nat \<Rightarrow> err + bool" where
  "affected r = (case r of Inl e \<Rightarrow> Inl e | Inr n \<Rightarrow> Inr (n > 0))"

definition recs_Accept :: "uuid \<Rightarrow> uuid \<Rightarrow> ('z, err + bool) prog" where
  "recs_Accept cargoID driverID = do {
     r \<leftarrow> pg_call (set_recommendation cargoID driverID statusAccepted);
     ret (affected r)
   }"

definition recs_Decline :: "uuid \<Rightarrow> uuid \<Rightarrow> ('z, err + bool) prog" where
  "recs_Decline cargoID driverID = do {
     r \<leftarrow> pg_call (set_recommendation cargoID driverID statusDeclined);
     ret (affected r)
   }"

section \<open>Integrity\<close>

lemma update_trips_Inr:
  "update_trips P f now u d = Inr (n, d') \<longleftrightarrow>
     (\<forall>t \<in> set (trips_t d). P t \<longrightarrow> trip_row_ok d (f now t) = None)
   \<and> n = count_where P (trips_t d) \<and> d' = d\<lparr>trips_t := update_where P (f now) (trips_t d)\<rparr>"
  by (auto simp: update_trips_def table_simps split: option.splits dest: first_where_Some)

lemma schema_update_trips:
  assumes ids: "\<And>now t. t_id (f now t) = t_id t" "\<And>now t. t_cargo_id (f now t) = t_cargo_id t"
    "\<And>now t. t_offer_id (f now t) = t_offer_id t"
  shows "stmt_keeps schema_ok (update_trips P f)"
proof (rule stmt_keepsI)
  fix now u d n d'
  assume ok: "schema_ok d" and q: "update_trips P f now u d = Inr (n, d')"
  let ?t = "update_where P (f now) (trips_t d)"
  from q have d': "d' = d\<lparr>trips_t := ?t\<rparr>"
    and new: "\<And>t. t \<in> set (trips_t d) \<Longrightarrow> P t \<Longrightarrow> trip_row_ok d (f now t) = None"
    by (auto simp: update_trips_Inr)
  have new': "trips_status_check (t_status (f now t))"
      "t_driver_id (f now t) = Some v \<Longrightarrow> v \<in> d_id ` set (drivers_t d)"
    if "t \<in> set (trips_t d)" "P t" for t v
    using new [OF that] by (auto simp: trip_row_ok_def driver_exists_def table_simps split: if_splits)
  have map: "map t_id ?t = map t_id (trips_t d)" by (rule map_update_where) (rule ids)
  have "keys_ok d'" using ok by (simp add: d' map schema_ok_def keys_ok_def)
  moreover have "references_ok d'"
    using ok ids new'(2) by (auto simp: d' schema_ok_def references_ok_def ball_update_where)
  moreover have "checks_ok d'"
    using ok new'(1) by (auto simp: d' schema_ok_def checks_ok_def ball_update_where
        weight_check_def route_point_type_check_def)
  ultimately show "schema_ok d'" by (simp add: schema_ok_def)
qed

lemma schema_insert_trip: "stmt_keeps schema_ok (insert_trip cargoID offerID)"
proof (rule stmt_keepsI)
  fix now u d v d'
  assume ok: "schema_ok d" and q: "insert_trip cargoID offerID now u d = Inr (v, d')"
  let ?t = "new_trip cargoID offerID now u"
  from q have d': "d' = d\<lparr>trips_t := trips_t d @ [?t]\<rparr>" and fresh: "u \<notin> t_id ` set (trips_t d)"
    and fk: "cargo_exists d cargoID" "offer_exists d offerID"
    by (auto simp: insert_trip_def table_simps split: if_splits)
  have new: "t_id ?t = u" "t_cargo_id ?t = cargoID" "t_offer_id ?t = offerID" "t_driver_id ?t = None"
    "t_status ?t = ''PENDING_DRIVER''" by (simp_all add: new_trip_def)
  have "keys_ok d'" using ok fresh by (auto simp: d' new schema_ok_def keys_ok_def)
  moreover have "references_ok d'"
    using ok fk by (auto simp: d' new schema_ok_def references_ok_def cargo_exists_def
        offer_exists_def table_simps)
  moreover have "checks_ok d'"
    using ok by (auto simp: d' new schema_ok_def checks_ok_def trips_status_check_def
        weight_check_def route_point_type_check_def)
  ultimately show "schema_ok d'" by (simp add: schema_ok_def)
qed

lemma schema_recommendations:
  assumes ok: "schema_ok d"
    and ids: "distinct (map rec_id rs)" "distinct (map (\<lambda>r. (rec_cargo_id r, rec_driver_id r)) rs)"
    and refs: "\<And>r. r \<in> set rs \<Longrightarrow> rec_cargo_id r \<in> c_id ` set (cargo_t d)
      \<and> rec_driver_id r \<in> d_id ` set (drivers_t d)
      \<and> rec_invited_by_dispatcher_id r \<in> fd_id ` set (dispatchers_t d)"
  shows "schema_ok (d\<lparr>recommendations_t := rs\<rparr>)"
  using assms by (simp add: schema_defs weight_check_def route_point_type_check_def)

lemma schema_upsert_recommendation: "stmt_keeps schema_ok (upsert_recommendation c dr di)"
proof (rule stmt_keepsI)
  fix now u d v d'
  assume ok: "schema_ok d" and q: "upsert_recommendation c dr di now u d = Inr (v, d')"
  let ?P = "recommendation_of c dr"
  show "schema_ok d'"
  proof (cases "exists_where ?P (recommendations_t d)")
    case True
    let ?f = "\<lambda>r. r\<lparr>rec_invited_by_dispatcher_id := di, rec_status := statusPending\<rparr>"
    from q True have d': "d' = d\<lparr>recommendations_t := update_where ?P ?f (recommendations_t d)\<rparr>"
      and di: "dispatcher_exists d di"
      by (auto simp: upsert_recommendation_def split: if_splits)
    have "map rec_id (update_where ?P ?f (recommendations_t d)) = map rec_id (recommendations_t d)"
      "map (\<lambda>r. (rec_cargo_id r, rec_driver_id r)) (update_where ?P ?f (recommendations_t d))
         = map (\<lambda>r. (rec_cargo_id r, rec_driver_id r)) (recommendations_t d)"
      by (rule map_update_where, simp)+
    with ok di show ?thesis unfolding d'
      by (intro schema_recommendations)
         (auto simp: schema_ok_def keys_ok_def references_ok_def dispatcher_exists_def table_simps)
  next
    case False
    with q ok show ?thesis
      by (auto simp: upsert_recommendation_def split: if_splits intro!: schema_recommendations)
         (auto simp: schema_ok_def keys_ok_def references_ok_def dispatcher_exists_def
            cargo_exists_def driver_exists_def recommendation_of_def table_simps)
  qed
qed

lemma schema_set_recommendation: "stmt_keeps schema_ok (set_recommendation c dr s)"
proof (rule stmt_keepsI)
  fix now u d v d'
  assume ok: "schema_ok d" and q: "set_recommendation c dr s now u d = Inr (v, d')"
  let ?P = "\<lambda>r. recommendation_of c dr r \<and> rec_status r = statusPending"
  let ?t = "update_where ?P (\<lambda>r. r\<lparr>rec_status := s\<rparr>) (recommendations_t d)"
  from q have d': "d' = d\<lparr>recommendations_t := ?t\<rparr>" by (simp add: set_recommendation_def Let_def)
  have "map rec_id ?t = map rec_id (recommendations_t d)"
    "map (\<lambda>r. (rec_cargo_id r, rec_driver_id r)) ?t
       = map (\<lambda>r. (rec_cargo_id r, rec_driver_id r)) (recommendations_t d)"
    by (rule map_update_where, simp)+
  with ok show "schema_ok d'" unfolding d'
    by (intro schema_recommendations)
       (auto simp: schema_ok_def keys_ok_def references_ok_def table_simps)
qed

lemma schema_trip_writers:
  "keeps_db schema_ok (trips_Create c q)" "keeps_db schema_ok (trips_AssignDriver t u)"
  "keeps_db schema_ok (trips_DriverConfirm t u)" "keeps_db schema_ok (trips_DriverReject t u)"
  "keeps_db schema_ok (trips_SetStatus t s)"
  unfolding trips_Create_def trips_AssignDriver_def trips_DriverConfirm_def trips_DriverReject_def
    trips_SetStatus_def trips_GetByID_def
  by (intro keeps_intro schema_insert_trip schema_update_trips; simp)+

lemma schema_rec_writers:
  "keeps_db schema_ok (recs_Create c u v)" "keeps_db schema_ok (recs_Accept c u)"
  "keeps_db schema_ok (recs_Decline c u)"
  unfolding recs_Create_def recs_Accept_def recs_Decline_def
  by (intro keeps_intro schema_upsert_recommendation schema_set_recommendation)+

end
