(* ===== verification/Drivers_Repo.thy ===== *)
theory Drivers_Repo
  imports Trips_Repo
begin

text \<open>
  The drivers repository (\<open>internal/drivers\<close>): a driver is spread over the tables
  \<open>drivers\<close>, \<open>driver_powers\<close> and \<open>driver_trailers\<close> and read as one struct; the identifiers
  in the struct are strings.
\<close>

record Driver =
  dr_ID :: string
  dr_Phone :: string
  dr_CreatedAt :: time
  dr_UpdatedAt :: time
  dr_LastOnlineAt :: "time option"
  dr_Latitude :: "float64 option"
  dr_Longitude :: "float64 option"
  dr_PushToken :: "string option"
  dr_RegistrationStep :: "string option"
  dr_RegistrationStatus :: "string option"
  dr_Name :: "string option"
  dr_DriverType :: "string option"
  dr_Rating :: "float64 option"
  dr_WorkStatus :: "string option"
  dr_FreelancerID :: "string option"
  dr_CompanyID :: "string option"
  dr_AccountStatus :: "string option"
  dr_DriverPassportSeries :: "string option"
  dr_DriverPassportNumber :: "string option"
  dr_DriverPINFL :: "string option"
  dr_DriverScanStatus :: "bool option"
  dr_PowerPlateType :: "string option"
  dr_PowerPlateNumber :: "string option"
  dr_PowerTechSeries :: "string option"
  dr_PowerTechNumber :: "string option"
  dr_PowerOwnerID :: "string option"
  dr_PowerOwnerName :: "string option"
  dr_PowerScanStatus :: "bool option"
  dr_TrailerPlateType :: "string option"
  dr_TrailerPlateNumber :: "string option"
  dr_TrailerTechSeries :: "string option"
  dr_TrailerTechNumber :: "string option"
  dr_TrailerOwnerID :: "string option"
  dr_TrailerOwnerName :: "string option"
  dr_TrailerScanStatus :: "bool option"
  dr_DriverOwner :: "bool option"
  dr_KYCStatus :: "string option"
  dr_HasPhoto :: bool

definition DriverErrNotFound :: err where "DriverErrNotFound = Err ''driver not found''"
definition ErrPhoneAlreadyRegistered :: err where
  "ErrPhoneAlreadyRegistered = Err ''phone already registered''"
definition ErrDeleteNotFound :: err where "ErrDeleteNotFound = Err ''driver to delete not found''"

section \<open>Reading\<close>

text \<open>A \<open>LEFT JOIN\<close> on a unique column: the matching row or nulls.\<close>

definition join_col :: "('r \<Rightarrow> 'a option) \<Rightarrow> 'r option \<Rightarrow> 'a option" where
  "join_col f r = (case r of None \<Rightarrow> None | Some x \<Rightarrow> f x)"

definition scanDriver :: "ext \<Rightarrow> db \<Rightarrow> driver_row \<Rightarrow> Driver" where
  "scanDriver E db d =
     (let p = first_where (\<lambda>r. pw_driver_id r = d_id d) (powers_t db);
          t = first_where (\<lambda>r. tr_driver_id r = d_id d) (trailers_t db)
      in \<lparr>dr_ID = uuid_string E (d_id d), dr_Phone = d_phone d,
          dr_CreatedAt = d_created_at d, dr_UpdatedAt = d_updated_at d,
          dr_LastOnlineAt = d_last_online_at d,
          dr_Latitude = d_latitude d, dr_Longitude = d_longitude d,
          dr_PushToken = d_push_token d,
          dr_RegistrationStep = d_registration_step d,
          dr_RegistrationStatus = d_registration_status d, dr_Name = d_name d,
          dr_DriverType = d_driver_type d, dr_Rating = d_rating d, dr_WorkStatus = d_work_status d,
          dr_FreelancerID = map_option (uuid_string E) (d_freelancer_id d),
          dr_CompanyID = map_option (uuid_string E) (d_company_id d),
          dr_AccountStatus = d_account_status d,
          dr_DriverPassportSeries = d_driver_passport_series d,
          dr_DriverPassportNumber = d_driver_passport_number d,
          dr_DriverPINFL = d_driver_pinfl d, dr_DriverScanStatus = d_driver_scan_status d,
          dr_PowerPlateType = join_col pw_plate_type p, dr_PowerPlateNumber = join_col pw_plate_number p,
          dr_PowerTechSeries = join_col pw_tech_series p, dr_PowerTechNumber = join_col pw_tech_number p,
          dr_PowerOwnerID = join_col pw_owner_id p, dr_PowerOwnerName = join_col pw_owner_name p,
          dr_PowerScanStatus = join_col pw_scan_status p,
          dr_TrailerPlateType = join_col tr_plate_type t, dr_TrailerPlateNumber = join_col tr_plate_number t,
          dr_TrailerTechSeries = join_col tr_tech_series t, dr_TrailerTechNumber = join_col tr_tech_number t,
          dr_TrailerOwnerID = join_col tr_owner_id t, dr_TrailerOwnerName = join_col tr_owner_name t,
          dr_TrailerScanStatus = join_col tr_scan_status t,
          dr_DriverOwner = d_driver_owner d, dr_KYCStatus = d_kyc_status d,
          dr_HasPhoto = (d_photo_data d \<noteq> None)\<rparr>)"

definition driver_not_found :: "err + 'a \<Rightarrow> err + 'a" where
  "driver_not_found r = (case r of Inl e \<Rightarrow> Inl (if e = NoRows then DriverErrNotFound else e) | Inr a \<Rightarrow> Inr a)"

definition select_driver :: "ext \<Rightarrow> (driver_row \<Rightarrow> bool) \<Rightarrow> ('z, err + Driver) prog" where
  "select_driver E P = do {
     r \<leftarrow> pg_query_row (q_read (\<lambda>db. map_option (scanDriver E db) (first_where P (drivers_t db))));
     ret (driver_not_found r)
   }"

text \<open>A driver pointer without an error is never nil here, except in \<open>FindByPhoneNormalized\<close>.\<close>

definition drivers_FindByPhone :: "ext \<Rightarrow> string \<Rightarrow> ('z, err + Driver option) prog" where
  "drivers_FindByPhone E phone = do {
     r \<leftarrow> select_driver E (\<lambda>d. d_phone d = phone);
     ret (case r of Inl e \<Rightarrow> Inl e | Inr d \<Rightarrow> Inr (Some d))
   }"

definition drivers_FindByID :: "ext \<Rightarrow> uuid \<Rightarrow> ('z, err + Driver option) prog" where
  "drivers_FindByID E u = do {
     r \<leftarrow> select_driver E (\<lambda>d. d_id d = u);
     ret (case r of Inl e \<Rightarrow> Inl e | Inr d \<Rightarrow> Inr (Some d))
   }"

definition NormalizePhone :: "string \<Rightarrow> string" where
  "NormalizePhone s = TrimPrefix (TrimSpace (remove_char (CHR ''-'') (remove_char (CHR '' '') s))) ''+''"

definition sql_phone_digits :: "string \<Rightarrow> string" where
  "sql_phone_digits s =
     remove_char (CHR ''+'') (remove_char (CHR ''-'') (remove_char (CHR '' '') (sql_trim s)))"

text \<open>
  \<open>scanDriver\<close> has turned \<open>pgx.ErrNoRows\<close> into \<open>ErrNotFound\<close>, which the test
  \<open>errors.Is(err, pgx.ErrNoRows)\<close> of this method does not recognise: no row is an error here too.
\<close>

definition drivers_FindByPhoneNormalized :: "ext \<Rightarrow> string \<Rightarrow> ('z, err + Driver option) prog" where
  "drivers_FindByPhoneNormalized E phone =
     (let norm = NormalizePhone phone
      in if norm = [] then ret (Inr None)
         else do {
           r \<leftarrow> select_driver E (\<lambda>d. sql_phone_digits (d_phone d) = norm);
           ret (no_rows_nil r)
         })"

text \<open>\<open>LIKE\<close> on byte strings: percent, underscore, and backslash as the escape.\<close>

fun sql_like :: "string \<Rightarrow> string \<Rightarrow> bool" where
  "sql_like [] s = (s = [])"
| "sql_like (p # ps) s =
     (if p = CHR ''%'' then
        (case s of [] \<Rightarrow> sql_like ps [] | x # xs \<Rightarrow> sql_like ps s \<or> sql_like (p # ps) xs)
      else if p = CHR ''_'' then (case s of [] \<Rightarrow> False | x # xs \<Rightarrow> sql_like ps xs)
      else if p = CHR 0x5C then
        (case ps of [] \<Rightarrow> False | q # qs \<Rightarrow> (case s of [] \<Rightarrow> False | x # xs \<Rightarrow> x = q \<and> sql_like qs xs))
      else (case s of [] \<Rightarrow> False | x # xs \<Rightarrow> x = p \<and> sql_like ps xs))"

definition drivers_SearchByPhone :: "ext \<Rightarrow> string \<Rightarrow> int \<Rightarrow> ('z, err + Driver list) prog" where
  "drivers_SearchByPhone E phoneSearch limit =
     (let limit = (if limit \<le> 0 then 20 else limit);
          limit = (if limit > 100 then 100 else limit);
          term = TrimSpace (remove_char (CHR ''-'') (remove_char (CHR '' '') phoneSearch));
          key = (\<lambda>d. remove_char (CHR ''-'') (remove_char (CHR '' '') (sql_trim (d_phone d))))
      in if term = [] then ret (Inr [])
         else pg_call (q_read (\<lambda>db. map (scanDriver E db) (page_of limit 0
                (order_desc (\<lambda>d. key d = term) (order_desc d_created_at
                  (select_where (\<lambda>d. sql_like (''%'' @ term @ ''%'') (key d)) (drivers_t db))))))))"

definition drivers_ListByFreelancerID :: "ext \<Rightarrow> uuid \<Rightarrow> int \<Rightarrow> ('z, err + Driver list) prog" where
  "drivers_ListByFreelancerID E freelancerID limit =
     (let limit = (if limit \<le> 0 then 100 else limit)
      in pg_call (q_read (\<lambda>db. map (scanDriver E db) (page_of limit 0 (order_desc d_updated_at
           (select_where (\<lambda>d. d_freelancer_id d = Some freelancerID) (drivers_t db)))))))"

definition drivers_GetPhoto :: "uuid \<Rightarrow> ('z, err + string \<times> string) prog" where
  "drivers_GetPhoto u = do {
     r \<leftarrow> pg_query_row (q_read (\<lambda>db. case first_where (\<lambda>d. d_id d = u \<and> d_photo_data d \<noteq> None) (drivers_t db) of
            None \<Rightarrow> None
          | Some d \<Rightarrow> map_option (\<lambda>x. (x, case d_photo_content_type d of None \<Rightarrow> ''image/jpeg'' | Some c \<Rightarrow> c))
                       (d_photo_data d)));
     ret (driver_not_found r)
   }"

section \<open>Writing the table \<open>drivers\<close>\<close>

definition empty_driver :: "uuid \<Rightarrow> string \<Rightarrow> time \<Rightarrow> driver_row" where
  "empty_driver u phone now =
     \<lparr>d_id = u, d_phone = phone, d_created_at = now, d_updated_at = now, d_last_online_at = None,
      d_latitude = None, d_longitude = None, d_push_token = None, d_registration_step = None,
      d_registration_status = None, d_name = None, d_driver_type = None, d_rating = None,
      d_work_status = None, d_freelancer_id = None, d_company_id = None, d_account_status = None,
      d_driver_passport_series = None, d_driver_passport_number = None, d_driver_pinfl = None,
      d_driver_scan_status = None, d_driver_owner = None, d_kyc_status = None,
      d_photo_data = None, d_photo_content_type = None\<rparr>"

definition insert_driver :: "string \<Rightarrow> string \<Rightarrow> string \<Rightarrow> string \<Rightarrow> uuid stmt" where
  "insert_driver phone name status step = (\<lambda>now u db.
     if exists_where (\<lambda>d. d_id d = u \<or> d_phone d = phone) (drivers_t db) then Inl UniqueViolation
     else Inr (u, db\<lparr>drivers_t := drivers_t db @ [(empty_driver u phone now)
            \<lparr>d_name := Some name, d_registration_status := Some status,
             d_registration_step := Some step, d_last_online_at := Some now\<rparr>]\<rparr>))"

definition drivers_CreateStart :: "string \<Rightarrow> string \<Rightarrow> ('z, err + uuid) prog" where
  "drivers_CreateStart phone ownerName =
     pg_call (insert_driver phone ownerName ''start'' ''name-oferta'')"

definition update_driver :: "uuid \<Rightarrow> (driver_row \<Rightarrow> bool) \<Rightarrow> (time \<Rightarrow> driver_row \<Rightarrow> driver_row) \<Rightarrow> nat stmt" where
  "update_driver u P f = (\<lambda>now _ db.
     let Q = (\<lambda>d. d_id d = u \<and> P d); rows = update_where Q (f now) (drivers_t db)
     in if distinct (map d_phone rows)
        then Inr (count_where Q (drivers_t db), db\<lparr>drivers_t := rows\<rparr>)
        else Inl UniqueViolation)"

definition exec_driver :: "uuid \<Rightarrow> (time \<Rightarrow> driver_row \<Rightarrow> driver_row) \<Rightarrow> ('z, err + unit) prog" where
  "exec_driver u f = do { r \<leftarrow> pg_call (update_driver u (\<lambda>_. True) f); ret (ignore_count r) }"

text \<open>\<open>COALESCE($n, column)\<close>.\<close>

definition coalesce :: "'a option \<Rightarrow> 'a option \<Rightarrow> 'a option" where
  "coalesce new old = (case new of None \<Rightarrow> old | Some x \<Rightarrow> Some x)"

definition touched :: "time \<Rightarrow> driver_row \<Rightarrow> driver_row" where
  "touched now d = d\<lparr>d_updated_at := now, d_last_online_at := Some now\<rparr>"

definition drivers_TouchOnline :: "uuid \<Rightarrow> ('z, err + unit) prog" where
  "drivers_TouchOnline u = exec_driver u touched"

record DriverEditable =
  ed_Name :: "string option"
  ed_WorkStatus :: "string option"
  ed_DriverPassportSeries :: "string option"
  ed_DriverPassportNumber :: "string option"
  ed_DriverPINFL :: "string option"

definition drivers_UpdateDriverEditable :: "uuid \<Rightarrow> DriverEditable \<Rightarrow> ('z, err + unit) prog" where
  "drivers_UpdateDriverEditable u e = exec_driver u (\<lambda>now d. touched now (d
     \<lparr>d_name := coalesce (ed_Name e) (d_name d),
      d_work_status := coalesce (ed_WorkStatus e) (d_work_status d),
      d_driver_passport_series := coalesce (ed_DriverPassportSeries e) (d_driver_passport_series d),
      d_driver_passport_number := coalesce (ed_DriverPassportNumber e) (d_driver_passport_number d),
      d_driver_pinfl := coalesce (ed_DriverPINFL e) (d_driver_pinfl d)\<rparr>))"

definition drivers_SetCompanyID :: "uuid \<Rightarrow> uuid \<Rightarrow> ('z, err + unit) prog" where
  "drivers_SetCompanyID driverID companyID =
     exec_driver driverID (\<lambda>now d. d\<lparr>d_company_id := Some companyID, d_updated_at := now\<rparr>)"

definition drivers_SetFreelancerID :: "uuid \<Rightarrow> uuid \<Rightarrow> ('z, err + unit) prog" where
  "drivers_SetFreelancerID driverID freelancerID =
     exec_driver driverID (\<lambda>now d. d\<lparr>d_freelancer_id := Some freelancerID, d_updated_at := now\<rparr>)"

definition drivers_UnlinkFromFreelancer :: "uuid \<Rightarrow> uuid \<Rightarrow> ('z, err + bool) prog" where
  "drivers_UnlinkFromFreelancer driverID freelancerID = do {
     r \<leftarrow> pg_call (update_driver driverID (\<lambda>d. d_freelancer_id d = Some freelancerID)
            (\<lambda>now d. d\<lparr>d_freelancer_id := None, d_updated_at := now\<rparr>));
     ret (affected r)
   }"

definition drivers_UpdateHeartbeat :: "uuid \<Rightarrow> float64 \<Rightarrow> float64 \<Rightarrow> time \<Rightarrow> ('z, err + unit) prog" where
  "drivers_UpdateHeartbeat u lat lon lastOnlineAt = exec_driver u (\<lambda>now d. d
     \<lparr>d_latitude := Some lat, d_longitude := Some lon, d_last_online_at := Some lastOnlineAt,
      d_updated_at := now\<rparr>)"

definition drivers_UpdatePhone :: "uuid \<Rightarrow> string \<Rightarrow> ('z, err + unit) prog" where
  "drivers_UpdatePhone u newPhone = do {
     r \<leftarrow> exec_driver u (\<lambda>now d. touched now (d\<lparr>d_phone := newPhone\<rparr>));
     ret (case r of
            Inl e \<Rightarrow> Inl (if e = UniqueViolation then ErrPhoneAlreadyRegistered else e)
          | Inr x \<Rightarrow> Inr x)
   }"

definition drivers_UpdateGeo :: "uuid \<Rightarrow> float64 \<Rightarrow> float64 \<Rightarrow> string \<Rightarrow> string option \<Rightarrow> ('z, err + unit) prog" where
  "drivers_UpdateGeo u lat lon nextStep pushToken = exec_driver u (\<lambda>now d. touched now (d
     \<lparr>d_latitude := Some lat, d_longitude := Some lon, d_registration_step := Some nextStep,
      d_push_token := coalesce pushToken (d_push_token d)\<rparr>))"

definition drivers_UpdatePushToken :: "uuid \<Rightarrow> string \<Rightarrow> ('z, err + unit) prog" where
  "drivers_UpdatePushToken u pushToken =
     exec_driver u (\<lambda>now d. touched now (d\<lparr>d_push_token := Some pushToken\<rparr>))"

definition drivers_ApplyFullDefaults :: "uuid \<Rightarrow> ('z, err + unit) prog" where
  "drivers_ApplyFullDefaults u = exec_driver u (\<lambda>now d. touched now (d
     \<lparr>d_rating := coalesce (d_rating d) (Some 0),
      d_work_status := coalesce (d_work_status d) (Some ''available''),
      d_account_status := coalesce (d_account_status d) (Some ''active'')\<rparr>))"

definition drivers_UpdateStep :: "uuid \<Rightarrow> string \<Rightarrow> ('z, err + unit) prog" where
  "drivers_UpdateStep u step = exec_driver u (\<lambda>now d. touched now (d\<lparr>d_registration_step := Some step\<rparr>))"

definition drivers_UpdateOnlineAt :: "uuid \<Rightarrow> time \<Rightarrow> ('z, err + unit) prog" where
  "drivers_UpdateOnlineAt u t =
     exec_driver u (\<lambda>now d. d\<lparr>d_last_online_at := Some t, d_updated_at := now\<rparr>)"

definition drivers_UpdatePhoto :: "uuid \<Rightarrow> string \<Rightarrow> string \<Rightarrow> ('z, err + unit) prog" where
  "drivers_UpdatePhoto u bytes contentType = exec_driver u (\<lambda>now d. touched now (d
     \<lparr>d_photo_data := Some bytes, d_photo_content_type := Some contentType\<rparr>))"

definition drivers_DeletePhoto :: "uuid \<Rightarrow> ('z, err + unit) prog" where
  "drivers_DeletePhoto u = exec_driver u (\<lambda>now d. touched now (d
     \<lparr>d_photo_data := None, d_photo_content_type := None\<rparr>))"

section \<open>Power unit and trailer\<close>

text \<open>
  \<open>INSERT INTO driver_powers .. ON CONFLICT (driver_id) DO UPDATE SET ..\<close>: \<open>new\<close> is the row
  to insert, \<open>f\<close> what the conflict branch makes of the row in place.
\<close>

definition upsert_power :: "uuid \<Rightarrow> power_row \<Rightarrow> (power_row \<Rightarrow> power_row) \<Rightarrow> unit stmt" where
  "upsert_power u new f = (\<lambda>now v db.
     if exists_where (\<lambda>r. pw_driver_id r = u) (powers_t db)
     then Inr ((), db\<lparr>powers_t := update_where (\<lambda>r. pw_driver_id r = u) f (powers_t db)\<rparr>)
     else if \<not> driver_exists db u then Inl FKViolation
     else Inr ((), db\<lparr>powers_t := powers_t db @ [new\<lparr>pw_driver_id := u\<rparr>]\<rparr>))"

definition upsert_trailer :: "uuid \<Rightarrow> trailer_row \<Rightarrow> (trailer_row \<Rightarrow> trailer_row) \<Rightarrow> unit stmt" where
  "upsert_trailer u new f = (\<lambda>now v db.
     if exists_where (\<lambda>r. tr_driver_id r = u) (trailers_t db)
     then Inr ((), db\<lparr>trailers_t := update_where (\<lambda>r. tr_driver_id r = u) f (trailers_t db)\<rparr>)
     else if \<not> driver_exists db u then Inl FKViolation
     else Inr ((), db\<lparr>trailers_t := trailers_t db @ [new\<lparr>tr_driver_id := u\<rparr>]\<rparr>))"

definition empty_power :: "uuid \<Rightarrow> power_row" where
  "empty_power u = \<lparr>pw_driver_id = u, pw_plate_type = None, pw_plate_number = None,
     pw_tech_series = None, pw_tech_number = None, pw_owner_id = None, pw_owner_name = None,
     pw_scan_status = None\<rparr>"

definition empty_trailer :: "uuid \<Rightarrow> trailer_row" where
  "empty_trailer u = \<lparr>tr_driver_id = u, tr_plate_type = None, tr_plate_number = None,
     tr_tech_series = None, tr_tech_number = None, tr_owner_id = None, tr_owner_name = None,
     tr_scan_status = None\<rparr>"

text \<open>The profile update keeps a column whose argument is nil. \<open>n\<close> below is the row of arguments.\<close>

definition drivers_UpdatePowerProfile :: "uuid \<Rightarrow> power_row \<Rightarrow> ('z, err + unit) prog" where
  "drivers_UpdatePowerProfile u n = do {
     r \<leftarrow> pg_call (upsert_power u n (\<lambda>p. p
        \<lparr>pw_plate_type := coalesce (pw_plate_type n) (pw_plate_type p),
         pw_plate_number := coalesce (pw_plate_number n) (pw_plate_number p),
         pw_tech_series := coalesce (pw_tech_series n) (pw_tech_series p),
         pw_tech_number := coalesce (pw_tech_number n) (pw_tech_number p),
         pw_owner_id := coalesce (pw_owner_id n) (pw_owner_id p),
         pw_owner_name := coalesce (pw_owner_name n) (pw_owner_name p),
         pw_scan_status := coalesce (pw_scan_status n) (pw_scan_status p)\<rparr>));
     (case r of Inl e \<Rightarrow> ret (Inl e) | Inr _ \<Rightarrow> exec_driver u touched)
   }"

definition drivers_UpdateTrailerProfile :: "uuid \<Rightarrow> trailer_row \<Rightarrow> ('z, err + unit) prog" where
  "drivers_UpdateTrailerProfile u n = do {
     r \<leftarrow> pg_call (upsert_trailer u n (\<lambda>t. t
        \<lparr>tr_plate_type := coalesce (tr_plate_type n) (tr_plate_type t),
         tr_plate_number := coalesce (tr_plate_number n) (tr_plate_number t),
         tr_tech_series := coalesce (tr_tech_series n) (tr_tech_series t),
         tr_tech_number := coalesce (tr_tech_number n) (tr_tech_number t),
         tr_owner_id := coalesce (tr_owner_id n) (tr_owner_id t),
         tr_owner_name := coalesce (tr_owner_name n) (tr_owner_name t),
         tr_scan_status := coalesce (tr_scan_status n) (tr_scan_status t)\<rparr>));
     (case r of Inl e \<Rightarrow> ret (Inl e) | Inr _ \<Rightarrow> exec_driver u touched)
   }"

definition drivers_UpdateTransportType ::
    "uuid \<Rightarrow> string \<Rightarrow> uuid option \<Rightarrow> uuid option \<Rightarrow> string \<Rightarrow> string \<Rightarrow> string \<Rightarrow> string \<Rightarrow> ('z, err + unit) prog" where
  "drivers_UpdateTransportType u driverType freelancerID companyID powerPlateType trailerPlateType nextStep nextStatus = do {
     r \<leftarrow> exec_driver u (\<lambda>now d. touched now (d
        \<lparr>d_driver_type := Some driverType, d_freelancer_id := freelancerID,
         d_company_id := companyID, d_registration_step := Some nextStep,
         d_registration_status := Some nextStatus\<rparr>));
     (case r of
        Inl e \<Rightarrow> ret (Inl e)
      | Inr _ \<Rightarrow> do {
          r \<leftarrow> pg_call (upsert_power u ((empty_power u)\<lparr>pw_plate_type := Some powerPlateType\<rparr>)
                 (\<lambda>p. p\<lparr>pw_plate_type := Some powerPlateType\<rparr>));
          (case r of
             Inl e \<Rightarrow> ret (Inl e)
           | Inr _ \<Rightarrow> pg_call (upsert_trailer u ((empty_trailer u)\<lparr>tr_plate_type := Some trailerPlateType\<rparr>)
                 (\<lambda>t. t\<lparr>tr_plate_type := Some trailerPlateType\<rparr>)))
        })
   }"

record KYCUpdate =
  k_DriverPassportSeries :: string
  k_DriverPassportNumber :: string
  k_DriverPINFL :: string
  k_DriverScanStatus :: "bool option"
  k_PowerPlateNumber :: string
  k_PowerTechSeries :: string
  k_PowerTechNumber :: string
  k_PowerOwnerID :: string
  k_PowerOwnerName :: string
  k_PowerScanStatus :: "bool option"
  k_TrailerPlateNumber :: string
  k_TrailerTechSeries :: string
  k_TrailerTechNumber :: string
  k_TrailerOwnerID :: string
  k_TrailerOwnerName :: string
  k_TrailerScanStatus :: "bool option"
  k_DriverOwner :: "bool option"
  k_KYCStatus :: string
  k_RegistrationStatus :: string
  k_RegistrationStep :: string

definition kyc_power :: "KYCUpdate \<Rightarrow> power_row \<Rightarrow> power_row" where
  "kyc_power k p = p
     \<lparr>pw_plate_number := Some (k_PowerPlateNumber k), pw_tech_series := Some (k_PowerTechSeries k),
      pw_tech_number := Some (k_PowerTechNumber k), pw_owner_id := Some (k_PowerOwnerID k),
      pw_owner_name := Some (k_PowerOwnerName k), pw_scan_status := k_PowerScanStatus k\<rparr>"

definition kyc_trailer :: "KYCUpdate \<Rightarrow> trailer_row \<Rightarrow> trailer_row" where
  "kyc_trailer k t = t
     \<lparr>tr_plate_number := Some (k_TrailerPlateNumber k), tr_tech_series := Some (k_TrailerTechSeries k),
      tr_tech_number := Some (k_TrailerTechNumber k), tr_owner_id := Some (k_TrailerOwnerID k),
      tr_owner_name := Some (k_TrailerOwnerName k), tr_scan_status := k_TrailerScanStatus k\<rparr>"

definition drivers_UpdateKYC :: "uuid \<Rightarrow> KYCUpdate \<Rightarrow> ('z, err + unit) prog" where
  "drivers_UpdateKYC u k = do {
     r \<leftarrow> exec_driver u (\<lambda>now d. touched now (d
        \<lparr>d_driver_passport_series := Some (k_DriverPassportSeries k),
         d_driver_passport_number := Some (k_DriverPassportNumber k),
         d_driver_pinfl := Some (k_DriverPINFL k), d_driver_scan_status := k_DriverScanStatus k,
         d_driver_owner := k_DriverOwner k, d_kyc_status := Some (k_KYCStatus k),
         d_registration_status := Some (k_RegistrationStatus k),
         d_registration_step := Some (k_RegistrationStep k)\<rparr>));
     (case r of
        Inl e \<Rightarrow> ret (Inl e)
      | Inr _ \<Rightarrow> do {
          r \<leftarrow> pg_call (upsert_power u (kyc_power k (empty_power u)) (kyc_power k));
          (case r of
             Inl e \<Rightarrow> ret (Inl e)
           | Inr _ \<Rightarrow> pg_call (upsert_trailer u (kyc_trailer k (empty_trailer u)) (kyc_trailer k)))
        })
   }"

section \<open>Deletion\<close>

text \<open>
  \<open>INSERT INTO deleted_drivers SELECT * FROM drivers WHERE id = $1\<close>: the archive has no constraints, but it may have fewer
  columns than \<open>drivers\<close>, and then the statement is refused. Deleting the driver takes the rows that reference it with
  \<open>ON DELETE CASCADE\<close> along; a trip references it without, and forbids it.
\<close>

definition archive_driver :: "uuid \<Rightarrow> nat stmt" where
  "archive_driver u = (\<lambda>now v db.
     if \<not> archive_fits db then Inl (Err ''INSERT has more expressions than target columns'')
     else Inr (count_where (\<lambda>d. d_id d = u) (drivers_t db),
       db\<lparr>deleted_drivers_t := deleted_drivers_t db @ select_where (\<lambda>d. d_id d = u) (drivers_t db)\<rparr>))"

definition delete_driver :: "uuid \<Rightarrow> nat stmt" where
  "delete_driver u = (\<lambda>now v db.
     if exists_where (\<lambda>t. t_driver_id t = Some u) (trips_t db) then Inl FKViolation
     else Inr (count_where (\<lambda>d. d_id d = u) (drivers_t db),
       db\<lparr>drivers_t := delete_where (\<lambda>d. d_id d = u) (drivers_t db),
          powers_t := delete_where (\<lambda>r. pw_driver_id r = u) (powers_t db),
          trailers_t := delete_where (\<lambda>r. tr_driver_id r = u) (trailers_t db),
          d2d_invitations_t := delete_where (\<lambda>r. dd_driver_id r = u) (d2d_invitations_t db),
          recommendations_t := delete_where (\<lambda>r. rec_driver_id r = u) (recommendations_t db)\<rparr>))"

definition drivers_DeleteAndArchive :: "uuid \<Rightarrow> ('z, err + unit) prog" where
  "drivers_DeleteAndArchive u = do {
     b \<leftarrow> tx_begin;
     (case b of
        Inl e \<Rightarrow> ret (Inl e)
      | Inr t \<Rightarrow> do {
          (r, t) \<leftarrow> tx_exec t (archive_driver u);
          (case r of
             Inl e \<Rightarrow> ret (Inl e)
           | Inr n \<Rightarrow>
               (if n = 0 then ret (Inl ErrDeleteNotFound)
                else do {
                  (r, t) \<leftarrow> tx_exec t (delete_driver u);
                  (case r of Inl e \<Rightarrow> ret (Inl e) | Inr _ \<Rightarrow> tx_commit t)
                }))
        })
   }"

section \<open>Integrity\<close>

lemma update_driver_Inr:
  "update_driver u P f now v db = Inr (n, db') \<longleftrightarrow>
     (let Q = (\<lambda>d. d_id d = u \<and> P d); rows = update_where Q (f now) (drivers_t db)
      in distinct (map d_phone rows) \<and> n = count_where Q (drivers_t db) \<and> db' = db\<lparr>drivers_t := rows\<rparr>)"
  by (auto simp: update_driver_def Let_def)

lemma schema_update_driver:
  assumes "\<And>now d. d_id (f now d) = d_id d"
  shows "stmt_keeps schema_ok (update_driver u P f)"
proof (rule stmt_keepsI)
  fix now v db n db'
  assume ok: "schema_ok db" and q: "update_driver u P f now v db = Inr (n, db')"
  let ?t = "update_where (\<lambda>d. d_id d = u \<and> P d) (f now) (drivers_t db)"
  from q have db': "db' = db\<lparr>drivers_t := ?t\<rparr>" and dist: "distinct (map d_phone ?t)"
    by (auto simp: update_driver_Inr Let_def)
  have map: "map d_id ?t = map d_id (drivers_t db)" by (rule map_update_where) (rule assms)
  have img: "d_id ` set ?t = d_id ` set (drivers_t db)" by (rule image_update_where) (rule assms)
  from ok dist show "schema_ok db'"
    by (simp add: db' map img schema_defs weight_check_def route_point_type_check_def)
qed

lemma schema_insert_driver: "stmt_keeps schema_ok (insert_driver phone name status step)"
proof (rule stmt_keepsI)
  fix now u db n db'
  assume ok: "schema_ok db" and q: "insert_driver phone name status step now u db = Inr (n, db')"
  define new where "new = (empty_driver u phone now)\<lparr>d_name := Some name,
    d_registration_status := Some status, d_registration_step := Some step, d_last_online_at := Some now\<rparr>"
  then have new: "d_id new = u" "d_phone new = phone" by (simp_all add: empty_driver_def)
  from q have db': "db' = db\<lparr>drivers_t := drivers_t db @ [new]\<rparr>"
    and fresh: "u \<notin> d_id ` set (drivers_t db)" "phone \<notin> d_phone ` set (drivers_t db)"
    by (auto simp: insert_driver_def new_def table_simps split: if_splits)
  have "keys_ok db'" using ok new fresh by (auto simp: db' schema_ok_def keys_ok_def)
  moreover have "references_ok db'" using ok by (auto simp: db' schema_ok_def references_ok_def)
  moreover have "checks_ok db'"
    using ok by (simp add: db' schema_ok_def checks_ok_def weight_check_def route_point_type_check_def)
  ultimately show "schema_ok db'" by (simp add: schema_ok_def)
qed

lemma schema_powers:
  assumes "schema_ok db" and "distinct (map pw_driver_id rs)"
    and "\<And>r. r \<in> set rs \<Longrightarrow> pw_driver_id r \<in> d_id ` set (drivers_t db)"
  shows "schema_ok (db\<lparr>powers_t := rs\<rparr>)"
  using assms by (simp add: schema_defs weight_check_def route_point_type_check_def)

lemma schema_trailers:
  assumes "schema_ok db" and "distinct (map tr_driver_id rs)"
    and "\<And>r. r \<in> set rs \<Longrightarrow> tr_driver_id r \<in> d_id ` set (drivers_t db)"
  shows "schema_ok (db\<lparr>trailers_t := rs\<rparr>)"
  using assms by (simp add: schema_defs weight_check_def route_point_type_check_def)

lemma schema_ok_vehicles:
  assumes "schema_ok db"
  shows "distinct (map pw_driver_id (powers_t db))" "distinct (map tr_driver_id (trailers_t db))"
    "\<And>r. r \<in> set (powers_t db) \<Longrightarrow> pw_driver_id r \<in> d_id ` set (drivers_t db)"
    "\<And>r. r \<in> set (trailers_t db) \<Longrightarrow> tr_driver_id r \<in> d_id ` set (drivers_t db)"
  using assms by (simp_all add: schema_ok_def keys_ok_def references_ok_def)

lemma schema_upsert_power:
  assumes f: "\<And>p. pw_driver_id (f p) = pw_driver_id p"
  shows "stmt_keeps schema_ok (upsert_power u new f)"
proof (rule stmt_keepsI)
  fix now v db n db'
  assume ok: "schema_ok db" and q: "upsert_power u new f now v db = Inr (n, db')"
  note veh = schema_ok_vehicles(1,3) [OF ok]
  show "schema_ok db'"
  proof (cases "exists_where (\<lambda>r. pw_driver_id r = u) (powers_t db)")
    case True
    let ?t = "update_where (\<lambda>r. pw_driver_id r = u) f (powers_t db)"
    have "map pw_driver_id ?t = map pw_driver_id (powers_t db)" by (rule map_update_where) (rule f)
    with True q veh f show ?thesis
      by (auto simp: upsert_power_def table_simps intro!: schema_powers [OF ok])
  next
    case False
    then have "u \<notin> pw_driver_id ` set (powers_t db)" by (auto simp: table_simps)
    moreover from False q have "u \<in> d_id ` set (drivers_t db)"
      and "db' = db\<lparr>powers_t := powers_t db @ [new\<lparr>pw_driver_id := u\<rparr>]\<rparr>"
      by (auto simp: upsert_power_def driver_exists_def exists_where_iff split: if_splits)
    ultimately show ?thesis using veh by (auto intro!: schema_powers [OF ok])
  qed
qed

lemma schema_upsert_trailer:
  assumes f: "\<And>p. tr_driver_id (f p) = tr_driver_id p"
  shows "stmt_keeps schema_ok (upsert_trailer u new f)"
proof (rule stmt_keepsI)
  fix now v db n db'
  assume ok: "schema_ok db" and q: "upsert_trailer u new f now v db = Inr (n, db')"
  note veh = schema_ok_vehicles(2,4) [OF ok]
  show "schema_ok db'"
  proof (cases "exists_where (\<lambda>r. tr_driver_id r = u) (trailers_t db)")
    case True
    let ?t = "update_where (\<lambda>r. tr_driver_id r = u) f (trailers_t db)"
    have "map tr_driver_id ?t = map tr_driver_id (trailers_t db)" by (rule map_update_where) (rule f)
    with True q veh f show ?thesis
      by (auto simp: upsert_trailer_def table_simps intro!: schema_trailers [OF ok])
  next
    case False
    then have "u \<notin> tr_driver_id ` set (trailers_t db)" by (auto simp: table_simps)
    moreover from False q have "u \<in> d_id ` set (drivers_t db)"
      and "db' = db\<lparr>trailers_t := trailers_t db @ [new\<lparr>tr_driver_id := u\<rparr>]\<rparr>"
      by (auto simp: upsert_trailer_def driver_exists_def exists_where_iff split: if_splits)
    ultimately show ?thesis using veh by (auto intro!: schema_trailers [OF ok])
  qed
qed

lemma schema_archive_driver: "stmt_keeps schema_ok (archive_driver u)"
  by (rule stmt_keepsI)
     (auto simp: archive_driver_def schema_defs weight_check_def route_point_type_check_def split: if_splits)

lemma schema_delete_driver: "stmt_keeps schema_ok (delete_driver u)"
proof (rule stmt_keepsI)
  fix now v db n db'
  assume ok: "schema_ok db" and q: "delete_driver u now v db = Inr (n, db')"
  then have free: "\<And>t. t \<in> set (trips_t db) \<Longrightarrow> t_driver_id t \<noteq> Some u"
    and db': "db' = db\<lparr>drivers_t := delete_where (\<lambda>d. d_id d = u) (drivers_t db),
          powers_t := delete_where (\<lambda>r. pw_driver_id r = u) (powers_t db),
          trailers_t := delete_where (\<lambda>r. tr_driver_id r = u) (trailers_t db),
          d2d_invitations_t := delete_where (\<lambda>r. dd_driver_id r = u) (d2d_invitations_t db),
          recommendations_t := delete_where (\<lambda>r. rec_driver_id r = u) (recommendations_t db)\<rparr>"
    by (auto simp: delete_driver_def table_simps split: if_splits)
  have stay: "v \<in> d_id ` set (delete_where (\<lambda>d. d_id d = u) (drivers_t db))"
    if "v \<in> d_id ` set (drivers_t db)" "v \<noteq> u" for v
    using that by (auto simp: set_delete_where)
  have "keys_ok db'"
    using ok by (simp add: db' schema_ok_def keys_ok_def delete_where_def distinct_map_filter)
  moreover have "references_ok db'"
    using ok free stay
    by (simp add: db' schema_ok_def references_ok_def ball_delete_where) metis
  moreover have "checks_ok db'"
    using ok by (simp add: db' schema_ok_def checks_ok_def weight_check_def route_point_type_check_def)
  ultimately show "schema_ok db'" by (simp add: schema_ok_def)
qed

lemma schema_exec_driver:
  assumes "\<And>now d. d_id (f now d) = d_id d"
  shows "keeps_db schema_ok (exec_driver u f)"
  unfolding exec_driver_def by (intro keeps_intro schema_update_driver assms)

lemma schema_driver_writers:
  "keeps_db schema_ok (drivers_CreateStart ph nm)" "keeps_db schema_ok (drivers_TouchOnline u)"
  "keeps_db schema_ok (drivers_UpdateDriverEditable u e)" "keeps_db schema_ok (drivers_SetCompanyID u c)"
  "keeps_db schema_ok (drivers_SetFreelancerID u c)" "keeps_db schema_ok (drivers_UnlinkFromFreelancer u c)"
  "keeps_db schema_ok (drivers_UpdateHeartbeat u lat lon t)" "keeps_db schema_ok (drivers_UpdatePhone u ph)"
  "keeps_db schema_ok (drivers_UpdateGeo u lat lon st pt)" "keeps_db schema_ok (drivers_UpdatePushToken u tok)"
  "keeps_db schema_ok (drivers_ApplyFullDefaults u)" "keeps_db schema_ok (drivers_UpdateStep u st)"
  "keeps_db schema_ok (drivers_UpdateOnlineAt u t)" "keeps_db schema_ok (drivers_UpdatePhoto u ph ct)"
  "keeps_db schema_ok (drivers_DeletePhoto u)" "keeps_db schema_ok (drivers_UpdatePowerProfile u pw)"
  "keeps_db schema_ok (drivers_UpdateTrailerProfile u tr)"
  "keeps_db schema_ok (drivers_UpdateTransportType u dt fr co pp tp ns nst)"
  "keeps_db schema_ok (drivers_UpdateKYC u k)"
  unfolding drivers_CreateStart_def drivers_TouchOnline_def drivers_UpdateDriverEditable_def
    drivers_SetCompanyID_def drivers_SetFreelancerID_def drivers_UnlinkFromFreelancer_def
    drivers_UpdateHeartbeat_def drivers_UpdatePhone_def drivers_UpdateGeo_def
    drivers_UpdatePushToken_def drivers_ApplyFullDefaults_def drivers_UpdateStep_def
    drivers_UpdateOnlineAt_def drivers_UpdatePhoto_def drivers_DeletePhoto_def
    drivers_UpdatePowerProfile_def drivers_UpdateTrailerProfile_def
    drivers_UpdateTransportType_def drivers_UpdateKYC_def
  by (intro keeps_intro schema_insert_driver schema_exec_driver schema_update_driver
        schema_upsert_power schema_upsert_trailer;
      simp add: touched_def kyc_power_def kyc_trailer_def)+

lemma schema_DeleteAndArchive: "keeps_db schema_ok (drivers_DeleteAndArchive u)"
  unfolding drivers_DeleteAndArchive_def
  by (rule keeps_db_transaction
      | rule keeps_db_block, assumption, rule tx_keeps_exec, rule schema_archive_driver schema_delete_driver
      | erule keeps_db_tx_commit | rule keeps_intro)+

end
