(* ===== verification/Security.thy ===== *)
theory Security
  imports Database
begin

text \<open>
  Tokens (\<open>internal/security/jwt.go\<close>). Signing and verifying are done by the package
  \<open>golang-jwt\<close>, a parameter of the model: \<open>jwt_sign\<close> may fail, \<open>jwt_verify\<close> returns the payload of
  a token whose signature, method and expiry are right. A payload is the JSON object inside the token; a
  claim that is absent reads as the empty string, whichever struct it is decoded into.
\<close>

record payload =
  pl_sub :: string
  pl_role :: string
  pl_user_id :: string
  pl_company_id :: string
  pl_sid :: string
  pl_jti :: string
  pl_iat :: time
  pl_exp :: time

record JWTManager =
  signingKey :: string
  accessTTL :: duration
  refreshTTL :: duration
  jwt_sign :: "string \<Rightarrow> payload \<Rightarrow> string option"
  jwt_verify :: "string \<Rightarrow> time \<Rightarrow> string \<Rightarrow> payload option"

text \<open>
  Documented behaviour of the package: a signed token verifies with the same key before its
  expiry, yields what was signed, and no longer verifies afterwards.
\<close>

definition jwt_laws :: "JWTManager \<Rightarrow> bool" where
  "jwt_laws m \<longleftrightarrow> (\<forall>k p s now. jwt_sign m k p = Some s \<longrightarrow>
     jwt_verify m k now s = (if now < pl_exp p then Some p else None))"

record Tokens =
  AccessToken :: string
  RefreshToken :: string
  ExpiresIn :: int
  ExpiresAt :: int
  RefreshExpiresIn :: int
  RefreshExpiresAt :: int

record RefreshClaims =
  rc_Role :: string
  rc_UserID :: string
  rc_JTI :: string

definition no_tokens :: Tokens where
  "no_tokens = \<lparr>AccessToken = [], RefreshToken = [], ExpiresIn = 0, ExpiresAt = 0,
     RefreshExpiresIn = 0, RefreshExpiresAt = 0\<rparr>"

text \<open>\<open>jwt.NewNumericDate\<close> truncates to seconds; \<open>UnixMilli\<close> and \<open>Seconds\<close> truncate too.\<close>

definition numeric_date :: "time \<Rightarrow> time" where "numeric_date t = t div second * second"

definition unix_milli :: "time \<Rightarrow> int" where "unix_milli t = t div 1000"

definition seconds_of :: "duration \<Rightarrow> int" where
  "seconds_of d = (if d \<ge> 0 then d div second else - ((- d) div second))"

definition access_payload :: "ext \<Rightarrow> JWTManager \<Rightarrow> time \<Rightarrow> string \<Rightarrow> uuid \<Rightarrow> uuid \<Rightarrow> string \<Rightarrow> payload" where
  "access_payload E m now role userID companyID jti =
     \<lparr>pl_sub = uuid_string E userID, pl_role = role, pl_user_id = uuid_string E userID,
      pl_company_id = (if companyID \<noteq> uuid_nil then uuid_string E companyID else []),
      pl_sid = jti, pl_jti = [], pl_iat = numeric_date now,
      pl_exp = numeric_date (now + accessTTL m)\<rparr>"

definition refresh_payload :: "ext \<Rightarrow> JWTManager \<Rightarrow> time \<Rightarrow> string \<Rightarrow> uuid \<Rightarrow> string \<Rightarrow> payload" where
  "refresh_payload E m now role userID jti =
     \<lparr>pl_sub = uuid_string E userID, pl_role = role, pl_user_id = uuid_string E userID,
      pl_company_id = [], pl_sid = [], pl_jti = jti, pl_iat = numeric_date now,
      pl_exp = numeric_date (now + refreshTTL m)\<rparr>"

text \<open>\<open>jti\<close> is the argument for \<open>uuid.NewString()\<close>.\<close>

definition IssueWithCompany ::
    "ext \<Rightarrow> JWTManager \<Rightarrow> time \<Rightarrow> string \<Rightarrow> string \<Rightarrow> uuid \<Rightarrow> uuid \<Rightarrow> err + Tokens \<times> RefreshClaims" where
  "IssueWithCompany E m now jti role userID companyID =
     (case jwt_sign m (signingKey m) (access_payload E m now role userID companyID jti) of
        None \<Rightarrow> Inl (Err ''sign'')
      | Some accessToken \<Rightarrow>
          (case jwt_sign m (signingKey m) (refresh_payload E m now role userID jti) of
             None \<Rightarrow> Inl (Err ''sign'')
           | Some refreshToken \<Rightarrow> Inr
               (\<lparr>AccessToken = accessToken, RefreshToken = refreshToken,
                 ExpiresIn = seconds_of (accessTTL m), ExpiresAt = unix_milli (now + accessTTL m),
                 RefreshExpiresIn = seconds_of (refreshTTL m),
                 RefreshExpiresAt = unix_milli (now + refreshTTL m)\<rparr>,
                \<lparr>rc_Role = role, rc_UserID = uuid_string E userID, rc_JTI = jti\<rparr>)))"

definition Issue ::
    "ext \<Rightarrow> JWTManager \<Rightarrow> time \<Rightarrow> string \<Rightarrow> string \<Rightarrow> uuid \<Rightarrow> err + Tokens \<times> RefreshClaims" where
  "Issue E m now jti role userID = IssueWithCompany E m now jti role userID uuid_nil"

text \<open>\<open>(user, role, company, sid)\<close> or an error.\<close>

definition ParseAccessWithSID ::
    "ext \<Rightarrow> JWTManager \<Rightarrow> time \<Rightarrow> string \<Rightarrow> err + uuid \<times> string \<times> uuid \<times> string" where
  "ParseAccessWithSID E m now tokenStr =
     (case jwt_verify m (signingKey m) now tokenStr of
        None \<Rightarrow> Inl (Err ''token'')
      | Some claims \<Rightarrow>
          (let idStr = (if pl_user_id claims = [] then pl_sub claims else pl_user_id claims)
           in case uuid_parse E idStr of
                None \<Rightarrow> Inl (Err ''uuid'')
              | Some uid \<Rightarrow>
                  (let r = (if pl_role claims = [] then ''driver'' else pl_role claims);
                       cid = (if pl_company_id claims \<noteq> []
                              then parsed_uuid E (pl_company_id claims)
                              else uuid_nil)
                   in Inr (uid, r, cid, pl_sid claims))))"

definition ParseAccess :: "ext \<Rightarrow> JWTManager \<Rightarrow> time \<Rightarrow> string \<Rightarrow> err + uuid \<times> string" where
  "ParseAccess E m now tokenStr =
     (case ParseAccessWithSID E m now tokenStr of Inl e \<Rightarrow> Inl e | Inr (uid, r, _, _) \<Rightarrow> Inr (uid, r))"

definition ParseAccessWithCompany :: "ext \<Rightarrow> JWTManager \<Rightarrow> time \<Rightarrow> string \<Rightarrow> err + uuid \<times> string \<times> uuid" where
  "ParseAccessWithCompany E m now tokenStr =
     (case ParseAccessWithSID E m now tokenStr of Inl e \<Rightarrow> Inl e | Inr (uid, r, cid, _) \<Rightarrow> Inr (uid, r, cid))"

definition ParseRefresh :: "JWTManager \<Rightarrow> time \<Rightarrow> string \<Rightarrow> err + RefreshClaims" where
  "ParseRefresh m now tokenStr =
     (case jwt_verify m (signingKey m) now tokenStr of
        None \<Rightarrow> Inl (Err ''token'')
      | Some claims \<Rightarrow> Inr
          \<lparr>rc_Role = (if pl_role claims = [] then ''driver'' else pl_role claims),
           rc_UserID = (if pl_user_id claims = [] then pl_sub claims else pl_user_id claims),
           rc_JTI = pl_jti claims\<rparr>)"

section \<open>Properties of tokens\<close>

text \<open>Identifiers print as non-empty strings.\<close>

definition uuid_nonempty :: "ext \<Rightarrow> bool" where
  "uuid_nonempty E \<longleftrightarrow> (\<forall>u. uuid_string E u \<noteq> [])"

lemma issued_tokens:
  assumes "jwt_laws m" and "IssueWithCompany E m now jti role userID companyID = Inr (toks, rc)"
  shows "jwt_verify m (signingKey m) t (AccessToken toks) =
       (if t < numeric_date (now + accessTTL m)
        then Some (access_payload E m now role userID companyID jti) else None)"
    and "jwt_verify m (signingKey m) t (RefreshToken toks) =
       (if t < numeric_date (now + refreshTTL m)
        then Some (refresh_payload E m now role userID jti) else None)"
    and "rc = \<lparr>rc_Role = role, rc_UserID = uuid_string E userID, rc_JTI = jti\<rparr>"
  using assms
  by (auto simp: IssueWithCompany_def jwt_laws_def access_payload_def refresh_payload_def
      split: option.splits)

lemma parse_issued_access:
  assumes "jwt_laws m" and "uuid_laws E" and "uuid_nonempty E" and "role \<noteq> []"
    and "IssueWithCompany E m now jti role userID companyID = Inr (toks, rc)"
    and "t < numeric_date (now + accessTTL m)"
  shows "ParseAccessWithSID E m t (AccessToken toks) = Inr (userID, role, companyID, jti)"
  using assms(2-4,6) issued_tokens(1) [OF assms(1,5), of t]
  by (simp add: ParseAccessWithSID_def access_payload_def uuid_nonempty_def Let_def)

lemma parse_issued_refresh:
  assumes "jwt_laws m" and "uuid_nonempty E" and "role \<noteq> []"
    and "IssueWithCompany E m now jti role userID companyID = Inr (toks, rc)"
    and "t < numeric_date (now + refreshTTL m)"
  shows "ParseRefresh m t (RefreshToken toks) = Inr rc"
  using assms(2,3,5) issued_tokens(2) [OF assms(1,4), of t] issued_tokens(3) [OF assms(1,4)]
  by (simp add: ParseRefresh_def refresh_payload_def uuid_nonempty_def)

text \<open>A refresh token is an access token without a session, and lives as long as a refresh token.\<close>

lemma refresh_parses_as_access:
  assumes "jwt_laws m" and "uuid_laws E" and "uuid_nonempty E" and "role \<noteq> []"
    and "IssueWithCompany E m now jti role userID companyID = Inr (toks, rc)"
    and "t < numeric_date (now + refreshTTL m)"
  shows "ParseAccessWithSID E m t (RefreshToken toks) = Inr (userID, role, uuid_nil, [])"
  using assms(2-4,6) issued_tokens(2) [OF assms(1,5), of t]
  by (simp add: ParseAccessWithSID_def refresh_payload_def uuid_nonempty_def Let_def)

end
