(* ===== verification/Reference_Data.thy ===== *)
theory Reference_Data
  imports Env
begin

text \<open>
  The reference lists a cargo is validated against (\<open>internal/reference/cargo_ref.go\<close>): pairs of a
  code and a label. The labels are Russian; they are written as the bytes of their UTF-8
  encoding.
\<close>

record RefItem =
  Value :: string
  Label :: string

definition utf8_bytes :: "nat list \<Rightarrow> string" where
  "utf8_bytes bs = map char_of bs"

abbreviation ref_item :: "string \<Rightarrow> nat list \<Rightarrow> RefItem" where
  "ref_item v bs \<equiv> \<lparr>Value = v, Label = utf8_bytes bs\<rparr>"

definition RoutePointTypeRefs :: "RefItem list" where
  "RoutePointTypeRefs = [
     ref_item ''LOAD'' [208, 159, 208, 190, 208, 179, 209, 128, 209, 131, 208, 183, 208,
       186, 208, 176],
     ref_item ''UNLOAD'' [208, 146, 209, 139, 208, 179, 209, 128, 209, 131, 208, 183, 208,
       186, 208, 176],
     ref_item ''CUSTOMS'' [208, 162, 208, 176, 208, 188, 208, 190, 208, 182, 208, 189, 209,
       143],
     ref_item ''TRANSIT'' [208, 162, 209, 128, 208, 176, 208, 189, 208, 183, 208, 184, 209,
       130]]"

definition TruckTypeRefs :: "RefItem list" where
  "TruckTypeRefs = [
     ref_item ''REFRIGERATOR'' [208, 160, 208, 181, 209, 132, 209, 128, 208, 184, 208, 182,
       208, 181, 209, 128, 208, 176, 209, 130, 208, 190, 209, 128],
     ref_item ''TENT'' [208, 162, 208, 181, 208, 189, 209, 130],
     ref_item ''FLATBED'' [208, 145, 208, 190, 209, 128, 209, 130],
     ref_item ''TANKER'' [208, 166, 208, 184, 209, 129, 209, 130, 208, 181, 209, 128, 208,
       189, 208, 176],
     ref_item ''OTHER'' [208, 148, 209, 128, 209, 131, 208, 179, 208, 190, 208, 181]]"

definition ShipmentTypeRefs :: "RefItem list" where
  "ShipmentTypeRefs = [
     ref_item ''FTL'' [208, 159, 208, 190, 208, 187, 208, 189, 208, 176, 209, 143, 32, 208,
       183, 208, 176, 208, 179, 209, 128, 209, 131, 208, 183, 208, 186, 208, 176, 32, 40,
       70, 84, 76, 41],
     ref_item ''LTL'' [208, 167, 208, 176, 209, 129, 209, 130, 208, 184, 209, 135, 208, 189,
       208, 176, 209, 143, 32, 208, 183, 208, 176, 208, 179, 209, 128, 209, 131, 208, 183,
       208, 186, 208, 176, 32, 40, 76, 84, 76, 41],
     ref_item ''PACKAGE'' [208, 159, 208, 190, 209, 129, 209, 139, 208, 187, 208, 186, 208,
       176],
     ref_item ''OTHER'' [208, 148, 209, 128, 209, 131, 208, 179, 208, 190, 208, 181]]"

definition CurrencyRefs :: "RefItem list" where
  "CurrencyRefs = [
     ref_item ''USD'' [85, 83, 68, 32, 40, 208, 180, 208, 190, 208, 187, 208, 187, 208, 176,
       209, 128, 32, 208, 161, 208, 168, 208, 144, 41],
     ref_item ''UZS'' [85, 90, 83, 32, 40, 209, 129, 209, 131, 208, 188, 41],
     ref_item ''EUR'' [69, 85, 82, 32, 40, 208, 181, 208, 178, 209, 128, 208, 190, 41],
     ref_item ''RUB'' [82, 85, 66, 32, 40, 209, 128, 209, 131, 208, 177, 208, 187, 209, 140,
       41],
     ref_item ''KZT'' [75, 90, 84, 32, 40, 209, 130, 208, 181, 208, 189, 208, 179, 208, 181,
       41],
     ref_item ''AED'' [65, 69, 68, 32, 40, 208, 180, 208, 184, 209, 128, 209, 133, 208, 176,
       208, 188, 32, 208, 158, 208, 144, 208, 173, 41],
     ref_item ''OTHER'' [208, 148, 209, 128, 209, 131, 208, 179, 208, 176, 209, 143]]"

definition PrepaymentTypeRefs :: "RefItem list" where
  "PrepaymentTypeRefs = [
     ref_item ''BANK_TRANSFER'' [208, 145, 208, 176, 208, 189, 208, 186, 208, 190, 208, 178,
       209, 129, 208, 186, 208, 184, 208, 185, 32, 208, 191, 208, 181, 209, 128, 208, 181,
       208, 178, 208, 190, 208, 180],
     ref_item ''CASH'' [208, 157, 208, 176, 208, 187, 208, 184, 209, 135, 208, 189, 209,
       139, 208, 181],
     ref_item ''CARD'' [208, 154, 208, 176, 209, 128, 209, 130, 208, 176],
     ref_item ''INVOICE'' [208, 159, 208, 190, 32, 209, 129, 209, 135, 209, 145, 209, 130,
       209, 131],
     ref_item ''OTHER'' [208, 148, 209, 128, 209, 131, 208, 179, 208, 190, 208, 181]]"

definition RemainingTypeRefs :: "RefItem list" where
  "RemainingTypeRefs = [
     ref_item ''ON_DELIVERY'' [208, 159, 208, 190, 32, 209, 132, 208, 176, 208, 186, 209,
       130, 209, 131, 32, 208, 178, 209, 139, 208, 179, 209, 128, 209, 131, 208, 183, 208,
       186, 208, 184],
     ref_item ''AFTER_INVOICE'' [208, 159, 208, 190, 32, 209, 129, 209, 135, 209, 145, 209,
       130, 209, 131, 32, 208, 191, 208, 190, 209, 129, 208, 187, 208, 181, 32, 208, 178,
       209, 139, 208, 179, 209, 128, 209, 131, 208, 183, 208, 186, 208, 184],
     ref_item ''CASH'' [208, 157, 208, 176, 208, 187, 208, 184, 209, 135, 208, 189, 209,
       139, 208, 188, 208, 184, 32, 208, 191, 209, 128, 208, 184, 32, 208, 178, 209, 139,
       208, 179, 209, 128, 209, 131, 208, 183, 208, 186, 208, 181],
     ref_item ''DEFERRED'' [208, 158, 209, 130, 209, 129, 209, 128, 208, 190, 209, 135, 208,
       186, 208, 176, 32, 208, 191, 208, 187, 208, 176, 209, 130, 208, 181, 208, 182, 208,
       176],
     ref_item ''OTHER'' [208, 148, 209, 128, 209, 131, 208, 179, 208, 190, 208, 181]]"

definition LoadingTypeRefs :: "RefItem list" where
  "LoadingTypeRefs = [
     ref_item ''TOP'' [208, 146, 208, 181, 209, 128, 209, 133, 208, 189, 209, 143, 209, 143],
     ref_item ''SIDE'' [208, 145, 208, 190, 208, 186, 208, 190, 208, 178, 208, 176, 209,
       143],
     ref_item ''REAR'' [208, 151, 208, 176, 208, 180, 208, 189, 209, 143, 209, 143],
     ref_item ''CRANE'' [208, 154, 209, 128, 208, 176, 208, 189],
     ref_item ''FORKLIFT'' [208, 159, 208, 190, 208, 179, 209, 128, 209, 131, 208, 183, 209,
       135, 208, 184, 208, 186],
     ref_item ''OTHER'' [208, 148, 209, 128, 209, 131, 208, 179, 208, 190, 208, 181]]"

text \<open>\<open>AllowedValues\<close> appends to the slice from left to right.\<close>

definition AllowedValues :: "ext \<Rightarrow> RefItem list \<Rightarrow> string list" where
  "AllowedValues E items = foldl (\<lambda>out i. out @ [ToUpper E (TrimSpace (Value i))]) [] items"

definition AllowedShipmentTypes :: "ext \<Rightarrow> string list" where
  "AllowedShipmentTypes E = AllowedValues E ShipmentTypeRefs"

definition AllowedCurrencies :: "ext \<Rightarrow> string list" where
  "AllowedCurrencies E = AllowedValues E CurrencyRefs"

definition AllowedPrepaymentTypes :: "ext \<Rightarrow> string list" where
  "AllowedPrepaymentTypes E = AllowedValues E PrepaymentTypeRefs"

definition AllowedRemainingTypes :: "ext \<Rightarrow> string list" where
  "AllowedRemainingTypes E = AllowedValues E RemainingTypeRefs"

definition AllowedLoadingTypes :: "ext \<Rightarrow> string list" where
  "AllowedLoadingTypes E = AllowedValues E LoadingTypeRefs"

definition AllowedRoutePointTypes :: "ext \<Rightarrow> string list" where
  "AllowedRoutePointTypes E = AllowedValues E RoutePointTypeRefs"

definition AllowedTruckTypes :: "ext \<Rightarrow> string list" where
  "AllowedTruckTypes E = AllowedValues E TruckTypeRefs"

definition IsAllowed :: "ext \<Rightarrow> string \<Rightarrow> string list \<Rightarrow> bool" where
  "IsAllowed E value allowed =
     (let v = ToUpper E (TrimSpace value)
      in if v = [] then False else list_ex (\<lambda>a. a = v) allowed)"

section \<open>The lists, evaluated\<close>

text \<open>Every code of the lists is ASCII, upper case and free of outer blanks: nothing changes.\<close>

lemma AllowedValues_map: "AllowedValues E items = map (\<lambda>i. ToUpper E (TrimSpace (Value i))) items"
proof -
  have "foldl (\<lambda>out i. out @ [ToUpper E (TrimSpace (Value i))]) acc items
      = acc @ map (\<lambda>i. ToUpper E (TrimSpace (Value i))) items" for acc
    by (induction items arbitrary: acc) simp_all
  then show ?thesis by (simp add: AllowedValues_def)
qed

lemmas code_eval = ToUpper_def is_ascii_def ascii_upper_def upper_table_def
  TrimSpace_def ascii_space_def pair_space_def wide_space_def

lemma AllowedShipmentTypes_eq:
  "AllowedShipmentTypes E = [''FTL'', ''LTL'', ''PACKAGE'', ''OTHER'']"
  by (simp add: AllowedShipmentTypes_def AllowedValues_map ShipmentTypeRefs_def code_eval)

lemma AllowedCurrencies_eq:
  "AllowedCurrencies E = [''USD'', ''UZS'', ''EUR'', ''RUB'', ''KZT'', ''AED'', ''OTHER'']"
  by (simp add: AllowedCurrencies_def AllowedValues_map CurrencyRefs_def code_eval)

lemma AllowedPrepaymentTypes_eq:
  "AllowedPrepaymentTypes E = [''BANK_TRANSFER'', ''CASH'', ''CARD'', ''INVOICE'', ''OTHER'']"
  by (simp add: AllowedPrepaymentTypes_def AllowedValues_map PrepaymentTypeRefs_def code_eval)

lemma AllowedRemainingTypes_eq:
  "AllowedRemainingTypes E = [''ON_DELIVERY'', ''AFTER_INVOICE'', ''CASH'', ''DEFERRED'', ''OTHER'']"
  by (simp add: AllowedRemainingTypes_def AllowedValues_map RemainingTypeRefs_def code_eval)

lemma AllowedLoadingTypes_eq:
  "AllowedLoadingTypes E = [''TOP'', ''SIDE'', ''REAR'', ''CRANE'', ''FORKLIFT'', ''OTHER'']"
  by (simp add: AllowedLoadingTypes_def AllowedValues_map LoadingTypeRefs_def code_eval)

lemma AllowedRoutePointTypes_eq:
  "AllowedRoutePointTypes E = [''LOAD'', ''UNLOAD'', ''CUSTOMS'', ''TRANSIT'']"
  by (simp add: AllowedRoutePointTypes_def AllowedValues_map RoutePointTypeRefs_def code_eval)

lemma AllowedTruckTypes_eq:
  "AllowedTruckTypes E = [''REFRIGERATOR'', ''TENT'', ''FLATBED'', ''TANKER'', ''OTHER'']"
  by (simp add: AllowedTruckTypes_def AllowedValues_map TruckTypeRefs_def code_eval)

lemmas allowed_eqs = AllowedShipmentTypes_eq AllowedCurrencies_eq AllowedPrepaymentTypes_eq
  AllowedRemainingTypes_eq AllowedLoadingTypes_eq AllowedRoutePointTypes_eq AllowedTruckTypes_eq

text \<open>What validation accepts is, after normalisation, a member of the list.\<close>

lemma IsAllowed_member: "IsAllowed E v allowed \<Longrightarrow> ToUpper E (TrimSpace v) \<in> set allowed"
  by (auto simp: IsAllowed_def list_ex_iff Let_def split: if_splits)

lemma IsAllowed_iff:
  "IsAllowed E v allowed \<longleftrightarrow>
     ToUpper E (TrimSpace v) \<noteq> [] \<and> ToUpper E (TrimSpace v) \<in> set allowed"
  by (auto simp: IsAllowed_def list_ex_iff Let_def)

end
