(* ===== verification/Cargo_Handler.thy ===== *)
theory Cargo_Handler
  imports Drivers_Repo Security Reference_Data
begin

text \<open>
  The cargo endpoints (\<open>internal/server/handlers/cargo.go\<close>). A handler takes the parts of the
  request it looks at and returns the answer. A JSON body is the parsed struct, or \<open>None\<close> when
  \<open>ShouldBindJSON\<close> cannot decode it; the conditions of the \<open>binding\<close> tags are predicates, checked where
  the code binds.
\<close>

section \<open>Requests\<close>

record CargoHandler =
  h_tripsRepo :: bool      \<comment> \<open>the pointer is not nil\<close>
  h_drivers :: bool
  h_jwtm :: "JWTManager option"
  FreelanceDispatcherCargoLimit :: int

type_synonym RoutePointReq = RoutePointInput
type_synonym PaymentReq = PaymentInput

record CreateCargoReq =
  cr_Weight :: float64
  cr_Volume :: float64
  cr_ReadyEnabled :: bool
  cr_ReadyAt :: "string option"
  cr_LoadComment :: "string option"
  cr_TruckType :: string
  cr_TempMin :: "float64 option"
  cr_TempMax :: "float64 option"
  cr_ADREnabled :: bool
  cr_ADRClass :: "string option"
  cr_LoadingTypes :: "string list option"
  cr_Requirements :: "string list option"
  cr_ShipmentType :: "string option"
  cr_BeltsCount :: "int option"
  cr_Documents :: "Documents option"
  cr_ContactName :: "string option"
  cr_ContactPhone :: "string option"
  cr_RoutePoints :: "RoutePointReq list option"
  cr_Payment :: "PaymentReq option"
  cr_CompanyID :: "uuid option"

record UpdateCargoReq =
  ur_Weight :: "float64 option"
  ur_Volume :: "float64 option"
  ur_ReadyEnabled :: "bool option"
  ur_ReadyAt :: "string option"
  ur_LoadComment :: "string option"
  ur_TruckType :: "string option"
  ur_TempMin :: "float64 option"
  ur_TempMax :: "float64 option"
  ur_ADREnabled :: "bool option"
  ur_ADRClass :: "string option"
  ur_LoadingTypes :: "string list option"
  ur_Requirements :: "string list option"
  ur_ShipmentType :: "string option"
  ur_BeltsCount :: "int option"
  ur_Documents :: "Documents option"
  ur_ContactName :: "string option"
  ur_ContactPhone :: "string option"
  ur_RoutePoints :: "RoutePointReq list option"
  ur_Payment :: "PaymentReq option"

text \<open>A nil slice and an empty one are ranged over alike.\<close>

definition slice :: "'a list option \<Rightarrow> 'a list" where
  "slice s = (case s of None \<Rightarrow> [] | Some l \<Rightarrow> l)"

text \<open>The tags \<open>required\<close> (not the zero value, not nil), \<open>gt=0\<close>, \<open>oneof\<close>, \<open>dive\<close>.\<close>

definition bind_route_point :: "RoutePointReq \<Rightarrow> bool" where
  "bind_route_point rp \<longleftrightarrow>
     ri_Type rp \<in> {''LOAD'', ''UNLOAD'', ''CUSTOMS'', ''TRANSIT''}
   \<and> ri_CityCode rp \<noteq> [] \<and> ri_Address rp \<noteq> [] \<and> ri_Lat rp \<noteq> 0 \<and> ri_Lng rp \<noteq> 0
   \<and> ri_PointOrder rp \<noteq> 0"

definition bind_create :: "CreateCargoReq \<Rightarrow> bool" where
  "bind_create req \<longleftrightarrow> cr_Weight req > 0 \<and> cr_Volume req > 0 \<and> cr_TruckType req \<noteq> []
     \<and> cr_RoutePoints req \<noteq> None \<and> list_all bind_route_point (slice (cr_RoutePoints req))"

section \<open>Validation\<close>

definition upperStr :: "ext \<Rightarrow> string \<Rightarrow> string" where
  "upperStr E s = ToUpper E (TrimSpace s)"

definition strPtrUpper :: "ext \<Rightarrow> string option \<Rightarrow> string option" where
  "strPtrUpper E s = (case s of None \<Rightarrow> None | Some t \<Rightarrow> if t = [] then s else Some (upperStr E t))"

text \<open>\<open>p != nil && *p != "" && !IsAllowed(*p, list)\<close>.\<close>

definition bad_ref :: "ext \<Rightarrow> string option \<Rightarrow> string list \<Rightarrow> bool" where
  "bad_ref E p allowed = (case p of None \<Rightarrow> False | Some v \<Rightarrow> v \<noteq> [] \<and> \<not> IsAllowed E v allowed)"

definition empty_ptr :: "string option \<Rightarrow> bool" where
  "empty_ptr p \<longleftrightarrow> p = None \<or> p = Some []"

definition bad_payment_refs :: "ext \<Rightarrow> PaymentReq \<Rightarrow> bool" where
  "bad_payment_refs E p \<longleftrightarrow>
     bad_ref E (pi_TotalCurrency p) (AllowedCurrencies E)
   \<or> bad_ref E (pi_PrepaymentCurrency p) (AllowedCurrencies E)
   \<or> bad_ref E (pi_RemainingCurrency p) (AllowedCurrencies E)
   \<or> bad_ref E (pi_PrepaymentType p) (AllowedPrepaymentTypes E)
   \<or> bad_ref E (pi_RemainingType p) (AllowedRemainingTypes E)"

text \<open>
  The first loop of \<open>validateCargoCreate\<close>: it stops at a type outside the list and
  otherwise reports whether a LOAD and an UNLOAD were seen.
\<close>

fun scan_points :: "ext \<Rightarrow> RoutePointReq list \<Rightarrow> bool \<Rightarrow> bool \<Rightarrow> (bool \<times> bool) option" where
  "scan_points E [] hasLoad hasUnload = Some (hasLoad, hasUnload)"
| "scan_points E (rp # rps) hasLoad hasUnload =
     (if \<not> IsAllowed E (ri_Type rp) (AllowedRoutePointTypes E) then None
      else scan_points E rps (hasLoad \<or> upperStr E (ri_Type rp) = ''LOAD'')
                             (hasUnload \<or> upperStr E (ri_Type rp) = ''UNLOAD''))"

text \<open>Validation says whether there is an error; the handlers drop its text.\<close>

definition validateCargoCreate :: "ext \<Rightarrow> CreateCargoReq \<Rightarrow> bool" where
  "validateCargoCreate E req =
     (if \<not> IsAllowed E (cr_TruckType req) (AllowedTruckTypes E) then False
      else (case scan_points E (slice (cr_RoutePoints req)) False False of
        None \<Rightarrow> False
      | Some (hasLoad, hasUnload) \<Rightarrow>
          (if \<not> hasLoad \<or> \<not> hasUnload then False
           else if (cr_TempMin req \<noteq> None \<or> cr_TempMax req \<noteq> None)
                 \<and> upperStr E (cr_TruckType req) \<noteq> ''REFRIGERATOR'' then False
           else if cr_ADREnabled req \<and> empty_ptr (cr_ADRClass req) then False
           else if cr_ReadyEnabled req \<and> empty_ptr (cr_ReadyAt req) then False
           else if bad_ref E (cr_ShipmentType req) (AllowedShipmentTypes E) then False
           else if list_ex (\<lambda>v. v \<noteq> [] \<and> \<not> IsAllowed E v (AllowedLoadingTypes E))
                     (slice (cr_LoadingTypes req)) then False
           else (case cr_Payment req of
                   None \<Rightarrow> True
                 | Some p \<Rightarrow> \<not> (\<not> pi_PriceRequest p \<and> pi_TotalAmount p = None)
                            \<and> \<not> bad_payment_refs E p))))"

definition validateCargoUpdate :: "ext \<Rightarrow> UpdateCargoReq \<Rightarrow> bool" where
  "validateCargoUpdate E req =
     (if (case ur_Weight req of None \<Rightarrow> False | Some w \<Rightarrow> w \<le> 0) then False
      else if bad_ref E (ur_TruckType req) (AllowedTruckTypes E) then False
      else if (ur_TempMin req \<noteq> None \<or> ur_TempMax req \<noteq> None)
            \<and> (case ur_TruckType req of None \<Rightarrow> True | Some t \<Rightarrow> upperStr E t \<noteq> ''REFRIGERATOR'') then False
      else if ur_ADREnabled req = Some True \<and> empty_ptr (ur_ADRClass req) then False
      else if ur_ReadyEnabled req = Some True \<and> empty_ptr (ur_ReadyAt req) then False
      else if bad_ref E (ur_ShipmentType req) (AllowedShipmentTypes E) then False
      else if list_ex (\<lambda>v. v \<noteq> [] \<and> \<not> IsAllowed E v (AllowedLoadingTypes E))
                (slice (ur_LoadingTypes req)) then False
      else if list_ex (\<lambda>rp. ri_Type rp \<noteq> [] \<and> \<not> IsAllowed E (ri_Type rp) (AllowedRoutePointTypes E))
                (slice (ur_RoutePoints req)) then False
      else (case ur_Payment req of None \<Rightarrow> True | Some p \<Rightarrow> \<not> bad_payment_refs E p))"

section \<open>From requests to parameters\<close>

definition toRoutePointInput :: "ext \<Rightarrow> RoutePointReq \<Rightarrow> RoutePointInput" where
  "toRoutePointInput E rp = rp\<lparr>ri_Type := upperStr E (ri_Type rp)\<rparr>"

definition toPaymentInput :: "ext \<Rightarrow> PaymentReq \<Rightarrow> PaymentInput" where
  "toPaymentInput E p = p
     \<lparr>pi_TotalCurrency := strPtrUpper E (pi_TotalCurrency p),
      pi_PrepaymentCurrency := strPtrUpper E (pi_PrepaymentCurrency p),
      pi_PrepaymentType := strPtrUpper E (pi_PrepaymentType p),
      pi_RemainingCurrency := strPtrUpper E (pi_RemainingCurrency p),
      pi_RemainingType := strPtrUpper E (pi_RemainingType p)\<rparr>"

definition toCreateParams :: "ext \<Rightarrow> CreateCargoReq \<Rightarrow> CreateParams" where
  "toCreateParams E req =
     \<lparr>cp_Weight = cr_Weight req, cp_Volume = cr_Volume req,
      cp_ReadyEnabled = cr_ReadyEnabled req, cp_ReadyAt = cr_ReadyAt req,
      cp_LoadComment = cr_LoadComment req, cp_TruckType = upperStr E (cr_TruckType req),
      cp_TempMin = cr_TempMin req, cp_TempMax = cr_TempMax req,
      cp_ADREnabled = cr_ADREnabled req, cp_ADRClass = strPtrUpper E (cr_ADRClass req),
      cp_LoadingTypes = Some (map (upperStr E) (slice (cr_LoadingTypes req))),
      cp_Requirements = cr_Requirements req,
      cp_ShipmentType = strPtrUpper E (cr_ShipmentType req),
      cp_BeltsCount = cr_BeltsCount req, cp_Documents = cr_Documents req,
      cp_ContactName = cr_ContactName req, cp_ContactPhone = cr_ContactPhone req,
      cp_Status = StatusPendingModeration,
      cp_RoutePoints = map (toRoutePointInput E) (slice (cr_RoutePoints req)),
      cp_Payment = map_option (toPaymentInput E) (cr_Payment req),
      cp_CreatedByType = None, cp_CreatedByID = None, cp_CompanyID = None\<rparr>"

definition toUpdateParams :: "ext \<Rightarrow> UpdateCargoReq \<Rightarrow> UpdateParams" where
  "toUpdateParams E req =
     \<lparr>up_Weight = ur_Weight req, up_Volume = ur_Volume req,
      up_ReadyEnabled = ur_ReadyEnabled req, up_ReadyAt = ur_ReadyAt req,
      up_LoadComment = ur_LoadComment req,
      up_TruckType = map_option (upperStr E) (ur_TruckType req),
      up_TempMin = ur_TempMin req, up_TempMax = ur_TempMax req,
      up_ADREnabled = ur_ADREnabled req, up_ADRClass = ur_ADRClass req,
      up_LoadingTypes = (if slice (ur_LoadingTypes req) \<noteq> []
                         then Some (map (upperStr E) (slice (ur_LoadingTypes req))) else None),
      up_Requirements = ur_Requirements req,
      up_ShipmentType = strPtrUpper E (ur_ShipmentType req),
      up_BeltsCount = ur_BeltsCount req, up_Documents = ur_Documents req,
      up_ContactName = ur_ContactName req, up_ContactPhone = ur_ContactPhone req,
      up_RoutePoints = map (toRoutePointInput E) (slice (ur_RoutePoints req)),
      up_Payment = map_option (toPaymentInput E) (ur_Payment req)\<rparr>"

section \<open>Answers\<close>

definition json_strings :: "string list option \<Rightarrow> json" where
  "json_strings = json_opt (\<lambda>l. JList (map JStr l))"

definition toCargoItem :: "ext \<Rightarrow> Cargo \<Rightarrow> (string \<times> json) list" where
  "toCargoItem E c =
     [(''id'', JStr (uuid_string E (c_id c))), (''weight'', JNum (c_weight c)),
      (''volume'', JNum (c_volume c)), (''ready_enabled'', JBool (c_ready_enabled c)),
      (''ready_at'', json_opt JTime (c_ready_at c)),
      (''load_comment'', json_opt JStr (c_load_comment c)),
      (''truck_type'', JStr (c_truck_type c)), (''temp_min'', json_opt JNum (c_temp_min c)),
      (''temp_max'', json_opt JNum (c_temp_max c)), (''adr_enabled'', JBool (c_adr_enabled c)),
      (''adr_class'', json_opt JStr (c_adr_class c)),
      (''loading_types'', json_strings (c_loading_types c)),
      (''requirements'', json_strings (c_requirements c)),
      (''shipment_type'', json_opt JStr (c_shipment_type c)),
      (''belts_count'', json_opt JInt (c_belts_count c)),
      (''documents'', json_opt (\<lambda>j. j) (DocumentsToJSON (c_documents c))),
      (''contact_name'', json_opt JStr (c_contact_name c)),
      (''contact_phone'', json_opt JStr (c_contact_phone c)), (''status'', JStr (c_status c)),
      (''created_at'', JTime (c_created_at c)), (''updated_at'', JTime (c_updated_at c))]
   @ (case c_created_by_type c of None \<Rightarrow> [] | Some t \<Rightarrow> [(''created_by_type'', JStr t)])
   @ (case c_created_by_id c of None \<Rightarrow> [] | Some u \<Rightarrow> [(''created_by_id'', JStr (uuid_string E u))])
   @ (case c_company_id c of None \<Rightarrow> [] | Some u \<Rightarrow> [(''company_id'', JStr (uuid_string E u))])"

definition toCargoListItems :: "ext \<Rightarrow> Cargo list \<Rightarrow> json" where
  "toCargoListItems E items = JList (map (\<lambda>c. JObj (toCargoItem E c)) items)"

definition toRoutePointsResp :: "ext \<Rightarrow> RoutePoint list \<Rightarrow> json" where
  "toRoutePointsResp E p = JList (map (\<lambda>rp. JObj
     [(''id'', JStr (uuid_string E (rp_ID rp))), (''cargo_id'', JStr (uuid_string E (rp_CargoID rp))),
      (''type'', JStr (rp_Type rp)), (''city_code'', JStr (rp_CityCode rp)),
      (''region_code'', JStr (rp_RegionCode rp)), (''address'', JStr (rp_Address rp)),
      (''orientir'', JStr (rp_Orientir rp)), (''lat'', JNum (rp_Lat rp)), (''lng'', JNum (rp_Lng rp)),
      (''comment'', json_opt JStr (rp_Comment rp)), (''point_order'', JInt (rp_PointOrder rp)),
      (''is_main_load'', JBool (rp_IsMainLoad rp)), (''is_main_unload'', JBool (rp_IsMainUnload rp))]) p)"

definition toPaymentResp :: "ext \<Rightarrow> Payment option \<Rightarrow> json" where
  "toPaymentResp E = json_opt (\<lambda>p. JObj
     [(''id'', JStr (uuid_string E (p_id p))), (''cargo_id'', JStr (uuid_string E (p_cargo_id p))),
      (''is_negotiable'', JBool (p_is_negotiable p)), (''price_request'', JBool (p_price_request p)),
      (''total_amount'', json_opt JNum (p_total_amount p)),
      (''total_currency'', json_opt JStr (p_total_currency p)),
      (''with_prepayment'', JBool (p_with_prepayment p)),
      (''without_prepayment'', JBool (p_without_prepayment p)),
      (''prepayment_amount'', json_opt JNum (p_prepayment_amount p)),
      (''prepayment_currency'', json_opt JStr (p_prepayment_currency p)),
      (''prepayment_type'', json_opt JStr (p_prepayment_type p)),
      (''remaining_amount'', json_opt JNum (p_remaining_amount p)),
      (''remaining_currency'', json_opt JStr (p_remaining_currency p)),
      (''remaining_type'', json_opt JStr (p_remaining_type p))])"

definition toCargoDetail :: "ext \<Rightarrow> Cargo \<Rightarrow> RoutePoint list \<Rightarrow> Payment option \<Rightarrow> json" where
  "toCargoDetail E c points pay = JObj (toCargoItem E c
     @ [(''route_points'', toRoutePointsResp E points), (''payment'', toPaymentResp E pay)])"

definition toOfferList :: "ext \<Rightarrow> Offer list \<Rightarrow> json" where
  "toOfferList E offers = JList (map (\<lambda>q. JObj
     [(''id'', JStr (uuid_string E (o_id q))), (''cargo_id'', JStr (uuid_string E (o_cargo_id q))),
      (''carrier_id'', JStr (uuid_string E (o_carrier_id q))), (''price'', JNum (o_price q)),
      (''currency'', JStr (o_currency q)), (''comment'', json_opt JStr (o_comment q)),
      (''status'', JStr (o_status q)), (''created_at'', JTime (o_created_at q))]) offers)"

definition id_json :: "ext \<Rightarrow> uuid \<Rightarrow> json" where
  "id_json E u = JObj [(''id'', JStr (uuid_string E u))]"

text \<open>\<open>x, _ := f()\<close>: the zero value when there is an error.\<close>

definition or_zero :: "'a \<Rightarrow> err + 'a \<Rightarrow> 'a" where
  "or_zero z r = (case r of Inl _ \<Rightarrow> z | Inr a \<Rightarrow> a)"

section \<open>Handlers\<close>

definition get_now :: "('z, time) prog" where
  "get_now = State (\<lambda>w. (w_now w, w))"

lemma run_get_now [simp]: "run get_now w = (w_now w, w)"
  by (simp add: get_now_def)

definition created_answer :: "ext \<Rightarrow> uuid \<Rightarrow> ('z, response) prog" where
  "created_answer E cid = do {
     obj \<leftarrow> cargo_GetByID cid False;
     (case obj of
        Inr (Some c) \<Rightarrow> do {
          points \<leftarrow> cargo_GetRoutePoints cid;
          pay \<leftarrow> cargo_GetPayment cid;
          ret (SuccessLang 201 ''created'' (toCargoDetail E c (or_zero [] points) (or_zero None pay)))
        }
      | _ \<Rightarrow> ret (SuccessLang 201 ''created'' (id_json E cid)))
   }"

text \<open>
  The creator of a cargo, from the token if there is one: \<open>Inl\<close> an early answer, \<open>Inr\<close> the
  parameters with the creator filled in.
\<close>

definition set_creator :: "string \<Rightarrow> uuid \<Rightarrow> CreateParams \<Rightarrow> CreateParams" where
  "set_creator t u p = p\<lparr>cp_CreatedByType := Some t, cp_CreatedByID := Some u\<rparr>"

definition creator_from_token ::
    "ext \<Rightarrow> CargoHandler \<Rightarrow> string \<Rightarrow> CreateParams \<Rightarrow> ('z, response + CreateParams) prog" where
  "creator_from_token E h header p = do {
     now \<leftarrow> get_now;
     let raw = TrimSpace header;
     (case h_jwtm h of
        None \<Rightarrow> ret (Inr p)
      | Some m \<Rightarrow>
          (if raw = [] then ret (Inr p)
           else (case ParseAccess E m now raw of
                   Inl _ \<Rightarrow> ret (Inr p)
                 | Inr (userID, role) \<Rightarrow>
                     (if role = ''admin'' then ret (Inr (set_creator ''ADMIN'' userID p))
                      else if role = ''dispatcher'' then
                        (if FreelanceDispatcherCargoLimit h > 0
                         then do {
                           n \<leftarrow> cargo_CountByDispatcher userID;
                           (case n of
                              Inl _ \<Rightarrow> ret (Inl (ErrorLang 500 ''failed_to_check_cargo_limit''))
                            | Inr count \<Rightarrow>
                                (if count \<ge> FreelanceDispatcherCargoLimit h
                                 then ret (Inl (ErrorWithData 403 ''cargo limit reached for freelance dispatcher''
                                        (JObj [(''limit'', JInt (FreelanceDispatcherCargoLimit h)),
                                               (''current'', JInt count)])))
                                 else ret (Inr (set_creator ''DISPATCHER'' userID p))))
                         }
                         else ret (Inr (set_creator ''DISPATCHER'' userID p)))
                      else ret (Inr p)))))
   }"

definition company_creator :: "CreateCargoReq \<Rightarrow> CreateParams \<Rightarrow> CreateParams" where
  "company_creator req p =
     (case cr_CompanyID req of
        Some co \<Rightarrow>
          (if cp_CreatedByType p = None
           then p\<lparr>cp_CreatedByType := Some ''COMPANY'', cp_CreatedByID := Some co,
                  cp_CompanyID := Some co\<rparr>
           else p)
      | None \<Rightarrow> p)"

definition CargoHandler_Create ::
    "ext \<Rightarrow> CargoHandler \<Rightarrow> string \<Rightarrow> CreateCargoReq option \<Rightarrow> ('z, response) prog" where
  "CargoHandler_Create E h header body =
     (case body of
        None \<Rightarrow> ret (ErrorLang 400 ''invalid_payload_detail'')
      | Some req \<Rightarrow>
          (if \<not> bind_create req then ret (ErrorLang 400 ''invalid_payload_detail'')
           else if \<not> validateCargoCreate E req then ret (ErrorLang 400 ''invalid_payload_detail'')
           else do {
             let params = (toCreateParams E req)\<lparr>cp_CompanyID := cr_CompanyID req\<rparr>;
             r \<leftarrow> creator_from_token E h header params;
             (case r of
                Inl answer \<Rightarrow> ret answer
              | Inr params \<Rightarrow> do {
                  r \<leftarrow> cargo_Create E (company_creator req params);
                  (case r of
                     Inl e \<Rightarrow> ret (ErrorLang 500 ''failed_to_create_cargo'')
                   | Inr cid \<Rightarrow> created_answer E cid)
                })
           }))"

type_synonym query = "string \<Rightarrow> string option"

definition Query :: "query \<Rightarrow> string \<Rightarrow> string" where
  "Query q k = (case q k of None \<Rightarrow> [] | Some v \<Rightarrow> v)"

definition DefaultQuery :: "query \<Rightarrow> string \<Rightarrow> string \<Rightarrow> string" where
  "DefaultQuery q k v = (case q k of None \<Rightarrow> v | Some x \<Rightarrow> x)"

definition getIntQuery :: "query \<Rightarrow> string \<Rightarrow> int \<Rightarrow> int" where
  "getIntQuery q key defaultVal =
     (let v = Query q key
      in if v = [] then defaultVal
         else (case Atoi v of None \<Rightarrow> defaultVal | Some n \<Rightarrow> if n < 1 then defaultVal else n))"

text \<open>The company of the driver whose token the request carries, if all of that can be found.\<close>

definition driver_company :: "ext \<Rightarrow> CargoHandler \<Rightarrow> string \<Rightarrow> ('z, uuid option) prog" where
  "driver_company E h header = do {
     now \<leftarrow> get_now;
     let raw = TrimSpace header;
     (case h_jwtm h of
        None \<Rightarrow> ret None
      | Some m \<Rightarrow>
          (if \<not> h_drivers h \<or> raw = [] then ret None
           else (case ParseAccessWithSID E m now raw of
                   Inl _ \<Rightarrow> ret None
                 | Inr (userID, role, _, _) \<Rightarrow>
                     (if role = ''driver'' \<and> userID \<noteq> uuid_nil
                      then do {
                        drv \<leftarrow> drivers_FindByID E userID;
                        ret (case or_zero None drv of
                               None \<Rightarrow> None
                             | Some d \<Rightarrow> (case dr_CompanyID d of
                                   None \<Rightarrow> None
                                 | Some s \<Rightarrow> if s \<noteq> [] then uuid_parse E s else None))
                      }
                      else ret None))))
   }"

definition list_filter :: "ext \<Rightarrow> query \<Rightarrow> uuid option \<Rightarrow> ListFilter" where
  "list_filter E q company =
     \<lparr>lf_Status = (if Query q ''status'' = [] then []
                   else map (\<lambda>s. TrimSpace (ToUpper E s)) (split_on (CHR '','') (Query q ''status''))),
      lf_ForDriverCompanyID = company,
      lf_WeightMin = (if Query q ''weight_min'' = [] then None else parse_float E (Query q ''weight_min'')),
      lf_WeightMax = (if Query q ''weight_max'' = [] then None else parse_float E (Query q ''weight_max'')),
      lf_TruckType = TrimSpace (Query q ''truck_type''),
      lf_CreatedFrom = TrimSpace (Query q ''created_from''),
      lf_CreatedTo = TrimSpace (Query q ''created_to''),
      lf_WithOffers = (let v = Query q ''with_offers''
                       in if v = [] then None else Some (ToLower E v = ''true'' \<or> v = ''1'')),
      lf_Page = getIntQuery q ''page'' 1, lf_Limit = getIntQuery q ''limit'' 20,
      lf_Sort = DefaultQuery q ''sort'' ''created_at:desc''\<rparr>"

definition CargoHandler_List :: "ext \<Rightarrow> CargoHandler \<Rightarrow> string \<Rightarrow> query \<Rightarrow> ('z, response) prog" where
  "CargoHandler_List E h header q = do {
     company \<leftarrow> driver_company E h header;
     r \<leftarrow> cargo_List E (list_filter E q company);
     (case r of
        Inl e \<Rightarrow> ret (ErrorLang 500 ''failed_to_list'')
      | Inr result \<Rightarrow> ret (OKLang ''ok'' (JObj
          [(''items'', toCargoListItems E (lr_Items result)), (''total'', JInt (lr_Total result))])))
   }"

definition CargoHandler_GetByID :: "ext \<Rightarrow> string \<Rightarrow> ('z, response) prog" where
  "CargoHandler_GetByID E idParam =
     (case uuid_parse E idParam of
        None \<Rightarrow> ret (ErrorLang 400 ''invalid_id'')
      | Some cid \<Rightarrow> do {
          obj \<leftarrow> cargo_GetByID cid False;
          (case obj of
             Inl e \<Rightarrow> ret (ErrorLang 500 ''failed_to_get_cargo'')
           | Inr None \<Rightarrow> ret (ErrorLang 404 ''cargo_not_found'')
           | Inr (Some c) \<Rightarrow> do {
               points \<leftarrow> cargo_GetRoutePoints cid;
               pay \<leftarrow> cargo_GetPayment cid;
               ret (OKLang ''ok'' (toCargoDetail E c (or_zero [] points) (or_zero None pay)))
             })
        })"

definition CargoHandler_Update :: "ext \<Rightarrow> string \<Rightarrow> UpdateCargoReq option \<Rightarrow> ('z, response) prog" where
  "CargoHandler_Update E idParam body =
     (case uuid_parse E idParam of
        None \<Rightarrow> ret (ErrorLang 400 ''invalid_id'')
      | Some cid \<Rightarrow>
          (case body of
             None \<Rightarrow> ret (ErrorLang 400 ''invalid_payload_detail'')
           | Some req \<Rightarrow>
               (if \<not> validateCargoUpdate E req then ret (ErrorLang 400 ''invalid_payload_detail'')
                else do {
                  r \<leftarrow> cargo_Update E cid (toUpdateParams E req);
                  (case r of
                     Inl e \<Rightarrow> (if e = ErrCannotEditAfterAssigned
                               then ret (ErrorLang 400 ''invalid_payload_detail'')
                               else ret (ErrorLang 500 ''failed_to_update_cargo''))
                   | Inr _ \<Rightarrow> ret (OKLang ''ok'' (id_json E cid)))
                })))"

definition CargoHandler_Delete :: "ext \<Rightarrow> string \<Rightarrow> ('z, response) prog" where
  "CargoHandler_Delete E idParam =
     (case uuid_parse E idParam of
        None \<Rightarrow> ret (ErrorLang 400 ''invalid_id'')
      | Some cid \<Rightarrow> do {
          r \<leftarrow> cargo_Delete cid;
          (case r of
             Inl e \<Rightarrow> ret (ErrorLang 500 ''failed_to_delete_cargo'')
           | Inr _ \<Rightarrow> ret (OKLang ''ok'' (id_json E cid)))
        })"

definition bind_cargo_status :: "string \<Rightarrow> bool" where
  "bind_cargo_status s \<longleftrightarrow> s \<in> {''CREATED'', ''PENDING_MODERATION'', ''SEARCHING_ALL'',
     ''SEARCHING_COMPANY'', ''REJECTED'', ''ASSIGNED'', ''IN_PROGRESS'', ''IN_TRANSIT'',
     ''DELIVERED'', ''COMPLETED'', ''CANCELLED''}"

definition CargoHandler_PatchStatus :: "ext \<Rightarrow> string \<Rightarrow> string option \<Rightarrow> ('z, response) prog" where
  "CargoHandler_PatchStatus E idParam body =
     (case uuid_parse E idParam of
        None \<Rightarrow> ret (ErrorLang 400 ''invalid_id'')
      | Some cid \<Rightarrow>
          (case body of
             None \<Rightarrow> ret (ErrorLang 400 ''invalid_payload_detail'')
           | Some status \<Rightarrow>
               (if \<not> bind_cargo_status status then ret (ErrorLang 400 ''invalid_payload_detail'')
                else do {
                  r \<leftarrow> cargo_SetStatus cid status;
                  (case r of
                     Inl e \<Rightarrow> ret (ErrorLang 400 ''invalid_payload_detail'')
                   | Inr _ \<Rightarrow> ret (OKLang ''updated'' (JObj
                       [(''id'', JStr (uuid_string E cid)), (''status'', JStr status)])))
                })))"

section \<open>Offers\<close>

record OfferReq =
  or_CarrierID :: uuid
  or_Price :: float64
  or_Currency :: string
  or_Comment :: string

text \<open>\<open>required\<close> on an array type such as \<open>uuid.UUID\<close> means not all zeros.\<close>

definition bind_offer :: "OfferReq \<Rightarrow> bool" where
  "bind_offer req \<longleftrightarrow> or_CarrierID req \<noteq> uuid_nil \<and> or_Price req \<noteq> 0 \<and> or_Currency req \<noteq> []"

definition finish_offer :: "ext \<Rightarrow> uuid \<Rightarrow> OfferReq \<Rightarrow> ('z, response) prog" where
  "finish_offer E cid req = do {
     r \<leftarrow> cargo_CreateOffer cid (or_CarrierID req) (or_Price req) (or_Currency req) (or_Comment req);
     (case r of
        Inl e \<Rightarrow> ret (ErrorLang 500 ''failed to create offer'')
      | Inr offerID \<Rightarrow> ret (SuccessLang 201 ''created'' (id_json E offerID)))
   }"

definition CargoHandler_CreateOffer ::
    "ext \<Rightarrow> CargoHandler \<Rightarrow> string \<Rightarrow> OfferReq option \<Rightarrow> ('z, response) prog" where
  "CargoHandler_CreateOffer E h idParam body =
     (case uuid_parse E idParam of
        None \<Rightarrow> ret (ErrorLang 400 ''invalid_id'')
      | Some cid \<Rightarrow> do {
          obj \<leftarrow> cargo_GetByID cid False;
          (case or_zero None obj of
             None \<Rightarrow> ret (ErrorLang 404 ''cargo_not_found'')
           | Some c \<Rightarrow>
               (if \<not> IsSearching (c_status c) then ret (ErrorLang 400 ''cargo_not_searching'')
                else (case body of
                  None \<Rightarrow> ret (ErrorLang 400 ''invalid_payload_detail'')
                | Some req \<Rightarrow>
                    (if \<not> bind_offer req then ret (ErrorLang 400 ''invalid_payload_detail'')
                     else if c_status c = StatusSearchingCompany
                     then (case c_company_id c of
                             None \<Rightarrow> ret (ErrorLang 400 ''cargo_not_searching'')
                           | Some co \<Rightarrow>
                               (if h_drivers h
                                then do {
                                  drv \<leftarrow> drivers_FindByID E (or_CarrierID req);
                                  (case or_zero None drv of
                                     None \<Rightarrow> ret (ErrorLang 403 ''cargo_visible_only_to_company_drivers'')
                                   | Some d \<Rightarrow>
                                       (if dr_CompanyID d \<noteq> Some (uuid_string E co)
                                        then ret (ErrorLang 403 ''cargo_visible_only_to_company_drivers'')
                                        else finish_offer E cid req))
                                }
                                else finish_offer E cid req))
                     else finish_offer E cid req))))
        })"

definition CargoHandler_ListOffers :: "ext \<Rightarrow> string \<Rightarrow> ('z, response) prog" where
  "CargoHandler_ListOffers E idParam =
     (case uuid_parse E idParam of
        None \<Rightarrow> ret (ErrorLang 400 ''invalid_id'')
      | Some cid \<Rightarrow> do {
          r \<leftarrow> cargo_GetOffers cid;
          (case r of
             Inl e \<Rightarrow> ret (ErrorLang 500 ''failed to list offers'')
           | Inr offers \<Rightarrow> ret (OKLang ''ok'' (JObj [(''items'', toOfferList E offers)])))
        })"

text \<open>The trip of an accepted offer: created, and given to the carrier when that works.\<close>

definition open_trip :: "uuid \<Rightarrow> uuid \<Rightarrow> uuid \<Rightarrow> ('z, uuid) prog" where
  "open_trip cargoID offerID carrierID = do {
     t \<leftarrow> trips_Create cargoID offerID;
     let tripID = or_zero uuid_nil t;
     (if tripID \<noteq> uuid_nil
      then do { _ \<leftarrow> trips_AssignDriver tripID carrierID; ret tripID }
      else ret uuid_nil)
   }"

definition CargoHandler_AcceptOffer :: "ext \<Rightarrow> CargoHandler \<Rightarrow> string \<Rightarrow> ('z, response) prog" where
  "CargoHandler_AcceptOffer E h idParam =
     (case uuid_parse E idParam of
        None \<Rightarrow> ret (ErrorLang 400 ''invalid offer id'')
      | Some offerID \<Rightarrow> do {
          r \<leftarrow> cargo_AcceptOffer offerID;
          (case r of
             Inl e \<Rightarrow> ret (ErrorLang 400 ''invalid_payload_detail'')
           | Inr (cargoID, carrierID) \<Rightarrow> do {
               let plain = OKLang ''ok'' (JObj
                 [(''cargo_id'', JStr (uuid_string E cargoID)),
                  (''offer_id'', JStr (uuid_string E offerID)), (''status'', JStr ''accepted'')]);
               (if h_tripsRepo h
                then do {
                  tripID \<leftarrow> open_trip cargoID offerID carrierID;
                  (if tripID \<noteq> uuid_nil
                   then ret (OKLang ''ok'' (JObj
                     [(''cargo_id'', JStr (uuid_string E cargoID)),
                      (''offer_id'', JStr (uuid_string E offerID)),
                      (''trip_id'', JStr (uuid_string E tripID)),
                      (''driver_id'', JStr (uuid_string E carrierID)),
                      (''status'', JStr ''accepted'')]))
                   else ret plain)
                }
                else ret plain)
             })
        })"

text \<open>\<open>dispatcherID\<close> is what \<open>RequireDispatcher\<close> put into the context.\<close>

definition own_cargo :: "uuid \<Rightarrow> 'd cargo_fields \<Rightarrow> bool" where
  "own_cargo dispatcherID c \<longleftrightarrow>
     c_created_by_type c = Some ''DISPATCHER'' \<and> c_created_by_id c = Some dispatcherID"

definition CargoHandler_RejectOfferDispatcher ::
    "ext \<Rightarrow> uuid \<Rightarrow> string \<Rightarrow> string option \<Rightarrow> ('z, response) prog" where
  "CargoHandler_RejectOfferDispatcher E dispatcherID idParam body =
     (case uuid_parse E idParam of
        None \<Rightarrow> ret (ErrorLang 400 ''invalid_id'')
      | Some offerID \<Rightarrow> do {
          q \<leftarrow> cargo_GetOfferByID offerID;
          (case or_zero None q of
             None \<Rightarrow> ret (ErrorLang 404 ''offer_not_found'')
           | Some offer \<Rightarrow> do {
               obj \<leftarrow> cargo_GetByID (o_cargo_id offer) False;
               (case or_zero None obj of
                  None \<Rightarrow> ret (ErrorLang 404 ''cargo_not_found'')
                | Some c \<Rightarrow>
                    (if \<not> own_cargo dispatcherID c then ret (ErrorLang 403 ''not_your_cargo'')
                     else do {
                       r \<leftarrow> cargo_RejectOffer offerID (case body of None \<Rightarrow> [] | Some reason \<Rightarrow> reason);
                       (case r of
                          Inl e \<Rightarrow> ret (ErrorLang 400 ''offer_not_found_or_not_pending'')
                        | Inr _ \<Rightarrow> ret (OKLang ''ok'' (JObj [(''status'', JStr ''rejected'')])))
                     }))
             })
        })"

end
