(* ===== verification/Trips_Handler.thy ===== *)
theory Trips_Handler
  imports Cargo_Handler
begin

text \<open>
  The endpoints around an accepted offer: trips (\<open>handlers/trips.go\<close>), moderation of cargo by an
  admin (\<open>handlers/admin_cargo_moderation.go\<close>) and recommendations of cargo to drivers
  (\<open>handlers/cargo_recommendations.go\<close>). The identifiers the middleware puts into the context are
  arguments.
\<close>

section \<open>Trips\<close>

definition toTripResp :: "ext \<Rightarrow> Trip \<Rightarrow> json" where
  "toTripResp E t = JObj
     ([(''id'', JStr (uuid_string E (t_id t))), (''cargo_id'', JStr (uuid_string E (t_cargo_id t))),
       (''offer_id'', JStr (uuid_string E (t_offer_id t))), (''status'', JStr (t_status t)),
       (''created_at'', JTime (t_created_at t)), (''updated_at'', JTime (t_updated_at t))]
      @ (case t_driver_id t of None \<Rightarrow> [] | Some u \<Rightarrow> [(''driver_id'', JStr (uuid_string E u))]))"

definition TripsHandler_Get :: "ext \<Rightarrow> string \<Rightarrow> ('z, response) prog" where
  "TripsHandler_Get E idParam =
     (case uuid_parse E idParam of
        None \<Rightarrow> ret (ErrorLang 400 ''invalid_id'')
      | Some tripID \<Rightarrow> do {
          t \<leftarrow> trips_GetByID tripID;
          (case or_zero None t of
             None \<Rightarrow> ret (ErrorLang 404 ''trip_not_found'')
           | Some t \<Rightarrow> ret (OKLang ''ok'' (toTripResp E t)))
        })"

definition TripsHandler_List :: "ext \<Rightarrow> query \<Rightarrow> ('z, response) prog" where
  "TripsHandler_List E q =
     (if Query q ''cargo_id'' = [] then ret (ErrorLang 400 ''require_cargo_id'')
      else (case uuid_parse E (Query q ''cargo_id'') of
        None \<Rightarrow> ret (ErrorLang 400 ''invalid_cargo_id'')
      | Some cargoID \<Rightarrow> do {
          t \<leftarrow> trips_GetByCargoID cargoID;
          (case or_zero None t of
             None \<Rightarrow> ret (OKLang ''ok'' (JObj [(''items'', JList [])]))
           | Some t \<Rightarrow> ret (OKLang ''ok'' (JObj [(''items'', JList [toTripResp E t])])))
        }))"

definition TripsHandler_ListMy :: "ext \<Rightarrow> uuid \<Rightarrow> query \<Rightarrow> ('z, response) prog" where
  "TripsHandler_ListMy E driverID q = do {
     let limit = Atoi_value (DefaultQuery q ''limit'' ''50'');
     r \<leftarrow> trips_ListByDriver driverID limit;
     (case r of
        Inl e \<Rightarrow> ret (ErrorLang 500 ''failed_to_list'')
      | Inr l \<Rightarrow> ret (OKLang ''ok'' (JObj [(''items'', JList (map (toTripResp E) l))])))
   }"

text \<open>
  The tag \<open>uuid\<close> of the body is stricter than \<open>uuid.Parse\<close>: its pattern is that of the validator
  package, a parameter here.
\<close>

definition TripsHandler_AssignDriver ::
    "ext \<Rightarrow> (string \<Rightarrow> bool) \<Rightarrow> string \<Rightarrow> string option \<Rightarrow> ('z, response) prog" where
  "TripsHandler_AssignDriver E uuid_tag idParam body =
     (case uuid_parse E idParam of
        None \<Rightarrow> ret (ErrorLang 400 ''invalid_id'')
      | Some tripID \<Rightarrow>
          (case body of
             None \<Rightarrow> ret (ErrorLang 400 ''invalid_payload_detail'')
           | Some driver \<Rightarrow>
               (if driver = [] \<or> \<not> uuid_tag driver then ret (ErrorLang 400 ''invalid_payload_detail'')
                else (let driverID = parsed_uuid E driver
                      in if driverID = uuid_nil then ret (ErrorLang 400 ''invalid_driver_id'')
                         else do {
                           r \<leftarrow> trips_AssignDriver tripID driverID;
                           (case r of
                              Inl e \<Rightarrow> (if e = ErrNotFound
                                 then ret (ErrorLang 404 ''trip_not_found_or_not_pending_driver'')
                                 else ret (ErrorLang 400 ''invalid_payload_detail''))
                            | Inr _ \<Rightarrow> ret (OKLang ''ok'' (JObj [(''status'', JStr ''pending_driver''),
                                 (''driver_id'', JStr (uuid_string E driverID))])))
                         }))))"

definition TripsHandler_DriverConfirm :: "ext \<Rightarrow> uuid \<Rightarrow> string \<Rightarrow> ('z, response) prog" where
  "TripsHandler_DriverConfirm E driverID idParam =
     (case uuid_parse E idParam of
        None \<Rightarrow> ret (ErrorLang 400 ''invalid_id'')
      | Some tripID \<Rightarrow> do {
          r \<leftarrow> trips_DriverConfirm tripID driverID;
          (case r of
             Inl e \<Rightarrow> (if e = ErrNotFound
                       then ret (ErrorLang 404 ''trip not found or not assigned to you'')
                       else ret (ErrorLang 400 ''invalid_payload_detail''))
           | Inr _ \<Rightarrow> ret (OKLang ''ok'' (JObj [(''status'', JStr TripAssigned)])))
        })"

definition TripsHandler_DriverReject :: "ext \<Rightarrow> uuid \<Rightarrow> string \<Rightarrow> ('z, response) prog" where
  "TripsHandler_DriverReject E driverID idParam =
     (case uuid_parse E idParam of
        None \<Rightarrow> ret (ErrorLang 400 ''invalid_id'')
      | Some tripID \<Rightarrow> do {
          r \<leftarrow> trips_DriverReject tripID driverID;
          (case r of
             Inl e \<Rightarrow> (if e = ErrNotFound then ret (ErrorLang 404 ''trip_not_found'')
                       else ret (ErrorLang 400 ''invalid_payload_detail''))
           | Inr _ \<Rightarrow> ret (OKLang ''ok'' (JObj [(''status'', JStr TripPendingDriver)])))
        })"

definition bind_trip_status :: "string \<Rightarrow> bool" where
  "bind_trip_status s \<longleftrightarrow> s \<in> {''LOADING'', ''EN_ROUTE'', ''UNLOADING'', ''COMPLETED'', ''CANCELLED''}"

text \<open>What a trip's new status does to its cargo; the error is dropped.\<close>

definition sync_cargo :: "bool \<Rightarrow> string \<Rightarrow> uuid \<Rightarrow> ('z, unit) prog" where
  "sync_cargo hasCargoRepo status cargoID =
     (if hasCargoRepo
      then (if status = TripLoading
            then do { _ \<leftarrow> cargo_SetCargoStatusInProgress cargoID; ret () }
            else if status = TripCompleted
            then do { _ \<leftarrow> cargo_SetCargoStatusCompleted cargoID; ret () }
            else ret ())
      else ret ())"

definition TripsHandler_PatchStatus ::
    "ext \<Rightarrow> bool \<Rightarrow> uuid \<Rightarrow> string \<Rightarrow> string option \<Rightarrow> ('z, response) prog" where
  "TripsHandler_PatchStatus E hasCargoRepo driverID idParam body =
     (case uuid_parse E idParam of
        None \<Rightarrow> ret (ErrorLang 400 ''invalid_id'')
      | Some tripID \<Rightarrow> do {
          t \<leftarrow> trips_GetByID tripID;
          (case or_zero None t of
             None \<Rightarrow> ret (ErrorLang 403 ''trip not found or not assigned to you'')
           | Some t \<Rightarrow>
               (if t_driver_id t \<noteq> Some driverID
                then ret (ErrorLang 403 ''trip not found or not assigned to you'')
                else (case body of
                  None \<Rightarrow> ret (ErrorLang 400 ''invalid_payload_detail'')
                | Some status \<Rightarrow>
                    (if \<not> bind_trip_status status then ret (ErrorLang 400 ''invalid_payload_detail'')
                     else do {
                       r \<leftarrow> trips_SetStatus tripID status;
                       (case r of
                          Inl e \<Rightarrow> (if e = ErrInvalidTransition
                                    then ret (ErrorLang 400 ''invalid_status_transition'')
                                    else ret (ErrorLang 400 ''invalid_payload_detail''))
                        | Inr _ \<Rightarrow> do {
                            _ \<leftarrow> sync_cargo hasCargoRepo status (t_cargo_id t);
                            ret (OKLang ''updated'' (JObj [(''status'', JStr status)]))
                          })
                     }))))
        })"

section \<open>Moderation\<close>

definition bounded_query :: "query \<Rightarrow> string \<Rightarrow> int \<Rightarrow> (int \<Rightarrow> bool) \<Rightarrow> int" where
  "bounded_query q key defaultVal ok =
     (let v = Query q key
      in if v = [] then defaultVal
         else (case Atoi v of None \<Rightarrow> defaultVal | Some n \<Rightarrow> if ok n then n else defaultVal))"

definition Moderation_ListPending :: "ext \<Rightarrow> query \<Rightarrow> ('z, response) prog" where
  "Moderation_ListPending E q = do {
     let limit = bounded_query q ''limit'' 20 (\<lambda>n. n > 0 \<and> n \<le> 100);
     let offset = bounded_query q ''offset'' 0 (\<lambda>n. n \<ge> 0);
     r \<leftarrow> cargo_ListPendingModeration limit offset;
     (case r of
        Inl e \<Rightarrow> ret (ErrorLang 500 ''failed_to_list'')
      | Inr (l, n) \<Rightarrow> ret (OKLang ''ok'' (JObj
          [(''items'', JList (map (\<lambda>c. JObj
             [(''id'', JStr (uuid_string E (c_id c))), (''weight'', JNum (c_weight c)),
              (''volume'', JNum (c_volume c)), (''truck_type'', JStr (c_truck_type c)),
              (''status'', JStr (c_status c)), (''created_at'', JTime (c_created_at c)),
              (''created_by_type'', json_opt JStr (c_created_by_type c)),
              (''created_by_id'', json_opt (\<lambda>u. JStr (uuid_string E u)) (c_created_by_id c))]) l)),
           (''total'', JInt n)])))
   }"

text \<open>A body that does not parse leaves the field empty.\<close>

definition search_visibility :: "ext \<Rightarrow> Cargo \<Rightarrow> string option \<Rightarrow> string" where
  "search_visibility E c body =
     (let v = TrimSpace (ToLower E (case body of None \<Rightarrow> [] | Some s \<Rightarrow> s));
          v = (if v \<noteq> SearchVisibilityCompany then SearchVisibilityAll else v)
      in if c_created_by_type c = Some ''DISPATCHER'' then SearchVisibilityAll else v)"

definition Moderation_Accept :: "ext \<Rightarrow> string \<Rightarrow> string option \<Rightarrow> ('z, response) prog" where
  "Moderation_Accept E idParam body =
     (case uuid_parse E idParam of
        None \<Rightarrow> ret (ErrorLang 400 ''invalid_id'')
      | Some cid \<Rightarrow>
          (if cid = uuid_nil then ret (ErrorLang 400 ''invalid_id'')
           else do {
             obj \<leftarrow> cargo_GetByID cid False;
             (case or_zero None obj of
                None \<Rightarrow> ret (ErrorLang 404 ''cargo_not_found'')
              | Some c \<Rightarrow>
                  (if c_status c \<noteq> StatusPendingModeration
                   then ret (ErrorLang 400 ''cargo_not_pending_moderation'')
                   else do {
                     let visibility = search_visibility E c body;
                     r \<leftarrow> cargo_ModerationAccept cid visibility;
                     (case r of
                        Inl e \<Rightarrow> ret (ErrorLang 400 ''cargo_not_pending_moderation'')
                      | Inr _ \<Rightarrow> ret (OKLang ''ok'' (JObj [(''status'',
                          JStr (if visibility = SearchVisibilityCompany then StatusSearchingCompany
                                else StatusSearchingAll))])))
                   }))
           }))"

definition Moderation_Reject :: "ext \<Rightarrow> string \<Rightarrow> string option \<Rightarrow> ('z, response) prog" where
  "Moderation_Reject E idParam body =
     (case uuid_parse E idParam of
        None \<Rightarrow> ret (ErrorLang 400 ''invalid_id'')
      | Some cid \<Rightarrow>
          (if cid = uuid_nil then ret (ErrorLang 400 ''invalid_id'')
           else (case body of
             None \<Rightarrow> ret (ErrorLang 400 ''moderation_rejection_reason_required'')
           | Some reason \<Rightarrow>
               (if reason = [] then ret (ErrorLang 400 ''moderation_rejection_reason_required'')
                else do {
                  r \<leftarrow> cargo_ModerationReject cid reason;
                  (case r of
                     Inl e \<Rightarrow> ret (ErrorLang 400 ''cargo_not_pending_moderation'')
                   | Inr _ \<Rightarrow> ret (OKLang ''ok'' (JObj [(''status'', JStr StatusRejected)])))
                }))))"

section \<open>Recommendations\<close>

definition Recommendations_Recommend ::
    "ext \<Rightarrow> uuid \<Rightarrow> string \<Rightarrow> uuid option \<Rightarrow> ('z, response) prog" where
  "Recommendations_Recommend E dispatcherID idParam body =
     (case uuid_parse E idParam of
        None \<Rightarrow> ret (ErrorLang 400 ''invalid_id'')
      | Some cid \<Rightarrow>
          (if cid = uuid_nil then ret (ErrorLang 400 ''invalid_id'')
           else (case body of
             None \<Rightarrow> ret (ErrorLang 400 ''invalid_payload_detail'')
           | Some driverID \<Rightarrow>
               (if driverID = uuid_nil then ret (ErrorLang 400 ''invalid_payload_detail'')
                else do {
                  obj \<leftarrow> cargo_GetByID cid False;
                  (case or_zero None obj of
                     None \<Rightarrow> ret (ErrorLang 404 ''cargo_not_found'')
                   | Some c \<Rightarrow>
                       (if \<not> IsSearching (c_status c) then ret (ErrorLang 400 ''cargo_not_searching'')
                        else if \<not> own_cargo dispatcherID c then ret (ErrorLang 403 ''not_your_cargo'')
                        else do {
                          r \<leftarrow> recs_Create cid driverID dispatcherID;
                          (case r of
                             Inl e \<Rightarrow> ret (ErrorLang 500 ''failed_to_create_recommendation'')
                           | Inr _ \<Rightarrow> ret (SuccessLang 201 ''created'' (JObj
                               [(''cargo_id'', JStr (uuid_string E cid)),
                                (''driver_id'', JStr (uuid_string E driverID))])))
                        }))
                }))))"

text \<open>The loop that looks up the cargo of each recommendation.\<close>

fun recommended_items :: "ext \<Rightarrow> Recommendation list \<Rightarrow> ('z, json list) prog" where
  "recommended_items E [] = ret []"
| "recommended_items E (r # rs) = do {
     obj \<leftarrow> cargo_GetByID (rec_cargo_id r) False;
     items \<leftarrow> recommended_items E rs;
     ret (JObj ([(''cargo_id'', JStr (uuid_string E (rec_cargo_id r))),
                 (''driver_id'', JStr (uuid_string E (rec_driver_id r))),
                 (''invited_by_dispatcher_id'', JStr (uuid_string E (rec_invited_by_dispatcher_id r))),
                 (''status'', JStr (rec_status r)), (''created_at'', JTime (rec_created_at r))]
               @ (case or_zero None obj of None \<Rightarrow> [] | Some c \<Rightarrow>
                   [(''cargo'', JObj [(''id'', JStr (uuid_string E (c_id c))),
                      (''weight'', JNum (c_weight c)), (''volume'', JNum (c_volume c)),
                      (''truck_type'', JStr (c_truck_type c)), (''status'', JStr (c_status c))])])) # items)
   }"

definition Recommendations_ListRecommendedForDriver :: "ext \<Rightarrow> uuid \<Rightarrow> query \<Rightarrow> ('z, response) prog" where
  "Recommendations_ListRecommendedForDriver E driverID q = do {
     let limit = bounded_query q ''limit'' 30 (\<lambda>n. n > 0 \<and> n \<le> 100);
     r \<leftarrow> recs_ListByDriver driverID limit;
     (case r of
        Inl e \<Rightarrow> ret (ErrorLang 500 ''failed_to_list'')
      | Inr l \<Rightarrow> do {
          items \<leftarrow> recommended_items E l;
          ret (OKLang ''ok'' (JObj [(''items'', JList items)]))
        })
   }"

definition offer_terms :: "Payment option \<Rightarrow> float64 \<times> string" where
  "offer_terms pay =
     (case pay of
        None \<Rightarrow> (0, ''USD'')
      | Some p \<Rightarrow> (case (p_total_amount p, p_total_currency p) of
            (Some a, Some cur) \<Rightarrow> (a, cur)
          | _ \<Rightarrow> (0, ''USD'')))"

definition Recommendations_AcceptRecommendation ::
    "ext \<Rightarrow> bool \<Rightarrow> uuid \<Rightarrow> string \<Rightarrow> ('z, response) prog" where
  "Recommendations_AcceptRecommendation E hasTripsRepo driverID idParam =
     (case uuid_parse E idParam of
        None \<Rightarrow> ret (ErrorLang 400 ''invalid_id'')
      | Some cid \<Rightarrow>
          (if cid = uuid_nil then ret (ErrorLang 400 ''invalid_id'')
           else do {
             r \<leftarrow> recs_GetByCargoAndDriver cid driverID;
             (if (case or_zero None r of None \<Rightarrow> True | Some r \<Rightarrow> rec_status r \<noteq> ''PENDING'')
              then ret (ErrorLang 400 ''recommendation_not_found_or_not_pending'')
              else do {
                obj \<leftarrow> cargo_GetByID cid False;
                (case or_zero None obj of
                   None \<Rightarrow> ret (ErrorLang 404 ''cargo_not_found'')
                 | Some c \<Rightarrow>
                     (if \<not> IsSearching (c_status c) then ret (ErrorLang 409 ''cargo_already_assigned'')
                      else do {
                        pay \<leftarrow> cargo_GetPayment cid;
                        let (price, currency) = offer_terms (or_zero None pay);
                        o1 \<leftarrow> cargo_CreateOffer cid driverID price currency [];
                        (case o1 of
                           Inl e \<Rightarrow> ret (ErrorLang 500 ''failed_to_accept'')
                         | Inr offerID \<Rightarrow> do {
                             a \<leftarrow> cargo_AcceptOffer offerID;
                             (case a of
                                Inl e \<Rightarrow> ret (ErrorLang 500 ''failed_to_accept'')
                              | Inr (_, carrierID) \<Rightarrow> do {
                                  _ \<leftarrow> recs_Accept cid driverID;
                                  let plain = SuccessLang 200 ''accepted''
                                    (JObj [(''cargo_id'', JStr (uuid_string E cid))]);
                                  (if hasTripsRepo
                                   then do {
                                     tripID \<leftarrow> open_trip cid offerID carrierID;
                                     (if tripID \<noteq> uuid_nil
                                      then ret (SuccessLang 200 ''accepted'' (JObj
                                        [(''cargo_id'', JStr (uuid_string E cid)),
                                         (''trip_id'', JStr (uuid_string E tripID)),
                                         (''driver_id'', JStr (uuid_string E carrierID))]))
                                      else ret plain)
                                   }
                                   else ret plain)
                                })
                           })
                      }))
              })
           }))"

definition Recommendations_DeclineRecommendation :: "ext \<Rightarrow> uuid \<Rightarrow> string \<Rightarrow> ('z, response) prog" where
  "Recommendations_DeclineRecommendation E driverID idParam =
     (case uuid_parse E idParam of
        None \<Rightarrow> ret (ErrorLang 400 ''invalid_id'')
      | Some cid \<Rightarrow>
          (if cid = uuid_nil then ret (ErrorLang 400 ''invalid_id'')
           else do {
             r \<leftarrow> recs_Decline cid driverID;
             (case r of
                Inr True \<Rightarrow> ret (OKLang ''declined'' (JObj [(''status'', JStr ''declined'')]))
              | _ \<Rightarrow> ret (ErrorLang 400 ''recommendation_not_found_or_not_pending''))
           }))"

end
