(* ===== verification/Offer_Award.thy ===== *)
theory Offer_Award
  imports Trips_Handler Samples
begin

text \<open>
  Accepting an offer: what the transaction does, and the invariant that ties offers, cargo and
  trips together. Every handler of the cargo side keeps it.
\<close>

section \<open>The transaction of \<open>AcceptOffer\<close>\<close>

definition settle_offers :: "uuid \<Rightarrow> uuid \<Rightarrow> Offer list \<Rightarrow> Offer list" where
  "settle_offers offerID cargoID t =
     update_where (\<lambda>q. o_cargo_id q = cargoID \<and> o_id q \<noteq> offerID \<and> o_status q = ''PENDING'')
       (set_offer_status ''REJECTED'')
       (update_where (\<lambda>q. o_id q = offerID) (set_offer_status ''ACCEPTED'') t)"

definition accept_effect :: "uuid \<Rightarrow> uuid \<Rightarrow> time \<Rightarrow> db \<Rightarrow> db" where
  "accept_effect offerID cargoID now d = d
     \<lparr>cargo_t := update_where (live_cargo cargoID) (set_cargo_status StatusAssigned now) (cargo_t d),
      offers_t := settle_offers offerID cargoID (offers_t d)\<rparr>"

lemma set_offer_status_simps [simp]:
  "o_id (set_offer_status s q) = o_id q" "o_cargo_id (set_offer_status s q) = o_cargo_id q"
  "o_status (set_offer_status s q) = s" "o_carrier_id (set_offer_status s q) = o_carrier_id q"
  by (simp_all add: set_offer_status_def)

lemma set_cargo_status_simps [simp]:
  "c_id (set_cargo_status s now c) = c_id c" "c_status (set_cargo_status s now c) = s"
  "c_deleted_at (set_cargo_status s now c) = c_deleted_at c"
  "c_company_id (set_cargo_status s now c) = c_company_id c"
  "c_created_by_type (set_cargo_status s now c) = c_created_by_type c"
  "c_created_by_id (set_cargo_status s now c) = c_created_by_id c"
  "c_weight (set_cargo_status s now c) = c_weight c"
  "c_created_at (set_cargo_status s now c) = c_created_at c"
  by (simp_all add: set_cargo_status_def)

text \<open>The last step of the transaction: the other offers, then the commit.\<close>

definition accept_rest :: "uuid \<Rightarrow> uuid \<Rightarrow> uuid \<Rightarrow> tx \<Rightarrow> ('z, err + uuid \<times> uuid) prog" where
  "accept_rest offerID cargoID carrierID t = do {
     (_, t) \<leftarrow> tx_exec t (update_offers
        (\<lambda>q. o_cargo_id q = cargoID \<and> o_id q \<noteq> offerID \<and> o_status q = ''PENDING'')
        (set_offer_status ''REJECTED''));
     r \<leftarrow> tx_commit t;
     ret (case r of Inl e \<Rightarrow> Inl e | Inr _ \<Rightarrow> Inr (cargoID, carrierID))
   }"

lemma accept_rest_outcome:
  assumes "run (accept_rest offerID cargoID carrierID t) w = (r, w')"
  shows "(w_db w' = w_db w \<and> (\<exists>e. r = Inl e))
       \<or> (w_db w' = (tx_db t)\<lparr>offers_t := update_where
             (\<lambda>q. o_cargo_id q = cargoID \<and> o_id q \<noteq> offerID \<and> o_status q = ''PENDING'')
             (set_offer_status ''REJECTED'') (offers_t (tx_db t))\<rparr>
          \<and> (r = Inr (cargoID, carrierID) \<or> r = Inl ConnError))"
proof -
  obtain x t1 w1 where 1: "run (tx_exec t (update_offers
        (\<lambda>q. o_cargo_id q = cargoID \<and> o_id q \<noteq> offerID \<and> o_status q = ''PENDING'')
        (set_offer_status ''REJECTED''))) w = ((x, t1), w1)" (is "run ?m w = _")
    by (cases "run ?m w", cases "fst (run ?m w)") simp
  then have w1: "w1 = tick w" by (rule tx_exec_world)
  have commit: "(case run (tx_commit t1) w1 of (c, w2) \<Rightarrow>
      (case c of Inl e \<Rightarrow> Inl e | Inr _ \<Rightarrow> Inr (cargoID, carrierID), w2)) = (r, w')"
    using assms 1 by (simp add: accept_rest_def)
  show ?thesis
  proof (cases x)
    case (Inl e)
    from tx_exec_Inl [OF 1 [unfolded Inl]] have "tx_failed t1" .
    with commit w1 show ?thesis by auto
  next
    case (Inr n)
    with 1 have t1: "tx_db t1 = (tx_db t)\<lparr>offers_t := update_where
        (\<lambda>q. o_cargo_id q = cargoID \<and> o_id q \<noteq> offerID \<and> o_status q = ''PENDING'')
        (set_offer_status ''REJECTED'') (offers_t (tx_db t))\<rparr>"
      by (auto simp: tx_exec_Inr update_offers_Inr)
    show ?thesis unfolding t1 [symmetric]
      using commit w1 by (auto simp: run_tx_commit split: fault.splits if_splits)
  qed
qed

lemma cargo_AcceptOffer_eq:
  "cargo_AcceptOffer offerID = do {
     b \<leftarrow> tx_begin;
     (case b of
        Inl e \<Rightarrow> ret (Inl e)
      | Inr t \<Rightarrow> do {
          (r, t) \<leftarrow> tx_exec t (q_read (pending_offer offerID));
          (case scan_row r of
             Inl e \<Rightarrow> ret (Inl (if e = NoRows then ErrOfferNotPending else e))
           | Inr (cargoID, carrierID) \<Rightarrow> do {
               (r, t) \<leftarrow> tx_exec t (update_offers (\<lambda>q. o_id q = offerID) (set_offer_status ''ACCEPTED''));
               (case r of
                  Inl e \<Rightarrow> ret (Inl e)
                | Inr _ \<Rightarrow> do {
                    (r, t) \<leftarrow> tx_exec t (update_cargo (live_cargo cargoID) (set_cargo_status StatusAssigned));
                    (case r of Inl e \<Rightarrow> ret (Inl e) | Inr _ \<Rightarrow> accept_rest offerID cargoID carrierID t)
                  })
             })
        })
   }"
  by (simp only: cargo_AcceptOffer_def accept_rest_def)

definition accept_marks :: "uuid \<Rightarrow> uuid \<Rightarrow> uuid \<Rightarrow> tx \<Rightarrow> ('z, err + uuid \<times> uuid) prog" where
  "accept_marks offerID cargoID carrierID t = do {
     (r, t) \<leftarrow> tx_exec t (update_offers (\<lambda>q. o_id q = offerID) (set_offer_status ''ACCEPTED''));
     (case r of
        Inl e \<Rightarrow> ret (Inl e)
      | Inr _ \<Rightarrow> do {
          (r, t) \<leftarrow> tx_exec t (update_cargo (live_cargo cargoID) (set_cargo_status StatusAssigned));
          (case r of Inl e \<Rightarrow> ret (Inl e) | Inr _ \<Rightarrow> accept_rest offerID cargoID carrierID t)
        })
   }"

lemma accept_marks_outcome:
  assumes "run (accept_marks offerID cargoID carrierID t) w = (r, w')"
  shows "(w_db w' = w_db w \<and> (\<exists>e. r = Inl e))
       \<or> (w_db w' = accept_effect offerID cargoID (w_now w) (tx_db t)
          \<and> (r = Inr (cargoID, carrierID) \<or> r = Inl ConnError))"
  using assms unfolding accept_marks_def
proof (cases rule: run_block_elim)
  case (stop e t1)
  then show ?thesis by (auto dest: tx_exec_world)
next
  case 1: (step n1 t1 w1)
  from 1(2) show ?thesis
  proof (cases rule: run_block_elim)
    case (stop e t2)
    with 1(1) show ?thesis by (auto dest!: tx_exec_world)
  next
    case 2: (step n2 t2 w2)
    have "tx_db t2 = (tx_db t)
       \<lparr>offers_t := update_where (\<lambda>q. o_id q = offerID) (set_offer_status ''ACCEPTED'') (offers_t (tx_db t)),
        cargo_t := update_where (live_cargo cargoID) (set_cargo_status StatusAssigned (w_now w)) (cargo_t (tx_db t))\<rparr>"
      and "w_db w2 = w_db w"
      using 1(1) 2(1) by (auto simp: tx_exec_Inr update_offers_Inr update_cargo_Inr)
    with accept_rest_outcome [OF 2(2)] show ?thesis
      by (auto simp: accept_effect_def settle_offers_def)
  qed
qed

text \<open>
  Either nothing changes and the caller has an error, or the offer was pending, it is accepted,
  its cargo is assigned and every other pending offer for the cargo is rejected, all at once.
\<close>

lemma accept_outcome:
  assumes "run (cargo_AcceptOffer offerID) w = (r, w')"
  shows "(w_db w' = w_db w \<and> (\<exists>e. r = Inl e))
       \<or> (\<exists>q \<in> set (offers_t (w_db w)). o_id q = offerID \<and> o_status q = ''PENDING''
            \<and> w_db w' = accept_effect offerID (o_cargo_id q) (w_now w) (w_db w)
            \<and> (r = Inr (o_cargo_id q, o_carrier_id q) \<or> r = Inl ConnError))"
proof (cases "next_fault w = Passes \<and> next_fault (tick w) = Passes")
  case False
  with assms show ?thesis
    by (auto simp: cargo_AcceptOffer_def run_tx_begin run_tx_exec split: if_splits)
next
  case True
  let ?t = "\<lparr>tx_db = w_db w, tx_failed = False\<rparr>"
  show ?thesis
  proof (cases "pending_offer offerID (w_db w)")
    case None
    with True assms show ?thesis
      by (auto simp: cargo_AcceptOffer_def run_tx_begin run_tx_exec split: if_splits)
  next
    case (Some p)
    then obtain q where q: "q \<in> set (offers_t (w_db w))" "o_id q = offerID" "o_status q = ''PENDING''"
      and p: "p = (o_cargo_id q, o_carrier_id q)"
      by (auto simp: pending_offer_def dest: first_where_Some)
    from True Some p assms have "run (accept_marks offerID (o_cargo_id q) (o_carrier_id q) ?t) (tick (tick w)) = (r, w')"
      by (simp add: cargo_AcceptOffer_eq accept_marks_def run_tx_begin run_tx_exec)
    from accept_marks_outcome [OF this] q show ?thesis by auto
  qed
qed

section \<open>The award invariant\<close>

text \<open>The statuses a cargo moves through once an offer for it has been accepted.\<close>

definition awarded :: "string \<Rightarrow> bool" where
  "awarded s \<longleftrightarrow> s \<in> {''ASSIGNED'', ''IN_PROGRESS'', ''COMPLETED'', ''CANCELLED''}"

definition single_award :: "db \<Rightarrow> bool" where
  "single_award d \<longleftrightarrow> (\<forall>q \<in> set (offers_t d). \<forall>q' \<in> set (offers_t d).
     o_status q = ''ACCEPTED'' \<and> o_cargo_id q' = o_cargo_id q \<and> q' \<noteq> q \<longrightarrow> o_status q' = ''REJECTED'')"

definition cargo_awarded :: "db \<Rightarrow> bool" where
  "cargo_awarded d \<longleftrightarrow> (\<forall>q \<in> set (offers_t d). \<forall>c \<in> set (cargo_t d).
     o_status q = ''ACCEPTED'' \<and> live_cargo (o_cargo_id q) c \<longrightarrow> awarded (c_status c))"

definition trips_awarded :: "db \<Rightarrow> bool" where
  "trips_awarded d \<longleftrightarrow> (\<forall>t \<in> set (trips_t d). \<exists>q \<in> set (offers_t d).
       o_id q = t_offer_id t \<and> o_cargo_id q = t_cargo_id t \<and> o_status q = ''ACCEPTED'')
     \<and> distinct (map t_offer_id (trips_t d))"

definition award_ok :: "db \<Rightarrow> bool" where
  "award_ok d \<longleftrightarrow> schema_ok d \<and> single_award d \<and> cargo_awarded d \<and> trips_awarded d"

lemma award_ok_schema: "award_ok d \<Longrightarrow> schema_ok d"
  by (simp add: award_ok_def)

lemma award_okI:
  assumes "schema_ok d" "single_award d" "cargo_awarded d" "trips_awarded d"
  shows "award_ok d"
  using assms by (simp only: award_ok_def)

lemma award_okD:
  assumes "award_ok d"
  shows "schema_ok d" "single_award d" "cargo_awarded d" "trips_awarded d"
  using assms by (simp_all only: award_ok_def)

lemma trips_awarded_mono:
  assumes "trips_awarded d" and t: "trips_t d' = trips_t d"
    and stay: "\<And>q. q \<in> set (offers_t d) \<Longrightarrow> o_status q = ''ACCEPTED'' \<Longrightarrow> q \<in> set (offers_t d')"
  shows "trips_awarded d'"
  using assms(1) stay unfolding trips_awarded_def t by blast

lemma award_ok_empty: "award_ok (empty_db m)"
  by (simp add: award_ok_def single_award_def cargo_awarded_def trips_awarded_def
      schema_ok_empty) (simp add: empty_db_def)

lemma awarded_not_searching [simp]: "IsSearching s \<Longrightarrow> \<not> awarded s"
  by (auto simp: IsSearching_def awarded_def)

text \<open>A statement that leaves cargo, offers and trips alone.\<close>

definition leaves_award :: "'a stmt \<Rightarrow> bool" where
  "leaves_award q \<longleftrightarrow> (\<forall>now u d a d'. q now u d = Inr (a, d') \<longrightarrow>
     cargo_t d' = cargo_t d \<and> offers_t d' = offers_t d \<and> trips_t d' = trips_t d)"

lemma award_ok_cong:
  assumes "award_ok d" "schema_ok d'"
    and "cargo_t d' = cargo_t d" "offers_t d' = offers_t d" "trips_t d' = trips_t d"
  shows "award_ok d'"
  using assms(1,2)
  unfolding award_ok_def single_award_def cargo_awarded_def trips_awarded_def assms(3-5)
  by (intro conjI; elim conjE)

lemma award_ok_leaves:
  assumes "stmt_keeps schema_ok q" and "leaves_award q"
  shows "stmt_keeps award_ok q"
proof (rule stmt_keepsI)
  fix now u d a d'
  assume ok: "award_ok d" and q: "q now u d = Inr (a, d')"
  show "award_ok d'"
    using assms(2) q unfolding leaves_award_def
    by (intro award_ok_cong [OF ok stmt_keepsD [OF assms(1) award_ok_schema [OF ok] q]]) blast+
qed

lemma award_insert_cargo: "stmt_keeps award_ok (insert_cargo E p)"
proof (rule stmt_keepsI)
  fix now u d v d'
  assume ok: "award_ok d" and q: "insert_cargo E p now u d = Inr (v, d')"
  then obtain ready where d': "d' = d\<lparr>cargo_t := cargo_t d @ [new_cargo p ready now u]\<rparr>"
    and fresh: "u \<notin> c_id ` set (cargo_t d)" by (auto simp: insert_cargo_Inr)
  have o: "offers_t d' = offers_t d" and t: "trips_t d' = trips_t d"
    and c: "cargo_t d' = cargo_t d @ [new_cargo p ready now u]"
    and id: "c_id (new_cargo p ready now u) = u"
    by (simp_all add: d' new_cargo_def)
  have "schema_ok d'" using stmt_keepsD [OF schema_insert_cargo award_ok_schema [OF ok] q] .
  moreover have cid: "o_cargo_id q \<noteq> u" if "q \<in> set (offers_t d)" for q
    using ok fresh that by (auto simp: award_ok_def schema_ok_def references_ok_def)
  have "cargo_awarded d'"
    unfolding cargo_awarded_def o
  proof (intro ballI impI, elim conjE)
    fix q x
    assume q: "q \<in> set (offers_t d)" "o_status q = ''ACCEPTED''" and x: "x \<in> set (cargo_t d')"
      and live: "live_cargo (o_cargo_id q) x"
    have "x \<noteq> new_cargo p ready now u" using live cid [OF q(1)] id by (auto simp: live_cargo_def)
    with x have "x \<in> set (cargo_t d)" by (simp add: c)
    with ok q live show "awarded (c_status x)" unfolding award_ok_def cargo_awarded_def by blast
  qed
  moreover have "single_award d'" "trips_awarded d'"
    using ok unfolding award_ok_def single_award_def trips_awarded_def o t by blast+
  ultimately show "award_ok d'" by (simp only: award_ok_def)
qed

lemma award_update_cargo:
  assumes schema: "schema_ok (d\<lparr>cargo_t := update_where P f (cargo_t d)\<rparr>)" and ok: "award_ok d"
    and f: "\<And>c. c \<in> set (cargo_t d) \<Longrightarrow> P c \<Longrightarrow> c_id (f c) = c_id c
      \<and> (c_deleted_at (f c) = None \<longrightarrow> c_deleted_at c = None \<and> (awarded (c_status c) \<longrightarrow> awarded (c_status (f c))))"
  shows "award_ok (d\<lparr>cargo_t := update_where P f (cargo_t d)\<rparr>)" (is "award_ok ?d")
proof -
  have o: "offers_t ?d = offers_t d" and t: "trips_t ?d = trips_t d"
    and c: "cargo_t ?d = update_where P f (cargo_t d)" by simp_all
  have "cargo_awarded ?d"
    unfolding cargo_awarded_def o c ball_update_where
  proof (intro ballI)
    fix q x assume q: "q \<in> set (offers_t d)" and x: "x \<in> set (cargo_t d)"
    from ok q x have "o_status q = ''ACCEPTED'' \<and> live_cargo (o_cargo_id q) x \<longrightarrow> awarded (c_status x)"
      unfolding award_ok_def cargo_awarded_def by blast
    with f [OF x] show "if P x then o_status q = ''ACCEPTED'' \<and> live_cargo (o_cargo_id q) (f x) \<longrightarrow> awarded (c_status (f x))
      else o_status q = ''ACCEPTED'' \<and> live_cargo (o_cargo_id q) x \<longrightarrow> awarded (c_status x)"
      by (auto simp: live_cargo_def)
  qed
  moreover have "single_award ?d" "trips_awarded ?d"
    using ok unfolding award_ok_def single_award_def trips_awarded_def o t by blast+
  ultimately show ?thesis using schema by (simp only: award_ok_def)
qed

lemma award_update_cargo_stmt:
  assumes ids: "\<And>now c. c_id (f now c) = c_id c" "\<And>now c. c_company_id (f now c) = c_company_id c"
    and live: "\<And>now c. P c \<Longrightarrow> c_deleted_at (f now c) = None \<Longrightarrow>
      c_deleted_at c = None \<and> (awarded (c_status c) \<longrightarrow> awarded (c_status (f now c)))"
  shows "stmt_keeps award_ok (update_cargo P f)"
proof (rule stmt_keepsI)
  fix now u d n d'
  assume ok: "award_ok d" and q: "update_cargo P f now u d = Inr (n, d')"
  then have d': "d' = d\<lparr>cargo_t := update_where P (f now) (cargo_t d)\<rparr>" by (simp add: update_cargo_Inr)
  have "schema_ok d'" using stmt_keepsD [OF schema_update_cargo [OF ids] award_ok_schema [OF ok] q] .
  from award_update_cargo [OF this [unfolded d'] ok] show "award_ok d'" unfolding d'
    using ids(1) live by blast
qed

lemma award_update_trips:
  assumes ids: "\<And>now t. t_id (f now t) = t_id t" "\<And>now t. t_cargo_id (f now t) = t_cargo_id t"
    "\<And>now t. t_offer_id (f now t) = t_offer_id t"
  shows "stmt_keeps award_ok (update_trips P f)"
proof (rule stmt_keepsI)
  fix now u d n d'
  assume ok: "award_ok d" and q: "update_trips P f now u d = Inr (n, d')"
  let ?t = "update_where P (f now) (trips_t d)"
  from q have d': "d' = d\<lparr>trips_t := ?t\<rparr>" by (simp add: update_trips_Inr)
  then have o: "offers_t d' = offers_t d" and c: "cargo_t d' = cargo_t d" and t: "trips_t d' = ?t" by simp_all
  show "award_ok d'"
  proof (rule award_okI)
    show "schema_ok d'" using stmt_keepsD [OF schema_update_trips [OF ids] award_ok_schema [OF ok] q] .
    show "single_award d'" "cargo_awarded d'"
      using award_okD [OF ok] by (simp_all only: single_award_def cargo_awarded_def o c)
    have "map t_offer_id ?t = map t_offer_id (trips_t d)" by (rule map_update_where) (rule ids)
    then show "trips_awarded d'"
      using award_okD(4) [OF ok] unfolding trips_awarded_def o t ball_update_where ids if_cancel
      by (elim conjE) (intro conjI, assumption, simp only:)
  qed
qed

lemma award_reject_offer:
  assumes "\<And>q. o_id (f q) = o_id q" and cid: "\<And>q. o_cargo_id (f q) = o_cargo_id q"
    and st: "\<And>q. o_status (f q) = ''REJECTED''" and P: "\<And>q. P q \<Longrightarrow> o_status q = ''PENDING''"
  shows "stmt_keeps award_ok (update_offers P f)"
proof (rule stmt_keepsI)
  fix now u d n d'
  assume ok: "award_ok d" and q: "update_offers P f now u d = Inr (n, d')"
  let ?t = "update_where P f (offers_t d)"
  from q have "d' = d\<lparr>offers_t := ?t\<rparr>" by (simp add: update_offers_Inr)
  then have o: "offers_t d' = ?t" and c: "cargo_t d' = cargo_t d" and t: "trips_t d' = trips_t d" by simp_all
  have rej: "''REJECTED'' \<noteq> ''ACCEPTED''" and pend: "''PENDING'' \<noteq> ''ACCEPTED''" by simp_all
  show "award_ok d'"
  proof (rule award_okI)
    show "schema_ok d'" using stmt_keepsD [OF schema_update_offers award_ok_schema [OF ok] q] assms by blast
    show "single_award d'"
      using award_okD(2) [OF ok] unfolding single_award_def o ball_update_where
      by (simp only: st cid rej simp_thms if_True split: if_split) (metis)
    show "cargo_awarded d'"
      using award_okD(3) [OF ok] unfolding cargo_awarded_def o c ball_update_where
      by (simp only: st cid rej split: if_split) blast
    show "trips_awarded d'"
      using award_okD(4) [OF ok] t
    proof (rule trips_awarded_mono)
      fix q assume q: "q \<in> set (offers_t d)" "o_status q = ''ACCEPTED''"
      with P [of q] pend have "\<not> P q" by auto
      with q(1) show "q \<in> set (offers_t d')" unfolding o set_update_where by force
    qed
  qed
qed

text \<open>An offer may be added while its cargo is live and searching.\<close>

lemma award_insert_offer:
  assumes ok: "award_ok d" and c: "c \<in> set (cargo_t d)" "live_cargo cid c" "\<not> awarded (c_status c)"
    and q: "insert_offer cid carrier price currency comment now u d = Inr (v, d')"
  shows "award_ok d'"
proof -
  let ?q = "new_offer cid carrier price currency comment now u"
  from q have "d' = d\<lparr>offers_t := offers_t d @ [?q]\<rparr>"
    by (auto simp: insert_offer_def split: if_splits)
  then have o: "set (offers_t d') = insert ?q (set (offers_t d))"
    and c': "cargo_t d' = cargo_t d" and t: "trips_t d' = trips_t d" by simp_all
  have new: "o_cargo_id ?q = cid" "o_status ?q \<noteq> ''ACCEPTED''" by (simp_all add: new_offer_def)
  have none: "o_status r \<noteq> ''ACCEPTED''" if "r \<in> set (offers_t d)" "o_cargo_id r = cid" for r
    using award_okD(3) [OF ok] c that unfolding cargo_awarded_def by blast
  show ?thesis
  proof (rule award_okI)
    show "schema_ok d'" using stmt_keepsD [OF schema_insert_offer award_ok_schema [OF ok] q] .
    show "single_award d'"
      using award_okD(2) [OF ok] none new unfolding single_award_def o by (metis insert_iff)
    show "cargo_awarded d'"
      using award_okD(3) [OF ok] new unfolding cargo_awarded_def o c' by blast
    show "trips_awarded d'"
      by (rule trips_awarded_mono [OF award_okD(4) [OF ok] t]) (simp add: o)
  qed
qed

text \<open>Accepting a pending offer.\<close>

definition settled :: "uuid \<Rightarrow> uuid \<Rightarrow> Offer \<Rightarrow> Offer" where
  "settled offerID cid q =
     (if o_id q = offerID then set_offer_status ''ACCEPTED'' q
      else if o_cargo_id q = cid \<and> o_status q = ''PENDING'' then set_offer_status ''REJECTED'' q else q)"

lemma settle_offers_map: "settle_offers offerID cid t = map (settled offerID cid) t"
  unfolding settle_offers_def update_where_def list.map_comp
  by (rule map_cong [OF refl]) (simp add: settled_def)

lemma settle_offers_set: "set (settle_offers offerID cid t) = settled offerID cid ` set t"
  by (simp only: settle_offers_map set_map)

lemma settled_simps [simp]:
  "o_id (settled offerID cid q) = o_id q" "o_cargo_id (settled offerID cid q) = o_cargo_id q"
  by (simp_all add: settled_def)

lemma schema_accept_effect:
  assumes ok: "schema_ok d"
  shows "schema_ok (accept_effect offerID cid now d)"
proof -
  let ?P = "\<lambda>q. o_cargo_id q = cid \<and> o_id q \<noteq> offerID \<and> o_status q = ''PENDING''"
  let ?d1 = "d\<lparr>cargo_t := update_where (live_cargo cid) (set_cargo_status StatusAssigned now) (cargo_t d)\<rparr>"
  let ?d2 = "?d1\<lparr>offers_t := update_where (\<lambda>q. o_id q = offerID) (set_offer_status ''ACCEPTED'') (offers_t d)\<rparr>"
  have "update_cargo (live_cargo cid) (set_cargo_status StatusAssigned) now 0 d
      = Inr (count_where (live_cargo cid) (cargo_t d), ?d1)"
    using ok by (auto simp: update_cargo_def list_all_iff table_simps cargo_checks_def
        schema_ok_def checks_ok_def cargo_status_check_def)
  from stmt_keepsD [OF schema_update_cargo ok this] have 1: "schema_ok ?d1" by simp
  have "update_offers (\<lambda>q. o_id q = offerID) (set_offer_status ''ACCEPTED'') now 0 ?d1
      = Inr (count_where (\<lambda>q. o_id q = offerID) (offers_t d), ?d2)"
    by (auto simp: update_offers_def list_all_iff offers_status_check_def)
  from stmt_keepsD [OF schema_update_offers 1 this] have 2: "schema_ok ?d2" by simp
  have "update_offers ?P (set_offer_status ''REJECTED'') now 0 ?d2
      = Inr (count_where ?P (offers_t ?d2), ?d2\<lparr>offers_t := update_where ?P (set_offer_status ''REJECTED'') (offers_t ?d2)\<rparr>)"
    by (auto simp: update_offers_def list_all_iff offers_status_check_def)
  from stmt_keepsD [OF schema_update_offers 2 this] show ?thesis
    by (simp add: accept_effect_def settle_offers_def)
qed

lemma award_accept_effect:
  assumes ok: "award_ok d" and q: "q \<in> set (offers_t d)" "o_status q = ''PENDING''"
  shows "award_ok (accept_effect (o_id q) (o_cargo_id q) now d)" (is "award_ok ?d")
proof -
  let ?new = "settled (o_id q) (o_cargo_id q)"
  have one: "r = q" if "r \<in> set (offers_t d)" "o_id r = o_id q" for r
    using award_okD(1) [OF ok] q(1) that by (auto simp: schema_ok_def keys_ok_def distinct_map inj_on_def)
  have pend: "o_status q \<noteq> ''ACCEPTED''" "o_status q \<noteq> ''REJECTED''" by (simp_all add: q(2))
  have none: "o_status r \<noteq> ''ACCEPTED''" if "r \<in> set (offers_t d)" "o_cargo_id r = o_cargo_id q" for r
    using award_okD(2) [OF ok] q(1) pend that unfolding single_award_def by metis
  have o: "offers_t ?d = settle_offers (o_id q) (o_cargo_id q) (offers_t d)"
    and c: "cargo_t ?d = update_where (live_cargo (o_cargo_id q)) (set_cargo_status StatusAssigned now) (cargo_t d)"
    and t: "trips_t ?d = trips_t d"
    by (simp_all add: accept_effect_def)
  have ballO: "(\<forall>r \<in> set (offers_t ?d). Q r) \<longleftrightarrow> (\<forall>r \<in> set (offers_t d). Q (?new r))" for Q
    by (simp only: o settle_offers_set ball_simps)
  have acc: "r = q \<or> (o_status r = ''ACCEPTED'' \<and> o_cargo_id r \<noteq> o_cargo_id q \<and> ?new r = r)"
    if "r \<in> set (offers_t d)" "o_status (?new r) = ''ACCEPTED''" for r
    using that one none by (auto simp: settled_def split: if_splits)
  show ?thesis
  proof (rule award_okI)
    show "schema_ok ?d" by (rule schema_accept_effect [OF award_okD(1) [OF ok]])
    show "single_award ?d"
      unfolding single_award_def ballO settled_simps
    proof (intro ballI impI, elim conjE)
      fix r s assume r: "r \<in> set (offers_t d)" and s: "s \<in> set (offers_t d)"
        and st: "o_status (?new r) = ''ACCEPTED''" and same: "o_cargo_id s = o_cargo_id r" and ne: "?new s \<noteq> ?new r"
      from acc [OF r st] show "o_status (?new s) = ''REJECTED''"
      proof
        assume "r = q"
        then have s': "o_id s \<noteq> o_id q" "o_cargo_id s = o_cargo_id q" using ne same one [OF s] by metis+
        have "o_status s \<in> {''PENDING'', ''REJECTED''}"
          using award_okD(1) [OF ok] none [OF s s'(2)] s
          by (auto simp: schema_ok_def checks_ok_def offers_status_check_def)
        with s' show ?thesis by (auto simp: settled_def)
      next
        assume *: "o_status r = ''ACCEPTED'' \<and> o_cargo_id r \<noteq> o_cargo_id q \<and> ?new r = r"
        with same ne s one [OF s] have "?new s = s" "s \<noteq> r" by (auto simp: settled_def)
        with award_okD(2) [OF ok] r s same * show ?thesis unfolding single_award_def by metis
      qed
    qed
    show "cargo_awarded ?d"
      unfolding cargo_awarded_def ballO settled_simps unfolding c ball_update_where
    proof (intro ballI)
      fix r x assume r: "r \<in> set (offers_t d)" and x: "x \<in> set (cargo_t d)"
      have "awarded (c_status x)" if "o_status r = ''ACCEPTED''" "live_cargo (o_cargo_id r) x"
        using award_okD(3) [OF ok] r x that unfolding cargo_awarded_def by blast
      with acc [OF r] show "if live_cargo (o_cargo_id q) x
         then o_status (?new r) = ''ACCEPTED'' \<and> live_cargo (o_cargo_id r) (set_cargo_status StatusAssigned now x)
           \<longrightarrow> awarded (c_status (set_cargo_status StatusAssigned now x))
         else o_status (?new r) = ''ACCEPTED'' \<and> live_cargo (o_cargo_id r) x \<longrightarrow> awarded (c_status x)"
        by (auto simp: awarded_def)
    qed
    show "trips_awarded ?d"
    proof (rule trips_awarded_mono [OF award_okD(4) [OF ok] t])
      fix r assume r: "r \<in> set (offers_t d)" "o_status r = ''ACCEPTED''"
      with one none pend have "?new r = r" by (auto simp: settled_def)
      with r(1) show "r \<in> set (offers_t ?d)" unfolding o settle_offers_set by force
    qed
  qed
qed

end
