(* ===== verification/Cargo_Side.thy ===== *)
theory Cargo_Side
  imports Offer_Award
begin

text \<open>
  The contract between the statements of the cargo side and its endpoints. The locale
  \<open>cargo_invariant\<close> asks of an invariant what each SQL statement has to keep, with what the code has read
  before it sends the statement, and proves once that every method and every handler keeps the
  invariant. The interpretation at the end is the award invariant; others follow in \<open>Lifecycle\<close>.
\<close>

section \<open>Reads and what they tell\<close>

lemma reads_only_methods:
  "reads_only (cargo_GetByID u b)" "reads_only (cargo_GetRoutePoints u)" "reads_only (cargo_GetPayment u)"
  "reads_only (cargo_GetOffers u)" "reads_only (cargo_GetOfferByID u)" "reads_only (cargo_CountByDispatcher u)"
  "reads_only (cargo_ListPendingModeration l off)" "reads_only (trips_GetByID u)"
  "reads_only (trips_GetByCargoID u)" "reads_only (trips_ListByDriver u l)"
  "reads_only (recs_GetByCargoAndDriver c u)" "reads_only (recs_ListByDriver u l)"
  "reads_only (drivers_FindByID E u)"
  unfolding cargo_GetByID_def cargo_GetRoutePoints_def cargo_GetPayment_def cargo_GetOffers_def
    cargo_GetOfferByID_def cargo_CountByDispatcher_def cargo_ListPendingModeration_def
    trips_GetByID_def trips_GetByCargoID_def trips_ListByDriver_def recs_GetByCargoAndDriver_def
    recs_ListByDriver_def drivers_FindByID_def select_driver_def Let_def
  by (intro reads_only_intros)+

lemma reads_only_get_now: "reads_only get_now"
  by (simp add: reads_only_def)

lemma reads_only_List: "reads_only (cargo_List E f)"
  unfolding cargo_List_def Let_def by (intro reads_only_intros)+

lemma keeps_db_reads [keeps_intro]:
  "keeps_db J (cargo_GetByID u b)" "keeps_db J (cargo_GetRoutePoints u)" "keeps_db J (cargo_GetPayment u)"
  "keeps_db J (cargo_GetOffers u)" "keeps_db J (cargo_GetOfferByID u)" "keeps_db J (cargo_CountByDispatcher u)"
  "keeps_db J (cargo_ListPendingModeration l off)" "keeps_db J (trips_GetByID u)"
  "keeps_db J (trips_GetByCargoID u)" "keeps_db J (trips_ListByDriver u l)"
  "keeps_db J (recs_GetByCargoAndDriver c u)" "keeps_db J (recs_ListByDriver u l)"
  "keeps_db J (drivers_FindByID E u)" "keeps_db J get_now" "keeps_db J (cargo_List E f)"
  by (intro reads_only_keeps reads_only_methods reads_only_get_now reads_only_List)+

lemma GetByID_tells:
  assumes "fst (run (cargo_GetByID u False) w) = Inr (Some c)"
  shows "\<exists>r \<in> set (cargo_t (w_db w)). live_cargo u r \<and> c_status r = c_status c"
proof -
  have [simp]: "c_status (scanCargo x) = c_status x" for x by (simp add: scanCargo_def)
  show ?thesis using assms
    by (auto simp: cargo_GetByID_def run_pg_row_read find_cargo_def live_cargo_def scan_row_def
        split: sum.splits option.splits if_splits dest!: first_where_Some)
qed

definition live_in_status :: "uuid \<Rightarrow> string \<Rightarrow> db \<Rightarrow> bool" where
  "live_in_status u s d \<longleftrightarrow> (\<exists>r \<in> set (cargo_t d). live_cargo u r \<and> c_status r = s)"

lemma db_valid_GetByID_bind:
  assumes "\<And>e. db_valid P (f (Inl e)) Q" and "db_valid P (f (Inr None)) Q"
    and "\<And>c. db_valid (\<lambda>d. P d \<and> live_in_status u (c_status c) d) (f (Inr (Some c))) Q"
  shows "db_valid P (State_Monad.bind (cargo_GetByID u False) f) Q"
proof (rule db_valid_read_bind [where F = "\<lambda>a d. \<forall>c. a = Inr (Some c) \<longrightarrow> live_in_status u (c_status c) d"])
  show "reads_only (cargo_GetByID u False)" by (rule reads_only_methods)
  show "\<forall>c. fst (run (cargo_GetByID u False) w) = Inr (Some c) \<longrightarrow> live_in_status u (c_status c) (w_db w)" for w
    using GetByID_tells unfolding live_in_status_def by blast
next
  show "db_valid (\<lambda>d. P d \<and> (\<forall>c. a = Inr (Some c) \<longrightarrow> live_in_status u (c_status c) d)) (f a) Q" for a
  proof (cases a)
    case (Inl e)
    with assms(1) [of e] show ?thesis by simp
  next
    case (Inr o')
    with assms(2) assms(3) show ?thesis by (cases o') simp_all
  qed
qed

definition trip_row :: "uuid \<Rightarrow> Trip \<Rightarrow> db \<Rightarrow> bool" where
  "trip_row u t d \<longleftrightarrow> t \<in> set (trips_t d) \<and> t_id t = u"

lemma trip_row_unique: "schema_ok d \<Longrightarrow> trip_row u t d \<Longrightarrow> trip_row u t' d \<Longrightarrow> t = t'"
  by (auto simp: trip_row_def schema_ok_def keys_ok_def distinct_map inj_on_def)

lemma db_valid_trips_GetByID_bind:
  assumes "\<And>e. db_valid P (f (Inl e)) Q" and "db_valid P (f (Inr None)) Q"
    and "\<And>t. db_valid (\<lambda>d. P d \<and> trip_row u t d) (f (Inr (Some t))) Q"
  shows "db_valid P (State_Monad.bind (trips_GetByID u) f) Q"
proof (rule db_valid_read_bind [where F = "\<lambda>a d. \<forall>t. a = Inr (Some t) \<longrightarrow> trip_row u t d"])
  show "reads_only (trips_GetByID u)" by (rule reads_only_methods)
  show "\<forall>t. fst (run (trips_GetByID u) w) = Inr (Some t) \<longrightarrow> trip_row u t (w_db w)" for w
    by (auto simp: trips_GetByID_def run_pg_row_read scan_row_def no_rows_nil_def trip_row_def
        split: sum.splits option.splits if_splits dest: first_where_Some)
next
  show "db_valid (\<lambda>d. P d \<and> (\<forall>t. a = Inr (Some t) \<longrightarrow> trip_row u t d)) (f a) Q" for a
  proof (cases a)
    case (Inl e)
    with assms(1) [of e] show ?thesis by simp
  next
    case (Inr o')
    with assms(2) assms(3) show ?thesis by (cases o') simp_all
  qed
qed

text \<open>The handlers that only read keep everything.\<close>

lemma keeps_db_creator_from_token [keeps_intro]: "keeps_db J (creator_from_token E h header p)"
  unfolding creator_from_token_def Let_def by (intro keeps_intro)

lemma keeps_db_created_answer [keeps_intro]: "keeps_db J (created_answer E u)"
  unfolding created_answer_def by (intro keeps_intro)

lemma keeps_db_driver_company [keeps_intro]: "keeps_db J (driver_company E h header)"
  unfolding driver_company_def Let_def by (intro keeps_intro)

lemma keeps_db_recommended_items [keeps_intro]: "keeps_db J (recommended_items E rs)"
  by (induction rs) (simp_all add: keeps_intro)

lemma keeps_db_read_handlers:
  "keeps_db J (CargoHandler_List E h header q)" "keeps_db J (CargoHandler_GetByID E i)"
  "keeps_db J (CargoHandler_ListOffers E i)" "keeps_db J (TripsHandler_Get E i)"
  "keeps_db J (TripsHandler_List E q)" "keeps_db J (TripsHandler_ListMy E u q)"
  "keeps_db J (Moderation_ListPending E q)"
  "keeps_db J (Recommendations_ListRecommendedForDriver E u q)"
  unfolding CargoHandler_List_def CargoHandler_GetByID_def CargoHandler_ListOffers_def
    TripsHandler_Get_def TripsHandler_List_def TripsHandler_ListMy_def Moderation_ListPending_def
    Recommendations_ListRecommendedForDriver_def Let_def
  by (intro keeps_intro)+

section \<open>What the handlers know when they write\<close>

text \<open>What an accepted offer looks like while it has no trip.\<close>

definition awaits_trip :: "uuid \<Rightarrow> uuid \<Rightarrow> db \<Rightarrow> bool" where
  "awaits_trip offerID cargoID d \<longleftrightarrow>
     (\<exists>q \<in> set (offers_t d). o_id q = offerID \<and> o_cargo_id q = cargoID \<and> o_status q = ''ACCEPTED'')
   \<and> (\<forall>t \<in> set (trips_t d). t_offer_id t \<noteq> offerID)"

definition offer_for :: "uuid \<Rightarrow> (uuid \<Rightarrow> bool) \<Rightarrow> db \<Rightarrow> bool" where
  "offer_for offerID C d \<longleftrightarrow> (\<forall>q \<in> set (offers_t d). o_id q = offerID \<longrightarrow> C (o_cargo_id q))"

lemma pending_no_trip:
  assumes ok: "award_ok d" and q: "q \<in> set (offers_t d)" "o_status q = ''PENDING''"
    and t: "t \<in> set (trips_t d)"
  shows "t_offer_id t \<noteq> o_id q"
proof
  assume same: "t_offer_id t = o_id q"
  from award_okD(4) [OF ok] t obtain q' where q': "q' \<in> set (offers_t d)" "o_id q' = t_offer_id t"
    "o_status q' = ''ACCEPTED''" unfolding trips_awarded_def by blast
  with same award_okD(1) [OF ok] q(1) have "q' = q"
    by (auto simp: schema_ok_def keys_ok_def distinct_map inj_on_def)
  with q(2) q'(3) show False by simp
qed

lemma accept_effect_awaits_trip:
  assumes ok: "award_ok d" and q: "q \<in> set (offers_t d)" "o_status q = ''PENDING''"
  shows "awaits_trip (o_id q) (o_cargo_id q) (accept_effect (o_id q) (o_cargo_id q) now d)" (is "awaits_trip _ _ ?d")
proof -
  have "settled (o_id q) (o_cargo_id q) q \<in> set (offers_t ?d)"
    unfolding accept_effect_def by (simp add: settle_offers_set q(1))
  moreover have "o_status (settled (o_id q) (o_cargo_id q) q) = ''ACCEPTED''" by (simp add: settled_def)
  moreover have "t_offer_id t \<noteq> o_id q" if "t \<in> set (trips_t ?d)" for t
    using that by (intro pending_no_trip [OF ok q]) (simp add: accept_effect_def)
  ultimately show ?thesis unfolding awaits_trip_def by (metis settled_simps)
qed

lemma set_recommendation_leaves:
  "set_recommendation cid u s now v d = Inr (n, d') \<Longrightarrow>
     cargo_t d' = cargo_t d \<and> offers_t d' = offers_t d \<and> trips_t d' = trips_t d"
  by (auto simp: set_recommendation_def Let_def)

lemma insert_offer_for:
  assumes "insert_offer cid carrier price currency comment now u d = Inr (v, d')"
  shows "offer_for v (\<lambda>c. c = cid) d'"
proof -
  from assms have "v = u" "\<forall>r \<in> set (offers_t d). o_id r \<noteq> u"
    and "offers_t d' = offers_t d @ [new_offer cid carrier price currency comment now u]"
    by (auto simp: insert_offer_def table_simps split: if_splits)
  then show ?thesis by (simp add: offer_for_def new_offer_def)
qed

lemma reads_only_creator: "reads_only (creator_from_token E h header p)"
  unfolding creator_from_token_def Let_def
  by (intro reads_only_intros reads_only_methods reads_only_get_now)

lemma db_valid_absurd: "db_valid (\<lambda>_. False) m Q"
  by (rule db_validI) simp

lemma creator_status:
  assumes "fst (run (creator_from_token E h header p) w) = Inr p'"
  shows "cp_Status p' = cp_Status p"
  using assms
  by (auto simp: creator_from_token_def set_creator_def Let_def case_prod_unfold
      split: option.splits sum.splits prod.splits if_splits)

section \<open>The contract\<close>

locale cargo_invariant =
  fixes J :: "db \<Rightarrow> bool"
  assumes award: "J d \<Longrightarrow> award_ok d"
    and new_cargo: "cp_Status p = StatusPendingModeration \<Longrightarrow> stmt_keeps J (insert_cargo E p)"
    and new_point: "stmt_keeps J (insert_route_point cid rp)"
    and drop_points: "stmt_keeps J (delete_route_points cid)"
    and new_pay: "stmt_keeps J (insert_payment cid pay)"
    and change_pay: "stmt_keeps J (update_payment cid pay)"
    and columns: "stmt_keeps J (update_cargo_cols E cid up)"
    and drop_cargo: "stmt_keeps J (update_cargo (live_cargo cid)
      (\<lambda>now c. c\<lparr>c_deleted_at := Some now, c_updated_at := now\<rparr>))"
    and publish: "s \<in> {StatusSearchingAll, StatusSearchingCompany} \<Longrightarrow>
      stmt_keeps J (update_cargo (in_status cid StatusPendingModeration)
        (\<lambda>now c. c\<lparr>c_status := s, c_updated_at := now, c_moderation_rejection_reason := None\<rparr>))"
    and refuse: "stmt_keeps J (update_cargo (in_status cid StatusPendingModeration)
      (\<lambda>now c. c\<lparr>c_status := StatusRejected, c_moderation_rejection_reason := Some reason, c_updated_at := now\<rparr>))"
    and move: "J d \<Longrightarrow> live_in_status cid s d \<Longrightarrow> cargo_allowed s = Some nxt \<Longrightarrow> s' \<in> set nxt \<Longrightarrow>
      update_cargo (live_cargo cid) (set_cargo_status s') now u d = Inr (n, d') \<Longrightarrow> J d'"
    and start: "stmt_keeps J (update_cargo (in_status cid StatusAssigned) (set_cargo_status StatusInProgress))"
    and finish: "stmt_keeps J (update_cargo
      (\<lambda>c. in_status cid StatusInProgress c \<or> in_status cid StatusInTransit c) (set_cargo_status StatusCompleted))"
    and make_offer: "J d \<Longrightarrow> live_in_status cid s d \<Longrightarrow> IsSearching s \<Longrightarrow>
      insert_offer cid carrier price currency comment now u d = Inr (v, d') \<Longrightarrow> J d'"
    and reject_offer: "stmt_keeps J (update_offers (\<lambda>q. o_id q = offerID \<and> o_status q = ''PENDING'')
      (\<lambda>q. q\<lparr>o_status := ''REJECTED'', o_rejection_reason := why\<rparr>))"
    and accept_offer: "J d \<Longrightarrow> q \<in> set (offers_t d) \<Longrightarrow> o_status q = ''PENDING'' \<Longrightarrow>
      J (accept_effect (o_id q) (o_cargo_id q) now d)"
    and new_trip: "J d \<Longrightarrow> awaits_trip offerID cid d \<Longrightarrow> insert_trip cid offerID now u d = Inr (v, d') \<Longrightarrow> J d'"
    and give_trip: "stmt_keeps J (update_trips (trip_in_status tid TripPendingDriver)
      (\<lambda>now t. t\<lparr>t_driver_id := Some drv, t_updated_at := now\<rparr>))"
    and confirm_trip: "stmt_keeps J (update_trips
      (\<lambda>t. trip_in_status tid TripPendingDriver t \<and> t_driver_id t = Some drv)
      (\<lambda>now t. t\<lparr>t_status := TripAssigned, t_updated_at := now\<rparr>))"
    and decline_trip: "stmt_keeps J (update_trips
      (\<lambda>t. trip_in_status tid TripPendingDriver t \<and> t_driver_id t = Some drv)
      (\<lambda>now t. t\<lparr>t_driver_id := None, t_updated_at := now\<rparr>))"
    and move_trip: "J d \<Longrightarrow> trip_row tid t d \<Longrightarrow> t_driver_id t \<noteq> None \<Longrightarrow> s' \<in> set (allowedTransitions (t_status t)) \<Longrightarrow>
      update_trips (\<lambda>t. t_id t = tid) (\<lambda>now t. t\<lparr>t_status := s', t_updated_at := now\<rparr>) now u d = Inr (n, d') \<Longrightarrow> J d'"
    and recommend: "stmt_keeps J (upsert_recommendation cid drv disp)"
    and answer_recommendation: "stmt_keeps J (set_recommendation cid drv st)"
begin

subsection \<open>Methods\<close>

lemma tx_route_points: "tx_keeps J (insert_route_points cid rps)"
proof (induction rps)
  case Nil
  then show ?case by (simp add: tx_keeps_def)
next
  case (Cons rp rps)
  then show ?case unfolding insert_route_points_Cons by (intro tx_keeps_intros tx_keeps_exec new_point)
qed

lemma tx_insert_payment: "tx_keeps J (insert_payment_opt cid p)"
  unfolding insert_payment_opt_def [abs_def] by (intro tx_keeps_intros tx_keeps_exec new_pay)

lemma tx_update_columns: "tx_keeps J (update_columns E u p)"
  unfolding update_columns_def [abs_def] by (intro tx_keeps_intros tx_keeps_exec columns)

lemma tx_replace_route_points: "tx_keeps J (replace_route_points u status rps)"
  unfolding replace_route_points_def [abs_def]
  by (intro tx_keeps_intros tx_keeps_exec drop_points tx_route_points)

lemma tx_replace_payment: "tx_keeps J (replace_payment u status pay)"
  unfolding replace_payment_def [abs_def] payment_exists_def
  by (intro tx_keeps_intros tx_keeps_exec new_pay change_pay stmt_keeps_read)

lemma keeps_Create:
  assumes "cp_Status p = StatusPendingModeration"
  shows "keeps_db J (cargo_Create E p)"
  unfolding cargo_Create_def
  by (rule keeps_db_transaction
      | rule keeps_db_block, assumption,
        rule tx_keeps_exec [OF new_cargo [OF assms]] tx_route_points tx_insert_payment
      | erule keeps_db_tx_commit | rule keeps_intro)+

lemma keeps_Update: "keeps_db J (cargo_Update E u p)"
  unfolding cargo_Update_def
  by (rule keeps_db_transaction keeps_db_GetByID
      | rule keeps_db_block, assumption,
        rule tx_update_columns tx_replace_route_points tx_replace_payment
      | erule keeps_db_tx_commit | rule keeps_intro)+

lemma keeps_status_writers:
  "keeps_db J (cargo_Delete u)" "keeps_db J (cargo_ModerationAccept u v)"
  "keeps_db J (cargo_ModerationReject u r)" "keeps_db J (cargo_SetCargoStatusInProgress u)"
  "keeps_db J (cargo_SetCargoStatusCompleted u)" "keeps_db J (cargo_RejectOffer u r)"
  unfolding cargo_Delete_def cargo_ModerationAccept_def cargo_ModerationReject_def Let_def
    cargo_SetCargoStatusInProgress_def cargo_SetCargoStatusCompleted_def cargo_RejectOffer_def
  by (intro keeps_intro drop_cargo publish refuse start finish reject_offer; simp)+

lemma keeps_SetStatus: "keeps_db J (cargo_SetStatus u s)"
  unfolding keeps_db_valid cargo_SetStatus_def
proof (rule db_valid_GetByID_bind, goal_cases)
  case (3 c)
  show ?case
  proof (cases "cargo_allowed (c_status c)")
    case None
    then show ?thesis by (auto intro!: db_valid_return)
  next
    case (Some nxt)
    have "db_valid (\<lambda>d. J d \<and> live_in_status u (c_status c) d)
        (pg_call (update_cargo (live_cargo u) (set_cargo_status s))) (\<lambda>_. J)" if "s \<in> set nxt"
      by (rule db_valid_pg_call) (use Some that in \<open>auto intro: move\<close>)
    with Some show ?thesis
      by (auto simp: list_ex_iff intro!: db_valid_bind [where Q = "\<lambda>_. J"] db_valid_return)
  qed
qed (simp_all add: db_valid_return)

lemma keeps_trip_writers:
  "keeps_db J (trips_AssignDriver t u)" "keeps_db J (trips_DriverConfirm t u)"
  "keeps_db J (trips_DriverReject t u)"
  unfolding trips_AssignDriver_def trips_DriverConfirm_def trips_DriverReject_def
  by (intro keeps_intro give_trip confirm_trip decline_trip)+

text \<open>The caller of \<open>SetStatus\<close> has seen that the trip has a driver.\<close>

lemma valid_trips_SetStatus:
  assumes "t_driver_id t \<noteq> None"
  shows "db_valid (\<lambda>d. J d \<and> trip_row u t d) (trips_SetStatus u s) (\<lambda>_. J)"
  unfolding trips_SetStatus_def
proof (rule db_valid_trips_GetByID_bind, goal_cases)
  case (3 r)
  have "db_valid (\<lambda>d. (J d \<and> trip_row u t d) \<and> trip_row u r d)
      (pg_call (update_trips (\<lambda>x. t_id x = u) (\<lambda>now x. x\<lparr>t_status := s, t_updated_at := now\<rparr>))) (\<lambda>_. J)"
    if s: "s \<in> set (allowedTransitions (t_status r))"
  proof (rule db_valid_pg_call)
    fix now v d n d'
    assume pre: "(J d \<and> trip_row u t d) \<and> trip_row u r d"
      and q: "update_trips (\<lambda>x. t_id x = u) (\<lambda>now x. x\<lparr>t_status := s, t_updated_at := now\<rparr>) now v d = Inr (n, d')"
    from pre have "r = t" by (auto intro: trip_row_unique award_okD award)
    with pre s q assms have "J d'" by (auto intro: move_trip)
    then show "J d' \<and> J d'" by simp
  qed simp
  then show ?case
    by (auto simp: list_ex_iff intro!: db_valid_bind [where Q = "\<lambda>_. J"] db_valid_return)
qed (auto intro!: db_valid_return)

lemma keeps_rec_writers:
  "keeps_db J (recs_Create c u v)" "keeps_db J (recs_Accept c u)" "keeps_db J (recs_Decline c u)"
  unfolding recs_Create_def recs_Accept_def recs_Decline_def
  by (intro keeps_intro recommend answer_recommendation)+

lemmas keeps_methods = keeps_Update keeps_status_writers keeps_SetStatus keeps_trip_writers
  keeps_rec_writers

subsection \<open>Accepting an offer\<close>

text \<open>\<open>C\<close> is what the caller knows about the cargo of the offer.\<close>

lemma valid_AcceptOffer:
  "db_valid (\<lambda>d. J d \<and> offer_for offerID C d) (cargo_AcceptOffer offerID)
     (\<lambda>r d. J d \<and> (\<forall>c k. r = Inr (c, k) \<longrightarrow> C c \<and> awaits_trip offerID c d))"
proof (rule db_validI)
  fix w a w'
  assume pre: "J (w_db w) \<and> offer_for offerID C (w_db w)"
    and run: "run (cargo_AcceptOffer offerID) w = (a, w')"
  from accept_outcome [OF run]
  show "J (w_db w') \<and> (\<forall>c k. a = Inr (c, k) \<longrightarrow> C c \<and> awaits_trip offerID c (w_db w'))"
  proof
    assume "w_db w' = w_db w \<and> (\<exists>e. a = Inl e)"
    with pre show ?thesis by auto
  next
    assume "\<exists>q \<in> set (offers_t (w_db w)). o_id q = offerID \<and> o_status q = ''PENDING''
            \<and> w_db w' = accept_effect offerID (o_cargo_id q) (w_now w) (w_db w)
            \<and> (a = Inr (o_cargo_id q, o_carrier_id q) \<or> a = Inl ConnError)"
    then obtain q where q: "q \<in> set (offers_t (w_db w))" "o_status q = ''PENDING''" and id: "offerID = o_id q"
      and w': "w_db w' = accept_effect (o_id q) (o_cargo_id q) (w_now w) (w_db w)"
      and a: "a = Inr (o_cargo_id q, o_carrier_id q) \<or> a = Inl ConnError" by auto
    have "J (w_db w')" unfolding w' using pre q by (intro accept_offer) auto
    moreover have "awaits_trip offerID (o_cargo_id q) (w_db w')"
      unfolding w' id using pre q by (intro accept_effect_awaits_trip award) auto
    moreover have "C (o_cargo_id q)" using pre q(1) id unfolding offer_for_def by blast
    ultimately show ?thesis using a by auto
  qed
qed

lemma valid_trips_Create:
  "db_valid (\<lambda>d. J d \<and> awaits_trip offerID cargoID d) (trips_Create cargoID offerID) (\<lambda>_. J)"
  unfolding trips_Create_def by (rule db_valid_pg_call) (auto intro: new_trip)

lemma valid_trip_answer:
  "db_valid (\<lambda>d. J d \<and> awaits_trip u c d)
      (State_Monad.bind (open_trip c u k) (\<lambda>t. if t \<noteq> uuid_nil then ret (x t) else ret y)) (\<lambda>_. J)"
proof (rule db_valid_bind)
  show "db_valid (\<lambda>d. J d \<and> awaits_trip u c d) (open_trip c u k) (\<lambda>_. J)"
    unfolding open_trip_def Let_def
    by (rule db_valid_bind [OF valid_trips_Create])
       (auto simp: keeps_db_valid [symmetric] intro!: keeps_intro keeps_trip_writers)
qed (auto intro!: db_valid_return)

lemma valid_recs_Accept:
  "db_valid (\<lambda>d. J d \<and> awaits_trip offerID cargoID d) (recs_Accept cid u)
     (\<lambda>_ d. J d \<and> awaits_trip offerID cargoID d)"
proof -
  have "stmt_keeps (\<lambda>d. J d \<and> awaits_trip offerID cargoID d) (set_recommendation cid u s)" for s
  proof (rule stmt_keepsI)
    fix now v d n d'
    assume pre: "J d \<and> awaits_trip offerID cargoID d" and q: "set_recommendation cid u s now v d = Inr (n, d')"
    with set_recommendation_leaves [OF q] stmt_keepsD [OF answer_recommendation _ q]
    show "J d' \<and> awaits_trip offerID cargoID d'" by (simp add: awaits_trip_def)
  qed
  then show ?thesis
    unfolding recs_Accept_def keeps_db_valid [symmetric] by (intro keeps_intro)
qed

lemma valid_CreateOffer:
  assumes "IsSearching s"
  shows "db_valid (\<lambda>d. J d \<and> live_in_status cid s d) (cargo_CreateOffer cid carrier price currency comment)
     (\<lambda>r d. J d \<and> (\<forall>u. r = Inr u \<longrightarrow> offer_for u (\<lambda>c. c = cid) d))"
  unfolding cargo_CreateOffer_def
  by (rule db_valid_pg_call) (use assms in \<open>auto intro: make_offer dest: insert_offer_for\<close>)

subsection \<open>Handlers\<close>

lemma keeps_simple_handlers:
  "keeps_db J (CargoHandler_Update E i ubody)" "keeps_db J (CargoHandler_Delete E i)"
  "keeps_db J (CargoHandler_PatchStatus E i st)"
  "keeps_db J (CargoHandler_RejectOfferDispatcher E u i st)"
  "keeps_db J (TripsHandler_AssignDriver E tag i st)"
  "keeps_db J (TripsHandler_DriverConfirm E u i)" "keeps_db J (TripsHandler_DriverReject E u i)"
  "keeps_db J (Moderation_Accept E i st)" "keeps_db J (Moderation_Reject E i st)"
  "keeps_db J (Recommendations_Recommend E u i v)"
  "keeps_db J (Recommendations_DeclineRecommendation E u i)"
  unfolding CargoHandler_Update_def CargoHandler_Delete_def
    CargoHandler_PatchStatus_def CargoHandler_RejectOfferDispatcher_def TripsHandler_AssignDriver_def
    TripsHandler_DriverConfirm_def TripsHandler_DriverReject_def
    Moderation_Accept_def Moderation_Reject_def Recommendations_Recommend_def
    Recommendations_DeclineRecommendation_def Let_def
  by (intro keeps_intro keeps_methods | simp add: keeps_db_return split: bool.split)+

lemma keeps_PatchStatus_handler: "keeps_db J (TripsHandler_PatchStatus E b u i st)"
proof (cases "uuid_parse E i")
  case None
  then show ?thesis by (simp add: TripsHandler_PatchStatus_def keeps_db_return)
next
  case (Some tid)
  have sync: "keeps_db J (sync_cargo b s c)" for s c
    unfolding sync_cargo_def by (intro keeps_intro keeps_methods)
  have set: "db_valid (\<lambda>d. J d \<and> trip_row tid t d) (trips_SetStatus tid s \<bind> (\<lambda>r. case r of
      Inl e \<Rightarrow> if e = ErrInvalidTransition then ret x else ret y
    | Inr _ \<Rightarrow> sync_cargo b s (t_cargo_id t) \<bind> (\<lambda>_. ret z))) (\<lambda>_. J)"
    if "t_driver_id t = Some v" for t v s x y z
    by (rule db_valid_bind [OF valid_trips_SetStatus])
       (use that in \<open>auto simp: keeps_db_valid [symmetric] intro!: keeps_intro sync split: sum.split\<close>)
  show ?thesis
    unfolding keeps_db_valid TripsHandler_PatchStatus_def Some option.case
  proof (rule db_valid_trips_GetByID_bind, goal_cases)
    case (3 t)
    show ?case
      by (auto simp: or_zero_def intro!: db_valid_return set split: option.split)
  qed (simp_all add: or_zero_def db_valid_return)
qed

lemma keeps_Create_handler: "keeps_db J (CargoHandler_Create E h header body)"
proof (cases body)
  case None
  then show ?thesis by (simp add: CargoHandler_Create_def keeps_db_return)
next
  case (Some req)
  have status: "cp_Status (company_creator req p) = cp_Status p" for p
    by (simp add: company_creator_def split: option.split)
  have made: "db_valid J (creator_from_token E h header p \<bind> (\<lambda>r. case r of Inl answer \<Rightarrow> ret answer
      | Inr params \<Rightarrow> cargo_Create E (company_creator req params) \<bind>
         (\<lambda>r. case r of Inl e \<Rightarrow> ret x | Inr cid \<Rightarrow> created_answer E cid))) (\<lambda>_. J)"
    if p: "cp_Status p = StatusPendingModeration" for x p
  proof (rule db_valid_read_bind [OF reads_only_creator,
        where F = "\<lambda>r _. \<forall>p. r = Inr p \<longrightarrow> cp_Status p = StatusPendingModeration"], goal_cases)
    case (1 w)
    show ?case using creator_status [of E h header p w] p by simp
  next
    case (2 r)
    show ?case
    proof (cases r)
      case (Inl e)
      then show ?thesis by (auto intro!: db_valid_return)
    next
      case (Inr params)
      have "keeps_db J (cargo_Create E (company_creator req params) \<bind>
         (\<lambda>r. case r of Inl e \<Rightarrow> ret x | Inr cid \<Rightarrow> created_answer E cid))"
        if "cp_Status params = StatusPendingModeration"
        by (intro keeps_intro keeps_Create) (simp add: status that)
      then show ?thesis
        using Inr by (cases "cp_Status params = StatusPendingModeration")
          (auto simp: keeps_db_valid db_valid_absurd)
    qed
  qed
  show ?thesis
    unfolding CargoHandler_Create_def Some option.case Let_def keeps_db_valid
    by (intro db_valid_if db_valid_return made) (simp_all add: toCreateParams_def)
qed

lemma keeps_CreateOffer_handler: "keeps_db J (CargoHandler_CreateOffer E h i body)"
proof (cases "uuid_parse E i")
  case None
  then show ?thesis by (simp add: CargoHandler_CreateOffer_def keeps_db_return)
next
  case (Some cid)
  have made: "db_valid (\<lambda>d. J d \<and> live_in_status cid s d) (finish_offer E cid req) (\<lambda>_. J)"
    if "IsSearching s" for s req
    unfolding finish_offer_def
    by (rule db_valid_bind [OF valid_CreateOffer [OF that]])
       (auto intro!: db_valid_return split: sum.splits)
  show ?thesis
    unfolding keeps_db_valid CargoHandler_CreateOffer_def Some option.case
  proof (rule db_valid_GetByID_bind, goal_cases)
    case (3 c)
    show ?case
      by (auto simp: or_zero_def split: option.splits
          intro!: db_valid_return db_valid_reads_bind reads_only_methods made)
  qed (simp_all add: or_zero_def db_valid_return)
qed

lemma keeps_AcceptOffer_handler: "keeps_db J (CargoHandler_AcceptOffer E h i)"
proof (cases "uuid_parse E i")
  case None
  then show ?thesis by (simp add: CargoHandler_AcceptOffer_def keeps_db_return)
next
  case (Some u)
  show ?thesis
    unfolding keeps_db_valid CargoHandler_AcceptOffer_def Let_def Some option.case
  proof (rule db_valid_bind [OF db_valid_weaken [OF valid_AcceptOffer [where C = "\<lambda>_. True"],
      where Q = "\<lambda>r d. J d \<and> (\<forall>c k. r = Inr (c, k) \<longrightarrow> awaits_trip u c d)"]], goal_cases)
    case (3 a)
    then show ?case
      by (cases a) (auto intro!: db_valid_return db_valid_weaken [OF valid_trip_answer] split: prod.splits)
  qed (auto simp: offer_for_def)
qed

lemma valid_accept_made:
  "db_valid (\<lambda>d. J d \<and> offer_for offerID (\<lambda>c. c = cid) d)
     (State_Monad.bind (cargo_AcceptOffer offerID) (\<lambda>a. case a of
        Inl e \<Rightarrow> ret x
      | Inr (c', k) \<Rightarrow> State_Monad.bind (recs_Accept cid u) (\<lambda>_.
          if b then State_Monad.bind (open_trip cid offerID k) (\<lambda>t. if t \<noteq> uuid_nil then ret (y k t) else ret z)
          else ret z))) (\<lambda>_. J)"
proof (rule db_valid_bind [OF valid_AcceptOffer], goal_cases)
  case (1 a)
  have rest: "db_valid (\<lambda>d. J d \<and> awaits_trip offerID cid d)
     (State_Monad.bind (recs_Accept cid u) (\<lambda>_.
          if b then State_Monad.bind (open_trip cid offerID k) (\<lambda>t. if t \<noteq> uuid_nil then ret (y k t) else ret z)
          else ret z)) (\<lambda>_. J)" for k
    by (rule db_valid_bind [OF valid_recs_Accept]) (auto intro!: db_valid_return valid_trip_answer)
  show ?case
  proof (cases a)
    case (Inl e)
    then show ?thesis by (auto intro!: db_valid_return)
  next
    case (Inr p)
    obtain c k where p: "p = (c, k)" by (cases p)
    show ?thesis unfolding Inr p sum.case prod.case
      by (rule db_valid_weaken [OF rest]) auto
  qed
qed

lemma valid_offer_and_accept:
  assumes "IsSearching s"
  shows "db_valid (\<lambda>d. J d \<and> live_in_status cid s d)
      (State_Monad.bind (cargo_CreateOffer cid u price currency []) (\<lambda>o1. case o1 of
         Inl e \<Rightarrow> ret v
       | Inr offerID \<Rightarrow> State_Monad.bind (cargo_AcceptOffer offerID) (\<lambda>a. case a of
           Inl e \<Rightarrow> ret x
         | Inr (c', k) \<Rightarrow> State_Monad.bind (recs_Accept cid u) (\<lambda>_.
             if b then State_Monad.bind (open_trip cid offerID k) (\<lambda>t. if t \<noteq> uuid_nil then ret (y k t) else ret z)
             else ret z)))) (\<lambda>_. J)"
proof (rule db_valid_bind [OF valid_CreateOffer [OF assms]], goal_cases)
  case (1 o1)
  then show ?case
    by (cases o1) (auto intro!: db_valid_return db_valid_weaken [OF valid_accept_made])
qed

lemma keeps_AcceptRecommendation_handler:
  "keeps_db J (Recommendations_AcceptRecommendation E b u i)"
proof (cases "uuid_parse E i")
  case None
  then show ?thesis by (simp add: Recommendations_AcceptRecommendation_def keeps_db_return)
next
  case (Some cid)
  have found: "db_valid J (State_Monad.bind (cargo_GetByID cid False) (\<lambda>obj.
      case or_zero None obj of None \<Rightarrow> ret x | Some c \<Rightarrow>
        if \<not> IsSearching (c_status c) then ret y
        else State_Monad.bind (cargo_GetPayment cid) (\<lambda>pay. case offer_terms (or_zero None pay) of
          (price, currency) \<Rightarrow> m price currency))) (\<lambda>_. J)"
    if "\<And>s price currency. IsSearching s \<Longrightarrow> db_valid (\<lambda>d. J d \<and> live_in_status cid s d) (m price currency) (\<lambda>_. J)"
    for x y m
  proof (rule db_valid_GetByID_bind, goal_cases)
    case (3 c)
    show ?case
      by (auto simp: or_zero_def intro!: db_valid_return db_valid_reads_bind reads_only_methods that
          split: prod.split)
  qed (simp_all add: or_zero_def db_valid_return)
  show ?thesis
    unfolding keeps_db_valid Recommendations_AcceptRecommendation_def Let_def Some option.case
    by (intro db_valid_if db_valid_return; (rule db_valid_reads_bind, rule reads_only_methods)?;
        (intro db_valid_if db_valid_return found valid_offer_and_accept; assumption)?)
qed

lemmas keeps_handlers = keeps_simple_handlers keeps_PatchStatus_handler
  keeps_Create_handler keeps_CreateOffer_handler
  keeps_AcceptOffer_handler keeps_AcceptRecommendation_handler

end

section \<open>The award invariant keeps the contract\<close>

lemma leaves_award_intros:
  "leaves_award (insert_route_point cid rp)" "leaves_award (delete_route_points cid)"
  "leaves_award (insert_payment cid p)" "leaves_award (update_payment cid p)"
  "leaves_award (upsert_recommendation cid u v)" "leaves_award (set_recommendation cid u s)"
  by (auto simp: leaves_award_def insert_route_point_def delete_route_points_def insert_payment_def
      update_payment_def upsert_recommendation_def set_recommendation_def Let_def split: if_splits)

lemma award_stmts:
  "stmt_keeps award_ok (insert_route_point cid rp)" "stmt_keeps award_ok (delete_route_points cid)"
  "stmt_keeps award_ok (insert_payment cid p)" "stmt_keeps award_ok (update_payment cid p)"
  "stmt_keeps award_ok (upsert_recommendation cid u v)" "stmt_keeps award_ok (set_recommendation cid u s)"
  by (intro award_ok_leaves leaves_award_intros schema_insert_route_point schema_delete_route_points
      schema_insert_payment schema_update_payment schema_upsert_recommendation schema_set_recommendation)+

lemma award_update_cargo_cols: "stmt_keeps award_ok (update_cargo_cols E u p)"
proof (rule stmt_keepsI)
  fix now v d n d'
  assume ok: "award_ok d" and q: "update_cargo_cols E u p now v d = Inr (n, d')"
  then obtain f where f: "join_cols (update_cols E p) = Inr f"
    and q': "update_cargo (live_cargo u) (\<lambda>now c. f (c\<lparr>c_updated_at := now\<rparr>)) now v d = Inr (n, d')"
    by (auto simp: update_cargo_cols_def split: sum.splits)
  have "c_id (f (c\<lparr>c_updated_at := t\<rparr>)) = c_id c" "c_company_id (f (c\<lparr>c_updated_at := t\<rparr>)) = c_company_id c"
    "c_deleted_at (f (c\<lparr>c_updated_at := t\<rparr>)) = c_deleted_at c" "c_status (f (c\<lparr>c_updated_at := t\<rparr>)) = c_status c"
    for c t using join_cols_system [OF f, of "c\<lparr>c_updated_at := t\<rparr>"] by (simp_all add: system_columns_def)
  then have "stmt_keeps award_ok (update_cargo (live_cargo u) (\<lambda>now c. f (c\<lparr>c_updated_at := now\<rparr>)))"
    by (intro award_update_cargo_stmt) simp_all
  from stmt_keepsD [OF this ok q'] show "award_ok d'" .
qed

lemma award_in_status:
  assumes "\<And>now c. c_id (f now c) = c_id c" "\<And>now c. c_company_id (f now c) = c_company_id c"
    and "\<And>now c. c_deleted_at (f now c) = c_deleted_at c" "\<And>now c. c_status (f now c) = s'"
    and "awarded s \<longrightarrow> awarded s'"
  shows "stmt_keeps award_ok (update_cargo (in_status u s) f)"
  by (rule award_update_cargo_stmt) (use assms in \<open>auto simp: in_status_def\<close>)

lemma award_insert_trip:
  assumes ok: "award_ok d" and await: "awaits_trip offerID cargoID d"
    and q: "insert_trip cargoID offerID now u d = Inr (v, d')"
  shows "award_ok d'"
proof -
  from q have "d' = d\<lparr>trips_t := trips_t d @ [new_trip cargoID offerID now u]\<rparr>"
    by (auto simp: insert_trip_def split: if_splits)
  then have o: "offers_t d' = offers_t d" and c: "cargo_t d' = cargo_t d"
    and t: "trips_t d' = trips_t d @ [new_trip cargoID offerID now u]" by simp_all
  show ?thesis
  proof (rule award_okI)
    show "schema_ok d'" by (rule stmt_keepsD [OF schema_insert_trip award_okD(1) [OF ok] q])
    show "single_award d'" "cargo_awarded d'"
      using award_okD(2,3) [OF ok] by (simp_all only: single_award_def cargo_awarded_def o c)
    show "trips_awarded d'"
      using award_okD(4) [OF ok] await
      by (auto simp: trips_awarded_def awaits_trip_def o t new_trip_def)
  qed
qed

lemma cargo_allowed_awarded:
  "cargo_allowed s = Some nxt \<Longrightarrow> s' \<in> set nxt \<Longrightarrow> awarded s \<Longrightarrow> awarded s'"
  by (auto simp: cargo_allowed_def awarded_def split: if_splits)

lemma live_cargo_unique:
  assumes "schema_ok d" "c \<in> set (cargo_t d)" "live_cargo u c" "r \<in> set (cargo_t d)" "live_cargo u r"
  shows "c = r"
  using assms by (auto simp: schema_ok_def keys_ok_def live_cargo_def distinct_map inj_on_def)

lemma award_move_cargo:
  assumes ok: "award_ok d" and "live_in_status u s d" and nxt: "cargo_allowed s = Some nxt" "s' \<in> set nxt"
    and q: "update_cargo (live_cargo u) (set_cargo_status s') now v d = Inr (n, d')"
  shows "award_ok d'"
proof -
  from assms(2) obtain r where r: "r \<in> set (cargo_t d)" "live_cargo u r" "c_status r = s"
    by (auto simp: live_in_status_def)
  have schema: "schema_ok d'"
    by (rule stmt_keepsD [OF schema_update_cargo award_ok_schema [OF ok] q]) simp_all
  from q have d': "d' = d\<lparr>cargo_t := update_where (live_cargo u) (set_cargo_status s' now) (cargo_t d)\<rparr>"
    by (simp add: update_cargo_Inr)
  have "awarded s'" if "x \<in> set (cargo_t d)" "live_cargo u x" "awarded (c_status x)" for x
    using live_cargo_unique [OF award_ok_schema [OF ok] that(1,2) r(1,2)] r(3) that(3)
      cargo_allowed_awarded [OF nxt] by simp
  then show ?thesis unfolding d'
    by (intro award_update_cargo schema [unfolded d'] ok) (auto simp: live_cargo_def)
qed

lemma award_make_offer:
  assumes ok: "award_ok d" and "live_in_status cid s d" "IsSearching s"
    and q: "insert_offer cid carrier price currency comment now u d = Inr (v, d')"
  shows "award_ok d'"
proof -
  from assms(2) obtain c where "c \<in> set (cargo_t d)" "live_cargo cid c" "c_status c = s"
    by (auto simp: live_in_status_def)
  with ok assms(3) q show ?thesis by (auto intro: award_insert_offer)
qed

interpretation award_inv: cargo_invariant award_ok
proof (unfold_locales, goal_cases)
  case (2 p E)
  show ?case by (rule award_insert_cargo)
next
  case (8 cid)
  show ?case by (rule award_update_cargo_stmt) simp_all
next
  case (9 s cid)
  then show ?case by (intro award_in_status [where s' = s]) (auto simp: awarded_def)
next
  case (10 cid reason)
  show ?case by (rule award_in_status [where s' = StatusRejected]) (simp_all add: awarded_def)
next
  case (12 cid)
  show ?case by (rule award_in_status [where s' = StatusInProgress]) (simp_all add: awarded_def)
next
  case (13 cid)
  show ?case by (rule award_update_cargo_stmt) (auto simp: in_status_def awarded_def)
next
  case (15 offerID why)
  show ?case by (rule award_reject_offer) simp_all
next
  case (18 tid drv)
  show ?case by (rule award_update_trips) simp_all
next
  case (19 tid drv)
  show ?case by (rule award_update_trips) simp_all
next
  case (20 tid drv)
  show ?case by (rule award_update_trips) simp_all
next
  case (21 d tid t s' now u n d')
  have "stmt_keeps award_ok (update_trips (\<lambda>t. t_id t = tid) (\<lambda>now t. t\<lparr>t_status := s', t_updated_at := now\<rparr>))"
    by (rule award_update_trips) simp_all
  from stmt_keepsD [OF this 21(1,5)] show ?case .
qed (fact award_stmts award_update_cargo_cols | erule (4) award_move_cargo | erule (3) award_make_offer
  | erule (2) award_accept_effect | erule (2) award_insert_trip | assumption)+

end
