(* ===== verification/Lifecycle.thy ===== *)
theory Lifecycle
  imports Cargo_Side
begin

text \<open>
  The cargo side as a state machine: requests are served one after the other, each with its own
  clock, source of identifiers and pattern of break-downs, and the rest of the program changes the other
  tables in between. The invariants of the reachable databases, and what one request can do to a cargo
  and to a trip.
\<close>

section \<open>Requests\<close>

text \<open>What \<open>NewRouter\<close> builds once, and the routes of the cargo side with what they read.\<close>

record server =
  sv_ext :: ext
  sv_cargo :: CargoHandler
  sv_uuid_tag :: "string \<Rightarrow> bool"
  sv_cargoRepo :: bool       \<comment> \<open>the cargo repository of the trips handler is not nil\<close>
  sv_tripsRepo :: bool       \<comment> \<open>the trips repository of the recommendations handler is not nil\<close>

datatype request =
    Create_cargo string "CreateCargoReq option"
  | List_cargo string query
  | Get_cargo string
  | Update_cargo string "UpdateCargoReq option"
  | Delete_cargo string
  | Patch_cargo_status string "string option"
  | Create_offer string "OfferReq option"
  | List_offers string
  | Accept_offer string
  | Reject_offer uuid string "string option"
  | Get_trip string
  | List_trips query
  | List_my_trips uuid query
  | Assign_driver string "string option"
  | Confirm_trip uuid string
  | Reject_trip uuid string
  | Patch_trip_status uuid string "string option"
  | List_moderation query
  | Accept_moderation string "string option"
  | Reject_moderation string "string option"
  | Recommend_cargo uuid string "uuid option"
  | List_recommended uuid query
  | Accept_recommendation uuid string
  | Decline_recommendation uuid string

fun serve :: "server \<Rightarrow> request \<Rightarrow> ('z, response) prog" where
  "serve S (Create_cargo header body) = CargoHandler_Create (sv_ext S) (sv_cargo S) header body"
| "serve S (List_cargo header q) = CargoHandler_List (sv_ext S) (sv_cargo S) header q"
| "serve S (Get_cargo i) = CargoHandler_GetByID (sv_ext S) i"
| "serve S (Update_cargo i body) = CargoHandler_Update (sv_ext S) i body"
| "serve S (Delete_cargo i) = CargoHandler_Delete (sv_ext S) i"
| "serve S (Patch_cargo_status i body) = CargoHandler_PatchStatus (sv_ext S) i body"
| "serve S (Create_offer i body) = CargoHandler_CreateOffer (sv_ext S) (sv_cargo S) i body"
| "serve S (List_offers i) = CargoHandler_ListOffers (sv_ext S) i"
| "serve S (Accept_offer i) = CargoHandler_AcceptOffer (sv_ext S) (sv_cargo S) i"
| "serve S (Reject_offer u i body) = CargoHandler_RejectOfferDispatcher (sv_ext S) u i body"
| "serve S (Get_trip i) = TripsHandler_Get (sv_ext S) i"
| "serve S (List_trips q) = TripsHandler_List (sv_ext S) q"
| "serve S (List_my_trips u q) = TripsHandler_ListMy (sv_ext S) u q"
| "serve S (Assign_driver i body) = TripsHandler_AssignDriver (sv_ext S) (sv_uuid_tag S) i body"
| "serve S (Confirm_trip u i) = TripsHandler_DriverConfirm (sv_ext S) u i"
| "serve S (Reject_trip u i) = TripsHandler_DriverReject (sv_ext S) u i"
| "serve S (Patch_trip_status u i body) = TripsHandler_PatchStatus (sv_ext S) (sv_cargoRepo S) u i body"
| "serve S (List_moderation q) = Moderation_ListPending (sv_ext S) q"
| "serve S (Accept_moderation i body) = Moderation_Accept (sv_ext S) i body"
| "serve S (Reject_moderation i body) = Moderation_Reject (sv_ext S) i body"
| "serve S (Recommend_cargo u i body) = Recommendations_Recommend (sv_ext S) u i body"
| "serve S (List_recommended u q) = Recommendations_ListRecommendedForDriver (sv_ext S) u q"
| "serve S (Accept_recommendation u i) =
     Recommendations_AcceptRecommendation (sv_ext S) (sv_tripsRepo S) u i"
| "serve S (Decline_recommendation u i) = Recommendations_DeclineRecommendation (sv_ext S) u i"

context cargo_invariant
begin

lemma keeps_serve: "keeps_db J (serve S q)"
  by (cases q) (simp_all add: keeps_handlers keeps_db_read_handlers)

end

section \<open>Steps\<close>

text \<open>
  The rest of the program writes other tables: drivers, companies, dispatchers and what hangs on them. It
  keeps the integrity of the schema.
\<close>

definition elsewhere :: "db \<Rightarrow> db \<Rightarrow> bool" where
  "elsewhere d d' \<longleftrightarrow> schema_ok d' \<and> cargo_t d' = cargo_t d \<and> offers_t d' = offers_t d \<and> trips_t d' = trips_t d"

inductive step :: "server \<Rightarrow> db \<Rightarrow> db \<Rightarrow> bool" for S where
  served: "run (serve S q) (w :: world) = (a, w') \<Longrightarrow> step S (w_db w) (w_db w')"
| other: "elsewhere d d' \<Longrightarrow> step S d d'"

inductive_cases stepE: "step S d d'"

definition initial :: "db \<Rightarrow> bool" where
  "initial d \<longleftrightarrow> schema_ok d \<and> cargo_t d = [] \<and> offers_t d = [] \<and> trips_t d = []"

inductive reachable :: "server \<Rightarrow> db \<Rightarrow> bool" for S where
  start: "initial d \<Longrightarrow> reachable S d"
| onwards: "reachable S d \<Longrightarrow> step S d d' \<Longrightarrow> reachable S d'"

inductive_simps step_iff: "step S d d'"

text \<open>An invariant of the cargo side that looks at cargo, offers and trips only holds in every reachable database.\<close>

lemma reachable_invariant:
  assumes "cargo_invariant J" and "\<And>d. initial d \<Longrightarrow> J d"
    and cong: "\<And>d d'. J d \<Longrightarrow> elsewhere d d' \<Longrightarrow> J d'"
    and "reachable S d"
  shows "J d"
  using assms(4)
proof (induction rule: reachable.induct)
  case (start d)
  then show ?case by (rule assms(2))
next
  case (onwards d d')
  from onwards.hyps(2) show ?case
  proof cases
    case (served q w a w')
    with onwards.IH keeps_dbD [OF cargo_invariant.keeps_serve [OF assms(1)], of w S q]
    show ?thesis by simp
  next
    case other
    with onwards.IH show ?thesis by (rule cong)
  qed
qed

lemma reachable_award: "reachable S d \<Longrightarrow> award_ok d"
proof (rule reachable_invariant [OF award_inv.cargo_invariant_axioms])
  show "award_ok d" if "initial d" for d
    using that by (intro award_okI) (simp_all add: initial_def single_award_def cargo_awarded_def trips_awarded_def)
  show "award_ok d'" if "award_ok d" "elsewhere d d'" for d d'
    using that by (intro award_ok_cong [of d d']) (simp_all add: elsewhere_def)
qed

end
