(* ===== verification/Progress.thy ===== *)
theory Progress
  imports Lifecycle
begin

text \<open>
  More invariants of the cargo side, each an interpretation of \<open>cargo_invariant\<close>: the statuses a cargo
  can have, drivers of trips under way, and the two orders along which every request moves the
  database: what happens to a cargo row and what happens to a trip row.
\<close>

section \<open>Which tables a statement leaves alone\<close>

definition leaves :: "(db \<Rightarrow> 'k) \<Rightarrow> 'a stmt \<Rightarrow> bool" where
  "leaves k q \<longleftrightarrow> (\<forall>now u d a d'. q now u d = Inr (a, d') \<longrightarrow> k d' = k d)"

lemma leavesD: "leaves k q \<Longrightarrow> q now u d = Inr (a, d') \<Longrightarrow> k d' = k d"
  by (auto simp: leaves_def)

lemma leaves_keeps: "leaves k q \<Longrightarrow> stmt_keeps (\<lambda>d. K (k d)) q"
  by (auto simp: leaves_def stmt_keeps_def)

lemma leaves_trips:
  "leaves trips_t (insert_cargo E p)" "leaves trips_t (insert_route_point cid rp)"
  "leaves trips_t (delete_route_points cid)" "leaves trips_t (insert_payment cid pay)"
  "leaves trips_t (update_payment cid pay)" "leaves trips_t (update_cargo P f)"
  "leaves trips_t (update_cargo_cols E cid up)" "leaves trips_t (update_offers Q g)"
  "leaves trips_t (insert_offer cid u price currency comment)"
  "leaves trips_t (upsert_recommendation cid u v)" "leaves trips_t (set_recommendation cid u s)"
  by (auto simp: leaves_def insert_cargo_def insert_route_point_def delete_route_points_def
      insert_payment_def update_payment_def update_cargo_def update_offers_def insert_offer_def
      upsert_recommendation_def set_recommendation_def update_cargo_cols_def Let_def
      split: if_splits sum.splits)

lemma leaves_cargo:
  "leaves cargo_t (insert_route_point cid rp)" "leaves cargo_t (delete_route_points cid)"
  "leaves cargo_t (insert_payment cid pay)" "leaves cargo_t (update_payment cid pay)"
  "leaves cargo_t (update_offers Q g)" "leaves cargo_t (insert_offer cid u price currency comment)"
  "leaves cargo_t (insert_trip cid u)" "leaves cargo_t (update_trips T h)"
  "leaves cargo_t (upsert_recommendation cid u v)" "leaves cargo_t (set_recommendation cid u s)"
  by (auto simp: leaves_def insert_route_point_def delete_route_points_def
      insert_payment_def update_payment_def update_offers_def insert_offer_def insert_trip_def
      update_trips_Inr upsert_recommendation_def set_recommendation_def Let_def
      split: if_splits sum.splits)

section \<open>What can happen to a cargo\<close>

text \<open>The edges between statuses: the table of \<open>SetStatus\<close>, accepting an offer, the end of a trip.\<close>

definition cargo_edge :: "string \<Rightarrow> string \<Rightarrow> bool" where
  "cargo_edge s s' \<longleftrightarrow>
     (case cargo_allowed s of None \<Rightarrow> False | Some nxt \<Rightarrow> s' \<in> set nxt)
   \<or> s' = StatusAssigned \<or> (s = StatusInTransit \<and> s' = StatusCompleted)"

definition cargo_leads :: "string \<Rightarrow> string \<Rightarrow> bool" where
  "cargo_leads = cargo_edge\<^sup>*\<^sup>*"

lemma cargo_leads_refl [simp]: "cargo_leads s s"
  by (simp add: cargo_leads_def)

lemma cargo_leads_edge: "cargo_edge s s' \<Longrightarrow> cargo_leads s s'"
  by (simp add: cargo_leads_def)

lemma cargo_leads_trans: "cargo_leads s s' \<Longrightarrow> cargo_leads s' s'' \<Longrightarrow> cargo_leads s s''"
  unfolding cargo_leads_def by (rule rtranclp_trans)

lemma cargo_leads_closed:
  assumes "cargo_leads s s'" and "s \<in> X" and "\<And>x y. x \<in> X \<Longrightarrow> cargo_edge x y \<Longrightarrow> y \<in> X"
  shows "s' \<in> X"
  using assms(1) unfolding cargo_leads_def by (induction rule: rtranclp_induct) (use assms(2,3) in auto)

definition known_statuses :: "string set" where
  "known_statuses = {''PENDING_MODERATION'', ''SEARCHING_ALL'', ''SEARCHING_COMPANY'', ''REJECTED'',
     ''ASSIGNED'', ''IN_PROGRESS'', ''COMPLETED'', ''CANCELLED''}"

lemma pending_leads_known: "cargo_leads ''PENDING_MODERATION'' s \<Longrightarrow> s \<in> known_statuses"
  by (erule cargo_leads_closed) (auto simp: known_statuses_def cargo_edge_def cargo_allowed_def split: if_splits)

text \<open>Once assigned, a cargo is never searching, pending or rejected again.\<close>

lemma awarded_leads: "cargo_leads s s' \<Longrightarrow> awarded s \<Longrightarrow> awarded s'"
  by (drule cargo_leads_closed [where X = "Collect awarded"])
     (auto simp: awarded_def cargo_edge_def cargo_allowed_def split: if_splits)

lemma not_pending_leads: "cargo_leads s s' \<Longrightarrow> s \<noteq> ''PENDING_MODERATION'' \<Longrightarrow> s' \<noteq> ''PENDING_MODERATION''"
  by (drule cargo_leads_closed [where X = "{s. s \<noteq> ''PENDING_MODERATION''}"])
     (auto simp: cargo_edge_def cargo_allowed_def split: if_splits option.splits)

definition cargo_after :: "cargo_row \<Rightarrow> cargo_row \<Rightarrow> bool" where
  "cargo_after c c' \<longleftrightarrow>
     c_id c' = c_id c \<and> c_created_at c' = c_created_at c \<and> c_created_by_type c' = c_created_by_type c
   \<and> c_created_by_id c' = c_created_by_id c \<and> c_company_id c' = c_company_id c
   \<and> cargo_leads (c_status c) (c_status c') \<and> (c_deleted_at c \<noteq> None \<longrightarrow> c' = c)"

lemma cargo_after_refl [simp]: "cargo_after c c"
  by (simp add: cargo_after_def)

lemma cargo_after_trans: "cargo_after a b \<Longrightarrow> cargo_after b c \<Longrightarrow> cargo_after a c"
  unfolding cargo_after_def by (metis cargo_leads_trans)

definition fresh_cargo :: "cargo_row \<Rightarrow> bool" where
  "fresh_cargo c \<longleftrightarrow> c_status c = ''PENDING_MODERATION'' \<and> c_deleted_at c = None"

text \<open>Every row is still there, and every row comes from one that was there or from a new one.\<close>

definition cargo_onward :: "db \<Rightarrow> db \<Rightarrow> bool" where
  "cargo_onward d d' \<longleftrightarrow>
     (\<forall>c \<in> set (cargo_t d). \<exists>c' \<in> set (cargo_t d'). cargo_after c c')
   \<and> (\<forall>c' \<in> set (cargo_t d'). (\<exists>c \<in> set (cargo_t d). cargo_after c c') \<or> (\<exists>c. fresh_cargo c \<and> cargo_after c c'))"

lemma cargo_onward_same: "cargo_t d' = cargo_t d \<Longrightarrow> cargo_onward d d'"
  unfolding cargo_onward_def by (metis cargo_after_refl)

lemma cargo_onward_trans: "cargo_onward a b \<Longrightarrow> cargo_onward b c \<Longrightarrow> cargo_onward a c"
  unfolding cargo_onward_def by (meson cargo_after_trans)

lemma cargo_onward_update:
  assumes "cargo_t d' = update_where P f (cargo_t d)"
    and "\<And>c. c \<in> set (cargo_t d) \<Longrightarrow> P c \<Longrightarrow> cargo_after c (f c)"
  shows "cargo_onward d d'"
proof -
  have "cargo_after c (if P c then f c else c)" if "c \<in> set (cargo_t d)" for c
    using assms(2) that by simp
  then show ?thesis unfolding cargo_onward_def assms(1) set_update_where by blast
qed

lemma cargo_after_status:
  "c_deleted_at c = None \<Longrightarrow> cargo_edge (c_status c) s \<Longrightarrow> cargo_after c (set_cargo_status s now c)"
  by (simp add: cargo_after_def cargo_leads_edge)

interpretation cargo_prog: progress award_ok cargo_onward
  by unfold_locales (rule cargo_onward_same [OF refl], rule cargo_onward_trans)

lemma cargo_advances_leaves: "leaves cargo_t q \<Longrightarrow> cargo_prog.advances q"
  by (rule cargo_prog.advancesI) (rule cargo_onward_same, erule leavesD)

lemma cargo_advances_update:
  assumes "\<And>now c. P c \<Longrightarrow> cargo_after c (f now c)"
  shows "cargo_prog.advances (update_cargo P f)"
proof (rule cargo_prog.advancesI)
  fix now u d n d'
  assume "update_cargo P f now u d = Inr (n, d')"
  then have "cargo_t d' = update_where P (f now) (cargo_t d)" by (simp add: update_cargo_Inr)
  then show "cargo_onward d d'" by (rule cargo_onward_update) (rule assms)
qed

lemma cargo_advances_cols: "cargo_prog.advances (update_cargo_cols E u p)"
proof (rule cargo_prog.advancesI)
  fix now v d n d'
  assume "update_cargo_cols E u p now v d = Inr (n, d')"
  then obtain f where f: "join_cols (update_cols E p) = Inr f"
    and d': "cargo_t d' = update_where (live_cargo u) (\<lambda>c. f (c\<lparr>c_updated_at := now\<rparr>)) (cargo_t d)"
    by (auto simp: update_cargo_cols_def update_cargo_Inr split: sum.splits)
  from d' show "cargo_onward d d'"
    using join_cols_system [OF f]
    by (intro cargo_onward_update [OF d']) (simp add: system_columns_def cargo_after_def live_cargo_def)
qed

interpretation cargo_onward_inv: cargo_invariant "cargo_prog.onward d0" for d0
proof (unfold_locales, goal_cases)
  case (1 d)
  then show ?case by (simp add: cargo_prog.onward_def)
next
  case (2 p E)
  have "cargo_prog.advances (insert_cargo E p)"
  proof (rule cargo_prog.advancesI)
    fix now u d v d'
    assume "insert_cargo E p now u d = Inr (v, d')"
    then obtain ready where d': "cargo_t d' = cargo_t d @ [new_cargo p ready now u]"
      by (auto simp: insert_cargo_Inr)
    have "fresh_cargo (new_cargo p ready now u)"
      using 2 by (simp add: fresh_cargo_def new_cargo_def sql_trim_def nullif_empty_def)
    with d' show "cargo_onward d d'" unfolding cargo_onward_def
      by (metis UnE cargo_after_refl empty_iff insert_iff list.set(1,2) set_append UnI1)
  qed
  with award_inv.new_cargo [OF 2] show ?case by (rule cargo_prog.onward_stmt)
next
  case (7 E cid up)
  show ?case by (rule cargo_prog.onward_stmt [OF award_inv.columns cargo_advances_cols])
next
  case (8 cid)
  show ?case
    by (rule cargo_prog.onward_stmt [OF award_inv.drop_cargo cargo_advances_update])
       (simp add: cargo_after_def live_cargo_def)
next
  case (9 s cid)
  then show ?case
    by (intro cargo_prog.onward_stmt [OF award_inv.publish cargo_advances_update])
       (auto simp: cargo_after_def in_status_def cargo_edge_def cargo_allowed_def intro!: cargo_leads_edge)
next
  case (10 cid reason)
  show ?case
    by (rule cargo_prog.onward_stmt [OF award_inv.refuse cargo_advances_update])
       (auto simp: cargo_after_def in_status_def cargo_edge_def cargo_allowed_def intro!: cargo_leads_edge)
next
  case (11 d cid s nxt s' now u n d')
  then have ok: "award_ok d" by (simp add: cargo_prog.onward_def)
  have "award_ok d'" using award_inv.move [OF ok 11(2-5)] .
  moreover have "cargo_onward d d'"
  proof (rule cargo_onward_update)
    show "cargo_t d' = update_where (live_cargo cid) (set_cargo_status s' now) (cargo_t d)"
      using 11(5) by (simp add: update_cargo_Inr)
    fix c assume c: "c \<in> set (cargo_t d)" "live_cargo cid c"
    from 11(2) obtain r where "r \<in> set (cargo_t d)" "live_cargo cid r" "c_status r = s"
      by (auto simp: live_in_status_def)
    with live_cargo_unique [OF award_ok_schema [OF ok] c] have "c_status c = s" by auto
    with 11(3,4) c(2) show "cargo_after c (set_cargo_status s' now c)"
      by (intro cargo_after_status) (auto simp: live_cargo_def cargo_edge_def)
  qed
  ultimately show ?case by (rule cargo_prog.onward_trans [OF 11(1)])
next
  case (12 cid)
  show ?case
    by (rule cargo_prog.onward_stmt [OF award_inv.start cargo_advances_update])
       (auto simp: in_status_def cargo_edge_def cargo_allowed_def intro!: cargo_after_status)
next
  case (13 cid)
  show ?case
    by (rule cargo_prog.onward_stmt [OF award_inv.finish cargo_advances_update])
       (auto simp: in_status_def cargo_edge_def cargo_allowed_def intro!: cargo_after_status)
next
  case (14 d cid s carrier price currency comment now u v d')
  then have "award_ok d" by (simp add: cargo_prog.onward_def)
  from award_inv.make_offer [OF this 14(2-4)] cargo_onward_same [OF leavesD [OF leaves_cargo(6) 14(4)]]
  show ?case by (rule cargo_prog.onward_trans [OF 14(1)])
next
  case (16 d q now)
  then have "award_ok d" by (simp add: cargo_prog.onward_def)
  from award_inv.accept_offer [OF this 16(2,3)]
  show ?case
  proof (rule cargo_prog.onward_trans [OF 16(1)])
    show "cargo_onward d (accept_effect (o_id q) (o_cargo_id q) now d)"
      by (rule cargo_onward_update [where P = "live_cargo (o_cargo_id q)" and f = "set_cargo_status StatusAssigned now"])
         (auto simp: accept_effect_def live_cargo_def cargo_edge_def intro!: cargo_after_status)
  qed
next
  case (17 d offerID cid now u v d')
  then have "award_ok d" by (simp add: cargo_prog.onward_def)
  from award_inv.new_trip [OF this 17(2,3)] cargo_onward_same [OF leavesD [OF leaves_cargo(7) 17(3)]]
  show ?case by (rule cargo_prog.onward_trans [OF 17(1)])
next
  case (21 d tid t s' now u n d')
  then have "award_ok d" by (simp add: cargo_prog.onward_def)
  from award_inv.move_trip [OF this 21(2-5)] cargo_onward_same [OF leavesD [OF leaves_cargo(8) 21(5)]]
  show ?case by (rule cargo_prog.onward_trans [OF 21(1)])
qed (rule cargo_prog.onward_stmt, rule award_inv.new_point award_inv.drop_points award_inv.new_pay
    award_inv.change_pay award_inv.reject_offer award_inv.give_trip award_inv.confirm_trip
    award_inv.decline_trip award_inv.recommend award_inv.answer_recommendation,
    rule cargo_advances_leaves, rule leaves_cargo)+

section \<open>What can happen to a trip\<close>

definition trip_leads :: "string \<Rightarrow> string \<Rightarrow> bool" where
  "trip_leads = (\<lambda>s s'. s' \<in> set (allowedTransitions s))\<^sup>*\<^sup>*"

lemma trip_leads_refl [simp]: "trip_leads s s"
  by (simp add: trip_leads_def)

lemma trip_leads_edge: "s' \<in> set (allowedTransitions s) \<Longrightarrow> trip_leads s s'"
  by (simp add: trip_leads_def r_into_rtranclp)

lemma trip_leads_trans: "trip_leads s s' \<Longrightarrow> trip_leads s' s'' \<Longrightarrow> trip_leads s s''"
  unfolding trip_leads_def by (rule rtranclp_trans)

lemma trip_leads_pending: "trip_leads s ''PENDING_DRIVER'' \<Longrightarrow> s = ''PENDING_DRIVER''"
  unfolding trip_leads_def
  by (erule rtranclp.cases) (auto simp: allowedTransitions_def split: if_splits option.splits)

lemma trip_leads_final: "trip_leads s s' \<Longrightarrow> allowedTransitions s = [] \<Longrightarrow> s' = s"
  unfolding trip_leads_def by (erule converse_rtranclpE) auto

text \<open>
  A trip keeps its identity; while it waits the driver may change, and it leaves that state with the driver
  it has, who stays.
\<close>

definition trip_after :: "Trip \<Rightarrow> Trip \<Rightarrow> bool" where
  "trip_after t t' \<longleftrightarrow>
     t_id t' = t_id t \<and> t_cargo_id t' = t_cargo_id t \<and> t_offer_id t' = t_offer_id t
   \<and> t_created_at t' = t_created_at t \<and> trip_leads (t_status t) (t_status t')
   \<and> (t_status t \<noteq> ''PENDING_DRIVER'' \<longrightarrow> t_driver_id t' = t_driver_id t)
   \<and> (t_status t = ''PENDING_DRIVER'' \<and> t_status t' \<noteq> ''PENDING_DRIVER'' \<longrightarrow> t_driver_id t' \<noteq> None)"

lemma trip_after_refl [simp]: "trip_after t t"
  by (simp add: trip_after_def)

lemma trip_after_trans:
  assumes ab: "trip_after a b" and bc: "trip_after b c"
  shows "trip_after a c"
proof -
  from ab bc have "trip_leads (t_status a) (t_status c)"
    unfolding trip_after_def by (blast intro: trip_leads_trans)
  moreover from ab have "t_status b = ''PENDING_DRIVER'' \<Longrightarrow> t_status a = ''PENDING_DRIVER''"
    unfolding trip_after_def by (auto dest: trip_leads_pending)
  ultimately show ?thesis
    using ab bc unfolding trip_after_def by (cases "t_status b = ''PENDING_DRIVER''") simp_all
qed

definition fresh_trip :: "Trip \<Rightarrow> bool" where
  "fresh_trip t \<longleftrightarrow> t_status t = ''PENDING_DRIVER'' \<and> t_driver_id t = None"

definition trip_onward :: "db \<Rightarrow> db \<Rightarrow> bool" where
  "trip_onward d d' \<longleftrightarrow>
     (\<forall>t \<in> set (trips_t d). \<exists>t' \<in> set (trips_t d'). trip_after t t')
   \<and> (\<forall>t' \<in> set (trips_t d'). (\<exists>t \<in> set (trips_t d). trip_after t t') \<or> (\<exists>t. fresh_trip t \<and> trip_after t t'))"

lemma trip_onward_same: "trips_t d' = trips_t d \<Longrightarrow> trip_onward d d'"
  unfolding trip_onward_def by (metis trip_after_refl)

lemma trip_onward_trans: "trip_onward a b \<Longrightarrow> trip_onward b c \<Longrightarrow> trip_onward a c"
  unfolding trip_onward_def by (meson trip_after_trans)

lemma trip_onward_update:
  assumes "trips_t d' = update_where P f (trips_t d)"
    and "\<And>t. t \<in> set (trips_t d) \<Longrightarrow> P t \<Longrightarrow> trip_after t (f t)"
  shows "trip_onward d d'"
proof -
  have "trip_after t (if P t then f t else t)" if "t \<in> set (trips_t d)" for t
    using assms(2) that by simp
  then show ?thesis unfolding trip_onward_def assms(1) set_update_where by blast
qed

interpretation trip_prog: progress award_ok trip_onward
  by unfold_locales (rule trip_onward_same [OF refl], rule trip_onward_trans)

lemma trip_advances_leaves: "leaves trips_t q \<Longrightarrow> trip_prog.advances q"
  by (rule trip_prog.advancesI) (rule trip_onward_same, erule leavesD)

lemma trip_advances_update:
  assumes "\<And>now t. P t \<Longrightarrow> trip_after t (f now t)"
  shows "trip_prog.advances (update_trips P f)"
proof (rule trip_prog.advancesI)
  fix now u d n d'
  assume "update_trips P f now u d = Inr (n, d')"
  then have "trips_t d' = update_where P (f now) (trips_t d)" by (simp add: update_trips_Inr)
  then show "trip_onward d d'" by (rule trip_onward_update) (rule assms)
qed

lemma allowed_from_pending: "''ASSIGNED'' \<in> set (allowedTransitions ''PENDING_DRIVER'')"
  by (simp add: allowedTransitions_def)

interpretation trip_onward_inv: cargo_invariant "trip_prog.onward d0" for d0
proof (unfold_locales, goal_cases)
  case (1 d)
  then show ?case by (simp add: trip_prog.onward_def)
next
  case (2 p E)
  show ?case by (rule trip_prog.onward_stmt [OF award_inv.new_cargo [OF 2] trip_advances_leaves]) (rule leaves_trips)
next
  case (9 s cid)
  show ?case by (rule trip_prog.onward_stmt [OF award_inv.publish [OF 9] trip_advances_leaves]) (rule leaves_trips)
next
  case (11 d cid s nxt s' now u n d')
  then have "award_ok d" by (simp add: trip_prog.onward_def)
  from award_inv.move [OF this 11(2-5)] trip_onward_same [OF leavesD [OF leaves_trips(6) 11(5)]]
  show ?case by (rule trip_prog.onward_trans [OF 11(1)])
next
  case (14 d cid s carrier price currency comment now u v d')
  then have "award_ok d" by (simp add: trip_prog.onward_def)
  from award_inv.make_offer [OF this 14(2-4)] trip_onward_same [OF leavesD [OF leaves_trips(9) 14(4)]]
  show ?case by (rule trip_prog.onward_trans [OF 14(1)])
next
  case (16 d q now)
  then have "award_ok d" by (simp add: trip_prog.onward_def)
  from award_inv.accept_offer [OF this 16(2,3)]
  show ?case by (rule trip_prog.onward_trans [OF 16(1)]) (rule trip_onward_same, simp add: accept_effect_def)
next
  case (17 d offerID cid now u v d')
  then have "award_ok d" by (simp add: trip_prog.onward_def)
  from award_inv.new_trip [OF this 17(2,3)] show ?case
  proof (rule trip_prog.onward_trans [OF 17(1)])
    have "trips_t d' = trips_t d @ [new_trip cid offerID now u]"
      using 17(3) by (auto simp: insert_trip_def split: if_splits)
    moreover have "fresh_trip (new_trip cid offerID now u)" by (simp add: fresh_trip_def new_trip_def)
    ultimately show "trip_onward d d'" unfolding trip_onward_def
      by (metis UnE trip_after_refl empty_iff insert_iff list.set(1,2) set_append UnI1)
  qed
next
  case (18 tid drv)
  show ?case
    by (rule trip_prog.onward_stmt [OF award_inv.give_trip trip_advances_update])
       (simp add: trip_after_def trip_in_status_def)
next
  case (19 tid drv)
  show ?case
    by (rule trip_prog.onward_stmt [OF award_inv.confirm_trip trip_advances_update])
       (auto simp: trip_after_def trip_in_status_def intro!: trip_leads_edge allowed_from_pending)
next
  case (20 tid drv)
  show ?case
    by (rule trip_prog.onward_stmt [OF award_inv.decline_trip trip_advances_update])
       (auto simp: trip_after_def trip_in_status_def)
next
  case (21 d tid t s' now u n d')
  then have ok: "award_ok d" by (simp add: trip_prog.onward_def)
  from award_inv.move_trip [OF this 21(2-5)] show ?case
  proof (rule trip_prog.onward_trans [OF 21(1)])
    show "trip_onward d d'"
    proof (rule trip_onward_update)
      show "trips_t d' = update_where (\<lambda>t. t_id t = tid) (\<lambda>t. t\<lparr>t_status := s', t_updated_at := now\<rparr>) (trips_t d)"
        using 21(5) by (simp add: update_trips_Inr)
      fix r assume "r \<in> set (trips_t d)" "t_id r = tid"
      with 21(2) ok have "r = t" by (auto intro: trip_row_unique [OF award_ok_schema] simp: trip_row_def)
      with 21(3,4) show "trip_after r (r\<lparr>t_status := s', t_updated_at := now\<rparr>)"
        by (simp add: trip_after_def trip_leads_edge)
    qed
  qed
qed (rule trip_prog.onward_stmt, rule award_inv.new_point award_inv.drop_points award_inv.new_pay
    award_inv.change_pay award_inv.columns award_inv.drop_cargo award_inv.refuse award_inv.start
    award_inv.finish award_inv.reject_offer award_inv.recommend award_inv.answer_recommendation,
    rule trip_advances_leaves, rule leaves_trips)+

end
