(* ===== verification/Sample_Run.thy ===== *)
theory Sample_Run
  imports Lifecycle
begin

text \<open>
  A run of the cargo side on concrete requests, for the witnesses: a cargo is created, passed by
  moderation, offered for twice, and one offer is accepted.
\<close>

definition sample_server :: server where
  "sample_server = \<lparr>sv_ext = sample_ext,
     sv_cargo = \<lparr>h_tripsRepo = True, h_drivers = True, h_jwtm = None, FreelanceDispatcherCargoLimit = 5\<rparr>,
     sv_uuid_tag = (\<lambda>_. True), sv_cargoRepo = True, sv_tripsRepo = True\<rparr>"

definition sample_req :: CreateCargoReq where
  "sample_req =
     \<lparr>cr_Weight = 20, cr_Volume = 80, cr_ReadyEnabled = False, cr_ReadyAt = None, cr_LoadComment = None,
      cr_TruckType = ''tent'', cr_TempMin = None, cr_TempMax = None, cr_ADREnabled = False,
      cr_ADRClass = None, cr_LoadingTypes = None, cr_Requirements = None, cr_ShipmentType = None,
      cr_BeltsCount = None, cr_Documents = None, cr_ContactName = None, cr_ContactPhone = None,
      cr_RoutePoints = Some [sample_point ''LOAD'' 1, sample_point ''UNLOAD'' 2],
      cr_Payment = None, cr_CompanyID = None\<rparr>"

text \<open>Each request draws its identifiers from a place of its own.\<close>

definition world_at :: "nat \<Rightarrow> db \<Rightarrow> world" where
  "world_at n d = (world_of d)\<lparr>w_gen := (\<lambda>i. of_nat (n + i))\<rparr>"

lemma world_at_simps [simp]:
  "w_db (world_at n d) = d" "w_now (world_at n d) = 100" "w_drawn (world_at n d) = 0"
  "w_gen (world_at n d) i = of_nat (n + i)" "reliable (world_at n d)"
  by (simp_all add: world_at_def world_of_def reliable_def)

definition after :: "request \<Rightarrow> nat \<Rightarrow> db \<Rightarrow> db" where
  "after q n d = w_db (snd (run (serve sample_server q) (world_at n d)))"

lemma after_step: "step sample_server d (after q n d)"
proof -
  obtain a w' where "run (serve sample_server q) (world_at n d) = (a, w')" by (cases "run (serve sample_server q) (world_at n d)")
  from step.served [OF this] this show ?thesis by (simp add: after_def)
qed

lemma uuid_string_nonempty_sample: "uuid_string sample_ext u \<noteq> []"
  by (simp add: sample_ext_def)

lemma sample_codes:
  "ToUpper E (TrimSpace ''tent'') = ''TENT''" "ToUpper E (TrimSpace ''LOAD'') = ''LOAD''"
  "ToUpper E (TrimSpace ''UNLOAD'') = ''UNLOAD''"
  by (simp_all add: code_eval)

lemma sample_valid: "bind_create sample_req" "validateCargoCreate sample_ext sample_req"
  by (simp_all add: bind_create_def bind_route_point_def validateCargoCreate_def IsAllowed_iff allowed_eqs
      sample_req_def sample_point_def upperStr_def sample_codes slice_def bad_ref_def)

definition sample_cargo :: "uuid \<Rightarrow> string \<Rightarrow> cargo_row" where
  "sample_cargo u s = (new_cargo (toCreateParams sample_ext sample_req) None 100 u)\<lparr>c_status := s\<rparr>"

definition sample_d0 :: db where
  "sample_d0 = after (Create_cargo [] (Some sample_req)) 7 (empty_db False)"

lemmas sample_create_defs = CargoHandler_Create_def creator_from_token_def company_creator_def
  cargo_Create_def insert_payment_opt_def insert_cargo_def insert_route_point_def timestamp_arg_def
  int4_arg_def cargo_checks_def cargo_status_check_def created_by_type_check_def weight_check_def
  exists_where_def company_exists_def cargo_exists_def route_point_fits_def new_route_point_def
  varchar_ok_def emptyToNil_def continuation_byte_def route_point_type_check_def

lemma run_created_answer: "w_db (snd (run (created_answer E u) w)) = w_db w"
  using keeps_dbD [OF keeps_db_created_answer [where J = "\<lambda>d. d = w_db w"], of w] by simp

lemma sample_create_run:
  "\<exists>w'. run (cargo_Create sample_ext ((toCreateParams sample_ext sample_req)\<lparr>cp_CompanyID := None\<rparr>))
       (world_at 7 (empty_db False)) = (Inr 8, w')
     \<and> w_db w' = (empty_db False)\<lparr>cargo_t := [sample_cargo 8 ''PENDING_MODERATION''],
        route_points_t := [new_route_point 8 (sample_point ''LOAD'' 1) 9, new_route_point 8 (sample_point ''UNLOAD'' 2) 10]\<rparr>"
  by (simp add: cargo_Create_def insert_payment_opt_def insert_cargo_def insert_route_point_def
      timestamp_arg_def int4_arg_def cargo_checks_def cargo_status_check_def created_by_type_check_def
      weight_check_def exists_where_def company_exists_def cargo_exists_def route_point_fits_def
      varchar_ok_def continuation_byte_def route_point_type_check_def new_cargo_def new_route_point_def
      emptyToNil_def toCreateParams_def toRoutePointInput_def sample_req_def sample_point_def sample_cargo_def
      slice_def upperStr_def sample_codes sql_trim_def nullif_empty_def empty_db_def fresh_id_def in_int4_def Let_def)

text \<open>The databases along the run.\<close>

definition sample_db :: "string \<Rightarrow> Offer list \<Rightarrow> Trip list \<Rightarrow> db" where
  "sample_db s qs ts = (empty_db False)\<lparr>cargo_t := [sample_cargo 8 s],
     route_points_t := [new_route_point 8 (sample_point ''LOAD'' 1) 9, new_route_point 8 (sample_point ''UNLOAD'' 2) 10],
     offers_t := qs, trips_t := ts\<rparr>"

lemma sample_db_simps [simp]:
  "cargo_t (sample_db s qs ts) = [sample_cargo 8 s]" "offers_t (sample_db s qs ts) = qs"
  "trips_t (sample_db s qs ts) = ts" "drivers_t (sample_db s qs ts) = []"
  "from_migrations (sample_db s qs ts) = False" "companies_t (sample_db s qs ts) = []"
  by (simp_all add: sample_db_def empty_db_def)

lemma sample_db_update [simp]:
  "(sample_db s qs ts)\<lparr>offers_t := qs'\<rparr> = sample_db s qs' ts"
  "(sample_db s qs ts)\<lparr>trips_t := ts'\<rparr> = sample_db s qs ts'"
  "(sample_db s qs ts)\<lparr>cargo_t := [sample_cargo 8 s']\<rparr> = sample_db s' qs ts"
  "(sample_db s qs ts)\<lparr>cargo_t := [sample_cargo 8 s'], offers_t := qs'\<rparr> = sample_db s' qs' ts"
  by (simp_all add: sample_db_def)

lemma sample_cargo_simps [simp]:
  "c_id (sample_cargo u s) = u" "c_status (sample_cargo u s) = s" "c_deleted_at (sample_cargo u s) = None"
  "c_created_by_type (sample_cargo u s) = None" "c_company_id (sample_cargo u s) = None"
  "c_weight (sample_cargo u s) = 20" "(sample_cargo u s)\<lparr>c_status := s', c_updated_at := 100\<rparr> = sample_cargo u s'"
  "(sample_cargo u s)\<lparr>c_moderation_rejection_reason := None\<rparr> = sample_cargo u s"
  by (simp_all add: sample_cargo_def new_cargo_def toCreateParams_def sample_req_def)

lemma sample_created: "after (Create_cargo [] (Some sample_req)) 7 (empty_db False) = sample_db ''PENDING_MODERATION'' [] []"
proof -
  obtain w' where run: "run (cargo_Create sample_ext ((toCreateParams sample_ext sample_req)\<lparr>cp_CompanyID := None\<rparr>))
       (world_at 7 (empty_db False)) = (Inr 8, w')"
    and db: "w_db w' = (empty_db False)\<lparr>cargo_t := [sample_cargo 8 ''PENDING_MODERATION''],
        route_points_t := [new_route_point 8 (sample_point ''LOAD'' 1) 9, new_route_point 8 (sample_point ''UNLOAD'' 2) 10]\<rparr>"
    using sample_create_run by blast
  have none: "cr_CompanyID sample_req = None" by (simp add: sample_req_def)
  have "after (Create_cargo [] (Some sample_req)) 7 (empty_db False) = w_db w'"
    by (simp add: after_def sample_server_def CargoHandler_Create_def sample_valid
        creator_from_token_def company_creator_def none run run_created_answer)
  then show ?thesis by (simp add: db sample_db_def empty_db_def)
qed

lemma scan_sample: "c_status (scanCargo c) = c_status c" "c_created_by_type (scanCargo c) = c_created_by_type c"
  "c_company_id (scanCargo c) = c_company_id c"
  by (simp_all add: scanCargo_def)

lemma sample_published:
  "after (Accept_moderation (uuid_string sample_ext 8) None) 20 (sample_db ''PENDING_MODERATION'' [] [])
     = sample_db ''SEARCHING_ALL'' [] []"
  by (simp add: after_def sample_server_def Moderation_Accept_def sample_ext_laws cargo_GetByID_def find_cargo_def
      first_where_Cons or_zero_def scan_sample search_visibility_def cargo_ModerationAccept_def Let_def
      update_cargo_def cargo_checks_def cargo_status_check_def created_by_type_check_def weight_check_def
      select_where_def in_status_def count_where_def update_where_def require_row_def code_eval ToLower_def lower_table_def)

definition sample_offer_req :: OfferReq where
  "sample_offer_req = \<lparr>or_CarrierID = 77, or_Price = 500, or_Currency = ''USD'', or_Comment = []\<rparr>"

definition sample_offer :: "uuid \<Rightarrow> string \<Rightarrow> Offer" where
  "sample_offer u s = set_offer_status s (new_offer 8 77 500 ''USD'' [] 100 u)"

lemma sample_offered:
  assumes "list_all (\<lambda>q. o_id q \<noteq> of_nat (Suc n)) qs"
  shows "after (Create_offer (uuid_string sample_ext 8) (Some sample_offer_req)) n (sample_db ''SEARCHING_ALL'' qs [])
     = sample_db ''SEARCHING_ALL'' (qs @ [sample_offer (of_nat (Suc n)) ''PENDING'']) []"
  using assms
  by (simp add: after_def sample_server_def CargoHandler_CreateOffer_def sample_ext_laws cargo_GetByID_def find_cargo_def
      first_where_Cons or_zero_def scan_sample IsSearching_def bind_offer_def sample_offer_req_def finish_offer_def
      cargo_CreateOffer_def insert_offer_def exists_where_def cargo_exists_def list_ex_iff list_all_iff
      sample_offer_def new_offer_def set_offer_status_def fresh_id_def)

text \<open>Two offers; the second one is accepted. The carrier is no driver, so the trip waits for one.\<close>

lemma sample_accepted:
  "after (Accept_offer (uuid_string sample_ext 41)) 50
       (sample_db ''SEARCHING_ALL'' [sample_offer 31 ''PENDING'', sample_offer 41 ''PENDING''] [])
     = sample_db ''ASSIGNED'' [sample_offer 31 ''REJECTED'', sample_offer 41 ''ACCEPTED''] [new_trip 8 41 100 56]"
  by (simp add: after_def sample_server_def CargoHandler_AcceptOffer_def sample_ext_laws cargo_AcceptOffer_def
      pending_offer_def first_where_Cons sample_offer_def new_offer_def set_offer_status_def update_offers_def
      offers_status_check_def select_where_def update_where_def update_cargo_def live_cargo_def
      cargo_checks_def cargo_status_check_def created_by_type_check_def weight_check_def set_cargo_status_def
      open_trip_def trips_Create_def insert_trip_def exists_where_def cargo_exists_def offer_exists_def
      trips_AssignDriver_def or_zero_def fresh_id_def update_trips_def trip_in_status_def new_trip_def
      trip_row_ok_def trips_status_check_def driver_exists_def count_where_def Let_def)

definition sample_final :: db where
  "sample_final = sample_db ''ASSIGNED'' [sample_offer 31 ''REJECTED'', sample_offer 41 ''ACCEPTED''] [new_trip 8 41 100 56]"

lemma after_reachable: "reachable sample_server d \<Longrightarrow> reachable sample_server (after q n d)"
  by (rule reachable.onwards [OF _ after_step])

lemma sample_reachable: "reachable sample_server sample_final"
proof -
  let ?offer = "Create_offer (uuid_string sample_ext 8) (Some sample_offer_req)"
  have "reachable sample_server (empty_db False)"
    by (rule reachable.start) (simp add: initial_def schema_ok_empty, simp add: empty_db_def)
  then have "reachable sample_server (sample_db ''PENDING_MODERATION'' [] [])"
    by (metis after_reachable sample_created)
  then have "reachable sample_server (sample_db ''SEARCHING_ALL'' [] [])"
    by (metis after_reachable sample_published)
  from after_reachable [OF this, of ?offer 30]
  have "reachable sample_server (sample_db ''SEARCHING_ALL'' [sample_offer 31 ''PENDING''] [])"
    using sample_offered [of 30 "[]"] by simp
  from after_reachable [OF this, of ?offer 40]
  have "reachable sample_server (sample_db ''SEARCHING_ALL'' [sample_offer 31 ''PENDING'', sample_offer 41 ''PENDING''] [])"
    using sample_offered [of 40 "[sample_offer 31 ''PENDING'']"]
    by (simp add: sample_offer_def new_offer_def)
  then show ?thesis unfolding sample_final_def by (metis after_reachable sample_accepted)
qed

text \<open>A driver registers, the trip is given to them and they confirm.\<close>

definition with_driver :: "db \<Rightarrow> db" where
  "with_driver d = d\<lparr>drivers_t := [empty_driver 77 ''+998901234567'' 100]\<rparr>"

definition sample_trip :: "string \<Rightarrow> Trip" where
  "sample_trip s = (new_trip 8 41 100 56)\<lparr>t_driver_id := Some 77, t_status := s\<rparr>"

definition sample_driven :: "string \<Rightarrow> db" where
  "sample_driven s = with_driver (sample_final\<lparr>trips_t := [sample_trip s]\<rparr>)"

lemma with_driver_simps [simp]:
  "cargo_t (with_driver d) = cargo_t d" "offers_t (with_driver d) = offers_t d" "trips_t (with_driver d) = trips_t d"
  "drivers_t (with_driver d) = [empty_driver 77 ''+998901234567'' 100]"
  "(with_driver d)\<lparr>trips_t := ts\<rparr> = with_driver (d\<lparr>trips_t := ts\<rparr>)"
  by (simp_all add: with_driver_def)

lemma sample_trip_simps [simp]:
  "t_id (sample_trip s) = 56" "t_status (sample_trip s) = s" "t_driver_id (sample_trip s) = Some 77"
  "t_cargo_id (sample_trip s) = 8" "t_offer_id (sample_trip s) = 41"
  "(sample_trip s)\<lparr>t_status := s', t_updated_at := 100\<rparr> = sample_trip s'"
  "(new_trip 8 41 100 56)\<lparr>t_driver_id := Some 77, t_updated_at := 100\<rparr> = sample_trip ''PENDING_DRIVER''"
  by (simp_all add: sample_trip_def new_trip_def)

lemma new_trip_simps [simp]:
  "t_id (new_trip c q n u) = u" "t_status (new_trip c q n u) = ''PENDING_DRIVER''" "t_driver_id (new_trip c q n u) = None"
  by (simp_all add: new_trip_def)

lemmas sample_trip_defs = update_trips_def trip_in_status_def trip_row_ok_def trips_status_check_def
  driver_exists_def exists_where_def empty_driver_def first_where_Cons count_where_def select_where_def
  update_where_def require_row_def

lemma sample_assigned:
  "after (Assign_driver (uuid_string sample_ext 56) (Some (uuid_string sample_ext 77))) 70 (with_driver sample_final)
     = sample_driven ''PENDING_DRIVER''"
  by (simp add: after_def sample_server_def TripsHandler_AssignDriver_def sample_ext_laws uuid_string_nonempty_sample
      trips_AssignDriver_def sample_trip_defs sample_final_def sample_driven_def)

lemma sample_confirmed:
  "after (Confirm_trip 77 (uuid_string sample_ext 56)) 80 (sample_driven ''PENDING_DRIVER'') = sample_driven ''ASSIGNED''"
  by (simp add: after_def sample_server_def TripsHandler_DriverConfirm_def sample_ext_laws
      trips_DriverConfirm_def sample_trip_defs sample_final_def sample_driven_def)

lemma sample_driven_reachable: "reachable sample_server (sample_driven ''ASSIGNED'')"
proof -
  have "schema_ok (with_driver sample_final)"
    using award_okD(1) [OF reachable_award [OF sample_reachable]]
    by (simp add: with_driver_def schema_defs sample_final_def sample_db_def empty_db_def new_trip_def empty_driver_def
        weight_check_def route_point_type_check_def)
  then have "elsewhere sample_final (with_driver sample_final)" by (simp add: elsewhere_def with_driver_def)
  then have "reachable sample_server (with_driver sample_final)"
    using sample_reachable by (auto intro: reachable.onwards step.other)
  then show ?thesis by (metis after_reachable sample_assigned sample_confirmed)
qed

end
