(* ===== verification/Cargo_Guarantees.thy ===== *)
theory Cargo_Guarantees
  imports Progress Sample_Run
begin

text \<open>
  What the cargo side guarantees in every database it can reach, and along every run, with every request
  served under any pattern of break-downs.
\<close>

section \<open>Runs\<close>

definition runs_to :: "server \<Rightarrow> db \<Rightarrow> db \<Rightarrow> bool" where
  "runs_to S = (step S)\<^sup>*\<^sup>*"

lemma runs_to_reachable: "runs_to S d d' \<Longrightarrow> reachable S d \<Longrightarrow> reachable S d'"
  unfolding runs_to_def by (induction rule: rtranclp_induct) (auto intro: reachable.onwards)

lemma reachable_from_initial: "reachable S d \<Longrightarrow> \<exists>d0. initial d0 \<and> runs_to S d0 d"
  unfolding runs_to_def
  by (induction rule: reachable.induct) (auto intro: rtranclp.rtrancl_into_rtrancl)

lemma step_onward:
  assumes "step S d d'" and "award_ok d"
  shows "cargo_onward d d'" and "trip_onward d d'"
proof -
  from assms(1) have "cargo_onward d d' \<and> trip_onward d d'"
  proof cases
    case (served q w a w')
    with assms(2) cargo_prog.moves_forward [OF cargo_onward_inv.keeps_serve, of w S q]
      trip_prog.moves_forward [OF trip_onward_inv.keeps_serve, of w S q]
    show ?thesis by simp
  next
    case other
    then show ?thesis by (simp add: elsewhere_def cargo_onward_same trip_onward_same)
  qed
  then show "cargo_onward d d'" "trip_onward d d'" by simp_all
qed

lemma runs_onward:
  assumes "runs_to S d d'" and "reachable S d"
  shows "cargo_onward d d' \<and> trip_onward d d'"
  using assms(1) unfolding runs_to_def
proof (induction rule: rtranclp_induct)
  case base
  show ?case by (simp add: cargo_onward_same trip_onward_same)
next
  case (step y z)
  have "reachable S y" using step.hyps(1) assms(2) by (rule runs_to_reachable [unfolded runs_to_def])
  from step_onward [OF step.hyps(2) reachable_award [OF this]] step.IH
  show ?case by (blast intro: cargo_onward_trans trip_onward_trans)
qed

lemma reachable_rows:
  assumes "reachable S d"
  shows "c \<in> set (cargo_t d) \<Longrightarrow> \<exists>c0. fresh_cargo c0 \<and> cargo_after c0 c"
    and "t \<in> set (trips_t d) \<Longrightarrow> \<exists>t0. fresh_trip t0 \<and> trip_after t0 t"
proof -
  from reachable_from_initial [OF assms] obtain d0 where "initial d0" "runs_to S d0 d" by blast
  then have "cargo_onward d0 d \<and> trip_onward d0 d" and "cargo_t d0 = []" "trips_t d0 = []"
    by (auto intro!: runs_onward reachable.start simp: initial_def)
  then show "c \<in> set (cargo_t d) \<Longrightarrow> \<exists>c0. fresh_cargo c0 \<and> cargo_after c0 c"
    "t \<in> set (trips_t d) \<Longrightarrow> \<exists>t0. fresh_trip t0 \<and> trip_after t0 t"
    by (auto simp: cargo_onward_def trip_onward_def)
qed

section \<open>One winner, one trip\<close>

text \<open>
  C2: at most one offer for a cargo is accepted: beside an accepted offer every other offer for the same
  cargo is rejected, and while the cargo is not deleted it is assigned, in progress, completed or
  cancelled. It holds in every reachable database, whatever requests were served and whatever
  failed on the way.
\<close>

theorem one_winner:
  assumes "reachable S d" and "q \<in> set (offers_t d)" and "o_status q = ''ACCEPTED''"
  shows "(\<forall>q' \<in> set (offers_t d). o_cargo_id q' = o_cargo_id q \<and> q' \<noteq> q \<longrightarrow> o_status q' = ''REJECTED'')
       \<and> (\<forall>c \<in> set (cargo_t d). c_id c = o_cargo_id q \<and> c_deleted_at c = None \<longrightarrow>
            c_status c \<in> {''ASSIGNED'', ''IN_PROGRESS'', ''COMPLETED'', ''CANCELLED''})"
  using award_okD(2,3) [OF reachable_award [OF assms(1)]] assms(2,3)
  unfolding single_award_def cargo_awarded_def live_cargo_def awarded_def by blast

theorem one_winner_witness:
  "reachable sample_server sample_final
   \<and> o_status (sample_offer 41 ''ACCEPTED'') = ''ACCEPTED'' \<and> o_status (sample_offer 31 ''REJECTED'') = ''REJECTED''"
proof -
  have ne: "sample_offer 31 ''REJECTED'' \<noteq> sample_offer 41 ''ACCEPTED''"
    by (simp add: sample_offer_def new_offer_def set_offer_status_def)
  have "o_status (sample_offer 31 ''REJECTED'') = ''REJECTED''"
    using one_winner [OF sample_reachable, of "sample_offer 41 ''ACCEPTED''"] ne
    by (simp add: sample_final_def sample_offer_def new_offer_def)
  then show ?thesis by (simp add: sample_reachable sample_offer_def)
qed

text \<open>
  C5: a trip exists only for an accepted offer, for the cargo of that offer, and no two trips are
  for the same offer or for the same cargo, although the schema asks for neither.
\<close>

theorem trip_backed:
  assumes "reachable S d" and "t \<in> set (trips_t d)"
  shows "(\<exists>q \<in> set (offers_t d). o_id q = t_offer_id t \<and> o_cargo_id q = t_cargo_id t \<and> o_status q = ''ACCEPTED'')
       \<and> (\<forall>t' \<in> set (trips_t d). t_offer_id t' = t_offer_id t \<or> t_cargo_id t' = t_cargo_id t \<longrightarrow> t' = t)"
proof -
  note ok = award_okD [OF reachable_award [OF assms(1)]]
  have backed: "\<exists>q \<in> set (offers_t d). o_id q = t_offer_id r \<and> o_cargo_id q = t_cargo_id r \<and> o_status q = ''ACCEPTED''"
    if "r \<in> set (trips_t d)" for r using ok(4) that unfolding trips_awarded_def by blast
  have same: "r = t" if "r \<in> set (trips_t d)" "t_offer_id r = t_offer_id t" for r
    using ok(4) that assms(2) by (auto simp: trips_awarded_def distinct_map inj_on_def)
  have "r = t" if r: "r \<in> set (trips_t d)" "t_cargo_id r = t_cargo_id t" for r
  proof -
    from backed [OF assms(2)] backed [OF r(1)] obtain q q'
      where q: "q \<in> set (offers_t d)" "o_id q = t_offer_id t" "o_cargo_id q = t_cargo_id t" "o_status q = ''ACCEPTED''"
        and q': "q' \<in> set (offers_t d)" "o_id q' = t_offer_id r" "o_cargo_id q' = t_cargo_id r" "o_status q' = ''ACCEPTED''"
      by blast
    have "q' = q" using ok(2) q q' r(2) unfolding single_award_def by force
    with q(2) q'(2) show ?thesis by (intro same [OF r(1)]) simp
  qed
  with backed [OF assms(2)] same show ?thesis by blast
qed

theorem trip_backed_witness:
  "\<exists>q \<in> set (offers_t sample_final). o_id q = 41 \<and> o_cargo_id q = 8 \<and> o_status q = ''ACCEPTED''"
  using trip_backed [OF sample_reachable, of "new_trip 8 41 100 56"] by (simp add: sample_final_def new_trip_def)

section \<open>Moving forward\<close>

text \<open>
  C6: along any run a trip keeps its identity, its cargo and its offer, its status only moves along the
  table \<open>allowedTransitions\<close> (so \<open>COMPLETED\<close> and \<open>CANCELLED\<close> are final), and once it has left
  \<open>PENDING_DRIVER\<close> its driver never changes.
\<close>

theorem trips_move_forward:
  assumes "reachable S d" and "runs_to S d d'" and "t \<in> set (trips_t d)"
  shows "\<exists>t' \<in> set (trips_t d'). t_id t' = t_id t \<and> t_cargo_id t' = t_cargo_id t \<and> t_offer_id t' = t_offer_id t
     \<and> (\<lambda>s s'. s' \<in> set (allowedTransitions s))\<^sup>*\<^sup>* (t_status t) (t_status t')
     \<and> (t_status t \<in> {''COMPLETED'', ''CANCELLED''} \<longrightarrow> t_status t' = t_status t)
     \<and> (t_status t \<noteq> ''PENDING_DRIVER'' \<longrightarrow> t_driver_id t' = t_driver_id t)"
proof -
  from runs_onward [OF assms(2,1)] assms(3) obtain t' where "t' \<in> set (trips_t d')" and t: "trip_after t t'"
    unfolding trip_onward_def by blast
  moreover have "t_status t \<in> {''COMPLETED'', ''CANCELLED''} \<longrightarrow> t_status t' = t_status t"
    using t trip_leads_final [of "t_status t" "t_status t'"] by (auto simp: trip_after_def allowedTransitions_def)
  ultimately show ?thesis unfolding trip_after_def trip_leads_def by blast
qed

theorem trips_move_forward_witness:
  "\<exists>t' \<in> set (trips_t (after (Delete_cargo (uuid_string sample_ext 8)) 60 sample_final)). t_id t' = 56 \<and> t_offer_id t' = 41"
proof -
  have "runs_to sample_server sample_final (after (Delete_cargo (uuid_string sample_ext 8)) 60 sample_final)"
    unfolding runs_to_def using after_step by (rule r_into_rtranclp)
  from trips_move_forward [OF sample_reachable this, of "new_trip 8 41 100 56"]
  show ?thesis by (auto simp: sample_final_def new_trip_def)
qed

text \<open>
  C7: along any run a cargo keeps its identity, its owner and its time of creation; a deleted cargo never
  changes again; once it has left moderation it is never pending again, and once it has been assigned
  it is only ever assigned, in progress, completed or cancelled.
\<close>

theorem cargo_moves_forward:
  assumes "reachable S d" and "runs_to S d d'" and "c \<in> set (cargo_t d)"
  shows "\<exists>c' \<in> set (cargo_t d'). c_id c' = c_id c \<and> c_created_at c' = c_created_at c
     \<and> c_created_by_type c' = c_created_by_type c \<and> c_created_by_id c' = c_created_by_id c
     \<and> c_company_id c' = c_company_id c
     \<and> (c_deleted_at c \<noteq> None \<longrightarrow> c' = c)
     \<and> (c_status c \<noteq> ''PENDING_MODERATION'' \<longrightarrow> c_status c' \<noteq> ''PENDING_MODERATION'')
     \<and> (c_status c \<in> {''ASSIGNED'', ''IN_PROGRESS'', ''COMPLETED'', ''CANCELLED''} \<longrightarrow>
          c_status c' \<in> {''ASSIGNED'', ''IN_PROGRESS'', ''COMPLETED'', ''CANCELLED''})"
proof -
  from runs_onward [OF assms(2,1)] assms(3) obtain c' where "c' \<in> set (cargo_t d')" and c: "cargo_after c c'"
    unfolding cargo_onward_def by blast
  moreover have "cargo_leads (c_status c) (c_status c')" using c by (simp add: cargo_after_def)
  note not_pending_leads [OF this] awarded_leads [OF this]
  ultimately show ?thesis unfolding cargo_after_def awarded_def by blast
qed

theorem cargo_moves_forward_witness:
  "\<exists>c' \<in> set (cargo_t (after (Patch_cargo_status (uuid_string sample_ext 8) (Some ''IN_PROGRESS'')) 60 sample_final)).
     c_id c' = 8 \<and> c_status c' \<in> {''ASSIGNED'', ''IN_PROGRESS'', ''COMPLETED'', ''CANCELLED''}"
proof -
  have "runs_to sample_server sample_final
      (after (Patch_cargo_status (uuid_string sample_ext 8) (Some ''IN_PROGRESS'')) 60 sample_final)"
    unfolding runs_to_def using after_step by (rule r_into_rtranclp)
  from cargo_moves_forward [OF sample_reachable this, of "sample_cargo 8 ''ASSIGNED''"]
  show ?thesis by (auto simp: sample_final_def)
qed



text \<open>
  C9: a trip that is assigned, loading, under way, unloading, completed or cancelled has a driver; only one
  that waits in \<open>PENDING_DRIVER\<close> may have none.
\<close>

theorem trips_driven:
  assumes "reachable S d" and "t \<in> set (trips_t d)" and "t_status t \<noteq> ''PENDING_DRIVER''"
  shows "\<exists>u. t_driver_id t = Some u \<and> u \<in> d_id ` set (drivers_t d)"
proof -
  from reachable_rows(2) [OF assms(1,2)] assms(3) have "t_driver_id t \<noteq> None"
    by (auto simp: fresh_trip_def trip_after_def)
  with award_okD(1) [OF reachable_award [OF assms(1)]] assms(2) show ?thesis
    by (auto simp: schema_ok_def references_ok_def)
qed

theorem trips_driven_witness:
  "reachable sample_server (sample_driven ''ASSIGNED'') \<and> 77 \<in> d_id ` set (drivers_t (sample_driven ''ASSIGNED''))"
  using trips_driven [OF sample_driven_reachable, of "sample_trip ''ASSIGNED''"] sample_driven_reachable
  by (simp add: sample_driven_def with_driver_def sample_trip_def)

text \<open>
  C10: whatever is served, and whatever breaks down, every key of the cargo side stays unique, every reference points to
  a row (trips to their offer and driver, offers and route points to their cargo, cargo to its company)
  and every stored status is one the schema allows.
\<close>

theorem integrity_kept:
  assumes "reachable S d"
  shows "keys_ok d \<and> references_ok d \<and> checks_ok d"
  using award_okD(1) [OF reachable_award [OF assms]] by (simp add: schema_ok_def)

theorem integrity_kept_witness: "keys_ok sample_final \<and> references_ok sample_final \<and> checks_ok sample_final"
  by (rule integrity_kept [OF sample_reachable])

end
