(* ===== verification/Redis.thy ===== *)
theory Redis
  imports Database "HOL-Library.Finite_Map" "HOL-Library.AList"
begin

text \<open>
  The Redis server as the stores see it through \<open>go-redis\<close>: string, hash and set values under string keys,
  each with an optional moment of expiry. A key whose moment has passed is absent for every
  command. Each command is a round trip that may break down before or after the server acted, like a
  statement of PostgreSQL; \<open>TxPipeline\<close> sends its commands as one \<open>MULTI\<close>/\<open>EXEC\<close> block.
  The commands do what the Redis documentation says of them; a request sees one moment, the \<open>w_now\<close>
  of its world.
\<close>

section \<open>Decimal numbers\<close>

text \<open>\<open>fmt.Sprintf("%d", _)\<close>, and the text \<open>INCR\<close> stores.\<close>

definition digit_char :: "nat \<Rightarrow> char" where
  "digit_char d = ''0123456789'' ! d"

fun nat_digits :: "nat \<Rightarrow> string" where
  "nat_digits n = (if n < 10 then [digit_char n] else nat_digits (n div 10) @ [digit_char (n mod 10)])"

declare nat_digits.simps [simp del]

definition Itoa :: "int \<Rightarrow> string" where
  "Itoa n = (if n < 0 then CHR ''-'' # nat_digits (nat (- n)) else nat_digits (nat n))"

lemma less_ten: "(d :: nat) < 10 \<Longrightarrow> d = 0 \<or> d = 1 \<or> d = 2 \<or> d = 3 \<or> d = 4 \<or> d = 5 \<or> d = 6 \<or> d = 7 \<or> d = 8 \<or> d = 9"
  by presburger

lemma digit_val_char: "d < 10 \<Longrightarrow> digit_val (digit_char d) = Some (int d)"
  by (drule less_ten) (auto simp: digit_val_def digit_char_def)

lemma digit_char_not_sign: "d < 10 \<Longrightarrow> digit_char d \<noteq> CHR ''-'' \<and> digit_char d \<noteq> CHR ''+''"
  by (drule less_ten) (auto simp: digit_char_def)

lemma digits_val_append:
  "digits_val acc (xs @ ys) = (case digits_val acc xs of None \<Rightarrow> None | Some v \<Rightarrow> digits_val v ys)"
  by (induction xs arbitrary: acc) (auto split: option.splits)

lemma digits_val_nat_digits: "digits_val 0 (nat_digits n) = Some (int n)"
proof (induction n rule: nat_digits.induct)
  case (1 n)
  show ?case
  proof (cases "n < 10")
    case True
    then show ?thesis by (simp add: nat_digits.simps [of n] digit_val_char)
  next
    case False
    then have "digits_val 0 (nat_digits n) = Some (10 * int (n div 10) + int (n mod 10))"
      by (subst nat_digits.simps) (simp add: digits_val_append 1 digit_val_char)
    also have "10 * int (n div 10) + int (n mod 10) = int n"
      using div_mult_mod_eq [of n 10] by linarith
    finally show ?thesis .
  qed
qed

lemma hd_nat_digits: "\<exists>c cs. nat_digits n = c # cs \<and> c \<noteq> CHR ''-'' \<and> c \<noteq> CHR ''+''"
proof (induction n rule: nat_digits.induct)
  case (1 n)
  show ?case
  proof (cases "n < 10")
    case True
    then show ?thesis using digit_char_not_sign [of n] by (simp add: nat_digits.simps [of n])
  next
    case False
    from 1 [OF False] obtain c cs where "nat_digits (n div 10) = c # cs" "c \<noteq> CHR ''-''" "c \<noteq> CHR ''+''" by blast
    with False show ?thesis by (subst nat_digits.simps) simp
  qed
qed

lemma parse_decimal_Itoa: "parse_decimal (Itoa n) = Some n"
proof (cases "n < 0")
  case True
  obtain c cs where "nat_digits (nat (- n)) = c # cs" using hd_nat_digits by blast
  with True digits_val_nat_digits [of "nat (- n)"] show ?thesis
    by (simp add: parse_decimal_def Itoa_def Let_def)
next
  case False
  obtain c cs where "nat_digits (nat n) = c # cs" "c \<noteq> CHR ''-''" "c \<noteq> CHR ''+''" using hd_nat_digits by blast
  with False digits_val_nat_digits [of "nat n"] show ?thesis
    by (simp add: parse_decimal_def Itoa_def Let_def)
qed

lemma Atoi_Itoa: "in_int64 n \<Longrightarrow> Atoi (Itoa n) = Some n"
  by (simp add: Atoi_def parse_decimal_Itoa)

lemma Atoi_value_Itoa: "in_int64 n \<Longrightarrow> Atoi_value (Itoa n) = n"
  by (rule Atoi_value_Some [OF Atoi_Itoa])

section \<open>The key space\<close>

datatype rvalue =
    RString string
  | RHash "(string \<times> string) list"
  | RSet "string list"

record rentry =
  re_value :: rvalue
  re_expires :: "time option"

type_synonym redis = "(string, rentry) fmap"

definition re_live :: "time \<Rightarrow> rentry \<Rightarrow> bool" where
  "re_live now e \<longleftrightarrow> (case re_expires e of None \<Rightarrow> True | Some t \<Rightarrow> now < t)"

definition rd_live :: "time \<Rightarrow> redis \<Rightarrow> string \<Rightarrow> rentry option" where
  "rd_live now m k = (case fmlookup m k of None \<Rightarrow> None | Some e \<Rightarrow> if re_live now e then Some e else None)"

definition rd_value :: "time \<Rightarrow> redis \<Rightarrow> string \<Rightarrow> rvalue option" where
  "rd_value now m k = map_option re_value (rd_live now m k)"

definition expiry :: "time \<Rightarrow> duration \<Rightarrow> time option" where
  "expiry now ttl = (if ttl > 0 then Some (now + ttl) else None)"

section \<open>Commands\<close>

definition RedisNil :: err where "RedisNil = Err ''redis: nil''"
definition WrongType :: err where "WrongType = Err ''WRONGTYPE''"
definition NotInteger :: err where "NotInteger = Err ''ERR value is not an integer or out of range''"

type_synonym 'a rcmd = "time \<Rightarrow> redis \<Rightarrow> (err + 'a) \<times> redis"

definition rd_put :: "string \<Rightarrow> rvalue \<Rightarrow> time option \<Rightarrow> redis \<Rightarrow> redis" where
  "rd_put k v t m = fmupd k \<lparr>re_value = v, re_expires = t\<rparr> m"

text \<open>\<open>Set\<close> with a duration of zero stores the value without expiry.\<close>

definition cSet :: "string \<Rightarrow> string \<Rightarrow> duration \<Rightarrow> unit rcmd" where
  "cSet k v ttl = (\<lambda>now m. (Inr (), rd_put k (RString v) (expiry now ttl) m))"

definition cGet :: "string \<Rightarrow> string rcmd" where
  "cGet k = (\<lambda>now m. (case rd_value now m k of
       None \<Rightarrow> Inl RedisNil | Some (RString v) \<Rightarrow> Inr v | Some _ \<Rightarrow> Inl WrongType, m))"

definition cDel :: "string \<Rightarrow> nat rcmd" where
  "cDel k = (\<lambda>now m. (Inr (if rd_live now m k = None then 0 else 1), fmdrop k m))"

definition cExists :: "string \<Rightarrow> nat rcmd" where
  "cExists k = (\<lambda>now m. (Inr (if rd_live now m k = None then 0 else 1), m))"

definition cHGetAll :: "string \<Rightarrow> (string \<times> string) list rcmd" where
  "cHGetAll k = (\<lambda>now m. (case rd_value now m k of
       None \<Rightarrow> Inr [] | Some (RHash h) \<Rightarrow> Inr h | Some _ \<Rightarrow> Inl WrongType, m))"

text \<open>\<open>HSet\<close> keeps the expiry the key has.\<close>

definition hset_fields :: "(string \<times> string) list \<Rightarrow> (string \<times> string) list \<Rightarrow> (string \<times> string) list" where
  "hset_fields kvs h = fold (\<lambda>(f, v). AList.update f v) kvs h"

definition cHSet :: "string \<Rightarrow> (string \<times> string) list \<Rightarrow> unit rcmd" where
  "cHSet k kvs = (\<lambda>now m.
     case rd_live now m k of
       None \<Rightarrow> (Inr (), rd_put k (RHash (hset_fields kvs [])) None m)
     | Some e \<Rightarrow> (case re_value e of
           RHash h \<Rightarrow> (Inr (), rd_put k (RHash (hset_fields kvs h)) (re_expires e) m)
         | _ \<Rightarrow> (Inl WrongType, m)))"

definition cExpire :: "string \<Rightarrow> duration \<Rightarrow> bool rcmd" where
  "cExpire k ttl = (\<lambda>now m.
     case rd_live now m k of
       None \<Rightarrow> (Inr False, m)
     | Some e \<Rightarrow> (Inr True, if ttl > 0 then rd_put k (re_value e) (Some (now + ttl)) m else fmdrop k m))"

definition cIncr :: "string \<Rightarrow> int rcmd" where
  "cIncr k = (\<lambda>now m.
     case rd_live now m k of
       None \<Rightarrow> (Inr 1, rd_put k (RString (Itoa 1)) None m)
     | Some e \<Rightarrow> (case re_value e of
           RString s \<Rightarrow> (case Atoi s of
               None \<Rightarrow> (Inl NotInteger, m)
             | Some n \<Rightarrow> if in_int64 (n + 1)
                         then (Inr (n + 1), rd_put k (RString (Itoa (n + 1))) (re_expires e) m)
                         else (Inl NotInteger, m))
         | _ \<Rightarrow> (Inl WrongType, m)))"

definition cSAdd :: "string \<Rightarrow> string \<Rightarrow> unit rcmd" where
  "cSAdd k x = (\<lambda>now m.
     case rd_live now m k of
       None \<Rightarrow> (Inr (), rd_put k (RSet [x]) None m)
     | Some e \<Rightarrow> (case re_value e of
           RSet xs \<Rightarrow> (Inr (), rd_put k (RSet (List.insert x xs)) (re_expires e) m)
         | _ \<Rightarrow> (Inl WrongType, m)))"

definition cSMembers :: "string \<Rightarrow> string list rcmd" where
  "cSMembers k = (\<lambda>now m. (case rd_value now m k of
       None \<Rightarrow> Inr [] | Some (RSet xs) \<Rightarrow> Inr xs | Some _ \<Rightarrow> Inl WrongType, m))"

text \<open>
  \<open>KEYS prefix*\<close> for a prefix without special characters; the order of the keys is not
  determined, they come here in the order of the key space's listing.
\<close>

definition rd_keys :: "(string \<Rightarrow> bool) \<Rightarrow> time \<Rightarrow> redis \<Rightarrow> string fset" where
  "rd_keys P now m = ffilter (\<lambda>k. P k \<and> rd_live now m k \<noteq> None) (fmdom m)"

definition cKeys :: "string \<Rightarrow> string fset rcmd" where
  "cKeys pre = (\<lambda>now m. (Inr (rd_keys (\<lambda>k. take (length pre) k = pre) now m), m))"

definition cDelKeys :: "string fset \<Rightarrow> unit rcmd" where
  "cDelKeys ks = (\<lambda>now m. (Inr (), fmdrop_fset ks m))"

text \<open>A pipeline runs every command; the first error is the error of \<open>Exec\<close>.\<close>

fun pipeline :: "unit rcmd list \<Rightarrow> unit rcmd" where
  "pipeline [] now m = (Inr (), m)"
| "pipeline (c # cs) now m =
     (let (r, m1) = c now m; (r', m2) = pipeline cs now m1
      in (case r of Inl e \<Rightarrow> Inl e | Inr _ \<Rightarrow> r', m2))"

text \<open>The answer of a command that the pipeline does not look at.\<close>

definition quiet :: "'a rcmd \<Rightarrow> unit rcmd" where
  "quiet c = (\<lambda>now m. (case fst (c now m) of Inl e \<Rightarrow> Inl e | Inr _ \<Rightarrow> Inr (), snd (c now m)))"

section \<open>Round trips\<close>

record rworld = world +
  w_redis :: redis

type_synonym ('z, 'a) rprog = "('z rworld_scheme, 'a) state"

definition rd_call :: "'a rcmd \<Rightarrow> ('z, err + 'a) rprog" where
  "rd_call c = State (\<lambda>w.
     case next_fault w of
       Fails_before \<Rightarrow> (Inl ConnError, tick w)
     | f \<Rightarrow> (let (r, m) = c (w_now w) (w_redis w)
             in (if f = Fails_after then Inl ConnError else r, (tick w)\<lparr>w_redis := m\<rparr>)))"

text \<open>\<open>uuid.NewString()\<close> draws an identifier without any round trip.\<close>

definition new_uuid :: "('z, uuid) prog" where
  "new_uuid = State (\<lambda>w. (fresh_id w, w\<lparr>w_drawn := Suc (w_drawn w)\<rparr>))"

definition clock :: "('z, time) prog" where
  "clock = State (\<lambda>w. (w_now w, w))"

lemma run_new_uuid [simp]: "run new_uuid w = (fresh_id w, w\<lparr>w_drawn := Suc (w_drawn w)\<rparr>)"
  by (simp add: new_uuid_def)

lemma run_clock [simp]: "run clock w = (w_now w, w)"
  by (simp add: clock_def)

lemma run_rd_call:
  "run (rd_call c) w =
     (case next_fault w of
       Fails_before \<Rightarrow> (Inl ConnError, tick w)
     | f \<Rightarrow> (let (r, m) = c (w_now w) (w_redis w)
             in (if f = Fails_after then Inl ConnError else r, (tick w)\<lparr>w_redis := m\<rparr>)))"
  by (simp add: rd_call_def)

lemma run_rd_call_reliable [simp]:
  "reliable w \<Longrightarrow> run (rd_call c) w =
     (fst (c (w_now w) (w_redis w)), (tick w)\<lparr>w_redis := snd (c (w_now w) (w_redis w))\<rparr>)"
  by (simp add: run_rd_call split: prod.splits)

lemma tick_redis [simp]: "w_redis (tick w) = w_redis w"
  by (simp add: tick_def)

lemma tick_redis_id [simp]: "(tick w)\<lparr>w_redis := w_redis w\<rparr> = tick w"
  by (simp add: tick_def)

lemma redis_update_simps [simp]:
  "reliable (w\<lparr>w_redis := m\<rparr>) = reliable w" "next_fault (w\<lparr>w_redis := m\<rparr>) = next_fault w"
  "fresh_id (w\<lparr>w_redis := m\<rparr>) = fresh_id w" "w_db (tick w\<lparr>w_redis := m\<rparr>) = w_db w"
  by (simp_all add: reliable_def next_fault_def fresh_id_def)

lemma drawn_update_simps [simp]:
  "reliable (w\<lparr>w_drawn := n\<rparr>) = reliable w" "next_fault (w\<lparr>w_drawn := n\<rparr>) = next_fault w"
  by (simp_all add: reliable_def next_fault_def)

lemma now_update_simps [simp]:
  "reliable (w\<lparr>w_now := t\<rparr>) = reliable w" "next_fault (w\<lparr>w_now := t\<rparr>) = next_fault w"
  by (simp_all add: reliable_def next_fault_def)

text \<open>\<open>if err != nil { return err }\<close> between two steps.\<close>

definition andE :: "('s, 'e + 'a) state \<Rightarrow> ('a \<Rightarrow> ('s, 'e + 'b) state) \<Rightarrow> ('s, 'e + 'b) state" where
  "andE m f = do { r \<leftarrow> m; (case r of Inl e \<Rightarrow> ret (Inl e) | Inr a \<Rightarrow> f a) }"

lemma run_andE:
  "run (andE m f) w = (case run m w of (Inl e, w') \<Rightarrow> (Inl e, w') | (Inr a, w') \<Rightarrow> run (f a) w')"
  by (simp add: andE_def split: prod.splits sum.splits)

lemma keeps_db_andE [keeps_intro]:
  "keeps_db J m \<Longrightarrow> (\<And>a. keeps_db J (f a)) \<Longrightarrow> keeps_db J (andE m f)"
  unfolding andE_def by (intro keeps_intro) auto

lemma reads_only_andE: "reads_only m \<Longrightarrow> (\<And>a. reads_only (f a)) \<Longrightarrow> reads_only (andE m f)"
  unfolding andE_def by (intro reads_only_intros)

text \<open>\<open>if err != nil { ... return }\<close> in a handler: \<open>h\<close> answers the error, \<open>k\<close> goes on.\<close>

definition attempt :: "('s, 'e + 'a) state \<Rightarrow> ('e \<Rightarrow> ('s, 'b) state) \<Rightarrow> ('a \<Rightarrow> ('s, 'b) state) \<Rightarrow> ('s, 'b) state" where
  "attempt m h k = do { r \<leftarrow> m; (case r of Inl e \<Rightarrow> h e | Inr a \<Rightarrow> k a) }"

lemma run_attempt:
  "run (attempt m h k) w = (case run m w of (Inl e, w') \<Rightarrow> run (h e) w' | (Inr a, w') \<Rightarrow> run (k a) w')"
  by (simp add: attempt_def split: prod.splits sum.splits)

lemma keeps_db_attempt [keeps_intro]:
  "keeps_db J m \<Longrightarrow> (\<And>e. keeps_db J (h e)) \<Longrightarrow> (\<And>a. keeps_db J (k a)) \<Longrightarrow> keeps_db J (attempt m h k)"
  unfolding attempt_def by (intro keeps_intro) auto

lemma reads_only_attempt:
  "reads_only m \<Longrightarrow> (\<And>e. reads_only (h e)) \<Longrightarrow> (\<And>a. reads_only (k a)) \<Longrightarrow> reads_only (attempt m h k)"
  unfolding attempt_def by (intro reads_only_intros)

section \<open>Looking at the key space\<close>

lemma rd_live_put [simp]:
  "rd_live now (rd_put k v t m) k' =
     (if k' = k then (if re_live now \<lparr>re_value = v, re_expires = t\<rparr> then Some \<lparr>re_value = v, re_expires = t\<rparr> else None)
      else rd_live now m k')"
  by (simp add: rd_live_def rd_put_def)

lemma rd_live_drop [simp]: "rd_live now (fmdrop k m) k' = (if k' = k then None else rd_live now m k')"
  by (simp add: rd_live_def)

lemma rd_value_put [simp]:
  "rd_value now (rd_put k v t m) k' =
     (if k' = k then (if re_live now \<lparr>re_value = v, re_expires = t\<rparr> then Some v else None) else rd_value now m k')"
  by (simp add: rd_value_def)

lemma rd_value_drop [simp]: "rd_value now (fmdrop k m) k' = (if k' = k then None else rd_value now m k')"
  by (simp add: rd_value_def)

lemma re_live_fresh [simp]: "re_live now \<lparr>re_value = v, re_expires = expiry now ttl\<rparr>"
  by (simp add: re_live_def expiry_def)

lemma re_live_simps [simp]:
  "re_live now \<lparr>re_value = v, re_expires = None\<rparr>"
  "re_live now \<lparr>re_value = v, re_expires = Some t\<rparr> \<longleftrightarrow> now < t"
  by (simp_all add: re_live_def)

lemma rd_live_keeps_expiry:
  "rd_live now m k = Some e \<Longrightarrow> re_live now \<lparr>re_value = v, re_expires = re_expires e\<rparr>"
  by (auto simp: rd_live_def re_live_def split: option.splits if_splits)

text \<open>As time passes a key disappears or stays as it is.\<close>

lemma rd_value_later: "t \<ge> now \<Longrightarrow> rd_value t m k = rd_value now m k \<or> rd_value t m k = None"
  by (auto simp: rd_value_def rd_live_def re_live_def split: option.splits)

lemma map_of_hset_fields:
  "map_of (hset_fields kvs h) = fold (\<lambda>(f, v) g. g(f \<mapsto> v)) kvs (map_of h)"
  unfolding hset_fields_def
  by (induction kvs arbitrary: h) (auto simp: update_conv')

lemma hset_fields_Cons [simp]: "hset_fields [] h = h" "hset_fields ((f, v) # kvs) h = hset_fields kvs (AList.update f v h)"
  by (simp_all add: hset_fields_def)

lemma update_not_Nil [simp]: "AList.update k v al \<noteq> []"
  by (cases al) auto

text \<open>Redis and PostgreSQL do not touch each other.\<close>

lemma reads_only_rd_call: "reads_only (rd_call c)"
  by (auto simp: reads_only_def run_rd_call split: fault.splits prod.splits)

lemma reads_only_new_uuid: "reads_only new_uuid"
  by (simp add: reads_only_def)

lemma reads_only_clock: "reads_only clock"
  by (simp add: reads_only_def)

lemma keeps_db_redis [keeps_intro]:
  "keeps_db J (rd_call c)" "keeps_db J new_uuid" "keeps_db J clock"
  by (rule reads_only_keeps, rule reads_only_rd_call reads_only_new_uuid reads_only_clock)+

end
