(* ===== verification/Stores.thy ===== *)
theory Stores
  imports Redis
begin

text \<open>
  The stores of \<open>internal/store\<close>: one-time codes with a bounded number of attempts (OTP, change of phone,
  dispatcher actions), one-time registration sessions, and refresh tokens with the access sessions they
  belong to. All of them live in Redis.
\<close>

text \<open>\<open>vals[f]\<close> on the result of \<open>HGetAll\<close>: the empty string where the field is missing.\<close>

definition field :: "string \<Rightarrow> (string \<times> string) list \<Rightarrow> string" where
  "field f vals = (case map_of vals f of None \<Rightarrow> [] | Some v \<Rightarrow> v)"

lemma field_Cons [simp]: "field f [] = []" "field f ((g, v) # h) = (if f = g then v else field f h)"
  by (auto simp: field_def)

lemma field_update [simp]: "field f (AList.update g v h) = (if f = g then v else field f h)"
  by (simp add: field_def update_conv')

section \<open>One-time passwords\<close>

definition ErrOTPCooldown :: err where "ErrOTPCooldown = Err ''otp cooldown''"
definition ErrOTPExpired :: err where "ErrOTPExpired = Err ''otp expired''"
definition ErrOTPInvalid :: err where "ErrOTPInvalid = Err ''otp invalid''"
definition ErrOTPMaxAttempts :: err where "ErrOTPMaxAttempts = Err ''otp max attempts exceeded''"
definition ErrOTPRateLimited :: err where "ErrOTPRateLimited = Err ''otp rate limited''"
definition ErrOTPVerifyRateLimited :: err where
  "ErrOTPVerifyRateLimited = Err ''otp verify attempts per phone exceeded''"

record OTPStore =
  os_secret :: string
  os_ttl :: duration
  os_cooldown :: duration
  os_maxAttempts :: int
  os_sendLimitPerPhone :: int
  os_sendLimitPerIP :: int
  os_sendWindow :: duration
  os_verifyAttemptsPerPhone :: int
  os_verifyAttemptsWindow :: duration
  os_prefix :: string

definition NewOTPStoreWithPrefix ::
    "string \<Rightarrow> duration \<Rightarrow> duration \<Rightarrow> int \<Rightarrow> int \<Rightarrow> int \<Rightarrow> duration \<Rightarrow> int \<Rightarrow> duration \<Rightarrow> string \<Rightarrow> OTPStore" where
  "NewOTPStoreWithPrefix secret ttl cooldown maxAttempts sendLimitPerPhone sendLimitPerIP sendWindow
       verifyAttemptsPerPhone verifyAttemptsWindow pre =
     \<lparr>os_secret = secret, os_ttl = ttl, os_cooldown = cooldown, os_maxAttempts = maxAttempts,
      os_sendLimitPerPhone = sendLimitPerPhone, os_sendLimitPerIP = sendLimitPerIP,
      os_sendWindow = (if sendWindow \<le> 0 then hour else sendWindow),
      os_verifyAttemptsPerPhone = verifyAttemptsPerPhone, os_verifyAttemptsWindow = verifyAttemptsWindow,
      os_prefix = pre\<rparr>"

definition NewOTPStore ::
    "string \<Rightarrow> duration \<Rightarrow> duration \<Rightarrow> int \<Rightarrow> int \<Rightarrow> int \<Rightarrow> duration \<Rightarrow> int \<Rightarrow> duration \<Rightarrow> OTPStore" where
  "NewOTPStore secret ttl cooldown maxAttempts sendLimitPerPhone sendLimitPerIP sendWindow
       verifyAttemptsPerPhone verifyAttemptsWindow =
     \<lparr>os_secret = secret, os_ttl = ttl, os_cooldown = cooldown, os_maxAttempts = maxAttempts,
      os_sendLimitPerPhone = sendLimitPerPhone, os_sendLimitPerIP = sendLimitPerIP,
      os_sendWindow = (if sendWindow \<le> 0 then hour else sendWindow),
      os_verifyAttemptsPerPhone = verifyAttemptsPerPhone, os_verifyAttemptsWindow = verifyAttemptsWindow,
      os_prefix = []\<rparr>"

definition otpKey :: "OTPStore \<Rightarrow> string \<Rightarrow> string" where
  "otpKey s phone = os_prefix s @ ''otp:'' @ phone"
definition cooldownKey :: "OTPStore \<Rightarrow> string \<Rightarrow> string" where
  "cooldownKey s phone = os_prefix s @ ''otp:cooldown:'' @ phone"
definition sendCountKey :: "OTPStore \<Rightarrow> string \<Rightarrow> string" where
  "sendCountKey s phone = os_prefix s @ ''otp:send_count:'' @ phone"
definition sendCountIPKey :: "OTPStore \<Rightarrow> string \<Rightarrow> string" where
  "sendCountIPKey s ip = os_prefix s @ ''otp:send_count_ip:'' @ ip"
definition verifyAttemptsKey :: "OTPStore \<Rightarrow> string \<Rightarrow> string" where
  "verifyAttemptsKey s phone = os_prefix s @ ''otp:verify_attempts:'' @ phone"

lemmas otp_keys = otpKey_def cooldownKey_def sendCountKey_def sendCountIPKey_def verifyAttemptsKey_def

definition OTPStore_hash :: "ext \<Rightarrow> OTPStore \<Rightarrow> string \<Rightarrow> string \<Rightarrow> string" where
  "OTPStore_hash E s phone code = sha256_hex E (phone @ '':'' @ code @ '':'' @ os_secret s)"

text \<open>\<open>n, err := Incr(...)\<close>, with the expiry set when the counter is new.\<close>

definition incrWithLimit :: "string \<Rightarrow> int \<Rightarrow> duration \<Rightarrow> ('z, err + unit) rprog" where
  "incrWithLimit key limit window = andE (rd_call (cIncr key)) (\<lambda>n. do {
     _ \<leftarrow> (if n = 1 then rd_call (cExpire key window) else ret (Inr True));
     ret (if n > limit then Inl ErrOTPRateLimited else Inr ())
   })"

definition OTPStore_SaveOTP ::
    "ext \<Rightarrow> OTPStore \<Rightarrow> string \<Rightarrow> string \<Rightarrow> string \<Rightarrow> string \<Rightarrow> ('z, err + unit) rprog" where
  "OTPStore_SaveOTP E s phone code requestID ip = do {
     cooling \<leftarrow> (if os_cooldown s > 0
        then do { r \<leftarrow> rd_call (cExists (cooldownKey s phone)); ret (case r of Inl _ \<Rightarrow> False | Inr n \<Rightarrow> n > 0) }
        else ret False);
     if cooling then ret (Inl ErrOTPCooldown) else
     andE (if os_sendLimitPerPhone s > 0
           then incrWithLimit (sendCountKey s phone) (os_sendLimitPerPhone s) (os_sendWindow s)
           else ret (Inr ())) (\<lambda>_.
     andE (if ip \<noteq> [] \<and> os_sendLimitPerIP s > 0
           then incrWithLimit (sendCountIPKey s ip) (os_sendLimitPerIP s) (os_sendWindow s)
           else ret (Inr ())) (\<lambda>_.
     rd_call (pipeline (
       [cHSet (otpKey s phone) [(''hash'', OTPStore_hash E s phone code), (''attempts'', ''0''), (''request_id'', requestID)],
        quiet (cExpire (otpKey s phone) (os_ttl s))]
       @ (if os_cooldown s > 0 then [cSet (cooldownKey s phone) ''1'' (os_cooldown s)] else [])))))
   }"

text \<open>The result is the \<open>RequestID\<close> of the record.\<close>

definition OTPStore_Verify :: "ext \<Rightarrow> OTPStore \<Rightarrow> string \<Rightarrow> string \<Rightarrow> ('z, err + string) rprog" where
  "OTPStore_Verify E s phone code = andE (rd_call (cHGetAll (otpKey s phone))) (\<lambda>vals.
     if vals = [] then ret (Inl ErrOTPExpired) else
     let attempts = Atoi_value (field ''attempts'' vals) in
     if attempts \<ge> os_maxAttempts s then ret (Inl ErrOTPMaxAttempts) else
     let want = field ''hash'' vals; got = OTPStore_hash E s phone code in
     if want = [] \<or> got \<noteq> want then
       andE (if os_verifyAttemptsPerPhone s > 0 \<and> os_verifyAttemptsWindow s > 0
             then andE (rd_call (cIncr (verifyAttemptsKey s phone))) (\<lambda>n. do {
                    _ \<leftarrow> (if n = 1 then rd_call (cExpire (verifyAttemptsKey s phone) (os_verifyAttemptsWindow s))
                          else ret (Inr True));
                    ret (if n > os_verifyAttemptsPerPhone s then Inl ErrOTPVerifyRateLimited else Inr ())
                  })
             else ret (Inr ())) (\<lambda>_. do {
         let attempts = wrap64 (attempts + 1);
         _ \<leftarrow> rd_call (cHSet (otpKey s phone) [(''attempts'', Itoa attempts)]);
         ret (Inl (if attempts \<ge> os_maxAttempts s then ErrOTPMaxAttempts else ErrOTPInvalid))
       })
     else do {
       _ \<leftarrow> rd_call (cDel (otpKey s phone));
       ret (Inr (field ''request_id'' vals))
     })"

section \<open>Change of phone\<close>

definition ErrPhoneChangeSessionNotFound :: err where
  "ErrPhoneChangeSessionNotFound = Err ''phone change session not found''"
definition ErrPhoneChangeOTPExpired :: err where "ErrPhoneChangeOTPExpired = Err ''phone change otp expired''"
definition ErrPhoneChangeOTPInvalid :: err where "ErrPhoneChangeOTPInvalid = Err ''phone change otp invalid''"
definition ErrPhoneChangeMaxAttempts :: err where
  "ErrPhoneChangeMaxAttempts = Err ''phone change max attempts exceeded''"

record PhoneChangeStore =
  ph_secret :: string
  ph_ttl :: duration
  ph_maxAttempts :: int

definition phoneChangeKey :: "string \<Rightarrow> string" where
  "phoneChangeKey sessionID = ''phonechange:'' @ sessionID"

definition PhoneChangeStore_hash :: "ext \<Rightarrow> PhoneChangeStore \<Rightarrow> string \<Rightarrow> string \<Rightarrow> string" where
  "PhoneChangeStore_hash E s sessionID otp = sha256_hex E (sessionID @ '':'' @ otp @ '':'' @ ph_secret s)"

definition PhoneChangeStore_Create ::
    "ext \<Rightarrow> PhoneChangeStore \<Rightarrow> uuid \<Rightarrow> string \<Rightarrow> string \<Rightarrow> ('z, err + string) rprog" where
  "PhoneChangeStore_Create E s driverID newPhone otp = do {
     u \<leftarrow> new_uuid;
     let sessionID = uuid_string E u;
     let key = phoneChangeKey sessionID;
     andE (rd_call (pipeline
       [cHSet key [(''driver_id'', uuid_string E driverID), (''new_phone'', newPhone),
                   (''hash'', PhoneChangeStore_hash E s sessionID otp), (''attempts'', ''0'')],
        quiet (cExpire key (ph_ttl s))])) (\<lambda>_. ret (Inr sessionID))
   }"

record PhoneChangeRecord =
  pcr_DriverID :: uuid
  pcr_NewPhone :: string

definition PhoneChangeStore_Verify ::
    "ext \<Rightarrow> PhoneChangeStore \<Rightarrow> string \<Rightarrow> string \<Rightarrow> ('z, err + PhoneChangeRecord) rprog" where
  "PhoneChangeStore_Verify E s sessionID otp = andE (rd_call (cHGetAll (phoneChangeKey sessionID))) (\<lambda>vals.
     if vals = [] then ret (Inl ErrPhoneChangeOTPExpired) else
     let attempts = Atoi_value (field ''attempts'' vals) in
     if attempts \<ge> ph_maxAttempts s then ret (Inl ErrPhoneChangeMaxAttempts) else
     let want = field ''hash'' vals; got = PhoneChangeStore_hash E s sessionID otp in
     if want = [] \<or> got \<noteq> want then do {
       let attempts = wrap64 (attempts + 1);
       _ \<leftarrow> rd_call (cHSet (phoneChangeKey sessionID) [(''attempts'', Itoa attempts)]);
       ret (Inl (if attempts \<ge> ph_maxAttempts s then ErrPhoneChangeMaxAttempts else ErrPhoneChangeOTPInvalid))
     } else
     (case uuid_parse E (field ''driver_id'' vals) of
        None \<Rightarrow> ret (Inl ErrPhoneChangeSessionNotFound)
      | Some driverID \<Rightarrow>
          let newPhone = field ''new_phone'' vals in
          if newPhone = [] then ret (Inl ErrPhoneChangeSessionNotFound) else do {
            _ \<leftarrow> rd_call (cDel (phoneChangeKey sessionID));
            ret (Inr \<lparr>pcr_DriverID = driverID, pcr_NewPhone = newPhone\<rparr>)
          }))"

section \<open>Dispatcher actions\<close>

definition ErrDispActionExpired :: err where "ErrDispActionExpired = Err ''dispatcher action expired''"
definition ErrDispActionInvalidOTP :: err where "ErrDispActionInvalidOTP = Err ''dispatcher action invalid otp''"
definition ErrDispActionMaxAttempts :: err where
  "ErrDispActionMaxAttempts = Err ''dispatcher action max attempts exceeded''"
definition ErrDispActionNotFound :: err where "ErrDispActionNotFound = Err ''dispatcher action not found''"

record DispatcherOTPActionStore =
  da_secret :: string
  da_prefix :: string
  da_ttl :: duration
  da_maxAttempts :: int

definition dispActionKey :: "DispatcherOTPActionStore \<Rightarrow> string \<Rightarrow> string" where
  "dispActionKey s sessionID = da_prefix s @ '':'' @ sessionID"

definition DispatcherOTPActionStore_hash :: "ext \<Rightarrow> DispatcherOTPActionStore \<Rightarrow> string \<Rightarrow> string \<Rightarrow> string" where
  "DispatcherOTPActionStore_hash E s sessionID otp = sha256_hex E (sessionID @ '':'' @ otp @ '':'' @ da_secret s)"

record DispActionPayload =
  dap_DispatcherID :: uuid
  dap_Phone :: string
  dap_NewPhone :: string

definition DispatcherOTPActionStore_Create ::
    "ext \<Rightarrow> DispatcherOTPActionStore \<Rightarrow> uuid \<Rightarrow> string \<Rightarrow> string \<Rightarrow> string \<Rightarrow> ('z, err + string) rprog" where
  "DispatcherOTPActionStore_Create E s dispatcherID phone newPhone otp = do {
     u \<leftarrow> new_uuid;
     let sessionID = uuid_string E u;
     let key = dispActionKey s sessionID;
     andE (rd_call (pipeline
       [cHSet key [(''dispatcher_id'', uuid_string E dispatcherID), (''phone'', phone), (''new_phone'', newPhone),
                   (''hash'', DispatcherOTPActionStore_hash E s sessionID otp), (''attempts'', ''0'')],
        quiet (cExpire key (da_ttl s))])) (\<lambda>_. ret (Inr sessionID))
   }"

definition DispatcherOTPActionStore_Verify ::
    "ext \<Rightarrow> DispatcherOTPActionStore \<Rightarrow> string \<Rightarrow> string \<Rightarrow> ('z, err + DispActionPayload) rprog" where
  "DispatcherOTPActionStore_Verify E s sessionID otp = andE (rd_call (cHGetAll (dispActionKey s sessionID))) (\<lambda>vals.
     if vals = [] then ret (Inl ErrDispActionExpired) else
     let attempts = Atoi_value (field ''attempts'' vals) in
     if attempts \<ge> da_maxAttempts s then ret (Inl ErrDispActionMaxAttempts) else
     let want = field ''hash'' vals; got = DispatcherOTPActionStore_hash E s sessionID otp in
     if want = [] \<or> got \<noteq> want then do {
       let attempts = wrap64 (attempts + 1);
       _ \<leftarrow> rd_call (cHSet (dispActionKey s sessionID) [(''attempts'', Itoa attempts)]);
       ret (Inl (if attempts \<ge> da_maxAttempts s then ErrDispActionMaxAttempts else ErrDispActionInvalidOTP))
     } else
     (case uuid_parse E (field ''dispatcher_id'' vals) of
        None \<Rightarrow> ret (Inl ErrDispActionNotFound)
      | Some did \<Rightarrow> do {
          let phone = field ''phone'' vals;
          let newPhone = field ''new_phone'' vals;
          _ \<leftarrow> rd_call (cDel (dispActionKey s sessionID));
          ret (Inr \<lparr>dap_DispatcherID = did, dap_Phone = phone, dap_NewPhone = newPhone\<rparr>)
        }))"

section \<open>Registration sessions\<close>

definition ErrSessionNotFound :: err where "ErrSessionNotFound = Err ''session not found''"
definition ErrDispatcherSessionNotFound :: err where
  "ErrDispatcherSessionNotFound = Err ''dispatcher session not found''"

text \<open>\<open>SessionStore\<close>: drivers; its only field beside the client is the time to live.\<close>

definition regSessionKey :: "string \<Rightarrow> string" where "regSessionKey sessionID = ''regsession:'' @ sessionID"

definition SessionStore_Create :: "ext \<Rightarrow> duration \<Rightarrow> string \<Rightarrow> ('z, err + string) rprog" where
  "SessionStore_Create E ttl phone = do {
     u \<leftarrow> new_uuid;
     let sid = uuid_string E u;
     andE (rd_call (cSet (regSessionKey sid) phone ttl)) (\<lambda>_. ret (Inr sid))
   }"

definition SessionStore_Consume :: "string \<Rightarrow> ('z, err + string) rprog" where
  "SessionStore_Consume sessionID = do {
     r \<leftarrow> rd_call (cGet (regSessionKey sessionID));
     (case r of
        Inl e \<Rightarrow> ret (Inl (if e = RedisNil then ErrSessionNotFound else e))
      | Inr phone \<Rightarrow> do { _ \<leftarrow> rd_call (cDel (regSessionKey sessionID)); ret (Inr phone) })
   }"

record DispatcherSessionStore =
  ds_prefix :: string
  ds_ttl :: duration

definition dispSessionKey :: "DispatcherSessionStore \<Rightarrow> string \<Rightarrow> string" where
  "dispSessionKey s i = ds_prefix s @ '':'' @ i"

definition DispatcherSessionStore_Create ::
    "ext \<Rightarrow> DispatcherSessionStore \<Rightarrow> string \<Rightarrow> ('z, err + string) rprog" where
  "DispatcherSessionStore_Create E s payload = do {
     u \<leftarrow> new_uuid;
     let sid = uuid_string E u;
     andE (rd_call (cSet (dispSessionKey s sid) payload (ds_ttl s))) (\<lambda>_. ret (Inr sid))
   }"

definition DispatcherSessionStore_Consume ::
    "DispatcherSessionStore \<Rightarrow> string \<Rightarrow> ('z, err + string) rprog" where
  "DispatcherSessionStore_Consume s sessionID = do {
     r \<leftarrow> rd_call (cGet (dispSessionKey s sessionID));
     (case r of
        Inl e \<Rightarrow> ret (Inl (if e = RedisNil then ErrDispatcherSessionNotFound else e))
      | Inr val \<Rightarrow> do { _ \<leftarrow> rd_call (cDel (dispSessionKey s sessionID)); ret (Inr val) })
   }"

section \<open>Refresh tokens and access sessions\<close>

definition ErrRefreshInvalid :: err where "ErrRefreshInvalid = Err ''refresh invalid''"

record RefreshStore =
  rs_ttl :: duration
  rs_accessTTL :: duration

definition refreshKey :: "string \<Rightarrow> string \<Rightarrow> string" where
  "refreshKey driverID jti = ''refresh:'' @ driverID @ '':'' @ jti"
definition sessionKey :: "string \<Rightarrow> string" where "sessionKey sid = ''session:'' @ sid"
definition userSessionsKey :: "string \<Rightarrow> string" where "userSessionsKey userID = ''user_sessions:'' @ userID"

definition RefreshStore_Put :: "RefreshStore \<Rightarrow> string \<Rightarrow> string \<Rightarrow> ('z, err + unit) rprog" where
  "RefreshStore_Put s driverID jti = rd_call (cSet (refreshKey driverID jti) ''1'' (rs_ttl s))"

definition RefreshStore_Consume :: "string \<Rightarrow> string \<Rightarrow> ('z, err + unit) rprog" where
  "RefreshStore_Consume driverID jti = andE (rd_call (cDel (refreshKey driverID jti))) (\<lambda>n.
     ret (if n = 0 then Inl ErrRefreshInvalid else Inr ()))"

fun delete_sessions :: "string list \<Rightarrow> ('z, unit) rprog" where
  "delete_sessions [] = ret ()"
| "delete_sessions (sid # sids) = do { _ \<leftarrow> rd_call (cDel (sessionKey sid)); delete_sessions sids }"

definition RefreshStore_RevokeAll :: "string \<Rightarrow> ('z, err + unit) rprog" where
  "RefreshStore_RevokeAll userID =
     andE (rd_call (cKeys (''refresh:'' @ userID @ '':''))) (\<lambda>keys.
     if keys = {||} then ret (Inr ()) else
     andE (rd_call (cDelKeys keys)) (\<lambda>_. do {
       r \<leftarrow> rd_call (cSMembers (userSessionsKey userID));
       (case r of
          Inl _ \<Rightarrow> ret (Inr ())
        | Inr sids \<Rightarrow> do {
            delete_sessions sids;
            _ \<leftarrow> rd_call (cDel (userSessionsKey userID));
            ret (Inr ())
          })
     }))"

definition RefreshStore_PutSession :: "RefreshStore \<Rightarrow> string \<Rightarrow> string \<Rightarrow> ('z, err + unit) rprog" where
  "RefreshStore_PutSession s userID sid =
     andE (rd_call (cSet (sessionKey sid) userID (rs_accessTTL s))) (\<lambda>_.
     andE (rd_call (cSAdd (userSessionsKey userID) sid)) (\<lambda>_.
     rd_call (quiet (cExpire (userSessionsKey userID) (rs_ttl s)))))"

definition RefreshStore_InvalidateSession :: "string \<Rightarrow> ('z, err + unit) rprog" where
  "RefreshStore_InvalidateSession sid = rd_call (quiet (cDel (sessionKey sid)))"

definition RefreshStore_SessionValid :: "string \<Rightarrow> ('z, bool) rprog" where
  "RefreshStore_SessionValid sid =
     (if sid = [] then ret False
      else do { r \<leftarrow> rd_call (cExists (sessionKey sid)); ret (case r of Inl _ \<Rightarrow> False | Inr n \<Rightarrow> n > 0) })"

section \<open>The database is left alone\<close>

lemmas store_defs = incrWithLimit_def OTPStore_SaveOTP_def OTPStore_Verify_def PhoneChangeStore_Create_def
  PhoneChangeStore_Verify_def DispatcherOTPActionStore_Create_def DispatcherOTPActionStore_Verify_def
  SessionStore_Create_def SessionStore_Consume_def DispatcherSessionStore_Create_def
  DispatcherSessionStore_Consume_def RefreshStore_Put_def RefreshStore_Consume_def RefreshStore_RevokeAll_def
  RefreshStore_PutSession_def RefreshStore_InvalidateSession_def RefreshStore_SessionValid_def

lemma reads_only_delete_sessions: "reads_only (delete_sessions sids)"
  by (induction sids) (auto intro: reads_only_intros reads_only_rd_call)

lemmas reads_only_redis = reads_only_intros reads_only_rd_call reads_only_new_uuid reads_only_clock
  reads_only_andE reads_only_delete_sessions

lemma reads_only_stores:
  "reads_only (incrWithLimit k l d)" "reads_only (OTPStore_SaveOTP E s phone code rid ip)"
  "reads_only (OTPStore_Verify E s phone code)" "reads_only (PhoneChangeStore_Create E pc u p c)"
  "reads_only (PhoneChangeStore_Verify E pc i c)" "reads_only (DispatcherOTPActionStore_Create E a u p np c)"
  "reads_only (DispatcherOTPActionStore_Verify E a i c)" "reads_only (SessionStore_Create E d p)"
  "reads_only (SessionStore_Consume i)" "reads_only (DispatcherSessionStore_Create E t p)"
  "reads_only (DispatcherSessionStore_Consume t i)" "reads_only (RefreshStore_Put r i j)"
  "reads_only (RefreshStore_Consume i j)" "reads_only (RefreshStore_RevokeAll i)"
  "reads_only (RefreshStore_PutSession r i j)" "reads_only (RefreshStore_InvalidateSession i)"
  "reads_only (RefreshStore_SessionValid i)"
  unfolding store_defs by (intro reads_only_redis)+

end
