(* ===== verification/Middleware.thy ===== *)
theory Middleware
  imports Stores Drivers_Repo Security
begin

text \<open>
  The middleware of \<open>internal/server/mw\<close>: the headers every request carries, and the guards that turn a token
  into the identity a handler works for. A guard answers (and the request ends) or hands on what
  it puts into the context.
\<close>

section \<open>Base headers\<close>

text \<open>\<open>ClientTokenExpected\<close> is the empty string when the configuration sets none.\<close>

definition RequireBaseHeaders :: "ext \<Rightarrow> string \<Rightarrow> string \<Rightarrow> string \<Rightarrow> string \<Rightarrow> response option" where
  "RequireBaseHeaders E clientTokenExpected hDevice hLang hClientToken =
     (let device = ToLower E (TrimSpace hDevice);
          lang = ToLower E (TrimSpace hLang);
          clientToken = TrimSpace hClientToken
      in if device = [] \<or> lang = [] \<or> clientToken = [] then Some (ErrorLang 400 ''missing_required_headers'')
         else if device \<notin> {''ios'', ''android'', ''web''} then Some (ErrorLang 400 ''invalid_x_device_type'')
         else if lang \<notin> {''ru'', ''uz'', ''en'', ''tr'', ''zh''} then Some (ErrorLang 400 ''invalid_x_language'')
         else if clientTokenExpected \<noteq> [] \<and> clientToken \<noteq> clientTokenExpected
           then Some (ErrorLang 401 ''invalid_x_client_token'')
         else None)"

section \<open>Guards\<close>

text \<open>The refresh store is a pointer: \<open>withStore\<close> says that it is not nil.\<close>

definition session_checked :: "bool \<Rightarrow> string \<Rightarrow> ('z, bool) rprog" where
  "session_checked withStore sid =
     (if sid \<noteq> [] \<and> withStore then RefreshStore_SessionValid sid else ret True)"

definition RequireDriver :: "ext \<Rightarrow> JWTManager \<Rightarrow> bool \<Rightarrow> string \<Rightarrow> ('z, response + uuid) rprog" where
  "RequireDriver E m withStore hUserToken =
     (let raw = TrimSpace hUserToken
      in if raw = [] then ret (Inl (ErrorLang 401 ''missing_user_token''))
         else do {
           now \<leftarrow> clock;
           (case ParseAccessWithSID E m now raw of
              Inl _ \<Rightarrow> ret (Inl (ErrorLang 401 ''invalid_user_token''))
            | Inr (uid, role, _, sid) \<Rightarrow>
                if uid = uuid_nil \<or> role \<noteq> ''driver'' then ret (Inl (ErrorLang 401 ''invalid_user_token''))
                else do {
                  valid \<leftarrow> session_checked withStore sid;
                  ret (if valid then Inr uid else Inl (ErrorLang 401 ''invalid_user_token''))
                })
         })"

definition RequireDispatcher ::
    "ext \<Rightarrow> JWTManager \<Rightarrow> bool \<Rightarrow> string \<Rightarrow> ('z, response + uuid \<times> uuid option) rprog" where
  "RequireDispatcher E m withStore hUserToken =
     (let raw = TrimSpace hUserToken
      in if raw = [] then ret (Inl (ErrorLang 401 ''missing_user_token''))
         else do {
           now \<leftarrow> clock;
           (case ParseAccessWithSID E m now raw of
              Inl _ \<Rightarrow> ret (Inl (ErrorLang 401 ''invalid_user_token''))
            | Inr (uid, role, companyID, sid) \<Rightarrow>
                if uid = uuid_nil \<or> role \<noteq> ''dispatcher'' then ret (Inl (ErrorLang 401 ''invalid_user_token''))
                else do {
                  valid \<leftarrow> session_checked withStore sid;
                  ret (if valid then Inr (uid, if companyID \<noteq> uuid_nil then Some companyID else None)
                       else Inl (ErrorLang 401 ''invalid_user_token''))
                })
         })"

definition RequireAdmin :: "ext \<Rightarrow> JWTManager \<Rightarrow> bool \<Rightarrow> string \<Rightarrow> ('z, response + uuid) rprog" where
  "RequireAdmin E m withStore hUserToken =
     (let raw = TrimSpace hUserToken
      in if raw = [] then ret (Inl (ErrorLang 401 ''missing_user_token''))
         else do {
           now \<leftarrow> clock;
           (case ParseAccessWithSID E m now raw of
              Inl _ \<Rightarrow> ret (Inl (ErrorLang 401 ''invalid_user_token''))
            | Inr (uid, role, _, sid) \<Rightarrow>
                if uid = uuid_nil \<or> role \<noteq> ''admin'' then ret (Inl (ErrorLang 401 ''invalid_user_token''))
                else do {
                  valid \<leftarrow> session_checked withStore sid;
                  ret (if valid then Inr uid else Inl (ErrorLang 401 ''invalid_user_token''))
                })
         })"

definition RequireAppUser ::
    "ext \<Rightarrow> JWTManager \<Rightarrow> bool \<Rightarrow> string \<Rightarrow> ('z, response + uuid \<times> string \<times> uuid option) rprog" where
  "RequireAppUser E m withStore hUserToken =
     (let raw = TrimSpace hUserToken
      in if raw = [] then ret (Inl (ErrorLang 401 ''missing_user_token''))
         else do {
           now \<leftarrow> clock;
           (case ParseAccessWithSID E m now raw of
              Inl _ \<Rightarrow> ret (Inl (ErrorLang 401 ''invalid_user_token''))
            | Inr (uid, role, companyID, sid) \<Rightarrow>
                if uid = uuid_nil \<or> role \<noteq> ''user'' then ret (Inl (ErrorLang 401 ''invalid_user_token''))
                else do {
                  valid \<leftarrow> session_checked withStore sid;
                  ret (if valid then Inr (uid, role, if companyID \<noteq> uuid_nil then Some companyID else None)
                       else Inl (ErrorLang 401 ''invalid_user_token''))
                })
         })"

text \<open>
  The chat takes an identity from the query or a header without any proof, and a token of any
  role: the user and the role it goes by.
\<close>

definition tryUserID :: "ext \<Rightarrow> string \<Rightarrow> uuid option" where
  "tryUserID E raw =
     (let raw = TrimSpace raw
      in if raw = [] then None
         else (case uuid_parse E raw of None \<Rightarrow> None | Some u \<Rightarrow> if u \<noteq> uuid_nil then Some u else None))"

definition tryToken :: "ext \<Rightarrow> JWTManager \<Rightarrow> bool \<Rightarrow> string \<Rightarrow> ('z, (uuid \<times> string) option) rprog" where
  "tryToken E m withStore raw =
     (let raw = TrimSpace raw
      in if raw = [] then ret None
         else do {
           now \<leftarrow> clock;
           (case ParseAccessWithSID E m now raw of
              Inl _ \<Rightarrow> ret None
            | Inr (uid, role, _, sid) \<Rightarrow>
                if uid = uuid_nil then ret None
                else do {
                  valid \<leftarrow> session_checked withStore sid;
                  ret (if valid then Some (uid, role) else None)
                })
         })"

definition RequireChatUser ::
    "ext \<Rightarrow> JWTManager \<Rightarrow> bool \<Rightarrow> string \<Rightarrow> string \<Rightarrow> string \<Rightarrow> string \<Rightarrow> ('z, response + uuid \<times> string) rprog" where
  "RequireChatUser E m withStore qUserID qToken hUserID hUserToken =
     (case tryUserID E qUserID of
        Some u \<Rightarrow> ret (Inr (u, ''user''))
      | None \<Rightarrow> do {
          t \<leftarrow> tryToken E m withStore qToken;
          (case t of
             Some x \<Rightarrow> ret (Inr x)
           | None \<Rightarrow>
               (case tryUserID E hUserID of
                  Some u \<Rightarrow> ret (Inr (u, ''user''))
                | None \<Rightarrow>
                    let raw = TrimSpace hUserToken in
                    if raw = [] then ret (Inl (ErrorLang 401 ''missing_user_token_or_id''))
                    else do {
                      now \<leftarrow> clock;
                      (case ParseAccessWithSID E m now raw of
                         Inl _ \<Rightarrow> ret (Inl (ErrorLang 401 ''invalid_user_token''))
                       | Inr (uid, role, _, sid) \<Rightarrow>
                           if uid = uuid_nil then ret (Inl (ErrorLang 401 ''invalid_user_token''))
                           else do {
                             valid \<leftarrow> session_checked withStore sid;
                             ret (if valid then Inr (uid, role) else Inl (ErrorLang 401 ''invalid_user_token''))
                           })
                    }))
        })"

section \<open>Last seen\<close>

text \<open>After the handler, whatever it answered.\<close>

definition UpdateDriverLastOnline :: "uuid \<Rightarrow> ('z, 'a) prog \<Rightarrow> ('z, 'a) prog" where
  "UpdateDriverLastOnline driverID handler = do {
     a \<leftarrow> handler;
     if driverID = uuid_nil then ret a
     else do { now \<leftarrow> clock; _ \<leftarrow> drivers_UpdateOnlineAt driverID now; ret a }
   }"

section \<open>One guard\<close>

text \<open>The four guards that ask for a role are one function of the role.\<close>

definition guard_role ::
    "ext \<Rightarrow> JWTManager \<Rightarrow> bool \<Rightarrow> string \<Rightarrow> string \<Rightarrow> ('z, response + uuid \<times> uuid) rprog" where
  "guard_role E m withStore need hUserToken =
     (let raw = TrimSpace hUserToken
      in if raw = [] then ret (Inl (ErrorLang 401 ''missing_user_token''))
         else do {
           now \<leftarrow> clock;
           (case ParseAccessWithSID E m now raw of
              Inl _ \<Rightarrow> ret (Inl (ErrorLang 401 ''invalid_user_token''))
            | Inr (uid, role, companyID, sid) \<Rightarrow>
                if uid = uuid_nil \<or> role \<noteq> need then ret (Inl (ErrorLang 401 ''invalid_user_token''))
                else do {
                  valid \<leftarrow> session_checked withStore sid;
                  ret (if valid then Inr (uid, companyID) else Inl (ErrorLang 401 ''invalid_user_token''))
                })
         })"

definition company_of :: "uuid \<Rightarrow> uuid option" where
  "company_of c = (if c \<noteq> uuid_nil then Some c else None)"

lemma run_cong: "(\<And>w. run m w = run n w) \<Longrightarrow> m = n"
  by (cases m; cases n) auto

lemma guards_one:
  "RequireDriver E m st tok = State_Monad.bind (guard_role E m st ''driver'' tok) (\<lambda>r. ret (map_sum id fst r))"
  "RequireAdmin E m st tok = State_Monad.bind (guard_role E m st ''admin'' tok) (\<lambda>r. ret (map_sum id fst r))"
  "RequireDispatcher E m st tok = State_Monad.bind (guard_role E m st ''dispatcher'' tok)
     (\<lambda>r. ret (map_sum id (\<lambda>(u, c). (u, company_of c)) r))"
  "RequireAppUser E m st tok = State_Monad.bind (guard_role E m st ''user'' tok)
     (\<lambda>r. ret (map_sum id (\<lambda>(u, c). (u, ''user'', company_of c)) r))"
  by (rule run_cong, simp add: RequireDriver_def RequireAdmin_def RequireDispatcher_def RequireAppUser_def
      guard_role_def company_of_def Let_def split: sum.splits prod.splits)+

lemma reads_only_session_checked: "reads_only (session_checked st sid)"
  unfolding session_checked_def by (intro reads_only_intros reads_only_stores)

lemma reads_only_guard_role: "reads_only (guard_role E m st role tok)"
  unfolding guard_role_def
  by (intro reads_only_intros reads_only_clock reads_only_session_checked)

lemma reads_only_guards:
  "reads_only (RequireDriver E m st tok)" "reads_only (RequireAdmin E m st tok)"
  "reads_only (RequireDispatcher E m st tok)" "reads_only (RequireAppUser E m st tok)"
  unfolding guards_one by (intro reads_only_intros reads_only_guard_role)+

lemma reads_only_tryToken: "reads_only (tryToken E m st raw)"
  unfolding tryToken_def
  by (intro reads_only_intros reads_only_clock reads_only_session_checked)

lemma reads_only_RequireChatUser: "reads_only (RequireChatUser E m st a b c d)"
  unfolding RequireChatUser_def
  by (intro reads_only_intros reads_only_clock reads_only_session_checked reads_only_tryToken)

end
