(* ===== verification/Text.thy ===== *)
theory Text
  imports Redis
begin

text \<open>
  Text as the handlers look at it: the runes of a byte string (Go's \<open>range\<close> over a string decodes UTF-8), the
  character classes of package \<open>unicode\<close>, and the checks of \<open>internal/util\<close> on phones, one-time codes
  and passwords.
\<close>

section \<open>Runes\<close>

type_synonym rune = nat

abbreviation byte :: "char \<Rightarrow> nat" where "byte c \<equiv> of_char c"

text \<open>A byte that starts no valid encoding is the rune U+FFFD on its own.\<close>

fun runes :: "string \<Rightarrow> rune list" where
  "runes [] = []"
| "runes (a # s) =
     (if byte a < 128 then byte a # runes s
      else (case s of
        [] \<Rightarrow> [65533]
      | b # s1 \<Rightarrow>
          if 194 \<le> byte a \<and> byte a < 224 \<and> continuation_byte b then ((byte a - 192) * 64 + (byte b - 128)) # runes s1
          else (case s1 of
            [] \<Rightarrow> 65533 # runes s
          | c # s2 \<Rightarrow>
              if 224 \<le> byte a \<and> byte a < 240 \<and> continuation_byte b \<and> continuation_byte c
                 \<and> (byte a = 224 \<longrightarrow> 160 \<le> byte b) \<and> (byte a = 237 \<longrightarrow> byte b < 160)
              then ((byte a - 224) * 4096 + (byte b - 128) * 64 + (byte c - 128)) # runes s2
              else (case s2 of
                [] \<Rightarrow> 65533 # runes s
              | d # s3 \<Rightarrow>
                  if 240 \<le> byte a \<and> byte a < 245 \<and> continuation_byte b \<and> continuation_byte c \<and> continuation_byte d
                     \<and> (byte a = 240 \<longrightarrow> 144 \<le> byte b) \<and> (byte a = 244 \<longrightarrow> byte b < 144)
                  then ((byte a - 240) * 262144 + (byte b - 128) * 4096 + (byte c - 128) * 64 + (byte d - 128)) # runes s3
                  else 65533 # runes s))))"

text \<open>\<open>string([]rune)\<close>.\<close>

definition encode_rune :: "rune \<Rightarrow> string" where
  "encode_rune r =
     (if r < 128 then [char_of r]
      else if r < 2048 then [char_of (192 + r div 64), char_of (128 + r mod 64)]
      else if r < 65536 \<and> \<not> (55296 \<le> r \<and> r < 57344)
        then [char_of (224 + r div 4096), char_of (128 + r div 64 mod 64), char_of (128 + r mod 64)]
      else if 65536 \<le> r \<and> r < 1114112
        then [char_of (240 + r div 262144), char_of (128 + r div 4096 mod 64), char_of (128 + r div 64 mod 64),
              char_of (128 + r mod 64)]
      else [CHR 0xEF, CHR 0xBF, CHR 0xBD])"

definition encode_runes :: "rune list \<Rightarrow> string" where
  "encode_runes rs = concat (map encode_rune rs)"

definition IsDigit :: "ext \<Rightarrow> rune \<Rightarrow> bool" where
  "IsDigit E r = (if r \<le> 255 then 48 \<le> r \<and> r \<le> 57 else unicode_digit E r)"

definition IsLetter :: "ext \<Rightarrow> rune \<Rightarrow> bool" where
  "IsLetter E r = (if r \<le> 255
     then 65 \<le> r \<and> r \<le> 90 \<or> 97 \<le> r \<and> r \<le> 122 \<or> r = 170 \<or> r = 181 \<or> r = 186
        \<or> 192 \<le> r \<and> r \<noteq> 215 \<and> r \<noteq> 247
     else unicode_letter E r)"

lemma runes_ascii: "is_ascii s \<Longrightarrow> runes s = map byte s"
  by (induction s rule: runes.induct) (auto simp: is_ascii_def)

lemma encode_ascii: "\<forall>r \<in> set rs. r < 128 \<Longrightarrow> encode_runes rs = map char_of rs"
  by (induction rs) (auto simp: encode_runes_def encode_rune_def)

lemma is_ascii_append [simp]: "is_ascii (s @ t) \<longleftrightarrow> is_ascii s \<and> is_ascii t"
  by (auto simp: is_ascii_def)

section \<open>Phones\<close>

text \<open>Four characters are skipped as separators beside the plus sign.\<close>

fun phone_digits :: "ext \<Rightarrow> rune list \<Rightarrow> rune list option" where
  "phone_digits E [] = Some []"
| "phone_digits E (r # rs) =
     (if r = 43 then phone_digits E rs
      else if IsDigit E r then map_option (Cons r) (phone_digits E rs)
      else if r \<in> {32, 45, 40, 41} then phone_digits E rs
      else None)"

definition NormalizeE164 :: "ext \<Rightarrow> string \<Rightarrow> err + string" where
  "NormalizeE164 E raw =
     (let s = TrimSpace raw
      in if s = [] then Inl (Err ''phone is required'')
         else (case phone_digits E (runes s) of
             None \<Rightarrow> Inl (Err ''phone contains invalid characters'')
           | Some digits \<Rightarrow>
               if length digits < 8 \<or> length digits > 15 then Inl (Err ''phone must be in E.164 format'')
               else Inr (CHR ''+'' # encode_runes digits)))"

definition NormalizeE164StrictPlus :: "ext \<Rightarrow> string \<Rightarrow> err + string" where
  "NormalizeE164StrictPlus E raw =
     (let s = TrimSpace raw
      in if s = [] then Inl (Err ''phone is required'')
         else if take 1 s \<noteq> ''+'' then Inl (Err ''phone must start with +'')
         else (case phone_parse E s of
             None \<Rightarrow> Inl (Err ''phone must be in E.164 format'')
           | Some num \<Rightarrow> if \<not> phone_valid E num then Inl (Err ''phone must be in E.164 format'')
                        else Inr (phone_format E num)))"

text \<open>The regular expression \<open>^\+998\d{9}$\<close>.\<close>

definition ascii_digit :: "char \<Rightarrow> bool" where "ascii_digit c \<longleftrightarrow> 48 \<le> byte c \<and> byte c \<le> 57"

definition uzPhoneRe :: "string \<Rightarrow> bool" where
  "uzPhoneRe s \<longleftrightarrow> take 4 s = ''+998'' \<and> length s = 13 \<and> list_all ascii_digit (drop 4 s)"

definition ValidateUzPhoneStrict :: "string \<Rightarrow> err + string" where
  "ValidateUzPhoneStrict raw =
     (let s = TrimSpace raw
      in if \<not> uzPhoneRe s then Inl (Err ''phone must match +998XXXXXXXXX'') else Inr s)"

section \<open>One-time codes and passwords\<close>

definition IsNumeric :: "ext \<Rightarrow> string \<Rightarrow> bool" where
  "IsNumeric E s \<longleftrightarrow> s \<noteq> [] \<and> list_all (IsDigit E) (runes s)"

definition ValidatePassword :: "ext \<Rightarrow> string \<Rightarrow> err + unit" where
  "ValidatePassword E pw =
     (if length pw < 6 then Inl (Err ''password must be at least 6 characters'')
      else if \<not> list_ex (IsLetter E) (runes pw) then Inl (Err ''password must contain at least 1 letter'')
      else Inr ())"

definition HashPassword :: "ext \<Rightarrow> string \<Rightarrow> ('z, err + string) prog" where
  "HashPassword E pw = do {
     salt \<leftarrow> new_uuid;
     ret (case bcrypt_hash E salt pw of None \<Rightarrow> Inl (Err ''bcrypt'') | Some h \<Rightarrow> Inr h)
   }"

definition ComparePassword :: "ext \<Rightarrow> string \<Rightarrow> string \<Rightarrow> bool" where
  "ComparePassword E hash pw = bcrypt_check E hash pw"

text \<open>Documented behaviour of bcrypt: a hash checks against the password it was made from.\<close>

definition bcrypt_laws :: "ext \<Rightarrow> bool" where
  "bcrypt_laws E \<longleftrightarrow> (\<forall>u pw h. bcrypt_hash E u pw = Some h \<longrightarrow> bcrypt_check E h pw)"

section \<open>What the checks accept\<close>

lemma ascii_digit_IsDigit: "byte c < 128 \<Longrightarrow> IsDigit E (byte c) \<longleftrightarrow> ascii_digit c"
  by (simp add: IsDigit_def ascii_digit_def)

lemma phone_digits_ascii:
  "is_ascii s \<Longrightarrow> phone_digits E (runes s) = Some ds \<Longrightarrow> ds = map byte (filter ascii_digit s)"
proof (induction s arbitrary: ds)
  case (Cons c s)
  then have c: "byte c < 128" and s: "is_ascii s" by (simp_all add: is_ascii_def)
  then have r: "runes (c # s) = byte c # runes s" by simp
  from Cons.prems(2) Cons.IH [OF s] c show ?case
    by (auto simp: r ascii_digit_IsDigit [OF c] ascii_digit_def simp del: runes.simps split: if_splits)
qed simp

lemma phone_digits_plain: "list_all ascii_digit s \<Longrightarrow> phone_digits E (map byte s) = Some (map byte s)"
proof (induction s)
  case (Cons c s)
  then have "byte c < 128" "byte c \<noteq> 43" by (auto simp: ascii_digit_def)
  with Cons show ?case by (simp add: ascii_digit_IsDigit)
qed simp

lemma digit_not_space: "ascii_digit c \<Longrightarrow> \<not> ascii_space c"
  by (auto simp: ascii_digit_def ascii_space_def)

lemma encode_plain: "list_all ascii_digit s \<Longrightarrow> encode_runes (map byte s) = s"
proof -
  assume s: "list_all ascii_digit s"
  then have "\<forall>r \<in> set (map byte s). r < 128" by (auto simp: list_all_iff ascii_digit_def)
  then have "encode_runes (map byte s) = map char_of (map byte s)" by (rule encode_ascii)
  then show ?thesis by (simp add: comp_def)
qed

lemma ascii_not_wide: "byte a < 128 \<Longrightarrow> \<not> pair_space a b" "byte a < 128 \<Longrightarrow> \<not> wide_space a b c"
    "byte c < 128 \<Longrightarrow> \<not> wide_space a b c" "byte b < 128 \<Longrightarrow> \<not> pair_space a b"
  unfolding pair_space_def wide_space_def by auto

lemma is_ascii_Cons: "is_ascii (c # s) \<longleftrightarrow> byte c < 128 \<and> is_ascii s"
  by (simp add: is_ascii_def)

text \<open>On ASCII text \<open>TrimSpace\<close> drops white space at both ends.\<close>

lemma trim_left_ascii: "is_ascii s \<Longrightarrow> trim_left s = dropWhile ascii_space s"
  by (induction s rule: trim_left.induct) (simp_all add: is_ascii_Cons ascii_not_wide)

lemma trim_left_rev_ascii: "is_ascii s \<Longrightarrow> trim_left_rev s = dropWhile ascii_space s"
  by (induction s rule: trim_left_rev.induct) (simp_all add: is_ascii_Cons ascii_not_wide)

lemma is_ascii_rev [simp]: "is_ascii (rev s) = is_ascii s"
  by (simp add: is_ascii_def)

lemma is_ascii_dropWhile: "is_ascii s \<Longrightarrow> is_ascii (dropWhile P s)"
  by (auto simp: is_ascii_def dest: set_dropWhileD)

lemma TrimSpace_ascii:
  "is_ascii s \<Longrightarrow> TrimSpace s = rev (dropWhile ascii_space (rev (dropWhile ascii_space s)))"
  by (simp add: TrimSpace_def trim_left_ascii trim_left_rev_ascii is_ascii_dropWhile)

lemma TrimSpace_plain:
  "is_ascii s \<Longrightarrow> s \<noteq> [] \<Longrightarrow> \<not> ascii_space (hd s) \<Longrightarrow> \<not> ascii_space (last s) \<Longrightarrow> TrimSpace s = s"
  by (simp add: TrimSpace_ascii dropWhile_eq_self_iff [THEN iffD2] hd_rev)

lemma is_ascii_TrimSpace: "is_ascii s \<Longrightarrow> is_ascii (TrimSpace s)"
  by (simp add: TrimSpace_ascii is_ascii_dropWhile)

lemma filter_dropWhile: "(\<And>c. P c \<Longrightarrow> \<not> Q c) \<Longrightarrow> filter P (dropWhile Q s) = filter P s"
  by (induction s) auto

lemma filter_TrimSpace: "is_ascii s \<Longrightarrow> filter ascii_digit (TrimSpace s) = filter ascii_digit s"
  by (simp add: TrimSpace_ascii filter_dropWhile digit_not_space flip: rev_filter)

lemma NormalizeE164_plain:
  assumes "list_all ascii_digit ds" and "8 \<le> length ds" and "length ds \<le> 15"
  shows "NormalizeE164 E (CHR ''+'' # ds) = Inr (CHR ''+'' # ds)"
proof -
  have ascii: "is_ascii (CHR ''+'' # ds)" using assms(1) by (auto simp: is_ascii_def list_all_iff ascii_digit_def)
  have "ds \<noteq> []" using assms(2) by auto
  then have "\<not> ascii_space (last ds)" using assms(1) by (auto simp: list_all_iff digit_not_space)
  then have "TrimSpace (CHR ''+'' # ds) = CHR ''+'' # ds"
    using ascii \<open>ds \<noteq> []\<close> by (intro TrimSpace_plain) (auto simp: ascii_space_def)
  moreover have "phone_digits E (runes (CHR ''+'' # ds)) = Some (map byte ds)"
    using assms(1) by (simp add: runes_ascii [OF ascii] phone_digits_plain del: runes.simps)
  ultimately show ?thesis using assms by (simp add: NormalizeE164_def encode_plain Let_def)
qed

text \<open>
  What \<open>NormalizeE164\<close> makes of an ASCII text is a plus sign and the 8 to 15 digits of the
  text in their order, so texts that differ in separators only have one normal form, and the normal form
  is its own normal form.
\<close>

theorem NormalizeE164_normal:
  assumes "is_ascii raw" and "NormalizeE164 E raw = Inr p"
  shows "p = CHR ''+'' # filter ascii_digit raw \<and> 9 \<le> length p \<and> length p \<le> 16 \<and> NormalizeE164 E p = Inr p"
proof -
  let ?s = "TrimSpace raw"
  have ascii: "is_ascii ?s" using assms(1) by (rule is_ascii_TrimSpace)
  from assms(2) obtain rs where rs: "phone_digits E (runes ?s) = Some rs" "8 \<le> length rs" "length rs \<le> 15"
    "p = CHR ''+'' # encode_runes rs"
    by (auto simp: NormalizeE164_def Let_def split: if_splits option.splits)
  have "rs = map byte (filter ascii_digit raw)"
    using phone_digits_ascii [OF ascii rs(1)] by (simp add: filter_TrimSpace [OF assms(1)])
  moreover have "list_all ascii_digit (filter ascii_digit raw)" by (simp add: list_all_iff)
  ultimately show ?thesis using rs(2-4) NormalizeE164_plain [of "filter ascii_digit raw" E] by (simp add: encode_plain)
qed

theorem NormalizeE164_normal_witness:
  "\<exists>E :: ext. NormalizeE164 E ''+998 (90) 123-45-67'' = Inr ''+998901234567''"
proof -
  fix E :: ext
  have ascii: "is_ascii ''+998 (90) 123-45-67''" by (simp add: is_ascii_def)
  have "\<exists>p. NormalizeE164 E ''+998 (90) 123-45-67'' = Inr p"
    by (simp add: NormalizeE164_def TrimSpace_ascii [OF ascii] runes_ascii ascii_space_def IsDigit_def Let_def is_ascii_def)
  then obtain p where p: "NormalizeE164 E ''+998 (90) 123-45-67'' = Inr p" by blast
  with NormalizeE164_normal [OF ascii p] have "NormalizeE164 E ''+998 (90) 123-45-67'' = Inr ''+998901234567''"
    by (simp add: ascii_digit_def)
  then show ?thesis by blast
qed

text \<open>The strict check of Uzbek numbers accepts normal forms only.\<close>

lemma ValidateUzPhoneStrict_normal:
  assumes "ValidateUzPhoneStrict raw = Inr p"
  shows "NormalizeE164 E p = Inr p \<and> length p = 13 \<and> take 4 p = ''+998''"
proof -
  from assms have p: "take 4 p = ''+998''" "length p = 13" "list_all ascii_digit (drop 4 p)"
    by (auto simp: ValidateUzPhoneStrict_def uzPhoneRe_def Let_def split: if_splits)
  have "p = ''+998'' @ drop 4 p" using append_take_drop_id [of 4 p] p(1) by simp
  then obtain ds where ds: "p = CHR ''+'' # ''998'' @ ds" "list_all ascii_digit ds" "length ds = 9"
    using p(2,3) that [of "drop 4 p"] by simp
  from ds have "NormalizeE164 E (CHR ''+'' # (''998'' @ ds)) = Inr (CHR ''+'' # (''998'' @ ds))"
    by (intro NormalizeE164_plain) (simp_all add: ascii_digit_def)
  with ds p show ?thesis by simp
qed

end
