(* ===== verification/Gateway.thy ===== *)
theory Gateway
  imports Text
begin

text \<open>
  Sending a one-time code: the random digits, the client of the Telegram gateway (\<open>internal/telegram\<close>) and
  what the handlers make of its errors (\<open>handlers/otp_send.go\<close>). The gateway is a service: what comes back
  for a phone and a code is part of the world of a request, and so are the random draws.
\<close>

section \<open>The gateway and its replies\<close>

text \<open>The body as \<open>json.Unmarshal\<close> reads it.\<close>

record gatewayResp =
  gr_OK :: bool
  gr_RequestID :: string
  gr_Error :: string
  gr_ErrorMessage :: string
  gr_Message :: string
  gr_Reason :: string
  gr_Code :: string

text \<open>
  The request cannot be built, gets no reply (with the text of the error), or gets a status and a body;
  the last field tells whether the body decodes without error.
\<close>

datatype gateway_reply =
    NoRequest
  | NoReply string
  | Reply int string gatewayResp bool

datatype gateway_kind = KindNone | ErrNoAccount | ErrRateLimited

datatype send_error =
    GatewayError (ge_Kind: gateway_kind) (ge_StatusCode: int) (ge_Message: string) (ge_RawBody: string)
  | PlainError err

record gworld = rworld +
  w_digits :: "nat \<Rightarrow> nat option"
  w_gateway :: "string \<Rightarrow> string \<Rightarrow> gateway_reply"

type_synonym ('z, 'a) gprog = "('z gworld_scheme, 'a) state"

section \<open>Random digits\<close>

text \<open>\<open>rand.Int(rand.Reader, 10)\<close>: the next draw of a request, which may fail.\<close>

definition draw_digit :: "('z, nat option) gprog" where
  "draw_digit = State (\<lambda>w. (w_digits w (w_drawn w), w\<lparr>w_drawn := Suc (w_drawn w)\<rparr>))"

lemma run_draw_digit [simp]: "run draw_digit w = (w_digits w (w_drawn w), w\<lparr>w_drawn := Suc (w_drawn w)\<rparr>)"
  by (simp add: draw_digit_def)

fun otp_digits :: "nat \<Rightarrow> ('z, err + string) gprog" where
  "otp_digits 0 = ret (Inr [])"
| "otp_digits (Suc k) = do {
     d \<leftarrow> draw_digit;
     (case d of
        None \<Rightarrow> ret (Inl (Err ''rand''))
      | Some n \<Rightarrow> andE (otp_digits k) (\<lambda>rest. ret (Inr (char_of (48 + n) # rest))))
   }"

definition GenerateNumericOTP :: "int \<Rightarrow> ('z, err + string) gprog" where
  "GenerateNumericOTP len =
     (if len < 4 \<or> len > 8 then ret (Inl (Err ''otp length must be 4..8'')) else otp_digits (nat len))"

text \<open>Documented behaviour of \<open>rand.Int\<close>: the draws are below the bound.\<close>

definition digits_ok :: "'z gworld_scheme \<Rightarrow> bool" where
  "digits_ok w \<longleftrightarrow> (\<forall>n d. w_digits w n = Some d \<longrightarrow> d < 10)"

section \<open>Reading errors\<close>

fun contains :: "string \<Rightarrow> string \<Rightarrow> bool" where
  "contains p [] = (p = [])"
| "contains p (c # s) = (take (length p) (c # s) = p \<or> contains p s)"

fun firstNonEmpty :: "string list \<Rightarrow> string" where
  "firstNonEmpty [] = []"
| "firstNonEmpty (s # ss) = (if TrimSpace s \<noteq> [] then s else firstNonEmpty ss)"

definition maxGatewayRawLogBytes :: nat where [simp]: "maxGatewayRawLogBytes = 4096"

definition truncateForLog :: "string \<Rightarrow> int \<Rightarrow> string" where
  "truncateForLog s maxBytes =
     (if maxBytes \<le> 0 then []
      else if int (length s) \<le> maxBytes then s
      else take (nat maxBytes) s @ ''...(truncated)'')"

definition no_account_patterns :: "string list" where
  "no_account_patterns = [
    ''no account'', ''no telegram'', ''user not found'', ''user_not_found'', ''not found'',
    ''phone_number_unoccupied'', ''phone_number_invalid'', ''no_account'', ''phone_number_not_available'',
    ''not_available'', ''invalid phone'', ''unoccupied'', ''not registered'', ''contact not found'',
    ''contact_not_found'', ''recipient not found'', ''account not found'', ''phone not found'',
    ''peer_not_found'', ''user_not_registered'', ''not_registered'',
    [CHR 0xD0, CHR 0xBD, CHR 0xD0, CHR 0xB5, CHR 0xD1, CHR 0x82, CHR 0x20, CHR 0xD0, CHR 0xB0, CHR 0xD0,
     CHR 0xBA, CHR 0xD0, CHR 0xBA, CHR 0xD0, CHR 0xB0, CHR 0xD1, CHR 0x83, CHR 0xD0, CHR 0xBD, CHR 0xD1,
     CHR 0x82, CHR 0xD0, CHR 0xB0],
    [CHR 0xD0, CHR 0xB0, CHR 0xD0, CHR 0xBA, CHR 0xD0, CHR 0xBA, CHR 0xD0, CHR 0xB0, CHR 0xD1, CHR 0x83,
     CHR 0xD0, CHR 0xBD, CHR 0xD1, CHR 0x82, CHR 0x20, CHR 0xD0, CHR 0xBD, CHR 0xD0, CHR 0xB5, CHR 0x20,
     CHR 0xD0, CHR 0xBD, CHR 0xD0, CHR 0xB0, CHR 0xD0, CHR 0xB9, CHR 0xD0, CHR 0xB4, CHR 0xD0, CHR 0xB5,
     CHR 0xD0, CHR 0xBD],
    [CHR 0xD0, CHR 0xBD, CHR 0xD0, CHR 0xB5, CHR 0x20, CHR 0xD0, CHR 0xBD, CHR 0xD0, CHR 0xB0, CHR 0xD0,
     CHR 0xB9, CHR 0xD0, CHR 0xB4, CHR 0xD0, CHR 0xB5, CHR 0xD0, CHR 0xBD],
    [CHR 0xD0, CHR 0xBF, CHR 0xD0, CHR 0xBE, CHR 0xD0, CHR 0xBB, CHR 0xD1, CHR 0x8C, CHR 0xD0, CHR 0xB7,
     CHR 0xD0, CHR 0xBE, CHR 0xD0, CHR 0xB2, CHR 0xD0, CHR 0xB0, CHR 0xD1, CHR 0x82, CHR 0xD0, CHR 0xB5,
     CHR 0xD0, CHR 0xBB, CHR 0xD1, CHR 0x8C, CHR 0x20, CHR 0xD0, CHR 0xBD, CHR 0xD0, CHR 0xB5, CHR 0x20,
     CHR 0xD0, CHR 0xBD, CHR 0xD0, CHR 0xB0, CHR 0xD0, CHR 0xB9, CHR 0xD0, CHR 0xB4, CHR 0xD0, CHR 0xB5,
     CHR 0xD0, CHR 0xBD]]"

definition isNoAccountError :: "ext \<Rightarrow> string \<Rightarrow> bool" where
  "isNoAccountError E errText =
     (let s = ToLower E (TrimSpace errText)
      in s \<noteq> [] \<and> list_ex (\<lambda>p. contains p s) no_account_patterns)"

definition isRateLimitError :: "ext \<Rightarrow> string \<Rightarrow> bool" where
  "isRateLimitError E errText =
     (let s = ToLower E (TrimSpace errText)
      in s \<noteq> [] \<and> (take 10 s = ''flood_wait'' \<or> contains ''flood_wait'' s
           \<or> contains ''rate_limit'' s \<or> contains ''too many requests'' s))"

definition error_kind :: "ext \<Rightarrow> string \<Rightarrow> gateway_kind" where
  "error_kind E errMsg =
     (if isNoAccountError E errMsg then ErrNoAccount
      else if isRateLimitError E errMsg then ErrRateLimited else KindNone)"

section \<open>The client\<close>

record GatewayClient =
  gc_token :: string
  gc_bypass :: bool

definition read_reply :: "ext \<Rightarrow> gateway_reply \<Rightarrow> send_error + string" where
  "read_reply E reply = (case reply of
       NoRequest \<Rightarrow> Inl (PlainError (Err ''request''))
     | NoReply msg \<Rightarrow> Inl (GatewayError KindNone 0 msg [])
     | Reply status raw gr decodes \<Rightarrow>
         (let errMsg = firstNonEmpty [gr_Error gr, gr_ErrorMessage gr, gr_Message gr, gr_Reason gr, gr_Code gr];
              body = truncateForLog raw (int maxGatewayRawLogBytes)
          in if status \<noteq> 200 then
               (let errMsg = (if errMsg = [] then raw else errMsg)
                in Inl (GatewayError (error_kind E errMsg) status (TrimSpace errMsg) body))
             else if \<not> decodes then Inl (GatewayError KindNone status ''telegram gateway decode error'' body)
             else if \<not> gr_OK gr then Inl (GatewayError (error_kind E errMsg) status (TrimSpace errMsg) body)
             else if gr_RequestID gr = [] then Inl (GatewayError KindNone status ''telegram gateway empty request_id'' body)
             else Inr (gr_RequestID gr)))"

definition SendVerificationMessage ::
    "ext \<Rightarrow> GatewayClient \<Rightarrow> string \<Rightarrow> string \<Rightarrow> int \<Rightarrow> ('z, send_error + string) gprog" where
  "SendVerificationMessage E c phoneE164 code ttlSeconds = State (\<lambda>w.
     (if gc_bypass c then Inr ''bypass''
      else if gc_token c = [] then Inl (GatewayError KindNone 0 ''telegram gateway token is not configured'' [])
      else read_reply E (w_gateway w phoneE164 code), w))"

text \<open>\<open>SendOTP\<close>: the code and the identifier of the request.\<close>

definition SendOTP ::
    "ext \<Rightarrow> GatewayClient \<Rightarrow> string \<Rightarrow> int \<Rightarrow> int \<Rightarrow> ('z, send_error + string \<times> string) gprog" where
  "SendOTP E tg phone ttlSeconds otpLen = do {
     r \<leftarrow> GenerateNumericOTP otpLen;
     (case r of
        Inl e \<Rightarrow> ret (Inl (PlainError e))
      | Inr code \<Rightarrow> do {
          s \<leftarrow> SendVerificationMessage E tg phone code ttlSeconds;
          ret (case s of Inl e \<Rightarrow> Inl e | Inr requestID \<Rightarrow> Inr (code, requestID))
        })
   }"

text \<open>The error is never nil where the handlers call it, so it always writes an answer.\<close>

definition WriteOTPSendError :: "send_error \<Rightarrow> response" where
  "WriteOTPSendError e = (case e of
       GatewayError kind _ _ _ \<Rightarrow>
         if kind = ErrNoAccount then ErrorLang 400 ''invalid_payload''
         else if kind = ErrRateLimited then ErrorLang 429 ''otp_rate_limited''
         else ErrorLang 502 ''internal_error''
     | PlainError _ \<Rightarrow> ErrorLang 502 ''internal_error'')"

section \<open>Codes\<close>

lemma reads_only_draw_digit: "reads_only draw_digit"
  by (simp add: reads_only_def)

lemma reads_only_otp_digits: "reads_only (otp_digits k)"
  by (induction k) (auto intro!: reads_only_intros reads_only_andE reads_only_draw_digit)

lemma reads_only_SendOTP: "reads_only (SendOTP E tg phone ttl n)"
  unfolding SendOTP_def GenerateNumericOTP_def
  by (intro reads_only_intros reads_only_otp_digits) (simp add: reads_only_def SendVerificationMessage_def)

lemma otp_digits_shape:
  assumes "digits_ok w" and "run (otp_digits k) w = (Inr code, w')"
  shows "length code = k \<and> list_all ascii_digit code \<and> digits_ok w'"
  using assms
proof (induction k arbitrary: w code)
  case (Suc k)
  then obtain n rest where n: "w_digits w (w_drawn w) = Some n" "code = char_of (48 + n) # rest"
    "run (otp_digits k) (w\<lparr>w_drawn := Suc (w_drawn w)\<rparr>) = (Inr rest, w')"
    by (auto simp: run_andE split: option.splits sum.splits prod.splits)
  have "digits_ok (w\<lparr>w_drawn := Suc (w_drawn w)\<rparr>)" using Suc.prems(1) by (simp add: digits_ok_def)
  from Suc.IH [OF this n(3)] have "length rest = k" "list_all ascii_digit rest" "digits_ok w'" by simp_all
  moreover have "n < 10" using Suc.prems(1) n(1) by (simp add: digits_ok_def)
  then have "ascii_digit (char_of (48 + n))" by (simp add: ascii_digit_def)
  ultimately show ?case by (simp add: n(2))
qed simp

lemma IsNumeric_plain: "list_all ascii_digit s \<Longrightarrow> s \<noteq> [] \<Longrightarrow> IsNumeric E s"
proof -
  assume s: "list_all ascii_digit s" "s \<noteq> []"
  then have "is_ascii s" by (auto simp: is_ascii_def list_all_iff ascii_digit_def)
  with s show "IsNumeric E s"
    by (auto simp: IsNumeric_def runes_ascii list_all_iff IsDigit_def ascii_digit_def)
qed

text \<open>
  A generated code consists of exactly as many ASCII digits as were asked for, between four and eight, so
  it passes the checks that the verifying handlers make on what the user types in (\<open>len(otp)\<close> between 4 and 8,
  \<open>IsNumeric\<close>, no white space around it).
\<close>

theorem generated_code_accepted:
  assumes "digits_ok w" and "run (GenerateNumericOTP n) w = (Inr code, w')"
  shows "int (length code) = n \<and> 4 \<le> length code \<and> length code \<le> 8 \<and> IsNumeric E code \<and> TrimSpace code = code"
proof -
  from assms(2) have n: "4 \<le> n" "n \<le> 8" and run: "run (otp_digits (nat n)) w = (Inr code, w')"
    by (auto simp: GenerateNumericOTP_def split: if_splits)
  from otp_digits_shape [OF assms(1) run] have code: "length code = nat n" "list_all ascii_digit code" by simp_all
  with n have ne: "code \<noteq> []" by auto
  have ends: "\<not> ascii_space (hd code)" "\<not> ascii_space (last code)"
    using code(2) ne by (auto simp: list_all_iff digit_not_space)
  have "is_ascii code" using code(2) by (auto simp: is_ascii_def list_all_iff ascii_digit_def)
  with TrimSpace_plain [OF _ ne ends] code n IsNumeric_plain [OF code(2) ne] show ?thesis by auto
qed

definition sample_gworld :: gworld where
  "sample_gworld = \<lparr>w_db = empty_db False, w_faults = [], w_now = 100, w_gen = of_nat, w_drawn = 5, w_redis = fmempty,
     w_digits = (\<lambda>n. Some 4), w_gateway = (\<lambda>_ _. NoReply [])\<rparr>"

theorem generated_code_accepted_witness:
  "\<exists>w :: gworld. fst (run (GenerateNumericOTP 4) w) = Inr ''4444'' \<and> (\<forall>E. IsNumeric E ''4444'')"
proof -
  have four: "otp_digits 4 = otp_digits (Suc (Suc (Suc (Suc 0))))" by (simp only: eval_nat_numeral BitM.simps)
  have run: "run (GenerateNumericOTP 4) sample_gworld = (Inr ''4444'', sample_gworld\<lparr>w_drawn := 9\<rparr>)"
    by (simp add: GenerateNumericOTP_def four run_andE sample_gworld_def char_of_def bit_0)
  have "digits_ok sample_gworld" by (simp add: digits_ok_def sample_gworld_def)
  from generated_code_accepted [OF this run] have "\<forall>E. IsNumeric E ''4444''" by simp
  with run show ?thesis by (metis fst_conv)
qed

end
