(* ===== verification/Auth_Handlers.thy ===== *)
theory Auth_Handlers
  imports Middleware Gateway
begin

text \<open>
  Signing in and out (\<open>handlers/auth.go\<close>) and the registration of drivers (\<open>handlers/registration.go\<close>,
  \<open>internal/domain\<close>). A login stores two keys in Redis beside the tokens it hands out: one that lets the refresh
  token be used once, and one that keeps the access token valid.
\<close>

section \<open>Answers\<close>

definition tokens_json :: "Tokens \<Rightarrow> json" where
  "tokens_json t = JObj
     [(''access_token'', JStr (AccessToken t)), (''refresh_token'', JStr (RefreshToken t)),
      (''expires_in'', JInt (ExpiresIn t)), (''expires_at'', JInt (ExpiresAt t)),
      (''refresh_expires_in'', JInt (RefreshExpiresIn t)), (''refresh_expires_at'', JInt (RefreshExpiresAt t))]"

definition driver_json :: "Driver \<Rightarrow> json" where
  "driver_json d = JObj
     [(''id'', JStr (dr_ID d)), (''phone'', JStr (dr_Phone d)), (''created_at'', JTime (dr_CreatedAt d)),
      (''updated_at'', JTime (dr_UpdatedAt d)), (''last_online_at'', json_opt JTime (dr_LastOnlineAt d)),
      (''latitude'', json_opt JNum (dr_Latitude d)), (''longitude'', json_opt JNum (dr_Longitude d)),
      (''push_token'', json_opt JStr (dr_PushToken d)),
      (''registration_step'', json_opt JStr (dr_RegistrationStep d)),
      (''registration_status'', json_opt JStr (dr_RegistrationStatus d)),
      (''name'', json_opt JStr (dr_Name d)), (''driver_type'', json_opt JStr (dr_DriverType d)),
      (''rating'', json_opt JNum (dr_Rating d)), (''work_status'', json_opt JStr (dr_WorkStatus d)),
      (''freelancer_id'', json_opt JStr (dr_FreelancerID d)), (''company_id'', json_opt JStr (dr_CompanyID d)),
      (''account_status'', json_opt JStr (dr_AccountStatus d)),
      (''driver_passport_series'', json_opt JStr (dr_DriverPassportSeries d)),
      (''driver_passport_number'', json_opt JStr (dr_DriverPassportNumber d)),
      (''driver_pinfl'', json_opt JStr (dr_DriverPINFL d)),
      (''driver_scan_status'', json_opt JBool (dr_DriverScanStatus d)),
      (''power_plate_type'', json_opt JStr (dr_PowerPlateType d)),
      (''power_plate_number'', json_opt JStr (dr_PowerPlateNumber d)),
      (''power_tech_series'', json_opt JStr (dr_PowerTechSeries d)),
      (''power_tech_number'', json_opt JStr (dr_PowerTechNumber d)),
      (''power_owner_id'', json_opt JStr (dr_PowerOwnerID d)),
      (''power_owner_name'', json_opt JStr (dr_PowerOwnerName d)),
      (''power_scan_status'', json_opt JBool (dr_PowerScanStatus d)),
      (''trailer_plate_type'', json_opt JStr (dr_TrailerPlateType d)),
      (''trailer_plate_number'', json_opt JStr (dr_TrailerPlateNumber d)),
      (''trailer_tech_series'', json_opt JStr (dr_TrailerTechSeries d)),
      (''trailer_tech_number'', json_opt JStr (dr_TrailerTechNumber d)),
      (''trailer_owner_id'', json_opt JStr (dr_TrailerOwnerID d)),
      (''trailer_owner_name'', json_opt JStr (dr_TrailerOwnerName d)),
      (''trailer_scan_status'', json_opt JBool (dr_TrailerScanStatus d)),
      (''driver_owner'', json_opt JBool (dr_DriverOwner d)), (''kyc_status'', json_opt JStr (dr_KYCStatus d)),
      (''has_photo'', JBool (dr_HasPhoto d))]"

text \<open>
  \<open>d, _ := FindByID(...)\<close>: a nil pointer where there is an error prints as \<open>null\<close>. A nil pointer without an error
  does not come back from these lookups; the code would panic on it, which \<open>gin.Recovery\<close> turns into status
  500 without a body.
\<close>

definition found_json :: "err + Driver option \<Rightarrow> json" where
  "found_json r = (case r of Inl _ \<Rightarrow> JNull | Inr d \<Rightarrow> json_opt driver_json d)"

definition panicked :: response where "panicked = Response False 500 [] JNull"

section \<open>Driver sign-in\<close>

record AuthHandler =
  ah_otp :: OTPStore
  ah_sessionTTL :: duration
  ah_refresh :: RefreshStore
  ah_jwtm :: JWTManager
  ah_tg :: GatewayClient
  ah_otpTTL :: duration
  ah_otpLen :: int

text \<open>Go's \<open>int(d.Seconds())\<close>.\<close>

abbreviation ttl_seconds :: "duration \<Rightarrow> int" where "ttl_seconds d \<equiv> seconds_of d"

definition save_error :: "err \<Rightarrow> response" where
  "save_error e =
     (if e = ErrOTPCooldown then ErrorLang 429 ''otp_cooldown''
      else if e = ErrOTPRateLimited then ErrorLang 429 ''otp_rate_limited''
      else ErrorLang 500 ''internal_error'')"

text \<open>A required string of a body is not empty. \<open>ip\<close> is \<open>c.ClientIP()\<close>.\<close>

definition AuthHandler_SendOTP ::
    "ext \<Rightarrow> AuthHandler \<Rightarrow> string \<Rightarrow> string option \<Rightarrow> ('z, response) gprog" where
  "AuthHandler_SendOTP E h ip body =
     (case body of
        None \<Rightarrow> ret (ErrorLang 400 ''invalid_payload'')
      | Some reqPhone \<Rightarrow>
          if reqPhone = [] then ret (ErrorLang 400 ''invalid_payload'') else
          (case NormalizeE164StrictPlus E reqPhone of
             Inl _ \<Rightarrow> ret (ErrorLang 400 ''invalid_payload_detail'')
           | Inr phone \<Rightarrow>
               let ttlSec = ttl_seconds (ah_otpTTL h) in
               attempt (SendOTP E (ah_tg h) phone ttlSec (ah_otpLen h)) (\<lambda>e. ret (WriteOTPSendError e))
                 (\<lambda>(code, requestID).
                    attempt (OTPStore_SaveOTP E (ah_otp h) phone code requestID (TrimSpace ip)) (\<lambda>e. ret (save_error e))
                      (\<lambda>_. ret (OKLang ''otp_sent'' (JObj
                          [(''status'', JStr ''otp_sent''), (''ttl_seconds'', JInt ttlSec)]))))))"

record verifyOTPReq =
  vo_Phone :: string
  vo_OTP :: string

definition verify_error :: "err \<Rightarrow> response" where
  "verify_error e =
     (if e = ErrOTPExpired then ErrorLang 401 ''otp_expired''
      else if e = ErrOTPInvalid then ErrorLang 401 ''otp_invalid''
      else if e = ErrOTPMaxAttempts then ErrorLang 429 ''otp_max_attempts_exceeded''
      else if e = ErrOTPVerifyRateLimited then ErrorLang 429 ''otp_verify_attempts_exceeded''
      else ErrorLang 500 ''internal_error'')"

text \<open>\<open>Issue\<close>, and the two keys of the new session; errors of the store are dropped.\<close>

definition open_session ::
    "ext \<Rightarrow> JWTManager \<Rightarrow> RefreshStore \<Rightarrow> string \<Rightarrow> uuid \<Rightarrow> ('z, err + Tokens) rprog" where
  "open_session E m rs role userID = do {
     now \<leftarrow> clock;
     jti \<leftarrow> new_uuid;
     (case Issue E m now (uuid_string E jti) role userID of
        Inl e \<Rightarrow> ret (Inl e)
      | Inr (tokens, refreshClaims) \<Rightarrow> do {
          _ \<leftarrow> RefreshStore_Put rs (rc_UserID refreshClaims) (rc_JTI refreshClaims);
          _ \<leftarrow> RefreshStore_PutSession rs (rc_UserID refreshClaims) (rc_JTI refreshClaims);
          ret (Inr tokens)
        })
   }"

text \<open>What follows a right code: a known driver gets tokens, an unknown phone a registration session.\<close>

definition login_or_register :: "ext \<Rightarrow> AuthHandler \<Rightarrow> string \<Rightarrow> ('z, response) rprog" where
  "login_or_register E h phone = do {
     found \<leftarrow> drivers_FindByPhone E phone;
     (case found of
        Inr None \<Rightarrow> ret panicked
      | Inr (Some d) \<Rightarrow>
          attempt (open_session E (ah_jwtm h) (ah_refresh h) ''driver'' (parsed_uuid E (dr_ID d)))
            (\<lambda>_. ret (ErrorLang 500 ''token_issue_failed''))
            (\<lambda>tokens. ret (OKLang ''login'' (JObj [(''status'', JStr ''login''), (''tokens'', tokens_json tokens)])))
      | Inl e \<Rightarrow>
          if e \<noteq> DriverErrNotFound then ret (ErrorLang 500 ''internal_error'') else
          attempt (SessionStore_Create E (ah_sessionTTL h) phone)
            (\<lambda>_. ret (ErrorLang 500 ''internal_error''))
            (\<lambda>sessionID. ret (OKLang ''register'' (JObj
                [(''status'', JStr ''register''), (''session_id'', JStr sessionID)]))))
   }"

definition AuthHandler_VerifyOTP :: "ext \<Rightarrow> AuthHandler \<Rightarrow> verifyOTPReq option \<Rightarrow> ('z, response) rprog" where
  "AuthHandler_VerifyOTP E h body =
     (case body of
        None \<Rightarrow> ret (ErrorLang 400 ''invalid_payload'')
      | Some req \<Rightarrow>
          if vo_Phone req = [] \<or> vo_OTP req = [] then ret (ErrorLang 400 ''invalid_payload'') else
          (case NormalizeE164 E (vo_Phone req) of
             Inl _ \<Rightarrow> ret (ErrorLang 400 ''invalid_payload_detail'')
           | Inr phone \<Rightarrow>
               let otp = TrimSpace (vo_OTP req) in
               if length otp < 4 \<or> length otp > 8 \<or> \<not> IsNumeric E otp
               then ret (ErrorLang 400 ''otp_must_be_numeric'') else
               attempt (OTPStore_Verify E (ah_otp h) phone otp) (\<lambda>e. ret (verify_error e)) (\<lambda>_. login_or_register E h phone)))"

section \<open>Refresh and logout\<close>

text \<open>Three parts separated by dots.\<close>

definition isJWTFormat :: "string \<Rightarrow> bool" where
  "isJWTFormat s \<longleftrightarrow> length (filter (\<lambda>c. c = CHR ''.'') s) = 2"

definition AuthHandler_Refresh :: "ext \<Rightarrow> AuthHandler \<Rightarrow> string option \<Rightarrow> ('z, response) rprog" where
  "AuthHandler_Refresh E h body =
     (case body of
        None \<Rightarrow> ret (ErrorLang 400 ''invalid_payload'')
      | Some tok \<Rightarrow>
          let refreshToken = TrimSpace tok in
          if refreshToken = [] then ret (ErrorLang 400 ''refresh_token_required'')
          else if \<not> isJWTFormat refreshToken then ret (ErrorLang 401 ''invalid_or_expired_refresh_token'')
          else do {
            now \<leftarrow> clock;
            (case ParseRefresh (ah_jwtm h) now refreshToken of
               Inl _ \<Rightarrow> ret (ErrorLang 401 ''invalid_or_expired_refresh_token'')
             | Inr claims \<Rightarrow>
                 attempt (RefreshStore_Consume (rc_UserID claims) (rc_JTI claims))
                   (\<lambda>_. ret (ErrorLang 401 ''invalid_or_expired_refresh_token''))
                   (\<lambda>_. do {
                      _ \<leftarrow> RefreshStore_InvalidateSession (rc_JTI claims);
                      (case uuid_parse E (rc_UserID claims) of
                         None \<Rightarrow> ret (ErrorLang 401 ''invalid_or_expired_refresh_token'')
                       | Some userUUID \<Rightarrow>
                           attempt (open_session E (ah_jwtm h) (ah_refresh h) (rc_Role claims) userUUID)
                             (\<lambda>_. ret (ErrorLang 500 ''token_issue_failed''))
                             (\<lambda>tokens. ret (OKLang ''ok'' (JObj [(''tokens'', tokens_json tokens)]))))
                    }))
          })"

record logoutReq =
  lo_RefreshToken :: string
  lo_AccessToken :: string

definition AuthHandler_Logout :: "ext \<Rightarrow> AuthHandler \<Rightarrow> logoutReq option \<Rightarrow> ('z, response) rprog" where
  "AuthHandler_Logout E h body =
     (case body of
        None \<Rightarrow> ret (ErrorLang 400 ''invalid_payload'')
      | Some req \<Rightarrow>
          let refreshToken = TrimSpace (lo_RefreshToken req); accessToken = TrimSpace (lo_AccessToken req) in
          if refreshToken = [] \<and> accessToken = [] then ret (ErrorLang 400 ''refresh_token_or_access_token_required'')
          else if refreshToken \<noteq> [] then do {
            now \<leftarrow> clock;
            (case ParseRefresh (ah_jwtm h) now refreshToken of
               Inl _ \<Rightarrow> ret (ErrorLang 401 ''invalid_or_expired_refresh_token'')
             | Inr claims \<Rightarrow>
                 if rc_Role claims \<noteq> ''driver'' then ret (ErrorLang 401 ''invalid_refresh_token_for_driver'') else
                 attempt (RefreshStore_Consume (rc_UserID claims) (rc_JTI claims))
                   (\<lambda>_. ret (ErrorLang 401 ''refresh_token_already_used''))
                   (\<lambda>_. ret (OKLang ''ok'' (JObj [(''status'', JStr ''ok'')]))))
          } else do {
            now \<leftarrow> clock;
            (case ParseAccess E (ah_jwtm h) now accessToken of
               Inl _ \<Rightarrow> ret (ErrorLang 401 ''invalid_or_expired_access_token'')
             | Inr (userID, role) \<Rightarrow>
                 if role \<noteq> ''driver'' then ret (ErrorLang 401 ''access_token_not_for_driver'') else do {
                   _ \<leftarrow> RefreshStore_RevokeAll (uuid_string E userID);
                   ret (OKLang ''ok'' (JObj [(''status'', JStr ''ok'')]))
                 })
          })"

section \<open>Registration\<close>

definition StepNameOferta :: string where [simp]: "StepNameOferta = ''name-oferta''"
definition StepGeoPush :: string where [simp]: "StepGeoPush = ''geo-push''"
definition StepTransportType :: string where [simp]: "StepTransportType = ''transport-type''"
definition StepCompleted :: string where [simp]: "StepCompleted = ''completed''"
definition StatusStart :: string where [simp]: "StatusStart = ''start''"
definition StatusBasic :: string where [simp]: "StatusBasic = ''basic''"
definition StatusFull :: string where [simp]: "StatusFull = ''full''"
definition DriverTypeCompany :: string where [simp]: "DriverTypeCompany = ''company''"
definition DriverTypeFreelancer :: string where [simp]: "DriverTypeFreelancer = ''freelancer''"
definition DriverTypeDriver :: string where [simp]: "DriverTypeDriver = ''driver''"

record RegistrationHandler =
  rg_jwtm :: JWTManager
  rg_refresh :: RefreshStore

record startReq =
  st_SessionID :: string
  st_Name :: string
  st_OfertaAccepted :: bool

text \<open>\<open>required\<close> on a \<open>bool\<close> means true, so the check of the offer's acceptance behind it never fires.\<close>

definition bind_start :: "startReq \<Rightarrow> bool" where
  "bind_start req \<longleftrightarrow> st_SessionID req \<noteq> [] \<and> st_Name req \<noteq> [] \<and> st_OfertaAccepted req"

definition RegistrationHandler_Start ::
    "ext \<Rightarrow> RegistrationHandler \<Rightarrow> startReq option \<Rightarrow> ('z, response) rprog" where
  "RegistrationHandler_Start E h body =
     (case body of
        None \<Rightarrow> ret (ErrorLang 400 ''invalid_payload'')
      | Some req \<Rightarrow>
          if \<not> bind_start req then ret (ErrorLang 400 ''invalid_payload'')
          else if \<not> st_OfertaAccepted req then ret (ErrorLang 400 ''oferta_accepted_required'') else
          let name = TrimSpace (st_Name req) in
          if length name < 2 then ret (ErrorLang 400 ''name_too_short'') else
          attempt (SessionStore_Consume (TrimSpace (st_SessionID req)))
            (\<lambda>e. ret (if e = ErrSessionNotFound then ErrorLang 401 ''session_id_expired_or_invalid''
                     else ErrorLang 500 ''internal_error''))
            (\<lambda>phone. do {
               existing \<leftarrow> drivers_FindByPhone E phone;
               (case existing of
                  Inr None \<Rightarrow> ret panicked
                | Inr (Some d) \<Rightarrow>
                    attempt (open_session E (rg_jwtm h) (rg_refresh h) ''driver'' (parsed_uuid E (dr_ID d)))
                      (\<lambda>_. ret (ErrorLang 500 ''token_issue_failed''))
                      (\<lambda>tokens. ret (OKLang ''ok'' (JObj
                          [(''status'', JStr ''login''), (''tokens'', tokens_json tokens), (''driver'', driver_json d)])))
                | Inl e \<Rightarrow>
                    if e \<noteq> DriverErrNotFound then ret (ErrorLang 500 ''internal_error'') else
                    attempt (drivers_CreateStart phone name) (\<lambda>_. ret (ErrorLang 500 ''internal_error'')) (\<lambda>u.
                    attempt (open_session E (rg_jwtm h) (rg_refresh h) ''driver'' u)
                      (\<lambda>_. ret (ErrorLang 500 ''token_issue_failed''))
                      (\<lambda>tokens. do {
                         drv \<leftarrow> drivers_FindByID E u;
                         ret (OKLang ''ok'' (JObj
                           [(''status'', JStr ''registered''), (''tokens'', tokens_json tokens), (''driver'', found_json drv),
                            (''registration_status'', JStr StatusStart), (''registration_step'', JStr StepNameOferta)]))
                       })))
             }))"

record geoReq =
  geo_Latitude :: "float64 option"
  geo_Longitude :: "float64 option"
  geo_PushToken :: "string option"

text \<open>\<open>_ = c.ShouldBindJSON(&req)\<close>: without a readable body every field is nil.\<close>

definition no_geo :: geoReq where
  "no_geo = \<lparr>geo_Latitude = None, geo_Longitude = None, geo_PushToken = None\<rparr>"

definition ok_driver :: "json \<Rightarrow> response" where
  "ok_driver d = OKLang ''ok'' (JObj [(''status'', JStr ''ok''), (''driver'', d)])"

definition RegistrationHandler_GeoPush :: "ext \<Rightarrow> uuid \<Rightarrow> geoReq option \<Rightarrow> ('z, response) prog" where
  "RegistrationHandler_GeoPush E driverID body =
     (let req = (case body of None \<Rightarrow> no_geo | Some r \<Rightarrow> r) in
      attempt (drivers_FindByID E driverID) (\<lambda>_. ret (ErrorLang 401 ''driver_not_found'')) (\<lambda>d.
        (case (geo_Latitude req, geo_Longitude req) of
           (Some lat, Some lon) \<Rightarrow>
             (case d of
                None \<Rightarrow> ret panicked
              | Some drv \<Rightarrow>
                  let nextStep = (if dr_RegistrationStep drv = Some StepTransportType then StepTransportType else StepGeoPush) in
                  attempt (drivers_UpdateGeo driverID lat lon nextStep (geo_PushToken req))
                    (\<lambda>_. ret (ErrorLang 500 ''internal_error''))
                    (\<lambda>_. do { updated \<leftarrow> drivers_FindByID E driverID; ret (ok_driver (found_json updated)) }))
         | _ \<Rightarrow>
             (case geo_PushToken req of
                Some t \<Rightarrow>
                  if TrimSpace t \<noteq> []
                  then attempt (drivers_UpdatePushToken driverID (TrimSpace t))
                    (\<lambda>_. ret (ErrorLang 500 ''internal_error''))
                    (\<lambda>_. do { updated \<leftarrow> drivers_FindByID E driverID; ret (ok_driver (found_json updated)) })
                  else do { _ \<leftarrow> drivers_TouchOnline driverID; ret (ok_driver (json_opt driver_json d)) }
              | None \<Rightarrow> do { _ \<leftarrow> drivers_TouchOnline driverID; ret (ok_driver (json_opt driver_json d)) }))))"

record transportReq =
  tq_DriverType :: string
  tq_PowerPlateType :: string
  tq_TrailerPlateType :: string
  tq_FreelancerID :: "string option"
  tq_CompanyID :: "string option"

text \<open>An optional identifier: absent or blank is nil, otherwise it has to parse.\<close>

definition optional_uuid :: "ext \<Rightarrow> string option \<Rightarrow> uuid option option" where
  "optional_uuid E s = (case s of
       None \<Rightarrow> Some None
     | Some t \<Rightarrow> if TrimSpace t = [] then Some None
                 else map_option Some (uuid_parse E (TrimSpace t)))"

definition RegistrationHandler_TransportType ::
    "ext \<Rightarrow> uuid \<Rightarrow> transportReq option \<Rightarrow> ('z, response) prog" where
  "RegistrationHandler_TransportType E driverID body =
     (case body of
        None \<Rightarrow> ret (ErrorLang 400 ''invalid_payload'')
      | Some req \<Rightarrow>
          if tq_DriverType req = [] \<or> tq_PowerPlateType req = [] \<or> tq_TrailerPlateType req = []
          then ret (ErrorLang 400 ''invalid_payload'') else
          attempt (drivers_FindByID E driverID) (\<lambda>_. ret (ErrorLang 401 ''driver_not_found'')) (\<lambda>d.
          let dt = ToLower E (TrimSpace (tq_DriverType req)) in
          if dt \<notin> {DriverTypeCompany, DriverTypeFreelancer, DriverTypeDriver}
          then ret (ErrorLang 400 ''invalid_driver_type'') else
          let ppt = TrimSpace (tq_PowerPlateType req); tpt = TrimSpace (tq_TrailerPlateType req) in
          if ppt = [] then ret (ErrorLang 400 ''power_plate_type_required'')
          else if tpt = [] then ret (ErrorLang 400 ''trailer_plate_type_required'') else
          (case optional_uuid E (tq_FreelancerID req) of
             None \<Rightarrow> ret (ErrorLang 400 ''invalid_freelancer_id'')
           | Some freelancerUUID \<Rightarrow>
          (case optional_uuid E (tq_CompanyID req) of
             None \<Rightarrow> ret (ErrorLang 400 ''invalid_company_id'')
           | Some companyUUID \<Rightarrow>
          (case d of
             None \<Rightarrow> ret panicked
           | Some drv \<Rightarrow>
               let nextStatus = (if dr_RegistrationStatus drv = Some StatusFull then StatusFull else StatusBasic) in
               attempt (drivers_UpdateTransportType driverID dt freelancerUUID companyUUID ppt tpt StepTransportType nextStatus)
                 (\<lambda>_. ret (ErrorLang 500 ''internal_error''))
                 (\<lambda>_. do { updated \<leftarrow> drivers_FindByID E driverID; ret (ok_driver (found_json updated)) }))))))"

end
