(* ===== verification/Challenge.thy ===== *)
theory Challenge
  imports Stores
begin

text \<open>
  What a one-time code promises: an abstract machine with a counter of failed attempts, the locale
  of the programs that refine it, and its instances, the three stores that hand out such codes. The bound
  on guesses is proved once, for the abstract machine.
\<close>

section \<open>The abstract machine\<close>

text \<open>
  A challenge is absent or has a number of failed attempts, the hash that is asked for and what a
  right answer is rewarded with (nothing when the stored reward cannot be read).
\<close>

type_synonym 'r challenge_state = "(int \<times> string \<times> 'r option) option"

record challenge_errors =
  ce_expired :: err
  ce_maxed :: err
  ce_invalid :: err
  ce_broken :: err

definition challenge_step ::
    "int \<Rightarrow> challenge_errors \<Rightarrow> string \<Rightarrow> 'r challenge_state \<Rightarrow> (err + 'r) \<times> 'r challenge_state" where
  "challenge_step mx errs h c = (case c of
       None \<Rightarrow> (Inl (ce_expired errs), None)
     | Some (n, want, p) \<Rightarrow>
         if n \<ge> mx then (Inl (ce_maxed errs), c)
         else if want = [] \<or> h \<noteq> want
           then (Inl (if n + 1 \<ge> mx then ce_maxed errs else ce_invalid errs), Some (n + 1, want, p))
         else (case p of None \<Rightarrow> (Inl (ce_broken errs), c) | Some r \<Rightarrow> (Inr r, None)))"

text \<open>Guesses one after the other, each after a delay.\<close>

fun play :: "(string \<Rightarrow> (rworld, 'x) state) \<Rightarrow> (nat \<times> string) list \<Rightarrow> rworld \<Rightarrow> 'x list \<times> rworld" where
  "play verify [] w = ([], w)"
| "play verify ((d, g) # gs) w =
     (let (r, w1) = run (verify g) (w\<lparr>w_now := w_now w + int d\<rparr>); (rs, w2) = play verify gs w1
      in (r # rs, w2))"

lemma play_length: "length (fst (play verify gs w)) = length gs"
  by (induction verify gs w rule: play.induct) (auto split: prod.splits)

locale challenge =
  fixes verify :: "string \<Rightarrow> (rworld, err + 'r) state"
    and view :: "rworld \<Rightarrow> 'r challenge_state"
    and H :: "string \<Rightarrow> string" and mx :: int and errs :: challenge_errors and ok :: "rworld \<Rightarrow> bool"
  assumes refines: "ok w \<Longrightarrow>
      (fst (run (verify g) w), view (snd (run (verify g) w))) = challenge_step mx errs (H g) (view w)"
    and calm: "ok w \<Longrightarrow> ok (snd (run (verify g) w))"
    and calm_later: "ok w \<Longrightarrow> ok (w\<lparr>w_now := w_now w + int d\<rparr>)"
    and ageing: "view (w\<lparr>w_now := w_now w + int d\<rparr>) = view w \<or> view (w\<lparr>w_now := w_now w + int d\<rparr>) = None"
begin

lemma absent_plays:
  assumes "ok w" and "view w = None" and "play verify gs w = (rs, w')"
  shows "set rs \<subseteq> {Inl (ce_expired errs)}"
  using assms
proof (induction gs arbitrary: w rs)
  case (Cons x gs)
  obtain d g where x: "x = (d, g)" by force
  let ?w = "w\<lparr>w_now := w_now w + int d\<rparr>"
  have calm': "ok ?w" by (rule calm_later [OF Cons.prems(1)])
  have none: "view ?w = None" using ageing [of w d] Cons.prems(2) by auto
  obtain r w1 where run: "run (verify g) ?w = (r, w1)" by force
  then have "r = Inl (ce_expired errs)" "view w1 = None" "ok w1"
    using refines [OF calm', of g] calm [OF calm', of g] none by (simp_all add: challenge_step_def)
  then show ?case using Cons.IH [of w1] Cons.prems(3) x run by (auto split: prod.splits)
qed simp

text \<open>
  An answer that is accepted is the right one, and it came before the attempts were used up; no other
  answer is accepted beside it.
\<close>

lemma guesses:
  assumes "ok w" and "view w = Some (n, want, p)" and "play verify gs w = (rs, w')"
    and "i < length gs" and "rs ! i = Inr r"
  shows "want \<noteq> [] \<and> H (snd (gs ! i)) = want \<and> p = Some r \<and> n + int i < mx
       \<and> (\<forall>j < length gs. j \<noteq> i \<longrightarrow> isl (rs ! j))"
  using assms
proof (induction gs arbitrary: w n rs i)
  case (Cons x gs)
  obtain d g where x: "x = (d, g)" by force
  let ?w = "w\<lparr>w_now := w_now w + int d\<rparr>"
  have calm': "ok ?w" by (rule calm_later [OF Cons.prems(1)])
  obtain r0 w1 where run: "run (verify g) ?w = (r0, w1)" by force
  from Cons.prems(3) x run obtain rs' where rest: "play verify gs w1 = (rs', w')" and rs: "rs = r0 # rs'"
    by (auto split: prod.splits)
  have len: "length rs' = length gs" using play_length [of verify gs w1] rest by simp
  have step: "(r0, view w1) = challenge_step mx errs (H g) (view ?w)" and calm1: "ok w1"
    using refines [OF calm', of g] calm [OF calm', of g] run by simp_all
  have dead: "\<forall>j < length gs. isl (rs' ! j)" if "view w1 = None"
    using absent_plays [OF calm1 that rest] len by (metis insertE isl_def empty_iff nth_mem subsetD sum.disc(1))
  show ?case
  proof (cases "view ?w")
    case None
    then have none: "r0 = Inl (ce_expired errs)" "view w1 = None" using step by (simp_all add: challenge_step_def)
    have "isl (rs ! i)" using Cons.prems(4) dead [OF none(2)] none(1) rs by (cases i) (auto simp: isl_def)
    with Cons.prems(5) show ?thesis by (simp add: isl_def)
  next
    case (Some c)
    with ageing [of w d] Cons.prems(2) have here: "view ?w = Some (n, want, p)" by auto
    show ?thesis
    proof (cases "\<not> isl r0")
      case True
      with step here have win: "n < mx" "want \<noteq> []" "H g = want" "p = Some (projr r0)" "view w1 = None"
        by (auto simp: challenge_step_def isl_def split: if_splits option.splits)
      have "i = 0"
        using Cons.prems(4,5) dead [OF win(5)] rs by (cases i) (auto simp: isl_def)
      with win dead [OF win(5)] rs True Cons.prems(5) x show ?thesis
        by (auto simp: isl_def nth_Cons split: nat.splits)
    next
      case False
      then obtain k where i: "i = Suc k" "k < length gs" "rs' ! k = Inr r"
        using Cons.prems(4,5) rs by (cases i) (auto simp: isl_def)
      from False step here consider
          (same) "view w1 = Some (n, want, p)" "mx \<le> n \<or> p = None"
        | (wrong) "view w1 = Some (n + 1, want, p)"
        by (auto simp: challenge_step_def isl_def split: if_splits option.splits)
      then show ?thesis
      proof cases
        case same
        from Cons.IH [OF calm1 same(1) rest i(2,3)] same(2) show ?thesis by auto
      next
        case wrong
        from Cons.IH [OF calm1 wrong rest i(2,3)] have IH:
          "want \<noteq> []" "H (snd (gs ! k)) = want" "p = Some r" "n + 1 + int k < mx"
          "\<forall>j < length gs. j \<noteq> k \<longrightarrow> isl (rs' ! j)" by simp_all
        then show ?thesis using i False rs x by (auto simp: nth_Cons split: nat.splits)
      qed
    qed
  qed
qed simp

text \<open>Once the attempts are used up, nothing is accepted any more.\<close>

lemma locked:
  assumes "ok w" and "view w = Some (n, want, p)" and "mx \<le> n" and "play verify gs w = (rs, w')"
    and "i < length gs"
  shows "isl (rs ! i)"
proof (rule ccontr)
  assume "\<not> isl (rs ! i)"
  then obtain r where "rs ! i = Inr r" by (cases "rs ! i") auto
  from guesses [OF assms(1,2,4,5) this] assms(3) show False by simp
qed

end

section \<open>The three stores\<close>

text \<open>The challenge behind a key: what a hash stored there says.\<close>

definition code_view :: "((string \<times> string) list \<Rightarrow> 'r option) \<Rightarrow> string \<Rightarrow> rworld \<Rightarrow> 'r challenge_state" where
  "code_view reward k w = (case rd_value (w_now w) (w_redis w) k of
       Some (RHash vals) \<Rightarrow> Some (Atoi_value (field ''attempts'' vals), field ''hash'' vals, reward vals)
     | _ \<Rightarrow> None)"

text \<open>The server answers, the key holds a hash or nothing, and the limit is a Go \<open>int\<close>.\<close>

definition code_ok :: "int \<Rightarrow> string \<Rightarrow> rworld \<Rightarrow> bool" where
  "code_ok mx k w \<longleftrightarrow> reliable w \<and> in_int64 mx
     \<and> (case rd_value (w_now w) (w_redis w) k of None \<Rightarrow> True | Some (RHash vals) \<Rightarrow> vals \<noteq> [] | Some _ \<Rightarrow> False)"

lemma Atoi_value_range: "in_int64 (Atoi_value s)"
  by (auto simp: Atoi_value_def in_int64_def min_def split: option.splits)

lemma code_okE:
  assumes "code_ok mx k w"
  obtains (absent) "reliable w" "in_int64 mx"
      "rd_value (w_now w) (w_redis w) k = None" "rd_live (w_now w) (w_redis w) k = None"
    | (present) vals t where "reliable w" "in_int64 mx" "rd_live (w_now w) (w_redis w) k = Some \<lparr>re_value = RHash vals, re_expires = t\<rparr>"
      "rd_value (w_now w) (w_redis w) k = Some (RHash vals)" "vals \<noteq> []"
      "\<And>v. re_live (w_now w) \<lparr>re_value = v, re_expires = t\<rparr>"
proof (cases "rd_live (w_now w) (w_redis w) k")
  case None
  then show ?thesis using that(1) assms by (simp add: rd_value_def code_ok_def)
next
  case (Some e)
  with assms obtain vals where "re_value e = RHash vals" "vals \<noteq> []"
    by (auto simp: code_ok_def rd_value_def split: rvalue.splits)
  with Some show ?thesis using that(2) [of vals "re_expires e"] rd_live_keeps_expiry [OF Some] assms
    by (simp add: rd_value_def code_ok_def)
qed

lemma code_ageing:
  "code_view reward k (w\<lparr>w_now := w_now w + int d\<rparr>) = code_view reward k w
   \<or> code_view reward k (w\<lparr>w_now := w_now w + int d\<rparr>) = None"
  using rd_value_later [of "w_now w" "w_now w + int d" "w_redis w" k] by (auto simp: code_view_def)

lemma code_ok_later: "code_ok mx k w \<Longrightarrow> code_ok mx k (w\<lparr>w_now := w_now w + int d\<rparr>)"
  using rd_value_later [of "w_now w" "w_now w + int d" "w_redis w" k] by (auto simp: code_ok_def reliable_def)

lemma attempts_step: "in_int64 mx \<Longrightarrow> Atoi_value s < mx \<Longrightarrow> wrap64 (Atoi_value s + 1) = Atoi_value s + 1"
  using Atoi_value_range [of s] by (intro wrap64_id) (auto simp: in_int64_def)

lemma attempts_stored: "in_int64 mx \<Longrightarrow> Atoi_value s < mx \<Longrightarrow> Atoi_value (Itoa (Atoi_value s + 1)) = Atoi_value s + 1"
  using Atoi_value_range [of s] by (intro Atoi_value_Itoa) (auto simp: in_int64_def)

definition phone_reward :: "ext \<Rightarrow> (string \<times> string) list \<Rightarrow> PhoneChangeRecord option" where
  "phone_reward E vals = (case uuid_parse E (field ''driver_id'' vals) of
       None \<Rightarrow> None
     | Some u \<Rightarrow> if field ''new_phone'' vals = [] then None
                else Some \<lparr>pcr_DriverID = u, pcr_NewPhone = field ''new_phone'' vals\<rparr>)"

definition phone_errors :: challenge_errors where
  "phone_errors = \<lparr>ce_expired = ErrPhoneChangeOTPExpired, ce_maxed = ErrPhoneChangeMaxAttempts,
     ce_invalid = ErrPhoneChangeOTPInvalid, ce_broken = ErrPhoneChangeSessionNotFound\<rparr>"

lemmas code_store_defs = run_andE cHGetAll_def cHSet_def cDel_def code_view_def challenge_step_def Let_def

lemma phone_verify:
  assumes "code_ok (ph_maxAttempts s) (phoneChangeKey i) w"
  shows "(fst (run (PhoneChangeStore_Verify E s i g) w),
          code_view (phone_reward E) (phoneChangeKey i) (snd (run (PhoneChangeStore_Verify E s i g) w)))
       = challenge_step (ph_maxAttempts s) phone_errors (PhoneChangeStore_hash E s i g)
           (code_view (phone_reward E) (phoneChangeKey i) w)
     \<and> code_ok (ph_maxAttempts s) (phoneChangeKey i) (snd (run (PhoneChangeStore_Verify E s i g) w))"
  using assms
proof (cases rule: code_okE)
  case absent
  with assms show ?thesis by (simp add: PhoneChangeStore_Verify_def code_store_defs phone_errors_def code_ok_def)
next
  case (present vals t)
  with assms show ?thesis
    by (auto simp: PhoneChangeStore_Verify_def code_store_defs phone_errors_def phone_reward_def code_ok_def attempts_step
        attempts_stored split: option.splits)
qed

lemmas phone_refines = phone_verify [THEN conjunct1] phone_verify [THEN conjunct2]

interpretation phone: challenge "PhoneChangeStore_Verify E s i" "code_view (phone_reward E) (phoneChangeKey i)"
    "PhoneChangeStore_hash E s i" "ph_maxAttempts s" phone_errors "code_ok (ph_maxAttempts s) (phoneChangeKey i)"
  for E s i
  by unfold_locales (rule phone_refines code_ageing code_ok_later, assumption?)+

definition action_reward :: "ext \<Rightarrow> (string \<times> string) list \<Rightarrow> DispActionPayload option" where
  "action_reward E vals = map_option
     (\<lambda>u. \<lparr>dap_DispatcherID = u, dap_Phone = field ''phone'' vals, dap_NewPhone = field ''new_phone'' vals\<rparr>)
     (uuid_parse E (field ''dispatcher_id'' vals))"

definition action_errors :: challenge_errors where
  "action_errors = \<lparr>ce_expired = ErrDispActionExpired, ce_maxed = ErrDispActionMaxAttempts,
     ce_invalid = ErrDispActionInvalidOTP, ce_broken = ErrDispActionNotFound\<rparr>"

lemma action_verify:
  assumes "code_ok (da_maxAttempts s) (dispActionKey s i) w"
  shows "(fst (run (DispatcherOTPActionStore_Verify E s i g) w),
          code_view (action_reward E) (dispActionKey s i) (snd (run (DispatcherOTPActionStore_Verify E s i g) w)))
       = challenge_step (da_maxAttempts s) action_errors (DispatcherOTPActionStore_hash E s i g)
           (code_view (action_reward E) (dispActionKey s i) w)
     \<and> code_ok (da_maxAttempts s) (dispActionKey s i) (snd (run (DispatcherOTPActionStore_Verify E s i g) w))"
  using assms
proof (cases rule: code_okE)
  case absent
  with assms show ?thesis by (simp add: DispatcherOTPActionStore_Verify_def code_store_defs action_errors_def code_ok_def)
next
  case (present vals t)
  with assms show ?thesis
    by (auto simp: DispatcherOTPActionStore_Verify_def code_store_defs action_errors_def action_reward_def code_ok_def attempts_step
        attempts_stored split: option.splits)
qed

lemmas action_refines = action_verify [THEN conjunct1] action_verify [THEN conjunct2]

interpretation action: challenge "DispatcherOTPActionStore_Verify E s i"
    "code_view (action_reward E) (dispActionKey s i)" "DispatcherOTPActionStore_hash E s i" "da_maxAttempts s"
    action_errors "code_ok (da_maxAttempts s) (dispActionKey s i)"
  for E s i
  by unfold_locales (rule action_refines code_ageing code_ok_later, assumption?)+

text \<open>The OTP store, when it counts no attempts per phone beside those per code.\<close>

definition otp_reward :: "(string \<times> string) list \<Rightarrow> string option" where
  "otp_reward vals = Some (field ''request_id'' vals)"

definition otp_errors :: challenge_errors where
  "otp_errors = \<lparr>ce_expired = ErrOTPExpired, ce_maxed = ErrOTPMaxAttempts, ce_invalid = ErrOTPInvalid,
     ce_broken = ErrOTPInvalid\<rparr>"

definition otp_ok :: "OTPStore \<Rightarrow> string \<Rightarrow> rworld \<Rightarrow> bool" where
  "otp_ok s phone w \<longleftrightarrow> code_ok (os_maxAttempts s) (otpKey s phone) w
     \<and> \<not> (os_verifyAttemptsPerPhone s > 0 \<and> os_verifyAttemptsWindow s > 0)"

lemma otp_verify:
  assumes "otp_ok s phone w"
  shows "(fst (run (OTPStore_Verify E s phone g) w),
          code_view otp_reward (otpKey s phone) (snd (run (OTPStore_Verify E s phone g) w)))
       = challenge_step (os_maxAttempts s) otp_errors (OTPStore_hash E s phone g)
           (code_view otp_reward (otpKey s phone) w)
     \<and> otp_ok s phone (snd (run (OTPStore_Verify E s phone g) w))"
  using assms [unfolded otp_ok_def, THEN conjunct1] assms [unfolded otp_ok_def, THEN conjunct2]
proof (cases rule: code_okE)
  case absent
  with assms show ?thesis by (simp add: OTPStore_Verify_def code_store_defs otp_errors_def code_ok_def otp_ok_def)
next
  case (present vals t)
  with assms show ?thesis
    by (auto simp: OTPStore_Verify_def code_store_defs otp_errors_def otp_reward_def code_ok_def otp_ok_def attempts_step
        attempts_stored split: option.splits)
qed

lemmas otp_refines = otp_verify [THEN conjunct1] otp_verify [THEN conjunct2]

lemma otp_ok_later: "otp_ok s phone w \<Longrightarrow> otp_ok s phone (w\<lparr>w_now := w_now w + int d\<rparr>)"
  by (simp add: otp_ok_def code_ok_later)

interpretation otp: challenge "OTPStore_Verify E s phone" "code_view otp_reward (otpKey s phone)"
    "OTPStore_hash E s phone" "os_maxAttempts s" otp_errors "otp_ok s phone"
  for E s phone
  by unfold_locales (rule otp_refines code_ageing otp_ok_later, assumption?)+

end
