(* ===== verification/Code_Guarantees.thy ===== *)
theory Code_Guarantees
  imports Challenge Samples
begin

text \<open>
  What the one-time codes guarantee, and where the OTP store does not: the bound on guesses for each of
  the three stores, the limits on sending, and the guesses that the limit per phone lets through.
\<close>

section \<open>A new code\<close>

text \<open>\<open>HSet\<close> and \<open>Expire\<close> in one pipeline: the hash is there and lives for the time given.\<close>

lemma open_hash:
  assumes "pipeline (cHSet k kvs # quiet (cExpire k ttl) # cs) now m = (Inr (), m')" and "0 < ttl"
  shows "\<exists>h. pipeline cs now (rd_put k (RHash (hset_fields kvs h)) (Some (now + ttl)) m) = (Inr (), m')"
proof -
  have put: "rd_put k v t (rd_put k v' t' m) = rd_put k v t m" for v t v' t'
    by (simp add: rd_put_def)
  show ?thesis
  proof (cases "rd_live now m k")
    case None
    with assms show ?thesis by (force simp: cHSet_def cExpire_def quiet_def put Let_def split: prod.splits sum.splits)
  next
    case (Some e)
    show ?thesis
    proof (cases "re_value e")
      case (RHash h)
      have "re_live now \<lparr>re_value = RHash (hset_fields kvs h), re_expires = re_expires e\<rparr>"
        by (rule rd_live_keeps_expiry [OF Some])
      with assms Some RHash show ?thesis
        by (intro exI [of _ h]) (simp add: cHSet_def cExpire_def quiet_def put Let_def split: prod.splits sum.splits)
    qed (use assms Some in \<open>simp_all add: cHSet_def Let_def split: prod.splits\<close>)
  qed
qed

lemma zero_attempts [simp]: "Atoi_value ''0'' = 0"
  using Atoi_value_Itoa [of 0] by (simp add: Itoa_def nat_digits.simps digit_char_def in_int64_def)

lemma open_pair:
  assumes "pipeline [cHSet k kvs, quiet (cExpire k ttl)] now m = (Inr (), m')" and "0 < ttl"
  shows "\<exists>h. \<forall>t < now + ttl. rd_value t m' k = Some (RHash (hset_fields kvs h))"
  using open_hash [OF assms] by auto

lemma phone_created:
  assumes "reliable w" and "0 < ph_ttl s" and "in_int64 (ph_maxAttempts s)" and "uuid_laws E" and "newPhone \<noteq> []"
    and "run (PhoneChangeStore_Create E s u newPhone code) w = (Inr i, w')"
  shows "code_ok (ph_maxAttempts s) (phoneChangeKey i) w'"
    and "int d < ph_ttl s \<Longrightarrow> code_view (phone_reward E) (phoneChangeKey i) (w'\<lparr>w_now := w_now w' + int d\<rparr>)
          = Some (0, PhoneChangeStore_hash E s i code, Some \<lparr>pcr_DriverID = u, pcr_NewPhone = newPhone\<rparr>)"
proof -
  define kvs where "kvs = [(''driver_id'', uuid_string E u), (''new_phone'', newPhone),
     (''hash'', PhoneChangeStore_hash E s i code), (''attempts'', ''0'')]"
  from assms(1,6) have i: "i = uuid_string E (fresh_id w)"
    and pipe: "pipeline [cHSet (phoneChangeKey i) kvs, quiet (cExpire (phoneChangeKey i) (ph_ttl s))] (w_now w) (w_redis w)
       = (Inr (), w_redis w')"
    and w': "w_now w' = w_now w" "reliable w'"
    by (auto simp: PhoneChangeStore_Create_def run_andE Let_def kvs_def prod_eq_iff simp del: pipeline.simps
        split: prod.splits sum.splits)
  from open_pair [OF pipe assms(2)] obtain h where
    h: "rd_value t (w_redis w') (phoneChangeKey i) = Some (RHash (hset_fields kvs h))" if "t < w_now w + ph_ttl s" for t
    by blast
  show "code_ok (ph_maxAttempts s) (phoneChangeKey i) w'"
    using h [of "w_now w"] w' assms(2,3) by (simp add: code_ok_def kvs_def)
  show "code_view (phone_reward E) (phoneChangeKey i) (w'\<lparr>w_now := w_now w' + int d\<rparr>)
          = Some (0, PhoneChangeStore_hash E s i code, Some \<lparr>pcr_DriverID = u, pcr_NewPhone = newPhone\<rparr>)"
    if "int d < ph_ttl s"
    using h [of "w_now w + int d"] w' assms(4,5) that
    by (simp add: code_view_def kvs_def phone_reward_def)
qed

section \<open>Change of phone\<close>

text \<open>
  C15: a code for a change of phone is guessed at most \<open>maxAttempts\<close> times: whatever is tried on a new
  session, with whatever delays, at most one try is accepted, it comes before the attempts are used up,
  its code has the hash of the code that was sent, and the answer is the driver and the number the session
  was opened for.
\<close>

theorem phone_change_bound:
  assumes "reliable w" and "0 < ph_ttl s" and "in_int64 (ph_maxAttempts s)" and "uuid_laws E" and "newPhone \<noteq> []"
    and "run (PhoneChangeStore_Create E s u newPhone code) w = (Inr i, w1)"
    and "play (PhoneChangeStore_Verify E s i) gs w1 = (rs, w2)" and "k < length gs" and "rs ! k = Inr r"
  shows "int k < ph_maxAttempts s
       \<and> PhoneChangeStore_hash E s i (snd (gs ! k)) = PhoneChangeStore_hash E s i code
       \<and> r = \<lparr>pcr_DriverID = u, pcr_NewPhone = newPhone\<rparr>
       \<and> (\<forall>j < length gs. j \<noteq> k \<longrightarrow> isl (rs ! j))"
proof -
  note new = phone_created [OF assms(1-6)]
  have "code_view (phone_reward E) (phoneChangeKey i) w1
      = Some (0, PhoneChangeStore_hash E s i code, Some \<lparr>pcr_DriverID = u, pcr_NewPhone = newPhone\<rparr>)"
    using new(2) [of 0] assms(2) by simp
  from phone.guesses [OF new(1) this assms(7-9)] show ?thesis by auto
qed

text \<open>
  The code that was sent is accepted within the time to live, and answers the driver and the number
  the session was opened for.
\<close>

theorem phone_change_accepts:
  assumes "reliable (w :: rworld)" and "0 < ph_maxAttempts s" and "in_int64 (ph_maxAttempts s)" and "uuid_laws E" and "newPhone \<noteq> []"
    and "sha256_hex E (i @ '':'' @ code @ '':'' @ ph_secret s) \<noteq> []"
    and "run (PhoneChangeStore_Create E s u newPhone code) w = (Inr i, w1)" and "int d < ph_ttl s"
  shows "fst (run (PhoneChangeStore_Verify E s i code) (w1\<lparr>w_now := w_now w1 + int d\<rparr>))
       = Inr \<lparr>pcr_DriverID = u, pcr_NewPhone = newPhone\<rparr>"
proof -
  have "0 < ph_ttl s" using assms(8) by simp
  note new = phone_created [OF assms(1) this assms(3-5,7)]
  from phone.refines [where E = E and g = code, OF phone.calm_later [OF new(1), of d]] new(2) [OF assms(8)] assms(2,6)
  show ?thesis by (simp add: challenge_step_def PhoneChangeStore_hash_def)
qed

definition sample_rworld :: rworld where
  "sample_rworld = \<lparr>w_db = empty_db False, w_faults = [], w_now = 100, w_gen = of_nat, w_drawn = 5, w_redis = fmempty\<rparr>"

lemma sample_rworld_simps [simp]:
  "reliable sample_rworld" "w_now sample_rworld = 100" "w_redis sample_rworld = fmempty"
  "fresh_id sample_rworld = 5" "w_drawn sample_rworld = 5" "w_db sample_rworld = empty_db False"
  by (simp_all add: sample_rworld_def reliable_def fresh_id_def)

lemma sample_sha [simp]: "sha256_hex sample_ext s = s"
  by (simp add: sample_ext_def)

definition sample_phone_store :: PhoneChangeStore where
  "sample_phone_store = \<lparr>ph_secret = ''s'', ph_ttl = 1000, ph_maxAttempts = 3\<rparr>"

lemma rd_live_empty [simp]: "rd_live t fmempty k = None"
  by (simp add: rd_live_def)

lemma sample_phone_session:
  "\<exists>w1. run (PhoneChangeStore_Create sample_ext sample_phone_store 7 ''+998901234567'' ''4711'') sample_rworld
       = (Inr (uuid_string sample_ext 5), w1)"
  by (simp add: PhoneChangeStore_Create_def run_andE cHSet_def cExpire_def quiet_def sample_phone_store_def Let_def)

theorem phone_change_accepts_witness:
  "\<exists>(w1 :: rworld) i. fst (run (PhoneChangeStore_Verify sample_ext sample_phone_store i ''4711'') (w1\<lparr>w_now := w_now w1 + 20\<rparr>))
       = Inr \<lparr>pcr_DriverID = 7, pcr_NewPhone = ''+998901234567''\<rparr>"
proof -
  obtain w1 where "run (PhoneChangeStore_Create sample_ext sample_phone_store 7 ''+998901234567'' ''4711'') sample_rworld
       = (Inr (uuid_string sample_ext 5), w1)"
    using sample_phone_session by blast
  then have "fst (run (PhoneChangeStore_Verify sample_ext sample_phone_store (uuid_string sample_ext 5) ''4711'')
       (w1\<lparr>w_now := w_now w1 + int 20\<rparr>)) = Inr \<lparr>pcr_DriverID = 7, pcr_NewPhone = ''+998901234567''\<rparr>"
    by (intro phone_change_accepts [OF _ _ _ sample_ext_laws])
       (simp_all add: sample_phone_store_def in_int64_def sample_ext_def)
  then show ?thesis unfolding of_nat_numeral by blast
qed

theorem phone_change_bound_witness:
  "\<exists>w1 i rs w2. play (PhoneChangeStore_Verify sample_ext sample_phone_store i) [(1, ''0000''), (2, ''4711''), (1, ''4711'')] w1
        = (rs, w2) \<and> rs ! 1 = Inr \<lparr>pcr_DriverID = 7, pcr_NewPhone = ''+998901234567''\<rparr> \<and> isl (rs ! 0) \<and> isl (rs ! 2)"
proof -
  let ?i = "uuid_string sample_ext 5" and ?gs = "[(1 :: nat, ''0000''), (2, ''4711''), (1, ''4711'')]"
  obtain w1 where c: "run (PhoneChangeStore_Create sample_ext sample_phone_store 7 ''+998901234567'' ''4711'') sample_rworld
       = (Inr ?i, w1)"
    using sample_phone_session by blast
  obtain rs w2 where p: "play (PhoneChangeStore_Verify sample_ext sample_phone_store ?i) ?gs w1 = (rs, w2)" by force
  have "rs ! 1 = Inr \<lparr>pcr_DriverID = 7, pcr_NewPhone = ''+998901234567''\<rparr>"
    using c p
    by (auto simp: PhoneChangeStore_Create_def run_andE cHSet_def cExpire_def quiet_def sample_phone_store_def
        PhoneChangeStore_Verify_def PhoneChangeStore_hash_def phoneChangeKey_def cHGetAll_def cDel_def
        sample_ext_laws in_int64_def Atoi_value_Itoa Let_def split: prod.splits)
  moreover from phone_change_bound [OF _ _ _ sample_ext_laws _ c p _ this]
  have "isl (rs ! 0) \<and> isl (rs ! 2)" by (simp add: sample_phone_store_def in_int64_def)
  ultimately show ?thesis using p by blast
qed

section \<open>Sending codes\<close>

text \<open>A program that answers on a reliable server and leaves a key as it is.\<close>

definition leaves_key :: "string \<Rightarrow> ('z, 'a) rprog \<Rightarrow> bool" where
  "leaves_key k m \<longleftrightarrow> (\<forall>w. reliable w \<longrightarrow> reliable (snd (run m w)) \<and> w_now (snd (run m w)) = w_now w
     \<and> fmlookup (w_redis (snd (run m w))) k = fmlookup (w_redis w) k)"

lemma leaves_keyD:
  assumes "leaves_key k m" and "reliable w" and "run m w = (a, w')"
  shows "reliable w'" "w_now w' = w_now w" "fmlookup (w_redis w') k = fmlookup (w_redis w) k"
    "rd_live t (w_redis w') k = rd_live t (w_redis w) k"
  using assms by (auto simp: leaves_key_def rd_live_def dest!: spec [of _ w])

lemma leaves_key_return: "leaves_key k (ret a)"
  by (simp add: leaves_key_def)

lemma leaves_key_bind:
  "leaves_key k m \<Longrightarrow> (\<And>a. leaves_key k (f a)) \<Longrightarrow> leaves_key k (State_Monad.bind m f)"
  by (auto simp: leaves_key_def case_prod_unfold)

lemma leaves_key_andE: "leaves_key k m \<Longrightarrow> (\<And>a. leaves_key k (f a)) \<Longrightarrow> leaves_key k (andE m f)"
  unfolding andE_def by (intro leaves_key_bind) (auto split: sum.splits intro: leaves_key_return)

lemma leaves_key_if: "leaves_key k m \<Longrightarrow> leaves_key k n \<Longrightarrow> leaves_key k (if b then m else n)"
  by simp

lemma leaves_key_call: "(\<And>now m. fmlookup (snd (c now m)) k = fmlookup m k) \<Longrightarrow> leaves_key k (rd_call c)"
  by (simp add: leaves_key_def)

lemma lookup_put [simp]: "fmlookup (rd_put k v t m) k' =
    (if k' = k then Some \<lparr>re_value = v, re_expires = t\<rparr> else fmlookup m k')"
  by (simp add: rd_put_def)

lemma command_leaves:
  "k \<noteq> k' \<Longrightarrow> fmlookup (snd (cExists k' now m)) k = fmlookup m k"
  "k \<noteq> k' \<Longrightarrow> fmlookup (snd (cSet k' v d now m)) k = fmlookup m k"
  "k \<noteq> k' \<Longrightarrow> fmlookup (snd (cHSet k' kvs now m)) k = fmlookup m k"
  "k \<noteq> k' \<Longrightarrow> fmlookup (snd (cExpire k' d now m)) k = fmlookup m k"
  "k \<noteq> k' \<Longrightarrow> fmlookup (snd (cIncr k' now m)) k = fmlookup m k"
  "fmlookup (snd (quiet c now m)) k = fmlookup (snd (c now m)) k"
  by (auto simp: cExists_def cSet_def cHSet_def cExpire_def cIncr_def quiet_def split: option.splits rvalue.splits)

lemma pipeline_leaves:
  assumes "\<And>c now m. c \<in> set cs \<Longrightarrow> fmlookup (snd (c now m)) k = fmlookup m k"
  shows "fmlookup (snd (pipeline cs now m)) k = fmlookup m k"
  using assms
proof (induction cs arbitrary: m)
  case (Cons c cs)
  have "fmlookup (snd (pipeline cs now (snd (c now m)))) k = fmlookup (snd (c now m)) k"
    by (rule Cons.IH) (simp add: Cons.prems)
  with Cons.prems [of c now m] show ?case by (simp add: case_prod_unfold Let_def)
qed simp

lemma otp_key_distinct:
  "sendCountKey s phone \<noteq> otpKey s phone" "sendCountKey s phone \<noteq> cooldownKey s phone"
  "sendCountKey s phone \<noteq> sendCountIPKey s ip" "cooldownKey s phone \<noteq> otpKey s phone"
  "verifyAttemptsKey s phone \<noteq> otpKey s phone"
  by (auto simp: otp_keys dest: arg_cong [of _ _ length])

text \<open>What follows the count of a phone in \<open>SaveOTP\<close> leaves that count alone.\<close>

definition save_rest :: "ext \<Rightarrow> OTPStore \<Rightarrow> string \<Rightarrow> string \<Rightarrow> string \<Rightarrow> string \<Rightarrow> ('z, err + unit) rprog" where
  "save_rest E s phone code requestID ip =
     andE (if ip \<noteq> [] \<and> os_sendLimitPerIP s > 0
           then incrWithLimit (sendCountIPKey s ip) (os_sendLimitPerIP s) (os_sendWindow s)
           else ret (Inr ())) (\<lambda>_.
     rd_call (pipeline (
       [cHSet (otpKey s phone) [(''hash'', OTPStore_hash E s phone code), (''attempts'', ''0''), (''request_id'', requestID)],
        quiet (cExpire (otpKey s phone) (os_ttl s))]
       @ (if os_cooldown s > 0 then [cSet (cooldownKey s phone) ''1'' (os_cooldown s)] else []))))"

lemma save_rest_leaves: "leaves_key (sendCountKey s phone) (save_rest E s phone code requestID ip)"
  unfolding save_rest_def incrWithLimit_def
  by (intro leaves_key_andE leaves_key_bind leaves_key_if leaves_key_return leaves_key_call pipeline_leaves)
     (auto simp: command_leaves otp_key_distinct split: if_splits)

lemma run_SaveOTP:
  assumes "reliable w" and "0 < os_sendLimitPerPhone s"
  shows "\<exists>w0. reliable w0 \<and> w_now w0 = w_now w \<and> w_redis w0 = w_redis w
     \<and> run (OTPStore_SaveOTP E s phone code requestID ip) w =
         (if os_cooldown s > 0 \<and> rd_live (w_now w) (w_redis w) (cooldownKey s phone) \<noteq> None
          then (Inl ErrOTPCooldown, w0)
          else run (andE (incrWithLimit (sendCountKey s phone) (os_sendLimitPerPhone s) (os_sendWindow s))
                 (\<lambda>_. save_rest E s phone code requestID ip)) w0)"
proof (cases "os_cooldown s > 0")
  case True
  with assms show ?thesis
    by (intro exI [of _ "tick w"])
       (simp add: OTPStore_SaveOTP_def save_rest_def cExists_def)
next
  case False
  with assms show ?thesis by (intro exI [of _ w]) (simp add: OTPStore_SaveOTP_def save_rest_def)
qed

text \<open>The same for any counter of \<open>incrWithLimit\<close>.\<close>

definition counter :: "string \<Rightarrow> rworld \<Rightarrow> int \<Rightarrow> time \<Rightarrow> bool" where
  "counter k w n t \<longleftrightarrow> in_int64 n \<and> 0 < n \<and> w_now w < t
     \<and> fmlookup (w_redis w) k = Some \<lparr>re_value = RString (Itoa n), re_expires = Some t\<rparr>"

lemma counter_live: "counter k w n t \<Longrightarrow> rd_live (w_now w) (w_redis w) k = Some \<lparr>re_value = RString (Itoa n), re_expires = Some t\<rparr>"
  by (simp add: counter_def rd_live_def)

lemma incr_calm:
  "reliable w \<Longrightarrow> run (incrWithLimit k limit window) w = (r, w1) \<Longrightarrow> reliable w1 \<and> w_now w1 = w_now w"
  by (auto simp: incrWithLimit_def run_andE split: sum.splits prod.splits if_splits)

lemma incr_new:
  assumes "reliable w" and "0 < window" and "run (incrWithLimit k limit window) w = (r, w1)"
    and "rd_live (w_now w) (w_redis w) k = None"
  shows "counter k w1 1 (w_now w + window) \<and> (r = Inr () \<longrightarrow> 1 \<le> limit)"
  using assms by (auto simp: incrWithLimit_def run_andE cIncr_def cExpire_def counter_def in_int64_def split: if_splits)

lemma incr_old:
  assumes "reliable w" and "run (incrWithLimit k limit window) w = (r, w1)" and "counter k w n t"
  shows "\<exists>n'. counter k w1 n' t \<and> n \<le> n' \<and> (r = Inr () \<longrightarrow> n' = n + 1 \<and> n' \<le> limit)"
  using assms counter_live [OF assms(3)]
  by (auto simp: incrWithLimit_def run_andE cIncr_def counter_def Atoi_Itoa split: if_splits)

lemma counter_same:
  "reliable w \<Longrightarrow> leaves_key k m \<Longrightarrow> run m w = (a, w') \<Longrightarrow> counter k w' n t = counter k w n t"
  using leaves_keyD(1-3) [of k m w a w'] by (auto simp: counter_def)

text \<open>One call of \<open>SaveOTP\<close> and the counter of its phone.\<close>

lemma save_cases:
  assumes "reliable w" and "0 < os_sendLimitPerPhone s"
    and "run (OTPStore_SaveOTP E s phone code requestID ip) w = (r, w1)"
  obtains (cooling) "r = Inl ErrOTPCooldown" "reliable w1" "w_now w1 = w_now w" "w_redis w1 = w_redis w"
    | (counted) w0 r2 w2 where "reliable w0" "w_now w0 = w_now w" "w_redis w0 = w_redis w"
      "run (incrWithLimit (sendCountKey s phone) (os_sendLimitPerPhone s) (os_sendWindow s)) w0 = (r2, w2)"
      "isl r2 \<longrightarrow> isl r" "reliable w1" "w_now w1 = w_now w"
      "\<And>n t. counter (sendCountKey s phone) w1 n t = counter (sendCountKey s phone) w2 n t"
proof -
  let ?k = "sendCountKey s phone"
  obtain w0 where w0: "reliable w0" "w_now w0 = w_now w" "w_redis w0 = w_redis w"
    and run: "run (OTPStore_SaveOTP E s phone code requestID ip) w =
         (if os_cooldown s > 0 \<and> rd_live (w_now w) (w_redis w) (cooldownKey s phone) \<noteq> None
          then (Inl ErrOTPCooldown, w0)
          else run (andE (incrWithLimit ?k (os_sendLimitPerPhone s) (os_sendWindow s))
                 (\<lambda>_. save_rest E s phone code requestID ip)) w0)"
    using run_SaveOTP [OF assms(1,2)] by blast
  show ?thesis
  proof (cases "os_cooldown s > 0 \<and> rd_live (w_now w) (w_redis w) (cooldownKey s phone) \<noteq> None")
    case True
    with run assms(3) w0 that(1) show ?thesis by simp
  next
    case False
    have both: "run (andE (incrWithLimit ?k (os_sendLimitPerPhone s) (os_sendWindow s))
        (\<lambda>_. save_rest E s phone code requestID ip)) w0 = (r, w1)"
      using run assms(3) by (simp only: False if_False)
    obtain r2 w2 where incr: "run (incrWithLimit ?k (os_sendLimitPerPhone s) (os_sendWindow s)) w0 = (r2, w2)"
      by force
    note calm = incr_calm [OF w0(1) incr]
    show ?thesis
    proof (cases r2)
      case (Inl e)
      with both incr have "r = Inl e" "w1 = w2" by (simp_all add: run_andE)
      with that(2) [OF w0 incr] calm w0 Inl show ?thesis by simp
    next
      case (Inr x)
      with both incr have rest: "run (save_rest E s phone code requestID ip) w2 = (r, w1)" by (simp add: run_andE)
      with that(2) [OF w0 incr] calm w0 Inr leaves_keyD [OF save_rest_leaves _ rest]
        counter_same [OF _ save_rest_leaves rest]
      show ?thesis by simp
    qed
  qed
qed

text \<open>
  Over a stretch of calls: a counter that lives to its end admits \<open>limit - n\<close> of them.
\<close>

lemma sends_counted:
  assumes "reliable w" and "0 < os_sendLimitPerPhone s" and "counter (sendCountKey s phone) w n t"
    and "w_now w + int (sum_list (map fst gs)) < t"
    and "play (\<lambda>code. OTPStore_SaveOTP E s phone code requestID ip) gs w = (rs, w')"
  shows "int (length (filter (\<lambda>r. \<not> isl r) rs)) \<le> max 0 (os_sendLimitPerPhone s - n)"
  using assms
proof (induction gs arbitrary: w n rs)
  case (Cons x gs)
  obtain d g where x: "x = (d, g)" by force
  let ?w = "w\<lparr>w_now := w_now w + int d\<rparr>"
  from Cons.prems(5) x obtain r w1 rs' where run: "run (OTPStore_SaveOTP E s phone g requestID ip) ?w = (r, w1)"
    and rest: "play (\<lambda>code. OTPStore_SaveOTP E s phone code requestID ip) gs w1 = (rs', w')" and rs: "rs = r # rs'"
    by (auto split: prod.splits)
  have now: "counter (sendCountKey s phone) ?w n t" "reliable ?w" using Cons.prems(1,3,4) x by (auto simp: counter_def)
  have IH: "int (length (filter (\<lambda>r. \<not> isl r) rs')) \<le> max 0 (os_sendLimitPerPhone s - n')"
    if "counter (sendCountKey s phone) w1 n' t" "reliable w1" "w_now w1 = w_now ?w" for n'
    using Cons.IH [OF that(2) Cons.prems(2) that(1) _ rest] that(3) Cons.prems(4) x by simp
  from now(2) Cons.prems(2) run show ?case
  proof (cases rule: save_cases)
    case cooling
    with IH [of n] now rs show ?thesis by (simp add: counter_def)
  next
    case (counted w0 r2 w2)
    have "counter (sendCountKey s phone) w0 n t" using counted(2,3) now(1) by (simp add: counter_def)
    from incr_old [OF counted(1,4) this] obtain n' where n': "counter (sendCountKey s phone) w2 n' t" "n \<le> n'"
      "r2 = Inr () \<longrightarrow> n' = n + 1 \<and> n' \<le> os_sendLimitPerPhone s" by blast
    from IH [of n'] counted(6-8) n' have le: "int (length (filter (\<lambda>r. \<not> isl r) rs')) \<le> max 0 (os_sendLimitPerPhone s - n')"
      by simp
    show ?thesis
    proof (cases "isl r")
      case True
      with le n'(2) rs show ?thesis by simp
    next
      case False
      with counted(5) have "r2 = Inr ()" by (cases r2) auto
      with n'(3) le False rs show ?thesis by simp
    qed
  qed
qed simp

text \<open>
  C17: within one window no more codes are sent to a phone than \<open>sendLimitPerPhone\<close>: over any series of
  calls of \<open>SaveOTP\<close> for a phone that has no count yet, with whatever delays, as long as the series is
  shorter than the window.
\<close>

theorem otp_send_limit:
  assumes "reliable w" and "0 < os_sendLimitPerPhone s"
    and "rd_live (w_now w) (w_redis w) (sendCountKey s phone) = None"
    and "int (sum_list (map fst gs)) < os_sendWindow s"
    and "play (\<lambda>code. OTPStore_SaveOTP E s phone code requestID ip) gs w = (rs, w')"
  shows "int (length (filter (\<lambda>r. \<not> isl r) rs)) \<le> os_sendLimitPerPhone s"
  using assms
proof (induction gs arbitrary: w rs)
  case (Cons x gs)
  obtain d g where x: "x = (d, g)" by force
  let ?w = "w\<lparr>w_now := w_now w + int d\<rparr>"
  from Cons.prems(5) x obtain r w1 rs' where run: "run (OTPStore_SaveOTP E s phone g requestID ip) ?w = (r, w1)"
    and rest: "play (\<lambda>code. OTPStore_SaveOTP E s phone code requestID ip) gs w1 = (rs', w')" and rs: "rs = r # rs'"
    by (auto split: prod.splits)
  have calm: "reliable ?w" using Cons.prems(1) by simp
  have none: "rd_live (w_now ?w) (w_redis ?w) (sendCountKey s phone) = None"
    using Cons.prems(3) by (auto simp: rd_live_def re_live_def split: option.splits if_splits)
  from calm Cons.prems(2) run show ?case
  proof (cases rule: save_cases)
    case cooling
    with Cons.IH [OF _ Cons.prems(2) _ _ rest] none Cons.prems(4) x rs show ?thesis by simp
  next
    case (counted w0 r2 w2)
    have "0 < os_sendWindow s" using Cons.prems(4) by linarith
    from incr_new [OF counted(1) this counted(4)] counted(2,3) none
    have first: "counter (sendCountKey s phone) w2 1 (w_now ?w + os_sendWindow s)"
      "r2 = Inr () \<longrightarrow> 1 \<le> os_sendLimitPerPhone s" by simp_all
    with sends_counted [OF _ Cons.prems(2) _ _ rest, of 1 "w_now ?w + os_sendWindow s"] counted(6-8) Cons.prems(4) x
    have "int (length (filter (\<lambda>r. \<not> isl r) rs')) \<le> max 0 (os_sendLimitPerPhone s - 1)" by simp
    with Cons.prems(2) rs show ?thesis by (cases "isl r") simp_all
  qed
qed simp

text \<open>What a successful \<open>SaveOTP\<close> stores.\<close>

definition save_commands :: "ext \<Rightarrow> OTPStore \<Rightarrow> string \<Rightarrow> string \<Rightarrow> string \<Rightarrow> unit rcmd list" where
  "save_commands E s phone code requestID =
     cHSet (otpKey s phone) [(''hash'', OTPStore_hash E s phone code), (''attempts'', ''0''), (''request_id'', requestID)]
     # quiet (cExpire (otpKey s phone) (os_ttl s))
     # (if os_cooldown s > 0 then [cSet (cooldownKey s phone) ''1'' (os_cooldown s)] else [])"

definition counted_send :: "OTPStore \<Rightarrow> string \<Rightarrow> string \<Rightarrow> ('z, err + unit) rprog" where
  "counted_send s phone ip =
     andE (if os_sendLimitPerPhone s > 0
           then incrWithLimit (sendCountKey s phone) (os_sendLimitPerPhone s) (os_sendWindow s)
           else ret (Inr ())) (\<lambda>_.
     if ip \<noteq> [] \<and> os_sendLimitPerIP s > 0
     then incrWithLimit (sendCountIPKey s ip) (os_sendLimitPerIP s) (os_sendWindow s)
     else ret (Inr ()))"

definition calm :: "('z, 'a) rprog \<Rightarrow> bool" where
  "calm m \<longleftrightarrow> (\<forall>w. reliable w \<longrightarrow> reliable (snd (run m w)) \<and> w_now (snd (run m w)) = w_now w)"

lemma calm_bind: "calm m \<Longrightarrow> (\<And>a. calm (f a)) \<Longrightarrow> calm (State_Monad.bind m f)"
  by (auto simp: calm_def case_prod_unfold)

lemma calm_return: "calm (ret a)"
  by (simp add: calm_def)

lemma calm_call: "calm (rd_call c)"
  by (simp add: calm_def)

lemma calm_andE: "calm m \<Longrightarrow> (\<And>a. calm (f a)) \<Longrightarrow> calm (andE m f)"
  unfolding andE_def by (intro calm_bind) (auto split: sum.splits intro: calm_return)

lemma calm_if: "calm m \<Longrightarrow> calm n \<Longrightarrow> calm (if b then m else n)"
  by simp

lemma calm_counted_send: "calm (counted_send s phone ip)"
  unfolding counted_send_def incrWithLimit_def
  by (intro calm_andE calm_bind calm_if calm_return calm_call)

lemma counted_send_calm:
  "reliable w \<Longrightarrow> run (counted_send s phone ip) w = (r, w1) \<Longrightarrow> reliable w1 \<and> w_now w1 = w_now w"
  using calm_counted_send [of s phone ip] unfolding calm_def by (metis snd_conv)

lemma SaveOTP_sends:
  assumes "reliable w" and "\<not> (os_cooldown s > 0 \<and> rd_live (w_now w) (w_redis w) (cooldownKey s phone) \<noteq> None)"
  shows "\<exists>w0. reliable w0 \<and> w_now w0 = w_now w \<and> run (OTPStore_SaveOTP E s phone code requestID ip) w
     = run (andE (counted_send s phone ip) (\<lambda>_. rd_call (pipeline (save_commands E s phone code requestID)))) w0"
proof (cases "os_cooldown s > 0")
  case True
  with assms show ?thesis
    by (intro exI [of _ "tick w"])
       (simp add: OTPStore_SaveOTP_def cExists_def save_commands_def counted_send_def run_andE split: sum.split prod.split)
next
  case False
  with assms show ?thesis
    by (intro exI [of _ w])
       (simp add: OTPStore_SaveOTP_def save_commands_def counted_send_def run_andE split: sum.split prod.split)
qed

lemma SaveOTP_stores:
  assumes "reliable w" and "run (OTPStore_SaveOTP E s phone code requestID ip) w = (Inr (), w1)"
  obtains m where "pipeline (save_commands E s phone code requestID) (w_now w) m = (Inr (), w_redis w1)"
    and "reliable w1" and "w_now w1 = w_now w"
proof -
  have go: "\<not> (os_cooldown s > 0 \<and> rd_live (w_now w) (w_redis w) (cooldownKey s phone) \<noteq> None)"
    using assms by (auto simp: OTPStore_SaveOTP_def cExists_def split: if_splits)
  obtain w0 where w0: "reliable w0" "w_now w0 = w_now w"
    "run (andE (counted_send s phone ip) (\<lambda>_. rd_call (pipeline (save_commands E s phone code requestID)))) w0 = (Inr (), w1)"
    using SaveOTP_sends [OF assms(1) go, of E code requestID ip] assms(2) by auto
  obtain r w2 where send: "run (counted_send s phone ip) w0 = (r, w2)" by force
  from counted_send_calm [OF w0(1) send] w0 send that [of "w_redis w2"] show ?thesis
    by (cases r) (auto simp: run_andE prod_eq_iff)
qed

lemma otp_saved:
  assumes "reliable w" and "0 < os_ttl s" and "run (OTPStore_SaveOTP E s phone code requestID ip) w = (Inr (), w1)"
  shows "reliable w1 \<and> w_now w1 = w_now w
    \<and> (\<exists>h. \<forall>t < w_now w + os_ttl s. rd_value t (w_redis w1) (otpKey s phone) = Some (RHash (hset_fields
         [(''hash'', OTPStore_hash E s phone code), (''attempts'', ''0''), (''request_id'', requestID)] h)))"
proof -
  obtain m where m: "pipeline (save_commands E s phone code requestID) (w_now w) m = (Inr (), w_redis w1)"
      "reliable w1" "w_now w1 = w_now w"
    using SaveOTP_stores [OF assms(1,3)] by blast
  from open_hash [OF m(1) [unfolded save_commands_def] assms(2)] obtain h where
    "pipeline (if os_cooldown s > 0 then [cSet (cooldownKey s phone) ''1'' (os_cooldown s)] else []) (w_now w)
       (rd_put (otpKey s phone) (RHash (hset_fields
         [(''hash'', OTPStore_hash E s phone code), (''attempts'', ''0''), (''request_id'', requestID)] h))
         (Some (w_now w + os_ttl s)) m) = (Inr (), w_redis w1)" by blast
  then have stored: "w_redis w1 = snd (pipeline
       (if os_cooldown s > 0 then [cSet (cooldownKey s phone) ''1'' (os_cooldown s)] else []) (w_now w)
       (rd_put (otpKey s phone) (RHash (hset_fields
         [(''hash'', OTPStore_hash E s phone code), (''attempts'', ''0''), (''request_id'', requestID)] h))
         (Some (w_now w + os_ttl s)) m))" by simp
  have "\<forall>t < w_now w + os_ttl s. rd_value t (w_redis w1) (otpKey s phone) = Some (RHash (hset_fields
         [(''hash'', OTPStore_hash E s phone code), (''attempts'', ''0''), (''request_id'', requestID)] h))"
    using otp_key_distinct(4) [of s phone] by (simp add: stored cSet_def Let_def)
  with m(2,3) show ?thesis by blast
qed

lemma otp_cooling:
  assumes "reliable w" and "0 < os_cooldown s" and "run (OTPStore_SaveOTP E s phone code requestID ip) w = (Inr (), w1)"
  shows "fmlookup (w_redis w1) (cooldownKey s phone)
     = Some \<lparr>re_value = RString ''1'', re_expires = Some (w_now w + os_cooldown s)\<rparr>"
proof -
  obtain m where "pipeline (save_commands E s phone code requestID) (w_now w) m = (Inr (), w_redis w1)"
    using SaveOTP_stores [OF assms(1,3)] by blast
  then have "w_redis w1 = snd (pipeline (save_commands E s phone code requestID) (w_now w) m)" by simp
  with assms(2) show ?thesis by (simp add: save_commands_def cSet_def expiry_def Let_def case_prod_unfold)
qed

text \<open>
  While the cooldown of a code that was sent runs, another \<open>SaveOTP\<close> for the phone is refused and
  changes nothing in Redis, so the code that was sent stays the one that counts.
\<close>

theorem otp_cooldown:
  assumes "reliable (w :: rworld)" and "run (OTPStore_SaveOTP E s phone code requestID ip) w = (Inr (), w1)"
    and "int d < os_cooldown s"
  shows "\<exists>w2. run (OTPStore_SaveOTP E s phone code' requestID' ip') (w1\<lparr>w_now := w_now w1 + int d\<rparr>)
           = (Inl ErrOTPCooldown, w2) \<and> w_redis w2 = w_redis w1"
proof -
  have pos: "0 < os_cooldown s" using assms(3) by simp
  have calm: "reliable w1" "w_now w1 = w_now w" using SaveOTP_stores [OF assms(1,2)] by blast+
  with otp_cooling [OF assms(1) pos assms(2)] assms(3) pos show ?thesis
    by (simp add: OTPStore_SaveOTP_def cExists_def rd_live_def)
qed


section \<open>Guesses beyond the limit per phone\<close>

text \<open>A wrong guess when the limit per phone is used up: only the counter of the phone moves.\<close>

lemma limited_guess:
  assumes "reliable w" and "0 < os_verifyAttemptsPerPhone s" and "0 < os_verifyAttemptsWindow s"
    and "rd_value (w_now w) (w_redis w) (otpKey s phone) = Some (RHash vals)" and "vals \<noteq> []"
    and "Atoi_value (field ''attempts'' vals) < os_maxAttempts s"
    and "OTPStore_hash E s phone g \<noteq> field ''hash'' vals"
    and "counter (verifyAttemptsKey s phone) w n t" and "os_verifyAttemptsPerPhone s \<le> n" and "in_int64 (n + 1)"
  shows "\<exists>w1. run (OTPStore_Verify E s phone g) w = (Inl ErrOTPVerifyRateLimited, w1) \<and> reliable w1 \<and> w_now w1 = w_now w
     \<and> rd_value (w_now w) (w_redis w1) (otpKey s phone) = Some (RHash vals)
     \<and> counter (verifyAttemptsKey s phone) w1 (n + 1) t"
  using assms counter_live [OF assms(8)] otp_key_distinct(5) [of s phone]
  by (auto simp: OTPStore_Verify_def run_andE cHGetAll_def cIncr_def Atoi_Itoa counter_def Let_def)

text \<open>
  C16: the limit of attempts per phone does not protect a code, it takes the protection of
  \<open>maxAttempts\<close> away: once the phone's counter has reached its limit, any number of wrong answers to a code
  may be tried without using up its attempts, and the right answer after them is accepted.
\<close>

theorem otp_guesses_unbounded:
  assumes "reliable w" and "0 < os_verifyAttemptsPerPhone s" and "0 < os_verifyAttemptsWindow s"
    and "rd_value (w_now w) (w_redis w) (otpKey s phone) = Some (RHash vals)" and "vals \<noteq> []"
    and "Atoi_value (field ''attempts'' vals) < os_maxAttempts s"
    and "field ''hash'' vals = OTPStore_hash E s phone code" and "OTPStore_hash E s phone code \<noteq> []"
    and "counter (verifyAttemptsKey s phone) w n t" and "os_verifyAttemptsPerPhone s \<le> n"
    and "in_int64 (n + int (length gs))"
    and "\<forall>g \<in> set gs. OTPStore_hash E s phone g \<noteq> OTPStore_hash E s phone code"
  shows "fst (play (OTPStore_Verify E s phone) (map (Pair 0) (gs @ [code])) w)
     = replicate (length gs) (Inl ErrOTPVerifyRateLimited) @ [Inr (field ''request_id'' vals)]"
  using assms
proof (induction gs arbitrary: w n)
  case Nil
  then show ?case
    by (simp add: OTPStore_Verify_def run_andE cHGetAll_def Let_def split: prod.splits)
next
  case (Cons g gs)
  have "in_int64 (n + 1)" using Cons.prems(9,11) by (auto simp: in_int64_def counter_def)
  from limited_guess [OF Cons.prems(1-6) _ Cons.prems(9,10) this, of E g] Cons.prems(7,12) obtain w1 where
    w1: "run (OTPStore_Verify E s phone g) w = (Inl ErrOTPVerifyRateLimited, w1)" "reliable w1" "w_now w1 = w_now w"
      "rd_value (w_now w) (w_redis w1) (otpKey s phone) = Some (RHash vals)"
      "counter (verifyAttemptsKey s phone) w1 (n + 1) t" by auto
  have "fst (play (OTPStore_Verify E s phone) (map (Pair 0) (gs @ [code])) w1)
     = replicate (length gs) (Inl ErrOTPVerifyRateLimited) @ [Inr (field ''request_id'' vals)]"
    using Cons.prems(2,3,5-8,10-12) w1 by (intro Cons.IH [of w1 "n + 1"]) (simp_all add: ac_simps)
  with w1(1) show ?case by (simp add: case_prod_unfold Let_def)
qed

definition sample_otp :: OTPStore where
  "sample_otp = \<lparr>os_secret = ''s'', os_ttl = 1000, os_cooldown = 30, os_maxAttempts = 2, os_sendLimitPerPhone = 5,
     os_sendLimitPerIP = 0, os_sendWindow = 5000, os_verifyAttemptsPerPhone = 0, os_verifyAttemptsWindow = 0, os_prefix = []\<rparr>"

lemma sample_otp_saved:
  "\<exists>w1. run (OTPStore_SaveOTP sample_ext sample_otp ''p'' ''4711'' ''r'' ''ip'') sample_rworld = (Inr (), w1)"
  by (simp add: OTPStore_SaveOTP_def run_andE incrWithLimit_def cExists_def cIncr_def cExpire_def cHSet_def cSet_def
      quiet_def sample_otp_def otp_keys Let_def)

theorem otp_cooldown_witness:
  "\<exists>w1 w2. run (OTPStore_SaveOTP sample_ext sample_otp ''p'' ''4712'' ''r2'' []) (w1\<lparr>w_now := w_now w1 + 20\<rparr>)
     = (Inl ErrOTPCooldown, w2 :: rworld)"
proof -
  obtain w1 where "run (OTPStore_SaveOTP sample_ext sample_otp ''p'' ''4711'' ''r'' ''ip'') sample_rworld = (Inr (), w1)"
    using sample_otp_saved by blast
  from otp_cooldown [OF _ this, of 20 "''4712''" "''r2''" "[]"] show ?thesis
    unfolding of_nat_numeral by (auto simp: sample_otp_def)
qed


theorem otp_send_limit_witness:
  "\<exists>rs w2. play (\<lambda>code. OTPStore_SaveOTP sample_ext sample_otp ''p'' code ''r'' []) [(0, ''4711''), (10, ''4712''), (50, ''4713'')]
        sample_rworld = (rs, w2) \<and> int (length (filter (\<lambda>r. \<not> isl r) rs)) \<le> 5"
proof -
  obtain rs w2 where p: "play (\<lambda>code. OTPStore_SaveOTP sample_ext sample_otp ''p'' code ''r'' [])
      [(0, ''4711''), (10, ''4712''), (50, ''4713'')] sample_rworld = (rs, w2)" by force
  from otp_send_limit [OF _ _ _ _ p] have "int (length (filter (\<lambda>r. \<not> isl r) rs)) \<le> 5"
    by (simp add: sample_otp_def)
  with p show ?thesis by blast
qed

definition limited_otp :: OTPStore where
  "limited_otp = sample_otp\<lparr>os_verifyAttemptsPerPhone := 1, os_verifyAttemptsWindow := 900\<rparr>"

definition limited_redis :: redis where
  "limited_redis = rd_put (otpKey limited_otp ''p'') (RHash [(''hash'', OTPStore_hash sample_ext limited_otp ''p'' ''4711''),
       (''attempts'', ''0''), (''request_id'', ''r'')]) (Some 5000)
     (rd_put (verifyAttemptsKey limited_otp ''p'') (RString (Itoa 1)) (Some 5000) fmempty)"

theorem otp_guesses_unbounded_witness:
  "fst (play (OTPStore_Verify sample_ext limited_otp ''p'') (map (Pair 0) ([''0000'', ''0001'', ''0002'', ''0003''] @ [''4711'']))
      (sample_rworld\<lparr>w_redis := limited_redis\<rparr>))
   = replicate 4 (Inl ErrOTPVerifyRateLimited) @ [Inr ''r'']"
proof -
  let ?vals = "[(''hash'', OTPStore_hash sample_ext limited_otp ''p'' ''4711''), (''attempts'', ''0''), (''request_id'', ''r'')]"
  have distinct: "verifyAttemptsKey limited_otp ''p'' \<noteq> otpKey limited_otp ''p''" by (rule otp_key_distinct)
  have "counter (verifyAttemptsKey limited_otp ''p'') (sample_rworld\<lparr>w_redis := limited_redis\<rparr>) 1 5000"
    using distinct by (simp add: counter_def limited_redis_def in_int64_def)
  from otp_guesses_unbounded [OF _ _ _ _ _ _ _ _ this, of ?vals sample_ext "''4711''" "[''0000'', ''0001'', ''0002'', ''0003'']"]
  show ?thesis
    using distinct by (simp add: limited_redis_def limited_otp_def sample_otp_def OTPStore_hash_def in_int64_def
        eval_nat_numeral)
qed

end
