(* ===== verification/Session_Guarantees.thy ===== *)
theory Session_Guarantees
  imports Auth_Handlers Code_Guarantees
begin

text \<open>
  What signing in, refreshing and signing out do to the tokens that are out: who a token makes its bearer,
  when it stops working, and where it does not stop.
\<close>

section \<open>Laws of the token package\<close>

text \<open>
  Documented behaviour of \<open>golang-jwt\<close> beside \<open>jwt_laws\<close>: a signed token is in compact form, three parts
  of the URL alphabet separated by dots.
\<close>

definition jwt_compact :: "JWTManager \<Rightarrow> bool" where
  "jwt_compact m \<longleftrightarrow> (\<forall>k p s. jwt_sign m k p = Some s \<longrightarrow> s \<noteq> [] \<and> TrimSpace s = s \<and> isJWTFormat s)"

definition token_laws :: "ext \<Rightarrow> JWTManager \<Rightarrow> bool" where
  "token_laws E m \<longleftrightarrow> jwt_laws m \<and> jwt_compact m \<and> uuid_laws E \<and> uuid_nonempty E"

lemma token_lawsD:
  "token_laws E m \<Longrightarrow> jwt_laws m" "token_laws E m \<Longrightarrow> jwt_compact m"
  "token_laws E m \<Longrightarrow> uuid_laws E" "token_laws E m \<Longrightarrow> uuid_nonempty E"
  by (simp_all add: token_laws_def)

lemma issued_compact:
  assumes "jwt_compact m" and "Issue E m t0 jti role u = Inr (toks, rc)"
  shows "AccessToken toks \<noteq> []" "TrimSpace (AccessToken toks) = AccessToken toks"
    "RefreshToken toks \<noteq> []" "TrimSpace (RefreshToken toks) = RefreshToken toks" "isJWTFormat (RefreshToken toks)"
  using assms by (auto simp: Issue_def IssueWithCompany_def jwt_compact_def split: option.splits)

section \<open>Guards on issued tokens\<close>

lemma guard_on_access:
  assumes "token_laws E m" and "role \<noteq> []" and "Issue E m t0 (uuid_string E j) role u = Inr (toks, rc)"
    and "reliable w"
  shows "fst (run (guard_role E m True need (AccessToken toks)) w) =
     (if w_now w < numeric_date (t0 + accessTTL m) \<and> u \<noteq> uuid_nil \<and> role = need
         \<and> rd_live (w_now w) (w_redis w) (sessionKey (uuid_string E j)) \<noteq> None
      then Inr (u, uuid_nil) else Inl (ErrorLang 401 ''invalid_user_token''))"
proof -
  note laws = token_lawsD [OF assms(1)]
  have iss: "IssueWithCompany E m t0 (uuid_string E j) role u uuid_nil = Inr (toks, rc)"
    using assms(3) by (simp add: Issue_def)
  have sid: "uuid_string E j \<noteq> []" using laws(4) by (simp add: uuid_nonempty_def)
  show ?thesis
  proof (cases "w_now w < numeric_date (t0 + accessTTL m)")
    case True
    note parse = parse_issued_access [OF laws(1,3,4) assms(2) iss True]
    show ?thesis
      using True assms(4) issued_compact(1,2) [OF laws(2) assms(3)]
      by (simp add: guard_role_def parse session_checked_def sid RefreshStore_SessionValid_def cExists_def Let_def)
  next
    case False
    then have "ParseAccessWithSID E m (w_now w) (AccessToken toks) = Inl (Err ''token'')"
      using issued_tokens(1) [OF laws(1) iss, of "w_now w"] by (simp add: ParseAccessWithSID_def)
    with False issued_compact(1,2) [OF laws(2) assms(3)] show ?thesis
      by (simp add: guard_role_def Let_def)
  qed
qed

text \<open>
  The guards for drivers, dispatchers, administrators and company users are one and the same check, that
  of a token of their role with a live session.
\<close>

theorem guards_equivalent:
  "RequireDriver E m st tok = State_Monad.bind (guard_role E m st ''driver'' tok) (\<lambda>r. ret (map_sum id fst r))
 \<and> RequireAdmin E m st tok = State_Monad.bind (guard_role E m st ''admin'' tok) (\<lambda>r. ret (map_sum id fst r))
 \<and> RequireDispatcher E m st tok = State_Monad.bind (guard_role E m st ''dispatcher'' tok)
     (\<lambda>r. ret (map_sum id (\<lambda>(u, c). (u, company_of c)) r))
 \<and> RequireAppUser E m st tok = State_Monad.bind (guard_role E m st ''user'' tok)
     (\<lambda>r. ret (map_sum id (\<lambda>(u, c). (u, ''user'', company_of c)) r))"
  by (intro conjI guards_one)

text \<open>
  A refresh token is an access token that cannot be revoked: whatever Redis holds (after logout, after
  rotation, with an empty store), the guard of its role lets its bearer in as its user until the
  refresh token expires.
\<close>

theorem refresh_token_opens_guards:
  assumes "token_laws E m" and "role \<noteq> []" and "u \<noteq> uuid_nil"
    and "Issue E m t0 (uuid_string E j) role u = Inr (toks, rc)"
    and "w_now w < numeric_date (t0 + refreshTTL m)"
  shows "run (guard_role E m True role (RefreshToken toks)) w = (Inr (u, uuid_nil), w)"
proof -
  note laws = token_lawsD [OF assms(1)]
  have iss: "IssueWithCompany E m t0 (uuid_string E j) role u uuid_nil = Inr (toks, rc)"
    using assms(4) by (simp add: Issue_def)
  note parse = refresh_parses_as_access [OF laws(1,3,4) assms(2) iss assms(5)]
  show ?thesis
    using assms(3) issued_compact(3,4) [OF laws(2) assms(4)]
    by (simp add: guard_role_def parse session_checked_def Let_def)
qed

section \<open>Opening a session\<close>

lemma session_key_distinct:
  "refreshKey u j \<noteq> sessionKey k" "refreshKey u j \<noteq> userSessionsKey k" "sessionKey j \<noteq> userSessionsKey k"
  "sessionKey j \<noteq> refreshKey u k" "userSessionsKey j \<noteq> sessionKey k" "userSessionsKey j \<noteq> refreshKey u k"
  "refreshKey u j = refreshKey u k \<longleftrightarrow> j = k" "sessionKey j = sessionKey k \<longleftrightarrow> j = k"
  by (simp_all add: refreshKey_def sessionKey_def userSessionsKey_def)

lemma sadd_live [simp]:
  "k' \<noteq> k \<Longrightarrow> rd_live t (snd (cSAdd k x now m)) k' = rd_live t m k'"
  "k' \<noteq> k \<Longrightarrow> rd_live t (snd (quiet (cExpire k d) now m)) k' = rd_live t m k'"
  by (auto simp: cSAdd_def cExpire_def quiet_def split: option.splits rvalue.splits)

text \<open>A session that was opened: its keys are live, the others are as they were.\<close>

lemma open_session_run:
  assumes "reliable w" and "run (open_session E m rs role u) w = (Inr toks, w')"
  shows "\<exists>rc. Issue E m (w_now w) (uuid_string E (fresh_id w)) role u = Inr (toks, rc)
     \<and> reliable w' \<and> w_now w' = w_now w \<and> w_db w' = w_db w"
    and "t < w_now w + rs_accessTTL rs \<or> rs_accessTTL rs \<le> 0 \<Longrightarrow>
         rd_live t (w_redis w') (sessionKey (uuid_string E (fresh_id w))) \<noteq> None"
    and "t < w_now w + rs_ttl rs \<or> rs_ttl rs \<le> 0 \<Longrightarrow>
         rd_live t (w_redis w') (refreshKey (uuid_string E u) (uuid_string E (fresh_id w))) \<noteq> None"
    and "k \<noteq> sessionKey (uuid_string E (fresh_id w)) \<Longrightarrow> k \<noteq> refreshKey (uuid_string E u) (uuid_string E (fresh_id w)) \<Longrightarrow>
         k \<noteq> userSessionsKey (uuid_string E u) \<Longrightarrow> rd_live t (w_redis w') k = rd_live t (w_redis w) k"
proof -
  obtain rc where iss: "Issue E m (w_now w) (uuid_string E (fresh_id w)) role u = Inr (toks, rc)"
    using assms by (auto simp: open_session_def split: sum.splits prod.splits)
  then have rc: "rc_UserID rc = uuid_string E u" "rc_JTI rc = uuid_string E (fresh_id w)"
    by (auto simp: Issue_def IssueWithCompany_def split: option.splits)
  show "\<exists>rc. Issue E m (w_now w) (uuid_string E (fresh_id w)) role u = Inr (toks, rc)
     \<and> reliable w' \<and> w_now w' = w_now w \<and> w_db w' = w_db w"
    using assms iss
    by (auto simp: open_session_def RefreshStore_Put_def RefreshStore_PutSession_def run_andE
        split: sum.splits prod.splits)
  have redis: "\<exists>m1 now1. m1 = rd_put (sessionKey (uuid_string E (fresh_id w))) (RString (uuid_string E u))
         (expiry (w_now w) (rs_accessTTL rs))
       (rd_put (refreshKey (uuid_string E u) (uuid_string E (fresh_id w))) (RString ''1'') (expiry (w_now w) (rs_ttl rs)) (w_redis w))
     \<and> (\<forall>t k. k \<noteq> userSessionsKey (uuid_string E u) \<longrightarrow> rd_live t (w_redis w') k = rd_live t m1 k)"
    using assms iss
    by (auto simp: open_session_def RefreshStore_Put_def RefreshStore_PutSession_def run_andE rc cSet_def
        simp del: rd_live_put split: sum.splits prod.splits)
  show "t < w_now w + rs_accessTTL rs \<or> rs_accessTTL rs \<le> 0 \<Longrightarrow>
         rd_live t (w_redis w') (sessionKey (uuid_string E (fresh_id w))) \<noteq> None"
    "t < w_now w + rs_ttl rs \<or> rs_ttl rs \<le> 0 \<Longrightarrow>
         rd_live t (w_redis w') (refreshKey (uuid_string E u) (uuid_string E (fresh_id w))) \<noteq> None"
    "k \<noteq> sessionKey (uuid_string E (fresh_id w)) \<Longrightarrow> k \<noteq> refreshKey (uuid_string E u) (uuid_string E (fresh_id w)) \<Longrightarrow>
         k \<noteq> userSessionsKey (uuid_string E u) \<Longrightarrow> rd_live t (w_redis w') k = rd_live t (w_redis w) k"
    using redis by (auto simp: session_key_distinct re_live_def expiry_def)
qed

text \<open>The token of a session that was just opened, at its guard.\<close>

lemma numeric_date_ahead: "second \<le> d \<Longrightarrow> t < numeric_date (t + d)"
  using pos_mod_bound [of second "t + d"] minus_mod_eq_div_mult [of "t + d" second, symmetric]
  unfolding numeric_date_def by linarith

lemma opened_guard:
  assumes "token_laws E m" and "role \<noteq> []" and "reliable w" and "run (open_session E m rs role u) w = (Inr toks, w')"
    and "second \<le> accessTTL m" and "0 < rs_accessTTL rs"
  shows "fst (run (guard_role E m True need (AccessToken toks)) w') =
     (if u \<noteq> uuid_nil \<and> role = need then Inr (u, uuid_nil) else Inl (ErrorLang 401 ''invalid_user_token''))"
proof -
  obtain rc where iss: "Issue E m (w_now w) (uuid_string E (fresh_id w)) role u = Inr (toks, rc)"
    and w': "reliable w'" "w_now w' = w_now w"
    using open_session_run(1) [OF assms(3,4)] by blast
  have "rd_live (w_now w') (w_redis w') (sessionKey (uuid_string E (fresh_id w))) \<noteq> None"
    using open_session_run(2) [OF assms(3,4), of "w_now w'"] w'(2) assms(6) by simp
  with guard_on_access [OF assms(1,2) iss w'(1), of need] w'(2) numeric_date_ahead [OF assms(5), of "w_now w"]
  show ?thesis by simp
qed

section \<open>Rotation\<close>

lemma run_Refresh:
  assumes "token_laws E (ah_jwtm h)" and "role \<noteq> []"
    and "Issue E (ah_jwtm h) t0 (uuid_string E j) role u = Inr (toks, rc)" and "reliable w"
  shows "run (AuthHandler_Refresh E h (Some (RefreshToken toks))) w =
    (if w_now w < numeric_date (t0 + refreshTTL (ah_jwtm h))
     then (if rd_live (w_now w) (w_redis w) (refreshKey (uuid_string E u) (uuid_string E j)) = None
           then (ErrorLang 401 ''invalid_or_expired_refresh_token'',
                 (tick w)\<lparr>w_redis := fmdrop (refreshKey (uuid_string E u) (uuid_string E j)) (w_redis w)\<rparr>)
           else run (attempt (open_session E (ah_jwtm h) (ah_refresh h) role u)
                  (\<lambda>_. ret (ErrorLang 500 ''token_issue_failed''))
                  (\<lambda>tokens. ret (OKLang ''ok'' (JObj [(''tokens'', tokens_json tokens)]))))
                 ((tick (tick w))\<lparr>w_redis := fmdrop (sessionKey (uuid_string E j))
                    (fmdrop (refreshKey (uuid_string E u) (uuid_string E j)) (w_redis w))\<rparr>))
     else (ErrorLang 401 ''invalid_or_expired_refresh_token'', w))"
proof -
  note laws = token_lawsD [OF assms(1)]
  have iss: "IssueWithCompany E (ah_jwtm h) t0 (uuid_string E j) role u uuid_nil = Inr (toks, rc)"
    using assms(3) by (simp add: Issue_def)
  note fmt = issued_compact(3-5) [OF laws(2) assms(3)]
  show ?thesis
  proof (cases "w_now w < numeric_date (t0 + refreshTTL (ah_jwtm h))")
    case True
    note parse = parse_issued_refresh [OF laws(1,4) assms(2) iss True]
    from issued_tokens(3) [OF laws(1) iss] have rc: "rc_UserID rc = uuid_string E u" "rc_JTI rc = uuid_string E j" "rc_Role rc = role"
      by simp_all
    have tt: "(tick ((tick w)\<lparr>w_redis := m\<rparr>))\<lparr>w_redis := m'\<rparr> = (tick (tick w))\<lparr>w_redis := m'\<rparr>" for m m'
      by (simp add: tick_def)
    from True assms(4) fmt laws(3) show ?thesis
      by (simp add: AuthHandler_Refresh_def parse rc RefreshStore_Consume_def RefreshStore_InvalidateSession_def
          run_attempt run_andE cDel_def quiet_def tt Let_def)
  next
    case False
    with issued_tokens(2) [OF laws(1) iss, of "w_now w"]
    have "ParseRefresh (ah_jwtm h) (w_now w) (RefreshToken toks) = Inl (Err ''token'')" by (simp add: ParseRefresh_def)
    with False fmt show ?thesis by (simp add: AuthHandler_Refresh_def Let_def)
  qed
qed

text \<open>
  C13: refreshing replaces a pair of tokens: after a refresh that succeeds, the old refresh token is refused
  and the old access token is refused by every guard, at any later moment, while the new access token is
  let in by the guard of the same role as the same user. The identifiers that are still to be drawn are
  taken to be new.
\<close>

theorem refresh_rotates:
  assumes "token_laws E (ah_jwtm h)" and "role \<noteq> []" and "u \<noteq> uuid_nil"
    and "Issue E (ah_jwtm h) t0 (uuid_string E j) role u = Inr (toks, rc)" and "reliable (w :: rworld)"
    and "run (AuthHandler_Refresh E h (Some (RefreshToken toks))) w = (a, w1)" and "resp_success a"
    and "w_gen w (Suc (Suc (w_drawn w))) \<noteq> j" and "w_now w \<le> t"
    and "second \<le> accessTTL (ah_jwtm h)" and "0 < rs_accessTTL (ah_refresh h)"
  shows "fst (run (AuthHandler_Refresh E h (Some (RefreshToken toks))) (w1\<lparr>w_now := t\<rparr>))
         = ErrorLang 401 ''invalid_or_expired_refresh_token''
     \<and> fst (run (guard_role E (ah_jwtm h) True need (AccessToken toks)) (w1\<lparr>w_now := t\<rparr>))
         = Inl (ErrorLang 401 ''invalid_user_token'')
     \<and> (\<exists>new. a = OKLang ''ok'' (JObj [(''tokens'', tokens_json new)])
          \<and> fst (run (guard_role E (ah_jwtm h) True role (AccessToken new)) w1) = Inr (u, uuid_nil))"
proof -
  note laws = token_lawsD [OF assms(1)]
  let ?rk = "refreshKey (uuid_string E u) (uuid_string E j)" and ?sk = "sessionKey (uuid_string E j)"
  let ?w = "(tick (tick w))\<lparr>w_redis := fmdrop ?sk (fmdrop ?rk (w_redis w))\<rparr>"
  have calm: "reliable ?w" using assms(5) by simp
  have new: "uuid_string E (fresh_id ?w) \<noteq> uuid_string E j"
    using assms(8) uuid_string_inj [OF laws(3)] by (simp add: fresh_id_def)
  from assms(6,7) obtain tokens where open_: "run (open_session E (ah_jwtm h) (ah_refresh h) role u) ?w = (Inr tokens, w1)"
    and a: "a = OKLang ''ok'' (JObj [(''tokens'', tokens_json tokens)])"
    unfolding run_Refresh [OF assms(1,2,4,5)]
    by (auto simp: run_attempt ErrorLang_def split: if_splits prod.splits sum.splits)
  have gone: "rd_live t (w_redis w1) ?rk = None" "rd_live t (w_redis w1) ?sk = None"
    using open_session_run(4) [OF calm open_, of ?rk t] open_session_run(4) [OF calm open_, of ?sk t] new
    by (simp_all add: session_key_distinct)
  have calm1: "reliable (w1\<lparr>w_now := t\<rparr>)" using open_session_run(1) [OF calm open_] by simp
  have "fst (run (AuthHandler_Refresh E h (Some (RefreshToken toks))) (w1\<lparr>w_now := t\<rparr>))
         = ErrorLang 401 ''invalid_or_expired_refresh_token''"
    using gone(1) by (simp add: run_Refresh [OF assms(1,2,4) calm1])
  moreover have "fst (run (guard_role E (ah_jwtm h) True need (AccessToken toks)) (w1\<lparr>w_now := t\<rparr>))
         = Inl (ErrorLang 401 ''invalid_user_token'')"
    using gone(2) by (simp add: guard_on_access [OF assms(1,2,4) calm1])
  moreover have "fst (run (guard_role E (ah_jwtm h) True role (AccessToken tokens)) w1) = Inr (u, uuid_nil)"
    using opened_guard [OF assms(1,2) calm open_ assms(10,11), of role] assms(3) by simp
  ultimately show ?thesis using a by blast
qed

text \<open>
  Signing out with the refresh token leaves the access token of the session in force: the guard of its role goes on
  letting its bearer in until it expires.
\<close>

theorem logout_keeps_access:
  assumes "token_laws E (ah_jwtm h)" and "u \<noteq> uuid_nil"
    and "Issue E (ah_jwtm h) t0 (uuid_string E j) ''driver'' u = Inr (toks, rc)" and "reliable (w :: rworld)"
    and "w_now w < numeric_date (t0 + refreshTTL (ah_jwtm h))"
    and "w_now w < numeric_date (t0 + accessTTL (ah_jwtm h))"
    and "rd_live (w_now w) (w_redis w) (refreshKey (uuid_string E u) (uuid_string E j)) \<noteq> None"
    and "rd_live (w_now w) (w_redis w) (sessionKey (uuid_string E j)) \<noteq> None"
  shows "\<exists>w1. run (AuthHandler_Logout E h (Some \<lparr>lo_RefreshToken = RefreshToken toks, lo_AccessToken = []\<rparr>)) w
         = (OKLang ''ok'' (JObj [(''status'', JStr ''ok'')]), w1)
     \<and> fst (run (RequireDriver E (ah_jwtm h) True (AccessToken toks)) w1) = Inr u"
proof -
  note laws = token_lawsD [OF assms(1)]
  have iss: "IssueWithCompany E (ah_jwtm h) t0 (uuid_string E j) ''driver'' u uuid_nil = Inr (toks, rc)"
    using assms(3) by (simp add: Issue_def)
  have parse: "ParseRefresh (ah_jwtm h) (w_now w) (RefreshToken toks) = Inr rc"
    by (rule parse_issued_refresh [OF laws(1,4) _ iss assms(5)]) simp
  from issued_tokens(3) [OF laws(1) iss] have rc: "rc_UserID rc = uuid_string E u" "rc_JTI rc = uuid_string E j" "rc_Role rc = ''driver''"
    by simp_all
  let ?w = "(tick w)\<lparr>w_redis := fmdrop (refreshKey (uuid_string E u) (uuid_string E j)) (w_redis w)\<rparr>"
  have run: "run (AuthHandler_Logout E h (Some \<lparr>lo_RefreshToken = RefreshToken toks, lo_AccessToken = []\<rparr>)) w
         = (OKLang ''ok'' (JObj [(''status'', JStr ''ok'')]), ?w)"
    using assms(4,7) issued_compact(3,4) [OF laws(2) assms(3)]
    by (auto simp: AuthHandler_Logout_def parse rc RefreshStore_Consume_def run_attempt run_andE cDel_def Let_def)
  have "reliable ?w" using assms(4) by simp
  from guard_on_access [OF assms(1) _ assms(3) this, of "''driver''"] assms(2,6,8)
  have "fst (run (guard_role E (ah_jwtm h) True ''driver'' (AccessToken toks)) ?w) = Inr (u, uuid_nil)"
    by (simp add: session_key_distinct)
  then have "fst (run (RequireDriver E (ah_jwtm h) True (AccessToken toks)) ?w) = Inr u"
    by (simp add: guards_one case_prod_unfold)
  with run show ?thesis by blast
qed

section \<open>Signing in\<close>

lemma run_FindByPhone:
  "reliable w \<Longrightarrow> run (drivers_FindByPhone E phone) w =
     (case first_where (\<lambda>d. d_phone d = phone) (drivers_t (w_db w)) of
        None \<Rightarrow> Inl DriverErrNotFound | Some d \<Rightarrow> Inr (Some (scanDriver E (w_db w) d)), tick w)"
  by (simp add: drivers_FindByPhone_def select_driver_def driver_not_found_def run_pg_row_read split: option.split)

lemma login_cases:
  assumes "reliable w" and "run (login_or_register E h phone) w = (a, w1)" and "resp_key a = ''login''"
  obtains d toks where "first_where (\<lambda>d. d_phone d = phone) (drivers_t (w_db w)) = Some d"
    "run (open_session E (ah_jwtm h) (ah_refresh h) ''driver'' (parsed_uuid E (uuid_string E (d_id d)))) (tick w) = (Inr toks, w1)"
    "a = OKLang ''login'' (JObj [(''status'', JStr ''login''), (''tokens'', tokens_json toks)])"
proof (cases "first_where (\<lambda>d. d_phone d = phone) (drivers_t (w_db w))")
  case None
  obtain r w2 where "run (SessionStore_Create E (ah_sessionTTL h) phone) (tick w) = (r, w2)" by force
  with None assms show ?thesis
    by (cases r) (auto simp: login_or_register_def run_FindByPhone run_attempt ErrorLang_def OKLang_def)
next
  case (Some d)
  obtain r w2 where open_: "run (open_session E (ah_jwtm h) (ah_refresh h) ''driver''
      (parsed_uuid E (dr_ID (scanDriver E (w_db w) d)))) (tick w) = (r, w2)" by force
  with Some assms that show ?thesis
    by (cases r) (auto simp: login_or_register_def run_FindByPhone run_attempt ErrorLang_def scanDriver_def Let_def)
qed

text \<open>
  C14: nobody is signed in as somebody else: when \<open>VerifyOTP\<close> hands out tokens, the answer to the code had the hash of the
  code saved for the phone, a driver is registered under that phone, and the access token is
  let in by the drivers' guard as that driver and by no other guard.
\<close>

theorem login_identity:
  assumes "token_laws E (ah_jwtm h)" and "reliable (w :: rworld)" and "distinct (map d_phone (drivers_t (w_db w)))"
    and "run (AuthHandler_VerifyOTP E h (Some req)) w = (a, w1)" and "resp_key a = ''login''"
    and "second \<le> accessTTL (ah_jwtm h)" and "0 < rs_accessTTL (ah_refresh h)"
  shows "\<exists>phone d vals toks. NormalizeE164 E (vo_Phone req) = Inr phone
     \<and> d \<in> set (drivers_t (w_db w)) \<and> d_phone d = phone
     \<and> rd_value (w_now w) (w_redis w) (otpKey (ah_otp h) phone) = Some (RHash vals)
     \<and> OTPStore_hash E (ah_otp h) phone (TrimSpace (vo_OTP req)) = field ''hash'' vals
     \<and> a = OKLang ''login'' (JObj [(''status'', JStr ''login''), (''tokens'', tokens_json toks)])
     \<and> (d_id d \<noteq> uuid_nil \<longrightarrow> fst (run (RequireDriver E (ah_jwtm h) True (AccessToken toks)) w1) = Inr (d_id d))
     \<and> (\<forall>role. role \<noteq> ''driver'' \<longrightarrow>
          fst (run (guard_role E (ah_jwtm h) True role (AccessToken toks)) w1) = Inl (ErrorLang 401 ''invalid_user_token''))"
proof -
  note laws = token_lawsD [OF assms(1)]
  let ?otp = "TrimSpace (vo_OTP req)"
  from assms(4,5) obtain phone rid w2 where phone: "NormalizeE164 E (vo_Phone req) = Inr phone"
    and verify: "run (OTPStore_Verify E (ah_otp h) phone ?otp) w = (Inr rid, w2)"
    and rest: "run (login_or_register E h phone) w2 = (a, w1)"
    by (auto simp: AuthHandler_VerifyOTP_def run_attempt verify_error_def ErrorLang_def Let_def
        split: if_splits sum.splits prod.splits)
  from verify assms(2) obtain vals where vals: "rd_value (w_now w) (w_redis w) (otpKey (ah_otp h) phone) = Some (RHash vals)"
      "OTPStore_hash E (ah_otp h) phone ?otp = field ''hash'' vals" "reliable w2" "w_db w2 = w_db w"
    by (auto simp: OTPStore_Verify_def run_andE cHGetAll_def Let_def
        split: if_splits option.splits rvalue.splits sum.splits prod.splits)
  obtain d toks where d: "first_where (\<lambda>d. d_phone d = phone) (drivers_t (w_db w)) = Some d"
    and open_: "run (open_session E (ah_jwtm h) (ah_refresh h) ''driver'' (parsed_uuid E (uuid_string E (d_id d)))) (tick w2) = (Inr toks, w1)"
    and a: "a = OKLang ''login'' (JObj [(''status'', JStr ''login''), (''tokens'', tokens_json toks)])"
    using login_cases [OF vals(3) rest assms(5)] vals(4) by metis
  have w3: "reliable (tick w2)" using vals(3) by simp
  have who: "parsed_uuid E (uuid_string E (d_id d)) = d_id d" using laws(3) by (simp add: parsed_uuid_def)
  note guard = opened_guard [OF assms(1) _ w3 open_ assms(6,7), unfolded who]
  have in_: "fst (run (RequireDriver E (ah_jwtm h) True (AccessToken toks)) w1) = Inr (d_id d)" if "d_id d \<noteq> uuid_nil"
    using guard [of "''driver''"] that by (simp add: guards_one case_prod_unfold)
  have out: "fst (run (guard_role E (ah_jwtm h) True role (AccessToken toks)) w1) = Inl (ErrorLang 401 ''invalid_user_token'')"
    if "role \<noteq> ''driver''" for role
    using guard [of role] that by auto
  from d have "d \<in> set (drivers_t (w_db w))" "d_phone d = phone" by (auto dest: first_where_Some)
  with phone vals(1,2) a in_ out show ?thesis by blast
qed

section \<open>Witnesses\<close>

text \<open>A package that signs the tokens of one user at one moment.\<close>

definition signed_acc :: "string \<Rightarrow> string \<Rightarrow> string \<Rightarrow> payload" where
  "signed_acc role cid sid = \<lparr>pl_sub = uuid_string sample_ext 7, pl_role = role, pl_user_id = uuid_string sample_ext 7,
     pl_company_id = cid, pl_sid = sid, pl_jti = [], pl_iat = 0, pl_exp = 900 * second\<rparr>"

definition signed_ref :: "string \<Rightarrow> string \<Rightarrow> payload" where
  "signed_ref role jti = \<lparr>pl_sub = uuid_string sample_ext 7, pl_role = role, pl_user_id = uuid_string sample_ext 7,
     pl_company_id = [], pl_sid = [], pl_jti = jti, pl_iat = 0, pl_exp = 3600 * second\<rparr>"

definition tally :: "string \<Rightarrow> bool" where "tally s \<longleftrightarrow> s \<noteq> [] \<and> list_all (\<lambda>c. c = CHR ''1'') s"

definition jwt_for :: "string \<Rightarrow> string \<Rightarrow> JWTManager" where
  "jwt_for role cid = \<lparr>signingKey = ''k'', accessTTL = 900 * second, refreshTTL = 3600 * second,
     jwt_sign = (\<lambda>k p. if tally (pl_sid p) \<and> p = signed_acc role cid (pl_sid p) then Some (''a.b.'' @ pl_sid p)
                     else if tally (pl_jti p) \<and> p = signed_ref role (pl_jti p) then Some (''r.b.'' @ pl_jti p) else None),
     jwt_verify = (\<lambda>k now s.
       if take 4 s = ''a.b.'' then (if now < 900 * second then Some (signed_acc role cid (drop 4 s)) else None)
       else if take 4 s = ''r.b.'' then (if now < 3600 * second then Some (signed_ref role (drop 4 s)) else None)
       else None)\<rparr>"

definition sample_jwt :: JWTManager where "sample_jwt = jwt_for ''driver'' []"

lemma tally_uuid [simp]: "tally (uuid_string sample_ext u)"
  by (simp add: tally_def sample_ext_def list_all_iff)

lemma tally_text:
  assumes "tally s" and "length p = 4" and "is_ascii p" and "\<not> ascii_space (hd p)"
  shows "TrimSpace (p @ s) = p @ s"
proof (rule TrimSpace_plain)
  have one: "c = CHR ''1''" if "c \<in> set s" for c
    using assms(1) that unfolding tally_def list_all_iff by blast
  have "byte c < 128" if "c \<in> set s" for c using one [OF that] by simp
  then show "is_ascii (p @ s)" using assms(3) by (auto simp: is_ascii_def)
  have ne: "s \<noteq> []" using assms(1) by (simp add: tally_def)
  from one [OF last_in_set [OF ne]] ne show "\<not> ascii_space (last (p @ s))" by (simp add: ascii_space_def)
  have "p \<noteq> []" using assms(2) by auto
  then show "p @ s \<noteq> []" "\<not> ascii_space (hd (p @ s))" using assms(4) by simp_all
qed

lemma tally_dots: "tally s \<Longrightarrow> filter (\<lambda>c. c = CHR ''.'') s = []"
  unfolding tally_def list_all_iff filter_empty_conv by blast

lemma jwt_for_laws: "token_laws sample_ext (jwt_for role cid)"
proof -
  have "jwt_laws (jwt_for role cid)"
    unfolding jwt_laws_def
  proof (intro allI impI)
    fix k p s now
    assume "jwt_sign (jwt_for role cid) k p = Some s"
    then consider (acc) sid where "p = signed_acc role cid sid" "s = ''a.b.'' @ sid" | (ref) jti where "p = signed_ref role jti" "s = ''r.b.'' @ jti"
      by (auto simp: jwt_for_def split: if_splits)
    then show "jwt_verify (jwt_for role cid) k now s = (if now < pl_exp p then Some p else None)"
      by cases (simp_all add: jwt_for_def, simp_all add: signed_acc_def signed_ref_def)
  qed
  moreover have "jwt_compact (jwt_for role cid)"
    using tally_text [of _ "''a.b.''"] tally_text [of _ "''r.b.''"]
    by (auto simp: jwt_compact_def jwt_for_def isJWTFormat_def tally_dots is_ascii_def ascii_space_def
        split: if_splits)
  moreover have "uuid_nonempty sample_ext" by (simp add: uuid_nonempty_def sample_ext_def)
  ultimately show ?thesis by (simp add: token_laws_def sample_ext_laws)
qed

lemma sample_token_laws: "token_laws sample_ext sample_jwt"
  unfolding sample_jwt_def by (rule jwt_for_laws)

definition sample_toks :: "uuid \<Rightarrow> Tokens" where
  "sample_toks j = \<lparr>AccessToken = ''a.b.'' @ uuid_string sample_ext j, RefreshToken = ''r.b.'' @ uuid_string sample_ext j,
     ExpiresIn = 900, ExpiresAt = 900000, RefreshExpiresIn = 3600, RefreshExpiresAt = 3600000\<rparr>"

lemma jwt_for_issue:
  assumes "cid = (if c \<noteq> uuid_nil then uuid_string sample_ext c else [])"
  shows "IssueWithCompany sample_ext (jwt_for role cid) 100 (uuid_string sample_ext j) role 7 c =
    Inr (sample_toks j, \<lparr>rc_Role = role, rc_UserID = uuid_string sample_ext 7, rc_JTI = uuid_string sample_ext j\<rparr>)"
proof -
  have acc: "access_payload sample_ext (jwt_for role cid) 100 role 7 c (uuid_string sample_ext j) = signed_acc role cid (uuid_string sample_ext j)"
    and ref: "refresh_payload sample_ext (jwt_for role cid) 100 role 7 (uuid_string sample_ext j) = signed_ref role (uuid_string sample_ext j)"
    by (simp_all add: access_payload_def refresh_payload_def signed_acc_def signed_ref_def numeric_date_def jwt_for_def assms)
  have "\<not> tally []" by (simp add: tally_def)
  with acc ref show ?thesis
    by (simp add: IssueWithCompany_def sample_toks_def)
       (simp add: jwt_for_def signed_acc_def signed_ref_def seconds_of_def unix_milli_def)
qed

lemma sample_issue: "Issue sample_ext sample_jwt 100 (uuid_string sample_ext j) ''driver'' 7 =
    Inr (sample_toks j, \<lparr>rc_Role = ''driver'', rc_UserID = uuid_string sample_ext 7, rc_JTI = uuid_string sample_ext j\<rparr>)"
  by (simp add: Issue_def sample_jwt_def jwt_for_issue)

theorem refresh_token_opens_guards_witness:
  "fst (run (guard_role sample_ext sample_jwt True ''driver'' (RefreshToken (sample_toks 5))) sample_rworld) = Inr (7, uuid_nil)"
  using refresh_token_opens_guards [OF sample_token_laws _ _ sample_issue [of 5], of sample_rworld]
  by (simp add: numeric_date_def sample_jwt_def jwt_for_def)

definition sample_auth :: AuthHandler where
  "sample_auth = \<lparr>ah_otp = sample_otp, ah_sessionTTL = 900, ah_refresh = \<lparr>rs_ttl = 3600 * second, rs_accessTTL = 900 * second\<rparr>,
     ah_jwtm = sample_jwt, ah_tg = \<lparr>gc_token = [], gc_bypass = True\<rparr>, ah_otpTTL = 120 * second, ah_otpLen = 6\<rparr>"

lemma sample_auth_simps [simp]:
  "ah_jwtm sample_auth = sample_jwt" "ah_otp sample_auth = sample_otp"
  "ah_refresh sample_auth = \<lparr>rs_ttl = 3600 * second, rs_accessTTL = 900 * second\<rparr>"
  by (simp_all add: sample_auth_def)

lemma sample_jwt_ttls [simp]: "accessTTL sample_jwt = 900 * second" "refreshTTL sample_jwt = 3600 * second"
  by (simp_all add: sample_jwt_def jwt_for_def)

text \<open>A world in which the session is open.\<close>

definition sample_signed_in :: rworld where
  "sample_signed_in = sample_rworld\<lparr>w_redis := rd_put (sessionKey (uuid_string sample_ext 4)) (RString ''u'') None
     (rd_put (refreshKey (uuid_string sample_ext 7) (uuid_string sample_ext 4)) (RString ''1'') None fmempty)\<rparr>"

lemma sample_signed_in_simps [simp]:
  "reliable sample_signed_in" "w_now sample_signed_in = 100" "w_drawn sample_signed_in = 5" "w_gen sample_signed_in = of_nat"
  "rd_live t (w_redis sample_signed_in) (sessionKey (uuid_string sample_ext 4)) \<noteq> None"
  "rd_live t (w_redis sample_signed_in) (refreshKey (uuid_string sample_ext 7) (uuid_string sample_ext 4)) \<noteq> None"
  by (simp_all add: sample_signed_in_def session_key_distinct) (simp_all add: sample_rworld_def)

lemma sample_issue4: "Issue sample_ext (ah_jwtm sample_auth) 100 (uuid_string sample_ext 4) ''driver'' 7 =
    Inr (sample_toks 4, \<lparr>rc_Role = ''driver'', rc_UserID = uuid_string sample_ext 7, rc_JTI = uuid_string sample_ext 4\<rparr>)"
  by (simp add: sample_issue)

theorem logout_keeps_access_witness:
  "\<exists>w1. run (AuthHandler_Logout sample_ext sample_auth (Some \<lparr>lo_RefreshToken = RefreshToken (sample_toks 4), lo_AccessToken = []\<rparr>))
        sample_signed_in = (OKLang ''ok'' (JObj [(''status'', JStr ''ok'')]), w1)
     \<and> fst (run (RequireDriver sample_ext sample_jwt True (AccessToken (sample_toks 4))) w1) = Inr 7"
  using logout_keeps_access [OF _ _ sample_issue4, of sample_signed_in] sample_token_laws
  by (simp add: numeric_date_def del: not_None_eq)

lemma sample_refresh:
  "\<exists>w1. run (AuthHandler_Refresh sample_ext sample_auth (Some (RefreshToken (sample_toks 4)))) sample_signed_in
      = (OKLang ''ok'' (JObj [(''tokens'', tokens_json (sample_toks 7))]), w1)"
proof -
  have "fresh_id (tick (tick sample_signed_in)) = 7" by (simp add: fresh_id_def)
  then show ?thesis
    using sample_token_laws
    by (simp add: run_Refresh [OF _ _ sample_issue4] numeric_date_def run_attempt open_session_def sample_issue
        RefreshStore_Put_def RefreshStore_PutSession_def run_andE del: not_None_eq split: prod.split sum.split)
qed

theorem refresh_rotates_witness:
  "\<exists>w1 :: rworld. fst (run (AuthHandler_Refresh sample_ext sample_auth (Some (RefreshToken (sample_toks 4)))) (w1\<lparr>w_now := 200\<rparr>))
      = ErrorLang 401 ''invalid_or_expired_refresh_token''
    \<and> fst (run (guard_role sample_ext sample_jwt True ''driver'' (AccessToken (sample_toks 4))) (w1\<lparr>w_now := 200\<rparr>))
      = Inl (ErrorLang 401 ''invalid_user_token'')"
proof -
  obtain w1 where run: "run (AuthHandler_Refresh sample_ext sample_auth (Some (RefreshToken (sample_toks 4)))) sample_signed_in
      = (OKLang ''ok'' (JObj [(''tokens'', tokens_json (sample_toks 7))]), w1)" using sample_refresh by blast
  from refresh_rotates [OF _ _ _ sample_issue4 _ this, of 200 "''driver''"] sample_token_laws show ?thesis
    by (force simp: OKLang_def)
qed

text \<open>A world in which a code waits for a registered driver.\<close>

definition sample_phone :: string where "sample_phone = ''+998901234567''"

definition sample_code_waits :: rworld where
  "sample_code_waits = sample_rworld
     \<lparr>w_db := (empty_db False)\<lparr>drivers_t := [empty_driver 7 sample_phone 50]\<rparr>,
      w_redis := rd_put (otpKey sample_otp sample_phone)
        (RHash [(''hash'', OTPStore_hash sample_ext sample_otp sample_phone ''4711''), (''attempts'', ''0''), (''request_id'', ''r'')])
        None fmempty\<rparr>"

lemma sample_code_waits_simps [simp]:
  "reliable sample_code_waits" "w_now sample_code_waits = 100" "w_drawn sample_code_waits = 5"
  "w_gen sample_code_waits = of_nat" "drivers_t (w_db sample_code_waits) = [empty_driver 7 sample_phone 50]"
  "rd_value t (w_redis sample_code_waits) (otpKey sample_otp sample_phone) = Some (RHash
     [(''hash'', OTPStore_hash sample_ext sample_otp sample_phone ''4711''), (''attempts'', ''0''), (''request_id'', ''r'')])"
  by (simp_all add: sample_code_waits_def) (simp_all add: sample_rworld_def)

lemma sample_texts:
  "NormalizeE164 E sample_phone = Inr sample_phone" "TrimSpace ''4711'' = ''4711''" "IsNumeric E ''4711''"
proof -
  show "NormalizeE164 E sample_phone = Inr sample_phone"
    using NormalizeE164_plain [of "''998901234567''" E] by (simp add: sample_phone_def ascii_digit_def)
  show "TrimSpace ''4711'' = ''4711''" by (rule TrimSpace_plain) (simp_all add: is_ascii_def ascii_space_def)
  show "IsNumeric E ''4711''" by (rule IsNumeric_plain) (simp_all add: ascii_digit_def)
qed

lemma sample_login:
  "\<exists>w1. run (AuthHandler_VerifyOTP sample_ext sample_auth (Some \<lparr>vo_Phone = sample_phone, vo_OTP = ''4711''\<rparr>)) sample_code_waits
     = (OKLang ''login'' (JObj [(''status'', JStr ''login''), (''tokens'', tokens_json (sample_toks 8))]), w1)"
proof -
  have ne: "sample_phone \<noteq> []" "OTPStore_hash sample_ext sample_otp sample_phone ''4711'' \<noteq> []" "os_maxAttempts sample_otp = 2"
    by (simp_all add: sample_phone_def OTPStore_hash_def sample_otp_def)
  have who: "parsed_uuid sample_ext (uuid_string sample_ext 7) = 7"
    by (simp add: parsed_uuid_def sample_ext_laws)
  obtain w2 where verify: "run (OTPStore_Verify sample_ext sample_otp sample_phone ''4711'') sample_code_waits = (Inr ''r'', w2)"
    and w2: "reliable w2" "w_db w2 = w_db sample_code_waits" "w_now w2 = 100" "w_drawn w2 = 7" "w_gen w2 = of_nat"
    by (simp add: OTPStore_Verify_def run_andE cHGetAll_def ne Let_def)
  have fresh: "fresh_id (tick w2) = 8" using w2(4,5) by (simp add: fresh_id_def)
  show ?thesis
    using w2 by (simp add: AuthHandler_VerifyOTP_def sample_texts ne run_attempt verify login_or_register_def run_FindByPhone
        first_where_Cons empty_driver_def scanDriver_def who open_session_def fresh sample_issue RefreshStore_Put_def
        RefreshStore_PutSession_def run_andE Let_def split: prod.split sum.split)
qed

theorem login_identity_witness:
  "\<exists>w1 toks. fst (run (AuthHandler_VerifyOTP sample_ext sample_auth (Some \<lparr>vo_Phone = sample_phone, vo_OTP = ''4711''\<rparr>))
       sample_code_waits) = OKLang ''login'' (JObj [(''status'', JStr ''login''), (''tokens'', tokens_json toks)])
     \<and> fst (run (RequireDriver sample_ext sample_jwt True (AccessToken toks)) (w1 :: rworld)) = Inr 7"
proof -
  obtain w1 where run: "run (AuthHandler_VerifyOTP sample_ext sample_auth (Some \<lparr>vo_Phone = sample_phone, vo_OTP = ''4711''\<rparr>))
     sample_code_waits = (OKLang ''login'' (JObj [(''status'', JStr ''login''), (''tokens'', tokens_json (sample_toks 8))]), w1)"
    using sample_login by blast
  have key: "resp_key (OKLang ''login'' x) = ''login''" for x by (simp add: OKLang_def)
  obtain phone d vals toks where found: "d \<in> set (drivers_t (w_db sample_code_waits))"
    and a: "OKLang ''login'' (JObj [(''status'', JStr ''login''), (''tokens'', tokens_json (sample_toks 8))])
       = OKLang ''login'' (JObj [(''status'', JStr ''login''), (''tokens'', tokens_json toks)])"
    and guard: "d_id d \<noteq> uuid_nil \<longrightarrow> fst (run (RequireDriver sample_ext (ah_jwtm sample_auth) True (AccessToken toks)) w1) = Inr (d_id d)"
    using login_identity [OF _ _ _ run key] sample_token_laws by auto
  from found have "d_id d = 7" by (simp add: empty_driver_def)
  with guard a show ?thesis unfolding run by (intro exI [of _ w1] exI [of _ toks]) simp
qed

end
