(* ===== verification/Dispatchers_Repo.thy ===== *)
theory Dispatchers_Repo
  imports Drivers_Repo Redis
begin

text \<open>
  The repositories on the dispatchers' side: \<open>internal/dispatchers\<close>, \<open>internal/dispatchercompanies\<close>,
  and the three kinds of invitations (\<open>internal/dispatcherinvitations\<close>, \<open>internal/driverinvitations\<close>,
  \<open>internal/drivertodispatcherinvitations\<close>).
\<close>

section \<open>Dispatchers\<close>

record Dispatcher =
  dp_ID :: string
  dp_Name :: "string option"
  dp_Phone :: string
  dp_Password :: string
  dp_PassportSeries :: "string option"
  dp_PassportNumber :: "string option"
  dp_PINFL :: "string option"
  dp_CargoID :: "string option"
  dp_DriverID :: "string option"
  dp_Rating :: "float64 option"
  dp_WorkStatus :: "string option"
  dp_Status :: "string option"
  dp_Photo :: "string option"
  dp_HasPhoto :: bool
  dp_CreatedAt :: time
  dp_UpdatedAt :: time
  dp_LastOnlineAt :: "time option"
  dp_DeletedAt :: "time option"

definition DispErrNotFound :: err where "DispErrNotFound = Err ''dispatcher not found''"
definition DispErrPhoneAlreadyRegistered :: err where
  "DispErrPhoneAlreadyRegistered = Err ''phone already registered''"
definition DispErrDeleteNotFound :: err where
  "DispErrDeleteNotFound = Err ''dispatcher to delete not found''"

definition scanDispatcher :: "ext \<Rightarrow> dispatcher_row \<Rightarrow> Dispatcher" where
  "scanDispatcher E d =
     \<lparr>dp_ID = uuid_string E (fd_id d), dp_Name = Some (fd_name d), dp_Phone = fd_phone d,
      dp_Password = fd_password d, dp_PassportSeries = fd_passport_series d,
      dp_PassportNumber = fd_passport_number d, dp_PINFL = fd_pinfl d,
      dp_CargoID = map_option (uuid_string E) (fd_cargo_id d),
      dp_DriverID = map_option (uuid_string E) (fd_driver_id d), dp_Rating = fd_rating d,
      dp_WorkStatus = fd_work_status d, dp_Status = fd_account_status d, dp_Photo = fd_photo_path d,
      dp_HasPhoto = (fd_photo_data d \<noteq> None), dp_CreatedAt = fd_created_at d,
      dp_UpdatedAt = fd_updated_at d, dp_LastOnlineAt = fd_last_online_at d, dp_DeletedAt = fd_deleted_at d\<rparr>"

definition dispatcher_not_found :: "err + 'a \<Rightarrow> err + 'a" where
  "dispatcher_not_found r = (case r of Inl e \<Rightarrow> Inl (if e = NoRows then DispErrNotFound else e) | Inr a \<Rightarrow> Inr a)"

text \<open>A dispatcher pointer without an error is never nil.\<close>

definition select_dispatcher :: "ext \<Rightarrow> (dispatcher_row \<Rightarrow> bool) \<Rightarrow> ('z, err + Dispatcher) prog" where
  "select_dispatcher E P = do {
     r \<leftarrow> pg_query_row (q_read (\<lambda>db. map_option (scanDispatcher E)
            (first_where (\<lambda>d. P d \<and> fd_deleted_at d = None) (dispatchers_t db))));
     ret (dispatcher_not_found r)
   }"

definition dispatchers_FindByPhone :: "ext \<Rightarrow> string \<Rightarrow> ('z, err + Dispatcher) prog" where
  "dispatchers_FindByPhone E phone = select_dispatcher E (\<lambda>d. fd_phone d = phone)"

definition dispatchers_FindByID :: "ext \<Rightarrow> uuid \<Rightarrow> ('z, err + Dispatcher) prog" where
  "dispatchers_FindByID E u = select_dispatcher E (\<lambda>d. fd_id d = u)"

definition dispatchers_GetPhoto :: "uuid \<Rightarrow> ('z, err + string \<times> string) prog" where
  "dispatchers_GetPhoto u = do {
     r \<leftarrow> pg_query_row (q_read (\<lambda>db.
            case first_where (\<lambda>d. fd_id d = u \<and> fd_deleted_at d = None \<and> fd_photo_data d \<noteq> None) (dispatchers_t db) of
              None \<Rightarrow> None
            | Some d \<Rightarrow> map_option (\<lambda>x. (x, case fd_photo_content_type d of None \<Rightarrow> ''image/jpeg'' | Some c \<Rightarrow> c))
                         (fd_photo_data d)));
     ret (dispatcher_not_found r)
   }"

record DispatcherCreateParams =
  dc_Phone :: string
  dc_Name :: string
  dc_PasswordHash :: string
  dc_PassportSeries :: string
  dc_PassportNumber :: string
  dc_PINFL :: string

definition new_dispatcher :: "DispatcherCreateParams \<Rightarrow> time \<Rightarrow> uuid \<Rightarrow> dispatcher_row" where
  "new_dispatcher p now u =
     \<lparr>fd_id = u, fd_name = dc_Name p, fd_phone = dc_Phone p, fd_password = dc_PasswordHash p,
      fd_passport_series = Some (dc_PassportSeries p), fd_passport_number = Some (dc_PassportNumber p),
      fd_pinfl = Some (dc_PINFL p), fd_cargo_id = None, fd_driver_id = None, fd_rating = Some 0,
      fd_work_status = Some ''available'', fd_account_status = Some ''active'', fd_photo_path = None,
      fd_created_at = now, fd_updated_at = now, fd_deleted_at = None, fd_last_online_at = None,
      fd_photo_data = None, fd_photo_content_type = None\<rparr>"

definition insert_dispatcher :: "DispatcherCreateParams \<Rightarrow> uuid stmt" where
  "insert_dispatcher p = (\<lambda>now u db.
     if exists_where (\<lambda>d. fd_id d = u \<or> fd_phone d = dc_Phone p) (dispatchers_t db) then Inl UniqueViolation
     else Inr (u, db\<lparr>dispatchers_t := dispatchers_t db @ [new_dispatcher p now u]\<rparr>))"

definition phone_registered :: "err + 'a \<Rightarrow> err + 'a" where
  "phone_registered r =
     (case r of Inl e \<Rightarrow> Inl (if e = UniqueViolation then DispErrPhoneAlreadyRegistered else e) | Inr a \<Rightarrow> Inr a)"

definition dispatchers_Create :: "DispatcherCreateParams \<Rightarrow> ('z, err + uuid) prog" where
  "dispatchers_Create p = do { r \<leftarrow> pg_call (insert_dispatcher p); ret (phone_registered r) }"

definition update_dispatcher :: "uuid \<Rightarrow> (time \<Rightarrow> dispatcher_row \<Rightarrow> dispatcher_row) \<Rightarrow> nat stmt" where
  "update_dispatcher u f = (\<lambda>now _ db.
     let rows = update_where (\<lambda>d. fd_id d = u) (f now) (dispatchers_t db)
     in if distinct (map fd_phone rows)
        then Inr (count_where (\<lambda>d. fd_id d = u) (dispatchers_t db), db\<lparr>dispatchers_t := rows\<rparr>)
        else Inl UniqueViolation)"

definition exec_dispatcher :: "uuid \<Rightarrow> (time \<Rightarrow> dispatcher_row \<Rightarrow> dispatcher_row) \<Rightarrow> ('z, err + unit) prog" where
  "exec_dispatcher u f = do { r \<leftarrow> pg_call (update_dispatcher u f); ret (ignore_count r) }"

record DispatcherProfileParams =
  du_Name :: "string option"
  du_PassportSeries :: "string option"
  du_PassportNumber :: "string option"
  du_PINFL :: "string option"
  du_Photo :: "string option"

definition dispatchers_UpdateProfile :: "uuid \<Rightarrow> DispatcherProfileParams \<Rightarrow> ('z, err + unit) prog" where
  "dispatchers_UpdateProfile u p = exec_dispatcher u (\<lambda>now d. d
     \<lparr>fd_name := (case du_Name p of None \<Rightarrow> fd_name d | Some n \<Rightarrow> n),
      fd_passport_series := coalesce (du_PassportSeries p) (fd_passport_series d),
      fd_passport_number := coalesce (du_PassportNumber p) (fd_passport_number d),
      fd_pinfl := coalesce (du_PINFL p) (fd_pinfl d),
      fd_photo_path := coalesce (du_Photo p) (fd_photo_path d), fd_updated_at := now\<rparr>)"

definition dispatchers_UpdatePasswordHash :: "uuid \<Rightarrow> string \<Rightarrow> ('z, err + unit) prog" where
  "dispatchers_UpdatePasswordHash u passwordHash =
     exec_dispatcher u (\<lambda>now d. d\<lparr>fd_password := passwordHash, fd_updated_at := now\<rparr>)"

definition dispatchers_UpdatePhone :: "uuid \<Rightarrow> string \<Rightarrow> ('z, err + unit) prog" where
  "dispatchers_UpdatePhone u newPhone = do {
     r \<leftarrow> exec_dispatcher u (\<lambda>now d. d\<lparr>fd_phone := newPhone, fd_updated_at := now\<rparr>);
     ret (phone_registered r)
   }"

definition dispatchers_Touch :: "uuid \<Rightarrow> time \<Rightarrow> ('z, err + unit) prog" where
  "dispatchers_Touch u t = exec_dispatcher u (\<lambda>now d. d\<lparr>fd_updated_at := t\<rparr>)"

definition dispatchers_UpdateLastOnlineAt :: "uuid \<Rightarrow> time \<Rightarrow> ('z, err + unit) prog" where
  "dispatchers_UpdateLastOnlineAt u t =
     exec_dispatcher u (\<lambda>now d. d\<lparr>fd_last_online_at := Some t, fd_updated_at := now\<rparr>)"

text \<open>A \<open>[]byte\<close> that is not nil is a value of type \<open>BYTEA\<close>.\<close>

definition dispatchers_UpdatePhoto :: "uuid \<Rightarrow> string \<Rightarrow> string \<Rightarrow> ('z, err + unit) prog" where
  "dispatchers_UpdatePhoto u data contentType = do {
     r \<leftarrow> pg_call (\<lambda>now v db.
            if exists_where (\<lambda>d. fd_id d = u) (dispatchers_t db) \<and> \<not> varchar_ok 50 (Some contentType) then Inl InvalidInput
            else update_dispatcher u (\<lambda>now d. d\<lparr>fd_photo_data := Some data,
                   fd_photo_content_type := Some contentType, fd_updated_at := now\<rparr>) now v db);
     ret (ignore_count r)
   }"

text \<open>
  The archive has the columns of \<open>freelance_dispatchers\<close> in the same order and a key of its own. Deleting the
  dispatcher takes the roles in companies and the recommendations along; a company or an
  invitation of a driver references the dispatcher without \<open>ON DELETE\<close> and forbids it.
\<close>

definition archive_dispatcher :: "uuid \<Rightarrow> nat stmt" where
  "archive_dispatcher u = (\<lambda>now _ db.
     let rows = select_where (\<lambda>d. fd_id d = u) (dispatchers_t db)
     in if rows \<noteq> [] \<and> exists_where (\<lambda>d. fd_id d = u) (deleted_dispatchers_t db) then Inl UniqueViolation
        else Inr (length rows, db\<lparr>deleted_dispatchers_t := deleted_dispatchers_t db @ rows\<rparr>))"

definition delete_dispatcher :: "uuid \<Rightarrow> nat stmt" where
  "delete_dispatcher u = (\<lambda>now _ db.
     if exists_where (\<lambda>d. fd_id d = u) (dispatchers_t db)
        \<and> (exists_where (\<lambda>c. co_owner_dispatcher_id c = Some u) (companies_t db)
           \<or> exists_where (\<lambda>i. di_invited_by_dispatcher_id i = Some u) (driver_invitations_t db))
     then Inl FKViolation
     else Inr (count_where (\<lambda>d. fd_id d = u) (dispatchers_t db),
       db\<lparr>dispatchers_t := delete_where (\<lambda>d. fd_id d = u) (dispatchers_t db),
          dcr_t := delete_where (\<lambda>r. dcr_dispatcher_id r = u) (dcr_t db),
          recommendations_t := delete_where (\<lambda>r. rec_invited_by_dispatcher_id r = u) (recommendations_t db)\<rparr>))"

definition dispatchers_DeleteAndArchive :: "uuid \<Rightarrow> ('z, err + unit) prog" where
  "dispatchers_DeleteAndArchive u = do {
     b \<leftarrow> tx_begin;
     (case b of
        Inl e \<Rightarrow> ret (Inl e)
      | Inr t \<Rightarrow> do {
          (r, t) \<leftarrow> tx_exec t (update_dispatcher u (\<lambda>now d. d\<lparr>fd_deleted_at := Some now, fd_updated_at := now\<rparr>));
          (case r of
             Inl e \<Rightarrow> ret (Inl e)
           | Inr _ \<Rightarrow> do {
               (r, t) \<leftarrow> tx_exec t (archive_dispatcher u);
               (case r of
                  Inl e \<Rightarrow> ret (Inl e)
                | Inr n \<Rightarrow>
                    (if n = 0 then ret (Inl DispErrDeleteNotFound)
                     else do {
                       (r, t) \<leftarrow> tx_exec t (delete_dispatcher u);
                       (case r of Inl e \<Rightarrow> ret (Inl e) | Inr _ \<Rightarrow> tx_commit t)
                     }))
             })
        })
   }"

section \<open>Dispatchers in companies\<close>

definition company_row_exists :: "db \<Rightarrow> uuid \<Rightarrow> bool" where
  "company_row_exists db u = exists_where (\<lambda>c. co_id c = u) (companies_t db)"

definition upsert_dcr :: "uuid \<Rightarrow> uuid \<Rightarrow> string \<Rightarrow> unit stmt" where
  "upsert_dcr dispatcherID companyID role = (\<lambda>now _ db.
     let P = (\<lambda>r. dcr_dispatcher_id r = dispatcherID \<and> dcr_company_id r = companyID)
     in if \<not> varchar_ok 50 (Some role) then Inl InvalidInput
        else if exists_where P (dcr_t db)
        then Inr ((), db\<lparr>dcr_t := update_where P (\<lambda>r. r\<lparr>dcr_role := role,
               dcr_accepted_at := coalesce (dcr_accepted_at r) (Some now)\<rparr>) (dcr_t db)\<rparr>)
        else if \<not> dispatcher_exists db dispatcherID \<or> \<not> company_row_exists db companyID then Inl FKViolation
        else Inr ((), db\<lparr>dcr_t := dcr_t db @ [\<lparr>dcr_dispatcher_id = dispatcherID, dcr_company_id = companyID,
               dcr_role = role, dcr_accepted_at = Some now, dcr_created_at = now\<rparr>]\<rparr>))"

definition dcr_Add :: "uuid \<Rightarrow> uuid \<Rightarrow> string \<Rightarrow> ('z, err + unit) prog" where
  "dcr_Add dispatcherID companyID role = pg_call (upsert_dcr dispatcherID companyID role)"

definition has_access :: "db \<Rightarrow> uuid \<Rightarrow> uuid \<Rightarrow> bool" where
  "has_access db dispatcherID companyID = exists_where (\<lambda>c. co_id c = companyID \<and> co_deleted_at c = None
     \<and> (co_owner_dispatcher_id c = Some dispatcherID
        \<or> exists_where (\<lambda>r. dcr_dispatcher_id r = dispatcherID \<and> dcr_company_id r = companyID) (dcr_t db)))
     (companies_t db)"

definition dcr_HasAccess :: "uuid \<Rightarrow> uuid \<Rightarrow> ('z, err + bool) prog" where
  "dcr_HasAccess dispatcherID companyID = do {
     r \<leftarrow> pg_query_row (q_read (\<lambda>db. if has_access db dispatcherID companyID then Some (1 :: int) else None));
     ret (case r of Inl e \<Rightarrow> (if e = NoRows then Inr False else Inl e) | Inr _ \<Rightarrow> Inr True)
   }"

record DispatcherInCompany =
  dic_DispatcherID :: uuid
  dic_Role :: string

text \<open>The query has one placeholder and gets two arguments, which pgx refuses before it sends anything.\<close>

definition dcr_ListDispatchersByCompany :: "uuid \<Rightarrow> ('z, err + DispatcherInCompany list) prog" where
  "dcr_ListDispatchersByCompany companyID = pg_call (\<lambda>_ _ _. Inl ArgMismatch)"

section \<open>Invitations of dispatchers to companies\<close>

text \<open>\<open>rand.Read\<close> and the hexadecimal token: a fresh identifier stands for the bytes drawn.\<close>

definition draw_token :: "ext \<Rightarrow> ('z, err + string) prog" where
  "draw_token E = do {
     u \<leftarrow> new_uuid;
     ret (case random_token E u of None \<Rightarrow> Inl (Err ''rand'') | Some t \<Rightarrow> Inr t)
   }"

definition insert_dispatcher_invitation :: "string \<Rightarrow> uuid \<Rightarrow> string \<Rightarrow> string \<Rightarrow> uuid \<Rightarrow> time \<Rightarrow> unit stmt" where
  "insert_dispatcher_invitation token companyID role phone invitedBy expiresAt = (\<lambda>now u db.
     if \<not> varchar_ok 64 (Some token) \<or> \<not> varchar_ok 50 (Some role) \<or> \<not> varchar_ok 20 (Some phone) then Inl InvalidInput
     else if exists_where (\<lambda>i. xi_id i = u \<or> xi_token i = token) (dispatcher_invitations_t db) then Inl UniqueViolation
     else if \<not> company_row_exists db companyID then Inl FKViolation
     else Inr ((), db\<lparr>dispatcher_invitations_t := dispatcher_invitations_t db @
            [\<lparr>xi_id = u, xi_token = token, xi_company_id = companyID, xi_role = role, xi_phone = phone,
              xi_invited_by = invitedBy, xi_expires_at = expiresAt, xi_created_at = now\<rparr>]\<rparr>))"

definition dispinv_Create ::
    "ext \<Rightarrow> uuid \<Rightarrow> string \<Rightarrow> string \<Rightarrow> uuid \<Rightarrow> duration \<Rightarrow> ('z, err + string) prog" where
  "dispinv_Create E companyID role phone invitedBy expiresIn = andE (draw_token E) (\<lambda>token. do {
     now \<leftarrow> clock;
     andE (pg_call (insert_dispatcher_invitation token companyID role phone invitedBy (now + expiresIn)))
       (\<lambda>_. ret (Inr token))
   })"

text \<open>\<open>time.Now().After(expires_at)\<close>; an expired invitation is a nil pointer without an error.\<close>

definition unless_expired :: "('r \<Rightarrow> time) \<Rightarrow> err + 'r \<Rightarrow> ('z, err + 'r option) prog" where
  "unless_expired expires r =
     (case r of
        Inl e \<Rightarrow> ret (if e = NoRows then Inr None else Inl e)
      | Inr i \<Rightarrow> do { now \<leftarrow> clock; ret (Inr (if now > expires i then None else Some i)) })"

definition dispinv_GetByToken :: "string \<Rightarrow> ('z, err + dispatcher_invitation option) prog" where
  "dispinv_GetByToken token = do {
     r \<leftarrow> pg_query_row (q_read (\<lambda>db. first_where (\<lambda>i. xi_token i = token) (dispatcher_invitations_t db)));
     unless_expired xi_expires_at r
   }"

definition dispinv_Delete :: "string \<Rightarrow> ('z, err + unit) prog" where
  "dispinv_Delete token = pg_call (q_write (\<lambda>_ db. ((), db
     \<lparr>dispatcher_invitations_t := delete_where (\<lambda>i. xi_token i = token) (dispatcher_invitations_t db)\<rparr>)))"

section \<open>Invitations of drivers\<close>

definition insert_driver_invitation ::
    "string \<Rightarrow> uuid option \<Rightarrow> string \<Rightarrow> uuid \<Rightarrow> uuid option \<Rightarrow> time \<Rightarrow> unit stmt" where
  "insert_driver_invitation token companyID phone invitedBy byDispatcher expiresAt = (\<lambda>now u db.
     if \<not> varchar_ok 64 (Some token) \<or> \<not> varchar_ok 20 (Some phone) then Inl InvalidInput
     else if exists_where (\<lambda>i. di_id i = u \<or> di_token i = token) (driver_invitations_t db) then Inl UniqueViolation
     else if (case companyID of None \<Rightarrow> False | Some c \<Rightarrow> \<not> company_row_exists db c)
        \<or> (case byDispatcher of None \<Rightarrow> False | Some p \<Rightarrow> \<not> dispatcher_exists db p) then Inl FKViolation
     else Inr ((), db\<lparr>driver_invitations_t := driver_invitations_t db @
            [\<lparr>di_id = u, di_token = token, di_company_id = companyID, di_phone = phone, di_invited_by = invitedBy,
              di_invited_by_dispatcher_id = byDispatcher, di_expires_at = expiresAt, di_created_at = now\<rparr>]\<rparr>))"

definition drvinv_Create :: "ext \<Rightarrow> uuid \<Rightarrow> string \<Rightarrow> uuid \<Rightarrow> duration \<Rightarrow> ('z, err + string) prog" where
  "drvinv_Create E companyID phone invitedBy expiresIn = andE (draw_token E) (\<lambda>token. do {
     now \<leftarrow> clock;
     andE (pg_call (insert_driver_invitation token (Some companyID) phone invitedBy None (now + expiresIn)))
       (\<lambda>_. ret (Inr token))
   })"

definition drvinv_CreateForFreelance :: "ext \<Rightarrow> uuid \<Rightarrow> string \<Rightarrow> duration \<Rightarrow> ('z, err + string) prog" where
  "drvinv_CreateForFreelance E dispatcherID phone expiresIn = andE (draw_token E) (\<lambda>token. do {
     now \<leftarrow> clock;
     andE (pg_call (insert_driver_invitation token None phone dispatcherID (Some dispatcherID) (now + expiresIn)))
       (\<lambda>_. ret (Inr token))
   })"

definition drvinv_GetByToken :: "string \<Rightarrow> ('z, err + driver_invitation option) prog" where
  "drvinv_GetByToken token = do {
     r \<leftarrow> pg_query_row (q_read (\<lambda>db. first_where (\<lambda>i. di_token i = token) (driver_invitations_t db)));
     unless_expired di_expires_at r
   }"

definition drvinv_Delete :: "string \<Rightarrow> ('z, err + unit) prog" where
  "drvinv_Delete token = pg_call (q_write (\<lambda>_ db. ((), db
     \<lparr>driver_invitations_t := delete_where (\<lambda>i. di_token i = token) (driver_invitations_t db)\<rparr>)))"

text \<open>\<open>trim(replace(phone, ' ', ''))\<close>: SQL's \<open>trim\<close> removes spaces, of which none are left.\<close>

definition sql_no_spaces :: "string \<Rightarrow> string" where
  "sql_no_spaces s = sql_trim (remove_char (CHR '' '') s)"

definition q_select_now :: "(time \<Rightarrow> db \<Rightarrow> 'a) \<Rightarrow> 'a stmt" where
  "q_select_now f = (\<lambda>now _ db. Inr (f now db, db))"

definition drvinv_ListByPhone :: "string \<Rightarrow> ('z, err + driver_invitation list) prog" where
  "drvinv_ListByPhone phone = pg_call (q_select_now (\<lambda>now db. order_desc di_created_at
     (select_where (\<lambda>i. di_expires_at i > now \<and> sql_no_spaces (di_phone i) = sql_no_spaces phone)
        (driver_invitations_t db))))"

definition drvinv_ListByInvitedBy :: "uuid \<Rightarrow> ('z, err + driver_invitation list) prog" where
  "drvinv_ListByInvitedBy dispatcherID = pg_call (q_select_now (\<lambda>now db. order_desc di_created_at
     (select_where (\<lambda>i. di_expires_at i > now \<and> di_invited_by i = dispatcherID) (driver_invitations_t db))))"

section \<open>Invitations of dispatchers by drivers\<close>

definition insert_d2d :: "string \<Rightarrow> uuid \<Rightarrow> string \<Rightarrow> time \<Rightarrow> unit stmt" where
  "insert_d2d token driverID dispatcherPhone expiresAt = (\<lambda>now u db.
     if \<not> varchar_ok 64 (Some token) \<or> \<not> varchar_ok 32 (Some dispatcherPhone) then Inl InvalidInput
     else if exists_where (\<lambda>i. dd_id i = u \<or> dd_token i = token) (d2d_invitations_t db) then Inl UniqueViolation
     else if \<not> driver_exists db driverID then Inl FKViolation
     else Inr ((), db\<lparr>d2d_invitations_t := d2d_invitations_t db @
            [\<lparr>dd_id = u, dd_token = token, dd_driver_id = driverID, dd_dispatcher_phone = dispatcherPhone,
              dd_expires_at = expiresAt, dd_created_at = now\<rparr>]\<rparr>))"

definition d2d_Create :: "ext \<Rightarrow> uuid \<Rightarrow> string \<Rightarrow> duration \<Rightarrow> ('z, err + string) prog" where
  "d2d_Create E driverID dispatcherPhone expiresIn = andE (draw_token E) (\<lambda>token. do {
     now \<leftarrow> clock;
     andE (pg_call (insert_d2d token driverID (TrimSpace dispatcherPhone) (now + expiresIn))) (\<lambda>_. ret (Inr token))
   })"

definition d2d_GetByToken :: "string \<Rightarrow> ('z, err + d2d_invitation option) prog" where
  "d2d_GetByToken token = do {
     r \<leftarrow> pg_query_row (q_read (\<lambda>db. first_where (\<lambda>i. dd_token i = token) (d2d_invitations_t db)));
     unless_expired dd_expires_at r
   }"

definition d2d_Delete :: "string \<Rightarrow> ('z, err + unit) prog" where
  "d2d_Delete token = pg_call (q_write (\<lambda>_ db. ((), db
     \<lparr>d2d_invitations_t := delete_where (\<lambda>i. dd_token i = token) (d2d_invitations_t db)\<rparr>)))"

definition d2d_ListByDriverID :: "uuid \<Rightarrow> ('z, err + d2d_invitation list) prog" where
  "d2d_ListByDriverID driverID = pg_call (q_select_now (\<lambda>now db. order_desc dd_created_at
     (select_where (\<lambda>i. dd_expires_at i > now \<and> dd_driver_id i = driverID) (d2d_invitations_t db))))"

text \<open>\<open>normalizePhone\<close> is the \<open>NormalizePhone\<close> of the drivers' repository written out again.\<close>

definition d2d_normalizePhone :: "string \<Rightarrow> string" where
  "d2d_normalizePhone s = TrimPrefix (TrimSpace (remove_char (CHR ''-'') (remove_char (CHR '' '') s))) ''+''"

definition d2d_ListByDispatcherPhone :: "string \<Rightarrow> ('z, err + d2d_invitation list) prog" where
  "d2d_ListByDispatcherPhone dispatcherPhone =
     (let norm = d2d_normalizePhone dispatcherPhone
      in if norm = [] then ret (Inr [])
         else pg_call (q_select_now (\<lambda>now db. order_desc dd_created_at
           (select_where (\<lambda>i. dd_expires_at i > now \<and> sql_phone_digits (dd_dispatcher_phone i) = norm)
              (d2d_invitations_t db)))))"

definition PhoneMatches :: "d2d_invitation \<Rightarrow> string \<Rightarrow> bool" where
  "PhoneMatches i phone \<longleftrightarrow> d2d_normalizePhone (dd_dispatcher_phone i) = d2d_normalizePhone phone"

end
