(* ===== verification/Links.thy ===== *)
theory Links
  imports Dispatchers_Repo Auth_Handlers
begin

text \<open>
  How drivers, dispatchers and companies come together: the handlers \<open>driver_invitations.go\<close>,
  \<open>driver_to_dispatcher_invitations.go\<close>, \<open>driver_dispatchers.go\<close>, \<open>dispatcher_invitations.go\<close> and
  \<open>dispatcher_companies.go\<close>. The first argument after the external functions is the identity the guard let in.
  A body is \<open>None\<close> when it cannot be read as JSON.
\<close>

abbreviation week :: duration where "week \<equiv> 7 * 24 * hour"

text \<open>\<open>if err != nil || x == nil\<close>.\<close>

definition found :: "err + 'a option \<Rightarrow> 'a option" where
  "found r = (case r of Inl _ \<Rightarrow> None | Inr x \<Rightarrow> x)"

definition found1 :: "err + 'a \<Rightarrow> 'a option" where
  "found1 r = (case r of Inl _ \<Rightarrow> None | Inr x \<Rightarrow> Some x)"

lemma found_simps [simp]: "found (Inl e) = None" "found (Inr x) = x" "found1 (Inl e) = None" "found1 (Inr y) = Some y"
  by (simp_all add: found_def found1_def)

text \<open>\<open>binding:"required"\<close> on a string: the key is there and not empty.\<close>

definition required :: "string option \<Rightarrow> string option" where
  "required body = (case body of None \<Rightarrow> None | Some s \<Rightarrow> if s = [] then None else Some s)"

lemma required_simps [simp]: "required None = None" "required (Some []) = None"
  by (simp_all add: required_def)

lemma required_Some [simp]: "required b = Some s \<longleftrightarrow> b = Some s \<and> s \<noteq> []"
  by (auto simp: required_def split: option.splits if_splits)

definition created_token :: "string \<Rightarrow> response" where
  "created_token token = SuccessLang 201 ''created'' (JObj [(''token'', JStr token), (''expires_in_hours'', JInt 168)])"

definition items_json :: "json list \<Rightarrow> json" where
  "items_json items = JObj [(''items'', JList items)]"

section \<open>Invitations of drivers\<close>

definition DriverInvitations_Create :: "ext \<Rightarrow> uuid \<Rightarrow> string \<Rightarrow> string option \<Rightarrow> ('z, response) prog" where
  "DriverInvitations_Create E dispatcherID pCompanyId body =
     (let companyID = parsed_uuid E pCompanyId
      in if companyID = uuid_nil then ret (ErrorLang 400 ''invalid_company_id'') else
      attempt (dcr_HasAccess dispatcherID companyID)
        (\<lambda>_. ret (ErrorLang 403 ''company_not_found_or_access_denied'')) (\<lambda>ok.
      if \<not> ok then ret (ErrorLang 403 ''company_not_found_or_access_denied'') else
      (case required body of
         None \<Rightarrow> ret (ErrorLang 400 ''invalid_payload_detail'')
       | Some reqPhone \<Rightarrow>
           let phone = TrimSpace reqPhone in
           if phone = [] then ret (ErrorLang 400 ''phone_required'') else
           attempt (drivers_FindByPhoneNormalized E phone)
             (\<lambda>_. ret (ErrorLang 500 ''failed_to_create_invitation'')) (\<lambda>drv.
           if (case drv of None \<Rightarrow> False | Some d \<Rightarrow> dr_CompanyID d = Some (uuid_string E companyID))
           then ret (ErrorLang 409 ''driver_already_in_company'') else
           attempt (drvinv_Create E companyID phone dispatcherID week)
             (\<lambda>_. ret (ErrorLang 500 ''failed_to_create_invitation''))
             (\<lambda>token. ret (created_token token))))))"

record CreateForFreelanceReq =
  cf_Phone :: string
  cf_DriverID :: "uuid option"

text \<open>The phone of the body, or of the driver the body names.\<close>

definition invited_phone :: "ext \<Rightarrow> CreateForFreelanceReq \<Rightarrow> ('z, string option) prog" where
  "invited_phone E req =
     (case cf_DriverID req of
        None \<Rightarrow> ret (Some (TrimSpace (cf_Phone req)))
      | Some u \<Rightarrow>
          if u = uuid_nil then ret (Some (TrimSpace (cf_Phone req)))
          else do { drv \<leftarrow> drivers_FindByID E u; ret (map_option (\<lambda>d. TrimSpace (dr_Phone d)) (found drv)) })"

definition DriverInvitations_CreateForFreelance ::
    "ext \<Rightarrow> uuid \<Rightarrow> CreateForFreelanceReq option \<Rightarrow> ('z, response) prog" where
  "DriverInvitations_CreateForFreelance E dispatcherID body =
     (case body of
        None \<Rightarrow> ret (ErrorLang 400 ''invalid_payload_detail'')
      | Some req \<Rightarrow> do {
          p \<leftarrow> invited_phone E req;
          (case p of
             None \<Rightarrow> ret (ErrorLang 400 ''driver_not_found'')
           | Some phone \<Rightarrow>
               if phone = [] then ret (ErrorLang 400 ''phone_or_driver_id_required'') else
               attempt (drivers_FindByPhoneNormalized E phone)
                 (\<lambda>_. ret (ErrorLang 500 ''failed_to_create_invitation'')) (\<lambda>drv.
               if (case drv of None \<Rightarrow> False | Some d \<Rightarrow> dr_FreelancerID d = Some (uuid_string E dispatcherID))
               then ret (ErrorLang 409 ''driver_already_accepted_your_invitation'') else
               attempt (drvinv_CreateForFreelance E dispatcherID phone week)
                 (\<lambda>_. ret (ErrorLang 500 ''failed_to_create_invitation''))
                 (\<lambda>token. ret (created_token token))))
        })"

definition find_item :: "Driver \<Rightarrow> json" where
  "find_item d = JObj
     [(''id'', JStr (dr_ID d)), (''phone'', JStr (dr_Phone d)), (''name'', json_opt JStr (dr_Name d)),
      (''work_status'', json_opt JStr (dr_WorkStatus d)), (''driver_type'', json_opt JStr (dr_DriverType d)),
      (''freelancer_id'', json_opt JStr (dr_FreelancerID d)), (''company_id'', json_opt JStr (dr_CompanyID d))]"

text \<open>\<open>if l := c.Query("limit"); l != "" \<dots>\<close> with bounds.\<close>

definition query_limit :: "int \<Rightarrow> int \<Rightarrow> string \<Rightarrow> int" where
  "query_limit dflt most l =
     (if l = [] then dflt
      else (case Atoi l of None \<Rightarrow> dflt | Some n \<Rightarrow> if n > 0 \<and> n \<le> most then n else dflt))"

definition DriverInvitations_FindDrivers :: "ext \<Rightarrow> string \<Rightarrow> string \<Rightarrow> ('z, response) prog" where
  "DriverInvitations_FindDrivers E qPhone qLimit =
     (let phoneSearch = TrimSpace qPhone
      in if phoneSearch = [] then ret (OKLang ''ok'' (items_json []))
         else attempt (drivers_SearchByPhone E phoneSearch (query_limit 20 100 qLimit))
                (\<lambda>_. ret (ErrorLang 500 ''failed_to_search_drivers''))
                (\<lambda>list. ret (OKLang ''ok'' (items_json (map find_item list)))))"

definition invitation_base :: "driver_invitation \<Rightarrow> (string \<times> json) list" where
  "invitation_base i =
     [(''token'', JStr (di_token i)), (''phone'', JStr (di_phone i)),
      (''expires_at'', JTime (di_expires_at i)), (''created_at'', JTime (di_created_at i))]"

text \<open>\<open>p != nil && *p != uuid.Nil\<close>.\<close>

definition some_uuid :: "uuid option \<Rightarrow> uuid option" where
  "some_uuid p = (case p of None \<Rightarrow> None | Some u \<Rightarrow> if u = uuid_nil then None else Some u)"

lemma some_uuid_Some [simp]: "some_uuid p = Some u \<longleftrightarrow> p = Some u \<and> u \<noteq> uuid_nil"
  by (auto simp: some_uuid_def split: option.splits if_splits)

definition sent_item :: "ext \<Rightarrow> driver_invitation \<Rightarrow> json" where
  "sent_item E i = JObj (invitation_base i @
     (case some_uuid (di_company_id i) of
        Some u \<Rightarrow> [(''type'', JStr ''company''), (''company_id'', JStr (uuid_string E u))]
      | None \<Rightarrow> (''type'', JStr ''freelance'') #
          (case di_invited_by_dispatcher_id i of
             None \<Rightarrow> [] | Some p \<Rightarrow> [(''dispatcher_id'', JStr (uuid_string E p))])))"

definition DriverInvitations_ListSent :: "ext \<Rightarrow> uuid \<Rightarrow> ('z, response) prog" where
  "DriverInvitations_ListSent E dispatcherID =
     attempt (drvinv_ListByInvitedBy dispatcherID)
       (\<lambda>_. ret (ErrorLang 500 ''failed_to_list_invitations''))
       (\<lambda>list. ret (OKLang ''ok'' (items_json (map (sent_item E) list))))"

text \<open>\<open>if err != nil || id == uuid.Nil\<close>.\<close>

definition path_uuid :: "ext \<Rightarrow> string \<Rightarrow> uuid option" where
  "path_uuid E s = some_uuid (uuid_parse E s)"

lemma path_uuid_Some [simp]: "path_uuid E s = Some u \<longleftrightarrow> uuid_parse E s = Some u \<and> u \<noteq> uuid_nil"
  by (simp add: path_uuid_def)

definition DriverInvitations_UnlinkDriver :: "ext \<Rightarrow> uuid \<Rightarrow> string \<Rightarrow> ('z, response) prog" where
  "DriverInvitations_UnlinkDriver E dispatcherID pDriverId =
     (case path_uuid E pDriverId of
        None \<Rightarrow> ret (ErrorLang 400 ''invalid_driver_id'')
      | Some driverID \<Rightarrow>
          attempt (drivers_UnlinkFromFreelancer driverID dispatcherID)
            (\<lambda>_. ret (ErrorLang 500 ''failed_to_unlink''))
            (\<lambda>ok. ret (if ok then OKLang ''ok'' JNull else ErrorLang 403 ''driver_not_linked'')))"

text \<open>\<open>trimPtr\<close>: a blank string is nil.\<close>

definition trimPtr :: "string option \<Rightarrow> string option" where
  "trimPtr p = (case p of None \<Rightarrow> None | Some s \<Rightarrow> if TrimSpace s = [] then None else Some (TrimSpace s))"

text \<open>The body of the request, as the row of arguments of the update; its driver is set by the update.\<close>

definition trim_power :: "power_row \<Rightarrow> power_row" where
  "trim_power r = r\<lparr>pw_plate_type := trimPtr (pw_plate_type r), pw_plate_number := trimPtr (pw_plate_number r),
     pw_tech_series := trimPtr (pw_tech_series r), pw_tech_number := trimPtr (pw_tech_number r),
     pw_owner_id := trimPtr (pw_owner_id r), pw_owner_name := trimPtr (pw_owner_name r)\<rparr>"

definition trim_trailer :: "trailer_row \<Rightarrow> trailer_row" where
  "trim_trailer r = r\<lparr>tr_plate_type := trimPtr (tr_plate_type r), tr_plate_number := trimPtr (tr_plate_number r),
     tr_tech_series := trimPtr (tr_tech_series r), tr_tech_number := trimPtr (tr_tech_number r),
     tr_owner_id := trimPtr (tr_owner_id r), tr_owner_name := trimPtr (tr_owner_name r)\<rparr>"

text \<open>The driver of the path, who has to be one of the dispatcher's.\<close>

definition own_driver ::
    "ext \<Rightarrow> uuid \<Rightarrow> string \<Rightarrow> (uuid \<Rightarrow> ('z, response) prog) \<Rightarrow> ('z, response) prog" where
  "own_driver E dispatcherID pDriverId k =
     (case path_uuid E pDriverId of
        None \<Rightarrow> ret (ErrorLang 400 ''invalid_driver_id'')
      | Some driverID \<Rightarrow> do {
          drv \<leftarrow> drivers_FindByID E driverID;
          (case found drv of
             None \<Rightarrow> ret (ErrorLang 404 ''driver_not_found'')
           | Some d \<Rightarrow>
               if dr_FreelancerID d \<noteq> Some (uuid_string E dispatcherID)
               then ret (ErrorLang 403 ''driver_must_accept_invitation'')
               else k driverID)
        })"

definition updated_driver :: "ext \<Rightarrow> uuid \<Rightarrow> ('z, response) prog" where
  "updated_driver E driverID = do {
     updated \<leftarrow> drivers_FindByID E driverID;
     ret (OKLang ''updated'' (JObj [(''event'', JStr ''updated''), (''driver'', found_json updated)]))
   }"

definition DriverInvitations_SetDriverPower ::
    "ext \<Rightarrow> uuid \<Rightarrow> string \<Rightarrow> power_row option \<Rightarrow> ('z, response) prog" where
  "DriverInvitations_SetDriverPower E dispatcherID pDriverId body =
     own_driver E dispatcherID pDriverId (\<lambda>driverID.
       (case body of
          None \<Rightarrow> ret (ErrorLang 400 ''invalid_payload_detail'')
        | Some req \<Rightarrow>
            attempt (drivers_UpdatePowerProfile driverID (trim_power req))
              (\<lambda>_. ret (ErrorLang 500 ''failed_to_update_power''))
              (\<lambda>_. updated_driver E driverID)))"

definition DriverInvitations_SetDriverTrailer ::
    "ext \<Rightarrow> uuid \<Rightarrow> string \<Rightarrow> trailer_row option \<Rightarrow> ('z, response) prog" where
  "DriverInvitations_SetDriverTrailer E dispatcherID pDriverId body =
     own_driver E dispatcherID pDriverId (\<lambda>driverID.
       (case body of
          None \<Rightarrow> ret (ErrorLang 400 ''invalid_payload_detail'')
        | Some req \<Rightarrow>
            attempt (drivers_UpdateTrailerProfile driverID (trim_trailer req))
              (\<lambda>_. ret (ErrorLang 500 ''failed_to_update_trailer''))
              (\<lambda>_. updated_driver E driverID)))"

definition DriverInvitations_CancelInvitation :: "uuid \<Rightarrow> string \<Rightarrow> ('z, response) prog" where
  "DriverInvitations_CancelInvitation dispatcherID pToken =
     (let token = TrimSpace pToken
      in if token = [] then ret (ErrorLang 400 ''token_required'')
         else do {
           r \<leftarrow> drvinv_GetByToken token;
           (case found r of
              None \<Rightarrow> ret (ErrorLang 404 ''invitation_not_found_or_expired'')
            | Some i \<Rightarrow>
                if di_invited_by i \<noteq> dispatcherID then ret (ErrorLang 403 ''not_your_invitation'')
                else attempt (drvinv_Delete token)
                       (\<lambda>_. ret (ErrorLang 500 ''failed_to_cancel_invitation''))
                       (\<lambda>_. ret (OKLang ''ok'' JNull)))
         })"

definition received_item :: "ext \<Rightarrow> driver_invitation \<Rightarrow> json" where
  "received_item E i = JObj (invitation_base i @
     (case some_uuid (di_company_id i) of
        Some u \<Rightarrow> [(''type'', JStr ''company''), (''company_id'', JStr (uuid_string E u))]
      | None \<Rightarrow> (case some_uuid (di_invited_by_dispatcher_id i) of
            Some p \<Rightarrow> [(''type'', JStr ''freelance''), (''dispatcher_id'', JStr (uuid_string E p))]
          | None \<Rightarrow> [(''type'', JStr ''unknown'')])))"

definition DriverInvitations_ListInvitations :: "ext \<Rightarrow> uuid \<Rightarrow> ('z, response) prog" where
  "DriverInvitations_ListInvitations E driverID = do {
     drv \<leftarrow> drivers_FindByID E driverID;
     (case found drv of
        None \<Rightarrow> ret (ErrorLang 401 ''driver_not_found'')
      | Some d \<Rightarrow>
          attempt (drvinv_ListByPhone (dr_Phone d))
            (\<lambda>_. ret (ErrorLang 500 ''failed_to_list_invitations''))
            (\<lambda>list. ret (OKLang ''ok'' (items_json (map (received_item E) list)))))
   }"

text \<open>\<open>strings.TrimSpace(strings.ReplaceAll(s, " ", ""))\<close>, also \<open>normPhone\<close>.\<close>

definition normPhone :: "string \<Rightarrow> string" where
  "normPhone s = TrimSpace (remove_char (CHR '' '') s)"

text \<open>What \<open>Accept\<close> and \<open>Decline\<close> check: the invitation is alive and was sent to the caller's phone.\<close>

definition my_invitation ::
    "ext \<Rightarrow> uuid \<Rightarrow> string \<Rightarrow> (driver_invitation \<Rightarrow> ('z, response) prog) \<Rightarrow> ('z, response) prog" where
  "my_invitation E driverID token k = do {
     r \<leftarrow> drvinv_GetByToken token;
     (case found r of
        None \<Rightarrow> ret (ErrorLang 400 ''invitation_not_found_or_expired'')
      | Some i \<Rightarrow> do {
          drv \<leftarrow> drivers_FindByID E driverID;
          (case found drv of
             None \<Rightarrow> ret (ErrorLang 401 ''driver_not_found'')
           | Some d \<Rightarrow>
               if normPhone (di_phone i) \<noteq> normPhone (dr_Phone d)
               then ret (ErrorLang 403 ''invitation_sent_to_another_phone'')
               else k i)
        })
   }"

definition DriverInvitations_Accept :: "ext \<Rightarrow> uuid \<Rightarrow> string option \<Rightarrow> ('z, response) prog" where
  "DriverInvitations_Accept E driverID body =
     (case required body of
        None \<Rightarrow> ret (ErrorLang 400 ''invalid_payload_detail'')
      | Some tok \<Rightarrow> my_invitation E driverID (TrimSpace tok) (\<lambda>i.
          (case some_uuid (di_company_id i) of
             Some companyID \<Rightarrow>
               attempt (drivers_SetCompanyID driverID companyID)
                 (\<lambda>_. ret (ErrorLang 500 ''failed_to_accept''))
                 (\<lambda>_. do {
                    _ \<leftarrow> drvinv_Delete (di_token i);
                    ret (SuccessLang 200 ''accepted'' (JObj [(''company_id'', JStr (uuid_string E companyID))]))
                  })
           | None \<Rightarrow>
               (case some_uuid (di_invited_by_dispatcher_id i) of
                  Some dispatcherID \<Rightarrow>
                    attempt (drivers_SetFreelancerID driverID dispatcherID)
                      (\<lambda>_. ret (ErrorLang 500 ''failed_to_accept''))
                      (\<lambda>_. do {
                         _ \<leftarrow> drvinv_Delete (di_token i);
                         ret (SuccessLang 200 ''accepted'' (JObj [(''freelancer_id'', JStr (uuid_string E dispatcherID))]))
                       })
                | None \<Rightarrow> ret (ErrorLang 400 ''invitation_invalid'')))))"

definition DriverInvitations_Decline :: "ext \<Rightarrow> uuid \<Rightarrow> string option \<Rightarrow> ('z, response) prog" where
  "DriverInvitations_Decline E driverID body =
     (case required body of
        None \<Rightarrow> ret (ErrorLang 400 ''invalid_payload_detail'')
      | Some tok \<Rightarrow> my_invitation E driverID (TrimSpace tok) (\<lambda>i. do {
          _ \<leftarrow> drvinv_Delete (TrimSpace tok);
          ret (OKLang ''declined'' (JObj [(''status'', JStr ''declined'')]))
        }))"

definition DriverInvitations_ListMyDrivers :: "ext \<Rightarrow> uuid \<Rightarrow> string \<Rightarrow> ('z, response) prog" where
  "DriverInvitations_ListMyDrivers E dispatcherID qLimit =
     attempt (drivers_ListByFreelancerID E dispatcherID (query_limit 100 200 qLimit))
       (\<lambda>_. ret (ErrorLang 500 ''failed_to_list_drivers''))
       (\<lambda>list. ret (OKLang ''ok'' (items_json (map driver_json list))))"

section \<open>Invitations of dispatchers by drivers\<close>

definition already_linked :: "ext \<Rightarrow> uuid \<Rightarrow> string \<Rightarrow> ('z, bool) prog" where
  "already_linked E driverID phone = do {
     disp \<leftarrow> dispatchers_FindByPhone E phone;
     (case found1 disp of
        None \<Rightarrow> ret False
      | Some p \<Rightarrow> do {
          drv \<leftarrow> drivers_FindByID E driverID;
          ret (case found drv of None \<Rightarrow> False | Some d \<Rightarrow> dr_FreelancerID d = Some (dp_ID p))
        })
   }"

definition D2D_CreateFromDriver :: "ext \<Rightarrow> uuid \<Rightarrow> string option \<Rightarrow> ('z, response) prog" where
  "D2D_CreateFromDriver E driverID body =
     (case required body of
        None \<Rightarrow> ret (ErrorLang 400 ''invalid_payload_detail'')
      | Some reqPhone \<Rightarrow>
          let phone = TrimSpace reqPhone in
          if phone = [] then ret (ErrorLang 400 ''phone_required'') else do {
            linked \<leftarrow> already_linked E driverID phone;
            if linked then ret (ErrorLang 409 ''already_linked_to_this_dispatcher'') else
            attempt (d2d_Create E driverID phone week)
              (\<lambda>_. ret (ErrorLang 500 ''failed_to_create_invitation''))
              (\<lambda>token. ret (created_token token))
          })"

definition d2d_item :: "d2d_invitation \<Rightarrow> json" where
  "d2d_item i = JObj
     [(''token'', JStr (dd_token i)), (''dispatcher_phone'', JStr (dd_dispatcher_phone i)),
      (''expires_at'', JTime (dd_expires_at i)), (''created_at'', JTime (dd_created_at i))]"

definition D2D_ListSentByDriver :: "uuid \<Rightarrow> ('z, response) prog" where
  "D2D_ListSentByDriver driverID =
     attempt (d2d_ListByDriverID driverID)
       (\<lambda>_. ret (ErrorLang 500 ''failed_to_list_invitations''))
       (\<lambda>list. ret (OKLang ''ok'' (items_json (map d2d_item list))))"

definition D2D_CancelByDriver :: "uuid \<Rightarrow> string \<Rightarrow> ('z, response) prog" where
  "D2D_CancelByDriver driverID pToken =
     (let token = TrimSpace pToken
      in if token = [] then ret (ErrorLang 400 ''token_required'')
         else do {
           r \<leftarrow> d2d_GetByToken token;
           (case found r of
              None \<Rightarrow> ret (ErrorLang 404 ''invitation_not_found_or_expired'')
            | Some i \<Rightarrow>
                if dd_driver_id i \<noteq> driverID then ret (ErrorLang 403 ''not_your_invitation'')
                else attempt (d2d_Delete token)
                       (\<lambda>_. ret (ErrorLang 500 ''failed_to_cancel_invitation''))
                       (\<lambda>_. ret (OKLang ''ok'' JNull)))
         })"

fun d2d_received_items :: "ext \<Rightarrow> d2d_invitation list \<Rightarrow> ('z, json list) prog" where
  "d2d_received_items E [] = ret []"
| "d2d_received_items E (i # is) = do {
     drv \<leftarrow> drivers_FindByID E (dd_driver_id i);
     rest \<leftarrow> d2d_received_items E is;
     ret (JObj ([(''token'', JStr (dd_token i)), (''driver_id'', JStr (uuid_string E (dd_driver_id i))),
            (''dispatcher_phone'', JStr (dd_dispatcher_phone i)), (''expires_at'', JTime (dd_expires_at i)),
            (''created_at'', JTime (dd_created_at i))]
          @ (case found drv of None \<Rightarrow> []
             | Some d \<Rightarrow> [(''driver_name'', json_opt JStr (dr_Name d)), (''driver_phone'', JStr (dr_Phone d))])) # rest)
   }"

definition with_dispatcher ::
    "ext \<Rightarrow> uuid \<Rightarrow> (Dispatcher \<Rightarrow> ('z, response) prog) \<Rightarrow> ('z, response) prog" where
  "with_dispatcher E dispatcherID k =
     attempt (dispatchers_FindByID E dispatcherID) (\<lambda>_. ret (ErrorLang 401 ''dispatcher_not_found'')) k"

definition D2D_ListReceivedByDispatcher :: "ext \<Rightarrow> uuid \<Rightarrow> ('z, response) prog" where
  "D2D_ListReceivedByDispatcher E dispatcherID = with_dispatcher E dispatcherID (\<lambda>disp.
     attempt (d2d_ListByDispatcherPhone (dp_Phone disp))
       (\<lambda>_. ret (ErrorLang 500 ''failed_to_list_invitations''))
       (\<lambda>list. do { items \<leftarrow> d2d_received_items E list; ret (OKLang ''ok'' (items_json items)) }))"

definition invitation_for_me ::
    "ext \<Rightarrow> uuid \<Rightarrow> string option \<Rightarrow> (string \<Rightarrow> d2d_invitation \<Rightarrow> ('z, response) prog) \<Rightarrow> ('z, response) prog" where
  "invitation_for_me E dispatcherID body k = with_dispatcher E dispatcherID (\<lambda>disp.
     (case required body of
        None \<Rightarrow> ret (ErrorLang 400 ''invalid_payload_detail'')
      | Some tok \<Rightarrow> do {
          r \<leftarrow> d2d_GetByToken (TrimSpace tok);
          (case found r of
             None \<Rightarrow> ret (ErrorLang 400 ''invitation_not_found_or_expired'')
           | Some i \<Rightarrow>
               if \<not> PhoneMatches i (dp_Phone disp) then ret (ErrorLang 403 ''invitation_sent_to_another_phone'')
               else k (TrimSpace tok) i)
        }))"

definition D2D_AcceptByDispatcher :: "ext \<Rightarrow> uuid \<Rightarrow> string option \<Rightarrow> ('z, response) prog" where
  "D2D_AcceptByDispatcher E dispatcherID body = invitation_for_me E dispatcherID body (\<lambda>token i.
     attempt (drivers_SetFreelancerID (dd_driver_id i) dispatcherID)
       (\<lambda>_. ret (ErrorLang 500 ''failed_to_accept''))
       (\<lambda>_. do {
          _ \<leftarrow> d2d_Delete token;
          ret (SuccessLang 200 ''accepted'' (JObj [(''driver_id'', JStr (uuid_string E (dd_driver_id i)))]))
        }))"

definition D2D_DeclineByDispatcher :: "ext \<Rightarrow> uuid \<Rightarrow> string option \<Rightarrow> ('z, response) prog" where
  "D2D_DeclineByDispatcher E dispatcherID body = invitation_for_me E dispatcherID body (\<lambda>token i. do {
     _ \<leftarrow> d2d_Delete token;
     ret (OKLang ''declined'' (JObj [(''status'', JStr ''declined'')]))
   })"

section \<open>The dispatchers of a driver\<close>

definition dispatcherToItem :: "Dispatcher \<Rightarrow> string \<Rightarrow> string option \<Rightarrow> json" where
  "dispatcherToItem d linkType companyRole = JObj
     ([(''id'', JStr (dp_ID d)), (''name'', json_opt JStr (dp_Name d)), (''phone'', JStr (dp_Phone d)),
       (''work_status'', json_opt JStr (dp_WorkStatus d)), (''has_photo'', JBool (dp_HasPhoto d)),
       (''type'', JStr linkType)]
      @ (case companyRole of None \<Rightarrow> [] | Some r \<Rightarrow> [(''company_role'', JStr r)]))"

definition freelance_items :: "ext \<Rightarrow> Driver \<Rightarrow> ('z, json list) prog" where
  "freelance_items E d =
     (case dr_FreelancerID d of
        None \<Rightarrow> ret []
      | Some s \<Rightarrow>
          if s = [] then ret [] else
          (case uuid_parse E s of
             None \<Rightarrow> ret []
           | Some dispID \<Rightarrow> do {
               r \<leftarrow> dispatchers_FindByID E dispID;
               ret (case found1 r of None \<Rightarrow> [] | Some p \<Rightarrow> [dispatcherToItem p ''freelance'' None])
             }))"

fun company_items :: "ext \<Rightarrow> uuid set \<Rightarrow> DispatcherInCompany list \<Rightarrow> ('z, json list) prog" where
  "company_items E seen [] = ret []"
| "company_items E seen (row # rows) =
     (if dic_DispatcherID row \<in> seen then company_items E seen rows
      else do {
        r \<leftarrow> dispatchers_FindByID E (dic_DispatcherID row);
        rest \<leftarrow> company_items E (insert (dic_DispatcherID row) seen) rows;
        ret ((case found1 r of None \<Rightarrow> [] | Some p \<Rightarrow> [dispatcherToItem p ''company'' (Some (dic_Role row))]) @ rest)
      })"

definition DriverDispatchers_ListMyDispatchers :: "ext \<Rightarrow> uuid \<Rightarrow> ('z, response) prog" where
  "DriverDispatchers_ListMyDispatchers E driverID = do {
     drv \<leftarrow> drivers_FindByID E driverID;
     (case found drv of
        None \<Rightarrow> ret (ErrorLang 401 ''driver_not_found'')
      | Some d \<Rightarrow> do {
          items \<leftarrow> freelance_items E d;
          (case dr_CompanyID d of
             None \<Rightarrow> ret (OKLang ''ok'' (items_json items))
           | Some s \<Rightarrow>
               if s = [] then ret (OKLang ''ok'' (items_json items)) else
               (case uuid_parse E s of
                  None \<Rightarrow> ret (OKLang ''ok'' (items_json items))
                | Some companyID \<Rightarrow>
                    attempt (dcr_ListDispatchersByCompany companyID)
                      (\<lambda>_. ret (ErrorLang 500 ''failed_to_list_dispatchers''))
                      (\<lambda>list. do {
                         more \<leftarrow> company_items E {} list;
                         ret (OKLang ''ok'' (items_json (items @ more)))
                       })))
        })
   }"

definition DriverDispatchers_UnlinkDispatcher :: "ext \<Rightarrow> uuid \<Rightarrow> string \<Rightarrow> ('z, response) prog" where
  "DriverDispatchers_UnlinkDispatcher E driverID pDispatcherId =
     (case path_uuid E pDispatcherId of
        None \<Rightarrow> ret (ErrorLang 400 ''invalid_dispatcher_id'')
      | Some dispatcherID \<Rightarrow>
          attempt (drivers_UnlinkFromFreelancer driverID dispatcherID)
            (\<lambda>_. ret (ErrorLang 500 ''failed_to_unlink''))
            (\<lambda>ok. ret (if ok then OKLang ''ok'' (JObj [(''status'', JStr ''unlinked'')])
                       else ErrorLang 403 ''dispatcher_not_linked_to_you'')))"

section \<open>Invitations of dispatchers to companies\<close>

record CreateInvitationReq =
  xr_Phone :: string
  xr_Role :: string

definition bind_invitation :: "CreateInvitationReq option \<Rightarrow> CreateInvitationReq option" where
  "bind_invitation body =
     (case body of
        None \<Rightarrow> None
      | Some req \<Rightarrow> if xr_Phone req \<noteq> [] \<and> xr_Role req \<in> {''dispatcher'', ''top_dispatcher''} then Some req else None)"

definition DispatcherInvitations_CreateInvitation ::
    "ext \<Rightarrow> uuid \<Rightarrow> string \<Rightarrow> CreateInvitationReq option \<Rightarrow> ('z, response) prog" where
  "DispatcherInvitations_CreateInvitation E dispatcherID pCompanyId body =
     (let companyID = parsed_uuid E pCompanyId
      in if companyID = uuid_nil then ret (ErrorLang 400 ''invalid_company_id'') else
      attempt (dcr_HasAccess dispatcherID companyID)
        (\<lambda>_. ret (ErrorLang 403 ''company_not_found_or_access_denied'')) (\<lambda>ok.
      if \<not> ok then ret (ErrorLang 403 ''company_not_found_or_access_denied'') else
      (case bind_invitation body of
         None \<Rightarrow> ret (ErrorLang 400 ''invalid_payload_detail'')
       | Some req \<Rightarrow>
           let phone = TrimSpace (xr_Phone req) in
           if phone = [] then ret (ErrorLang 400 ''phone_required'') else
           attempt (dispinv_Create E companyID (xr_Role req) phone dispatcherID week)
             (\<lambda>_. ret (ErrorLang 500 ''failed_to_create_invitation''))
             (\<lambda>token. ret (created_token token)))))"

definition DispatcherInvitations_Accept :: "ext \<Rightarrow> uuid \<Rightarrow> string option \<Rightarrow> ('z, response) prog" where
  "DispatcherInvitations_Accept E dispatcherID body =
     (case required body of
        None \<Rightarrow> ret (ErrorLang 400 ''invalid_payload_detail'')
      | Some tok \<Rightarrow> do {
          r \<leftarrow> dispinv_GetByToken (TrimSpace tok);
          (case found r of
             None \<Rightarrow> ret (ErrorLang 400 ''invitation_not_found_or_expired'')
           | Some i \<Rightarrow> with_dispatcher E dispatcherID (\<lambda>disp.
               if normPhone (xi_phone i) \<noteq> normPhone (dp_Phone disp)
               then ret (ErrorLang 403 ''invitation_sent_to_another_phone'') else
               attempt (dcr_Add dispatcherID (xi_company_id i) (xi_role i))
                 (\<lambda>_. ret (ErrorLang 500 ''failed_to_accept''))
                 (\<lambda>_. do {
                    _ \<leftarrow> dispinv_Delete (xi_token i);
                    ret (SuccessLang 200 ''accepted'' (JObj [(''company_id'', JStr (uuid_string E (xi_company_id i)))]))
                  })))
        })"

definition DispatcherInvitations_Decline :: "string option \<Rightarrow> ('z, response) prog" where
  "DispatcherInvitations_Decline body =
     (case required body of
        None \<Rightarrow> ret (ErrorLang 400 ''invalid_payload_detail'')
      | Some tok \<Rightarrow> do {
          _ \<leftarrow> dispinv_Delete (TrimSpace tok);
          ret (SuccessLang 200 ''declined'' JNull)
        })"

end
