(* ===== verification/Link_Guarantees.thy ===== *)
theory Link_Guarantees
  imports Links Samples
begin

text \<open>
  What the handshake between drivers and dispatchers guarantees: a driver works for a dispatcher only when both of
  them asked for it.
\<close>

section \<open>Requests\<close>

datatype link_request =
    Invite_to_company uuid string "string option"
  | Invite_driver uuid "CreateForFreelanceReq option"
  | Find_drivers string string
  | Sent_invitations uuid
  | Unlink_driver uuid string
  | Set_power uuid string "power_row option"
  | Set_trailer uuid string "trailer_row option"
  | Cancel_invitation uuid string
  | My_invitations uuid
  | Accept_invitation uuid "string option"
  | Decline_invitation uuid "string option"
  | My_drivers uuid string
  | Invite_dispatcher uuid "string option"
  | Sent_to_dispatchers uuid
  | Cancel_to_dispatcher uuid string
  | Invitations_from_drivers uuid
  | Accept_driver uuid "string option"
  | Decline_driver uuid "string option"
  | My_dispatchers uuid
  | Leave_dispatcher uuid string
  | Invite_colleague uuid string "CreateInvitationReq option"
  | Join_company uuid "string option"
  | Refuse_company "string option"

fun serve_link :: "ext \<Rightarrow> link_request \<Rightarrow> ('z, response) prog" where
  "serve_link E (Invite_to_company p c body) = DriverInvitations_Create E p c body"
| "serve_link E (Invite_driver p body) = DriverInvitations_CreateForFreelance E p body"
| "serve_link E (Find_drivers ph l) = DriverInvitations_FindDrivers E ph l"
| "serve_link E (Sent_invitations p) = DriverInvitations_ListSent E p"
| "serve_link E (Unlink_driver p d) = DriverInvitations_UnlinkDriver E p d"
| "serve_link E (Set_power p d body) = DriverInvitations_SetDriverPower E p d body"
| "serve_link E (Set_trailer p d body) = DriverInvitations_SetDriverTrailer E p d body"
| "serve_link E (Cancel_invitation p t) = DriverInvitations_CancelInvitation p t"
| "serve_link E (My_invitations u) = DriverInvitations_ListInvitations E u"
| "serve_link E (Accept_invitation u body) = DriverInvitations_Accept E u body"
| "serve_link E (Decline_invitation u body) = DriverInvitations_Decline E u body"
| "serve_link E (My_drivers p l) = DriverInvitations_ListMyDrivers E p l"
| "serve_link E (Invite_dispatcher u body) = D2D_CreateFromDriver E u body"
| "serve_link E (Sent_to_dispatchers u) = D2D_ListSentByDriver u"
| "serve_link E (Cancel_to_dispatcher u t) = D2D_CancelByDriver u t"
| "serve_link E (Invitations_from_drivers p) = D2D_ListReceivedByDispatcher E p"
| "serve_link E (Accept_driver p body) = D2D_AcceptByDispatcher E p body"
| "serve_link E (Decline_driver p body) = D2D_DeclineByDispatcher E p body"
| "serve_link E (My_dispatchers u) = DriverDispatchers_ListMyDispatchers E u"
| "serve_link E (Leave_dispatcher u p) = DriverDispatchers_UnlinkDispatcher E u p"
| "serve_link E (Invite_colleague p c body) = DispatcherInvitations_CreateInvitation E p c body"
| "serve_link E (Join_company p body) = DispatcherInvitations_Accept E p body"
| "serve_link E (Refuse_company body) = DispatcherInvitations_Decline body"

section \<open>The history behind a link\<close>

definition linked :: "db \<Rightarrow> uuid \<Rightarrow> uuid \<Rightarrow> bool" where
  "linked d u p \<longleftrightarrow> (\<exists>r \<in> set (drivers_t d). d_id r = u \<and> d_freelancer_id r = Some p)"

text \<open>The dispatcher invited and the driver accepted, or the other way round.\<close>

definition agreed :: "link_request set \<Rightarrow> uuid \<Rightarrow> uuid \<Rightarrow> bool" where
  "agreed H u p \<longleftrightarrow>
     (\<exists>b t. Invite_driver p b \<in> H \<and> Accept_invitation u t \<in> H)
   \<or> (\<exists>b t. Invite_dispatcher u b \<in> H \<and> Accept_driver p t \<in> H)"

text \<open>What the invitations and the links in the database say about the requests served so far.\<close>

definition accounted :: "link_request set \<Rightarrow> db \<Rightarrow> bool" where
  "accounted H d \<longleftrightarrow>
     (\<forall>i \<in> set (driver_invitations_t d). \<forall>p. di_invited_by_dispatcher_id i = Some p \<longrightarrow> (\<exists>b. Invite_driver p b \<in> H))
   \<and> (\<forall>i \<in> set (d2d_invitations_t d). \<exists>b. Invite_dispatcher (dd_driver_id i) b \<in> H)
   \<and> (\<forall>r \<in> set (drivers_t d). \<forall>p. d_freelancer_id r = Some p \<longrightarrow> agreed H (d_id r) p)"

lemma agreed_mono: "agreed H u p \<Longrightarrow> H \<subseteq> H' \<Longrightarrow> agreed H' u p"
  unfolding agreed_def by blast

lemma accounted_mono: "accounted H d \<Longrightarrow> H \<subseteq> H' \<Longrightarrow> accounted H' d"
  unfolding accounted_def by (blast intro: agreed_mono)

text \<open>A read establishes a fact that does not depend on the database.\<close>

lemma keeps_db_learn:
  fixes m :: "('z, 'a) prog"
  assumes "reads_only m" and "\<And>w. J (w_db w) \<Longrightarrow> F (fst (run m w))" and "\<And>a. F a \<Longrightarrow> keeps_db J (f a)"
  shows "keeps_db J (State_Monad.bind m f)"
  unfolding keeps_db_def
proof (rule keepsI)
  fix w :: "'z world_scheme" assume J: "J (w_db w)"
  obtain a w' where run: "run m w = (a, w')" by force
  with reads_onlyD [OF assms(1), of w] J have "J (w_db w')" by simp
  moreover from run assms(2) [OF J] have "F a" by simp
  ultimately show "J (w_db (snd (run (m \<bind> f) w)))"
    using keepsD [OF assms(3) [of a, unfolded keeps_db_def], of w'] run by simp
qed

lemma reads_only_unless_expired: "reads_only (unless_expired ex r)"
  by (auto simp: reads_only_def unless_expired_def split: sum.split)

lemma reads_only_now: "reads_only (pg_call (q_select_now f))"
  by (auto simp: reads_only_def run_pg_call q_select_now_def tick_def split: fault.splits)

lemma reads_only_select_driver: "reads_only (select_driver E P)"
  unfolding select_driver_def by (intro reads_only_intros)

lemma reads_only_select_dispatcher: "reads_only (select_dispatcher E P)"
  unfolding select_dispatcher_def by (intro reads_only_intros)

lemmas reads_only_links = reads_only_intros reads_only_andE reads_only_attempt reads_only_unless_expired reads_only_now
  reads_only_select_driver reads_only_select_dispatcher

lemma reads_only_lookups:
  "reads_only (drivers_FindByID E u)" "reads_only (drivers_FindByPhoneNormalized E ph)"
  "reads_only (drivers_SearchByPhone E ph l)" "reads_only (drivers_ListByFreelancerID E p l)"
  "reads_only (dispatchers_FindByID E p)" "reads_only (dispatchers_FindByPhone E ph)"
  "reads_only (dcr_HasAccess p c)" "reads_only (dispinv_GetByToken t)" "reads_only (drvinv_GetByToken t)"
  "reads_only (d2d_GetByToken t)" "reads_only (drvinv_ListByPhone ph)" "reads_only (drvinv_ListByInvitedBy p)"
  "reads_only (d2d_ListByDriverID u)" "reads_only (d2d_ListByDispatcherPhone ph)"
  unfolding drivers_FindByID_def drivers_FindByPhoneNormalized_def drivers_SearchByPhone_def drivers_ListByFreelancerID_def
    dispatchers_FindByID_def dispatchers_FindByPhone_def dcr_HasAccess_def dispinv_GetByToken_def drvinv_GetByToken_def
    d2d_GetByToken_def drvinv_ListByPhone_def drvinv_ListByInvitedBy_def d2d_ListByDriverID_def d2d_ListByDispatcherPhone_def
  by (intro reads_only_links)+

lemma reads_only_refused: "reads_only (pg_call (\<lambda>_ _ _. Inl e))"
  by (simp add: reads_only_def run_pg_call tick_def split: fault.splits)

lemma reads_only_draw_token: "reads_only (draw_token E)"
  by (simp add: reads_only_def draw_token_def)

lemma reads_only_items: "reads_only (d2d_received_items E is)" "reads_only (company_items E seen rows)"
  by (induction "is") (auto intro!: reads_only_links reads_only_lookups,
      induction rows arbitrary: seen, auto intro!: reads_only_links reads_only_lookups)

section \<open>Every statement keeps the account\<close>

lemma accounted_update_driver:
  assumes "\<And>now r. d_id (f now r) = d_id r"
    and "\<And>now r p. d_freelancer_id (f now r) = Some p \<Longrightarrow> d_id r = u \<Longrightarrow> d_freelancer_id r = Some p \<or> agreed H u p"
  shows "stmt_keeps (accounted H) (update_driver u P f)"
proof (rule stmt_keepsI)
  fix now v d n d' assume ok: "accounted H d" and q: "update_driver u P f now v d = Inr (n, d')"
  then have "d' = d\<lparr>drivers_t := update_where (\<lambda>r. d_id r = u \<and> P r) (f now) (drivers_t d)\<rparr>"
    by (simp add: update_driver_Inr Let_def)
  with ok show "accounted H d'"
    using assms by (auto simp: accounted_def ball_update_where; metis)
qed

lemma accounted_exec_driver:
  assumes "\<And>now r. d_id (f now r) = d_id r"
    and "\<And>now r p. d_freelancer_id (f now r) = Some p \<Longrightarrow> d_id r = u \<Longrightarrow> d_freelancer_id r = Some p \<or> agreed H u p"
  shows "keeps_db (accounted H) (exec_driver u f)"
  unfolding exec_driver_def by (intro keeps_intro accounted_update_driver assms) assumption+

lemma accounted_touch: "keeps_db (accounted H) (exec_driver u touched)"
  by (rule accounted_exec_driver) (simp_all add: touched_def)

lemma accounted_unlink: "keeps_db (accounted H) (drivers_UnlinkFromFreelancer u p)"
  unfolding drivers_UnlinkFromFreelancer_def by (intro keeps_intro accounted_update_driver) simp_all

lemma accounted_set_company: "keeps_db (accounted H) (drivers_SetCompanyID u c)"
  unfolding drivers_SetCompanyID_def by (rule accounted_exec_driver) simp_all

lemma accounted_set_freelancer: "agreed H u p \<Longrightarrow> keeps_db (accounted H) (drivers_SetFreelancerID u p)"
  unfolding drivers_SetFreelancerID_def by (rule accounted_exec_driver) simp_all

lemma accounted_vehicles:
  "stmt_keeps (accounted H) (upsert_power u n f)" "stmt_keeps (accounted H) (upsert_trailer u m g)"
  by (auto simp: stmt_keeps_def upsert_power_def upsert_trailer_def accounted_def split: if_splits)

lemma accounted_vehicle_profiles:
  "keeps_db (accounted H) (drivers_UpdatePowerProfile u n)" "keeps_db (accounted H) (drivers_UpdateTrailerProfile u m)"
  unfolding drivers_UpdatePowerProfile_def drivers_UpdateTrailerProfile_def
  by (intro keeps_intro accounted_vehicles accounted_touch)+

lemma accounted_deletes:
  "keeps_db (accounted H) (drvinv_Delete t)" "keeps_db (accounted H) (d2d_Delete t)" "keeps_db (accounted H) (dispinv_Delete t)"
  unfolding drvinv_Delete_def d2d_Delete_def dispinv_Delete_def
  by (rule keeps_db_pg_call, rule stmt_keepsI, auto simp: accounted_def set_delete_where)+

lemma accounted_insert_driver_invitation:
  "(\<And>p. by = Some p \<Longrightarrow> \<exists>b. Invite_driver p b \<in> H) \<Longrightarrow>
   stmt_keeps (accounted H) (insert_driver_invitation token c phone inviter by ex)"
  by (auto simp: stmt_keeps_def insert_driver_invitation_def accounted_def split: if_splits)

lemma accounted_insert_d2d:
  "\<exists>b. Invite_dispatcher u b \<in> H \<Longrightarrow> stmt_keeps (accounted H) (insert_d2d token u phone ex)"
  by (auto simp: stmt_keeps_def insert_d2d_def accounted_def split: if_splits)

lemma accounted_companies:
  "stmt_keeps (accounted H) (upsert_dcr p c role)"
  "stmt_keeps (accounted H) (insert_dispatcher_invitation token c role phone inviter ex)"
  by (auto simp: stmt_keeps_def upsert_dcr_def insert_dispatcher_invitation_def accounted_def Let_def split: if_splits)

section \<open>Every request keeps the account\<close>

lemmas keeps_lookups = reads_only_lookups [THEN reads_only_keeps] reads_only_clock [THEN reads_only_keeps]
  reads_only_draw_token [THEN reads_only_keeps] reads_only_items [THEN reads_only_keeps]

lemma learn_driver_invitation:
  assumes "\<And>r. (\<forall>i p. found r = Some i \<longrightarrow> di_invited_by_dispatcher_id i = Some p \<longrightarrow> (\<exists>b. Invite_driver p b \<in> H))
    \<Longrightarrow> keeps_db (accounted H) (f r)"
  shows "keeps_db (accounted H) (State_Monad.bind (drvinv_GetByToken t) f)"
proof (rule keeps_db_learn [OF reads_only_lookups(9) _ assms])
  fix w :: "'a world_scheme" assume "accounted H (w_db w)"
  then show "\<forall>i p. found (fst (run (drvinv_GetByToken t) w)) = Some i \<longrightarrow> di_invited_by_dispatcher_id i = Some p
      \<longrightarrow> (\<exists>b. Invite_driver p b \<in> H)"
    by (auto simp: drvinv_GetByToken_def run_pg_row_read unless_expired_def accounted_def scan_row_def
        split: option.splits if_splits dest: first_where_SomeD1)
qed

lemma learn_d2d_invitation:
  assumes "\<And>r. (\<forall>i. found r = Some i \<longrightarrow> (\<exists>b. Invite_dispatcher (dd_driver_id i) b \<in> H)) \<Longrightarrow> keeps_db (accounted H) (f r)"
  shows "keeps_db (accounted H) (State_Monad.bind (d2d_GetByToken t) f)"
proof (rule keeps_db_learn [OF reads_only_lookups(10) _ assms])
  fix w :: "'a world_scheme" assume "accounted H (w_db w)"
  then show "\<forall>i. found (fst (run (d2d_GetByToken t) w)) = Some i \<longrightarrow> (\<exists>b. Invite_dispatcher (dd_driver_id i) b \<in> H)"
    by (auto simp: d2d_GetByToken_def run_pg_row_read unless_expired_def accounted_def scan_row_def
        split: option.splits if_splits dest: first_where_SomeD1)
qed

lemmas accounted_steps = accounted_unlink accounted_set_company accounted_vehicle_profiles accounted_deletes
  accounted_companies keeps_lookups

lemma accounted_accept:
  assumes "Accept_invitation u body \<in> H"
  shows "keeps_db (accounted H) (DriverInvitations_Accept E u body)"
  unfolding DriverInvitations_Accept_def my_invitation_def
  by (intro keeps_intro learn_driver_invitation accounted_steps accounted_set_freelancer)
     (use assms in \<open>auto simp: agreed_def\<close>)

lemma accounted_accept_driver:
  assumes "Accept_driver p body \<in> H"
  shows "keeps_db (accounted H) (D2D_AcceptByDispatcher E p body)"
  unfolding D2D_AcceptByDispatcher_def invitation_for_me_def with_dispatcher_def
  by (intro keeps_intro learn_d2d_invitation accounted_steps accounted_set_freelancer)
     (use assms in \<open>auto simp: agreed_def\<close>)

lemma accounted_invite_driver:
  assumes "Invite_driver p body \<in> H"
  shows "keeps_db (accounted H) (DriverInvitations_CreateForFreelance E p body)"
  unfolding DriverInvitations_CreateForFreelance_def invited_phone_def drvinv_CreateForFreelance_def
  by (intro keeps_intro accounted_insert_driver_invitation accounted_steps) (use assms in auto)

lemma accounted_invite_dispatcher:
  assumes "Invite_dispatcher u body \<in> H"
  shows "keeps_db (accounted H) (D2D_CreateFromDriver E u body)"
  unfolding D2D_CreateFromDriver_def already_linked_def d2d_Create_def
  by (intro keeps_intro accounted_insert_d2d accounted_steps) (use assms in auto)

lemma accounted_others:
  "keeps_db (accounted H) (DriverInvitations_Create E p c body1)"
  "keeps_db (accounted H) (DriverInvitations_FindDrivers E ph l)"
  "keeps_db (accounted H) (DriverInvitations_ListSent E p)"
  "keeps_db (accounted H) (DriverInvitations_UnlinkDriver E p dr)"
  "keeps_db (accounted H) (DriverInvitations_SetDriverPower E p dr body2)"
  "keeps_db (accounted H) (DriverInvitations_SetDriverTrailer E p dr body3)"
  "keeps_db (accounted H) (DriverInvitations_CancelInvitation p t)"
  "keeps_db (accounted H) (DriverInvitations_ListInvitations E u)"
  "keeps_db (accounted H) (DriverInvitations_Decline E u body1)"
  "keeps_db (accounted H) (DriverInvitations_ListMyDrivers E p l)"
  unfolding DriverInvitations_Create_def DriverInvitations_FindDrivers_def DriverInvitations_ListSent_def
    DriverInvitations_UnlinkDriver_def DriverInvitations_SetDriverPower_def DriverInvitations_SetDriverTrailer_def
    DriverInvitations_CancelInvitation_def DriverInvitations_ListInvitations_def DriverInvitations_Decline_def
    DriverInvitations_ListMyDrivers_def drvinv_Create_def own_driver_def updated_driver_def my_invitation_def
  by (intro keeps_intro accounted_steps accounted_insert_driver_invitation; simp)+

lemma accounted_others2:
  "keeps_db (accounted H) (D2D_ListSentByDriver u)" "keeps_db (accounted H) (D2D_CancelByDriver u t)"
  "keeps_db (accounted H) (D2D_ListReceivedByDispatcher E p)" "keeps_db (accounted H) (D2D_DeclineByDispatcher E p body1)"
  "keeps_db (accounted H) (DriverDispatchers_ListMyDispatchers E u)"
  "keeps_db (accounted H) (DriverDispatchers_UnlinkDispatcher E u pd)"
  "keeps_db (accounted H) (DispatcherInvitations_CreateInvitation E p c body2)"
  "keeps_db (accounted H) (DispatcherInvitations_Accept E p body1)" "keeps_db (accounted H) (DispatcherInvitations_Decline body1)"
  unfolding D2D_ListSentByDriver_def D2D_CancelByDriver_def D2D_ListReceivedByDispatcher_def D2D_DeclineByDispatcher_def
    DriverDispatchers_ListMyDispatchers_def DriverDispatchers_UnlinkDispatcher_def
    DispatcherInvitations_CreateInvitation_def DispatcherInvitations_Accept_def DispatcherInvitations_Decline_def
    invitation_for_me_def with_dispatcher_def freelance_items_def dispinv_Create_def dcr_Add_def
    dcr_ListDispatchersByCompany_def
  by (intro keeps_intro accounted_steps reads_only_refused [THEN reads_only_keeps])+

lemma accounted_serve: "q \<in> H \<Longrightarrow> keeps_db (accounted H) (serve_link E q)"
  by (cases q) (simp_all add: accounted_accept accounted_accept_driver accounted_invite_driver accounted_invite_dispatcher
      accounted_others accounted_others2)

section \<open>Runs\<close>

text \<open>
  Requests are served one after the other, and what the rest of the program does in between makes no link and no
  invitation. \<open>H\<close> is the set of requests served.
\<close>

definition makes_no_link :: "db \<Rightarrow> db \<Rightarrow> bool" where
  "makes_no_link d d' \<longleftrightarrow>
     set (driver_invitations_t d') \<subseteq> set (driver_invitations_t d)
   \<and> set (d2d_invitations_t d') \<subseteq> set (d2d_invitations_t d)
   \<and> (\<forall>r' \<in> set (drivers_t d'). \<forall>p. d_freelancer_id r' = Some p \<longrightarrow> linked d (d_id r') p)"

inductive link_run :: "ext \<Rightarrow> link_request set \<Rightarrow> db \<Rightarrow> bool" for E where
  begun: "driver_invitations_t d = [] \<Longrightarrow> d2d_invitations_t d = [] \<Longrightarrow> (\<And>u p. \<not> linked d u p) \<Longrightarrow> link_run E {} d"
| request: "link_run E H (w_db w) \<Longrightarrow> run (serve_link E q) (w :: world) = (a, w') \<Longrightarrow> link_run E (insert q H) (w_db w')"
| besides: "link_run E H d \<Longrightarrow> makes_no_link d d' \<Longrightarrow> link_run E H d'"

lemma link_run_accounted: "link_run E H d \<Longrightarrow> accounted H d"
proof (induction rule: link_run.induct)
  case (begun d)
  then show ?case by (auto simp: accounted_def linked_def)
next
  case (request H w q a w')
  then have "accounted (insert q H) (w_db w)" by (blast intro: accounted_mono)
  with keeps_dbD [OF accounted_serve [of q "insert q H" E], of w] request.hyps(2) show ?case by simp
next
  case (besides H d d')
  have "agreed H (d_id r) p" if "r \<in> set (drivers_t d')" "d_freelancer_id r = Some p" for r p
  proof -
    from besides.hyps(2) that obtain r0 where "r0 \<in> set (drivers_t d)" "d_id r0 = d_id r" "d_freelancer_id r0 = Some p"
      unfolding makes_no_link_def linked_def by blast
    with besides.IH show ?thesis unfolding accounted_def by metis
  qed
  with besides show ?case unfolding accounted_def makes_no_link_def by blast
qed


section \<open>Accepting works, once\<close>

lemma tick_update: "tick (w\<lparr>w_db := d\<rparr>) = (tick w)\<lparr>w_db := d\<rparr>"
  by (simp add: tick_def)

lemma run_drvinv_GetByToken:
  "reliable w \<Longrightarrow> run (drvinv_GetByToken t) w =
     (Inr (case first_where (\<lambda>i. di_token i = t) (driver_invitations_t (w_db w)) of
             None \<Rightarrow> None | Some i \<Rightarrow> if w_now w > di_expires_at i then None else Some i), tick w)"
  by (simp add: drvinv_GetByToken_def unless_expired_def split: option.split)

lemma run_FindByID:
  "reliable w \<Longrightarrow> run (drivers_FindByID E u) w =
     (case first_where (\<lambda>d. d_id d = u) (drivers_t (w_db w)) of
        None \<Rightarrow> (Inl DriverErrNotFound, tick w)
      | Some d \<Rightarrow> (Inr (Some (scanDriver E (w_db w) d)), tick w))"
  by (simp add: drivers_FindByID_def select_driver_def driver_not_found_def split: option.split)

lemma run_set_freelancer:
  assumes "reliable w" and "distinct (map d_phone (drivers_t (w_db w)))"
  shows "run (drivers_SetFreelancerID u p) w = (Inr (), (tick w)\<lparr>w_db := (w_db w)\<lparr>drivers_t :=
     update_where (\<lambda>r. d_id r = u) (\<lambda>r. r\<lparr>d_freelancer_id := Some p, d_updated_at := w_now w\<rparr>) (drivers_t (w_db w))\<rparr>\<rparr>)"
proof -
  have "map d_phone (update_where (\<lambda>r. d_id r = u) (\<lambda>r. r\<lparr>d_freelancer_id := Some p, d_updated_at := w_now w\<rparr>)
      (drivers_t (w_db w))) = map d_phone (drivers_t (w_db w))"
    by (rule map_update_where) simp
  with assms show ?thesis
    by (simp add: drivers_SetFreelancerID_def exec_driver_def update_driver_def ignore_count_def Let_def)
qed

lemma run_accept:
  assumes "reliable (w :: world)" and "distinct (map d_id (drivers_t (w_db w)))" and "distinct (map d_phone (drivers_t (w_db w)))"
    and "distinct (map di_token (driver_invitations_t (w_db w)))"
    and "i \<in> set (driver_invitations_t (w_db w))" and "di_token i = TrimSpace tok" and "tok \<noteq> []"
    and "w_now w \<le> di_expires_at i" and "di_company_id i = None" and "di_invited_by_dispatcher_id i = Some p" and "p \<noteq> uuid_nil"
    and "r \<in> set (drivers_t (w_db w))" and "normPhone (di_phone i) = normPhone (d_phone r)"
  shows "run (serve_link E (Accept_invitation (d_id r) (Some tok))) w =
       (SuccessLang 200 ''accepted'' (JObj [(''freelancer_id'', JStr (uuid_string E p))]),
        (tick (tick (tick (tick w))))\<lparr>w_db := (w_db w)
         \<lparr>drivers_t := update_where (\<lambda>s. d_id s = d_id r) (\<lambda>s. s\<lparr>d_freelancer_id := Some p, d_updated_at := w_now w\<rparr>)
            (drivers_t (w_db w)),
          driver_invitations_t := delete_where (\<lambda>j. di_token j = di_token i) (driver_invitations_t (w_db w))\<rparr>\<rparr>)"
proof -
  have "first_where (\<lambda>j. di_token j = TrimSpace tok) (driver_invitations_t (w_db w)) = Some i"
    using first_where_unique [OF assms(4,5)] assms(6) by simp
  moreover have "first_where (\<lambda>s. d_id s = d_id r) (drivers_t (w_db w)) = Some r"
    by (rule first_where_unique [OF assms(2,12)])
  ultimately show ?thesis
    using assms
    by (simp add: DriverInvitations_Accept_def my_invitation_def required_def run_drvinv_GetByToken run_FindByID scanDriver_def
        Let_def some_uuid_def run_attempt run_set_freelancer drvinv_Delete_def tick_update)
qed

lemma run_accept_used:
  assumes "reliable (v :: world)" and "tok \<noteq> []" and "\<forall>j \<in> set (driver_invitations_t (w_db v)). di_token j \<noteq> TrimSpace tok"
  shows "fst (run (serve_link E (Accept_invitation u (Some tok))) v) = ErrorLang 400 ''invitation_not_found_or_expired''"
proof -
  from assms(3) have "first_where (\<lambda>j. di_token j = TrimSpace tok) (driver_invitations_t (w_db v)) = None"
    by (simp add: first_where_None)
  with assms show ?thesis
    by (simp add: DriverInvitations_Accept_def my_invitation_def required_def run_drvinv_GetByToken)
qed

text \<open>
  C20: accepting an invitation works, and works once: on a server that does not break down the driver with the invited
  phone who accepts before the invitation expires is linked to the dispatcher who sent it, no other row changes, the
  invitation is used up, and whoever sends the token again is refused.
\<close>

theorem accept_links_once:
  assumes "reliable (w :: world)" and "distinct (map d_id (drivers_t (w_db w)))" and "distinct (map d_phone (drivers_t (w_db w)))"
    and "distinct (map di_token (driver_invitations_t (w_db w)))"
    and "i \<in> set (driver_invitations_t (w_db w))" and "di_token i = TrimSpace tok" and "tok \<noteq> []"
    and "w_now w \<le> di_expires_at i" and "di_company_id i = None" and "di_invited_by_dispatcher_id i = Some p" and "p \<noteq> uuid_nil"
    and "r \<in> set (drivers_t (w_db w))" and "normPhone (di_phone i) = normPhone (d_phone r)"
  shows "\<exists>w'. run (serve_link E (Accept_invitation (d_id r) (Some tok))) w =
       (SuccessLang 200 ''accepted'' (JObj [(''freelancer_id'', JStr (uuid_string E p))]), w')
     \<and> w_db w' = (w_db w)
         \<lparr>drivers_t := update_where (\<lambda>s. d_id s = d_id r) (\<lambda>s. s\<lparr>d_freelancer_id := Some p, d_updated_at := w_now w\<rparr>)
            (drivers_t (w_db w)),
          driver_invitations_t := delete_where (\<lambda>j. di_token j = di_token i) (driver_invitations_t (w_db w))\<rparr>
     \<and> linked (w_db w') (d_id r) p
     \<and> (\<forall>u (v :: world). reliable v \<longrightarrow> w_db v = w_db w' \<longrightarrow>
          fst (run (serve_link E (Accept_invitation u (Some tok))) v) = ErrorLang 400 ''invitation_not_found_or_expired'')"
proof (intro exI conjI allI impI, rule run_accept [OF assms], goal_cases)
  case 2
  with assms(12) show ?case
    by (auto simp: linked_def set_update_where intro!: bexI [of _ "r\<lparr>d_freelancer_id := Some p, d_updated_at := w_now w\<rparr>"])
next
  case (3 u v)
  with assms(6,7) show ?case by (intro run_accept_used) (simp_all add: set_delete_where)
qed simp

section \<open>A run\<close>

definition sample_dispatcher :: dispatcher_row where
  "sample_dispatcher = new_dispatcher \<lparr>dc_Phone = ''+998907654321'', dc_Name = ''D'', dc_PasswordHash = ''h'',
     dc_PassportSeries = [], dc_PassportNumber = [], dc_PINFL = []\<rparr> 10 5"

definition sample_driver_phone :: string where "sample_driver_phone = ''+998901234567''"

definition sample_link_db :: db where
  "sample_link_db = (empty_db False)\<lparr>drivers_t := [empty_driver 7 sample_driver_phone 50], dispatchers_t := [sample_dispatcher]\<rparr>"

lemma sample_link_db_simps [simp]:
  "drivers_t sample_link_db = [empty_driver 7 sample_driver_phone 50]" "dispatchers_t sample_link_db = [sample_dispatcher]"
  "driver_invitations_t sample_link_db = []" "d2d_invitations_t sample_link_db = []"
  by (simp_all add: sample_link_db_def empty_db_def)

lemma sample_phone_texts:
  "TrimSpace sample_driver_phone = sample_driver_phone" "NormalizePhone sample_driver_phone = ''998901234567''"
  "sql_phone_digits sample_driver_phone = ''998901234567''" "varchar_ok 20 (Some sample_driver_phone)"
  "sample_driver_phone \<noteq> []" "TrimSpace ''11'' = ''11''"
proof -
  show p: "TrimSpace sample_driver_phone = sample_driver_phone"
    unfolding sample_driver_phone_def by (rule TrimSpace_plain) (simp_all add: is_ascii_def ascii_space_def)
  show "TrimSpace ''11'' = ''11''" by (rule TrimSpace_plain) (simp_all add: is_ascii_def ascii_space_def)
  show "NormalizePhone sample_driver_phone = ''998901234567''"
    using p by (simp add: NormalizePhone_def sample_driver_phone_def remove_char_def TrimPrefix_def)
  show "sql_phone_digits sample_driver_phone = ''998901234567''"
    by (simp add: sql_phone_digits_def sample_driver_phone_def remove_char_def sql_trim_def)
  show "varchar_ok 20 (Some sample_driver_phone)"
    by (simp add: varchar_ok_def sample_driver_phone_def continuation_byte_def)
  show "sample_driver_phone \<noteq> []" by (simp add: sample_driver_phone_def)
qed

definition sample_invited :: driver_invitation where
  "sample_invited = \<lparr>di_id = 2, di_token = ''11'', di_company_id = None, di_phone = sample_driver_phone, di_invited_by = 5,
     di_invited_by_dispatcher_id = Some 5, di_expires_at = 100 + week, di_created_at = 100\<rparr>"

definition sample_invite :: link_request where
  "sample_invite = Invite_driver 5 (Some \<lparr>cf_Phone = sample_driver_phone, cf_DriverID = None\<rparr>)"

lemma sample_token:
  "random_token sample_ext 1 = Some ''11''" "varchar_ok 64 (Some ''11'')"
  by (simp_all add: sample_ext_def fresh_id_def varchar_ok_def continuation_byte_def)

lemma run_sample_invite:
  "\<exists>w'. run (serve_link sample_ext sample_invite) (world_of sample_link_db) = (created_token ''11'', w')
      \<and> w_db w' = sample_link_db\<lparr>driver_invitations_t := [sample_invited]\<rparr>"
  by (simp add: sample_invite_def DriverInvitations_CreateForFreelance_def invited_phone_def sample_phone_texts run_attempt
      drivers_FindByPhoneNormalized_def select_driver_def driver_not_found_def first_where_Cons empty_driver_def
      no_rows_nil_def scanDriver_def drvinv_CreateForFreelance_def run_andE draw_token_def
      insert_driver_invitation_def table_simps dispatcher_exists_def sample_dispatcher_def new_dispatcher_def
      sample_token sample_invited_def Let_def fresh_id_def)

theorem accept_links_once_witness:
  "\<exists>w'. run (serve_link sample_ext (Accept_invitation 7 (Some ''11''))) (world_of (sample_link_db\<lparr>driver_invitations_t := [sample_invited]\<rparr>))
      = (SuccessLang 200 ''accepted'' (JObj [(''freelancer_id'', JStr (uuid_string sample_ext 5))]), w')
    \<and> linked (w_db w') 7 5"
proof -
  let ?w = "world_of (sample_link_db\<lparr>driver_invitations_t := [sample_invited]\<rparr>)"
  have "d_id (empty_driver 7 sample_driver_phone 50) = 7" by (simp add: empty_driver_def)
  then show ?thesis
    using accept_links_once [of ?w sample_invited "''11''" 5 "empty_driver 7 sample_driver_phone 50" sample_ext]
    by (auto simp: sample_invited_def sample_phone_texts empty_driver_def)
qed

lemma run_sample_accept:
  "\<exists>w'. run (serve_link sample_ext (Accept_invitation 7 (Some ''11''))) (world_of (sample_link_db\<lparr>driver_invitations_t := [sample_invited]\<rparr>))
      = (SuccessLang 200 ''accepted'' (JObj [(''freelancer_id'', JStr (uuid_string sample_ext 5))]), w')
    \<and> linked (w_db w') 7 5"
proof -
  let ?w = "world_of (sample_link_db\<lparr>driver_invitations_t := [sample_invited]\<rparr>)" and ?r = "empty_driver 7 sample_driver_phone 50"
  have r: "d_id ?r = 7" "d_phone ?r = sample_driver_phone" by (simp_all add: empty_driver_def)
  have i: "di_token sample_invited = ''11''" "di_expires_at sample_invited = 100 + week" "di_company_id sample_invited = None"
    "di_invited_by_dispatcher_id sample_invited = Some 5" "di_phone sample_invited = sample_driver_phone"
    by (simp_all add: sample_invited_def)
  have run: "run (serve_link sample_ext (Accept_invitation (d_id ?r) (Some ''11''))) ?w =
     (SuccessLang 200 ''accepted'' (JObj [(''freelancer_id'', JStr (uuid_string sample_ext 5))]),
        (tick (tick (tick (tick ?w))))\<lparr>w_db := (w_db ?w)
         \<lparr>drivers_t := update_where (\<lambda>s. d_id s = d_id ?r) (\<lambda>s. s\<lparr>d_freelancer_id := Some 5, d_updated_at := w_now ?w\<rparr>)
            (drivers_t (w_db ?w)),
          driver_invitations_t := delete_where (\<lambda>j. di_token j = di_token sample_invited) (driver_invitations_t (w_db ?w))\<rparr>\<rparr>)"
    by (rule run_accept) (simp_all add: i r sample_phone_texts)
  show ?thesis
    using run unfolding r(1) by (intro exI conjI, assumption) (simp add: linked_def update_where_def r)
qed


section \<open>Two gaps\<close>

lemma run_FindByPhoneNormalized_none:
  assumes "reliable w" and "NormalizePhone phone \<noteq> []"
    and "\<forall>r \<in> set (drivers_t (w_db w)). sql_phone_digits (d_phone r) \<noteq> NormalizePhone phone"
  shows "run (drivers_FindByPhoneNormalized E phone) w = (Inl DriverErrNotFound, tick w)"
proof -
  from assms(3) have "first_where (\<lambda>d. sql_phone_digits (d_phone d) = NormalizePhone phone) (drivers_t (w_db w)) = None"
    by (simp add: first_where_None)
  with assms(1,2) show ?thesis
    by (simp add: drivers_FindByPhoneNormalized_def select_driver_def driver_not_found_def no_rows_nil_def DriverErrNotFound_def Let_def)
qed

text \<open>
  Only drivers who have registered can be invited. The handlers mean to invite any phone (the driver may be nil), but
  the lookup reports a missing driver as an error, so that an invitation to a phone nobody has registered is answered
  with status 500 and not stored, by a dispatcher and by a company alike.
\<close>

theorem invites_registered_only:
  assumes "reliable (w :: world)" and "NormalizePhone (TrimSpace phone) \<noteq> []"
    and "\<forall>r \<in> set (drivers_t (w_db w)). sql_phone_digits (d_phone r) \<noteq> NormalizePhone (TrimSpace phone)"
  shows "(\<exists>w'. run (serve_link E (Invite_driver p (Some \<lparr>cf_Phone = phone, cf_DriverID = None\<rparr>))) w =
         (ErrorLang 500 ''failed_to_create_invitation'', w') \<and> w_db w' = w_db w)
    \<and> (parsed_uuid E c \<noteq> uuid_nil \<longrightarrow> has_access (w_db w) p (parsed_uuid E c) \<longrightarrow>
       (\<exists>w'. run (serve_link E (Invite_to_company p c (Some phone))) w =
         (ErrorLang 500 ''failed_to_create_invitation'', w') \<and> w_db w' = w_db w))"
proof -
  from assms(2) have "TrimSpace phone \<noteq> []" "phone \<noteq> []" by (auto simp: NormalizePhone_def TrimPrefix_def remove_char_def)
  with assms show ?thesis
    by (simp add: DriverInvitations_CreateForFreelance_def invited_phone_def run_attempt run_FindByPhoneNormalized_none
        DriverInvitations_Create_def dcr_HasAccess_def required_def Let_def)
qed

theorem invites_registered_only_witness:
  "\<exists>w'. run (serve_link sample_ext (Invite_driver 5 (Some \<lparr>cf_Phone = ''5'', cf_DriverID = None\<rparr>))) (world_of sample_link_db) =
     (ErrorLang 500 ''failed_to_create_invitation'', w')"
proof -
  have t: "TrimSpace ''5'' = ''5''" by (rule TrimSpace_plain) (simp_all add: is_ascii_def ascii_space_def)
  then have n: "NormalizePhone ''5'' = ''5''" by (simp add: NormalizePhone_def remove_char_def TrimPrefix_def)
  show ?thesis
    using invites_registered_only [of "world_of sample_link_db" "''5''" sample_ext 5 "[]"]
    by (auto simp: t n sample_phone_texts empty_driver_def)
qed

text \<open>What an invitation is for can be had without one.\<close>

lemma upsert_known:
  assumes "driver_exists d u"
  shows "\<exists>d'. upsert_power u n f now v d = Inr ((), d') \<and> drivers_t d' = drivers_t d"
    "\<exists>d'. upsert_trailer u m g now v d = Inr ((), d') \<and> drivers_t d' = drivers_t d"
  using assms by (simp_all add: upsert_power_def upsert_trailer_def)

lemma run_transport_update:
  assumes "reliable w" and "distinct (map d_phone (drivers_t (w_db w)))" and "r \<in> set (drivers_t (w_db w))"
  obtains w' where "run (drivers_UpdateTransportType (d_id r) dt fr co pp tp ns nst) w = (Inr (), w')" "reliable w'"
    "\<exists>s \<in> set (drivers_t (w_db w')). d_id s = d_id r \<and> d_freelancer_id s = fr \<and> d_company_id s = co"
proof -
  let ?f = "\<lambda>d. touched (w_now w) (d\<lparr>d_driver_type := Some dt, d_freelancer_id := fr, d_company_id := co,
         d_registration_step := Some ns, d_registration_status := Some nst\<rparr>)"
  let ?t = "update_where (\<lambda>s. d_id s = d_id r) ?f (drivers_t (w_db w))"
  have "map d_phone ?t = map d_phone (drivers_t (w_db w))" by (rule map_update_where) (simp add: touched_def)
  with assms(1,2) have upd: "run (exec_driver (d_id r) (\<lambda>now d. touched now (d\<lparr>d_driver_type := Some dt, d_freelancer_id := fr,
         d_company_id := co, d_registration_step := Some ns, d_registration_status := Some nst\<rparr>))) w
      = (Inr (), (tick w)\<lparr>w_db := (w_db w)\<lparr>drivers_t := ?t\<rparr>\<rparr>)"
    by (simp add: exec_driver_def update_driver_def ignore_count_def Let_def)
  let ?d1 = "(w_db w)\<lparr>drivers_t := ?t\<rparr>"
  have in_t: "?f r \<in> set (drivers_t ?d1)" using assms(3) by (auto simp: set_update_where)
  then have "driver_exists ?d1 (d_id r)" 
    unfolding driver_exists_def exists_where_iff by (intro bexI [OF _ in_t]) (simp add: touched_def)
  then obtain d2 where d2: "upsert_power (d_id r) ((empty_power (d_id r))\<lparr>pw_plate_type := Some pp\<rparr>)
      (\<lambda>p. p\<lparr>pw_plate_type := Some pp\<rparr>) (w_now w) (fresh_id (tick w)) ?d1 = Inr ((), d2)"
    "drivers_t d2 = drivers_t ?d1" using upsert_known(1) by blast
  from \<open>driver_exists ?d1 (d_id r)\<close> d2(2) have "driver_exists d2 (d_id r)" by (simp add: driver_exists_def)
  then obtain d3 where d3: "upsert_trailer (d_id r) ((empty_trailer (d_id r))\<lparr>tr_plate_type := Some tp\<rparr>)
      (\<lambda>p. p\<lparr>tr_plate_type := Some tp\<rparr>) (w_now w) (fresh_id (tick (tick w))) d2 = Inr ((), d3)"
    "drivers_t d3 = drivers_t d2" using upsert_known(2) by blast
  have "run (drivers_UpdateTransportType (d_id r) dt fr co pp tp ns nst) w = (Inr (), (tick (tick (tick w)))\<lparr>w_db := d3\<rparr>)"
    using assms(1) d2 d3 by (simp add: drivers_UpdateTransportType_def upd tick_update)
  then show ?thesis
  proof (rule that)
    show "\<exists>s \<in> set (drivers_t (w_db ((tick (tick (tick w)))\<lparr>w_db := d3\<rparr>))). d_id s = d_id r \<and> d_freelancer_id s = fr \<and> d_company_id s = co"
      using in_t d2(2) d3(2) by (intro bexI [of _ "?f r"]) (simp_all add: touched_def)
  qed (use assms(1) in simp)
qed

text \<open>
  C21: the step of the registration that asks for the type of transport goes past the handshake: a driver who names any
  dispatcher in its body becomes that dispatcher's driver, whether or not the dispatcher exists or has invited anybody.
\<close>

theorem transport_type_links_anyone:
  assumes "reliable (w :: rworld)" and "distinct (map d_id (drivers_t (w_db w)))" and "distinct (map d_phone (drivers_t (w_db w)))"
    and "r \<in> set (drivers_t (w_db w))" and "TrimSpace pp \<noteq> []" and "TrimSpace tp \<noteq> []"
    and "TrimSpace s \<noteq> []" and "uuid_parse E (TrimSpace s) = Some p"
  shows "\<exists>a w'. run (RegistrationHandler_TransportType E (d_id r) (Some \<lparr>tq_DriverType = ''freelancer'',
          tq_PowerPlateType = pp, tq_TrailerPlateType = tp, tq_FreelancerID = Some s, tq_CompanyID = None\<rparr>)) w = (a, w')
      \<and> resp_code a = 200 \<and> linked (w_db w') (d_id r) p"
proof -
  have ne: "pp \<noteq> []" "tp \<noteq> []" using assms(5,6) by auto
  have dt: "ToLower E (TrimSpace ''freelancer'') = ''freelancer''"
  proof -
    have "TrimSpace ''freelancer'' = ''freelancer''" by (rule TrimSpace_plain) (simp_all add: is_ascii_def ascii_space_def)
    then show ?thesis by (simp add: ToLower_def is_ascii_def ascii_lower_def lower_table_def)
  qed
  have drv: "first_where (\<lambda>d. d_id d = d_id r) (drivers_t (w_db w)) = Some r" by (rule first_where_unique [OF assms(2,4)])
  let ?st = "if d_registration_status r = Some StatusFull then StatusFull else StatusBasic"
  obtain w' where upd: "run (drivers_UpdateTransportType (d_id r) ''freelancer'' (Some p) None (TrimSpace pp) (TrimSpace tp)
      StepTransportType ?st) (tick w) = (Inr (), w')" and w': "reliable w'"
    and linked: "\<exists>x \<in> set (drivers_t (w_db w')). d_id x = d_id r \<and> d_freelancer_id x = Some p \<and> d_company_id x = None"
    by (rule run_transport_update [of "tick w" r]) (use assms in simp_all)
  have "\<exists>x. run (drivers_FindByID E (d_id r)) w' = (x, tick w')"
    using w' by (simp add: run_FindByID split: option.split)
  with upd w' linked assms ne show ?thesis
    by (auto simp: RegistrationHandler_TransportType_def run_attempt run_FindByID drv dt optional_uuid_def scanDriver_def
        ok_driver_def OKLang_def linked_def Let_def)
qed

definition sample_link_rworld :: rworld where
  "sample_link_rworld = \<lparr>w_db = sample_link_db, w_faults = [], w_now = 100, w_gen = of_nat, w_drawn = 0, w_redis = fmempty\<rparr>"

theorem transport_type_links_anyone_witness:
  "linked (w_db (snd (run (RegistrationHandler_TransportType sample_ext 7
      (Some \<lparr>tq_DriverType = ''freelancer'', tq_PowerPlateType = ''T'', tq_TrailerPlateType = ''T'',
        tq_FreelancerID = Some ''111111'', tq_CompanyID = None\<rparr>)) sample_link_rworld))) 7 5"
proof -
  have t: "TrimSpace ''T'' = ''T''" "TrimSpace ''111111'' = ''111111''"
    by (rule TrimSpace_plain; simp add: is_ascii_def ascii_space_def)+
  have u: "uuid_parse sample_ext ''111111'' = Some 5" by (simp add: sample_ext_def)
  have w: "reliable sample_link_rworld" "w_db sample_link_rworld = sample_link_db"
    by (simp_all add: sample_link_rworld_def reliable_def)
  have r: "d_id (empty_driver 7 sample_driver_phone 50) = 7" by (simp add: empty_driver_def)
  obtain a w' where "run (RegistrationHandler_TransportType sample_ext 7
      (Some \<lparr>tq_DriverType = ''freelancer'', tq_PowerPlateType = ''T'', tq_TrailerPlateType = ''T'',
        tq_FreelancerID = Some ''111111'', tq_CompanyID = None\<rparr>)) sample_link_rworld = (a, w')" "linked (w_db w') 7 5"
    using transport_type_links_anyone [of sample_link_rworld "empty_driver 7 sample_driver_phone 50" "''T''" "''T''" "''111111''" sample_ext 5]
      t u w by (auto simp: r)
  then show ?thesis by auto
qed

end
