(* ===== verification/Company_Repos.thy ===== *)
theory Company_Repos
  imports Dispatchers_Repo "HOL-Library.Char_ord" "HOL-Library.List_Lexorder" "HOL-Library.Product_Lexorder"
begin

text \<open>
  The repositories on the companies' side: \<open>internal/companies\<close>, \<open>internal/appusers\<close> (the users of companies),
  \<open>internal/approles\<close>, \<open>internal/companytz\<close> (membership, invitations, audit and the rules on roles) and
  \<open>internal/admins\<close>.
\<close>

section \<open>Companies\<close>

definition company_status_check :: "string \<Rightarrow> bool" where
  "company_status_check s \<longleftrightarrow> s \<in> {''active'', ''inactive'', ''blocked'', ''pending''}"

definition company_type_check :: "string option \<Rightarrow> bool" where
  "company_type_check t \<longleftrightarrow> t \<in> {None, Some [], Some ''Shipper'', Some ''Carrier'', Some ''Broker''}"

text \<open>\<open>DECIMAL(10, 2)\<close>: two decimals, half away from zero, and at most eight digits before the point.\<close>

definition decimal_10_2 :: "float64 \<Rightarrow> float64 option" where
  "decimal_10_2 x =
     (let r = (if x \<ge> 0 then of_int \<lfloor>100 * x + 1 / 2\<rfloor> / 100 else - (of_int \<lfloor>100 * (- x) + 1 / 2\<rfloor> / 100))
      in if \<bar>r\<bar> < 10 ^ 8 then Some r else None)"

text \<open>The unique indexes on \<open>inn\<close> and \<open>license_number\<close> leave out the rows with nothing in the column.\<close>

definition text_taken :: "(company_row \<Rightarrow> string option) \<Rightarrow> string option \<Rightarrow> company_row list \<Rightarrow> bool" where
  "text_taken k v t \<longleftrightarrow> (case v of None \<Rightarrow> False | Some s \<Rightarrow> s \<noteq> [] \<and> exists_where (\<lambda>c. k c = Some s) t)"

definition admin_exists :: "db \<Rightarrow> uuid \<Rightarrow> bool" where
  "admin_exists db u = exists_where (\<lambda>a. ad_id a = u) (admins_t db)"

definition company_user_exists :: "db \<Rightarrow> uuid \<Rightarrow> bool" where
  "company_user_exists db u = exists_where (\<lambda>r. cu_id r = u) (company_users_t db)"

definition role_exists :: "db \<Rightarrow> uuid \<Rightarrow> bool" where
  "role_exists db u = exists_where (\<lambda>r. ro_id r = u) (roles_t db)"

text \<open>A reference that is \<open>NULL\<close> refers to nothing.\<close>

definition refers :: "(uuid \<Rightarrow> bool) \<Rightarrow> uuid option \<Rightarrow> bool" where
  "refers P r \<longleftrightarrow> (case r of None \<Rightarrow> True | Some u \<Rightarrow> P u)"

definition no_company :: "uuid \<Rightarrow> time \<Rightarrow> company_row" where
  "no_company u now =
     \<lparr>co_id = u, co_name = [], co_inn = None, co_address = None, co_phone = None, co_email = None, co_website = None,
      co_license_number = None, co_status = ''pending'', co_max_vehicles = 0, co_max_drivers = 0, co_max_cargo = 0,
      co_max_dispatchers = 0, co_max_managers = 0, co_max_top_dispatchers = 0, co_max_top_managers = 0,
      co_created_by = None, co_created_at = now, co_updated_at = now, co_deleted_at = None, co_owner_id = None,
      co_company_type = None, co_auto_approve_limit = None, co_owner_dispatcher_id = None\<rparr>"

definition insert_company :: "(company_row \<Rightarrow> company_row) \<Rightarrow> uuid stmt" where
  "insert_company f = (\<lambda>now u db.
     let c = f (no_company u now) in
     if \<not> varchar_ok 20 (co_company_type c) then Inl InvalidInput
     else if \<not> list_all in_int4 [co_max_vehicles c, co_max_drivers c, co_max_cargo c, co_max_dispatchers c,
          co_max_managers c, co_max_top_dispatchers c, co_max_top_managers c] then Inl InvalidInput
     else if \<not> company_status_check (co_status c) \<or> \<not> company_type_check (co_company_type c) then Inl CheckViolation
     else if exists_where (\<lambda>r. co_id r = u) (companies_t db) \<or> text_taken co_inn (co_inn c) (companies_t db)
        \<or> text_taken co_license_number (co_license_number c) (companies_t db) then Inl UniqueViolation
     else if \<not> refers (admin_exists db) (co_created_by c) \<or> \<not> refers (company_user_exists db) (co_owner_id c)
        \<or> \<not> refers (dispatcher_exists db) (co_owner_dispatcher_id c) then Inl FKViolation
     else Inr (u, db\<lparr>companies_t := companies_t db @ [c]\<rparr>))"

record CompanyCreateParams =
  cc_Name :: string
  cc_Inn :: "string option"
  cc_Address :: "string option"
  cc_Phone :: "string option"
  cc_Email :: "string option"
  cc_Website :: "string option"
  cc_LicenseNumber :: "string option"
  cc_Status :: "string option"
  cc_MaxVehicles :: int
  cc_MaxDrivers :: int
  cc_MaxCargo :: int
  cc_MaxDispatchers :: int
  cc_MaxManagers :: int
  cc_MaxTopDispatchers :: int
  cc_MaxTopManagers :: int
  cc_OwnerID :: "uuid option"
  cc_CompanyType :: "string option"
  cc_CreatedBy :: uuid

definition companies_Create :: "CompanyCreateParams \<Rightarrow> ('z, err + uuid) prog" where
  "companies_Create p =
     (let status = (case cc_Status p of None \<Rightarrow> ''pending'' | Some s \<Rightarrow> if s \<noteq> [] then s else ''pending'');
          status = (if cc_OwnerID p \<noteq> None then ''active'' else status)
      in pg_call (insert_company (\<lambda>c. c
        \<lparr>co_name := cc_Name p, co_inn := cc_Inn p, co_address := cc_Address p, co_phone := cc_Phone p,
         co_email := cc_Email p, co_website := cc_Website p, co_license_number := cc_LicenseNumber p,
         co_status := status, co_owner_id := cc_OwnerID p, co_company_type := cc_CompanyType p,
         co_max_vehicles := cc_MaxVehicles p, co_max_drivers := cc_MaxDrivers p, co_max_cargo := cc_MaxCargo p,
         co_max_dispatchers := cc_MaxDispatchers p, co_max_managers := cc_MaxManagers p,
         co_max_top_dispatchers := cc_MaxTopDispatchers p, co_max_top_managers := cc_MaxTopManagers p,
         co_created_by := Some (cc_CreatedBy p)\<rparr>)))"

record CompanyTZ =
  ct_ID :: uuid
  ct_Name :: string
  ct_Type :: "string option"
  ct_AutoApproveLimit :: "float64 option"
  ct_OwnerID :: "uuid option"
  ct_Phone :: "string option"
  ct_Address :: "string option"
  ct_Inn :: "string option"
  ct_CreatedAt :: string
  ct_UpdatedAt :: string

record CreateByOwnerParams =
  bo_Name :: string
  bo_Type :: string
  bo_AutoApproveLimit :: "float64 option"
  bo_OwnerID :: uuid
  bo_Phone :: "string option"
  bo_Address :: "string option"
  bo_Inn :: "string option"

definition companies_CreateByOwner :: "CreateByOwnerParams \<Rightarrow> ('z, err + uuid) prog" where
  "companies_CreateByOwner p = pg_call (\<lambda>now u db.
     case bo_AutoApproveLimit p of
       None \<Rightarrow> insert_company (\<lambda>c. c\<lparr>co_name := bo_Name p, co_company_type := Some (bo_Type p),
         co_owner_id := Some (bo_OwnerID p), co_phone := bo_Phone p, co_address := bo_Address p, co_inn := bo_Inn p,
         co_status := ''active''\<rparr>) now u db
     | Some x \<Rightarrow> (case decimal_10_2 x of
         None \<Rightarrow> Inl InvalidInput
       | Some r \<Rightarrow> insert_company (\<lambda>c. c\<lparr>co_name := bo_Name p, co_company_type := Some (bo_Type p),
           co_auto_approve_limit := Some r, co_owner_id := Some (bo_OwnerID p), co_phone := bo_Phone p,
           co_address := bo_Address p, co_inn := bo_Inn p, co_status := ''active''\<rparr>) now u db))"

definition company_tz :: "ext \<Rightarrow> company_row \<Rightarrow> CompanyTZ" where
  "company_tz E c =
     \<lparr>ct_ID = co_id c, ct_Name = co_name c, ct_Type = co_company_type c, ct_AutoApproveLimit = co_auto_approve_limit c,
      ct_OwnerID = co_owner_id c, ct_Phone = co_phone c, ct_Address = co_address c, ct_Inn = co_inn c,
      ct_CreatedAt = timestamp_text E (co_created_at c), ct_UpdatedAt = timestamp_text E (co_updated_at c)\<rparr>"

definition companies_GetByIDTZ :: "ext \<Rightarrow> uuid \<Rightarrow> ('z, err + CompanyTZ) prog" where
  "companies_GetByIDTZ E u = pg_query_row (q_read (\<lambda>db. map_option (company_tz E)
     (first_where (\<lambda>c. co_id c = u \<and> co_deleted_at c = None) (companies_t db))))"

definition companies_SetOwner :: "uuid \<Rightarrow> uuid \<Rightarrow> ('z, err + unit) prog" where
  "companies_SetOwner companyID ownerID = pg_call (\<lambda>now _ db.
     let P = (\<lambda>c. co_id c = companyID \<and> co_deleted_at c = None) in
     if exists_where P (companies_t db) \<and> \<not> company_user_exists db ownerID then Inl FKViolation
     else Inr ((), db\<lparr>companies_t := update_where P (\<lambda>c. c\<lparr>co_owner_id := Some ownerID, co_status := ''active'',
            co_updated_at := now\<rparr>) (companies_t db)\<rparr>))"

definition companies_CreateWithOwnerDispatcher :: "string \<Rightarrow> uuid \<Rightarrow> ('z, err + uuid) prog" where
  "companies_CreateWithOwnerDispatcher name ownerDispatcherID = pg_call (insert_company (\<lambda>c. c
     \<lparr>co_name := name, co_company_type := Some ''Broker'', co_status := ''active'',
      co_owner_dispatcher_id := Some ownerDispatcherID\<rparr>))"

record CompanyWithRole =
  cr_ID :: uuid
  cr_Name :: string
  cr_Type :: "string option"
  cr_OwnerID :: uuid
  cr_Role :: string

text \<open>
  Both lists send three arguments with a query whose only placeholder is \<open>$1\<close>, which pgx refuses before it
  sends anything: the loops over the rows are never reached.
\<close>

definition companies_ListForDispatcher :: "uuid \<Rightarrow> ('z, err + CompanyWithRole list) prog" where
  "companies_ListForDispatcher dispatcherID = pg_call (\<lambda>_ _ _. Inl ArgMismatch)"

definition companies_ListForUser :: "uuid \<Rightarrow> ('z, err + CompanyWithRole list) prog" where
  "companies_ListForUser userID = pg_call (\<lambda>_ _ _. Inl ArgMismatch)"

section \<open>Users of companies\<close>

record User =
  us_ID :: string
  us_Phone :: string
  us_PasswordHash :: string
  us_FirstName :: "string option"
  us_LastName :: "string option"
  us_CompanyID :: "uuid option"
  us_Role :: "string option"
  us_CreatedAt :: time
  us_UpdatedAt :: time

definition UserErrNotFound :: err where "UserErrNotFound = Err ''user not found''"
definition ErrPhoneExists :: err where "ErrPhoneExists = Err ''phone already registered''"

text \<open>A \<open>NULL\<close> phone cannot be scanned into a string.\<close>

definition ErrScan :: err where "ErrScan = Err ''cannot scan''"

definition scanUser :: "ext \<Rightarrow> company_user_row \<Rightarrow> err + User" where
  "scanUser E r = (case cu_phone r of
       None \<Rightarrow> Inl ErrScan
     | Some phone \<Rightarrow> Inr
         \<lparr>us_ID = uuid_string E (cu_id r), us_Phone = phone, us_PasswordHash = cu_password_hash r,
          us_FirstName = cu_first_name r, us_LastName = cu_last_name r, us_CompanyID = cu_company_id r,
          us_Role = cu_role r, us_CreatedAt = cu_created_at r, us_UpdatedAt = cu_updated_at r\<rparr>)"

definition select_user :: "ext \<Rightarrow> (company_user_row \<Rightarrow> bool) \<Rightarrow> ('z, err + User) prog" where
  "select_user E P = do {
     r \<leftarrow> pg_query_row (q_select (\<lambda>db.
            case first_where P (company_users_t db) of
              None \<Rightarrow> Inr None
            | Some row \<Rightarrow> map_sum id Some (scanUser E row)));
     ret (case r of Inl e \<Rightarrow> Inl (if e = NoRows then UserErrNotFound else e) | Inr u \<Rightarrow> Inr u)
   }"

definition appusers_FindByPhone :: "ext \<Rightarrow> string \<Rightarrow> ('z, err + User) prog" where
  "appusers_FindByPhone E phone = select_user E (\<lambda>r. cu_phone r = Some phone)"

definition appusers_FindByID :: "ext \<Rightarrow> uuid \<Rightarrow> ('z, err + User) prog" where
  "appusers_FindByID E u = select_user E (\<lambda>r. cu_id r = u)"

definition insert_user ::
    "ext \<Rightarrow> string \<Rightarrow> string \<Rightarrow> string option \<Rightarrow> string option \<Rightarrow> uuid option \<Rightarrow> string \<Rightarrow> User stmt" where
  "insert_user E phone passwordHash firstName lastName companyID role = (\<lambda>now u db.
     let r = \<lparr>cu_id = u, cu_phone = Some phone, cu_password_hash = passwordHash, cu_first_name = firstName,
              cu_last_name = lastName, cu_company_id = companyID, cu_role = Some role,
              cu_created_at = now, cu_updated_at = now\<rparr> in
     if \<not> varchar_ok 20 (Some phone) \<or> \<not> varchar_ok 255 (Some passwordHash) \<or> \<not> varchar_ok 100 firstName
        \<or> \<not> varchar_ok 100 lastName \<or> \<not> varchar_ok 50 (Some role) then Inl InvalidInput
     else if exists_where (\<lambda>r. cu_id r = u \<or> cu_phone r = Some phone) (company_users_t db) then Inl UniqueViolation
     else if \<not> refers (company_row_exists db) companyID then Inl FKViolation
     else (case scanUser E r of Inl e \<Rightarrow> Inl e
           | Inr x \<Rightarrow> Inr (x, db\<lparr>company_users_t := company_users_t db @ [r]\<rparr>)))"

definition appusers_Create ::
    "ext \<Rightarrow> string \<Rightarrow> string \<Rightarrow> string option \<Rightarrow> string option \<Rightarrow> uuid option \<Rightarrow> string \<Rightarrow> ('z, err + User) prog" where
  "appusers_Create E phone passwordHash firstName lastName companyID role = do {
     r \<leftarrow> pg_call (insert_user E phone passwordHash firstName lastName companyID role);
     ret (case r of Inl e \<Rightarrow> Inl (if e = UniqueViolation then ErrPhoneExists else e) | Inr u \<Rightarrow> Inr u)
   }"

definition appusers_UpdateCompanyID :: "uuid \<Rightarrow> uuid option \<Rightarrow> ('z, err + unit) prog" where
  "appusers_UpdateCompanyID userID companyID = pg_call (\<lambda>now _ db.
     if company_user_exists db userID \<and> \<not> refers (company_row_exists db) companyID then Inl FKViolation
     else Inr ((), db\<lparr>company_users_t := update_where (\<lambda>r. cu_id r = userID)
            (\<lambda>r. r\<lparr>cu_company_id := companyID, cu_updated_at := now\<rparr>) (company_users_t db)\<rparr>))"

text \<open>\<open>ReplaceAll\<close> three times: a backslash, a percent and an underscore get a backslash before them.\<close>

definition escape_char :: "char \<Rightarrow> string \<Rightarrow> string" where
  "escape_char c s = concat (map (\<lambda>x. if x = c then [CHR 0x5C, x] else [x]) s)"

definition escapeLike :: "string \<Rightarrow> string" where
  "escapeLike s = escape_char (CHR ''_'') (escape_char (CHR ''%'') (escape_char (CHR 0x5C) s))"

text \<open>
  Three-valued logic: \<open>None\<close> is \<open>NULL\<close>. \<open>ILIKE\<close> compares the two sides in lower case.
\<close>

definition sql_or :: "bool option \<Rightarrow> bool option \<Rightarrow> bool option" where
  "sql_or a b = (if a = Some True \<or> b = Some True then Some True else if a = None \<or> b = None then None else Some False)"

definition ilike :: "ext \<Rightarrow> string option \<Rightarrow> string \<Rightarrow> bool option" where
  "ilike E v p = map_option (\<lambda>s. sql_like (sql_lower E p) (sql_lower E s)) v"

definition any_ilike :: "ext \<Rightarrow> company_user_row \<Rightarrow> string \<Rightarrow> bool option" where
  "any_ilike E r p = sql_or (sql_or (ilike E (cu_phone r) p) (ilike E (cu_first_name r) p)) (ilike E (cu_last_name r) p)"

definition exact_match :: "ext \<Rightarrow> company_user_row \<Rightarrow> string \<Rightarrow> bool option" where
  "exact_match E r q =
     sql_or (sql_or (map_option (\<lambda>s. sql_lower E (sql_trim s) = q) (cu_phone r))
       (Some (case cu_first_name r of None \<Rightarrow> False | Some s \<Rightarrow> sql_lower E (sql_trim s) = q)))
       (Some (case cu_last_name r of None \<Rightarrow> False | Some s \<Rightarrow> sql_lower E (sql_trim s) = q))"

text \<open>\<open>ORDER BY _ DESC\<close> puts \<open>NULL\<close> first, then the true ones; an ascending phone comes before \<open>NULL\<close>.\<close>

definition desc_rank :: "bool option \<Rightarrow> nat" where
  "desc_rank b = (case b of None \<Rightarrow> 0 | Some True \<Rightarrow> 1 | Some False \<Rightarrow> 2)"

definition owner_rank :: "ext \<Rightarrow> string \<Rightarrow> company_user_row \<Rightarrow> nat \<times> nat \<times> nat \<times> nat \<times> string" where
  "owner_rank E query r =
     (desc_rank (exact_match E r (ToLower E query)), desc_rank (any_ilike E r (escapeLike query @ ''%'')),
      desc_rank (any_ilike E r (''%'' @ escapeLike query @ ''%'')),
      (case cu_phone r of None \<Rightarrow> (1, []) | Some s \<Rightarrow> (0, s)))"

definition owner_matches :: "ext \<Rightarrow> string \<Rightarrow> company_user_row \<Rightarrow> bool" where
  "owner_matches E query r \<longleftrightarrow> sql_trim (case cu_role r of None \<Rightarrow> [] | Some s \<Rightarrow> s) = ''OWNER''
     \<and> any_ilike E r (''%'' @ escapeLike query @ ''%'') = Some True"

text \<open>The rows of a \<open>Query\<close>, scanned one by one; the first that cannot be scanned is the error.\<close>

fun scan_all :: "('r \<Rightarrow> err + 'a) \<Rightarrow> 'r list \<Rightarrow> err + 'a list" where
  "scan_all f [] = Inr []"
| "scan_all f (r # rs) = (case f r of Inl e \<Rightarrow> Inl e | Inr a \<Rightarrow> map_sum id ((#) a) (scan_all f rs))"

definition appusers_SearchOwners :: "ext \<Rightarrow> string \<Rightarrow> int \<Rightarrow> ('z, err + User list) prog" where
  "appusers_SearchOwners E q limit =
     (let query = TrimSpace q; limit = (if limit \<le> 0 \<or> limit > 100 then 50 else limit)
      in if query = [] then ret (Inr [])
         else pg_call (q_select (\<lambda>db. scan_all (scanUser E)
           (page_of limit 0 (order_asc (owner_rank E query) (select_where (owner_matches E query) (company_users_t db)))))))"

section \<open>Roles\<close>

record Role =
  rl_ID :: string
  rl_Name :: string
  rl_Description :: "string option"

definition RoleErrNotFound :: err where "RoleErrNotFound = Err ''role not found''"

definition scan_role :: "ext \<Rightarrow> role_row \<Rightarrow> Role" where
  "scan_role E r = \<lparr>rl_ID = uuid_string E (ro_id r), rl_Name = ro_name r, rl_Description = ro_description r\<rparr>"

definition select_role :: "ext \<Rightarrow> (role_row \<Rightarrow> bool) \<Rightarrow> ('z, err + Role) prog" where
  "select_role E P = do {
     r \<leftarrow> pg_query_row (q_read (\<lambda>db. map_option (scan_role E) (first_where P (roles_t db))));
     ret (case r of Inl e \<Rightarrow> Inl (if e = NoRows then RoleErrNotFound else e) | Inr x \<Rightarrow> Inr x)
   }"

definition approles_FindByID :: "ext \<Rightarrow> uuid \<Rightarrow> ('z, err + Role) prog" where
  "approles_FindByID E u = select_role E (\<lambda>r. ro_id r = u)"

definition approles_FindByName :: "ext \<Rightarrow> string \<Rightarrow> ('z, err + Role) prog" where
  "approles_FindByName E name = select_role E (\<lambda>r. ro_name r = name)"

definition approles_ListAll :: "ext \<Rightarrow> ('z, err + Role list) prog" where
  "approles_ListAll E = pg_call (q_read (\<lambda>db. map (scan_role E) (order_asc ro_name (roles_t db))))"

section \<open>Members of companies\<close>

definition UCRErrNotFound :: err where "UCRErrNotFound = Err ''not found''"

definition member_row :: "uuid \<Rightarrow> uuid \<Rightarrow> ucr_row \<Rightarrow> bool" where
  "member_row userID companyID r \<longleftrightarrow> ucr_user_id r = userID \<and> ucr_company_id r = companyID"

definition ucr_key :: "ucr_row \<Rightarrow> uuid \<times> uuid \<times> uuid" where
  "ucr_key r = (ucr_user_id r, ucr_company_id r, ucr_role_id r)"

definition upsert_ucr :: "uuid \<Rightarrow> uuid \<Rightarrow> uuid \<Rightarrow> uuid \<Rightarrow> unit stmt" where
  "upsert_ucr userID companyID roleID assignedBy = (\<lambda>now _ db.
     let P = (\<lambda>r. ucr_key r = (userID, companyID, roleID)) in
     if \<not> company_user_exists db userID \<or> \<not> company_row_exists db companyID \<or> \<not> role_exists db roleID
        \<or> \<not> company_user_exists db assignedBy then Inl FKViolation
     else if exists_where P (ucr_t db)
     then Inr ((), db\<lparr>ucr_t := update_where P (\<lambda>r. r\<lparr>ucr_assigned_by := Some assignedBy, ucr_assigned_at := now\<rparr>) (ucr_t db)\<rparr>)
     else Inr ((), db\<lparr>ucr_t := ucr_t db @ [\<lparr>ucr_user_id = userID, ucr_company_id = companyID, ucr_role_id = roleID,
            ucr_assigned_by = Some assignedBy, ucr_assigned_at = now\<rparr>]\<rparr>))"

definition ucr_Add :: "uuid \<Rightarrow> uuid \<Rightarrow> uuid \<Rightarrow> uuid \<Rightarrow> ('z, err + unit) prog" where
  "ucr_Add userID companyID roleID assignedBy = pg_call (upsert_ucr userID companyID roleID assignedBy)"

text \<open>A member may have several roles in a company; which row \<open>LIMIT 1\<close> picks is not said, here the oldest.\<close>

definition ucr_GetRole :: "uuid \<Rightarrow> uuid \<Rightarrow> ('z, err + uuid) prog" where
  "ucr_GetRole userID companyID = do {
     r \<leftarrow> pg_query_row (q_read (\<lambda>db. map_option ucr_role_id (first_where (member_row userID companyID) (ucr_t db))));
     ret (case r of Inl e \<Rightarrow> Inl (if e = NoRows then UCRErrNotFound else e) | Inr x \<Rightarrow> Inr x)
   }"

definition affected_ucr :: "err + nat \<Rightarrow> err + unit" where
  "affected_ucr r = (case r of Inl e \<Rightarrow> Inl e | Inr n \<Rightarrow> if n = 0 then Inl UCRErrNotFound else Inr ())"

definition delete_ucr :: "uuid \<Rightarrow> uuid \<Rightarrow> nat stmt" where
  "delete_ucr userID companyID = q_write (\<lambda>_ db. (count_where (member_row userID companyID) (ucr_t db),
     db\<lparr>ucr_t := delete_where (member_row userID companyID) (ucr_t db)\<rparr>))"

definition ucr_Remove :: "uuid \<Rightarrow> uuid \<Rightarrow> ('z, err + unit) prog" where
  "ucr_Remove userID companyID = do { r \<leftarrow> pg_call (delete_ucr userID companyID); ret (affected_ucr r) }"

definition update_ucr :: "uuid \<Rightarrow> uuid \<Rightarrow> uuid \<Rightarrow> uuid \<Rightarrow> nat stmt" where
  "update_ucr userID companyID newRoleID assignedBy = (\<lambda>now _ db.
     let P = member_row userID companyID;
         rows = update_where P (\<lambda>r. r\<lparr>ucr_role_id := newRoleID, ucr_assigned_by := Some assignedBy, ucr_assigned_at := now\<rparr>)
                  (ucr_t db) in
     if \<not> distinct (map ucr_key rows) then Inl UniqueViolation
     else if exists_where P (ucr_t db) \<and> (\<not> role_exists db newRoleID \<or> \<not> company_user_exists db assignedBy) then Inl FKViolation
     else Inr (count_where P (ucr_t db), db\<lparr>ucr_t := rows\<rparr>))"

definition ucr_UpdateRole :: "uuid \<Rightarrow> uuid \<Rightarrow> uuid \<Rightarrow> uuid \<Rightarrow> ('z, err + unit) prog" where
  "ucr_UpdateRole userID companyID newRoleID assignedBy = do {
     r \<leftarrow> pg_call (update_ucr userID companyID newRoleID assignedBy);
     ret (affected_ucr r)
   }"

record UserCompanyRoleWithUser =
  uw_UserID :: uuid
  uw_CompanyID :: uuid
  uw_RoleID :: uuid
  uw_AssignedBy :: "uuid option"
  uw_AssignedAt :: string
  uw_Phone :: string
  uw_FirstName :: "string option"
  uw_LastName :: "string option"
  uw_RoleName :: string
  uw_RoleDescription :: "string option"
  uw_AssignedByName :: "string option"

text \<open>The row of the joins; \<open>assigned_at\<close>, a \<open>TIMESTAMP\<close>, and the phone are scanned into strings.\<close>

definition scan_member :: "ext \<Rightarrow> ucr_row \<times> company_user_row \<times> role_row \<times> company_user_row option \<Rightarrow>
    err + UserCompanyRoleWithUser" where
  "scan_member E = (\<lambda>(m, u, ro, ab).
     case (scan_timestamp E (ucr_assigned_at m), cu_phone u) of
       (Some since, Some phone) \<Rightarrow> Inr
         \<lparr>uw_UserID = ucr_user_id m, uw_CompanyID = ucr_company_id m, uw_RoleID = ucr_role_id m,
          uw_AssignedBy = ucr_assigned_by m, uw_AssignedAt = since, uw_Phone = phone, uw_FirstName = cu_first_name u,
          uw_LastName = cu_last_name u, uw_RoleName = ro_name ro, uw_RoleDescription = ro_description ro,
          uw_AssignedByName = (case ab of None \<Rightarrow> None | Some b \<Rightarrow>
             (case (cu_first_name b, cu_last_name b) of (Some f, Some l) \<Rightarrow> Some (f @ '' '' @ l) | _ \<Rightarrow> None))\<rparr>
     | _ \<Rightarrow> Inl ErrScan)"

definition members_of :: "uuid \<Rightarrow> db \<Rightarrow> (ucr_row \<times> company_user_row \<times> role_row \<times> company_user_row option) list" where
  "members_of companyID db = concat (map (\<lambda>m.
     (case (first_where (\<lambda>u. cu_id u = ucr_user_id m) (company_users_t db),
            first_where (\<lambda>r. ro_id r = ucr_role_id m) (roles_t db)) of
        (Some u, Some ro) \<Rightarrow> [(m, u, ro, (case ucr_assigned_by m of None \<Rightarrow> None
           | Some b \<Rightarrow> first_where (\<lambda>u. cu_id u = b) (company_users_t db)))]
      | _ \<Rightarrow> []))
     (order_desc ucr_assigned_at (select_where (\<lambda>m. ucr_company_id m = companyID) (ucr_t db))))"

definition ucr_ListUsersByCompany :: "ext \<Rightarrow> uuid \<Rightarrow> int \<Rightarrow> int \<Rightarrow> ('z, err + UserCompanyRoleWithUser list) prog" where
  "ucr_ListUsersByCompany E companyID limit offset =
     (let limit = (if limit \<le> 0 \<or> limit > 100 then 20 else limit)
      in pg_call (q_select (\<lambda>db. case pg_page limit offset (members_of companyID db) of
           Inl e \<Rightarrow> Inl e | Inr rows \<Rightarrow> scan_all (scan_member E) rows)))"

section \<open>Invitations to companies\<close>

definition ErrInvitationNotFound :: err where "ErrInvitationNotFound = Err ''invitation not found''"
definition ErrInvitationExpired :: err where "ErrInvitationExpired = Err ''invitation expired''"

definition insert_company_invitation :: "string \<Rightarrow> uuid \<Rightarrow> uuid \<Rightarrow> string \<Rightarrow> uuid \<Rightarrow> time \<Rightarrow> company_invitation stmt" where
  "insert_company_invitation token companyID roleID email invitedBy expiresAt = (\<lambda>now u db.
     let i = \<lparr>ci_id = u, ci_token = token, ci_company_id = companyID, ci_role_id = roleID, ci_email = email,
              ci_invited_by = invitedBy, ci_expires_at = expiresAt, ci_created_at = now\<rparr> in
     if \<not> varchar_ok 64 (Some token) \<or> \<not> varchar_ok 255 (Some email) then Inl InvalidInput
     else if exists_where (\<lambda>i. ci_id i = u \<or> ci_token i = token) (company_invitations_t db) then Inl UniqueViolation
     else if \<not> company_row_exists db companyID \<or> \<not> role_exists db roleID \<or> \<not> company_user_exists db invitedBy
     then Inl FKViolation
     else Inr (i, db\<lparr>company_invitations_t := company_invitations_t db @ [i]\<rparr>))"

definition coinv_Create ::
    "ext \<Rightarrow> uuid \<Rightarrow> uuid \<Rightarrow> uuid \<Rightarrow> string \<Rightarrow> duration \<Rightarrow> ('z, err + company_invitation) prog" where
  "coinv_Create E companyID roleID invitedBy email expiresIn = andE (draw_token E) (\<lambda>token. do {
     now \<leftarrow> clock;
     pg_call (insert_company_invitation token companyID roleID email invitedBy (now + expiresIn))
   })"

definition coinv_GetByToken :: "string \<Rightarrow> ('z, err + company_invitation) prog" where
  "coinv_GetByToken token = do {
     r \<leftarrow> pg_query_row (q_read (\<lambda>db. first_where (\<lambda>i. ci_token i = token) (company_invitations_t db)));
     (case r of
        Inl e \<Rightarrow> ret (Inl (if e = NoRows then ErrInvitationNotFound else e))
      | Inr i \<Rightarrow> do { now \<leftarrow> clock; ret (if now > ci_expires_at i then Inl ErrInvitationExpired else Inr i) })
   }"

definition coinv_Delete :: "uuid \<Rightarrow> ('z, err + unit) prog" where
  "coinv_Delete u = pg_call (q_write (\<lambda>_ db. ((), db
     \<lparr>company_invitations_t := delete_where (\<lambda>i. ci_id i = u) (company_invitations_t db)\<rparr>)))"

section \<open>The audit log\<close>

definition insert_audit ::
    "uuid option \<Rightarrow> uuid option \<Rightarrow> string \<Rightarrow> string \<Rightarrow> uuid \<Rightarrow> json option \<Rightarrow> json option \<Rightarrow> unit stmt" where
  "insert_audit userID companyID action entityType entityID oldData newData = (\<lambda>now u db.
     if \<not> varchar_ok 50 (Some action) \<or> \<not> varchar_ok 50 (Some entityType) then Inl InvalidInput
     else if exists_where (\<lambda>a. au_id a = u) (audit_t db) then Inl UniqueViolation
     else if \<not> refers (company_user_exists db) userID \<or> \<not> refers (company_row_exists db) companyID then Inl FKViolation
     else Inr ((), db\<lparr>audit_t := audit_t db @ [\<lparr>au_id = u, au_user_id = userID, au_company_id = companyID,
            au_action = action, au_entity_type = entityType, au_entity_id = entityID, au_old_data = oldData,
            au_new_data = newData, au_created_at = now\<rparr>]\<rparr>))"

definition audit_Log ::
    "uuid option \<Rightarrow> uuid option \<Rightarrow> string \<Rightarrow> string \<Rightarrow> uuid \<Rightarrow> json option \<Rightarrow> json option \<Rightarrow> ('z, err + unit) prog" where
  "audit_Log userID companyID action entityType entityID oldData newData =
     pg_call (insert_audit userID companyID action entityType entityID oldData newData)"

section \<open>Who may do what\<close>

definition CanInvite :: "string \<Rightarrow> string \<Rightarrow> bool" where
  "CanInvite actorRole targetRoleName =
     (if actorRole = ''Owner'' then True
      else if actorRole = ''CEO'' then targetRoleName \<noteq> ''Owner''
      else if actorRole = ''TopManager'' then targetRoleName = ''Manager''
      else if actorRole = ''TopDispatcher'' then targetRoleName = ''Dispatcher''
      else False)"

definition CanChangeRole :: "string \<Rightarrow> string \<Rightarrow> bool" where
  "CanChangeRole actorRole targetRoleName = CanInvite actorRole targetRoleName"

definition CanRemove :: "string \<Rightarrow> string \<Rightarrow> bool" where
  "CanRemove actorRole targetRoleName =
     (if actorRole = ''Owner'' then True
      else if actorRole = ''CEO'' then targetRoleName \<noteq> ''Owner''
      else if actorRole = ''TopManager'' then targetRoleName = ''Manager''
      else if actorRole = ''TopDispatcher'' then targetRoleName = ''Dispatcher''
      else False)"

section \<open>Administrators\<close>

record Admin =
  am_ID :: uuid
  am_Login :: string
  am_Password :: string
  am_Name :: string
  am_Status :: string
  am_Type :: string

definition AdminErrNotFound :: err where "AdminErrNotFound = Err ''admin not found''"

definition admins_FindByLogin :: "string \<Rightarrow> ('z, err + Admin) prog" where
  "admins_FindByLogin login = do {
     r \<leftarrow> pg_query_row (q_read (\<lambda>db. map_option
            (\<lambda>a. \<lparr>am_ID = ad_id a, am_Login = ad_login a, am_Password = ad_password a, am_Name = ad_name a,
                  am_Status = ad_status a, am_Type = ad_type a\<rparr>)
            (first_where (\<lambda>a. ad_login a = login) (admins_t db))));
     ret (case r of Inl e \<Rightarrow> Inl (if e = NoRows then AdminErrNotFound else e) | Inr a \<Rightarrow> Inr a)
   }"

end
