(* ===== verification/Companies.thy ===== *)
theory Companies
  imports Company_Repos Links
begin

text \<open>
  The handlers on the companies' side: \<open>company_tz.go\<close> (companies, their members and invitations),
  \<open>admin_companies.go\<close>, \<open>admin_auth.go\<close>, \<open>company_user_auth.go\<close>, \<open>company_user_registration.go\<close> and
  \<open>dispatcher_companies.go\<close>. The first identifier after the external functions is the identity the
  guard let in; a body is \<open>None\<close> when it cannot be read as JSON.
\<close>

section \<open>Companies and their members\<close>

abbreviation inviteExpiresIn :: duration where "inviteExpiresIn \<equiv> 7 * 24 * hour"

definition jid :: "ext \<Rightarrow> uuid \<Rightarrow> json" where "jid E u = JStr (uuid_string E u)"

text \<open>\<open>appUserID\<close>: the identity of the context, which must not be \<open>uuid.Nil\<close>.\<close>

definition as_user :: "uuid \<Rightarrow> string \<Rightarrow> ('z, response) prog \<Rightarrow> ('z, response) prog" where
  "as_user userID key k = (if userID = uuid_nil then ret (ErrorLang 401 key) else k)"

definition getCompanyRole :: "ext \<Rightarrow> uuid \<Rightarrow> uuid \<Rightarrow> ('z, string option) prog" where
  "getCompanyRole E userID companyID = do {
     r \<leftarrow> ucr_GetRole userID companyID;
     ro \<leftarrow> (case r of Inl _ \<Rightarrow> ret None
            | Inr roleID \<Rightarrow> do { ro \<leftarrow> approles_FindByID E roleID; ret (found1 ro) });
     (case ro of
        Some role \<Rightarrow> ret (Some (rl_Name role))
      | None \<Rightarrow> do {
          comp \<leftarrow> companies_GetByIDTZ E companyID;
          ret (case found1 comp of
                 None \<Rightarrow> None
               | Some c \<Rightarrow> if ct_OwnerID c = Some userID then Some ''Owner'' else None)
        })
   }"

record CreateCompanyBody =
  nc_Name :: string
  nc_Type :: string
  nc_Inn :: "string option"
  nc_Phone :: "string option"
  nc_Address :: "string option"

definition bind_company :: "CreateCompanyBody option \<Rightarrow> CreateCompanyBody option" where
  "bind_company body =
     (case body of
        None \<Rightarrow> None
      | Some req \<Rightarrow> if nc_Name req \<noteq> [] \<and> nc_Type req \<in> {''SHIPPER'', ''CARRIER'', ''BROKER''} then Some req else None)"

text \<open>The key of the map, or the empty string.\<close>

definition company_type_db :: "string \<Rightarrow> string" where
  "company_type_db s = (case map_of [(''SHIPPER'', ''Shipper''), (''CARRIER'', ''Carrier''), (''BROKER'', ''Broker'')] s of
     None \<Rightarrow> [] | Some t \<Rightarrow> t)"

definition CompanyTZ_CreateCompany :: "ext \<Rightarrow> uuid \<Rightarrow> CreateCompanyBody option \<Rightarrow> ('z, response) prog" where
  "CompanyTZ_CreateCompany E userID body = as_user userID ''unauthorized''
     (case bind_company body of
        None \<Rightarrow> ret (ErrorLang 400 ''invalid_payload_detail'')
      | Some req \<Rightarrow> do {
          ownerRole \<leftarrow> approles_FindByName E ''Owner'';
          (case found1 ownerRole of
             None \<Rightarrow> ret (ErrorLang 500 ''roles_not_configured'')
           | Some role \<Rightarrow>
               let t = company_type_db (ToUpper E (nc_Type req));
                   companyTypeDB = (if t = [] then nc_Type req else t) in
               attempt (companies_CreateByOwner \<lparr>bo_Name = nc_Name req, bo_Type = companyTypeDB, bo_AutoApproveLimit = None,
                   bo_OwnerID = userID, bo_Phone = nc_Phone req, bo_Address = nc_Address req, bo_Inn = nc_Inn req\<rparr>)
                 (\<lambda>_. ret (ErrorLang 500 ''company_create_failed''))
                 (\<lambda>companyID.
                    (case uuid_parse E (rl_ID role) of
                       None \<Rightarrow> ret panicked
                     | Some roleID \<Rightarrow> do {
                         _ \<leftarrow> ucr_Add userID companyID roleID userID;
                         _ \<leftarrow> audit_Log (Some userID) (Some companyID) ''create'' ''company'' companyID None
                                (Some (JObj [(''name'', JStr (nc_Name req)), (''type'', JStr (nc_Type req))]));
                         comp \<leftarrow> companies_GetByIDTZ E companyID;
                         ret (SuccessLang 201 ''created'' (JObj
                           ([(''id'', jid E companyID), (''name'', JStr (nc_Name req)), (''type'', JStr (nc_Type req)),
                             (''inn'', json_opt JStr (nc_Inn req)), (''phone'', json_opt JStr (nc_Phone req)),
                             (''address'', json_opt JStr (nc_Address req)), (''owner_id'', jid E userID)]
                            @ (case found1 comp of None \<Rightarrow> [] | Some c \<Rightarrow> [(''created_at'', JStr (ct_CreatedAt c))]))))
                       })))
        })"

text \<open>\<open>current\<close> is the company of the token.\<close>

definition CompanyTZ_ListMyCompanies :: "ext \<Rightarrow> uuid \<Rightarrow> uuid option \<Rightarrow> ('z, response) prog" where
  "CompanyTZ_ListMyCompanies E userID current = as_user userID ''unauthorized''
     (let currentCompanyID = (case current of None \<Rightarrow> uuid_nil | Some u \<Rightarrow> u) in
      attempt (companies_ListForUser userID) (\<lambda>_. ret (ErrorLang 500 ''list_failed''))
        (\<lambda>list. ret (OKLang ''ok'' (JObj [(''companies'', JList (map (\<lambda>co. JObj
            [(''id'', jid E (cr_ID co)), (''name'', JStr (cr_Name co)), (''type'', json_opt JStr (cr_Type co)),
             (''role'', JStr (cr_Role co)),
             (''is_current'', JBool (currentCompanyID \<noteq> uuid_nil \<and> cr_ID co = currentCompanyID))]) list))]))))"

text \<open>\<open>IssueWithCompany\<close> at this moment with a new identifier; nothing is put into the refresh store.\<close>

definition issue_only ::
    "ext \<Rightarrow> JWTManager \<Rightarrow> string \<Rightarrow> uuid \<Rightarrow> uuid \<Rightarrow> ('z, err + Tokens) prog" where
  "issue_only E m role userID companyID = do {
     now \<leftarrow> clock;
     jti \<leftarrow> new_uuid;
     ret (map_sum id fst (IssueWithCompany E m now (uuid_string E jti) role userID companyID))
   }"

definition CompanyTZ_SwitchCompany ::
    "ext \<Rightarrow> JWTManager \<Rightarrow> uuid \<Rightarrow> string option \<Rightarrow> ('z, response) prog" where
  "CompanyTZ_SwitchCompany E m userID body = as_user userID ''unauthorized''
     (case required body of
        None \<Rightarrow> ret (ErrorLang 400 ''invalid_payload'')
      | Some reqCompany \<Rightarrow>
          (case uuid_parse E reqCompany of
             None \<Rightarrow> ret (ErrorLang 400 ''invalid_company_id'')
           | Some companyID \<Rightarrow> do {
               role \<leftarrow> getCompanyRole E userID companyID;
               (case role of
                  None \<Rightarrow> ret (ErrorLang 403 ''not_member_of_company'')
                | Some roleName \<Rightarrow>
                    attempt (companies_GetByIDTZ E companyID)
                      (\<lambda>_. ret (ErrorLang 404 ''company_not_found''))
                      (\<lambda>comp. attempt (issue_only E m ''user'' userID companyID)
                         (\<lambda>_. ret (ErrorLang 500 ''token_issue_failed''))
                         (\<lambda>tokens. ret (OKLang ''ok'' (JObj
                            [(''token'', JStr (AccessToken tokens)), (''refresh_token'', JStr (RefreshToken tokens)),
                             (''expires_in'', JInt (ExpiresIn tokens)), (''expires_at'', JInt (ExpiresAt tokens)),
                             (''refresh_expires_in'', JInt (RefreshExpiresIn tokens)),
                             (''refresh_expires_at'', JInt (RefreshExpiresAt tokens)),
                             (''company'', JObj [(''id'', jid E (ct_ID comp)), (''name'', JStr (ct_Name comp)),
                                (''type'', json_opt JStr (ct_Type comp)), (''role'', JStr roleName)])])))))
             }))"

record InvitationBody =
  ib_Email :: string
  ib_RoleID :: string

definition bind_company_invitation :: "ext \<Rightarrow> InvitationBody option \<Rightarrow> InvitationBody option" where
  "bind_company_invitation E body =
     (case body of
        None \<Rightarrow> None
      | Some req \<Rightarrow> if ib_Email req \<noteq> [] \<and> valid_email E (ib_Email req) \<and> ib_RoleID req \<noteq> [] then Some req else None)"

text \<open>The company of the path and the caller's role in it.\<close>

definition as_member ::
    "ext \<Rightarrow> uuid \<Rightarrow> uuid \<Rightarrow> (string \<Rightarrow> ('z, response) prog) \<Rightarrow> ('z, response) prog" where
  "as_member E userID companyID k = do {
     role \<leftarrow> getCompanyRole E userID companyID;
     (case role of None \<Rightarrow> ret (ErrorLang 403 ''not_member_of_company'') | Some actorRole \<Rightarrow> k actorRole)
   }"

definition CompanyTZ_CreateInvitation ::
    "ext \<Rightarrow> uuid \<Rightarrow> string \<Rightarrow> string \<Rightarrow> InvitationBody option \<Rightarrow> ('z, response) prog" where
  "CompanyTZ_CreateInvitation E userID host pCompanyId body = as_user userID ''unauthorized''
     (case uuid_parse E pCompanyId of
        None \<Rightarrow> ret (ErrorLang 400 ''invalid_company_id'')
      | Some companyID \<Rightarrow> as_member E userID companyID (\<lambda>actorRole.
          (case bind_company_invitation E body of
             None \<Rightarrow> ret (ErrorLang 400 ''invalid_payload'')
           | Some req \<Rightarrow>
          (case uuid_parse E (ib_RoleID req) of
             None \<Rightarrow> ret (ErrorLang 400 ''invalid_role_id'')
           | Some roleID \<Rightarrow>
               attempt (approles_FindByID E roleID) (\<lambda>_. ret (ErrorLang 400 ''role_not_found'')) (\<lambda>role.
               if \<not> CanInvite actorRole (rl_Name role) then ret (ErrorLang 403 ''your_role_cannot_invite'') else
               attempt (coinv_Create E companyID roleID userID (ib_Email req) inviteExpiresIn)
                 (\<lambda>_. ret (ErrorLang 500 ''invitation_failed'')) (\<lambda>i. do {
                    let baseURL = (if host \<noteq> [] then ''https://'' @ host else ''https://sarbon.me'');
                    _ \<leftarrow> audit_Log (Some userID) (Some companyID) ''create'' ''invitation'' (ci_id i) None
                           (Some (JObj [(''email'', JStr (ib_Email req)), (''role_id'', jid E roleID)]));
                    ret (SuccessLang 201 ''created'' (JObj
                      [(''invite_link'', JStr (baseURL @ ''/accept-invite?token='' @ ci_token i)),
                       (''expires_at'', JStr (rfc3339 E (ci_expires_at i)))]))
                  }))))))"

definition CompanyTZ_AcceptInvitation :: "ext \<Rightarrow> uuid \<Rightarrow> string option \<Rightarrow> ('z, response) prog" where
  "CompanyTZ_AcceptInvitation E userID body = as_user userID ''unauthorized_login_register_first''
     (case required body of
        None \<Rightarrow> ret (ErrorLang 400 ''invalid_payload'')
      | Some tok \<Rightarrow>
          attempt (coinv_GetByToken tok)
            (\<lambda>e. ret (if e = ErrInvitationNotFound \<or> e = ErrInvitationExpired
                     then ErrorLang 401 ''invitation_not_found_or_expired'' else ErrorLang 500 ''failed''))
            (\<lambda>i. do {
               comp \<leftarrow> companies_GetByIDTZ E (ci_company_id i);
               role \<leftarrow> approles_FindByID E (ci_role_id i);
               added \<leftarrow> ucr_Add userID (ci_company_id i) (ci_role_id i) (ci_invited_by i);
               _ \<leftarrow> (case added of
                      Inl e \<Rightarrow> ret (Inl e)
                    | Inr _ \<Rightarrow> audit_Log (Some userID) (Some (ci_company_id i)) ''create'' ''user_company_role'' userID None
                        (Some (JObj [(''role_id'', jid E (ci_role_id i))])));
               _ \<leftarrow> coinv_Delete (ci_id i);
               ret (OKLang ''ok'' (JObj
                 [(''status'', JStr ''accepted''), (''company_id'', jid E (ci_company_id i)),
                  (''company_name'', JStr (case found1 comp of None \<Rightarrow> [] | Some c \<Rightarrow> ct_Name c)),
                  (''role'', JStr (case found1 role of None \<Rightarrow> [] | Some r \<Rightarrow> rl_Name r))]))
             }))"

text \<open>\<open>strconv.Atoi(c.DefaultQuery(...))\<close> without its error.\<close>

definition default_query :: "string \<Rightarrow> string option \<Rightarrow> int" where
  "default_query dflt q = Atoi_value (case q of None \<Rightarrow> dflt | Some s \<Rightarrow> s)"

definition member_json :: "ext \<Rightarrow> UserCompanyRoleWithUser \<Rightarrow> json" where
  "member_json E u = JObj
     [(''id'', jid E (uw_UserID u)), (''phone'', JStr (uw_Phone u)), (''first_name'', json_opt JStr (uw_FirstName u)),
      (''last_name'', json_opt JStr (uw_LastName u)),
      (''role'', JObj [(''id'', jid E (uw_RoleID u)), (''name'', JStr (uw_RoleName u)),
         (''description'', json_opt JStr (uw_RoleDescription u))]),
      (''assigned_by'', JObj [(''id'', json_opt (jid E) (uw_AssignedBy u)), (''name'', json_opt JStr (uw_AssignedByName u))]),
      (''assigned_at'', JStr (uw_AssignedAt u))]"

definition CompanyTZ_ListCompanyUsers ::
    "ext \<Rightarrow> uuid \<Rightarrow> string \<Rightarrow> string option \<Rightarrow> string option \<Rightarrow> ('z, response) prog" where
  "CompanyTZ_ListCompanyUsers E userID pCompanyId qPage qLimit = as_user userID ''unauthorized''
     (case uuid_parse E pCompanyId of
        None \<Rightarrow> ret (ErrorLang 400 ''invalid_company_id'')
      | Some companyID \<Rightarrow> as_member E userID companyID (\<lambda>_.
          let page = default_query ''1'' qPage; limit = default_query ''20'' qLimit;
              page = (if page < 1 then 1 else page);
              offset = wrap64 ((page - 1) * limit) in
          attempt (ucr_ListUsersByCompany E companyID limit offset) (\<lambda>_. ret (ErrorLang 500 ''list_failed''))
            (\<lambda>list. ret (OKLang ''ok'' (JObj
               [(''users'', JList (map (member_json E) list)), (''total'', JInt (int (length list))),
                (''page'', JInt page), (''limit'', JInt limit)])))))"

definition CompanyTZ_UpdateUserRole ::
    "ext \<Rightarrow> uuid \<Rightarrow> string \<Rightarrow> string \<Rightarrow> string option \<Rightarrow> ('z, response) prog" where
  "CompanyTZ_UpdateUserRole E userID pCompanyId pUserId body = as_user userID ''unauthorized''
     (case uuid_parse E pCompanyId of
        None \<Rightarrow> ret (ErrorLang 400 ''invalid_company_id'')
      | Some companyID \<Rightarrow>
     (case uuid_parse E pUserId of
        None \<Rightarrow> ret (ErrorLang 400 ''invalid_user_id'')
      | Some targetUserID \<Rightarrow> as_member E userID companyID (\<lambda>actorRole.
     (case required body of
        None \<Rightarrow> ret (ErrorLang 400 ''invalid_payload'')
      | Some reqRole \<Rightarrow>
     (case uuid_parse E reqRole of
        None \<Rightarrow> ret (ErrorLang 400 ''invalid_role_id'')
      | Some newRoleID \<Rightarrow> do {
          newRole \<leftarrow> approles_FindByID E newRoleID;
          (case found1 newRole of
             None \<Rightarrow> ret (ErrorLang 400 ''role_not_found'')
           | Some role \<Rightarrow>
               if \<not> CanChangeRole actorRole (rl_Name role) then ret (ErrorLang 403 ''your_role_cannot_assign'') else
               attempt (ucr_GetRole targetUserID companyID) (\<lambda>_. ret (ErrorLang 404 ''user_not_in_company'')) (\<lambda>oldRoleID. do {
               oldRole \<leftarrow> approles_FindByID E oldRoleID;
               attempt (ucr_UpdateRole targetUserID companyID newRoleID userID)
                 (\<lambda>_. ret (ErrorLang 500 ''update_failed'')) (\<lambda>_. do {
                    let oldName = (case found1 oldRole of None \<Rightarrow> [] | Some r \<Rightarrow> rl_Name r);
                    _ \<leftarrow> audit_Log (Some userID) (Some companyID) ''update'' ''user_company_role'' targetUserID
                           (Some (JObj [(''role'', JStr oldName)])) (Some (JObj [(''role'', JStr (rl_Name role))]));
                    ret (OKLang ''ok'' (JObj [(''user_id'', jid E targetUserID), (''old_role'', JStr oldName),
                      (''new_role'', JStr (rl_Name role))]))
                  })
               }))
        })))))"

text \<open>\<open>c.Status(204)\<close>: no body.\<close>

definition no_content :: response where "no_content = Response True 204 [] JNull"

definition CompanyTZ_RemoveUser :: "ext \<Rightarrow> uuid \<Rightarrow> string \<Rightarrow> string \<Rightarrow> ('z, response) prog" where
  "CompanyTZ_RemoveUser E userID pCompanyId pUserId = as_user userID ''unauthorized''
     (case uuid_parse E pCompanyId of
        None \<Rightarrow> ret (ErrorLang 400 ''invalid_company_id'')
      | Some companyID \<Rightarrow>
     (case uuid_parse E pUserId of
        None \<Rightarrow> ret (ErrorLang 400 ''invalid_user_id'')
      | Some targetUserID \<Rightarrow> as_member E userID companyID (\<lambda>actorRole.
          attempt (ucr_GetRole targetUserID companyID) (\<lambda>_. ret (ErrorLang 404 ''user_not_in_company'')) (\<lambda>targetRoleID. do {
            targetRole \<leftarrow> approles_FindByID E targetRoleID;
            let targetRoleName = (case found1 targetRole of None \<Rightarrow> [] | Some r \<Rightarrow> rl_Name r);
            if \<not> CanRemove actorRole targetRoleName then ret (ErrorLang 403 ''your_role_cannot_remove'') else
            attempt (ucr_Remove targetUserID companyID) (\<lambda>_. ret (ErrorLang 500 ''remove_failed'')) (\<lambda>_. do {
              _ \<leftarrow> audit_Log (Some userID) (Some companyID) ''delete'' ''user_company_role'' targetUserID
                     (Some (JObj [(''role'', JStr targetRoleName)])) None;
              ret no_content
            })
          }))))"

section \<open>Administrators\<close>

record AdminLoginReq =
  al_Login :: string
  al_Password :: string

definition AdminAuth_LoginPassword ::
    "ext \<Rightarrow> JWTManager \<Rightarrow> RefreshStore \<Rightarrow> AdminLoginReq option \<Rightarrow> ('z, response) rprog" where
  "AdminAuth_LoginPassword E m rs body =
     (case body of
        None \<Rightarrow> ret (ErrorLang 400 ''invalid_payload'')
      | Some req \<Rightarrow>
          if al_Login req = [] \<or> al_Password req = [] then ret (ErrorLang 400 ''invalid_payload'') else
          let login = TrimSpace (al_Login req); pw = TrimSpace (al_Password req) in
          if login = [] \<or> pw = [] then ret (ErrorLang 400 ''invalid_payload'') else
          attempt (admins_FindByLogin login)
            (\<lambda>e. ret (if e = AdminErrNotFound then ErrorLang 401 ''invalid_login_or_password'' else ErrorLang 500 ''internal_error''))
            (\<lambda>a. if ToLower E (TrimSpace (am_Status a)) \<noteq> ''active'' then ret (ErrorLang 401 ''admin_inactive'')
                 else if \<not> ComparePassword E (am_Password a) pw then ret (ErrorLang 401 ''invalid_login_or_password'') else
                 attempt (open_session E m rs ''admin'' (am_ID a)) (\<lambda>_. ret (ErrorLang 500 ''token_issue_failed''))
                   (\<lambda>tokens. ret (OKLang ''ok'' (JObj
                      [(''tokens'', tokens_json tokens),
                       (''admin'', JObj [(''id'', jid E (am_ID a)), (''login'', JStr (am_Login a)), (''name'', JStr (am_Name a)),
                          (''status'', JStr (am_Status a)), (''type'', JStr (am_Type a))])])))))"

record adminCreateCompanyReq =
  aq_Name :: string
  aq_Inn :: "string option"
  aq_Address :: "string option"
  aq_Phone :: "string option"
  aq_Email :: "string option"
  aq_Website :: "string option"
  aq_LicenseNumber :: "string option"
  aq_Status :: "string option"
  aq_CompanyType :: "string option"
  aq_MaxVehicles :: int
  aq_MaxDrivers :: int
  aq_MaxCargo :: int
  aq_MaxDispatchers :: int
  aq_MaxManagers :: int
  aq_MaxTopDispatchers :: int
  aq_MaxTopManagers :: int

definition admin_company_type :: "ext \<Rightarrow> string option \<Rightarrow> string option" where
  "admin_company_type E t = (case t of
       None \<Rightarrow> None
     | Some t \<Rightarrow> let s = TrimSpace (ToUpper E t) in
         if s \<noteq> [] \<and> s \<in> {''SHIPPER'', ''CARRIER'', ''BROKER''} then Some (company_type_db s) else None)"

definition AdminCompanies_Create :: "ext \<Rightarrow> uuid \<Rightarrow> adminCreateCompanyReq option \<Rightarrow> ('z, response) prog" where
  "AdminCompanies_Create E adminID body =
     (case body of
        None \<Rightarrow> ret (ErrorLang 400 ''invalid payload'')
      | Some req \<Rightarrow>
          if aq_Name req = [] then ret (ErrorLang 400 ''invalid payload'') else
          let name = TrimSpace (aq_Name req) in
          if name = [] then ret (ErrorLang 400 ''name_required'') else
          as_user adminID ''unauthorized''
            (attempt (companies_Create \<lparr>cc_Name = name, cc_Inn = aq_Inn req, cc_Address = aq_Address req,
                cc_Phone = aq_Phone req, cc_Email = aq_Email req, cc_Website = aq_Website req,
                cc_LicenseNumber = aq_LicenseNumber req, cc_Status = aq_Status req, cc_MaxVehicles = aq_MaxVehicles req,
                cc_MaxDrivers = aq_MaxDrivers req, cc_MaxCargo = aq_MaxCargo req, cc_MaxDispatchers = aq_MaxDispatchers req,
                cc_MaxManagers = aq_MaxManagers req, cc_MaxTopDispatchers = aq_MaxTopDispatchers req,
                cc_MaxTopManagers = aq_MaxTopManagers req, cc_OwnerID = None,
                cc_CompanyType = admin_company_type E (aq_CompanyType req), cc_CreatedBy = adminID\<rparr>)
              (\<lambda>_. ret (ErrorLang 500 ''company_create_failed''))
              (\<lambda>u. ret (OKLang ''created'' (JObj [(''company_id'', jid E u)])))))"

definition AdminCompanies_SetOwner :: "ext \<Rightarrow> string \<Rightarrow> string option \<Rightarrow> ('z, response) prog" where
  "AdminCompanies_SetOwner E pId body =
     (if pId = [] then ret (ErrorLang 400 ''invalid_company_id'') else
     (case uuid_parse E pId of
        None \<Rightarrow> ret (ErrorLang 400 ''invalid_company_id'')
      | Some companyID \<Rightarrow>
     (case required body of
        None \<Rightarrow> ret (ErrorLang 400 ''invalid payload'')
      | Some reqOwner \<Rightarrow>
     (case uuid_parse E (TrimSpace reqOwner) of
        None \<Rightarrow> ret (ErrorLang 400 ''invalid_payload'')
      | Some ownerID \<Rightarrow>
          attempt (appusers_FindByID E ownerID)
            (\<lambda>e. ret (if e = UserErrNotFound then ErrorLang 400 ''invalid_user_id'' else ErrorLang 500 ''internal_error''))
            (\<lambda>user.
               if (case us_Role user of None \<Rightarrow> True | Some r \<Rightarrow> TrimSpace r \<noteq> ''OWNER'')
               then ret (ErrorLang 400 ''invalid_payload'') else
               attempt (companies_SetOwner companyID ownerID) (\<lambda>_. ret (ErrorLang 500 ''internal_error'')) (\<lambda>_.
               attempt (appusers_UpdateCompanyID ownerID (Some companyID)) (\<lambda>_. ret (ErrorLang 500 ''internal_error''))
                 (\<lambda>_. ret (OKLang ''ok'' (JObj [(''status'', JStr ''ok''),
                   (''message'', JStr ''owner set, status set to active'')])))))))))"

definition owner_json :: "ext \<Rightarrow> User \<Rightarrow> json" where
  "owner_json E u = JObj
     [(''id'', JStr (us_ID u)), (''phone'', JStr (us_Phone u)), (''first_name'', json_opt JStr (us_FirstName u)),
      (''last_name'', json_opt JStr (us_LastName u)), (''company_id'', json_opt (jid E) (us_CompanyID u)),
      (''role'', json_opt JStr (us_Role u)), (''created_at'', JTime (us_CreatedAt u)), (''updated_at'', JTime (us_UpdatedAt u))]"

definition AdminCompanies_SearchOwners :: "ext \<Rightarrow> string \<Rightarrow> ('z, response) prog" where
  "AdminCompanies_SearchOwners E qQ =
     (let q = TrimSpace qQ
      in if q = [] then ret (OKLang ''ok'' (JList []))
         else attempt (appusers_SearchOwners E q 50) (\<lambda>_. ret (ErrorLang 500 ''internal_error''))
                (\<lambda>list. ret (OKLang ''ok'' (JList (map (owner_json E) list)))))"

section \<open>Sign-in of the users of companies\<close>

record CompanyUserAuthHandler =
  uh_otp :: OTPStore
  uh_regSessions :: DispatcherSessionStore
  uh_jwtm :: JWTManager
  uh_refresh :: RefreshStore
  uh_tg :: GatewayClient
  uh_otpTTL :: duration
  uh_otpLen :: int

text \<open>What every \<open>SendOTP\<close> handler does once the phone is known; \<open>ns\<close> stands before the phone in the keys.\<close>

definition send_code ::
    "ext \<Rightarrow> GatewayClient \<Rightarrow> OTPStore \<Rightarrow> string \<Rightarrow> duration \<Rightarrow> int \<Rightarrow> string \<Rightarrow> string \<Rightarrow> ('z, response) gprog" where
  "send_code E tg store ns otpTTL otpLen ip phone =
     (let ttlSec = ttl_seconds otpTTL in
      attempt (SendOTP E tg phone ttlSec otpLen) (\<lambda>e. ret (WriteOTPSendError e))
        (\<lambda>(code, requestID).
           attempt (OTPStore_SaveOTP E store (ns @ phone) code requestID (TrimSpace ip)) (\<lambda>e. ret (save_error e))
             (\<lambda>_. ret (OKLang ''otp_sent'' (JObj [(''status'', JStr ''otp_sent''), (''ttl_seconds'', JInt ttlSec)])))))"

definition CompanyUserAuth_SendOTP ::
    "ext \<Rightarrow> CompanyUserAuthHandler \<Rightarrow> string \<Rightarrow> string option \<Rightarrow> ('z, response) gprog" where
  "CompanyUserAuth_SendOTP E h ip body =
     (case required body of
        None \<Rightarrow> ret (ErrorLang 400 ''invalid_payload'')
      | Some reqPhone \<Rightarrow>
          (case NormalizeE164StrictPlus E reqPhone of
             Inl _ \<Rightarrow> ret (ErrorLang 400 ''invalid_payload_detail'')
           | Inr phone \<Rightarrow> send_code E (uh_tg h) (uh_otp h) [] (uh_otpTTL h) (uh_otpLen h) ip phone))"

text \<open>The answers of company users and dispatchers to a wrong code.\<close>

definition code_error :: "err \<Rightarrow> response" where
  "code_error e =
     (if e = ErrOTPExpired then ErrorLang 401 ''otp_expired''
      else if e = ErrOTPInvalid then ErrorLang 401 ''otp_invalid''
      else if e = ErrOTPMaxAttempts then ErrorLang 429 ''otp_max_attempts_exceeded''
      else if e = ErrOTPVerifyRateLimited then ErrorLang 429 ''otp_verify_attempts_exceeded''
      else ErrorLang 500 ''verification_failed'')"

definition userToMap :: "ext \<Rightarrow> User \<Rightarrow> json" where
  "userToMap E u = JObj
     [(''id'', JStr (us_ID u)), (''phone'', JStr (us_Phone u)), (''first_name'', json_opt JStr (us_FirstName u)),
      (''last_name'', json_opt JStr (us_LastName u)), (''role'', json_opt JStr (us_Role u)),
      (''company_id'', json_opt (jid E) (us_CompanyID u))]"

definition CompanyUserAuth_VerifyOTP ::
    "ext \<Rightarrow> CompanyUserAuthHandler \<Rightarrow> verifyOTPReq option \<Rightarrow> ('z, response) rprog" where
  "CompanyUserAuth_VerifyOTP E h body =
     (case body of
        None \<Rightarrow> ret (ErrorLang 400 ''invalid_payload'')
      | Some req \<Rightarrow>
          if vo_Phone req = [] \<or> vo_OTP req = [] then ret (ErrorLang 400 ''invalid_payload'') else
          (case NormalizeE164 E (vo_Phone req) of
             Inl _ \<Rightarrow> ret (ErrorLang 400 ''invalid_payload_detail'')
           | Inr phone \<Rightarrow>
               let otp = TrimSpace (vo_OTP req) in
               if length otp < 4 \<or> length otp > 8 \<or> \<not> IsNumeric E otp then ret (ErrorLang 400 ''otp_must_be_numeric'') else
               attempt (OTPStore_Verify E (uh_otp h) phone otp) (\<lambda>e. ret (code_error e)) (\<lambda>_. do {
                 found \<leftarrow> appusers_FindByPhone E phone;
                 (case found of
                    Inr u \<Rightarrow>
                      attempt (open_session E (uh_jwtm h) (uh_refresh h) ''user'' (parsed_uuid E (us_ID u)))
                        (\<lambda>_. ret (ErrorLang 500 ''token_issue_failed''))
                        (\<lambda>tokens. ret (OKLang ''login'' (JObj [(''status'', JStr ''login''),
                           (''tokens'', tokens_json tokens), (''user'', userToMap E u)])))
                  | Inl e \<Rightarrow>
                      if e \<noteq> UserErrNotFound then ret (ErrorLang 500 ''verification_failed'') else
                      attempt (DispatcherSessionStore_Create E (uh_regSessions h) phone)
                        (\<lambda>_. ret (ErrorLang 500 ''internal_error''))
                        (\<lambda>sessionID. ret (OKLang ''register'' (JObj [(''status'', JStr ''register''),
                           (''session_id'', JStr sessionID)]))))
               })))"

record CompanyUserRegistrationHandler =
  ur_sessions :: DispatcherSessionStore
  ur_jwtm :: JWTManager
  ur_refresh :: RefreshStore

record companyUserCompleteReq =
  uc_SessionID :: string
  uc_FirstName :: string
  uc_LastName :: string
  uc_Password :: string

definition companyUserRoleOwner :: string where "companyUserRoleOwner = ''OWNER''"

definition CompanyUserRegistration_Complete ::
    "ext \<Rightarrow> CompanyUserRegistrationHandler \<Rightarrow> companyUserCompleteReq option \<Rightarrow> ('z, response) rprog" where
  "CompanyUserRegistration_Complete E h body =
     (case body of
        None \<Rightarrow> ret (ErrorLang 400 ''invalid_payload'')
      | Some req \<Rightarrow>
          if uc_SessionID req = [] \<or> uc_FirstName req = [] \<or> uc_Password req = [] then ret (ErrorLang 400 ''invalid_payload'') else
          (case ValidatePassword E (uc_Password req) of
             Inl _ \<Rightarrow> ret (ErrorLang 400 ''invalid_payload_detail'')
           | Inr _ \<Rightarrow>
               attempt (DispatcherSessionStore_Consume (ur_sessions h) (TrimSpace (uc_SessionID req)))
                 (\<lambda>e. ret (if e = ErrDispatcherSessionNotFound then ErrorLang 401 ''session_expired_or_invalid''
                          else ErrorLang 500 ''internal_error''))
                 (\<lambda>val.
                    let phone = TrimSpace val; firstName = TrimSpace (uc_FirstName req) in
                    if length firstName < 2 then ret (ErrorLang 400 ''first_name_too_short'') else
                    let lastName = (if TrimSpace (uc_LastName req) \<noteq> [] then Some (TrimSpace (uc_LastName req)) else None) in
                    attempt (HashPassword E (uc_Password req)) (\<lambda>_. ret (ErrorLang 500 ''password_hash_failed'')) (\<lambda>pwHash.
                    attempt (appusers_Create E phone pwHash (Some firstName) lastName None companyUserRoleOwner)
                      (\<lambda>e. ret (if e = ErrPhoneExists then ErrorLang 409 ''phone_already_registered''
                               else ErrorLang 500 ''internal_error'')) (\<lambda>u.
                    attempt (open_session E (ur_jwtm h) (ur_refresh h) ''user'' (parsed_uuid E (us_ID u)))
                      (\<lambda>_. ret (ErrorLang 500 ''token_issue_failed''))
                      (\<lambda>tokens. ret (OKLang ''ok'' (JObj
                         [(''status'', JStr ''registered''), (''tokens'', tokens_json tokens),
                          (''user'', JObj [(''id'', JStr (us_ID u)), (''phone'', JStr (us_Phone u)),
                             (''first_name'', json_opt JStr (us_FirstName u)), (''last_name'', json_opt JStr (us_LastName u)),
                             (''role'', JStr companyUserRoleOwner), (''company_id'', json_opt (jid E) (us_CompanyID u))])]))))))))"

section \<open>Companies of dispatchers\<close>

text \<open>\<open>binding:"required,max=255"\<close> counts code points.\<close>

definition DispatcherCompanies_CreateCompany :: "ext \<Rightarrow> uuid \<Rightarrow> string option \<Rightarrow> ('z, response) prog" where
  "DispatcherCompanies_CreateCompany E dispatcherID body =
     (case required body of
        None \<Rightarrow> ret (ErrorLang 400 ''invalid_payload_detail'')
      | Some reqName \<Rightarrow>
          if length (runes reqName) > 255 then ret (ErrorLang 400 ''invalid_payload_detail'') else
          let name = TrimSpace reqName in
          if name = [] then ret (ErrorLang 400 ''name_required'') else
          attempt (companies_CreateWithOwnerDispatcher name dispatcherID)
            (\<lambda>_. ret (ErrorLang 500 ''failed_to_create_company'')) (\<lambda>companyID.
          attempt (dcr_Add dispatcherID companyID ''owner'') (\<lambda>_. ret (ErrorLang 500 ''failed_to_link_company''))
            (\<lambda>_. ret (SuccessLang 201 ''created'' (JObj [(''id'', jid E companyID), (''name'', JStr name)])))))"

definition company_item :: "ext \<Rightarrow> CompanyWithRole \<Rightarrow> json" where
  "company_item E c = JObj
     [(''id'', jid E (cr_ID c)), (''name'', JStr (cr_Name c)), (''type'', json_opt JStr (cr_Type c)),
      (''owner_id'', jid E (cr_OwnerID c)), (''role'', JStr (cr_Role c))]"

definition DispatcherCompanies_ListMyCompanies :: "ext \<Rightarrow> uuid \<Rightarrow> ('z, response) prog" where
  "DispatcherCompanies_ListMyCompanies E dispatcherID =
     attempt (companies_ListForDispatcher dispatcherID) (\<lambda>_. ret (ErrorLang 500 ''failed_to_list_companies''))
       (\<lambda>list. ret (OKLang ''ok'' (items_json (map (company_item E) list))))"

text \<open>\<open>uuid_tag\<close> is the tag \<open>uuid\<close> of the validator.\<close>

definition DispatcherCompanies_SwitchCompany ::
    "ext \<Rightarrow> JWTManager \<Rightarrow> (string \<Rightarrow> bool) \<Rightarrow> uuid \<Rightarrow> string option \<Rightarrow> ('z, response) prog" where
  "DispatcherCompanies_SwitchCompany E m uuid_tag dispatcherID body =
     (case required body of
        None \<Rightarrow> ret (ErrorLang 400 ''invalid_payload_detail'')
      | Some reqCompany \<Rightarrow>
          if \<not> uuid_tag reqCompany then ret (ErrorLang 400 ''invalid_payload_detail'') else
          (case path_uuid E reqCompany of
             None \<Rightarrow> ret (ErrorLang 400 ''invalid_company_id'')
           | Some companyID \<Rightarrow>
               attempt (dcr_HasAccess dispatcherID companyID)
                 (\<lambda>_. ret (ErrorLang 403 ''company_not_found_or_access_denied'')) (\<lambda>ok.
               if \<not> ok then ret (ErrorLang 403 ''company_not_found_or_access_denied'') else
               attempt (issue_only E m ''dispatcher'' dispatcherID companyID)
                 (\<lambda>_. ret (ErrorLang 500 ''failed_to_issue_token''))
                 (\<lambda>tokens. ret (OKLang ''ok'' (tokens_json tokens))))))"

end
