(* ===== verification/Company_Guarantees.thy ===== *)
theory Company_Guarantees
  imports Companies Link_Guarantees Session_Guarantees
begin

text \<open>
  What the handlers of companies guarantee: who may join a company, change a role in it or be removed from it, and that a
  search for owners takes the text of the administrator literally.
\<close>

section \<open>Requests\<close>

datatype company_request =
    New_company uuid "CreateCompanyBody option"
  | Companies_of uuid "uuid option"
  | Enter_company uuid "string option"
  | Invite_member uuid string string "InvitationBody option"
  | Join uuid "string option"
  | Members_of uuid string "string option" "string option"
  | Change_role uuid string string "string option"
  | Remove_member uuid string string

fun serve_company :: "ext \<Rightarrow> JWTManager \<Rightarrow> company_request \<Rightarrow> ('z, response) prog" where
  "serve_company E m (New_company u b) = CompanyTZ_CreateCompany E u b"
| "serve_company E m (Companies_of u c) = CompanyTZ_ListMyCompanies E u c"
| "serve_company E m (Enter_company u b) = CompanyTZ_SwitchCompany E m u b"
| "serve_company E m (Invite_member u h pc b) = CompanyTZ_CreateInvitation E u h pc b"
| "serve_company E m (Join u b) = CompanyTZ_AcceptInvitation E u b"
| "serve_company E m (Members_of u pc qp ql) = CompanyTZ_ListCompanyUsers E u pc qp ql"
| "serve_company E m (Change_role u pc pu b) = CompanyTZ_UpdateUserRole E u pc pu b"
| "serve_company E m (Remove_member u pc pu) = CompanyTZ_RemoveUser E u pc pu"

section \<open>What a request may change\<close>

text \<open>Who is in which company with which role.\<close>

definition members :: "db \<Rightarrow> (uuid \<times> uuid \<times> uuid) set" where
  "members d = ucr_key ` set (ucr_t d)"

definition role_named :: "db \<Rightarrow> uuid \<Rightarrow> string \<Rightarrow> bool" where
  "role_named d r n \<longleftrightarrow> (\<exists>x \<in> set (roles_t d). ro_id x = r \<and> ro_name x = n)"

text \<open>\<open>p\<close> has a role named \<open>R\<close> in the company, or is its owner.\<close>

definition holds_role :: "db \<Rightarrow> uuid \<Rightarrow> uuid \<Rightarrow> string \<Rightarrow> bool" where
  "holds_role d p c R \<longleftrightarrow> (\<exists>r. (p, c, r) \<in> members d \<and> role_named d r R)
     \<or> (R = ''Owner'' \<and> (\<exists>x \<in> set (companies_t d). co_id x = c \<and> co_deleted_at x = None \<and> co_owner_id x = Some p))"

definition may :: "(string \<Rightarrow> string \<Rightarrow> bool) \<Rightarrow> db \<Rightarrow> uuid \<Rightarrow> uuid \<Rightarrow> uuid \<Rightarrow> bool" where
  "may can d p c r \<longleftrightarrow> (\<exists>R n. holds_role d p c R \<and> role_named d r n \<and> can R n)"

text \<open>
  A user gets a role in a company by making the company, by an invitation that has not expired, or by a member whose own
  role allows handing that role out.
\<close>

definition gained :: "ext \<Rightarrow> company_request \<Rightarrow> time \<Rightarrow> db \<Rightarrow> uuid \<times> uuid \<times> uuid \<Rightarrow> bool" where
  "gained E q now d = (\<lambda>(u, c, r).
     (\<exists>b. q = New_company u b \<and> c \<notin> co_id ` set (companies_t d) \<and> role_named d r ''Owner'')
   \<or> (\<exists>t. q = Join u (Some t) \<and> (\<exists>i \<in> set (company_invitations_t d). ci_token i = t \<and> ci_company_id i = c \<and> ci_role_id i = r
        \<and> now \<le> ci_expires_at i))
   \<or> (\<exists>p pc pu b. q = Change_role p pc pu (Some b) \<and> uuid_parse E pc = Some c \<and> uuid_parse E pu = Some u \<and> uuid_parse E b = Some r
        \<and> (\<exists>r0. (u, c, r0) \<in> members d) \<and> may CanChangeRole d p c r))"

text \<open>
  A user loses a role by a change of role or by a member who may remove one of the user's roles; an owner or a chief executive
  may remove anybody when the role of the user cannot be read.
\<close>

definition lost :: "ext \<Rightarrow> company_request \<Rightarrow> db \<Rightarrow> uuid \<times> uuid \<times> uuid \<Rightarrow> bool" where
  "lost E q d = (\<lambda>(u, c, r).
     (\<exists>p pc pu. q = Remove_member p pc pu \<and> uuid_parse E pc = Some c \<and> uuid_parse E pu = Some u
        \<and> ((\<exists>r0. (u, c, r0) \<in> members d \<and> may CanRemove d p c r0) \<or> holds_role d p c ''Owner'' \<or> holds_role d p c ''CEO''))
   \<or> (\<exists>p pc pu b r'. q = Change_role p pc pu (Some b) \<and> uuid_parse E pc = Some c \<and> uuid_parse E pu = Some u
        \<and> uuid_parse E b = Some r' \<and> may CanChangeRole d p c r'))"

definition invites :: "ext \<Rightarrow> company_request \<Rightarrow> db \<Rightarrow> company_invitation \<Rightarrow> bool" where
  "invites E q d i \<longleftrightarrow> (\<exists>h pc b. q = Invite_member (ci_invited_by i) h pc b \<and> uuid_parse E pc = Some (ci_company_id i)
     \<and> may CanInvite d (ci_invited_by i) (ci_company_id i) (ci_role_id i))"

definition permitted :: "ext \<Rightarrow> company_request \<Rightarrow> time \<Rightarrow> db \<Rightarrow> db \<Rightarrow> bool" where
  "permitted E q now d d' \<longleftrightarrow>
     (\<forall>k \<in> members d' - members d. gained E q now d k)
   \<and> (\<forall>k \<in> members d - members d'. lost E q d k)
   \<and> (\<forall>i \<in> set (company_invitations_t d') - set (company_invitations_t d). invites E q d i)
   \<and> (\<forall>c \<in> set (companies_t d') - set (companies_t d). \<exists>u b. q = New_company u b \<and> co_owner_id c = Some u)
   \<and> set (companies_t d) \<subseteq> set (companies_t d')
   \<and> roles_t d' = roles_t d \<and> company_users_t d' = company_users_t d"

lemma permitted_refl: "permitted E q now d d"
  by (simp add: permitted_def)

section \<open>Programs that look first and write later\<close>

definition leads :: "db \<Rightarrow> ('z, 'a) prog \<Rightarrow> (db \<Rightarrow> bool) \<Rightarrow> bool" where
  "leads d m Q \<longleftrightarrow> (\<forall>w. w_db w = d \<longrightarrow> Q (w_db (snd (run m w))))"

lemma leadsD: "leads (w_db w) m Q \<Longrightarrow> Q (w_db (snd (run m w)))"
  by (simp add: leads_def)

lemma leads_ret: "Q d \<Longrightarrow> leads d (ret a) Q"
  by (simp add: leads_def)

lemma leads_keeps: "Q d \<Longrightarrow> keeps_db Q m \<Longrightarrow> leads d m Q"
  by (auto simp: leads_def dest: keeps_dbD)

lemma leads_reads: "Q d \<Longrightarrow> reads_only m \<Longrightarrow> leads d m Q"
  by (rule leads_keeps [OF _ reads_only_keeps])

lemma leads_read:
  assumes "reads_only m" and "\<And>w. w_db w = d \<Longrightarrow> F (fst (run m w))" and "\<And>a. F a \<Longrightarrow> leads d (f a) Q"
  shows "leads d (State_Monad.bind m f) Q"
  unfolding leads_def
proof (intro allI impI, goal_cases)
  case (1 w)
  obtain a w' where run: "run m w = (a, w')" by force
  with reads_onlyD [OF assms(1), of w] 1 have "w_db w' = d" by simp
  with assms(2) [OF 1] run assms(3) [of a] show ?case by (simp add: leads_def)
qed

lemma leads_look:
  assumes "reads_only m" and "\<And>w. w_db w = d \<Longrightarrow> F (fst (run m w))"
    and "\<And>e. leads d (h e) Q" and "\<And>a. F (Inr a) \<Longrightarrow> leads d (k a) Q"
  shows "leads d (attempt m h k) Q"
  unfolding attempt_def by (rule leads_read [where F = F, OF assms(1,2)]) (auto split: sum.split intro: assms(3,4))

text \<open>The first write tells what the rest relies on.\<close>

lemma leads_call:
  assumes "\<And>now u a d'. q now u d = Inr (a, d') \<Longrightarrow> Q d' \<and> G a" and "Q d"
    and "\<And>e. keeps_db Q (h e)" and "\<And>a. G a \<Longrightarrow> keeps_db Q (k a)"
  shows "leads d (attempt (pg_call q) h k) Q"
  unfolding leads_def
proof (intro allI impI)
  fix w :: "'b world_scheme" assume w: "w_db w = d"
  obtain r w' where run: "run (pg_call q) w = (r, w')" by force
  have "Q (w_db w') \<and> (\<forall>a. r = Inr a \<longrightarrow> G a)"
    using run assms(1) [of "w_now w" "fresh_id w"] assms(2) w
    by (auto simp: run_pg_call split: fault.splits sum.splits prod.splits if_splits)
  with run show "Q (w_db (snd (run (attempt (pg_call q) h k) w)))"
    by (cases r) (simp_all add: run_attempt keeps_dbD assms(3,4))
qed

lemma leads_if: "(b \<Longrightarrow> leads d m Q) \<Longrightarrow> (\<not> b \<Longrightarrow> leads d n Q) \<Longrightarrow> leads d (if b then m else n) Q"
  by simp

lemma leads_case_option:
  "(x = None \<Longrightarrow> leads d m Q) \<Longrightarrow> (\<And>a. x = Some a \<Longrightarrow> leads d (g a) Q) \<Longrightarrow>
   leads d (case x of None \<Rightarrow> m | Some a \<Rightarrow> g a) Q"
  by (cases x) simp_all

section \<open>The lookups\<close>

lemma reads_only_select_role: "reads_only (select_role E P)"
  unfolding select_role_def by (intro reads_only_intros)

lemma reads_only_getrole: "reads_only (ucr_GetRole u c)"
  unfolding ucr_GetRole_def by (intro reads_only_intros)

lemma reads_only_company: "reads_only (companies_GetByIDTZ E c)"
  unfolding companies_GetByIDTZ_def by (intro reads_only_intros)

lemma reads_only_role: "reads_only (approles_FindByID E r)" "reads_only (approles_FindByName E n)"
  unfolding approles_FindByID_def approles_FindByName_def by (rule reads_only_select_role)+

lemma reads_only_getCompanyRole: "reads_only (getCompanyRole E u c)"
  unfolding getCompanyRole_def
  by (intro reads_only_intros reads_only_getrole reads_only_role reads_only_company)

lemma reads_only_invitation: "reads_only (coinv_GetByToken t)"
  unfolding coinv_GetByToken_def by (intro reads_only_intros reads_only_clock)

lemma reads_only_members: "reads_only (ucr_ListUsersByCompany E c l n)"
  unfolding ucr_ListUsersByCompany_def by (intro reads_only_intros)

lemma reads_only_nothing: "reads_only (pg_call (\<lambda>_ _ _. Inl e))"
  by (simp add: reads_only_def run_pg_call split: fault.splits)

lemmas company_reads = reads_only_getrole reads_only_company reads_only_role reads_only_getCompanyRole reads_only_invitation
  reads_only_members reads_only_nothing reads_only_clock reads_only_new_uuid

lemma found_role: "w_db w = d \<Longrightarrow> fst (run (approles_FindByID E r) w) = Inr x \<Longrightarrow> role_named d r (rl_Name x)"
  by (auto simp: approles_FindByID_def select_role_def run_pg_row_read scan_row_def scan_role_def role_named_def
      split: if_splits option.splits dest: first_where_Some)

lemma found_role_name:
  "w_db w = d \<Longrightarrow> fst (run (approles_FindByName E n) w) = Inr x \<Longrightarrow> uuid_laws E \<Longrightarrow> uuid_parse E (rl_ID x) = Some r \<Longrightarrow> role_named d r n"
  by (auto simp: approles_FindByName_def select_role_def run_pg_row_read scan_row_def scan_role_def role_named_def
      split: if_splits option.splits dest: first_where_Some)

lemma found_member: "w_db w = d \<Longrightarrow> fst (run (ucr_GetRole u c) w) = Inr r \<Longrightarrow> (u, c, r) \<in> members d"
  by (force simp: ucr_GetRole_def run_pg_row_read scan_row_def members_def member_row_def ucr_key_def
      split: if_splits option.splits dest: first_where_Some)

lemma found_owner:
  "w_db w = d \<Longrightarrow> fst (run (companies_GetByIDTZ E c) w) = Inr x \<Longrightarrow> ct_OwnerID x = Some p \<Longrightarrow> holds_role d p c ''Owner''"
  by (force simp: companies_GetByIDTZ_def run_pg_row_read scan_row_def holds_role_def company_tz_def
      split: if_splits option.splits dest: first_where_Some)

lemma found1_Some: "found1 r = Some x \<longleftrightarrow> r = Inr x"
  by (cases r) (simp_all add: found1_def)

text \<open>What \<open>getCompanyRole\<close> answers is a role the user has, even when a lookup breaks down.\<close>

lemma found_company_role:
  assumes "w_db w = d" and "fst (run (getCompanyRole E u c) w) = Some R"
  shows "holds_role d u c R"
proof -
  obtain r w1 where 1: "run (ucr_GetRole u c) w = (r, w1)" by force
  with reads_onlyD [OF reads_only_getrole, of u c w] assms(1) have d1: "w_db w1 = d" by simp
  obtain ro w2 where 2: "run (case r of Inl _ \<Rightarrow> ret None | Inr roleID \<Rightarrow> do { ro \<leftarrow> approles_FindByID E roleID; ret (found1 ro) }) w1
      = (ro, w2)" by force
  have "reads_only (case r of Inl _ \<Rightarrow> ret None | Inr roleID \<Rightarrow> do { ro \<leftarrow> approles_FindByID E roleID; ret (found1 ro) })"
    by (intro reads_only_intros reads_only_role)
  from reads_onlyD [OF this, of w1] 2 d1 have d2: "w_db w2 = d" by simp
  show ?thesis
  proof (cases ro)
    case (Some x)
    with 2 obtain roleID where roleID: "r = Inr roleID" and "fst (run (approles_FindByID E roleID) w1) = Inr x"
      by (auto simp: found1_Some split: sum.splits prod.splits)
    then have "role_named d roleID (rl_Name x)" by (blast intro: found_role [OF d1])
    moreover from 1 roleID have "(u, c, roleID) \<in> members d" by (intro found_member [OF assms(1)]) simp
    moreover from assms(2) 1 2 Some have "R = rl_Name x" by (simp add: getCompanyRole_def)
    ultimately show ?thesis unfolding holds_role_def by blast
  next
    case None
    obtain comp w3 where 3: "run (companies_GetByIDTZ E c) w2 = (comp, w3)" by force
    from assms(2) 1 2 3 None obtain x where "comp = Inr x" "ct_OwnerID x = Some u" "R = ''Owner''"
      by (auto simp: getCompanyRole_def found1_Some split: option.splits if_splits)
    with 3 found_owner [OF d2, of E c x u] show ?thesis by simp
  qed
qed

section \<open>Writes that are permitted\<close>

lemma permitted_upsert:
  assumes "gained E q now d (u, c, r)"
  shows "keeps_db (permitted E q now d) (ucr_Add u c r p)"
  unfolding ucr_Add_def
proof (rule keeps_db_pg_call, rule stmt_keepsI)
  fix t v d1 a d2 assume ok: "permitted E q now d d1" and "upsert_ucr u c r p t v d1 = Inr (a, d2)"
  define P where "P = (\<lambda>x. ucr_key x = (u, c, r))"
  define f where "f x = x\<lparr>ucr_assigned_by := Some p, ucr_assigned_at := t\<rparr>" for x :: ucr_row
  have f: "ucr_key (f x) = ucr_key x" for x by (simp add: f_def ucr_key_def)
  obtain rows where d2: "d2 = d1\<lparr>ucr_t := rows\<rparr>" and "ucr_key ` set rows = insert (u, c, r) (members d1)"
  proof (cases "exists_where P (ucr_t d1)")
    case True
    show thesis
    proof (rule that)
      show "d2 = d1\<lparr>ucr_t := update_where P f (ucr_t d1)\<rparr>"
        using \<open>upsert_ucr u c r p t v d1 = Inr (a, d2)\<close> True
        by (simp add: upsert_ucr_def Let_def P_def f_def [abs_def] split: if_splits)
      show "ucr_key ` set (update_where P f (ucr_t d1)) = insert (u, c, r) (members d1)"
        using True by (simp add: image_update_where [where k = ucr_key, OF f] exists_where_iff P_def members_def)
          (metis image_eqI insert_absorb)
    qed
  next
    case False
    then show thesis
      using \<open>upsert_ucr u c r p t v d1 = Inr (a, d2)\<close>
      by (intro that) (auto simp: upsert_ucr_def Let_def P_def members_def ucr_key_def split: if_splits)
  qed
  then have "members d2 = insert (u, c, r) (members d1)" by (simp add: members_def)
  with ok assms show "permitted E q now d d2" unfolding permitted_def by (auto simp: d2)
qed

lemma permitted_remove:
  assumes "\<And>r. (u, c, r) \<in> members d \<Longrightarrow> lost E q d (u, c, r)"
  shows "keeps_db (permitted E q now d) (ucr_Remove u c)"
  unfolding ucr_Remove_def
proof (intro keeps_intro, rule stmt_keepsI)
  fix t v d1 a d2 assume ok: "permitted E q now d d1" and "delete_ucr u c t v d1 = Inr (a, d2)"
  then have d2: "d2 = d1\<lparr>ucr_t := delete_where (member_row u c) (ucr_t d1)\<rparr>" by (simp add: delete_ucr_def)
  have "members d2 = members d1 - {k. fst k = u \<and> fst (snd k) = c}"
    by (auto simp: d2 members_def set_delete_where member_row_def ucr_key_def)
  with ok assms show "permitted E q now d d2" unfolding permitted_def by (auto simp: d2)
qed

lemma permitted_update:
  assumes "gained E q now d (u, c, r)" and "\<And>r0. (u, c, r0) \<in> members d \<Longrightarrow> lost E q d (u, c, r0)"
  shows "keeps_db (permitted E q now d) (ucr_UpdateRole u c r p)"
  unfolding ucr_UpdateRole_def
proof (intro keeps_intro, rule stmt_keepsI)
  fix t v d1 a d2 assume ok: "permitted E q now d d1" and "update_ucr u c r p t v d1 = Inr (a, d2)"
  then obtain f where d2: "d2 = d1\<lparr>ucr_t := update_where (member_row u c) f (ucr_t d1)\<rparr>"
      and f: "\<And>x. member_row u c x \<Longrightarrow> ucr_key (f x) = (u, c, r)"
    by (force simp: update_ucr_def Let_def ucr_key_def member_row_def split: if_splits)
  have "members d2 \<subseteq> insert (u, c, r) (members d1)" using f
    by (auto simp: d2 members_def set_update_where)
  moreover have "members d1 - {k. fst k = u \<and> fst (snd k) = c} \<subseteq> members d2"
    by (force simp: d2 members_def set_update_where member_row_def ucr_key_def)
  ultimately show "permitted E q now d d2" using ok assms unfolding permitted_def by (auto simp: d2)
qed

lemma permitted_invite:
  assumes "may CanInvite d p c r" and "uuid_parse E pc = Some c"
  shows "stmt_keeps (permitted E (Invite_member p h pc b) now d) (insert_company_invitation t c r e p ex)"
  using assms
  by (auto simp: stmt_keeps_def insert_company_invitation_def permitted_def members_def invites_def Let_def split: if_splits)

lemma permitted_uninvite: "keeps_db (permitted E q now d) (coinv_Delete v)"
  unfolding coinv_Delete_def
  by (intro keeps_intro, rule stmt_keepsI) (auto simp: permitted_def members_def set_delete_where)

lemma permitted_audit: "keeps_db (permitted E q now d) (audit_Log u c a e i x y)"
  unfolding audit_Log_def
  by (intro keeps_intro, rule stmt_keepsI) (auto simp: insert_audit_def permitted_def members_def Let_def split: if_splits)

lemma inserted_company:
  "insert_company f now u d = Inr (c, d') \<Longrightarrow>
     c = u \<and> c \<notin> co_id ` set (companies_t d) \<and> d' = d\<lparr>companies_t := companies_t d @ [f (no_company u now)]\<rparr>"
  by (auto simp: insert_company_def Let_def exists_where_iff split: if_splits)

lemma permitted_create:
  assumes "bo_OwnerID p = v" and "\<And>c. c \<notin> co_id ` set (companies_t d) \<Longrightarrow> keeps_db (permitted E (New_company v b) now d) (k c)"
  shows "leads d (attempt (companies_CreateByOwner p) (\<lambda>_. ret x) k) (permitted E (New_company v b) now d)"
  unfolding companies_CreateByOwner_def
  by (rule leads_call [where G = "\<lambda>c. c \<notin> co_id ` set (companies_t d)"])
     (use assms in \<open>auto simp: permitted_refl permitted_def members_def intro: keeps_intro
        split: option.splits dest!: inserted_company\<close>)

section \<open>Every request is permitted\<close>

lemmas permitted_steps = permitted_audit permitted_uninvite company_reads [THEN reads_only_keeps]

lemma reads_only_as_member:
  "(\<And>R. reads_only (k R)) \<Longrightarrow> reads_only (as_member E u c k)"
  unfolding as_member_def by (intro reads_only_intros company_reads)

lemma leads_as_user: "(u \<noteq> uuid_nil \<Longrightarrow> leads d k Q) \<Longrightarrow> Q d \<Longrightarrow> leads d (as_user u key k) Q"
  unfolding as_user_def by (simp add: leads_ret)

lemma leads_as_member:
  assumes "\<And>R. holds_role d u c R \<Longrightarrow> leads d (k R) Q" and "Q d"
  shows "leads d (as_member E u c k) Q"
  unfolding as_member_def
  by (rule leads_read [where F = "\<lambda>r. \<forall>R. r = Some R \<longrightarrow> holds_role d u c R"])
     (auto simp: reads_only_getCompanyRole assms leads_ret found_company_role split: option.split)

lemma leads_role:
  assumes "\<And>x. role_named d r (rl_Name x) \<Longrightarrow> leads d (k x) Q" and "\<And>e. leads d (h e) Q"
  shows "leads d (attempt (approles_FindByID E r) h k) Q"
  by (rule leads_look [where F = "\<lambda>a. \<forall>x. a = Inr x \<longrightarrow> role_named d r (rl_Name x)"])
     (auto simp: reads_only_role assms found_role)

lemma leads_role_opt:
  assumes "\<And>a. (\<And>x. found1 a = Some x \<Longrightarrow> role_named d r (rl_Name x)) \<Longrightarrow> leads d (k a) Q"
  shows "leads d (State_Monad.bind (approles_FindByID E r) k) Q"
  by (rule leads_read [where F = "\<lambda>a. \<forall>x. found1 a = Some x \<longrightarrow> role_named d r (rl_Name x)"])
     (auto simp: reads_only_role found_role found1_Some intro!: assms)

lemma leads_member:
  assumes "\<And>r. (u, c, r) \<in> members d \<Longrightarrow> leads d (k r) Q" and "\<And>e. leads d (h e) Q"
  shows "leads d (attempt (ucr_GetRole u c) h k) Q"
  by (rule leads_look [where F = "\<lambda>a. \<forall>r. a = Inr r \<longrightarrow> (u, c, r) \<in> members d"])
     (auto simp: reads_only_getrole assms found_member)

lemma leads_role_name:
  assumes "uuid_laws E"
    and "\<And>a. (\<And>x r. found1 a = Some x \<Longrightarrow> uuid_parse E (rl_ID x) = Some r \<Longrightarrow> role_named d r n) \<Longrightarrow> leads d (k a) Q"
  shows "leads d (State_Monad.bind (approles_FindByName E n) k) Q"
  by (rule leads_read [where F = "\<lambda>a. \<forall>x r. found1 a = Some x \<longrightarrow> uuid_parse E (rl_ID x) = Some r \<longrightarrow> role_named d r n"])
     (auto simp: reads_only_role found1_Some intro!: assms(2) intro: found_role_name [OF refl _ assms(1)])

lemmas leads_intros = leads_as_user leads_as_member leads_role leads_role_opt leads_member leads_case_option leads_if
  leads_ret permitted_refl

lemma permitted_New:
  "uuid_laws E \<Longrightarrow> leads d (CompanyTZ_CreateCompany E u b) (permitted E (New_company u b) now d)"
  unfolding CompanyTZ_CreateCompany_def Let_def
  by (intro leads_intros leads_role_name permitted_create keeps_intro permitted_upsert permitted_steps)
     (auto simp: gained_def)

lemma permitted_Change:
  "leads d (CompanyTZ_UpdateUserRole E p pc pu b) (permitted E (Change_role p pc pu b) now d)"
  unfolding CompanyTZ_UpdateUserRole_def
  by (intro leads_intros leads_keeps keeps_intro permitted_update permitted_steps)
     (auto simp: gained_def lost_def required_def may_def split: option.splits if_splits)

lemma permitted_Remove:
  "leads d (CompanyTZ_RemoveUser E p pc pu) (permitted E (Remove_member p pc pu) now d)"
  unfolding CompanyTZ_RemoveUser_def Let_def
  by (intro leads_intros leads_keeps keeps_intro permitted_remove permitted_steps)
     (auto simp: lost_def may_def CanRemove_def split: option.splits if_splits)

lemma permitted_Invite:
  "leads d (CompanyTZ_CreateInvitation E p h pc b) (permitted E (Invite_member p h pc b) now d)"
  unfolding CompanyTZ_CreateInvitation_def coinv_Create_def Let_def
  by (intro leads_intros leads_keeps keeps_intro permitted_invite permitted_steps reads_only_draw_token [THEN reads_only_keeps])
     (auto simp: may_def)

lemma run_invitation:
  assumes "\<And>i. i \<in> set (company_invitations_t (w_db w)) \<Longrightarrow> ci_token i = t \<Longrightarrow> w_now w \<le> ci_expires_at i \<Longrightarrow> keeps_db Q (k i)"
    and "\<And>e. keeps_db Q (h e)" and "Q (w_db w)"
  shows "Q (w_db (snd (run (attempt (coinv_GetByToken t) h k) w)))"
proof -
  obtain r w1 where r: "run (coinv_GetByToken t) w = (r, w1)" by force
  with reads_onlyD [OF reads_only_invitation, of t w] assms(3) have Q: "Q (w_db w1)" by simp
  show ?thesis
  proof (cases r)
    case (Inl e)
    with r Q show ?thesis by (simp add: run_attempt keeps_dbD assms(2))
  next
    case (Inr i)
    with r have "i \<in> set (company_invitations_t (w_db w))" "ci_token i = t" "w_now w \<le> ci_expires_at i"
      by (auto simp: coinv_GetByToken_def run_pg_row_read scan_row_def split: if_splits option.splits dest!: first_where_Some)
    from keeps_dbD [OF assms(1) [OF this] Q] r Inr show ?thesis by (simp add: run_attempt)
  qed
qed

lemma permitted_Join:
  "permitted E (Join u b) (w_now w) (w_db w) (w_db (snd (run (CompanyTZ_AcceptInvitation E u b) w)))"
proof (cases "u = uuid_nil \<or> required b = None")
  case True
  then show ?thesis by (auto simp: CompanyTZ_AcceptInvitation_def as_user_def permitted_refl)
next
  case False
  then obtain t where t: "required b = Some t" and u: "u \<noteq> uuid_nil" by blast
  then have b: "b = Some t" by (auto simp: required_def split: option.splits if_splits)
  have gained: "gained E (Join u b) (w_now w) (w_db w) (u, ci_company_id i, ci_role_id i)"
    if "i \<in> set (company_invitations_t (w_db w))" "ci_token i = t" "w_now w \<le> ci_expires_at i" for i
    using that by (auto simp: gained_def b)
  show ?thesis
    unfolding CompanyTZ_AcceptInvitation_def as_user_def t if_not_P [OF u] option.case
    by (rule run_invitation [where Q = "permitted E (Join u b) (w_now w) (w_db w)"])
       (intro keeps_intro permitted_upsert permitted_steps gained, assumption+,
        intro keeps_intro, rule permitted_refl)
qed

lemma permitted_others:
  "leads d (CompanyTZ_ListMyCompanies E u c) (permitted E q now d)" "leads d (CompanyTZ_SwitchCompany E m u b) (permitted E q now d)"
  "leads d (CompanyTZ_ListCompanyUsers E u pc qp ql) (permitted E q now d)"
  unfolding CompanyTZ_ListMyCompanies_def CompanyTZ_SwitchCompany_def CompanyTZ_ListCompanyUsers_def as_user_def issue_only_def
    companies_ListForUser_def Let_def
  by (rule leads_reads [OF permitted_refl], intro reads_only_intros reads_only_attempt reads_only_as_member company_reads)+

lemma serve_company_permitted:
  assumes "uuid_laws E"
  shows "permitted E q (w_now w) (w_db w) (w_db (snd (run (serve_company E m q) w)))"
  by (cases q) (simp_all add: permitted_Join leadsD [OF permitted_New [OF assms]] leadsD [OF permitted_Change]
      leadsD [OF permitted_Remove] leadsD [OF permitted_Invite] leadsD [OF permitted_others(1)]
      leadsD [OF permitted_others(2)] leadsD [OF permitted_others(3)])


definition club :: db where
  "club = (empty_db True)
     \<lparr>companies_t := [no_company 3 0], roles_t := [\<lparr>ro_id = 4, ro_name = ''Manager'', ro_description = None\<rparr>],
      company_users_t := [\<lparr>cu_id = 2, cu_phone = Some ''1'', cu_password_hash = [], cu_first_name = None, cu_last_name = None,
         cu_company_id = None, cu_role = None, cu_created_at = 0, cu_updated_at = 0\<rparr>],
      company_invitations_t := [\<lparr>ci_id = 5, ci_token = ''x'', ci_company_id = 3, ci_role_id = 4, ci_email = ''e'',
         ci_invited_by = 2, ci_expires_at = 200, ci_created_at = 0\<rparr>]\<rparr>"

lemma club_joined:
  "(2, 3, 4) \<in> members (w_db (snd (run (serve_company sample_ext m (Join 2 (Some ''x''))) (world_of club :: world))))"
  by (simp add: CompanyTZ_AcceptInvitation_def as_user_def required_def run_attempt coinv_GetByToken_def club_def empty_db_def
      first_where_Cons companies_GetByIDTZ_def approles_FindByID_def select_role_def ucr_Add_def upsert_ucr_def audit_Log_def
      insert_audit_def coinv_Delete_def exists_where_def company_user_exists_def company_row_exists_def role_exists_def
      no_company_def refers_def Let_def members_def ucr_key_def clock_def varchar_ok_def)


section \<open>Searching for owners\<close>

text \<open>The characters that \<open>escapeLike\<close> escapes, all at once.\<close>

definition like_special :: "char \<Rightarrow> bool" where
  "like_special c \<longleftrightarrow> c \<in> {CHR 0x5C, CHR ''%'', CHR ''_''}"

lemma escapeLike_simps [simp]:
  "escapeLike [] = []"
  "escapeLike (c # s) = (if like_special c then [CHR 0x5C, c] else [c]) @ escapeLike s"
  by (simp_all add: escapeLike_def escape_char_def like_special_def)

lemma sql_like_escaped: "sql_like (escapeLike q @ p) s \<longleftrightarrow> (\<exists>r. s = q @ r \<and> sql_like p r)"
proof (induction q arbitrary: s)
  case (Cons c q)
  show ?case
    by (cases s) (auto simp: Cons like_special_def)
qed simp

lemma sql_like_percent: "sql_like (CHR ''%'' # p) s \<longleftrightarrow> (\<exists>a b. s = a @ b \<and> sql_like p b)"
proof (induction s)
  case (Cons x s)
  then show ?case
    by (auto simp: Cons_eq_append_conv)
qed simp

lemma sql_like_contains: "sql_like (''%'' @ escapeLike q @ ''%'') s \<longleftrightarrow> sublist q s"
  by (auto simp: sql_like_percent sql_like_escaped sublist_def simp del: sql_like.simps(2))

lemma lower_special: "like_special (ascii_lower c) = like_special c" "like_special c \<Longrightarrow> ascii_lower c = c"
proof -
  have "like_special (ascii_lower c) = like_special c \<and> (like_special c \<longrightarrow> ascii_lower c = c)"
  proof (cases "map_of lower_table c")
    case None
    then show ?thesis by (simp add: ascii_lower_def)
  next
    case (Some l)
    then have "(c, l) \<in> set lower_table" by (rule map_of_SomeD)
    then have "\<not> like_special c \<and> \<not> like_special l"
      by (simp add: lower_table_def like_special_def) (elim disjE; simp)
    with Some show ?thesis by (simp add: ascii_lower_def)
  qed
  then show "like_special (ascii_lower c) = like_special c" "like_special c \<Longrightarrow> ascii_lower c = c" by auto
qed

lemma lower_escaped: "map ascii_lower (escapeLike q) = escapeLike (map ascii_lower q)"
proof (induction q)
  case (Cons c q)
  moreover have "ascii_lower (CHR 0x5C) = CHR 0x5C" by (rule lower_special(2)) (simp add: like_special_def)
  ultimately show ?case by (simp add: lower_special)
qed simp

lemma is_ascii_escaped: "is_ascii q \<Longrightarrow> is_ascii (escapeLike q)"
  by (induction q) (auto simp: is_ascii_def)

lemma sql_lower_pattern:
  assumes "is_ascii q"
  shows "sql_lower E (''%'' @ escapeLike q @ ''%'') = ''%'' @ escapeLike (sql_lower E q) @ ''%''"
proof -
  have "is_ascii (''%'' @ escapeLike q @ ''%'')" using is_ascii_escaped [OF assms] by (simp add: is_ascii_def)
  moreover have "ascii_lower (CHR ''%'') = CHR ''%''" by (rule lower_special(2)) (simp add: like_special_def)
  ultimately show ?thesis using assms by (simp add: sql_lower_def lower_escaped)
qed

lemma sql_or_True: "sql_or a b = Some True \<longleftrightarrow> a = Some True \<or> b = Some True"
  by (simp add: sql_or_def)



section \<open>Switching to a company\<close>

lemma tick_pow [simp]:
  "w_now ((tick ^^ k) w) = w_now w" "w_gen ((tick ^^ k) w) = w_gen w"
  "w_drawn ((tick ^^ k) w) = w_drawn w + k" "w_db ((tick ^^ k) w) = w_db w" "reliable w \<Longrightarrow> reliable ((tick ^^ k) w)"
  by (induction k) simp_all

lemma tick_pow_redis [simp]: "w_redis ((tick ^^ k) w) = w_redis w"
  by (induction k) simp_all

text \<open>A lookup on a reliable server uses up round trips and nothing else.\<close>

definition looks :: "('z, 'a) prog \<Rightarrow> bool" where
  "looks m \<longleftrightarrow> (\<forall>w. reliable w \<longrightarrow> (\<exists>a k. run m w = (a, (tick ^^ k) w)))"

lemma looksE:
  assumes "looks m" and "reliable w"
  obtains a k where "run m w = (a, (tick ^^ k) w)"
  using assms unfolding looks_def by blast

lemma looks_ret: "looks (ret a)"
  unfolding looks_def by (auto intro: exI [of _ 0])

lemma looks_row_read: "looks (pg_query_row (q_read f))"
  unfolding looks_def by (auto simp: run_pg_row_read intro: exI [of _ 1])

lemma looks_bind:
  assumes "looks m" and "\<And>a. looks (f a)"
  shows "looks (State_Monad.bind m f)"
  unfolding looks_def
proof (intro allI impI)
  fix w :: "'a world_scheme" assume w: "reliable w"
  from assms(1) w obtain a k where 1: "run m w = (a, (tick ^^ k) w)" by (rule looksE)
  have "reliable ((tick ^^ k) w)" using w by simp
  from assms(2) [of a] this obtain b n where "run (f a) ((tick ^^ k) w) = (b, (tick ^^ n) ((tick ^^ k) w))" by (rule looksE)
  with 1 have "run (State_Monad.bind m f) w = (b, (tick ^^ (n + k)) w)" by (simp add: funpow_add)
  then show "\<exists>b n. run (State_Monad.bind m f) w = (b, (tick ^^ n) w)" by blast
qed

lemma looks_lookups:
  "looks (ucr_GetRole u c)" "looks (approles_FindByID E r)" "looks (companies_GetByIDTZ E c)"
  unfolding ucr_GetRole_def approles_FindByID_def select_role_def companies_GetByIDTZ_def
  by (intro looks_bind looks_row_read looks_ret)+

lemma looks_getCompanyRole: "looks (getCompanyRole E u c)"
  unfolding getCompanyRole_def
  by (auto intro!: looks_bind looks_lookups looks_ret split: sum.split option.split)

text \<open>The guard refuses a token whose session is not open.\<close>

lemma guard_without_session:
  assumes "token_laws E m" and "IssueWithCompany E m t0 (uuid_string E j) role u c = Inr (toks, rc)" and "role \<noteq> []"
    and "reliable w" and "rd_live (w_now w) (w_redis w) (sessionKey (uuid_string E j)) = None"
  shows "fst (run (guard_role E m True need (AccessToken toks)) w) = Inl (ErrorLang 401 ''invalid_user_token'')"
proof -
  note laws = token_lawsD [OF assms(1)]
  have tok: "AccessToken toks \<noteq> []" "TrimSpace (AccessToken toks) = AccessToken toks"
    using laws(2) assms(2) by (auto simp: IssueWithCompany_def jwt_compact_def split: option.splits)
  have sid: "uuid_string E j \<noteq> []" using laws(4) by (simp add: uuid_nonempty_def)
  show ?thesis
  proof (cases "w_now w < numeric_date (t0 + accessTTL m)")
    case True
    from parse_issued_access [OF laws(1,3,4) assms(3,2) True] tok assms(4,5) show ?thesis
      by (simp add: guard_role_def session_checked_def sid RefreshStore_SessionValid_def cExists_def Let_def)
  next
    case False
    then have "ParseAccessWithSID E m (w_now w) (AccessToken toks) = Inl (Err ''token'')"
      using issued_tokens(1) [OF laws(1) assms(2), of "w_now w"] by (simp add: ParseAccessWithSID_def)
    with tok show ?thesis by (simp add: guard_role_def Let_def)
  qed
qed

text \<open>
  C24: the access token that \<open>SwitchCompany\<close> hands out is of no use where sessions are checked: the handler does not store
  its session, so the guard of the company users turns the bearer away at once.
\<close>

theorem switched_token_refused:
  assumes "token_laws E m" and "reliable (w :: rworld)"
    and "\<forall>n \<ge> w_drawn w. rd_live (w_now w) (w_redis w) (sessionKey (uuid_string E (w_gen w n))) = None"
    and "run (CompanyTZ_SwitchCompany E m u body) w = (a, w')" and "resp_code a = 200"
  shows "\<exists>tok rest. resp_data a = JObj ((''token'', JStr tok) # rest)
     \<and> fst (run (RequireAppUser E m True tok) w') = Inl (ErrorLang 401 ''invalid_user_token'')"
proof -
  from assms(4,5) obtain s c where sc: "u \<noteq> uuid_nil" "required body = Some s" "uuid_parse E s = Some c"
    by (auto simp: CompanyTZ_SwitchCompany_def as_user_def ErrorLang_def split: if_splits option.splits)
  from looks_getCompanyRole assms(2) obtain role k where 1: "run (getCompanyRole E u c) w = (role, (tick ^^ k) w)" by (rule looksE)
  have k: "reliable ((tick ^^ k) w)" using assms(2) by simp
  from looks_lookups(3) this obtain comp n where 2: "run (companies_GetByIDTZ E c) ((tick ^^ k) w) = (comp, (tick ^^ n) ((tick ^^ k) w))"
    by (rule looksE)
  let ?w = "(tick ^^ n) ((tick ^^ k) w)" and ?j = "w_gen w (w_drawn w + k + n)"
  let ?iss = "IssueWithCompany E m (w_now w) (uuid_string E ?j) ''user'' u c"
  note evals = CompanyTZ_SwitchCompany_def as_user_def run_attempt issue_only_def ErrorLang_def fresh_id_def
  from assms(4,5) sc 1 obtain R where R: "role = Some R" by (cases role) (auto simp: evals)
  from assms(4,5) sc 1 2 R obtain co where co: "comp = Inr co" by (cases comp) (auto simp: evals)
  from assms(4,5) sc 1 2 R co obtain toks rc where iss: "?iss = Inr (toks, rc)" by (cases ?iss) (auto simp: evals)
  from assms(4) sc 1 2 R co iss obtain rest where a: "a = OKLang ''ok'' (JObj ((''token'', JStr (AccessToken toks)) # rest))"
    and w': "w' = ?w\<lparr>w_drawn := Suc (w_drawn ?w)\<rparr>" by (auto simp: evals)
  from iss
  have "fst (run (guard_role E m True ''user'' (AccessToken toks)) w') = Inl (ErrorLang 401 ''invalid_user_token'')"
    by (rule guard_without_session [OF assms(1)]) (use assms(2,3) in \<open>simp_all add: w'\<close>)
  then show ?thesis by (simp add: a OKLang_def guards_one case_prod_unfold)
qed

text \<open>A user who owns a company.\<close>

definition shop :: rworld where
  "shop = sample_rworld\<lparr>w_db := (empty_db True)\<lparr>companies_t := [(no_company 3 0)\<lparr>co_owner_id := Some 7\<rparr>]\<rparr>\<rparr>"

lemma shop_simps [simp]:
  "reliable shop" "w_now shop = 100" "w_drawn shop = 5" "w_gen shop = of_nat" "w_redis shop = fmempty"
  "companies_t (w_db shop) = [(no_company 3 0)\<lparr>co_owner_id := Some 7\<rparr>]" "ucr_t (w_db shop) = []"
  by (simp_all add: shop_def) (simp_all add: sample_rworld_def empty_db_def)

lemma shop_switches:
  "resp_code (fst (run (CompanyTZ_SwitchCompany sample_ext (jwt_for ''user'' (uuid_string sample_ext 3)) 7
     (Some (uuid_string sample_ext 3))) shop)) = 200"
proof -
  have "uuid_string sample_ext 3 \<noteq> []" using sample_token_laws by (simp add: token_laws_def uuid_nonempty_def)
  with sample_ext_laws show ?thesis
    by (simp add: CompanyTZ_SwitchCompany_def as_user_def required_def run_attempt getCompanyRole_def ucr_GetRole_def
        companies_GetByIDTZ_def first_where_Cons no_company_def company_tz_def issue_only_def jwt_for_issue OKLang_def)
qed

theorem switched_token_refused_witness:
  "\<exists>tok w'. fst (run (RequireAppUser sample_ext (jwt_for ''user'' (uuid_string sample_ext 3)) True tok) (w' :: rworld))
     = Inl (ErrorLang 401 ''invalid_user_token'')"
proof -
  obtain a w' where run: "run (CompanyTZ_SwitchCompany sample_ext (jwt_for ''user'' (uuid_string sample_ext 3)) 7
     (Some (uuid_string sample_ext 3))) shop = (a, w')" by force
  with shop_switches have "resp_code a = 200" by simp
  from switched_token_refused [OF jwt_for_laws _ _ run this] show ?thesis
    by (auto simp: rd_live_def)
qed

end
