(* ===== verification/Profiles.thy ===== *)
theory Profiles
  imports Companies
begin

text \<open>
  Profiles: \<open>profile.go\<close> and \<open>kyc.go\<close> for drivers, \<open>dispatcher_auth.go\<close>, \<open>dispatcher_registration.go\<close> and
  \<open>dispatcher_profile.go\<close> for dispatchers, with the middleware \<open>dispatcher_online.go\<close>. The first identifier after
  the external functions is the identity the guard let in; a body is \<open>None\<close> when it cannot be read as JSON.
\<close>

section \<open>Photos\<close>

text \<open>The file of the form: its size, the header \<open>Content-Type\<close>, and its bytes unless it cannot be opened or read.\<close>

record photo_file =
  pf_Size :: int
  pf_ContentType :: string
  pf_Data :: "string option"

definition maxDriverPhotoSize :: int where "maxDriverPhotoSize = 5 * 1024 * 1024"

definition allowedDriverPhotoTypes :: "string \<Rightarrow> bool" where
  "allowedDriverPhotoTypes t \<longleftrightarrow> t \<in> {''image/jpeg'', ''image/png''}"

text \<open>\<open>c.Data\<close>: an answer that is not JSON; its type stands in for the message, its bytes for the data.\<close>

definition binary :: "string \<Rightarrow> string \<Rightarrow> response" where
  "binary contentType data = Response True 200 contentType (JStr data)"

definition upload_photo ::
    "(string \<Rightarrow> string \<Rightarrow> ('z, err + unit) prog) \<Rightarrow> photo_file option \<Rightarrow> ('z, response) prog" where
  "upload_photo update form =
     (case form of
        None \<Rightarrow> ret (ErrorLang 400 ''photo_file_required'')
      | Some file \<Rightarrow>
          if pf_Size file > maxDriverPhotoSize then ret (ErrorLang 400 ''file_too_large'') else
          let contentType = (if pf_ContentType file = [] then ''image/jpeg'' else pf_ContentType file) in
          if \<not> allowedDriverPhotoTypes contentType then ret (ErrorLang 400 ''allowed_image_types'') else
          (case pf_Data file of
             None \<Rightarrow> ret (ErrorLang 400 ''cannot_read_file'')
           | Some data \<Rightarrow> attempt (update data contentType) (\<lambda>_. ret (ErrorLang 500 ''internal_error''))
               (\<lambda>_. ret (OKLang ''photo_uploaded'' (JObj [(''status'', JStr ''ok''), (''event'', JStr ''photo_uploaded'')])))))"

section \<open>The profile of a driver\<close>

record ProfileHandler =
  pr_phoneChange :: PhoneChangeStore
  pr_tg :: GatewayClient
  pr_otpTTL :: duration
  pr_otpLen :: int

text \<open>\<open>d, _ := FindByID\<close> and the answer that shows the driver.\<close>

definition event_driver :: "ext \<Rightarrow> uuid \<Rightarrow> string \<Rightarrow> ('z, response) prog" where
  "event_driver E driverID event = do {
     d \<leftarrow> drivers_FindByID E driverID;
     ret (OKLang event (JObj [(''event'', JStr event), (''driver'', found_json d)]))
   }"

definition Profile_Get :: "ext \<Rightarrow> uuid \<Rightarrow> ('z, response) prog" where
  "Profile_Get E driverID = do {
     _ \<leftarrow> drivers_TouchOnline driverID;
     attempt (drivers_FindByID E driverID) (\<lambda>_. ret (ErrorLang 401 ''driver_not_found''))
       (\<lambda>d. ret (OKLang ''ok'' (JObj [(''driver'', json_opt driver_json d)])))
   }"

text \<open>The checks of one field after another: a message, or the field trimmed.\<close>

definition check_field :: "string \<Rightarrow> string option \<Rightarrow> (string \<Rightarrow> bool) \<Rightarrow> string + string option" where
  "check_field key p ok =
     (case p of
        None \<Rightarrow> Inr None
      | Some s \<Rightarrow> let v = TrimSpace s in if ok v then Inr (Some v) else Inl key)"

definition check_status :: "ext \<Rightarrow> string option \<Rightarrow> string + string option" where
  "check_status E p =
     (case p of
        None \<Rightarrow> Inr None
      | Some s \<Rightarrow> let v = ToLower E (TrimSpace s)
                  in if v \<in> {''available'', ''loaded'', ''busy''} then Inr (Some v) else Inl ''invalid_work_status'')"

definition checked_driver :: "ext \<Rightarrow> DriverEditable \<Rightarrow> string + DriverEditable" where
  "checked_driver E req =
     (case check_field ''name_too_short'' (ed_Name req) (\<lambda>v. length v \<ge> 2) of Inl k \<Rightarrow> Inl k | Inr name \<Rightarrow>
     (case check_status E (ed_WorkStatus req) of Inl k \<Rightarrow> Inl k | Inr status \<Rightarrow>
     (case check_field ''driver_passport_series_required'' (ed_DriverPassportSeries req) (\<lambda>v. v \<noteq> []) of Inl k \<Rightarrow> Inl k | Inr series \<Rightarrow>
     (case check_field ''driver_passport_number_required'' (ed_DriverPassportNumber req) (\<lambda>v. v \<noteq> []) of Inl k \<Rightarrow> Inl k | Inr number \<Rightarrow>
     (case check_field ''driver_pinfl_required'' (ed_DriverPINFL req) (\<lambda>v. v \<noteq> []) of Inl k \<Rightarrow> Inl k | Inr pinfl \<Rightarrow>
        Inr \<lparr>ed_Name = name, ed_WorkStatus = status, ed_DriverPassportSeries = series, ed_DriverPassportNumber = number,
             ed_DriverPINFL = pinfl\<rparr>)))))"

definition Profile_PatchDriver :: "ext \<Rightarrow> uuid \<Rightarrow> DriverEditable option \<Rightarrow> ('z, response) prog" where
  "Profile_PatchDriver E driverID body =
     (case body of
        None \<Rightarrow> ret (ErrorLang 400 ''invalid_payload'')
      | Some req \<Rightarrow>
          (case checked_driver E req of
             Inl key \<Rightarrow> ret (ErrorLang 400 key)
           | Inr e \<Rightarrow> attempt (drivers_UpdateDriverEditable driverID e) (\<lambda>_. ret (ErrorLang 500 ''internal_error''))
               (\<lambda>_. event_driver E driverID ''updated'')))"

text \<open>The body is a pair of latitude and longitude; \<open>binding:"required"\<close> refuses a zero.\<close>

definition Profile_Heartbeat :: "ext \<Rightarrow> uuid \<Rightarrow> (float64 \<times> float64) option \<Rightarrow> ('z, response) prog" where
  "Profile_Heartbeat E driverID body =
     (case body of
        None \<Rightarrow> ret (ErrorLang 400 ''invalid_payload'')
      | Some (lat, lng) \<Rightarrow>
          if lat = 0 \<or> lng = 0 then ret (ErrorLang 400 ''invalid_payload'') else do {
            now \<leftarrow> clock;
            attempt (drivers_UpdateHeartbeat driverID lat lng now) (\<lambda>_. ret (ErrorLang 500 ''internal_error''))
              (\<lambda>_. event_driver E driverID ''heartbeat'')
          })"

text \<open>What the requests for a change of phone and of a password share: a code is sent and a session made for it.\<close>

definition code_session ::
    "ext \<Rightarrow> GatewayClient \<Rightarrow> duration \<Rightarrow> int \<Rightarrow> string \<Rightarrow> string \<Rightarrow>
     (string \<Rightarrow> ('z, err + string) gprog) \<Rightarrow> ('z, response) gprog" where
  "code_session E tg otpTTL otpLen phone key create =
     (let ttlSec = ttl_seconds otpTTL in
      attempt (SendOTP E tg phone ttlSec otpLen) (\<lambda>e. ret (WriteOTPSendError e))
        (\<lambda>(code, _). attempt (create code) (\<lambda>_. ret (ErrorLang 500 ''internal_error''))
           (\<lambda>sessionID. ret (OKLang ''otp_sent'' (JObj
              [(key, JStr ''otp_sent''), (''session_id'', JStr sessionID), (''ttl_seconds'', JInt ttlSec)])))))"

definition Profile_PhoneChangeRequest ::
    "ext \<Rightarrow> ProfileHandler \<Rightarrow> uuid \<Rightarrow> string option \<Rightarrow> ('z, response) gprog" where
  "Profile_PhoneChangeRequest E h driverID body =
     (case required body of
        None \<Rightarrow> ret (ErrorLang 400 ''invalid_payload'')
      | Some reqPhone \<Rightarrow>
          (case ValidateUzPhoneStrict reqPhone of
             Inl _ \<Rightarrow> ret (ErrorLang 400 ''invalid_payload_detail'')
           | Inr newPhone \<Rightarrow> do {
               found \<leftarrow> drivers_FindByPhone E newPhone;
               (case found of
                  Inr _ \<Rightarrow> ret (ErrorLang 409 ''phone_already_registered'')
                | Inl _ \<Rightarrow> code_session E (pr_tg h) (pr_otpTTL h) (pr_otpLen h) newPhone ''event''
                    (PhoneChangeStore_Create E (pr_phoneChange h) driverID newPhone))
             }))"

record codeReq =
  cq_SessionID :: string
  cq_OTP :: string

definition bind_code :: "codeReq option \<Rightarrow> codeReq option" where
  "bind_code body = (case body of None \<Rightarrow> None
     | Some req \<Rightarrow> if cq_SessionID req \<noteq> [] \<and> cq_OTP req \<noteq> [] then Some req else None)"

definition phone_change_error :: "err \<Rightarrow> response" where
  "phone_change_error e =
     (if e = ErrPhoneChangeOTPExpired then ErrorLang 401 ''session_expired_or_invalid''
      else if e = ErrPhoneChangeOTPInvalid then ErrorLang 401 ''otp_invalid''
      else if e = ErrPhoneChangeMaxAttempts then ErrorLang 429 ''otp_max_attempts_exceeded''
      else ErrorLang 500 ''internal_error'')"

text \<open>The handler does not look at the identity of the caller: the session says whose phone changes.\<close>

definition Profile_PhoneChangeVerify ::
    "ext \<Rightarrow> ProfileHandler \<Rightarrow> codeReq option \<Rightarrow> ('z, response) rprog" where
  "Profile_PhoneChangeVerify E h body =
     (case bind_code body of
        None \<Rightarrow> ret (ErrorLang 400 ''invalid_payload'')
      | Some req \<Rightarrow>
          let sessionID = TrimSpace (cq_SessionID req); otp = TrimSpace (cq_OTP req) in
          if otp = [] then ret (ErrorLang 400 ''otp_required'') else
          attempt (PhoneChangeStore_Verify E (pr_phoneChange h) sessionID otp) (\<lambda>e. ret (phone_change_error e))
            (\<lambda>rec. attempt (drivers_UpdatePhone (pcr_DriverID rec) (pcr_NewPhone rec))
               (\<lambda>e. ret (if e = ErrPhoneAlreadyRegistered then ErrorLang 409 ''phone_already_registered''
                        else ErrorLang 500 ''internal_error''))
               (\<lambda>_. event_driver E (pcr_DriverID rec) ''phone_updated'')))"

text \<open>The body is the row of arguments of the update; the type of the plates cannot be set.\<close>

definition Profile_PatchPower :: "ext \<Rightarrow> uuid \<Rightarrow> power_row option \<Rightarrow> ('z, response) prog" where
  "Profile_PatchPower E driverID body =
     (case body of
        None \<Rightarrow> ret (ErrorLang 400 ''invalid_payload'')
      | Some req \<Rightarrow> attempt (drivers_UpdatePowerProfile driverID ((trim_power req)\<lparr>pw_plate_type := None\<rparr>))
          (\<lambda>_. ret (ErrorLang 500 ''internal_error'')) (\<lambda>_. event_driver E driverID ''updated''))"

definition Profile_PatchTrailer :: "ext \<Rightarrow> uuid \<Rightarrow> trailer_row option \<Rightarrow> ('z, response) prog" where
  "Profile_PatchTrailer E driverID body =
     (case body of
        None \<Rightarrow> ret (ErrorLang 400 ''invalid_payload'')
      | Some req \<Rightarrow> attempt (drivers_UpdateTrailerProfile driverID ((trim_trailer req)\<lparr>tr_plate_type := None\<rparr>))
          (\<lambda>_. ret (ErrorLang 500 ''internal_error'')) (\<lambda>_. event_driver E driverID ''updated''))"

definition status_ok :: response where "status_ok = OKLang ''ok'' (JObj [(''status'', JStr ''ok'')])"

definition Profile_Delete :: "uuid \<Rightarrow> ('z, response) prog" where
  "Profile_Delete driverID = attempt (drivers_DeleteAndArchive driverID)
     (\<lambda>e. ret (if e = ErrDeleteNotFound then ErrorLang 404 ''driver_not_found'' else ErrorLang 500 ''internal_error''))
     (\<lambda>_. ret status_ok)"

definition Profile_UploadPhoto :: "uuid \<Rightarrow> photo_file option \<Rightarrow> ('z, response) prog" where
  "Profile_UploadPhoto driverID form = upload_photo (drivers_UpdatePhoto driverID) form"

definition Profile_GetPhoto :: "uuid \<Rightarrow> ('z, response) prog" where
  "Profile_GetPhoto driverID = attempt (drivers_GetPhoto driverID)
     (\<lambda>e. ret (if e = DriverErrNotFound then ErrorLang 404 ''photo_not_found'' else ErrorLang 500 ''internal_error''))
     (\<lambda>(data, contentType). ret (binary contentType data))"

definition Profile_DeletePhoto :: "uuid \<Rightarrow> ('z, response) prog" where
  "Profile_DeletePhoto driverID = attempt (drivers_DeletePhoto driverID) (\<lambda>_. ret (ErrorLang 500 ''internal_error''))
     (\<lambda>_. ret (OKLang ''photo_deleted'' (JObj [(''status'', JStr ''ok''), (''event'', JStr ''photo_deleted'')])))"

section \<open>Papers of a driver\<close>

record driverData =
  kd_PassportSeries :: string
  kd_PassportNumber :: string
  kd_PINFL :: string
  kd_ScanStatus :: "bool option"

text \<open>\<open>powerData\<close> and \<open>trailerData\<close> have the same fields.\<close>

record vehicleData =
  kv_PlateNumber :: string
  kv_TechSeries :: string
  kv_TechNumber :: string
  kv_OwnerID :: string
  kv_OwnerName :: string
  kv_ScanStatus :: "bool option"

record kycReq =
  kq_Driver :: driverData
  kq_Power :: vehicleData
  kq_Trailer :: vehicleData
  kq_DriverOwner :: "bool option"

definition driver_given :: "driverData \<Rightarrow> bool" where
  "driver_given d \<longleftrightarrow> kd_PassportSeries d \<noteq> [] \<and> kd_PassportNumber d \<noteq> [] \<and> kd_PINFL d \<noteq> []"

definition vehicle_given :: "vehicleData \<Rightarrow> bool" where
  "vehicle_given v \<longleftrightarrow> kv_PlateNumber v \<noteq> [] \<and> kv_TechSeries v \<noteq> [] \<and> kv_TechNumber v \<noteq> [] \<and> kv_OwnerID v \<noteq> []
     \<and> kv_OwnerName v \<noteq> []"

definition bind_kyc :: "kycReq option \<Rightarrow> kycReq option" where
  "bind_kyc body =
     (case body of
        None \<Rightarrow> None
      | Some req \<Rightarrow>
          if driver_given (kq_Driver req) \<and> kd_ScanStatus (kq_Driver req) \<noteq> None
             \<and> vehicle_given (kq_Power req) \<and> kv_ScanStatus (kq_Power req) \<noteq> None
             \<and> vehicle_given (kq_Trailer req) \<and> kv_ScanStatus (kq_Trailer req) \<noteq> None
             \<and> kq_DriverOwner req \<noteq> None
          then Some req else None)"

definition trim_driver_data :: "driverData \<Rightarrow> driverData" where
  "trim_driver_data d = d\<lparr>kd_PassportSeries := TrimSpace (kd_PassportSeries d),
     kd_PassportNumber := TrimSpace (kd_PassportNumber d), kd_PINFL := TrimSpace (kd_PINFL d)\<rparr>"

definition trim_vehicle :: "vehicleData \<Rightarrow> vehicleData" where
  "trim_vehicle v = v\<lparr>kv_PlateNumber := TrimSpace (kv_PlateNumber v), kv_TechSeries := TrimSpace (kv_TechSeries v),
     kv_TechNumber := TrimSpace (kv_TechNumber v), kv_OwnerID := TrimSpace (kv_OwnerID v),
     kv_OwnerName := TrimSpace (kv_OwnerName v)\<rparr>"

definition kyc_full :: "kycReq \<Rightarrow> bool" where
  "kyc_full req \<longleftrightarrow>
     driver_given (kq_Driver req) \<and> kd_ScanStatus (kq_Driver req) = Some True
   \<and> vehicle_given (kq_Power req) \<and> kv_ScanStatus (kq_Power req) = Some True
   \<and> vehicle_given (kq_Trailer req) \<and> kv_ScanStatus (kq_Trailer req) = Some True
   \<and> kq_DriverOwner req \<noteq> None"

definition kyc_update :: "kycReq \<Rightarrow> string \<Rightarrow> string \<Rightarrow> KYCUpdate" where
  "kyc_update req kycStatus regStatus =
     (let d = kq_Driver req; p = kq_Power req; t = kq_Trailer req in
      \<lparr>k_DriverPassportSeries = kd_PassportSeries d, k_DriverPassportNumber = kd_PassportNumber d,
       k_DriverPINFL = kd_PINFL d, k_DriverScanStatus = kd_ScanStatus d,
       k_PowerPlateNumber = kv_PlateNumber p, k_PowerTechSeries = kv_TechSeries p, k_PowerTechNumber = kv_TechNumber p,
       k_PowerOwnerID = kv_OwnerID p, k_PowerOwnerName = kv_OwnerName p, k_PowerScanStatus = kv_ScanStatus p,
       k_TrailerPlateNumber = kv_PlateNumber t, k_TrailerTechSeries = kv_TechSeries t, k_TrailerTechNumber = kv_TechNumber t,
       k_TrailerOwnerID = kv_OwnerID t, k_TrailerOwnerName = kv_OwnerName t, k_TrailerScanStatus = kv_ScanStatus t,
       k_DriverOwner = kq_DriverOwner req, k_KYCStatus = kycStatus, k_RegistrationStatus = regStatus,
       k_RegistrationStep = StepCompleted\<rparr>)"

definition KYC_Submit :: "ext \<Rightarrow> uuid \<Rightarrow> kycReq option \<Rightarrow> ('z, response) prog" where
  "KYC_Submit E driverID body =
     (case bind_kyc body of
        None \<Rightarrow> ret (ErrorLang 400 ''invalid_payload'')
      | Some req0 \<Rightarrow>
          let req = req0\<lparr>kq_Driver := trim_driver_data (kq_Driver req0), kq_Power := trim_vehicle (kq_Power req0),
                kq_Trailer := trim_vehicle (kq_Trailer req0)\<rparr>;
              isFull = kyc_full req in
          attempt (drivers_FindByID E driverID) (\<lambda>_. ret (ErrorLang 401 ''driver_not_found'')) (\<lambda>found.
            (case found of
               None \<Rightarrow> ret panicked
             | Some current \<Rightarrow>
                 let regStatus = (if isFull then StatusFull
                       else (case dr_RegistrationStatus current of
                               Some s \<Rightarrow> if s \<noteq> [] then s else StatusBasic | None \<Rightarrow> StatusBasic));
                     kycStatus = (if isFull then ''approved'' else ''pending'') in
                 attempt (drivers_UpdateKYC driverID (kyc_update req kycStatus regStatus))
                   (\<lambda>_. ret (ErrorLang 500 ''internal_error'')) (\<lambda>_.
                 attempt (drivers_ApplyFullDefaults driverID) (\<lambda>_. ret (ErrorLang 500 ''internal_error'')) (\<lambda>_. do {
                   updated \<leftarrow> drivers_FindByID E driverID;
                   ret (OKLang ''ok'' (JObj [(''event'', JStr ''updated''), (''is_full'', JBool isFull),
                     (''driver'', found_json updated)]))
                 })))))"

section \<open>Sign-in of dispatchers\<close>

definition dispOTPNamespace :: string where "dispOTPNamespace = ''disp:''"

record DispatcherAuthHandler =
  dh_otp :: OTPStore
  dh_regSessions :: DispatcherSessionStore
  dh_resetActions :: DispatcherOTPActionStore
  dh_jwtm :: JWTManager
  dh_refresh :: RefreshStore
  dh_tg :: GatewayClient
  dh_otpTTL :: duration
  dh_otpLen :: int

definition DispatcherAuth_SendOTP ::
    "ext \<Rightarrow> DispatcherAuthHandler \<Rightarrow> string \<Rightarrow> string option \<Rightarrow> ('z, response) gprog" where
  "DispatcherAuth_SendOTP E h ip body =
     (case required body of
        None \<Rightarrow> ret (ErrorLang 400 ''invalid_payload'')
      | Some reqPhone \<Rightarrow>
          (case NormalizeE164StrictPlus E reqPhone of
             Inl _ \<Rightarrow> ret (ErrorLang 400 ''invalid_payload_detail'')
           | Inr phone \<Rightarrow> send_code E (dh_tg h) (dh_otp h) dispOTPNamespace (dh_otpTTL h) (dh_otpLen h) ip phone))"

text \<open>Tokens for a dispatcher, and an answer that shows them.\<close>

definition sign_in_dispatcher ::
    "ext \<Rightarrow> JWTManager \<Rightarrow> RefreshStore \<Rightarrow> uuid \<Rightarrow> (Tokens \<Rightarrow> ('z, response) rprog) \<Rightarrow> ('z, response) rprog" where
  "sign_in_dispatcher E m rs u k =
     attempt (open_session E m rs ''dispatcher'' u) (\<lambda>_. ret (ErrorLang 500 ''token_issue_failed'')) k"

definition logged_in :: "Tokens \<Rightarrow> ('z, response) rprog" where
  "logged_in tokens = ret (OKLang ''login'' (JObj [(''status'', JStr ''login''), (''tokens'', tokens_json tokens)]))"

definition DispatcherAuth_VerifyOTP ::
    "ext \<Rightarrow> DispatcherAuthHandler \<Rightarrow> verifyOTPReq option \<Rightarrow> ('z, response) rprog" where
  "DispatcherAuth_VerifyOTP E h body =
     (case body of
        None \<Rightarrow> ret (ErrorLang 400 ''invalid_payload'')
      | Some req \<Rightarrow>
          if vo_Phone req = [] \<or> vo_OTP req = [] then ret (ErrorLang 400 ''invalid_payload'') else
          (case NormalizeE164StrictPlus E (vo_Phone req) of
             Inl _ \<Rightarrow> ret (ErrorLang 400 ''invalid_payload_detail'')
           | Inr phone \<Rightarrow>
               let otp = TrimSpace (vo_OTP req) in
               if length otp < 4 \<or> length otp > 8 \<or> \<not> IsNumeric E otp then ret (ErrorLang 400 ''otp_must_be_numeric'') else
               attempt (OTPStore_Verify E (dh_otp h) (dispOTPNamespace @ phone) otp) (\<lambda>e. ret (code_error e)) (\<lambda>_. do {
                 found \<leftarrow> dispatchers_FindByPhone E phone;
                 (case found of
                    Inr d \<Rightarrow> sign_in_dispatcher E (dh_jwtm h) (dh_refresh h) (parsed_uuid E (dp_ID d)) logged_in
                  | Inl e \<Rightarrow>
                      if e \<noteq> DispErrNotFound then ret (ErrorLang 500 ''verification_failed'') else
                      attempt (DispatcherSessionStore_Create E (dh_regSessions h) phone)
                        (\<lambda>_. ret (ErrorLang 500 ''internal_error''))
                        (\<lambda>sessionID. ret (OKLang ''register'' (JObj [(''status'', JStr ''register''),
                           (''session_id'', JStr sessionID)]))))
               })))"

record passwordReq =
  pq_Phone :: string
  pq_Password :: string

definition DispatcherAuth_LoginPassword ::
    "ext \<Rightarrow> DispatcherAuthHandler \<Rightarrow> passwordReq option \<Rightarrow> ('z, response) rprog" where
  "DispatcherAuth_LoginPassword E h body =
     (case body of
        None \<Rightarrow> ret (ErrorLang 400 ''invalid_payload'')
      | Some req \<Rightarrow>
          if pq_Phone req = [] \<or> pq_Password req = [] then ret (ErrorLang 400 ''invalid_payload'') else
          (case NormalizeE164 E (pq_Phone req) of
             Inl _ \<Rightarrow> ret (ErrorLang 400 ''invalid_payload_detail'')
           | Inr phone \<Rightarrow>
               attempt (dispatchers_FindByPhone E phone) (\<lambda>_. ret (ErrorLang 401 ''invalid_phone_or_password'')) (\<lambda>d.
               if \<not> ComparePassword E (dp_Password d) (pq_Password req) then ret (ErrorLang 401 ''invalid_phone_or_password'')
               else sign_in_dispatcher E (dh_jwtm h) (dh_refresh h) (parsed_uuid E (dp_ID d)) logged_in)))"

definition DispatcherAuth_ResetPasswordRequest ::
    "ext \<Rightarrow> DispatcherAuthHandler \<Rightarrow> string option \<Rightarrow> ('z, response) gprog" where
  "DispatcherAuth_ResetPasswordRequest E h body =
     (case required body of
        None \<Rightarrow> ret (ErrorLang 400 ''invalid_payload'')
      | Some reqPhone \<Rightarrow>
          (case NormalizeE164StrictPlus E reqPhone of
             Inl _ \<Rightarrow> ret (ErrorLang 400 ''invalid_payload_detail'')
           | Inr phone \<Rightarrow>
               attempt (dispatchers_FindByPhone E phone) (\<lambda>_. ret (ErrorLang 404 ''dispatcher_not_found''))
                 (\<lambda>d. code_session E (dh_tg h) (dh_otpTTL h) (dh_otpLen h) phone ''status''
                    (DispatcherOTPActionStore_Create E (dh_resetActions h) (parsed_uuid E (dp_ID d)) phone []))))"

definition action_error :: "err \<Rightarrow> response" where
  "action_error e =
     (if e = ErrDispActionExpired then ErrorLang 401 ''session_expired_or_invalid''
      else if e = ErrDispActionInvalidOTP then ErrorLang 401 ''otp_invalid''
      else if e = ErrDispActionMaxAttempts then ErrorLang 429 ''otp_max_attempts_exceeded''
      else ErrorLang 500 ''internal_error'')"

text \<open>A new password is hashed and stored.\<close>

definition store_password :: "ext \<Rightarrow> uuid \<Rightarrow> string \<Rightarrow> ('z, response) prog" where
  "store_password E u newPassword =
     attempt (HashPassword E newPassword) (\<lambda>_. ret (ErrorLang 500 ''password_hash_failed'')) (\<lambda>hash.
     attempt (dispatchers_UpdatePasswordHash u hash) (\<lambda>_. ret (ErrorLang 500 ''internal_error''))
       (\<lambda>_. ret status_ok))"

record resetReq =
  rq_SessionID :: string
  rq_OTP :: string
  rq_NewPassword :: string

definition DispatcherAuth_ResetPasswordConfirm ::
    "ext \<Rightarrow> DispatcherAuthHandler \<Rightarrow> resetReq option \<Rightarrow> ('z, response) rprog" where
  "DispatcherAuth_ResetPasswordConfirm E h body =
     (case body of
        None \<Rightarrow> ret (ErrorLang 400 ''invalid_payload'')
      | Some req \<Rightarrow>
          if rq_SessionID req = [] \<or> rq_OTP req = [] \<or> rq_NewPassword req = [] then ret (ErrorLang 400 ''invalid_payload'') else
          (case ValidatePassword E (rq_NewPassword req) of
             Inl _ \<Rightarrow> ret (ErrorLang 400 ''invalid_payload_detail'')
           | Inr _ \<Rightarrow>
               attempt (DispatcherOTPActionStore_Verify E (dh_resetActions h) (TrimSpace (rq_SessionID req)) (TrimSpace (rq_OTP req)))
                 (\<lambda>e. ret (action_error e))
                 (\<lambda>payload. store_password E (dap_DispatcherID payload) (rq_NewPassword req))))"

definition DispatcherAuth_Logout :: "ext \<Rightarrow> DispatcherAuthHandler \<Rightarrow> logoutReq option \<Rightarrow> ('z, response) rprog" where
  "DispatcherAuth_Logout E h body =
     (case body of
        None \<Rightarrow> ret (ErrorLang 400 ''invalid_payload'')
      | Some req \<Rightarrow>
          let refreshToken = TrimSpace (lo_RefreshToken req); accessToken = TrimSpace (lo_AccessToken req) in
          if refreshToken = [] \<and> accessToken = [] then ret (ErrorLang 400 ''refresh_token_or_access_token_required'')
          else if refreshToken \<noteq> [] then do {
            now \<leftarrow> clock;
            (case ParseRefresh (dh_jwtm h) now refreshToken of
               Inl _ \<Rightarrow> ret (ErrorLang 401 ''invalid_or_expired_refresh_token'')
             | Inr claims \<Rightarrow>
                 if rc_Role claims \<noteq> ''dispatcher'' then ret (ErrorLang 401 ''invalid_refresh_token_for_dispatcher'') else
                 attempt (RefreshStore_Consume (rc_UserID claims) (rc_JTI claims))
                   (\<lambda>_. ret (ErrorLang 401 ''refresh_token_already_used'')) (\<lambda>_. ret status_ok))
          } else do {
            now \<leftarrow> clock;
            (case ParseAccess E (dh_jwtm h) now accessToken of
               Inl _ \<Rightarrow> ret (ErrorLang 401 ''invalid_or_expired_access_token'')
             | Inr (userID, role) \<Rightarrow>
                 if role \<noteq> ''dispatcher'' then ret (ErrorLang 401 ''access_token_not_for_dispatcher'') else do {
                   _ \<leftarrow> RefreshStore_RevokeAll (uuid_string E userID);
                   ret status_ok
                 })
          })"

section \<open>Registration of dispatchers\<close>

text \<open>The JSON of a dispatcher; the stored hash of the password is one of its fields.\<close>

definition dispatcher_json :: "Dispatcher \<Rightarrow> json" where
  "dispatcher_json d = JObj
     ([(''id'', JStr (dp_ID d)), (''name'', json_opt JStr (dp_Name d)), (''phone'', JStr (dp_Phone d)),
       (''password'', JStr (dp_Password d)), (''passport_series'', json_opt JStr (dp_PassportSeries d)),
       (''passport_number'', json_opt JStr (dp_PassportNumber d)), (''pinfl'', json_opt JStr (dp_PINFL d)),
       (''cargo_id'', json_opt JStr (dp_CargoID d)), (''driver_id'', json_opt JStr (dp_DriverID d)),
       (''rating'', json_opt JNum (dp_Rating d)), (''work_status'', json_opt JStr (dp_WorkStatus d)),
       (''status'', json_opt JStr (dp_Status d))]
      @ (case dp_Photo d of None \<Rightarrow> [] | Some p \<Rightarrow> [(''photo'', JStr p)])
      @ [(''has_photo'', JBool (dp_HasPhoto d)), (''created_at'', JTime (dp_CreatedAt d)),
         (''updated_at'', JTime (dp_UpdatedAt d)), (''last_online_at'', json_opt JTime (dp_LastOnlineAt d)),
         (''deleted_at'', json_opt JTime (dp_DeletedAt d))])"

record DispatcherRegistrationHandler =
  dg_sessions :: DispatcherSessionStore
  dg_jwtm :: JWTManager
  dg_refresh :: RefreshStore

record dispCompleteReq =
  dq_SessionID :: string
  dq_Name :: string
  dq_Password :: string
  dq_PassportSeries :: string
  dq_PassportNumber :: string
  dq_PINFL :: string

definition DispatcherRegistration_Complete ::
    "ext \<Rightarrow> DispatcherRegistrationHandler \<Rightarrow> dispCompleteReq option \<Rightarrow> ('z, response) rprog" where
  "DispatcherRegistration_Complete E h body =
     (case body of
        None \<Rightarrow> ret (ErrorLang 400 ''invalid_payload'')
      | Some req \<Rightarrow>
          if dq_SessionID req = [] \<or> dq_Name req = [] \<or> dq_Password req = [] \<or> dq_PassportSeries req = []
             \<or> dq_PassportNumber req = [] \<or> dq_PINFL req = [] then ret (ErrorLang 400 ''invalid_payload'') else
          (case ValidatePassword E (dq_Password req) of
             Inl _ \<Rightarrow> ret (ErrorLang 400 ''invalid_payload_detail'')
           | Inr _ \<Rightarrow>
               attempt (DispatcherSessionStore_Consume (dg_sessions h) (TrimSpace (dq_SessionID req)))
                 (\<lambda>e. ret (if e = ErrDispatcherSessionNotFound then ErrorLang 401 ''session_expired_or_invalid''
                          else ErrorLang 500 ''internal_error''))
                 (\<lambda>phone. do {
                    existing \<leftarrow> dispatchers_FindByPhone E phone;
                    (case existing of
                       Inr d \<Rightarrow> sign_in_dispatcher E (dg_jwtm h) (dg_refresh h) (parsed_uuid E (dp_ID d))
                         (\<lambda>tokens. ret (OKLang ''login'' (JObj [(''status'', JStr ''login''), (''tokens'', tokens_json tokens),
                            (''dispatcher'', dispatcher_json d)])))
                     | Inl e \<Rightarrow>
                         if e \<noteq> DispErrNotFound then ret (ErrorLang 500 ''internal_error'') else
                         attempt (HashPassword E (dq_Password req)) (\<lambda>_. ret (ErrorLang 500 ''password_hash_failed'')) (\<lambda>pwHash.
                         let name = TrimSpace (dq_Name req); ps = TrimSpace (dq_PassportSeries req);
                             pn = TrimSpace (dq_PassportNumber req); pinfl = TrimSpace (dq_PINFL req) in
                         if length name < 2 then ret (ErrorLang 400 ''name_too_short'')
                         else if ps = [] \<or> pn = [] \<or> pinfl = [] then ret (ErrorLang 400 ''passport_pinfl_required'') else
                         attempt (dispatchers_Create \<lparr>dc_Phone = phone, dc_Name = name, dc_PasswordHash = pwHash,
                              dc_PassportSeries = ps, dc_PassportNumber = pn, dc_PINFL = pinfl\<rparr>)
                           (\<lambda>e. ret (if e = DispErrPhoneAlreadyRegistered then ErrorLang 409 ''phone_already_registered''
                                    else ErrorLang 500 ''internal_error''))
                           (\<lambda>u. sign_in_dispatcher E (dg_jwtm h) (dg_refresh h) u (\<lambda>tokens. do {
                              disp \<leftarrow> dispatchers_FindByID E u;
                              ret (OKLang ''ok'' (JObj [(''status'', JStr ''registered''), (''tokens'', tokens_json tokens),
                                (''dispatcher'', json_opt dispatcher_json (found1 disp))]))
                            }))))
                  })))"

section \<open>The profile of a dispatcher\<close>

record DispatcherProfileHandler =
  dr_phoneChange :: DispatcherOTPActionStore
  dr_tg :: GatewayClient
  dr_otpTTL :: duration
  dr_otpLen :: int

definition ok_dispatcher :: "ext \<Rightarrow> uuid \<Rightarrow> ('z, response) prog" where
  "ok_dispatcher E u = do {
     d \<leftarrow> dispatchers_FindByID E u;
     ret (OKLang ''ok'' (JObj [(''status'', JStr ''ok''), (''dispatcher'', json_opt dispatcher_json (found1 d))]))
   }"

definition DispatcherProfile_Get :: "ext \<Rightarrow> uuid \<Rightarrow> ('z, response) prog" where
  "DispatcherProfile_Get E u =
     attempt (dispatchers_FindByID E u) (\<lambda>_. ret (ErrorLang 401 ''dispatcher_not_found''))
       (\<lambda>d. ret (OKLang ''ok'' (JObj [(''dispatcher'', dispatcher_json d)])))"

definition DispatcherProfile_Patch :: "ext \<Rightarrow> uuid \<Rightarrow> DispatcherProfileParams option \<Rightarrow> ('z, response) prog" where
  "DispatcherProfile_Patch E u body =
     (case body of
        None \<Rightarrow> ret (ErrorLang 400 ''invalid_payload'')
      | Some req \<Rightarrow>
          attempt (dispatchers_UpdateProfile u
             \<lparr>du_Name = trimPtr (du_Name req), du_PassportSeries = trimPtr (du_PassportSeries req),
              du_PassportNumber = trimPtr (du_PassportNumber req), du_PINFL = trimPtr (du_PINFL req),
              du_Photo = trimPtr (du_Photo req)\<rparr>)
            (\<lambda>_. ret (ErrorLang 500 ''internal_error'')) (\<lambda>_. ok_dispatcher E u))"

record changePasswordReq =
  cp_CurrentPassword :: string
  cp_NewPassword :: string

definition DispatcherProfile_ChangePassword :: "ext \<Rightarrow> uuid \<Rightarrow> changePasswordReq option \<Rightarrow> ('z, response) prog" where
  "DispatcherProfile_ChangePassword E u body =
     (case body of
        None \<Rightarrow> ret (ErrorLang 400 ''invalid_payload'')
      | Some req \<Rightarrow>
          if cp_CurrentPassword req = [] \<or> cp_NewPassword req = [] then ret (ErrorLang 400 ''invalid_payload'') else
          (case ValidatePassword E (cp_NewPassword req) of
             Inl _ \<Rightarrow> ret (ErrorLang 400 ''invalid_payload_detail'')
           | Inr _ \<Rightarrow> attempt (dispatchers_FindByID E u) (\<lambda>_. ret (ErrorLang 401 ''invalid_current_password'')) (\<lambda>d.
               if \<not> ComparePassword E (dp_Password d) (cp_CurrentPassword req) then ret (ErrorLang 401 ''invalid_current_password'')
               else store_password E u (cp_NewPassword req))))"

definition DispatcherProfile_PhoneChangeRequest ::
    "ext \<Rightarrow> DispatcherProfileHandler \<Rightarrow> uuid \<Rightarrow> string option \<Rightarrow> ('z, response) gprog" where
  "DispatcherProfile_PhoneChangeRequest E h u body =
     (case required body of
        None \<Rightarrow> ret (ErrorLang 400 ''invalid_payload'')
      | Some reqPhone \<Rightarrow>
          (case ValidateUzPhoneStrict reqPhone of
             Inl _ \<Rightarrow> ret (ErrorLang 400 ''invalid_payload_detail'')
           | Inr newPhone \<Rightarrow> do {
               found \<leftarrow> dispatchers_FindByPhone E newPhone;
               (case found of
                  Inr _ \<Rightarrow> ret (ErrorLang 409 ''phone_already_registered'')
                | Inl _ \<Rightarrow> code_session E (dr_tg h) (dr_otpTTL h) (dr_otpLen h) newPhone ''status''
                    (DispatcherOTPActionStore_Create E (dr_phoneChange h) u [] newPhone))
             }))"

definition DispatcherProfile_PhoneChangeVerify ::
    "ext \<Rightarrow> DispatcherProfileHandler \<Rightarrow> codeReq option \<Rightarrow> ('z, response) rprog" where
  "DispatcherProfile_PhoneChangeVerify E h body =
     (case bind_code body of
        None \<Rightarrow> ret (ErrorLang 400 ''invalid_payload'')
      | Some req \<Rightarrow>
          attempt (DispatcherOTPActionStore_Verify E (dr_phoneChange h) (TrimSpace (cq_SessionID req)) (TrimSpace (cq_OTP req)))
            (\<lambda>e. ret (action_error e)) (\<lambda>payload.
          if dap_NewPhone payload = [] then ret (ErrorLang 401 ''session_expired_or_invalid'') else
          attempt (dispatchers_UpdatePhone (dap_DispatcherID payload) (dap_NewPhone payload))
            (\<lambda>e. ret (if e = DispErrPhoneAlreadyRegistered then ErrorLang 409 ''phone_already_registered''
                     else ErrorLang 500 ''internal_error''))
            (\<lambda>_. ok_dispatcher E (dap_DispatcherID payload))))"

definition DispatcherProfile_UploadPhoto :: "uuid \<Rightarrow> photo_file option \<Rightarrow> ('z, response) prog" where
  "DispatcherProfile_UploadPhoto u form = upload_photo (dispatchers_UpdatePhoto u) form"

definition DispatcherProfile_GetPhoto :: "uuid \<Rightarrow> ('z, response) prog" where
  "DispatcherProfile_GetPhoto u = attempt (dispatchers_GetPhoto u)
     (\<lambda>e. ret (if e = DispErrNotFound then ErrorLang 404 ''photo_not_found'' else ErrorLang 500 ''internal_error''))
     (\<lambda>(data, contentType). ret (binary contentType data))"

definition DispatcherProfile_Delete :: "uuid \<Rightarrow> ('z, response) prog" where
  "DispatcherProfile_Delete u = attempt (dispatchers_DeleteAndArchive u)
     (\<lambda>e. ret (if e = DispErrDeleteNotFound then ErrorLang 404 ''dispatcher_not_found'' else ErrorLang 500 ''internal_error''))
     (\<lambda>_. ret status_ok)"

text \<open>The middleware behind \<open>RequireDispatcher\<close>; it runs the handler first.\<close>

definition UpdateDispatcherLastOnline :: "uuid \<Rightarrow> ('z, 'a) prog \<Rightarrow> ('z, 'a) prog" where
  "UpdateDispatcherLastOnline dispatcherID handler = do {
     a \<leftarrow> handler;
     if dispatcherID = uuid_nil then ret a
     else do { now \<leftarrow> clock; _ \<leftarrow> dispatchers_UpdateLastOnlineAt dispatcherID now; ret a }
   }"

end
