(* ===== verification/Profile_Guarantees.thy ===== *)
theory Profile_Guarantees
  imports Profiles Link_Guarantees Session_Guarantees
begin

text \<open>
  What the handlers of profiles guarantee: a new password is the one that signs in afterwards, and a driver's papers are
  approved exactly when they are complete and every scan is confirmed.
\<close>

section \<open>Passwords\<close>

lemma run_find_dispatcher:
  "reliable w \<Longrightarrow> run (select_dispatcher E P) w =
     (case first_where (\<lambda>d. P d \<and> fd_deleted_at d = None) (dispatchers_t (w_db w)) of
        None \<Rightarrow> Inl DispErrNotFound | Some d \<Rightarrow> Inr (scanDispatcher E d), tick w)"
  by (simp add: select_dispatcher_def dispatcher_not_found_def run_pg_row_read split: option.split)

lemma scanDispatcher_simps [simp]:
  "dp_ID (scanDispatcher E d) = uuid_string E (fd_id d)" "dp_Password (scanDispatcher E d) = fd_password d"
  by (simp_all add: scanDispatcher_def)

lemma first_where_key:
  assumes "distinct (map k t)" and "r \<in> set t" and "P r"
  shows "first_where (\<lambda>x. k x = k r \<and> P x) t = Some r"
proof (cases "first_where (\<lambda>x. k x = k r \<and> P x) t")
  case None
  with assms show ?thesis by (auto simp: first_where_None)
next
  case (Some r')
  then have "r' \<in> set t" "k r' = k r" by (auto dest: first_where_Some)
  with assms have "r' = r" by (meson distinct_map inj_onD)
  with Some show ?thesis by simp
qed

text \<open>\<open>store_password\<close> replaces the hash of one dispatcher and nothing else.\<close>

definition with_password :: "uuid \<Rightarrow> string \<Rightarrow> time \<Rightarrow> db \<Rightarrow> db" where
  "with_password u hash now d = d\<lparr>dispatchers_t := update_where (\<lambda>r. fd_id r = u)
     (\<lambda>r. r\<lparr>fd_password := hash, fd_updated_at := now\<rparr>) (dispatchers_t d)\<rparr>"

lemma run_store_password:
  assumes "reliable w" and "run (store_password E u pw) w = (a, w')" and "resp_code a = 200"
  shows "\<exists>hash. bcrypt_hash E (fresh_id w) pw = Some hash \<and> w_db w' = with_password u hash (w_now w) (w_db w)"
    and "reliable w'" and "w_now w' = w_now w"
  using assms
  by (auto simp: store_password_def run_attempt HashPassword_def dispatchers_UpdatePasswordHash_def exec_dispatcher_def
      update_dispatcher_def ignore_count_def with_password_def ErrorLang_def Let_def split: option.splits sum.splits if_splits)

text \<open>Signing in by password looks the phone up and compares with the stored hash.\<close>

lemma login_by_password:
  assumes "reliable w" and "phone \<noteq> []" and "NormalizeE164 E phone = Inr phone" and "pw \<noteq> []"
    and "first_where (\<lambda>d. fd_phone d = phone \<and> fd_deleted_at d = None) (dispatchers_t (w_db w)) = Some d"
  shows "run (DispatcherAuth_LoginPassword E h (Some \<lparr>pq_Phone = phone, pq_Password = pw\<rparr>)) w =
     (if bcrypt_check E (fd_password d) pw
      then run (sign_in_dispatcher E (dh_jwtm h) (dh_refresh h) (parsed_uuid E (uuid_string E (fd_id d))) logged_in) (tick w)
      else (ErrorLang 401 ''invalid_phone_or_password'', tick w))"
  using assms by (simp add: DispatcherAuth_LoginPassword_def dispatchers_FindByPhone_def run_attempt run_find_dispatcher
      ComparePassword_def)

lemma signed_in_otherwise:
  "fst (run (sign_in_dispatcher E m rs u logged_in) w) \<noteq> ErrorLang 401 ''invalid_phone_or_password''"
  by (auto simp: sign_in_dispatcher_def logged_in_def run_attempt ErrorLang_def OKLang_def split: prod.split sum.split)

text \<open>
  C25: a change of password takes effect: it asks for the password the dispatcher had, and once it has answered that all
  is well, signing in with the dispatcher's phone is refused for exactly those passwords that do not check
  against the hash of the new one; the new password itself is let in.
\<close>

theorem password_change_takes_effect:
  assumes "bcrypt_laws E" and "reliable (w :: rworld)" and "distinct (map fd_id (dispatchers_t (w_db w)))"
    and "distinct (map fd_phone (dispatchers_t (w_db w)))" and "d \<in> set (dispatchers_t (w_db w))" and "fd_deleted_at d = None"
    and "fd_phone d \<noteq> []" and "NormalizeE164 E (fd_phone d) = Inr (fd_phone d)"
    and "run (DispatcherProfile_ChangePassword E (fd_id d) (Some \<lparr>cp_CurrentPassword = old, cp_NewPassword = new\<rparr>)) w = (a, w')"
    and "resp_code a = 200"
  shows "bcrypt_check E (fd_password d) old
     \<and> (\<exists>hash. bcrypt_check E hash new \<and> (\<forall>pw. pw \<noteq> [] \<longrightarrow>
          (fst (run (DispatcherAuth_LoginPassword E h (Some \<lparr>pq_Phone = fd_phone d, pq_Password = pw\<rparr>)) w')
             = ErrorLang 401 ''invalid_phone_or_password'') \<longleftrightarrow> \<not> bcrypt_check E hash pw))"
proof -
  from first_where_key [of fd_id, OF assms(3,5), of "\<lambda>d. fd_deleted_at d = None"] assms(6)
  have find: "first_where (\<lambda>x. fd_id x = fd_id d \<and> fd_deleted_at x = None) (dispatchers_t (w_db w)) = Some d" by simp
  from assms(2,9,10) have old: "bcrypt_check E (fd_password d) old"
    and rest: "run (store_password E (fd_id d) new) (tick w) = (a, w')"
    by (auto simp: DispatcherProfile_ChangePassword_def dispatchers_FindByID_def run_attempt run_find_dispatcher find
        ComparePassword_def ErrorLang_def split: if_splits sum.splits)
  have "reliable (tick w)" using assms(2) by simp
  note stored = run_store_password [OF this rest assms(10)]
  then obtain hash where hash: "bcrypt_hash E (fresh_id (tick w)) new = Some hash"
    and db: "w_db w' = with_password (fd_id d) hash (w_now w) (w_db w)" by auto
  let ?f = "\<lambda>r. r\<lparr>fd_password := hash, fd_updated_at := w_now w\<rparr>"
  let ?t = "update_where (\<lambda>r. fd_id r = fd_id d) ?f (dispatchers_t (w_db w))"
  have "distinct (map fd_phone ?t)" using assms(4) by (simp add: map_update_where)
  moreover have "?f d \<in> set ?t" using assms(5) by (auto simp: set_update_where)
  ultimately have "first_where (\<lambda>x. fd_phone x = fd_phone (?f d) \<and> fd_deleted_at x = None) ?t = Some (?f d)"
    by (rule first_where_key) (simp add: assms(6))
  then have "first_where (\<lambda>x. fd_phone x = fd_phone d \<and> fd_deleted_at x = None) (dispatchers_t (w_db w')) = Some (?f d)"
    by (simp add: db with_password_def)
  note login = login_by_password [OF stored(2) assms(7,8) _ this]
  have "fst (run (DispatcherAuth_LoginPassword E h (Some \<lparr>pq_Phone = fd_phone d, pq_Password = pw\<rparr>)) w')
      = ErrorLang 401 ''invalid_phone_or_password'' \<longleftrightarrow> \<not> bcrypt_check E hash pw" if "pw \<noteq> []" for pw
    by (simp add: login [OF that] signed_in_otherwise)
  with old hash assms(1) show ?thesis unfolding bcrypt_laws_def by blast
qed

text \<open>A dispatcher with the password \<open>h\<close> (the hash of the sample functions is the password itself).\<close>

lemma sample_bcrypt: "bcrypt_laws sample_ext"
  by (simp add: bcrypt_laws_def sample_ext_def)

lemma sample_dispatcher_simps [simp]:
  "fd_id sample_dispatcher = 5" "fd_phone sample_dispatcher = ''+998907654321''" "fd_password sample_dispatcher = ''h''"
  "fd_deleted_at sample_dispatcher = None"
  by (simp_all add: sample_dispatcher_def new_dispatcher_def)

definition sample_disp_auth :: DispatcherAuthHandler where
  "sample_disp_auth = \<lparr>dh_otp = sample_otp, dh_regSessions = \<lparr>ds_prefix = ''disp_regsession'', ds_ttl = 900 * second\<rparr>,
     dh_resetActions = \<lparr>da_secret = ''s'', da_prefix = ''disp_reset'', da_ttl = 120 * second, da_maxAttempts = 5\<rparr>,
     dh_jwtm = sample_jwt, dh_refresh = \<lparr>rs_ttl = 3600 * second, rs_accessTTL = 900 * second\<rparr>,
     dh_tg = \<lparr>gc_token = [], gc_bypass = True\<rparr>, dh_otpTTL = 120 * second, dh_otpLen = 6\<rparr>"

lemma sample_password:
  "ValidatePassword E ''gggggggg'' = Inr ()" "bcrypt_hash sample_ext u pw = Some pw" "bcrypt_check sample_ext h pw \<longleftrightarrow> h = pw"
  by (simp_all add: ValidatePassword_def IsLetter_def sample_ext_def)

lemma sample_dispatcher_phone: "NormalizeE164 E ''+998907654321'' = Inr ''+998907654321''"
proof -
  have "TrimSpace ''+998907654321'' = ''+998907654321''" by (rule TrimSpace_plain) (simp_all add: is_ascii_def ascii_space_def)
  then show ?thesis by (simp add: NormalizeE164_def IsDigit_def encode_runes_def encode_rune_def char_of_eq_iff)
qed

lemma run_sample_change:
  "\<exists>w'. run (DispatcherProfile_ChangePassword sample_ext 5 (Some \<lparr>cp_CurrentPassword = ''h'', cp_NewPassword = ''gggggggg''\<rparr>))
       sample_link_rworld = (status_ok, w')"
  by (simp add: DispatcherProfile_ChangePassword_def dispatchers_FindByID_def run_attempt run_find_dispatcher
      ComparePassword_def store_password_def HashPassword_def dispatchers_UpdatePasswordHash_def exec_dispatcher_def
      update_dispatcher_def ignore_count_def sample_link_rworld_def reliable_def sample_password status_ok_def
      first_where_def update_where_def Let_def)

theorem password_change_takes_effect_witness:
  "\<exists>w' hash. run (DispatcherProfile_ChangePassword sample_ext 5 (Some \<lparr>cp_CurrentPassword = ''h'', cp_NewPassword = ''gggggggg''\<rparr>))
       sample_link_rworld = (status_ok, w') \<and> bcrypt_check sample_ext hash ''gggggggg''
     \<and> fst (run (DispatcherAuth_LoginPassword sample_ext sample_disp_auth
          (Some \<lparr>pq_Phone = ''+998907654321'', pq_Password = ''gggggggg''\<rparr>)) w') \<noteq> ErrorLang 401 ''invalid_phone_or_password''"
proof -
  obtain w' where run: "run (DispatcherProfile_ChangePassword sample_ext 5 (Some \<lparr>cp_CurrentPassword = ''h'', cp_NewPassword = ''gggggggg''\<rparr>))
       sample_link_rworld = (status_ok, w')" using run_sample_change by blast
  have "resp_code status_ok = 200" by (simp add: status_ok_def OKLang_def)
  from password_change_takes_effect [of sample_ext sample_link_rworld sample_dispatcher "''h''" "''gggggggg''", OF sample_bcrypt _ _ _ _ _ _ _ _ this] run
  show ?thesis by (force simp: sample_link_rworld_def reliable_def sample_password sample_dispatcher_phone)
qed

section \<open>Papers\<close>

lemma run_find_driver:
  "reliable w \<Longrightarrow> run (drivers_FindByID E u) w =
     (case first_where (\<lambda>d. d_id d = u) (drivers_t (w_db w)) of
        None \<Rightarrow> Inl DriverErrNotFound | Some d \<Rightarrow> Inr (Some (scanDriver E (w_db w) d)), tick w)"
  by (simp add: drivers_FindByID_def select_driver_def driver_not_found_def run_pg_row_read split: option.split)

text \<open>On a reliable server a change of one driver by \<open>exec_driver\<close> succeeds when it leaves the phone alone.\<close>

lemma run_exec_driver:
  assumes "reliable w" and "distinct (map d_phone (drivers_t (w_db w)))" and "\<And>now d. d_phone (f now d) = d_phone d"
  obtains w1 where "run (exec_driver u f) w = (Inr (), w1)" "reliable w1" "w_now w1 = w_now w"
    "drivers_t (w_db w1) = update_where (\<lambda>d. d_id d = u) (f (w_now w)) (drivers_t (w_db w))"
  using assms by (simp add: exec_driver_def update_driver_def ignore_count_def Let_def map_update_where)

lemma run_upsert:
  assumes "reliable w" and "\<exists>d'. q (w_now w) (fresh_id w) (w_db w) = Inr ((), d') \<and> drivers_t d' = drivers_t (w_db w)"
  obtains w1 where "run (pg_call q) w = (Inr (), w1)" "reliable w1" "w_now w1 = w_now w"
    "drivers_t (w_db w1) = drivers_t (w_db w)"
proof -
  from assms(2) obtain d' where "q (w_now w) (fresh_id w) (w_db w) = Inr ((), d')" "drivers_t d' = drivers_t (w_db w)" by blast
  with assms(1) show thesis by (intro that [of "(tick w)\<lparr>w_db := d'\<rparr>"]) simp_all
qed

lemma driver_exists_image: "driver_exists d u \<longleftrightarrow> u \<in> d_id ` set (drivers_t d)"
  by (auto simp: driver_exists_def exists_where_iff)

text \<open>The driver after the papers were stored.\<close>

definition kyc_row :: "KYCUpdate \<Rightarrow> time \<Rightarrow> driver_row \<Rightarrow> driver_row" where
  "kyc_row k now d = d
     \<lparr>d_driver_passport_series := Some (k_DriverPassportSeries k), d_driver_passport_number := Some (k_DriverPassportNumber k),
      d_driver_pinfl := Some (k_DriverPINFL k), d_driver_scan_status := k_DriverScanStatus k,
      d_driver_owner := k_DriverOwner k, d_kyc_status := Some (k_KYCStatus k),
      d_registration_status := Some (k_RegistrationStatus k), d_registration_step := Some (k_RegistrationStep k),
      d_rating := coalesce (d_rating d) (Some 0), d_work_status := coalesce (d_work_status d) (Some ''available''),
      d_account_status := coalesce (d_account_status d) (Some ''active''),
      d_updated_at := now, d_last_online_at := Some now\<rparr>"

lemma run_papers:
  assumes "reliable w" and "distinct (map d_phone (drivers_t (w_db w)))" and "driver_exists (w_db w) u"
  shows "\<exists>w1 w2. run (drivers_UpdateKYC u k) w = (Inr (), w1) \<and> run (drivers_ApplyFullDefaults u) w1 = (Inr (), w2)
     \<and> reliable w2 \<and> drivers_t (w_db w2) = update_where (\<lambda>d. d_id d = u) (kyc_row k (w_now w)) (drivers_t (w_db w))"
proof -
  let ?P = "\<lambda>d. d_id d = u"
  let ?f = "\<lambda>now d. touched now (d
        \<lparr>d_driver_passport_series := Some (k_DriverPassportSeries k),
         d_driver_passport_number := Some (k_DriverPassportNumber k),
         d_driver_pinfl := Some (k_DriverPINFL k), d_driver_scan_status := k_DriverScanStatus k,
         d_driver_owner := k_DriverOwner k, d_kyc_status := Some (k_KYCStatus k),
         d_registration_status := Some (k_RegistrationStatus k),
         d_registration_step := Some (k_RegistrationStep k)\<rparr>)"
  let ?t = "update_where ?P (?f (w_now w)) (drivers_t (w_db w))"
  have f: "d_phone (?f now d) = d_phone d" for now and d :: driver_row by (simp add: touched_def)
  obtain w1 where w1: "run (exec_driver u ?f) w = (Inr (), w1)" "reliable w1" "w_now w1 = w_now w" "drivers_t (w_db w1) = ?t"
    by (rule run_exec_driver [where u = u and f = ?f, OF assms(1,2) f])
  have "d_id ` set ?t = d_id ` set (drivers_t (w_db w))" by (rule image_update_where) (simp add: touched_def)
  with assms(3) have ex: "driver_exists (w_db w1) u" by (simp add: driver_exists_image w1(4))
  obtain w2 where w2: "run (pg_call (upsert_power u (kyc_power k (empty_power u)) (kyc_power k))) w1 = (Inr (), w2)"
    "reliable w2" "w_now w2 = w_now w1" "drivers_t (w_db w2) = drivers_t (w_db w1)"
    by (rule run_upsert [where q = "upsert_power u (kyc_power k (empty_power u)) (kyc_power k)", OF w1(2) upsert_known(1) [OF ex]])
  from ex have ex2: "driver_exists (w_db w2) u" by (simp add: driver_exists_image w2(4))
  obtain w3 where w3: "run (pg_call (upsert_trailer u (kyc_trailer k (empty_trailer u)) (kyc_trailer k))) w2 = (Inr (), w3)"
    "reliable w3" "w_now w3 = w_now w2" "drivers_t (w_db w3) = drivers_t (w_db w2)"
    by (rule run_upsert [where q = "upsert_trailer u (kyc_trailer k (empty_trailer u)) (kyc_trailer k)", OF w2(2) upsert_known(2) [OF ex2]])
  have upd: "run (drivers_UpdateKYC u k) w = (Inr (), w3)"
    by (simp add: drivers_UpdateKYC_def w1(1) w2(1) w3(1) del: run_pg_call_reliable)
  have "map d_phone ?t = map d_phone (drivers_t (w_db w))" by (rule map_update_where) (simp add: touched_def)
  then have dist: "distinct (map d_phone (drivers_t (w_db w3)))"
    using assms(2) by (simp only: w3(4) w2(4) w1(4))
  let ?g = "\<lambda>now d. touched now (d
     \<lparr>d_rating := coalesce (d_rating d) (Some 0),
      d_work_status := coalesce (d_work_status d) (Some ''available''),
      d_account_status := coalesce (d_account_status d) (Some ''active'')\<rparr>)"
  have g: "d_phone (?g now d) = d_phone d" for now and d :: driver_row by (simp add: touched_def)
  obtain w4 where w4: "run (exec_driver u ?g) w3 = (Inr (), w4)" "reliable w4" "w_now w4 = w_now w3"
    "drivers_t (w_db w4) = update_where ?P (?g (w_now w3)) (drivers_t (w_db w3))"
    by (rule run_exec_driver [where u = u and f = ?g, OF w3(2) dist g])
  have "drivers_t (w_db w4) = update_where ?P (kyc_row k (w_now w)) (drivers_t (w_db w))"
    unfolding w4(4) w3(3,4) w2(3,4) w1(3,4) by (simp add: update_where_def touched_def kyc_row_def)
  with upd w4(1,2) show ?thesis unfolding drivers_ApplyFullDefaults_def by blast
qed

text \<open>
  C26: submitting papers on a reliable server: the request is answered with 200 and afterwards the driver's papers are
  approved and the registration is full if, after trimming, every field is given and every scan is confirmed;
  otherwise they are pending and the registration stays what it was (basic, if it was nothing). Either way the
  registration is at its last step and the driver has a work status and an account status.
\<close>

theorem papers_decide:
  assumes "reliable w" and "distinct (map d_phone (drivers_t (w_db w)))" and "distinct (map d_id (drivers_t (w_db w)))"
    and "d \<in> set (drivers_t (w_db w))" and "bind_kyc (Some req0) = Some req0"
    and "run (KYC_Submit E (d_id d) (Some req0)) w = (a, w')"
    and "req = req0\<lparr>kq_Driver := trim_driver_data (kq_Driver req0), kq_Power := trim_vehicle (kq_Power req0),
           kq_Trailer := trim_vehicle (kq_Trailer req0)\<rparr>"
  shows "resp_code a = 200 \<and> (\<exists>d'. first_where (\<lambda>x. d_id x = d_id d) (drivers_t (w_db w')) = Some d'
     \<and> (if kyc_full req then d_kyc_status d' = Some ''approved'' \<and> d_registration_status d' = Some ''full''
        else d_kyc_status d' = Some ''pending'' \<and> d_registration_status d' =
          (if d_registration_status d \<in> {None, Some []} then Some ''basic'' else d_registration_status d))
     \<and> d_registration_step d' = Some ''completed'' \<and> d_work_status d' \<noteq> None \<and> d_account_status d' \<noteq> None)"
proof -
  let ?find = "\<lambda>t. first_where (\<lambda>x. d_id x = d_id d) t"
  have find: "?find (drivers_t (w_db w)) = Some d" by (rule first_where_unique [OF assms(3,4)])
  define k where "k = kyc_update req (if kyc_full req then ''approved'' else ''pending'')
     (if kyc_full req then StatusFull else (case d_registration_status d of Some s \<Rightarrow> if s \<noteq> [] then s else StatusBasic | None \<Rightarrow> StatusBasic))"
  have w1: "reliable (tick w)" "distinct (map d_phone (drivers_t (w_db (tick w))))" "driver_exists (w_db (tick w)) (d_id d)"
    using assms(1,2,4) by (simp_all add: driver_exists_image)
  from run_papers [OF this, of k] obtain w2 w3 where
    upd: "run (drivers_UpdateKYC (d_id d) k) (tick w) = (Inr (), w2)" and def_: "run (drivers_ApplyFullDefaults (d_id d)) w2 = (Inr (), w3)"
    and w3: "reliable w3" "drivers_t (w_db w3) = update_where (\<lambda>x. d_id x = d_id d) (kyc_row k (w_now w)) (drivers_t (w_db w))"
    by auto
  have reg: "dr_RegistrationStatus (scanDriver E (w_db w) d) = d_registration_status d" by (simp add: scanDriver_def Let_def)
  have run: "run (KYC_Submit E (d_id d) (Some req0)) w = run (do {
       updated \<leftarrow> drivers_FindByID E (d_id d);
       ret (OKLang ''ok'' (JObj [(''event'', JStr ''updated''), (''is_full'', JBool (kyc_full req)), (''driver'', found_json updated)]))
     }) w3"
    unfolding KYC_Submit_def assms(5) option.case Let_def assms(7) [symmetric]
    using assms(1) upd [unfolded k_def] def_
    by (cases "kyc_full req") (simp_all add: run_attempt run_find_driver find reg)
  let ?d = "kyc_row k (w_now w) d"
  have id: "d_id (kyc_row k now x) = d_id x" for now x by (simp add: kyc_row_def)
  let ?t = "drivers_t (w_db w3)"
  have "map d_id ?t = map d_id (drivers_t (w_db w))" unfolding w3(2) by (rule map_update_where) (rule id)
  with assms(3) have "distinct (map d_id ?t)" by simp
  moreover have "?d \<in> set ?t" using assms(4) by (auto simp: w3(2) set_update_where)
  ultimately have found: "?find ?t = Some ?d" using first_where_unique [of d_id ?t ?d] by (simp add: id)
  from run assms(6) w3(1) have "resp_code a = 200" and w': "w_db w' = w_db w3"
    by (auto simp: run_find_driver OKLang_def)
  moreover have "(if kyc_full req then d_kyc_status ?d = Some ''approved'' \<and> d_registration_status ?d = Some ''full''
        else d_kyc_status ?d = Some ''pending'' \<and> d_registration_status ?d =
          (if d_registration_status d \<in> {None, Some []} then Some ''basic'' else d_registration_status d))
     \<and> d_registration_step ?d = Some ''completed'' \<and> d_work_status ?d \<noteq> None \<and> d_account_status ?d \<noteq> None"
    by (auto simp: kyc_row_def k_def kyc_update_def coalesce_def Let_def split: option.split)
  ultimately show ?thesis using found by auto
qed

definition sample_vehicle :: vehicleData where
  "sample_vehicle = \<lparr>kv_PlateNumber = ''1'', kv_TechSeries = ''1'', kv_TechNumber = ''1'', kv_OwnerID = ''1'', kv_OwnerName = ''1'',
     kv_ScanStatus = Some True\<rparr>"

definition sample_kyc :: kycReq where
  "sample_kyc = \<lparr>kq_Driver = \<lparr>kd_PassportSeries = ''1'', kd_PassportNumber = ''1'', kd_PINFL = ''1'', kd_ScanStatus = Some True\<rparr>,
     kq_Power = sample_vehicle, kq_Trailer = sample_vehicle, kq_DriverOwner = Some True\<rparr>"

lemma sample_kyc_bound: "bind_kyc (Some sample_kyc) = Some sample_kyc"
  by (simp add: bind_kyc_def sample_kyc_def sample_vehicle_def driver_given_def vehicle_given_def)

lemma sample_kyc_trim:
  "trim_driver_data (kq_Driver sample_kyc) = kq_Driver sample_kyc" "trim_vehicle (kq_Power sample_kyc) = kq_Power sample_kyc"
  "trim_vehicle (kq_Trailer sample_kyc) = kq_Trailer sample_kyc"
proof -
  have t: "TrimSpace ''1'' = ''1''" by (rule TrimSpace_plain) (simp_all add: is_ascii_def ascii_space_def)
  show "trim_driver_data (kq_Driver sample_kyc) = kq_Driver sample_kyc" "trim_vehicle (kq_Power sample_kyc) = kq_Power sample_kyc"
    "trim_vehicle (kq_Trailer sample_kyc) = kq_Trailer sample_kyc"
    by (simp_all add: sample_kyc_def sample_vehicle_def trim_driver_data_def trim_vehicle_def t)
qed

theorem papers_decide_witness:
  "\<exists>d'. first_where (\<lambda>x. d_id x = 7) (drivers_t (w_db (snd (run (KYC_Submit sample_ext 7 (Some sample_kyc)) sample_link_rworld)))) = Some d'
     \<and> d_kyc_status d' = Some ''approved'' \<and> d_registration_status d' = Some ''full''"
proof -
  obtain a w' where run: "run (KYC_Submit sample_ext 7 (Some sample_kyc)) sample_link_rworld = (a, w')" by fastforce
  have d: "d_id (empty_driver 7 sample_driver_phone 50) = 7" by (simp add: empty_driver_def)
  have "kyc_full sample_kyc" by (simp add: kyc_full_def sample_kyc_def sample_vehicle_def driver_given_def vehicle_given_def)
  moreover have "reliable sample_link_rworld" "w_db sample_link_rworld = sample_link_db"
    by (simp_all add: sample_link_rworld_def reliable_def)
  ultimately show ?thesis
    unfolding run snd_conv
    using papers_decide [of sample_link_rworld "empty_driver 7 sample_driver_phone 50" sample_kyc sample_ext a w' sample_kyc,
        unfolded d, OF _ _ _ _ sample_kyc_bound run]
    by (auto simp: sample_kyc_trim)
qed

end
