(* ===== verification/Chat.thy ===== *)
theory Chat
  imports Companies Cargo_Handler Gateway "HOL-Library.List_Lexorder" "HOL-Library.Char_ord"
begin

text \<open>
  The chat (\<open>internal/chat\<close>, \<open>handlers/chat.go\<close>): conversations of two users and their messages in PostgreSQL, presence
  and typing in Redis, and the hub with the open WebSocket connections of every user. The hub keeps, like the code, a
  slice header for each user into a backing array; \<open>Register\<close>, \<open>Unregister\<close> and reading a slice header run under
  its lock and are one step each.
\<close>

section \<open>Conversations and messages\<close>

definition ErrSameUser :: err where "ErrSameUser = Err ''chat: cannot create conversation with yourself''"
definition ChatErrNotFound :: err where "ChatErrNotFound = Err ''chat: not found''"

definition PeerID :: "Conversation \<Rightarrow> uuid \<Rightarrow> uuid" where
  "PeerID c me = (if cv_user_a_id c = me then cv_user_b_id c else cv_user_a_id c)"

definition takes_part :: "uuid \<Rightarrow> Conversation \<Rightarrow> bool" where
  "takes_part u c \<longleftrightarrow> cv_user_a_id c = u \<or> cv_user_b_id c = u"

text \<open>The constraint \<open>user_a_id < user_b_id\<close> is checked before the conflict of a pair is looked for.\<close>

definition upsert_conversation :: "uuid \<Rightarrow> uuid \<Rightarrow> Conversation option stmt" where
  "upsert_conversation u1 u2 = (\<lambda>now v d.
     if \<not> u1 < u2 then Inl CheckViolation
     else (case first_where (\<lambda>c. cv_user_a_id c = u1 \<and> cv_user_b_id c = u2) (conversations_t d) of
             Some c \<Rightarrow> Inr (Some c, d)
           | None \<Rightarrow> let c = \<lparr>cv_id = v, cv_user_a_id = u1, cv_user_b_id = u2, cv_created_at = now\<rparr>
                     in Inr (Some c, d\<lparr>conversations_t := conversations_t d @ [c]\<rparr>)))"

text \<open>Go compares the texts of the identifiers, PostgreSQL their bytes.\<close>

definition ordered_pair :: "ext \<Rightarrow> uuid \<Rightarrow> uuid \<Rightarrow> uuid \<times> uuid" where
  "ordered_pair E u v = (if uuid_string E u > uuid_string E v then (v, u) else (u, v))"

definition chat_GetOrCreateConversation :: "ext \<Rightarrow> uuid \<Rightarrow> uuid \<Rightarrow> ('z, err + Conversation) prog" where
  "chat_GetOrCreateConversation E userID peerID =
     (if userID = peerID then ret (Inl ErrSameUser)
      else let (u1, u2) = ordered_pair E userID peerID in pg_query_row (upsert_conversation u1 u2))"

definition page_limit :: "int \<Rightarrow> int" where
  "page_limit limit = (if limit \<le> 0 \<or> limit > 100 then 50 else limit)"

text \<open>The moment of the last message that was not deleted, or of the start.\<close>

definition last_activity :: "db \<Rightarrow> Conversation \<Rightarrow> time" where
  "last_activity d c =
     (let ts = map ms_created_at (select_where (\<lambda>m. ms_conversation_id m = cv_id c \<and> ms_deleted_at m = None) (messages_t d))
      in if ts = [] then cv_created_at c else Max (set ts))"

definition chat_ListConversations :: "uuid \<Rightarrow> int \<Rightarrow> ('z, err + Conversation list) prog" where
  "chat_ListConversations userID limit = pg_call (q_read (\<lambda>d.
     page_of (page_limit limit) 0 (order_desc (last_activity d) (select_where (takes_part userID) (conversations_t d)))))"

definition find_conversation :: "uuid \<Rightarrow> uuid \<Rightarrow> db \<Rightarrow> Conversation option" where
  "find_conversation convID userID d = first_where (\<lambda>c. cv_id c = convID \<and> takes_part userID c) (conversations_t d)"

definition chat_GetConversation :: "uuid \<Rightarrow> uuid \<Rightarrow> ('z, err + Conversation) prog" where
  "chat_GetConversation convID userID = pg_query_row (q_read (find_conversation convID userID))"

text \<open>
  The page after a cursor: messages older than the one the cursor names, wherever that is; none if there is no such
  message (the comparison with \<open>NULL\<close>).
\<close>

definition before_cursor :: "db \<Rightarrow> uuid option \<Rightarrow> Message \<Rightarrow> bool" where
  "before_cursor d cursor m =
     (case cursor of
        None \<Rightarrow> True
      | Some x \<Rightarrow> x = uuid_nil
          \<or> (case first_where (\<lambda>m'. ms_id m' = x) (messages_t d) of
               None \<Rightarrow> False | Some m' \<Rightarrow> ms_created_at m < ms_created_at m'))"

definition chat_ListMessages :: "uuid \<Rightarrow> uuid \<Rightarrow> uuid option \<Rightarrow> int \<Rightarrow> ('z, err + Message list) prog" where
  "chat_ListMessages convID userID cursor limit = pg_call (q_read (\<lambda>d.
     page_of (page_limit limit) 0 (order_desc ms_created_at (select_where
       (\<lambda>m. ms_conversation_id m = convID \<and> ms_deleted_at m = None \<and> before_cursor d cursor m
          \<and> find_conversation convID userID d \<noteq> None) (messages_t d)))))"

definition insert_message :: "uuid \<Rightarrow> uuid \<Rightarrow> string \<Rightarrow> Message option stmt" where
  "insert_message convID senderID body = (\<lambda>now v d.
     (case find_conversation convID senderID d of
        None \<Rightarrow> Inr (None, d)
      | Some _ \<Rightarrow> let m = \<lparr>ms_id = v, ms_conversation_id = convID, ms_sender_id = senderID, ms_body = body,
                        ms_created_at = now, ms_updated_at = now, ms_deleted_at = None\<rparr>
                  in Inr (Some m, d\<lparr>messages_t := messages_t d @ [m]\<rparr>)))"

definition chat_CreateMessage :: "uuid \<Rightarrow> uuid \<Rightarrow> string \<Rightarrow> ('z, err + Message) prog" where
  "chat_CreateMessage convID senderID body = pg_query_row (insert_message convID senderID body)"

definition own_message :: "uuid \<Rightarrow> uuid \<Rightarrow> Message \<Rightarrow> bool" where
  "own_message messageID senderID m \<longleftrightarrow> ms_id m = messageID \<and> ms_sender_id m = senderID \<and> ms_deleted_at m = None"

definition update_message :: "uuid \<Rightarrow> uuid \<Rightarrow> (time \<Rightarrow> Message \<Rightarrow> Message) \<Rightarrow> Message list stmt" where
  "update_message messageID senderID f = q_write (\<lambda>now d.
     let P = own_message messageID senderID
     in (map (f now) (select_where P (messages_t d)), d\<lparr>messages_t := update_where P (f now) (messages_t d)\<rparr>))"

definition chat_UpdateMessage :: "uuid \<Rightarrow> uuid \<Rightarrow> string \<Rightarrow> ('z, err + Message) prog" where
  "chat_UpdateMessage messageID senderID body = do {
     r \<leftarrow> pg_call (update_message messageID senderID (\<lambda>now m. m\<lparr>ms_body := body, ms_updated_at := now\<rparr>));
     ret (case r of Inl e \<Rightarrow> Inl e | Inr [] \<Rightarrow> Inl NoRows | Inr (m # _) \<Rightarrow> Inr m)
   }"

definition chat_DeleteMessage :: "uuid \<Rightarrow> uuid \<Rightarrow> ('z, err + unit) prog" where
  "chat_DeleteMessage messageID senderID = do {
     r \<leftarrow> pg_call (update_message messageID senderID (\<lambda>now m. m\<lparr>ms_deleted_at := Some now, ms_updated_at := now\<rparr>));
     ret (case r of Inl e \<Rightarrow> Inl e | Inr rows \<Rightarrow> if length rows = 0 then Inl ChatErrNotFound else Inr ())
   }"

text \<open>No handler calls it.\<close>

definition chat_GetMessageByID :: "uuid \<Rightarrow> uuid \<Rightarrow> ('z, err + Message) prog" where
  "chat_GetMessageByID messageID userID = pg_query_row (q_read (\<lambda>d.
     first_where (\<lambda>m. ms_id m = messageID \<and> find_conversation (ms_conversation_id m) userID d \<noteq> None) (messages_t d)))"

section \<open>Presence\<close>

abbreviation presencePrefix :: string where "presencePrefix \<equiv> ''chat:presence:''"
abbreviation typingPrefix :: string where "typingPrefix \<equiv> ''chat:typing:''"
abbreviation lastSeenPrefix :: string where "lastSeenPrefix \<equiv> ''chat:lastseen:''"
abbreviation presenceTTL :: duration where "presenceTTL \<equiv> 65 * second"
abbreviation typingTTL :: duration where "typingTTL \<equiv> 15 * second"
abbreviation lastSeenKeepSec :: int where "lastSeenKeepSec \<equiv> 30 * 24 * 3600"

definition typing_key :: "ext \<Rightarrow> uuid \<Rightarrow> uuid \<Rightarrow> string" where
  "typing_key E convID userID = typingPrefix @ uuid_string E convID @ '':'' @ uuid_string E userID"

definition PresenceStore_SetOnline :: "ext \<Rightarrow> uuid \<Rightarrow> ('z, err + unit) rprog" where
  "PresenceStore_SetOnline E userID = rd_call (cSet (presencePrefix @ uuid_string E userID) ''1'' presenceTTL)"

definition PresenceStore_SetOffline :: "ext \<Rightarrow> uuid \<Rightarrow> ('z, err + unit) rprog" where
  "PresenceStore_SetOffline E userID = do {
     now \<leftarrow> clock;
     rd_call (pipeline [quiet (cDel (presencePrefix @ uuid_string E userID)),
       cSet (lastSeenPrefix @ uuid_string E userID) (Itoa (now div second)) (lastSeenKeepSec * second)])
   }"

definition PresenceStore_Heartbeat :: "ext \<Rightarrow> uuid \<Rightarrow> ('z, err + bool) rprog" where
  "PresenceStore_Heartbeat E userID = rd_call (cExpire (presencePrefix @ uuid_string E userID) presenceTTL)"

definition exists_flag :: "(err + nat) \<Rightarrow> err + bool" where
  "exists_flag r = (case r of Inl e \<Rightarrow> Inl e | Inr n \<Rightarrow> Inr (n > 0))"

definition PresenceStore_IsOnline :: "ext \<Rightarrow> uuid \<Rightarrow> ('z, err + bool) rprog" where
  "PresenceStore_IsOnline E userID = do {
     r \<leftarrow> rd_call (cExists (presencePrefix @ uuid_string E userID)); ret (exists_flag r) }"

definition PresenceStore_LastSeen :: "ext \<Rightarrow> uuid \<Rightarrow> ('z, err + int) rprog" where
  "PresenceStore_LastSeen E userID = do {
     r \<leftarrow> rd_call (cGet (lastSeenPrefix @ uuid_string E userID));
     ret (case r of
        Inl e \<Rightarrow> if e = RedisNil then Inr 0 else Inl e
      | Inr v \<Rightarrow> Inr (Atoi_value v))
   }"

definition PresenceStore_SetTyping :: "ext \<Rightarrow> uuid \<Rightarrow> uuid \<Rightarrow> ('z, err + unit) rprog" where
  "PresenceStore_SetTyping E convID userID = rd_call (cSet (typing_key E convID userID) ''1'' typingTTL)"

definition PresenceStore_ClearTyping :: "ext \<Rightarrow> uuid \<Rightarrow> uuid \<Rightarrow> ('z, err + nat) rprog" where
  "PresenceStore_ClearTyping E convID userID = rd_call (cDel (typing_key E convID userID))"

definition PresenceStore_IsTyping :: "ext \<Rightarrow> uuid \<Rightarrow> uuid \<Rightarrow> ('z, err + bool) rprog" where
  "PresenceStore_IsTyping E convID userID = do {
     r \<leftarrow> rd_call (cExists (typing_key E convID userID)); ret (exists_flag r) }"

record PresenceResponse =
  pe_UserID :: uuid
  pe_Online :: bool
  pe_Typing :: bool
  pe_LastSeen :: int

definition PresenceStore_GetPresence :: "ext \<Rightarrow> uuid \<Rightarrow> uuid option \<Rightarrow> ('z, err + PresenceResponse) rprog" where
  "PresenceStore_GetPresence E userID convID =
     andE (PresenceStore_IsOnline E userID) (\<lambda>online.
     andE (if online then ret (Inr 0) else PresenceStore_LastSeen E userID) (\<lambda>ls. do {
       typing \<leftarrow> (case convID of
          None \<Rightarrow> ret False
        | Some c \<Rightarrow> do { r \<leftarrow> PresenceStore_IsTyping E c userID;
                        ret (case r of Inl _ \<Rightarrow> False | Inr b \<Rightarrow> b) });
       ret (Inr \<lparr>pe_UserID = userID, pe_Online = online, pe_Typing = typing, pe_LastSeen = ls\<rparr>)
     }))"

section \<open>The hub\<close>

text \<open>
  A client is named by a number. A slice header points into a backing array, whose length is its capacity; array 0 is the one
  of the nil slice. When an \<open>append\<close> has to grow, the runtime chooses how many spare cells the new array gets
  (\<open>hb_spare\<close>).
\<close>

type_synonym client = nat

record slice_header =
  sl_array :: nat
  sl_len :: nat

record hub =
  hb_slices :: "uuid \<Rightarrow> slice_header option"
  hb_arrays :: "nat \<Rightarrow> client option list"
  hb_fresh_array :: nat
  hb_owner :: "client \<Rightarrow> uuid"
  hb_queue :: "client \<Rightarrow> json list"
  hb_closed :: "client \<Rightarrow> bool"
  hb_fresh_client :: client
  hb_spare :: "nat \<Rightarrow> nat"

definition nil_slice :: slice_header where "nil_slice = \<lparr>sl_array = 0, sl_len = 0\<rparr>"

definition slice_at :: "hub \<Rightarrow> uuid \<Rightarrow> slice_header" where
  "slice_at h u = (case hb_slices h u of None \<Rightarrow> nil_slice | Some s \<Rightarrow> s)"

definition cells :: "hub \<Rightarrow> slice_header \<Rightarrow> client option list" where
  "cells h s = take (sl_len s) (hb_arrays h (sl_array s))"

definition append_client :: "client \<Rightarrow> slice_header \<Rightarrow> hub \<Rightarrow> slice_header \<times> hub" where
  "append_client c s h =
     (let a = hb_arrays h (sl_array s); n = sl_len s in
      if n < length a
      then (s\<lparr>sl_len := n + 1\<rparr>, h\<lparr>hb_arrays := (hb_arrays h)(sl_array s := a[n := Some c])\<rparr>)
      else (\<lparr>sl_array = hb_fresh_array h, sl_len = n + 1\<rparr>,
            h\<lparr>hb_arrays := (hb_arrays h)(hb_fresh_array h := take n a @ [Some c] @ replicate (hb_spare h n) None),
              hb_fresh_array := hb_fresh_array h + 1\<rparr>))"

text \<open>\<open>append(list[:i], list[i+1:]...)\<close> moves the cells behind \<open>i\<close> within the array.\<close>

definition cut_client :: "nat \<Rightarrow> slice_header \<Rightarrow> hub \<Rightarrow> slice_header \<times> hub" where
  "cut_client i s h =
     (let a = hb_arrays h (sl_array s); n = sl_len s in
      (s\<lparr>sl_len := n - 1\<rparr>,
       h\<lparr>hb_arrays := (hb_arrays h)(sl_array s := take i a @ drop (i + 1) (take n a) @ drop (n - 1) a)\<rparr>))"

fun index_of :: "client \<Rightarrow> client option list \<Rightarrow> nat option" where
  "index_of c [] = None"
| "index_of c (x # xs) = (if x = Some c then Some 0 else map_option Suc (index_of c xs))"

definition Hub_Register :: "uuid \<Rightarrow> hub \<Rightarrow> client \<times> hub" where
  "Hub_Register u h =
     (let c = hb_fresh_client h;
          (s, h1) = append_client c (slice_at h u) h
      in (c, h1\<lparr>hb_slices := (hb_slices h1)(u := Some s), hb_owner := (hb_owner h1)(c := u),
               hb_queue := (hb_queue h1)(c := []), hb_closed := (hb_closed h1)(c := False), hb_fresh_client := c + 1\<rparr>))"

text \<open>The flag says that the user has no connection left.\<close>

definition drop_client :: "client \<Rightarrow> hub \<Rightarrow> bool \<times> hub" where
  "drop_client c h =
     (let u = hb_owner h c;
          s = slice_at h u;
          (s1, h1) = (case index_of c (cells h s) of None \<Rightarrow> (s, h) | Some i \<Rightarrow> cut_client i s h)
      in if sl_len s1 = 0 then (True, h1\<lparr>hb_slices := (hb_slices h1)(u := None)\<rparr>)
         else (False, h1\<lparr>hb_slices := (hb_slices h1)(u := Some s1)\<rparr>))"

text \<open>Closing a closed channel and sending to one panic.\<close>

definition close_send :: "client \<Rightarrow> hub \<Rightarrow> hub option" where
  "close_send c h = (if hb_closed h c then None else Some (h\<lparr>hb_closed := (hb_closed h)(c := True)\<rparr>))"

abbreviation send_buffer :: nat where "send_buffer \<equiv> 256"

definition offer_payload :: "json \<Rightarrow> client \<Rightarrow> hub \<Rightarrow> hub option" where
  "offer_payload p c h =
     (if hb_closed h c then None
      else if length (hb_queue h c) < send_buffer then Some (h\<lparr>hb_queue := (hb_queue h)(c := hb_queue h c @ [p])\<rparr>)
      else Some h)"

text \<open>\<open>SendToUser\<close> when nothing happens meanwhile: the cells of the slice one after another.\<close>

fun offer_each :: "json \<Rightarrow> client option list \<Rightarrow> hub \<Rightarrow> hub option" where
  "offer_each p [] h = Some h"
| "offer_each p (None # cs) h = None"
| "offer_each p (Some c # cs) h = (case offer_payload p c h of None \<Rightarrow> None | Some h1 \<Rightarrow> offer_each p cs h1)"

definition Hub_SendToUser :: "uuid \<Rightarrow> json \<Rightarrow> hub \<Rightarrow> hub option" where
  "Hub_SendToUser u p h = offer_each p (cells h (slice_at h u)) h"

definition Hub_BroadcastToConversation :: "uuid \<Rightarrow> uuid \<Rightarrow> json \<Rightarrow> hub \<Rightarrow> hub option" where
  "Hub_BroadcastToConversation userA userB p h =
     (case Hub_SendToUser userA p h of None \<Rightarrow> None | Some h1 \<Rightarrow> Hub_SendToUser userB p h1)"

section \<open>Handlers\<close>

record hworld = gworld +
  w_hub :: hub

type_synonym ('z, 'a) hprog = "('z hworld_scheme, 'a) state"

text \<open>An operation of the hub; \<open>False\<close> when it panics.\<close>

definition on_hub :: "(hub \<Rightarrow> hub option) \<Rightarrow> ('z, bool) hprog" where
  "on_hub f = State (\<lambda>w. (case f (w_hub w) of None \<Rightarrow> (False, w) | Some h \<Rightarrow> (True, w\<lparr>w_hub := h\<rparr>)))"

definition hub_get :: "(hub \<Rightarrow> 'a \<times> hub) \<Rightarrow> ('z, 'a) hprog" where
  "hub_get f = State (\<lambda>w. let (a, h) = f (w_hub w) in (a, w\<lparr>w_hub := h\<rparr>))"

definition message_json :: "ext \<Rightarrow> Message \<Rightarrow> json" where
  "message_json E m = JObj
     ([(''id'', jid E (ms_id m)), (''conversation_id'', jid E (ms_conversation_id m)), (''sender_id'', jid E (ms_sender_id m)),
       (''body'', JStr (ms_body m)), (''created_at'', JTime (ms_created_at m)), (''updated_at'', JTime (ms_updated_at m))]
      @ (case ms_deleted_at m of None \<Rightarrow> [] | Some t \<Rightarrow> [(''deleted_at'', JTime t)]))"

definition conversation_json :: "ext \<Rightarrow> uuid \<Rightarrow> Conversation \<Rightarrow> json" where
  "conversation_json E me c = JObj [(''id'', jid E (cv_id c)), (''peer_id'', jid E (PeerID c me)),
     (''created_at'', JTime (cv_created_at c))]"

definition presence_json :: "ext \<Rightarrow> PresenceResponse \<Rightarrow> json" where
  "presence_json E p = JObj
     ([(''user_id'', jid E (pe_UserID p)), (''online'', JBool (pe_Online p))]
      @ (if pe_Typing p then [(''typing'', JBool True)] else [])
      @ (if pe_LastSeen p \<noteq> 0 then [(''last_seen'', JInt (pe_LastSeen p))] else []))"

definition event_json :: "string \<Rightarrow> json \<Rightarrow> json" where
  "event_json typ data = JObj [(''type'', JStr typ), (''data'', data)]"

abbreviation identified :: "uuid \<Rightarrow> ('z, response) prog \<Rightarrow> ('z, response) prog" where
  "identified userID k \<equiv> as_user userID ''user_not_identified'' k"

text \<open>An identifier of the path or of the query.\<close>

definition with_id :: "ext \<Rightarrow> string \<Rightarrow> string \<Rightarrow> (uuid \<Rightarrow> ('z, response) prog) \<Rightarrow> ('z, response) prog" where
  "with_id E s key k = (case uuid_parse E s of None \<Rightarrow> ret (ErrorLang 400 key) | Some u \<Rightarrow> k u)"

definition query_id :: "ext \<Rightarrow> query \<Rightarrow> string \<Rightarrow> uuid option" where
  "query_id E q k = (if Query q k \<noteq> [] then uuid_parse E (Query q k) else None)"

definition Chat_ListConversations :: "ext \<Rightarrow> uuid \<Rightarrow> query \<Rightarrow> ('z, response) prog" where
  "Chat_ListConversations E userID q = identified userID
     (attempt (chat_ListConversations userID (getIntQuery q ''limit'' 50))
        (\<lambda>_. ret (ErrorLang 500 ''failed_to_list_conversations''))
        (\<lambda>cs. ret (OKLang ''ok'' (JObj [(''conversations'', JList (map (conversation_json E userID) cs))]))))"

definition Chat_GetOrCreateConversation :: "ext \<Rightarrow> uuid \<Rightarrow> string option \<Rightarrow> ('z, response) prog" where
  "Chat_GetOrCreateConversation E userID body = identified userID
     (case required body of
        None \<Rightarrow> ret (ErrorLang 400 ''invalid_payload_detail'')
      | Some reqPeer \<Rightarrow>
          (case uuid_parse E reqPeer of
             None \<Rightarrow> ret (ErrorLang 400 ''invalid_peer_id'')
           | Some peerID \<Rightarrow>
               if peerID = uuid_nil then ret (ErrorLang 400 ''invalid_peer_id'')
               else attempt (chat_GetOrCreateConversation E userID peerID)
                 (\<lambda>e. ret (if e = ErrSameUser then ErrorLang 400 ''cannot_chat_with_yourself''
                          else ErrorLang 500 ''failed_to_create_conversation''))
                 (\<lambda>c. ret (OKLang ''ok'' (conversation_json E userID c)))))"

definition Chat_ListMessages :: "ext \<Rightarrow> uuid \<Rightarrow> string \<Rightarrow> query \<Rightarrow> ('z, response) prog" where
  "Chat_ListMessages E userID convID q = identified userID
     (with_id E convID ''invalid_conversation_id'' (\<lambda>c.
        attempt (chat_ListMessages c userID (query_id E q ''cursor'') (getIntQuery q ''limit'' 50))
          (\<lambda>_. ret (ErrorLang 500 ''failed_to_list_messages''))
          (\<lambda>ms. ret (OKLang ''ok'' (JObj [(''messages'',
             if ms = [] then JNull else JList (map (message_json E) ms))])))))"

definition message_body :: "string option \<Rightarrow> (string \<Rightarrow> ('z, response) prog) \<Rightarrow> ('z, response) prog" where
  "message_body body k =
     (case required body of
        None \<Rightarrow> ret (ErrorLang 400 ''invalid_payload_detail'')
      | Some b \<Rightarrow> if length b > 64 * 1024 then ret (ErrorLang 400 ''message_too_long'') else k b)"

definition Chat_SendMessage :: "ext \<Rightarrow> uuid \<Rightarrow> string \<Rightarrow> string option \<Rightarrow> ('z, response) hprog" where
  "Chat_SendMessage E userID convID body = identified userID
     (with_id E convID ''invalid_conversation_id'' (\<lambda>c. message_body body (\<lambda>text.
        attempt (chat_GetConversation c userID) (\<lambda>_. ret (ErrorLang 404 ''conversation_not_found'')) (\<lambda>conv.
        attempt (chat_CreateMessage c userID text) (\<lambda>_. ret (ErrorLang 500 ''failed_to_send_message'')) (\<lambda>msg. do {
          sent \<leftarrow> on_hub (Hub_BroadcastToConversation (cv_user_a_id conv) (cv_user_b_id conv)
            (event_json ''message'' (message_json E msg)));
          ret (if sent then SuccessLang 201 ''ok'' (message_json E msg) else panicked)
        })))))"

definition Chat_EditMessage :: "ext \<Rightarrow> uuid \<Rightarrow> string \<Rightarrow> string option \<Rightarrow> ('z, response) prog" where
  "Chat_EditMessage E userID msgID body = identified userID
     (with_id E msgID ''invalid_message_id'' (\<lambda>m. message_body body (\<lambda>text.
        attempt (chat_UpdateMessage m userID text) (\<lambda>_. ret (ErrorLang 404 ''message_not_found''))
          (\<lambda>msg. ret (OKLang ''ok'' (message_json E msg))))))"

definition Chat_DeleteMessage :: "ext \<Rightarrow> uuid \<Rightarrow> string \<Rightarrow> ('z, response) prog" where
  "Chat_DeleteMessage E userID msgID = identified userID
     (with_id E msgID ''invalid_message_id'' (\<lambda>m.
        attempt (chat_DeleteMessage m userID)
          (\<lambda>e. ret (if e = ChatErrNotFound then ErrorLang 404 ''message_not_found''
                   else ErrorLang 500 ''failed_to_delete_message''))
          (\<lambda>_. ret (OKLang ''ok'' (JObj [(''deleted'', JBool True)])))))"

definition Chat_GetPresence :: "ext \<Rightarrow> string \<Rightarrow> query \<Rightarrow> ('z, response) rprog" where
  "Chat_GetPresence E userID q =
     with_id E userID ''invalid_user_id'' (\<lambda>target.
       attempt (PresenceStore_GetPresence E target (query_id E q ''conversation_id''))
         (\<lambda>_. ret (ErrorLang 500 ''failed_to_get_presence'')) (\<lambda>p. ret (OKLang ''ok'' (presence_json E p))))"

section \<open>A connection\<close>

text \<open>The callback of the handler that finds the other side of a conversation.\<close>

definition OnTypingPeer :: "ext \<Rightarrow> uuid \<Rightarrow> uuid \<Rightarrow> ('z, uuid option) rprog" where
  "OnTypingPeer E convID fromUserID = do {
     r \<leftarrow> chat_GetConversation convID fromUserID;
     (case r of
        Inl _ \<Rightarrow> ret None
      | Inr conv \<Rightarrow> do { _ \<leftarrow> PresenceStore_SetTyping E convID fromUserID; ret (Some (PeerID conv fromUserID)) })
   }"

definition Hub_BroadcastTyping :: "ext \<Rightarrow> uuid \<Rightarrow> uuid \<Rightarrow> ('z, bool) hprog" where
  "Hub_BroadcastTyping E convID fromUserID = do {
     peer \<leftarrow> OnTypingPeer E convID fromUserID;
     (case peer of
        None \<Rightarrow> ret True
      | Some p \<Rightarrow> on_hub (Hub_SendToUser p (event_json ''typing''
          (JObj [(''conversation_id'', jid E convID), (''user_id'', jid E fromUserID)]))))
   }"

text \<open>
  What a connection sends: a text that is no envelope, or the type and, when the data can be read, the conversation in
  it. The list ends where the connection breaks.
\<close>

datatype frame = Garbage | Envelope string "string option"

fun ReadPump :: "ext \<Rightarrow> uuid \<Rightarrow> frame list \<Rightarrow> ('z, bool) hprog" where
  "ReadPump E userID [] = ret True"
| "ReadPump E userID (f # fs) = do {
     ok \<leftarrow> (case f of
        Envelope typ (Some conv) \<Rightarrow>
          if typ = ''typing'' \<and> conv \<noteq> [] then Hub_BroadcastTyping E (parsed_uuid E conv) userID else ret True
      | _ \<Rightarrow> ret True);
     if ok then ReadPump E userID fs else ret False
   }"

definition Hub_Unregister :: "ext \<Rightarrow> client \<Rightarrow> ('z, bool) hprog" where
  "Hub_Unregister E c = do {
     u \<leftarrow> hub_get (\<lambda>h. (hb_owner h c, h));
     last \<leftarrow> hub_get (drop_client c);
     _ \<leftarrow> (if last then do { _ \<leftarrow> PresenceStore_SetOffline E u; ret () } else ret ());
     on_hub (close_send c)
   }"

text \<open>The deferred \<open>Unregister\<close> runs however the reading ends.\<close>

definition ServeWS :: "ext \<Rightarrow> uuid \<Rightarrow> bool \<Rightarrow> frame list \<Rightarrow> ('z, response option) hprog" where
  "ServeWS E userID upgraded frames =
     (if userID = uuid_nil then ret (Some (ErrorLang 401 ''user_not_identified''))
      else if \<not> upgraded then ret None
      else do {
        c \<leftarrow> hub_get (Hub_Register userID);
        _ \<leftarrow> PresenceStore_SetOnline E userID;
        ok \<leftarrow> ReadPump E userID frames;
        ok' \<leftarrow> Hub_Unregister E c;
        ret (if ok \<and> ok' then None else Some panicked)
      })"

end
