(* ===== verification/Access.thy ===== *)
theory Access
  imports Cargo_Side Link_Guarantees Chat Profiles
begin

text \<open>
  What the programs write: the tables of the database by name, and for every statement, repository method and handler the
  tables it changes at most. The rules carry the knowledge from the statements up to the routes of \<open>Server\<close>.
\<close>

section \<open>Tables\<close>

named_theorems writes_intro "what a method or a handler changes at most"

datatype table =
    T_cargo | T_route_points | T_payments | T_offers | T_trips | T_recommendations
  | T_drivers | T_deleted_drivers | T_powers | T_trailers | T_dispatchers | T_deleted_dispatchers
  | T_admins | T_companies | T_company_users | T_roles | T_ucr | T_audit
  | T_dcr | T_company_invitations | T_driver_invitations | T_d2d_invitations | T_dispatcher_invitations | T_conversations
  | T_messages

text \<open>A table is the same in both databases.\<close>

fun same :: "table \<Rightarrow> db \<Rightarrow> db \<Rightarrow> bool" where
  "same T_cargo d d' \<longleftrightarrow> cargo_t d = cargo_t d'"
| "same T_route_points d d' \<longleftrightarrow> route_points_t d = route_points_t d'"
| "same T_payments d d' \<longleftrightarrow> payments_t d = payments_t d'"
| "same T_offers d d' \<longleftrightarrow> offers_t d = offers_t d'"
| "same T_trips d d' \<longleftrightarrow> trips_t d = trips_t d'"
| "same T_recommendations d d' \<longleftrightarrow> recommendations_t d = recommendations_t d'"
| "same T_drivers d d' \<longleftrightarrow> drivers_t d = drivers_t d'"
| "same T_deleted_drivers d d' \<longleftrightarrow> deleted_drivers_t d = deleted_drivers_t d'"
| "same T_powers d d' \<longleftrightarrow> powers_t d = powers_t d'"
| "same T_trailers d d' \<longleftrightarrow> trailers_t d = trailers_t d'"
| "same T_dispatchers d d' \<longleftrightarrow> dispatchers_t d = dispatchers_t d'"
| "same T_deleted_dispatchers d d' \<longleftrightarrow> deleted_dispatchers_t d = deleted_dispatchers_t d'"
| "same T_admins d d' \<longleftrightarrow> admins_t d = admins_t d'"
| "same T_companies d d' \<longleftrightarrow> companies_t d = companies_t d'"
| "same T_company_users d d' \<longleftrightarrow> company_users_t d = company_users_t d'"
| "same T_roles d d' \<longleftrightarrow> roles_t d = roles_t d'"
| "same T_ucr d d' \<longleftrightarrow> ucr_t d = ucr_t d'"
| "same T_audit d d' \<longleftrightarrow> audit_t d = audit_t d'"
| "same T_dcr d d' \<longleftrightarrow> dcr_t d = dcr_t d'"
| "same T_company_invitations d d' \<longleftrightarrow> company_invitations_t d = company_invitations_t d'"
| "same T_driver_invitations d d' \<longleftrightarrow> driver_invitations_t d = driver_invitations_t d'"
| "same T_d2d_invitations d d' \<longleftrightarrow> d2d_invitations_t d = d2d_invitations_t d'"
| "same T_dispatcher_invitations d d' \<longleftrightarrow> dispatcher_invitations_t d = dispatcher_invitations_t d'"
| "same T_conversations d d' \<longleftrightarrow> conversations_t d = conversations_t d'"
| "same T_messages d d' \<longleftrightarrow> messages_t d = messages_t d'"

text \<open>Only the tables of \<open>T\<close> differ from \<open>d0\<close>.\<close>

definition only_in :: "table set \<Rightarrow> db \<Rightarrow> db \<Rightarrow> bool" where
  "only_in T d0 d \<longleftrightarrow> (\<forall>t. t \<notin> T \<longrightarrow> same t d0 d)"

lemma same_refl [simp]: "same t d d"
  by (cases t) simp_all

lemma only_in_refl [simp]: "only_in T d d"
  by (simp add: only_in_def)

lemma only_in_mono: "only_in T d d' \<Longrightarrow> T \<subseteq> T' \<Longrightarrow> only_in T' d d'"
  by (auto simp: only_in_def)

lemma only_in_update [simp]:
  "T_cargo \<in> T \<Longrightarrow> only_in T d0 (d\<lparr>cargo_t := x_cargo\<rparr>) = only_in T d0 d"
  "T_route_points \<in> T \<Longrightarrow> only_in T d0 (d\<lparr>route_points_t := x_route_points\<rparr>) = only_in T d0 d"
  "T_payments \<in> T \<Longrightarrow> only_in T d0 (d\<lparr>payments_t := x_payments\<rparr>) = only_in T d0 d"
  "T_offers \<in> T \<Longrightarrow> only_in T d0 (d\<lparr>offers_t := x_offers\<rparr>) = only_in T d0 d"
  "T_trips \<in> T \<Longrightarrow> only_in T d0 (d\<lparr>trips_t := x_trips\<rparr>) = only_in T d0 d"
  "T_recommendations \<in> T \<Longrightarrow> only_in T d0 (d\<lparr>recommendations_t := x_recommendations\<rparr>) = only_in T d0 d"
  "T_drivers \<in> T \<Longrightarrow> only_in T d0 (d\<lparr>drivers_t := x_drivers\<rparr>) = only_in T d0 d"
  "T_deleted_drivers \<in> T \<Longrightarrow> only_in T d0 (d\<lparr>deleted_drivers_t := x_deleted_drivers\<rparr>) = only_in T d0 d"
  "T_powers \<in> T \<Longrightarrow> only_in T d0 (d\<lparr>powers_t := x_powers\<rparr>) = only_in T d0 d"
  "T_trailers \<in> T \<Longrightarrow> only_in T d0 (d\<lparr>trailers_t := x_trailers\<rparr>) = only_in T d0 d"
  "T_dispatchers \<in> T \<Longrightarrow> only_in T d0 (d\<lparr>dispatchers_t := x_dispatchers\<rparr>) = only_in T d0 d"
  "T_deleted_dispatchers \<in> T \<Longrightarrow> only_in T d0 (d\<lparr>deleted_dispatchers_t := x_deleted_dispatchers\<rparr>) = only_in T d0 d"
  "T_admins \<in> T \<Longrightarrow> only_in T d0 (d\<lparr>admins_t := x_admins\<rparr>) = only_in T d0 d"
  "T_companies \<in> T \<Longrightarrow> only_in T d0 (d\<lparr>companies_t := x_companies\<rparr>) = only_in T d0 d"
  "T_company_users \<in> T \<Longrightarrow> only_in T d0 (d\<lparr>company_users_t := x_company_users\<rparr>) = only_in T d0 d"
  "T_roles \<in> T \<Longrightarrow> only_in T d0 (d\<lparr>roles_t := x_roles\<rparr>) = only_in T d0 d"
  "T_ucr \<in> T \<Longrightarrow> only_in T d0 (d\<lparr>ucr_t := x_ucr\<rparr>) = only_in T d0 d"
  "T_audit \<in> T \<Longrightarrow> only_in T d0 (d\<lparr>audit_t := x_audit\<rparr>) = only_in T d0 d"
  "T_dcr \<in> T \<Longrightarrow> only_in T d0 (d\<lparr>dcr_t := x_dcr\<rparr>) = only_in T d0 d"
  "T_company_invitations \<in> T \<Longrightarrow> only_in T d0 (d\<lparr>company_invitations_t := x_company_invitations\<rparr>) = only_in T d0 d"
  "T_driver_invitations \<in> T \<Longrightarrow> only_in T d0 (d\<lparr>driver_invitations_t := x_driver_invitations\<rparr>) = only_in T d0 d"
  "T_d2d_invitations \<in> T \<Longrightarrow> only_in T d0 (d\<lparr>d2d_invitations_t := x_d2d_invitations\<rparr>) = only_in T d0 d"
  "T_dispatcher_invitations \<in> T \<Longrightarrow> only_in T d0 (d\<lparr>dispatcher_invitations_t := x_dispatcher_invitations\<rparr>) = only_in T d0 d"
  "T_conversations \<in> T \<Longrightarrow> only_in T d0 (d\<lparr>conversations_t := x_conversations\<rparr>) = only_in T d0 d"
  "T_messages \<in> T \<Longrightarrow> only_in T d0 (d\<lparr>messages_t := x_messages\<rparr>) = only_in T d0 d"
  unfolding only_in_def by (rule all_cong1, rename_tac t, case_tac t; auto)+

section \<open>Statements\<close>

lemma writes_cargo [writes_intro]:
  "T_route_points \<in> T \<Longrightarrow> stmt_keeps (only_in T d0) (delete_route_points cid)"
  "T_cargo \<in> T \<Longrightarrow> stmt_keeps (only_in T d0) (insert_cargo E p)"
  "T_offers \<in> T \<Longrightarrow> stmt_keeps (only_in T d0) (insert_offer cid carrier price currency comment)"
  "T_payments \<in> T \<Longrightarrow> stmt_keeps (only_in T d0) (insert_payment cid p')"
  "T_route_points \<in> T \<Longrightarrow> stmt_keeps (only_in T d0) (insert_route_point cid rp)"
  "T_cargo \<in> T \<Longrightarrow> stmt_keeps (only_in T d0) (update_cargo P f)"
  "T_offers \<in> T \<Longrightarrow> stmt_keeps (only_in T d0) (update_offers P' f')"
  "T_payments \<in> T \<Longrightarrow> stmt_keeps (only_in T d0) (update_payment cid p')"
  by (rule stmt_keepsI,
      auto simp: delete_route_points_def insert_cargo_def insert_offer_def insert_payment_def insert_route_point_def update_cargo_def update_offers_def update_payment_def Let_def q_write_def split: if_splits option.splits sum.splits)+

lemma writes_trips [writes_intro]:
  "T_trips \<in> T \<Longrightarrow> stmt_keeps (only_in T d0) (insert_trip cargoID offerID)"
  "T_recommendations \<in> T \<Longrightarrow> stmt_keeps (only_in T d0) (set_recommendation cargoID driverID status)"
  "T_trips \<in> T \<Longrightarrow> stmt_keeps (only_in T d0) (update_trips P f)"
  "T_recommendations \<in> T \<Longrightarrow> stmt_keeps (only_in T d0) (upsert_recommendation cargoID driverID dispatcherID)"
  by (rule stmt_keepsI,
      auto simp: insert_trip_def set_recommendation_def update_trips_def upsert_recommendation_def Let_def q_write_def split: if_splits option.splits sum.splits)+

lemma writes_drivers [writes_intro]:
  "T_deleted_drivers \<in> T \<Longrightarrow> stmt_keeps (only_in T d0) (archive_driver u)"
  "T_d2d_invitations \<in> T \<Longrightarrow> T_drivers \<in> T \<Longrightarrow> T_powers \<in> T \<Longrightarrow> T_recommendations \<in> T \<Longrightarrow> T_trailers \<in> T \<Longrightarrow> stmt_keeps (only_in T d0) (delete_driver u)"
  "T_drivers \<in> T \<Longrightarrow> stmt_keeps (only_in T d0) (insert_driver phone name status step)"
  "T_drivers \<in> T \<Longrightarrow> stmt_keeps (only_in T d0) (update_driver u P f)"
  "T_powers \<in> T \<Longrightarrow> stmt_keeps (only_in T d0) (upsert_power u new f')"
  "T_trailers \<in> T \<Longrightarrow> stmt_keeps (only_in T d0) (upsert_trailer u new' f'')"
  by (rule stmt_keepsI,
      auto simp: archive_driver_def delete_driver_def insert_driver_def update_driver_def upsert_power_def upsert_trailer_def Let_def q_write_def split: if_splits option.splits sum.splits)+

lemma writes_dispatchers [writes_intro]:
  "T_deleted_dispatchers \<in> T \<Longrightarrow> stmt_keeps (only_in T d0) (archive_dispatcher u)"
  "T_dcr \<in> T \<Longrightarrow> T_dispatchers \<in> T \<Longrightarrow> T_recommendations \<in> T \<Longrightarrow> stmt_keeps (only_in T d0) (delete_dispatcher u)"
  "T_d2d_invitations \<in> T \<Longrightarrow> stmt_keeps (only_in T d0) (insert_d2d token driverID dispatcherPhone expiresAt)"
  "T_dispatchers \<in> T \<Longrightarrow> stmt_keeps (only_in T d0) (insert_dispatcher p)"
  "T_dispatcher_invitations \<in> T \<Longrightarrow> stmt_keeps (only_in T d0) (insert_dispatcher_invitation token companyID role phone invitedBy expiresAt)"
  "T_driver_invitations \<in> T \<Longrightarrow> stmt_keeps (only_in T d0) (insert_driver_invitation token companyID' phone invitedBy byDispatcher expiresAt)"
  "T_dispatchers \<in> T \<Longrightarrow> stmt_keeps (only_in T d0) (update_dispatcher u f)"
  "T_dcr \<in> T \<Longrightarrow> stmt_keeps (only_in T d0) (upsert_dcr dispatcherID companyID role)"
  by (rule stmt_keepsI,
      auto simp: archive_dispatcher_def delete_dispatcher_def insert_d2d_def insert_dispatcher_def insert_dispatcher_invitation_def insert_driver_invitation_def update_dispatcher_def upsert_dcr_def Let_def q_write_def split: if_splits option.splits sum.splits)+

lemma writes_companies [writes_intro]:
  "T_ucr \<in> T \<Longrightarrow> stmt_keeps (only_in T d0) (delete_ucr userID companyID)"
  "T_audit \<in> T \<Longrightarrow> stmt_keeps (only_in T d0) (insert_audit userID' companyID' action entityType entityID oldData newData)"
  "T_companies \<in> T \<Longrightarrow> stmt_keeps (only_in T d0) (insert_company f)"
  "T_company_invitations \<in> T \<Longrightarrow> stmt_keeps (only_in T d0) (insert_company_invitation token companyID roleID email invitedBy expiresAt)"
  "T_company_users \<in> T \<Longrightarrow> stmt_keeps (only_in T d0) (insert_user E phone passwordHash firstName lastName companyID' role)"
  "T_ucr \<in> T \<Longrightarrow> stmt_keeps (only_in T d0) (update_ucr userID companyID newRoleID assignedBy)"
  "T_ucr \<in> T \<Longrightarrow> stmt_keeps (only_in T d0) (upsert_ucr userID companyID roleID assignedBy)"
  by (rule stmt_keepsI,
      auto simp: delete_ucr_def insert_audit_def insert_company_def insert_company_invitation_def insert_user_def update_ucr_def upsert_ucr_def Let_def q_write_def split: if_splits option.splits sum.splits)+

lemma writes_chat [writes_intro]:
  "T_messages \<in> T \<Longrightarrow> stmt_keeps (only_in T d0) (insert_message convID senderID body)"
  "T_messages \<in> T \<Longrightarrow> stmt_keeps (only_in T d0) (update_message messageID senderID f)"
  "T_conversations \<in> T \<Longrightarrow> stmt_keeps (only_in T d0) (upsert_conversation u1 u2)"
  by (rule stmt_keepsI,
      auto simp: insert_message_def update_message_def upsert_conversation_def Let_def q_write_def split: if_splits option.splits sum.splits)+

lemma writes_cargo_cols [writes_intro]: "T_cargo \<in> T \<Longrightarrow> stmt_keeps (only_in T d0) (update_cargo_cols E u p)"
  by (rule stmt_keepsI, auto simp: update_cargo_cols_def update_cargo_def split: sum.splits if_splits)

section \<open>Repositories\<close>

lemma keeps_statement_forms [writes_intro]:
  "stmt_keeps J (q_select_now f)" "stmt_keeps J (\<lambda>_ _ _. Inl e)"
  "stmt_keeps J q \<Longrightarrow> stmt_keeps J (\<lambda>now u d. if refused now u d then Inl e else q now u d)"
  by (auto simp: stmt_keeps_def q_select_now_def)

lemma keeps_statement_case [writes_intro]:
  "stmt_keeps J q \<Longrightarrow> (\<And>a. stmt_keeps J (r a)) \<Longrightarrow>
     stmt_keeps J (\<lambda>now u d. case x of None \<Rightarrow> q now u d | Some a \<Rightarrow> r a now u d)"
  by (cases x) simp_all

lemma keeps_db_clocks [writes_intro]: "keeps_db J clock" "keeps_db J new_uuid"
  by (intro reads_only_keeps reads_only_clock reads_only_new_uuid)+

lemma reads_cargo [writes_intro]:
  "keeps_db J (cargo_CountByDispatcher dispatcherID)"
  "keeps_db J (cargo_GetByID u includeDeleted)"
  "keeps_db J (cargo_GetOfferByID u)"
  "keeps_db J (cargo_GetOffers cid)"
  "keeps_db J (cargo_GetPayment cid)"
  "keeps_db J (cargo_GetRoutePoints cid)"
  "keeps_db J (cargo_List E f)"
  "keeps_db J (cargo_ListPendingModeration limit offset)"
  unfolding cargo_CountByDispatcher_def cargo_GetByID_def cargo_GetOfferByID_def cargo_GetOffers_def cargo_GetPayment_def
    cargo_GetRoutePoints_def cargo_List_def cargo_ListPendingModeration_def
  by ((rule writes_intro keeps_intro)+)

lemma writes_cargo_methods [writes_intro]:
  "T_offers \<in> T \<Longrightarrow> keeps_db (only_in T d0) (cargo_CreateOffer cid carrier price currency comment)"
  "T_cargo \<in> T \<Longrightarrow> keeps_db (only_in T d0) (cargo_Delete u)"
  "T_cargo \<in> T \<Longrightarrow> keeps_db (only_in T d0) (cargo_ModerationAccept u visibility)"
  "T_cargo \<in> T \<Longrightarrow> keeps_db (only_in T d0) (cargo_ModerationReject u reason)"
  "T_offers \<in> T \<Longrightarrow> keeps_db (only_in T d0) (cargo_RejectOffer offerID reason)"
  "T_cargo \<in> T \<Longrightarrow> keeps_db (only_in T d0) (cargo_SetCargoStatusCompleted u)"
  "T_cargo \<in> T \<Longrightarrow> keeps_db (only_in T d0) (cargo_SetCargoStatusInProgress u)"
  "T_cargo \<in> T \<Longrightarrow> keeps_db (only_in T d0) (cargo_SetStatus u newStatus)"
  unfolding cargo_CreateOffer_def cargo_Delete_def cargo_ModerationAccept_def cargo_ModerationReject_def cargo_RejectOffer_def
    cargo_SetCargoStatusCompleted_def cargo_SetCargoStatusInProgress_def cargo_SetStatus_def
  by ((rule keeps_db_transaction | rule keeps_db_block, assumption, rule tx_keeps_exec | erule keeps_db_tx_commit
      | rule writes_intro keeps_intro | assumption
      | (rule stmt_keepsI, auto simp: q_write_def Let_def split: if_splits option.splits sum.splits; fail))+)

lemma reads_trips [writes_intro]:
  "keeps_db J (recs_GetByCargoAndDriver cargoID driverID)"
  "keeps_db J (recs_ListByDriver driverID limit)"
  "keeps_db J (trips_GetByCargoID cargoID)"
  "keeps_db J (trips_GetByID u)"
  "keeps_db J (trips_GetByOfferID offerID)"
  "keeps_db J (trips_ListByCargoIDs cargoIDs)"
  "keeps_db J (trips_ListByDriver driverID limit)"
  unfolding recs_GetByCargoAndDriver_def recs_ListByDriver_def trips_GetByCargoID_def trips_GetByID_def trips_GetByOfferID_def
    trips_ListByCargoIDs_def trips_ListByDriver_def
  by ((rule writes_intro keeps_intro)+)

lemma writes_trips_methods [writes_intro]:
  "T_recommendations \<in> T \<Longrightarrow> keeps_db (only_in T d0) (recs_Accept cargoID driverID)"
  "T_recommendations \<in> T \<Longrightarrow> keeps_db (only_in T d0) (recs_Create cargoID driverID dispatcherID)"
  "T_recommendations \<in> T \<Longrightarrow> keeps_db (only_in T d0) (recs_Decline cargoID driverID)"
  "T_trips \<in> T \<Longrightarrow> keeps_db (only_in T d0) (trips_AssignDriver tripID driverID)"
  "T_trips \<in> T \<Longrightarrow> keeps_db (only_in T d0) (trips_Create cargoID offerID)"
  "T_trips \<in> T \<Longrightarrow> keeps_db (only_in T d0) (trips_DriverConfirm tripID driverID)"
  "T_trips \<in> T \<Longrightarrow> keeps_db (only_in T d0) (trips_DriverReject tripID driverID)"
  "T_trips \<in> T \<Longrightarrow> keeps_db (only_in T d0) (trips_SetStatus tripID newStatus)"
  unfolding recs_Accept_def recs_Create_def recs_Decline_def trips_AssignDriver_def trips_Create_def trips_DriverConfirm_def
    trips_DriverReject_def trips_SetStatus_def
  by ((rule keeps_db_transaction | rule keeps_db_block, assumption, rule tx_keeps_exec | erule keeps_db_tx_commit
      | rule writes_intro keeps_intro | assumption
      | (rule stmt_keepsI, auto simp: q_write_def Let_def split: if_splits option.splits sum.splits; fail))+)

lemma reads_drivers [writes_intro]:
  "keeps_db J (drivers_FindByID E u)"
  "keeps_db J (drivers_FindByPhone E phone)"
  "keeps_db J (drivers_FindByPhoneNormalized E phone)"
  "keeps_db J (drivers_GetPhoto u)"
  "keeps_db J (drivers_ListByFreelancerID E freelancerID limit)"
  "keeps_db J (drivers_SearchByPhone E phoneSearch limit)"
  "keeps_db J (select_driver E P)"
  unfolding drivers_FindByID_def drivers_FindByPhone_def drivers_FindByPhoneNormalized_def drivers_GetPhoto_def
    drivers_ListByFreelancerID_def drivers_SearchByPhone_def select_driver_def
  by ((rule writes_intro keeps_intro)+)

lemma writes_drivers_methods [writes_intro]:
  "T_drivers \<in> T \<Longrightarrow> keeps_db (only_in T d0) (drivers_ApplyFullDefaults u)"
  "T_drivers \<in> T \<Longrightarrow> keeps_db (only_in T d0) (drivers_CreateStart phone ownerName)"
  "T_d2d_invitations \<in> T \<Longrightarrow> T_deleted_drivers \<in> T \<Longrightarrow> T_drivers \<in> T \<Longrightarrow> T_powers \<in> T \<Longrightarrow> T_recommendations \<in> T \<Longrightarrow> T_trailers \<in> T \<Longrightarrow> keeps_db (only_in T d0) (drivers_DeleteAndArchive u)"
  "T_drivers \<in> T \<Longrightarrow> keeps_db (only_in T d0) (drivers_DeletePhoto u)"
  "T_drivers \<in> T \<Longrightarrow> keeps_db (only_in T d0) (drivers_SetCompanyID driverID companyID)"
  "T_drivers \<in> T \<Longrightarrow> keeps_db (only_in T d0) (drivers_SetFreelancerID driverID freelancerID)"
  "T_drivers \<in> T \<Longrightarrow> keeps_db (only_in T d0) (drivers_TouchOnline u)"
  "T_drivers \<in> T \<Longrightarrow> keeps_db (only_in T d0) (drivers_UnlinkFromFreelancer driverID freelancerID)"
  "T_drivers \<in> T \<Longrightarrow> keeps_db (only_in T d0) (drivers_UpdateDriverEditable u e)"
  "T_drivers \<in> T \<Longrightarrow> keeps_db (only_in T d0) (drivers_UpdateGeo u lat lon nextStep pushToken)"
  "T_drivers \<in> T \<Longrightarrow> keeps_db (only_in T d0) (drivers_UpdateHeartbeat u lat lon lastOnlineAt)"
  "T_drivers \<in> T \<Longrightarrow> T_powers \<in> T \<Longrightarrow> T_trailers \<in> T \<Longrightarrow> keeps_db (only_in T d0) (drivers_UpdateKYC u k)"
  "T_drivers \<in> T \<Longrightarrow> keeps_db (only_in T d0) (drivers_UpdateOnlineAt u t)"
  "T_drivers \<in> T \<Longrightarrow> keeps_db (only_in T d0) (drivers_UpdatePhone u newPhone)"
  "T_drivers \<in> T \<Longrightarrow> keeps_db (only_in T d0) (drivers_UpdatePhoto u bytes contentType)"
  "T_drivers \<in> T \<Longrightarrow> T_powers \<in> T \<Longrightarrow> keeps_db (only_in T d0) (drivers_UpdatePowerProfile u n)"
  "T_drivers \<in> T \<Longrightarrow> keeps_db (only_in T d0) (drivers_UpdatePushToken u pushToken')"
  "T_drivers \<in> T \<Longrightarrow> keeps_db (only_in T d0) (drivers_UpdateStep u step)"
  "T_drivers \<in> T \<Longrightarrow> T_trailers \<in> T \<Longrightarrow> keeps_db (only_in T d0) (drivers_UpdateTrailerProfile u n')"
  "T_drivers \<in> T \<Longrightarrow> T_powers \<in> T \<Longrightarrow> T_trailers \<in> T \<Longrightarrow> keeps_db (only_in T d0) (drivers_UpdateTransportType u driverType freelancerID' companyID' powerPlateType trailerPlateType nextStep nextStatus)"
  "T_drivers \<in> T \<Longrightarrow> keeps_db (only_in T d0) (exec_driver u f)"
  unfolding drivers_ApplyFullDefaults_def drivers_CreateStart_def drivers_DeleteAndArchive_def drivers_DeletePhoto_def
    drivers_SetCompanyID_def drivers_SetFreelancerID_def drivers_TouchOnline_def drivers_UnlinkFromFreelancer_def
    drivers_UpdateDriverEditable_def drivers_UpdateGeo_def drivers_UpdateHeartbeat_def drivers_UpdateKYC_def
    drivers_UpdateOnlineAt_def drivers_UpdatePhone_def drivers_UpdatePhoto_def drivers_UpdatePowerProfile_def
    drivers_UpdatePushToken_def drivers_UpdateStep_def drivers_UpdateTrailerProfile_def drivers_UpdateTransportType_def
    exec_driver_def
  by ((rule keeps_db_transaction | rule keeps_db_block, assumption, rule tx_keeps_exec | erule keeps_db_tx_commit
      | rule writes_intro keeps_intro | assumption
      | (rule stmt_keepsI, auto simp: q_write_def Let_def split: if_splits option.splits sum.splits; fail))+)

lemma reads_dispatchers [writes_intro]:
  "keeps_db J (d2d_GetByToken token)"
  "keeps_db J (d2d_ListByDispatcherPhone dispatcherPhone)"
  "keeps_db J (d2d_ListByDriverID driverID)"
  "keeps_db J (dcr_HasAccess dispatcherID companyID)"
  "keeps_db J (dcr_ListDispatchersByCompany companyID)"
  "keeps_db J (dispatchers_FindByID E u)"
  "keeps_db J (dispatchers_FindByPhone E phone)"
  "keeps_db J (dispatchers_GetPhoto u)"
  "keeps_db J (dispinv_GetByToken token)"
  "keeps_db J (draw_token E)"
  "keeps_db J (drvinv_GetByToken token)"
  "keeps_db J (drvinv_ListByInvitedBy dispatcherID)"
  "keeps_db J (drvinv_ListByPhone phone)"
  "keeps_db J (select_dispatcher E P)"
  "keeps_db J (unless_expired expires r)"
  unfolding d2d_GetByToken_def d2d_ListByDispatcherPhone_def d2d_ListByDriverID_def dcr_HasAccess_def
    dcr_ListDispatchersByCompany_def dispatchers_FindByID_def dispatchers_FindByPhone_def dispatchers_GetPhoto_def
    dispinv_GetByToken_def draw_token_def drvinv_GetByToken_def drvinv_ListByInvitedBy_def drvinv_ListByPhone_def
    select_dispatcher_def unless_expired_def
  by ((rule writes_intro keeps_intro)+)

lemma writes_dispatchers_methods [writes_intro]:
  "T_d2d_invitations \<in> T \<Longrightarrow> keeps_db (only_in T d0) (d2d_Create E driverID dispatcherPhone expiresIn)"
  "T_d2d_invitations \<in> T \<Longrightarrow> keeps_db (only_in T d0) (d2d_Delete token)"
  "T_dcr \<in> T \<Longrightarrow> keeps_db (only_in T d0) (dcr_Add dispatcherID companyID role)"
  "T_dispatchers \<in> T \<Longrightarrow> keeps_db (only_in T d0) (dispatchers_Create p)"
  "T_dcr \<in> T \<Longrightarrow> T_deleted_dispatchers \<in> T \<Longrightarrow> T_dispatchers \<in> T \<Longrightarrow> T_recommendations \<in> T \<Longrightarrow> keeps_db (only_in T d0) (dispatchers_DeleteAndArchive u)"
  "T_dispatchers \<in> T \<Longrightarrow> keeps_db (only_in T d0) (dispatchers_Touch u t)"
  "T_dispatchers \<in> T \<Longrightarrow> keeps_db (only_in T d0) (dispatchers_UpdateLastOnlineAt u t)"
  "T_dispatchers \<in> T \<Longrightarrow> keeps_db (only_in T d0) (dispatchers_UpdatePasswordHash u passwordHash)"
  "T_dispatchers \<in> T \<Longrightarrow> keeps_db (only_in T d0) (dispatchers_UpdatePhone u newPhone)"
  "T_dispatchers \<in> T \<Longrightarrow> keeps_db (only_in T d0) (dispatchers_UpdatePhoto u data contentType)"
  "T_dispatchers \<in> T \<Longrightarrow> keeps_db (only_in T d0) (dispatchers_UpdateProfile u p')"
  "T_dispatcher_invitations \<in> T \<Longrightarrow> keeps_db (only_in T d0) (dispinv_Create E companyID role phone invitedBy expiresIn)"
  "T_dispatcher_invitations \<in> T \<Longrightarrow> keeps_db (only_in T d0) (dispinv_Delete token)"
  "T_driver_invitations \<in> T \<Longrightarrow> keeps_db (only_in T d0) (drvinv_Create E companyID phone invitedBy expiresIn)"
  "T_driver_invitations \<in> T \<Longrightarrow> keeps_db (only_in T d0) (drvinv_CreateForFreelance E dispatcherID phone expiresIn)"
  "T_driver_invitations \<in> T \<Longrightarrow> keeps_db (only_in T d0) (drvinv_Delete token)"
  "T_dispatchers \<in> T \<Longrightarrow> keeps_db (only_in T d0) (exec_dispatcher u f)"
  unfolding d2d_Create_def d2d_Delete_def dcr_Add_def dispatchers_Create_def dispatchers_DeleteAndArchive_def
    dispatchers_Touch_def dispatchers_UpdateLastOnlineAt_def dispatchers_UpdatePasswordHash_def dispatchers_UpdatePhone_def
    dispatchers_UpdatePhoto_def dispatchers_UpdateProfile_def dispinv_Create_def dispinv_Delete_def drvinv_Create_def
    drvinv_CreateForFreelance_def drvinv_Delete_def exec_dispatcher_def
  by ((rule keeps_db_transaction | rule keeps_db_block, assumption, rule tx_keeps_exec | erule keeps_db_tx_commit
      | rule writes_intro keeps_intro | assumption
      | (rule stmt_keepsI, auto simp: q_write_def Let_def split: if_splits option.splits sum.splits; fail))+)

lemma reads_companies [writes_intro]:
  "keeps_db J (admins_FindByLogin login)"
  "keeps_db J (approles_FindByID E u)"
  "keeps_db J (approles_FindByName E name)"
  "keeps_db J (approles_ListAll E)"
  "keeps_db J (appusers_FindByID E u)"
  "keeps_db J (appusers_FindByPhone E phone)"
  "keeps_db J (appusers_SearchOwners E q limit)"
  "keeps_db J (coinv_GetByToken token)"
  "keeps_db J (companies_GetByIDTZ E u)"
  "keeps_db J (companies_ListForDispatcher dispatcherID)"
  "keeps_db J (companies_ListForUser userID)"
  "keeps_db J (select_role E P)"
  "keeps_db J (select_user E P')"
  "keeps_db J (ucr_GetRole userID companyID)"
  "keeps_db J (ucr_ListUsersByCompany E companyID limit offset)"
  unfolding admins_FindByLogin_def approles_FindByID_def approles_FindByName_def approles_ListAll_def appusers_FindByID_def
    appusers_FindByPhone_def appusers_SearchOwners_def coinv_GetByToken_def companies_GetByIDTZ_def
    companies_ListForDispatcher_def companies_ListForUser_def select_role_def select_user_def ucr_GetRole_def
    ucr_ListUsersByCompany_def
  by ((rule writes_intro keeps_intro)+)

lemma writes_companies_methods [writes_intro]:
  "T_company_users \<in> T \<Longrightarrow> keeps_db (only_in T d0) (appusers_Create E phone passwordHash firstName lastName companyID role)"
  "T_company_users \<in> T \<Longrightarrow> keeps_db (only_in T d0) (appusers_UpdateCompanyID userID companyID)"
  "T_audit \<in> T \<Longrightarrow> keeps_db (only_in T d0) (audit_Log userID' companyID action entityType entityID oldData newData)"
  "T_company_invitations \<in> T \<Longrightarrow> keeps_db (only_in T d0) (coinv_Create E companyID' roleID invitedBy email expiresIn)"
  "T_company_invitations \<in> T \<Longrightarrow> keeps_db (only_in T d0) (coinv_Delete u)"
  "T_companies \<in> T \<Longrightarrow> keeps_db (only_in T d0) (companies_Create p)"
  "T_companies \<in> T \<Longrightarrow> keeps_db (only_in T d0) (companies_CreateByOwner p')"
  "T_companies \<in> T \<Longrightarrow> keeps_db (only_in T d0) (companies_CreateWithOwnerDispatcher name ownerDispatcherID)"
  "T_companies \<in> T \<Longrightarrow> keeps_db (only_in T d0) (companies_SetOwner companyID' ownerID)"
  "T_ucr \<in> T \<Longrightarrow> keeps_db (only_in T d0) (ucr_Add userID companyID' roleID assignedBy)"
  "T_ucr \<in> T \<Longrightarrow> keeps_db (only_in T d0) (ucr_Remove userID companyID')"
  "T_ucr \<in> T \<Longrightarrow> keeps_db (only_in T d0) (ucr_UpdateRole userID companyID' newRoleID assignedBy)"
  unfolding appusers_Create_def appusers_UpdateCompanyID_def audit_Log_def coinv_Create_def coinv_Delete_def
    companies_Create_def companies_CreateByOwner_def companies_CreateWithOwnerDispatcher_def companies_SetOwner_def ucr_Add_def
    ucr_Remove_def ucr_UpdateRole_def
  by ((rule keeps_db_transaction | rule keeps_db_block, assumption, rule tx_keeps_exec | erule keeps_db_tx_commit
      | rule writes_intro keeps_intro | assumption
      | (rule stmt_keepsI, auto simp: q_write_def Let_def split: if_splits option.splits sum.splits; fail))+)

lemma reads_chat [writes_intro]:
  "keeps_db J (chat_GetConversation convID userID)"
  "keeps_db J (chat_GetMessageByID messageID userID)"
  "keeps_db J (chat_ListConversations userID limit)"
  "keeps_db J (chat_ListMessages convID userID cursor limit)"
  unfolding chat_GetConversation_def chat_GetMessageByID_def chat_ListConversations_def chat_ListMessages_def
  by ((rule writes_intro keeps_intro)+)

lemma writes_chat_methods [writes_intro]:
  "T_messages \<in> T \<Longrightarrow> keeps_db (only_in T d0) (chat_CreateMessage convID senderID body)"
  "T_messages \<in> T \<Longrightarrow> keeps_db (only_in T d0) (chat_DeleteMessage messageID senderID)"
  "T_conversations \<in> T \<Longrightarrow> keeps_db (only_in T d0) (chat_GetOrCreateConversation E userID peerID)"
  "T_messages \<in> T \<Longrightarrow> keeps_db (only_in T d0) (chat_UpdateMessage messageID senderID body)"
  unfolding chat_CreateMessage_def chat_DeleteMessage_def chat_GetOrCreateConversation_def chat_UpdateMessage_def
  by ((rule keeps_db_transaction | rule keeps_db_block, assumption, rule tx_keeps_exec | erule keeps_db_tx_commit
      | rule writes_intro keeps_intro | assumption
      | (rule stmt_keepsI, auto simp: q_write_def Let_def split: if_splits option.splits sum.splits; fail))+)

section \<open>Transactions on cargo\<close>

lemma tx_writes [writes_intro]:
  "T_route_points \<in> T \<Longrightarrow> tx_keeps (only_in T d0) (insert_route_points cid rps)"
  "T_payments \<in> T \<Longrightarrow> tx_keeps (only_in T d0) (insert_payment_opt cid pay)"
  "T_cargo \<in> T \<Longrightarrow> tx_keeps (only_in T d0) (update_columns E u p)"
  "T_route_points \<in> T \<Longrightarrow> tx_keeps (only_in T d0) (replace_route_points u status rps')"
  "T_payments \<in> T \<Longrightarrow> tx_keeps (only_in T d0) (replace_payment u status pay)"
proof -
  show points: "T_route_points \<in> T \<Longrightarrow> tx_keeps (only_in T d0) (insert_route_points cid rps)" for cid rps
  proof (induction rps)
    case Nil
    then show ?case by (simp add: tx_keeps_def)
  next
    case (Cons rp rps)
    then show ?case unfolding insert_route_points_Cons by (intro tx_keeps_intros tx_keeps_exec writes_intro)
  qed
  show "T_payments \<in> T \<Longrightarrow> tx_keeps (only_in T d0) (insert_payment_opt cid pay)"
    unfolding insert_payment_opt_def [abs_def] by (intro tx_keeps_intros tx_keeps_exec writes_intro)
  show "T_cargo \<in> T \<Longrightarrow> tx_keeps (only_in T d0) (update_columns E u p)"
    unfolding update_columns_def [abs_def] by (intro tx_keeps_intros tx_keeps_exec writes_intro)
  show "T_route_points \<in> T \<Longrightarrow> tx_keeps (only_in T d0) (replace_route_points u status rps')"
    unfolding replace_route_points_def [abs_def] by (intro tx_keeps_intros tx_keeps_exec writes_intro points)
  show "T_payments \<in> T \<Longrightarrow> tx_keeps (only_in T d0) (replace_payment u status pay)"
    unfolding replace_payment_def [abs_def] payment_exists_def
    by (intro tx_keeps_intros tx_keeps_exec writes_intro stmt_keeps_read)
qed

lemma writes_cargo_transactions [writes_intro]:
  "T_cargo \<in> T \<Longrightarrow> T_route_points \<in> T \<Longrightarrow> T_payments \<in> T \<Longrightarrow> keeps_db (only_in T d0) (cargo_Create E cp)"
  "T_cargo \<in> T \<Longrightarrow> T_route_points \<in> T \<Longrightarrow> T_payments \<in> T \<Longrightarrow> keeps_db (only_in T d0) (cargo_Update E u up)"
  "T_cargo \<in> T \<Longrightarrow> T_offers \<in> T \<Longrightarrow> keeps_db (only_in T d0) (cargo_AcceptOffer offerID)"
  unfolding cargo_Create_def cargo_Update_def cargo_AcceptOffer_def
  by ((rule keeps_db_transaction
      | rule keeps_db_block, assumption, (rule tx_writes, assumption | rule tx_keeps_exec)
      | erule keeps_db_tx_commit | rule writes_intro keeps_intro | assumption)+)

section \<open>Stores, codes and connections\<close>

lemmas keeps_stores [writes_intro] =
  reads_only_stores [THEN reads_only_keeps] reads_only_SendOTP [THEN reads_only_keeps]
  reads_only_otp_digits [THEN reads_only_keeps] reads_only_get_now [THEN reads_only_keeps]
  reads_only_items [THEN reads_only_keeps]

lemma keeps_db_case_bool [writes_intro]:
  "keeps_db J m \<Longrightarrow> keeps_db J n \<Longrightarrow> keeps_db J (case b of True \<Rightarrow> m | False \<Rightarrow> n)"
  by (simp split: bool.split)


lemma keeps_helpers [writes_intro]:
  "keeps_db (J) (HashPassword E pw)"
  "keeps_db (J) (GenerateNumericOTP len)"
  "keeps_db (J) (session_checked withStore sid)"
  "keeps_db (J) (RequireAdmin E m withStore hUserToken)"
  "keeps_db (J) (RequireDriver E m withStore hUserToken)"
  "keeps_db (J) (RequireDispatcher E m withStore hUserToken)"
  "keeps_db (J) (RequireAppUser E m withStore hUserToken)"
  "keeps_db (J) (tryToken E m withStore raw)"
  "keeps_db (J) (RequireChatUser E m withStore qUserID qToken hUserID hUserToken)"
  "keeps_db (J) (getCompanyRole E userID companyID)"
  "keeps_db (J) (issue_only E m role userID companyID)"
  "keeps_db (J) (open_session E m rs role userID)"
  "keeps_db (J) (login_or_register E h phone)"
  "keeps_db (J) (send_code E tg store ns otpTTL otpLen ip phone)"
  "keeps_db (J) (logged_in tokens)"
  unfolding HashPassword_def GenerateNumericOTP_def session_checked_def RequireAdmin_def RequireDriver_def RequireDispatcher_def
    RequireAppUser_def tryToken_def RequireChatUser_def getCompanyRole_def issue_only_def open_session_def login_or_register_def
    send_code_def logged_in_def Let_def
  by ((rule writes_intro keeps_intro | assumption)+)

lemma reads_entry [writes_intro]:
  "keeps_db (J) (AuthHandler_SendOTP E h ip body)"
  "keeps_db (J) (AuthHandler_VerifyOTP E h body')"
  "keeps_db (J) (AuthHandler_Refresh E h body)"
  "keeps_db (J) (AuthHandler_Logout E h body'')"
  "keeps_db (J) (CompanyUserAuth_SendOTP E h' ip body)"
  "keeps_db (J) (CompanyUserAuth_VerifyOTP E h' body')"
  "keeps_db (J) (AdminAuth_LoginPassword E m rs body''')"
  "keeps_db (J) (DispatcherAuth_SendOTP E h'' ip body)"
  "keeps_db (J) (DispatcherAuth_VerifyOTP E h'' body')"
  "keeps_db (J) (DispatcherAuth_LoginPassword E h'' body'''')"
  "keeps_db (J) (DispatcherAuth_ResetPasswordRequest E h'' body)"
  "keeps_db (J) (DispatcherAuth_Logout E h'' body'')"
  unfolding AuthHandler_SendOTP_def AuthHandler_VerifyOTP_def AuthHandler_Refresh_def AuthHandler_Logout_def
    CompanyUserAuth_SendOTP_def CompanyUserAuth_VerifyOTP_def AdminAuth_LoginPassword_def DispatcherAuth_SendOTP_def
    DispatcherAuth_VerifyOTP_def DispatcherAuth_LoginPassword_def DispatcherAuth_ResetPasswordRequest_def
    DispatcherAuth_Logout_def Let_def sign_in_dispatcher_def code_session_def
  by ((rule writes_intro keeps_intro | assumption)+)

lemma writes_entry [writes_intro]:
  "T_drivers \<in> T \<Longrightarrow> keeps_db (only_in T d0) (RegistrationHandler_Start E h body)"
  "T_company_users \<in> T \<Longrightarrow> keeps_db (only_in T d0) (CompanyUserRegistration_Complete E h' body')"
  "T_dispatchers \<in> T \<Longrightarrow> keeps_db (only_in T d0) (DispatcherAuth_ResetPasswordConfirm E h'' body'')"
  "T_dispatchers \<in> T \<Longrightarrow> keeps_db (only_in T d0) (DispatcherRegistration_Complete E h''' body''')"
  unfolding RegistrationHandler_Start_def CompanyUserRegistration_Complete_def DispatcherAuth_ResetPasswordConfirm_def
    DispatcherRegistration_Complete_def Let_def sign_in_dispatcher_def store_password_def
  by ((rule writes_intro keeps_intro | assumption)+)

lemma reads_api [writes_intro]:
  "keeps_db (J) (CargoHandler_List E h header q)"
  "keeps_db (J) (CargoHandler_GetByID E idParam)"
  "keeps_db (J) (CargoHandler_ListOffers E idParam)"
  "keeps_db (J) (TripsHandler_List E q)"
  "keeps_db (J) (TripsHandler_Get E idParam)"
  unfolding CargoHandler_List_def CargoHandler_GetByID_def CargoHandler_ListOffers_def TripsHandler_List_def
    TripsHandler_Get_def Let_def driver_company_def
  by ((rule writes_intro keeps_intro | assumption)+)

lemma writes_api [writes_intro]:
  "T_cargo \<in> T \<Longrightarrow> T_payments \<in> T \<Longrightarrow> T_route_points \<in> T \<Longrightarrow> keeps_db (only_in T d0) (CargoHandler_Create E h header body)"
  "T_cargo \<in> T \<Longrightarrow> T_route_points \<in> T \<Longrightarrow> T_payments \<in> T \<Longrightarrow> keeps_db (only_in T d0) (CargoHandler_Update E idParam body')"
  "T_cargo \<in> T \<Longrightarrow> keeps_db (only_in T d0) (CargoHandler_Delete E idParam)"
  "T_cargo \<in> T \<Longrightarrow> keeps_db (only_in T d0) (CargoHandler_PatchStatus E idParam body'')"
  "T_offers \<in> T \<Longrightarrow> keeps_db (only_in T d0) (CargoHandler_CreateOffer E h idParam body''')"
  "T_cargo \<in> T \<Longrightarrow> T_offers \<in> T \<Longrightarrow> T_trips \<in> T \<Longrightarrow> keeps_db (only_in T d0) (CargoHandler_AcceptOffer E h idParam)"
  unfolding CargoHandler_Create_def CargoHandler_Update_def CargoHandler_Delete_def CargoHandler_PatchStatus_def
    CargoHandler_CreateOffer_def CargoHandler_AcceptOffer_def Let_def open_trip_def finish_offer_def
  by ((rule writes_intro keeps_intro | assumption)+)

lemma reads_admin [writes_intro]:
  "keeps_db (J) (AdminCompanies_SearchOwners E qQ)"
  "keeps_db (J) (Moderation_ListPending E q)"
  unfolding AdminCompanies_SearchOwners_def Moderation_ListPending_def Let_def
  by ((rule writes_intro keeps_intro | assumption)+)

lemma writes_admin [writes_intro]:
  "T_companies \<in> T \<Longrightarrow> keeps_db (only_in T d0) (AdminCompanies_Create E adminID body)"
  "T_companies \<in> T \<Longrightarrow> T_company_users \<in> T \<Longrightarrow> keeps_db (only_in T d0) (AdminCompanies_SetOwner E pId body')"
  "T_cargo \<in> T \<Longrightarrow> keeps_db (only_in T d0) (Moderation_Accept E idParam body')"
  "T_cargo \<in> T \<Longrightarrow> keeps_db (only_in T d0) (Moderation_Reject E idParam body')"
  unfolding AdminCompanies_Create_def AdminCompanies_SetOwner_def Moderation_Accept_def Moderation_Reject_def Let_def
    as_user_def
  by ((rule writes_intro keeps_intro | assumption)+)

lemma reads_driver [writes_intro]:
  "keeps_db (J) (Profile_GetPhoto driverID)"
  "keeps_db (J) (Profile_PhoneChangeRequest E h driverID body)"
  "keeps_db (J) (TripsHandler_ListMy E driverID q)"
  "keeps_db (J) (DriverInvitations_ListInvitations E driverID)"
  "keeps_db (J) (DriverDispatchers_ListMyDispatchers E driverID)"
  "keeps_db (J) (D2D_ListSentByDriver driverID)"
  "keeps_db (J) (Recommendations_ListRecommendedForDriver E driverID q)"
  unfolding Profile_GetPhoto_def Profile_PhoneChangeRequest_def TripsHandler_ListMy_def DriverInvitations_ListInvitations_def
    DriverDispatchers_ListMyDispatchers_def D2D_ListSentByDriver_def Recommendations_ListRecommendedForDriver_def Let_def
    code_session_def freelance_items_def
  by ((rule writes_intro keeps_intro | assumption)+)

lemma writes_profile [writes_intro]:
  "T_drivers \<in> T \<Longrightarrow> keeps_db (only_in T d0) (Profile_Get E driverID)"
  "T_drivers \<in> T \<Longrightarrow> keeps_db (only_in T d0) (Profile_PatchDriver E driverID body)"
  "T_drivers \<in> T \<Longrightarrow> keeps_db (only_in T d0) (Profile_Heartbeat E driverID body')"
  "T_drivers \<in> T \<Longrightarrow> keeps_db (only_in T d0) (Profile_UploadPhoto driverID form)"
  "T_drivers \<in> T \<Longrightarrow> keeps_db (only_in T d0) (Profile_DeletePhoto driverID)"
  "T_drivers \<in> T \<Longrightarrow> keeps_db (only_in T d0) (Profile_PhoneChangeVerify E h body'')"
  "T_drivers \<in> T \<Longrightarrow> T_powers \<in> T \<Longrightarrow> keeps_db (only_in T d0) (Profile_PatchPower E driverID body''')"
  "T_drivers \<in> T \<Longrightarrow> T_trailers \<in> T \<Longrightarrow> keeps_db (only_in T d0) (Profile_PatchTrailer E driverID body'''')"
  "T_d2d_invitations \<in> T \<Longrightarrow> T_deleted_drivers \<in> T \<Longrightarrow> T_drivers \<in> T \<Longrightarrow> T_powers \<in> T \<Longrightarrow> T_recommendations \<in> T \<Longrightarrow> T_trailers \<in> T \<Longrightarrow> keeps_db (only_in T d0) (Profile_Delete driverID)"
  "T_drivers \<in> T \<Longrightarrow> keeps_db (only_in T d0) (RegistrationHandler_GeoPush E driverID body''''')"
  "T_drivers \<in> T \<Longrightarrow> T_powers \<in> T \<Longrightarrow> T_trailers \<in> T \<Longrightarrow> keeps_db (only_in T d0) (RegistrationHandler_TransportType E driverID body'''''')"
  "T_drivers \<in> T \<Longrightarrow> T_powers \<in> T \<Longrightarrow> T_trailers \<in> T \<Longrightarrow> keeps_db (only_in T d0) (KYC_Submit E driverID body''''''')"
  unfolding Profile_Get_def Profile_PatchDriver_def Profile_Heartbeat_def Profile_UploadPhoto_def Profile_DeletePhoto_def
    Profile_PhoneChangeVerify_def Profile_PatchPower_def Profile_PatchTrailer_def Profile_Delete_def
    RegistrationHandler_GeoPush_def RegistrationHandler_TransportType_def KYC_Submit_def Let_def event_driver_def
    upload_photo_def
  by ((rule writes_intro keeps_intro | assumption)+)

lemma writes_driver [writes_intro]:
  "T_trips \<in> T \<Longrightarrow> keeps_db (only_in T d0) (TripsHandler_DriverConfirm E driverID idParam)"
  "T_trips \<in> T \<Longrightarrow> keeps_db (only_in T d0) (TripsHandler_DriverReject E driverID idParam)"
  "T_cargo \<in> T \<Longrightarrow> T_trips \<in> T \<Longrightarrow> keeps_db (only_in T d0) (TripsHandler_PatchStatus E hasCargoRepo driverID idParam body)"
  "T_driver_invitations \<in> T \<Longrightarrow> T_drivers \<in> T \<Longrightarrow> keeps_db (only_in T d0) (DriverInvitations_Accept E driverID body)"
  "T_driver_invitations \<in> T \<Longrightarrow> keeps_db (only_in T d0) (DriverInvitations_Decline E driverID body)"
  "T_drivers \<in> T \<Longrightarrow> keeps_db (only_in T d0) (DriverDispatchers_UnlinkDispatcher E driverID pDispatcherId)"
  "T_d2d_invitations \<in> T \<Longrightarrow> keeps_db (only_in T d0) (D2D_CreateFromDriver E driverID body)"
  "T_d2d_invitations \<in> T \<Longrightarrow> keeps_db (only_in T d0) (D2D_CancelByDriver driverID pToken)"
  "T_cargo \<in> T \<Longrightarrow> T_offers \<in> T \<Longrightarrow> T_recommendations \<in> T \<Longrightarrow> T_trips \<in> T \<Longrightarrow> keeps_db (only_in T d0) (Recommendations_AcceptRecommendation E hasTripsRepo driverID idParam)"
  "T_recommendations \<in> T \<Longrightarrow> keeps_db (only_in T d0) (Recommendations_DeclineRecommendation E driverID idParam)"
  unfolding TripsHandler_DriverConfirm_def TripsHandler_DriverReject_def TripsHandler_PatchStatus_def
    DriverInvitations_Accept_def DriverInvitations_Decline_def DriverDispatchers_UnlinkDispatcher_def D2D_CreateFromDriver_def
    D2D_CancelByDriver_def Recommendations_AcceptRecommendation_def Recommendations_DeclineRecommendation_def Let_def
    my_invitation_def sync_cargo_def open_trip_def already_linked_def
  by ((rule writes_intro keeps_intro | assumption)+)

lemma reads_dispatcher [writes_intro]:
  "keeps_db (J) (DispatcherProfile_Get E u)"
  "keeps_db (J) (DispatcherProfile_GetPhoto u)"
  "keeps_db (J) (DispatcherProfile_PhoneChangeRequest E h u body)"
  "keeps_db (J) (DispatcherCompanies_ListMyCompanies E dispatcherID)"
  "keeps_db (J) (DispatcherCompanies_SwitchCompany E m uuid_tag dispatcherID body)"
  "keeps_db (J) (DriverInvitations_ListSent E dispatcherID)"
  "keeps_db (J) (DriverInvitations_FindDrivers E qPhone qLimit)"
  "keeps_db (J) (DriverInvitations_ListMyDrivers E dispatcherID qLimit)"
  "keeps_db (J) (D2D_ListReceivedByDispatcher E dispatcherID)"
  unfolding DispatcherProfile_Get_def DispatcherProfile_GetPhoto_def DispatcherProfile_PhoneChangeRequest_def
    DispatcherCompanies_ListMyCompanies_def DispatcherCompanies_SwitchCompany_def DriverInvitations_ListSent_def
    DriverInvitations_FindDrivers_def DriverInvitations_ListMyDrivers_def D2D_ListReceivedByDispatcher_def Let_def
    code_session_def with_dispatcher_def ok_dispatcher_def
  by ((rule writes_intro keeps_intro | assumption)+)

lemma writes_dispatcher_profile [writes_intro]:
  "T_dispatchers \<in> T \<Longrightarrow> keeps_db (only_in T d0) (DispatcherProfile_Patch E u body)"
  "T_dispatchers \<in> T \<Longrightarrow> keeps_db (only_in T d0) (DispatcherProfile_UploadPhoto u form)"
  "T_dispatchers \<in> T \<Longrightarrow> keeps_db (only_in T d0) (DispatcherProfile_ChangePassword E u body')"
  "T_dispatchers \<in> T \<Longrightarrow> keeps_db (only_in T d0) (DispatcherProfile_PhoneChangeVerify E h body'')"
  "T_dcr \<in> T \<Longrightarrow> T_deleted_dispatchers \<in> T \<Longrightarrow> T_dispatchers \<in> T \<Longrightarrow> T_recommendations \<in> T \<Longrightarrow> keeps_db (only_in T d0) (DispatcherProfile_Delete u)"
  unfolding DispatcherProfile_Patch_def DispatcherProfile_UploadPhoto_def DispatcherProfile_ChangePassword_def
    DispatcherProfile_PhoneChangeVerify_def DispatcherProfile_Delete_def Let_def upload_photo_def ok_dispatcher_def
    store_password_def
  by ((rule writes_intro keeps_intro | assumption)+)

lemma writes_dispatcher [writes_intro]:
  "T_dispatcher_invitations \<in> T \<Longrightarrow> keeps_db (only_in T d0) (DispatcherInvitations_CreateInvitation E dispatcherID pCompanyId body)"
  "T_dcr \<in> T \<Longrightarrow> T_dispatcher_invitations \<in> T \<Longrightarrow> keeps_db (only_in T d0) (DispatcherInvitations_Accept E dispatcherID body')"
  "T_dispatcher_invitations \<in> T \<Longrightarrow> keeps_db (only_in T d0) (DispatcherInvitations_Decline body')"
  "T_driver_invitations \<in> T \<Longrightarrow> keeps_db (only_in T d0) (DriverInvitations_CreateForFreelance E dispatcherID body'')"
  "T_driver_invitations \<in> T \<Longrightarrow> keeps_db (only_in T d0) (DriverInvitations_CancelInvitation dispatcherID pToken)"
  "T_driver_invitations \<in> T \<Longrightarrow> keeps_db (only_in T d0) (DriverInvitations_Create E dispatcherID pCompanyId body')"
  "T_drivers \<in> T \<Longrightarrow> keeps_db (only_in T d0) (DriverInvitations_UnlinkDriver E dispatcherID pDriverId)"
  "T_d2d_invitations \<in> T \<Longrightarrow> T_drivers \<in> T \<Longrightarrow> keeps_db (only_in T d0) (D2D_AcceptByDispatcher E dispatcherID body')"
  "T_d2d_invitations \<in> T \<Longrightarrow> keeps_db (only_in T d0) (D2D_DeclineByDispatcher E dispatcherID body')"
  "T_drivers \<in> T \<Longrightarrow> T_powers \<in> T \<Longrightarrow> keeps_db (only_in T d0) (DriverInvitations_SetDriverPower E dispatcherID pDriverId body''')"
  "T_drivers \<in> T \<Longrightarrow> T_trailers \<in> T \<Longrightarrow> keeps_db (only_in T d0) (DriverInvitations_SetDriverTrailer E dispatcherID pDriverId body'''')"
  "T_trips \<in> T \<Longrightarrow> keeps_db (only_in T d0) (TripsHandler_AssignDriver E uuid_tag idParam body')"
  "T_offers \<in> T \<Longrightarrow> keeps_db (only_in T d0) (CargoHandler_RejectOfferDispatcher E dispatcherID idParam body')"
  "T_recommendations \<in> T \<Longrightarrow> keeps_db (only_in T d0) (Recommendations_Recommend E dispatcherID idParam body''''')"
  unfolding DispatcherInvitations_CreateInvitation_def DispatcherInvitations_Accept_def DispatcherInvitations_Decline_def
    DriverInvitations_CreateForFreelance_def DriverInvitations_CancelInvitation_def DriverInvitations_Create_def
    DriverInvitations_UnlinkDriver_def D2D_AcceptByDispatcher_def D2D_DeclineByDispatcher_def
    DriverInvitations_SetDriverPower_def DriverInvitations_SetDriverTrailer_def TripsHandler_AssignDriver_def
    CargoHandler_RejectOfferDispatcher_def Recommendations_Recommend_def Let_def own_driver_def updated_driver_def
    invited_phone_def with_dispatcher_def invitation_for_me_def
  by ((rule writes_intro keeps_intro | assumption)+)

lemma reads_member [writes_intro]:
  "keeps_db (J) (CompanyTZ_ListMyCompanies E userID current)"
  "keeps_db (J) (CompanyTZ_SwitchCompany E m userID body)"
  "keeps_db (J) (CompanyTZ_ListCompanyUsers E userID pCompanyId qPage qLimit)"
  unfolding CompanyTZ_ListMyCompanies_def CompanyTZ_SwitchCompany_def CompanyTZ_ListCompanyUsers_def Let_def as_user_def
    as_member_def
  by ((rule writes_intro keeps_intro | assumption)+)

lemma writes_member [writes_intro]:
  "T_audit \<in> T \<Longrightarrow> T_companies \<in> T \<Longrightarrow> T_ucr \<in> T \<Longrightarrow> keeps_db (only_in T d0) (CompanyTZ_CreateCompany E userID body)"
  "T_audit \<in> T \<Longrightarrow> T_company_invitations \<in> T \<Longrightarrow> keeps_db (only_in T d0) (CompanyTZ_CreateInvitation E userID host pCompanyId body')"
  "T_audit \<in> T \<Longrightarrow> T_company_invitations \<in> T \<Longrightarrow> T_ucr \<in> T \<Longrightarrow> keeps_db (only_in T d0) (CompanyTZ_AcceptInvitation E userID body'')"
  "T_audit \<in> T \<Longrightarrow> T_ucr \<in> T \<Longrightarrow> keeps_db (only_in T d0) (CompanyTZ_UpdateUserRole E userID pCompanyId pUserId body'')"
  "T_audit \<in> T \<Longrightarrow> T_ucr \<in> T \<Longrightarrow> keeps_db (only_in T d0) (CompanyTZ_RemoveUser E userID pCompanyId pUserId)"
  unfolding CompanyTZ_CreateCompany_def CompanyTZ_CreateInvitation_def CompanyTZ_AcceptInvitation_def
    CompanyTZ_UpdateUserRole_def CompanyTZ_RemoveUser_def Let_def as_user_def as_member_def
  by ((rule writes_intro keeps_intro | assumption)+)

section \<open>Chat\<close>

lemma keeps_hub [writes_intro]: "keeps_db J (on_hub f)" "keeps_db J (hub_get g)"
  unfolding keeps_db_def by (rule keepsI, auto simp: on_hub_def hub_get_def Let_def split: option.splits prod.splits)+

lemma reads_presence [writes_intro]:
  "keeps_db (J) (PresenceStore_SetOnline E userID)"
  "keeps_db (J) (PresenceStore_SetOffline E userID)"
  "keeps_db (J) (PresenceStore_Heartbeat E userID)"
  "keeps_db (J) (PresenceStore_IsOnline E userID)"
  "keeps_db (J) (PresenceStore_LastSeen E userID)"
  "keeps_db (J) (PresenceStore_SetTyping E convID userID)"
  "keeps_db (J) (PresenceStore_ClearTyping E convID userID)"
  "keeps_db (J) (PresenceStore_IsTyping E convID userID)"
  "keeps_db (J) (PresenceStore_GetPresence E userID convID')"
  "keeps_db (J) (OnTypingPeer E convID fromUserID)"
  "keeps_db (J) (Hub_BroadcastTyping E convID fromUserID)"
  "keeps_db (J) (Hub_Unregister E c)"
  unfolding PresenceStore_SetOnline_def PresenceStore_SetOffline_def PresenceStore_Heartbeat_def PresenceStore_IsOnline_def
    PresenceStore_LastSeen_def PresenceStore_SetTyping_def PresenceStore_ClearTyping_def PresenceStore_IsTyping_def
    PresenceStore_GetPresence_def OnTypingPeer_def Hub_BroadcastTyping_def Hub_Unregister_def Let_def
  by ((rule writes_intro keeps_intro | assumption)+)

lemma keeps_ReadPump [writes_intro]: "keeps_db J (ReadPump E u fs)"
proof (induction fs)
  case Nil
  then show ?case by (simp add: keeps_db_return)
next
  case (Cons f fs)
  have "keeps_db J (case f of
        Envelope typ (Some conv) \<Rightarrow>
          if typ = ''typing'' \<and> conv \<noteq> [] then Hub_BroadcastTyping E (parsed_uuid E conv) u else ret True
      | _ \<Rightarrow> ret True)"
    by (cases f) (auto intro!: keeps_db_case_option keeps_db_if keeps_db_return reads_presence)
  with Cons.IH show ?case unfolding ReadPump.simps by (intro keeps_db_bind keeps_db_if keeps_db_return)
qed

lemma writes_chat_handlers [writes_intro]:
  "keeps_db (J) (Chat_ListConversations E userID q)"
  "T_conversations \<in> T \<Longrightarrow> keeps_db (only_in T d0) (Chat_GetOrCreateConversation E userID body)"
  "keeps_db (J) (Chat_ListMessages E userID convID q)"
  "T_messages \<in> T \<Longrightarrow> keeps_db (only_in T d0) (Chat_SendMessage E userID convID body)"
  "T_messages \<in> T \<Longrightarrow> keeps_db (only_in T d0) (Chat_EditMessage E userID msgID body)"
  "T_messages \<in> T \<Longrightarrow> keeps_db (only_in T d0) (Chat_DeleteMessage E userID msgID)"
  "keeps_db (J) (Chat_GetPresence E userID' q)"
  "keeps_db (J) (ServeWS E userID upgraded frames)"
  unfolding Chat_ListConversations_def Chat_GetOrCreateConversation_def Chat_ListMessages_def Chat_SendMessage_def
    Chat_EditMessage_def Chat_DeleteMessage_def Chat_GetPresence_def ServeWS_def Let_def as_user_def with_id_def
    message_body_def
  by ((rule writes_intro keeps_intro | assumption)+)

end
