(* ===== verification/Config.thy ===== *)
theory Config
  imports Gateway Cargo_Handler "HOL-Library.List_Lexorder" "HOL-Library.Char_ord"
begin

text \<open>
  The configuration (\<open>internal/config\<close>): the variables of the environment with their defaults, and the search for the file
  \<open>.env\<close> that is loaded into the environment before.
\<close>

section \<open>Variables\<close>

text \<open>\<open>os.Getenv\<close>: the empty text for a variable that is not set.\<close>

type_synonym env = "string \<Rightarrow> string"

text \<open>A function returns, fails with an error, or panics.\<close>

datatype 'a outcome = Returns 'a | Fails string | Panics

record Config =
  AppEnv :: string
  HTTPAddr :: string
  ClientTokenExpected :: string
  DatabaseURL :: string
  RedisAddr :: string
  RedisPassword :: string
  RedisDB :: int
  JWTSigningKey :: string
  JWTAccessTTL :: duration
  JWTRefreshTTL :: duration
  OTPLength :: int
  OTPTTL :: duration
  OTPResendCooldown :: duration
  OTPMaxAttempts :: int
  OTPSendLimitPerPhonePerHour :: int
  OTPSendLimitPerIPPerHour :: int
  OTPSendWindow :: duration
  OTPVerifyAttemptsPerPhone :: int
  OTPVerifyWindowSeconds :: int
  TelegramGatewayBaseURL :: string
  TelegramGatewayToken :: string
  TelegramGatewaySenderID :: string
  TelegramGatewayBypass :: bool
  CargoLimit :: int

definition getEnv :: "env \<Rightarrow> string \<Rightarrow> string \<Rightarrow> string" where
  "getEnv env k def = (if env k \<noteq> [] then env k else def)"

definition mustAtoi :: "string \<Rightarrow> (int \<Rightarrow> 'a outcome) \<Rightarrow> 'a outcome" where
  "mustAtoi s k = (case Atoi s of None \<Rightarrow> Panics | Some n \<Rightarrow> k n)"

text \<open>\<open>strconv.ParseBool\<close>.\<close>

definition ParseBool :: "string \<Rightarrow> bool option" where
  "ParseBool s =
     (if s \<in> {''1'', ''t'', ''T'', ''TRUE'', ''true'', ''True''} then Some True
      else if s \<in> {''0'', ''f'', ''F'', ''FALSE'', ''false'', ''False''} then Some False
      else None)"

definition mustBool :: "string \<Rightarrow> (bool \<Rightarrow> 'a outcome) \<Rightarrow> 'a outcome" where
  "mustBool s k = (case ParseBool (TrimSpace s) of None \<Rightarrow> Panics | Some b \<Rightarrow> k b)"

text \<open>
  \<open>time.Duration(n) * time.Second\<close>: a number of nanoseconds that wraps around at 64 bits, in the microseconds of the clock.
\<close>

definition of_seconds :: "int \<Rightarrow> duration" where
  "of_seconds n = wrap64 (n * 1000000000) div 1000"

text \<open>\<open>strings.TrimRight(s, "/")\<close>.\<close>

definition trim_slashes :: "string \<Rightarrow> string" where
  "trim_slashes s = rev (dropWhile (\<lambda>c. c = CHR ''/'') (rev s))"

definition LoadFromEnv :: "env \<Rightarrow> Config outcome" where
  "LoadFromEnv env =
     (if env ''DATABASE_URL'' = [] then Fails ''DATABASE_URL is required''
      else mustAtoi (getEnv env ''REDIS_DB'' ''0'') (\<lambda>redisDB.
      if env ''JWT_SIGNING_KEY'' = [] then Fails ''JWT_SIGNING_KEY is required''
      else mustAtoi (getEnv env ''JWT_ACCESS_TTL_SECONDS'' ''900'') (\<lambda>accessTTL.
      mustAtoi (getEnv env ''JWT_REFRESH_TTL_SECONDS'' ''2592000'') (\<lambda>refreshTTL.
      mustAtoi (getEnv env ''OTP_LENGTH'' ''6'') (\<lambda>otpLength.
      mustAtoi (getEnv env ''OTP_TTL_SECONDS'' ''120'') (\<lambda>otpTTL.
      mustAtoi (getEnv env ''OTP_RESEND_COOLDOWN_SECONDS'' ''30'') (\<lambda>cooldown.
      mustAtoi (getEnv env ''OTP_MAX_ATTEMPTS'' ''5'') (\<lambda>maxAttempts.
      mustAtoi (getEnv env ''OTP_SEND_LIMIT_PER_PHONE_PER_HOUR'' ''10'') (\<lambda>perPhone.
      mustAtoi (getEnv env ''OTP_SEND_LIMIT_PER_IP_PER_HOUR'' ''30'') (\<lambda>perIP.
      mustAtoi (getEnv env ''OTP_SEND_WINDOW_SECONDS'' ''3600'') (\<lambda>window.
      mustAtoi (getEnv env ''OTP_VERIFY_ATTEMPTS_PER_PHONE'' ''10'') (\<lambda>verifyPerPhone.
      mustAtoi (getEnv env ''OTP_VERIFY_WINDOW_SECONDS'' ''900'') (\<lambda>verifyWindow.
      mustBool (getEnv env ''TELEGRAM_GATEWAY_BYPASS'' ''false'') (\<lambda>bypass.
      mustAtoi (getEnv env ''FREELANCE_DISPATCHER_CARGO_LIMIT'' ''0'') (\<lambda>cargoLimit.
        Returns
          \<lparr>AppEnv = getEnv env ''APP_ENV'' ''local'', HTTPAddr = getEnv env ''HTTP_ADDR'' '':8080'',
           ClientTokenExpected = env ''CLIENT_TOKEN_EXPECTED'', DatabaseURL = env ''DATABASE_URL'',
           RedisAddr = getEnv env ''REDIS_ADDR'' ''localhost:6379'', RedisPassword = env ''REDIS_PASSWORD'', RedisDB = redisDB,
           JWTSigningKey = env ''JWT_SIGNING_KEY'', JWTAccessTTL = of_seconds accessTTL, JWTRefreshTTL = of_seconds refreshTTL,
           OTPLength = otpLength, OTPTTL = of_seconds otpTTL, OTPResendCooldown = of_seconds cooldown,
           OTPMaxAttempts = maxAttempts, OTPSendLimitPerPhonePerHour = perPhone, OTPSendLimitPerIPPerHour = perIP,
           OTPSendWindow = of_seconds window, OTPVerifyAttemptsPerPhone = verifyPerPhone,
           OTPVerifyWindowSeconds = verifyWindow,
           TelegramGatewayBaseURL = trim_slashes (getEnv env ''TELEGRAM_GATEWAY_BASE_URL'' ''https://gatewayapi.telegram.org''),
           TelegramGatewayToken = env ''TELEGRAM_GATEWAY_TOKEN'', TelegramGatewaySenderID = env ''TELEGRAM_GATEWAY_SENDER_ID'',
           TelegramGatewayBypass = bypass, CargoLimit = cargoLimit\<rparr>)))))))))))))))"

section \<open>The file \<open>.env\<close>\<close>

text \<open>
  A clean absolute path is the list of its components; \<open>filepath.Dir\<close> of the root is the root. \<open>exists\<close> says for which
  paths \<open>os.Stat\<close> succeeds; \<open>os.Getwd\<close> may fail. What is loaded is the file at a path, or with \<open>godotenv.Load()\<close>
  the file the library looks for itself.
\<close>

type_synonym path = "string list"

datatype loaded = Load_file path | Load_default

definition Dir :: "path \<Rightarrow> path" where "Dir p = butlast p"
definition env_file :: "path \<Rightarrow> path" where "env_file dir = dir @ [''.env'']"

text \<open>
  The loop over the parents, with the counter \<open>i\<close> as an \<open>int\<close> of 64 bits that wraps around: what was found and how many
  directories were looked at. Nothing in its shape says that it ends, so it is a partial function.
\<close>

partial_function (option) search_up :: "(path \<Rightarrow> bool) \<Rightarrow> int \<Rightarrow> int \<Rightarrow> path \<Rightarrow> (path option \<times> nat) option" where
  "search_up exists maxDepth i dir =
     (if \<not> i \<le> maxDepth then Some (None, 0)
      else if exists (env_file dir) then Some (Some (env_file dir), 1)
      else if Dir dir = dir then Some (None, 1)
      else Option.bind (search_up exists maxDepth (wrap64 (i + 1)) (Dir dir)) (\<lambda>(r, n). Some (r, n + 1)))"

definition LoadDotEnvUp :: "(path \<Rightarrow> bool) \<Rightarrow> path option \<Rightarrow> int \<Rightarrow> (loaded \<times> nat) option" where
  "LoadDotEnvUp exists getwd maxDepth =
     (let maxDepth = (if maxDepth \<le> 0 then 6 else maxDepth) in
      (case getwd of
         None \<Rightarrow> Some (Load_default, 0)
       | Some cwd \<Rightarrow>
           (case search_up exists maxDepth 0 (Dir cwd) of
              None \<Rightarrow> None
            | Some (Some p, n) \<Rightarrow> Some (Load_file p, n)
            | Some (None, n) \<Rightarrow> Some (if exists (env_file cwd) then Load_file (env_file cwd) else Load_default, n + 1))))"

text \<open>The directory and those above it, at most \<open>k\<close> of them, the nearest first.\<close>

fun upwards :: "nat \<Rightarrow> path \<Rightarrow> path list" where
  "upwards 0 dir = []"
| "upwards (Suc k) dir = dir # (if Dir dir = dir then [] else upwards k (Dir dir))"

abbreviation found :: "(path \<Rightarrow> bool) \<Rightarrow> path list \<Rightarrow> path option" where
  "found exists dirs \<equiv> map_option env_file (first_where (\<lambda>d. exists (env_file d)) dirs)"

lemma Dir_fixed: "Dir p = p \<longleftrightarrow> p = []"
  by (cases p rule: rev_cases) (auto simp: Dir_def)

lemma length_Dir: "length (Dir p) = length p - 1"
  by (simp add: Dir_def)

lemma length_upwards: "length (upwards k dir) = min k (length dir + 1)"
  by (induction k dir rule: upwards.induct) (auto simp: Dir_fixed length_Dir)

text \<open>With the largest counter as the depth the loop never stops for the counter: the path ends it.\<close>

lemma search_up_unbounded:
  assumes "in_int64 i"
  shows "\<exists>n. search_up exists (2 ^ 63 - 1) i dir = Some (found exists (upwards (length dir + 1) dir), n)
            \<and> n \<le> length dir + 1"
  using assms
proof (induction dir arbitrary: i rule: measure_induct_rule [of length])
  case (less dir)
  have le: "i \<le> 2 ^ 63 - 1" using less.prems by (auto simp: in_int64_def)
  show ?case
  proof (cases "exists (env_file dir) \<or> Dir dir = dir")
    case True
    then show ?thesis using le by (subst search_up.simps) (auto simp: Dir_fixed first_where_Cons)
  next
    case False
    then have "length (Dir dir) < length dir" by (auto simp: length_Dir Dir_fixed)
    from less.IH [OF this wrap64_in_int64 [of "i + 1"]] obtain n
      where "search_up exists (2 ^ 63 - 1) (wrap64 (i + 1)) (Dir dir)
               = Some (found exists (upwards (length (Dir dir) + 1) (Dir dir)), n)" "n \<le> length (Dir dir) + 1" by blast
    moreover have "length dir = length (Dir dir) + 1" using False by (cases dir) (auto simp: length_Dir Dir_def)
    ultimately show ?thesis using False le by (subst search_up.simps) (auto simp: first_where_Cons)
  qed
qed

text \<open>With any other depth the counter does not wrap around.\<close>

lemma search_up_bounded:
  assumes "0 \<le> i" "i + int k = maxDepth + 1" "maxDepth < 2 ^ 63 - 1"
  shows "\<exists>n. search_up exists maxDepth i dir = Some (found exists (upwards k dir), n) \<and> n \<le> length (upwards k dir)"
  using assms
proof (induction k arbitrary: i dir)
  case 0
  then show ?case by (subst search_up.simps) (auto simp: first_where_Cons)
next
  case (Suc k)
  have next_i: "wrap64 (i + 1) = i + 1" using Suc.prems by (intro wrap64_id) (auto simp: in_int64_def)
  show ?case
  proof (cases "exists (env_file dir) \<or> Dir dir = dir")
    case True
    then show ?thesis using Suc.prems by (subst search_up.simps) (auto simp: first_where_Cons)
  next
    case False
    obtain n where "search_up exists maxDepth (i + 1) (Dir dir) = Some (found exists (upwards k (Dir dir)), n)"
      "n \<le> length (upwards k (Dir dir))"
      using Suc.IH [of "i + 1" "Dir dir"] Suc.prems by auto
    with False show ?thesis using Suc.prems next_i by (subst search_up.simps) (auto simp: first_where_Cons)
  qed
qed

text \<open>
  How many directories above the working directory the search may look at: the depth and one more, and all of them with
  the largest depth.
\<close>

definition search_width :: "int \<Rightarrow> path \<Rightarrow> nat" where
  "search_width maxDepth cwd =
     (if maxDepth \<le> 0 then 7 else if maxDepth = 2 ^ 63 - 1 then length (Dir cwd) + 1 else nat maxDepth + 1)"

lemma search_up_total:
  assumes "in_int64 maxDepth"
  shows "\<exists>n. search_up exists (if maxDepth \<le> 0 then 6 else maxDepth) 0 (Dir cwd)
               = Some (found exists (upwards (search_width maxDepth cwd) (Dir cwd)), n) \<and> n \<le> length (Dir cwd) + 1"
proof -
  consider "maxDepth \<le> 0" | "maxDepth = 2 ^ 63 - 1" | "0 < maxDepth" "maxDepth < 2 ^ 63 - 1"
    using assms by (fastforce simp: in_int64_def)
  then show ?thesis
  proof cases
    case 1
    then show ?thesis using search_up_bounded [of 0 7 6 "exists" "Dir cwd"]
      by (auto simp: search_width_def length_upwards)
  next
    case 2
    then show ?thesis using search_up_unbounded [of 0 "exists" "Dir cwd"]
      by (auto simp: search_width_def in_int64_def)
  next
    case 3
    then show ?thesis using search_up_bounded [of 0 "nat maxDepth + 1" maxDepth "exists" "Dir cwd"]
      by (auto simp: search_width_def length_upwards simp del: upwards.simps)
  qed
qed

lemma LoadDotEnvUp_found:
  assumes "search_up exists (if maxDepth \<le> 0 then 6 else maxDepth) 0 (Dir cwd) = Some (r, n)"
  shows "LoadDotEnvUp exists (Some cwd) maxDepth
           = Some (case r of Some p \<Rightarrow> (Load_file p, n)
                   | None \<Rightarrow> (if exists (env_file cwd) then Load_file (env_file cwd) else Load_default, n + 1))"
  using assms by (simp add: LoadDotEnvUp_def split: option.splits)

text \<open>C40: the search for the file \<open>.env\<close> ends, whatever the depth asked for and whichever files exist, after looking
  at no more directories than the path of the working directory has, and one: it loads the nearest file above the
  working directory within the depth, the file of the working directory only when there is none above, and otherwise what the
  library finds.\<close>

theorem dotenv_search_ends:
  assumes "in_int64 maxDepth"
  shows "\<exists>n. LoadDotEnvUp exists (Some cwd) maxDepth
           = Some (case found exists (upwards (search_width maxDepth cwd) (Dir cwd) @ [cwd]) of
                     Some p \<Rightarrow> Load_file p | None \<Rightarrow> Load_default, n)
         \<and> n \<le> length (Dir cwd) + 2"
proof -
  obtain n where n: "search_up exists (if maxDepth \<le> 0 then 6 else maxDepth) 0 (Dir cwd)
      = Some (found exists (upwards (search_width maxDepth cwd) (Dir cwd)), n)" "n \<le> length (Dir cwd) + 1"
    using search_up_total [OF assms] by blast
  show ?thesis unfolding LoadDotEnvUp_found [OF n(1)] first_where_append
    using n(2) by (auto simp: first_where_Cons split: option.split)
qed

theorem dotenv_search_ends_witness:
  "\<exists>n. LoadDotEnvUp (\<lambda>p. p = [''srv'', ''.env'']) (Some [''srv'', ''app'', ''bin'']) 8
           = Some (Load_file [''srv'', ''.env''], n) \<and> n \<le> 4"
  using dotenv_search_ends [of 8 "\<lambda>p. p = [''srv'', ''.env'']" "[''srv'', ''app'', ''bin'']"]
  by (simp add: in_int64_def search_width_def Dir_def env_file_def first_where_Cons eval_nat_numeral)

section \<open>Migrations at the start\<close>

text \<open>
  \<open>cmd/api\<close> migrates the database before it serves (\<open>main.go\<close>). The library \<open>golang-migrate\<close> is a parameter:
  a migrator or the text of an error, and what bringing it up and forcing a version do to it.
\<close>

datatype up_result = Up_done | Up_no_change | Up_failed string

record 'm migrate =
  mg_New :: "string \<Rightarrow> string \<Rightarrow> string + 'm"
  mg_Up :: "'m \<Rightarrow> up_result \<times> 'm"
  mg_Force :: "'m \<Rightarrow> int \<Rightarrow> string option \<times> 'm"

definition path_text :: "path \<Rightarrow> string" where
  "path_text p = (if p = [] then ''/'' else concat (map (\<lambda>c. CHR ''/'' # c) p))"

text \<open>The loop of twelve rounds; \<open>is_dir\<close> says which paths are directories.\<close>

fun migrations_within :: "(path \<Rightarrow> bool) \<Rightarrow> nat \<Rightarrow> path \<Rightarrow> path option" where
  "migrations_within is_dir 0 dir = None"
| "migrations_within is_dir (Suc rounds) dir =
     (if is_dir (dir @ [''migrations'']) then Some (dir @ [''migrations''])
      else if Dir dir = dir then None
      else migrations_within is_dir rounds (Dir dir))"

definition findMigrationsInDir :: "(path \<Rightarrow> bool) \<Rightarrow> path \<Rightarrow> string option" where
  "findMigrationsInDir is_dir start =
     map_option (\<lambda>p. ''file://'' @ path_text p) (migrations_within is_dir 12 start)"

text \<open>\<open>caller\<close> is the directory of \<open>main.go\<close> as \<open>runtime.Caller\<close> knows it.\<close>

definition findMigrationsSourceURL :: "(path \<Rightarrow> bool) \<Rightarrow> string + path \<Rightarrow> path option \<Rightarrow> string + string" where
  "findMigrationsSourceURL is_dir getwd caller =
     (case getwd of
        Inl e \<Rightarrow> Inl e
      | Inr wd \<Rightarrow>
          (case findMigrationsInDir is_dir wd of
             Some u \<Rightarrow> Inr u
           | None \<Rightarrow>
               (case Option.bind caller (findMigrationsInDir is_dir) of
                  Some u \<Rightarrow> Inr u
                | None \<Rightarrow> Inl (''migrations directory not found (cwd: '' @ path_text wd @ '')''))))"

text \<open>
  The regular expression \<open>(?i)dirty database version\s+(\d+)\<close>: letters in any case (the long s folds to s), white
  space, digits; the first match from the left.
\<close>

definition folds_to :: "rune \<Rightarrow> char \<Rightarrow> bool" where
  "folds_to r c \<longleftrightarrow> (r < 128 \<and> ascii_lower (char_of r) = c) \<or> (r = 383 \<and> c = CHR ''s'')"

fun strip_folded :: "string \<Rightarrow> rune list \<Rightarrow> rune list option" where
  "strip_folded [] rs = Some rs"
| "strip_folded (c # p) [] = None"
| "strip_folded (c # p) (r # rs) = (if folds_to r c then strip_folded p rs else None)"

abbreviation re_space :: "rune \<Rightarrow> bool" where "re_space r \<equiv> r \<in> {9, 10, 12, 13, 32}"
abbreviation re_digit :: "rune \<Rightarrow> bool" where "re_digit r \<equiv> 48 \<le> r \<and> r \<le> 57"

definition dirty_here :: "rune list \<Rightarrow> string option" where
  "dirty_here rs =
     Option.bind (strip_folded ''dirty database version'' rs) (\<lambda>rest.
       let digits = takeWhile re_digit (dropWhile re_space rest) in
       if takeWhile re_space rest = [] \<or> digits = [] then None else Some (map char_of digits))"

fun dirty_version :: "rune list \<Rightarrow> string option" where
  "dirty_version [] = None"
| "dirty_version (r # rs) = (case dirty_here (r # rs) of Some d \<Rightarrow> Some d | None \<Rightarrow> dirty_version rs)"

definition parseDirtyVersion :: "string \<Rightarrow> int" where
  "parseDirtyVersion errMsg =
     (case Option.bind (dirty_version (runes errMsg)) Atoi of
        Some v \<Rightarrow> if v > 0 then v - 1 else 28
      | None \<Rightarrow> 28)"

definition pgx_url :: "string \<Rightarrow> string" where
  "pgx_url u =
     (let u = (if prefix ''postgres://'' u then ''pgx5://'' @ TrimPrefix u ''postgres://'' else u) in
      if prefix ''pgx://'' u then ''pgx5://'' @ TrimPrefix u ''pgx://'' else u)"

text \<open>The error, if any, and the migrator as it is left.\<close>

definition runMigrationsUp :: "'m migrate \<Rightarrow> string + string \<Rightarrow> string \<Rightarrow> string option \<times> 'm option" where
  "runMigrationsUp lib source dbURL =
     (if TrimSpace dbURL = [] then (Some ''DATABASE_URL is empty'', None)
      else case source of
        Inl e \<Rightarrow> (Some e, None)
      | Inr url \<Rightarrow>
          (case mg_New lib url (pgx_url dbURL) of
             Inl e \<Rightarrow> (Some (''migrate init error: '' @ e), None)
           | Inr m \<Rightarrow>
               (case mg_Up lib m of
                  (Up_failed e, m) \<Rightarrow>
                    if sublist ''Dirty database'' e
                    then (case mg_Force lib m (parseDirtyVersion e) of
                            (Some f, m) \<Rightarrow> (Some (''force version after dirty failed: '' @ f), Some m)
                          | (None, m) \<Rightarrow>
                              (case mg_Up lib m of
                                 (Up_failed e, m) \<Rightarrow> (Some e, Some m)
                               | (_, m) \<Rightarrow> (None, Some m)))
                    else (Some e, Some m)
                | (_, m) \<Rightarrow> (None, Some m))))"

text \<open>The version of the library's message, and the fallback.\<close>

lemma parseDirtyVersion_sample:
  "parseDirtyVersion ''Dirty database version 30. Fix and force version.'' = 29"
  "parseDirtyVersion ''dirty'' = 28"
  by code_simp+

end
