(* ===== verification/Hub_Guarantees.thy ===== *)
theory Hub_Guarantees
  imports Chat
begin

text \<open>
  What the hub of the chat guarantees: the slices that share arrays behave like one list of connections for each user,
  however the goroutines interleave, and what goes wrong when a connection closes while a message is being sent.
\<close>

section \<open>The slices are lists of connections\<close>

definition conns :: "hub \<Rightarrow> uuid \<Rightarrow> client list" where
  "conns h u = map the (cells h (slice_at h u))"

definition slice_ok :: "hub \<Rightarrow> uuid \<Rightarrow> slice_header \<Rightarrow> bool" where
  "slice_ok h u s \<longleftrightarrow> 0 < sl_len s \<and> sl_len s \<le> length (hb_arrays h (sl_array s)) \<and> sl_array s < hb_fresh_array h
     \<and> distinct (cells h s)
     \<and> (\<forall>x \<in> set (cells h s). \<exists>c. x = Some c \<and> hb_owner h c = u \<and> \<not> hb_closed h c \<and> c < hb_fresh_client h)"

definition hub_ok :: "hub \<Rightarrow> bool" where
  "hub_ok h \<longleftrightarrow> hb_arrays h 0 = [] \<and> 0 < hb_fresh_array h
     \<and> (\<forall>u s. hb_slices h u = Some s \<longrightarrow> slice_ok h u s)
     \<and> (\<forall>u v s t. hb_slices h u = Some s \<longrightarrow> hb_slices h v = Some t \<longrightarrow> sl_array s = sl_array t \<longrightarrow> u = v)"

lemma hub_okD:
  assumes "hub_ok h"
  shows "hb_arrays h 0 = []" "0 < hb_fresh_array h" "hb_slices h u = Some s \<Longrightarrow> slice_ok h u s"
    "hb_slices h u = Some s \<Longrightarrow> hb_slices h v = Some t \<Longrightarrow> u \<noteq> v \<Longrightarrow> sl_array s \<noteq> sl_array t"
  using assms by (auto simp: hub_ok_def)

lemma slice_at_simps [simp]:
  "hb_slices h u = Some s \<Longrightarrow> slice_at h u = s" "hb_slices h u = None \<Longrightarrow> slice_at h u = nil_slice"
  by (simp_all add: slice_at_def)

lemma cells_nil [simp]: "cells h nil_slice = []"
  by (simp add: cells_def nil_slice_def)

lemma conns_None: "hb_slices h u = None \<Longrightarrow> conns h u = []"
  by (simp add: conns_def)

lemma cells_of_conns:
  assumes "hub_ok h"
  shows "cells h (slice_at h u) = map Some (conns h u)"
proof (cases "hb_slices h u")
  case (Some s)
  from hub_okD(3) [OF assms Some] have "\<forall>x \<in> set (cells h s). \<exists>c. x = Some c" by (auto simp: slice_ok_def)
  with Some show ?thesis by (auto simp: conns_def intro!: map_idI [symmetric])
qed (simp add: conns_def)

lemma in_conns:
  assumes "hub_ok h" and "c \<in> set (conns h u)"
  shows "hb_owner h c = u" "\<not> hb_closed h c" "c < hb_fresh_client h"
proof -
  from assms(2) obtain s where s: "hb_slices h u = Some s" by (cases "hb_slices h u") (auto simp: conns_None)
  from cells_of_conns [OF assms(1), of u] assms(2) s have "Some c \<in> set (cells h s)" by simp
  with hub_okD(3) [OF assms(1) s] show "hb_owner h c = u" "\<not> hb_closed h c" "c < hb_fresh_client h"
    by (auto simp: slice_ok_def)
qed

lemma distinct_conns: "hub_ok h \<Longrightarrow> distinct (conns h u)"
proof -
  assume ok: "hub_ok h"
  have "distinct (cells h (slice_at h u))"
    by (cases "hb_slices h u") (use hub_okD(3) [OF ok] in \<open>auto simp: slice_ok_def\<close>)
  then show ?thesis by (simp add: cells_of_conns [OF ok] distinct_map)
qed

lemma slice_of_conns:
  assumes "hub_ok h" and "hb_slices h u = Some s"
  shows "sl_len s = length (conns h u)" "conns h u \<noteq> []"
  using hub_okD(3) [OF assms] assms(2) by (auto simp: slice_ok_def conns_def cells_def)

lemma slice_None_iff: "hub_ok h \<Longrightarrow> hb_slices h u = None \<longleftrightarrow> conns h u = []"
  using slice_of_conns(2) [of h u] conns_None [of h u] by (cases "hb_slices h u") auto

text \<open>A change of one user's slice leaves the hub in order when the new cells are a right list of clients.\<close>

lemma hub_ok_change:
  assumes ok: "hub_ok h"
    and arrays: "\<And>n. n \<noteq> sl_array s \<Longrightarrow> hb_arrays h' n = hb_arrays h n"
    and own: "sl_array s = hb_fresh_array h \<or> (\<exists>t. hb_slices h u = Some t \<and> sl_array s = sl_array t)"
    and slices: "hb_slices h' = (hb_slices h)(u := r)" and r: "r = None \<or> r = Some s"
    and fresh: "hb_fresh_array h' \<ge> hb_fresh_array h" "r = Some s \<Longrightarrow> sl_array s < hb_fresh_array h'"
    and len: "r = Some s \<Longrightarrow> 0 < sl_len s \<and> sl_len s \<le> length (hb_arrays h' (sl_array s))"
    and cells: "r = Some s \<Longrightarrow> cells h' s = map Some cs" and dist: "distinct cs"
    and cs: "\<And>c. r = Some s \<Longrightarrow> c \<in> set cs \<Longrightarrow> hb_owner h' c = u \<and> \<not> hb_closed h' c \<and> c < hb_fresh_client h'"
    and rest: "\<And>v c. v \<noteq> u \<Longrightarrow> c \<in> set (conns h v) \<Longrightarrow> hb_owner h' c = v \<and> \<not> hb_closed h' c \<and> c < hb_fresh_client h'"
  shows "hub_ok h'" and "conns h' = (conns h)(u := if r = None then [] else cs)"
proof -
  have other: "sl_array t \<noteq> sl_array s" if "v \<noteq> u" "hb_slices h v = Some t" for v t
    using own hub_okD(3) [OF ok that(2)] hub_okD(4) [OF ok that(2)] that(1) by (force simp: slice_ok_def)
  have zero: "sl_array s \<noteq> 0"
  proof
    assume "sl_array s = 0"
    with own hub_okD(2) [OF ok] obtain t where t: "hb_slices h u = Some t" "sl_array t = 0" by auto
    from hub_okD(3) [OF ok t(1)] t(2) hub_okD(1) [OF ok] show False by (auto simp: slice_ok_def)
  qed
  have cells_v: "cells h' t = cells h t" if "v \<noteq> u" "hb_slices h v = Some t" for v t
    by (simp add: cells_def arrays other [OF that])
  have ok_v: "slice_ok h' v t" if "v \<noteq> u" "hb_slices h v = Some t" for v t
  proof -
    have "cells h t = map Some (conns h v)" using cells_of_conns [OF ok, of v] that(2) by simp
    with hub_okD(3) [OF ok that(2)] rest [OF that(1)] show ?thesis
      using fresh(1) by (auto simp: slice_ok_def cells_v [OF that] arrays other [OF that])
  qed
  have ok_u: "slice_ok h' u s" if "r = Some s"
    using len [OF that] cells [OF that] dist cs [OF that] fresh(2) [OF that] by (auto simp: slice_ok_def distinct_map)
  show "hub_ok h'"
    unfolding hub_ok_def
  proof (intro conjI allI impI)
    show "hb_arrays h' 0 = []" using arrays [of 0] zero hub_okD(1) [OF ok] by simp
    show "0 < hb_fresh_array h'" using fresh(1) hub_okD(2) [OF ok] by simp
    show "slice_ok h' v t" if "hb_slices h' v = Some t" for v t
      using that r ok_u ok_v by (auto simp: slices split: if_splits)
    show "v = w" if "hb_slices h' v = Some t" "hb_slices h' w = Some t'" "sl_array t = sl_array t'" for v w t t'
      using that r other hub_okD(4) [OF ok] by (fastforce simp: slices split: if_splits)
  qed
  show "conns h' = (conns h)(u := if r = None then [] else cs)"
  proof
    fix v
    show "conns h' v = ((conns h)(u := if r = None then [] else cs)) v"
      using r cells cells_v [of v] by (cases "hb_slices h v") (auto simp: conns_def slice_at_def slices comp_def)
  qed
qed

lemma conns_Register:
  assumes ok: "hub_ok h" and reg: "Hub_Register u h = (c, h')"
  shows "hub_ok h'" and "conns h' = (conns h)(u := conns h u @ [c])" and "c = hb_fresh_client h" and "hb_fresh_client h' = Suc c"
    and "\<And>x. x \<noteq> c \<Longrightarrow> hb_closed h' x = hb_closed h x \<and> hb_queue h' x = hb_queue h x \<and> hb_owner h' x = hb_owner h x"
    and "hb_queue h' c = []" and "hb_owner h' c = u" and "\<not> hb_closed h' c"
proof -
  let ?s = "slice_at h u" and ?c = "hb_fresh_client h"
  let ?a = "hb_arrays h (sl_array ?s)" and ?n = "sl_len ?s"
  obtain s1 h1 where ap: "append_client ?c ?s h = (s1, h1)" by fastforce
  from reg ap have h': "h' = h1\<lparr>hb_slices := (hb_slices h1)(u := Some s1), hb_owner := (hb_owner h1)(?c := u),
       hb_queue := (hb_queue h1)(?c := []), hb_closed := (hb_closed h1)(?c := False), hb_fresh_client := ?c + 1\<rparr>"
    and c: "c = ?c" by (auto simp: Hub_Register_def Let_def)
  from ap have same: "hb_slices h1 = hb_slices h" "hb_owner h1 = hb_owner h" "hb_queue h1 = hb_queue h" "hb_closed h1 = hb_closed h"
    "\<And>n. n \<noteq> sl_array s1 \<Longrightarrow> hb_arrays h1 n = hb_arrays h n" "sl_len s1 = ?n + 1" "hb_fresh_array h1 \<ge> hb_fresh_array h"
    by (auto simp: append_client_def Let_def split: if_splits)
  have n: "?n \<le> length ?a" by (cases "hb_slices h u") (use hub_okD(3) [OF ok] in \<open>auto simp: slice_ok_def nil_slice_def\<close>)
  have new: "cells h1 s1 = cells h ?s @ [Some ?c]" "?n + 1 \<le> length (hb_arrays h1 (sl_array s1))"
    using ap n by (auto simp: append_client_def cells_def Let_def take_Suc_conv_app_nth split: if_splits)
  have place: "sl_array s1 = hb_fresh_array h \<and> hb_fresh_array h1 = Suc (hb_fresh_array h)
     \<or> (\<exists>t. hb_slices h u = Some t \<and> sl_array s1 = sl_array t)"
    using ap hub_okD(1) [OF ok]
    by (cases "hb_slices h u") (auto simp: append_client_def Let_def nil_slice_def split: if_splits)
  have less: "sl_array s1 < hb_fresh_array h1" using place
  proof (elim disjE exE conjE)
    fix t assume t: "hb_slices h u = Some t" "sl_array s1 = sl_array t"
    with hub_okD(3) [OF ok t(1)] same(7) show ?thesis by (simp add: slice_ok_def)
  qed simp
  have notin: "?c \<notin> set (conns h v)" for v using in_conns(3) [OF ok, of ?c v] by auto
  have old: "x \<in> set (conns h v) \<Longrightarrow> hb_owner h' x = v \<and> \<not> hb_closed h' x \<and> x < hb_fresh_client h'" for x v
    using in_conns [OF ok, of x v] notin by (auto simp: h' same)
  have f: "n \<noteq> sl_array s1 \<Longrightarrow> hb_arrays h' n = hb_arrays h n" "hb_slices h' = (hb_slices h)(u := Some s1)"
    "hb_fresh_array h \<le> hb_fresh_array h'" "sl_array s1 < hb_fresh_array h'"
    "0 < sl_len s1 \<and> sl_len s1 \<le> length (hb_arrays h' (sl_array s1))" for n
    using same new less by (simp_all add: h')
  have g: "cells h' s1 = map Some (conns h u @ [?c])" "distinct (conns h u @ [?c])"
    using new(1) cells_of_conns [OF ok, of u] distinct_conns [OF ok, of u] notin by (simp_all add: h' cells_def)
  have cs: "x \<in> set (conns h u @ [?c]) \<Longrightarrow> hb_owner h' x = u \<and> \<not> hb_closed h' x \<and> x < hb_fresh_client h'" for x
    using old [of x u] by (auto simp: h')
  note change = hub_ok_change [OF ok, of s1 h' u "Some s1" "conns h u @ [?c]"]
  have place': "sl_array s1 = hb_fresh_array h \<or> (\<exists>t. hb_slices h u = Some t \<and> sl_array s1 = sl_array t)" using place by blast
  have "hub_ok h'"
    by (rule change(1), erule f(1), rule place', rule f(2), simp, rule f(3), rule f(4), rule f(5), rule g(1), rule g(2), erule cs,
        erule old)
  moreover have "conns h' = (conns h)(u := if Some s1 = None then [] else conns h u @ [?c])"
    by (rule change(2), erule f(1), rule place', rule f(2), simp, rule f(3), rule f(4), rule f(5), rule g(1), rule g(2), erule cs,
        erule old)
  ultimately have "hub_ok h' \<and> conns h' = (conns h)(u := conns h u @ [?c])" by simp
  then show "hub_ok h'" "conns h' = (conns h)(u := conns h u @ [c])" by (simp_all add: c)
  show "c = hb_fresh_client h" "hb_fresh_client h' = Suc c" "hb_queue h' c = []" "hb_owner h' c = u" "\<not> hb_closed h' c"
    "\<And>x. x \<noteq> c \<Longrightarrow> hb_closed h' x = hb_closed h x \<and> hb_queue h' x = hb_queue h x \<and> hb_owner h' x = hb_owner h x"
    by (simp_all add: c h' same)
qed

lemma index_of_map_Some:
  "index_of c (map Some cs) = Some i \<Longrightarrow> i < length cs \<and> remove1 c cs = take i cs @ drop (Suc i) cs"
proof (induction cs arbitrary: i)
  case (Cons x cs)
  then show ?case by (cases "x = c") auto
qed simp

lemma index_of_None: "index_of c (map Some cs) = None \<longleftrightarrow> c \<notin> set cs"
  by (induction cs) auto

lemma conns_drop:
  assumes ok: "hub_ok h" and here: "c \<in> set (conns h u)" and drop: "drop_client c h = (gone, h')"
  shows "hub_ok h'" and "conns h' = (conns h)(u := remove1 c (conns h u))" and "gone \<longleftrightarrow> remove1 c (conns h u) = []"
    and "hb_closed h' = hb_closed h" "hb_queue h' = hb_queue h" "hb_owner h' = hb_owner h" "hb_fresh_client h' = hb_fresh_client h"
    and "hb_fresh_array h' = hb_fresh_array h"
    and "\<exists>s i. hb_slices h u = Some s \<and> i < sl_len s
       \<and> hb_arrays h' = (hb_arrays h)(sl_array s := take i (hb_arrays h (sl_array s))
            @ drop (i + 1) (take (sl_len s) (hb_arrays h (sl_array s))) @ drop (sl_len s - 1) (hb_arrays h (sl_array s)))"
proof -
  have u: "hb_owner h c = u" by (rule in_conns(1) [OF ok here])
  from here obtain s where s: "hb_slices h u = Some s" by (cases "hb_slices h u") (auto simp: conns_None)
  have cells: "cells h s = map Some (conns h u)" using cells_of_conns [OF ok, of u] s by simp
  then obtain i where i: "index_of c (cells h s) = Some i"
    using here by (cases "index_of c (cells h s)") (auto simp: index_of_None)
  with cells have i_len: "i < length (conns h u)" and rem: "remove1 c (conns h u) = take i (conns h u) @ drop (Suc i) (conns h u)"
    using index_of_map_Some [of c "conns h u" i] by auto
  let ?a = "hb_arrays h (sl_array s)" and ?n = "sl_len s" and ?cs = "remove1 c (conns h u)"
  let ?b = "take i ?a @ drop (i + 1) (take ?n ?a) @ drop (?n - 1) ?a"
  have n: "?n = length (conns h u)" by (rule slice_of_conns(1) [OF ok s])
  have len: "?n \<le> length ?a" "sl_array s < hb_fresh_array h" using hub_okD(3) [OF ok s] by (simp_all add: slice_ok_def)
  have b: "length ?b = length ?a" using i_len n len by simp
  define s1 where "s1 = s\<lparr>sl_len := ?n - 1\<rparr>"
  define r where "r = (if ?n - 1 = 0 then None else Some s1)"
  have h': "h' = h\<lparr>hb_arrays := (hb_arrays h)(sl_array s := ?b), hb_slices := (hb_slices h)(u := r)\<rparr>" and gone: "gone \<longleftrightarrow> ?n - 1 = 0"
    using drop by (auto simp: drop_client_def u s i cut_client_def Let_def r_def s1_def split: if_splits)
  have len_cs: "length ?cs = ?n - 1" using here by (simp add: length_remove1 n)
  then show "gone \<longleftrightarrow> ?cs = []" unfolding gone by (metis length_0_conv)
  have "cells h' s1 = take (?n - 1) ?b" unfolding cells_def h' s1_def by simp
  also have "\<dots> = take i (take ?n ?a) @ drop (i + 1) (take ?n ?a)"
    using i_len n len by (simp add: min_absorb2 le_diff_conv2 Suc_le_eq)
  also have "\<dots> = take i (cells h s) @ drop (i + 1) (cells h s)" unfolding cells_def ..
  finally have cells': "cells h' s1 = map Some ?cs" unfolding cells rem by (simp add: take_map drop_map)
  have f: "m \<noteq> sl_array s1 \<Longrightarrow> hb_arrays h' m = hb_arrays h m" "hb_slices h' = (hb_slices h)(u := r)"
    "hb_fresh_array h \<le> hb_fresh_array h'" "sl_array s1 < hb_fresh_array h'" for m
    using len by (simp_all add: h' s1_def)
  have own: "sl_array s1 = hb_fresh_array h \<or> (\<exists>t. hb_slices h u = Some t \<and> sl_array s1 = sl_array t)"
    using s by (simp add: s1_def)
  have r: "r = None \<or> r = Some s1" by (simp add: r_def)
  have l: "r = Some s1 \<Longrightarrow> 0 < sl_len s1 \<and> sl_len s1 \<le> length (hb_arrays h' (sl_array s1))"
    using len b by (auto simp: h' s1_def r_def split: if_splits)
  have d: "distinct ?cs" using distinct_conns [OF ok] by simp
  have cs: "x \<in> set ?cs \<Longrightarrow> hb_owner h' x = u \<and> \<not> hb_closed h' x \<and> x < hb_fresh_client h'" for x
    using in_conns [OF ok, of x u] set_remove1_subset [of c "conns h u"] by (auto simp: h')
  have rest: "x \<in> set (conns h v) \<Longrightarrow> hb_owner h' x = v \<and> \<not> hb_closed h' x \<and> x < hb_fresh_client h'" for x v
    using in_conns [OF ok, of x v] by (simp add: h')
  note change = hub_ok_change [OF ok, of s1 h' u r ?cs]
  show "hub_ok h'"
    by (rule change(1), erule f(1), rule own, rule f(2), rule r, rule f(3), rule f(4), erule l, rule cells', rule d, erule cs, erule rest)
  have "conns h' = (conns h)(u := if r = None then [] else ?cs)"
    by (rule change(2), erule f(1), rule own, rule f(2), rule r, rule f(3), rule f(4), erule l, rule cells', rule d, erule cs, erule rest)
  with len_cs show "conns h' = (conns h)(u := ?cs)" by (auto simp: r_def split: if_splits)
  show "hb_closed h' = hb_closed h" "hb_queue h' = hb_queue h" "hb_owner h' = hb_owner h" "hb_fresh_client h' = hb_fresh_client h"
    "hb_fresh_array h' = hb_fresh_array h"
    by (simp_all add: h')
  show "\<exists>s i. hb_slices h u = Some s \<and> i < sl_len s
       \<and> hb_arrays h' = (hb_arrays h)(sl_array s := take i (hb_arrays h (sl_array s))
            @ drop (i + 1) (take (sl_len s) (hb_arrays h (sl_array s))) @ drop (sl_len s - 1) (hb_arrays h (sl_array s)))"
    using s i_len n by (intro exI [of _ s] exI [of _ i]) (simp add: h')
qed

section \<open>Goroutines that interleave\<close>

text \<open>
  The state of the server as far as the hub is concerned: who is shown as online, connections whose \<open>Register\<close> has released
  the lock and not yet set the user online, connections taken out of the hub whose channel is not closed yet, and the
  sends that are under way: a payload, the slice header read under the lock, and the index reached. The texts of presence
  do not lapse here.
\<close>

record hubsys =
  hs_hub :: hub
  hs_online :: "uuid \<Rightarrow> bool"
  hs_joining :: "client list"
  hs_leaving :: "client list"
  hs_sends :: "(json \<times> slice_header \<times> nat) list"
  hs_panic :: bool

definition empty_hub :: "(nat \<Rightarrow> nat) \<Rightarrow> hub" where
  "empty_hub spare = \<lparr>hb_slices = (\<lambda>_. None), hb_arrays = (\<lambda>_. []), hb_fresh_array = 1, hb_owner = (\<lambda>_. uuid_nil),
     hb_queue = (\<lambda>_. []), hb_closed = (\<lambda>_. False), hb_fresh_client = 0, hb_spare = spare\<rparr>"

definition start_hub :: "(nat \<Rightarrow> nat) \<Rightarrow> hubsys" where
  "start_hub spare = \<lparr>hs_hub = empty_hub spare, hs_online = (\<lambda>_. False), hs_joining = [], hs_leaving = [], hs_sends = [],
     hs_panic = False\<rparr>"

definition open_client :: "hubsys \<Rightarrow> client \<Rightarrow> bool" where
  "open_client s c \<longleftrightarrow> c < hb_fresh_client (hs_hub s) \<and> c \<notin> set (hs_joining s) \<and> c \<notin> set (hs_leaving s)
     \<and> \<not> hb_closed (hs_hub s) c"

definition send_next :: "json \<Rightarrow> slice_header \<Rightarrow> nat \<Rightarrow> hubsys \<Rightarrow> hubsys" where
  "send_next p q i s =
     (let rest = remove1 (p, q, i) (hs_sends s)
      in (case offer_each p [hb_arrays (hs_hub s) (sl_array q) ! i] (hs_hub s) of
            None \<Rightarrow> s\<lparr>hs_sends := rest, hs_panic := True\<rparr>
          | Some h \<Rightarrow> s\<lparr>hs_hub := h, hs_sends := (p, q, i + 1) # rest\<rparr>))"

inductive hub_step :: "hubsys \<Rightarrow> hubsys \<Rightarrow> bool" where
  register: "Hub_Register u (hs_hub s) = (c, h) \<Longrightarrow> hub_step s (s\<lparr>hs_hub := h, hs_joining := c # hs_joining s\<rparr>)"
| set_online: "c \<in> set (hs_joining s) \<Longrightarrow> hub_step s (s\<lparr>hs_online := (hs_online s)(hb_owner (hs_hub s) c := True),
     hs_joining := remove1 c (hs_joining s)\<rparr>)"
| unregister: "open_client s c \<Longrightarrow> drop_client c (hs_hub s) = (gone, h) \<Longrightarrow>
     hub_step s (s\<lparr>hs_hub := h, hs_leaving := c # hs_leaving s,
       hs_online := (if gone then (hs_online s)(hb_owner (hs_hub s) c := False) else hs_online s)\<rparr>)"
| close_channel: "c \<in> set (hs_leaving s) \<Longrightarrow> hub_step s (case close_send c (hs_hub s) of
     None \<Rightarrow> s\<lparr>hs_leaving := remove1 c (hs_leaving s), hs_panic := True\<rparr>
   | Some h \<Rightarrow> s\<lparr>hs_leaving := remove1 c (hs_leaving s), hs_hub := h\<rparr>)"
| send_begin: "hub_step s (s\<lparr>hs_sends := (p, slice_at (hs_hub s) u, 0) # hs_sends s\<rparr>)"
| send_go_on: "(p, q, i) \<in> set (hs_sends s) \<Longrightarrow> i < sl_len q \<Longrightarrow> hub_step s (send_next p q i s)"
| send_end: "(p, q, i) \<in> set (hs_sends s) \<Longrightarrow> sl_len q \<le> i \<Longrightarrow> hub_step s (s\<lparr>hs_sends := remove1 (p, q, i) (hs_sends s)\<rparr>)"
| write_out: "hub_step s (s\<lparr>hs_hub := (hs_hub s)\<lparr>hb_queue := (hb_queue (hs_hub s))(c := tl (hb_queue (hs_hub s) c))\<rparr>\<rparr>)"

inductive hub_reach :: "(nat \<Rightarrow> nat) \<Rightarrow> hubsys \<Rightarrow> bool" for spare where
  start: "hub_reach spare (start_hub spare)"
| step: "hub_reach spare s \<Longrightarrow> hub_step s s' \<Longrightarrow> hub_reach spare s'"

text \<open>A slice header read before stays readable: arrays never shrink, and the cells below its length are never empty.\<close>

definition snap_ok :: "hub \<Rightarrow> slice_header \<Rightarrow> bool" where
  "snap_ok h q \<longleftrightarrow> sl_len q \<le> length (hb_arrays h (sl_array q)) \<and> sl_array q < hb_fresh_array h \<and> None \<notin> set (cells h q)"

definition clients_ok :: "hubsys \<Rightarrow> bool" where
  "clients_ok s \<longleftrightarrow> hub_ok (hs_hub s)
     \<and> (\<forall>c. open_client s c \<longrightarrow> c \<in> set (conns (hs_hub s) (hb_owner (hs_hub s) c)))
     \<and> (\<forall>u. set (conns (hs_hub s) u) \<inter> set (hs_leaving s) = {})
     \<and> distinct (hs_leaving s) \<and> (\<forall>c \<in> set (hs_leaving s). \<not> hb_closed (hs_hub s) c \<and> c < hb_fresh_client (hs_hub s))
     \<and> distinct (hs_joining s) \<and> (\<forall>c \<in> set (hs_joining s). c \<in> set (conns (hs_hub s) (hb_owner (hs_hub s) c)))"

definition presence_ok :: "hubsys \<Rightarrow> bool" where
  "presence_ok s \<longleftrightarrow> (\<forall>u. hs_online s u \<longrightarrow> conns (hs_hub s) u \<noteq> [])
     \<and> (\<forall>u. conns (hs_hub s) u \<noteq> [] \<longrightarrow> hs_online s u \<or> u \<in> hb_owner (hs_hub s) ` set (hs_joining s))"

definition sends_ok :: "hubsys \<Rightarrow> bool" where
  "sends_ok s \<longleftrightarrow> (\<forall>(p, q, i) \<in> set (hs_sends s). snap_ok (hs_hub s) q)
     \<and> (\<forall>c. length (hb_queue (hs_hub s) c) \<le> send_buffer)"

text \<open>Operations on queues and channels leave the slices alone.\<close>

lemma offer_each_one:
  "offer_each p [x] h = (case x of None \<Rightarrow> None | Some c \<Rightarrow> offer_payload p c h)"
  by (simp split: option.split)

lemma offer_payload_hub:
  "offer_payload p c h = Some h' \<Longrightarrow> \<exists>f. h' = h\<lparr>hb_queue := f\<rparr> \<and> (\<forall>x. length (hb_queue h x) \<le> send_buffer \<longrightarrow> length (f x) \<le> send_buffer)"
  by (rule exI [of _ "hb_queue h'"]) (auto simp: offer_payload_def split: if_splits)

lemma queue_simps [simp]:
  "cells (h\<lparr>hb_queue := f\<rparr>) q = cells h q" "slice_at (h\<lparr>hb_queue := f\<rparr>) u = slice_at h u" "conns (h\<lparr>hb_queue := f\<rparr>) = conns h"
  "snap_ok (h\<lparr>hb_queue := f\<rparr>) q = snap_ok h q"
  "cells (h\<lparr>hb_closed := g\<rparr>) q = cells h q" "slice_at (h\<lparr>hb_closed := g\<rparr>) u = slice_at h u" "conns (h\<lparr>hb_closed := g\<rparr>) = conns h"
  "snap_ok (h\<lparr>hb_closed := g\<rparr>) q = snap_ok h q"
  by (simp_all add: cells_def slice_at_def conns_def fun_eq_iff snap_ok_def)

lemma hub_ok_queue [simp]: "hub_ok (h\<lparr>hb_queue := f\<rparr>) = hub_ok h"
  by (simp add: hub_ok_def slice_ok_def)

lemma hub_ok_close:
  assumes "hub_ok h" and "\<And>u. c \<notin> set (conns h u)"
  shows "hub_ok (h\<lparr>hb_closed := (hb_closed h)(c := True)\<rparr>)"
proof -
  have "Some c \<notin> set (cells h s)" if "hb_slices h u = Some s" for u s
    using cells_of_conns [OF assms(1), of u] that assms(2) [of u] by auto
  with assms(1) show ?thesis by (fastforce simp: hub_ok_def slice_ok_def)
qed

lemma clients_okD:
  assumes "clients_ok s"
  shows "hub_ok (hs_hub s)" "open_client s c \<Longrightarrow> c \<in> set (conns (hs_hub s) (hb_owner (hs_hub s) c))"
    "c \<in> set (conns (hs_hub s) u) \<Longrightarrow> c \<notin> set (hs_leaving s)" "distinct (hs_leaving s)"
    "c \<in> set (hs_leaving s) \<Longrightarrow> \<not> hb_closed (hs_hub s) c \<and> c < hb_fresh_client (hs_hub s)"
    "distinct (hs_joining s)" "c \<in> set (hs_joining s) \<Longrightarrow> c \<in> set (conns (hs_hub s) (hb_owner (hs_hub s) c))"
  using assms by (auto simp: clients_ok_def)

lemma clients_okI:
  assumes "hub_ok (hs_hub s)" "\<And>c. open_client s c \<Longrightarrow> c \<in> set (conns (hs_hub s) (hb_owner (hs_hub s) c))"
    "\<And>c u. c \<in> set (conns (hs_hub s) u) \<Longrightarrow> c \<notin> set (hs_leaving s)" "distinct (hs_leaving s)"
    "\<And>c. c \<in> set (hs_leaving s) \<Longrightarrow> \<not> hb_closed (hs_hub s) c \<and> c < hb_fresh_client (hs_hub s)"
    "distinct (hs_joining s)" "\<And>c. c \<in> set (hs_joining s) \<Longrightarrow> c \<in> set (conns (hs_hub s) (hb_owner (hs_hub s) c))"
  shows "clients_ok s"
  using assms unfolding clients_ok_def by blast

text \<open>A change of queues, of sends, of who is online and of the flag does not matter to the clients.\<close>

lemma clients_ok_cong:
  assumes "clients_ok s" and "hs_hub s' = (hs_hub s)\<lparr>hb_queue := f\<rparr>" and "hs_joining s' = hs_joining s" "hs_leaving s' = hs_leaving s"
  shows "clients_ok s'"
  using assms by (simp add: clients_ok_def open_client_def)

lemma hub_queue_id: "h = h\<lparr>hb_queue := hb_queue h\<rparr>" by simp

lemma clients_ok_register:
  assumes ok: "clients_ok s" and reg: "Hub_Register u (hs_hub s) = (c, h)"
  shows "clients_ok (s\<lparr>hs_hub := h, hs_joining := c # hs_joining s\<rparr>)"
proof (rule clients_okI, simp_all)
  note r = conns_Register [OF clients_okD(1) [OF ok] reg]
  have old: "x \<noteq> c" if "x \<in> set (conns (hs_hub s) v) \<or> x \<in> set (hs_joining s) \<or> x \<in> set (hs_leaving s)" for x v
    using that in_conns(3) [OF clients_okD(1) [OF ok]] clients_okD(5,7) [OF ok] r(3) by (metis less_irrefl)
  show "hub_ok h" by (rule r(1))
  show "x \<in> set (conns h (hb_owner h x))" if "open_client (s\<lparr>hs_hub := h, hs_joining := c # hs_joining s\<rparr>) x" for x
  proof -
    from that have x: "x \<noteq> c" "x < Suc c" "x \<notin> set (hs_joining s)" "x \<notin> set (hs_leaving s)" "\<not> hb_closed h x"
      by (auto simp: open_client_def r(4))
    with r(3,5) have "open_client s x" by (auto simp: open_client_def)
    from clients_okD(2) [OF ok this] show ?thesis using r(2) r(5) [OF x(1)] by (auto simp: fun_upd_def)
  qed
  show "x \<notin> set (hs_leaving s)" if "x \<in> set (conns h v)" for x v
    using that clients_okD(3) [OF ok] old [of x] by (auto simp: r(2) split: if_splits)
  show "distinct (hs_leaving s)" by (rule clients_okD(4) [OF ok])
  show "\<not> hb_closed h x \<and> x < hb_fresh_client h" if "x \<in> set (hs_leaving s)" for x
    using clients_okD(5) [OF ok that] r(3,4) r(5) [of x] old [of x] that by auto
  show "c \<notin> set (hs_joining s) \<and> distinct (hs_joining s)" using old [of c] clients_okD(6) [OF ok] by auto
  show "x \<in> set (conns h (hb_owner h x))" if "x = c \<or> x \<in> set (hs_joining s)" for x
    using that clients_okD(7) [OF ok, of x] old [of x] r(5) [of x] r(7) by (auto simp: r(2))
qed

lemma clients_ok_unregister:
  assumes ok: "clients_ok s" and "open": "open_client s c" and drop: "drop_client c (hs_hub s) = (gone, h)"
  shows "clients_ok (s\<lparr>hs_hub := h, hs_leaving := c # hs_leaving s, hs_online := f\<rparr>)"
proof (rule clients_okI, simp_all)
  note here = clients_okD(2) [OF ok "open"]
  note d = conns_drop [OF clients_okD(1) [OF ok] here drop]
  note dist = distinct_conns [OF clients_okD(1) [OF ok]]
  show "hub_ok h" by (rule d(1))
  show "x \<in> set (conns h (hb_owner h x))" if "open_client (s\<lparr>hs_hub := h, hs_leaving := c # hs_leaving s, hs_online := f\<rparr>) x" for x
  proof -
    from that have "x \<noteq> c" "open_client s x" by (auto simp: open_client_def d)
    then show ?thesis using clients_okD(2) [OF ok, of x] by (auto simp: d)
  qed
  show "x \<noteq> c \<and> x \<notin> set (hs_leaving s)" if "x \<in> set (conns h v)" for x v
  proof
    have x: "x \<in> set (conns (hs_hub s) v)" using that by (auto simp: d split: if_splits dest: set_mp [OF set_remove1_subset])
    then show "x \<notin> set (hs_leaving s)" by (rule clients_okD(3) [OF ok])
    show "x \<noteq> c"
    proof
      assume "x = c"
      with x have "v = hb_owner (hs_hub s) c" using in_conns(1) [OF clients_okD(1) [OF ok]] by auto
      with that \<open>x = c\<close> show False using dist by (simp add: d set_remove1_eq)
    qed
  qed
  show "c \<notin> set (hs_leaving s) \<and> distinct (hs_leaving s)" using "open" clients_okD(4) [OF ok] by (simp add: open_client_def)
  show "\<not> hb_closed h x \<and> x < hb_fresh_client h" if "x = c \<or> x \<in> set (hs_leaving s)" for x
    using that clients_okD(5) [OF ok, of x] "open" by (auto simp: d open_client_def)
  show "distinct (hs_joining s)" by (rule clients_okD(6) [OF ok])
  show "x \<in> set (conns h (hb_owner h x))" if "x \<in> set (hs_joining s)" for x
    using clients_okD(7) [OF ok that] that "open" by (auto simp: d open_client_def set_remove1_eq [OF dist])
qed

lemma clients_ok_close:
  assumes ok: "clients_ok s" and c: "c \<in> set (hs_leaving s)"
  shows "close_send c (hs_hub s) = Some ((hs_hub s)\<lparr>hb_closed := (hb_closed (hs_hub s))(c := True)\<rparr>)"
    and "clients_ok (s\<lparr>hs_leaving := remove1 c (hs_leaving s),
      hs_hub := (hs_hub s)\<lparr>hb_closed := (hb_closed (hs_hub s))(c := True)\<rparr>\<rparr>)"
proof -
  let ?h = "(hs_hub s)\<lparr>hb_closed := (hb_closed (hs_hub s))(c := True)\<rparr>"
  show "close_send c (hs_hub s) = Some ?h" using clients_okD(5) [OF ok c] by (simp add: close_send_def)
  have no: "c \<notin> set (conns (hs_hub s) u)" for u using clients_okD(3) [OF ok] c by blast
  let ?s = "s\<lparr>hs_leaving := remove1 c (hs_leaving s), hs_hub := ?h\<rparr>"
  show "clients_ok ?s"
  proof (rule clients_okI)
    show "hub_ok (hs_hub ?s)" using hub_ok_close [OF clients_okD(1) [OF ok] no] by simp
    show "x \<in> set (conns (hs_hub ?s) (hb_owner (hs_hub ?s) x))" if "open_client ?s x" for x
    proof -
      from that have "open_client s x" using clients_okD(4) [OF ok] by (auto simp: open_client_def set_remove1_eq split: if_splits)
      then show ?thesis using clients_okD(2) [OF ok] by simp
    qed
    show "x \<notin> set (hs_leaving ?s)" if "x \<in> set (conns (hs_hub ?s) u)" for x u
      using clients_okD(3) [OF ok, of x u] that set_remove1_subset [of c "hs_leaving s"] by auto
    show "distinct (hs_leaving ?s)" using clients_okD(4) [OF ok] by simp
    show "\<not> hb_closed (hs_hub ?s) x \<and> x < hb_fresh_client (hs_hub ?s)" if "x \<in> set (hs_leaving ?s)" for x
      using that clients_okD(4,5) [OF ok] by (auto simp: set_remove1_eq)
    show "distinct (hs_joining ?s)" using clients_okD(6) [OF ok] by simp
    show "x \<in> set (conns (hs_hub ?s) (hb_owner (hs_hub ?s) x))" if "x \<in> set (hs_joining ?s)" for x
      using clients_okD(7) [OF ok, of x] that by simp
  qed
qed

lemma send_next_same:
  shows "\<exists>f. hs_hub (send_next p q i s) = (hs_hub s)\<lparr>hb_queue := f\<rparr>
       \<and> ((\<forall>x. length (hb_queue (hs_hub s) x) \<le> send_buffer) \<longrightarrow> (\<forall>x. length (f x) \<le> send_buffer))"
    and "hs_joining (send_next p q i s) = hs_joining s" "hs_leaving (send_next p q i s) = hs_leaving s"
    "hs_online (send_next p q i s) = hs_online s"
    "set (hs_sends (send_next p q i s)) \<subseteq> insert (p, q, i + 1) (set (hs_sends s))"
proof -
  show "\<exists>f. hs_hub (send_next p q i s) = (hs_hub s)\<lparr>hb_queue := f\<rparr>
       \<and> ((\<forall>x. length (hb_queue (hs_hub s) x) \<le> send_buffer) \<longrightarrow> (\<forall>x. length (f x) \<le> send_buffer))"
  proof (cases "offer_each p [hb_arrays (hs_hub s) (sl_array q) ! i] (hs_hub s)")
    case None
    then have "hs_hub (send_next p q i s) = hs_hub s" unfolding send_next_def Let_def None option.case by simp
    then show ?thesis using hub_queue_id [of "hs_hub s"] by metis
  next
    case (Some h)
    then obtain c where "offer_payload p c (hs_hub s) = Some h" unfolding offer_each_one by (auto split: option.splits)
    from offer_payload_hub [OF this] obtain f where "h = (hs_hub s)\<lparr>hb_queue := f\<rparr>"
      "\<forall>x. length (hb_queue (hs_hub s) x) \<le> send_buffer \<longrightarrow> length (f x) \<le> send_buffer" by blast
    with Some have "hs_hub (send_next p q i s) = (hs_hub s)\<lparr>hb_queue := f\<rparr>"
      unfolding send_next_def Let_def Some option.case by simp
    then show ?thesis using \<open>\<forall>x. length (hb_queue (hs_hub s) x) \<le> send_buffer \<longrightarrow> length (f x) \<le> send_buffer\<close> by blast
  qed
  show "hs_joining (send_next p q i s) = hs_joining s" "hs_leaving (send_next p q i s) = hs_leaving s"
    "hs_online (send_next p q i s) = hs_online s"
    "set (hs_sends (send_next p q i s)) \<subseteq> insert (p, q, i + 1) (set (hs_sends s))"
    using set_remove1_subset [of "(p, q, i)" "hs_sends s"]
    by (auto simp: send_next_def Let_def split: option.split)
qed

lemma clients_ok_step:
  assumes "hub_step s s'" and "clients_ok s"
  shows "clients_ok s'"
  using assms(1)
proof cases
  case (register u c h)
  with clients_ok_register [OF assms(2)] show ?thesis by simp
next
  case (set_online c)
  note ok = assms(2)
  show ?thesis
  proof (rule clients_okI)
    show "x \<in> set (conns (hs_hub s') (hb_owner (hs_hub s') x))" if "open_client s' x" for x
    proof (cases "x = c")
      case True
      with clients_okD(7) [OF ok, of c] set_online show ?thesis by simp
    next
      case False
      with that set_online have "open_client s x" by (auto simp: open_client_def)
      with clients_okD(2) [OF ok] set_online show ?thesis by simp
    qed
    show "x \<in> set (conns (hs_hub s') (hb_owner (hs_hub s') x))" if "x \<in> set (hs_joining s')" for x
      using that clients_okD(7) [OF ok, of x] set_remove1_subset [of c "hs_joining s"] set_online by auto
  qed (use set_online clients_okD [OF ok] in auto)
next
  case (unregister c gone h)
  with clients_ok_unregister [OF assms(2) unregister(2,3)] show ?thesis by simp
next
  case (close_channel c)
  with clients_ok_close [OF assms(2) close_channel(2)] show ?thesis by simp
next
  case (send_begin p u)
  then show ?thesis using clients_ok_cong [OF assms(2), of s' "hb_queue (hs_hub s)"] by simp
next
  case (send_go_on p q i)
  with send_next_same [of p q i s] show ?thesis using clients_ok_cong [OF assms(2)] by metis
next
  case (send_end p q i)
  then show ?thesis using clients_ok_cong [OF assms(2), of s' "hb_queue (hs_hub s)"] by simp
next
  case (write_out c)
  then show ?thesis by (intro clients_ok_cong [OF assms(2)]) simp_all
qed

lemma presence_ok_step:
  assumes "hub_step s s'" and ok: "clients_ok s" and pre: "presence_ok s"
  shows "presence_ok s'"
  using assms(1)
proof cases
  case (register u c h)
  note r = conns_Register [OF clients_okD(1) [OF ok] register(2)]
  have old: "x \<noteq> c" if "x \<in> set (hs_joining s)" for x
    using clients_okD(7) [OF ok that] in_conns(3) [OF clients_okD(1) [OF ok]] r(3) by blast
  have "hb_owner h ` set (hs_joining s) = hb_owner (hs_hub s) ` set (hs_joining s)"
    using r(5) old by (intro image_cong) auto
  with pre show ?thesis unfolding register(1) by (auto simp: presence_ok_def r(2,7))
next
  case (set_online c)
  from clients_okD(7) [OF ok set_online(2)] have "conns (hs_hub s) (hb_owner (hs_hub s) c) \<noteq> []" by auto
  moreover have "set (hs_joining s) = insert c (set (remove1 c (hs_joining s)))"
    using set_online(2) clients_okD(6) [OF ok] by (auto simp: set_remove1_eq)
  then have "hb_owner (hs_hub s) ` set (hs_joining s)
      = insert (hb_owner (hs_hub s) c) (hb_owner (hs_hub s) ` set (remove1 c (hs_joining s)))" by (metis image_insert)
  ultimately show ?thesis using pre unfolding set_online(1) by (auto simp: presence_ok_def)
next
  case (unregister c gone h)
  note d = conns_drop [OF clients_okD(1) [OF ok] clients_okD(2) [OF ok unregister(2)] unregister(3)]
  have "conns (hs_hub s) (hb_owner (hs_hub s) c) \<noteq> []" using clients_okD(2) [OF ok unregister(2)] by auto
  then show ?thesis using pre unfolding unregister(1) by (auto simp: presence_ok_def d)
next
  case (close_channel c)
  then show ?thesis using pre by (auto simp: presence_ok_def clients_ok_close(1) [OF ok])
next
  case (send_begin p u)
  then show ?thesis using pre by (simp add: presence_ok_def)
next
  case (send_go_on p q i)
  from send_next_same [of p q i s] obtain f where "hs_hub s' = (hs_hub s)\<lparr>hb_queue := f\<rparr>" "hs_joining s' = hs_joining s"
    "hs_online s' = hs_online s" unfolding send_go_on(1) by blast
  then show ?thesis using pre by (simp add: presence_ok_def)
next
  case (send_end p q i)
  then show ?thesis using pre by (simp add: presence_ok_def)
next
  case (write_out c)
  then show ?thesis using pre by (simp add: presence_ok_def)
qed

lemma snap_ok_Register:
  assumes "snap_ok h q" and "Hub_Register u h = (c, h')"
  shows "snap_ok h' q"
proof -
  obtain s1 h1 where ap: "append_client (hb_fresh_client h) (slice_at h u) h = (s1, h1)" by fastforce
  have "hb_arrays h' = hb_arrays h1" "hb_fresh_array h' = hb_fresh_array h1"
    using assms(2) ap by (auto simp: Hub_Register_def Let_def)
  then show ?thesis
    using assms(1) ap by (auto simp: append_client_def snap_ok_def cells_def take_update_swap Let_def split: if_splits
        dest!: set_mp [OF set_update_subset_insert])
qed

lemma notin_take: "m \<le> length b \<Longrightarrow> (\<And>j. j < m \<Longrightarrow> b ! j \<noteq> x) \<Longrightarrow> x \<notin> set (take m b)"
  by (auto simp: in_set_conv_nth)

lemma moved_cells:
  assumes "i < n" and "n \<le> length a" and "\<And>j. j < n \<Longrightarrow> a ! j \<noteq> None" and "\<And>j. j < m \<Longrightarrow> a ! j \<noteq> None" and "m \<le> length a"
  shows "None \<notin> set (take m (take i a @ drop (i + 1) (take n a) @ drop (n - 1) a))"
proof -
  let ?b = "take i a @ drop (i + 1) (take n a) @ drop (n - 1) a"
  have len: "length ?b = length a" using assms(1,2) by simp
  have "?b ! j \<noteq> None" if "j < m" for j
  proof -
    consider "j < i" | "i \<le> j" "j < n - 1" | "n - 1 \<le> j" "i \<le> j" by linarith
    then show ?thesis
    proof cases
      case 1
      with assms(1-4) that show ?thesis by (simp add: nth_append)
    next
      case 2
      with assms(1-3) show ?thesis by (simp add: nth_append min_def)
    next
      case 3
      with assms that show ?thesis by (simp add: nth_append min_def)
    qed
  qed
  moreover have "m \<le> length ?b" using assms(5) len by simp
  ultimately show ?thesis by (intro notin_take)
qed

lemma snap_ok_drop:
  assumes ok: "hub_ok h" and here: "c \<in> set (conns h u)" and drop: "drop_client c h = (gone, h')" and snap: "snap_ok h q"
  shows "snap_ok h' q"
proof -
  note d = conns_drop [OF ok here drop]
  from d(9) obtain s i where s: "hb_slices h u = Some s" "i < sl_len s" and
    arr: "hb_arrays h' = (hb_arrays h)(sl_array s := take i (hb_arrays h (sl_array s))
            @ drop (i + 1) (take (sl_len s) (hb_arrays h (sl_array s))) @ drop (sl_len s - 1) (hb_arrays h (sl_array s)))" by blast
  let ?a = "hb_arrays h (sl_array s)"
  have n: "sl_len s \<le> length ?a" using hub_okD(3) [OF ok s(1)] by (simp add: slice_ok_def)
  have full: "?a ! j \<noteq> None" if "j < sl_len s" for j
  proof -
    have "?a ! j \<in> set (cells h s)" using that n by (auto simp: cells_def in_set_conv_nth intro!: exI [of _ j])
    then show ?thesis using cells_of_conns [OF ok, of u] s(1) by auto
  qed
  show ?thesis
  proof (cases "sl_array q = sl_array s")
    case True
    have "?a ! j \<noteq> None" if "j < sl_len q" for j
      using snap that True by (auto simp: snap_ok_def cells_def in_set_conv_nth)
    with snap True s(2) n full moved_cells [of i "sl_len s" ?a "sl_len q"] show ?thesis
      by (auto simp: snap_ok_def cells_def arr d(8))
  next
    case False
    with snap show ?thesis by (simp add: snap_ok_def cells_def arr d(8))
  qed
qed

lemma snap_ok_slice_at: "hub_ok h \<Longrightarrow> snap_ok h (slice_at h u)"
  using hub_okD(1,2) [of h] hub_okD(3) [of h u] by (cases "hb_slices h u") (auto simp: snap_ok_def slice_ok_def nil_slice_def cells_def)

lemma sends_ok_step:
  assumes "hub_step s s'" and ok: "clients_ok s" and sends: "sends_ok s"
  shows "sends_ok s'"
  using assms(1)
proof cases
  case (register u c h)
  note r = conns_Register [OF clients_okD(1) [OF ok] register(2)]
  have "length (hb_queue h x) \<le> send_buffer" for x
    using sends r(5) [of x] r(6) by (cases "x = c") (auto simp: sends_ok_def)
  with sends snap_ok_Register [OF _ register(2)] show ?thesis unfolding register(1) by (auto simp: sends_ok_def)
next
  case (unregister c gone h)
  note here = clients_okD(1) [OF ok] clients_okD(2) [OF ok unregister(2)] unregister(3)
  from sends snap_ok_drop [OF here] conns_drop(5) [OF here] show ?thesis unfolding unregister(1) by (auto simp: sends_ok_def)
next
  case (send_begin p u)
  with sends snap_ok_slice_at [OF clients_okD(1) [OF ok]] show ?thesis by (auto simp: sends_ok_def)
next
  case (send_go_on p q i)
  from send_next_same(1) [of p q i s] obtain f where f: "hs_hub s' = (hs_hub s)\<lparr>hb_queue := f\<rparr>"
    "(\<forall>x. length (hb_queue (hs_hub s) x) \<le> send_buffer) \<longrightarrow> (\<forall>x. length (f x) \<le> send_buffer)" unfolding send_go_on(1) by blast
  with sends send_go_on(2) send_next_same(5) [of p q i s] show ?thesis unfolding send_go_on(1) by (fastforce simp: sends_ok_def)
next
  case (send_end p q i)
  with sends set_remove1_subset [of "(p, q, i)" "hs_sends s"] show ?thesis by (auto simp: sends_ok_def)
next
  case (close_channel c)
  with sends show ?thesis by (auto simp: sends_ok_def clients_ok_close(1) [OF ok])
next
  case (write_out c)
  with sends show ?thesis by (auto simp: sends_ok_def intro: order_trans [OF diff_le_self])
qed (use sends in \<open>auto simp: sends_ok_def\<close>)

lemma hub_invariant: "hub_reach spare s \<Longrightarrow> clients_ok s \<and> presence_ok s \<and> sends_ok s"
proof (induction rule: hub_reach.induct)
  case start
  have e: "hb_slices (empty_hub spare) u = None" "hub_ok (empty_hub spare)" for u
    by (simp_all add: hub_ok_def empty_hub_def)
  have "conns (empty_hub spare) u = []" for u by (rule conns_None [OF e(1)])
  with e show ?case
    by (simp add: clients_ok_def presence_ok_def sends_ok_def start_hub_def open_client_def) (simp add: empty_hub_def)
next
  case (step s s')
  then show ?case using clients_ok_step presence_ok_step sends_ok_step by blast
qed


section \<open>Without interleaving\<close>

lemma offer_each_all:
  assumes "distinct cs" and "\<And>c. c \<in> set cs \<Longrightarrow> \<not> hb_closed h c"
  shows "offer_each p (map Some cs) h = Some (h\<lparr>hb_queue := (\<lambda>c. if c \<in> set cs \<and> length (hb_queue h c) < send_buffer
           then hb_queue h c @ [p] else hb_queue h c)\<rparr>)"
  using assms
proof (induction cs arbitrary: h)
  case (Cons x cs)
  let ?h = "h\<lparr>hb_queue := (\<lambda>c. if c = x \<and> length (hb_queue h c) < send_buffer then hb_queue h c @ [p] else hb_queue h c)\<rparr>"
  have "offer_payload p x h = Some ?h"
    using Cons.prems(2) [of x] by (auto simp: offer_payload_def fun_eq_iff intro!: hub.equality)
  then have "offer_each p (map Some (x # cs)) h = offer_each p (map Some cs) ?h" by simp
  also have "\<dots> = Some (?h\<lparr>hb_queue := (\<lambda>c. if c \<in> set cs \<and> length (hb_queue ?h c) < send_buffer
           then hb_queue ?h c @ [p] else hb_queue ?h c)\<rparr>)"
    using Cons.prems by (intro Cons.IH) auto
  also have "\<dots> = Some (h\<lparr>hb_queue := (\<lambda>c. if c \<in> set (x # cs) \<and> length (hb_queue h c) < send_buffer
           then hb_queue h c @ [p] else hb_queue h c)\<rparr>)"
    using Cons.prems(1) by (auto simp: fun_eq_iff intro!: hub.equality)
  finally show ?case .
qed simp

text \<open>
  C28: the slices that share arrays refine one list of connections for each user, however much spare room the runtime gives an
  array that grows: registering appends to the list of the user, unregistering takes one connection out and reports
  whether it was the last, and a send that nothing interrupts does not panic and puts the payload once into
  the queue of every connection of the user that has room, and into no other.
\<close>

theorem hub_refines_lists:
  assumes "hub_reach spare s" and "h = hs_hub s"
  shows "conns (snd (Hub_Register u h)) = (conns h)(u := conns h u @ [fst (Hub_Register u h)])
    \<and> (open_client s c \<longrightarrow> conns (snd (drop_client c h)) = (conns h)(hb_owner h c := remove1 c (conns h (hb_owner h c)))
         \<and> (fst (drop_client c h) \<longleftrightarrow> remove1 c (conns h (hb_owner h c)) = []))
    \<and> Hub_SendToUser u p h = Some (h\<lparr>hb_queue := (\<lambda>c. if c \<in> set (conns h u) \<and> length (hb_queue h c) < send_buffer
           then hb_queue h c @ [p] else hb_queue h c)\<rparr>)"
proof -
  have ok: "clients_ok s" using hub_invariant [OF assms(1)] by simp
  note hub = clients_okD(1) [OF ok, folded assms(2)]
  obtain c1 h1 where r: "Hub_Register u h = (c1, h1)" by fastforce
  obtain gone h2 where d: "drop_client c h = (gone, h2)" by fastforce
  have "conns h2 = (conns h)(hb_owner h c := remove1 c (conns h (hb_owner h c)))
         \<and> (gone \<longleftrightarrow> remove1 c (conns h (hb_owner h c)) = [])" if "open_client s c"
    using conns_drop(2,3) [OF hub _ d] clients_okD(2) [OF ok that, folded assms(2)] by blast
  moreover have "Hub_SendToUser u p h = Some (h\<lparr>hb_queue := (\<lambda>c. if c \<in> set (conns h u) \<and> length (hb_queue h c) < send_buffer
           then hb_queue h c @ [p] else hb_queue h c)\<rparr>)"
    unfolding Hub_SendToUser_def cells_of_conns [OF hub]
    by (rule offer_each_all [OF distinct_conns [OF hub]]) (rule in_conns(2) [OF hub])
  ultimately show ?thesis using conns_Register(2) [OF hub r] by (simp add: r d)
qed

section \<open>What goes wrong\<close>

text \<open>Runs as lists of events, so that they can be computed.\<close>

datatype hub_event =
    Ev_register uuid | Ev_online client | Ev_unregister client | Ev_close client | Ev_send json uuid | Ev_next nat | Ev_end nat

fun hub_apply :: "hub_event \<Rightarrow> hubsys \<Rightarrow> hubsys option" where
  "hub_apply (Ev_register u) s = (let (c, h) = Hub_Register u (hs_hub s) in Some (s\<lparr>hs_hub := h, hs_joining := c # hs_joining s\<rparr>))"
| "hub_apply (Ev_online c) s = (if c \<in> set (hs_joining s)
     then Some (s\<lparr>hs_online := (hs_online s)(hb_owner (hs_hub s) c := True), hs_joining := remove1 c (hs_joining s)\<rparr>) else None)"
| "hub_apply (Ev_unregister c) s = (if open_client s c
     then let (gone, h) = drop_client c (hs_hub s) in Some (s\<lparr>hs_hub := h, hs_leaving := c # hs_leaving s,
       hs_online := (if gone then (hs_online s)(hb_owner (hs_hub s) c := False) else hs_online s)\<rparr>) else None)"
| "hub_apply (Ev_close c) s = (if c \<in> set (hs_leaving s)
     then Some (case close_send c (hs_hub s) of
       None \<Rightarrow> s\<lparr>hs_leaving := remove1 c (hs_leaving s), hs_panic := True\<rparr>
     | Some h \<Rightarrow> s\<lparr>hs_leaving := remove1 c (hs_leaving s), hs_hub := h\<rparr>) else None)"
| "hub_apply (Ev_send p u) s = Some (s\<lparr>hs_sends := (p, slice_at (hs_hub s) u, 0) # hs_sends s\<rparr>)"
| "hub_apply (Ev_next n) s = (if n < length (hs_sends s)
     then let (p, q, i) = hs_sends s ! n in if i < sl_len q then Some (send_next p q i s) else None else None)"
| "hub_apply (Ev_end n) s = (if n < length (hs_sends s)
     then let (p, q, i) = hs_sends s ! n in if sl_len q \<le> i
       then Some (s\<lparr>hs_sends := remove1 (p, q, i) (hs_sends s)\<rparr>) else None else None)"

lemma hub_apply_step: "hub_apply e s = Some s' \<Longrightarrow> hub_step s s'"
proof (induction e s rule: hub_apply.induct)
  case (3 c s)
  then have is_open: "open_client s c" by (simp split: if_splits)
  obtain gone h where d: "drop_client c (hs_hub s) = (gone, h)" by fastforce
  from hub_step.unregister [OF is_open d] 3 is_open d show ?case by (auto split del: if_split)
next
  case (6 n s)
  then obtain p q i where x: "hs_sends s ! n = (p, q, i)" "n < length (hs_sends s)" "i < sl_len q" "s' = send_next p q i s"
    by (auto split: if_splits prod.splits)
  then have "(p, q, i) \<in> set (hs_sends s)" by (metis nth_mem)
  with x show ?case by (simp add: hub_step.send_go_on)
next
  case (7 n s)
  then obtain p q i where x: "hs_sends s ! n = (p, q, i)" "n < length (hs_sends s)" "sl_len q \<le> i"
    "s' = s\<lparr>hs_sends := remove1 (p, q, i) (hs_sends s)\<rparr>" by (auto split: if_splits prod.splits)
  then have "(p, q, i) \<in> set (hs_sends s)" by (metis nth_mem)
  with x show ?case by (simp add: hub_step.send_end)
qed (auto simp del: fun_upd_apply split: if_splits prod.splits intro: hub_step.intros)

fun hub_events :: "hub_event list \<Rightarrow> hubsys \<Rightarrow> hubsys option" where
  "hub_events [] s = Some s"
| "hub_events (e # es) s = (case hub_apply e s of None \<Rightarrow> None | Some s' \<Rightarrow> hub_events es s')"

lemma hub_events_reach: "hub_events es s = Some s' \<Longrightarrow> hub_reach spare s \<Longrightarrow> hub_reach spare s'"
proof (induction es arbitrary: s)
  case (Cons e es)
  then show ?case by (auto split: option.splits dest: hub_reach.step [OF Cons.prems(2) hub_apply_step])
qed simp

text \<open>The runtime doubles small arrays.\<close>

definition doubling :: "nat \<Rightarrow> nat" where "doubling n = n - 1"

lemmas hub_eval = start_hub_def empty_hub_def Hub_Register_def append_client_def slice_at_def nil_slice_def cells_def
  open_client_def drop_client_def cut_client_def close_send_def send_next_def offer_payload_def doubling_def Let_def

lemma hub_events_from: "hub_events es (start_hub spare) = Some s \<Longrightarrow> hub_reach spare s"
  by (rule hub_events_reach [OF _ hub_reach.start])

abbreviation join :: "uuid \<Rightarrow> client \<Rightarrow> hub_event list" where
  "join u c \<equiv> [Ev_register u, Ev_online c]"

text \<open>
  C29: the slice header is all that the lock protects. A connection that closes between reading the header and sending to it makes
  the sender send to a closed channel, which panics; and with three connections of one user, of which the first one goes while
  a message is under way, the cells move under the sender: the second connection, which stays open and has room all the time,
  never gets the message, and the third one gets it twice.
\<close>

theorem hub_send_race:
  "(\<exists>s. hub_reach doubling s \<and> hs_panic s)
   \<and> (\<exists>s s1 p. hub_reach doubling s \<and> conns (hs_hub s) 5 = [0, 1, 2]
        \<and> hub_events [Ev_send p 5, Ev_next 0, Ev_unregister 0, Ev_close 0, Ev_next 0, Ev_next 0, Ev_end 0] s = Some s1
        \<and> conns (hs_hub s1) 5 = [1, 2] \<and> hb_queue (hs_hub s1) 1 = [] \<and> hb_queue (hs_hub s1) 2 = [p, p])"
proof
  have "\<exists>s. hub_events (join 5 0 @ [Ev_send JNull 5, Ev_unregister 0, Ev_close 0, Ev_next 0]) (start_hub doubling) = Some s \<and> hs_panic s"
    by (simp add: hub_eval)
  then show "\<exists>s. hub_reach doubling s \<and> hs_panic s" using hub_events_from by blast
  have "\<exists>s. hub_events (join 5 0 @ join 5 1 @ join 5 2) (start_hub doubling) = Some s \<and> conns (hs_hub s) 5 = [0, 1, 2]
     \<and> (\<exists>s1. hub_events [Ev_send JNull 5, Ev_next 0, Ev_unregister 0, Ev_close 0, Ev_next 0, Ev_next 0, Ev_end 0] s = Some s1
        \<and> conns (hs_hub s1) 5 = [1, 2] \<and> hb_queue (hs_hub s1) 1 = [] \<and> hb_queue (hs_hub s1) 2 = [JNull, JNull])"
    by (simp add: hub_eval conns_def)
  then show "\<exists>s s1 p. hub_reach doubling s \<and> conns (hs_hub s) 5 = [0, 1, 2]
        \<and> hub_events [Ev_send p 5, Ev_next 0, Ev_unregister 0, Ev_close 0, Ev_next 0, Ev_next 0, Ev_end 0] s = Some s1
        \<and> conns (hs_hub s1) 5 = [1, 2] \<and> hb_queue (hs_hub s1) 1 = [] \<and> hb_queue (hs_hub s1) 2 = [p, p]"
    using hub_events_from by blast
qed

text \<open>Two connections of one user, of which the second one is just being opened, and a message under way.\<close>

lemma sample_hub:
  "\<exists>s. hub_reach doubling s \<and> hs_joining s = [1] \<and> conns (hs_hub s) 5 = [0, 1] \<and> hb_owner (hs_hub s) 1 = 5 \<and> open_client s 0
     \<and> hb_owner (hs_hub s) 0 = 5 \<and> conns (hs_hub s) 6 = []"
proof -
  have "\<exists>s. hub_events (join 5 0 @ [Ev_register 5, Ev_send JNull 5]) (start_hub doubling) = Some s \<and> hs_joining s = [1]
     \<and> conns (hs_hub s) 5 = [0, 1] \<and> hb_owner (hs_hub s) 1 = 5 \<and> open_client s 0 \<and> hb_owner (hs_hub s) 0 = 5
     \<and> conns (hs_hub s) 6 = []"
    by (simp add: hub_eval conns_def)
  then show ?thesis using hub_events_from by blast
qed


theorem hub_refines_lists_witness:
  "\<exists>s. hub_reach doubling s \<and> conns (hs_hub s) 5 = [0, 1] \<and> conns (snd (drop_client 0 (hs_hub s))) 5 = [1]
     \<and> \<not> fst (drop_client 0 (hs_hub s))"
proof -
  obtain s where s: "hub_reach doubling s" "conns (hs_hub s) 5 = [0, 1]" "open_client s 0" "hb_owner (hs_hub s) 0 = 5"
    using sample_hub by blast
  with hub_refines_lists [OF s(1) refl, of 5 0 JNull] show ?thesis by auto
qed

end
