(* ===== verification/Chat_Guarantees.thy ===== *)
theory Chat_Guarantees
  imports Hub_Guarantees Samples
begin

text \<open>
  What the requests of the chat guarantee about the database: two users share one conversation whoever asks first, nobody
  learns or changes anything of a conversation of others, and only the sender of a message changes or deletes it.
\<close>

section \<open>Requests\<close>

datatype chat_request =
    List_conversations query
  | Open_conversation "string option"
  | List_messages string query
  | Send_message string "string option"
  | Edit_message string "string option"
  | Delete_message string

fun serve_chat :: "ext \<Rightarrow> uuid \<Rightarrow> chat_request \<Rightarrow> ('z, response) hprog" where
  "serve_chat E u (List_conversations q) = Chat_ListConversations E u q"
| "serve_chat E u (Open_conversation body) = Chat_GetOrCreateConversation E u body"
| "serve_chat E u (List_messages c q) = Chat_ListMessages E u c q"
| "serve_chat E u (Send_message c body) = Chat_SendMessage E u c body"
| "serve_chat E u (Edit_message m body) = Chat_EditMessage E u m body"
| "serve_chat E u (Delete_message m) = Chat_DeleteMessage E u m"

lemmas chat_handlers = Chat_ListConversations_def Chat_GetOrCreateConversation_def Chat_ListMessages_def Chat_SendMessage_def
  Chat_EditMessage_def Chat_DeleteMessage_def as_user_def with_id_def message_body_def

section \<open>One conversation for two users\<close>

text \<open>
  Documented behaviour of the text form of an identifier: lower-case hexadecimal digits in the order of the bytes, so that texts
  compare like the identifiers.
\<close>

definition uuid_order_laws :: "ext \<Rightarrow> bool" where
  "uuid_order_laws E \<longleftrightarrow> (\<forall>u v. uuid_string E u < uuid_string E v \<longleftrightarrow> u < v)"

lemma ordered_pair:
  assumes "uuid_order_laws E" and "u \<noteq> v"
  shows "ordered_pair E u v = (if u < v then (u, v) else (v, u))" "ordered_pair E v u = ordered_pair E u v"
  using assms by (auto simp: ordered_pair_def uuid_order_laws_def)

lemma upsert_conversation_again:
  assumes "upsert_conversation u1 u2 now x d = Inr (Some c, d')"
  shows "upsert_conversation u1 u2 now' x' d' = Inr (Some c, d')" "cv_user_a_id c = u1" "cv_user_b_id c = u2"
  using assms
  by (auto simp: upsert_conversation_def Let_def first_where_append first_where_Cons first_where_None split: if_splits option.splits
      dest!: first_where_Some)

lemma upsert_conversation_total:
  "u1 < u2 \<Longrightarrow> \<exists>c d'. upsert_conversation u1 u2 now x d = Inr (Some c, d')"
  by (auto simp: upsert_conversation_def Let_def split: option.split)

text \<open>
  C30: two different users share one conversation: whoever asks for it first gets an answer without error (the pair the code orders by
  text always passes the constraint that orders it by bytes), and when the other one asks later, and no
  conversation was added meanwhile, the answer names the same conversation and changes nothing; each is shown the other as the peer.
\<close>

theorem conversation_shared:
  assumes "uuid_order_laws E" and "reliable w" and "reliable w2" and "w_db w2 = w_db w1" and "u \<noteq> v" and "u \<noteq> uuid_nil" and "v \<noteq> uuid_nil"
    and "pv \<noteq> []" and "uuid_parse E pv = Some v" and "pu \<noteq> []" and "uuid_parse E pu = Some u"
    and "run (Chat_GetOrCreateConversation E u (Some pv)) w = (a, w1)"
    and "run (Chat_GetOrCreateConversation E v (Some pu)) w2 = (b, w3)"
  shows "\<exists>c. a = OKLang ''ok'' (conversation_json E u c) \<and> b = OKLang ''ok'' (conversation_json E v c)
     \<and> PeerID c u = v \<and> PeerID c v = u \<and> w_db w3 = w_db w1"
proof -
  obtain u1 u2 where pair: "ordered_pair E u v = (u1, u2)" "ordered_pair E v u = (u1, u2)" and less: "u1 < u2"
    and uv: "(u1, u2) = (u, v) \<or> (u1, u2) = (v, u)"
    using ordered_pair [OF assms(1,5)] assms(5) by (cases "u < v") auto
  obtain c d' where up: "upsert_conversation u1 u2 (w_now w) (fresh_id w) (w_db w) = Inr (Some c, d')"
    using upsert_conversation_total [OF less] by blast
  note again = upsert_conversation_again [OF up]
  have "a = OKLang ''ok'' (conversation_json E u c)" and db: "w_db w1 = d'"
    using assms(2,5,6-9,12) up
    by (auto simp: Chat_GetOrCreateConversation_def as_user_def required_def run_attempt chat_GetOrCreateConversation_def pair)
  moreover have "b = OKLang ''ok'' (conversation_json E v c)" "w_db w3 = d'"
    using assms(3,5,6,7,10,11,13) again(1) [of "w_now w2" "fresh_id w2"] assms(4) db
    by (auto simp: Chat_GetOrCreateConversation_def as_user_def required_def run_attempt chat_GetOrCreateConversation_def pair)
  moreover have "PeerID c u = v" "PeerID c v = u" using uv again(2,3) by (auto simp: PeerID_def)
  ultimately show ?thesis by blast
qed

lemma sample_order: "uuid_order_laws sample_ext"
proof -
  have "replicate m x < replicate n x \<longleftrightarrow> m < n" for m n and x :: char
  proof (induction m arbitrary: n)
    case 0
    show ?case by (cases n) simp_all
  next
    case (Suc m)
    then show ?case by (cases n) simp_all
  qed
  then show ?thesis by (simp add: uuid_order_laws_def sample_ext_def word_less_nat_alt del: replicate.simps)
qed

theorem conversation_shared_witness:
  "\<exists>c w1 w3. run (Chat_GetOrCreateConversation sample_ext 7 (Some ''111111'')) (world0 False) = (OKLang ''ok'' (conversation_json sample_ext 7 c), w1)
     \<and> run (Chat_GetOrCreateConversation sample_ext 5 (Some ''11111111'')) (world_of (w_db w1)) = (OKLang ''ok'' (conversation_json sample_ext 5 c), w3)
     \<and> w_db w3 = w_db w1"
proof -
  obtain a w1 where 1: "run (Chat_GetOrCreateConversation sample_ext 7 (Some ''111111'')) (world0 False) = (a, w1)" by fastforce
  obtain b w3 where 2: "run (Chat_GetOrCreateConversation sample_ext 5 (Some ''11111111'')) (world_of (w_db w1)) = (b, w3)" by fastforce
  have p: "uuid_parse sample_ext ''111111'' = Some 5" "uuid_parse sample_ext ''11111111'' = Some 7" by (simp_all add: sample_ext_def)
  have w: "reliable (world0 False)" by (simp add: world0_def)
  from conversation_shared [OF sample_order w _ _ _ _ _ _ p(1) _ p(2) 1 2] 1 2 show ?thesis by auto
qed

section \<open>Who may change what\<close>

definition same_message :: "Message \<Rightarrow> Message \<Rightarrow> bool" where
  "same_message m m' \<longleftrightarrow> ms_id m' = ms_id m \<and> ms_conversation_id m' = ms_conversation_id m \<and> ms_sender_id m' = ms_sender_id m
     \<and> ms_created_at m' = ms_created_at m"

definition my_conversation :: "uuid \<Rightarrow> db \<Rightarrow> uuid \<Rightarrow> bool" where
  "my_conversation u d cid \<longleftrightarrow> (\<exists>c \<in> set (conversations_t d). cv_id c = cid \<and> takes_part u c)"

text \<open>What a user may have done to the chat between two contents of the database.\<close>

definition chat_changed_by :: "uuid \<Rightarrow> db \<Rightarrow> db \<Rightarrow> bool" where
  "chat_changed_by u d0 d \<longleftrightarrow>
     (\<forall>m \<in> set (messages_t d). m \<in> set (messages_t d0) \<or> ms_sender_id m = u
        \<and> ((\<exists>m0 \<in> set (messages_t d0). same_message m0 m \<and> ms_deleted_at m0 = None) \<or> my_conversation u d (ms_conversation_id m)))
   \<and> (\<forall>m0 \<in> set (messages_t d0). m0 \<in> set (messages_t d)
        \<or> ms_sender_id m0 = u \<and> ms_deleted_at m0 = None \<and> (\<exists>m \<in> set (messages_t d). same_message m0 m))
   \<and> set (conversations_t d0) \<subseteq> set (conversations_t d)
   \<and> (\<forall>c \<in> set (conversations_t d). c \<in> set (conversations_t d0) \<or> takes_part u c \<and> cv_user_a_id c < cv_user_b_id c)"

lemma chat_changed_refl: "chat_changed_by u d d"
  by (simp add: chat_changed_by_def)

lemma find_conversation_Some: "find_conversation cid u d = Some c \<Longrightarrow> my_conversation u d cid"
  unfolding find_conversation_def my_conversation_def by (auto dest: first_where_Some)

lemma changed_upsert_conversation:
  assumes "u \<in> {u1, u2}"
  shows "stmt_keeps (chat_changed_by u d0) (upsert_conversation u1 u2)"
proof (rule stmt_keepsI)
  fix now x d c d'
  assume J: "chat_changed_by u d0 d" and q: "upsert_conversation u1 u2 now x d = Inr (c, d')"
  then have "u1 < u2" and "d' = d \<or> d' = d\<lparr>conversations_t := conversations_t d
      @ [\<lparr>cv_id = x, cv_user_a_id = u1, cv_user_b_id = u2, cv_created_at = now\<rparr>]\<rparr>"
    by (simp_all add: upsert_conversation_def Let_def split: if_splits option.splits)
  with J assms show "chat_changed_by u d0 d'"
    by (elim disjE) (auto simp: chat_changed_by_def my_conversation_def takes_part_def)
qed

lemma changed_insert_message: "stmt_keeps (chat_changed_by u d0) (insert_message cid u body)"
proof (rule stmt_keepsI)
  fix now x d a d'
  assume J: "chat_changed_by u d0 d" and q: "insert_message cid u body now x d = Inr (a, d')"
  then have "d' = d \<or> my_conversation u d cid \<and> d' = d\<lparr>messages_t := messages_t d
      @ [\<lparr>ms_id = x, ms_conversation_id = cid, ms_sender_id = u, ms_body = body, ms_created_at = now, ms_updated_at = now,
           ms_deleted_at = None\<rparr>]\<rparr>"
    by (simp add: insert_message_def Let_def split: option.splits) (blast dest: find_conversation_Some)
  with J show "chat_changed_by u d0 d'" by (elim disjE) (auto simp: chat_changed_by_def my_conversation_def)
qed

lemma changed_update_message:
  assumes "\<And>now m. same_message m (f now m)"
  shows "stmt_keeps (chat_changed_by u d0) (update_message mid u f)"
proof (rule stmt_keepsI)
  fix now x d a d'
  assume J: "chat_changed_by u d0 d" and "update_message mid u f now x d = Inr (a, d')"
  then have d': "d' = d\<lparr>messages_t := update_where (own_message mid u) (f now) (messages_t d)\<rparr>"
    by (auto simp: update_message_def q_write_def Let_def)
  have f: "ms_sender_id (f now m) = ms_sender_id m" "ms_conversation_id (f now m) = ms_conversation_id m"
    "same_message m0 (f now m) \<longleftrightarrow> same_message m0 m" for m0 m
    using assms [of m now] by (auto simp: same_message_def)
  have mem: "m \<in> set (messages_t d') \<longleftrightarrow> (m \<in> set (messages_t d) \<and> \<not> own_message mid u m)
      \<or> (\<exists>m1 \<in> set (messages_t d). own_message mid u m1 \<and> m = f now m1)" for m
    by (auto simp: d' set_update_where)
  have conv: "my_conversation u d' c = my_conversation u d c" for c by (simp add: d' my_conversation_def)
  have refl: "same_message m m" for m by (simp add: same_message_def)
  show "chat_changed_by u d0 d'"
    unfolding chat_changed_by_def
  proof (intro conjI ballI)
    fix m assume "m \<in> set (messages_t d')"
    with J refl show "m \<in> set (messages_t d0) \<or> ms_sender_id m = u
        \<and> ((\<exists>m0 \<in> set (messages_t d0). same_message m0 m \<and> ms_deleted_at m0 = None) \<or> my_conversation u d' (ms_conversation_id m))"
      unfolding mem conv chat_changed_by_def own_message_def by (metis f)
  next
    fix m0 assume m0: "m0 \<in> set (messages_t d0)"
    with J consider "m0 \<in> set (messages_t d)" | m where "ms_sender_id m0 = u" "ms_deleted_at m0 = None" "m \<in> set (messages_t d)" "same_message m0 m"
      unfolding chat_changed_by_def by blast
    then show "m0 \<in> set (messages_t d') \<or> ms_sender_id m0 = u \<and> ms_deleted_at m0 = None
        \<and> (\<exists>m \<in> set (messages_t d'). same_message m0 m)"
    proof cases
      case 1
      then show ?thesis using mem [of m0] mem [of "f now m0"] f(3) refl unfolding own_message_def by metis
    next
      case 2
      then show ?thesis using mem [of m] mem [of "f now m"] f(3) by metis
    qed
  qed (use J in \<open>auto simp: d' chat_changed_by_def\<close>)
qed

lemma keeps_db_on_hub [keeps_intro]: "keeps_db J (on_hub f)"
  unfolding keeps_db_def by (rule keepsI) (auto simp: on_hub_def split: option.splits)

lemma keeps_db_chat:
  shows "keeps_db (chat_changed_by u d0) (chat_GetOrCreateConversation E u v)"
    and "keeps_db (chat_changed_by u d0) (chat_CreateMessage cid u body)"
    and "keeps_db (chat_changed_by u d0) (chat_UpdateMessage mid u body)"
    and "keeps_db (chat_changed_by u d0) (chat_DeleteMessage mid u)"
    and "keeps_db (chat_changed_by u d0) (chat_ListConversations u n)"
    and "keeps_db (chat_changed_by u d0) (chat_GetConversation cid u)"
    and "keeps_db (chat_changed_by u d0) (chat_ListMessages cid u cursor n)"
proof -
  have "u \<in> {fst (ordered_pair E u v), snd (ordered_pair E u v)}" by (simp add: ordered_pair_def)
  then show "keeps_db (chat_changed_by u d0) (chat_GetOrCreateConversation E u v)"
    unfolding chat_GetOrCreateConversation_def
    by (auto simp: case_prod_beta intro!: keeps_db_if keeps_db_return keeps_db_pg_query_row changed_upsert_conversation)
  show "keeps_db (chat_changed_by u d0) (chat_CreateMessage cid u body)"
    unfolding chat_CreateMessage_def by (intro keeps_intro changed_insert_message)
  show "keeps_db (chat_changed_by u d0) (chat_UpdateMessage mid u body)"
    unfolding chat_UpdateMessage_def by (intro keeps_intro changed_update_message) (simp add: same_message_def)
  show "keeps_db (chat_changed_by u d0) (chat_DeleteMessage mid u)"
    unfolding chat_DeleteMessage_def by (intro keeps_intro changed_update_message) (simp add: same_message_def)
  show "keeps_db (chat_changed_by u d0) (chat_ListConversations u n)" "keeps_db (chat_changed_by u d0) (chat_GetConversation cid u)"
    "keeps_db (chat_changed_by u d0) (chat_ListMessages cid u cursor n)"
    unfolding chat_ListConversations_def chat_GetConversation_def chat_ListMessages_def by (intro keeps_intro)+
qed

lemma keeps_db_serve_chat: "keeps_db (chat_changed_by u d0) (serve_chat E u q)"
  by (cases q; simp only: serve_chat.simps chat_handlers; intro keeps_intro keeps_db_chat)

text \<open>
  C31: whatever a user asks of the chat and whatever breaks down, afterwards every message is one there was before, or one whose sender is
  that user and which is in a conversation of the user or is a message that was there, was not deleted, and changed at most in its text and
  its marks; every message there was is still there as it was, or is one of the user's own that was not deleted and keeps its
  identifier, conversation and date; no conversation is lost, and a new one has the user in it and its two users in order.
\<close>

theorem chat_integrity:
  "chat_changed_by u (w_db w) (w_db (snd (run (serve_chat E u q) w)))"
  using keeps_dbD [OF keeps_db_serve_chat [of u "w_db w"], of w E q] chat_changed_refl [of u "w_db w"] by simp

section \<open>Who may learn what\<close>

text \<open>
  A program agrees on two databases in the relation \<open>R\<close> when it answers the same on both and leaves the same world, but for
  the databases, which are then in the relation \<open>S\<close>.
\<close>

definition agree :: "(db \<Rightarrow> db \<Rightarrow> bool) \<Rightarrow> (db \<Rightarrow> db \<Rightarrow> bool) \<Rightarrow> ('z, 'a) prog \<Rightarrow> bool" where
  "agree R S m \<longleftrightarrow> (\<forall>w d. R (w_db w) d \<longrightarrow> fst (run m (w\<lparr>w_db := d\<rparr>)) = fst (run m w)
     \<and> (\<exists>d'. snd (run m (w\<lparr>w_db := d\<rparr>)) = (snd (run m w))\<lparr>w_db := d'\<rparr> \<and> S (w_db (snd (run m w))) d'))"

abbreviation anything :: "db \<Rightarrow> db \<Rightarrow> bool" where "anything \<equiv> \<lambda>_ _. True"

lemma agreeD: "agree R S m \<Longrightarrow> R (w_db w) d \<Longrightarrow> fst (run m (w\<lparr>w_db := d\<rparr>)) = fst (run m w)"
  by (simp add: agree_def)

lemma agree_weaken: "agree R S m \<Longrightarrow> agree R anything m"
  unfolding agree_def by blast

lemma agree_ret: "agree R R (ret a)"
  by (auto simp: agree_def)

lemma agree_any_ret: "agree R anything (ret a)"
  by (auto simp: agree_def)

lemma agree_bind:
  fixes m :: "('z, 'a) prog"
  assumes m: "agree R S m" and f: "\<And>a. agree S T (f a)"
  shows "agree R T (State_Monad.bind m f)"
  unfolding agree_def
proof (intro allI impI)
  fix w :: "'z world_scheme" and d
  assume R: "R (w_db w) d"
  obtain a w1 where 1: "run m w = (a, w1)" by fastforce
  from m R obtain d' where 2: "run m (w\<lparr>w_db := d\<rparr>) = (a, w1\<lparr>w_db := d'\<rparr>)" and S: "S (w_db w1) d'"
    unfolding agree_def by (metis 1 fst_conv snd_conv prod.collapse)
  from f [of a] S show "fst (run (State_Monad.bind m f) (w\<lparr>w_db := d\<rparr>)) = fst (run (State_Monad.bind m f) w)
     \<and> (\<exists>d'. snd (run (State_Monad.bind m f) (w\<lparr>w_db := d\<rparr>)) = (snd (run (State_Monad.bind m f) w))\<lparr>w_db := d'\<rparr>
        \<and> T (w_db (snd (run (State_Monad.bind m f) w))) d')"
    unfolding agree_def by (simp add: 1 2)
qed

lemma agree_attempt:
  "agree R S m \<Longrightarrow> (\<And>e. agree S T (h e)) \<Longrightarrow> (\<And>a. agree S T (k a)) \<Longrightarrow> agree R T (attempt m h k)"
  unfolding attempt_def by (erule agree_bind) (simp split: sum.split)

lemma tick_db_update: "tick (w\<lparr>w_db := d\<rparr>) = (tick w)\<lparr>w_db := d\<rparr>"
  by (simp add: tick_def)

lemma agree_read:
  assumes "\<And>d d'. R d d' \<Longrightarrow> f d' = f d"
  shows "agree R R (pg_call (q_read f))"
  unfolding agree_def by (auto simp: run_pg_read tick_db_update assms)

lemma agree_write:
  assumes "\<And>now v d d'. R d d' \<Longrightarrow> map_sum id fst (q now v d') = map_sum id fst (q now v d)"
  shows "agree R anything (pg_call q :: ('z, err + 'a) prog)"
  unfolding agree_def
proof (intro allI impI)
  fix w :: "'z world_scheme" and d
  assume R: "R (w_db w) d"
  have "map_sum id fst (q (w_now w) (fresh_id w) d) = map_sum id fst (q (w_now w) (fresh_id w) (w_db w))" by (rule assms [OF R])
  then show "fst (run (pg_call q) (w\<lparr>w_db := d\<rparr>)) = fst (run (pg_call q) w)
     \<and> (\<exists>d'. snd (run (pg_call q) (w\<lparr>w_db := d\<rparr>)) = (snd (run (pg_call q) w))\<lparr>w_db := d'\<rparr> \<and> True)"
    by (cases "q (w_now w) (fresh_id w) d"; cases "q (w_now w) (fresh_id w) (w_db w)")
       (auto simp: run_pg_call tick_db_update split: fault.split)
qed

lemma agree_row: "agree R S (pg_call q :: ('z, err + 'a option) prog) \<Longrightarrow> agree R S (pg_query_row q :: ('z, err + 'a) prog)"
  unfolding pg_query_row_def by (rule agree_bind, assumption, rule agree_ret)

lemma agree_on_hub: "agree anything anything (on_hub f :: ('z, bool) hprog)"
proof -
  have swap: "w\<lparr>w_db := d, w_hub := h\<rparr> = w\<lparr>w_hub := h, w_db := d\<rparr>" for w :: "'z hworld_scheme" and d h
    by (rule hworld.equality) simp_all
  then show ?thesis unfolding agree_def on_hub_def by (auto simp: swap split: option.split)
qed

text \<open>What a user sees of the chat.\<close>

definition chat_view :: "uuid \<Rightarrow> db \<Rightarrow> Conversation list \<times> Message list" where
  "chat_view u d = (select_where (takes_part u) (conversations_t d),
     select_where (\<lambda>m. my_conversation u d (ms_conversation_id m)) (messages_t d))"

definition senders_take_part :: "db \<Rightarrow> bool" where
  "senders_take_part d \<longleftrightarrow> (\<forall>m \<in> set (messages_t d). my_conversation (ms_sender_id m) d (ms_conversation_id m))"

definition same_view :: "uuid \<Rightarrow> db \<Rightarrow> db \<Rightarrow> bool" where
  "same_view u d d' \<longleftrightarrow> chat_view u d = chat_view u d' \<and> senders_take_part d \<and> senders_take_part d'"

lemma first_where_select: "first_where (\<lambda>x. P x \<and> Q x) t = first_where P (select_where Q t)"
  by (induction t) (simp_all add: first_where_Cons select_where_def)

lemma select_where_select: "(\<And>x. P x \<Longrightarrow> Q x) \<Longrightarrow> select_where P t = select_where P (select_where Q t)"
  by (induction t) (auto simp: select_where_def)

lemma my_conversation_view: "my_conversation u d cid \<longleftrightarrow> (\<exists>c \<in> set (fst (chat_view u d)). cv_id c = cid)"
  by (auto simp: my_conversation_def chat_view_def select_where_def)

lemma find_conversation_view: "find_conversation cid u d = first_where (\<lambda>c. cv_id c = cid) (fst (chat_view u d))"
  by (simp add: find_conversation_def chat_view_def first_where_select)

lemma my_messages_view:
  "my_conversation u d cid \<Longrightarrow> select_where (\<lambda>m. ms_conversation_id m = cid \<and> P m) (messages_t d)
     = select_where (\<lambda>m. ms_conversation_id m = cid \<and> P m) (snd (chat_view u d))"
  unfolding chat_view_def snd_conv by (rule select_where_select) simp

lemma sort_key_cong: "(\<And>x. x \<in> set xs \<Longrightarrow> f x = g x) \<Longrightarrow> sort_key f xs = sort_key g xs"
proof (induction xs)
  case (Cons x xs)
  have "insort_key f x ys = insort_key g x ys" if "\<And>y. y \<in> insert x (set ys) \<Longrightarrow> f y = g y" for ys
    using that by (induction ys) auto
  from this [of "sort_key g xs"] Cons show ?case by simp
qed simp

lemma order_desc_cong: "(\<And>x. x \<in> set xs \<Longrightarrow> f x = g x) \<Longrightarrow> order_desc f xs = order_desc g xs"
  unfolding order_desc_def by (intro arg_cong [where f = rev] sort_key_cong) simp

lemma before_cursor_None [simp]: "before_cursor d None m"
  by (simp add: before_cursor_def)

lemma last_activity_view:
  assumes "c \<in> set (fst (chat_view u d))" and "chat_view u d = chat_view u d'"
  shows "last_activity d c = last_activity d' c"
proof -
  have "my_conversation u d (cv_id c)" "my_conversation u d' (cv_id c)" using assms by (auto simp: my_conversation_view)
  then show ?thesis unfolding last_activity_def by (simp add: my_messages_view assms(2))
qed

lemma agree_chat_reads:
  shows "agree (same_view u) (same_view u) (chat_ListConversations u n)"
    and "agree (same_view u) (same_view u) (chat_GetConversation cid u)"
    and "agree (same_view u) (same_view u) (chat_ListMessages cid u None n)"
proof -
  show "agree (same_view u) (same_view u) (chat_ListConversations u n)"
    unfolding chat_ListConversations_def
  proof (rule agree_read)
    fix d d' assume "same_view u d d'"
    then have v: "chat_view u d = chat_view u d'" by (simp add: same_view_def)
    have "order_desc (last_activity d') (fst (chat_view u d')) = order_desc (last_activity d) (fst (chat_view u d'))"
      by (rule order_desc_cong) (metis last_activity_view v)
    with v show "page_of (page_limit n) 0 (order_desc (last_activity d') (select_where (takes_part u) (conversations_t d')))
        = page_of (page_limit n) 0 (order_desc (last_activity d) (select_where (takes_part u) (conversations_t d)))"
      by (simp add: chat_view_def)
  qed
  show "agree (same_view u) (same_view u) (chat_GetConversation cid u)"
    unfolding chat_GetConversation_def by (intro agree_row agree_read) (simp add: same_view_def find_conversation_view)
  show "agree (same_view u) (same_view u) (chat_ListMessages cid u None n)"
    unfolding chat_ListMessages_def
  proof (rule agree_read)
    fix d d' assume "same_view u d d'"
    then have v: "chat_view u d = chat_view u d'" by (simp add: same_view_def)
    have "select_where (\<lambda>m. ms_conversation_id m = cid \<and> ms_deleted_at m = None \<and> find_conversation cid u x \<noteq> None) (messages_t x)
        = select_where (\<lambda>m. ms_conversation_id m = cid \<and> ms_deleted_at m = None \<and> find_conversation cid u x \<noteq> None) (snd (chat_view u x))" for x
    proof (cases "find_conversation cid u x")
      case (Some c)
      then show ?thesis using my_messages_view [OF find_conversation_Some, OF Some] by simp
    qed (simp add: select_where_def)
    from this [of d] this [of d'] v show "page_of (page_limit n) 0 (order_desc ms_created_at (select_where (\<lambda>m. ms_conversation_id m = cid \<and> ms_deleted_at m = None
            \<and> before_cursor d' None m \<and> find_conversation cid u d' \<noteq> None) (messages_t d')))
        = page_of (page_limit n) 0 (order_desc ms_created_at (select_where (\<lambda>m. ms_conversation_id m = cid \<and> ms_deleted_at m = None
            \<and> before_cursor d None m \<and> find_conversation cid u d \<noteq> None) (messages_t d)))"
      by (simp add: find_conversation_view)
  qed
qed

lemma agree_chat_writes:
  shows "agree (same_view u) anything (chat_GetOrCreateConversation E u v)"
    and "agree (same_view u) anything (chat_CreateMessage cid u body)"
    and "agree (same_view u) anything (chat_UpdateMessage mid u body)"
    and "agree (same_view u) anything (chat_DeleteMessage mid u)"
proof -
  have "map_sum id fst (upsert_conversation u1 u2 now x d') = map_sum id fst (upsert_conversation u1 u2 now x d)"
    if "u = u1 \<or> u = u2" "same_view u d d'" for u1 u2 now x d d'
  proof -
    have "first_where (\<lambda>c. cv_user_a_id c = u1 \<and> cv_user_b_id c = u2) (conversations_t e)
        = first_where (\<lambda>c. cv_user_a_id c = u1 \<and> cv_user_b_id c = u2) (fst (chat_view u e))" for e
      unfolding chat_view_def fst_conv first_where_select [symmetric] using that(1) by (auto simp: takes_part_def intro!: arg_cong2 [where f = first_where])
    with that(2) show ?thesis by (simp add: upsert_conversation_def same_view_def Let_def split: option.split)
  qed
  moreover have "u = fst (ordered_pair E u v) \<or> u = snd (ordered_pair E u v)" by (simp add: ordered_pair_def)
  ultimately show "agree (same_view u) anything (chat_GetOrCreateConversation E u v)"
    unfolding chat_GetOrCreateConversation_def by (auto simp: case_prod_beta intro!: agree_any_ret agree_row agree_write)
  show "agree (same_view u) anything (chat_CreateMessage cid u body)"
    unfolding chat_CreateMessage_def
    by (intro agree_row agree_write) (simp add: insert_message_def same_view_def find_conversation_view Let_def split: option.split)
  have "map_sum id fst (update_message mid u f now x d') = map_sum id fst (update_message mid u f now x d)"
    if "same_view u d d'" for f now x d d'
  proof -
    have "select_where (own_message mid u) (messages_t e) = select_where (own_message mid u) (snd (chat_view u e))"
      if "senders_take_part e" for e
    proof -
      have "select_where (own_message mid u) (messages_t e)
          = select_where (own_message mid u) (select_where (\<lambda>m. my_conversation u e (ms_conversation_id m)) (messages_t e))"
        using that unfolding select_where_def filter_filter senders_take_part_def own_message_def by (intro filter_cong) auto
      then show ?thesis by (simp add: chat_view_def)
    qed
    with that show ?thesis by (simp add: update_message_def same_view_def Let_def)
  qed
  note upd = this
  show "agree (same_view u) anything (chat_UpdateMessage mid u body)"
    unfolding chat_UpdateMessage_def by (rule agree_bind [OF agree_write agree_any_ret]) (rule upd)
  show "agree (same_view u) anything (chat_DeleteMessage mid u)"
    unfolding chat_DeleteMessage_def by (rule agree_bind [OF agree_write agree_any_ret]) (rule upd)
qed

lemma agree_serve_chat:
  assumes "\<And>c qr. q = List_messages c qr \<Longrightarrow> query_id E qr ''cursor'' = None"
  shows "agree (same_view u) anything (serve_chat E u q)"
proof (cases q)
  case (List_messages c qr)
  with assms have "query_id E qr ''cursor'' = None" by blast
  then show ?thesis unfolding List_messages serve_chat.simps chat_handlers
    by (auto intro!: agree_any_ret agree_attempt [OF agree_chat_reads(3)] split: option.split)
next
  case (Send_message c body)
  show ?thesis unfolding Send_message serve_chat.simps chat_handlers
    by (auto intro!: agree_any_ret agree_attempt [OF agree_chat_reads(2)] agree_attempt [OF agree_chat_writes(2)]
        agree_bind [OF agree_on_hub] split: option.split)
qed (simp only: serve_chat.simps chat_handlers; auto intro!: agree_any_ret agree_attempt [OF agree_chat_reads(1)]
      agree_attempt [OF agree_chat_writes(1)] agree_attempt [OF agree_chat_writes(3)] agree_attempt [OF agree_chat_writes(4)]
      split: option.split)+

text \<open>
  C32: nobody learns anything of a conversation of others: two contents of the database that differ only in conversations the user takes
  no part in, and in their messages, get the same answer to every request of the user, whatever breaks down - except that a page of
  messages may be asked for with a cursor, which may be a message of a conversation of others. (Every message has a sender
  who takes part in its conversation, which every request keeps.)
\<close>

theorem chat_confidential:
  assumes "same_view u (w_db w) d" and "\<forall>c qr. q = List_messages c qr \<longrightarrow> query_id E qr ''cursor'' = None"
  shows "fst (run (serve_chat E u q) (w\<lparr>w_db := d\<rparr>)) = fst (run (serve_chat E u q) w)"
  using agreeD [OF agree_serve_chat assms(1)] assms(2) by blast

lemma senders_take_part_kept:
  assumes "senders_take_part (w_db w)"
  shows "senders_take_part (w_db (snd (run (serve_chat E u q) w)))"
proof -
  let ?d = "w_db w" and ?d' = "w_db (snd (run (serve_chat E u q) w))"
  have "chat_changed_by u ?d ?d'"
    using keeps_dbD [OF keeps_db_serve_chat [of u "w_db w"], of w E q] chat_changed_refl [of u "w_db w"] by simp
  then have convs: "my_conversation v ?d cid \<Longrightarrow> my_conversation v ?d' cid" for v cid
    by (auto simp: chat_changed_by_def my_conversation_def)
  show ?thesis
    unfolding senders_take_part_def
  proof
    fix m assume "m \<in> set (messages_t ?d')"
    with \<open>chat_changed_by u ?d ?d'\<close> have "m \<in> set (messages_t ?d) \<or> ms_sender_id m = u
        \<and> ((\<exists>m0 \<in> set (messages_t ?d). same_message m0 m \<and> ms_deleted_at m0 = None) \<or> my_conversation u ?d' (ms_conversation_id m))"
      by (simp add: chat_changed_by_def)
    then show "my_conversation (ms_sender_id m) ?d' (ms_conversation_id m)"
    proof (elim disjE conjE bexE)
      assume "m \<in> set (messages_t ?d)"
      with assms show ?thesis by (simp add: senders_take_part_def convs)
    next
      fix m0 assume "m0 \<in> set (messages_t ?d)" "same_message m0 m"
      with assms have "my_conversation (ms_sender_id m0) ?d (ms_conversation_id m0)" by (simp add: senders_take_part_def)
      with \<open>same_message m0 m\<close> show ?thesis by (simp add: same_message_def convs)
    qed simp
  qed
qed

text \<open>Two contents that differ in a conversation of 8 and 9.\<close>

definition sample_chat :: "Conversation list \<Rightarrow> Message list \<Rightarrow> db" where
  "sample_chat cs ms = (empty_db False)\<lparr>conversations_t := \<lparr>cv_id = 1, cv_user_a_id = 5, cv_user_b_id = 7, cv_created_at = 10\<rparr> # cs,
     messages_t := \<lparr>ms_id = 2, ms_conversation_id = 1, ms_sender_id = 7, ms_body = ''m'', ms_created_at = 20, ms_updated_at = 20,
       ms_deleted_at = None\<rparr> # ms\<rparr>"

definition other_conversation :: Conversation where
  "other_conversation = \<lparr>cv_id = 3, cv_user_a_id = 8, cv_user_b_id = 9, cv_created_at = 11\<rparr>"

definition other_message :: Message where
  "other_message = \<lparr>ms_id = 4, ms_conversation_id = 3, ms_sender_id = 8, ms_body = ''x'', ms_created_at = 21, ms_updated_at = 21,
     ms_deleted_at = None\<rparr>"

lemma sample_views: "same_view 5 (sample_chat [] []) (sample_chat [other_conversation] [other_message])"
  by (simp add: same_view_def chat_view_def senders_take_part_def my_conversation_def takes_part_def select_where_def sample_chat_def
      other_conversation_def other_message_def empty_db_def)

definition chat_world :: "db \<Rightarrow> hworld" where
  "chat_world d = \<lparr>w_db = d, w_faults = [], w_now = 100, w_gen = of_nat, w_drawn = 0, w_redis = fmempty, w_digits = (\<lambda>_. None),
     w_gateway = (\<lambda>_ _. NoRequest), w_hub = empty_hub doubling\<rparr>"

theorem chat_confidential_witness:
  "fst (run (serve_chat sample_ext 5 (List_messages ''11'' (\<lambda>_. None))) (chat_world (sample_chat [other_conversation] [other_message])))
     = fst (run (serve_chat sample_ext 5 (List_messages ''11'' (\<lambda>_. None))) (chat_world (sample_chat [] [])))"
proof -
  have w: "(chat_world d)\<lparr>w_db := d'\<rparr> = chat_world d'" "w_db (chat_world d) = d" for d d' by (simp_all add: chat_world_def)
  show ?thesis
    using chat_confidential [of 5 "chat_world (sample_chat [] [])" "sample_chat [other_conversation] [other_message]"
      "List_messages ''11'' (\<lambda>_. None)" sample_ext] sample_views
    by (simp add: w query_id_def Query_def)
qed

text \<open>
  The cursor is the exception: a page that starts at a message of a conversation of others shows whether that message is later
  than one's own.
\<close>

lemma cursor_leaks:
  "\<exists>d d'. same_view 5 d d' \<and> fst (run (serve_chat sample_ext 5 (List_messages ''11'' (\<lambda>k. if k = ''cursor'' then Some ''11111'' else None)))
       (chat_world d)) \<noteq> fst (run (serve_chat sample_ext 5 (List_messages ''11'' (\<lambda>k. if k = ''cursor'' then Some ''11111'' else None))) (chat_world d'))"
proof -
  have u: "uuid_parse sample_ext ''11'' = Some 1" "uuid_parse sample_ext ''11111'' = Some 4" by (simp_all add: sample_ext_def)
  have r: "reliable (chat_world d)" "w_db (chat_world d) = d" for d by (simp_all add: chat_world_def reliable_def)
  have "fst (run (serve_chat sample_ext 5 (List_messages ''11'' (\<lambda>k. if k = ''cursor'' then Some ''11111'' else None))) (chat_world (sample_chat [] [])))
      \<noteq> fst (run (serve_chat sample_ext 5 (List_messages ''11'' (\<lambda>k. if k = ''cursor'' then Some ''11111'' else None)))
          (chat_world (sample_chat [other_conversation] [other_message])))"
    by (simp add: Chat_ListMessages_def as_user_def with_id_def u query_id_def Query_def getIntQuery_def run_attempt chat_ListMessages_def r
        run_pg_read before_cursor_def sample_chat_def other_conversation_def other_message_def find_conversation_def takes_part_def
        first_where_def select_where_def order_desc_def page_of_def page_limit_def OKLang_def)
  with sample_views show ?thesis by blast
qed

end
