(* ===== verification/Server.thy ===== *)
theory Server
  imports Access Config Chat_Guarantees
begin

text \<open>
  The server (\<open>internal/server/router.go\<close>): what \<open>NewRouter\<close> builds from the configuration, the routes of every group with
  what they read from a request, and the middleware in front of each group. A request is answered by \<open>handle\<close>.
\<close>

section \<open>Construction\<close>

text \<open>
  Signing and checking tokens is the package \<open>jwt\<close>'s, the tag \<open>uuid\<close> of a body the validator's. The clients of the
  gateway, the stores and the repositories are values here; what they point to is in the world of a request.
\<close>

record router =
  ro_clientToken :: string
  ro_uuid_tag :: "string \<Rightarrow> bool"
  ro_jwtm :: JWTManager
  ro_refresh :: RefreshStore
  ro_authH :: AuthHandler
  ro_regH :: RegistrationHandler
  ro_profileH :: ProfileHandler
  ro_dispAuthH :: DispatcherAuthHandler
  ro_dispRegH :: DispatcherRegistrationHandler
  ro_dispProfileH :: DispatcherProfileHandler
  ro_cargoH :: CargoHandler
  ro_companyUserAuthH :: CompanyUserAuthHandler
  ro_companyUserRegH :: CompanyUserRegistrationHandler

definition NewRouter ::
    "(string \<Rightarrow> payload \<Rightarrow> string option) \<Rightarrow> (string \<Rightarrow> time \<Rightarrow> string \<Rightarrow> payload option) \<Rightarrow> (string \<Rightarrow> bool) \<Rightarrow>
     Config \<Rightarrow> router" where
  "NewRouter sign verify uuid_tag cfg =
     (let jwtm = \<lparr>signingKey = JWTSigningKey cfg, accessTTL = JWTAccessTTL cfg, refreshTTL = JWTRefreshTTL cfg,
                  jwt_sign = sign, jwt_verify = verify\<rparr>;
          otpVerifyWindow = of_seconds (OTPVerifyWindowSeconds cfg);
          otpStore = NewOTPStore (JWTSigningKey cfg) (OTPTTL cfg) (OTPResendCooldown cfg) (OTPMaxAttempts cfg)
            (OTPSendLimitPerPhonePerHour cfg) (OTPSendLimitPerIPPerHour cfg) (OTPSendWindow cfg)
            (OTPVerifyAttemptsPerPhone cfg) otpVerifyWindow;
          companyUserOTPStore = NewOTPStoreWithPrefix (JWTSigningKey cfg) (OTPTTL cfg) (OTPResendCooldown cfg) (OTPMaxAttempts cfg)
            (OTPSendLimitPerPhonePerHour cfg) (OTPSendLimitPerIPPerHour cfg) (OTPSendWindow cfg)
            (OTPVerifyAttemptsPerPhone cfg) otpVerifyWindow ''company_'';
          refreshStore = \<lparr>rs_ttl = JWTRefreshTTL cfg, rs_accessTTL = JWTAccessTTL cfg\<rparr>;
          tgClient = \<lparr>gc_token = TelegramGatewayToken cfg, gc_bypass = TelegramGatewayBypass cfg\<rparr>;
          phoneChangeStore = \<lparr>ph_secret = JWTSigningKey cfg, ph_ttl = OTPTTL cfg, ph_maxAttempts = OTPMaxAttempts cfg\<rparr>;
          dispRegSessions = \<lparr>ds_prefix = ''disp_regsession'', ds_ttl = 15 * minute\<rparr>;
          companyUserRegSessions = \<lparr>ds_prefix = ''company_regsession'', ds_ttl = 15 * minute\<rparr>;
          dispResetActions = \<lparr>da_secret = JWTSigningKey cfg, da_prefix = ''disp_reset'', da_ttl = OTPTTL cfg,
                              da_maxAttempts = OTPMaxAttempts cfg\<rparr>;
          dispPhoneActions = \<lparr>da_secret = JWTSigningKey cfg, da_prefix = ''disp_phone'', da_ttl = OTPTTL cfg,
                              da_maxAttempts = OTPMaxAttempts cfg\<rparr>
      in \<lparr>ro_clientToken = ClientTokenExpected cfg, ro_uuid_tag = uuid_tag, ro_jwtm = jwtm, ro_refresh = refreshStore,
          ro_authH = \<lparr>ah_otp = otpStore, ah_sessionTTL = 15 * minute, ah_refresh = refreshStore, ah_jwtm = jwtm,
                      ah_tg = tgClient, ah_otpTTL = OTPTTL cfg, ah_otpLen = OTPLength cfg\<rparr>,
          ro_regH = \<lparr>rg_jwtm = jwtm, rg_refresh = refreshStore\<rparr>,
          ro_profileH = \<lparr>pr_phoneChange = phoneChangeStore, pr_tg = tgClient, pr_otpTTL = OTPTTL cfg, pr_otpLen = OTPLength cfg\<rparr>,
          ro_dispAuthH = \<lparr>dh_otp = otpStore, dh_regSessions = dispRegSessions, dh_resetActions = dispResetActions,
                          dh_jwtm = jwtm, dh_refresh = refreshStore, dh_tg = tgClient, dh_otpTTL = OTPTTL cfg,
                          dh_otpLen = OTPLength cfg\<rparr>,
          ro_dispRegH = \<lparr>dg_sessions = dispRegSessions, dg_jwtm = jwtm, dg_refresh = refreshStore\<rparr>,
          ro_dispProfileH = \<lparr>dr_phoneChange = dispPhoneActions, dr_tg = tgClient, dr_otpTTL = OTPTTL cfg,
                             dr_otpLen = OTPLength cfg\<rparr>,
          ro_cargoH = \<lparr>h_tripsRepo = True, h_drivers = True, h_jwtm = Some jwtm,
                       FreelanceDispatcherCargoLimit = CargoLimit cfg\<rparr>,
          ro_companyUserAuthH = \<lparr>uh_otp = companyUserOTPStore, uh_regSessions = companyUserRegSessions, uh_jwtm = jwtm,
                                 uh_refresh = refreshStore, uh_tg = tgClient, uh_otpTTL = OTPTTL cfg,
                                 uh_otpLen = OTPLength cfg\<rparr>,
          ro_companyUserRegH = \<lparr>ur_sessions = companyUserRegSessions, ur_jwtm = jwtm, ur_refresh = refreshStore\<rparr>\<rparr>)"

section \<open>Requests\<close>

text \<open>What the middleware and some handlers read beside the path and the body.\<close>

record call =
  X_Client_Token :: string
  X_Device_Type :: string
  X_Language :: string
  X_User_Token :: string
  X_User_ID :: string
  query_user_id :: string
  query_token :: string
  ClientIP :: string
  Host :: string

text \<open>The routes without a user token: signing in and registering.\<close>

datatype entry_route =
    Company_user_phone "string option"
  | Company_user_verify "verifyOTPReq option"
  | Company_user_complete "companyUserCompleteReq option"
  | Driver_phone "string option"
  | Driver_verify "verifyOTPReq option"
  | Driver_logout "logoutReq option"
  | Driver_start "startReq option"
  | Refresh_tokens "string option"
  | Dispatcher_phone "string option"
  | Dispatcher_verify "verifyOTPReq option"
  | Dispatcher_login "passwordReq option"
  | Dispatcher_reset_request "string option"
  | Dispatcher_reset_confirm "resetReq option"
  | Dispatcher_logout "logoutReq option"
  | Dispatcher_complete "dispCompleteReq option"
  | Admin_login "AdminLoginReq option"

text \<open>The group \<open>/api\<close>: cargo, offers and trips, without a guard.\<close>

datatype api_route =
    Api_create "CreateCargoReq option"
  | Api_list query
  | Api_get string
  | Api_update string "UpdateCargoReq option"
  | Api_delete string
  | Api_status string "string option"
  | Api_offer string "OfferReq option"
  | Api_offers string
  | Api_accept string
  | Api_trips query
  | Api_trip string

datatype admin_route =
    Admin_company "adminCreateCompanyReq option"
  | Admin_owner string "string option"
  | Admin_search string
  | Admin_moderation query
  | Admin_accept string "string option"
  | Admin_reject string "string option"

datatype driver_route =
    Driver_profile
  | Driver_patch "DriverEditable option"
  | Driver_heartbeat "(float64 \<times> float64) option"
  | Driver_upload_photo "photo_file option"
  | Driver_photo
  | Driver_delete_photo
  | Driver_new_phone "string option"
  | Driver_confirm_phone "codeReq option"
  | Driver_power "power_row option"
  | Driver_trailer "trailer_row option"
  | Driver_delete
  | Driver_geo "geoReq option"
  | Driver_transport "transportReq option"
  | Driver_kyc "kycReq option"
  | Driver_trips query
  | Driver_confirm_trip string
  | Driver_reject_trip string
  | Driver_trip_status string "string option"
  | Driver_invitations
  | Driver_accept_invitation "string option"
  | Driver_decline_invitation "string option"
  | Driver_dispatchers
  | Driver_leave string
  | Driver_sent_invitations
  | Driver_invite "string option"
  | Driver_cancel_invitation string
  | Driver_recommended query
  | Driver_accept_cargo string
  | Driver_decline_cargo string

datatype dispatcher_route =
    Dispatcher_profile
  | Dispatcher_patch "DispatcherProfileParams option"
  | Dispatcher_upload_photo "photo_file option"
  | Dispatcher_photo
  | Dispatcher_password "changePasswordReq option"
  | Dispatcher_new_phone "string option"
  | Dispatcher_confirm_phone "codeReq option"
  | Dispatcher_delete
  | Dispatcher_companies
  | Dispatcher_switch "string option"
  | Dispatcher_invite_colleague string "CreateInvitationReq option"
  | Dispatcher_join "string option"
  | Dispatcher_refuse "string option"
  | Dispatcher_sent_invitations
  | Dispatcher_invite_driver "CreateForFreelanceReq option"
  | Dispatcher_cancel_invitation string
  | Dispatcher_invite_to_company string "string option"
  | Dispatcher_find_drivers string string
  | Dispatcher_drivers string
  | Dispatcher_unlink string
  | Dispatcher_requests
  | Dispatcher_accept_driver "string option"
  | Dispatcher_decline_driver "string option"
  | Dispatcher_driver_power string "power_row option"
  | Dispatcher_driver_trailer string "trailer_row option"
  | Dispatcher_assign string "string option"
  | Dispatcher_reject_offer string "string option"
  | Dispatcher_recommend string "uuid option"

datatype member_route =
    Member_companies
  | Member_switch "string option"
  | Member_create "CreateCompanyBody option"
  | Member_invite string "InvitationBody option"
  | Member_join "string option"
  | Member_list string "string option" "string option"
  | Member_role string string "string option"
  | Member_remove string string

datatype chat_route =
    Chat_request chat_request
  | Chat_presence string query
  | Chat_ws bool "frame list"

datatype route =
    Entry entry_route
  | Api api_route
  | Admin admin_route
  | Driver driver_route
  | Dispatcher dispatcher_route
  | Member member_route
  | Chat chat_route

section \<open>Handlers of the routes\<close>

fun serve_entry :: "ext \<Rightarrow> router \<Rightarrow> call \<Rightarrow> entry_route \<Rightarrow> ('z, response) gprog" where
  "serve_entry E R c (Company_user_phone b) = CompanyUserAuth_SendOTP E (ro_companyUserAuthH R) (ClientIP c) b"
| "serve_entry E R c (Company_user_verify b) = CompanyUserAuth_VerifyOTP E (ro_companyUserAuthH R) b"
| "serve_entry E R c (Company_user_complete b) = CompanyUserRegistration_Complete E (ro_companyUserRegH R) b"
| "serve_entry E R c (Driver_phone b) = AuthHandler_SendOTP E (ro_authH R) (ClientIP c) b"
| "serve_entry E R c (Driver_verify b) = AuthHandler_VerifyOTP E (ro_authH R) b"
| "serve_entry E R c (Driver_logout b) = AuthHandler_Logout E (ro_authH R) b"
| "serve_entry E R c (Driver_start b) = RegistrationHandler_Start E (ro_regH R) b"
| "serve_entry E R c (Refresh_tokens b) = AuthHandler_Refresh E (ro_authH R) b"
| "serve_entry E R c (Dispatcher_phone b) = DispatcherAuth_SendOTP E (ro_dispAuthH R) (ClientIP c) b"
| "serve_entry E R c (Dispatcher_verify b) = DispatcherAuth_VerifyOTP E (ro_dispAuthH R) b"
| "serve_entry E R c (Dispatcher_login b) = DispatcherAuth_LoginPassword E (ro_dispAuthH R) b"
| "serve_entry E R c (Dispatcher_reset_request b) = DispatcherAuth_ResetPasswordRequest E (ro_dispAuthH R) b"
| "serve_entry E R c (Dispatcher_reset_confirm b) = DispatcherAuth_ResetPasswordConfirm E (ro_dispAuthH R) b"
| "serve_entry E R c (Dispatcher_logout b) = DispatcherAuth_Logout E (ro_dispAuthH R) b"
| "serve_entry E R c (Dispatcher_complete b) = DispatcherRegistration_Complete E (ro_dispRegH R) b"
| "serve_entry E R c (Admin_login b) = AdminAuth_LoginPassword E (ro_jwtm R) (ro_refresh R) b"

fun serve_api :: "ext \<Rightarrow> router \<Rightarrow> call \<Rightarrow> api_route \<Rightarrow> ('z, response) prog" where
  "serve_api E R c (Api_create b) = CargoHandler_Create E (ro_cargoH R) (X_User_Token c) b"
| "serve_api E R c (Api_list q) = CargoHandler_List E (ro_cargoH R) (X_User_Token c) q"
| "serve_api E R c (Api_get i) = CargoHandler_GetByID E i"
| "serve_api E R c (Api_update i b) = CargoHandler_Update E i b"
| "serve_api E R c (Api_delete i) = CargoHandler_Delete E i"
| "serve_api E R c (Api_status i b) = CargoHandler_PatchStatus E i b"
| "serve_api E R c (Api_offer i b) = CargoHandler_CreateOffer E (ro_cargoH R) i b"
| "serve_api E R c (Api_offers i) = CargoHandler_ListOffers E i"
| "serve_api E R c (Api_accept i) = CargoHandler_AcceptOffer E (ro_cargoH R) i"
| "serve_api E R c (Api_trips q) = TripsHandler_List E q"
| "serve_api E R c (Api_trip i) = TripsHandler_Get E i"

fun serve_admin :: "ext \<Rightarrow> uuid \<Rightarrow> admin_route \<Rightarrow> ('z, response) prog" where
  "serve_admin E u (Admin_company b) = AdminCompanies_Create E u b"
| "serve_admin E u (Admin_owner i b) = AdminCompanies_SetOwner E i b"
| "serve_admin E u (Admin_search q) = AdminCompanies_SearchOwners E q"
| "serve_admin E u (Admin_moderation q) = Moderation_ListPending E q"
| "serve_admin E u (Admin_accept i b) = Moderation_Accept E i b"
| "serve_admin E u (Admin_reject i b) = Moderation_Reject E i b"

fun serve_driver :: "ext \<Rightarrow> router \<Rightarrow> uuid \<Rightarrow> driver_route \<Rightarrow> ('z, response) gprog" where
  "serve_driver E R u Driver_profile = Profile_Get E u"
| "serve_driver E R u (Driver_patch b) = Profile_PatchDriver E u b"
| "serve_driver E R u (Driver_heartbeat b) = Profile_Heartbeat E u b"
| "serve_driver E R u (Driver_upload_photo f) = Profile_UploadPhoto u f"
| "serve_driver E R u Driver_photo = Profile_GetPhoto u"
| "serve_driver E R u Driver_delete_photo = Profile_DeletePhoto u"
| "serve_driver E R u (Driver_new_phone b) = Profile_PhoneChangeRequest E (ro_profileH R) u b"
| "serve_driver E R u (Driver_confirm_phone b) = Profile_PhoneChangeVerify E (ro_profileH R) b"
| "serve_driver E R u (Driver_power b) = Profile_PatchPower E u b"
| "serve_driver E R u (Driver_trailer b) = Profile_PatchTrailer E u b"
| "serve_driver E R u Driver_delete = Profile_Delete u"
| "serve_driver E R u (Driver_geo b) = RegistrationHandler_GeoPush E u b"
| "serve_driver E R u (Driver_transport b) = RegistrationHandler_TransportType E u b"
| "serve_driver E R u (Driver_kyc b) = KYC_Submit E u b"
| "serve_driver E R u (Driver_trips q) = TripsHandler_ListMy E u q"
| "serve_driver E R u (Driver_confirm_trip i) = TripsHandler_DriverConfirm E u i"
| "serve_driver E R u (Driver_reject_trip i) = TripsHandler_DriverReject E u i"
| "serve_driver E R u (Driver_trip_status i b) = TripsHandler_PatchStatus E True u i b"
| "serve_driver E R u Driver_invitations = DriverInvitations_ListInvitations E u"
| "serve_driver E R u (Driver_accept_invitation b) = DriverInvitations_Accept E u b"
| "serve_driver E R u (Driver_decline_invitation b) = DriverInvitations_Decline E u b"
| "serve_driver E R u Driver_dispatchers = DriverDispatchers_ListMyDispatchers E u"
| "serve_driver E R u (Driver_leave p) = DriverDispatchers_UnlinkDispatcher E u p"
| "serve_driver E R u Driver_sent_invitations = D2D_ListSentByDriver u"
| "serve_driver E R u (Driver_invite b) = D2D_CreateFromDriver E u b"
| "serve_driver E R u (Driver_cancel_invitation t) = D2D_CancelByDriver u t"
| "serve_driver E R u (Driver_recommended q) = Recommendations_ListRecommendedForDriver E u q"
| "serve_driver E R u (Driver_accept_cargo i) = Recommendations_AcceptRecommendation E True u i"
| "serve_driver E R u (Driver_decline_cargo i) = Recommendations_DeclineRecommendation E u i"

fun serve_dispatcher :: "ext \<Rightarrow> router \<Rightarrow> uuid \<Rightarrow> dispatcher_route \<Rightarrow> ('z, response) gprog" where
  "serve_dispatcher E R p Dispatcher_profile = DispatcherProfile_Get E p"
| "serve_dispatcher E R p (Dispatcher_patch b) = DispatcherProfile_Patch E p b"
| "serve_dispatcher E R p (Dispatcher_upload_photo f) = DispatcherProfile_UploadPhoto p f"
| "serve_dispatcher E R p Dispatcher_photo = DispatcherProfile_GetPhoto p"
| "serve_dispatcher E R p (Dispatcher_password b) = DispatcherProfile_ChangePassword E p b"
| "serve_dispatcher E R p (Dispatcher_new_phone b) = DispatcherProfile_PhoneChangeRequest E (ro_dispProfileH R) p b"
| "serve_dispatcher E R p (Dispatcher_confirm_phone b) = DispatcherProfile_PhoneChangeVerify E (ro_dispProfileH R) b"
| "serve_dispatcher E R p Dispatcher_delete = DispatcherProfile_Delete p"
| "serve_dispatcher E R p Dispatcher_companies = DispatcherCompanies_ListMyCompanies E p"
| "serve_dispatcher E R p (Dispatcher_switch b) = DispatcherCompanies_SwitchCompany E (ro_jwtm R) (ro_uuid_tag R) p b"
| "serve_dispatcher E R p (Dispatcher_invite_colleague i b) = DispatcherInvitations_CreateInvitation E p i b"
| "serve_dispatcher E R p (Dispatcher_join b) = DispatcherInvitations_Accept E p b"
| "serve_dispatcher E R p (Dispatcher_refuse b) = DispatcherInvitations_Decline b"
| "serve_dispatcher E R p Dispatcher_sent_invitations = DriverInvitations_ListSent E p"
| "serve_dispatcher E R p (Dispatcher_invite_driver b) = DriverInvitations_CreateForFreelance E p b"
| "serve_dispatcher E R p (Dispatcher_cancel_invitation t) = DriverInvitations_CancelInvitation p t"
| "serve_dispatcher E R p (Dispatcher_invite_to_company i b) = DriverInvitations_Create E p i b"
| "serve_dispatcher E R p (Dispatcher_find_drivers ph l) = DriverInvitations_FindDrivers E ph l"
| "serve_dispatcher E R p (Dispatcher_drivers l) = DriverInvitations_ListMyDrivers E p l"
| "serve_dispatcher E R p (Dispatcher_unlink i) = DriverInvitations_UnlinkDriver E p i"
| "serve_dispatcher E R p Dispatcher_requests = D2D_ListReceivedByDispatcher E p"
| "serve_dispatcher E R p (Dispatcher_accept_driver b) = D2D_AcceptByDispatcher E p b"
| "serve_dispatcher E R p (Dispatcher_decline_driver b) = D2D_DeclineByDispatcher E p b"
| "serve_dispatcher E R p (Dispatcher_driver_power i b) = DriverInvitations_SetDriverPower E p i b"
| "serve_dispatcher E R p (Dispatcher_driver_trailer i b) = DriverInvitations_SetDriverTrailer E p i b"
| "serve_dispatcher E R p (Dispatcher_assign i b) = TripsHandler_AssignDriver E (ro_uuid_tag R) i b"
| "serve_dispatcher E R p (Dispatcher_reject_offer i b) = CargoHandler_RejectOfferDispatcher E p i b"
| "serve_dispatcher E R p (Dispatcher_recommend i b) = Recommendations_Recommend E p i b"

fun serve_member :: "ext \<Rightarrow> router \<Rightarrow> call \<Rightarrow> uuid \<Rightarrow> uuid option \<Rightarrow> member_route \<Rightarrow> ('z, response) prog" where
  "serve_member E R c u co Member_companies = CompanyTZ_ListMyCompanies E u co"
| "serve_member E R c u co (Member_switch b) = CompanyTZ_SwitchCompany E (ro_jwtm R) u b"
| "serve_member E R c u co (Member_create b) = CompanyTZ_CreateCompany E u b"
| "serve_member E R c u co (Member_invite i b) = CompanyTZ_CreateInvitation E u (Host c) i b"
| "serve_member E R c u co (Member_join b) = CompanyTZ_AcceptInvitation E u b"
| "serve_member E R c u co (Member_list i pg l) = CompanyTZ_ListCompanyUsers E u i pg l"
| "serve_member E R c u co (Member_role i j b) = CompanyTZ_UpdateUserRole E u i j b"
| "serve_member E R c u co (Member_remove i j) = CompanyTZ_RemoveUser E u i j"

text \<open>The answer of an upgraded connection is the connection itself.\<close>

fun serve_chat_route :: "ext \<Rightarrow> uuid \<Rightarrow> chat_route \<Rightarrow> ('z, response option) hprog" where
  "serve_chat_route E u (Chat_request q) = do { r \<leftarrow> serve_chat E u q; ret (Some r) }"
| "serve_chat_route E u (Chat_presence i q) = do { r \<leftarrow> Chat_GetPresence E i q; ret (Some r) }"
| "serve_chat_route E u (Chat_ws upgraded frames) = ServeWS E u upgraded frames"

section \<open>The middleware in front\<close>

definition behind :: "('z, response + 'a) prog \<Rightarrow> ('a \<Rightarrow> ('z, response option) prog) \<Rightarrow> ('z, response option) prog" where
  "behind guard handler = do {
     r \<leftarrow> guard;
     (case r of Inl refused \<Rightarrow> ret (Some refused) | Inr who \<Rightarrow> handler who)
   }"

definition answered :: "('z, response) prog \<Rightarrow> ('z, response option) prog" where
  "answered m = do { r \<leftarrow> m; ret (Some r) }"

fun serve_group :: "ext \<Rightarrow> router \<Rightarrow> call \<Rightarrow> route \<Rightarrow> ('z, response option) hprog" where
  "serve_group E R c (Entry q) = answered (serve_entry E R c q)"
| "serve_group E R c (Api q) = answered (serve_api E R c q)"
| "serve_group E R c (Admin q) = behind (RequireAdmin E (ro_jwtm R) True (X_User_Token c))
     (\<lambda>u. answered (serve_admin E u q))"
| "serve_group E R c (Driver q) = behind (RequireDriver E (ro_jwtm R) True (X_User_Token c))
     (\<lambda>u. UpdateDriverLastOnline u (answered (serve_driver E R u q)))"
| "serve_group E R c (Dispatcher q) = behind (RequireDispatcher E (ro_jwtm R) True (X_User_Token c))
     (\<lambda>(p, _). UpdateDispatcherLastOnline p (answered (serve_dispatcher E R p q)))"
| "serve_group E R c (Member q) = behind (RequireAppUser E (ro_jwtm R) True (X_User_Token c))
     (\<lambda>(u, _, co). answered (serve_member E R c u co q))"
| "serve_group E R c (Chat q) = behind
     (RequireChatUser E (ro_jwtm R) True (query_user_id c) (query_token c) (X_User_ID c) (X_User_Token c))
     (\<lambda>(u, _). serve_chat_route E u q)"

definition handle :: "ext \<Rightarrow> router \<Rightarrow> call \<Rightarrow> route \<Rightarrow> ('z, response option) hprog" where
  "handle E R c q =
     (case RequireBaseHeaders E (ro_clientToken R) (X_Device_Type c) (X_Language c) (X_Client_Token c) of
        Some refused \<Rightarrow> ret (Some refused)
      | None \<Rightarrow> serve_group E R c q)"

end
