(* ===== verification/Server_Guarantees.thy ===== *)
theory Server_Guarantees
  imports Server Sample_Run
begin

text \<open>
  What the groups of routes guarantee: which tables a request may change, and what it has to show for it.
\<close>

section \<open>Who may change what\<close>

fun writable :: "route \<Rightarrow> table set" where
  "writable (Entry q) = {T_drivers, T_dispatchers, T_company_users}"
| "writable (Api q) = {T_cargo, T_route_points, T_payments, T_offers, T_trips}"
| "writable (Admin q) = {T_companies, T_company_users, T_cargo}"
| "writable (Driver q) = {T_drivers, T_deleted_drivers, T_powers, T_trailers, T_d2d_invitations, T_driver_invitations,
     T_recommendations, T_offers, T_trips, T_cargo}"
| "writable (Dispatcher q) = {T_dispatchers, T_deleted_dispatchers, T_dcr, T_dispatcher_invitations, T_driver_invitations,
     T_d2d_invitations, T_drivers, T_powers, T_trailers, T_recommendations, T_offers, T_trips}"
| "writable (Member q) = {T_companies, T_ucr, T_company_invitations, T_audit}"
| "writable (Chat q) = {T_conversations, T_messages}"

lemma writes_entry_routes: "keeps_db (only_in (writable (Entry q)) d0) (serve_entry E R c q)"
  by (cases q) (simp_all add: writes_intro)

lemma writes_api_routes: "keeps_db (only_in (writable (Api q)) d0) (serve_api E R c q)"
  by (cases q) (simp_all add: writes_intro)

lemma writes_admin_routes: "keeps_db (only_in (writable (Admin q)) d0) (serve_admin E u q)"
  by (cases q) (simp_all add: writes_intro)

lemma writes_driver_routes: "keeps_db (only_in (writable (Driver q)) d0) (serve_driver E R u q)"
  by (cases q) (simp_all add: writes_intro)

lemma writes_dispatcher_routes: "keeps_db (only_in (writable (Dispatcher q)) d0) (serve_dispatcher E R p q)"
  by (cases q) (simp_all add: writes_intro)

lemma writes_member_routes: "keeps_db (only_in (writable (Member q)) d0) (serve_member E R c u co q)"
  by (cases q) (simp_all add: writes_intro)

lemma writes_chat_request:
  "T_conversations \<in> T \<Longrightarrow> T_messages \<in> T \<Longrightarrow> keeps_db (only_in T d0) (serve_chat E u q)"
  by (cases q) (simp_all add: writes_intro)

lemma writes_chat_routes: "keeps_db (only_in (writable (Chat q)) d0) (serve_chat_route E u q)"
  by (cases q) (auto intro!: keeps_db_bind keeps_db_return writes_chat_request writes_chat_handlers)

lemma keeps_behind:
  "keeps_db J g \<Longrightarrow> (\<And>x. keeps_db J (h x)) \<Longrightarrow> keeps_db J (behind g h)"
  unfolding behind_def by (intro keeps_intro)

lemma keeps_answered: "keeps_db J m \<Longrightarrow> keeps_db J (answered m)"
  unfolding answered_def by (intro keeps_intro)

lemma keeps_last_online:
  "T_drivers \<in> T \<Longrightarrow> keeps_db (only_in T d0) m \<Longrightarrow> keeps_db (only_in T d0) (UpdateDriverLastOnline u m)"
  "T_dispatchers \<in> T \<Longrightarrow> keeps_db (only_in T d0) m \<Longrightarrow> keeps_db (only_in T d0) (UpdateDispatcherLastOnline u m)"
  unfolding UpdateDriverLastOnline_def UpdateDispatcherLastOnline_def
  by ((rule writes_intro keeps_intro | assumption)+)

lemma writes_group: "keeps_db (only_in (writable q) d0) (serve_group E R c q)"
  by (cases q)
     (auto intro!: keeps_behind keeps_answered keeps_last_online keeps_db_case_prod writes_intro writes_entry_routes
        writes_api_routes writes_admin_routes writes_driver_routes writes_dispatcher_routes writes_member_routes
        writes_chat_routes simp del: writable.simps, simp_all)

text \<open>
  The text is a token of the role for a user; for the guarded groups its session, when it names one, is alive as well. The chat takes
  the word of a parameter or a header for the identity of the user.
\<close>

definition token_of :: "ext \<Rightarrow> JWTManager \<Rightarrow> time \<Rightarrow> string \<Rightarrow> uuid \<times> string \<times> string \<Rightarrow> bool" where
  "token_of E m now raw = (\<lambda>(u, role, sid).
     (\<exists>company. ParseAccessWithSID E m now (TrimSpace raw) = Inr (u, role, company, sid)) \<and> u \<noteq> uuid_nil)"

definition live_token :: "ext \<Rightarrow> JWTManager \<Rightarrow> string \<Rightarrow> string \<Rightarrow> 'z rworld_scheme \<Rightarrow> bool" where
  "live_token E m role raw w \<longleftrightarrow> (\<exists>u sid. token_of E m (w_now w) raw (u, role, sid) \<and> fst (run (session_checked True sid) w))"

fun admitted :: "ext \<Rightarrow> router \<Rightarrow> call \<Rightarrow> route \<Rightarrow> 'z rworld_scheme \<Rightarrow> bool" where
  "admitted E R c (Entry q) w \<longleftrightarrow> True"
| "admitted E R c (Api q) w \<longleftrightarrow> True"
| "admitted E R c (Admin q) w \<longleftrightarrow> live_token E (ro_jwtm R) ''admin'' (X_User_Token c) w"
| "admitted E R c (Driver q) w \<longleftrightarrow> live_token E (ro_jwtm R) ''driver'' (X_User_Token c) w"
| "admitted E R c (Dispatcher q) w \<longleftrightarrow> live_token E (ro_jwtm R) ''dispatcher'' (X_User_Token c) w"
| "admitted E R c (Member q) w \<longleftrightarrow> live_token E (ro_jwtm R) ''user'' (X_User_Token c) w"
| "admitted E R c (Chat q) w \<longleftrightarrow>
     (\<exists>raw \<in> {query_user_id c, X_User_ID c}. tryUserID E raw \<noteq> None)
   \<or> (\<exists>raw \<in> {query_token c, X_User_Token c}. \<exists>x. token_of E (ro_jwtm R) (w_now w) raw x)"

lemma guard_token: "fst (run (guard_role E m True role raw) w) = Inr x \<Longrightarrow> live_token E m role raw w"
  by (auto simp: guard_role_def live_token_def token_of_def Let_def case_prod_unfold split: sum.splits if_splits prod.splits)

lemma guards_token:
  "fst (run (RequireDriver E m True raw) w) = Inr x \<Longrightarrow> live_token E m ''driver'' raw w"
  "fst (run (RequireAdmin E m True raw) w) = Inr x \<Longrightarrow> live_token E m ''admin'' raw w"
  "fst (run (RequireDispatcher E m True raw) w) = Inr y \<Longrightarrow> live_token E m ''dispatcher'' raw w"
  "fst (run (RequireAppUser E m True raw) w) = Inr z \<Longrightarrow> live_token E m ''user'' raw w"
  unfolding guards_one by (auto split: sum.splits dest!: guard_token simp: map_sum_def split_beta)

lemma tryToken_token:
  "fst (run (tryToken E m st raw) w) = Some x \<Longrightarrow> \<exists>y. token_of E m (w_now w) raw y"
  by (auto simp: tryToken_def token_of_def Let_def case_prod_unfold split: sum.splits if_splits prod.splits)

lemma tryToken_clock: "w_now (snd (run (tryToken E m st raw) w)) = w_now w"
  by (auto simp: tryToken_def session_checked_def RefreshStore_SessionValid_def run_rd_call Let_def case_prod_unfold split: sum.splits prod.splits fault.splits)

lemma chat_identity:
  assumes "fst (run (RequireChatUser E m True qu qt hu ht) w) = Inr x"
  shows "(\<exists>raw \<in> {qu, hu}. tryUserID E raw \<noteq> None) \<or> (\<exists>raw \<in> {qt, ht}. \<exists>y. token_of E m (w_now w) raw y)"
proof -
  obtain t w1 where t: "run (tryToken E m True qt) w = (t, w1)" by force
  then have w1: "w_now w1 = w_now w" using tryToken_clock [of E m True qt w] by simp
  show ?thesis
  proof (cases "tryUserID E qu = None \<and> tryUserID E hu = None \<and> t = None")
    case True
    then have "\<exists>y. token_of E m (w_now w) ht y"
      using assms t w1
      by (auto simp: RequireChatUser_def token_of_def Let_def case_prod_unfold split: sum.splits if_splits prod.splits)
    then show ?thesis by blast
  next
    case False
    then show ?thesis using t tryToken_token [of E m True qt w] by (cases t) auto
  qed
qed

lemma behind_refused:
  fixes w :: "'z world_scheme"
  assumes "reads_only g" and "w_db (snd (run (behind g h) w)) \<noteq> w_db w"
  shows "\<exists>x. fst (run g w) = Inr x"
  using assms reads_onlyD [OF assms(1), of w]
  by (cases "fst (run g w)") (auto simp: behind_def case_prod_unfold)

lemma entered:
  fixes w :: "'z hworld_scheme"
  assumes "w_db (snd (run (serve_group E R c q) w)) \<noteq> w_db w"
  shows "admitted E R c q w"
proof (cases q)
  case (Admin r)
  with assms show ?thesis by (auto dest!: behind_refused [OF reads_only_guards(2)] guards_token)
next
  case (Driver r)
  with assms show ?thesis by (auto dest!: behind_refused [OF reads_only_guards(1)] guards_token)
next
  case (Dispatcher r)
  with assms show ?thesis by (auto dest!: behind_refused [OF reads_only_guards(3)] guards_token)
next
  case (Member r)
  with assms show ?thesis by (auto dest!: behind_refused [OF reads_only_guards(4)] guards_token)
next
  case (Chat r)
  with assms obtain x where "fst (run (RequireChatUser E (ro_jwtm R) True (query_user_id c) (query_token c)
      (X_User_ID c) (X_User_Token c)) w) = Inr x"
    by (auto dest!: behind_refused [OF reads_only_RequireChatUser])
  from chat_identity [OF this] Chat show ?thesis by simp
qed simp_all

text \<open>
  C1: a table of the database changes only at the request of someone who may change it: the base headers are in order, the group of
  the route has the table among those its handlers write, and the request shows what the group asks for: a token of the
  role of the group with a live session (administrators, drivers, dispatchers, members of companies), a token of any role
  or just an identifier (chat), nothing at all (signing in, and the cargo side under \<open>/api\<close>). This holds for every
  route, whatever the body says and whatever breaks down meanwhile.
\<close>

theorem access_matrix:
  fixes w :: "'z hworld_scheme"
  assumes "\<not> same t (w_db w) (w_db (snd (run (handle E R c q) w)))"
  shows "t \<in> writable q \<and> admitted E R c q w
       \<and> RequireBaseHeaders E (ro_clientToken R) (X_Device_Type c) (X_Language c) (X_Client_Token c) = None"
proof -
  from assms have headers: "RequireBaseHeaders E (ro_clientToken R) (X_Device_Type c) (X_Language c) (X_Client_Token c) = None"
    by (auto simp: handle_def split: option.splits)
  with assms have moved: "\<not> same t (w_db w) (w_db (snd (run (serve_group E R c q) w)))" by (simp add: handle_def)
  moreover have "only_in (writable q) (w_db w) (w_db (snd (run (serve_group E R c q) w)))"
    by (rule keeps_dbD [OF writes_group]) simp
  ultimately have "t \<in> writable q" by (auto simp: only_in_def)
  moreover from moved have "w_db (snd (run (serve_group E R c q) w)) \<noteq> w_db w" by (metis same_refl)
  ultimately show ?thesis using headers entered by blast
qed

section \<open>A server with the default configuration\<close>

definition sample_env :: env where
  "sample_env k = (if k = ''DATABASE_URL'' then ''postgres://db'' else if k = ''JWT_SIGNING_KEY'' then ''secret'' else [])"

definition sample_config :: Config where
  "sample_config = \<lparr>AppEnv = ''local'', HTTPAddr = '':8080'', ClientTokenExpected = [], DatabaseURL = ''postgres://db'',
     RedisAddr = ''localhost:6379'', RedisPassword = [], RedisDB = 0, JWTSigningKey = ''secret'',
     JWTAccessTTL = 900 * second, JWTRefreshTTL = 720 * hour, OTPLength = 6, OTPTTL = 120 * second,
     OTPResendCooldown = 30 * second, OTPMaxAttempts = 5, OTPSendLimitPerPhonePerHour = 10, OTPSendLimitPerIPPerHour = 30,
     OTPSendWindow = hour, OTPVerifyAttemptsPerPhone = 10, OTPVerifyWindowSeconds = 900,
     TelegramGatewayBaseURL = ''https://gatewayapi.telegram.org'', TelegramGatewayToken = [], TelegramGatewaySenderID = [],
     TelegramGatewayBypass = False, CargoLimit = 0\<rparr>"

lemma sample_config_loaded: "LoadFromEnv sample_env = Returns sample_config"
  by code_simp

definition sample_call :: call where
  "sample_call = \<lparr>X_Client_Token = ''app'', X_Device_Type = ''ios'', X_Language = ''ru'', X_User_Token = [], X_User_ID = [],
     query_user_id = [], query_token = [], ClientIP = [], Host = []\<rparr>"

abbreviation sample_router :: router where
  "sample_router \<equiv> NewRouter (\<lambda>_ _. None) (\<lambda>_ _ _. None) (\<lambda>_. True) sample_config"

text \<open>Without any token a cargo is deleted.\<close>

lemma anonymous_delete:
  "cargo_t (w_db (snd (run (handle sample_ext sample_router sample_call (Api (Api_delete (uuid_string sample_ext 8))))
      (chat_world (sample_db ''SEARCHING_ALL'' [] []))))) \<noteq> cargo_t (sample_db ''SEARCHING_ALL'' [] [])"
proof -
  have headers: "RequireBaseHeaders sample_ext (ro_clientToken sample_router) (X_Device_Type sample_call) (X_Language sample_call)
      (X_Client_Token sample_call) = None"
    by (simp add: NewRouter_def Let_def) code_simp
  have world: "reliable (chat_world d)" "w_db (chat_world d) = d" "w_now (chat_world d) = 100" for d
    by (simp_all add: chat_world_def reliable_def)
  show ?thesis
    by (simp add: handle_def headers answered_def CargoHandler_Delete_def sample_ext_laws cargo_Delete_def world
        update_cargo_def live_cargo_def select_where_def update_where_def count_where_def cargo_checks_def
        cargo_status_check_def created_by_type_check_def weight_check_def sample_cargo_def new_cargo_def toCreateParams_def
        sample_req_def ignore_count_def)
qed

theorem access_matrix_witness:
  "\<not> same T_cargo (sample_db ''SEARCHING_ALL'' [] []) (w_db (snd (run (handle sample_ext sample_router sample_call
       (Api (Api_delete (uuid_string sample_ext 8)))) (chat_world (sample_db ''SEARCHING_ALL'' [] [])))))
   \<and> T_cargo \<in> writable (Api (Api_delete (uuid_string sample_ext 8)))"
proof -
  have w: "w_db (chat_world d) = d" for d by (simp add: chat_world_def)
  show ?thesis
    using access_matrix [of T_cargo "chat_world (sample_db ''SEARCHING_ALL'' [] [])" sample_ext sample_router sample_call
      "Api (Api_delete (uuid_string sample_ext 8))"] anonymous_delete
    by (simp only: same.simps w) auto
qed

end
