(* ===== verification/Messages.thy ===== *)
theory Messages
  imports Text
begin

text \<open>
  The descriptions of the answers (\<open>internal/server/resp\<close>): the table of messages in five languages, the choice of a text, and the
  envelope every answer is sent in. Text beyond ASCII is written as its code points.
\<close>

section \<open>The table\<close>

definition utf8 :: "rune list \<Rightarrow> string" where "utf8 rs = encode_runes rs"

definition apiMessages_1 :: "(string \<times> (string \<times> string) list) list" where
  "apiMessages_1 = [
     (''ok'', [(''en'', ''OK''), (''ru'', utf8 [1059, 1089, 1087, 1077, 1096, 1085, 1086]), (''uz'', ''Muvaffaqiyatli''),
        (''tr'', ''Ba'' @ utf8 [351] @ ''ar'' @ utf8 [305] @ ''l'' @ utf8 [305]), (''zh'', utf8 [25104, 21151])]),
     (''created'', [(''en'', ''Resource created''), (''ru'', utf8 [1056, 1077, 1089, 1091, 1088, 1089, 32, 1089, 1086, 1079,
        1076, 1072, 1085]), (''uz'', ''Yaratildi''), (''tr'', ''Olu'' @ utf8 [351] @ ''turuldu''), (''zh'', utf8 [24050, 21019,
        24314])]),
     (''updated'', [(''en'', ''Updated successfully''), (''ru'', utf8 [1054, 1073, 1085, 1086, 1074, 1083, 1077, 1085, 1086]),
        (''uz'', ''Yangilandi''), (''tr'', ''G'' @ utf8 [252] @ ''ncellendi''), (''zh'', utf8 [24050, 26356, 26032])]),
     (''accepted'', [(''en'', ''Accepted''), (''ru'', utf8 [1055, 1088, 1080, 1085, 1103, 1090, 1086]), (''uz'', ''Qabul qilindi''),
        (''tr'', ''Kabul edildi''), (''zh'', utf8 [24050, 25509, 21463])]),
     (''declined'', [(''en'', ''Declined''), (''ru'', utf8 [1054, 1090, 1082, 1083, 1086, 1085, 1077, 1085, 1086]), (''uz'',
        ''Rad etildi''), (''tr'', ''Reddedildi''), (''zh'', utf8 [24050, 25298, 32477])]),
     (''photo_uploaded'', [(''en'', ''Photo uploaded''), (''ru'', utf8 [1060, 1086, 1090, 1086, 32, 1079, 1072, 1075, 1088,
        1091, 1078, 1077, 1085, 1086]), (''uz'', ''Foto yuklandi''), (''tr'', ''Foto'' @ utf8 [287] @ ''raf y'' @ utf8 [252] @
        ''klendi''), (''zh'', utf8 [29031, 29255, 24050, 19978, 20256])]),
     (''photo_deleted'', [(''en'', ''Photo deleted''), (''ru'', utf8 [1060, 1086, 1090, 1086, 32, 1091, 1076, 1072, 1083, 1077,
        1085, 1086]), (''uz'', ''Foto o'chirildi''), (''tr'', ''Foto'' @ utf8 [287] @ ''raf silindi''), (''zh'', utf8 [29031,
        29255, 24050, 21024, 38500])]),
     (''heartbeat'', [(''en'', ''Location updated''), (''ru'', utf8 [1043, 1077, 1086, 1083, 1086, 1082, 1072, 1094, 1080, 1103,
        32, 1086, 1073, 1085, 1086, 1074, 1083, 1077, 1085, 1072]), (''uz'', ''Lokatsiya yangilandi''), (''tr'', ''Konum g'' @
        utf8 [252] @ ''ncellendi''), (''zh'', utf8 [20301, 32622, 24050, 26356, 26032])]),
     (''otp_sent'', [(''en'', ''Verification code sent''), (''ru'', utf8 [1050, 1086, 1076, 32, 1087, 1086, 1076, 1090, 1074,
        1077, 1088, 1078, 1076, 1077, 1085, 1080, 1103, 32, 1086, 1090, 1087, 1088, 1072, 1074, 1083, 1077, 1085]), (''uz'',
        ''Tasdiqlash kodi yuborildi''), (''tr'', ''Do'' @ utf8 [287] @ ''rulama kodu g'' @ utf8 [246] @ ''nderildi''), (''zh'',
        utf8 [39564, 35777, 30721, 24050, 21457, 36865])]),
     (''phone_updated'', [(''en'', ''Phone number updated''), (''ru'', utf8 [1053, 1086, 1084, 1077, 1088, 32, 1090, 1077, 1083,
        1077, 1092, 1086, 1085, 1072, 32, 1086, 1073, 1085, 1086, 1074, 1083, 1105, 1085]), (''uz'', ''Telefon raqami yangilandi''),
        (''tr'', ''Telefon numaras'' @ utf8 [305] @ '' g'' @ utf8 [252] @ ''ncellendi''), (''zh'', utf8 [30005, 35805, 21495,
        30721, 24050, 26356, 26032])]),
     (''login'', [(''en'', ''Logged in successfully''), (''ru'', utf8 [1042, 1093, 1086, 1076, 32, 1074, 1099, 1087, 1086, 1083,
        1085, 1077, 1085]), (''uz'', ''Tizimga kirildi''), (''tr'', ''Giri'' @ utf8 [351] @ '' ba'' @ utf8 [351] @ ''ar'' @
        utf8 [305] @ ''l'' @ utf8 [305]), (''zh'', utf8 [30331, 24405, 25104, 21151])]),
     (''register'', [(''en'', ''Registration in progress''), (''ru'', utf8 [1056, 1077, 1075, 1080, 1089, 1090, 1088, 1072,
        1094, 1080, 1103, 32, 1085, 1072, 1095, 1072, 1090, 1072]), (''uz'', ''Ro'yxatdan o'tish boshlandi''), (''tr'', ''Kay''
        @ utf8 [305] @ ''t i'' @ utf8 [351] @ ''lemi ba'' @ utf8 [351] @ ''lad'' @ utf8 [305]), (''zh'', utf8 [27880, 20876,
        24050, 24320, 22987])]),
     (''invalid_payload'', [(''en'', ''Invalid request body''), (''ru'', utf8 [1053, 1077, 1082, 1086, 1088, 1088, 1077, 1082,
        1090, 1085, 1099, 1077, 32, 1076, 1072, 1085, 1085, 1099, 1077, 32, 1079, 1072, 1087, 1088, 1086, 1089, 1072]), (''uz'',
        ''So'rov formati noto'g'ri''), (''tr'', ''Ge'' @ utf8 [231] @ ''ersiz istek g'' @ utf8 [246] @ ''vdesi''), (''zh'',
        utf8 [35831, 27714, 20307, 26080, 25928])]),
     (''invalid_payload_detail'', [(''en'', ''Invalid request body''), (''ru'', utf8 [1053, 1077, 1082, 1086, 1088, 1088, 1077,
        1082, 1090, 1085, 1099, 1077, 32, 1076, 1072, 1085, 1085, 1099, 1077, 32, 1079, 1072, 1087, 1088, 1086, 1089, 1072]),
        (''uz'', ''So'rov formati noto'g'ri''), (''tr'', ''Ge'' @ utf8 [231] @ ''ersiz istek g'' @ utf8 [246] @ ''vdesi''),
        (''zh'', utf8 [35831, 27714, 20307, 26080, 25928])]),
     (''unauthorized'', [(''en'', ''Unauthorized''), (''ru'', utf8 [1053, 1077, 32, 1072, 1074, 1090, 1086, 1088, 1080, 1079,
        1086, 1074, 1072, 1085]), (''uz'', ''Avtorizatsiya talab qilinadi''), (''tr'', ''Yetkisiz''), (''zh'', utf8 [26410,
        25480, 26435])]),
     (''internal_error'', [(''en'', ''Internal server error''), (''ru'', utf8 [1042, 1085, 1091, 1090, 1088, 1077, 1085, 1085,
        1103, 1103, 32, 1086, 1096, 1080, 1073, 1082, 1072, 32, 1089, 1077, 1088, 1074, 1077, 1088, 1072]), (''uz'', ''Server xatosi''),
        (''tr'', ''Sunucu hatas'' @ utf8 [305]), (''zh'', utf8 [26381, 21153, 22120, 20869, 37096, 38169, 35823])]),
     (''driver_not_found'', [(''en'', ''Driver not found''), (''ru'', utf8 [1042, 1086, 1076, 1080, 1090, 1077, 1083, 1100, 32,
        1085, 1077, 32, 1085, 1072, 1081, 1076, 1077, 1085]), (''uz'', ''Haydovchi topilmadi''), (''tr'', ''S'' @ utf8 [252] @
        ''r'' @ utf8 [252] @ ''c'' @ utf8 [252] @ '' bulunamad'' @ utf8 [305]), (''zh'', utf8 [26410, 25214, 21040, 21496,
        26426])]),
     (''driver_already_in_company'', [(''en'', ''Driver with this phone is already in the company''), (''ru'', utf8 [1042, 1086,
        1076, 1080, 1090, 1077, 1083, 1100, 32, 1089, 32, 1101, 1090, 1080, 1084, 32, 1085, 1086, 1084, 1077, 1088, 1086, 1084,
        32, 1091, 1078, 1077, 32, 1074, 32, 1082, 1086, 1084, 1087, 1072, 1085, 1080, 1080]), (''uz'', ''Bu raqamdagi haydovchi allaqachon kompaniyada''),
        (''tr'', ''Bu telefon numaras'' @ utf8 [305] @ ''na sahip s'' @ utf8 [252] @ ''r'' @ utf8 [252] @ ''c'' @ utf8 [252] @
        '' zaten '' @ utf8 [351] @ ''irkette''), (''zh'', utf8 [35813, 21495, 30721, 30340, 21496, 26426, 24050, 22312, 20844,
        21496])]),
     (''driver_already_accepted_your_invitation'', [(''en'', ''Driver with this phone has already accepted your invitation''),
        (''ru'', utf8 [1042, 1086, 1076, 1080, 1090, 1077, 1083, 1100, 32, 1089, 32, 1101, 1090, 1080, 1084, 32, 1085, 1086,
        1084, 1077, 1088, 1086, 1084, 32, 1091, 1078, 1077, 32, 1087, 1088, 1080, 1085, 1103, 1083, 32, 1074, 1072, 1096, 1077,
        32, 1087, 1088, 1080, 1075, 1083, 1072, 1096, 1077, 1085, 1080, 1077]), (''uz'', ''Bu raqamdagi haydovchi sizning taklifingizni qabul qilgan''),
        (''tr'', ''Bu telefon numaras'' @ utf8 [305] @ ''na sahip s'' @ utf8 [252] @ ''r'' @ utf8 [252] @ ''c'' @ utf8 [252] @
        '' davetinizi zaten kabul etti''), (''zh'', utf8 [35813, 21495, 30721, 30340, 21496, 26426, 24050, 25509, 21463, 24744,
        30340, 36992, 35831])]),
     (''dispatcher_not_found'', [(''en'', ''Dispatcher not found''), (''ru'', utf8 [1044, 1080, 1089, 1087, 1077, 1090, 1095,
        1077, 1088, 32, 1085, 1077, 32, 1085, 1072, 1081, 1076, 1077, 1085]), (''uz'', ''Dispatcher topilmadi''), (''tr'',
        ''Dispatcher bulunamad'' @ utf8 [305]), (''zh'', utf8 [26410, 25214, 21040, 35843, 24230, 21592])]),
     (''already_linked_to_this_dispatcher'', [(''en'', ''You are already linked to this dispatcher''), (''ru'', utf8 [1042,
        1099, 32, 1091, 1078, 1077, 32, 1087, 1088, 1080, 1074, 1103, 1079, 1072, 1085, 1099, 32, 1082, 32, 1101, 1090, 1086,
        1084, 1091, 32, 1076, 1080, 1089, 1087, 1077, 1090, 1095, 1077, 1088, 1091]), (''uz'', ''Siz allaqachon bu dispetcherga bog'lansiz''),
        (''tr'', ''Zaten bu dispatcher'' @ utf8 [39] @ ''a ba'' @ utf8 [287] @ ''l'' @ utf8 [305] @ ''s'' @ utf8 [305] @ ''n'' @
        utf8 [305] @ ''z''), (''zh'', utf8 [24744, 24050, 19982, 35813, 35843, 24230, 21592, 20851, 32852])])]"

definition apiMessages_2 :: "(string \<times> (string \<times> string) list) list" where
  "apiMessages_2 = [
     (''name_too_short'', [(''en'', ''Name is too short''), (''ru'', utf8 [1048, 1084, 1103, 32, 1089, 1083, 1080, 1096, 1082,
        1086, 1084, 32, 1082, 1086, 1088, 1086, 1090, 1082, 1086, 1077]), (''uz'', ''Ism juda qisqa''), (''tr'', utf8 [304] @
        ''sim '' @ utf8 [231] @ ''ok k'' @ utf8 [305] @ ''sa''), (''zh'', utf8 [22995, 21517, 36807, 30701])]),
     (''invalid_work_status'', [(''en'', ''Invalid work_status (allowed: available, loaded, busy)''), (''ru'', utf8 [1053, 1077,
        1076, 1086, 1087, 1091, 1089, 1090, 1080, 1084, 1099, 1081] @ '' work_status ('' @ utf8 [1076, 1086, 1087, 1091, 1089,
        1090, 1080, 1084, 1086] @ '': available, loaded, busy)''), (''uz'', ''Noto'g'ri work_status (available, loaded, busy)''),
        (''tr'', ''Ge'' @ utf8 [231] @ ''ersiz work_status (available, loaded, busy)''), (''zh'', utf8 [24037, 20316, 29366,
        24577, 26080, 25928, 65288, 20801, 35768, 65306] @ ''available, loaded, busy'' @ utf8 [65289])]),
     (''driver_passport_series_required'', [(''en'', ''driver_passport_series cannot be empty''), (''ru'', utf8 [1057, 1077,
        1088, 1080, 1103, 32, 1087, 1072, 1089, 1087, 1086, 1088, 1090, 1072, 32, 1085, 1077, 32, 1084, 1086, 1078, 1077, 1090,
        32, 1073, 1099, 1090, 1100, 32, 1087, 1091, 1089, 1090, 1086, 1081]), (''uz'', ''Pasport seriyasi bo'sh bo'lmasin''),
        (''tr'', ''Pasaport serisi bo'' @ utf8 [351] @ '' olamaz''), (''zh'', utf8 [25252, 29031, 31995, 21015, 19981, 33021,
        20026, 31354])]),
     (''driver_passport_number_required'', [(''en'', ''driver_passport_number cannot be empty''), (''ru'', utf8 [1053, 1086,
        1084, 1077, 1088, 32, 1087, 1072, 1089, 1087, 1086, 1088, 1090, 1072, 32, 1085, 1077, 32, 1084, 1086, 1078, 1077, 1090,
        32, 1073, 1099, 1090, 1100, 32, 1087, 1091, 1089, 1090, 1099, 1084]), (''uz'', ''Pasport raqami bo'sh bo'lmasin''),
        (''tr'', ''Pasaport numaras'' @ utf8 [305] @ '' bo'' @ utf8 [351] @ '' olamaz''), (''zh'', utf8 [25252, 29031, 21495,
        30721, 19981, 33021, 20026, 31354])]),
     (''driver_pinfl_required'', [(''en'', ''driver_pinfl cannot be empty''), (''ru'', utf8 [1055, 1048, 1053, 1060, 1051, 32,
        1085, 1077, 32, 1084, 1086, 1078, 1077, 1090, 32, 1073, 1099, 1090, 1100, 32, 1087, 1091, 1089, 1090, 1099, 1084]),
        (''uz'', ''PINFL bo'sh bo'lmasin''), (''tr'', ''PINFL bo'' @ utf8 [351] @ '' olamaz''), (''zh'', ''PINFL'' @
        utf8 [19981, 33021, 20026, 31354])]),
     (''invalid_id'', [(''en'', ''Invalid id''), (''ru'', utf8 [1053, 1077, 1082, 1086, 1088, 1088, 1077, 1082, 1090, 1085,
        1099, 1081, 32, 105, 100]), (''uz'', ''Noto'g'ri id''), (''tr'', ''Ge'' @ utf8 [231] @ ''ersiz id''), (''zh'', ''ID'' @
        utf8 [26080, 25928])]),
     (''trip_not_found'', [(''en'', ''Trip not found''), (''ru'', utf8 [1056, 1077, 1081, 1089, 32, 1085, 1077, 32, 1085, 1072,
        1081, 1076, 1077, 1085]), (''uz'', ''Reys topilmadi''), (''tr'', ''Sefer bulunamad'' @ utf8 [305]), (''zh'',
        utf8 [26410, 25214, 21040, 34892, 31243])]),
     (''trip_not_found_or_not_pending_driver'', [(''en'', ''Trip not found or not pending_driver''), (''ru'', utf8 [1056, 1077,
        1081, 1089, 32, 1085, 1077, 32, 1085, 1072, 1081, 1076, 1077, 1085, 32, 1080, 1083, 1080, 32, 1085, 1077, 32, 1074, 32,
        1086, 1078, 1080, 1076, 1072, 1085, 1080, 1080, 32, 1074, 1086, 1076, 1080, 1090, 1077, 1083, 1103]), (''uz'', ''Reys topilmadi yoki haydovchi kutilmoqda emas''),
        (''tr'', ''Sefer bulunamad'' @ utf8 [305] @ '' veya pending_driver de'' @ utf8 [287] @ ''il''), (''zh'', utf8 [26410,
        25214, 21040, 34892, 31243, 25110, 38750, 24453, 20998, 37197, 21496, 26426, 29366, 24577])]),
     (''require_cargo_id'', [(''en'', ''cargo_id is required''), (''ru'', utf8 [1054, 1073, 1103, 1079, 1072, 1090, 1077, 1083,
        1077, 1085, 32, 99, 97, 114, 103, 111, 95, 105, 100]), (''uz'', ''cargo_id talab qilinadi''), (''tr'', ''cargo_id gerekli''),
        (''zh'', utf8 [38656, 35201] @ ''cargo_id'')]),
     (''invalid_cargo_id'', [(''en'', ''Invalid cargo_id''), (''ru'', utf8 [1053, 1077, 1082, 1086, 1088, 1088, 1077, 1082,
        1090, 1085, 1099, 1081, 32, 99, 97, 114, 103, 111, 95, 105, 100]), (''uz'', ''Noto'g'ri cargo_id''), (''tr'', ''Ge'' @
        utf8 [231] @ ''ersiz cargo_id''), (''zh'', ''cargo_id'' @ utf8 [26080, 25928])]),
     (''failed_to_list'', [(''en'', ''Failed to list''), (''ru'', utf8 [1054, 1096, 1080, 1073, 1082, 1072, 32, 1087, 1088,
        1080, 32, 1087, 1086, 1083, 1091, 1095, 1077, 1085, 1080, 1080, 32, 1089, 1087, 1080, 1089, 1082, 1072]), (''uz'',
        ''Ro'yxat olishda xato''), (''tr'', ''Listeleme ba'' @ utf8 [351] @ ''ar'' @ utf8 [305] @ ''s'' @ utf8 [305] @ ''z''),
        (''zh'', utf8 [33719, 21462, 21015, 34920, 22833, 36133])]),
     (''invalid_driver_id'', [(''en'', ''Invalid driver_id''), (''ru'', utf8 [1053, 1077, 1082, 1086, 1088, 1088, 1077, 1082,
        1090, 1085, 1099, 1081, 32, 100, 114, 105, 118, 101, 114, 95, 105, 100]), (''uz'', ''Noto'g'ri driver_id''), (''tr'',
        ''Ge'' @ utf8 [231] @ ''ersiz driver_id''), (''zh'', ''driver_id'' @ utf8 [26080, 25928])]),
     (''trip_not_found_or_not_assigned'', [(''en'', ''Trip not found or not assigned to you''), (''ru'', utf8 [1056, 1077, 1081,
        1089, 32, 1085, 1077, 32, 1085, 1072, 1081, 1076, 1077, 1085, 32, 1080, 1083, 1080, 32, 1085, 1077, 32, 1085, 1072,
        1079, 1085, 1072, 1095, 1077, 1085, 32, 1074, 1072, 1084]), (''uz'', ''Reys topilmadi yoki sizga tayinlanmagan''),
        (''tr'', ''Sefer bulunamad'' @ utf8 [305] @ '' veya size atanmam'' @ utf8 [305, 351]), (''zh'', utf8 [26410, 25214,
        21040, 34892, 31243, 25110, 26410, 20998, 37197, 32473, 24744])]),
     (''invalid_status_transition'', [(''en'', ''Invalid status transition''), (''ru'', utf8 [1053, 1077, 1076, 1086, 1087,
        1091, 1089, 1090, 1080, 1084, 1099, 1081, 32, 1087, 1077, 1088, 1077, 1093, 1086, 1076, 32, 1089, 1090, 1072, 1090,
        1091, 1089, 1072]), (''uz'', ''Status o'tishi noto'g'ri''), (''tr'', ''Ge'' @ utf8 [231] @ ''ersiz durum ge'' @
        utf8 [231] @ ''i'' @ utf8 [351] @ ''i''), (''zh'', utf8 [29366, 24577, 36716, 25442, 26080, 25928])]),
     (''roles_not_configured'', [(''en'', ''Roles not configured''), (''ru'', utf8 [1056, 1086, 1083, 1080, 32, 1085, 1077, 32,
        1085, 1072, 1089, 1090, 1088, 1086, 1077, 1085, 1099]), (''uz'', ''Rollar sozlanmagan''), (''tr'', ''Roller yap'' @
        utf8 [305] @ ''land'' @ utf8 [305] @ ''r'' @ utf8 [305] @ ''lmam'' @ utf8 [305, 351]), (''zh'', utf8 [35282, 33394,
        26410, 37197, 32622])]),
     (''company_create_failed'', [(''en'', ''Failed to create company''), (''ru'', utf8 [1054, 1096, 1080, 1073, 1082, 1072, 32,
        1089, 1086, 1079, 1076, 1072, 1085, 1080, 1103, 32, 1082, 1086, 1084, 1087, 1072, 1085, 1080, 1080]), (''uz'',
        ''Kompaniya yaratishda xato''), (''tr'', utf8 [350] @ ''irket olu'' @ utf8 [351] @ ''turulamad'' @ utf8 [305]), (''zh'',
        utf8 [21019, 24314, 20844, 21496, 22833, 36133])]),
     (''list_failed'', [(''en'', ''Failed to list''), (''ru'', utf8 [1054, 1096, 1080, 1073, 1082, 1072, 32, 1087, 1088, 1080,
        32, 1087, 1086, 1083, 1091, 1095, 1077, 1085, 1080, 1080, 32, 1089, 1087, 1080, 1089, 1082, 1072]), (''uz'', ''Ro'yxat olishda xato''),
        (''tr'', ''Listeleme ba'' @ utf8 [351] @ ''ar'' @ utf8 [305] @ ''s'' @ utf8 [305] @ ''z''), (''zh'', utf8 [33719, 21462,
        21015, 34920, 22833, 36133])]),
     (''invalid_company_id'', [(''en'', ''Invalid company id''), (''ru'', utf8 [1053, 1077, 1082, 1086, 1088, 1088, 1077, 1082,
        1090, 1085, 1099, 1081, 32, 105, 100, 32, 1082, 1086, 1084, 1087, 1072, 1085, 1080, 1080]), (''uz'', ''Noto'g'ri kompaniya id''),
        (''tr'', ''Ge'' @ utf8 [231] @ ''ersiz '' @ utf8 [351] @ ''irket id''), (''zh'', utf8 [20844, 21496, 73, 68, 26080,
        25928])]),
     (''invalid_dispatcher_id'', [(''en'', ''Invalid dispatcher id''), (''ru'', utf8 [1053, 1077, 1082, 1086, 1088, 1088, 1077,
        1082, 1090, 1085, 1099, 1081, 32, 105, 100, 32, 1076, 1080, 1089, 1087, 1077, 1090, 1095, 1077, 1088, 1072]), (''uz'',
        ''Noto'g'ri dispetcher id''), (''tr'', ''Ge'' @ utf8 [231] @ ''ersiz dispatcher id''), (''zh'', utf8 [35843, 24230,
        21592, 73, 68, 26080, 25928])]),
     (''failed_to_list_dispatchers'', [(''en'', ''Failed to list dispatchers''), (''ru'', utf8 [1053, 1077, 32, 1091, 1076,
        1072, 1083, 1086, 1089, 1100, 32, 1087, 1086, 1083, 1091, 1095, 1080, 1090, 1100, 32, 1089, 1087, 1080, 1089, 1086,
        1082, 32, 1076, 1080, 1089, 1087, 1077, 1090, 1095, 1077, 1088, 1086, 1074]), (''uz'', ''Dispetcherlar ro'yxatini olish mumkin emas''),
        (''tr'', ''Dispatcher listesi al'' @ utf8 [305] @ ''namad'' @ utf8 [305]), (''zh'', utf8 [33719, 21462, 35843, 24230,
        21592, 21015, 34920, 22833, 36133])]),
     (''dispatcher_not_linked_to_you'', [(''en'', ''This dispatcher is not linked to you''), (''ru'', utf8 [1069, 1090, 1086,
        1090, 32, 1076, 1080, 1089, 1087, 1077, 1090, 1095, 1077, 1088, 32, 1085, 1077, 32, 1087, 1088, 1080, 1074, 1103, 1079,
        1072, 1085, 32, 1082, 32, 1074, 1072, 1084]), (''uz'', ''Bu dispetcher sizga bog'lanmagan''), (''tr'', ''Bu dispatcher size ba''
        @ utf8 [287] @ ''l'' @ utf8 [305] @ '' de'' @ utf8 [287] @ ''il''), (''zh'', utf8 [35813, 35843, 24230, 21592, 26410,
        19982, 24744, 20851, 32852])])]"

definition apiMessages_3 :: "(string \<times> (string \<times> string) list) list" where
  "apiMessages_3 = [
     (''not_member_of_company'', [(''en'', ''Not a member of this company''), (''ru'', utf8 [1042, 1099, 32, 1085, 1077, 32,
        1091, 1095, 1072, 1089, 1090, 1085, 1080, 1082, 32, 1101, 1090, 1086, 1081, 32, 1082, 1086, 1084, 1087, 1072, 1085,
        1080, 1080]), (''uz'', ''Ushbu kompaniya a'zosi emassiz''), (''tr'', ''Bu '' @ utf8 [351] @ ''irketin '' @ utf8 [252] @
        ''yesi de'' @ utf8 [287] @ ''ilsiniz''), (''zh'', utf8 [24744, 19981, 26159, 35813, 20844, 21496, 25104, 21592])]),
     (''company_not_found'', [(''en'', ''Company not found''), (''ru'', utf8 [1050, 1086, 1084, 1087, 1072, 1085, 1080, 1103,
        32, 1085, 1077, 32, 1085, 1072, 1081, 1076, 1077, 1085, 1072]), (''uz'', ''Kompaniya topilmadi''), (''tr'', utf8 [350] @
        ''irket bulunamad'' @ utf8 [305]), (''zh'', utf8 [26410, 25214, 21040, 20844, 21496])]),
     (''token_issue_failed'', [(''en'', ''Token issue failed''), (''ru'', utf8 [1054, 1096, 1080, 1073, 1082, 1072, 32, 1074,
        1099, 1076, 1072, 1095, 1080, 32, 1090, 1086, 1082, 1077, 1085, 1072]), (''uz'', ''Token berishda xato''), (''tr'',
        ''Token olu'' @ utf8 [351] @ ''turulamad'' @ utf8 [305]), (''zh'', utf8 [20196, 29260, 31614, 21457, 22833, 36133])]),
     (''invitation_failed'', [(''en'', ''Invitation failed''), (''ru'', utf8 [1054, 1096, 1080, 1073, 1082, 1072, 32, 1087,
        1088, 1080, 1075, 1083, 1072, 1096, 1077, 1085, 1080, 1103]), (''uz'', ''Taklif yuborishda xato''), (''tr'', ''Davet ba''
        @ utf8 [351] @ ''ar'' @ utf8 [305] @ ''s'' @ utf8 [305] @ ''z''), (''zh'', utf8 [36992, 35831, 22833, 36133])]),
     (''unauthorized_login_register_first'', [(''en'', ''Unauthorized: login or register first''), (''ru'', utf8 [1053, 1077,
        32, 1072, 1074, 1090, 1086, 1088, 1080, 1079, 1086, 1074, 1072, 1085, 58, 32, 1074, 1086, 1081, 1076, 1080, 1090, 1077,
        32, 1080, 1083, 1080, 32, 1079, 1072, 1088, 1077, 1075, 1080, 1089, 1090, 1088, 1080, 1088, 1091, 1081, 1090, 1077,
        1089, 1100]), (''uz'', ''Avtorizatsiya: avval kiring yoki ro'yxatdan o'ting''), (''tr'', ''Yetkisiz: '' @ utf8 [246] @
        ''nce giri'' @ utf8 [351] @ '' veya kay'' @ utf8 [305] @ ''t olun''), (''zh'', utf8 [26410, 25480, 26435, 65306, 35831,
        20808, 30331, 24405, 25110, 27880, 20876])]),
     (''invitation_not_found_or_expired'', [(''en'', ''Invitation not found or expired''), (''ru'', utf8 [1055, 1088, 1080,
        1075, 1083, 1072, 1096, 1077, 1085, 1080, 1077, 32, 1085, 1077, 32, 1085, 1072, 1081, 1076, 1077, 1085, 1086, 32, 1080,
        1083, 1080, 32, 1080, 1089, 1090, 1077, 1082, 1083, 1086]), (''uz'', ''Taklif topilmadi yoki muddati tugadi''), (''tr'',
        ''Davet bulunamad'' @ utf8 [305] @ '' veya s'' @ utf8 [252] @ ''resi doldu''), (''zh'', utf8 [26410, 25214, 21040,
        36992, 35831, 25110, 24050, 36807, 26399])]),
     (''failed'', [(''en'', ''Operation failed''), (''ru'', utf8 [1054, 1087, 1077, 1088, 1072, 1094, 1080, 1103, 32, 1085,
        1077, 32, 1074, 1099, 1087, 1086, 1083, 1085, 1077, 1085, 1072]), (''uz'', ''Amal bajarilmadi''), (''tr'', utf8 [304,
        351] @ ''lem ba'' @ utf8 [351] @ ''ar'' @ utf8 [305] @ ''s'' @ utf8 [305] @ ''z''), (''zh'', utf8 [25805, 20316, 22833,
        36133])]),
     (''invalid_role_id'', [(''en'', ''Invalid role_id''), (''ru'', utf8 [1053, 1077, 1082, 1086, 1088, 1088, 1077, 1082, 1090,
        1085, 1099, 1081, 32, 114, 111, 108, 101, 95, 105, 100]), (''uz'', ''Noto'g'ri role_id''), (''tr'', ''Ge'' @ utf8 [231]
        @ ''ersiz role_id''), (''zh'', utf8 [35282, 33394, 73, 68, 26080, 25928])]),
     (''role_not_found'', [(''en'', ''Role not found''), (''ru'', utf8 [1056, 1086, 1083, 1100, 32, 1085, 1077, 32, 1085, 1072,
        1081, 1076, 1077, 1085, 1072]), (''uz'', ''Rol topilmadi''), (''tr'', ''Rol bulunamad'' @ utf8 [305]), (''zh'',
        utf8 [26410, 25214, 21040, 35282, 33394])]),
     (''your_role_cannot_invite'', [(''en'', ''Your role cannot invite this role''), (''ru'', utf8 [1042, 1072, 1096, 1072, 32,
        1088, 1086, 1083, 1100, 32, 1085, 1077, 32, 1084, 1086, 1078, 1077, 1090, 32, 1087, 1088, 1080, 1075, 1083, 1072, 1096,
        1072, 1090, 1100, 32, 1101, 1090, 1091, 32, 1088, 1086, 1083, 1100]), (''uz'', ''Sizning rolingiz bu rolga taklif yubora olmaydi''),
        (''tr'', ''Rol'' @ utf8 [252] @ ''n'' @ utf8 [252] @ ''z bu rol'' @ utf8 [252] @ '' davet edemez''), (''zh'',
        utf8 [24744, 30340, 35282, 33394, 26080, 27861, 36992, 35831, 27492, 35282, 33394])]),
     (''invalid_user_id'', [(''en'', ''Invalid user id''), (''ru'', utf8 [1053, 1077, 1082, 1086, 1088, 1088, 1077, 1082, 1090,
        1085, 1099, 1081, 32, 105, 100, 32, 1087, 1086, 1083, 1100, 1079, 1086, 1074, 1072, 1090, 1077, 1083, 1103]), (''uz'',
        ''Noto'g'ri foydalanuvchi id''), (''tr'', ''Ge'' @ utf8 [231] @ ''ersiz kullan'' @ utf8 [305] @ ''c'' @ utf8 [305] @ '' id''),
        (''zh'', utf8 [29992, 25143, 73, 68, 26080, 25928])]),
     (''your_role_cannot_assign'', [(''en'', ''Your role cannot assign this role''), (''ru'', utf8 [1042, 1072, 1096, 1072, 32,
        1088, 1086, 1083, 1100, 32, 1085, 1077, 32, 1084, 1086, 1078, 1077, 1090, 32, 1085, 1072, 1079, 1085, 1072, 1095, 1080,
        1090, 1100, 32, 1101, 1090, 1091, 32, 1088, 1086, 1083, 1100]), (''uz'', ''Sizning rolingiz bu rolni tayinlaya olmaydi''),
        (''tr'', ''Rol'' @ utf8 [252] @ ''n'' @ utf8 [252] @ ''z bu rol'' @ utf8 [252] @ '' atayamaz''), (''zh'', utf8 [24744,
        30340, 35282, 33394, 26080, 27861, 20998, 37197, 27492, 35282, 33394])]),
     (''user_not_in_company'', [(''en'', ''User not in company''), (''ru'', utf8 [1055, 1086, 1083, 1100, 1079, 1086, 1074,
        1072, 1090, 1077, 1083, 1100, 32, 1085, 1077, 32, 1074, 32, 1082, 1086, 1084, 1087, 1072, 1085, 1080, 1080]), (''uz'',
        ''Foydalanuvchi kompaniyada emas''), (''tr'', ''Kullan'' @ utf8 [305] @ ''c'' @ utf8 [305] @ '' '' @ utf8 [351] @
        ''irkette de'' @ utf8 [287] @ ''il''), (''zh'', utf8 [29992, 25143, 19981, 22312, 20844, 21496, 20013])]),
     (''update_failed'', [(''en'', ''Update failed''), (''ru'', utf8 [1054, 1096, 1080, 1073, 1082, 1072, 32, 1086, 1073, 1085,
        1086, 1074, 1083, 1077, 1085, 1080, 1103]), (''uz'', ''Yangilashda xato''), (''tr'', ''G'' @ utf8 [252] @ ''ncelleme ba''
        @ utf8 [351] @ ''ar'' @ utf8 [305] @ ''s'' @ utf8 [305] @ ''z''), (''zh'', utf8 [26356, 26032, 22833, 36133])]),
     (''your_role_cannot_remove'', [(''en'', ''Your role cannot remove this user''), (''ru'', utf8 [1042, 1072, 1096, 1072, 32,
        1088, 1086, 1083, 1100, 32, 1085, 1077, 32, 1084, 1086, 1078, 1077, 1090, 32, 1091, 1076, 1072, 1083, 1080, 1090, 1100,
        32, 1101, 1090, 1086, 1075, 1086, 32, 1087, 1086, 1083, 1100, 1079, 1086, 1074, 1072, 1090, 1077, 1083, 1103]), (''uz'',
        ''Sizning rolingiz bu foydalanuvchini o'chira olmaydi''), (''tr'', ''Rol'' @ utf8 [252] @ ''n'' @ utf8 [252] @ ''z bu kullan''
        @ utf8 [305] @ ''c'' @ utf8 [305] @ ''y'' @ utf8 [305] @ '' kald'' @ utf8 [305] @ ''ramaz''), (''zh'', utf8 [24744,
        30340, 35282, 33394, 26080, 27861, 31227, 38500, 27492, 29992, 25143])]),
     (''remove_failed'', [(''en'', ''Remove failed''), (''ru'', utf8 [1054, 1096, 1080, 1073, 1082, 1072, 32, 1091, 1076, 1072,
        1083, 1077, 1085, 1080, 1103]), (''uz'', ''O'chirishda xato''), (''tr'', ''Kald'' @ utf8 [305] @ ''rma ba'' @ utf8 [351]
        @ ''ar'' @ utf8 [305] @ ''s'' @ utf8 [305] @ ''z''), (''zh'', utf8 [31227, 38500, 22833, 36133])]),
     (''invalid_login_or_password'', [(''en'', ''Invalid login or password''), (''ru'', utf8 [1053, 1077, 1074, 1077, 1088,
        1085, 1099, 1081, 32, 1083, 1086, 1075, 1080, 1085, 32, 1080, 1083, 1080, 32, 1087, 1072, 1088, 1086, 1083, 1100]),
        (''uz'', ''Login yoki parol noto'g'ri''), (''tr'', ''Ge'' @ utf8 [231] @ ''ersiz giri'' @ utf8 [351] @ '' veya '' @
        utf8 [351] @ ''ifre''), (''zh'', utf8 [30331, 24405, 21517, 25110, 23494, 30721, 38169, 35823])]),
     (''admin_inactive'', [(''en'', ''Admin inactive''), (''ru'', utf8 [1040, 1076, 1084, 1080, 1085, 32, 1085, 1077, 1072,
        1082, 1090, 1080, 1074, 1077, 1085]), (''uz'', ''Admin faol emas''), (''tr'', ''Admin pasif''), (''zh'', utf8 [31649,
        29702, 21592, 26410, 28608, 27963])]),
     (''oferta_accepted_required'', [(''en'', ''oferta_accepted must be true''), (''ru'', ''oferta_accepted '' @ utf8 [1076,
        1086, 1083, 1078, 1085, 1086] @ '' '' @ utf8 [1073, 1099, 1090, 1100] @ '' true''), (''uz'', ''oferta_accepted true bo'lishi kerak''),
        (''tr'', ''oferta_accepted true olmal'' @ utf8 [305]), (''zh'', ''oferta_accepted'' @ utf8 [24517, 39035, 20026] @
        ''true'')]),
     (''session_id_expired_or_invalid'', [(''en'', ''session_id expired or invalid''), (''ru'', utf8 [115, 101, 115, 115, 105,
        111, 110, 95, 105, 100, 32, 1080, 1089, 1090, 1105, 1082, 32, 1080, 1083, 1080, 32, 1085, 1077, 1076, 1077, 1081, 1089,
        1090, 1074, 1080, 1090, 1077, 1083, 1077, 1085]), (''uz'', ''session_id muddati tugagan yoki noto'g'ri''), (''tr'',
        ''session_id s'' @ utf8 [252] @ ''resi doldu veya ge'' @ utf8 [231] @ ''ersiz''), (''zh'', ''session_id'' @ utf8 [24050,
        36807, 26399, 25110, 26080, 25928])]),
     (''invalid_driver_type'', [(''en'', ''Invalid driver_type''), (''ru'', utf8 [1053, 1077, 1082, 1086, 1088, 1088, 1077,
        1082, 1090, 1085, 1099, 1081] @ '' driver_type''), (''uz'', ''Noto'g'ri driver_type''), (''tr'', ''Ge'' @ utf8 [231] @
        ''ersiz driver_type''), (''zh'', ''driver_type'' @ utf8 [26080, 25928])])]"

definition apiMessages_4 :: "(string \<times> (string \<times> string) list) list" where
  "apiMessages_4 = [
     (''power_plate_type_required'', [(''en'', ''power_plate_type is required''), (''ru'', utf8 [1054, 1073, 1103, 1079, 1072,
        1090, 1077, 1083, 1077, 1085] @ '' power_plate_type''), (''uz'', ''power_plate_type talab qilinadi''), (''tr'',
        ''power_plate_type gerekli''), (''zh'', utf8 [38656, 35201] @ ''power_plate_type'')]),
     (''trailer_plate_type_required'', [(''en'', ''trailer_plate_type is required''), (''ru'', utf8 [1054, 1073, 1103, 1079,
        1072, 1090, 1077, 1083, 1077, 1085] @ '' trailer_plate_type''), (''uz'', ''trailer_plate_type talab qilinadi''),
        (''tr'', ''trailer_plate_type gerekli''), (''zh'', utf8 [38656, 35201] @ ''trailer_plate_type'')]),
     (''invalid_freelancer_id'', [(''en'', ''Invalid freelancer_id''), (''ru'', utf8 [1053, 1077, 1082, 1086, 1088, 1088, 1077,
        1082, 1090, 1085, 1099, 1081] @ '' freelancer_id''), (''uz'', ''Noto'g'ri freelancer_id''), (''tr'', ''Ge'' @ utf8 [231]
        @ ''ersiz freelancer_id''), (''zh'', ''freelancer_id'' @ utf8 [26080, 25928])]),
     (''failed_to_load_roles'', [(''en'', ''Failed to load roles''), (''ru'', utf8 [1054, 1096, 1080, 1073, 1082, 1072, 32,
        1079, 1072, 1075, 1088, 1091, 1079, 1082, 1080, 32, 1088, 1086, 1083, 1077, 1081]), (''uz'', ''Rollarni yuklashda xato''),
        (''tr'', ''Roller y'' @ utf8 [252] @ ''klenemedi''), (''zh'', utf8 [21152, 36733, 35282, 33394, 22833, 36133])]),
     (''invalid_x_language'', [(''en'', ''Invalid X-Language (allowed: ru, uz, en, tr, zh)''), (''ru'', utf8 [1053, 1077, 1082,
        1086, 1088, 1088, 1077, 1082, 1090, 1085, 1099, 1081] @ '' X-Language ('' @ utf8 [1076, 1086, 1087, 1091, 1089, 1090,
        1080, 1084, 1086] @ '': ru, uz, en, tr, zh)''), (''uz'', ''Noto'g'ri X-Language (ru, uz, en, tr, zh)''), (''tr'', ''Ge''
        @ utf8 [231] @ ''ersiz X-Language (ru, uz, en, tr, zh)''), (''zh'', ''X-Language'' @ utf8 [26080, 25928, 65288, 20801,
        35768, 65306] @ ''ru, uz, en, tr, zh'' @ utf8 [65289])]),
     (''failed_to_load_cities'', [(''en'', ''Failed to load cities''), (''ru'', utf8 [1054, 1096, 1080, 1073, 1082, 1072, 32,
        1079, 1072, 1075, 1088, 1091, 1079, 1082, 1080, 32, 1075, 1086, 1088, 1086, 1076, 1086, 1074]), (''uz'', ''Shaharlarni yuklashda xato''),
        (''tr'', utf8 [350] @ ''ehirler y'' @ utf8 [252] @ ''klenemedi''), (''zh'', utf8 [21152, 36733, 22478, 24066, 22833,
        36133])]),
     (''photo_file_required'', [(''en'', ''Missing or invalid file: use form field '' @ utf8 [39] @ ''photo'' @ utf8 [39]),
        (''ru'', utf8 [1060, 1072, 1081, 1083, 32, 1086, 1090, 1089, 1091, 1090, 1089, 1090, 1074, 1091, 1077, 1090, 32, 1080,
        1083, 1080, 32, 1085, 1077, 1074, 1077, 1088, 1077, 1085, 58, 32, 1080, 1089, 1087, 1086, 1083, 1100, 1079, 1091, 1081,
        1090, 1077, 32, 1087, 1086, 1083, 1077, 32, 1092, 1086, 1088, 1084, 1099, 32, 39, 112, 104, 111, 116, 111, 39]),
        (''uz'', ''Fayl yo'q yoki noto'g'ri: 'photo' maydonidan foydalaning''), (''tr'', ''Dosya eksik veya ge'' @ utf8 [231] @
        ''ersiz: '' @ utf8 [39] @ ''photo'' @ utf8 [39] @ '' form alan'' @ utf8 [305] @ ''n'' @ utf8 [305] @ '' kullan'' @
        utf8 [305] @ ''n''), (''zh'', utf8 [32570, 23569, 25110, 26080, 25928, 30340, 25991, 20214, 65306, 35831, 20351, 29992,
        34920, 21333, 23383, 27573, 8220, 112, 104, 111, 116, 111, 8221])]),
     (''file_too_large'', [(''en'', ''File too large (max 5 MB)''), (''ru'', utf8 [1060, 1072, 1081, 1083, 32, 1089, 1083, 1080,
        1096, 1082, 1086, 1084, 32, 1073, 1086, 1083, 1100, 1096, 1086, 1081, 32, 40, 1084, 1072, 1082, 1089, 46, 32, 53, 32,
        1052, 1041, 41]), (''uz'', ''Fayl juda katta (maks 5 MB)''), (''tr'', ''Dosya '' @ utf8 [231] @ ''ok b'' @ utf8 [252] @
        ''y'' @ utf8 [252] @ ''k (maks 5 MB)''), (''zh'', utf8 [25991, 20214, 36807, 22823, 65288, 26368, 22823, 53, 32, 77, 66,
        65289])]),
     (''allowed_image_types'', [(''en'', ''Allowed types: image/jpeg, image/png''), (''ru'', utf8 [1044, 1086, 1087, 1091, 1089,
        1090, 1080, 1084, 1099, 1077] @ '' '' @ utf8 [1090, 1080, 1087, 1099] @ '': image/jpeg, image/png''), (''uz'', ''Ruxsat etilgan turlar: image/jpeg, image/png''),
        (''tr'', utf8 [304] @ ''zin verilen t'' @ utf8 [252] @ ''rler: image/jpeg, image/png''), (''zh'', utf8 [20801, 35768,
        30340, 31867, 22411, 65306] @ ''image/jpeg, image/png'')]),
     (''cannot_read_file'', [(''en'', ''Cannot read file''), (''ru'', utf8 [1053, 1077, 32, 1091, 1076, 1072, 1083, 1086, 1089,
        1100, 32, 1087, 1088, 1086, 1095, 1080, 1090, 1072, 1090, 1100, 32, 1092, 1072, 1081, 1083]), (''uz'', ''Faylni o'qib bo'lmadi''),
        (''tr'', ''Dosya okunamad'' @ utf8 [305]), (''zh'', utf8 [26080, 27861, 35835, 21462, 25991, 20214])]),
     (''photo_not_found'', [(''en'', ''Photo not found''), (''ru'', utf8 [1060, 1086, 1090, 1086, 32, 1085, 1077, 32, 1085,
        1072, 1081, 1076, 1077, 1085, 1086]), (''uz'', ''Foto topilmadi''), (''tr'', ''Foto'' @ utf8 [287] @ ''raf bulunamad'' @
        utf8 [305]), (''zh'', utf8 [26410, 25214, 21040, 29031, 29255])]),
     (''otp_required'', [(''en'', ''otp is required''), (''ru'', utf8 [1054, 1073, 1103, 1079, 1072, 1090, 1077, 1083, 1077,
        1085, 32, 111, 116, 112]), (''uz'', ''otp talab qilinadi''), (''tr'', ''otp gerekli''), (''zh'', utf8 [38656, 35201] @
        ''otp'')]),
     (''otp_generation_failed'', [(''en'', ''OTP generation failed''), (''ru'', utf8 [1054, 1096, 1080, 1073, 1082, 1072, 32,
        1075, 1077, 1085, 1077, 1088, 1072, 1094, 1080, 1080, 32, 1082, 1086, 1076, 1072]), (''uz'', ''Kod yaratishda xato''),
        (''tr'', ''OTP olu'' @ utf8 [351] @ ''turulamad'' @ utf8 [305]), (''zh'', utf8 [39564, 35777, 30721, 29983, 25104,
        22833, 36133])]),
     (''otp_cooldown'', [(''en'', ''OTP cooldown''), (''ru'', utf8 [1055, 1086, 1076, 1086, 1078, 1076, 1080, 1090, 1077, 32,
        1087, 1077, 1088, 1077, 1076, 32, 1087, 1086, 1074, 1090, 1086, 1088, 1085, 1086, 1081, 32, 1086, 1090, 1087, 1088,
        1072, 1074, 1082, 1086, 1081, 32, 1082, 1086, 1076, 1072]), (''uz'', ''Kodni qayta yuborishdan oldin kuting''), (''tr'',
        ''OTP bekleme s'' @ utf8 [252] @ ''resi''), (''zh'', utf8 [35831, 31245, 21518, 20877, 35831, 27714, 39564, 35777,
        30721])]),
     (''otp_rate_limited'', [(''en'', ''OTP rate limited''), (''ru'', utf8 [1055, 1088, 1077, 1074, 1099, 1096, 1077, 1085, 32,
        1083, 1080, 1084, 1080, 1090, 32, 1079, 1072, 1087, 1088, 1086, 1089, 1086, 1074, 32, 1082, 1086, 1076, 1072]), (''uz'',
        ''Kod so'rovlari limiti oshdi''), (''tr'', ''OTP istek limiti a'' @ utf8 [351, 305] @ ''ld'' @ utf8 [305]), (''zh'',
        utf8 [39564, 35777, 30721, 35831, 27714, 36807, 20110, 39057, 32321])]),
     (''otp_must_be_numeric'', [(''en'', ''otp must be numeric 4..8 digits''), (''ru'', utf8 [111, 116, 112, 32, 1076, 1086,
        1083, 1078, 1077, 1085, 32, 1073, 1099, 1090, 1100, 32, 1095, 1080, 1089, 1083, 1086, 1084, 32, 52, 46, 46, 56, 32,
        1094, 1080, 1092, 1088]), (''uz'', ''otp 4..8 raqamli bo'lishi kerak''), (''tr'', ''otp 4..8 rakaml'' @ utf8 [305] @ '' say''
        @ utf8 [305] @ '' olmal'' @ utf8 [305]), (''zh'', utf8 [111, 116, 112, 39035, 20026, 52, 21040, 56, 20301, 25968,
        23383])]),
     (''otp_expired'', [(''en'', ''OTP expired''), (''ru'', utf8 [1050, 1086, 1076, 32, 1080, 1089, 1090, 1105, 1082]), (''uz'',
        ''Kod muddati tugadi''), (''tr'', ''OTP s'' @ utf8 [252] @ ''resi doldu''), (''zh'', utf8 [39564, 35777, 30721, 24050,
        36807, 26399])]),
     (''otp_invalid'', [(''en'', ''OTP invalid''), (''ru'', utf8 [1053, 1077, 1074, 1077, 1088, 1085, 1099, 1081, 32, 1082,
        1086, 1076]), (''uz'', ''Kod noto'g'ri''), (''tr'', ''OTP ge'' @ utf8 [231] @ ''ersiz''), (''zh'', utf8 [39564, 35777,
        30721, 38169, 35823])]),
     (''otp_max_attempts_exceeded'', [(''en'', ''OTP max attempts exceeded''), (''ru'', utf8 [1055, 1088, 1077, 1074, 1099,
        1096, 1077, 1085, 1086, 32, 1095, 1080, 1089, 1083, 1086, 32, 1087, 1086, 1087, 1099, 1090, 1086, 1082, 32, 1074, 1074,
        1086, 1076, 1072, 32, 1082, 1086, 1076, 1072]), (''uz'', ''Kod kiritish urinishlari limiti oshdi''), (''tr'', ''OTP deneme limiti a''
        @ utf8 [351, 305] @ ''ld'' @ utf8 [305]), (''zh'', utf8 [39564, 35777, 30721, 23581, 35797, 27425, 25968, 36229,
        38480])]),
     (''otp_verify_attempts_exceeded'', [(''en'', ''OTP verify attempts exceeded for this phone, try again later''), (''ru'',
        utf8 [1055, 1088, 1077, 1074, 1099, 1096, 1077, 1085, 1086, 32, 1095, 1080, 1089, 1083, 1086, 32, 1087, 1086, 1087,
        1099, 1090, 1086, 1082, 32, 1076, 1083, 1103, 32, 1101, 1090, 1086, 1075, 1086, 32, 1085, 1086, 1084, 1077, 1088, 1072,
        44, 32, 1087, 1086, 1087, 1088, 1086, 1073, 1091, 1081, 1090, 1077, 32, 1087, 1086, 1079, 1078, 1077]), (''uz'', ''Ushbu raqam uchun urinishlar oshdi, keyinroq urinib ko'ring''),
        (''tr'', ''Bu telefon i'' @ utf8 [231] @ ''in deneme limiti a'' @ utf8 [351, 305] @ ''ld'' @ utf8 [305] @ '', daha sonra tekrar deneyin''),
        (''zh'', utf8 [35813, 25163, 26426, 21495, 39564, 35777, 23581, 35797, 27425, 25968, 36229, 38480, 65292, 35831, 31245,
        21518, 20877, 35797])]),
     (''phone_already_registered'', [(''en'', ''This phone is already registered''), (''ru'', utf8 [1069, 1090, 1086, 1090, 32,
        1085, 1086, 1084, 1077, 1088, 32, 1091, 1078, 1077, 32, 1079, 1072, 1088, 1077, 1075, 1080, 1089, 1090, 1088, 1080,
        1088, 1086, 1074, 1072, 1085]), (''uz'', ''Ushbu raqam allaqachon ro'yxatdan o'tgan''), (''tr'', ''Bu telefon zaten kay''
        @ utf8 [305] @ ''tl'' @ utf8 [305]), (''zh'', utf8 [35813, 25163, 26426, 21495, 24050, 27880, 20876])])]"

definition apiMessages_5 :: "(string \<times> (string \<times> string) list) list" where
  "apiMessages_5 = [
     (''session_expired_or_invalid'', [(''en'', ''Session expired or invalid''), (''ru'', utf8 [1057, 1077, 1089, 1089, 1080,
        1103, 32, 1080, 1089, 1090, 1077, 1082, 1083, 1072, 32, 1080, 1083, 1080, 32, 1085, 1077, 1076, 1077, 1081, 1089, 1090,
        1074, 1080, 1090, 1077, 1083, 1100, 1085, 1072]), (''uz'', ''Sessiya tugadi yoki noto'g'ri''), (''tr'', ''Oturum s'' @
        utf8 [252] @ ''resi doldu veya ge'' @ utf8 [231] @ ''ersiz''), (''zh'', utf8 [20250, 35805, 24050, 36807, 26399, 25110,
        26080, 25928])]),
     (''refresh_token_required'', [(''en'', ''refresh_token is required''), (''ru'', utf8 [1054, 1073, 1103, 1079, 1072, 1090,
        1077, 1083, 1077, 1085] @ '' refresh_token''), (''uz'', ''refresh_token talab qilinadi''), (''tr'', ''refresh_token gerekli''),
        (''zh'', utf8 [38656, 35201] @ ''refresh_token'')]),
     (''refresh_token_or_access_token_required'', [(''en'', ''refresh_token or access_token required''), (''ru'', utf8 [1058,
        1088, 1077, 1073, 1091, 1077, 1090, 1089, 1103] @ '' refresh_token '' @ utf8 [1080, 1083, 1080] @ '' access_token''),
        (''uz'', ''refresh_token yoki access_token talab qilinadi''), (''tr'', ''refresh_token veya access_token gerekli''),
        (''zh'', utf8 [38656, 35201] @ ''refresh_token'' @ utf8 [25110] @ ''access_token'')]),
     (''invalid_or_expired_refresh_token'', [(''en'', ''Invalid or expired refresh_token''), (''ru'', utf8 [114, 101, 102, 114,
        101, 115, 104, 95, 116, 111, 107, 101, 110, 32, 1085, 1077, 1076, 1077, 1081, 1089, 1090, 1074, 1080, 1090, 1077, 1083,
        1077, 1085, 32, 1080, 1083, 1080, 32, 1080, 1089, 1090, 1105, 1082]), (''uz'', ''refresh_token noto'g'ri yoki muddati tugagan''),
        (''tr'', ''refresh_token ge'' @ utf8 [231] @ ''ersiz veya s'' @ utf8 [252] @ ''resi dolmu'' @ utf8 [351]), (''zh'',
        ''refresh_token'' @ utf8 [26080, 25928, 25110, 24050, 36807, 26399])]),
     (''invalid_refresh_token_for_driver'', [(''en'', ''Invalid refresh_token for driver''), (''ru'', ''refresh_token '' @
        utf8 [1085, 1077] @ '' '' @ utf8 [1076, 1083, 1103] @ '' '' @ utf8 [1074, 1086, 1076, 1080, 1090, 1077, 1083, 1103]),
        (''uz'', ''Haydovchi uchun refresh_token noto'g'ri''), (''tr'', ''S'' @ utf8 [252] @ ''r'' @ utf8 [252] @ ''c'' @
        utf8 [252] @ '' i'' @ utf8 [231] @ ''in refresh_token ge'' @ utf8 [231] @ ''ersiz''), (''zh'', utf8 [21496, 26426,
        30340] @ ''refresh_token'' @ utf8 [26080, 25928])]),
     (''refresh_token_already_used'', [(''en'', ''refresh_token already used or invalid''), (''ru'', utf8 [114, 101, 102, 114,
        101, 115, 104, 95, 116, 111, 107, 101, 110, 32, 1091, 1078, 1077, 32, 1080, 1089, 1087, 1086, 1083, 1100, 1079, 1086,
        1074, 1072, 1085, 32, 1080, 1083, 1080, 32, 1085, 1077, 1076, 1077, 1081, 1089, 1090, 1074, 1080, 1090, 1077, 1083,
        1077, 1085]), (''uz'', ''refresh_token allaqachon ishlatilgan yoki noto'g'ri''), (''tr'', ''refresh_token zaten kullan''
        @ utf8 [305] @ ''ld'' @ utf8 [305] @ '' veya ge'' @ utf8 [231] @ ''ersiz''), (''zh'', ''refresh_token'' @ utf8 [24050,
        20351, 29992, 25110, 26080, 25928])]),
     (''invalid_or_expired_access_token'', [(''en'', ''Invalid or expired access_token''), (''ru'', utf8 [97, 99, 99, 101, 115,
        115, 95, 116, 111, 107, 101, 110, 32, 1085, 1077, 1076, 1077, 1081, 1089, 1090, 1074, 1080, 1090, 1077, 1083, 1077,
        1085, 32, 1080, 1083, 1080, 32, 1080, 1089, 1090, 1105, 1082]), (''uz'', ''access_token noto'g'ri yoki muddati tugagan''),
        (''tr'', ''access_token ge'' @ utf8 [231] @ ''ersiz veya s'' @ utf8 [252] @ ''resi dolmu'' @ utf8 [351]), (''zh'',
        ''access_token'' @ utf8 [26080, 25928, 25110, 24050, 36807, 26399])]),
     (''access_token_not_for_driver'', [(''en'', ''access_token is not for driver''), (''ru'', ''access_token '' @ utf8 [1085,
        1077] @ '' '' @ utf8 [1076, 1083, 1103] @ '' '' @ utf8 [1074, 1086, 1076, 1080, 1090, 1077, 1083, 1103]), (''uz'',
        ''access_token haydovchi uchun emas''), (''tr'', ''access_token s'' @ utf8 [252] @ ''r'' @ utf8 [252] @ ''c'' @
        utf8 [252] @ '' i'' @ utf8 [231] @ ''in de'' @ utf8 [287] @ ''il''), (''zh'', ''access_token'' @ utf8 [19981, 26159,
        21496, 26426, 30340])]),
     (''invalid_current_password'', [(''en'', ''Invalid current password''), (''ru'', utf8 [1053, 1077, 1074, 1077, 1088, 1085,
        1099, 1081, 32, 1090, 1077, 1082, 1091, 1097, 1080, 1081, 32, 1087, 1072, 1088, 1086, 1083, 1100]), (''uz'', ''Hozirgi parol noto'g'ri''),
        (''tr'', ''Mevcut '' @ utf8 [351] @ ''ifre ge'' @ utf8 [231] @ ''ersiz''), (''zh'', utf8 [24403, 21069, 23494, 30721,
        38169, 35823])]),
     (''password_hash_failed'', [(''en'', ''Password hash failed''), (''ru'', utf8 [1054, 1096, 1080, 1073, 1082, 1072, 32,
        1093, 1077, 1096, 1080, 1088, 1086, 1074, 1072, 1085, 1080, 1103, 32, 1087, 1072, 1088, 1086, 1083, 1103]), (''uz'',
        ''Parol xeshlashda xato''), (''tr'', utf8 [350] @ ''ifre hash hatas'' @ utf8 [305]), (''zh'', utf8 [23494, 30721, 21704,
        24076, 22833, 36133])]),
     (''invalid_phone_or_password'', [(''en'', ''Invalid phone or password''), (''ru'', utf8 [1053, 1077, 1074, 1077, 1088,
        1085, 1099, 1081, 32, 1090, 1077, 1083, 1077, 1092, 1086, 1085, 32, 1080, 1083, 1080, 32, 1087, 1072, 1088, 1086, 1083,
        1100]), (''uz'', ''Telefon yoki parol noto'g'ri''), (''tr'', ''Ge'' @ utf8 [231] @ ''ersiz telefon veya '' @ utf8 [351]
        @ ''ifre''), (''zh'', utf8 [25163, 26426, 21495, 25110, 23494, 30721, 38169, 35823])]),
     (''invalid_refresh_token_for_dispatcher'', [(''en'', ''Invalid refresh_token for dispatcher''), (''ru'', ''refresh_token ''
        @ utf8 [1085, 1077] @ '' '' @ utf8 [1076, 1083, 1103] @ '' '' @ utf8 [1076, 1080, 1089, 1087, 1077, 1090, 1095, 1077,
        1088, 1072]), (''uz'', ''Dispatcher uchun refresh_token noto'g'ri''), (''tr'', ''Dispatcher i'' @ utf8 [231] @ ''in refresh_token ge''
        @ utf8 [231] @ ''ersiz''), (''zh'', utf8 [35843, 24230, 21592, 30340] @ ''refresh_token'' @ utf8 [26080, 25928])]),
     (''access_token_not_for_dispatcher'', [(''en'', ''access_token is not for dispatcher''), (''ru'', ''access_token '' @
        utf8 [1085, 1077] @ '' '' @ utf8 [1076, 1083, 1103] @ '' '' @ utf8 [1076, 1080, 1089, 1087, 1077, 1090, 1095, 1077,
        1088, 1072]), (''uz'', ''access_token dispatcher uchun emas''), (''tr'', ''access_token dispatcher i'' @ utf8 [231] @
        ''in de'' @ utf8 [287] @ ''il''), (''zh'', ''access_token'' @ utf8 [19981, 26159, 35843, 24230, 21592, 30340])]),
     (''verification_failed'', [(''en'', ''Verification failed''), (''ru'', utf8 [1054, 1096, 1080, 1073, 1082, 1072, 32, 1074,
        1077, 1088, 1080, 1092, 1080, 1082, 1072, 1094, 1080, 1080]), (''uz'', ''Tasdiqlashda xato''), (''tr'', ''Do'' @
        utf8 [287] @ ''rulama ba'' @ utf8 [351] @ ''ar'' @ utf8 [305] @ ''s'' @ utf8 [305] @ ''z''), (''zh'', utf8 [39564,
        35777, 22833, 36133])]),
     (''phone_required'', [(''en'', ''phone is required''), (''ru'', utf8 [1054, 1073, 1103, 1079, 1072, 1090, 1077, 1083, 1077,
        1085, 32, 112, 104, 111, 110, 101]), (''uz'', ''telefon talab qilinadi''), (''tr'', ''telefon gerekli''), (''zh'',
        utf8 [38656, 35201] @ ''phone'')]),
     (''company_not_found_or_access_denied'', [(''en'', ''Company not found or access denied''), (''ru'', utf8 [1050, 1086,
        1084, 1087, 1072, 1085, 1080, 1103, 32, 1085, 1077, 32, 1085, 1072, 1081, 1076, 1077, 1085, 1072, 32, 1080, 1083, 1080,
        32, 1076, 1086, 1089, 1090, 1091, 1087, 32, 1079, 1072, 1087, 1088, 1077, 1097, 1105, 1085]), (''uz'', ''Kompaniya topilmadi yoki ruxsat yo'q''),
        (''tr'', utf8 [350] @ ''irket bulunamad'' @ utf8 [305] @ '' veya eri'' @ utf8 [351] @ ''im reddedildi''), (''zh'',
        utf8 [26410, 25214, 21040, 20844, 21496, 25110, 25298, 32477, 35775, 38382])]),
     (''invitation_sent_to_another_phone'', [(''en'', ''Invitation was sent to another phone''), (''ru'', utf8 [1055, 1088,
        1080, 1075, 1083, 1072, 1096, 1077, 1085, 1080, 1077, 32, 1073, 1099, 1083, 1086, 32, 1086, 1090, 1087, 1088, 1072,
        1074, 1083, 1077, 1085, 1086, 32, 1085, 1072, 32, 1076, 1088, 1091, 1075, 1086, 1081, 32, 1085, 1086, 1084, 1077,
        1088]), (''uz'', ''Taklif boshqa raqamga yuborilgan''), (''tr'', ''Davet ba'' @ utf8 [351] @ ''ka telefona g'' @
        utf8 [246] @ ''nderildi''), (''zh'', utf8 [36992, 35831, 24050, 21457, 36865, 33267, 20854, 20182, 25163, 26426,
        21495])]),
     (''failed_to_accept'', [(''en'', ''Failed to accept''), (''ru'', utf8 [1054, 1096, 1080, 1073, 1082, 1072, 32, 1087, 1088,
        1080, 1085, 1103, 1090, 1080, 1103]), (''uz'', ''Qabul qilishda xato''), (''tr'', ''Kabul ba'' @ utf8 [351] @ ''ar'' @
        utf8 [305] @ ''s'' @ utf8 [305] @ ''z''), (''zh'', utf8 [25509, 21463, 22833, 36133])]),
     (''phone_or_driver_id_required'', [(''en'', ''phone or driver_id is required''), (''ru'', utf8 [1054, 1073, 1103, 1079,
        1072, 1090, 1077, 1083, 1077, 1085] @ '' phone '' @ utf8 [1080, 1083, 1080] @ '' driver_id''), (''uz'', ''telefon yoki driver_id talab qilinadi''),
        (''tr'', ''telefon veya driver_id gerekli''), (''zh'', utf8 [38656, 35201] @ ''phone'' @ utf8 [25110] @ ''driver_id'')]),
     (''failed_to_create_invitation'', [(''en'', ''Failed to create invitation''), (''ru'', utf8 [1054, 1096, 1080, 1073, 1082,
        1072, 32, 1089, 1086, 1079, 1076, 1072, 1085, 1080, 1103, 32, 1087, 1088, 1080, 1075, 1083, 1072, 1096, 1077, 1085,
        1080, 1103]), (''uz'', ''Taklif yaratishda xato''), (''tr'', ''Davet olu'' @ utf8 [351] @ ''turulamad'' @ utf8 [305]),
        (''zh'', utf8 [21019, 24314, 36992, 35831, 22833, 36133])]),
     (''failed_to_get_cargo'', [(''en'', ''Failed to get cargo''), (''ru'', utf8 [1054, 1096, 1080, 1073, 1082, 1072, 32, 1087,
        1086, 1083, 1091, 1095, 1077, 1085, 1080, 1103, 32, 1075, 1088, 1091, 1079, 1072]), (''uz'', ''Yukni olishda xato''),
        (''tr'', ''Kargo al'' @ utf8 [305] @ ''namad'' @ utf8 [305]), (''zh'', utf8 [33719, 21462, 36135, 29289, 22833,
        36133])])]"

definition apiMessages_6 :: "(string \<times> (string \<times> string) list) list" where
  "apiMessages_6 = [
     (''cargo_not_found'', [(''en'', ''Cargo not found''), (''ru'', utf8 [1043, 1088, 1091, 1079, 32, 1085, 1077, 32, 1085,
        1072, 1081, 1076, 1077, 1085]), (''uz'', ''Yuk topilmadi''), (''tr'', ''Kargo bulunamad'' @ utf8 [305]), (''zh'',
        utf8 [26410, 25214, 21040, 36135, 29289])]),
     (''cargo_not_pending_moderation'', [(''en'', ''Cargo not found or not pending moderation''), (''ru'', utf8 [1043, 1088,
        1091, 1079, 32, 1085, 1077, 32, 1085, 1072, 1081, 1076, 1077, 1085, 32, 1080, 1083, 1080, 32, 1085, 1077, 32, 1085,
        1072, 32, 1084, 1086, 1076, 1077, 1088, 1072, 1094, 1080, 1080]), (''uz'', ''Yuk topilmadi yoki moderatsiyada emas''),
        (''tr'', ''Kargo bulunamad'' @ utf8 [305] @ '' veya moderasyonda de'' @ utf8 [287] @ ''il''), (''zh'', utf8 [26410,
        25214, 21040, 36135, 29289, 25110, 26410, 22312, 23457, 26680, 20013])]),
     (''moderation_rejection_reason_required'', [(''en'', ''Rejection reason is required''), (''ru'', utf8 [1054, 1073, 1103,
        1079, 1072, 1090, 1077, 1083, 1100, 1085, 1086, 32, 1091, 1082, 1072, 1078, 1080, 1090, 1077, 32, 1087, 1088, 1080,
        1095, 1080, 1085, 1091, 32, 1086, 1090, 1082, 1083, 1086, 1085, 1077, 1085, 1080, 1103]), (''uz'', ''Rad etish sababi majburiy''),
        (''tr'', ''Reddetme nedeni zorunludur''), (''zh'', utf8 [24517, 39035, 22635, 20889, 25298, 32477, 21407, 22240])]),
     (''offer_not_found'', [(''en'', ''Offer not found''), (''ru'', utf8 [1054, 1092, 1092, 1077, 1088, 32, 1085, 1077, 32,
        1085, 1072, 1081, 1076, 1077, 1085]), (''uz'', ''Taklif topilmadi''), (''tr'', ''Teklif bulunamad'' @ utf8 [305]),
        (''zh'', utf8 [26410, 25214, 21040, 25253, 20215])]),
     (''offer_not_found_or_not_pending'', [(''en'', ''Offer not found or not pending''), (''ru'', utf8 [1054, 1092, 1092, 1077,
        1088, 32, 1085, 1077, 32, 1085, 1072, 1081, 1076, 1077, 1085, 32, 1080, 1083, 1080, 32, 1091, 1078, 1077, 32, 1086,
        1073, 1088, 1072, 1073, 1086, 1090, 1072, 1085]), (''uz'', ''Taklif topilmadi yoki kutilmoqda emas''), (''tr'', ''Teklif bulunamad''
        @ utf8 [305] @ '' veya beklemede de'' @ utf8 [287] @ ''il''), (''zh'', utf8 [26410, 25214, 21040, 25253, 20215, 25110,
        24050, 22788, 29702])]),
     (''not_your_cargo'', [(''en'', ''This cargo is not yours''), (''ru'', utf8 [1069, 1090, 1086, 32, 1085, 1077, 32, 1074,
        1072, 1096, 32, 1075, 1088, 1091, 1079]), (''uz'', ''Bu yuk sizga tegishli emas''), (''tr'', ''Bu kargo size ait de'' @
        utf8 [287] @ ''il''), (''zh'', utf8 [35813, 36135, 29289, 19981, 23646, 20110, 24744])]),
     (''cargo_not_searching'', [(''en'', ''Cargo is not in searching status''), (''ru'', utf8 [1043, 1088, 1091, 1079, 32, 1085,
        1077, 32, 1074, 32, 1089, 1090, 1072, 1090, 1091, 1089, 1077, 32, 1087, 1086, 1080, 1089, 1082, 1072]), (''uz'', ''Yuk qidiruv holatida emas''),
        (''tr'', ''Kargo arama durumunda de'' @ utf8 [287] @ ''il''), (''zh'', utf8 [36135, 29289, 26410, 22788, 20110, 25628,
        32034, 29366, 24577])]),
     (''cargo_visible_only_to_company_drivers'', [(''en'', ''This cargo is visible only to company drivers''), (''ru'',
        utf8 [1043, 1088, 1091, 1079, 32, 1074, 1080, 1076, 1077, 1085, 32, 1090, 1086, 1083, 1100, 1082, 1086, 32, 1074, 1086,
        1076, 1080, 1090, 1077, 1083, 1103, 1084, 32, 1082, 1086, 1084, 1087, 1072, 1085, 1080, 1080]), (''uz'', ''Yuk faqat kompaniya haydovchilariga ko'rinadi''),
        (''tr'', ''Bu kargo yaln'' @ utf8 [305] @ ''zca '' @ utf8 [351] @ ''irket s'' @ utf8 [252] @ ''r'' @ utf8 [252] @ ''c''
        @ utf8 [252] @ ''lerine g'' @ utf8 [246] @ ''r'' @ utf8 [252] @ ''n'' @ utf8 [252] @ ''r''), (''zh'', utf8 [35813,
        36135, 29289, 20165, 23545, 20844, 21496, 21496, 26426, 21487, 35265])]),
     (''failed_to_create_recommendation'', [(''en'', ''Failed to create recommendation''), (''ru'', utf8 [1053, 1077, 32, 1091,
        1076, 1072, 1083, 1086, 1089, 1100, 32, 1089, 1086, 1079, 1076, 1072, 1090, 1100, 32, 1088, 1077, 1082, 1086, 1084,
        1077, 1085, 1076, 1072, 1094, 1080, 1102]), (''uz'', ''Tavsiya yaratib bo'lmadi''), (''tr'', utf8 [214] @ ''neri olu'' @
        utf8 [351] @ ''turulamad'' @ utf8 [305]), (''zh'', utf8 [21019, 24314, 25512, 33616, 22833, 36133])]),
     (''recommendation_not_found_or_not_pending'', [(''en'', ''Recommendation not found or not pending''), (''ru'', utf8 [1056,
        1077, 1082, 1086, 1084, 1077, 1085, 1076, 1072, 1094, 1080, 1103, 32, 1085, 1077, 32, 1085, 1072, 1081, 1076, 1077,
        1085, 1072, 32, 1080, 1083, 1080, 32, 1091, 1078, 1077, 32, 1086, 1073, 1088, 1072, 1073, 1086, 1090, 1072, 1085,
        1072]), (''uz'', ''Tavsiya topilmadi yoki kutilmoqda emas''), (''tr'', utf8 [214] @ ''neri bulunamad'' @ utf8 [305] @ '' veya beklemede de''
        @ utf8 [287] @ ''il''), (''zh'', utf8 [26410, 25214, 21040, 25512, 33616, 25110, 24050, 22788, 29702])]),
     (''cargo_already_assigned'', [(''en'', ''Cargo already assigned''), (''ru'', utf8 [1043, 1088, 1091, 1079, 32, 1091, 1078,
        1077, 32, 1085, 1072, 1079, 1085, 1072, 1095, 1077, 1085]), (''uz'', ''Yuk allaqachon tayinlangan''), (''tr'', ''Kargo zaten atanm''
        @ utf8 [305, 351]), (''zh'', utf8 [36135, 29289, 24050, 20998, 37197])]),
     (''failed_to_create_cargo'', [(''en'', ''Failed to create cargo''), (''ru'', utf8 [1054, 1096, 1080, 1073, 1082, 1072, 32,
        1089, 1086, 1079, 1076, 1072, 1085, 1080, 1103, 32, 1075, 1088, 1091, 1079, 1072]), (''uz'', ''Yuk yaratishda xato''),
        (''tr'', ''Kargo olu'' @ utf8 [351] @ ''turulamad'' @ utf8 [305]), (''zh'', utf8 [21019, 24314, 36135, 29289, 22833,
        36133])]),
     (''failed_to_check_cargo_limit'', [(''en'', ''Failed to check cargo limit''), (''ru'', utf8 [1054, 1096, 1080, 1073, 1082,
        1072, 32, 1087, 1088, 1086, 1074, 1077, 1088, 1082, 1080, 32, 1083, 1080, 1084, 1080, 1090, 1072, 32, 1075, 1088, 1091,
        1079, 1086, 1074]), (''uz'', ''Yuk limitini tekshirishda xato''), (''tr'', ''Kargo limiti kontrol edilemedi''), (''zh'',
        utf8 [26816, 26597, 36135, 29289, 38480, 21046, 22833, 36133])]),
     (''failed_to_update_cargo'', [(''en'', ''Failed to update cargo''), (''ru'', utf8 [1054, 1096, 1080, 1073, 1082, 1072, 32,
        1086, 1073, 1085, 1086, 1074, 1083, 1077, 1085, 1080, 1103, 32, 1075, 1088, 1091, 1079, 1072]), (''uz'', ''Yukni yangilashda xato''),
        (''tr'', ''Kargo g'' @ utf8 [252] @ ''ncellenemedi''), (''zh'', utf8 [26356, 26032, 36135, 29289, 22833, 36133])]),
     (''failed_to_delete_cargo'', [(''en'', ''Failed to delete cargo''), (''ru'', utf8 [1054, 1096, 1080, 1073, 1082, 1072, 32,
        1091, 1076, 1072, 1083, 1077, 1085, 1080, 1103, 32, 1075, 1088, 1091, 1079, 1072]), (''uz'', ''Yukni o'chirishda xato''),
        (''tr'', ''Kargo silinemedi''), (''zh'', utf8 [21024, 38500, 36135, 29289, 22833, 36133])]),
     (''missing_required_headers'', [(''en'', ''Missing required headers: X-Device-Type, X-Language, X-Client-Token''), (''ru'',
        utf8 [1054, 1090, 1089, 1091, 1090, 1089, 1090, 1074, 1091, 1102, 1090] @ '' '' @ utf8 [1086, 1073, 1103, 1079, 1072,
        1090, 1077, 1083, 1100, 1085, 1099, 1077] @ '' '' @ utf8 [1079, 1072, 1075, 1086, 1083, 1086, 1074, 1082, 1080] @ '': X-Device-Type, X-Language, X-Client-Token''),
        (''uz'', ''Majburiy sarlavhalar yo'q: X-Device-Type, X-Language, X-Client-Token''), (''tr'', ''Eksik zorunlu ba'' @
        utf8 [351] @ ''l'' @ utf8 [305] @ ''klar: X-Device-Type, X-Language, X-Client-Token''), (''zh'', utf8 [32570, 23569,
        24517, 38656, 35831, 27714, 22836, 65306] @ ''X-Device-Type, X-Language, X-Client-Token'')]),
     (''invalid_x_device_type'', [(''en'', ''Invalid X-Device-Type (allowed: ios, android, web)''), (''ru'', utf8 [1053, 1077,
        1082, 1086, 1088, 1088, 1077, 1082, 1090, 1085, 1099, 1081] @ '' X-Device-Type ('' @ utf8 [1076, 1086, 1087, 1091, 1089,
        1090, 1080, 1084, 1086] @ '': ios, android, web)''), (''uz'', ''Noto'g'ri X-Device-Type (ios, android, web)''), (''tr'',
        ''Ge'' @ utf8 [231] @ ''ersiz X-Device-Type (ios, android, web)''), (''zh'', ''X-Device-Type'' @ utf8 [26080, 25928,
        65288, 20801, 35768, 65306] @ ''ios, android, web'' @ utf8 [65289])]),
     (''invalid_x_client_token'', [(''en'', ''Invalid X-Client-Token''), (''ru'', utf8 [1053, 1077, 1082, 1086, 1088, 1088,
        1077, 1082, 1090, 1085, 1099, 1081] @ '' X-Client-Token''), (''uz'', ''Noto'g'ri X-Client-Token''), (''tr'', ''Ge'' @
        utf8 [231] @ ''ersiz X-Client-Token''), (''zh'', ''X-Client-Token'' @ utf8 [26080, 25928])]),
     (''user_not_identified'', [(''en'', ''User not identified''), (''ru'', utf8 [1055, 1086, 1083, 1100, 1079, 1086, 1074,
        1072, 1090, 1077, 1083, 1100, 32, 1085, 1077, 32, 1080, 1076, 1077, 1085, 1090, 1080, 1092, 1080, 1094, 1080, 1088,
        1086, 1074, 1072, 1085]), (''uz'', ''Foydalanuvchi aniqlanmadi''), (''tr'', ''Kullan'' @ utf8 [305] @ ''c'' @ utf8 [305]
        @ '' tan'' @ utf8 [305] @ ''mlanmad'' @ utf8 [305]), (''zh'', utf8 [29992, 25143, 26410, 35782, 21035])]),
     (''token_required'', [(''en'', ''token is required''), (''ru'', utf8 [1058, 1088, 1077, 1073, 1091, 1077, 1090, 1089, 1103,
        32, 116, 111, 107, 101, 110]), (''uz'', ''token talab qilinadi''), (''tr'', ''token gerekli''), (''zh'', utf8 [38656,
        35201] @ ''token'')]),
     (''not_your_invitation'', [(''en'', ''Not your invitation''), (''ru'', utf8 [1053, 1077, 32, 1074, 1072, 1096, 1077, 32,
        1087, 1088, 1080, 1075, 1083, 1072, 1096, 1077, 1085, 1080, 1077]), (''uz'', ''Sizning taklivingiz emas''), (''tr'',
        ''Davetiniz de'' @ utf8 [287] @ ''il''), (''zh'', utf8 [19981, 26159, 24744, 30340, 36992, 35831])])]"

definition apiMessages_7 :: "(string \<times> (string \<times> string) list) list" where
  "apiMessages_7 = [
     (''invitation_invalid'', [(''en'', ''Invitation invalid''), (''ru'', utf8 [1055, 1088, 1080, 1075, 1083, 1072, 1096, 1077,
        1085, 1080, 1077, 32, 1085, 1077, 1076, 1077, 1081, 1089, 1090, 1074, 1080, 1090, 1077, 1083, 1100, 1085, 1086]),
        (''uz'', ''Taklif noto'g'ri''), (''tr'', ''Davet ge'' @ utf8 [231] @ ''ersiz''), (''zh'', utf8 [36992, 35831, 26080,
        25928])]),
     (''failed_to_search_drivers'', [(''en'', ''Failed to search drivers''), (''ru'', utf8 [1054, 1096, 1080, 1073, 1082, 1072,
        32, 1087, 1086, 1080, 1089, 1082, 1072, 32, 1074, 1086, 1076, 1080, 1090, 1077, 1083, 1077, 1081]), (''uz'',
        ''Haydovchilarni qidirishda xato''), (''tr'', ''S'' @ utf8 [252] @ ''r'' @ utf8 [252] @ ''c'' @ utf8 [252] @ '' arama ba''
        @ utf8 [351] @ ''ar'' @ utf8 [305] @ ''s'' @ utf8 [305] @ ''z''), (''zh'', utf8 [25628, 32034, 21496, 26426, 22833,
        36133])]),
     (''failed_to_list_drivers'', [(''en'', ''Failed to list drivers''), (''ru'', utf8 [1054, 1096, 1080, 1073, 1082, 1072, 32,
        1089, 1087, 1080, 1089, 1082, 1072, 32, 1074, 1086, 1076, 1080, 1090, 1077, 1083, 1077, 1081]), (''uz'', ''Haydovchilar ro'yxatida xato''),
        (''tr'', ''S'' @ utf8 [252] @ ''r'' @ utf8 [252] @ ''c'' @ utf8 [252] @ ''ler listelenemedi''), (''zh'', utf8 [33719,
        21462, 21496, 26426, 21015, 34920, 22833, 36133])]),
     (''failed_to_list_invitations'', [(''en'', ''Failed to list invitations''), (''ru'', utf8 [1054, 1096, 1080, 1073, 1082,
        1072, 32, 1089, 1087, 1080, 1089, 1082, 1072, 32, 1087, 1088, 1080, 1075, 1083, 1072, 1096, 1077, 1085, 1080, 1081]),
        (''uz'', ''Takliflar ro'yxatida xato''), (''tr'', ''Davetler listelenemedi''), (''zh'', utf8 [33719, 21462, 36992,
        35831, 21015, 34920, 22833, 36133])]),
     (''failed_to_unlink'', [(''en'', ''Failed to unlink''), (''ru'', utf8 [1054, 1096, 1080, 1073, 1082, 1072, 32, 1086, 1090,
        1074, 1103, 1079, 1082, 1080]), (''uz'', ''Ajratishda xato''), (''tr'', ''Ba'' @ utf8 [287] @ ''lant'' @ utf8 [305] @ '' kald''
        @ utf8 [305] @ ''r'' @ utf8 [305] @ ''lamad'' @ utf8 [305]), (''zh'', utf8 [35299, 38500, 20851, 32852, 22833, 36133])]),
     (''driver_not_linked'', [(''en'', ''Driver not found or not linked to you''), (''ru'', utf8 [1042, 1086, 1076, 1080, 1090,
        1077, 1083, 1100, 32, 1085, 1077, 32, 1085, 1072, 1081, 1076, 1077, 1085, 32, 1080, 1083, 1080, 32, 1085, 1077, 32,
        1087, 1088, 1080, 1074, 1103, 1079, 1072, 1085, 32, 1082, 32, 1074, 1072, 1084]), (''uz'', ''Haydovchi topilmadi yoki sizga bog'lanmagan''),
        (''tr'', ''S'' @ utf8 [252] @ ''r'' @ utf8 [252] @ ''c'' @ utf8 [252] @ '' bulunamad'' @ utf8 [305] @ '' veya size ba''
        @ utf8 [287] @ ''l'' @ utf8 [305] @ '' de'' @ utf8 [287] @ ''il''), (''zh'', utf8 [26410, 25214, 21040, 21496, 26426,
        25110, 26410, 19982, 24744, 20851, 32852])]),
     (''driver_must_accept_invitation'', [(''en'', ''Driver must have accepted your invitation''), (''ru'', utf8 [1042, 1086,
        1076, 1080, 1090, 1077, 1083, 1100, 32, 1076, 1086, 1083, 1078, 1077, 1085, 32, 1073, 1099, 1083, 32, 1087, 1088, 1080,
        1085, 1103, 1090, 1100, 32, 1074, 1072, 1096, 1077, 32, 1087, 1088, 1080, 1075, 1083, 1072, 1096, 1077, 1085, 1080,
        1077]), (''uz'', ''Haydovchi taklivingizni qabul qilgan bo'lishi kerak''), (''tr'', ''S'' @ utf8 [252] @ ''r'' @
        utf8 [252] @ ''c'' @ utf8 [252] @ '' davetinizi kabul etmi'' @ utf8 [351] @ '' olmal'' @ utf8 [305]), (''zh'',
        utf8 [21496, 26426, 24517, 39035, 24050, 25509, 21463, 24744, 30340, 36992, 35831])]),
     (''failed_to_update_power'', [(''en'', ''Failed to update power''), (''ru'', utf8 [1054, 1096, 1080, 1073, 1082, 1072, 32,
        1086, 1073, 1085, 1086, 1074, 1083, 1077, 1085, 1080, 1103, 32, 1090, 1103, 1075, 1072, 1095, 1072]), (''uz'', ''Trakni yangilashda xato''),
        (''tr'', ''G'' @ utf8 [252, 231] @ '' birimi g'' @ utf8 [252] @ ''ncellenemedi''), (''zh'', utf8 [26356, 26032, 21160,
        21147, 21333, 20803, 22833, 36133])]),
     (''failed_to_update_trailer'', [(''en'', ''Failed to update trailer''), (''ru'', utf8 [1054, 1096, 1080, 1073, 1082, 1072,
        32, 1086, 1073, 1085, 1086, 1074, 1083, 1077, 1085, 1080, 1103, 32, 1087, 1088, 1080, 1094, 1077, 1087, 1072]), (''uz'',
        ''Tirkamani yangilashda xato''), (''tr'', ''R'' @ utf8 [246] @ ''mork g'' @ utf8 [252] @ ''ncellenemedi''), (''zh'',
        utf8 [26356, 26032, 25346, 36710, 22833, 36133])]),
     (''failed_to_cancel_invitation'', [(''en'', ''Failed to cancel invitation''), (''ru'', utf8 [1054, 1096, 1080, 1073, 1082,
        1072, 32, 1086, 1090, 1084, 1077, 1085, 1099, 32, 1087, 1088, 1080, 1075, 1083, 1072, 1096, 1077, 1085, 1080, 1103]),
        (''uz'', ''Taklifni bekor qilishda xato''), (''tr'', ''Davet iptal edilemedi''), (''zh'', utf8 [21462, 28040, 36992,
        35831, 22833, 36133])]),
     (''failed_to_list_conversations'', [(''en'', ''Failed to list conversations''), (''ru'', utf8 [1054, 1096, 1080, 1073,
        1082, 1072, 32, 1089, 1087, 1080, 1089, 1082, 1072, 32, 1076, 1080, 1072, 1083, 1086, 1075, 1086, 1074]), (''uz'',
        ''Suhbatlar ro'yxatida xato''), (''tr'', ''Sohbetler listelenemedi''), (''zh'', utf8 [33719, 21462, 20250, 35805, 21015,
        34920, 22833, 36133])]),
     (''invalid_peer_id'', [(''en'', ''Invalid peer_id''), (''ru'', utf8 [1053, 1077, 1082, 1086, 1088, 1088, 1077, 1082, 1090,
        1085, 1099, 1081, 32, 112, 101, 101, 114, 95, 105, 100]), (''uz'', ''Noto'g'ri peer_id''), (''tr'', ''Ge'' @ utf8 [231]
        @ ''ersiz peer_id''), (''zh'', ''peer_id'' @ utf8 [26080, 25928])]),
     (''cannot_chat_with_yourself'', [(''en'', ''Cannot chat with yourself''), (''ru'', utf8 [1053, 1077, 1083, 1100, 1079,
        1103, 32, 1087, 1080, 1089, 1072, 1090, 1100, 32, 1089, 1077, 1073, 1077]), (''uz'', ''O'zingizga yozib bo'lmaydi''),
        (''tr'', ''Kendinizle sohbet edemezsiniz''), (''zh'', utf8 [19981, 33021, 19982, 33258, 24049, 32842, 22825])]),
     (''failed_to_create_conversation'', [(''en'', ''Failed to create conversation''), (''ru'', utf8 [1054, 1096, 1080, 1073,
        1082, 1072, 32, 1089, 1086, 1079, 1076, 1072, 1085, 1080, 1103, 32, 1076, 1080, 1072, 1083, 1086, 1075, 1072]), (''uz'',
        ''Suhbat yaratishda xato''), (''tr'', ''Sohbet olu'' @ utf8 [351] @ ''turulamad'' @ utf8 [305]), (''zh'', utf8 [21019,
        24314, 20250, 35805, 22833, 36133])]),
     (''invalid_conversation_id'', [(''en'', ''Invalid conversation id''), (''ru'', utf8 [1053, 1077, 1082, 1086, 1088, 1088,
        1077, 1082, 1090, 1085, 1099, 1081, 32, 105, 100, 32, 1076, 1080, 1072, 1083, 1086, 1075, 1072]), (''uz'', ''Noto'g'ri suhbat id''),
        (''tr'', ''Ge'' @ utf8 [231] @ ''ersiz sohbet id''), (''zh'', utf8 [20250, 35805, 73, 68, 26080, 25928])]),
     (''failed_to_list_messages'', [(''en'', ''Failed to list messages''), (''ru'', utf8 [1054, 1096, 1080, 1073, 1082, 1072,
        32, 1089, 1087, 1080, 1089, 1082, 1072, 32, 1089, 1086, 1086, 1073, 1097, 1077, 1085, 1080, 1081]), (''uz'', ''Xabarlar ro'yxatida xato''),
        (''tr'', ''Mesajlar listelenemedi''), (''zh'', utf8 [33719, 21462, 28040, 24687, 21015, 34920, 22833, 36133])]),
     (''message_too_long'', [(''en'', ''Message too long''), (''ru'', utf8 [1057, 1086, 1086, 1073, 1097, 1077, 1085, 1080,
        1077, 32, 1089, 1083, 1080, 1096, 1082, 1086, 1084, 32, 1076, 1083, 1080, 1085, 1085, 1086, 1077]), (''uz'', ''Xabar juda uzun''),
        (''tr'', ''Mesaj '' @ utf8 [231] @ ''ok uzun''), (''zh'', utf8 [28040, 24687, 36807, 38271])]),
     (''conversation_not_found'', [(''en'', ''Conversation not found''), (''ru'', utf8 [1044, 1080, 1072, 1083, 1086, 1075, 32,
        1085, 1077, 32, 1085, 1072, 1081, 1076, 1077, 1085]), (''uz'', ''Suhbat topilmadi''), (''tr'', ''Sohbet bulunamad'' @
        utf8 [305]), (''zh'', utf8 [26410, 25214, 21040, 20250, 35805])]),
     (''failed_to_send_message'', [(''en'', ''Failed to send message''), (''ru'', utf8 [1054, 1096, 1080, 1073, 1082, 1072, 32,
        1086, 1090, 1087, 1088, 1072, 1074, 1082, 1080, 32, 1089, 1086, 1086, 1073, 1097, 1077, 1085, 1080, 1103]), (''uz'',
        ''Xabar yuborishda xato''), (''tr'', ''Mesaj g'' @ utf8 [246] @ ''nderilemedi''), (''zh'', utf8 [21457, 36865, 28040,
        24687, 22833, 36133])]),
     (''invalid_message_id'', [(''en'', ''Invalid message id''), (''ru'', utf8 [1053, 1077, 1082, 1086, 1088, 1088, 1077, 1082,
        1090, 1085, 1099, 1081, 32, 105, 100, 32, 1089, 1086, 1086, 1073, 1097, 1077, 1085, 1080, 1103]), (''uz'', ''Noto'g'ri xabar id''),
        (''tr'', ''Ge'' @ utf8 [231] @ ''ersiz mesaj id''), (''zh'', utf8 [28040, 24687, 73, 68, 26080, 25928])]),
     (''message_not_found'', [(''en'', ''Message not found or not yours''), (''ru'', utf8 [1057, 1086, 1086, 1073, 1097, 1077,
        1085, 1080, 1077, 32, 1085, 1077, 32, 1085, 1072, 1081, 1076, 1077, 1085, 1086, 32, 1080, 1083, 1080, 32, 1085, 1077,
        32, 1074, 1072, 1096, 1077]), (''uz'', ''Xabar topilmadi yoki sizniki emas''), (''tr'', ''Mesaj bulunamad'' @ utf8 [305]
        @ '' veya sizin de'' @ utf8 [287] @ ''il''), (''zh'', utf8 [26410, 25214, 21040, 28040, 24687, 25110, 19981, 26159,
        24744, 30340])])]"

definition apiMessages_8 :: "(string \<times> (string \<times> string) list) list" where
  "apiMessages_8 = [
     (''failed_to_delete_message'', [(''en'', ''Failed to delete message''), (''ru'', utf8 [1054, 1096, 1080, 1073, 1082, 1072,
        32, 1091, 1076, 1072, 1083, 1077, 1085, 1080, 1103, 32, 1089, 1086, 1086, 1073, 1097, 1077, 1085, 1080, 1103]), (''uz'',
        ''Xabarni o'chirishda xato''), (''tr'', ''Mesaj silinemedi''), (''zh'', utf8 [21024, 38500, 28040, 24687, 22833,
        36133])]),
     (''failed_to_get_presence'', [(''en'', ''Failed to get presence''), (''ru'', utf8 [1054, 1096, 1080, 1073, 1082, 1072, 32,
        1087, 1086, 1083, 1091, 1095, 1077, 1085, 1080, 1103, 32, 1089, 1090, 1072, 1090, 1091, 1089, 1072]), (''uz'',
        ''Mavjudlikni olishda xato''), (''tr'', ''Varl'' @ utf8 [305] @ ''k al'' @ utf8 [305] @ ''namad'' @ utf8 [305]),
        (''zh'', utf8 [33719, 21462, 22312, 32447, 29366, 24577, 22833, 36133])]),
     (''missing_user_token'', [(''en'', ''Missing X-User-Token''), (''ru'', utf8 [1054, 1090, 1089, 1091, 1090, 1089, 1090,
        1074, 1091, 1077, 1090] @ '' X-User-Token''), (''uz'', ''X-User-Token yo'q''), (''tr'', ''X-User-Token eksik''),
        (''zh'', utf8 [32570, 23569] @ ''X-User-Token'')]),
     (''invalid_user_token'', [(''en'', ''Invalid X-User-Token''), (''ru'', utf8 [1053, 1077, 1082, 1086, 1088, 1088, 1077,
        1082, 1090, 1085, 1099, 1081] @ '' X-User-Token''), (''uz'', ''Noto'g'ri X-User-Token''), (''tr'', ''Ge'' @ utf8 [231] @
        ''ersiz X-User-Token''), (''zh'', ''X-User-Token'' @ utf8 [26080, 25928])]),
     (''missing_user_token_or_id'', [(''en'', ''Missing X-User-Token or X-User-ID (or query user_id/token)''), (''ru'',
        utf8 [1058, 1088, 1077, 1073, 1091, 1077, 1090, 1089, 1103] @ '' X-User-Token '' @ utf8 [1080, 1083, 1080] @ '' X-User-ID (''
        @ utf8 [1080, 1083, 1080] @ '' query user_id/token)''), (''uz'', ''X-User-Token yoki X-User-ID talab qilinadi''),
        (''tr'', ''X-User-Token veya X-User-ID gerekli''), (''zh'', utf8 [38656, 35201] @ ''X-User-Token'' @ utf8 [25110] @
        ''X-User-ID'')]),
     (''openapi_not_found'', [(''en'', ''openapi.yaml not found on disk''), (''ru'', utf8 [1060, 1072, 1081, 1083] @ '' openapi.yaml ''
        @ utf8 [1085, 1077] @ '' '' @ utf8 [1085, 1072, 1081, 1076, 1077, 1085]), (''uz'', ''openapi.yaml topilmadi''), (''tr'',
        ''openapi.yaml bulunamad'' @ utf8 [305]), (''zh'', utf8 [26410, 25214, 21040] @ ''openapi.yaml'')]),
     (''first_name_too_short'', [(''en'', ''first_name is too short''), (''ru'', utf8 [1048, 1084, 1103, 32, 1089, 1083, 1080,
        1096, 1082, 1086, 1084, 32, 1082, 1086, 1088, 1086, 1090, 1082, 1086, 1077]), (''uz'', ''Ism juda qisqa''), (''tr'',
        utf8 [304] @ ''sim '' @ utf8 [231] @ ''ok k'' @ utf8 [305] @ ''sa''), (''zh'', utf8 [21517, 23383, 36807, 30701])]),
     (''failed_to_create_company'', [(''en'', ''Failed to create company''), (''ru'', utf8 [1054, 1096, 1080, 1073, 1082, 1072,
        32, 1089, 1086, 1079, 1076, 1072, 1085, 1080, 1103, 32, 1082, 1086, 1084, 1087, 1072, 1085, 1080, 1080]), (''uz'',
        ''Kompaniya yaratishda xato''), (''tr'', utf8 [350] @ ''irket olu'' @ utf8 [351] @ ''turulamad'' @ utf8 [305]), (''zh'',
        utf8 [21019, 24314, 20844, 21496, 22833, 36133])]),
     (''failed_to_link_company'', [(''en'', ''Failed to link company''), (''ru'', utf8 [1054, 1096, 1080, 1073, 1082, 1072, 32,
        1087, 1088, 1080, 1074, 1103, 1079, 1082, 1080, 32, 1082, 1086, 1084, 1087, 1072, 1085, 1080, 1080]), (''uz'',
        ''Kompaniyani ulashda xato''), (''tr'', utf8 [350] @ ''irket ba'' @ utf8 [287] @ ''lant'' @ utf8 [305] @ ''s'' @
        utf8 [305] @ '' ba'' @ utf8 [351] @ ''ar'' @ utf8 [305] @ ''s'' @ utf8 [305] @ ''z''), (''zh'', utf8 [20851, 32852,
        20844, 21496, 22833, 36133])]),
     (''failed_to_list_companies'', [(''en'', ''Failed to list companies''), (''ru'', utf8 [1054, 1096, 1080, 1073, 1082, 1072,
        32, 1089, 1087, 1080, 1089, 1082, 1072, 32, 1082, 1086, 1084, 1087, 1072, 1085, 1080, 1081]), (''uz'', ''Kompaniyalar ro'yxatida xato''),
        (''tr'', utf8 [350] @ ''irketler listelenemedi''), (''zh'', utf8 [33719, 21462, 20844, 21496, 21015, 34920, 22833,
        36133])]),
     (''failed_to_issue_token'', [(''en'', ''Failed to issue token''), (''ru'', utf8 [1054, 1096, 1080, 1073, 1082, 1072, 32,
        1074, 1099, 1076, 1072, 1095, 1080, 32, 1090, 1086, 1082, 1077, 1085, 1072]), (''uz'', ''Token berishda xato''),
        (''tr'', ''Token olu'' @ utf8 [351] @ ''turulamad'' @ utf8 [305]), (''zh'', utf8 [31614, 21457, 20196, 29260, 22833,
        36133])]),
     (''passport_pinfl_required'', [(''en'', ''passport_series, passport_number, pinfl are required''), (''ru'', utf8 [1054,
        1073, 1103, 1079, 1072, 1090, 1077, 1083, 1100, 1085, 1099, 32, 1089, 1077, 1088, 1080, 1103, 32, 1080, 32, 1085, 1086,
        1084, 1077, 1088, 32, 1087, 1072, 1089, 1087, 1086, 1088, 1090, 1072, 44, 32, 1055, 1048, 1053, 1060, 1051]), (''uz'',
        ''Pasport seriyasi, raqami va PINFL talab qilinadi''), (''tr'', ''Pasaport serisi, numaras'' @ utf8 [305] @ '' ve PINFL gerekli''),
        (''zh'', utf8 [38656, 35201, 25252, 29031, 31995, 21015, 12289, 21495, 30721, 21644, 80, 73, 78, 70, 76])]),
     (''name_required'', [(''en'', ''name is required''), (''ru'', utf8 [1054, 1073, 1103, 1079, 1072, 1090, 1077, 1083, 1100,
        1085, 1086, 32, 1080, 1084, 1103]), (''uz'', ''ism talab qilinadi''), (''tr'', ''isim gerekli''), (''zh'', utf8 [38656,
        35201] @ ''name'')])]"

definition apiMessages :: "(string \<times> (string \<times> string) list) list" where
  "apiMessages = apiMessages_1 @ apiMessages_2 @ apiMessages_3 @ apiMessages_4 @ apiMessages_5 @ apiMessages_6 @ apiMessages_7 @ apiMessages_8"

section \<open>The choice of a text\<close>

text \<open>A text that is there and not empty.\<close>

definition text_in :: "(string \<times> string) list \<Rightarrow> string \<Rightarrow> string option" where
  "text_in m lang = (case map_of m lang of None \<Rightarrow> None | Some s \<Rightarrow> if s \<noteq> [] then Some s else None)"

text \<open>The language, then English, then Russian.\<close>

definition in_language :: "(string \<times> string) list \<Rightarrow> string \<Rightarrow> string \<Rightarrow> string" where
  "in_language m lang fallback =
     (case text_in m lang of
        Some s \<Rightarrow> s
      | None \<Rightarrow> (case text_in m ''en'' of
          Some s \<Rightarrow> s
        | None \<Rightarrow> (case text_in m ''ru'' of Some s \<Rightarrow> s | None \<Rightarrow> fallback)))"

definition Msg :: "ext \<Rightarrow> string \<Rightarrow> string \<Rightarrow> string" where
  "Msg E key lang =
     (case map_of apiMessages key of
        None \<Rightarrow> key
      | Some m \<Rightarrow> in_language m (ToLower E (TrimSpace lang)) key)"

definition languages :: "string list" where "languages = [''ru'', ''uz'', ''en'', ''tr'', ''zh'']"

definition LangFromContext :: "ext \<Rightarrow> string \<Rightarrow> string" where
  "LangFromContext E hLanguage =
     (let lang = ToLower E (TrimSpace hLanguage) in if lang \<in> set languages then lang else ''en'')"

section \<open>The envelope\<close>

record Envelope =
  en_Status :: string
  en_Code :: int
  en_Description :: string
  en_Data :: json

text \<open>
  An answer with a key is sent with the text of the key in the language of the request. The handlers that write their
  description themselves (\<open>Error\<close>, \<open>ErrorWithData\<close>, \<open>OK\<close>) send it as it is.
\<close>

definition envelope :: "response \<Rightarrow> string \<Rightarrow> Envelope" where
  "envelope r description =
     \<lparr>en_Status = (if resp_success r then ''success'' else ''error''), en_Code = resp_code r,
      en_Description = description, en_Data = resp_data r\<rparr>"

definition localized :: "ext \<Rightarrow> string \<Rightarrow> response \<Rightarrow> Envelope" where
  "localized E hLanguage r = envelope r (Msg E (resp_key r) (LangFromContext E hLanguage))"

section \<open>Every message in every language\<close>

definition complete :: "string \<times> (string \<times> string) list \<Rightarrow> bool" where
  "complete = (\<lambda>(k, m). list_all (\<lambda>l. text_in m l \<noteq> None) languages)"

lemma encode_rune_not_Nil [simp]: "encode_rune r \<noteq> []"
  by (simp add: encode_rune_def)

lemma utf8_Nil [simp]: "utf8 rs = [] \<longleftrightarrow> rs = []"
  by (cases rs) (simp_all add: utf8_def encode_runes_def)

lemma complete_entry:
  "complete (k, [(''en'', a), (''ru'', b), (''uz'', c), (''tr'', d), (''zh'', e)]) \<longleftrightarrow>
     a \<noteq> [] \<and> b \<noteq> [] \<and> c \<noteq> [] \<and> d \<noteq> [] \<and> e \<noteq> []"
  by (simp add: complete_def languages_def text_in_def)

lemma complete_1: "list_all complete apiMessages_1"
  unfolding apiMessages_1_def by (simp add: complete_entry)

lemma complete_2: "list_all complete apiMessages_2"
  unfolding apiMessages_2_def by (simp add: complete_entry)

lemma complete_3: "list_all complete apiMessages_3"
  unfolding apiMessages_3_def by (simp add: complete_entry)

lemma complete_4: "list_all complete apiMessages_4"
  unfolding apiMessages_4_def by (simp add: complete_entry)

lemma complete_5: "list_all complete apiMessages_5"
  unfolding apiMessages_5_def by (simp add: complete_entry)

lemma complete_6: "list_all complete apiMessages_6"
  unfolding apiMessages_6_def by (simp add: complete_entry)

lemma complete_7: "list_all complete apiMessages_7"
  unfolding apiMessages_7_def by (simp add: complete_entry)

lemma complete_8: "list_all complete apiMessages_8"
  unfolding apiMessages_8_def by (simp add: complete_entry)

lemma all_complete: "list_all complete apiMessages"
  unfolding apiMessages_def list_all_append by (intro conjI complete_1 complete_2 complete_3 complete_4 complete_5 complete_6 complete_7 complete_8)

end
