(* ===== verification/Answers.thy ===== *)
theory Answers
  imports Server_Guarantees Messages
begin

text \<open>
  What the handlers say: every answer carries a key of the table of messages, or one of a few descriptions that are not in it. The
  rules carry that from the answers at the ends of the handlers up to the routes.
\<close>

section \<open>Keys\<close>

text \<open>The descriptions the handlers use that the table does not have.\<close>

definition untranslated :: "string list" where
  "untranslated = [''cargo limit reached for freelance dispatcher'',
     ''failed to create offer'',
     ''failed to list offers'',
     ''invalid offer id'',
     ''invalid payload'',
     ''trip not found or not assigned to you'']"

definition known :: "string \<Rightarrow> bool" where
  "known k \<longleftrightarrow> k \<in> set (map fst apiMessages) \<or> k \<in> set untranslated"

lemma keys_1: "map fst apiMessages_1 = [
     ''ok'', ''created'', ''updated'', ''accepted'', ''declined'', ''photo_uploaded'', ''photo_deleted'', ''heartbeat'',
    ''otp_sent'', ''phone_updated'', ''login'', ''register'', ''invalid_payload'', ''invalid_payload_detail'', ''unauthorized'',
    ''internal_error'', ''driver_not_found'', ''driver_already_in_company'', ''driver_already_accepted_your_invitation'',
    ''dispatcher_not_found'', ''already_linked_to_this_dispatcher'']"
  by (simp add: apiMessages_1_def)

lemma keys_2: "map fst apiMessages_2 = [
     ''name_too_short'', ''invalid_work_status'', ''driver_passport_series_required'', ''driver_passport_number_required'',
    ''driver_pinfl_required'', ''invalid_id'', ''trip_not_found'', ''trip_not_found_or_not_pending_driver'',
    ''require_cargo_id'', ''invalid_cargo_id'', ''failed_to_list'', ''invalid_driver_id'', ''trip_not_found_or_not_assigned'',
    ''invalid_status_transition'', ''roles_not_configured'', ''company_create_failed'', ''list_failed'', ''invalid_company_id'',
    ''invalid_dispatcher_id'', ''failed_to_list_dispatchers'', ''dispatcher_not_linked_to_you'']"
  by (simp add: apiMessages_2_def)

lemma keys_3: "map fst apiMessages_3 = [
     ''not_member_of_company'', ''company_not_found'', ''token_issue_failed'', ''invitation_failed'',
    ''unauthorized_login_register_first'', ''invitation_not_found_or_expired'', ''failed'', ''invalid_role_id'',
    ''role_not_found'', ''your_role_cannot_invite'', ''invalid_user_id'', ''your_role_cannot_assign'', ''user_not_in_company'',
    ''update_failed'', ''your_role_cannot_remove'', ''remove_failed'', ''invalid_login_or_password'', ''admin_inactive'',
    ''oferta_accepted_required'', ''session_id_expired_or_invalid'', ''invalid_driver_type'']"
  by (simp add: apiMessages_3_def)

lemma keys_4: "map fst apiMessages_4 = [
     ''power_plate_type_required'', ''trailer_plate_type_required'', ''invalid_freelancer_id'', ''failed_to_load_roles'',
    ''invalid_x_language'', ''failed_to_load_cities'', ''photo_file_required'', ''file_too_large'', ''allowed_image_types'',
    ''cannot_read_file'', ''photo_not_found'', ''otp_required'', ''otp_generation_failed'', ''otp_cooldown'',
    ''otp_rate_limited'', ''otp_must_be_numeric'', ''otp_expired'', ''otp_invalid'', ''otp_max_attempts_exceeded'',
    ''otp_verify_attempts_exceeded'', ''phone_already_registered'']"
  by (simp add: apiMessages_4_def)

lemma keys_5: "map fst apiMessages_5 = [
     ''session_expired_or_invalid'', ''refresh_token_required'', ''refresh_token_or_access_token_required'',
    ''invalid_or_expired_refresh_token'', ''invalid_refresh_token_for_driver'', ''refresh_token_already_used'',
    ''invalid_or_expired_access_token'', ''access_token_not_for_driver'', ''invalid_current_password'',
    ''password_hash_failed'', ''invalid_phone_or_password'', ''invalid_refresh_token_for_dispatcher'',
    ''access_token_not_for_dispatcher'', ''verification_failed'', ''phone_required'', ''company_not_found_or_access_denied'',
    ''invitation_sent_to_another_phone'', ''failed_to_accept'', ''phone_or_driver_id_required'',
    ''failed_to_create_invitation'', ''failed_to_get_cargo'']"
  by (simp add: apiMessages_5_def)

lemma keys_6: "map fst apiMessages_6 = [
     ''cargo_not_found'', ''cargo_not_pending_moderation'', ''moderation_rejection_reason_required'', ''offer_not_found'',
    ''offer_not_found_or_not_pending'', ''not_your_cargo'', ''cargo_not_searching'', ''cargo_visible_only_to_company_drivers'',
    ''failed_to_create_recommendation'', ''recommendation_not_found_or_not_pending'', ''cargo_already_assigned'',
    ''failed_to_create_cargo'', ''failed_to_check_cargo_limit'', ''failed_to_update_cargo'', ''failed_to_delete_cargo'',
    ''missing_required_headers'', ''invalid_x_device_type'', ''invalid_x_client_token'', ''user_not_identified'',
    ''token_required'', ''not_your_invitation'']"
  by (simp add: apiMessages_6_def)

lemma keys_7: "map fst apiMessages_7 = [
     ''invitation_invalid'', ''failed_to_search_drivers'', ''failed_to_list_drivers'', ''failed_to_list_invitations'',
    ''failed_to_unlink'', ''driver_not_linked'', ''driver_must_accept_invitation'', ''failed_to_update_power'',
    ''failed_to_update_trailer'', ''failed_to_cancel_invitation'', ''failed_to_list_conversations'', ''invalid_peer_id'',
    ''cannot_chat_with_yourself'', ''failed_to_create_conversation'', ''invalid_conversation_id'', ''failed_to_list_messages'',
    ''message_too_long'', ''conversation_not_found'', ''failed_to_send_message'', ''invalid_message_id'',
    ''message_not_found'']"
  by (simp add: apiMessages_7_def)

lemma keys_8: "map fst apiMessages_8 = [
     ''failed_to_delete_message'', ''failed_to_get_presence'', ''missing_user_token'', ''invalid_user_token'',
    ''missing_user_token_or_id'', ''openapi_not_found'', ''first_name_too_short'', ''failed_to_create_company'',
    ''failed_to_link_company'', ''failed_to_list_companies'', ''failed_to_issue_token'', ''passport_pinfl_required'',
    ''name_required'']"
  by (simp add: apiMessages_8_def)

lemma known_1: "list_all known (map fst apiMessages_1)"
  by (simp add: list_all_iff known_def apiMessages_def)

lemma known_2: "list_all known (map fst apiMessages_2)"
  by (simp add: list_all_iff known_def apiMessages_def)

lemma known_3: "list_all known (map fst apiMessages_3)"
  by (simp add: list_all_iff known_def apiMessages_def)

lemma known_4: "list_all known (map fst apiMessages_4)"
  by (simp add: list_all_iff known_def apiMessages_def)

lemma known_5: "list_all known (map fst apiMessages_5)"
  by (simp add: list_all_iff known_def apiMessages_def)

lemma known_6: "list_all known (map fst apiMessages_6)"
  by (simp add: list_all_iff known_def apiMessages_def)

lemma known_7: "list_all known (map fst apiMessages_7)"
  by (simp add: list_all_iff known_def apiMessages_def)

lemma known_8: "list_all known (map fst apiMessages_8)"
  by (simp add: list_all_iff known_def apiMessages_def)

lemma known_untranslated: "list_all known untranslated"
  by (simp add: list_all_iff known_def)

lemmas known_keys [simp] =
  known_1 [unfolded keys_1 list.pred_inject]
  known_2 [unfolded keys_2 list.pred_inject]
  known_3 [unfolded keys_3 list.pred_inject]
  known_4 [unfolded keys_4 list.pred_inject]
  known_5 [unfolded keys_5 list.pred_inject]
  known_6 [unfolded keys_6 list.pred_inject]
  known_7 [unfolded keys_7 list.pred_inject]
  known_8 [unfolded keys_8 list.pred_inject]
  known_untranslated [unfolded untranslated_def list.pred_inject]

section \<open>Programs that answer\<close>

text \<open>The answers that are not an envelope: a photo, an empty body, and the panic's.\<close>

definition raw :: "response \<Rightarrow> bool" where
  "raw r \<longleftrightarrow> r = panicked \<or> r = no_content \<or> (\<exists>contentType data. r = binary contentType data)"

definition spoken :: "response \<Rightarrow> bool" where
  "spoken r \<longleftrightarrow> raw r \<or> known (resp_key r)"

text \<open>Whatever the world, the result of the program satisfies the predicate.\<close>

definition says :: "('a \<Rightarrow> bool) \<Rightarrow> ('s, 'a) state \<Rightarrow> bool" where
  "says P m \<longleftrightarrow> (\<forall>w. P (fst (run m w)))"

abbreviation speaks :: "('s, response) state \<Rightarrow> bool" where
  "speaks \<equiv> says spoken"

text \<open>A guard or a check that may answer in place of the handler.\<close>

abbreviation refuses :: "('s, response + 'a) state \<Rightarrow> bool" where
  "refuses \<equiv> says (case_sum spoken (\<lambda>_. True))"

named_theorems says_intro "from the answers at the ends of a program to the program"

lemma spoken_simps [simp]:
  "known k \<Longrightarrow> spoken (OKLang k d)" "known k \<Longrightarrow> spoken (ErrorLang n k)" "known k \<Longrightarrow> spoken (SuccessLang n k d)"
  "known k \<Longrightarrow> spoken (ErrorWithData n k d)" "spoken panicked" "spoken no_content" "spoken (binary t b)"
  by (auto simp: spoken_def resp_defs raw_def)

lemma spoken_answers [simp]:
  "spoken status_ok" "spoken (WriteOTPSendError se)" "spoken (save_error e)" "spoken (verify_error e)" "spoken (action_error e)"
  "spoken (code_error e)" "spoken (ok_driver d)" "spoken (created_token t)" "spoken (phone_change_error e)"
  by (simp_all add: status_ok_def WriteOTPSendError_def save_error_def verify_error_def action_error_def code_error_def ok_driver_def
      created_token_def phone_change_error_def split: send_error.split)

lemma says_ret [says_intro]: "P r \<Longrightarrow> says P (ret r)"
  by (simp add: says_def)

lemma says_bind [says_intro]: "(\<And>a. says P (f a)) \<Longrightarrow> says P (State_Monad.bind m f)"
  by (simp add: says_def case_prod_unfold)

lemma says_cases [says_intro]:
  "(b \<Longrightarrow> says P m) \<Longrightarrow> (\<not> b \<Longrightarrow> says P n) \<Longrightarrow> says P (if b then m else n)"
  "(\<And>e. x = Inl e \<Longrightarrow> says P (f e)) \<Longrightarrow> (\<And>a. x = Inr a \<Longrightarrow> says P (g a)) \<Longrightarrow> says P (case x of Inl e \<Rightarrow> f e | Inr a \<Rightarrow> g a)"
  "says P m \<Longrightarrow> (\<And>a. says P (h a)) \<Longrightarrow> says P (case y of None \<Rightarrow> m | Some a \<Rightarrow> h a)"
  "(\<And>a b. says P (k a b)) \<Longrightarrow> says P (case z of (a, b) \<Rightarrow> k a b)"
  "says P m \<Longrightarrow> says P n \<Longrightarrow> says P (case b of True \<Rightarrow> m | False \<Rightarrow> n)"
  by (auto split: sum.split option.split prod.split bool.split)

lemma says_attempt [says_intro]:
  "(\<And>e. says P (h e)) \<Longrightarrow> (\<And>a. says P (k a)) \<Longrightarrow> says P (attempt m h k)"
  unfolding attempt_def by (intro says_intro)

lemma says_checked:
  assumes "says Q m" and "\<And>a. Q a \<Longrightarrow> says P (f a)"
  shows "says P (State_Monad.bind m f)"
  using assms by (simp add: says_def case_prod_unfold)

lemma spoken_if [says_intro]:
  "(b \<Longrightarrow> spoken r) \<Longrightarrow> (\<not> b \<Longrightarrow> spoken t) \<Longrightarrow> spoken (if b then r else t)"
  by simp

section \<open>Handlers\<close>

lemma checked_keys:
  assumes "checked_driver E req = Inl key"
  shows "known key"
  using assms by (auto simp: checked_driver_def check_field_def check_status_def Let_def split: sum.splits option.splits if_splits)

lemma says_sign_in [says_intro]:
  "speaks (login_or_register E h phone)"
  "speaks (send_code E tg store ns otpTTL otpLen ip phone)"
  unfolding login_or_register_def send_code_def Let_def
  by ((intro says_intro; simp add: checked_keys)+)

lemma says_entry [says_intro]:
  "speaks (AuthHandler_SendOTP E h ip body)"
  "speaks (AuthHandler_VerifyOTP E h body')"
  "speaks (AuthHandler_Refresh E h body)"
  "speaks (AuthHandler_Logout E h body'')"
  "speaks (CompanyUserAuth_SendOTP E h' ip body)"
  "speaks (CompanyUserAuth_VerifyOTP E h' body')"
  "speaks (AdminAuth_LoginPassword E m rs body''')"
  "speaks (DispatcherAuth_SendOTP E h'' ip body)"
  "speaks (DispatcherAuth_VerifyOTP E h'' body')"
  "speaks (DispatcherAuth_LoginPassword E h'' body'''')"
  "speaks (DispatcherAuth_ResetPasswordRequest E h'' body)"
  "speaks (DispatcherAuth_Logout E h'' body'')"
  "speaks (RegistrationHandler_Start E h''' body''''')"
  "speaks (CompanyUserRegistration_Complete E h'''' body'''''')"
  "speaks (DispatcherAuth_ResetPasswordConfirm E h'' body''''''')"
  "speaks (DispatcherRegistration_Complete E h''''' body'''''''')"
  unfolding AuthHandler_SendOTP_def AuthHandler_VerifyOTP_def AuthHandler_Refresh_def AuthHandler_Logout_def
    CompanyUserAuth_SendOTP_def CompanyUserAuth_VerifyOTP_def AdminAuth_LoginPassword_def DispatcherAuth_SendOTP_def
    DispatcherAuth_VerifyOTP_def DispatcherAuth_LoginPassword_def DispatcherAuth_ResetPasswordRequest_def
    DispatcherAuth_Logout_def RegistrationHandler_Start_def CompanyUserRegistration_Complete_def
    DispatcherAuth_ResetPasswordConfirm_def DispatcherRegistration_Complete_def Let_def sign_in_dispatcher_def code_session_def
    store_password_def logged_in_def
  by ((intro says_intro; simp add: checked_keys)+)

lemma says_creator: "refuses (creator_from_token E h header p)"
  unfolding creator_from_token_def Let_def by ((intro says_intro; simp add: checked_keys)+)

lemma says_create [says_intro]: "speaks (CargoHandler_Create E h header body)"
  unfolding CargoHandler_Create_def created_answer_def Let_def
  by (rule says_checked [OF says_creator] says_intro | simp split: sum.splits)+

lemma says_api [says_intro]:
  "speaks (CargoHandler_List E h header q)"
  "speaks (CargoHandler_GetByID E idParam)"
  "speaks (CargoHandler_ListOffers E idParam)"
  "speaks (TripsHandler_List E q)"
  "speaks (TripsHandler_Get E idParam)"
  "speaks (CargoHandler_Update E idParam body)"
  "speaks (CargoHandler_Delete E idParam)"
  "speaks (CargoHandler_PatchStatus E idParam body')"
  "speaks (CargoHandler_CreateOffer E h idParam body'')"
  "speaks (CargoHandler_AcceptOffer E h idParam)"
  unfolding CargoHandler_List_def CargoHandler_GetByID_def CargoHandler_ListOffers_def TripsHandler_List_def
    TripsHandler_Get_def CargoHandler_Update_def CargoHandler_Delete_def CargoHandler_PatchStatus_def
    CargoHandler_CreateOffer_def CargoHandler_AcceptOffer_def Let_def driver_company_def open_trip_def finish_offer_def
  by ((intro says_intro; simp add: checked_keys)+)

lemma says_admin [says_intro]:
  "speaks (AdminCompanies_SearchOwners E qQ)"
  "speaks (Moderation_ListPending E q)"
  "speaks (AdminCompanies_Create E adminID body)"
  "speaks (AdminCompanies_SetOwner E pId body')"
  "speaks (Moderation_Accept E idParam body')"
  "speaks (Moderation_Reject E idParam body')"
  unfolding AdminCompanies_SearchOwners_def Moderation_ListPending_def AdminCompanies_Create_def AdminCompanies_SetOwner_def
    Moderation_Accept_def Moderation_Reject_def Let_def as_user_def
  by ((intro says_intro; simp add: checked_keys)+)

lemma says_profile [says_intro]:
  "speaks (Profile_Get E driverID)"
  "speaks (Profile_PatchDriver E driverID body)"
  "speaks (Profile_Heartbeat E driverID body')"
  "speaks (Profile_UploadPhoto driverID form)"
  "speaks (Profile_DeletePhoto driverID)"
  "speaks (Profile_PhoneChangeVerify E h body'')"
  "speaks (Profile_PatchPower E driverID body''')"
  "speaks (Profile_PatchTrailer E driverID body'''')"
  "speaks (Profile_Delete driverID)"
  "speaks (RegistrationHandler_GeoPush E driverID body''''')"
  "speaks (RegistrationHandler_TransportType E driverID body'''''')"
  "speaks (KYC_Submit E driverID body''''''')"
  unfolding Profile_Get_def Profile_PatchDriver_def Profile_Heartbeat_def Profile_UploadPhoto_def Profile_DeletePhoto_def
    Profile_PhoneChangeVerify_def Profile_PatchPower_def Profile_PatchTrailer_def Profile_Delete_def
    RegistrationHandler_GeoPush_def RegistrationHandler_TransportType_def KYC_Submit_def Let_def event_driver_def
    upload_photo_def
  by ((intro says_intro; simp add: checked_keys)+)

lemma says_driver [says_intro]:
  "speaks (Profile_GetPhoto driverID)"
  "speaks (Profile_PhoneChangeRequest E h driverID body)"
  "speaks (TripsHandler_ListMy E driverID q)"
  "speaks (DriverInvitations_ListInvitations E driverID)"
  "speaks (DriverDispatchers_ListMyDispatchers E driverID)"
  "speaks (D2D_ListSentByDriver driverID)"
  "speaks (Recommendations_ListRecommendedForDriver E driverID q)"
  "speaks (TripsHandler_DriverConfirm E driverID idParam)"
  "speaks (TripsHandler_DriverReject E driverID idParam)"
  "speaks (TripsHandler_PatchStatus E hasCargoRepo driverID idParam body)"
  "speaks (DriverInvitations_Accept E driverID body)"
  "speaks (DriverInvitations_Decline E driverID body)"
  "speaks (DriverDispatchers_UnlinkDispatcher E driverID pDispatcherId)"
  "speaks (D2D_CreateFromDriver E driverID body)"
  "speaks (D2D_CancelByDriver driverID pToken)"
  "speaks (Recommendations_AcceptRecommendation E hasTripsRepo driverID idParam)"
  "speaks (Recommendations_DeclineRecommendation E driverID idParam)"
  unfolding Profile_GetPhoto_def Profile_PhoneChangeRequest_def TripsHandler_ListMy_def DriverInvitations_ListInvitations_def
    DriverDispatchers_ListMyDispatchers_def D2D_ListSentByDriver_def Recommendations_ListRecommendedForDriver_def
    TripsHandler_DriverConfirm_def TripsHandler_DriverReject_def TripsHandler_PatchStatus_def DriverInvitations_Accept_def
    DriverInvitations_Decline_def DriverDispatchers_UnlinkDispatcher_def D2D_CreateFromDriver_def D2D_CancelByDriver_def
    Recommendations_AcceptRecommendation_def Recommendations_DeclineRecommendation_def Let_def code_session_def
    freelance_items_def my_invitation_def sync_cargo_def open_trip_def
  by ((intro says_intro; simp add: checked_keys)+)

lemma says_dispatcher_profile [says_intro]:
  "speaks (DispatcherProfile_Patch E u body)"
  "speaks (DispatcherProfile_UploadPhoto u form)"
  "speaks (DispatcherProfile_ChangePassword E u body')"
  "speaks (DispatcherProfile_PhoneChangeVerify E h body'')"
  "speaks (DispatcherProfile_Delete u)"
  unfolding DispatcherProfile_Patch_def DispatcherProfile_UploadPhoto_def DispatcherProfile_ChangePassword_def
    DispatcherProfile_PhoneChangeVerify_def DispatcherProfile_Delete_def Let_def upload_photo_def ok_dispatcher_def
    store_password_def
  by ((intro says_intro; simp add: checked_keys)+)

lemma says_dispatcher [says_intro]:
  "speaks (DispatcherProfile_Get E u)"
  "speaks (DispatcherProfile_GetPhoto u)"
  "speaks (DispatcherProfile_PhoneChangeRequest E h u body)"
  "speaks (DispatcherCompanies_ListMyCompanies E dispatcherID)"
  "speaks (DispatcherCompanies_SwitchCompany E m uuid_tag dispatcherID body)"
  "speaks (DriverInvitations_ListSent E dispatcherID)"
  "speaks (DriverInvitations_FindDrivers E qPhone qLimit)"
  "speaks (DriverInvitations_ListMyDrivers E dispatcherID qLimit)"
  "speaks (D2D_ListReceivedByDispatcher E dispatcherID)"
  "speaks (DispatcherInvitations_CreateInvitation E dispatcherID pCompanyId body')"
  "speaks (DispatcherInvitations_Accept E dispatcherID body)"
  "speaks (DispatcherInvitations_Decline body)"
  "speaks (DriverInvitations_CreateForFreelance E dispatcherID body'')"
  "speaks (DriverInvitations_CancelInvitation dispatcherID pToken)"
  "speaks (DriverInvitations_Create E dispatcherID pCompanyId body)"
  "speaks (DriverInvitations_UnlinkDriver E dispatcherID pDriverId)"
  "speaks (D2D_AcceptByDispatcher E dispatcherID body)"
  "speaks (D2D_DeclineByDispatcher E dispatcherID body)"
  "speaks (DriverInvitations_SetDriverPower E dispatcherID pDriverId body''')"
  "speaks (DriverInvitations_SetDriverTrailer E dispatcherID pDriverId body'''')"
  "speaks (TripsHandler_AssignDriver E uuid_tag idParam body)"
  "speaks (CargoHandler_RejectOfferDispatcher E dispatcherID idParam body)"
  "speaks (Recommendations_Recommend E dispatcherID idParam body''''')"
  unfolding DispatcherProfile_Get_def DispatcherProfile_GetPhoto_def DispatcherProfile_PhoneChangeRequest_def
    DispatcherCompanies_ListMyCompanies_def DispatcherCompanies_SwitchCompany_def DriverInvitations_ListSent_def
    DriverInvitations_FindDrivers_def DriverInvitations_ListMyDrivers_def D2D_ListReceivedByDispatcher_def
    DispatcherInvitations_CreateInvitation_def DispatcherInvitations_Accept_def DispatcherInvitations_Decline_def
    DriverInvitations_CreateForFreelance_def DriverInvitations_CancelInvitation_def DriverInvitations_Create_def
    DriverInvitations_UnlinkDriver_def D2D_AcceptByDispatcher_def D2D_DeclineByDispatcher_def
    DriverInvitations_SetDriverPower_def DriverInvitations_SetDriverTrailer_def TripsHandler_AssignDriver_def
    CargoHandler_RejectOfferDispatcher_def Recommendations_Recommend_def Let_def code_session_def with_dispatcher_def
    ok_dispatcher_def own_driver_def updated_driver_def invited_phone_def invitation_for_me_def
  by ((intro says_intro; simp add: checked_keys)+)

lemma says_member [says_intro]:
  "speaks (CompanyTZ_ListMyCompanies E userID current)"
  "speaks (CompanyTZ_SwitchCompany E m userID body)"
  "speaks (CompanyTZ_ListCompanyUsers E userID pCompanyId qPage qLimit)"
  "speaks (CompanyTZ_CreateCompany E userID body')"
  "speaks (CompanyTZ_CreateInvitation E userID host pCompanyId body'')"
  "speaks (CompanyTZ_AcceptInvitation E userID body)"
  "speaks (CompanyTZ_UpdateUserRole E userID pCompanyId pUserId body)"
  "speaks (CompanyTZ_RemoveUser E userID pCompanyId pUserId)"
  unfolding CompanyTZ_ListMyCompanies_def CompanyTZ_SwitchCompany_def CompanyTZ_ListCompanyUsers_def CompanyTZ_CreateCompany_def
    CompanyTZ_CreateInvitation_def CompanyTZ_AcceptInvitation_def CompanyTZ_UpdateUserRole_def CompanyTZ_RemoveUser_def Let_def
    as_user_def as_member_def
  by ((intro says_intro; simp add: checked_keys)+)

lemma says_chat [says_intro]:
  "speaks (Chat_ListConversations E userID q)"
  "speaks (Chat_GetOrCreateConversation E userID body)"
  "speaks (Chat_ListMessages E userID convID q)"
  "speaks (Chat_SendMessage E userID convID body)"
  "speaks (Chat_EditMessage E userID msgID body)"
  "speaks (Chat_DeleteMessage E userID msgID)"
  "speaks (Chat_GetPresence E userID' q)"
  unfolding Chat_ListConversations_def Chat_GetOrCreateConversation_def Chat_ListMessages_def Chat_SendMessage_def
    Chat_EditMessage_def Chat_DeleteMessage_def Chat_GetPresence_def Let_def as_user_def with_id_def message_body_def
  by ((intro says_intro; simp add: checked_keys)+)

section \<open>Routes\<close>

lemma says_entry_routes: "speaks (serve_entry E R c q)"
  by (cases q) (simp_all add: says_entry)

lemma says_api_routes: "speaks (serve_api E R c q)"
  by (cases q) (simp_all add: says_api says_create)

lemma says_admin_routes: "speaks (serve_admin E u q)"
  by (cases q) (simp_all add: says_admin)

lemma says_driver_routes: "speaks (serve_driver E R u q)"
  by (cases q) (simp_all add: says_driver says_profile)

lemma says_dispatcher_routes: "speaks (serve_dispatcher E R u q)"
  by (cases q) (simp_all add: says_dispatcher says_dispatcher_profile)

lemma says_member_routes: "speaks (serve_member E R c u co q)"
  by (cases q) (simp_all add: says_member)

text \<open>An answer, or the connection itself.\<close>

abbreviation answers :: "('s, response option) state \<Rightarrow> bool" where
  "answers \<equiv> says (pred_option spoken)"

lemma says_chat_routes: "answers (serve_chat_route E u q)"
proof (cases q)
  case (Chat_request p)
  then show ?thesis
    by (cases p) (auto intro!: says_checked [of spoken] says_chat says_ret)
next
  case (Chat_presence i p)
  then show ?thesis by (auto intro!: says_checked [of spoken] says_chat says_ret)
next
  case (Chat_ws upgraded frames)
  moreover have "answers (ServeWS E u upgraded frames)" unfolding ServeWS_def by (intro says_intro; simp)
  ultimately show ?thesis by simp
qed

lemma says_online:
  assumes "says P m"
  shows "says P (UpdateDriverLastOnline u m)" "says P (UpdateDispatcherLastOnline u m)"
proof -
  have "says P (State_Monad.bind m (\<lambda>a. if b then ret a else State_Monad.bind n (\<lambda>x. State_Monad.bind (k x) (\<lambda>_. ret a))))" for b n k
    by (rule says_checked [OF assms]) (intro says_intro)
  then show "says P (UpdateDriverLastOnline u m)" "says P (UpdateDispatcherLastOnline u m)"
    unfolding UpdateDriverLastOnline_def UpdateDispatcherLastOnline_def by blast+
qed

lemma says_answered: "speaks m \<Longrightarrow> answers (answered m)"
  unfolding answered_def by (auto intro!: says_checked [of spoken] says_ret)

lemma says_behind:
  assumes "refuses g" and "\<And>a. answers (f a)"
  shows "answers (behind g f)"
  unfolding behind_def using assms by (auto intro!: says_checked [of "case_sum spoken (\<lambda>_. True)"] says_ret split: sum.splits)

lemma guards_refuse:
  "refuses (RequireDriver E m s h)" "refuses (RequireAdmin E m s h)"
  "refuses (RequireDispatcher E m s h)" "refuses (RequireAppUser E m s h)"
  "refuses (RequireChatUser E m s qUserID qToken hUserID h)"
  unfolding RequireDriver_def RequireAdmin_def RequireDispatcher_def RequireAppUser_def RequireChatUser_def Let_def
  by ((intro says_intro; simp)+)

lemma says_group: "answers (serve_group E R c q)"
  by (cases q) (auto intro!: says_behind says_answered says_online guards_refuse says_entry_routes says_api_routes
      says_admin_routes says_driver_routes says_dispatcher_routes says_member_routes says_chat_routes split: prod.split)

lemma says_handle: "answers (handle E R c q)"
proof -
  have "spoken r" if "RequireBaseHeaders E t d l h = Some r" for t d l h r
    using that by (auto simp: RequireBaseHeaders_def Let_def split: if_splits)
  then show ?thesis
    unfolding handle_def by (auto intro!: says_ret says_group split: option.split)
qed

section \<open>Texts\<close>

lemma request_language: "LangFromContext E h \<in> set languages"
  by (simp add: LangFromContext_def Let_def languages_def)

lemma language_normal:
  assumes "l \<in> set languages"
  shows "ToLower E (TrimSpace l) = l"
proof -
  have "\<forall>l \<in> set languages. TrimSpace l = l \<and> is_ascii l \<and> map ascii_lower l = l" by code_simp
  with assms show ?thesis by (simp add: ToLower_def)
qed

lemma Msg_text:
  assumes "k \<in> set (map fst apiMessages)" and "l \<in> set languages"
  obtains m s where "map_of apiMessages k = Some m" and "map_of m l = Some s" and "s \<noteq> []" and "Msg E k l = s"
proof -
  obtain m where m: "map_of apiMessages k = Some m" using assms(1) by (metis map_of_eq_None_iff not_None_eq set_map)
  then have "complete (k, m)" using all_complete by (auto simp: list_all_iff dest: map_of_SomeD)
  with assms(2) obtain s where s: "text_in m l = Some s" by (auto simp: complete_def list_all_iff)
  then have "map_of m l = Some s" "s \<noteq> []" by (auto simp: text_in_def split: option.splits if_splits)
  moreover have "Msg E k l = s" using m s assms(2) by (simp add: Msg_def in_language_def language_normal)
  ultimately show thesis using m that by blast
qed



end
