(* ===== verification/Keys.thy ===== *)
theory Keys
  imports Server_Guarantees
begin

text \<open>
  The types of the Redis keys. Every family of keys holds one type of value: the stores and the chat build their keys from different
  prefixes, and no request can make one family's key look like another's. The rules carry that from the commands up to the routes.
\<close>

section \<open>Kinds of keys\<close>

datatype kind = K_text | K_counter | K_hash | K_set

definition starts :: "string \<Rightarrow> string \<Rightarrow> bool" where
  "starts p k \<longleftrightarrow> take (length p) k = p"

text \<open>What follows \<open>otp:\<close> in the key of a one-time password store.\<close>

definition otp_kind :: "string \<Rightarrow> kind" where
  "otp_kind k =
     (if starts ''cooldown:'' k then K_text
      else if starts ''send_count:'' k \<or> starts ''send_count_ip:'' k \<or> starts ''verify_attempts:'' k then K_counter
      else K_hash)"

definition key_kind :: "string \<Rightarrow> kind" where
  "key_kind k0 =
     (let k = (if starts ''company_'' k0 then drop 8 k0 else k0)
      in if starts ''otp:'' k then otp_kind (drop 4 k)
         else if starts ''phonechange:'' k \<or> starts ''disp_reset:'' k \<or> starts ''disp_phone:'' k then K_hash
         else if starts ''user_sessions:'' k then K_set
         else K_text)"

fun of_kind :: "kind \<Rightarrow> rvalue \<Rightarrow> bool" where
  "of_kind K_text v = (case v of RString _ \<Rightarrow> True | _ \<Rightarrow> False)"
| "of_kind K_counter v = (case v of RString s \<Rightarrow> Atoi s \<noteq> None | _ \<Rightarrow> False)"
| "of_kind K_hash v = (case v of RHash _ \<Rightarrow> True | _ \<Rightarrow> False)"
| "of_kind K_set v = (case v of RSet _ \<Rightarrow> True | _ \<Rightarrow> False)"

definition typed :: "redis \<Rightarrow> bool" where
  "typed m \<longleftrightarrow> (\<forall>k e. fmlookup m k = Some e \<longrightarrow> of_kind (key_kind k) (re_value e))"

lemma typed_empty: "typed fmempty"
  by (simp add: typed_def)

lemma typed_put: "typed m \<Longrightarrow> of_kind (key_kind k) v \<Longrightarrow> typed (rd_put k v t m)"
  by (auto simp: typed_def rd_put_def)

lemma typed_drop: "typed m \<Longrightarrow> typed (fmdrop k m)" "typed m \<Longrightarrow> typed (fmdrop_fset ks m)"
  by (auto simp: typed_def split: if_splits)

lemma typed_live: "typed m \<Longrightarrow> rd_live now m k = Some e \<Longrightarrow> of_kind (key_kind k) (re_value e)"
  by (auto simp: typed_def rd_live_def split: option.splits if_splits)

section \<open>Commands\<close>

text \<open>On typed keys a command leaves typed keys and is not refused because of a value's type.\<close>

definition typed_cmd :: "'a rcmd \<Rightarrow> bool" where
  "typed_cmd c \<longleftrightarrow> (\<forall>now m. typed m \<longrightarrow> typed (snd (c now m)) \<and> fst (c now m) \<noteq> Inl WrongType)"

lemma err_not_type [simp]:
  "RedisNil \<noteq> WrongType" "NotInteger \<noteq> WrongType" "ConnError \<noteq> WrongType"
  by (simp_all add: RedisNil_def NotInteger_def WrongType_def)

lemma typed_commands:
  "key_kind k = K_text \<Longrightarrow> typed_cmd (cSet k v ttl)"
  "key_kind k = K_text \<Longrightarrow> typed_cmd (cGet k)"
  "key_kind k = K_hash \<Longrightarrow> typed_cmd (cHGetAll k)"
  "key_kind k = K_set \<Longrightarrow> typed_cmd (cSMembers k)"
  "typed_cmd (cDel k)" "typed_cmd (cExists k)" "typed_cmd (cKeys p)" "typed_cmd (cDelKeys ks)"
  by (auto simp: typed_cmd_def cSet_def cGet_def cHGetAll_def cSMembers_def cDel_def cExists_def cKeys_def cDelKeys_def
      rd_value_def intro!: typed_put typed_drop dest: typed_live split: option.splits rvalue.splits)

lemma typed_cExpire: "typed_cmd (cExpire k ttl)"
  by (auto simp: typed_cmd_def cExpire_def intro!: typed_put typed_drop typed_live split: option.splits)

lemma typed_cHSet: "key_kind k = K_hash \<Longrightarrow> typed_cmd (cHSet k kvs)"
  by (auto simp: typed_cmd_def cHSet_def intro!: typed_put dest: typed_live split: option.splits rvalue.splits)

lemma typed_cSAdd: "key_kind k = K_set \<Longrightarrow> typed_cmd (cSAdd k x)"
  by (auto simp: typed_cmd_def cSAdd_def intro!: typed_put dest: typed_live split: option.splits rvalue.splits)

lemma typed_cIncr: "key_kind k = K_counter \<Longrightarrow> typed_cmd (cIncr k)"
  by (auto simp: typed_cmd_def cIncr_def Atoi_Itoa in_int64_def intro!: typed_put dest: typed_live
      split: option.splits rvalue.splits)

lemma typed_quiet: "typed_cmd c \<Longrightarrow> typed_cmd (quiet c)"
  by (auto simp: typed_cmd_def quiet_def split: sum.splits)

lemma typed_pipeline: "list_all typed_cmd cs \<Longrightarrow> typed_cmd (pipeline cs)"
proof (induction cs)
  case Nil
  then show ?case by (simp add: typed_cmd_def)
next
  case (Cons c cs)
  then have c: "typed_cmd c" and cs: "typed_cmd (pipeline cs)" by simp_all
  show ?case unfolding typed_cmd_def
  proof (intro allI impI)
    fix now m assume m: "typed m"
    obtain r m1 where 1: "c now m = (r, m1)" by fastforce
    obtain r' m2 where 2: "pipeline cs now m1 = (r', m2)" by fastforce
    from c m 1 have "typed m1" "r \<noteq> Inl WrongType" unfolding typed_cmd_def by (metis fst_conv snd_conv)+
    moreover from this cs 2 have "typed m2" "r' \<noteq> Inl WrongType" unfolding typed_cmd_def by (metis fst_conv snd_conv)+
    ultimately show "typed (snd (pipeline (c # cs) now m)) \<and> fst (pipeline (c # cs) now m) \<noteq> Inl WrongType"
      by (auto simp: 1 2 split: sum.splits)
  qed
qed

lemma typed_list: "list_all typed_cmd []" "typed_cmd c \<Longrightarrow> list_all typed_cmd cs \<Longrightarrow> list_all typed_cmd (c # cs)"
  by simp_all

lemmas typed_intro = typed_list typed_commands typed_cExpire typed_cHSet typed_cSAdd typed_cIncr typed_quiet typed_pipeline

section \<open>Programs\<close>

text \<open>A program that leaves typed keys, and one whose answer moreover is not a refusal because of a type.\<close>

definition tidy :: "('z rworld_scheme, 'a) state \<Rightarrow> bool" where
  "tidy m \<longleftrightarrow> (\<forall>w. typed (w_redis w) \<longrightarrow> typed (w_redis (snd (run m w))))"

definition type_safe :: "('z, err + 'a) rprog \<Rightarrow> bool" where
  "type_safe m \<longleftrightarrow> (\<forall>w. typed (w_redis w) \<longrightarrow> typed (w_redis (snd (run m w))) \<and> fst (run m w) \<noteq> Inl WrongType)"

lemma tidyD: "tidy m \<Longrightarrow> typed (w_redis w) \<Longrightarrow> typed (w_redis (snd (run m w)))"
  by (simp add: tidy_def)

named_theorems tidy_intro "programs that leave typed keys"
named_theorems safe_intro "programs that meet no value of another type"

lemma tidy_safe: "type_safe m \<Longrightarrow> tidy m"
  by (simp add: tidy_def type_safe_def)

lemma tidy_ret [tidy_intro]: "tidy (ret a)"
  by (simp add: tidy_def)

lemma tidy_bind [tidy_intro]: "tidy m \<Longrightarrow> (\<And>a. tidy (f a)) \<Longrightarrow> tidy (State_Monad.bind m f)"
  by (simp add: tidy_def case_prod_unfold)

lemma tidy_cases [tidy_intro]:
  "(b \<Longrightarrow> tidy m) \<Longrightarrow> (\<not> b \<Longrightarrow> tidy n) \<Longrightarrow> tidy (if b then m else n)"
  "(\<And>e. x = Inl e \<Longrightarrow> tidy (f e)) \<Longrightarrow> (\<And>a. x = Inr a \<Longrightarrow> tidy (g a)) \<Longrightarrow> tidy (case x of Inl e \<Rightarrow> f e | Inr a \<Rightarrow> g a)"
  "tidy m \<Longrightarrow> (\<And>a. tidy (h a)) \<Longrightarrow> tidy (case y of None \<Rightarrow> m | Some a \<Rightarrow> h a)"
  "(\<And>a b. tidy (k a b)) \<Longrightarrow> tidy (case z of (a, b) \<Rightarrow> k a b)"
  "tidy m \<Longrightarrow> tidy n \<Longrightarrow> tidy (case b of True \<Rightarrow> m | False \<Rightarrow> n)"
  by (auto split: sum.split option.split prod.split bool.split)

lemma tidy_andE [tidy_intro]: "tidy m \<Longrightarrow> (\<And>a. tidy (f a)) \<Longrightarrow> tidy (andE m f)"
  unfolding andE_def by (intro tidy_intro)

lemma tidy_attempt [tidy_intro]: "tidy m \<Longrightarrow> (\<And>e. tidy (h e)) \<Longrightarrow> (\<And>a. tidy (k a)) \<Longrightarrow> tidy (attempt m h k)"
  unfolding attempt_def by (intro tidy_intro)

lemma tidy_let [tidy_intro]: "(\<And>y. y = x \<Longrightarrow> tidy (f y)) \<Longrightarrow> tidy (let y = x in f y)"
  by simp

text \<open>The database and the clock are elsewhere.\<close>

lemma tidy_database [tidy_intro]:
  "tidy (pg_call q)" "tidy (pg_query_row r)" "tidy tx_begin" "tidy (tx_exec t s)" "tidy (tx_commit t)" "tidy get_now" "tidy clock"
  "tidy new_uuid"
  by (auto simp: tidy_def pg_query_row_def run_pg_call run_tx_begin run_tx_exec run_tx_commit split: sum.splits fault.splits)

lemma tidy_SendOTP [tidy_intro]: "tidy (otp_digits n)" "tidy (SendOTP E tg phone ttl len)"
proof -
  show digits: "tidy (otp_digits n)" for n
  proof (induction n)
    case (Suc n)
    have "tidy draw_digit" by (simp add: tidy_def draw_digit_def split: option.splits)
    with Suc show ?case by (auto intro!: tidy_intro)
  qed (simp add: tidy_ret)
  show "tidy (SendOTP E tg phone ttl len)"
    unfolding SendOTP_def GenerateNumericOTP_def
    by (intro tidy_intro digits) (simp add: tidy_def SendVerificationMessage_def)
qed

section \<open>Repositories\<close>

lemma tidy_r_cargo [tidy_intro]:
  "tidy (cargo_CountByDispatcher dispatcherID)"
  "tidy (cargo_GetByID u includeDeleted)"
  "tidy (cargo_GetOfferByID u)"
  "tidy (cargo_GetOffers cid)"
  "tidy (cargo_GetPayment cid)"
  "tidy (cargo_GetRoutePoints cid)"
  "tidy (cargo_List E f)"
  "tidy (cargo_ListPendingModeration limit offset)"
  unfolding cargo_CountByDispatcher_def cargo_GetByID_def cargo_GetOfferByID_def cargo_GetOffers_def cargo_GetPayment_def
    cargo_GetRoutePoints_def cargo_List_def cargo_ListPendingModeration_def
  by ((assumption | rule tidy_intro typed_intro | simp; fail)+)

lemma tidy_cargo_methods [tidy_intro]:
  "tidy (cargo_CreateOffer cid carrier price currency comment)"
  "tidy (cargo_Delete u)"
  "tidy (cargo_ModerationAccept u visibility)"
  "tidy (cargo_ModerationReject u reason)"
  "tidy (cargo_RejectOffer offerID reason)"
  "tidy (cargo_SetCargoStatusCompleted u)"
  "tidy (cargo_SetCargoStatusInProgress u)"
  "tidy (cargo_SetStatus u newStatus)"
  unfolding cargo_CreateOffer_def cargo_Delete_def cargo_ModerationAccept_def cargo_ModerationReject_def cargo_RejectOffer_def
    cargo_SetCargoStatusCompleted_def cargo_SetCargoStatusInProgress_def cargo_SetStatus_def
  by ((assumption | rule tidy_intro typed_intro | simp; fail)+)

lemma tidy_r_trips [tidy_intro]:
  "tidy (recs_GetByCargoAndDriver cargoID driverID)"
  "tidy (recs_ListByDriver driverID limit)"
  "tidy (trips_GetByCargoID cargoID)"
  "tidy (trips_GetByID u)"
  "tidy (trips_GetByOfferID offerID)"
  "tidy (trips_ListByCargoIDs cargoIDs)"
  "tidy (trips_ListByDriver driverID limit)"
  unfolding recs_GetByCargoAndDriver_def recs_ListByDriver_def trips_GetByCargoID_def trips_GetByID_def trips_GetByOfferID_def
    trips_ListByCargoIDs_def trips_ListByDriver_def
  by ((assumption | rule tidy_intro typed_intro | simp; fail)+)

lemma tidy_trips_methods [tidy_intro]:
  "tidy (recs_Accept cargoID driverID)"
  "tidy (recs_Create cargoID driverID dispatcherID)"
  "tidy (recs_Decline cargoID driverID)"
  "tidy (trips_AssignDriver tripID driverID)"
  "tidy (trips_Create cargoID offerID)"
  "tidy (trips_DriverConfirm tripID driverID)"
  "tidy (trips_DriverReject tripID driverID)"
  "tidy (trips_SetStatus tripID newStatus)"
  unfolding recs_Accept_def recs_Create_def recs_Decline_def trips_AssignDriver_def trips_Create_def trips_DriverConfirm_def
    trips_DriverReject_def trips_SetStatus_def
  by ((assumption | rule tidy_intro typed_intro | simp; fail)+)

lemma tidy_r_drivers [tidy_intro]:
  "tidy (drivers_FindByID E u)"
  "tidy (drivers_FindByPhone E phone)"
  "tidy (drivers_FindByPhoneNormalized E phone)"
  "tidy (drivers_GetPhoto u)"
  "tidy (drivers_ListByFreelancerID E freelancerID limit)"
  "tidy (drivers_SearchByPhone E phoneSearch limit)"
  "tidy (select_driver E P)"
  unfolding drivers_FindByID_def drivers_FindByPhone_def drivers_FindByPhoneNormalized_def drivers_GetPhoto_def
    drivers_ListByFreelancerID_def drivers_SearchByPhone_def select_driver_def
  by ((assumption | rule tidy_intro typed_intro | simp; fail)+)

lemma tidy_drivers_methods [tidy_intro]:
  "tidy (drivers_ApplyFullDefaults u)"
  "tidy (drivers_CreateStart phone ownerName)"
  "tidy (drivers_DeleteAndArchive u)"
  "tidy (drivers_DeletePhoto u)"
  "tidy (drivers_SetCompanyID driverID companyID)"
  "tidy (drivers_SetFreelancerID driverID freelancerID)"
  "tidy (drivers_TouchOnline u)"
  "tidy (drivers_UnlinkFromFreelancer driverID freelancerID)"
  "tidy (drivers_UpdateDriverEditable u e)"
  "tidy (drivers_UpdateGeo u lat lon nextStep pushToken)"
  "tidy (drivers_UpdateHeartbeat u lat lon lastOnlineAt)"
  "tidy (drivers_UpdateKYC u k)"
  "tidy (drivers_UpdateOnlineAt u t)"
  "tidy (drivers_UpdatePhone u newPhone)"
  "tidy (drivers_UpdatePhoto u bytes contentType)"
  "tidy (drivers_UpdatePowerProfile u n)"
  "tidy (drivers_UpdatePushToken u pushToken')"
  "tidy (drivers_UpdateStep u stp)"
  "tidy (drivers_UpdateTrailerProfile u n')"
  "tidy (drivers_UpdateTransportType u driverType freelancerID' companyID' powerPlateType trailerPlateType nextStep nextStatus)"
  "tidy (exec_driver u f)"
  unfolding drivers_ApplyFullDefaults_def drivers_CreateStart_def drivers_DeleteAndArchive_def drivers_DeletePhoto_def
    drivers_SetCompanyID_def drivers_SetFreelancerID_def drivers_TouchOnline_def drivers_UnlinkFromFreelancer_def
    drivers_UpdateDriverEditable_def drivers_UpdateGeo_def drivers_UpdateHeartbeat_def drivers_UpdateKYC_def
    drivers_UpdateOnlineAt_def drivers_UpdatePhone_def drivers_UpdatePhoto_def drivers_UpdatePowerProfile_def
    drivers_UpdatePushToken_def drivers_UpdateStep_def drivers_UpdateTrailerProfile_def drivers_UpdateTransportType_def
    exec_driver_def
  by ((assumption | rule tidy_intro typed_intro | simp; fail)+)

lemma tidy_r_dispatchers [tidy_intro]:
  "tidy (d2d_GetByToken token)"
  "tidy (d2d_ListByDispatcherPhone dispatcherPhone)"
  "tidy (d2d_ListByDriverID driverID)"
  "tidy (dcr_HasAccess dispatcherID companyID)"
  "tidy (dcr_ListDispatchersByCompany companyID)"
  "tidy (dispatchers_FindByID E u)"
  "tidy (dispatchers_FindByPhone E phone)"
  "tidy (dispatchers_GetPhoto u)"
  "tidy (dispinv_GetByToken token)"
  "tidy (draw_token E)"
  "tidy (drvinv_GetByToken token)"
  "tidy (drvinv_ListByInvitedBy dispatcherID)"
  "tidy (drvinv_ListByPhone phone)"
  "tidy (select_dispatcher E P)"
  "tidy (unless_expired expires r)"
  unfolding d2d_GetByToken_def d2d_ListByDispatcherPhone_def d2d_ListByDriverID_def dcr_HasAccess_def
    dcr_ListDispatchersByCompany_def dispatchers_FindByID_def dispatchers_FindByPhone_def dispatchers_GetPhoto_def
    dispinv_GetByToken_def draw_token_def drvinv_GetByToken_def drvinv_ListByInvitedBy_def drvinv_ListByPhone_def
    select_dispatcher_def unless_expired_def
  by ((assumption | rule tidy_intro typed_intro | simp; fail)+)

lemma tidy_dispatchers_methods [tidy_intro]:
  "tidy (d2d_Create E driverID dispatcherPhone expiresIn)"
  "tidy (d2d_Delete token)"
  "tidy (dcr_Add dispatcherID companyID role)"
  "tidy (dispatchers_Create p)"
  "tidy (dispatchers_DeleteAndArchive u)"
  "tidy (dispatchers_Touch u t)"
  "tidy (dispatchers_UpdateLastOnlineAt u t)"
  "tidy (dispatchers_UpdatePasswordHash u passwordHash)"
  "tidy (dispatchers_UpdatePhone u newPhone)"
  "tidy (dispatchers_UpdatePhoto u data contentType)"
  "tidy (dispatchers_UpdateProfile u p')"
  "tidy (dispinv_Create E companyID role phone invitedBy expiresIn)"
  "tidy (dispinv_Delete token)"
  "tidy (drvinv_Create E companyID phone invitedBy expiresIn)"
  "tidy (drvinv_CreateForFreelance E dispatcherID phone expiresIn)"
  "tidy (drvinv_Delete token)"
  "tidy (exec_dispatcher u f)"
  unfolding d2d_Create_def d2d_Delete_def dcr_Add_def dispatchers_Create_def dispatchers_DeleteAndArchive_def
    dispatchers_Touch_def dispatchers_UpdateLastOnlineAt_def dispatchers_UpdatePasswordHash_def dispatchers_UpdatePhone_def
    dispatchers_UpdatePhoto_def dispatchers_UpdateProfile_def dispinv_Create_def dispinv_Delete_def drvinv_Create_def
    drvinv_CreateForFreelance_def drvinv_Delete_def exec_dispatcher_def
  by ((assumption | rule tidy_intro typed_intro | simp; fail)+)

lemma tidy_r_companies [tidy_intro]:
  "tidy (admins_FindByLogin login)"
  "tidy (approles_FindByID E u)"
  "tidy (approles_FindByName E name)"
  "tidy (approles_ListAll E)"
  "tidy (appusers_FindByID E u)"
  "tidy (appusers_FindByPhone E phone)"
  "tidy (appusers_SearchOwners E q limit)"
  "tidy (coinv_GetByToken token)"
  "tidy (companies_GetByIDTZ E u)"
  "tidy (companies_ListForDispatcher dispatcherID)"
  "tidy (companies_ListForUser userID)"
  "tidy (select_role E P)"
  "tidy (select_user E P')"
  "tidy (ucr_GetRole userID companyID)"
  "tidy (ucr_ListUsersByCompany E companyID limit offset)"
  unfolding admins_FindByLogin_def approles_FindByID_def approles_FindByName_def approles_ListAll_def appusers_FindByID_def
    appusers_FindByPhone_def appusers_SearchOwners_def coinv_GetByToken_def companies_GetByIDTZ_def
    companies_ListForDispatcher_def companies_ListForUser_def select_role_def select_user_def ucr_GetRole_def
    ucr_ListUsersByCompany_def
  by ((assumption | rule tidy_intro typed_intro | simp; fail)+)

lemma tidy_companies_methods [tidy_intro]:
  "tidy (appusers_Create E phone passwordHash firstName lastName companyID role)"
  "tidy (appusers_UpdateCompanyID userID companyID)"
  "tidy (audit_Log userID' companyID action entityType entityID oldData newData)"
  "tidy (coinv_Create E companyID' roleID invitedBy email expiresIn)"
  "tidy (coinv_Delete u)"
  "tidy (companies_Create p)"
  "tidy (companies_CreateByOwner p')"
  "tidy (companies_CreateWithOwnerDispatcher name ownerDispatcherID)"
  "tidy (companies_SetOwner companyID' ownerID)"
  "tidy (ucr_Add userID companyID' roleID assignedBy)"
  "tidy (ucr_Remove userID companyID')"
  "tidy (ucr_UpdateRole userID companyID' newRoleID assignedBy)"
  unfolding appusers_Create_def appusers_UpdateCompanyID_def audit_Log_def coinv_Create_def coinv_Delete_def
    companies_Create_def companies_CreateByOwner_def companies_CreateWithOwnerDispatcher_def companies_SetOwner_def ucr_Add_def
    ucr_Remove_def ucr_UpdateRole_def
  by ((assumption | rule tidy_intro typed_intro | simp; fail)+)

lemma tidy_r_chat [tidy_intro]:
  "tidy (chat_GetConversation convID userID)"
  "tidy (chat_GetMessageByID messageID userID)"
  "tidy (chat_ListConversations userID limit)"
  "tidy (chat_ListMessages convID userID cursor limit)"
  unfolding chat_GetConversation_def chat_GetMessageByID_def chat_ListConversations_def chat_ListMessages_def
  by ((assumption | rule tidy_intro typed_intro | simp; fail)+)

lemma tidy_chat_methods [tidy_intro]:
  "tidy (chat_CreateMessage convID senderID body)"
  "tidy (chat_DeleteMessage messageID senderID)"
  "tidy (chat_GetOrCreateConversation E userID peerID)"
  "tidy (chat_UpdateMessage messageID senderID body)"
  unfolding chat_CreateMessage_def chat_DeleteMessage_def chat_GetOrCreateConversation_def chat_UpdateMessage_def
  by ((assumption | rule tidy_intro typed_intro | simp; fail)+)

lemma tidy_blocks [tidy_intro]:
  "tidy (insert_route_points cid rps t)" "tidy (insert_payment_opt cid pay t)" "tidy (update_columns E u p t)"
  "tidy (replace_route_points u status rps' t)" "tidy (replace_payment u status pay t)"
proof -
  show points: "tidy (insert_route_points cid rps t)" for cid rps t
    by (induction rps arbitrary: t) (auto intro!: tidy_intro simp: insert_route_points_Cons)
  show "tidy (insert_payment_opt cid pay t)" "tidy (update_columns E u p t)" "tidy (replace_route_points u status rps' t)"
    "tidy (replace_payment u status pay t)"
    unfolding insert_payment_opt_def update_columns_def replace_route_points_def replace_payment_def payment_exists_def
    by ((rule tidy_intro points)+)
qed

lemma tidy_cargo_transactions [tidy_intro]:
  "tidy (cargo_Create E cp)"
  "tidy (cargo_Update E u up)"
  "tidy (cargo_AcceptOffer offerID)"
  unfolding cargo_Create_def cargo_Update_def cargo_AcceptOffer_def
  by ((assumption | rule tidy_intro typed_intro | simp; fail)+)

lemma tidy_items [tidy_intro]:
  "tidy (d2d_received_items E is)" "tidy (company_items E seen rows)" "tidy (recommended_items E recs)"
proof -
  show "tidy (d2d_received_items E is)" by (induction "is") (auto intro!: tidy_intro)
  show "tidy (company_items E seen rows)" by (induction rows arbitrary: seen) (auto intro!: tidy_intro)
  show "tidy (recommended_items E recs)" by (induction recs) (auto intro!: tidy_intro)
qed

section \<open>The stores\<close>

text \<open>What the router constructs: the prefixes of the stores; and phones, which are not the continuation of a counter's key.\<close>

definition otp_typed :: "OTPStore \<Rightarrow> bool" where
  "otp_typed s \<longleftrightarrow> os_prefix s \<in> {[], ''company_''}"

definition action_typed :: "DispatcherOTPActionStore \<Rightarrow> bool" where
  "action_typed s \<longleftrightarrow> da_prefix s \<in> {''disp_reset'', ''disp_phone''}"

definition session_typed :: "DispatcherSessionStore \<Rightarrow> bool" where
  "session_typed s \<longleftrightarrow> ds_prefix s \<in> {''disp_regsession'', ''company_regsession''}"

definition plain :: "string \<Rightarrow> bool" where
  "plain phone \<longleftrightarrow> otp_kind phone = K_hash"

lemma starts_append [simp]: "starts (c # p) (d # k) \<longleftrightarrow> c = d \<and> starts p k" "starts [] k" "\<not> starts (c # p) []"
  by (auto simp: starts_def)

lemma key_kinds [simp]:
  "otp_typed s \<Longrightarrow> plain phone \<Longrightarrow> key_kind (otpKey s phone) = K_hash"
  "otp_typed s \<Longrightarrow> key_kind (cooldownKey s phone) = K_text"
  "otp_typed s \<Longrightarrow> key_kind (sendCountKey s phone) = K_counter"
  "otp_typed s \<Longrightarrow> key_kind (sendCountIPKey s ip) = K_counter"
  "otp_typed s \<Longrightarrow> key_kind (verifyAttemptsKey s phone) = K_counter"
  "key_kind (phoneChangeKey i) = K_hash"
  "action_typed a \<Longrightarrow> key_kind (dispActionKey a i) = K_hash"
  "session_typed d \<Longrightarrow> key_kind (dispSessionKey d i) = K_text"
  "key_kind (regSessionKey i) = K_text" "key_kind (refreshKey i j) = K_text" "key_kind (sessionKey i) = K_text"
  "key_kind (userSessionsKey i) = K_set"
  by (auto simp: otp_keys phoneChangeKey_def dispActionKey_def dispSessionKey_def regSessionKey_def refreshKey_def sessionKey_def
      userSessionsKey_def otp_typed_def action_typed_def session_typed_def plain_def key_kind_def otp_kind_def)

lemma plain_plus: "take 1 p = ''+'' \<Longrightarrow> plain p"
  by (cases p) (auto simp: plain_def otp_kind_def)

text \<open>\<open>phonenumbers.Format\<close> with \<open>E164\<close> puts a plus sign first.\<close>

definition E164_plus :: "ext \<Rightarrow> bool" where
  "E164_plus E \<longleftrightarrow> (\<forall>n. take 1 (phone_format E n) = ''+'')"

lemma plain_normal [tidy_intro]:
  "NormalizeE164 E raw = Inr p \<Longrightarrow> plain p"
  "E164_plus E \<Longrightarrow> NormalizeE164StrictPlus E raw = Inr p \<Longrightarrow> plain p"
  "plain (dispOTPNamespace @ phone)"
proof -
  show "E164_plus E \<Longrightarrow> NormalizeE164StrictPlus E raw = Inr p \<Longrightarrow> plain p"
    by (rule plain_plus) (auto simp: NormalizeE164StrictPlus_def E164_plus_def Let_def split: if_splits option.splits)
qed (auto simp: NormalizeE164_def Let_def dispOTPNamespace_def plain_def otp_kind_def split: if_splits option.splits)

lemma safe_call [safe_intro]: "typed_cmd c \<Longrightarrow> type_safe (rd_call c)"
  unfolding type_safe_def run_rd_call typed_cmd_def
  by (auto simp: Let_def split: fault.splits prod.splits) (metis fst_conv snd_conv)+

lemma safeD: "typed (w_redis w) \<Longrightarrow> type_safe m \<Longrightarrow> fst (run m w) \<noteq> Inl WrongType"
  by (simp add: type_safe_def)

lemma safe_ret [safe_intro]: "r \<noteq> Inl WrongType \<Longrightarrow> type_safe (ret r)"
  by (simp add: type_safe_def)

lemma safe_andE [safe_intro]: "type_safe m \<Longrightarrow> (\<And>a. type_safe (f a)) \<Longrightarrow> type_safe (andE m f)"
  unfolding type_safe_def run_andE by (auto split: prod.splits sum.splits)

lemma safe_bind:
  "type_safe m \<Longrightarrow> (\<And>r. r \<noteq> Inl WrongType \<Longrightarrow> type_safe (f r)) \<Longrightarrow> type_safe (State_Monad.bind m f)"
  unfolding type_safe_def by (simp add: case_prod_unfold)

lemma safe_tidy: "tidy m \<Longrightarrow> (\<And>r. type_safe (f r)) \<Longrightarrow> type_safe (State_Monad.bind m f)"
  unfolding type_safe_def tidy_def by (simp add: case_prod_unfold)

lemma safe_cases [safe_intro]:
  "(b \<Longrightarrow> type_safe m) \<Longrightarrow> (\<not> b \<Longrightarrow> type_safe n) \<Longrightarrow> type_safe (if b then m else n)"
  "(\<And>e. x = Inl e \<Longrightarrow> type_safe (f e)) \<Longrightarrow> (\<And>a. x = Inr a \<Longrightarrow> type_safe (g a)) \<Longrightarrow>
     type_safe (case x of Inl e \<Rightarrow> f e | Inr a \<Rightarrow> g a)"
  "type_safe m \<Longrightarrow> (\<And>a. type_safe (h a)) \<Longrightarrow> type_safe (case y of None \<Rightarrow> m | Some a \<Rightarrow> h a)"
  by (auto split: sum.split option.split)

lemma store_errors [simp]:
  "ErrOTPCooldown \<noteq> WrongType" "ErrOTPExpired \<noteq> WrongType" "ErrOTPInvalid \<noteq> WrongType" "ErrOTPMaxAttempts \<noteq> WrongType"
  "ErrOTPRateLimited \<noteq> WrongType" "ErrOTPVerifyRateLimited \<noteq> WrongType" "ErrPhoneChangeSessionNotFound \<noteq> WrongType"
  "ErrPhoneChangeOTPExpired \<noteq> WrongType" "ErrPhoneChangeOTPInvalid \<noteq> WrongType" "ErrPhoneChangeMaxAttempts \<noteq> WrongType"
  "ErrDispActionExpired \<noteq> WrongType" "ErrDispActionInvalidOTP \<noteq> WrongType" "ErrDispActionMaxAttempts \<noteq> WrongType"
  "ErrDispActionNotFound \<noteq> WrongType" "ErrSessionNotFound \<noteq> WrongType" "ErrDispatcherSessionNotFound \<noteq> WrongType"
  "ErrRefreshInvalid \<noteq> WrongType"
  by (simp_all add: ErrOTPCooldown_def ErrOTPExpired_def ErrOTPInvalid_def ErrOTPMaxAttempts_def ErrOTPRateLimited_def
      ErrOTPVerifyRateLimited_def ErrPhoneChangeSessionNotFound_def ErrPhoneChangeOTPExpired_def ErrPhoneChangeOTPInvalid_def
      ErrPhoneChangeMaxAttempts_def ErrDispActionExpired_def ErrDispActionInvalidOTP_def ErrDispActionMaxAttempts_def
      ErrDispActionNotFound_def ErrSessionNotFound_def ErrDispatcherSessionNotFound_def ErrRefreshInvalid_def WrongType_def)

lemma tidy_call [tidy_intro]: "typed_cmd c \<Longrightarrow> tidy (rd_call c)"
  by (intro tidy_safe safe_intro)

lemma tidy_delete_sessions [tidy_intro]: "tidy (delete_sessions sids)"
  by (induction sids) (auto intro!: tidy_intro typed_intro)

lemma safe_stores [safe_intro]:
  "otp_typed s \<Longrightarrow> plain phone \<Longrightarrow> type_safe (OTPStore_SaveOTP E s phone code rid ip)"
  "otp_typed s \<Longrightarrow> plain phone \<Longrightarrow> type_safe (OTPStore_Verify E s phone code)"
  "type_safe (PhoneChangeStore_Create E pc u p c)" "type_safe (PhoneChangeStore_Verify E pc i c)"
  "action_typed a \<Longrightarrow> type_safe (DispatcherOTPActionStore_Create E a u p np c)"
  "action_typed a \<Longrightarrow> type_safe (DispatcherOTPActionStore_Verify E a i c)"
  "type_safe (SessionStore_Create E ttl p)" "type_safe (SessionStore_Consume i)"
  "session_typed d \<Longrightarrow> type_safe (DispatcherSessionStore_Create E d p)"
  "session_typed d \<Longrightarrow> type_safe (DispatcherSessionStore_Consume d i)"
  "type_safe (RefreshStore_Put r i j)" "type_safe (RefreshStore_Consume i j)" "type_safe (RefreshStore_RevokeAll i)"
  "type_safe (RefreshStore_PutSession r i j)" "type_safe (RefreshStore_InvalidateSession i)"
  unfolding store_defs Let_def
  by ((rule safe_intro safe_bind | rule safe_tidy | rule tidy_intro | rule typed_intro
      | simp add: typed_intro split: sum.splits)+)

lemmas tidy_stores [tidy_intro] = safe_stores [THEN tidy_safe]

lemma tidy_SessionValid [tidy_intro]: "tidy (RefreshStore_SessionValid i)"
  unfolding RefreshStore_SessionValid_def by ((rule tidy_intro typed_intro)+)

lemma tidy_helpers [tidy_intro]:
  "tidy (HashPassword E pw)"
  "tidy (GenerateNumericOTP len)"
  "tidy (session_checked withStore sid)"
  "tidy (RequireAdmin E m withStore hUserToken)"
  "tidy (RequireDriver E m withStore hUserToken)"
  "tidy (RequireDispatcher E m withStore hUserToken)"
  "tidy (RequireAppUser E m withStore hUserToken)"
  "tidy (tryToken E m withStore raw)"
  "tidy (RequireChatUser E m withStore qUserID qToken hUserID hUserToken)"
  "tidy (getCompanyRole E userID companyID)"
  "tidy (issue_only E m role userID companyID)"
  "tidy (open_session E m rs role userID)"
  "tidy (login_or_register E h phone)"
  "otp_typed (store) \<Longrightarrow> plain (ns @ phone) \<Longrightarrow> tidy (send_code E tg store ns otpTTL otpLen ip phone)"
  "tidy (logged_in tokens)"
  unfolding HashPassword_def GenerateNumericOTP_def session_checked_def RequireAdmin_def RequireDriver_def RequireDispatcher_def
    RequireAppUser_def tryToken_def RequireChatUser_def getCompanyRole_def issue_only_def open_session_def login_or_register_def
    send_code_def logged_in_def Let_def
  by ((assumption | rule tidy_intro typed_intro | simp; fail)+)

lemma tidy_r_entry [tidy_intro]:
  "E164_plus E \<Longrightarrow> otp_typed (ah_otp h) \<Longrightarrow> tidy (AuthHandler_SendOTP E h ip body)"
  "otp_typed (ah_otp h) \<Longrightarrow> tidy (AuthHandler_VerifyOTP E h body')"
  "tidy (AuthHandler_Refresh E h body)"
  "tidy (AuthHandler_Logout E h body'')"
  "E164_plus E \<Longrightarrow> otp_typed (uh_otp h') \<Longrightarrow> tidy (CompanyUserAuth_SendOTP E h' ip body)"
  "E164_plus E \<Longrightarrow> otp_typed (uh_otp h') \<Longrightarrow> session_typed (uh_regSessions h') \<Longrightarrow> tidy (CompanyUserAuth_VerifyOTP E h' body')"
  "tidy (AdminAuth_LoginPassword E m rs body''')"
  "E164_plus E \<Longrightarrow> otp_typed (dh_otp h'') \<Longrightarrow> tidy (DispatcherAuth_SendOTP E h'' ip body)"
  "E164_plus E \<Longrightarrow> otp_typed (dh_otp h'') \<Longrightarrow> session_typed (dh_regSessions h'') \<Longrightarrow> tidy (DispatcherAuth_VerifyOTP E h'' body')"
  "tidy (DispatcherAuth_LoginPassword E h'' body'''')"
  "action_typed (dh_resetActions h'') \<Longrightarrow> tidy (DispatcherAuth_ResetPasswordRequest E h'' body)"
  "tidy (DispatcherAuth_Logout E h'' body'')"
  unfolding AuthHandler_SendOTP_def AuthHandler_VerifyOTP_def AuthHandler_Refresh_def AuthHandler_Logout_def
    CompanyUserAuth_SendOTP_def CompanyUserAuth_VerifyOTP_def AdminAuth_LoginPassword_def DispatcherAuth_SendOTP_def
    DispatcherAuth_VerifyOTP_def DispatcherAuth_LoginPassword_def DispatcherAuth_ResetPasswordRequest_def
    DispatcherAuth_Logout_def Let_def sign_in_dispatcher_def code_session_def
  by ((assumption | rule tidy_intro typed_intro | simp; fail)+)

lemma tidy_entry [tidy_intro]:
  "tidy (RegistrationHandler_Start E h body)"
  "session_typed (ur_sessions h') \<Longrightarrow> tidy (CompanyUserRegistration_Complete E h' body')"
  "action_typed (dh_resetActions h'') \<Longrightarrow> tidy (DispatcherAuth_ResetPasswordConfirm E h'' body'')"
  "session_typed (dg_sessions h''') \<Longrightarrow> tidy (DispatcherRegistration_Complete E h''' body''')"
  unfolding RegistrationHandler_Start_def CompanyUserRegistration_Complete_def DispatcherAuth_ResetPasswordConfirm_def
    DispatcherRegistration_Complete_def Let_def sign_in_dispatcher_def store_password_def
  by ((assumption | rule tidy_intro typed_intro | simp; fail)+)

lemma tidy_r_api [tidy_intro]:
  "tidy (CargoHandler_List E h header q)"
  "tidy (CargoHandler_GetByID E idParam)"
  "tidy (CargoHandler_ListOffers E idParam)"
  "tidy (TripsHandler_List E q)"
  "tidy (TripsHandler_Get E idParam)"
  unfolding CargoHandler_List_def CargoHandler_GetByID_def CargoHandler_ListOffers_def TripsHandler_List_def
    TripsHandler_Get_def Let_def driver_company_def
  by ((assumption | rule tidy_intro typed_intro | simp; fail)+)

lemma tidy_creator [tidy_intro]: "tidy (creator_from_token E h header p)" "tidy (created_answer E u)"
  unfolding creator_from_token_def created_answer_def Let_def by ((rule tidy_intro)+)

lemma tidy_api [tidy_intro]:
  "tidy (CargoHandler_Create E h header body)"
  "tidy (CargoHandler_Update E idParam body')"
  "tidy (CargoHandler_Delete E idParam)"
  "tidy (CargoHandler_PatchStatus E idParam body'')"
  "tidy (CargoHandler_CreateOffer E h idParam body''')"
  "tidy (CargoHandler_AcceptOffer E h idParam)"
  unfolding CargoHandler_Create_def CargoHandler_Update_def CargoHandler_Delete_def CargoHandler_PatchStatus_def
    CargoHandler_CreateOffer_def CargoHandler_AcceptOffer_def Let_def open_trip_def finish_offer_def
  by ((assumption | rule tidy_intro typed_intro | simp; fail)+)

lemma tidy_r_admin [tidy_intro]:
  "tidy (AdminCompanies_SearchOwners E qQ)"
  "tidy (Moderation_ListPending E q)"
  unfolding AdminCompanies_SearchOwners_def Moderation_ListPending_def Let_def
  by ((assumption | rule tidy_intro typed_intro | simp; fail)+)

lemma tidy_admin [tidy_intro]:
  "tidy (AdminCompanies_Create E adminID body)"
  "tidy (AdminCompanies_SetOwner E pId body')"
  "tidy (Moderation_Accept E idParam body')"
  "tidy (Moderation_Reject E idParam body')"
  unfolding AdminCompanies_Create_def AdminCompanies_SetOwner_def Moderation_Accept_def Moderation_Reject_def Let_def
    as_user_def
  by ((assumption | rule tidy_intro typed_intro | simp; fail)+)

lemma tidy_r_driver [tidy_intro]:
  "tidy (Profile_GetPhoto driverID)"
  "tidy (Profile_PhoneChangeRequest E h driverID body)"
  "tidy (TripsHandler_ListMy E driverID q)"
  "tidy (DriverInvitations_ListInvitations E driverID)"
  "tidy (DriverDispatchers_ListMyDispatchers E driverID)"
  "tidy (D2D_ListSentByDriver driverID)"
  "tidy (Recommendations_ListRecommendedForDriver E driverID q)"
  unfolding Profile_GetPhoto_def Profile_PhoneChangeRequest_def TripsHandler_ListMy_def DriverInvitations_ListInvitations_def
    DriverDispatchers_ListMyDispatchers_def D2D_ListSentByDriver_def Recommendations_ListRecommendedForDriver_def Let_def
    code_session_def freelance_items_def
  by ((assumption | rule tidy_intro typed_intro | simp; fail)+)

lemma tidy_profile [tidy_intro]:
  "tidy (Profile_Get E driverID)"
  "tidy (Profile_PatchDriver E driverID body)"
  "tidy (Profile_Heartbeat E driverID body')"
  "tidy (Profile_UploadPhoto driverID form)"
  "tidy (Profile_DeletePhoto driverID)"
  "tidy (Profile_PhoneChangeVerify E h body'')"
  "tidy (Profile_PatchPower E driverID body''')"
  "tidy (Profile_PatchTrailer E driverID body'''')"
  "tidy (Profile_Delete driverID)"
  "tidy (RegistrationHandler_GeoPush E driverID body''''')"
  "tidy (RegistrationHandler_TransportType E driverID body'''''')"
  "tidy (KYC_Submit E driverID body''''''')"
  unfolding Profile_Get_def Profile_PatchDriver_def Profile_Heartbeat_def Profile_UploadPhoto_def Profile_DeletePhoto_def
    Profile_PhoneChangeVerify_def Profile_PatchPower_def Profile_PatchTrailer_def Profile_Delete_def
    RegistrationHandler_GeoPush_def RegistrationHandler_TransportType_def KYC_Submit_def Let_def event_driver_def
    upload_photo_def
  by ((assumption | rule tidy_intro typed_intro | simp; fail)+)

lemma tidy_driver [tidy_intro]:
  "tidy (TripsHandler_DriverConfirm E driverID idParam)"
  "tidy (TripsHandler_DriverReject E driverID idParam)"
  "tidy (TripsHandler_PatchStatus E hasCargoRepo driverID idParam body)"
  "tidy (DriverInvitations_Accept E driverID body)"
  "tidy (DriverInvitations_Decline E driverID body)"
  "tidy (DriverDispatchers_UnlinkDispatcher E driverID pDispatcherId)"
  "tidy (D2D_CreateFromDriver E driverID body)"
  "tidy (D2D_CancelByDriver driverID pToken)"
  "tidy (Recommendations_AcceptRecommendation E hasTripsRepo driverID idParam)"
  "tidy (Recommendations_DeclineRecommendation E driverID idParam)"
  unfolding TripsHandler_DriverConfirm_def TripsHandler_DriverReject_def TripsHandler_PatchStatus_def
    DriverInvitations_Accept_def DriverInvitations_Decline_def DriverDispatchers_UnlinkDispatcher_def D2D_CreateFromDriver_def
    D2D_CancelByDriver_def Recommendations_AcceptRecommendation_def Recommendations_DeclineRecommendation_def Let_def
    my_invitation_def sync_cargo_def open_trip_def already_linked_def
  by ((assumption | rule tidy_intro typed_intro | simp; fail)+)

lemma tidy_r_dispatcher [tidy_intro]:
  "tidy (DispatcherProfile_Get E u)"
  "tidy (DispatcherProfile_GetPhoto u)"
  "action_typed (dr_phoneChange h) \<Longrightarrow> tidy (DispatcherProfile_PhoneChangeRequest E h u body)"
  "tidy (DispatcherCompanies_ListMyCompanies E dispatcherID)"
  "tidy (DispatcherCompanies_SwitchCompany E m uuid_tag dispatcherID body)"
  "tidy (DriverInvitations_ListSent E dispatcherID)"
  "tidy (DriverInvitations_FindDrivers E qPhone qLimit)"
  "tidy (DriverInvitations_ListMyDrivers E dispatcherID qLimit)"
  "tidy (D2D_ListReceivedByDispatcher E dispatcherID)"
  unfolding DispatcherProfile_Get_def DispatcherProfile_GetPhoto_def DispatcherProfile_PhoneChangeRequest_def
    DispatcherCompanies_ListMyCompanies_def DispatcherCompanies_SwitchCompany_def DriverInvitations_ListSent_def
    DriverInvitations_FindDrivers_def DriverInvitations_ListMyDrivers_def D2D_ListReceivedByDispatcher_def Let_def
    code_session_def with_dispatcher_def ok_dispatcher_def
  by ((assumption | rule tidy_intro typed_intro | simp; fail)+)

lemma tidy_dispatcher_profile [tidy_intro]:
  "tidy (DispatcherProfile_Patch E u body)"
  "tidy (DispatcherProfile_UploadPhoto u form)"
  "tidy (DispatcherProfile_ChangePassword E u body')"
  "action_typed (dr_phoneChange h) \<Longrightarrow> tidy (DispatcherProfile_PhoneChangeVerify E h body'')"
  "tidy (DispatcherProfile_Delete u)"
  unfolding DispatcherProfile_Patch_def DispatcherProfile_UploadPhoto_def DispatcherProfile_ChangePassword_def
    DispatcherProfile_PhoneChangeVerify_def DispatcherProfile_Delete_def Let_def upload_photo_def ok_dispatcher_def
    store_password_def
  by ((assumption | rule tidy_intro typed_intro | simp; fail)+)

lemma tidy_dispatcher [tidy_intro]:
  "tidy (DispatcherInvitations_CreateInvitation E dispatcherID pCompanyId body)"
  "tidy (DispatcherInvitations_Accept E dispatcherID body')"
  "tidy (DispatcherInvitations_Decline body')"
  "tidy (DriverInvitations_CreateForFreelance E dispatcherID body'')"
  "tidy (DriverInvitations_CancelInvitation dispatcherID pToken)"
  "tidy (DriverInvitations_Create E dispatcherID pCompanyId body')"
  "tidy (DriverInvitations_UnlinkDriver E dispatcherID pDriverId)"
  "tidy (D2D_AcceptByDispatcher E dispatcherID body')"
  "tidy (D2D_DeclineByDispatcher E dispatcherID body')"
  "tidy (DriverInvitations_SetDriverPower E dispatcherID pDriverId body''')"
  "tidy (DriverInvitations_SetDriverTrailer E dispatcherID pDriverId body'''')"
  "tidy (TripsHandler_AssignDriver E uuid_tag idParam body')"
  "tidy (CargoHandler_RejectOfferDispatcher E dispatcherID idParam body')"
  "tidy (Recommendations_Recommend E dispatcherID idParam body''''')"
  unfolding DispatcherInvitations_CreateInvitation_def DispatcherInvitations_Accept_def DispatcherInvitations_Decline_def
    DriverInvitations_CreateForFreelance_def DriverInvitations_CancelInvitation_def DriverInvitations_Create_def
    DriverInvitations_UnlinkDriver_def D2D_AcceptByDispatcher_def D2D_DeclineByDispatcher_def
    DriverInvitations_SetDriverPower_def DriverInvitations_SetDriverTrailer_def TripsHandler_AssignDriver_def
    CargoHandler_RejectOfferDispatcher_def Recommendations_Recommend_def Let_def own_driver_def updated_driver_def
    invited_phone_def with_dispatcher_def invitation_for_me_def
  by ((assumption | rule tidy_intro typed_intro | simp; fail)+)

lemma tidy_r_member [tidy_intro]:
  "tidy (CompanyTZ_ListMyCompanies E userID current)"
  "tidy (CompanyTZ_SwitchCompany E m userID body)"
  "tidy (CompanyTZ_ListCompanyUsers E userID pCompanyId qPage qLimit)"
  unfolding CompanyTZ_ListMyCompanies_def CompanyTZ_SwitchCompany_def CompanyTZ_ListCompanyUsers_def Let_def as_user_def
    as_member_def
  by ((assumption | rule tidy_intro typed_intro | simp; fail)+)

lemma tidy_member [tidy_intro]:
  "tidy (CompanyTZ_CreateCompany E userID body)"
  "tidy (CompanyTZ_CreateInvitation E userID host pCompanyId body')"
  "tidy (CompanyTZ_AcceptInvitation E userID body'')"
  "tidy (CompanyTZ_UpdateUserRole E userID pCompanyId pUserId body'')"
  "tidy (CompanyTZ_RemoveUser E userID pCompanyId pUserId)"
  unfolding CompanyTZ_CreateCompany_def CompanyTZ_CreateInvitation_def CompanyTZ_AcceptInvitation_def
    CompanyTZ_UpdateUserRole_def CompanyTZ_RemoveUser_def Let_def as_user_def as_member_def
  by ((assumption | rule tidy_intro typed_intro | simp; fail)+)

section \<open>Chat\<close>

lemma tidy_hub [tidy_intro]: "tidy (on_hub f)" "tidy (hub_get g)"
  by (auto simp: tidy_def on_hub_def hub_get_def Let_def split: option.splits prod.splits)

lemma chat_kinds [tidy_intro]:
  "key_kind (presencePrefix @ i) = K_text" "key_kind (lastSeenPrefix @ i) = K_text" "key_kind (typing_key E u v) = K_text"
  by (simp_all add: key_kind_def typing_key_def)

lemma tidy_r_presence [tidy_intro]:
  "tidy (PresenceStore_SetOnline E userID)"
  "tidy (PresenceStore_SetOffline E userID)"
  "tidy (PresenceStore_Heartbeat E userID)"
  "tidy (PresenceStore_IsOnline E userID)"
  "tidy (PresenceStore_LastSeen E userID)"
  "tidy (PresenceStore_SetTyping E convID userID)"
  "tidy (PresenceStore_ClearTyping E convID userID)"
  "tidy (PresenceStore_IsTyping E convID userID)"
  "tidy (PresenceStore_GetPresence E userID convID')"
  "tidy (OnTypingPeer E convID fromUserID)"
  "tidy (Hub_BroadcastTyping E convID fromUserID)"
  "tidy (Hub_Unregister E c)"
  unfolding PresenceStore_SetOnline_def PresenceStore_SetOffline_def PresenceStore_Heartbeat_def PresenceStore_IsOnline_def
    PresenceStore_LastSeen_def PresenceStore_SetTyping_def PresenceStore_ClearTyping_def PresenceStore_IsTyping_def
    PresenceStore_GetPresence_def OnTypingPeer_def Hub_BroadcastTyping_def Hub_Unregister_def Let_def
  by ((assumption | rule tidy_intro typed_intro | simp; fail)+)

lemma tidy_ReadPump [tidy_intro]: "tidy (ReadPump E u fs)"
proof (induction fs)
  case (Cons f fs)
  have "tidy (case f of
        Envelope typ (Some conv) \<Rightarrow>
          if typ = ''typing'' \<and> conv \<noteq> [] then Hub_BroadcastTyping E (parsed_uuid E conv) u else ret True
      | _ \<Rightarrow> ret True)"
    by (cases f) (auto intro!: tidy_intro)
  with Cons.IH show ?case unfolding ReadPump.simps by (intro tidy_intro)
qed (simp add: tidy_ret)

lemma tidy_chat_handlers [tidy_intro]:
  "tidy (Chat_ListConversations E userID q)"
  "tidy (Chat_GetOrCreateConversation E userID body)"
  "tidy (Chat_ListMessages E userID convID q)"
  "tidy (Chat_SendMessage E userID convID body)"
  "tidy (Chat_EditMessage E userID msgID body)"
  "tidy (Chat_DeleteMessage E userID msgID)"
  "tidy (Chat_GetPresence E userID' q)"
  "tidy (ServeWS E userID upgraded frames)"
  unfolding Chat_ListConversations_def Chat_GetOrCreateConversation_def Chat_ListMessages_def Chat_SendMessage_def
    Chat_EditMessage_def Chat_DeleteMessage_def Chat_GetPresence_def ServeWS_def Let_def as_user_def with_id_def
    message_body_def
  by ((assumption | rule tidy_intro typed_intro | simp; fail)+)

section \<open>Routes\<close>

text \<open>The stores of a router that \<open>NewRouter\<close> constructs.\<close>

lemma router_typed [simp]:
  fixes sign verify tag cfg
  defines "R \<equiv> NewRouter sign verify tag cfg"
  shows "otp_typed (ah_otp (ro_authH R))" "otp_typed (dh_otp (ro_dispAuthH R))" "otp_typed (uh_otp (ro_companyUserAuthH R))"
    "session_typed (dh_regSessions (ro_dispAuthH R))" "session_typed (uh_regSessions (ro_companyUserAuthH R))"
    "session_typed (dg_sessions (ro_dispRegH R))" "session_typed (ur_sessions (ro_companyUserRegH R))"
    "action_typed (dh_resetActions (ro_dispAuthH R))" "action_typed (dr_phoneChange (ro_dispProfileH R))"
  by (simp_all add: R_def NewRouter_def NewOTPStore_def NewOTPStoreWithPrefix_def Let_def otp_typed_def session_typed_def
      action_typed_def)

lemma tidy_routes:
  assumes "E164_plus E" and R: "R = NewRouter sign verify tag cfg"
  shows "tidy (serve_entry E R c e)" "tidy (serve_api E R c a)" "tidy (serve_admin E u m)" "tidy (serve_driver E R u d)"
    "tidy (serve_dispatcher E R u p)" "tidy (serve_member E R c u co b)" "tidy (serve_chat_route E u t)"
proof -
  show "tidy (serve_entry E R c e)" unfolding R by (cases e) (simp_all, (rule tidy_intro; simp add: assms(1))+)
  show "tidy (serve_api E R c a)" by (cases a) (simp_all, (rule tidy_intro)+)
  show "tidy (serve_admin E u m)" by (cases m) (simp_all, (rule tidy_intro)+)
  show "tidy (serve_driver E R u d)" by (cases d) (simp_all, (rule tidy_intro)+)
  show "tidy (serve_dispatcher E R u p)" unfolding R by (cases p) (simp_all, (rule tidy_intro; simp)+)
  show "tidy (serve_member E R c u co b)" by (cases b) (simp_all, (rule tidy_intro)+)
  show "tidy (serve_chat_route E u t)"
  proof (cases t)
    case (Chat_request q)
    have "tidy (serve_chat E u q)" by (cases q) (simp_all, (rule tidy_intro)+)
    with Chat_request show ?thesis by (auto intro!: tidy_intro)
  qed (auto intro!: tidy_intro)
qed

lemma tidy_group:
  assumes "E164_plus E" and R: "R = NewRouter sign verify tag cfg"
  shows "tidy (serve_group E R c q)"
  by (cases q) (auto intro!: tidy_routes [OF assms] tidy_intro simp: behind_def answered_def UpdateDriverLastOnline_def
      UpdateDispatcherLastOnline_def)

lemma tidy_handle: "E164_plus E \<Longrightarrow> tidy (handle E (NewRouter sign verify tag cfg) c q)"
  unfolding handle_def by (auto intro!: tidy_intro tidy_group split: option.split)

text \<open>Requests one after another, each at its moment.\<close>

definition served :: "ext \<Rightarrow> router \<Rightarrow> (time \<times> call \<times> route) list \<Rightarrow> 'z hworld_scheme \<Rightarrow> 'z hworld_scheme" where
  "served E R rs w = fold (\<lambda>(t, c, q) w. snd (run (handle E R c q) (w\<lparr>w_now := t\<rparr>))) rs w"

lemma served_typed:
  assumes "E164_plus E" and "typed (w_redis w)"
  shows "typed (w_redis (served E (NewRouter sign verify tag cfg) rs w))"
  using assms(2)
proof (induction rs arbitrary: w)
  case (Cons r rs)
  obtain t c q where r: "r = (t, c, q)" by (metis prod.exhaust)
  have "typed (w_redis (snd (run (handle E (NewRouter sign verify tag cfg) c q) (w\<lparr>w_now := t\<rparr>))))"
    by (rule tidyD [OF tidy_handle [OF assms(1)]]) (simp add: Cons.prems)
  from Cons.IH [OF this] show ?case by (simp add: served_def r)
qed (simp add: served_def)


definition sample_requests :: "(time \<times> call \<times> route) list" where
  "sample_requests =
     [(100, sample_call, Entry (Driver_phone (Some ''+998901234567''))),
      (101, sample_call, Entry (Driver_verify (Some \<lparr>vo_Phone = ''+998901234567'', vo_OTP = ''1234''\<rparr>)))]"


end
