(* ===== verification/Labels.thy ===== *)
theory Labels
  imports Messages Reference_Data
begin

text \<open>
  The labels of the reference lists (\<open>internal/reference/i18n.go\<close>): for a section and a value a text in each of the five languages,
  and the descriptions of the cargo statuses, which \<open>init\<close> adds to the table.
\<close>

section \<open>The table\<close>

definition cargoLabels :: "(string \<times> (string \<times> string) list) list" where
  "cargoLabels = [
     (''cargo.cargo_status.CREATED'', [(''ru'', utf8 [1057, 1086, 1079, 1076, 1072, 1085]), (''uz'', ''Yaratilgan''), (''en'',
        ''Created''), (''tr'', ''Olu'' @ utf8 [351] @ ''turuldu''), (''zh'', utf8 [24050, 21019, 24314])]),
     (''cargo.cargo_status.PENDING_MODERATION'', [(''ru'', utf8 [1053, 1072, 32, 1084, 1086, 1076, 1077, 1088, 1072, 1094, 1080,
        1080]), (''uz'', ''Moderatsiyada''), (''en'', ''Pending moderation''), (''tr'', ''Moderasyonda''), (''zh'', utf8 [24453,
        23457, 26680])]),
     (''cargo.cargo_status.SEARCHING'', [(''ru'', utf8 [1042, 32, 1087, 1086, 1080, 1089, 1082, 1077, 32, 1087, 1077, 1088,
        1077, 1074, 1086, 1079, 1095, 1080, 1082, 1072]), (''uz'', ''Tashuvchi qidirilmoqda''), (''en'', ''Searching for carrier''),
        (''tr'', ''Ta'' @ utf8 [351, 305] @ ''y'' @ utf8 [305] @ ''c'' @ utf8 [305] @ '' aran'' @ utf8 [305] @ ''yor''),
        (''zh'', utf8 [23547, 25214, 25215, 36816, 20154])]),
     (''cargo.cargo_status.SEARCHING_ALL'', [(''ru'', utf8 [1042, 32, 1087, 1086, 1080, 1089, 1082, 1077, 32, 40, 1074, 1089,
        1077, 1084, 41]), (''uz'', ''Qidirilmoqda (hamma)''), (''en'', ''Searching (all drivers)''), (''tr'', ''Aran'' @
        utf8 [305] @ ''yor (t'' @ utf8 [252] @ ''m s'' @ utf8 [252] @ ''r'' @ utf8 [252] @ ''c'' @ utf8 [252] @ ''ler)''),
        (''zh'', utf8 [23547, 25214, 20013, 65288, 25152, 26377, 21496, 26426, 65289])]),
     (''cargo.cargo_status.SEARCHING_COMPANY'', [(''ru'', utf8 [1042, 32, 1087, 1086, 1080, 1089, 1082, 1077, 32, 40, 1090,
        1086, 1083, 1100, 1082, 1086, 32, 1082, 1086, 1084, 1087, 1072, 1085, 1080, 1103, 41]), (''uz'', ''Qidirilmoqda (faqat kompaniya)''),
        (''en'', ''Searching (company only)''), (''tr'', ''Aran'' @ utf8 [305] @ ''yor (sadece '' @ utf8 [351] @ ''irket)''),
        (''zh'', utf8 [23547, 25214, 20013, 65288, 20165, 20844, 21496, 65289])]),
     (''cargo.cargo_status.REJECTED'', [(''ru'', utf8 [1054, 1090, 1082, 1083, 1086, 1085, 1105, 1085]), (''uz'', ''Rad etilgan''),
        (''en'', ''Rejected''), (''tr'', ''Reddedildi''), (''zh'', utf8 [24050, 25298, 32477])]),
     (''cargo.cargo_status.ASSIGNED'', [(''ru'', utf8 [1053, 1072, 1079, 1085, 1072, 1095, 1077, 1085]), (''uz'',
        ''Tayinlangan''), (''en'', ''Assigned''), (''tr'', ''Atand'' @ utf8 [305]), (''zh'', utf8 [24050, 20998, 37197])]),
     (''cargo.cargo_status.IN_PROGRESS'', [(''ru'', utf8 [1042, 1099, 1087, 1086, 1083, 1085, 1103, 1077, 1090, 1089, 1103]),
        (''uz'', ''Bajarilmoqda''), (''en'', ''In progress''), (''tr'', ''Y'' @ utf8 [252] @ ''r'' @ utf8 [252] @ ''t'' @
        utf8 [252] @ ''l'' @ utf8 [252] @ ''yor''), (''zh'', utf8 [36827, 34892, 20013])]),
     (''cargo.cargo_status.IN_TRANSIT'', [(''ru'', utf8 [1042, 32, 1087, 1091, 1090, 1080]), (''uz'', ''Yo'lda''), (''en'', ''In transit''),
        (''tr'', ''Yolda''), (''zh'', utf8 [36816, 36755, 20013])]),
     (''cargo.cargo_status.DELIVERED'', [(''ru'', utf8 [1044, 1086, 1089, 1090, 1072, 1074, 1083, 1077, 1085]), (''uz'',
        ''Yetkazib berilgan''), (''en'', ''Delivered''), (''tr'', ''Teslim edildi''), (''zh'', utf8 [24050, 36865, 36798])]),
     (''cargo.cargo_status.COMPLETED'', [(''ru'', utf8 [1047, 1072, 1074, 1077, 1088, 1096, 1105, 1085]), (''uz'',
        ''Tugallangan''), (''en'', ''Completed''), (''tr'', ''Tamamland'' @ utf8 [305]), (''zh'', utf8 [24050, 23436, 25104])]),
     (''cargo.cargo_status.CANCELLED'', [(''ru'', utf8 [1054, 1090, 1084, 1077, 1085, 1105, 1085]), (''uz'', ''Bekor qilindi''),
        (''en'', ''Cancelled''), (''tr'', utf8 [304] @ ''ptal edildi''), (''zh'', utf8 [24050, 21462, 28040])]),
     (''cargo.route_point_type.LOAD'', [(''ru'', utf8 [1055, 1086, 1075, 1088, 1091, 1079, 1082, 1072]), (''uz'', ''Yuklash''),
        (''en'', ''Load''), (''tr'', ''Y'' @ utf8 [252] @ ''kleme''), (''zh'', utf8 [35013, 36135])]),
     (''cargo.route_point_type.UNLOAD'', [(''ru'', utf8 [1042, 1099, 1075, 1088, 1091, 1079, 1082, 1072]), (''uz'',
        ''Tushirish''), (''en'', ''Unload''), (''tr'', ''Bo'' @ utf8 [351] @ ''altma''), (''zh'', utf8 [21368, 36135])]),
     (''cargo.route_point_type.CUSTOMS'', [(''ru'', utf8 [1058, 1072, 1084, 1086, 1078, 1085, 1103]), (''uz'', ''Bojxona''),
        (''en'', ''Customs''), (''tr'', ''G'' @ utf8 [252] @ ''mr'' @ utf8 [252] @ ''k''), (''zh'', utf8 [28023, 20851])]),
     (''cargo.route_point_type.TRANSIT'', [(''ru'', utf8 [1058, 1088, 1072, 1085, 1079, 1080, 1090]), (''uz'', ''Tranzit''),
        (''en'', ''Transit''), (''tr'', ''Transit''), (''zh'', utf8 [36807, 22659])]),
     (''cargo.offer_status.PENDING'', [(''ru'', utf8 [1053, 1072, 32, 1088, 1072, 1089, 1089, 1084, 1086, 1090, 1088, 1077,
        1085, 1080, 1080]), (''uz'', ''Ko'rib chiqilmoqda''), (''en'', ''Pending''), (''tr'', ''Beklemede''), (''zh'',
        utf8 [24453, 22788, 29702])]),
     (''cargo.offer_status.ACCEPTED'', [(''ru'', utf8 [1055, 1088, 1080, 1085, 1103, 1090]), (''uz'', ''Qabul qilindi''),
        (''en'', ''Accepted''), (''tr'', ''Kabul edildi''), (''zh'', utf8 [24050, 25509, 21463])]),
     (''cargo.offer_status.REJECTED'', [(''ru'', utf8 [1054, 1090, 1082, 1083, 1086, 1085, 1105, 1085]), (''uz'', ''Rad etilgan''),
        (''en'', ''Rejected''), (''tr'', ''Reddedildi''), (''zh'', utf8 [24050, 25298, 32477])]),
     (''cargo.created_by_type.ADMIN'', [(''ru'', utf8 [1040, 1076, 1084, 1080, 1085]), (''uz'', ''Admin''), (''en'', ''Admin''),
        (''tr'', ''Admin''), (''zh'', utf8 [31649, 29702, 21592])]),
     (''cargo.created_by_type.DISPATCHER'', [(''ru'', utf8 [1044, 1080, 1089, 1087, 1077, 1090, 1095, 1077, 1088]), (''uz'',
        ''Dispetcher''), (''en'', ''Dispatcher''), (''tr'', ''Dispat'' @ utf8 [231, 305]), (''zh'', utf8 [35843, 24230,
        21592])]),
     (''cargo.created_by_type.COMPANY'', [(''ru'', utf8 [1050, 1086, 1084, 1087, 1072, 1085, 1080, 1103]), (''uz'',
        ''Kompaniya''), (''en'', ''Company''), (''tr'', utf8 [350] @ ''irket''), (''zh'', utf8 [20844, 21496])]),
     (''cargo.truck_type.REFRIGERATOR'', [(''ru'', utf8 [1056, 1077, 1092, 1088, 1080, 1078, 1077, 1088, 1072, 1090, 1086,
        1088]), (''uz'', ''Refrijerator''), (''en'', ''Refrigerator''), (''tr'', ''So'' @ utf8 [287] @ ''utucu''), (''zh'',
        utf8 [20919, 34255, 36710])]),
     (''cargo.truck_type.TENT'', [(''ru'', utf8 [1058, 1077, 1085, 1090]), (''uz'', ''Tent''), (''en'', ''Tent''), (''tr'',
        ''Tent''), (''zh'', utf8 [31735, 24067])]),
     (''cargo.truck_type.FLATBED'', [(''ru'', utf8 [1041, 1086, 1088, 1090]), (''uz'', ''Bort''), (''en'', ''Flatbed''),
        (''tr'', ''D'' @ utf8 [252] @ ''z platform''), (''zh'', utf8 [24179, 26495])]),
     (''cargo.truck_type.TANKER'', [(''ru'', utf8 [1062, 1080, 1089, 1090, 1077, 1088, 1085, 1072]), (''uz'', ''Sisterna''),
        (''en'', ''Tanker''), (''tr'', ''Tanker''), (''zh'', utf8 [32592, 36710])]),
     (''cargo.truck_type.OTHER'', [(''ru'', utf8 [1044, 1088, 1091, 1075, 1086, 1077]), (''uz'', ''Boshqa''), (''en'',
        ''Other''), (''tr'', ''Di'' @ utf8 [287] @ ''er''), (''zh'', utf8 [20854, 20182])]),
     (''cargo.trip_status.PENDING_DRIVER'', [(''ru'', utf8 [1054, 1078, 1080, 1076, 1072, 1085, 1080, 1077, 32, 1074, 1086,
        1076, 1080, 1090, 1077, 1083, 1103]), (''uz'', ''Haydovchi kutilmoqda''), (''en'', ''Pending driver''), (''tr'', ''S'' @
        utf8 [252] @ ''r'' @ utf8 [252] @ ''c'' @ utf8 [252] @ '' bekleniyor''), (''zh'', utf8 [31561, 24453, 21496, 26426])]),
     (''cargo.trip_status.ASSIGNED'', [(''ru'', utf8 [1053, 1072, 1079, 1085, 1072, 1095, 1077, 1085]), (''uz'',
        ''Tayinlangan''), (''en'', ''Assigned''), (''tr'', ''Atand'' @ utf8 [305]), (''zh'', utf8 [24050, 20998, 37197])]),
     (''cargo.trip_status.LOADING'', [(''ru'', utf8 [1055, 1086, 1075, 1088, 1091, 1079, 1082, 1072]), (''uz'', ''Yuklash''),
        (''en'', ''Loading''), (''tr'', ''Y'' @ utf8 [252] @ ''kleme''), (''zh'', utf8 [35013, 36135])]),
     (''cargo.trip_status.EN_ROUTE'', [(''ru'', utf8 [1042, 32, 1087, 1091, 1090, 1080]), (''uz'', ''Yo'lda''), (''en'', ''En route''),
        (''tr'', ''Yolda''), (''zh'', utf8 [36816, 36755, 20013])]),
     (''cargo.trip_status.UNLOADING'', [(''ru'', utf8 [1042, 1099, 1075, 1088, 1091, 1079, 1082, 1072]), (''uz'',
        ''Tushirish''), (''en'', ''Unloading''), (''tr'', ''Bo'' @ utf8 [351] @ ''altma''), (''zh'', utf8 [21368, 36135])]),
     (''cargo.trip_status.COMPLETED'', [(''ru'', utf8 [1047, 1072, 1074, 1077, 1088, 1096, 1105, 1085]), (''uz'',
        ''Tugallangan''), (''en'', ''Completed''), (''tr'', ''Tamamland'' @ utf8 [305]), (''zh'', utf8 [24050, 23436, 25104])]),
     (''cargo.trip_status.CANCELLED'', [(''ru'', utf8 [1054, 1090, 1084, 1077, 1085, 1105, 1085]), (''uz'', ''Bekor qilindi''),
        (''en'', ''Cancelled''), (''tr'', utf8 [304] @ ''ptal edildi''), (''zh'', utf8 [24050, 21462, 28040])])]"

definition termLabels :: "(string \<times> (string \<times> string) list) list" where
  "termLabels = [
     (''cargo.shipment_type.FTL'', [(''ru'', utf8 [1055, 1086, 1083, 1085, 1072, 1103, 32, 1079, 1072, 1075, 1088, 1091, 1079,
        1082, 1072, 32, 40, 70, 84, 76, 41]), (''uz'', ''To'liq yuk (FTL)''), (''en'', ''Full truck load (FTL)''), (''tr'',
        ''Tam y'' @ utf8 [252] @ ''k (FTL)''), (''zh'', utf8 [25972, 36710] @ '' (FTL)'')]),
     (''cargo.shipment_type.LTL'', [(''ru'', utf8 [1063, 1072, 1089, 1090, 1080, 1095, 1085, 1072, 1103, 32, 1079, 1072, 1075,
        1088, 1091, 1079, 1082, 1072, 32, 40, 76, 84, 76, 41]), (''uz'', ''Qisman yuk (LTL)''), (''en'', ''Less than truck load (LTL)''),
        (''tr'', ''K'' @ utf8 [305] @ ''smi y'' @ utf8 [252] @ ''k (LTL)''), (''zh'', utf8 [38646, 25285] @ '' (LTL)'')]),
     (''cargo.shipment_type.PACKAGE'', [(''ru'', utf8 [1055, 1086, 1089, 1099, 1083, 1082, 1072]), (''uz'', ''Pochta''),
        (''en'', ''Package''), (''tr'', ''Paket''), (''zh'', utf8 [21253, 35065])]),
     (''cargo.shipment_type.OTHER'', [(''ru'', utf8 [1044, 1088, 1091, 1075, 1086, 1077]), (''uz'', ''Boshqa''), (''en'',
        ''Other''), (''tr'', ''Di'' @ utf8 [287] @ ''er''), (''zh'', utf8 [20854, 20182])]),
     (''cargo.currency.USD'', [(''ru'', utf8 [85, 83, 68, 32, 40, 1076, 1086, 1083, 1083, 1072, 1088, 32, 1057, 1064, 1040,
        41]), (''uz'', ''USD (AQSh dollari)''), (''en'', ''USD (US dollar)''), (''tr'', ''USD (ABD dolar'' @ utf8 [305] @
        '')''), (''zh'', ''USD ('' @ utf8 [32654, 20803] @ '')'')]),
     (''cargo.currency.UZS'', [(''ru'', ''UZS ('' @ utf8 [1089, 1091, 1084] @ '')''), (''uz'', ''UZS (so'm)''), (''en'', ''UZS (sum)''),
        (''tr'', ''UZS (sum)''), (''zh'', ''UZS ('' @ utf8 [33487, 22982] @ '')'')]),
     (''cargo.currency.EUR'', [(''ru'', ''EUR ('' @ utf8 [1077, 1074, 1088, 1086] @ '')''), (''uz'', ''EUR (yevro)''), (''en'',
        ''EUR (euro)''), (''tr'', ''EUR (euro)''), (''zh'', ''EUR ('' @ utf8 [27431, 20803] @ '')'')]),
     (''cargo.currency.RUB'', [(''ru'', ''RUB ('' @ utf8 [1088, 1091, 1073, 1083, 1100] @ '')''), (''uz'', ''RUB (rubl)''),
        (''en'', ''RUB (ruble)''), (''tr'', ''RUB (ruble)''), (''zh'', ''RUB ('' @ utf8 [21346, 24067] @ '')'')]),
     (''cargo.currency.KZT'', [(''ru'', ''KZT ('' @ utf8 [1090, 1077, 1085, 1075, 1077] @ '')''), (''uz'', ''KZT (tenge)''),
        (''en'', ''KZT (tenge)''), (''tr'', ''KZT (tenge)''), (''zh'', ''KZT ('' @ utf8 [22362, 25096] @ '')'')]),
     (''cargo.currency.AED'', [(''ru'', utf8 [65, 69, 68, 32, 40, 1076, 1080, 1088, 1093, 1072, 1084, 32, 1054, 1040, 1069,
        41]), (''uz'', ''AED (AED dirhami)''), (''en'', ''AED (UAE dirham)''), (''tr'', ''AED (BAE dirhemi)''), (''zh'', ''AED (''
        @ utf8 [38463, 32852, 37195, 36842, 25289, 22982] @ '')'')]),
     (''cargo.currency.OTHER'', [(''ru'', utf8 [1044, 1088, 1091, 1075, 1072, 1103]), (''uz'', ''Boshqa''), (''en'', ''Other''),
        (''tr'', ''Di'' @ utf8 [287] @ ''er''), (''zh'', utf8 [20854, 20182])]),
     (''cargo.prepayment_type.BANK_TRANSFER'', [(''ru'', utf8 [1041, 1072, 1085, 1082, 1086, 1074, 1089, 1082, 1080, 1081, 32,
        1087, 1077, 1088, 1077, 1074, 1086, 1076]), (''uz'', ''Bank o'tkazmasi''), (''en'', ''Bank transfer''), (''tr'', ''Banka havalesi''),
        (''zh'', utf8 [38134, 34892, 36716, 36134])]),
     (''cargo.prepayment_type.CASH'', [(''ru'', utf8 [1053, 1072, 1083, 1080, 1095, 1085, 1099, 1077]), (''uz'', ''Naqd''),
        (''en'', ''Cash''), (''tr'', ''Nakit''), (''zh'', utf8 [29616, 37329])]),
     (''cargo.prepayment_type.CARD'', [(''ru'', utf8 [1050, 1072, 1088, 1090, 1072]), (''uz'', ''Karta''), (''en'', ''Card''),
        (''tr'', ''Kart''), (''zh'', utf8 [21345])]),
     (''cargo.prepayment_type.INVOICE'', [(''ru'', utf8 [1055, 1086, 32, 1089, 1095, 1105, 1090, 1091]), (''uz'',
        ''Hisob-faktura bo'yicha''), (''en'', ''Invoice''), (''tr'', ''Fatura''), (''zh'', utf8 [21457, 31080])]),
     (''cargo.prepayment_type.OTHER'', [(''ru'', utf8 [1044, 1088, 1091, 1075, 1086, 1077]), (''uz'', ''Boshqa''), (''en'',
        ''Other''), (''tr'', ''Di'' @ utf8 [287] @ ''er''), (''zh'', utf8 [20854, 20182])]),
     (''cargo.remaining_type.ON_DELIVERY'', [(''ru'', utf8 [1055, 1086, 32, 1092, 1072, 1082, 1090, 1091, 32, 1074, 1099, 1075,
        1088, 1091, 1079, 1082, 1080]), (''uz'', ''Tushirishdan keyin''), (''en'', ''On delivery''), (''tr'', ''Teslimatta''),
        (''zh'', utf8 [20132, 36135, 26102])]),
     (''cargo.remaining_type.AFTER_INVOICE'', [(''ru'', utf8 [1055, 1086, 32, 1089, 1095, 1105, 1090, 1091, 32, 1087, 1086,
        1089, 1083, 1077, 32, 1074, 1099, 1075, 1088, 1091, 1079, 1082, 1080]), (''uz'', ''Hisob-faktura tushirishdan keyin''),
        (''en'', ''After invoice post unload''), (''tr'', ''Bo'' @ utf8 [351] @ ''altma sonras'' @ utf8 [305] @ '' fatura''),
        (''zh'', utf8 [21368, 36135, 21518, 21457, 31080])]),
     (''cargo.remaining_type.CASH'', [(''ru'', utf8 [1053, 1072, 1083, 1080, 1095, 1085, 1099, 1084, 1080, 32, 1087, 1088, 1080,
        32, 1074, 1099, 1075, 1088, 1091, 1079, 1082, 1077]), (''uz'', ''Tushirishda naqd''), (''en'', ''Cash on unload''),
        (''tr'', ''Bo'' @ utf8 [351] @ ''altmada nakit''), (''zh'', utf8 [21368, 36135, 26102, 29616, 37329])]),
     (''cargo.remaining_type.DEFERRED'', [(''ru'', utf8 [1054, 1090, 1089, 1088, 1086, 1095, 1082, 1072, 32, 1087, 1083, 1072,
        1090, 1077, 1078, 1072]), (''uz'', ''To'lov muddati''), (''en'', ''Deferred payment''), (''tr'', utf8 [214] @ ''deme ertelemesi''),
        (''zh'', utf8 [24310, 26399, 20184, 27454])]),
     (''cargo.remaining_type.OTHER'', [(''ru'', utf8 [1044, 1088, 1091, 1075, 1086, 1077]), (''uz'', ''Boshqa''), (''en'',
        ''Other''), (''tr'', ''Di'' @ utf8 [287] @ ''er''), (''zh'', utf8 [20854, 20182])]),
     (''cargo.loading_type.TOP'', [(''ru'', utf8 [1042, 1077, 1088, 1093, 1085, 1103, 1103]), (''uz'', ''Yuqori''), (''en'',
        ''Top''), (''tr'', utf8 [220] @ ''st''), (''zh'', utf8 [39030, 37096])]),
     (''cargo.loading_type.SIDE'', [(''ru'', utf8 [1041, 1086, 1082, 1086, 1074, 1072, 1103]), (''uz'', ''Yon''), (''en'',
        ''Side''), (''tr'', ''Yan''), (''zh'', utf8 [20391, 38754])]),
     (''cargo.loading_type.REAR'', [(''ru'', utf8 [1047, 1072, 1076, 1085, 1103, 1103]), (''uz'', ''Orqa''), (''en'', ''Rear''),
        (''tr'', ''Arka''), (''zh'', utf8 [21518, 37096])]),
     (''cargo.loading_type.CRANE'', [(''ru'', utf8 [1050, 1088, 1072, 1085]), (''uz'', ''Kran''), (''en'', ''Crane''), (''tr'',
        ''Vin'' @ utf8 [231]), (''zh'', utf8 [36215, 37325, 26426])]),
     (''cargo.loading_type.FORKLIFT'', [(''ru'', utf8 [1055, 1086, 1075, 1088, 1091, 1079, 1095, 1080, 1082]), (''uz'',
        ''Yuklovchi''), (''en'', ''Forklift''), (''tr'', ''Forklift''), (''zh'', utf8 [21449, 36710])]),
     (''cargo.loading_type.OTHER'', [(''ru'', utf8 [1044, 1088, 1091, 1075, 1086, 1077]), (''uz'', ''Boshqa''), (''en'',
        ''Other''), (''tr'', ''Di'' @ utf8 [287] @ ''er''), (''zh'', utf8 [20854, 20182])])]"

definition driverLabels :: "(string \<times> (string \<times> string) list) list" where
  "driverLabels = [
     (''drivers.registration_step.NAME-OFERTA'', [(''ru'', utf8 [1048, 1084, 1103, 32, 1080, 32, 1086, 1092, 1077, 1088, 1090,
        1072]), (''uz'', ''Ism va oferta''), (''en'', ''Name and offer''), (''tr'', ''Ad ve teklif''), (''zh'', utf8 [22995,
        21517, 21644, 35201, 32422])]),
     (''drivers.registration_step.GEO-PUSH'', [(''ru'', utf8 [1043, 1077, 1086, 1083, 1086, 1082, 1072, 1094, 1080, 1103, 32,
        1080, 32, 112, 117, 115, 104]), (''uz'', ''Geolokatsiya va push''), (''en'', ''Geolocation and push''), (''tr'', ''Konum ve push''),
        (''zh'', utf8 [22320, 29702, 20301, 32622, 21644, 25512, 36865])]),
     (''drivers.registration_step.TRANSPORT-TYPE'', [(''ru'', utf8 [1058, 1080, 1087, 32, 1090, 1088, 1072, 1085, 1089, 1087,
        1086, 1088, 1090, 1072]), (''uz'', ''Transport turi''), (''en'', ''Transport type''), (''tr'', ''Ta'' @ utf8 [351, 305]
        @ ''ma t'' @ utf8 [252] @ ''r'' @ utf8 [252]), (''zh'', utf8 [36816, 36755, 31867, 22411])]),
     (''drivers.registration_step.COMPLETED'', [(''ru'', utf8 [1056, 1077, 1075, 1080, 1089, 1090, 1088, 1072, 1094, 1080, 1103,
        32, 1079, 1072, 1074, 1077, 1088, 1096, 1077, 1085, 1072]), (''uz'', ''Ro'yxatdan o'tish tugallandi''), (''en'',
        ''Registration completed''), (''tr'', ''Kay'' @ utf8 [305] @ ''t tamamland'' @ utf8 [305]), (''zh'', utf8 [27880, 20876,
        23436, 25104])]),
     (''drivers.registration_status.START'', [(''ru'', utf8 [1053, 1072, 1095, 1072, 1083, 1086]), (''uz'', ''Boshlash''),
        (''en'', ''Start''), (''tr'', ''Ba'' @ utf8 [351] @ ''lang'' @ utf8 [305, 231]), (''zh'', utf8 [24320, 22987])]),
     (''drivers.registration_status.BASIC'', [(''ru'', utf8 [1041, 1072, 1079, 1086, 1074, 1099, 1077, 32, 1076, 1072, 1085,
        1085, 1099, 1077]), (''uz'', ''Asosiy ma'lumotlar''), (''en'', ''Basic data''), (''tr'', ''Temel veriler''), (''zh'',
        utf8 [22522, 26412, 36164, 26009])]),
     (''drivers.registration_status.FULL'', [(''ru'', utf8 [1055, 1086, 1083, 1085, 1072, 1103, 32, 1088, 1077, 1075, 1080,
        1089, 1090, 1088, 1072, 1094, 1080, 1103]), (''uz'', ''To'liq ro'yxatdan o'tish''), (''en'', ''Full registration''),
        (''tr'', ''Tam kay'' @ utf8 [305] @ ''t''), (''zh'', utf8 [23436, 25972, 27880, 20876])]),
     (''drivers.driver_type.COMPANY'', [(''ru'', utf8 [1050, 1086, 1084, 1087, 1072, 1085, 1080, 1103]), (''uz'',
        ''Kompaniya''), (''en'', ''Company''), (''tr'', utf8 [350] @ ''irket''), (''zh'', utf8 [20844, 21496])]),
     (''drivers.driver_type.FREELANCER'', [(''ru'', utf8 [1060, 1088, 1080, 1083, 1072, 1085, 1089, 1077, 1088]), (''uz'',
        ''Frilanser''), (''en'', ''Freelancer''), (''tr'', ''Serbest''), (''zh'', utf8 [33258, 30001, 32844, 19994, 32773])]),
     (''drivers.driver_type.DRIVER'', [(''ru'', utf8 [1042, 1086, 1076, 1080, 1090, 1077, 1083, 1100]), (''uz'', ''Haydovchi''),
        (''en'', ''Driver''), (''tr'', ''S'' @ utf8 [252] @ ''r'' @ utf8 [252] @ ''c'' @ utf8 [252]), (''zh'', utf8 [21496,
        26426])]),
     (''drivers.work_status.AVAILABLE'', [(''ru'', utf8 [1057, 1074, 1086, 1073, 1086, 1076, 1077, 1085]), (''uz'', ''Mavjud''),
        (''en'', ''Available''), (''tr'', ''M'' @ utf8 [252] @ ''sait''), (''zh'', utf8 [21487, 29992])]),
     (''drivers.work_status.LOADED'', [(''ru'', utf8 [1047, 1072, 1075, 1088, 1091, 1078, 1077, 1085]), (''uz'', ''Yuklangan''),
        (''en'', ''Loaded''), (''tr'', ''Y'' @ utf8 [252] @ ''kl'' @ utf8 [252]), (''zh'', utf8 [24050, 35013, 36733])]),
     (''drivers.work_status.BUSY'', [(''ru'', utf8 [1047, 1072, 1085, 1103, 1090]), (''uz'', ''Band''), (''en'', ''Busy''),
        (''tr'', ''Me'' @ utf8 [351] @ ''gul''), (''zh'', utf8 [24537, 30860])]),
     (''drivers.power_plate.TRUCK'', [(''ru'', utf8 [1043, 1088, 1091, 1079, 1086, 1074, 1080, 1082, 32, 43, 32, 1087, 1088,
        1080, 1094, 1077, 1087]), (''uz'', ''Yuk mashinasi + tirkama''), (''en'', ''Truck + trailer''), (''tr'', ''Kamyon + r''
        @ utf8 [246] @ ''mork''), (''zh'', utf8 [21345, 36710, 43, 25346, 36710])]),
     (''drivers.power_plate.TRACTOR'', [(''ru'', utf8 [1058, 1103, 1075, 1072, 1095, 32, 43, 32, 1087, 1086, 1083, 1091, 1087,
        1088, 1080, 1094, 1077, 1087]), (''uz'', ''Tyagach + yarim tirkama''), (''en'', ''Tractor + semi-trailer''), (''tr'',
        utf8 [199] @ ''ekici + yar'' @ utf8 [305] @ '' r'' @ utf8 [246] @ ''mork''), (''zh'', utf8 [29301, 24341, 36710, 43,
        21322, 25346, 36710])]),
     (''drivers.trailer_truck.FLATBED'', [(''ru'', utf8 [1041, 1086, 1088, 1090, 1086, 1074, 1086, 1081, 32, 1087, 1088, 1080,
        1094, 1077, 1087]), (''uz'', ''Bortli tirkama''), (''en'', ''Flatbed trailer''), (''tr'', ''D'' @ utf8 [252] @ ''z platform r''
        @ utf8 [246] @ ''mork''), (''zh'', utf8 [24179, 26495, 25346, 36710])]),
     (''drivers.trailer_truck.TENTED'', [(''ru'', utf8 [1058, 1077, 1085, 1090, 1086, 1074, 1072, 1085, 1085, 1099, 1081, 32,
        1087, 1088, 1080, 1094, 1077, 1087]), (''uz'', ''Tentli tirkama''), (''en'', ''Tented trailer''), (''tr'', ''Tenteli r''
        @ utf8 [246] @ ''mork''), (''zh'', utf8 [31735, 24067, 25346, 36710])]),
     (''drivers.trailer_truck.BOX'', [(''ru'', utf8 [1060, 1091, 1088, 1075, 1086, 1085, 1085, 1099, 1081, 32, 1087, 1088, 1080,
        1094, 1077, 1087]), (''uz'', ''Furgon tirkama''), (''en'', ''Box trailer''), (''tr'', ''Kutu r'' @ utf8 [246] @
        ''mork''), (''zh'', utf8 [21410, 24335, 25346, 36710])]),
     (''drivers.trailer_truck.REEFER'', [(''ru'', utf8 [1056, 1077, 1092, 1088, 1080, 1078, 1077, 1088, 1072, 1090, 1086, 1088,
        1085, 1099, 1081, 32, 1087, 1088, 1080, 1094, 1077, 1087]), (''uz'', ''Refrijerator tirkama''), (''en'', ''Reefer trailer''),
        (''tr'', ''So'' @ utf8 [287] @ ''utucu r'' @ utf8 [246] @ ''mork''), (''zh'', utf8 [20919, 34255, 25346, 36710])]),
     (''drivers.trailer_truck.TANKER'', [(''ru'', utf8 [1055, 1088, 1080, 1094, 1077, 1087, 45, 1094, 1080, 1089, 1090, 1077,
        1088, 1085, 1072]), (''uz'', ''Sisterna tirkama''), (''en'', ''Tanker trailer''), (''tr'', ''Tanker r'' @ utf8 [246] @
        ''mork''), (''zh'', utf8 [32592, 36710, 25346, 36710])]),
     (''drivers.trailer_truck.TIPPER'', [(''ru'', utf8 [1057, 1072, 1084, 1086, 1089, 1074, 1072, 1083, 1100, 1085, 1099, 1081,
        32, 1087, 1088, 1080, 1094, 1077, 1087]), (''uz'', ''Samosval tirkama''), (''en'', ''Tipper trailer''), (''tr'', ''D'' @
        utf8 [246] @ ''k'' @ utf8 [252] @ ''m r'' @ utf8 [246] @ ''mork''), (''zh'', utf8 [33258, 21368, 25346, 36710])]),
     (''drivers.trailer_truck.CAR_CARRIER'', [(''ru'', utf8 [1055, 1088, 1080, 1094, 1077, 1087, 45, 1072, 1074, 1090, 1086,
        1074, 1086, 1079]), (''uz'', ''Avtovoz tirkama''), (''en'', ''Car carrier trailer''), (''tr'', ''Ara'' @ utf8 [231] @ '' ta''
        @ utf8 [351, 305] @ ''y'' @ utf8 [305] @ ''c'' @ utf8 [305] @ '' r'' @ utf8 [246] @ ''mork''), (''zh'', utf8 [36710,
        36742, 36816, 36755, 25346, 36710])]),
     (''drivers.trailer_tractor.FLATBED'', [(''ru'', utf8 [1041, 1086, 1088, 1090, 1086, 1074, 1086, 1081, 32, 1087, 1086, 1083,
        1091, 1087, 1088, 1080, 1094, 1077, 1087]), (''uz'', ''Bortli yarim tirkama''), (''en'', ''Flatbed semi-trailer''),
        (''tr'', ''D'' @ utf8 [252] @ ''z platform yar'' @ utf8 [305] @ '' r'' @ utf8 [246] @ ''mork''), (''zh'', utf8 [24179,
        26495, 21322, 25346, 36710])]),
     (''drivers.trailer_tractor.TENTED'', [(''ru'', utf8 [1058, 1077, 1085, 1090, 1086, 1074, 1072, 1085, 1085, 1099, 1081, 32,
        1087, 1086, 1083, 1091, 1087, 1088, 1080, 1094, 1077, 1087]), (''uz'', ''Tentli yarim tirkama''), (''en'', ''Tented semi-trailer''),
        (''tr'', ''Tenteli yar'' @ utf8 [305] @ '' r'' @ utf8 [246] @ ''mork''), (''zh'', utf8 [31735, 24067, 21322, 25346,
        36710])]),
     (''drivers.trailer_tractor.BOX'', [(''ru'', utf8 [1060, 1091, 1088, 1075, 1086, 1085, 1085, 1099, 1081, 32, 1087, 1086,
        1083, 1091, 1087, 1088, 1080, 1094, 1077, 1087]), (''uz'', ''Furgon yarim tirkama''), (''en'', ''Box semi-trailer''),
        (''tr'', ''Kutu yar'' @ utf8 [305] @ '' r'' @ utf8 [246] @ ''mork''), (''zh'', utf8 [21410, 24335, 21322, 25346,
        36710])]),
     (''drivers.trailer_tractor.REEFER'', [(''ru'', utf8 [1056, 1077, 1092, 1088, 1080, 1078, 1077, 1088, 1072, 1090, 1086,
        1088, 1085, 1099, 1081, 32, 1087, 1086, 1083, 1091, 1087, 1088, 1080, 1094, 1077, 1087]), (''uz'', ''Refrijerator yarim tirkama''),
        (''en'', ''Reefer semi-trailer''), (''tr'', ''So'' @ utf8 [287] @ ''utucu yar'' @ utf8 [305] @ '' r'' @ utf8 [246] @
        ''mork''), (''zh'', utf8 [20919, 34255, 21322, 25346, 36710])]),
     (''drivers.trailer_tractor.TANKER'', [(''ru'', utf8 [1055, 1086, 1083, 1091, 1087, 1088, 1080, 1094, 1077, 1087, 45, 1094,
        1080, 1089, 1090, 1077, 1088, 1085, 1072]), (''uz'', ''Sisterna yarim tirkama''), (''en'', ''Tanker semi-trailer''),
        (''tr'', ''Tanker yar'' @ utf8 [305] @ '' r'' @ utf8 [246] @ ''mork''), (''zh'', utf8 [32592, 36710, 21322, 25346,
        36710])]),
     (''drivers.trailer_tractor.LOWBED'', [(''ru'', utf8 [1053, 1080, 1079, 1082, 1086, 1088, 1072, 1084, 1085, 1099, 1081, 32,
        1087, 1086, 1083, 1091, 1087, 1088, 1080, 1094, 1077, 1087]), (''uz'', ''Past ramkali yarim tirkama''), (''en'',
        ''Lowbed semi-trailer''), (''tr'', ''Al'' @ utf8 [231] @ ''ak yar'' @ utf8 [305] @ '' r'' @ utf8 [246] @ ''mork''),
        (''zh'', utf8 [20302, 24179, 26495, 21322, 25346, 36710])]),
     (''drivers.trailer_tractor.CONTAINER'', [(''ru'', utf8 [1055, 1086, 1083, 1091, 1087, 1088, 1080, 1094, 1077, 1087, 45,
        1082, 1086, 1085, 1090, 1077, 1081, 1085, 1077, 1088, 1086, 1074, 1086, 1079]), (''uz'', ''Konteyner yarim tirkama''),
        (''en'', ''Container semi-trailer''), (''tr'', ''Konteyner yar'' @ utf8 [305] @ '' r'' @ utf8 [246] @ ''mork''),
        (''zh'', utf8 [38598, 35013, 31665, 21322, 25346, 36710])])]"

definition officeLabels :: "(string \<times> (string \<times> string) list) list" where
  "officeLabels = [
     (''admin.admin_status.ACTIVE'', [(''ru'', utf8 [1040, 1082, 1090, 1080, 1074, 1077, 1085]), (''uz'', ''Faol''), (''en'',
        ''Active''), (''tr'', ''Aktif''), (''zh'', utf8 [27963, 36291])]),
     (''admin.admin_status.INACTIVE'', [(''ru'', utf8 [1053, 1077, 1072, 1082, 1090, 1080, 1074, 1077, 1085]), (''uz'',
        ''Nofaol''), (''en'', ''Inactive''), (''tr'', ''Pasif''), (''zh'', utf8 [26410, 28608, 27963])]),
     (''admin.admin_status.BLOCKED'', [(''ru'', utf8 [1047, 1072, 1073, 1083, 1086, 1082, 1080, 1088, 1086, 1074, 1072, 1085]),
        (''uz'', ''Bloklangan''), (''en'', ''Blocked''), (''tr'', ''Engelli''), (''zh'', utf8 [24050, 23553, 38145])]),
     (''admin.admin_type.CREATOR'', [(''ru'', utf8 [1057, 1086, 1079, 1076, 1072, 1090, 1077, 1083, 1100]), (''uz'',
        ''Yaratuvchi''), (''en'', ''Creator''), (''tr'', ''Olu'' @ utf8 [351] @ ''turan''), (''zh'', utf8 [21019, 24314,
        32773])]),
     (''admin.admin_type.OPERATOR'', [(''ru'', utf8 [1054, 1087, 1077, 1088, 1072, 1090, 1086, 1088]), (''uz'', ''Operator''),
        (''en'', ''Operator''), (''tr'', ''Operat'' @ utf8 [246] @ ''r''), (''zh'', utf8 [25805, 20316, 21592])]),
     (''dispatchers.work_status.AVAILABLE'', [(''ru'', utf8 [1044, 1086, 1089, 1090, 1091, 1087, 1077, 1085]), (''uz'',
        ''Mavjud''), (''en'', ''Available''), (''tr'', ''M'' @ utf8 [252] @ ''sait''), (''zh'', utf8 [21487, 29992])]),
     (''dispatchers.work_status.BUSY'', [(''ru'', utf8 [1047, 1072, 1085, 1103, 1090]), (''uz'', ''Band''), (''en'', ''Busy''),
        (''tr'', ''Me'' @ utf8 [351] @ ''gul''), (''zh'', utf8 [24537, 30860])]),
     (''dispatchers.work_status.OFFLINE'', [(''ru'', utf8 [1053, 1077, 32, 1074, 32, 1089, 1077, 1090, 1080]), (''uz'',
        ''Oflayn''), (''en'', ''Offline''), (''tr'', utf8 [199] @ ''evrimd'' @ utf8 [305, 351, 305]), (''zh'', utf8 [31163,
        32447])]),
     (''company.company_type.SHIPPER'', [(''ru'', utf8 [1043, 1088, 1091, 1079, 1086, 1086, 1090, 1087, 1088, 1072, 1074, 1080,
        1090, 1077, 1083, 1100]), (''uz'', ''Yuk jo'natuvchi''), (''en'', ''Shipper''), (''tr'', ''G'' @ utf8 [246] @
        ''nderici''), (''zh'', utf8 [21457, 36135, 20154])]),
     (''company.company_type.CARRIER'', [(''ru'', utf8 [1055, 1077, 1088, 1077, 1074, 1086, 1079, 1095, 1080, 1082]), (''uz'',
        ''Tashuvchi''), (''en'', ''Carrier''), (''tr'', ''Ta'' @ utf8 [351, 305] @ ''y'' @ utf8 [305] @ ''c'' @ utf8 [305]),
        (''zh'', utf8 [25215, 36816, 20154])]),
     (''company.company_type.BROKER'', [(''ru'', utf8 [1041, 1088, 1086, 1082, 1077, 1088]), (''uz'', ''Broker''), (''en'',
        ''Broker''), (''tr'', ''Broker''), (''zh'', utf8 [32463, 32426, 20154])]),
     (''company.company_status.ACTIVE'', [(''ru'', utf8 [1040, 1082, 1090, 1080, 1074, 1085, 1072]), (''uz'', ''Faol''),
        (''en'', ''Active''), (''tr'', ''Aktif''), (''zh'', utf8 [27963, 36291])]),
     (''company.company_status.INACTIVE'', [(''ru'', utf8 [1053, 1077, 1072, 1082, 1090, 1080, 1074, 1085, 1072]), (''uz'',
        ''Nofaol''), (''en'', ''Inactive''), (''tr'', ''Pasif''), (''zh'', utf8 [26410, 28608, 27963])]),
     (''company.company_status.BLOCKED'', [(''ru'', utf8 [1047, 1072, 1073, 1083, 1086, 1082, 1080, 1088, 1086, 1074, 1072,
        1085, 1072]), (''uz'', ''Bloklangan''), (''en'', ''Blocked''), (''tr'', ''Engelli''), (''zh'', utf8 [24050, 23553,
        38145])]),
     (''company.company_status.PENDING'', [(''ru'', utf8 [1053, 1072, 32, 1084, 1086, 1076, 1077, 1088, 1072, 1094, 1080,
        1080]), (''uz'', ''Moderatsiyada''), (''en'', ''Pending''), (''tr'', ''Beklemede''), (''zh'', utf8 [24453, 23457,
        26680])]),
     (''company.role.OWNER'', [(''ru'', utf8 [1042, 1083, 1072, 1076, 1077, 1083, 1077, 1094]), (''uz'', ''Egasi''), (''en'',
        ''Owner''), (''tr'', ''Sahip''), (''zh'', utf8 [25152, 26377, 32773])]),
     (''company.role.CEO'', [(''ru'', utf8 [1044, 1080, 1088, 1077, 1082, 1090, 1086, 1088]), (''uz'', ''Direktor''), (''en'',
        ''CEO''), (''tr'', ''CEO''), (''zh'', utf8 [39318, 24109, 25191, 34892, 23448])]),
     (''company.role.TOP_MANAGER'', [(''ru'', utf8 [1057, 1090, 1072, 1088, 1096, 1080, 1081, 32, 1084, 1077, 1085, 1077, 1076,
        1078, 1077, 1088]), (''uz'', ''Katta menejer''), (''en'', ''Top manager''), (''tr'', utf8 [220] @ ''st d'' @ utf8 [252]
        @ ''zey y'' @ utf8 [246] @ ''netici''), (''zh'', utf8 [39640, 32423, 32463, 29702])]),
     (''company.role.TOP_DISPATCHER'', [(''ru'', utf8 [1057, 1090, 1072, 1088, 1096, 1080, 1081, 32, 1076, 1080, 1089, 1087,
        1077, 1090, 1095, 1077, 1088]), (''uz'', ''Katta dispetcher''), (''en'', ''Top dispatcher''), (''tr'', ''K'' @
        utf8 [305] @ ''demli dispat'' @ utf8 [231, 305]), (''zh'', utf8 [39640, 32423, 35843, 24230, 21592])]),
     (''company.role.DISPATCHER'', [(''ru'', utf8 [1044, 1080, 1089, 1087, 1077, 1090, 1095, 1077, 1088]), (''uz'',
        ''Dispetcher''), (''en'', ''Dispatcher''), (''tr'', ''Dispat'' @ utf8 [231, 305]), (''zh'', utf8 [35843, 24230,
        21592])]),
     (''company.role.MANAGER'', [(''ru'', utf8 [1052, 1077, 1085, 1077, 1076, 1078, 1077, 1088]), (''uz'', ''Menejer''),
        (''en'', ''Manager''), (''tr'', ''Y'' @ utf8 [246] @ ''netici''), (''zh'', utf8 [32463, 29702])])]"

definition transportLabels :: "(string \<times> (string \<times> string) list) list" where
  "transportLabels = [
     (''transport.power_plate.TRUCK'', [(''ru'', utf8 [1043, 1088, 1091, 1079, 1086, 1074, 1080, 1082, 32, 43, 32, 1087, 1088,
        1080, 1094, 1077, 1087]), (''uz'', ''Yuk mashinasi + tirkama''), (''en'', ''Truck + trailer''), (''tr'', ''Kamyon + r''
        @ utf8 [246] @ ''mork''), (''zh'', utf8 [21345, 36710, 43, 25346, 36710])]),
     (''transport.power_plate.TRACTOR'', [(''ru'', utf8 [1058, 1103, 1075, 1072, 1095, 32, 43, 32, 1087, 1086, 1083, 1091, 1087,
        1088, 1080, 1094, 1077, 1087]), (''uz'', ''Tyagach + yarim tirkama''), (''en'', ''Tractor + semi-trailer''), (''tr'',
        utf8 [199] @ ''ekici + yar'' @ utf8 [305] @ '' r'' @ utf8 [246] @ ''mork''), (''zh'', utf8 [29301, 24341, 36710, 43,
        21322, 25346, 36710])]),
     (''transport.trailer_truck.FLATBED'', [(''ru'', utf8 [1041, 1086, 1088, 1090, 1086, 1074, 1086, 1081, 32, 1087, 1088, 1080,
        1094, 1077, 1087]), (''uz'', ''Bortli tirkama''), (''en'', ''Flatbed trailer''), (''tr'', ''D'' @ utf8 [252] @ ''z platform r''
        @ utf8 [246] @ ''mork''), (''zh'', utf8 [24179, 26495, 25346, 36710])]),
     (''transport.trailer_truck.TENTED'', [(''ru'', utf8 [1058, 1077, 1085, 1090, 1086, 1074, 1072, 1085, 1085, 1099, 1081, 32,
        1087, 1088, 1080, 1094, 1077, 1087]), (''uz'', ''Tentli tirkama''), (''en'', ''Tented trailer''), (''tr'', ''Tenteli r''
        @ utf8 [246] @ ''mork''), (''zh'', utf8 [31735, 24067, 25346, 36710])]),
     (''transport.trailer_truck.BOX'', [(''ru'', utf8 [1060, 1091, 1088, 1075, 1086, 1085, 1085, 1099, 1081, 32, 1087, 1088,
        1080, 1094, 1077, 1087]), (''uz'', ''Furgon tirkama''), (''en'', ''Box trailer''), (''tr'', ''Kutu r'' @ utf8 [246] @
        ''mork''), (''zh'', utf8 [21410, 24335, 25346, 36710])]),
     (''transport.trailer_truck.REEFER'', [(''ru'', utf8 [1056, 1077, 1092, 1088, 1080, 1078, 1077, 1088, 1072, 1090, 1086,
        1088, 1085, 1099, 1081, 32, 1087, 1088, 1080, 1094, 1077, 1087]), (''uz'', ''Refrijerator tirkama''), (''en'', ''Reefer trailer''),
        (''tr'', ''So'' @ utf8 [287] @ ''utucu r'' @ utf8 [246] @ ''mork''), (''zh'', utf8 [20919, 34255, 25346, 36710])]),
     (''transport.trailer_truck.TANKER'', [(''ru'', utf8 [1055, 1088, 1080, 1094, 1077, 1087, 45, 1094, 1080, 1089, 1090, 1077,
        1088, 1085, 1072]), (''uz'', ''Sisterna tirkama''), (''en'', ''Tanker trailer''), (''tr'', ''Tanker r'' @ utf8 [246] @
        ''mork''), (''zh'', utf8 [32592, 36710, 25346, 36710])]),
     (''transport.trailer_truck.TIPPER'', [(''ru'', utf8 [1057, 1072, 1084, 1086, 1089, 1074, 1072, 1083, 1100, 1085, 1099,
        1081, 32, 1087, 1088, 1080, 1094, 1077, 1087]), (''uz'', ''Samosval tirkama''), (''en'', ''Tipper trailer''), (''tr'',
        ''D'' @ utf8 [246] @ ''k'' @ utf8 [252] @ ''m r'' @ utf8 [246] @ ''mork''), (''zh'', utf8 [33258, 21368, 25346,
        36710])]),
     (''transport.trailer_truck.CAR_CARRIER'', [(''ru'', utf8 [1055, 1088, 1080, 1094, 1077, 1087, 45, 1072, 1074, 1090, 1086,
        1074, 1086, 1079]), (''uz'', ''Avtovoz tirkama''), (''en'', ''Car carrier trailer''), (''tr'', ''Ara'' @ utf8 [231] @ '' ta''
        @ utf8 [351, 305] @ ''y'' @ utf8 [305] @ ''c'' @ utf8 [305] @ '' r'' @ utf8 [246] @ ''mork''), (''zh'', utf8 [36710,
        36742, 36816, 36755, 25346, 36710])]),
     (''transport.trailer_tractor.FLATBED'', [(''ru'', utf8 [1041, 1086, 1088, 1090, 1086, 1074, 1086, 1081, 32, 1087, 1086,
        1083, 1091, 1087, 1088, 1080, 1094, 1077, 1087]), (''uz'', ''Bortli yarim tirkama''), (''en'', ''Flatbed semi-trailer''),
        (''tr'', ''D'' @ utf8 [252] @ ''z platform yar'' @ utf8 [305] @ '' r'' @ utf8 [246] @ ''mork''), (''zh'', utf8 [24179,
        26495, 21322, 25346, 36710])]),
     (''transport.trailer_tractor.TENTED'', [(''ru'', utf8 [1058, 1077, 1085, 1090, 1086, 1074, 1072, 1085, 1085, 1099, 1081,
        32, 1087, 1086, 1083, 1091, 1087, 1088, 1080, 1094, 1077, 1087]), (''uz'', ''Tentli yarim tirkama''), (''en'', ''Tented semi-trailer''),
        (''tr'', ''Tenteli yar'' @ utf8 [305] @ '' r'' @ utf8 [246] @ ''mork''), (''zh'', utf8 [31735, 24067, 21322, 25346,
        36710])]),
     (''transport.trailer_tractor.BOX'', [(''ru'', utf8 [1060, 1091, 1088, 1075, 1086, 1085, 1085, 1099, 1081, 32, 1087, 1086,
        1083, 1091, 1087, 1088, 1080, 1094, 1077, 1087]), (''uz'', ''Furgon yarim tirkama''), (''en'', ''Box semi-trailer''),
        (''tr'', ''Kutu yar'' @ utf8 [305] @ '' r'' @ utf8 [246] @ ''mork''), (''zh'', utf8 [21410, 24335, 21322, 25346,
        36710])]),
     (''transport.trailer_tractor.REEFER'', [(''ru'', utf8 [1056, 1077, 1092, 1088, 1080, 1078, 1077, 1088, 1072, 1090, 1086,
        1088, 1085, 1099, 1081, 32, 1087, 1086, 1083, 1091, 1087, 1088, 1080, 1094, 1077, 1087]), (''uz'', ''Refrijerator yarim tirkama''),
        (''en'', ''Reefer semi-trailer''), (''tr'', ''So'' @ utf8 [287] @ ''utucu yar'' @ utf8 [305] @ '' r'' @ utf8 [246] @
        ''mork''), (''zh'', utf8 [20919, 34255, 21322, 25346, 36710])]),
     (''transport.trailer_tractor.TANKER'', [(''ru'', utf8 [1055, 1086, 1083, 1091, 1087, 1088, 1080, 1094, 1077, 1087, 45,
        1094, 1080, 1089, 1090, 1077, 1088, 1085, 1072]), (''uz'', ''Sisterna yarim tirkama''), (''en'', ''Tanker semi-trailer''),
        (''tr'', ''Tanker yar'' @ utf8 [305] @ '' r'' @ utf8 [246] @ ''mork''), (''zh'', utf8 [32592, 36710, 21322, 25346,
        36710])]),
     (''transport.trailer_tractor.LOWBED'', [(''ru'', utf8 [1053, 1080, 1079, 1082, 1086, 1088, 1072, 1084, 1085, 1099, 1081,
        32, 1087, 1086, 1083, 1091, 1087, 1088, 1080, 1094, 1077, 1087]), (''uz'', ''Past ramkali yarim tirkama''), (''en'',
        ''Lowbed semi-trailer''), (''tr'', ''Al'' @ utf8 [231] @ ''ak yar'' @ utf8 [305] @ '' r'' @ utf8 [246] @ ''mork''),
        (''zh'', utf8 [20302, 24179, 26495, 21322, 25346, 36710])]),
     (''transport.trailer_tractor.CONTAINER'', [(''ru'', utf8 [1055, 1086, 1083, 1091, 1087, 1088, 1080, 1094, 1077, 1087, 45,
        1082, 1086, 1085, 1090, 1077, 1081, 1085, 1077, 1088, 1086, 1074, 1086, 1079]), (''uz'', ''Konteyner yarim tirkama''),
        (''en'', ''Container semi-trailer''), (''tr'', ''Konteyner yar'' @ utf8 [305] @ '' r'' @ utf8 [246] @ ''mork''),
        (''zh'', utf8 [38598, 35013, 31665, 21322, 25346, 36710])])]"

definition cargoStatusDescs :: "(string \<times> (string \<times> string) list) list" where
  "cargoStatusDescs = [
     (''cargo.cargo_status_desc.CREATED'', [(''ru'', utf8 [1043, 1088, 1091, 1079, 32, 1089, 1086, 1079, 1076, 1072, 1085, 46]),
        (''uz'', ''Yuk yaratilgan.''), (''en'', ''Cargo created.''), (''tr'', ''Kargo olu'' @ utf8 [351] @ ''turuldu.''),
        (''zh'', utf8 [36135, 29289, 24050, 21019, 24314, 12290])]),
     (''cargo.cargo_status_desc.PENDING_MODERATION'', [(''ru'', utf8 [1053, 1072, 32, 1084, 1086, 1076, 1077, 1088, 1072, 1094,
        1080, 1080, 59, 32, 1072, 1076, 1084, 1080, 1085, 32, 1087, 1088, 1080, 1084, 1077, 1090, 32, 40, 115, 101, 97, 114, 99,
        104, 105, 110, 103, 41, 32, 1080, 1083, 1080, 32, 1086, 1090, 1082, 1083, 1086, 1085, 1080, 1090, 32, 40, 114, 101, 106,
        101, 99, 116, 101, 100, 41, 46]), (''uz'', ''Moderatsiyada; admin qabul (searching) yoki rad (rejected) qiladi.''),
        (''en'', ''Pending moderation; admin will accept (searching) or reject (rejected).''), (''tr'', ''Moderasyonda; admin kabul (searching) veya red (rejected) eder.''),
        (''zh'', utf8 [24453, 23457, 26680, 65307, 31649, 29702, 21592, 36890, 36807] @ ''(searching)'' @ utf8 [25110, 25298,
        32477] @ ''(rejected)'' @ utf8 [12290])]),
     (''cargo.cargo_status_desc.SEARCHING'', [(''ru'', utf8 [1043, 1088, 1091, 1079, 32, 1074, 1080, 1076, 1077, 1085, 32, 1074,
        1086, 1076, 1080, 1090, 1077, 1083, 1103, 1084, 59, 32, 1087, 1088, 1080, 1085, 1080, 1084, 1072, 1102, 1090, 1089,
        1103, 32, 1086, 1092, 1092, 1077, 1088, 1099, 46]), (''uz'', ''Yuk haydovchilarga ko'rinadi; takliflar qabul qilinadi.''),
        (''en'', ''Cargo visible to drivers; offers accepted.''), (''tr'', ''Y'' @ utf8 [252] @ ''k s'' @ utf8 [252] @ ''r'' @
        utf8 [252] @ ''c'' @ utf8 [252] @ ''lere g'' @ utf8 [246] @ ''r'' @ utf8 [252] @ ''n'' @ utf8 [252] @ ''r; teklifler kabul edilir.''),
        (''zh'', utf8 [36135, 29289, 23545, 21496, 26426, 21487, 35265, 65307, 25509, 21463, 25253, 20215, 12290])]),
     (''cargo.cargo_status_desc.SEARCHING_ALL'', [(''ru'', utf8 [1043, 1088, 1091, 1079, 32, 1074, 1080, 1076, 1077, 1085, 32,
        1074, 1089, 1077, 1084, 32, 1074, 1086, 1076, 1080, 1090, 1077, 1083, 1103, 1084, 59, 32, 1087, 1088, 1080, 1085, 1080,
        1084, 1072, 1102, 1090, 1089, 1103, 32, 1086, 1092, 1092, 1077, 1088, 1099, 46]), (''uz'', ''Yuk barcha haydovchilarga ko'rinadi; takliflar qabul qilinadi.''),
        (''en'', ''Cargo visible to all drivers; offers accepted.''), (''tr'', ''Y'' @ utf8 [252] @ ''k t'' @ utf8 [252] @ ''m s''
        @ utf8 [252] @ ''r'' @ utf8 [252] @ ''c'' @ utf8 [252] @ ''lere g'' @ utf8 [246] @ ''r'' @ utf8 [252] @ ''n'' @
        utf8 [252] @ ''r; teklifler kabul edilir.''), (''zh'', utf8 [36135, 29289, 23545, 25152, 26377, 21496, 26426, 21487,
        35265, 65307, 25509, 21463, 25253, 20215, 12290])]),
     (''cargo.cargo_status_desc.SEARCHING_COMPANY'', [(''ru'', utf8 [1043, 1088, 1091, 1079, 32, 1074, 1080, 1076, 1077, 1085,
        32, 1090, 1086, 1083, 1100, 1082, 1086, 32, 1074, 1086, 1076, 1080, 1090, 1077, 1083, 1103, 1084, 32, 1082, 1086, 1084,
        1087, 1072, 1085, 1080, 1080, 59, 32, 1087, 1088, 1080, 1085, 1080, 1084, 1072, 1102, 1090, 1089, 1103, 32, 1086, 1092,
        1092, 1077, 1088, 1099, 46]), (''uz'', ''Yuk faqat kompaniya haydovchilariga ko'rinadi; takliflar qabul qilinadi.''),
        (''en'', ''Cargo visible only to company drivers; offers accepted.''), (''tr'', ''Y'' @ utf8 [252] @ ''k yaln'' @
        utf8 [305] @ ''zca '' @ utf8 [351] @ ''irket s'' @ utf8 [252] @ ''r'' @ utf8 [252] @ ''c'' @ utf8 [252] @ ''lerine g'' @
        utf8 [246] @ ''r'' @ utf8 [252] @ ''n'' @ utf8 [252] @ ''r; teklifler kabul edilir.''), (''zh'', utf8 [36135, 29289,
        20165, 23545, 20844, 21496, 21496, 26426, 21487, 35265, 65307, 25509, 21463, 25253, 20215, 12290])]),
     (''cargo.cargo_status_desc.REJECTED'', [(''ru'', utf8 [1054, 1090, 1082, 1083, 1086, 1085, 1105, 1085, 32, 1084, 1086,
        1076, 1077, 1088, 1072, 1094, 1080, 1077, 1081, 59, 32, 1091, 1082, 1072, 1079, 1072, 1085, 1072, 32, 1087, 1088, 1080,
        1095, 1080, 1085, 1072, 46]), (''uz'', ''Moderatsiya tomonidan rad etilgan; sabab ko'rsatilgan.''), (''en'', ''Rejected by moderation; reason provided.''),
        (''tr'', ''Moderasyon taraf'' @ utf8 [305] @ ''ndan reddedildi; neden belirtildi.''), (''zh'', utf8 [23457, 26680,
        25298, 32477, 65307, 24050, 25552, 20379, 21407, 22240, 12290])]),
     (''cargo.cargo_status_desc.ASSIGNED'', [(''ru'', utf8 [1055, 1077, 1088, 1077, 1074, 1086, 1079, 1095, 1080, 1082, 32,
        1074, 1099, 1073, 1088, 1072, 1085, 59, 32, 1086, 1078, 1080, 1076, 1072, 1077, 1090, 1089, 1103, 32, 1087, 1086, 1075,
        1088, 1091, 1079, 1082, 1072, 46]), (''uz'', ''Tashuvchi tanlandi; yuklash kutilmoqda.''), (''en'', ''Carrier selected; loading expected.''),
        (''tr'', ''Ta'' @ utf8 [351, 305] @ ''y'' @ utf8 [305] @ ''c'' @ utf8 [305] @ '' se'' @ utf8 [231] @ ''ildi; y'' @
        utf8 [252] @ ''kleme bekleniyor.''), (''zh'', utf8 [24050, 36873, 25215, 36816, 20154, 65307, 31561, 24453, 35013,
        36135, 12290])]),
     (''cargo.cargo_status_desc.IN_PROGRESS'', [(''ru'', utf8 [1042, 1099, 1087, 1086, 1083, 1085, 1103, 1077, 1090, 1089, 1103,
        59, 32, 1074, 1086, 1076, 1080, 1090, 1077, 1083, 1100, 32, 1074, 32, 1087, 1091, 1090, 1080, 32, 1080, 1083, 1080, 32,
        1075, 1088, 1091, 1079, 1080, 1090, 46]), (''uz'', ''Bajarilmoqda; haydovchi yo'lda yoki yuklayapti.''), (''en'', ''In progress; driver en route or loading.''),
        (''tr'', ''Y'' @ utf8 [252] @ ''r'' @ utf8 [252] @ ''t'' @ utf8 [252] @ ''l'' @ utf8 [252] @ ''yor; s'' @ utf8 [252] @
        ''r'' @ utf8 [252] @ ''c'' @ utf8 [252] @ '' yolda veya y'' @ utf8 [252] @ ''kl'' @ utf8 [252] @ ''yor.''), (''zh'',
        utf8 [36827, 34892, 20013, 65307, 21496, 26426, 22312, 36884, 25110, 35013, 36135, 12290])]),
     (''cargo.cargo_status_desc.IN_TRANSIT'', [(''ru'', utf8 [1043, 1088, 1091, 1079, 32, 1074, 32, 1087, 1077, 1088, 1077,
        1074, 1086, 1079, 1082, 1077, 46]), (''uz'', ''Yuk tashilmoqda.''), (''en'', ''Cargo in transit.''), (''tr'', ''Y'' @
        utf8 [252] @ ''k ta'' @ utf8 [351, 305] @ ''n'' @ utf8 [305] @ ''yor.''), (''zh'', utf8 [36135, 29289, 36816, 36755,
        20013, 12290])]),
     (''cargo.cargo_status_desc.DELIVERED'', [(''ru'', utf8 [1044, 1086, 1089, 1090, 1072, 1074, 1083, 1077, 1085, 46]),
        (''uz'', ''Yetkazib berildi.''), (''en'', ''Delivered.''), (''tr'', ''Teslim edildi.''), (''zh'', utf8 [24050, 36865,
        36798, 12290])]),
     (''cargo.cargo_status_desc.COMPLETED'', [(''ru'', utf8 [1055, 1077, 1088, 1077, 1074, 1086, 1079, 1082, 1072, 32, 1079,
        1072, 1074, 1077, 1088, 1096, 1077, 1085, 1072, 46]), (''uz'', ''Tashish tugallandi.''), (''en'', ''Shipment completed.''),
        (''tr'', ''Ta'' @ utf8 [351, 305] @ ''ma tamamland'' @ utf8 [305] @ ''.''), (''zh'', utf8 [36816, 36755, 24050, 23436,
        25104, 12290])]),
     (''cargo.cargo_status_desc.CANCELLED'', [(''ru'', utf8 [1043, 1088, 1091, 1079, 32, 1086, 1090, 1084, 1077, 1085, 1105,
        1085, 46]), (''uz'', ''Yuk bekor qilindi.''), (''en'', ''Cargo cancelled.''), (''tr'', ''Y'' @ utf8 [252] @ ''k iptal edildi.''),
        (''zh'', utf8 [36135, 29289, 24050, 21462, 28040, 12290])])]"

definition refLabels :: "(string \<times> (string \<times> string) list) list" where
  "refLabels = cargoLabels @ termLabels @ driverLabels @ officeLabels @ transportLabels @ cargoStatusDescs"

section \<open>The choice of a label\<close>

definition label_key :: "ext \<Rightarrow> string \<Rightarrow> string \<Rightarrow> string" where
  "label_key E sect val = sect @ ''.'' @ ToUpper E (TrimSpace val)"

definition RefLabel :: "ext \<Rightarrow> string \<Rightarrow> string \<Rightarrow> string \<Rightarrow> string" where
  "RefLabel E sect val lang =
     (let key = label_key E sect val
      in if key = ''.'' then val
         else (case map_of refLabels key of
             None \<Rightarrow> val
           | Some labels \<Rightarrow> in_language labels (ToLower E (TrimSpace lang)) val))"

definition CargoStatusDescription :: "ext \<Rightarrow> string \<Rightarrow> string \<Rightarrow> string" where
  "CargoStatusDescription E val lang =
     (case map_of refLabels (label_key E ''cargo.cargo_status_desc'' val) of
        None \<Rightarrow> []
      | Some labels \<Rightarrow> in_language labels (ToLower E (TrimSpace lang)) [])"

section \<open>Every label in every language\<close>

lemma complete_label:
  "complete (k, [(''ru'', a), (''uz'', b), (''en'', c), (''tr'', d), (''zh'', e)]) \<longleftrightarrow>
     a \<noteq> [] \<and> b \<noteq> [] \<and> c \<noteq> [] \<and> d \<noteq> [] \<and> e \<noteq> []"
  by (simp add: complete_def languages_def text_in_def)

lemma complete_labels: "list_all complete refLabels"
proof -
  have "list_all complete cargoLabels" unfolding cargoLabels_def by (simp add: complete_label)
  moreover have "list_all complete termLabels" unfolding termLabels_def by (simp add: complete_label)
  moreover have "list_all complete driverLabels" unfolding driverLabels_def by (simp add: complete_label)
  moreover have "list_all complete officeLabels" unfolding officeLabels_def by (simp add: complete_label)
  moreover have "list_all complete transportLabels" unfolding transportLabels_def by (simp add: complete_label)
  moreover have "list_all complete cargoStatusDescs" unfolding cargoStatusDescs_def by (simp add: complete_label)
  ultimately show ?thesis unfolding refLabels_def list_all_append by (intro conjI)
qed

text \<open>The keys of the table, section by section.\<close>

definition labelled :: "string \<Rightarrow> bool" where
  "labelled k \<longleftrightarrow> k \<in> set (map fst refLabels)"

lemma labelled_cargoLabels: "list_all labelled (map fst cargoLabels)"
  by (simp add: list_all_iff labelled_def refLabels_def)

lemma labelled_termLabels: "list_all labelled (map fst termLabels)"
  by (simp add: list_all_iff labelled_def refLabels_def)

lemma labelled_driverLabels: "list_all labelled (map fst driverLabels)"
  by (simp add: list_all_iff labelled_def refLabels_def)

lemma labelled_officeLabels: "list_all labelled (map fst officeLabels)"
  by (simp add: list_all_iff labelled_def refLabels_def)

lemma labelled_transportLabels: "list_all labelled (map fst transportLabels)"
  by (simp add: list_all_iff labelled_def refLabels_def)

lemma labelled_cargoStatusDescs: "list_all labelled (map fst cargoStatusDescs)"
  by (simp add: list_all_iff labelled_def refLabels_def)

lemmas labelled_keys [simp] =
  labelled_cargoLabels [unfolded cargoLabels_def list.map prod.sel list.pred_inject]
  labelled_termLabels [unfolded termLabels_def list.map prod.sel list.pred_inject]
  labelled_driverLabels [unfolded driverLabels_def list.map prod.sel list.pred_inject]
  labelled_officeLabels [unfolded officeLabels_def list.map prod.sel list.pred_inject]
  labelled_transportLabels [unfolded transportLabels_def list.map prod.sel list.pred_inject]
  labelled_cargoStatusDescs [unfolded cargoStatusDescs_def list.map prod.sel list.pred_inject]

lemma label_text:
  assumes "labelled k" and "l \<in> set languages"
  obtains m s where "map_of refLabels k = Some m" and "text_in m l = Some s" and "s \<noteq> []" and "\<And>v. in_language m l v = s"
proof -
  obtain m where m: "map_of refLabels k = Some m" using assms(1) by (metis labelled_def map_of_eq_None_iff not_None_eq set_map)
  then have "complete (k, m)" using complete_labels by (auto simp: list_all_iff dest: map_of_SomeD)
  with assms(2) obtain s where s: "text_in m l = Some s" by (auto simp: complete_def list_all_iff)
  then have "s \<noteq> []" by (auto simp: text_in_def split: option.splits if_splits)
  moreover have "in_language m l v = s" for v using s by (simp add: in_language_def)
  ultimately show thesis using m s that by blast
qed

end
