(* ===== verification/Places.thy ===== *)
theory Places
  imports Messages Redis "HOL-Library.Multiset" "HOL-Library.List_Lexorder" "HOL-Library.Char_ord"
begin

text \<open>
  Cities and countries (\<open>internal/reference\<close>): the list of cities made from the dataset of \<open>tidwall/cities\<close>, which is an argument
  here, and the supplement; the codes and names of countries. A Go map is listed in no fixed order: where the code ranges over
  one, the order is an argument too.
\<close>

section \<open>Country codes\<close>

definition countryNameToAlpha2 :: "(string \<times> string) list" where
  "countryNameToAlpha2 = [
     (''Afghanistan'', ''AF''), (''Albania'', ''AL''), (''Algeria'', ''DZ''), (''Andorra'', ''AD''), (''Angola'', ''AO''),
     (''Argentina'', ''AR''), (''Armenia'', ''AM''), (''Australia'', ''AU''), (''Austria'', ''AT''),
     (''Azerbaijan'', ''AZ''), (''Bahrain'', ''BH''), (''Bangladesh'', ''BD''), (''Barbados'', ''BB''),
     (''Belarus'', ''BY''), (''Belgium'', ''BE''), (''Belize'', ''BZ''), (''Benin'', ''BJ''), (''Bhutan'', ''BT''),
     (''Bolivia'', ''BO''), (''Bosnia and Herzegovina'', ''BA''), (''Brazil'', ''BR''), (''Brunei'', ''BN''),
     (''Bulgaria'', ''BG''), (''Cambodia'', ''KH''), (''Cameroon'', ''CM''), (''Canada'', ''CA''), (''Cape Verde'', ''CV''),
     (''Central African Republic'', ''CF''), (''Chad'', ''TD''), (''Chile'', ''CL''), (''China'', ''CN''),
     (''Colombia'', ''CO''), (''Comoros'', ''KM''), (''Costa Rica'', ''CR''), (''Croatia'', ''HR''), (''Cuba'', ''CU''),
     (''Cyprus'', ''CY''), (''Czech Republic'', ''CZ''), (''Denmark'', ''DK''), (''Djibouti'', ''DJ''),
     (''Ecuador'', ''EC''), (''El Salvador'', ''SV''), (''Equatorial Guinea'', ''GQ''), (''Eritrea'', ''ER''),
     (''Estonia'', ''EE''), (''Ethiopia'', ''ET''), (''Fiji'', ''FJ''), (''Finland'', ''FI''), (''France'', ''FR''),
     (''Gabon'', ''GA''), (''Gambia, The'', ''GM''), (''Georgia'', ''GE''), (''Germany'', ''DE''), (''Ghana'', ''GH''),
     (''Greece'', ''GR''), (''Grenada'', ''GD''), (''Guatemala'', ''GT''), (''Guyana'', ''GY''), (''Haiti'', ''HT''),
     (''Honduras'', ''HN''), (''Hungary'', ''HU''), (''Iceland'', ''IS''), (''India'', ''IN''), (''Indonesia'', ''ID''),
     (''Iran'', ''IR''), (''Iraq'', ''IQ''), (''Ireland'', ''IE''), (''Israel'', ''IL''), (''Italy'', ''IT''),
     (''Jamaica'', ''JM''), (''Japan'', ''JP''), (''Jordan'', ''JO''), (''Kazakhstan'', ''KZ''), (''Kenya'', ''KE''),
     (''Kiribati'', ''KI''), (''Korea, North'', ''KP''), (''Korea, South'', ''KR''), (''Kuwait'', ''KW''),
     (''Kyrgyzstan'', ''KG''), (''Latvia'', ''LV''), (''Lebanon'', ''LB''), (''Liberia'', ''LR''), (''Libya'', ''LY''),
     (''Liechtenstein'', ''LI''), (''Lithuania'', ''LT''), (''Luxembourg'', ''LU''), (''Macedonia'', ''MK''),
     (''Madagascar'', ''MG''), (''Malawi'', ''MW''), (''Malaysia'', ''MY''), (''Maldives'', ''MV''), (''Malta'', ''MT''),
     (''Marshall Islands'', ''MH''), (''Mauritania'', ''MR''), (''Mauritius'', ''MU''), (''Mexico'', ''MX''),
     (''Micronesia'', ''FM''), (''Moldova'', ''MD''), (''Mongolia'', ''MN''), (''Morocco'', ''MA''),
     (''Mozambique'', ''MZ''), (''Myanmar'', ''MM''), (''Nepa'', ''NP''), (''Nepal'', ''NP''), (''Netherlands'', ''NL''),
     (''New Zealand'', ''NZ''), (''Nicaragua'', ''NI''), (''Niger'', ''NE''), (''Nigeria'', ''NG''), (''Norway'', ''NO''),
     (''Oman'', ''OM''), (''Pakistan'', ''PK''), (''Palau'', ''PW''), (''Panama'', ''PA''), (''Papua New Guinea'', ''PG''),
     (''Paraguay'', ''PY''), (''Peru'', ''PE''), (''Philippines'', ''PH''), (''Poland'', ''PL''), (''Portugal'', ''PT''),
     (''Qatar'', ''QA''), (''Romania'', ''RO''), (''Russia'', ''RU''), (''Saint Kitts and Nevis'', ''KN''),
     (''Samoa'', ''WS''), (''Sao Tome and Principe'', ''ST''), (''Senegal'', ''SN''), (''Seychelles'', ''SC''),
     (''Slovenia'', ''SI''), (''Solomon Islands'', ''SB''), (''Somalia'', ''SO''), (''South Africa'', ''ZA''),
     (''Spain'', ''ES''), (''Sri Lanka'', ''LK''), (''Sudan'', ''SD''), (''Suriname'', ''SR''), (''Swaziland'', ''SZ''),
     (''Sweden'', ''SE''), (''Switzerland'', ''CH''), (''Syria'', ''SY''), (''Tajikistan'', ''TJ''), (''Tanzania'', ''TZ''),
     (''Thailand'', ''TH''), (''Togo'', ''TG''), (''Tonga'', ''TO''), (''Tunisia'', ''TN''), (''Turkey'', ''TR''),
     (''Turkmenistan'', ''TM''), (''Tuvalu'', ''TV''), (''Uganda'', ''UG''), (''Ukraine'', ''UA''),
     (''United Arab Emirates'', ''AE''), (''United Kingdom'', ''GB''), (''United States'', ''US''), (''Uruguay'', ''UY''),
     (''Uzbekistan'', ''UZ''), (''Venezuela'', ''VE''), (''Vietnam'', ''VN''), (''Yemen'', ''YE''), (''Zambia'', ''ZM''),
     (''Zimbabwe'', ''ZW'')]"

section \<open>Cities\<close>

record CityRef =
  cref_ID :: string
  cref_Code :: string
  cref_NameRu :: string
  cref_NameEn :: "string option"
  cref_CountryCode :: string
  cref_Lat :: "float64 option"
  cref_Lng :: "float64 option"

text \<open>A city of the dataset.\<close>

record City =
  tw_Country :: string
  tw_City :: string
  tw_Latitude :: float64
  tw_Longitude :: float64

definition city_ref :: "string \<Rightarrow> string \<Rightarrow> string \<Rightarrow> string \<Rightarrow> string \<Rightarrow> float64 \<Rightarrow> float64 \<Rightarrow> CityRef" where
  "city_ref i code nameRu nameEn country lat lng =
     \<lparr>cref_ID = i, cref_Code = code, cref_NameRu = nameRu, cref_NameEn = Some nameEn, cref_CountryCode = country, cref_Lat = Some lat,
      cref_Lng = Some lng\<rparr>"

definition supplementalCities :: "CityRef list" where
  "supplementalCities = [
     city_ref ''TAS-UZ'' ''TAS'' (utf8 [1058, 1072, 1096, 1082, 1077, 1085, 1090]) ''Tashkent'' ''UZ'' 41.311081 69.240562,
     city_ref ''SAM-UZ'' ''SAM'' (utf8 [1057, 1072, 1084, 1072, 1088, 1082, 1072, 1085, 1076]) ''Samarkand'' ''UZ'' 39.654167
       66.959722,
     city_ref ''AND-UZ'' ''AND'' (utf8 [1040, 1085, 1076, 1080, 1078, 1072, 1085]) ''Andijan'' ''UZ'' 40.783333 72.333333,
     city_ref ''BUK-UZ'' ''BUK'' (utf8 [1041, 1091, 1093, 1072, 1088, 1072]) ''Bukhara'' ''UZ'' 39.774722 64.428611,
     city_ref ''FER-UZ'' ''FER'' (utf8 [1060, 1077, 1088, 1075, 1072, 1085, 1072]) ''Fergana'' ''UZ'' 40.386389 71.786389,
     city_ref ''NAM-UZ'' ''NAM'' (utf8 [1053, 1072, 1084, 1072, 1085, 1075, 1072, 1085]) ''Namangan'' ''UZ'' 40.998333 71.672778,
     city_ref ''NUK-UZ'' ''NUK'' (utf8 [1053, 1091, 1082, 1091, 1089]) ''Nukus'' ''UZ'' 42.453056 59.610278,
     city_ref ''QAR-UZ'' ''QAR'' (utf8 [1050, 1072, 1088, 1096, 1080]) ''Qarshi'' ''UZ'' 38.861111 65.789167,
     city_ref ''TER-UZ'' ''TER'' (utf8 [1058, 1077, 1088, 1084, 1077, 1079]) ''Termez'' ''UZ'' 37.224167 67.278333,
     city_ref ''DXB-AE'' ''DXB'' (utf8 [1044, 1091, 1073, 1072, 1081]) ''Dubai'' ''AE'' 25.204849 55.270783,
     city_ref ''AUH-AE'' ''AUH'' (utf8 [1040, 1073, 1091, 45, 1044, 1072, 1073, 1080]) ''Abu Dhabi'' ''AE'' 24.453889 54.377343,
     city_ref ''SHJ-AE'' ''SHJ'' (utf8 [1064, 1072, 1088, 1076, 1078, 1072]) ''Sharjah'' ''AE'' 25.357308 55.403304,
     city_ref ''AJM-AE'' ''AJM'' (utf8 [1040, 1076, 1078, 1084, 1072, 1085]) ''Ajman'' ''AE'' 25.41111 55.43504,
     city_ref ''RAK-AE'' ''RAK'' (utf8 [1056, 1072, 1089, 45, 1101, 1083, 1100, 45, 1061, 1072, 1081, 1084, 1072]) ''Ras Al Khaimah''
       ''AE'' 25.78946 55.9432,
     city_ref ''FJR-AE'' ''FJR'' (utf8 [1060, 1091, 1076, 1078, 1077, 1081, 1088, 1072]) ''Fujairah'' ''AE'' 25.12841 56.32646,
     city_ref ''ASB-TM'' ''ASB'' (utf8 [1040, 1096, 1093, 1072, 1073, 1072, 1076]) ''Ashgabat'' ''TM'' 37.95 58.383333,
     city_ref ''TUR-TM'' ''TUR'' (utf8 [1058, 1091, 1088, 1082, 1084, 1077, 1085, 1072, 1073, 1072, 1076]) ''Turkmenabat''
       ''TM'' 39.07328 63.57861,
     city_ref ''FRU-KG'' ''FRU'' (utf8 [1041, 1080, 1096, 1082, 1077, 1082]) ''Bishkek'' ''KG'' 42.874722 74.612222,
     city_ref ''OSS-KG'' ''OSS'' (utf8 [1054, 1096]) ''Osh'' ''KG'' 40.52828 72.7985,
     city_ref ''DUS-TJ'' ''DUS'' (utf8 [1044, 1091, 1096, 1072, 1085, 1073, 1077]) ''Dushanbe'' ''TJ'' 38.559772 68.773928,
     city_ref ''KHO-TJ'' ''KHO'' (utf8 [1061, 1091, 1076, 1078, 1072, 1085, 1076]) ''Khujand'' ''TJ'' 40.28256 69.62217]"

text \<open>The regular expression \<open>[a-zA-Z]+\<close>: the runs of letters of a text.\<close>

definition ascii_alpha :: "char \<Rightarrow> bool" where
  "ascii_alpha c \<longleftrightarrow> (65 \<le> byte c \<and> byte c \<le> 90) \<or> (97 \<le> byte c \<and> byte c \<le> 122)"

fun alpha_runs :: "string \<Rightarrow> string list" where
  "alpha_runs [] = []"
| "alpha_runs (c # cs) =
     (if \<not> ascii_alpha c then alpha_runs cs
      else (case cs of
          [] \<Rightarrow> [[c]]
        | d # ds \<Rightarrow> (if ascii_alpha d then (case alpha_runs cs of [] \<Rightarrow> [[c]] | r # rs \<Rightarrow> (c # r) # rs)
                   else [c] # alpha_runs cs)))"

text \<open>The two loops, over the runs and over the letters of a run; \<open>Inr\<close> is the early return.\<close>

fun add_letters :: "string \<Rightarrow> string \<Rightarrow> string + string" where
  "add_letters b [] = Inl b"
| "add_letters b (r # rs) =
     (let b = b @ [ascii_upper r] in if length b \<ge> 3 then Inr b else add_letters b rs)"

fun add_runs :: "string \<Rightarrow> string list \<Rightarrow> string" where
  "add_runs b [] = b"
| "add_runs b (part # parts) = (case add_letters b part of Inr code \<Rightarrow> code | Inl b \<Rightarrow> add_runs b parts)"

definition codeFromName :: "string \<Rightarrow> string" where
  "codeFromName name = add_runs [] (alpha_runs name)"

text \<open>How often a code was seen in a country; a missing entry of either map reads as zero.\<close>

type_synonym seen = "string \<Rightarrow> string \<Rightarrow> nat"

definition add_city :: "City \<Rightarrow> seen \<times> CityRef list \<Rightarrow> seen \<times> CityRef list" where
  "add_city c = (\<lambda>(seen, list).
     let countryCode = (case map_of countryNameToAlpha2 (tw_Country c) of None \<Rightarrow> ''XX'' | Some a \<Rightarrow> a);
         code = (if codeFromName (tw_City c) = [] then ''XXX'' else codeFromName (tw_City c));
         n = seen countryCode code;
         seen = seen(countryCode := (seen countryCode)(code := n + 1));
         code = (if n > 0 then take 8 (code @ Itoa (int n)) else code)
     in (seen, list @ [\<lparr>cref_ID = code @ ''-'' @ countryCode, cref_Code = code, cref_NameRu = tw_City c, cref_NameEn = Some (tw_City c),
          cref_CountryCode = countryCode, cref_Lat = Some (tw_Latitude c), cref_Lng = Some (tw_Longitude c)\<rparr>]))"

definition dataset_cities :: "City list \<Rightarrow> CityRef list" where
  "dataset_cities Cities = snd (fold add_city Cities (\<lambda>_ _. 0, []))"

definition LoadCities :: "City list \<Rightarrow> CityRef list" where
  "LoadCities Cities = dataset_cities Cities @ supplementalCities"

definition CitiesByCountry :: "City list \<Rightarrow> string \<Rightarrow> CityRef list" where
  "CitiesByCountry Cities countryCode =
     (if countryCode = [] then LoadCities Cities else filter (\<lambda>c. cref_CountryCode c = countryCode) (LoadCities Cities))"

section \<open>Countries\<close>

record CountryRef =
  cn_Code :: string
  cn_NameRu :: "string option"
  cn_NameUz :: "string option"
  cn_NameEn :: "string option"
  cn_NameTr :: "string option"
  cn_NameZh :: "string option"

definition country_ref :: "string \<Rightarrow> string \<Rightarrow> string \<Rightarrow> string \<Rightarrow> string \<Rightarrow> string \<Rightarrow> CountryRef" where
  "country_ref code ru uz en tr zh =
     \<lparr>cn_Code = code, cn_NameRu = Some ru, cn_NameUz = Some uz, cn_NameEn = Some en, cn_NameTr = Some tr, cn_NameZh = Some zh\<rparr>"

definition countriesByCode :: "(string \<times> CountryRef) list" where
  "countriesByCode = [
     (''UZ'', country_ref ''UZ'' (utf8 [1059, 1079, 1073, 1077, 1082, 1080, 1089, 1090, 1072, 1085]) (''O'' @ utf8 [699] @
        ''zbekiston'') (''Uzbekistan'') (utf8 [214] @ ''zbekistan'') (utf8 [20044, 20857, 21035, 20811, 26031, 22374])),
     (''RU'', country_ref ''RU'' (utf8 [1056, 1086, 1089, 1089, 1080, 1103]) (''Rossiya'') (''Russia'') (''Rusya'')
        (utf8 [20420, 32599, 26031])),
     (''KZ'', country_ref ''KZ'' (utf8 [1050, 1072, 1079, 1072, 1093, 1089, 1090, 1072, 1085]) (''Qozog'' @ utf8 [699] @
        ''iston'') (''Kazakhstan'') (''Kazakistan'') (utf8 [21704, 33832, 20811, 26031, 22374])),
     (''KG'', country_ref ''KG'' (utf8 [1050, 1099, 1088, 1075, 1099, 1079, 1089, 1090, 1072, 1085]) (''Qirg'' @ utf8 [699] @
        ''iziston'') (''Kyrgyzstan'') (''K'' @ utf8 [305] @ ''rg'' @ utf8 [305] @ ''zistan'') (utf8 [21513, 23572, 21513, 26031,
        26031, 22374])),
     (''TJ'', country_ref ''TJ'' (utf8 [1058, 1072, 1076, 1078, 1080, 1082, 1080, 1089, 1090, 1072, 1085]) (''Tojikiston'')
        (''Tajikistan'') (''Tacikistan'') (utf8 [22612, 21513, 20811, 26031, 22374])),
     (''TM'', country_ref ''TM'' (utf8 [1058, 1091, 1088, 1082, 1084, 1077, 1085, 1080, 1089, 1090, 1072, 1085])
        (''Turkmaniston'') (''Turkmenistan'') (''T'' @ utf8 [252] @ ''rkmenistan'') (utf8 [22303, 24211, 26364, 26031, 22374])),
     (''AE'', country_ref ''AE'' (utf8 [1054, 1040, 1069]) (''BAA'') (''United Arab Emirates'') (''Birle'' @ utf8 [351] @ ''ik Arap Emirlikleri'')
        (utf8 [38463, 32852, 37195])),
     (''TR'', country_ref ''TR'' (utf8 [1058, 1091, 1088, 1094, 1080, 1103]) (''Turkiya'') (''Turkey'') (''T'' @ utf8 [252] @
        ''rkiye'') (utf8 [22303, 32819, 20854])),
     (''CN'', country_ref ''CN'' (utf8 [1050, 1080, 1090, 1072, 1081]) (''Xitoy'') (''China'') (utf8 [199] @ ''in'')
        (utf8 [20013, 22269]))]"

text \<open>\<open>init\<close>: the names of the codes, from the entries of \<open>countryNameToAlpha2\<close> in the order the map is listed in.\<close>

definition add_name :: "string \<times> string \<Rightarrow> (string \<times> string) list \<Rightarrow> (string \<times> string) list" where
  "add_name = (\<lambda>(name, code) c2n. if code \<in> fst ` set c2n then c2n else c2n @ [(code, name)])"

definition english_names :: "(string \<times> string) list \<Rightarrow> (string \<times> string) list" where
  "english_names listed = fold add_name listed []"

text \<open>\<open>CountriesAll\<close> ranges over that map again: \<open>listed\<close> are its entries.\<close>

definition add_country :: "ext \<Rightarrow> string \<times> string \<Rightarrow> string list \<times> CountryRef list \<Rightarrow> string list \<times> CountryRef list" where
  "add_country E = (\<lambda>(code, en) (seen, out).
     let code = ToUpper E (TrimSpace code)
     in if code = [] \<or> code \<in> set seen then (seen, out)
        else (code # seen, out @ [case map_of countriesByCode code of
            Some curated \<Rightarrow> curated
          | None \<Rightarrow> \<lparr>cn_Code = code, cn_NameRu = None, cn_NameUz = None, cn_NameEn = Some en, cn_NameTr = None,
                     cn_NameZh = None\<rparr>]))"

definition CountriesAll :: "ext \<Rightarrow> (string \<times> string) list \<Rightarrow> CountryRef list" where
  "CountriesAll E listed = sort_key cn_Code (snd (fold (add_country E) listed ([], [])))"

definition pick :: "string option \<Rightarrow> string" where
  "pick p = (case p of None \<Rightarrow> [] | Some s \<Rightarrow> TrimSpace s)"

definition name_in :: "CountryRef \<Rightarrow> string \<Rightarrow> string" where
  "name_in r lang =
     (if lang = ''ru'' then pick (cn_NameRu r) else if lang = ''uz'' then pick (cn_NameUz r)
      else if lang = ''en'' then pick (cn_NameEn r) else if lang = ''tr'' then pick (cn_NameTr r)
      else if lang = ''zh'' then pick (cn_NameZh r) else [])"

definition CountryName :: "ext \<Rightarrow> (string \<times> string) list \<Rightarrow> string \<Rightarrow> string \<Rightarrow> string" where
  "CountryName E c2n code lang =
     (let code = ToUpper E (TrimSpace code); lang = ToLower E (TrimSpace lang)
      in if code = [] then []
         else (case map_of countriesByCode code of
             None \<Rightarrow> (case map_of c2n code of Some en \<Rightarrow> if TrimSpace en \<noteq> [] then en else code | None \<Rightarrow> code)
           | Some r \<Rightarrow>
               if name_in r lang \<noteq> [] then name_in r lang
               else if pick (cn_NameEn r) \<noteq> [] then pick (cn_NameEn r)
               else if pick (cn_NameRu r) \<noteq> [] then pick (cn_NameRu r)
               else code))"

section \<open>Codes of cities\<close>


lemma add_letters_runs:
  "length b < 3 \<Longrightarrow> add_letters b r = (let s = b @ map ascii_upper r in if length s \<ge> 3 then Inr (take 3 s) else Inl s)"
proof (induction r arbitrary: b)
  case (Cons a r)
  show ?case
  proof (cases "length b = 2")
    case True
    then show ?thesis by simp
  next
    case False
    with Cons.prems have "length (b @ [ascii_upper a]) < 3" by simp
    from Cons.IH [OF this] this show ?thesis by (simp add: Let_def)
  qed
qed (simp add: Let_def)

lemma add_runs_concat:
  "length b < 3 \<Longrightarrow> add_runs b rs = take 3 (b @ map ascii_upper (concat rs))"
  by (induction rs arbitrary: b) (auto simp: add_letters_runs Let_def)

lemma concat_alpha_runs: "concat (alpha_runs s) = filter ascii_alpha s"
proof (induction s)
  case (Cons c cs)
  then show ?case by (subst alpha_runs.simps) (auto simp del: alpha_runs.simps split: list.splits)
qed simp

text \<open>The code is made of the first three letters of the name, in upper case.\<close>

lemma codeFromName_eq: "codeFromName name = take 3 (map ascii_upper (filter ascii_alpha name))"
  by (simp add: codeFromName_def add_runs_concat concat_alpha_runs)

end
