(* ===== verification/Reference_Lists.thy ===== *)
theory Reference_Lists
  imports Labels Places Server "HOL-Library.Product_Lexorder"
begin

text \<open>
  The reference lists the clients read (\<open>handlers/reference.go\<close>, \<open>handlers/transport_options.go\<close>): the values of the enumerated
  fields with their labels in the language of the request, the roles of the companies, and the search in the cities and countries.
  The handlers only read; the dataset of cities and the orders in which Go lists the names of countries are arguments.
\<close>

section \<open>Values with labels\<close>

record ItemWithLabel =
  iw_Value :: string
  iw_Label :: string

record ItemWithLabelAndDescription =
  ix_Value :: string
  ix_Label :: string
  ix_Description :: string

record RoleRef =
  rr_ID :: string
  rr_Name :: string
  rr_Label :: string
  rr_Description :: string

text \<open>\<open>{Value: v, Label: reference.RefLabel(section, v, lang)}\<close>, for the values of a literal in turn.\<close>

definition labelled_items :: "ext \<Rightarrow> string \<Rightarrow> string \<Rightarrow> string list \<Rightarrow> ItemWithLabel list" where
  "labelled_items E sect lang vs = map (\<lambda>v. \<lparr>iw_Value = v, iw_Label = RefLabel E sect v lang\<rparr>) vs"

definition refItemsToItemWithLabel :: "RefItem list \<Rightarrow> ItemWithLabel list" where
  "refItemsToItemWithLabel items = map (\<lambda>i. \<lparr>iw_Value = Value i, iw_Label = Label i\<rparr>) items"

definition refItemsToItemWithLabelLocalized :: "ext \<Rightarrow> RefItem list \<Rightarrow> string \<Rightarrow> string \<Rightarrow> ItemWithLabel list" where
  "refItemsToItemWithLabelLocalized E items sect lang =
     map (\<lambda>i. let val = TrimSpace (Value i)
           in \<lparr>iw_Value = ToUpper E val, iw_Label = RefLabel E sect val lang\<rparr>) items"

definition refLang :: "ext \<Rightarrow> string \<Rightarrow> string" where
  "refLang E hLanguage =
     (let lang = ToLower E (TrimSpace hLanguage)
      in if lang \<in> {''ru'', ''uz'', ''en'', ''tr'', ''zh''} then lang else ''en'')"

definition item_json :: "ItemWithLabel \<Rightarrow> json" where
  "item_json i = JObj [(''value'', JStr (iw_Value i)), (''label'', JStr (iw_Label i))]"

definition described_json :: "ItemWithLabelAndDescription \<Rightarrow> json" where
  "described_json i = JObj ([(''value'', JStr (ix_Value i)), (''label'', JStr (ix_Label i))]
     @ (if ix_Description i = [] then [] else [(''description'', JStr (ix_Description i))]))"

definition role_json :: "RoleRef \<Rightarrow> json" where
  "role_json r = JObj ([(''id'', JStr (rr_ID r)), (''name'', JStr (rr_Name r)), (''label'', JStr (rr_Label r))]
     @ (if rr_Description r = [] then [] else [(''description'', JStr (rr_Description r))]))"

abbreviation items_of :: "ItemWithLabel list \<Rightarrow> json" where
  "items_of is \<equiv> JList (map item_json is)"

text \<open>A Go map is printed with its keys in order.\<close>

definition by_power_json :: "(string \<times> ItemWithLabel list) list \<Rightarrow> json" where
  "by_power_json m = JObj (map (\<lambda>(k, is). (k, items_of is)) (sort_key fst m))"

section \<open>Drivers\<close>

record ReferenceDriversResponse =
  rd_RegistrationStep :: "ItemWithLabel list"
  rd_RegistrationStatus :: "ItemWithLabel list"
  rd_DriverType :: "ItemWithLabel list"
  rd_WorkStatus :: "ItemWithLabel list"
  rd_PowerPlateTypes :: "ItemWithLabel list"
  rd_TrailerPlateTypes :: "(string \<times> ItemWithLabel list) list"

definition reference_drivers :: "ext \<Rightarrow> string \<Rightarrow> ReferenceDriversResponse" where
  "reference_drivers E lang =
     \<lparr>rd_RegistrationStep = labelled_items E ''drivers.registration_step'' lang
        [''NAME-OFERTA'', ''GEO-PUSH'', ''TRANSPORT-TYPE'', ''COMPLETED''],
      rd_RegistrationStatus = labelled_items E ''drivers.registration_status'' lang [''START'', ''BASIC'', ''FULL''],
      rd_DriverType = labelled_items E ''drivers.driver_type'' lang [''COMPANY'', ''FREELANCER'', ''DRIVER''],
      rd_WorkStatus = labelled_items E ''drivers.work_status'' lang [''AVAILABLE'', ''LOADED'', ''BUSY''],
      rd_PowerPlateTypes = labelled_items E ''drivers.power_plate'' lang [''TRUCK'', ''TRACTOR''],
      rd_TrailerPlateTypes =
        [(''TRUCK'', labelled_items E ''drivers.trailer_truck'' lang
            [''FLATBED'', ''TENTED'', ''BOX'', ''REEFER'', ''TANKER'', ''TIPPER'', ''CAR_CARRIER'']),
         (''TRACTOR'', labelled_items E ''drivers.trailer_tractor'' lang
            [''FLATBED'', ''TENTED'', ''BOX'', ''REEFER'', ''TANKER'', ''LOWBED'', ''CONTAINER''])]\<rparr>"

definition GetReferenceDrivers :: "ext \<Rightarrow> string \<Rightarrow> response" where
  "GetReferenceDrivers E hLanguage =
     (let out = reference_drivers E (refLang E hLanguage) in OKLang ''ok'' (JObj
        [(''registration_step'', items_of (rd_RegistrationStep out)),
         (''registration_status'', items_of (rd_RegistrationStatus out)),
         (''driver_type'', items_of (rd_DriverType out)),
         (''work_status'', items_of (rd_WorkStatus out)),
         (''power_plate_types'', items_of (rd_PowerPlateTypes out)),
         (''trailer_plate_types_by_power'', by_power_json (rd_TrailerPlateTypes out))]))"

text \<open>
  \<open>GetTransportOptions\<close> lists codes in place of values; it answers with \<open>resp.OK\<close>, whose description is not translated.
\<close>

definition option_json :: "ItemWithLabel \<Rightarrow> json" where
  "option_json p = JObj [(''code'', JStr (iw_Value p)), (''label'', JStr (iw_Label p))]"

record TransportOptionsResponse =
  to_PowerPlateTypes :: "ItemWithLabel list"
  to_TrailerPlateTypesByPower :: "(string \<times> ItemWithLabel list) list"

definition refLangTransport :: "ext \<Rightarrow> string \<Rightarrow> string" where
  "refLangTransport E hLanguage =
     (let lang = ToLower E (TrimSpace hLanguage)
      in if lang \<in> {''ru'', ''uz'', ''en'', ''tr'', ''zh''} then lang else ''en'')"

definition transport_options :: "ext \<Rightarrow> string \<Rightarrow> TransportOptionsResponse" where
  "transport_options E lang =
     \<lparr>to_PowerPlateTypes = labelled_items E ''transport.power_plate'' lang [''TRUCK'', ''TRACTOR''],
      to_TrailerPlateTypesByPower =
        [(''TRUCK'', labelled_items E ''transport.trailer_truck'' lang
            [''FLATBED'', ''TENTED'', ''BOX'', ''REEFER'', ''TANKER'', ''TIPPER'', ''CAR_CARRIER'']),
         (''TRACTOR'', labelled_items E ''transport.trailer_tractor'' lang
            [''FLATBED'', ''TENTED'', ''BOX'', ''REEFER'', ''TANKER'', ''LOWBED'', ''CONTAINER''])]\<rparr>"

definition GetTransportOptions :: "ext \<Rightarrow> string \<Rightarrow> Envelope" where
  "GetTransportOptions E hLanguage =
     (let out = transport_options E (refLangTransport E hLanguage) in envelope (Response True 200 ''ok'' (JObj
        [(''power_plate_types'', JList (map option_json (to_PowerPlateTypes out))),
         (''trailer_plate_types_by_power'', JObj (map (\<lambda>(k, is). (k, JList (map option_json is)))
            (sort_key fst (to_TrailerPlateTypesByPower out))))])) ''ok'')"

section \<open>Cargo\<close>

record ReferenceCargoResponse =
  rg_CargoStatus :: "ItemWithLabelAndDescription list"
  rg_RoutePointType :: "ItemWithLabel list"
  rg_OfferStatus :: "ItemWithLabel list"
  rg_CreatedByType :: "ItemWithLabel list"
  rg_TruckType :: "ItemWithLabel list"
  rg_TripStatus :: "ItemWithLabel list"
  rg_ShipmentType :: "ItemWithLabel list"
  rg_Currency :: "ItemWithLabel list"
  rg_PrepaymentType :: "ItemWithLabel list"
  rg_RemainingType :: "ItemWithLabel list"
  rg_LoadingType :: "ItemWithLabel list"

definition reference_cargo :: "ext \<Rightarrow> string \<Rightarrow> ReferenceCargoResponse" where
  "reference_cargo E lang =
     \<lparr>rg_CargoStatus = map (\<lambda>v. \<lparr>ix_Value = v, ix_Label = RefLabel E ''cargo.cargo_status'' v lang,
          ix_Description = CargoStatusDescription E v lang\<rparr>)
        [''CREATED'', ''PENDING_MODERATION'', ''SEARCHING_ALL'', ''SEARCHING_COMPANY'', ''REJECTED'', ''ASSIGNED'',
         ''IN_PROGRESS'', ''IN_TRANSIT'', ''DELIVERED'', ''COMPLETED'', ''CANCELLED''],
      rg_RoutePointType = labelled_items E ''cargo.route_point_type'' lang [''LOAD'', ''UNLOAD'', ''CUSTOMS'', ''TRANSIT''],
      rg_OfferStatus = labelled_items E ''cargo.offer_status'' lang [''PENDING'', ''ACCEPTED'', ''REJECTED''],
      rg_CreatedByType = labelled_items E ''cargo.created_by_type'' lang [''ADMIN'', ''DISPATCHER'', ''COMPANY''],
      rg_TruckType = labelled_items E ''cargo.truck_type'' lang [''REFRIGERATOR'', ''TENT'', ''FLATBED'', ''TANKER'', ''OTHER''],
      rg_TripStatus = labelled_items E ''cargo.trip_status'' lang
        [''PENDING_DRIVER'', ''ASSIGNED'', ''LOADING'', ''EN_ROUTE'', ''UNLOADING'', ''COMPLETED'', ''CANCELLED''],
      rg_ShipmentType = refItemsToItemWithLabelLocalized E ShipmentTypeRefs ''cargo.shipment_type'' lang,
      rg_Currency = refItemsToItemWithLabelLocalized E CurrencyRefs ''cargo.currency'' lang,
      rg_PrepaymentType = refItemsToItemWithLabelLocalized E PrepaymentTypeRefs ''cargo.prepayment_type'' lang,
      rg_RemainingType = refItemsToItemWithLabelLocalized E RemainingTypeRefs ''cargo.remaining_type'' lang,
      rg_LoadingType = refItemsToItemWithLabelLocalized E LoadingTypeRefs ''cargo.loading_type'' lang\<rparr>"

definition GetReferenceCargo :: "ext \<Rightarrow> string \<Rightarrow> response" where
  "GetReferenceCargo E hLanguage =
     (let out = reference_cargo E (refLang E hLanguage) in OKLang ''ok'' (JObj
        [(''cargo_status'', JList (map described_json (rg_CargoStatus out))),
         (''route_point_type'', items_of (rg_RoutePointType out)),
         (''offer_status'', items_of (rg_OfferStatus out)),
         (''created_by_type'', items_of (rg_CreatedByType out)),
         (''truck_type'', items_of (rg_TruckType out)),
         (''trip_status'', items_of (rg_TripStatus out)),
         (''shipment_type'', items_of (rg_ShipmentType out)),
         (''currency'', items_of (rg_Currency out)),
         (''prepayment_type'', items_of (rg_PrepaymentType out)),
         (''remaining_type'', items_of (rg_RemainingType out)),
         (''loading_type'', items_of (rg_LoadingType out))]))"

section \<open>Administrators, dispatchers and companies\<close>

record ReferenceAdminResponse =
  rm_AdminStatus :: "ItemWithLabel list"
  rm_AdminType :: "ItemWithLabel list"

definition reference_admin :: "ext \<Rightarrow> string \<Rightarrow> ReferenceAdminResponse" where
  "reference_admin E lang =
     \<lparr>rm_AdminStatus = labelled_items E ''admin.admin_status'' lang [''ACTIVE'', ''INACTIVE'', ''BLOCKED''],
      rm_AdminType = labelled_items E ''admin.admin_type'' lang [''CREATOR'', ''OPERATOR'']\<rparr>"

definition GetReferenceAdmin :: "ext \<Rightarrow> string \<Rightarrow> response" where
  "GetReferenceAdmin E hLanguage =
     (let out = reference_admin E (refLang E hLanguage) in OKLang ''ok'' (JObj
        [(''admin_status'', items_of (rm_AdminStatus out)), (''admin_type'', items_of (rm_AdminType out))]))"

record ReferenceDispatchersResponse =
  rs_WorkStatus :: "ItemWithLabel list"

definition reference_dispatchers :: "ext \<Rightarrow> string \<Rightarrow> ReferenceDispatchersResponse" where
  "reference_dispatchers E lang =
     \<lparr>rs_WorkStatus = labelled_items E ''dispatchers.work_status'' lang [''AVAILABLE'', ''BUSY'', ''OFFLINE'']\<rparr>"

definition GetReferenceDispatchers :: "ext \<Rightarrow> string \<Rightarrow> response" where
  "GetReferenceDispatchers E hLanguage =
     OKLang ''ok'' (JObj [(''work_status'', items_of (rs_WorkStatus (reference_dispatchers E (refLang E hLanguage))))])"

record ReferenceCompanyResponse =
  ry_CompanyType :: "ItemWithLabel list"
  ry_CompanyStatus :: "ItemWithLabel list"
  ry_CompanyUserRoles :: "ItemWithLabel list"
  ry_Roles :: "RoleRef list"

text \<open>A role of the database; a role the table has no label for keeps its name as its label.\<close>

definition role_ref :: "ext \<Rightarrow> string \<Rightarrow> Role \<Rightarrow> RoleRef" where
  "role_ref E lang r =
     (let desc = (case rl_Description r of None \<Rightarrow> [] | Some d \<Rightarrow> d);
          nameUpper = ToUpper E (rl_Name r);
          label = RefLabel E ''company.role'' nameUpper lang;
          label = (if label = nameUpper then rl_Name r else label)
      in \<lparr>rr_ID = rl_ID r, rr_Name = nameUpper, rr_Label = label, rr_Description = desc\<rparr>)"

definition reference_company :: "ext \<Rightarrow> string \<Rightarrow> Role list \<Rightarrow> ReferenceCompanyResponse" where
  "reference_company E lang roles =
     \<lparr>ry_CompanyType = labelled_items E ''company.company_type'' lang [''SHIPPER'', ''CARRIER'', ''BROKER''],
      ry_CompanyStatus = labelled_items E ''company.company_status'' lang [''ACTIVE'', ''INACTIVE'', ''BLOCKED'', ''PENDING''],
      ry_CompanyUserRoles = labelled_items E ''company.role'' lang
        [''OWNER'', ''CEO'', ''TOP_MANAGER'', ''TOP_DISPATCHER'', ''DISPATCHER'', ''MANAGER''],
      ry_Roles = map (role_ref E lang) roles\<rparr>"

definition GetReferenceCompany :: "ext \<Rightarrow> string \<Rightarrow> ('z, response) prog" where
  "GetReferenceCompany E hLanguage =
     (let lang = refLang E hLanguage in
      attempt (approles_ListAll E)
        (\<lambda>_. ret (ErrorLang 500 ''failed_to_load_roles''))
        (\<lambda>roles. let out = reference_company E lang roles in ret (OKLang ''ok'' (JObj
           [(''company_type'', items_of (ry_CompanyType out)),
            (''company_status'', items_of (ry_CompanyStatus out)),
            (''company_user_roles'', items_of (ry_CompanyUserRoles out)),
            (''roles'', JList (map role_json (ry_Roles out)))]))))"

section \<open>Search\<close>

text \<open>
  \<open>normRefSearch\<close>: lower case, without blanks and marks. The replacer goes through the text once; the marks
  are the ones of its literal, three of them beyond ASCII.
\<close>

definition search_marks :: "string list" where
  "search_marks = ['' '', ''-'', ''_'', [CHR 0x27], utf8 [8217], ''`'', utf8 [699], utf8 [700], ''.'', '','', ''('', '')'']"

fun without_marks :: "string \<Rightarrow> string" where
  "without_marks [] = []"
| "without_marks (c # cs) =
     (case find (\<lambda>m. prefix m (c # cs)) search_marks of
        None \<Rightarrow> c # without_marks cs
      | Some m \<Rightarrow> without_marks (drop (length m - 1) cs))"

definition normRefSearch :: "ext \<Rightarrow> string \<Rightarrow> string" where
  "normRefSearch E s = without_marks (ToLower E (TrimSpace s))"

text \<open>
  The rank of a field: equal to the text searched for, beginning with it, containing it, or none of these; \<open>consider\<close> keeps the
  best one, and 9 stands for no match.
\<close>

definition consider_field :: "string \<Rightarrow> string \<times> nat \<Rightarrow> nat \<Rightarrow> nat" where
  "consider_field qN = (\<lambda>(field, base) best.
     if field = [] \<or> qN = [] then best
     else if field = qN then (if base < best then base else best)
     else if prefix qN field then (if base + 2 < best then base + 2 else best)
     else if sublist qN field then (if base + 4 < best then base + 4 else best)
     else best)"

text \<open>The header \<open>X-Language\<close>, which these two handlers insist on.\<close>

definition search_language :: "ext \<Rightarrow> string \<Rightarrow> response + string" where
  "search_language E hLanguage =
     (let lang = ToLower E (TrimSpace hLanguage)
      in if lang \<in> {''ru'', ''uz'', ''en'', ''tr'', ''zh''} then Inr lang else Inl (ErrorLang 400 ''invalid_x_language''))"

subsection \<open>Cities\<close>

record CityItem =
  cy_ID :: string
  cy_Code :: string
  cy_Name :: string
  cy_CountryCode :: string
  cy_Lat :: "float64 option"
  cy_Lng :: "float64 option"

record cityItemWithNames =
  cw_item :: CityItem
  cw_nameRu :: string
  cw_nameEn :: string

definition trimmed_en :: "CityRef \<Rightarrow> string" where
  "trimmed_en c = (case cref_NameEn c of None \<Rightarrow> [] | Some s \<Rightarrow> TrimSpace s)"

definition cityNameByLang :: "ext \<Rightarrow> CityRef \<Rightarrow> string \<Rightarrow> string" where
  "cityNameByLang E c lang =
     (let lang = ToLower E (TrimSpace lang); nameRu = TrimSpace (cref_NameRu c); nameEn = trimmed_en c
      in if lang = ''ru'' then (if nameRu \<noteq> [] then nameRu else if nameEn \<noteq> [] then nameEn else [])
         else if nameEn \<noteq> [] then nameEn else nameRu)"

definition city_matches :: "ext \<Rightarrow> string \<Rightarrow> CityRef \<Rightarrow> bool" where
  "city_matches E qRaw ci =
     (let qCode = ToUpper E qRaw; qN = normRefSearch E qRaw
      in sublist qCode (cref_Code ci) \<or> sublist qN (normRefSearch E (cref_Code ci))
         \<or> sublist qN (normRefSearch E (cref_NameRu ci))
         \<or> (case cref_NameEn ci of None \<Rightarrow> False | Some en \<Rightarrow> sublist qN (normRefSearch E en)))"

definition city_item :: "ext \<Rightarrow> string \<Rightarrow> CityRef \<Rightarrow> cityItemWithNames" where
  "city_item E lang ci =
     \<lparr>cw_item = \<lparr>cy_ID = cref_ID ci, cy_Code = cref_Code ci, cy_Name = cityNameByLang E ci lang, cy_CountryCode = cref_CountryCode ci,
        cy_Lat = cref_Lat ci, cy_Lng = cref_Lng ci\<rparr>,
      cw_nameRu = TrimSpace (cref_NameRu ci), cw_nameEn = trimmed_en ci\<rparr>"

definition city_rank :: "ext \<Rightarrow> string \<Rightarrow> cityItemWithNames \<Rightarrow> nat" where
  "city_rank E qRaw t =
     (let qCode = ToUpper E qRaw; qN = normRefSearch E qRaw; codeU = cy_Code (cw_item t)
      in if codeU = qCode then 0
         else fold (consider_field qN)
           [(normRefSearch E codeU, 0), (normRefSearch E (cy_Name (cw_item t)), 1),
            (normRefSearch E (cw_nameRu t), 1), (normRefSearch E (cw_nameEn t), 1)] 9)"

definition searched_cities :: "ext \<Rightarrow> City list \<Rightarrow> string \<Rightarrow> string \<Rightarrow> string \<Rightarrow> CityItem list" where
  "searched_cities E Cities lang countryCode qRaw =
     (let list = CitiesByCountry Cities countryCode;
          qN = normRefSearch E qRaw;
          tmp = map (city_item E lang) (if qN \<noteq> [] then filter (city_matches E qRaw) list else list);
          tmp = (if qN \<noteq> []
            then sort_key (\<lambda>t. (city_rank E qRaw t, cy_CountryCode (cw_item t), cy_Code (cw_item t), cy_Name (cw_item t))) tmp
            else tmp)
      in map cw_item tmp)"

definition city_item_json :: "CityItem \<Rightarrow> json" where
  "city_item_json i = JObj ([(''id'', JStr (cy_ID i)), (''code'', JStr (cy_Code i)), (''name'', JStr (cy_Name i)),
       (''country_code'', JStr (cy_CountryCode i))]
     @ (case cy_Lat i of None \<Rightarrow> [] | Some x \<Rightarrow> [(''lat'', JNum x)])
     @ (case cy_Lng i of None \<Rightarrow> [] | Some x \<Rightarrow> [(''lng'', JNum x)]))"

text \<open>\<open>CitiesByCountry\<close> returns no error, so the branch for \<open>failed_to_load_cities\<close> has no case here.\<close>

definition GetReferenceCities :: "ext \<Rightarrow> City list \<Rightarrow> string \<Rightarrow> string \<Rightarrow> string \<Rightarrow> response" where
  "GetReferenceCities E Cities hLanguage qCountryCode qQ =
     (case search_language E hLanguage of
        Inl refused \<Rightarrow> refused
      | Inr lang \<Rightarrow> OKLang ''ok'' (JObj [(''items'', JList (map city_item_json
          (searched_cities E Cities lang (TrimSpace qCountryCode) (TrimSpace qQ))))]))"

subsection \<open>Countries\<close>

record CountryItem =
  co_ItemCode :: string
  co_ItemName :: string

text \<open>The names of a country in the five languages, which are searched whatever the language of the request is.\<close>

definition names_of :: "ext \<Rightarrow> (string \<times> string) list \<Rightarrow> string \<Rightarrow> string list" where
  "names_of E c2n code = map (\<lambda>l. normRefSearch E (CountryName E c2n code l)) [''ru'', ''uz'', ''en'', ''tr'', ''zh'']"

definition country_matches :: "ext \<Rightarrow> (string \<times> string) list \<Rightarrow> string \<Rightarrow> string \<Rightarrow> bool" where
  "country_matches E c2n qRaw code =
     (let qCode = ToUpper E qRaw; qN = normRefSearch E qRaw
      in sublist qCode code \<or> sublist qN (normRefSearch E code) \<or> list_ex (sublist qN) (names_of E c2n code))"

definition country_rank :: "ext \<Rightarrow> (string \<times> string) list \<Rightarrow> string \<Rightarrow> string \<Rightarrow> nat" where
  "country_rank E c2n qRaw codeU =
     (let qCode = ToUpper E qRaw; qN = normRefSearch E qRaw
      in if codeU = qCode then 0
         else fold (consider_field qN) ((normRefSearch E codeU, 0) # map (\<lambda>n. (n, 1)) (names_of E c2n codeU)) 9)"

text \<open>\<open>c2n\<close> is the map made by \<open>init\<close>, \<open>entries\<close> the order \<open>CountriesAll\<close> meets its entries in.\<close>

definition searched_countries ::
  "ext \<Rightarrow> (string \<times> string) list \<Rightarrow> (string \<times> string) list \<Rightarrow> string \<Rightarrow> string \<Rightarrow> CountryItem list" where
  "searched_countries E c2n entries lang qRaw =
     (let q = ToLower E qRaw;
          all = CountriesAll E entries;
          all = (if q \<noteq> [] then filter (\<lambda>cc. country_matches E c2n qRaw (cn_Code cc)) all else all);
          items = map (\<lambda>cc. \<lparr>co_ItemCode = cn_Code cc, co_ItemName = CountryName E c2n (cn_Code cc) lang\<rparr>) all
      in if q \<noteq> [] then sort_key (\<lambda>i. (country_rank E c2n qRaw (co_ItemCode i), co_ItemCode i, co_ItemName i)) items else items)"

definition GetReferenceCountries ::
  "ext \<Rightarrow> (string \<times> string) list \<Rightarrow> (string \<times> string) list \<Rightarrow> string \<Rightarrow> string \<Rightarrow> response" where
  "GetReferenceCountries E c2n entries hLanguage qQ =
     (case search_language E hLanguage of
        Inl refused \<Rightarrow> refused
      | Inr lang \<Rightarrow> OKLang ''ok'' (JObj [(''items'', JList (map
          (\<lambda>i. JObj [(''code'', JStr (co_ItemCode i)), (''name'', JStr (co_ItemName i))])
          (searched_countries E c2n entries lang (TrimSpace qQ))))]))"

section \<open>Routes\<close>

text \<open>The routes of the reference lists: they have the base headers like every other, and no guard.\<close>

datatype reference_route =
    Transport_options
  | Reference_drivers
  | Reference_cargo
  | Reference_company
  | Reference_admin
  | Reference_dispatchers
  | Reference_cities string string
  | Reference_countries string

record places =
  pl_Cities :: "City list"
  pl_codeToName :: "(string \<times> string) list"
  pl_entries :: "(string \<times> string) list"

fun serve_reference :: "ext \<Rightarrow> places \<Rightarrow> string \<Rightarrow> reference_route \<Rightarrow> ('z, Envelope) prog" where
  "serve_reference E P hLanguage Transport_options = ret (GetTransportOptions E hLanguage)"
| "serve_reference E P hLanguage Reference_drivers = ret (localized E hLanguage (GetReferenceDrivers E hLanguage))"
| "serve_reference E P hLanguage Reference_cargo = ret (localized E hLanguage (GetReferenceCargo E hLanguage))"
| "serve_reference E P hLanguage Reference_company = do {
     r \<leftarrow> GetReferenceCompany E hLanguage;
     ret (localized E hLanguage r)
   }"
| "serve_reference E P hLanguage Reference_admin = ret (localized E hLanguage (GetReferenceAdmin E hLanguage))"
| "serve_reference E P hLanguage Reference_dispatchers = ret (localized E hLanguage (GetReferenceDispatchers E hLanguage))"
| "serve_reference E P hLanguage (Reference_cities qCountryCode qQ) =
     ret (localized E hLanguage (GetReferenceCities E (pl_Cities P) hLanguage qCountryCode qQ))"
| "serve_reference E P hLanguage (Reference_countries qQ) =
     ret (localized E hLanguage (GetReferenceCountries E (pl_codeToName P) (pl_entries P) hLanguage qQ))"

definition handle_reference :: "ext \<Rightarrow> router \<Rightarrow> places \<Rightarrow> call \<Rightarrow> reference_route \<Rightarrow> ('z, Envelope) prog" where
  "handle_reference E R P c q =
     (case RequireBaseHeaders E (ro_clientToken R) (X_Device_Type c) (X_Language c) (X_Client_Token c) of
        Some refused \<Rightarrow> ret (localized E (X_Language c) refused)
      | None \<Rightarrow> serve_reference E P (X_Language c) q)"

end
