(* ===== verification/Places_Guarantees.thy ===== *)
theory Places_Guarantees
  imports Places Samples
begin

text \<open>
  The identifiers of cities are distinct, and the list of countries does not depend on the order in which Go lists its maps, but
  for the name of one country.
\<close>

section \<open>Identifiers of cities\<close>

definition country_of :: "City \<Rightarrow> string" where
  "country_of c = (case map_of countryNameToAlpha2 (tw_Country c) of None \<Rightarrow> ''XX'' | Some a \<Rightarrow> a)"

definition base_of :: "City \<Rightarrow> string" where
  "base_of c = (if codeFromName (tw_City c) = [] then ''XXX'' else codeFromName (tw_City c))"

abbreviation place :: "City \<Rightarrow> string \<times> string" where
  "place c \<equiv> (country_of c, base_of c)"

definition numbered :: "string \<Rightarrow> nat \<Rightarrow> string" where
  "numbered code n = (if n > 0 then take 8 (code @ Itoa (int n)) else code)"

definition city_id :: "string \<times> string \<Rightarrow> nat \<Rightarrow> string" where
  "city_id p n = numbered (snd p) n @ ''-'' @ fst p"

text \<open>The loop counts the cities with the same country and code before each.\<close>

fun ids_of :: "City list \<Rightarrow> (string \<times> string) list \<Rightarrow> string list" where
  "ids_of [] before = []"
| "ids_of (c # cs) before = city_id (place c) (count_list before (place c)) # ids_of cs (place c # before)"

lemma add_city_step:
  "add_city c (seen, list) =
     (seen(country_of c := (seen (country_of c))(base_of c := seen (country_of c) (base_of c) + 1)),
      list @ [\<lparr>cref_ID = city_id (place c) (seen (country_of c) (base_of c)),
        cref_Code = numbered (base_of c) (seen (country_of c) (base_of c)), cref_NameRu = tw_City c, cref_NameEn = Some (tw_City c),
        cref_CountryCode = country_of c, cref_Lat = Some (tw_Latitude c), cref_Lng = Some (tw_Longitude c)\<rparr>])"
  by (simp add: add_city_def Let_def country_of_def [symmetric] base_of_def [symmetric] city_id_def numbered_def)

lemma cities_ids:
  assumes "\<And>k b. seen k b = count_list before (k, b)"
  shows "map cref_ID (snd (fold add_city cs (seen, list))) = map cref_ID list @ ids_of cs before"
  using assms
proof (induction cs arbitrary: seen list before)
  case (Cons c cs)
  let ?seen = "seen(country_of c := (seen (country_of c))(base_of c := seen (country_of c) (base_of c) + 1))"
  have "?seen k b = count_list (place c # before) (k, b)" for k b by (simp add: Cons.prems)
  note IH = Cons.IH [OF this]
  show ?case by (simp only: fold_simps o_apply add_city_step IH ids_of.simps) (simp add: Cons.prems)
qed simp

lemma dataset_ids: "map cref_ID (dataset_cities Cities) = ids_of Cities []"
  using cities_ids [of "\<lambda>_ _. 0" "[]" Cities "[]"] by (simp add: dataset_cities_def)

text \<open>A code is letters, a number digits: the two can be told apart, and nothing is cut off below a hundred thousand.\<close>

lemma digits_ascii: "list_all ascii_digit (nat_digits n)"
proof (induction n rule: nat_digits.induct)
  case (1 n)
  have "ascii_digit (digit_char d)" if "d < 10" for d
    using less_ten [OF that] by (auto simp: digit_char_def ascii_digit_def)
  with 1 show ?case by (cases "n < 10") (simp_all add: nat_digits.simps [of n])
qed

lemma digits_length: "n < 10 ^ Suc k \<Longrightarrow> length (nat_digits n) \<le> Suc k"
proof (induction k arbitrary: n)
  case (Suc k)
  then have "n div 10 < 10 ^ Suc k" by auto
  from Suc.IH [OF this] show ?case by (simp add: nat_digits.simps [of n])
qed (simp add: nat_digits.simps)

lemma upper_letter:
  assumes "ascii_alpha c"
  shows "\<not> ascii_digit (ascii_upper c)"
proof -
  have table: "list_all (\<lambda>(a, b). \<not> ascii_digit b) upper_table" by (simp add: upper_table_def ascii_digit_def)
  show ?thesis
  proof (cases "map_of upper_table c")
    case None
    with assms show ?thesis by (auto simp: ascii_upper_def ascii_alpha_def ascii_digit_def)
  next
    case (Some u)
    then have "(c, u) \<in> set upper_table" by (rule map_of_SomeD)
    with table Some show ?thesis by (auto simp: ascii_upper_def list_all_iff)
  qed
qed

lemma base_letters: "list_all (\<lambda>c. \<not> ascii_digit c) (base_of c)" "length (base_of c) \<le> 3"
  by (auto simp: base_of_def codeFromName_eq list_all_iff upper_letter dest!: in_set_takeD) (simp_all add: ascii_digit_def)

lemma numbered_parts:
  assumes "list_all (\<lambda>c. \<not> ascii_digit c) b" and "length b \<le> 3" and "n < 100000"
  shows "takeWhile (\<lambda>c. \<not> ascii_digit c) (numbered b n) = b"
    and "dropWhile (\<lambda>c. \<not> ascii_digit c) (numbered b n) = (if n > 0 then Itoa (int n) else [])"
proof -
  have digits: "list_all ascii_digit (Itoa (int n))" "length (Itoa (int n)) \<le> 5"
    using digits_ascii [of n] digits_length [of n 4] assms(3) by (simp_all add: Itoa_def)
  then have "takeWhile (\<lambda>c. \<not> ascii_digit c) (Itoa (int n)) = []"
    "dropWhile (\<lambda>c. \<not> ascii_digit c) (Itoa (int n)) = Itoa (int n)"
    by (cases "Itoa (int n)"; simp)+
  moreover have "numbered b n = b @ (if n > 0 then Itoa (int n) else [])"
    using assms(2) digits(2) by (simp add: numbered_def)
  ultimately show "takeWhile (\<lambda>c. \<not> ascii_digit c) (numbered b n) = b"
    "dropWhile (\<lambda>c. \<not> ascii_digit c) (numbered b n) = (if n > 0 then Itoa (int n) else [])"
    using assms(1) by (auto simp: list_all_iff takeWhile_eq_all_conv dropWhile_eq_Nil_conv)
qed

lemma numbered_inj:
  assumes "list_all (\<lambda>c. \<not> ascii_digit c) a" "length a \<le> 3" "n < 100000"
    and "list_all (\<lambda>c. \<not> ascii_digit c) b" "length b \<le> 3" "m < 100000"
    and "numbered a n = numbered b m"
  shows "a = b \<and> n = m"
proof -
  from numbered_parts [OF assms(1-3)] numbered_parts [OF assms(4-6)] assms(7)
  have "a = b" and eq: "(if n > 0 then Itoa (int n) else []) = (if m > 0 then Itoa (int m) else [])" by simp_all
  have "Itoa (int k) \<noteq> []" "[] \<noteq> Itoa (int k)" for k using hd_nat_digits [of k] by (auto simp: Itoa_def)
  moreover have "int n = int m" if "Itoa (int n) = Itoa (int m)"
    using that by (metis parse_decimal_Itoa option.inject)
  ultimately have "n = m" using eq by (auto split: if_splits)
  with \<open>a = b\<close> show ?thesis by simp
qed

lemma country_codes: "list_all (\<lambda>p. length (snd p) = 2) countryNameToAlpha2"
  unfolding countryNameToAlpha2_def list.pred_inject prod.sel by simp

lemma country_of_length: "length (country_of c) = 2"
proof (cases "map_of countryNameToAlpha2 (tw_Country c)")
  case (Some a)
  then have "(tw_Country c, a) \<in> set countryNameToAlpha2" by (rule map_of_SomeD)
  with country_codes Some show ?thesis by (auto simp: country_of_def list_all_iff)
qed (simp add: country_of_def)

lemma city_id_inj:
  assumes "n < 100000" and "m < 100000" and "city_id (place c) n = city_id (place d) m"
  shows "place c = place d \<and> n = m"
proof -
  from assms(3) have "numbered (base_of c) n @ ''-'' = numbered (base_of d) m @ ''-'' \<and> country_of c = country_of d"
    using country_of_length [of c] country_of_length [of d] by (simp add: city_id_def append_eq_append_conv flip: append_assoc)
  then show ?thesis
    using numbered_inj [OF base_letters [of c] assms(1) base_letters [of d] assms(2)] by simp
qed

lemma ids_distinct:
  assumes "length cs + length before \<le> 100000" and "\<forall>p \<in> set before. \<exists>c. p = place c"
  shows "distinct (ids_of cs before)
    \<and> (\<forall>i \<in> set (ids_of cs before). \<exists>c n. i = city_id (place c) n \<and> count_list before (place c) \<le> n \<and> n < 100000)"
  using assms
proof (induction cs arbitrary: before)
  case (Cons c cs)
  let ?b = "place c # before"
  from Cons.prems have b: "length cs + length ?b \<le> 100000" "\<forall>p \<in> set ?b. \<exists>c. p = place c" by auto
  have n: "count_list before (place c) < 100000"
    using count_le_length [of before "place c"] Cons.prems(1) by simp
  have rest: "\<exists>d n. i = city_id (place d) n \<and> count_list ?b (place d) \<le> n \<and> n < 100000" if "i \<in> set (ids_of cs ?b)" for i
    using Cons.IH [OF b] that by blast
  have "city_id (place c) (count_list before (place c)) \<notin> set (ids_of cs ?b)"
  proof
    assume "city_id (place c) (count_list before (place c)) \<in> set (ids_of cs ?b)"
    from rest [OF this] obtain d m where d: "city_id (place c) (count_list before (place c)) = city_id (place d) m"
      "count_list ?b (place d) \<le> m" "m < 100000" by blast
    with city_id_inj [OF n d(3,1)] show False by (auto split: if_splits)
  qed
  moreover have "\<exists>d m. i = city_id (place d) m \<and> count_list before (place d) \<le> m \<and> m < 100000" if "i \<in> set (ids_of cs ?b)" for i
  proof -
    from rest [OF that] obtain d m where d: "i = city_id (place d) m" "count_list ?b (place d) \<le> m" "m < 100000" by blast
    have "count_list before (place d) \<le> count_list ?b (place d)" by simp
    then have "count_list before (place d) \<le> m" using d(2) by (rule le_trans)
    with d show ?thesis by blast
  qed
  ultimately show ?case using Cons.IH [OF b] n by (auto intro!: exI [of _ c])
qed simp

lemma ids_countries: "i \<in> set (ids_of cs before) \<Longrightarrow> \<exists>c \<in> set cs. \<exists>n. i = city_id (place c) n"
  by (induction cs arbitrary: before) auto

definition ending :: "string \<Rightarrow> string" where
  "ending i = drop (length i - 2) i"

lemma ending_city: "ending (city_id (place c) n) = country_of c"
  by (simp add: ending_def city_id_def country_of_length)

lemma supplement_ids:
  "distinct (map cref_ID supplementalCities)" "list_all (\<lambda>c. ending (cref_ID c) = cref_CountryCode c) supplementalCities"
  "''XX'' \<notin> cref_CountryCode ` set supplementalCities"
  by (simp_all add: supplementalCities_def city_ref_def ending_def)

text \<open>
  The identifiers of the cities are distinct: no two entries of the list share one, as long as the dataset has at most a
  hundred thousand cities, so that the number that tells cities of the same code apart is never cut off, and none of its
  countries is one of the supplement's.
\<close>

theorem city_ids_distinct:
  assumes "length Cities \<le> 100000"
    and "\<forall>c \<in> set Cities. map_of countryNameToAlpha2 (tw_Country c) \<notin> Some ` cref_CountryCode ` set supplementalCities"
  shows "distinct (map cref_ID (LoadCities Cities))"
proof -
  have "distinct (ids_of Cities [])" using ids_distinct [of Cities "[]"] assms(1) by simp
  moreover have "i \<notin> cref_ID ` set supplementalCities" if "i \<in> set (ids_of Cities [])" for i
  proof
    assume "i \<in> cref_ID ` set supplementalCities"
    then obtain s where s: "s \<in> set supplementalCities" "i = cref_ID s" by blast
    from ids_countries [OF that] obtain c n where c: "c \<in> set Cities" "i = city_id (place c) n" by blast
    have "country_of c = cref_CountryCode s"
      using supplement_ids(2) s c(2) ending_city [of c n] by (simp add: list_all_iff)
    with s(1) have "country_of c \<in> cref_CountryCode ` set supplementalCities" by blast
    with assms(2) c(1) supplement_ids(3) show False by (auto simp: country_of_def split: option.splits)
  qed
  ultimately show ?thesis using supplement_ids(1) by (auto simp: LoadCities_def dataset_ids)
qed

text \<open>Two cities of one country whose names begin with the same letters.\<close>

definition sample_cities :: "City list" where
  "sample_cities =
     [\<lparr>tw_Country = ''France'', tw_City = ''Paris'', tw_Latitude = 1, tw_Longitude = 2\<rparr>,
      \<lparr>tw_Country = ''France'', tw_City = ''Parthenay'', tw_Latitude = 3, tw_Longitude = 4\<rparr>]"

theorem city_ids_distinct_witness:
  "map cref_ID (LoadCities sample_cities) = [''PAR-FR'', ''PAR1-FR''] @ map cref_ID supplementalCities
   \<and> distinct (map cref_ID (LoadCities sample_cities))"
proof
  have table: "map_of countryNameToAlpha2 ''France'' = Some ''FR''" by (simp add: countryNameToAlpha2_def)
  have codes: "codeFromName ''Paris'' = ''PAR''" "codeFromName ''Parthenay'' = ''PAR''" by code_simp+
  show "map cref_ID (LoadCities sample_cities) = [''PAR-FR'', ''PAR1-FR''] @ map cref_ID supplementalCities"
    by (simp add: LoadCities_def dataset_ids sample_cities_def country_of_def base_of_def table codes city_id_def numbered_def
        Itoa_def nat_digits.simps digit_char_def)
  have "''FR'' \<notin> cref_CountryCode ` set supplementalCities" by (simp add: supplementalCities_def city_ref_def)
  then show "distinct (map cref_ID (LoadCities sample_cities))"
    by (intro city_ids_distinct) (simp_all add: sample_cities_def table image_iff)
qed

text \<open>A dataset with one of the countries of the supplement would have its identifiers twice.\<close>

lemma supplement_clash:
  assumes "Cities = [\<lparr>tw_Country = ''Uzbekistan'', tw_City = ''Tashkent'', tw_Latitude = x, tw_Longitude = y\<rparr>]"
  shows "\<not> distinct (map cref_ID (LoadCities Cities))"
proof -
  have table: "map_of countryNameToAlpha2 ''Uzbekistan'' = Some ''UZ''" by (simp add: countryNameToAlpha2_def)
  have code: "codeFromName ''Tashkent'' = ''TAS''" by code_simp
  show ?thesis
    by (simp add: assms LoadCities_def dataset_ids country_of_def base_of_def table code city_id_def numbered_def
        supplementalCities_def city_ref_def)
qed

section \<open>The list of countries\<close>

text \<open>Facts of the table: the codes are in normal form, and only Nepal has two names.\<close>

definition normal_code :: "string \<Rightarrow> bool" where
  "normal_code c \<longleftrightarrow> c \<noteq> [] \<and> list_all (\<lambda>x. 65 \<le> byte x \<and> byte x \<le> 90) c"

lemma normal_codes: "list_all (\<lambda>p. normal_code (snd p)) countryNameToAlpha2"
  unfolding countryNameToAlpha2_def list.pred_inject prod.sel by (simp add: normal_code_def)

lemma one_name: "distinct (map snd (filter (\<lambda>p. snd p \<noteq> ''NP'') countryNameToAlpha2))"
  unfolding countryNameToAlpha2_def by simp

lemma names_of_nepal: "map fst (filter (\<lambda>p. snd p = ''NP'') countryNameToAlpha2) = [''Nepa'', ''Nepal'']"
  unfolding countryNameToAlpha2_def by simp

lemma normal_code_fixed:
  assumes "normal_code c"
  shows "ToUpper E (TrimSpace c) = c"
proof -
  from assms have ascii: "is_ascii c" by (force simp: normal_code_def is_ascii_def list_all_iff)
  have "dropWhile ascii_space xs = xs" if "list_all (\<lambda>x. 65 \<le> byte x) xs" for xs
    using that by (cases xs) (auto simp: ascii_space_def)
  from this [of c] this [of "rev c"] assms have trim: "TrimSpace c = c"
    by (auto simp: TrimSpace_ascii [OF ascii] normal_code_def list_all_iff)
  have "ascii_upper x = x" if "x \<in> set c" for x
  proof -
    have "list_all (\<lambda>(a, b). 97 \<le> byte a) upper_table" by (simp add: upper_table_def)
    with that assms have "map_of upper_table x = None"
      by (auto simp: map_of_eq_None_iff normal_code_def list_all_iff) fastforce
    then show ?thesis by (simp add: ascii_upper_def)
  qed
  then have "map ascii_upper c = c" by (simp add: map_idI)
  with ascii trim show ?thesis by (simp add: ToUpper_def)
qed

text \<open>What \<open>init\<close> makes of the entries.\<close>

lemma english_names_fold:
  assumes "distinct (map fst acc)"
  shows "distinct (map fst (fold add_name listed acc))
    \<and> fst ` set (fold add_name listed acc) = fst ` set acc \<union> snd ` set listed
    \<and> set (fold add_name listed acc) \<subseteq> set acc \<union> prod.swap ` set listed"
  using assms
proof (induction listed arbitrary: acc)
  case (Cons p listed)
  obtain name code where p: "p = (name, code)" by fastforce
  have acc: "distinct (map fst (add_name p acc))" "fst ` set (add_name p acc) = insert code (fst ` set acc)"
    "set (add_name p acc) \<subseteq> insert (code, name) (set acc)"
    using Cons.prems by (auto simp: add_name_def p)
  from Cons.IH [OF acc(1)] acc(2,3) show ?case by (auto simp: p)
qed simp

lemma english_names:
  "distinct (map fst (english_names listed))" "fst ` set (english_names listed) = snd ` set listed"
  "set (english_names listed) \<subseteq> prod.swap ` set listed"
  using english_names_fold [of "[]" listed] by (simp_all add: english_names_def)

section \<open>What the list is made of\<close>

definition country :: "string \<times> string \<Rightarrow> CountryRef" where
  "country p = (case map_of countriesByCode (fst p) of
       Some curated \<Rightarrow> curated
     | None \<Rightarrow> \<lparr>cn_Code = fst p, cn_NameRu = None, cn_NameUz = None, cn_NameEn = Some (snd p), cn_NameTr = None,
                cn_NameZh = None\<rparr>)"

lemma curated_codes: "list_all (\<lambda>p. cn_Code (snd p) = fst p) countriesByCode"
  by (simp add: countriesByCode_def country_ref_def)

lemma country_code [simp]: "cn_Code (country p) = fst p"
proof (cases "map_of countriesByCode (fst p)")
  case (Some r)
  then have "(fst p, r) \<in> set countriesByCode" by (rule map_of_SomeD)
  with curated_codes Some show ?thesis by (auto simp: country_def list_all_iff)
qed (simp add: country_def)

lemma add_countries:
  assumes "distinct (map fst listed)" and "fst ` set listed \<inter> set seen = {}" and "\<forall>p \<in> set listed. normal_code (fst p)"
  shows "snd (fold (add_country E) listed (seen, out)) = out @ map country listed"
  using assms
proof (induction listed arbitrary: seen out)
  case (Cons p listed)
  then have "fst p \<noteq> []" "ToUpper E (TrimSpace (fst p)) = fst p" "fst p \<notin> set seen"
    by (auto simp: normal_code_fixed normal_code_def)
  then have step: "add_country E p (seen, out) = (fst p # seen, out @ [country p])"
    by (auto simp: add_country_def country_def case_prod_unfold Let_def split: option.split)
  from Cons.prems have "distinct (map fst listed)" "fst ` set listed \<inter> set (fst p # seen) = {}"
    "\<forall>p \<in> set listed. normal_code (fst p)" by auto
  from Cons.IH [OF this] show ?case by (simp only: fold_simps o_apply step) simp
qed simp

lemma sort_key_unique:
  assumes "distinct (map f xs)" and "distinct (map f ys)" and "set xs = set ys"
  shows "sort_key f xs = sort_key f ys"
proof (rule sort_key_inj_key_eq)
  from assms show "mset xs = mset (sort_key f ys)"
    by (simp add: distinct_map set_eq_iff_mset_eq_distinct)
qed (use assms in \<open>simp_all add: distinct_map\<close>)

lemma listed_entries:
  assumes "mset listed = mset countryNameToAlpha2" and "mset entries = mset (english_names listed)"
  shows "distinct (map fst entries)" and "fst ` set entries = snd ` set countryNameToAlpha2"
    and "set entries \<subseteq> prod.swap ` set countryNameToAlpha2" and "\<forall>p \<in> set entries. normal_code (fst p)"
    and "set (english_names listed) = set entries"
proof -
  from assms have sets: "set listed = set countryNameToAlpha2" "set entries = set (english_names listed)"
    by (metis mset_eq_setD)+
  from assms(2) have "mset (map fst entries) = mset (map fst (english_names listed))" by simp
  then show "distinct (map fst entries)" using english_names(1) by (metis mset_eq_imp_distinct_iff)
  show fsts: "fst ` set entries = snd ` set countryNameToAlpha2"
    and "set entries \<subseteq> prod.swap ` set countryNameToAlpha2" and "set (english_names listed) = set entries"
    using english_names(2,3) [of listed] by (simp_all add: sets)
  from fsts have "fst p \<in> snd ` set countryNameToAlpha2" if "p \<in> set entries" for p using that by blast
  then show "\<forall>p \<in> set entries. normal_code (fst p)" using normal_codes by (fastforce simp: list_all_iff)
qed

lemma name_unique:
  assumes "(n, c) \<in> set countryNameToAlpha2" and "(m, c) \<in> set countryNameToAlpha2" and "c \<noteq> ''NP''"
  shows "n = m"
proof -
  have "inj_on snd (set (filter (\<lambda>p. snd p \<noteq> ''NP'') countryNameToAlpha2))"
    using one_name by (simp add: distinct_map)
  from inj_onD [OF this, of "(n, c)" "(m, c)"] assms show ?thesis by simp
qed

lemma CountriesAll_eq:
  assumes "mset listed = mset countryNameToAlpha2" and "mset entries = mset (english_names listed)"
  shows "CountriesAll E entries = sort_key cn_Code (map country entries)"
  using add_countries [of entries "[]" E "[]"] listed_entries [OF assms] by (simp add: CountriesAll_def)

lemma entries_determined:
  assumes "mset listed = mset countryNameToAlpha2" and "mset entries = mset (english_names listed)"
    and "mset listed' = mset countryNameToAlpha2" and "mset entries' = mset (english_names listed')"
    and "p \<in> set entries" and "fst p \<noteq> ''NP''"
  shows "p \<in> set entries'"
proof -
  note 1 = listed_entries [OF assms(1,2)] and 2 = listed_entries [OF assms(3,4)]
  have "fst p \<in> fst ` set entries'" using 1(2) 2(2) assms(5) by blast
  then obtain q where q: "q \<in> set entries'" "fst q = fst p" by auto
  have "(snd p, fst p) \<in> set countryNameToAlpha2" "(snd q, fst p) \<in> set countryNameToAlpha2"
    using 1(3) 2(3) assms(5) q by auto
  from name_unique [OF this assms(6)] q show ?thesis by (metis prod.collapse)
qed

lemma name_of_nepal:
  assumes "mset listed = mset countryNameToAlpha2"
  shows "CountryName E (english_names listed) ''NP'' lang \<in> {''Nepa'', ''Nepal''}"
proof -
  note es = listed_entries [OF assms refl]
  have "''NP'' \<in> fst ` set (english_names listed)" unfolding es(2) by (simp add: countryNameToAlpha2_def)
  then obtain en where en: "map_of (english_names listed) ''NP'' = Some en"
    by (metis map_of_eq_None_iff not_None_eq)
  then have "(en, ''NP'') \<in> set countryNameToAlpha2" using es(3) by (auto dest!: map_of_SomeD)
  then have "en \<in> set (map fst (filter (\<lambda>p. snd p = ''NP'') countryNameToAlpha2))" by force
  then have "en = ''Nepa'' \<or> en = ''Nepal''" unfolding names_of_nepal by simp
  moreover have "TrimSpace ''Nepa'' \<noteq> []" "TrimSpace ''Nepal'' \<noteq> []" by code_simp+
  moreover have "ToUpper E (TrimSpace ''NP'') = ''NP''" by (rule normal_code_fixed) (simp add: normal_code_def)
  moreover have "map_of countriesByCode ''NP'' = None" by (simp add: countriesByCode_def)
  ultimately show ?thesis using en by (auto simp: CountryName_def Let_def)
qed

text \<open>
  C35: the list of countries is the same however Go lists its maps, but for one name. Whatever order \<open>init\<close> and \<open>CountriesAll\<close> meet
  the entries in, the codes come out sorted and without repetition, and they are the codes of the table; every country but Nepal
  comes with the same names; and Nepal is called Nepa or Nepal, whichever \<open>init\<close> met first.
\<close>

theorem country_list_determined:
  assumes "mset listed = mset countryNameToAlpha2" and "mset entries = mset (english_names listed)"
    and "mset listed' = mset countryNameToAlpha2" and "mset entries' = mset (english_names listed')"
  shows "map cn_Code (CountriesAll E entries) = sorted_list_of_set (snd ` set countryNameToAlpha2)
    \<and> filter (\<lambda>r. cn_Code r \<noteq> ''NP'') (CountriesAll E entries) = filter (\<lambda>r. cn_Code r \<noteq> ''NP'') (CountriesAll E entries')
    \<and> CountryName E (english_names listed) ''NP'' lang \<in> {''Nepa'', ''Nepal''}"
proof (intro conjI)
  note 1 = listed_entries [OF assms(1,2)] and 2 = listed_entries [OF assms(3,4)]
  let ?C = "CountriesAll E entries"
  note C = CountriesAll_eq [OF assms(1,2)] and D = CountriesAll_eq [OF assms(3,4)]
  have codes: "map cn_Code (map country es) = map fst es" for es by simp
  have "mset (map cn_Code ?C) = mset (map fst entries)" unfolding C by (simp add: multiset.map_comp o_def)
  then have "distinct (map cn_Code ?C)" "set (map cn_Code ?C) = snd ` set countryNameToAlpha2"
    using 1(1,2) by (metis mset_eq_imp_distinct_iff, metis mset_eq_setD set_map)
  moreover have "sorted (map cn_Code ?C)" unfolding C by (rule sorted_sort_key)
  ultimately show "map cn_Code ?C = sorted_list_of_set (snd ` set countryNameToAlpha2)"
    by (metis sorted_list_of_set.idem_if_sorted_distinct)
  let ?P = "\<lambda>r. cn_Code r \<noteq> ''NP''"
  have "sort_key cn_Code (filter ?P (map country entries)) = sort_key cn_Code (filter ?P (map country entries'))"
  proof (rule sort_key_unique)
    have "distinct (map cn_Code (filter ?P (map country es)))" if "distinct (map fst es)" for es
      using that by (simp add: filter_map o_def distinct_map_filter)
    then show "distinct (map cn_Code (filter ?P (map country entries)))" "distinct (map cn_Code (filter ?P (map country entries')))"
      using 1(1) 2(1) by blast+
    show "set (filter ?P (map country entries)) = set (filter ?P (map country entries'))"
      using entries_determined [OF assms] entries_determined [OF assms(3,4,1,2)] by auto
  qed
  then show "filter ?P ?C = filter ?P (CountriesAll E entries')" unfolding C D by (simp only: filter_sort)
  show "CountryName E (english_names listed) ''NP'' lang \<in> {''Nepa'', ''Nepal''}" by (rule name_of_nepal [OF assms(1)])
qed

theorem country_list_determined_witness:
  "filter (\<lambda>r. cn_Code r \<noteq> ''NP'') (CountriesAll sample_ext (english_names countryNameToAlpha2))
     = filter (\<lambda>r. cn_Code r \<noteq> ''NP'') (CountriesAll sample_ext (rev (english_names (rev countryNameToAlpha2))))"
  using country_list_determined [OF refl refl, of "rev countryNameToAlpha2" "rev (english_names (rev countryNameToAlpha2))"] by simp

text \<open>Both names come about: the one of an order that meets Nepa first, the other of an order that meets Nepal first.\<close>

lemma nepal_either_way:
  shows "map_of (english_names [(''Nepa'', ''NP''), (''Nepal'', ''NP'')]) ''NP'' = Some ''Nepa''"
    and "map_of (english_names [(''Nepal'', ''NP''), (''Nepa'', ''NP'')]) ''NP'' = Some ''Nepal''"
  by (simp_all add: english_names_def add_name_def)

end
