(* ===== verification/Reference_Guarantees.thy ===== *)
theory Reference_Guarantees
  imports Reference_Lists Places_Guarantees Answers
begin

text \<open>
  The reference lists agree with what the program accepts and are in the language of the request; the search in the countries
  puts the country whose code is asked for first.
\<close>

section \<open>Labels\<close>

text \<open>Every item carries the text of the table for its section and value in the language.\<close>

definition in_table :: "string \<Rightarrow> string \<Rightarrow> ItemWithLabel list \<Rightarrow> bool" where
  "in_table sect lang is \<longleftrightarrow> list_all (\<lambda>i. \<exists>m. map_of refLabels (sect @ ''.'' @ iw_Value i) = Some m
     \<and> map_of m lang = Some (iw_Label i) \<and> iw_Label i \<noteq> []) is"

text \<open>Values in normal form.\<close>

definition plain :: "string \<Rightarrow> bool" where
  "plain v \<longleftrightarrow> is_ascii v \<and> TrimSpace v = v \<and> map ascii_upper v = v"

lemma plain_upper: "plain v \<Longrightarrow> ToUpper E (TrimSpace v) = v"
  by (simp add: plain_def ToUpper_def)

lemma refLang_LangFromContext: "refLang E h = LangFromContext E h"
  by (simp add: refLang_def LangFromContext_def languages_def Let_def)

lemma refLang_language [simp]: "refLang E h \<in> set languages"
  by (simp add: refLang_LangFromContext request_language)

lemma text_in_SomeD: "text_in m l = Some s \<Longrightarrow> map_of m l = Some s"
  by (auto simp: text_in_def split: option.splits if_splits)

lemma RefLabel_text:
  assumes "plain v" and "sect \<noteq> []" and "labelled (sect @ ''.'' @ v)" and "lang \<in> set languages"
  shows "\<exists>m. map_of refLabels (sect @ ''.'' @ v) = Some m \<and> map_of m lang = Some (RefLabel E sect v lang)
    \<and> RefLabel E sect v lang \<noteq> []"
proof -
  obtain m s where m: "map_of refLabels (sect @ ''.'' @ v) = Some m" "text_in m lang = Some s" "s \<noteq> []"
      "\<And>w. in_language m lang w = s"
    using label_text [OF assms(3,4)] by metis
  have "sect @ ''.'' @ v \<noteq> ''.''" using assms(2) by (cases sect) auto
  with assms(1,4) m have "RefLabel E sect v lang = s"
    by (simp add: RefLabel_def label_key_def plain_upper language_normal Let_def)
  with m show ?thesis by (auto dest: text_in_SomeD)
qed

lemma CargoStatusDescription_text:
  assumes "plain v" and "labelled (''cargo.cargo_status_desc'' @ ''.'' @ v)" and "lang \<in> set languages"
  shows "CargoStatusDescription E v lang \<noteq> []"
proof -
  obtain m s where m: "map_of refLabels (''cargo.cargo_status_desc'' @ ''.'' @ v) = Some m" "s \<noteq> []"
      "\<And>w. in_language m lang w = s"
    using label_text [OF assms(2,3)] by metis
  have "label_key E ''cargo.cargo_status_desc'' v = ''cargo.cargo_status_desc'' @ ''.'' @ v"
    by (simp only: label_key_def plain_upper [OF assms(1)])
  with m assms(3) show ?thesis by (simp only: CargoStatusDescription_def language_normal option.simps) simp
qed

lemma in_table_items:
  assumes "list_all plain vs" and "sect \<noteq> []" and "list_all (\<lambda>v. labelled (sect @ ''.'' @ v)) vs" and "lang \<in> set languages"
  shows "in_table sect lang (labelled_items E sect lang vs)"
  using assms RefLabel_text [OF _ assms(2) _ assms(4)] by (auto simp: in_table_def labelled_items_def list_all_iff)

text \<open>The cargo statuses come with a description as well.\<close>

definition described_in_table :: "string \<Rightarrow> ItemWithLabelAndDescription list \<Rightarrow> bool" where
  "described_in_table lang is \<longleftrightarrow> in_table ''cargo.cargo_status'' lang (map (\<lambda>i. \<lparr>iw_Value = ix_Value i, iw_Label = ix_Label i\<rparr>) is)
     \<and> list_all (\<lambda>i. ix_Description i \<noteq> []) is"

lemma localized_items:
  assumes "list_all (\<lambda>i. plain (Value i)) items"
  shows "refItemsToItemWithLabelLocalized E items sect lang = labelled_items E sect lang (map Value items)"
proof -
  have "ToUpper E (TrimSpace (Value i)) = Value i" "TrimSpace (Value i) = Value i" if "i \<in> set items" for i
    using assms that by (auto simp: list_all_iff plain_upper) (simp add: plain_def)
  then show ?thesis by (simp add: refItemsToItemWithLabelLocalized_def labelled_items_def Let_def cong: map_cong)
qed

lemma items_values [simp]: "map iw_Value (labelled_items E sect lang vs) = vs"
  by (simp add: labelled_items_def o_def)

lemma term_values:
  "map Value ShipmentTypeRefs = [''FTL'', ''LTL'', ''PACKAGE'', ''OTHER'']"
  "map Value CurrencyRefs = [''USD'', ''UZS'', ''EUR'', ''RUB'', ''KZT'', ''AED'', ''OTHER'']"
  "map Value PrepaymentTypeRefs = [''BANK_TRANSFER'', ''CASH'', ''CARD'', ''INVOICE'', ''OTHER'']"
  "map Value RemainingTypeRefs = [''ON_DELIVERY'', ''AFTER_INVOICE'', ''CASH'', ''DEFERRED'', ''OTHER'']"
  "map Value LoadingTypeRefs = [''TOP'', ''SIDE'', ''REAR'', ''CRANE'', ''FORKLIFT'', ''OTHER'']"
  by (simp_all add: ShipmentTypeRefs_def CurrencyRefs_def PrepaymentTypeRefs_def RemainingTypeRefs_def LoadingTypeRefs_def)

lemmas plain_eval = plain_def code_eval

lemma localized_terms:
  assumes "map Value items = vs" and "list_all plain vs"
  shows "refItemsToItemWithLabelLocalized E items sect lang = labelled_items E sect lang vs"
  using localized_items [of items E sect lang] assms by (auto simp: list_all_iff)

lemma cargo_terms:
  "rg_ShipmentType (reference_cargo E lang) = labelled_items E ''cargo.shipment_type'' lang (AllowedShipmentTypes E)"
  "rg_Currency (reference_cargo E lang) = labelled_items E ''cargo.currency'' lang (AllowedCurrencies E)"
  "rg_PrepaymentType (reference_cargo E lang) = labelled_items E ''cargo.prepayment_type'' lang (AllowedPrepaymentTypes E)"
  "rg_RemainingType (reference_cargo E lang) = labelled_items E ''cargo.remaining_type'' lang (AllowedRemainingTypes E)"
  "rg_LoadingType (reference_cargo E lang) = labelled_items E ''cargo.loading_type'' lang (AllowedLoadingTypes E)"
  "rg_RoutePointType (reference_cargo E lang) = labelled_items E ''cargo.route_point_type'' lang (AllowedRoutePointTypes E)"
  "rg_TruckType (reference_cargo E lang) = labelled_items E ''cargo.truck_type'' lang (AllowedTruckTypes E)"
  unfolding allowed_eqs
  by (simp_all add: reference_cargo_def localized_terms [OF term_values(1)] localized_terms [OF term_values(2)]
      localized_terms [OF term_values(3)] localized_terms [OF term_values(4)] localized_terms [OF term_values(5)] plain_eval)

lemma cargo_records:
  "rg_OfferStatus (reference_cargo E lang) = labelled_items E ''cargo.offer_status'' lang [''PENDING'', ''ACCEPTED'', ''REJECTED'']"
  "rg_TripStatus (reference_cargo E lang) = labelled_items E ''cargo.trip_status'' lang
     [''PENDING_DRIVER'', ''ASSIGNED'', ''LOADING'', ''EN_ROUTE'', ''UNLOADING'', ''COMPLETED'', ''CANCELLED'']"
  "rg_CreatedByType (reference_cargo E lang) = labelled_items E ''cargo.created_by_type'' lang [''ADMIN'', ''DISPATCHER'', ''COMPANY'']"
  by (simp_all add: reference_cargo_def)

lemma cargo_items:
  assumes "lang \<in> set languages"
  shows "in_table ''cargo.route_point_type'' lang (rg_RoutePointType (reference_cargo E lang))"
    and "in_table ''cargo.truck_type'' lang (rg_TruckType (reference_cargo E lang))"
    and "in_table ''cargo.shipment_type'' lang (rg_ShipmentType (reference_cargo E lang))"
    and "in_table ''cargo.currency'' lang (rg_Currency (reference_cargo E lang))"
    and "in_table ''cargo.prepayment_type'' lang (rg_PrepaymentType (reference_cargo E lang))"
    and "in_table ''cargo.remaining_type'' lang (rg_RemainingType (reference_cargo E lang))"
    and "in_table ''cargo.loading_type'' lang (rg_LoadingType (reference_cargo E lang))"
    and "in_table ''cargo.offer_status'' lang (rg_OfferStatus (reference_cargo E lang))"
    and "in_table ''cargo.trip_status'' lang (rg_TripStatus (reference_cargo E lang))"
    and "in_table ''cargo.created_by_type'' lang (rg_CreatedByType (reference_cargo E lang))"
  unfolding cargo_terms cargo_records allowed_eqs
  by ((rule in_table_items; simp add: plain_eval assms)+)

lemma cargo_statuses:
  assumes "lang \<in> set languages"
  shows "described_in_table lang (rg_CargoStatus (reference_cargo E lang))"
proof -
  let ?vs = "map ix_Value (rg_CargoStatus (reference_cargo E lang))"
  have vs: "list_all plain ?vs" "list_all (\<lambda>v. labelled (''cargo.cargo_status'' @ ''.'' @ v)) ?vs"
    "list_all (\<lambda>v. labelled (''cargo.cargo_status_desc'' @ ''.'' @ v)) ?vs"
    by (simp_all add: reference_cargo_def plain_eval)
  have items: "map (\<lambda>i. \<lparr>iw_Value = ix_Value i, iw_Label = ix_Label i\<rparr>) (rg_CargoStatus (reference_cargo E lang))
      = labelled_items E ''cargo.cargo_status'' lang ?vs"
    by (simp add: reference_cargo_def labelled_items_def)
  have "ix_Description i = CargoStatusDescription E (ix_Value i) lang" if "i \<in> set (rg_CargoStatus (reference_cargo E lang))" for i
    using that by (auto simp: reference_cargo_def)
  moreover have "CargoStatusDescription E v lang \<noteq> []" if "v \<in> set ?vs" for v
    using vs(1,3) that CargoStatusDescription_text [OF _ _ assms] unfolding list_all_iff by blast
  ultimately have "list_all (\<lambda>i. ix_Description i \<noteq> []) (rg_CargoStatus (reference_cargo E lang))"
    unfolding list_all_iff by simp
  with in_table_items [OF vs(1) _ vs(2) assms] show ?thesis unfolding described_in_table_def items by simp
qed


section \<open>The search in the countries\<close>

text \<open>Letters: there are 26 of them in either case, none is a mark, and the cases correspond.\<close>

definition letter_pairs :: "(char \<times> char) list" where
  "letter_pairs = zip ''ABCDEFGHIJKLMNOPQRSTUVWXYZ'' ''abcdefghijklmnopqrstuvwxyz''"

lemma letter_table:
  "list_all (\<lambda>(u, l). ascii_upper l = u \<and> ascii_upper u = u \<and> ascii_lower u = l \<and> ascii_lower l = l
     \<and> \<not> ascii_space u \<and> \<not> ascii_space l \<and> 97 \<le> byte l \<and> byte l \<le> 122) letter_pairs"
  by code_simp

lemma letter_facts:
  assumes "(u, l) \<in> set letter_pairs"
  shows "ascii_upper l = u" "ascii_upper u = u" "ascii_lower u = l" "ascii_lower l = l" "\<not> ascii_space u" "\<not> ascii_space l"
    "97 \<le> byte l \<and> byte l \<le> 122"
  using letter_table assms unfolding list_all_iff by fast+

lemma marks_no_letters: "list_all (\<lambda>m. m \<noteq> [] \<and> \<not> (97 \<le> byte (hd m) \<and> byte (hd m) \<le> 122)) search_marks"
  by (simp add: search_marks_def utf8_def encode_runes_def encode_rune_def)

lemma upper_case:
  assumes "65 \<le> byte c" and "byte c \<le> 90"
  obtains l where "(c, l) \<in> set letter_pairs"
proof -
  have "byte c \<in> byte ` set (map fst letter_pairs)"
  proof -
    have "\<forall>n \<in> {65..90}. n \<in> byte ` set (map fst letter_pairs)" by code_simp
    with assms show ?thesis by simp
  qed
  then have "c \<in> set (map fst letter_pairs)" by (auto simp: inj_eq [OF inj_of_char] simp del: set_map) 
  then show thesis using that by auto
qed

lemma of_upper_letter:
  assumes "65 \<le> byte (ascii_upper c)" and "byte (ascii_upper c) \<le> 90"
  obtains l where "(ascii_upper c, l) \<in> set letter_pairs" and "c = ascii_upper c \<or> c = l"
proof -
  obtain l where l: "(ascii_upper c, l) \<in> set letter_pairs" using upper_case [OF assms] by blast
  show thesis
  proof (cases "map_of upper_table c")
    case (Some u)
    then have "(c, u) \<in> set upper_table" by (rule map_of_SomeD)
    moreover have "\<forall>(a, b) \<in> set upper_table. \<forall>(u, l) \<in> set letter_pairs. u = b \<longrightarrow> a = l" by code_simp
    ultimately have "c = l" using l Some by (fastforce simp: ascii_upper_def)
    with l that show ?thesis by blast
  qed (use l that in \<open>simp add: ascii_upper_def\<close>)
qed

lemma without_marks_letters:
  assumes "list_all (\<lambda>c. \<exists>u. (u, c) \<in> set letter_pairs) s"
  shows "without_marks s = s"
  using assms
proof (induction s)
  case (Cons c cs)
  then obtain u where "(u, c) \<in> set letter_pairs" by auto
  then have "list_all (\<lambda>m. m \<noteq> [] \<and> hd m \<noteq> c) search_marks"
    using marks_no_letters letter_facts(7) unfolding list_all_iff by metis
  then have "find (\<lambda>m. prefix m (c # cs)) search_marks = None"
    by (auto simp: find_None_iff list_all_iff prefix_def) (metis hd_append list.sel(1))
  with Cons show ?case by simp
qed simp

text \<open>A text in either case whose upper case is the code of a country.\<close>

lemma code_in_any_case:
  assumes "is_ascii q" and "map ascii_upper q = code" and "normal_code code"
  shows "TrimSpace q = q" and "map ascii_lower q = map ascii_lower code" and "q \<noteq> []"
    and "list_all (\<lambda>c. \<exists>u. (u, c) \<in> set letter_pairs) (map ascii_lower q)"
proof -
  have each: "\<not> ascii_space c \<and> ascii_lower c = ascii_lower (ascii_upper c) \<and> (\<exists>u. (u, ascii_lower c) \<in> set letter_pairs)"
    if "c \<in> set q" for c
  proof -
    from that assms(2,3) have "65 \<le> byte (ascii_upper c)" "byte (ascii_upper c) \<le> 90"
      by (auto simp: normal_code_def list_all_iff)
    then obtain l where l: "(ascii_upper c, l) \<in> set letter_pairs" "c = ascii_upper c \<or> c = l"
      by (rule of_upper_letter)
    with letter_facts [OF l(1)] show ?thesis by metis
  qed
  have "dropWhile ascii_space xs = xs" if "\<forall>x \<in> set xs. \<not> ascii_space x" for xs
    using that by (cases xs) auto
  from this [of q] this [of "rev q"] each show "TrimSpace q = q" by (simp add: TrimSpace_ascii [OF assms(1)])
  from each show "list_all (\<lambda>c. \<exists>u. (u, c) \<in> set letter_pairs) (map ascii_lower q)"
    unfolding list_all_iff set_map by blast
  have "map ascii_lower q = map (ascii_lower \<circ> ascii_upper) q" by (rule map_cong) (use each in auto)
  then show "map ascii_lower q = map ascii_lower code" by (simp flip: assms(2))
  from assms(2,3) show "q \<noteq> []" by (auto simp: normal_code_def)
qed

lemma norm_code:
  assumes "is_ascii q" and "map ascii_upper q = code" and "normal_code code"
  shows "normRefSearch E q = map ascii_lower code"
  using code_in_any_case [OF assms] assms(1) by (simp add: normRefSearch_def ToLower_def without_marks_letters)

lemma normal_code_upper:
  assumes "normal_code code"
  shows "is_ascii code" and "map ascii_upper code = code"
proof -
  from assms show "is_ascii code" by (force simp: normal_code_def is_ascii_def list_all_iff)
  have "ascii_upper c = c" if "c \<in> set code" for c
  proof -
    from that assms obtain l where "(c, l) \<in> set letter_pairs"
      by (auto simp: normal_code_def list_all_iff intro: upper_case)
    then show ?thesis by (rule letter_facts)
  qed
  then show "map ascii_upper code = code" by (simp add: map_idI)
qed

lemma lower_code_inj:
  assumes "normal_code a" and "normal_code b" and "map ascii_lower a = map ascii_lower b"
  shows "a = b"
proof -
  have "map ascii_upper (map ascii_lower c) = c" if "normal_code c" for c
  proof -
    have "ascii_upper (ascii_lower x) = x" if "x \<in> set c" for x
    proof -
      from that \<open>normal_code c\<close> obtain l where "(x, l) \<in> set letter_pairs"
        by (auto simp: normal_code_def list_all_iff intro: upper_case)
      with letter_facts show ?thesis by simp
    qed
    then show ?thesis by (simp add: map_idI)
  qed
  with assms show ?thesis by metis
qed

text \<open>Only a field that equals the text searched for and counts for a code ranks first.\<close>

lemma consider_positive:
  "best > 0 \<Longrightarrow> \<forall>(field, base) \<in> set fs. base = 0 \<longrightarrow> field \<noteq> qN \<Longrightarrow> fold (consider_field qN) fs best > 0"
proof (induction fs arbitrary: best)
  case (Cons f fs)
  have "consider_field qN f best > 0" using Cons.prems by (auto simp: consider_field_def split: prod.splits)
  with Cons show ?case by simp
qed simp

lemma country_rank_first:
  assumes "is_ascii q" and "map ascii_upper q = code" and "normal_code code" and "normal_code other"
  shows "country_rank E c2n q other = 0 \<longleftrightarrow> other = code"
proof -
  have q: "normRefSearch E q = map ascii_lower code" by (rule norm_code [OF assms(1-3)])
  have "normRefSearch E other = map ascii_lower other" by (rule norm_code [OF normal_code_upper assms(4)]) (rule assms(4))+
  with lower_code_inj [OF assms(4,3)] have "other \<noteq> code \<Longrightarrow> normRefSearch E other \<noteq> normRefSearch E q" using q by auto
  then have "other \<noteq> code \<Longrightarrow> fold (consider_field (normRefSearch E q))
      ((normRefSearch E other, 0) # map (\<lambda>n. (n, 1)) (names_of E c2n other)) 9 > 0"
    by (intro consider_positive) auto
  then show ?thesis using assms(1,2) by (auto simp: country_rank_def Let_def ToUpper_def simp del: fold_simps)
qed

lemma sort_key_first:
  fixes f :: "'a \<Rightarrow> 'b::linorder"
  assumes "x \<in> set xs" and "\<And>y. y \<in> set xs \<Longrightarrow> y = x \<or> f x < f y"
  obtains ys where "sort_key f xs = x # ys"
proof (cases "sort_key f xs")
  case Nil
  with assms(1) show thesis by (metis empty_iff list.set(1) set_sort)
next
  case (Cons y ys)
  have "sorted (map f (sort_key f xs))" by (rule sorted_sort_key)
  moreover have x: "x \<in> set (y # ys)" and y: "y \<in> set xs" using assms(1) Cons by (metis set_sort, metis list.set_intros(1) set_sort)
  ultimately have "f y \<le> f x" using Cons by auto
  with assms(2) [OF y] Cons that show thesis by auto
qed

text \<open>
  C34: a country is found by its code. Whatever the case of its letters and the blanks around it, a search for the code of a country
  answers with that country first, under its name in the language of the request, whatever the order in which Go lists its maps
  and however many other countries have the letters in their names.
\<close>

theorem country_found_by_code:
  assumes "mset listed = mset countryNameToAlpha2" and "mset entries = mset (english_names listed)"
    and "ToLower E (TrimSpace h) \<in> set languages" and "is_ascii (TrimSpace q)" and "ToUpper E (TrimSpace q) = code"
    and "code \<in> snd ` set countryNameToAlpha2"
  shows "\<exists>others. GetReferenceCountries E (english_names listed) entries h q = OKLang ''ok'' (JObj [(''items'', JList
    (JObj [(''code'', JStr code), (''name'', JStr (CountryName E (english_names listed) code (ToLower E (TrimSpace h))))] # others))])"
proof -
  let ?c2n = "english_names listed" and ?lang = "ToLower E (TrimSpace h)" and ?q = "TrimSpace q"
  let ?item = "\<lambda>c. \<lparr>co_ItemCode = c, co_ItemName = CountryName E ?c2n c ?lang\<rparr>"
  have normal: "normal_code c" if "c \<in> snd ` set countryNameToAlpha2" for c
    using normal_codes that by (auto simp: list_all_iff)
  have upper: "map ascii_upper ?q = code" using assms(4,5) by (simp add: ToUpper_def)
  note any_case = code_in_any_case [OF assms(4) upper normal [OF assms(6)]]
  let ?found = "filter (\<lambda>cc. country_matches E ?c2n ?q (cn_Code cc)) (CountriesAll E entries)"
  let ?items = "map (\<lambda>cc. ?item (cn_Code cc)) ?found"
  let ?key = "\<lambda>i. (country_rank E ?c2n ?q (co_ItemCode i), co_ItemCode i, co_ItemName i)"
  have codes: "cn_Code ` set (CountriesAll E entries) = snd ` set countryNameToAlpha2"
    unfolding CountriesAll_eq [OF assms(1,2)] listed_entries(2) [OF assms(1,2), symmetric] by (simp add: image_image)
  obtain cc where cc: "cc \<in> set (CountriesAll E entries)" "cn_Code cc = code" using codes assms(6) by (metis imageE)
  then have "cc \<in> set ?found" using assms(5) by (simp add: country_matches_def Let_def)
  then have "?item code \<in> set ?items" using cc(2) by auto
  moreover have "i = ?item code \<or> ?key (?item code) < ?key i" if "i \<in> set ?items" for i
  proof -
    from that obtain x where x: "i = ?item (cn_Code x)" "x \<in> set (CountriesAll E entries)" by auto
    then have "cn_Code x \<in> snd ` set countryNameToAlpha2" unfolding codes [symmetric] by simp
    with x(1) obtain c where c: "i = ?item c" "c \<in> snd ` set countryNameToAlpha2" by blast
    show ?thesis
      using country_rank_first [OF assms(4) upper normal [OF assms(6)] normal [OF c(2)], of E ?c2n]
        country_rank_first [OF assms(4) upper normal [OF assms(6)] normal [OF assms(6)], of E ?c2n]
      by (auto simp: c(1) less_prod_def)
  qed
  ultimately obtain rest where "sort_key ?key ?items = ?item code # rest" by (rule sort_key_first)
  moreover have "ToLower E ?q \<noteq> []" using any_case(3) assms(4) by (simp add: ToLower_def)
  ultimately have "searched_countries E ?c2n entries ?lang ?q = ?item code # rest"
    by (simp add: searched_countries_def Let_def)
  moreover have "search_language E h = Inr ?lang" using assms(3) by (auto simp: search_language_def languages_def Let_def)
  ultimately show ?thesis by (simp add: GetReferenceCountries_def OKLang_def)
qed

theorem country_found_by_code_witness:
  "\<exists>others. GetReferenceCountries sample_ext (english_names countryNameToAlpha2) (rev (english_names countryNameToAlpha2)) ''en'' '' In ''
     = OKLang ''ok'' (JObj [(''items'', JList (JObj [(''code'', JStr ''IN''),
         (''name'', JStr (CountryName sample_ext (english_names countryNameToAlpha2) ''IN'' ''en''))] # others))])"
proof -
  have "ToLower sample_ext (TrimSpace ''en'') = ''en''" "TrimSpace '' In '' = ''In''" "is_ascii ''In''"
    "ToUpper sample_ext ''In'' = ''IN''" by code_simp+
  moreover have "''IN'' \<in> snd ` set countryNameToAlpha2" by (simp add: countryNameToAlpha2_def)
  ultimately show ?thesis
    using country_found_by_code [of countryNameToAlpha2 "rev (english_names countryNameToAlpha2)" sample_ext "''en''" "'' In ''" "''IN''"]
    by (simp add: languages_def)
qed

end
