(* ===== verification/Bootstrap.thy ===== *)
theory Bootstrap
  imports Config
begin

text \<open>
  The schema at the start of the server: the bootstrap of \<open>internal/infra\<close>, which creates the tables that are missing and
  adds the columns that are missing before the server serves, and the files of \<open>migrations\<close> that deal with the table \<open>drivers\<close>
  and its archive, which run before it. A catalog says which tables, columns, constraints and indexes there are; of the rows
  only whether they satisfy a constraint matters, which is the argument \<open>fits\<close>. A lost connection is left out.
\<close>

section \<open>Catalogs\<close>

text \<open>A column: its name, its type, \<open>NOT NULL\<close>, its default (a text without its quotes).\<close>

type_synonym column = "string \<times> string \<times> bool \<times> string option"

abbreviation nul :: "string \<Rightarrow> string \<Rightarrow> column" where "nul n t \<equiv> (n, t, False, None)"
abbreviation req :: "string \<Rightarrow> string \<Rightarrow> column" where "req n t \<equiv> (n, t, True, None)"
abbreviation dflt :: "string \<Rightarrow> string \<Rightarrow> string \<Rightarrow> column" where "dflt n t d \<equiv> (n, t, True, Some d)"

record catalog =
  has_uuid :: bool
  tables :: "string \<Rightarrow> column list option"
  constraints :: "string set"
  indexes :: "string set"

definition no_tables :: catalog where
  "no_tables = \<lparr>has_uuid = False, tables = Map.empty, constraints = {}, indexes = {}\<rparr>"

text \<open>
  The statements. Those that PostgreSQL is told to skip when there is nothing to do: \<open>CREATE .. IF NOT EXISTS\<close> (with the names of
  the constraints, PostgreSQL's where the statement gives none, and the tables referred to), \<open>ADD COLUMN IF NOT EXISTS\<close>,
  \<open>DROP COLUMN IF EXISTS\<close>; and the ones inside \<open>DO\<close> blocks behind an \<open>IF\<close> on \<open>pg_constraint\<close>, \<open>to_regclass\<close> or
  \<open>information_schema.columns\<close>.
\<close>

datatype ddl =
    Create_extension
  | Create_table string "column list" "string list" "string list"
  | Create_table_like string string
  | Add_columns string "column list"
  | Drop_columns string "string list"
  | Rename_column string string string
  | Add_constraint string string "string list" "(string \<times> string) option"
  | Drop_constraint string string
  | Create_index bool string string "string list"
  | Unless_constraint string ddl
  | When_constraint string ddl
  | When_table string ddl
  | When_column string string "ddl list"
  | When_renamable string string string ddl

abbreviation column_names :: "column list \<Rightarrow> string list" where "column_names \<equiv> map fst"

definition add_column :: "column \<Rightarrow> column list \<Rightarrow> column list" where
  "add_column col cols = (if fst col \<in> set (column_names cols) then cols else cols @ [col])"

definition add_columns :: "column list \<Rightarrow> column list \<Rightarrow> column list" where
  "add_columns new cols = fold add_column new cols"

definition drop_columns :: "string list \<Rightarrow> column list \<Rightarrow> column list" where
  "drop_columns ns cols = filter (\<lambda>col. fst col \<notin> set ns) cols"

definition has_column :: "catalog \<Rightarrow> string \<Rightarrow> string \<Rightarrow> bool" where
  "has_column c t n = (case tables c t of None \<Rightarrow> False | Some cols \<Rightarrow> n \<in> set (column_names cols))"

definition set_table :: "string \<Rightarrow> column list \<Rightarrow> catalog \<Rightarrow> catalog" where
  "set_table t cols c = c\<lparr>tables := (tables c)(t \<mapsto> cols)\<rparr>"

definition no_relation :: "string \<Rightarrow> string" where
  "no_relation t = ''relation '' @ t @ '' does not exist''"

definition alter :: "string \<Rightarrow> (column list \<Rightarrow> column list) \<Rightarrow> catalog \<Rightarrow> string + catalog" where
  "alter t f c = (case tables c t of None \<Rightarrow> Inl (no_relation t) | Some cols \<Rightarrow> Inr (set_table t (f cols) c))"

fun exec_ddl :: "(string \<Rightarrow> bool) \<Rightarrow> ddl \<Rightarrow> catalog \<Rightarrow> string + catalog"
  and exec_all :: "(string \<Rightarrow> bool) \<Rightarrow> ddl list \<Rightarrow> catalog \<Rightarrow> string + catalog" where
  "exec_ddl fits Create_extension c = Inr (c\<lparr>has_uuid := True\<rparr>)"
| "exec_ddl fits (Create_table t cols cons refs) c =
     (if tables c t \<noteq> None then Inr c
      else if \<not> has_uuid c \<and> list_ex (\<lambda>(n, ty, nn, d). d = Some ''uuid_generate_v4()'') cols
      then Inl ''function uuid_generate_v4() does not exist''
      else if list_ex (\<lambda>r. tables c r = None) refs then Inl ''relation referred to does not exist''
      else Inr ((set_table t cols c)\<lparr>constraints := constraints c \<union> set cons\<rparr>))"
| "exec_ddl fits (Create_table_like t s) c =
     (if tables c t \<noteq> None then Inr c
      else case tables c s of None \<Rightarrow> Inl (no_relation s) | Some cols \<Rightarrow> Inr (set_table t cols c))"
| "exec_ddl fits (Add_columns t cols) c = alter t (add_columns cols) c"
| "exec_ddl fits (Drop_columns t ns) c = alter t (drop_columns ns) c"
| "exec_ddl fits (Rename_column t a b) c =
     alter t (map (\<lambda>(n, rest). (if n = a then b else n, rest))) c"
| "exec_ddl fits (Add_constraint t n cols refs) c =
     (if tables c t = None then Inl (no_relation t)
      else if \<not> list_all (has_column c t) cols then Inl ''column does not exist''
      else if (case refs of None \<Rightarrow> False | Some (r, k) \<Rightarrow> \<not> has_column c r k) then Inl ''relation referred to does not exist''
      else if n \<in> constraints c then Inl ''constraint already exists''
      else if \<not> fits n then Inl ''constraint is violated by some row''
      else Inr (c\<lparr>constraints := insert n (constraints c)\<rparr>))"
| "exec_ddl fits (Drop_constraint t n) c =
     (if tables c t = None then Inl (no_relation t) else Inr (c\<lparr>constraints := constraints c - {n}\<rparr>))"
| "exec_ddl fits (Create_index uniq n t cols) c =
     (if tables c t = None then Inl (no_relation t)
      else if n \<in> indexes c then Inr c
      else if \<not> list_all (has_column c t) cols then Inl ''column does not exist''
      else if uniq \<and> \<not> fits n then Inl ''could not create unique index''
      else Inr (c\<lparr>indexes := insert n (indexes c)\<rparr>))"
| "exec_ddl fits (Unless_constraint n d) c = (if n \<in> constraints c then Inr c else exec_ddl fits d c)"
| "exec_ddl fits (When_constraint n d) c = (if n \<in> constraints c then exec_ddl fits d c else Inr c)"
| "exec_ddl fits (When_table t d) c = (if tables c t = None then Inr c else exec_ddl fits d c)"
| "exec_ddl fits (When_column t n ds) c = (if has_column c t n then exec_all fits ds c else Inr c)"
| "exec_ddl fits (When_renamable t a b d) c =
     (if has_column c t a \<and> \<not> has_column c t b then exec_ddl fits d c else Inr c)"
| "exec_all fits [] c = Inr c"
| "exec_all fits (d # ds) c = (case exec_ddl fits d c of Inl e \<Rightarrow> Inl e | Inr c \<Rightarrow> exec_all fits ds c)"

text \<open>One call of \<open>pg.Exec\<close> without arguments is one implicit transaction; a function makes its calls until one fails.\<close>

definition pg_exec :: "(string \<Rightarrow> bool) \<Rightarrow> ddl list \<Rightarrow> catalog \<Rightarrow> string option \<times> catalog" where
  "pg_exec fits ds c = (case exec_all fits ds c of Inl e \<Rightarrow> (Some e, c) | Inr c' \<Rightarrow> (None, c'))"

fun ensure :: "(string \<Rightarrow> bool) \<Rightarrow> ddl list list \<Rightarrow> catalog \<Rightarrow> string option \<times> catalog" where
  "ensure fits [] c = (None, c)"
| "ensure fits (q # qs) c = (case pg_exec fits q c of (Some e, c) \<Rightarrow> (Some e, c) | (None, c) \<Rightarrow> ensure fits qs c)"

section \<open>The bootstrap\<close>

definition EnsureDriversTable_ddl :: "ddl list list" where
  "EnsureDriversTable_ddl = [
     [Create_extension],
     [Create_table ''drivers''
       [dflt ''id'' ''UUID'' ''uuid_generate_v4()'', req ''phone'' ''VARCHAR'',
        dflt ''created_at'' ''TIMESTAMP'' ''now()'', dflt ''updated_at'' ''TIMESTAMP'' ''now()'',
        nul ''last_online_at'' ''TIMESTAMP'', nul ''latitude'' ''DOUBLE PRECISION'',
        nul ''longitude'' ''DOUBLE PRECISION'', nul ''push_token'' ''VARCHAR'', nul ''registration_step'' ''VARCHAR'',
        nul ''registration_status'' ''VARCHAR'', nul ''name'' ''VARCHAR'', nul ''driver_type'' ''VARCHAR'',
        nul ''rating'' ''DOUBLE PRECISION'', nul ''work_status'' ''VARCHAR'', nul ''freelancer_id'' ''UUID'',
        nul ''company_id'' ''UUID'', nul ''account_status'' ''VARCHAR'', nul ''driver_passport_series'' ''VARCHAR'',
        nul ''driver_passport_number'' ''VARCHAR'', nul ''driver_pinfl'' ''VARCHAR'',
        nul ''driver_scan_status'' ''BOOLEAN'', nul ''power_plate_type'' ''VARCHAR'',
        nul ''power_plate_number'' ''VARCHAR'', nul ''power_tech_series'' ''VARCHAR'',
        nul ''power_tech_number'' ''VARCHAR'', nul ''power_owner_id'' ''VARCHAR'',
        nul ''power_owner_name'' ''VARCHAR'', nul ''power_scan_status'' ''BOOLEAN'',
        nul ''trailer_plate_type'' ''VARCHAR'', nul ''trailer_plate_number'' ''VARCHAR'',
        nul ''trailer_tech_series'' ''VARCHAR'', nul ''trailer_tech_number'' ''VARCHAR'',
        nul ''trailer_owner_id'' ''VARCHAR'', nul ''trailer_owner_name'' ''VARCHAR'',
        nul ''trailer_scan_status'' ''BOOLEAN'', nul ''driver_owner'' ''BOOLEAN'', nul ''kyc_status'' ''VARCHAR'']
       [''drivers_pkey'', ''drivers_phone_key''] []],
     [Add_columns ''drivers''
       [nul ''push_token'' ''VARCHAR'', nul ''name'' ''VARCHAR'', nul ''power_plate_type'' ''VARCHAR'',
        nul ''trailer_plate_type'' ''VARCHAR'', nul ''power_owner_id'' ''VARCHAR'',
        nul ''power_owner_name'' ''VARCHAR'', nul ''trailer_owner_id'' ''VARCHAR'',
        nul ''trailer_owner_name'' ''VARCHAR'', nul ''driver_owner'' ''BOOLEAN'',
        nul ''driver_scan_status'' ''BOOLEAN'', nul ''photo_data'' ''BYTEA'', nul ''photo_content_type'' ''VARCHAR(50)'']],
     [Create_index False ''idx_drivers_phone'' ''drivers'' [''phone'']],
     [Create_table_like ''deleted_drivers'' ''drivers''],
     [Add_columns ''deleted_drivers''
       [nul ''photo_data'' ''BYTEA'', nul ''photo_content_type'' ''VARCHAR(50)'']],
     [Create_index False ''idx_deleted_drivers_phone'' ''deleted_drivers'' [''phone'']]]"

definition EnsureDriversTable :: "(string \<Rightarrow> bool) \<Rightarrow> catalog \<Rightarrow> string option \<times> catalog" where
  "EnsureDriversTable fits = ensure fits EnsureDriversTable_ddl"

definition EnsureAdminsTable_ddl :: "ddl list list" where
  "EnsureAdminsTable_ddl = [
     [Create_extension],
     [Create_table ''admins''
       [dflt ''id'' ''UUID'' ''uuid_generate_v4()'', req ''login'' ''VARCHAR'', req ''password'' ''VARCHAR'',
        req ''name'' ''VARCHAR'', dflt ''status'' ''VARCHAR'' ''active'', dflt ''type'' ''VARCHAR'' ''creator'']
       [''admins_pkey'', ''admins_login_key''] []],
     [Unless_constraint ''admins_status_check'' (Add_constraint ''admins'' ''admins_status_check'' [''status''] None)],
     [Create_index False ''idx_admins_login'' ''admins'' [''login'']]]"

definition EnsureAdminsTable :: "(string \<Rightarrow> bool) \<Rightarrow> catalog \<Rightarrow> string option \<times> catalog" where
  "EnsureAdminsTable fits = ensure fits EnsureAdminsTable_ddl"

definition EnsureCompaniesTable_ddl :: "ddl list list" where
  "EnsureCompaniesTable_ddl = [
     [Create_extension],
     [Create_table ''companies''
       [dflt ''id'' ''UUID'' ''uuid_generate_v4()'', req ''name'' ''VARCHAR'', nul ''inn'' ''VARCHAR'',
        nul ''address'' ''VARCHAR'', nul ''phone'' ''VARCHAR'', nul ''email'' ''VARCHAR'', nul ''website'' ''VARCHAR'',
        nul ''license_number'' ''VARCHAR'', dflt ''status'' ''VARCHAR'' ''active'',
        dflt ''max_vehicles'' ''INTEGER'' ''0'', dflt ''max_drivers'' ''INTEGER'' ''0'',
        dflt ''max_cargo'' ''INTEGER'' ''0'', dflt ''max_dispatchers'' ''INTEGER'' ''0'',
        dflt ''max_managers'' ''INTEGER'' ''0'', dflt ''max_top_dispatchers'' ''INTEGER'' ''0'',
        dflt ''max_top_managers'' ''INTEGER'' ''0'', nul ''rating'' ''DOUBLE PRECISION'',
        dflt ''completed_orders'' ''INTEGER'' ''0'', dflt ''cancelled_orders'' ''INTEGER'' ''0'',
        dflt ''total_revenue'' ''NUMERIC(18,2)'' ''0'', nul ''created_by'' ''UUID'',
        dflt ''created_at'' ''TIMESTAMP'' ''now()'', dflt ''updated_at'' ''TIMESTAMP'' ''now()'',
        nul ''deleted_at'' ''TIMESTAMP'']
       [''companies_pkey''] []],
     [Add_columns ''companies''
       [nul ''inn'' ''VARCHAR'', nul ''address'' ''VARCHAR'', nul ''phone'' ''VARCHAR'', nul ''email'' ''VARCHAR'',
        nul ''website'' ''VARCHAR'', nul ''license_number'' ''VARCHAR'', dflt ''status'' ''VARCHAR'' ''active'',
        dflt ''max_vehicles'' ''INTEGER'' ''0'', dflt ''max_drivers'' ''INTEGER'' ''0'',
        dflt ''max_cargo'' ''INTEGER'' ''0'', dflt ''max_dispatchers'' ''INTEGER'' ''0'',
        dflt ''max_managers'' ''INTEGER'' ''0'', dflt ''max_top_dispatchers'' ''INTEGER'' ''0'',
        dflt ''max_top_managers'' ''INTEGER'' ''0'', nul ''rating'' ''DOUBLE PRECISION'',
        dflt ''completed_orders'' ''INTEGER'' ''0'', dflt ''cancelled_orders'' ''INTEGER'' ''0'',
        dflt ''total_revenue'' ''NUMERIC(18,2)'' ''0'', nul ''created_by'' ''UUID'',
        dflt ''created_at'' ''TIMESTAMP'' ''now()'', dflt ''updated_at'' ''TIMESTAMP'' ''now()'',
        nul ''deleted_at'' ''TIMESTAMP'']],
     [Drop_columns ''companies''
       [''current_vehicles'', ''current_drivers'', ''current_cargo'', ''current_dispatchers'', ''current_managers'',
        ''current_top_dispatchers'', ''current_top_managers'']],
     [Unless_constraint ''companies_status_check'' (Add_constraint ''companies'' ''companies_status_check'' [''status''] None),
      When_constraint ''fk_companies_created_by_users'' (Drop_constraint ''companies'' ''fk_companies_created_by_users''),
      When_table ''admins'' (Unless_constraint ''fk_companies_created_by_admins'' (Add_constraint ''companies'' ''fk_companies_created_by_admins'' [''created_by''] (Some (''admins'', ''id''))))],
     [Create_index False ''idx_companies_name'' ''companies'' [''name'']],
     [Create_index False ''idx_companies_status'' ''companies'' [''status'']],
     [Create_index False ''idx_companies_created_by'' ''companies'' [''created_by'']],
     [Create_index True ''idx_companies_inn_unique'' ''companies'' [''inn'']],
     [Create_index True ''idx_companies_license_number_unique'' ''companies'' [''license_number'']]]"

definition EnsureCompaniesTable :: "(string \<Rightarrow> bool) \<Rightarrow> catalog \<Rightarrow> string option \<times> catalog" where
  "EnsureCompaniesTable fits = ensure fits EnsureCompaniesTable_ddl"

definition cargo_ddl :: "ddl list list" where
  "cargo_ddl = [
     [Create_extension],
     [Create_table ''cargo''
       [dflt ''id'' ''UUID'' ''uuid_generate_v4()'', req ''weight'' ''DOUBLE PRECISION'',
        req ''volume'' ''DOUBLE PRECISION'', dflt ''ready_enabled'' ''BOOLEAN'' ''false'',
        nul ''ready_at'' ''TIMESTAMP'', nul ''load_comment'' ''VARCHAR'', req ''truck_type'' ''VARCHAR'',
        nul ''temp_min'' ''DOUBLE PRECISION'', nul ''temp_max'' ''DOUBLE PRECISION'',
        dflt ''adr_enabled'' ''BOOLEAN'' ''false'', nul ''adr_class'' ''VARCHAR'', nul ''loading_types'' ''TEXT[]'',
        nul ''requirements'' ''TEXT[]'', nul ''shipment_type'' ''VARCHAR'', nul ''belts_count'' ''INTEGER'',
        nul ''documents'' ''JSONB'', nul ''contact_name'' ''VARCHAR'', nul ''contact_phone'' ''VARCHAR'',
        dflt ''status'' ''VARCHAR'' ''created'', dflt ''created_at'' ''TIMESTAMP'' ''now()'',
        dflt ''updated_at'' ''TIMESTAMP'' ''now()'', nul ''deleted_at'' ''TIMESTAMP'']
       [''cargo_pkey''] []],
     [Add_columns ''cargo''
       [nul ''weight'' ''DOUBLE PRECISION'', nul ''volume'' ''DOUBLE PRECISION'',
        dflt ''ready_enabled'' ''BOOLEAN'' ''false'', nul ''ready_at'' ''TIMESTAMP'', nul ''load_comment'' ''VARCHAR'',
        nul ''truck_type'' ''VARCHAR'', nul ''temp_min'' ''DOUBLE PRECISION'', nul ''temp_max'' ''DOUBLE PRECISION'',
        dflt ''adr_enabled'' ''BOOLEAN'' ''false'', nul ''adr_class'' ''VARCHAR'', nul ''loading_types'' ''TEXT[]'',
        nul ''requirements'' ''TEXT[]'', nul ''shipment_type'' ''VARCHAR'', nul ''belts_count'' ''INTEGER'',
        nul ''documents'' ''JSONB'', nul ''contact_name'' ''VARCHAR'', nul ''contact_phone'' ''VARCHAR'',
        dflt ''status'' ''VARCHAR'' ''created'', dflt ''created_at'' ''TIMESTAMP'' ''now()'',
        dflt ''updated_at'' ''TIMESTAMP'' ''now()'', nul ''deleted_at'' ''TIMESTAMP'',
        nul ''created_by_type'' ''VARCHAR'', nul ''created_by_id'' ''UUID'', nul ''company_id'' ''UUID'']]]"

definition route_points_ddl :: "ddl list list" where
  "route_points_ddl = [
     [Create_table ''route_points''
       [dflt ''id'' ''UUID'' ''uuid_generate_v4()'', req ''cargo_id'' ''UUID'', req ''type'' ''VARCHAR'',
        req ''address'' ''VARCHAR'', req ''lat'' ''DOUBLE PRECISION'', req ''lng'' ''DOUBLE PRECISION'',
        nul ''comment'' ''VARCHAR'', req ''point_order'' ''INTEGER'', dflt ''is_main_load'' ''BOOLEAN'' ''false'',
        dflt ''is_main_unload'' ''BOOLEAN'' ''false'']
       [''route_points_pkey''] []],
     [Add_columns ''route_points''
       [nul ''cargo_id'' ''UUID'']],
     [Add_columns ''route_points''
       [nul ''type'' ''VARCHAR'']],
     [Add_columns ''route_points''
       [nul ''address'' ''VARCHAR'']],
     [Add_columns ''route_points''
       [nul ''lat'' ''DOUBLE PRECISION'']],
     [Add_columns ''route_points''
       [nul ''lng'' ''DOUBLE PRECISION'']],
     [Add_columns ''route_points''
       [nul ''comment'' ''VARCHAR'']],
     [Add_columns ''route_points''
       [nul ''point_order'' ''INTEGER'']],
     [Add_columns ''route_points''
       [dflt ''is_main_load'' ''BOOLEAN'' ''false'']],
     [Add_columns ''route_points''
       [dflt ''is_main_unload'' ''BOOLEAN'' ''false'']],
     [Add_columns ''route_points''
       [nul ''city_code'' ''VARCHAR(20)'']],
     [Add_columns ''route_points''
       [nul ''region_code'' ''VARCHAR(20)'']],
     [Add_columns ''route_points''
       [nul ''orientir'' ''VARCHAR(500)'']],
     [Unless_constraint ''route_points_cargo_id_fkey'' (Add_constraint ''route_points'' ''route_points_cargo_id_fkey'' [''cargo_id''] (Some (''cargo'', ''id'')))]]"

definition payments_ddl :: "ddl list list" where
  "payments_ddl = [
     [Create_table ''payments''
       [dflt ''id'' ''UUID'' ''uuid_generate_v4()'', req ''cargo_id'' ''UUID'',
        dflt ''is_negotiable'' ''BOOLEAN'' ''false'', dflt ''price_request'' ''BOOLEAN'' ''false'',
        nul ''total_amount'' ''DOUBLE PRECISION'', nul ''total_currency'' ''VARCHAR'',
        dflt ''with_prepayment'' ''BOOLEAN'' ''false'', dflt ''without_prepayment'' ''BOOLEAN'' ''true'',
        nul ''prepayment_amount'' ''DOUBLE PRECISION'', nul ''prepayment_currency'' ''VARCHAR'',
        nul ''prepayment_type'' ''VARCHAR'', nul ''remaining_amount'' ''DOUBLE PRECISION'',
        nul ''remaining_currency'' ''VARCHAR'', nul ''remaining_type'' ''VARCHAR'']
       [''payments_pkey''] []],
     [Unless_constraint ''payments_cargo_id_fkey'' (Add_constraint ''payments'' ''payments_cargo_id_fkey'' [''cargo_id''] (Some (''cargo'', ''id''))),
      Unless_constraint ''payments_cargo_id_key'' (Add_constraint ''payments'' ''payments_cargo_id_key'' [''cargo_id''] None)]]"

definition cities_ddl :: "ddl list list" where
  "cities_ddl = [
     [Create_table ''cities''
       [dflt ''id'' ''UUID'' ''uuid_generate_v4()'', req ''code'' ''VARCHAR(20)'', req ''name_ru'' ''VARCHAR(255)'',
        nul ''name_en'' ''VARCHAR(255)'', req ''country_code'' ''VARCHAR(3)'', nul ''lat'' ''DOUBLE PRECISION'',
        nul ''lng'' ''DOUBLE PRECISION'', dflt ''created_at'' ''TIMESTAMP'' ''now()'']
       [''cities_pkey'', ''cities_code_key''] []],
     [Create_table ''regions''
       [dflt ''id'' ''UUID'' ''uuid_generate_v4()'', req ''code'' ''VARCHAR(20)'', req ''name_ru'' ''VARCHAR(255)'',
        nul ''name_en'' ''VARCHAR(255)'', req ''country_code'' ''VARCHAR(3)'',
        dflt ''created_at'' ''TIMESTAMP'' ''now()'']
       [''regions_pkey'', ''regions_country_code_code_key''] []],
     [Create_index False ''idx_cities_country'' ''cities'' [''country_code'']],
     [Create_index False ''idx_regions_country'' ''regions'' [''country_code'']]]"

definition offers_ddl :: "ddl list list" where
  "offers_ddl = [
     [Create_table ''offers''
       [dflt ''id'' ''UUID'' ''uuid_generate_v4()'', req ''cargo_id'' ''UUID'', req ''carrier_id'' ''UUID'',
        req ''price'' ''DOUBLE PRECISION'', req ''currency'' ''VARCHAR'', nul ''comment'' ''VARCHAR'',
        dflt ''status'' ''VARCHAR'' ''pending'', dflt ''created_at'' ''TIMESTAMP'' ''now()'']
       [''offers_pkey''] []],
     [Unless_constraint ''offers_cargo_id_fkey'' (Add_constraint ''offers'' ''offers_cargo_id_fkey'' [''cargo_id''] (Some (''cargo'', ''id'')))],
     [When_table ''companies'' (Unless_constraint ''fk_cargo_company_id'' (Add_constraint ''cargo'' ''fk_cargo_company_id'' [''company_id''] (Some (''companies'', ''id''))))],
     [Create_index False ''idx_cargo_status'' ''cargo'' [''status'']],
     [Create_index False ''idx_cargo_created_at'' ''cargo'' [''created_at'']],
     [Create_index False ''idx_cargo_weight'' ''cargo'' [''weight'']],
     [Create_index False ''idx_cargo_truck_type'' ''cargo'' [''truck_type'']],
     [Create_index False ''idx_cargo_deleted_at'' ''cargo'' [''deleted_at'']],
     [Create_index False ''idx_cargo_created_by_id'' ''cargo'' [''created_by_id'']],
     [Create_index False ''idx_cargo_company_id'' ''cargo'' [''company_id'']],
     [Create_index False ''idx_route_points_cargo_id'' ''route_points'' [''cargo_id'']],
     [Create_index True ''idx_payments_cargo_id'' ''payments'' [''cargo_id'']],
     [Create_index False ''idx_offers_cargo_id'' ''offers'' [''cargo_id'']],
     [Create_index False ''idx_offers_status'' ''offers'' [''status'']]]"

definition EnsureCargoTables_ddl :: "ddl list list" where
  "EnsureCargoTables_ddl = cargo_ddl @ route_points_ddl @ payments_ddl @ cities_ddl @ offers_ddl"

definition EnsureCargoTables :: "(string \<Rightarrow> bool) \<Rightarrow> catalog \<Rightarrow> string option \<times> catalog" where
  "EnsureCargoTables fits = ensure fits EnsureCargoTables_ddl"

definition EnsureChatTables_ddl :: "ddl list list" where
  "EnsureChatTables_ddl = [
     [Create_table ''chat_conversations''
       [dflt ''id'' ''UUID'' ''uuid_generate_v4()'', req ''user_a_id'' ''UUID'', req ''user_b_id'' ''UUID'',
        dflt ''created_at'' ''TIMESTAMP'' ''now()'']
       [''chat_conversations_pkey'', ''chat_conv_ordered'', ''chat_conv_unique''] [],
      Create_index False ''idx_chat_conversations_user_a'' ''chat_conversations'' [''user_a_id''],
      Create_index False ''idx_chat_conversations_user_b'' ''chat_conversations'' [''user_b_id''],
      Create_table ''chat_messages''
       [dflt ''id'' ''UUID'' ''uuid_generate_v4()'', req ''conversation_id'' ''UUID'', req ''sender_id'' ''UUID'',
        req ''body'' ''TEXT'', dflt ''created_at'' ''TIMESTAMP'' ''now()'',
        dflt ''updated_at'' ''TIMESTAMP'' ''now()'', nul ''deleted_at'' ''TIMESTAMP'']
       [''chat_messages_pkey'', ''chat_messages_conversation_id_fkey''] [''chat_conversations''],
      Create_index False ''idx_chat_messages_conversation_created'' ''chat_messages'' [''conversation_id'', ''created_at''],
      Create_index False ''idx_chat_messages_sender'' ''chat_messages'' [''sender_id''],
      Create_index False ''idx_chat_messages_deleted'' ''chat_messages'' [''deleted_at'']]]"

definition EnsureChatTables :: "(string \<Rightarrow> bool) \<Rightarrow> catalog \<Rightarrow> string option \<times> catalog" where
  "EnsureChatTables fits = ensure fits EnsureChatTables_ddl"

section \<open>The connections\<close>

text \<open>
  \<open>infra.New\<close>: the errors of opening and of pinging the pool and of pinging Redis are inputs. The order of the tables is the order
  of the calls.
\<close>

definition after_ok :: "string option \<times> catalog \<Rightarrow> (catalog \<Rightarrow> string option \<times> catalog) \<Rightarrow> string option \<times> catalog" where
  "after_ok = (\<lambda>(r, c) f. case r of Some e \<Rightarrow> (Some e, c) | None \<Rightarrow> f c)"

definition infra_New ::
  "(string \<Rightarrow> bool) \<Rightarrow> string option \<Rightarrow> string option \<Rightarrow> string option \<Rightarrow> catalog \<Rightarrow> string option \<times> catalog" where
  "infra_New fits pool ping redis c =
     after_ok (after_ok (after_ok (after_ok (after_ok (after_ok (after_ok (pool, c)
       (\<lambda>c. (ping, c)))
       (EnsureDriversTable fits))
       (EnsureAdminsTable fits))
       (EnsureCompaniesTable fits))
       (EnsureCargoTables fits))
       (EnsureChatTables fits))
       (\<lambda>c. (redis, c))"

section \<open>Migrations of the drivers\<close>

text \<open>
  The files that deal with \<open>drivers\<close> or \<open>deleted_drivers\<close>, by their version; the other thirty-four leave the two tables alone.
  The rows that the file 35 copies to the new tables are left out.
\<close>

definition migration_1 :: "ddl list" where
  "migration_1 = [
      Create_extension,
      Create_table ''drivers''
       [dflt ''id'' ''UUID'' ''uuid_generate_v4()'', req ''phone'' ''VARCHAR'',
        dflt ''created_at'' ''TIMESTAMP'' ''now()'', dflt ''updated_at'' ''TIMESTAMP'' ''now()'',
        nul ''last_online_at'' ''TIMESTAMP'', nul ''latitude'' ''DOUBLE PRECISION'',
        nul ''longitude'' ''DOUBLE PRECISION'', nul ''push_token'' ''VARCHAR'', nul ''registration_step'' ''VARCHAR'',
        nul ''registration_status'' ''VARCHAR'', nul ''name'' ''VARCHAR'', nul ''driver_type'' ''VARCHAR'',
        nul ''rating'' ''DOUBLE PRECISION'', nul ''work_status'' ''VARCHAR'', nul ''freelancer_id'' ''UUID'',
        nul ''company_id'' ''UUID'', nul ''account_status'' ''VARCHAR'', nul ''driver_passport_series'' ''VARCHAR'',
        nul ''driver_passport_number'' ''VARCHAR'', nul ''driver_pinfl'' ''VARCHAR'',
        nul ''driver_scan_status'' ''BOOLEAN'', nul ''power_plate_type'' ''VARCHAR'',
        nul ''power_plate_number'' ''VARCHAR'', nul ''power_tech_series'' ''VARCHAR'',
        nul ''power_tech_number'' ''VARCHAR'', nul ''power_owner_id'' ''VARCHAR'',
        nul ''power_owner_name'' ''VARCHAR'', nul ''power_scan_status'' ''BOOLEAN'',
        nul ''trailer_plate_type'' ''VARCHAR'', nul ''trailer_plate_number'' ''VARCHAR'',
        nul ''trailer_tech_series'' ''VARCHAR'', nul ''trailer_tech_number'' ''VARCHAR'',
        nul ''trailer_owner_id'' ''VARCHAR'', nul ''trailer_owner_name'' ''VARCHAR'',
        nul ''trailer_scan_status'' ''BOOLEAN'', nul ''driver_owner'' ''BOOLEAN'', nul ''kyc_status'' ''VARCHAR'']
       [''drivers_pkey'', ''drivers_phone_key''] [],
      Create_index False ''idx_drivers_phone'' ''drivers'' [''phone'']]"

definition migration_2 :: "ddl list" where
  "migration_2 = [
      Add_columns ''drivers''
       [nul ''power_plate_type'' ''VARCHAR'', nul ''trailer_plate_type'' ''VARCHAR'']]"

definition migration_3 :: "ddl list" where
  "migration_3 = [
      Add_columns ''drivers''
       [nul ''push_token'' ''VARCHAR'']]"

definition migration_4 :: "ddl list" where
  "migration_4 = [
      When_renamable ''drivers'' ''owner_name'' ''name'' (Rename_column ''drivers'' ''owner_name'' ''name''),
      Add_columns ''drivers''
       [nul ''power_owner_id'' ''VARCHAR'', nul ''power_owner_name'' ''VARCHAR'', nul ''trailer_owner_id'' ''VARCHAR'',
        nul ''trailer_owner_name'' ''VARCHAR'', nul ''driver_owner'' ''BOOLEAN''],
      Drop_columns ''drivers''
       [''power_owner_type'', ''power_owner_id_type'', ''power_owner_id_number'', ''trailer_owner_type'',
        ''trailer_owner_id_type'', ''trailer_owner_id_number'', ''owner_inn_pinfl'']]"

definition migration_5 :: "ddl list" where
  "migration_5 = [
      Add_columns ''drivers''
       [nul ''driver_scan_status'' ''BOOLEAN'']]"

definition migration_35 :: "ddl list" where
  "migration_35 = [
      Create_table ''driver_powers''
       [dflt ''id'' ''UUID'' ''uuid_generate_v4()'', req ''driver_id'' ''UUID'', nul ''power_plate_type'' ''VARCHAR'',
        nul ''power_plate_number'' ''VARCHAR'', nul ''power_tech_series'' ''VARCHAR'',
        nul ''power_tech_number'' ''VARCHAR'', nul ''power_owner_id'' ''VARCHAR'',
        nul ''power_owner_name'' ''VARCHAR'', nul ''power_scan_status'' ''BOOLEAN'',
        dflt ''created_at'' ''TIMESTAMP'' ''now()'', dflt ''updated_at'' ''TIMESTAMP'' ''now()'']
       [''driver_powers_pkey'', ''driver_powers_driver_id_key'', ''driver_powers_driver_id_fkey''] [''drivers''],
      Create_table ''driver_trailers''
       [dflt ''id'' ''UUID'' ''uuid_generate_v4()'', req ''driver_id'' ''UUID'',
        nul ''trailer_plate_type'' ''VARCHAR'', nul ''trailer_plate_number'' ''VARCHAR'',
        nul ''trailer_tech_series'' ''VARCHAR'', nul ''trailer_tech_number'' ''VARCHAR'',
        nul ''trailer_owner_id'' ''VARCHAR'', nul ''trailer_owner_name'' ''VARCHAR'',
        nul ''trailer_scan_status'' ''BOOLEAN'', dflt ''created_at'' ''TIMESTAMP'' ''now()'',
        dflt ''updated_at'' ''TIMESTAMP'' ''now()'']
       [''driver_trailers_pkey'', ''driver_trailers_driver_id_key'', ''driver_trailers_driver_id_fkey''] [''drivers''],
      Create_index False ''idx_driver_powers_driver_id'' ''driver_powers'' [''driver_id''],
      Create_index False ''idx_driver_trailers_driver_id'' ''driver_trailers'' [''driver_id''],
      When_column ''drivers'' ''power_plate_number''
       [Drop_columns ''drivers''
         [''power_plate_type'', ''power_plate_number'', ''power_tech_series'', ''power_tech_number'', ''power_owner_id'',
          ''power_owner_name'', ''power_scan_status'', ''trailer_plate_type'', ''trailer_plate_number'',
          ''trailer_tech_series'', ''trailer_tech_number'', ''trailer_owner_id'', ''trailer_owner_name'',
          ''trailer_scan_status''],
        Drop_columns ''deleted_drivers''
         [''power_plate_type'', ''power_plate_number'', ''power_tech_series'', ''power_tech_number'', ''power_owner_id'',
          ''power_owner_name'', ''power_scan_status'', ''trailer_plate_type'', ''trailer_plate_number'',
          ''trailer_tech_series'', ''trailer_tech_number'', ''trailer_owner_id'', ''trailer_owner_name'',
          ''trailer_scan_status'']]]"

definition migration_36 :: "ddl list" where
  "migration_36 = [
      Add_columns ''drivers''
       [nul ''photo_data'' ''BYTEA'', nul ''photo_content_type'' ''VARCHAR(50)''],
      Add_columns ''deleted_drivers''
       [nul ''photo_data'' ''BYTEA'', nul ''photo_content_type'' ''VARCHAR(50)'']]"

definition migration_files :: "(nat \<times> ddl list) list" where
  "migration_files = [(1, migration_1), (2, migration_2), (3, migration_3), (4, migration_4), (5, migration_5),
     (35, migration_35), (36, migration_36)]"

text \<open>The files in turn; the version at which they stop, if they do. Every file is one implicit transaction.\<close>

fun apply_files :: "(string \<Rightarrow> bool) \<Rightarrow> (nat \<times> ddl list) list \<Rightarrow> catalog \<Rightarrow> nat option \<times> catalog" where
  "apply_files fits [] c = (None, c)"
| "apply_files fits ((v, ds) # fs) c =
     (case exec_all fits ds c of Inl _ \<Rightarrow> (Some v, c) | Inr c \<Rightarrow> apply_files fits fs c)"

text \<open>
  \<open>INSERT INTO deleted_drivers SELECT * FROM drivers\<close> is refused when \<open>drivers\<close> has more columns than its archive.
\<close>

definition fits_archive :: "catalog \<Rightarrow> bool" where
  "fits_archive c = (case (tables c ''drivers'', tables c ''deleted_drivers'') of
       (Some cols, Some archive) \<Rightarrow> length cols \<le> length archive
     | _ \<Rightarrow> False)"

text \<open>
  What \<open>golang-migrate\<close> documents: the database knows its version and whether it is dirty; \<open>Up\<close> refuses a dirty one, otherwise it
  applies the files above the version, and the file that fails leaves its version behind, dirty; \<open>Force\<close> sets the version and
  cleans. \<open>db\<close> reads the database of a migrator.
\<close>

definition dirty_text :: "nat \<Rightarrow> string" where
  "dirty_text v = ''Dirty database version '' @ Itoa (int v) @ ''. Fix and force version.''"

definition migrates :: "(string \<Rightarrow> bool) \<Rightarrow> 'm migrate \<Rightarrow> ('m \<Rightarrow> catalog \<times> nat \<times> bool) \<Rightarrow> bool" where
  "migrates fits lib db \<longleftrightarrow> (\<forall>m. case db m of (c, v, dirty) \<Rightarrow>
     (if dirty then mg_Up lib m = (Up_failed (dirty_text v), m)
      else (case apply_files fits (filter (\<lambda>(n, _). v < n) migration_files) c of
          (None, c') \<Rightarrow> fst (mg_Up lib m) \<in> {Up_done, Up_no_change} \<and> fst (db (snd (mg_Up lib m))) = c'
        | (Some n, c') \<Rightarrow> (\<exists>e m'. mg_Up lib m = (Up_failed e, m') \<and> \<not> sublist ''Dirty database'' e \<and> db m' = (c', n, True))))
     \<and> (\<forall>k. \<exists>m'. mg_Force lib m k = (None, m') \<and> db m' = (c, nat k, False)))"

end
