(* ===== verification/Bootstrap_Guarantees.thy ===== *)
theory Bootstrap_Guarantees
  imports Bootstrap Profiles Samples
begin

text \<open>
  What the start of the server leaves behind: a second bootstrap changes nothing; the archive of the drivers cannot take a driver
  once the bootstrap has followed the migrations, so no driver is ever deleted; and a database that began empty never gets past
  the migration 35.
\<close>

section \<open>One list of statements\<close>

lemma exec_all_append:
  "exec_all fits (xs @ ys) c = (case exec_all fits xs c of Inl e \<Rightarrow> Inl e | Inr c \<Rightarrow> exec_all fits ys c)"
  by (induction xs arbitrary: c) (auto split: sum.split)

lemma ensure_ok: "ensure fits qs c = (None, c') \<longleftrightarrow> exec_all fits (concat qs) c = Inr c'"
  by (induction qs arbitrary: c) (auto simp: pg_exec_def exec_all_append split: sum.splits)

lemma after_ok_None: "after_ok r f = (None, c') \<longleftrightarrow> (\<exists>c. r = (None, c) \<and> f c = (None, c'))"
  by (auto simp: after_ok_def split: prod.splits option.splits)

definition bootstrap :: "ddl list" where
  "bootstrap = concat EnsureDriversTable_ddl @ concat EnsureAdminsTable_ddl @ concat EnsureCompaniesTable_ddl
     @ concat EnsureCargoTables_ddl @ concat EnsureChatTables_ddl"

lemmas ensure_defs = EnsureDriversTable_def EnsureAdminsTable_def EnsureCompaniesTable_def EnsureCargoTables_def EnsureChatTables_def

lemma infra_New_ok:
  "infra_New fits pool ping redis c = (None, c')
     \<longleftrightarrow> pool = None \<and> ping = None \<and> redis = None \<and> exec_all fits bootstrap c = Inr c'"
  by (auto simp: infra_New_def after_ok_None ensure_defs ensure_ok bootstrap_def exec_all_append split: sum.splits)

section \<open>Settled statements\<close>

text \<open>Columns and constraints that the bootstrap removes and never adds.\<close>

definition dropped :: "(string \<times> string) set" where
  "dropped = (\<lambda>n. (''companies'', n)) ` {''current_vehicles'', ''current_drivers'', ''current_cargo'', ''current_dispatchers'',
     ''current_managers'', ''current_top_dispatchers'', ''current_top_managers''}"

definition unlinked :: "string set" where "unlinked = {''fk_companies_created_by_users''}"

text \<open>The statements of the bootstrap: what they add is not dropped, and what they drop is.\<close>

fun tame :: "ddl \<Rightarrow> bool" where
  "tame Create_extension = True"
| "tame (Create_table t cols cons refs) \<longleftrightarrow> list_all (\<lambda>col. (t, fst col) \<notin> dropped) cols \<and> list_all (\<lambda>n. n \<notin> unlinked) cons"
| "tame (Create_table_like t s) \<longleftrightarrow> t \<noteq> ''companies''"
| "tame (Add_columns t cols) \<longleftrightarrow> list_all (\<lambda>col. (t, fst col) \<notin> dropped) cols"
| "tame (Drop_columns t ns) \<longleftrightarrow> list_all (\<lambda>n. (t, n) \<in> dropped) ns"
| "tame (Create_index uniq n t cols) = True"
| "tame (Unless_constraint n d) \<longleftrightarrow> n \<notin> unlinked \<and> (\<exists>t cols refs. d = Add_constraint t n cols refs)"
| "tame (When_constraint n d) \<longleftrightarrow> n \<in> unlinked \<and> (\<exists>t. d = Drop_constraint t n)"
| "tame (When_table t d) \<longleftrightarrow> tame d"
| "tame d = False"

text \<open>A statement that has nothing left to do.\<close>

fun settled :: "ddl \<Rightarrow> catalog \<Rightarrow> bool" where
  "settled Create_extension c = has_uuid c"
| "settled (Create_table t cols cons refs) c \<longleftrightarrow> tables c t \<noteq> None"
| "settled (Create_table_like t s) c \<longleftrightarrow> tables c t \<noteq> None"
| "settled (Add_columns t cols) c \<longleftrightarrow> (\<exists>cs. tables c t = Some cs \<and> set (column_names cols) \<subseteq> set (column_names cs))"
| "settled (Drop_columns t ns) c \<longleftrightarrow> (\<exists>cs. tables c t = Some cs \<and> set ns \<inter> set (column_names cs) = {})"
| "settled (Create_index uniq n t cols) c \<longleftrightarrow> tables c t \<noteq> None \<and> n \<in> indexes c"
| "settled (Unless_constraint n d) c \<longleftrightarrow> n \<in> constraints c"
| "settled (When_constraint n d) c \<longleftrightarrow> n \<notin> constraints c"
| "settled (When_table t d) c \<longleftrightarrow> tables c t \<noteq> None \<and> settled d c"
| "settled d c = False"

lemma names_add_column [simp]: "set (column_names (add_column col cs)) = insert (fst col) (set (column_names cs))"
  by (auto simp: add_column_def)

lemma names_add_columns [simp]: "set (column_names (add_columns cols cs)) = set (column_names cols) \<union> set (column_names cs)"
  unfolding add_columns_def by (induction cols arbitrary: cs) (auto simp del: set_map)

lemma add_columns_settled: "set (column_names cols) \<subseteq> set (column_names cs) \<Longrightarrow> add_columns cols cs = cs"
  unfolding add_columns_def by (induction cols arbitrary: cs) (auto simp: add_column_def)

lemma set_table_same: "tables c t = Some cs \<Longrightarrow> set_table t cs c = c"
  by (simp add: set_table_def map_upd_triv)

lemma settled_skips: "settled d c \<Longrightarrow> exec_ddl fits d c = Inr c"
proof (induction d c rule: settled.induct)
  case (1 c)
  then show ?case by simp
next
  case (4 t cols c)
  then show ?case by (auto simp: alter_def add_columns_settled set_table_same simp del: set_map)
next
  case (5 t ns c)
  then obtain cs where cs: "tables c t = Some cs" "set ns \<inter> set (column_names cs) = {}" by auto
  then have "drop_columns ns cs = cs" unfolding drop_columns_def by (intro filter_True) (auto simp: image_iff)
  with cs(1) show ?case by (simp add: alter_def set_table_same)
qed auto

lemma settled_all: "list_all (\<lambda>d. settled d c) ds \<Longrightarrow> exec_all fits ds c = Inr c"
  by (induction ds) (auto simp: settled_skips)

text \<open>A tame statement takes nothing away but what is dropped, and brings nothing of that back.\<close>

definition grows :: "catalog \<Rightarrow> catalog \<Rightarrow> bool" where
  "grows c c' \<longleftrightarrow> (has_uuid c \<longrightarrow> has_uuid c')
     \<and> (\<forall>t cs. tables c t = Some cs \<longrightarrow> (\<exists>cs'. tables c' t = Some cs'
          \<and> (\<forall>n. (t, n) \<notin> dropped \<longrightarrow> n \<in> set (column_names cs) \<longrightarrow> n \<in> set (column_names cs'))
          \<and> (\<forall>n. (t, n) \<in> dropped \<longrightarrow> n \<in> set (column_names cs') \<longrightarrow> n \<in> set (column_names cs))))
     \<and> constraints c - unlinked \<subseteq> constraints c' \<and> unlinked \<inter> constraints c' \<subseteq> constraints c \<and> indexes c \<subseteq> indexes c'"

lemma grows_refl [simp]: "grows c c"
  by (auto simp: grows_def)

lemma grows_trans: "grows a b \<Longrightarrow> grows b c \<Longrightarrow> grows a c"
  unfolding grows_def by (intro conjI) (blast | metis)+

lemma grows_table: "grows c c' \<Longrightarrow> tables c t \<noteq> None \<Longrightarrow> tables c' t \<noteq> None"
  unfolding grows_def by (metis not_None_eq)

lemma grows_set_table:
  assumes "\<And>n. (t, n) \<notin> dropped \<Longrightarrow> \<forall>cs. tables c t = Some cs \<longrightarrow> n \<in> set (column_names cs) \<longrightarrow> n \<in> set (column_names cs')"
    and "\<And>n. (t, n) \<in> dropped \<Longrightarrow> \<forall>cs. tables c t = Some cs \<longrightarrow> n \<in> set (column_names cs') \<longrightarrow> n \<in> set (column_names cs)"
  shows "grows c (set_table t cs' c)"
  using assms unfolding grows_def set_table_def by auto

lemma grows_alter:
  assumes "alter t f c = Inr c'"
    and "\<And>cs n. tables c t = Some cs \<Longrightarrow> (t, n) \<notin> dropped \<Longrightarrow> n \<in> set (column_names cs) \<Longrightarrow> n \<in> set (column_names (f cs))"
    and "\<And>cs n. tables c t = Some cs \<Longrightarrow> (t, n) \<in> dropped \<Longrightarrow> n \<in> set (column_names (f cs)) \<Longrightarrow> n \<in> set (column_names cs)"
  shows "grows c c'"
proof -
  from assms(1) obtain cs where "tables c t = Some cs" "c' = set_table t (f cs) c"
    by (auto simp: alter_def split: option.splits)
  with assms(2,3) show ?thesis by (auto intro!: grows_set_table simp del: set_map)
qed

lemma tame_grows: "exec_ddl fits d c = Inr c' \<Longrightarrow> tame d \<Longrightarrow> grows c c'"
proof (induction d rule: tame.induct)
  case (2 t cols cons refs)
  then show ?case by (auto simp: grows_def set_table_def list_all_iff split: if_splits)
next
  case (3 t s)
  then show ?case by (auto simp: grows_def set_table_def split: if_splits option.splits)
next
  case (4 t cols)
  then show ?case by (auto simp: list_all_iff elim!: grows_alter simp del: set_map) auto
next
  case (5 t ns)
  then show ?case
    by (auto simp: list_all_iff drop_columns_def image_iff elim!: grows_alter) (metis fst_conv)+
qed (auto simp: grows_def split: if_splits)

fun needs :: "ddl \<Rightarrow> string list" where
  "needs (When_table t d) = t # needs d"
| "needs d = []"

fun makes :: "ddl \<Rightarrow> string list" where
  "makes (Create_table t cols cons refs) = [t]"
| "makes d = []"

lemma settles:
  "exec_ddl fits d c = Inr c' \<Longrightarrow> tame d \<Longrightarrow> \<forall>t \<in> set (needs d). tables c t \<noteq> None \<Longrightarrow> settled d c'"
proof (induction d rule: tame.induct)
  case (4 t cols)
  then show ?case by (auto simp: alter_def set_table_def split: option.splits simp del: set_map)
next
  case (5 t ns)
  then show ?case by (auto simp: alter_def set_table_def drop_columns_def split: option.splits)
next
  case (9 t d)
  then have "exec_ddl fits d c = Inr c'" "tables c t \<noteq> None" by (auto split: if_splits)
  moreover from this 9 have "settled d c'" "grows c c'" using tame_grows by auto
  ultimately show ?case by (simp add: grows_table)
qed (auto simp: set_table_def split: if_splits option.splits)

lemma settled_grows: "settled d c \<Longrightarrow> grows c c' \<Longrightarrow> tame d \<Longrightarrow> settled d c'"
proof (induction d rule: tame.induct)
  case (4 t cols)
  then obtain cs cs' where "tables c t = Some cs" "set (column_names cols) \<subseteq> set (column_names cs)" "tables c' t = Some cs'"
    "\<forall>n. (t, n) \<notin> dropped \<longrightarrow> n \<in> set (column_names cs) \<longrightarrow> n \<in> set (column_names cs')"
    unfolding grows_def settled.simps by metis
  moreover have "\<forall>n \<in> set (column_names cols). (t, n) \<notin> dropped" using 4(3) by (auto simp: list_all_iff)
  ultimately show ?case unfolding settled.simps by blast
next
  case (5 t ns)
  then obtain cs cs' where "tables c t = Some cs" "set ns \<inter> set (column_names cs) = {}" "tables c' t = Some cs'"
    "\<forall>n. (t, n) \<in> dropped \<longrightarrow> n \<in> set (column_names cs') \<longrightarrow> n \<in> set (column_names cs)"
    unfolding grows_def settled.simps by metis
  moreover have "\<forall>n \<in> set ns. (t, n) \<in> dropped" using 5(3) by (simp add: list_all_iff)
  ultimately show ?case unfolding settled.simps by blast
qed (auto simp: grows_table, auto simp: grows_def)

text \<open>A statement that asks for a table comes after the one that makes it.\<close>

fun in_order :: "string list \<Rightarrow> ddl list \<Rightarrow> bool" where
  "in_order made [] = True"
| "in_order made (d # ds) \<longleftrightarrow> list_all (\<lambda>t. t \<in> set made) (needs d) \<and> in_order (makes d @ made) ds"

lemma makes_there: "exec_ddl fits d c = Inr c' \<Longrightarrow> \<forall>t \<in> set (makes d). tables c' t \<noteq> None"
  by (cases d) (auto simp: set_table_def split: if_splits)

lemma all_settled:
  assumes "exec_all fits ds c = Inr c'" and "list_all tame ds" and "in_order made ds" and "\<forall>t \<in> set made. tables c t \<noteq> None"
  shows "grows c c' \<and> list_all (\<lambda>d. settled d c') ds"
  using assms
proof (induction ds arbitrary: c made)
  case (Cons d ds)
  then obtain c1 where c1: "exec_ddl fits d c = Inr c1" "exec_all fits ds c1 = Inr c'" by (auto split: sum.splits)
  have g: "grows c c1" using tame_grows [OF c1(1)] Cons.prems(2) by simp
  have "\<forall>t \<in> set (makes d @ made). tables c1 t \<noteq> None"
    using makes_there [OF c1(1)] Cons.prems(4) grows_table [OF g] by auto
  with Cons.IH [OF c1(2), of "makes d @ made"] Cons.prems(2,3) have rest: "grows c1 c'" "list_all (\<lambda>d. settled d c') ds" by auto
  have "settled d c1"
    using settles [OF c1(1)] Cons.prems(2-4) by (auto simp: list_all_iff)
  then have "settled d c'" using settled_grows rest(1) Cons.prems(2) by simp
  with rest g grows_trans show ?case by auto
qed simp

lemmas ddl_defs = EnsureDriversTable_ddl_def EnsureAdminsTable_ddl_def EnsureCompaniesTable_ddl_def EnsureCargoTables_ddl_def
  EnsureChatTables_ddl_def cargo_ddl_def route_points_ddl_def payments_ddl_def cities_ddl_def offers_ddl_def

lemma bootstrap_tame: "list_all tame bootstrap"
  by (simp add: bootstrap_def ddl_defs dropped_def unlinked_def)

lemma bootstrap_in_order: "in_order [] bootstrap"
  by (simp add: bootstrap_def ddl_defs)

text \<open>
  C38: the bootstrap is idempotent and destroys nothing. After a start that came up, whatever the database was before, every
  table, column, constraint and index there was is still there, but for seven columns of companies and one constraint that are
  dropped on purpose; and the next start, whatever rows were written in between, comes up and leaves the schema as it is.
\<close>

theorem bootstrap_idempotent:
  assumes "infra_New fits pool ping redis c = (None, c')"
  shows "grows c c' \<and> infra_New fits' None None None c' = (None, c')"
proof -
  from assms have "exec_all fits bootstrap c = Inr c'" by (simp add: infra_New_ok)
  from all_settled [OF this bootstrap_tame bootstrap_in_order]
  have "grows c c'" "list_all (\<lambda>d. settled d c') bootstrap" by simp_all
  then show ?thesis by (simp add: infra_New_ok settled_all)
qed

theorem bootstrap_idempotent_witness:
  "\<exists>c. infra_New (\<lambda>_. True) None None None no_tables = (None, c) \<and> infra_New (\<lambda>_. False) None None None c = (None, c)"
proof -
  have "fst (infra_New (\<lambda>_. True) None None None no_tables) = None" by code_simp
  then obtain c where "infra_New (\<lambda>_. True) None None None no_tables = (None, c)" by (metis prod.collapse)
  with bootstrap_idempotent [OF this] show ?thesis by blast
qed

section \<open>The archive of the drivers\<close>

text \<open>The tables a statement of the bootstrap may change.\<close>

fun alters :: "ddl \<Rightarrow> string list" where
  "alters (Create_table t cols cons refs) = [t]"
| "alters (Create_table_like t s) = [t]"
| "alters (Add_columns t cols) = [t]"
| "alters (Drop_columns t ns) = [t]"
| "alters (When_table t d) = alters d"
| "alters d = []"

lemma alters_only:
  "exec_ddl fits d c = Inr c' \<Longrightarrow> tame d \<Longrightarrow> t \<notin> set (alters d) \<Longrightarrow> tables c' t = tables c t"
  by (induction d rule: alters.induct) (auto simp: alter_def set_table_def split: if_splits option.splits)

lemma alters_all:
  "exec_all fits ds c = Inr c' \<Longrightarrow> list_all tame ds \<Longrightarrow> list_all (\<lambda>d. t \<notin> set (alters d)) ds \<Longrightarrow> tables c' t = tables c t"
proof (induction ds arbitrary: c)
  case (Cons d ds)
  then obtain c1 where c1: "exec_ddl fits d c = Inr c1" "exec_all fits ds c1 = Inr c'" by (auto split: sum.splits)
  with Cons alters_only [OF c1(1)] show ?case by simp
qed simp

lemma length_add_column: "length (add_column col cs) = length cs + (if fst col \<in> set (column_names cs) then 0 else 1)"
  by (simp add: add_column_def)

lemma length_add_columns: "length cs \<le> length (add_columns cols cs)"
  unfolding add_columns_def
proof (induction cols arbitrary: cs)
  case (Cons col cols)
  from Cons [of "add_column col cs"] length_add_column [of col cs] show ?case by simp
qed simp

lemma new_column:
  assumes "n \<in> set (column_names cols)" and "n \<notin> set (column_names cs)"
  shows "length cs < length (add_columns cols cs)"
  using assms
proof (induction cols arbitrary: cs)
  case (Cons col cols)
  have step: "add_columns (col # cols) cs = add_columns cols (add_column col cs)" by (simp add: add_columns_def)
  show ?case
  proof (cases "fst col \<in> set (column_names cs)")
    case True
    then have "add_column col cs = cs" by (simp add: add_column_def)
    with Cons True show ?thesis unfolding step by auto
  next
    case False
    with length_add_column [of col cs] length_add_columns [of "add_column col cs" cols] show ?thesis unfolding step by simp
  qed
qed simp

text \<open>The columns \<open>EnsureDriversTable\<close> adds to an older table \<open>drivers\<close>.\<close>

definition late_columns :: "column list" where
  "late_columns = concat (map (\<lambda>d. case d of Add_columns t cols \<Rightarrow> if t = ''drivers'' then cols else [] | _ \<Rightarrow> [])
     (concat EnsureDriversTable_ddl))"

text \<open>What the statements do to a table that is there, when they only create what is missing and add columns.\<close>

fun creates :: "ddl \<Rightarrow> bool" where
  "creates Create_extension = True"
| "creates (Create_table t cols cons refs) = True"
| "creates (Create_table_like t s) = True"
| "creates (Add_columns t cols) = True"
| "creates (Create_index uniq n t cols) = True"
| "creates d = False"

fun effect :: "string \<Rightarrow> ddl \<Rightarrow> column list \<Rightarrow> column list" where
  "effect t (Add_columns t' new) cols = (if t' = t then add_columns new cols else cols)"
| "effect t d cols = cols"

lemma effect_of_ddl:
  "exec_ddl fits d c = Inr c' \<Longrightarrow> creates d \<Longrightarrow> tables c t = Some cols \<Longrightarrow> tables c' t = Some (effect t d cols)"
  by (cases d) (auto simp: alter_def set_table_def split: if_splits option.splits)

lemma effect_of_all:
  "exec_all fits ds c = Inr c' \<Longrightarrow> list_all creates ds \<Longrightarrow> tables c t = Some cols
   \<Longrightarrow> tables c' t = Some (fold (effect t) ds cols)"
proof (induction ds arbitrary: c cols)
  case (Cons d ds)
  then obtain c1 where c1: "exec_ddl fits d c = Inr c1" "exec_all fits ds c1 = Inr c'" by (auto split: sum.splits)
  with Cons effect_of_ddl [OF c1(1)] show ?case by simp
qed simp

lemma drivers_effect:
  "list_all creates (concat EnsureDriversTable_ddl)"
  "fold (effect ''drivers'') (concat EnsureDriversTable_ddl) cols = add_columns late_columns cols"
  "fold (effect ''deleted_drivers'') (concat EnsureDriversTable_ddl) archive
     = add_columns [nul ''photo_data'' ''BYTEA'', nul ''photo_content_type'' ''VARCHAR(50)''] archive"
  by (simp_all add: late_columns_def EnsureDriversTable_ddl_def)

text \<open>What the bootstrap does to the two tables when both are there and the archive has the photo's columns.\<close>

lemma drivers_bootstrap:
  assumes "exec_all fits (concat EnsureDriversTable_ddl) c = Inr c'"
    and "tables c ''drivers'' = Some cols" and "tables c ''deleted_drivers'' = Some archive"
    and "{''photo_data'', ''photo_content_type''} \<subseteq> set (column_names archive)"
  shows "tables c' ''drivers'' = Some (add_columns late_columns cols) \<and> tables c' ''deleted_drivers'' = Some archive"
proof -
  have "add_columns [nul ''photo_data'' ''BYTEA'', nul ''photo_content_type'' ''VARCHAR(50)''] archive = archive"
    by (rule add_columns_settled) (use assms(4) in simp)
  with effect_of_all [OF assms(1) drivers_effect(1)] assms(2,3) show ?thesis by (simp add: drivers_effect)
qed

lemma rest_tame:
  "list_all (\<lambda>d. ''drivers'' \<notin> set (alters d) \<and> ''deleted_drivers'' \<notin> set (alters d))
     (concat EnsureAdminsTable_ddl @ concat EnsureCompaniesTable_ddl @ concat EnsureCargoTables_ddl @ concat EnsureChatTables_ddl)"
  by (simp add: ddl_defs)

lemma archive_left_behind:
  assumes "infra_New fits pool ping redis c = (None, c')"
    and "tables c ''drivers'' = Some cols" and "tables c ''deleted_drivers'' = Some archive"
    and "{''photo_data'', ''photo_content_type''} \<subseteq> set (column_names archive)"
    and "length archive \<le> length cols" and "''power_plate_type'' \<notin> set (column_names cols)"
  shows "\<not> fits_archive c'"
proof -
  let ?rest = "concat EnsureAdminsTable_ddl @ concat EnsureCompaniesTable_ddl @ concat EnsureCargoTables_ddl @ concat EnsureChatTables_ddl"
  from assms(1) obtain c1 where c1: "exec_all fits (concat EnsureDriversTable_ddl) c = Inr c1" "exec_all fits ?rest c1 = Inr c'"
    unfolding infra_New_ok bootstrap_def exec_all_append [of fits "concat EnsureDriversTable_ddl"] by (auto split: sum.splits)
  note new = drivers_bootstrap [OF c1(1) assms(2-4)]
  have "''power_plate_type'' \<in> set (column_names late_columns)" by (simp add: late_columns_def EnsureDriversTable_ddl_def)
  from new_column [OF this assms(6)] have longer: "length cols < length (add_columns late_columns cols)" .
  have "list_all tame ?rest" using bootstrap_tame by (simp add: bootstrap_def)
  with alters_all [OF c1(2)] rest_tame have "tables c' t = tables c1 t" if "t \<in> {''drivers'', ''deleted_drivers''}" for t
    using that by (auto simp: list_all_iff)
  with longer new assms(5) show ?thesis by (simp add: fits_archive_def)
qed

lemma archive_refuses:
  assumes "\<not> archive_fits (w_db w)"
  shows "run (Profile_Delete driverID) w = (r, w') \<Longrightarrow> r = ErrorLang 500 ''internal_error'' \<and> w_db w' = w_db w"
  using assms
  by (auto simp: Profile_Delete_def run_attempt drivers_DeleteAndArchive_def run_tx_begin run_tx_exec archive_driver_def
      ErrDeleteNotFound_def split: sum.splits prod.splits if_splits)

text \<open>
  C36: no driver is ever deleted. The migration 35 takes the columns of the vehicles away from \<open>drivers\<close> and from its archive; the
  bootstrap that follows adds some of them again, to \<open>drivers\<close> alone. From then on the archive has fewer columns than the table,
  and the deletion of a profile answers 500 and changes nothing, for every driver and whatever else happens.
\<close>

theorem drivers_never_deleted:
  fixes w :: "'z world_scheme"
  assumes "infra_New fits pool ping redis c = (None, c')"
    and "tables c ''drivers'' = Some cols" and "tables c ''deleted_drivers'' = Some archive"
    and "{''photo_data'', ''photo_content_type''} \<subseteq> set (column_names archive)"
    and "length archive \<le> length cols" and "''power_plate_type'' \<notin> set (column_names cols)"
    and "archive_fits (w_db w) = fits_archive c'"
    and "run (Profile_Delete driverID) w = (r, w')"
  shows "r = ErrorLang 500 ''internal_error'' \<and> w_db w' = w_db w"
  using archive_left_behind [OF assms(1-6)] archive_refuses assms(7,8) by blast

text \<open>
  The columns an earlier version of the server gave to both tables by its bootstrap, and what the files 35 and 36 leave of them.
\<close>

definition first_columns :: "column list" where
  "first_columns = concat (map (\<lambda>d. case d of Create_table t cols cons refs \<Rightarrow> cols | _ \<Rightarrow> []) migration_1)"

definition two_tables :: "column list \<Rightarrow> catalog" where
  "two_tables cols = no_tables\<lparr>has_uuid := True, tables := [''drivers'' \<mapsto> cols, ''deleted_drivers'' \<mapsto> cols]\<rparr>"

definition split_columns :: "column list" where
  "split_columns = [dflt ''id'' ''UUID'' ''uuid_generate_v4()'', req ''phone'' ''VARCHAR'', dflt ''created_at'' ''TIMESTAMP'' ''now()'',
     dflt ''updated_at'' ''TIMESTAMP'' ''now()'', nul ''last_online_at'' ''TIMESTAMP'', nul ''latitude'' ''DOUBLE PRECISION'',
     nul ''longitude'' ''DOUBLE PRECISION'', nul ''push_token'' ''VARCHAR'', nul ''registration_step'' ''VARCHAR'',
     nul ''registration_status'' ''VARCHAR'', nul ''name'' ''VARCHAR'', nul ''driver_type'' ''VARCHAR'',
     nul ''rating'' ''DOUBLE PRECISION'', nul ''work_status'' ''VARCHAR'', nul ''freelancer_id'' ''UUID'', nul ''company_id'' ''UUID'',
     nul ''account_status'' ''VARCHAR'', nul ''driver_passport_series'' ''VARCHAR'', nul ''driver_passport_number'' ''VARCHAR'',
     nul ''driver_pinfl'' ''VARCHAR'', nul ''driver_scan_status'' ''BOOLEAN'', nul ''driver_owner'' ''BOOLEAN'',
     nul ''kyc_status'' ''VARCHAR'', nul ''photo_data'' ''BYTEA'', nul ''photo_content_type'' ''VARCHAR(50)'']"

lemma split_by_migrations:
  "\<exists>c. exec_all fits (migration_35 @ migration_36) (two_tables first_columns) = Inr c
     \<and> tables c ''drivers'' = Some split_columns \<and> tables c ''deleted_drivers'' = Some split_columns"
  by (simp add: two_tables_def first_columns_def migration_1_def migration_35_def migration_36_def split_columns_def no_tables_def
      alter_def set_table_def has_column_def drop_columns_def add_columns_def add_column_def)

theorem drivers_never_deleted_witness:
  "fst (infra_New (\<lambda>_. True) None None None (two_tables split_columns)) = None
   \<and> (let w = world_of ((empty_db True)\<lparr>archive_fits := fits_archive (snd (infra_New (\<lambda>_. True) None None None (two_tables split_columns))),
          drivers_t := [empty_driver 7 ''+998901234567'' 50]\<rparr>)
      in fst (run (Profile_Delete 7) w) = ErrorLang 500 ''internal_error'' \<and> w_db (snd (run (Profile_Delete 7) w)) = w_db w)"
proof -
  have ok: "fst (infra_New (\<lambda>_. True) None None None (two_tables split_columns)) = None" by code_simp
  then obtain c' where c': "infra_New (\<lambda>_. True) None None None (two_tables split_columns) = (None, c')" by (metis prod.collapse)
  have both: "tables (two_tables split_columns) ''drivers'' = Some split_columns"
    "tables (two_tables split_columns) ''deleted_drivers'' = Some split_columns" by (simp_all add: two_tables_def)
  have cols: "{''photo_data'', ''photo_content_type''} \<subseteq> set (column_names split_columns)"
    "''power_plate_type'' \<notin> set (column_names split_columns)" by (simp_all add: split_columns_def)
  let ?w = "world_of ((empty_db True)\<lparr>archive_fits := fits_archive c', drivers_t := [empty_driver 7 ''+998901234567'' 50]\<rparr>)"
  have fits: "archive_fits (w_db ?w) = fits_archive c'" by (simp add: world_of_def)
  obtain r w' where run: "run (Profile_Delete 7) ?w = (r, w')" by fastforce
  from drivers_never_deleted [OF c' both cols(1) order.refl cols(2) fits run] run
  have "fst (run (Profile_Delete 7) ?w) = ErrorLang 500 ''internal_error'' \<and> w_db (snd (run (Profile_Delete 7) ?w)) = w_db ?w"
    by simp
  then show ?thesis by (simp add: Let_def c')
qed

section \<open>A database that began empty\<close>

text \<open>The catalog the files leave when 35 has failed: the file finds no \<open>deleted_drivers\<close>, which only the bootstrap makes.\<close>

definition stopped :: catalog where
  "stopped = \<lparr>has_uuid = True, tables = [''drivers'' \<mapsto> first_columns], constraints = {''drivers_pkey'', ''drivers_phone_key''},
     indexes = {''idx_drivers_phone''}\<rparr>"

lemma first_files:
  "apply_files fits (filter (\<lambda>(n, _). 0 < n) migration_files) no_tables = (Some 35, stopped)"
  by (simp add: migration_files_def migration_1_def migration_2_def migration_3_def migration_4_def migration_5_def migration_35_def
      no_tables_def alter_def set_table_def has_column_def drop_columns_def add_columns_def add_column_def stopped_def first_columns_def)

lemma again_files:
  "apply_files fits (filter (\<lambda>(n, _). 34 < n) migration_files) stopped = (Some 35, stopped)"
  by (simp add: migration_files_def migration_1_def migration_35_def stopped_def first_columns_def
      alter_def set_table_def has_column_def drop_columns_def)

lemma dirty_35: "parseDirtyVersion (dirty_text 35) = 34" "sublist ''Dirty database'' (dirty_text 35)"
proof -
  have shown: "dirty_text 35 = ''Dirty database version 35. Fix and force version.''"
    by (simp add: dirty_text_def Itoa_def nat_digits.simps digit_char_def)
  show "parseDirtyVersion (dirty_text 35) = 34" unfolding shown by code_simp
  have "prefix ''Dirty database'' (dirty_text 35)" by (simp add: shown)
  then show "sublist ''Dirty database'' (dirty_text 35)" by (rule prefix_imp_sublist)
qed

text \<open>
  C37: a server never comes up on a database that began empty. No file of \<open>migrations\<close> makes the table \<open>deleted_drivers\<close>, which
  the file 35 alters: the first start fails there and leaves the database dirty, and every later start forces the version back to
  34, fails at 35 again and leaves the same database behind. The bootstrap, which would make the table, only runs afterwards.
\<close>

theorem fresh_database_refused:
  assumes "migrates fits lib db" and "db m \<in> {(no_tables, 0, False), (stopped, 35, True)}"
    and "mg_New lib url (pgx_url dbURL) = Inr m" and "TrimSpace dbURL \<noteq> []"
  shows "\<exists>e m'. runMigrationsUp lib (Inr url) dbURL = (Some e, Some m') \<and> db m' = (stopped, 35, True)"
proof -
  from assms(2) consider "db m = (no_tables, 0, False)" | "db m = (stopped, 35, True)" by blast
  then show ?thesis
  proof cases
    case 1
    with assms(1) first_files [of fits] obtain e m' where "mg_Up lib m = (Up_failed e, m')" "\<not> sublist ''Dirty database'' e"
      "db m' = (stopped, 35, True)"
      unfolding migrates_def by (auto dest!: spec [of _ m])
    with assms(3,4) show ?thesis by (simp add: runMigrationsUp_def)
  next
    case 2
    with assms(1) obtain m1 where up: "mg_Up lib m = (Up_failed (dirty_text 35), m)" and force: "mg_Force lib m 34 = (None, m1)"
      and m1: "db m1 = (stopped, 34, False)"
      unfolding migrates_def by (auto dest!: spec [of _ m] spec [of _ 34])
    from m1 assms(1) again_files [of fits] obtain e m' where "mg_Up lib m1 = (Up_failed e, m')" "db m' = (stopped, 35, True)"
      unfolding migrates_def by (auto dest!: spec [of _ m1])
    with assms(3,4) up force show ?thesis by (simp add: runMigrationsUp_def dirty_35)
  qed
qed

text \<open>An instance of the library: the migrator is the database it works on.\<close>

definition sample_migrate :: "catalog \<times> nat \<times> bool \<Rightarrow> (catalog \<times> nat \<times> bool) migrate" where
  "sample_migrate m0 =
     \<lparr>mg_New = (\<lambda>source url. Inr m0),
      mg_Up = (\<lambda>(c, v, dirty). if dirty then (Up_failed (dirty_text v), c, v, dirty)
         else case apply_files (\<lambda>_. True) (filter (\<lambda>(n, _). v < n) migration_files) c of
             (None, c') \<Rightarrow> (Up_done, c', 36, False)
           | (Some n, c') \<Rightarrow> (Up_failed ''failed'', c', n, True)),
      mg_Force = (\<lambda>(c, v, dirty) k. (None, c, nat k, False))\<rparr>"

lemma sample_migrates: "migrates (\<lambda>_. True) (sample_migrate m0) (\<lambda>m. m)"
proof -
  have "\<not> sublist ''Dirty database'' ''failed''"
    using sublist_length_le [of "''Dirty database''" "''failed''"] by auto
  then show ?thesis by (auto simp: migrates_def sample_migrate_def split: option.split prod.split)
qed

theorem fresh_database_refused_witness:
  "\<exists>e m'. runMigrationsUp (sample_migrate (no_tables, 0, False)) (Inr ''file:///srv/migrations'') ''postgres://db'' = (Some e, Some m')
     \<and> (\<exists>f n'. runMigrationsUp (sample_migrate m') (Inr ''file:///srv/migrations'') ''postgres://db'' = (Some f, Some n'))"
proof -
  have url: "TrimSpace ''postgres://db'' \<noteq> []" by code_simp
  have new: "mg_New (sample_migrate m) u v = Inr m" for m u v by (simp add: sample_migrate_def)
  obtain e m' where 1: "runMigrationsUp (sample_migrate (no_tables, 0, False)) (Inr ''file:///srv/migrations'') ''postgres://db'' = (Some e, Some m')"
    "m' = (stopped, 35, True)"
    using fresh_database_refused [OF sample_migrates _ new url] by blast
  moreover obtain f n' where "runMigrationsUp (sample_migrate m') (Inr ''file:///srv/migrations'') ''postgres://db'' = (Some f, Some n')"
    using fresh_database_refused [OF sample_migrates _ new url, of m'] 1(2) by blast
  ultimately show ?thesis by blast
qed

end
