(* ===== verification/Tools.thy ===== *)
theory Tools
  imports Bootstrap Profile_Guarantees
begin

text \<open>
  The command line tools: \<open>cmd/admin\<close>, which creates an administrator or changes one, and \<open>cmd/migrate\<close>, which migrates the
  database by hand. A tool ends with an exit code and the text it prints.
\<close>

section \<open>Administrators\<close>

text \<open>The flags as they are given, or their defaults.\<close>

record admin_flags =
  af_login :: string
  af_password :: string
  af_name :: string
  af_status :: string
  af_type :: string

definition default_flags :: admin_flags where
  "default_flags = \<lparr>af_login = [], af_password = [], af_name = [], af_status = ''active'', af_type = ''creator''\<rparr>"

text \<open>
  The trigger of migration 25: a password that is not a hash already is hashed by pgcrypto, the argument \<open>crypt\<close>; an update with
  an empty one keeps the old.
\<close>

definition admins_hash_password :: "(string \<Rightarrow> string) \<Rightarrow> string option \<Rightarrow> string \<Rightarrow> string" where
  "admins_hash_password crypt old pw =
     (let pw' = (if sql_trim pw \<noteq> [] \<and> \<not> prefix ''$2'' pw then crypt pw else pw)
      in (case old of Some o' \<Rightarrow> if sql_trim pw' = [] then o' else pw' | None \<Rightarrow> pw'))"

text \<open>\<open>INSERT INTO admins .. ON CONFLICT (login) DO UPDATE SET .. RETURNING id\<close>, with the check on the status.\<close>

definition upsert_admin :: "(string \<Rightarrow> string) \<Rightarrow> string \<Rightarrow> string \<Rightarrow> string \<Rightarrow> string \<Rightarrow> string \<Rightarrow> uuid stmt" where
  "upsert_admin crypt login pw name status typ = (\<lambda>now v db.
     if status \<notin> {''active'', ''inactive'', ''blocked''} then Inl CheckViolation
     else let inserted = admins_hash_password crypt None pw in
       (case first_where (\<lambda>a. ad_login a = login) (admins_t db) of
          None \<Rightarrow> Inr (v, db\<lparr>admins_t := admins_t db @ [\<lparr>ad_id = v, ad_login = login, ad_password = inserted, ad_name = name,
            ad_status = status, ad_type = typ\<rparr>]\<rparr>)
        | Some a \<Rightarrow> Inr (ad_id a, db\<lparr>admins_t := update_where (\<lambda>r. ad_login r = login)
            (\<lambda>r. r\<lparr>ad_password := admins_hash_password crypt (Some (ad_password r)) inserted, ad_name := name,
               ad_status := status, ad_type := typ\<rparr>) (admins_t db)\<rparr>)))"

text \<open>\<open>pool\<close> and \<open>ensured\<close> are the errors of opening the pool and of \<open>EnsureAdminsTable\<close> (theory \<open>Bootstrap\<close>).\<close>

definition admin_main ::
  "ext \<Rightarrow> (string \<Rightarrow> string) \<Rightarrow> string \<Rightarrow> string option \<Rightarrow> string option \<Rightarrow> admin_flags \<Rightarrow> ('z, int \<times> string) prog" where
  "admin_main E crypt dbURL pool ensured fl =
     (let l = TrimSpace (af_login fl); p = TrimSpace (af_password fl); n = TrimSpace (af_name fl);
          s = TrimSpace (af_status fl); t = TrimSpace (af_type fl)
      in if TrimSpace dbURL = [] then ret (2, ''DATABASE_URL is required'')
      else if l = [] \<or> p = [] \<or> n = [] then ret (2, ''flags -login, -password, -name are required'')
      else case ValidatePassword E p of
        Inl _ \<Rightarrow> ret (2, ''invalid -password'')
      | Inr _ \<Rightarrow>
          attempt (HashPassword E p) (\<lambda>_. ret (1, ''password hash failed'')) (\<lambda>hash.
          case pool of
            Some _ \<Rightarrow> ret (1, ''db connect failed'')
          | None \<Rightarrow>
              (case ensured of
                 Some _ \<Rightarrow> ret (1, ''ensure admins table failed'')
               | None \<Rightarrow>
                   attempt (pg_call (upsert_admin crypt l hash n s t)) (\<lambda>_. ret (1, ''admin upsert failed''))
                     (\<lambda>u. ret (0, ''admin id: '' @ uuid_string E u)))))"

section \<open>Migrations by hand\<close>

text \<open>What the tool uses of the library beside what the server uses.\<close>

record 'm migrate_tool = "'m migrate" +
  mg_Down :: "'m \<Rightarrow> up_result \<times> 'm"
  mg_Steps :: "'m \<Rightarrow> int \<Rightarrow> up_result \<times> 'm"

definition migrate_main ::
  "'m migrate_tool \<Rightarrow> string \<Rightarrow> string \<Rightarrow> int \<Rightarrow> (int \<times> string) \<times> 'm option" where
  "migrate_main lib dbURL direction steps =
     (if dbURL = [] then ((2, ''DATABASE_URL is required''), None)
      else case mg_New lib ''file://migrations'' (pgx_url dbURL) of
        Inl e \<Rightarrow> ((1, ''migrate init error: '' @ e), None)
      | Inr m \<Rightarrow>
          (let ran = (if direction = ''up'' then Some (if steps > 0 then mg_Steps lib m steps else mg_Up lib m)
                 else if direction = ''down'' then Some (if steps > 0 then mg_Steps lib m (- steps) else mg_Down lib m)
                 else None)
           in case ran of
             None \<Rightarrow> ((2, ''invalid -direction, must be up|down''), Some m)
           | Some (Up_failed e, m) \<Rightarrow> ((1, ''migration error: '' @ e), Some m)
           | Some (_, m) \<Rightarrow> ((0, ''migrations: '' @ direction @ '' ok''), Some m)))"

section \<open>An administrator can sign in\<close>

text \<open>Documented behaviour of bcrypt: its hashes begin with the version.\<close>

definition hash_marked :: "ext \<Rightarrow> string \<Rightarrow> bool" where
  "hash_marked E pw \<longleftrightarrow> (\<forall>u h. bcrypt_hash E u pw = Some h \<longrightarrow> prefix ''$2'' h)"

lemma sql_trim_starts: "c \<noteq> CHR '' '' \<Longrightarrow> sql_trim (c # t) \<noteq> []"
  by (simp only: sql_trim_def dropWhile.simps if_False rev_is_Nil_conv dropWhile_eq_Nil_conv set_rev) simp

lemma sql_trim_marked:
  assumes "prefix ''$2'' h"
  shows "sql_trim h \<noteq> []"
proof -
  obtain t where h: "h = CHR ''$'' # t" using assms by (auto simp: prefix_def)
  show ?thesis unfolding h by (rule sql_trim_starts) simp
qed

lemma marked_kept: "prefix ''$2'' h \<Longrightarrow> admins_hash_password crypt old h = h"
  by (simp add: admins_hash_password_def sql_trim_marked split: option.split)

lemma first_where_updated:
  "(\<And>r. P r \<Longrightarrow> P (f r)) \<Longrightarrow> first_where P (update_where P f t) = map_option f (first_where P t)"
  by (induction t) (simp_all add: first_where_Cons update_where_def)

lemma first_where_appended: "first_where P t = None \<Longrightarrow> P r \<Longrightarrow> first_where P (t @ [r]) = Some r"
  by (induction t) (simp_all add: first_where_Cons split: if_splits)

text \<open>After the statement the login names a row with what the flags say, a marked password included.\<close>

lemma upserted:
  assumes "upsert_admin crypt login pw name status typ now v db = Inr (u, db')" and "prefix ''$2'' pw"
  shows "first_where (\<lambda>a. ad_login a = login) (admins_t db') = Some \<lparr>ad_id = u, ad_login = login, ad_password = pw, ad_name = name,
     ad_status = status, ad_type = typ\<rparr>"
proof (cases "first_where (\<lambda>a. ad_login a = login) (admins_t db)")
  case None
  with assms show ?thesis
    by (auto simp: upsert_admin_def marked_kept first_where_appended Let_def split: if_splits)
next
  case (Some a)
  then have "ad_login a = login" by (auto dest: first_where_Some)
  with Some assms show ?thesis
    by (auto simp: upsert_admin_def marked_kept first_where_updated Let_def split: if_splits)
qed

lemma admin_main_done:
  assumes "run (admin_main E crypt dbURL pool ensured fl) w = ((0, out), w')" and "reliable w"
    and "hash_marked E (TrimSpace (af_password fl))"
  obtains u hash where "bcrypt_hash E (fresh_id w) (TrimSpace (af_password fl)) = Some hash" and "out = ''admin id: '' @ uuid_string E u"
    and "first_where (\<lambda>a. ad_login a = TrimSpace (af_login fl)) (admins_t (w_db w')) = Some \<lparr>ad_id = u,
      ad_login = TrimSpace (af_login fl), ad_password = hash, ad_name = TrimSpace (af_name fl),
      ad_status = TrimSpace (af_status fl), ad_type = TrimSpace (af_type fl)\<rparr>"
    and "TrimSpace (af_login fl) \<noteq> []" and "TrimSpace (af_password fl) \<noteq> []" and "reliable w'"
  using assms
  by (auto simp: admin_main_def run_attempt HashPassword_def hash_marked_def Let_def
      split: if_splits sum.splits option.splits dest!: upserted)

text \<open>
  C39: whoever the tool has made an administrator can sign in. When \<open>cmd/admin\<close> has printed an identifier, whether the login
  was new or not, whatever the trigger of the table does to passwords and with spaces around the flags, the sign-in with the same login and
  password answers with tokens for that identifier, if the status asked for is the active one (or fails to sign them).
\<close>

theorem admin_tool_login:
  assumes "bcrypt_laws E" and "hash_marked E (TrimSpace (af_password fl))" and "reliable (w :: rworld)"
    and "run (admin_main E crypt dbURL pool ensured fl) w = ((0, out), w')" and "TrimSpace (af_status fl) = ''active''"
  shows "\<exists>u. out = ''admin id: '' @ uuid_string E u
     \<and> (let a = fst (run (AdminAuth_LoginPassword E m rs (Some \<lparr>al_Login = af_login fl, al_Password = af_password fl\<rparr>)) w')
        in a = ErrorLang 500 ''token_issue_failed''
         \<or> (\<exists>tokens. a = OKLang ''ok'' (JObj [(''tokens'', tokens_json tokens),
              (''admin'', JObj [(''id'', jid E u), (''login'', JStr (TrimSpace (af_login fl))), (''name'', JStr (TrimSpace (af_name fl))),
                 (''status'', JStr ''active''), (''type'', JStr (TrimSpace (af_type fl)))])])))"
proof -
  obtain u hash where made: "bcrypt_hash E (fresh_id w) (TrimSpace (af_password fl)) = Some hash" "out = ''admin id: '' @ uuid_string E u"
    "first_where (\<lambda>a. ad_login a = TrimSpace (af_login fl)) (admins_t (w_db w')) = Some \<lparr>ad_id = u,
      ad_login = TrimSpace (af_login fl), ad_password = hash, ad_name = TrimSpace (af_name fl),
      ad_status = TrimSpace (af_status fl), ad_type = TrimSpace (af_type fl)\<rparr>"
    "TrimSpace (af_login fl) \<noteq> []" "TrimSpace (af_password fl) \<noteq> []" "reliable w'"
    using admin_main_done [OF assms(4,3,2)] .
  have given: "af_login fl \<noteq> []" "af_password fl \<noteq> []" using made(4,5) by auto
  have checks: "bcrypt_check E hash (TrimSpace (af_password fl))" using assms(1) made(1) unfolding bcrypt_laws_def by blast
  have "is_ascii ''active''" "map ascii_lower ''active'' = ''active''" by code_simp+
  then have active: "TrimSpace ''active'' = ''active''" "ToLower E ''active'' = ''active''"
    by (code_simp, simp only: ToLower_def if_True)
  let ?log = "AdminAuth_LoginPassword E m rs (Some \<lparr>al_Login = af_login fl, al_Password = af_password fl\<rparr>)"
  have "fst (run ?log w') = ErrorLang 500 ''token_issue_failed''
         \<or> (\<exists>tokens. fst (run ?log w') = OKLang ''ok'' (JObj [(''tokens'', tokens_json tokens),
              (''admin'', JObj [(''id'', jid E u), (''login'', JStr (TrimSpace (af_login fl))), (''name'', JStr (TrimSpace (af_name fl))),
                 (''status'', JStr ''active''), (''type'', JStr (TrimSpace (af_type fl)))])]))"
    using made given checks
    by (auto simp: AdminAuth_LoginPassword_def admins_FindByLogin_def run_attempt ComparePassword_def active assms(5) Let_def
        split: prod.split sum.split)
  with made(2) show ?thesis by (auto simp: Let_def)
qed

text \<open>The hash of the sample functions is the password itself, so the sample password begins with the mark.\<close>

definition sample_flags :: admin_flags where
  "sample_flags = default_flags\<lparr>af_login := '' root'', af_password := ''$2secret'', af_name := ''Root''\<rparr>"

lemma sample_flags_trimmed:
  "TrimSpace (af_login sample_flags) = ''root''" "TrimSpace (af_password sample_flags) = ''$2secret''"
  "TrimSpace (af_name sample_flags) = ''Root''" "TrimSpace (af_status sample_flags) = ''active''"
  "TrimSpace (af_type sample_flags) = ''creator''" "TrimSpace ''postgres://db'' = ''postgres://db''"
  by code_simp+

lemma run_sample_admin:
  "\<exists>out w'. run (admin_main sample_ext rev ''postgres://db'' None None sample_flags) sample_rworld = ((0, out), w')"
  by (simp add: admin_main_def sample_flags_trimmed ValidatePassword_def run_attempt HashPassword_def sample_password upsert_admin_def
      empty_db_def IsLetter_def first_where_def marked_kept Let_def)

theorem admin_tool_login_witness:
  "\<exists>out w' a. run (admin_main sample_ext rev ''postgres://db'' None None sample_flags) sample_rworld = ((0, out), w')
     \<and> a = fst (run (AdminAuth_LoginPassword sample_ext sample_jwt \<lparr>rs_ttl = 3600 * second, rs_accessTTL = 900 * second\<rparr>
          (Some \<lparr>al_Login = '' root'', al_Password = ''$2secret''\<rparr>)) w')
     \<and> (a = ErrorLang 500 ''token_issue_failed'' \<or> resp_code a = 200)"
proof -
  obtain out w' where run: "run (admin_main sample_ext rev ''postgres://db'' None None sample_flags) sample_rworld = ((0, out), w')"
    using run_sample_admin by blast
  have active: "TrimSpace ''active'' = ''active''" by code_simp
  have "hash_marked sample_ext (TrimSpace (af_password sample_flags))"
    by (simp add: hash_marked_def sample_password sample_flags_trimmed)
  from admin_tool_login [OF sample_bcrypt this _ run, of sample_jwt "\<lparr>rs_ttl = 3600 * second, rs_accessTTL = 900 * second\<rparr>"]
  have "\<exists>a. a = fst (run (AdminAuth_LoginPassword sample_ext sample_jwt \<lparr>rs_ttl = 3600 * second, rs_accessTTL = 900 * second\<rparr>
          (Some \<lparr>al_Login = '' root'', al_Password = ''$2secret''\<rparr>)) w')
     \<and> (a = ErrorLang 500 ''token_issue_failed'' \<or> resp_code a = 200)"
    by (auto simp: sample_flags_trimmed Let_def OKLang_def sample_flags_def default_flags_def active)
  with run show ?thesis by blast
qed

end
