(* ===== verification/Spec2Isabelle.thy ===== *)
theory Spec2Isabelle
  imports Cargo_Create Cargo_Guarantees Session_Guarantees Link_Guarantees Company_Guarantees Profile_Guarantees Answers Keys
    Reference_Guarantees Bootstrap_Guarantees Tools
begin

text \<open>
  A model of the Sarbon freight backend, a Go server (\<open>cmd/api\<close>) over PostgreSQL and Redis, with theorems about what its
  requests can and cannot do.

  The program. Shippers' staff create cargo; a cargo passes moderation, drivers and carriers offer for it, one offer is
  accepted, and a trip takes the cargo along. Drivers and dispatchers sign in with one-time codes that the Telegram gateway
  delivers, fill in their papers, and are linked to each other by invitations. Companies have members with roles.
  Users write to each other over WebSockets. A request passes the headers' check and the guard of its group
  (\<open>internal/server/mw\<close>), reaches a handler (\<open>internal/server/handlers\<close>), which calls repositories
  (\<open>internal/cargo\<close>, \<open>trips\<close>, \<open>drivers\<close>, \<open>companies\<close>, ..., SQL through pgx) and stores
  (\<open>internal/store\<close>, Redis), and answers through \<open>internal/server/resp\<close> in the language of the request.

  How the code is represented. A struct is a record, a pointer that may be nil an option, an error a value of the datatype
  \<open>err\<close> in the left of a sum, \<open>int\<close> an integer with its wrap-around written out, a string a list of bytes (the theory
  \<open>Text\<close> decodes runes from it). A method is a program of the state monad over a \<open>world\<close>: the database, the clock, the
  source of identifiers, and a list that says which of the coming round trips break down, before the server acted or after.
  The \<open>rworld\<close> has the Redis key space beside it. Each SQL statement is a definition of its own, a function on tables, so
  that a transaction is a value that is committed or thrown away. A handler takes what it reads of the request (path,
  query, header, the body as bound by gin, or none when binding fails) and returns a \<open>response\<close> on every branch.

  The theories, in the order they build on each other:

    \<^item> \<open>Prelude\<close>: identifiers, instants, 64-bit integers, string functions of the Go library, relational algebra on
      tables, the state monad and its calculus, the collections of facts (\<open>table_simps\<close>, \<open>keeps_intro\<close>, \<open>monad_defs\<close>).
    \<^item> \<open>Env\<close>: the record \<open>ext\<close> of the functions that are not part of the repository; JSON; responses.
    \<^item> \<open>Schema\<close>, \<open>Database\<close>, \<open>Redis\<close>: the tables with their keys, references and checks; statements, faults,
      transactions; keys with values and expiry, and pipelines. \<open>Text\<close>: runes, phone numbers, codes, passwords
      (\<open>internal/util\<close>).
    \<^item> \<open>Cargo_Model\<close>, \<open>Cargo_Repo\<close>, \<open>Cargo_Handler\<close> (\<open>internal/cargo\<close>, \<open>handlers/cargo.go\<close>);
      \<open>Trips_Repo\<close>, \<open>Trips_Handler\<close> (\<open>internal/trips\<close>, \<open>internal/cargorecommendations\<close>, \<open>handlers/trips.go\<close>,
      recommendations, moderation); \<open>Drivers_Repo\<close>, \<open>Dispatchers_Repo\<close>, \<open>Company_Repos\<close>: the other repositories.
    \<^item> \<open>Stores\<close>, \<open>Security\<close>, \<open>Middleware\<close>, \<open>Gateway\<close>, \<open>Auth_Handlers\<close>: one-time codes and sessions, tokens, guards,
      the gateway, signing in and registration of drivers.
    \<^item> \<open>Links\<close>, \<open>Companies\<close>, \<open>Profiles\<close>: invitations between drivers, dispatchers and companies; companies and
      their members, administrators; profiles, papers, passwords.
    \<^item> \<open>Chat\<close>: conversations, messages, presence, and the hub with the slices and arrays its map holds.
    \<^item> \<open>Labels\<close>, \<open>Reference_Data\<close>, \<open>Places\<close>, \<open>Reference_Lists\<close> (\<open>internal/reference\<close>, \<open>handlers/reference.go\<close>): the
      reference lists with every text, cities and countries and the search in them. \<open>Messages\<close>: the table of answers.
    \<^item> \<open>Config\<close>, \<open>Bootstrap\<close>, \<open>Tools\<close>: configuration, the search for \<open>.env\<close>, migrations at the start; the schema as data
      (\<open>internal/infra\<close>, the files of \<open>migrations\<close> about drivers); \<open>cmd/admin\<close> and \<open>cmd/migrate\<close>.
    \<^item> \<open>Server\<close> (\<open>internal/server/router.go\<close>): what is built from the configuration, every route of \<open>/v1\<close> and \<open>/api\<close>, and
      \<open>handle\<close>, one request from the headers to the translated answer.

  What is proved, and where:

    \<^item> The cargo side. \<open>Cargo_Side\<close> states the contract between statements and endpoints as the locale
      \<open>cargo_invariant\<close>: whoever shows that every statement keeps an invariant gets that every handler keeps it under any
      faults. \<open>Lifecycle\<close> gives the step relation and the reachable databases. The interpretations are \<open>award_inv\<close>
      (theory \<open>Offer_Award\<close>: offers, cargo and trips fit together) and those of \<open>Progress\<close>, which go through the locale
      \<open>progress\<close> (what has been left is not returned to), once for cargo and once for trips. \<open>Cargo_Integrity\<close> keeps keys,
      references and checks. \<open>Cargo_Guarantees\<close> and \<open>Cargo_Create\<close> draw the conclusions: one accepted offer at most, trips
      backed by offers, statuses that only go forward, creation that is all or nothing and is read back as it was given.
    \<^item> One-time codes. The locale \<open>challenge\<close> (theory \<open>Challenge\<close>) is the abstract machine with a bounded number of attempts, refined by the
      three stores (interpretations \<open>phone\<close>, \<open>action\<close>, \<open>otp\<close>). \<open>Code_Guarantees\<close> has the bounds on guesses and on sending, and
      the way around the bound that the limit per phone opens.
    \<^item> \<open>Session_Guarantees\<close>: who a token makes its bearer, and that a refresh token works once. \<open>Link_Guarantees\<close>: a driver works for
      a dispatcher only when both asked, by rule induction over runs, and where the registration breaks that.
      \<open>Company_Guarantees\<close>: memberships and roles change as the rules on roles say. \<open>Profile_Guarantees\<close>: passwords and papers.
    \<^item> \<open>Hub_Guarantees\<close>: the goroutines of the hub as an inductive step relation, its invariant in all interleavings, the refinement of
      lists of connections, and the race in sending. \<open>Chat_Guarantees\<close>: shared, private and intact conversations.
    \<^item> The whole server. \<open>Access\<close> and \<open>Server_Guarantees\<close>: which tables a request may change and what it has to show for it.
      \<open>Answers\<close>: every answer is translated. \<open>Keys\<close>: every Redis key holds a value of its type for ever. Each carries a
      fact from the statements up to \<open>handle\<close> by introduction rules in a collection (\<open>writes_intro\<close>, \<open>says_intro\<close>, \<open>tidy_intro\<close>).
    \<^item> \<open>Reference_Guarantees\<close>, \<open>Places_Guarantees\<close>: the lists agree with what validation and the tables accept; the search; the
      independence of the order of Go maps. \<open>Bootstrap_Guarantees\<close>: the start is idempotent; what it does to the archive
      of drivers; what becomes of a fresh database. \<open>Tools\<close>: the administrators made by hand can sign in.
      \<open>Config\<close>: the search for \<open>.env\<close> ends.
    \<^item> \<open>Samples\<close> and \<open>Sample_Run\<close> hold the concrete inputs on which the theorems with hypotheses are applied.

  Loops and bounds. Loops over rows and lists are structural recursion. The search for \<open>.env\<close> is a partial function to an option,
  with a proof that it returns; the search for the migrations makes the twelve rounds the code makes; the buffer of a
  connection has the size the code gives it. No other fuel is used.

  What is assumed. Requests are served one after the other, between which the rest of the program may change what
  is not the request's own; the interleavings inside one process are modelled for the hub, where the code shares memory. So
  effects that need two database transactions at once (a check and the action on it, without a lock) are not shown.
  The functions of \<open>ext\<close>, and where a theorem needs them their documented laws, are hypotheses by name: \<open>uuid\<close> texts and
  their order, bcrypt, signed tokens, phone numbers, the Unicode tables, golang-migrate. Instants carry no time zone. A float is a
  real number. Go's order of a map and the dataset of cities are arguments. \<open>Bootstrap\<close> has the rows only as an answer to
  whether a constraint holds; of the migrations only the seven files that touch the tables of drivers and the trigger on
  administrators' passwords.

  Not modelled. The administration panel (\<open>internal/goadmin\<close>) is descriptors for a framework that is not part of the
  repository and does all the work. Logging, the page of the API documentation and CORS headers are output without a decision
  of the program. \<open>internal/timeutil\<close> changes the zone an instant is shown in, not the instant. \<open>cmd/generate_cities\<close> downloads a
  dataset that the program does not use. The life of the HTTP server and the WebSocket's pings and deadlines are those of the libraries. The
  tests are not part of the program.
\<close>

end
